(* ===== verification/Prelude.thy ===== *)
theory Prelude
  imports
    Main
    "HOL-Library.Multiset"
    "HOL-Library.Char_ord"
    "HOL-Library.List_Lexorder"
    "HOL-Library.AList"
begin

text \<open>
  What every component of the model shares.

  \<^item> Results: a function of the source that may throw returns a value of the sum type
    \<open>'e + 'a\<close>: \<open>Inl\<close> the error, \<open>Inr\<close> the value. \<open>rbind\<close>, \<open>rmap\<close> and \<open>rfold\<close> are
    sequencing, \<open>Array.map\<close> with a throwing body, and a loop with a throwing body.
  \<^item> Strings: a JavaScript string whose code units are below 256 is a HOL \<open>string\<close>
    (a list of characters); \<open>lower\<close> is \<open>toLowerCase\<close> on them, \<open>hex_string n\<close> the
    regular expressions \<open>^0x[0-9a-fA-F]{n}$\<close>.
  \<^item> Integers: a \<open>bigint\<close> is an \<open>int\<close>. Its base-10 rendering and its parsing are
    \<open>dec_of_nat\<close> and \<open>nat_of_dec\<close>, and \<open>bigint_div\<close> is the division of the language,
    which truncates towards zero.
  \<^item> \<open>Array.prototype.sort\<close>: \<open>js_sort\<close>, the stable sort by a comparator, with the laws
    a comparator owes it in the locale \<open>comparator\<close>.
  \<^item> \<open>Map\<close>: an association list in insertion order, with the interface its clients use
    in the locale \<open>keyed_map\<close>; \<open>Set\<close>: a list without repetitions in insertion order.
\<close>

named_theorems result_simps \<open>how the result combinators compute and when they succeed\<close>
named_theorems string_simps \<open>lengths, cases and shapes of the strings of the model\<close>

section \<open>Results\<close>

definition rbind :: "'e + 'a \<Rightarrow> ('a \<Rightarrow> 'e + 'b) \<Rightarrow> 'e + 'b" where
  "rbind m f = (case m of Inl e \<Rightarrow> Inl e | Inr a \<Rightarrow> f a)"

fun rmap :: "('a \<Rightarrow> 'e + 'b) \<Rightarrow> 'a list \<Rightarrow> 'e + 'b list" where
  "rmap f [] = Inr []"
| "rmap f (x # xs) = rbind (f x) (\<lambda>y. rbind (rmap f xs) (\<lambda>ys. Inr (y # ys)))"

fun rfold :: "('s \<Rightarrow> 'a \<Rightarrow> 'e + 's) \<Rightarrow> 's \<Rightarrow> 'a list \<Rightarrow> 'e + 's" where
  "rfold f s [] = Inr s"
| "rfold f s (x # xs) = rbind (f s x) (\<lambda>s'. rfold f s' xs)"

definition is_ok :: "'e + 'a \<Rightarrow> bool" where
  "is_ok r = (case r of Inl _ \<Rightarrow> False | Inr _ \<Rightarrow> True)"

lemma rbind_simps [simp, result_simps]:
  "rbind (Inl e) f = Inl e"
  "rbind (Inr a) f = f a"
  by (simp_all add: rbind_def)

lemma rbind_eq_Inr [result_simps]:
  "rbind m f = Inr b \<longleftrightarrow> (\<exists>a. m = Inr a \<and> f a = Inr b)"
  by (cases m) auto

lemma rbind_eq_Inl [result_simps]:
  "rbind m f = Inl e \<longleftrightarrow> m = Inl e \<or> (\<exists>a. m = Inr a \<and> f a = Inl e)"
  by (cases m) auto

lemma is_ok_simps [simp]: "is_ok (Inr a)" "\<not> is_ok (Inl e)"
  by (simp_all add: is_ok_def)

lemma is_ok_iff: "is_ok r \<longleftrightarrow> (\<exists>a. r = Inr a)"
  by (cases r) auto

lemma is_ok_rbind [result_simps]: "is_ok (rbind m f) \<longleftrightarrow> (\<exists>a. m = Inr a \<and> is_ok (f a))"
  by (cases m) auto

lemma is_ok_if [simp, result_simps]:
  "is_ok (if b then Inl e else r) \<longleftrightarrow> \<not> b \<and> is_ok r"
  "is_ok (if b then r else Inl e) \<longleftrightarrow> b \<and> is_ok r"
  by auto

lemma if_Inl_eq_Inr [simp, result_simps]:
  "(if b then Inl e else r) = Inr a \<longleftrightarrow> \<not> b \<and> r = Inr a"
  "(if b then r else Inl e) = Inr a \<longleftrightarrow> b \<and> r = Inr a"
  by auto

lemma rmap_cong [fundef_cong]:
  "xs = ys \<Longrightarrow> (\<And>x. x \<in> set ys \<Longrightarrow> f x = g x) \<Longrightarrow> rmap f xs = rmap g ys"
  by (induction ys arbitrary: xs) auto

lemma rmap_eq_Inr: "rmap f xs = Inr ys \<longleftrightarrow> list_all2 (\<lambda>x y. f x = Inr y) xs ys"
proof (induction xs arbitrary: ys)
  case Nil
  then show ?case by auto
next
  case (Cons x xs)
  then show ?case
    by (cases ys) (auto simp: rbind_eq_Inr)
qed

lemma rmap_total: "(\<And>x. x \<in> set xs \<Longrightarrow> f x = Inr (g x)) \<Longrightarrow> rmap f xs = Inr (map g xs)"
  by (induction xs) auto

lemma rmap_Inr_length: "rmap f xs = Inr ys \<Longrightarrow> length ys = length xs"
  by (auto simp: rmap_eq_Inr dest: list_all2_lengthD)

lemma rmap_Inr_set: "rmap f xs = Inr ys \<Longrightarrow> y \<in> set ys \<Longrightarrow> \<exists>x\<in>set xs. f x = Inr y"
  by (induction xs arbitrary: ys) (auto simp: rbind_eq_Inr)

lemma rfold_append:
  "rfold f s (xs @ ys) = rbind (rfold f s xs) (\<lambda>s'. rfold f s' ys)"
  by (induction xs arbitrary: s) (auto simp: rbind_def split: sum.splits)

lemma rfold_invariant:
  assumes "rfold f s xs = Inr s'" and "P s"
    and "\<And>a x b. x \<in> set xs \<Longrightarrow> P a \<Longrightarrow> f a x = Inr b \<Longrightarrow> P b"
  shows "P s'"
  using assms by (induction xs arbitrary: s) (auto simp: rbind_eq_Inr)

section \<open>Strings\<close>

definition lower_char :: "char \<Rightarrow> char" where
  "lower_char c =
    (let n = of_char c :: int
     in if (65 \<le> n \<and> n \<le> 90) \<or> (192 \<le> n \<and> n \<le> 214) \<or> (216 \<le> n \<and> n \<le> 222)
        then char_of (n + 32) else c)"

definition lower :: "string \<Rightarrow> string" where
  "lower s = map lower_char s"

definition is_hex_char :: "char \<Rightarrow> bool" where
  "is_hex_char c =
    (let n = of_char c :: int
     in (48 \<le> n \<and> n \<le> 57) \<or> (97 \<le> n \<and> n \<le> 102) \<or> (65 \<le> n \<and> n \<le> 70))"

definition is_digit_char :: "char \<Rightarrow> bool" where
  "is_digit_char c = (let n = of_char c :: int in 48 \<le> n \<and> n \<le> 57)"

definition hex_string :: "nat \<Rightarrow> string \<Rightarrow> bool" where
  "hex_string n v \<longleftrightarrow> length v = n + 2 \<and> take 2 v = ''0x'' \<and> list_all is_hex_char (drop 2 v)"

text \<open>The tests on characters, evaluated on their bits.\<close>

lemma is_digit_char_code [code]:
  "is_digit_char (Char b0 b1 b2 b3 b4 b5 b6 b7) = (\<not> b7 \<and> \<not> b6 \<and> b5 \<and> b4 \<and> (b3 \<longrightarrow> \<not> b2 \<and> \<not> b1))"
  by (cases b0; cases b1; cases b2; cases b3; cases b4; cases b5; cases b6; cases b7) (simp_all add: is_digit_char_def)
lemma is_hex_char_code [code]:
  "is_hex_char (Char b0 b1 b2 b3 b4 b5 b6 b7) = (\<not> b7 \<and>
    (if b6 then \<not> b4 \<and> \<not> b3 \<and> (b0 \<or> b1 \<or> b2) \<and> \<not> (b0 \<and> b1 \<and> b2) else b5 \<and> b4 \<and> (b3 \<longrightarrow> \<not> b2 \<and> \<not> b1)))"
  by (cases b0; cases b1; cases b2; cases b3; cases b4; cases b5; cases b6; cases b7) (simp_all add: is_hex_char_def)
lemma lower_char_code [code]:
  "lower_char (Char b0 b1 b2 b3 b4 b5 b6 b7) =
    (if b6 \<and> \<not> b5 \<and>
        (if b7 then \<not> (b4 \<and> b2 \<and> b1 \<and> b0)
         else (b0 \<or> b1 \<or> b2 \<or> b3 \<or> b4) \<and> (b4 \<and> b3 \<longrightarrow> \<not> b2 \<and> \<not> (b1 \<and> b0)))
     then Char b0 b1 b2 b3 b4 True b6 b7 else Char b0 b1 b2 b3 b4 b5 b6 b7)"
  by (cases b0; cases b1; cases b2; cases b3; cases b4; cases b5; cases b6; cases b7) (simp_all add: lower_char_def char_of_def)

text \<open>\<open>s.includes(sub)\<close>.\<close>

fun str_includes :: "string \<Rightarrow> string \<Rightarrow> bool" where
  "str_includes [] sub = (sub = [])"
| "str_includes (c # cs) sub = (take (length sub) (c # cs) = sub \<or> str_includes cs sub)"

text \<open>A boolean in a template literal.\<close>

definition boolText :: "bool \<Rightarrow> string" where
  "boolText v = (if v then ''true'' else ''false'')"

lemma lower_char_idem [simp]: "lower_char (lower_char c) = lower_char c"
  by (auto simp: lower_char_def Let_def of_char_of)

lemma lower_idem [simp, string_simps]: "lower (lower s) = lower s"
  by (simp add: lower_def)

lemma length_lower [simp, string_simps]: "length (lower s) = length s"
  by (simp add: lower_def)

lemma lower_append [string_simps]: "lower (s @ t) = lower s @ lower t"
  by (simp add: lower_def)

lemma is_hex_lower_char: "is_hex_char c \<Longrightarrow> is_hex_char (lower_char c)"
  by (auto simp: is_hex_char_def lower_char_def Let_def of_char_of)

lemma is_hex_digit: "is_digit_char c \<Longrightarrow> is_hex_char c"
  by (auto simp: is_hex_char_def is_digit_char_def Let_def)

lemma hex_string_lower [string_simps]: "hex_string n v \<Longrightarrow> hex_string n (lower v)"
proof -
  assume h: "hex_string n v"
  have "take 2 (lower v) = lower (take 2 v)" "drop 2 (lower v) = lower (drop 2 v)"
    by (simp_all add: lower_def take_map drop_map)
  moreover have "lower ''0x'' = ''0x''"
    by (simp add: lower_def lower_char_def)
  ultimately show ?thesis
    using h by (auto simp: hex_string_def lower_def list_all_iff is_hex_lower_char)
qed

subsection \<open>Decimal strings\<close>

definition digit_char :: "nat \<Rightarrow> char" where
  "digit_char d = char_of (48 + int d)"

fun dec_of_nat :: "nat \<Rightarrow> string" where
  "dec_of_nat n =
    (if n < 10 then [digit_char n] else dec_of_nat (n div 10) @ [digit_char (n mod 10)])"

declare dec_of_nat.simps [simp del]

definition dec_of_int :: "int \<Rightarrow> string" where
  "dec_of_int i = (if i < 0 then CHR ''-'' # dec_of_nat (nat (- i)) else dec_of_nat (nat i))"

definition digit_val :: "char \<Rightarrow> nat" where
  "digit_val c = nat (of_char c - 48)"

definition nat_of_dec :: "string \<Rightarrow> nat" where
  "nat_of_dec s = foldl (\<lambda>acc c. acc * 10 + digit_val c) 0 s"

definition int_of_dec :: "string \<Rightarrow> int" where
  "int_of_dec s = int (nat_of_dec s)"

text \<open>Texts without the white space around them, and \<open>BigInt\<close> of a text.\<close>

definition white :: "char \<Rightarrow> bool" where
  "white c \<longleftrightarrow> (let n = of_char c :: nat in n = 32 \<or> (9 \<le> n \<and> n \<le> 13))"

definition trim :: "string \<Rightarrow> string" where
  "trim s = rev (dropWhile white (rev (dropWhile white s)))"

definition hex_val :: "char \<Rightarrow> int" where
  "hex_val c = (if is_digit_char c then int (digit_val c) else of_char (lower_char c) - 87)"

definition radix_int :: "int \<Rightarrow> string \<Rightarrow> int option" where
  "radix_int b s =
     (if s \<noteq> [] \<and> list_all (\<lambda>c. is_hex_char c \<and> hex_val c < b) s then Some (foldl (\<lambda>n c. n * b + hex_val c) 0 s)
      else None)"

definition signed_int :: "string \<Rightarrow> int option" where
  "signed_int s =
     (case s of
        [] \<Rightarrow> None
      | c # cs \<Rightarrow>
          if c = CHR ''-'' then map_option uminus (radix_int 10 cs)
          else if c = CHR ''+'' then radix_int 10 cs
          else radix_int 10 s)"

definition bigIntOf :: "string \<Rightarrow> int option" where
  "bigIntOf s =
     (let t = trim s in
      if t = [] then Some 0
      else if lower (take 2 t) = ''0x'' then radix_int 16 (drop 2 t)
      else if lower (take 2 t) = ''0o'' then radix_int 8 (drop 2 t)
      else if lower (take 2 t) = ''0b'' then radix_int 2 (drop 2 t)
      else signed_int t)"

lemma digit_val_char [simp]: "d < 10 \<Longrightarrow> digit_val (digit_char d) = d"
  by (simp add: digit_val_def digit_char_def of_char_of)

lemma is_digit_digit_char [simp]: "d < 10 \<Longrightarrow> is_digit_char (digit_char d)"
  by (simp add: is_digit_char_def digit_char_def of_char_of)

lemma digit_char_val [simp]: "is_digit_char c \<Longrightarrow> digit_char (digit_val c) = c"
  by (auto simp: is_digit_char_def digit_val_def digit_char_def Let_def)

lemma digit_val_less: "is_digit_char c \<Longrightarrow> digit_val c < 10"
  by (auto simp: is_digit_char_def digit_val_def Let_def)

lemma nat_of_dec_Nil [simp]: "nat_of_dec [] = 0"
  by (simp add: nat_of_dec_def)

lemma nat_of_dec_snoc [simp]: "nat_of_dec (s @ [c]) = nat_of_dec s * 10 + digit_val c"
  by (simp add: nat_of_dec_def)

lemma dec_of_nat_not_Nil [simp]: "dec_of_nat n \<noteq> []"
  by (subst dec_of_nat.simps) simp

lemma nat_of_dec_of_nat [simp, string_simps]: "nat_of_dec (dec_of_nat n) = n"
proof (induction n rule: dec_of_nat.induct)
  case (1 n)
  have "nat_of_dec [digit_char n] = n" if "n < 10"
    using nat_of_dec_snoc [of "[]" "digit_char n"] that by simp
  with 1 show ?case
    by (subst dec_of_nat.simps) auto
qed

lemma dec_of_nat_inj [simp]: "dec_of_nat m = dec_of_nat n \<longleftrightarrow> m = n"
  by (metis nat_of_dec_of_nat)

lemma dec_of_nat_digits: "list_all is_digit_char (dec_of_nat n)"
  by (induction n rule: dec_of_nat.induct) (subst dec_of_nat.simps, auto)

lemma dec_of_nat_head: "n \<noteq> 0 \<Longrightarrow> hd (dec_of_nat n) \<noteq> CHR ''0''"
proof (induction n rule: dec_of_nat.induct)
  case (1 n)
  show ?case
  proof (cases "n < 10")
    case True
    have "digit_char n \<noteq> CHR ''0''"
    proof
      assume "digit_char n = CHR ''0''"
      then have "digit_val (digit_char n) = digit_val (CHR ''0'')" by simp
      with True 1 show False by (simp add: digit_val_def [of "CHR ''0''"])
    qed
    with True show ?thesis by (subst dec_of_nat.simps) simp
  next
    case False
    with 1 have "hd (dec_of_nat (n div 10)) \<noteq> CHR ''0''" by simp
    with False show ?thesis by (subst dec_of_nat.simps) simp
  qed
qed

lemma dec_of_nat_of_dec:
  assumes "list_all is_digit_char s" and "s \<noteq> []" and "length s = 1 \<or> hd s \<noteq> CHR ''0''"
  shows "dec_of_nat (nat_of_dec s) = s"
  using assms
proof (induction s rule: rev_induct)
  case Nil
  then show ?case by simp
next
  case (snoc c s)
  then have c: "is_digit_char c" by simp
  show ?case
  proof (cases "s = []")
    case True
    with c have "nat_of_dec (s @ [c]) = digit_val c" by (simp add: nat_of_dec_def)
    with True c show ?thesis
      by (subst dec_of_nat.simps) (auto dest: digit_val_less)
  next
    case False
    with snoc.prems have hd: "hd s \<noteq> CHR ''0''" by simp
    with snoc False have IH: "dec_of_nat (nat_of_dec s) = s" by simp
    have "nat_of_dec s \<noteq> 0"
    proof
      assume "nat_of_dec s = 0"
      with IH have "s = [digit_char 0]" by (metis dec_of_nat.simps zero_less_numeral)
      moreover have "digit_char 0 = CHR ''0''" by code_simp
      ultimately show False using hd by simp
    qed
    moreover have "digit_val c < 10" using c by (rule digit_val_less)
    ultimately have "\<not> nat_of_dec s * 10 + digit_val c < 10"
      "(nat_of_dec s * 10 + digit_val c) div 10 = nat_of_dec s"
      "(nat_of_dec s * 10 + digit_val c) mod 10 = digit_val c"
      by auto
    with IH c show ?thesis
      by (subst dec_of_nat.simps) simp
  qed
qed

text \<open>Code equations that compute on integers, where the simplifier evaluates numerals.\<close>

lemma int_of_dec_code [code]:
  "int_of_dec s = foldl (\<lambda>acc c. acc * 10 + max 0 (of_char c - 48)) 0 s"
proof -
  have "int (foldl (\<lambda>acc c. acc * 10 + digit_val c) n s) =
      foldl (\<lambda>acc c. acc * 10 + max 0 (of_char c - 48)) (int n) s" for n
    by (induction s arbitrary: n) (simp_all add: digit_val_def max_def algebra_simps)
  from this [of 0] show ?thesis by (simp add: int_of_dec_def nat_of_dec_def)
qed

text \<open>A decimal text is read as the number it denotes.\<close>

lemma digit_not_white: "is_digit_char c \<Longrightarrow> \<not> white c"
proof (cases c)
  case (Char b0 b1 b2 b3 b4 b5 b6 b7)
  then show "is_digit_char c \<Longrightarrow> \<not> white c"
    by (cases b0; cases b1; cases b2; cases b3; cases b4; cases b5; cases b6; cases b7)
      (simp_all add: is_digit_char_def white_def)
qed

lemma digits_not_white: "list_all is_digit_char s \<Longrightarrow> dropWhile white s = s"
  by (cases s) (auto simp: digit_not_white)

lemma radix_int_dec:
  assumes "s \<noteq> []" and "list_all is_digit_char s"
  shows "radix_int 10 s = Some (int_of_dec s)"
proof -
  have "foldl (\<lambda>n c. n * 10 + hex_val c) (int k) s = int (foldl (\<lambda>acc c. acc * 10 + digit_val c) k s)" for k
    using assms(2)
  proof (induction s arbitrary: k)
    case (Cons c s)
    then show ?case using Cons.IH [of "k * 10 + digit_val c"] by (simp add: hex_val_def)
  qed simp
  from this [of 0] assms show ?thesis
    by (auto simp: radix_int_def list_all_iff is_hex_digit hex_val_def int_of_dec_def nat_of_dec_def dest: digit_val_less)
qed

lemma bigIntOf_dec:
  assumes "s \<noteq> []" and "list_all is_digit_char s"
  shows "bigIntOf s = Some (int_of_dec s)"
proof -
  have trim: "trim s = s" using assms by (simp add: trim_def digits_not_white)
  have low: "lower_char c = c" if "is_digit_char c" for c
    using that by (auto simp: lower_char_def is_digit_char_def Let_def)
  have no: "\<not> is_digit_char (CHR ''x'')" "\<not> is_digit_char (CHR ''o'')" "\<not> is_digit_char (CHR ''b'')"
    "\<not> is_digit_char (CHR ''-'')" "\<not> is_digit_char (CHR ''+'')"
    by code_simp+
  have "lower (take 2 s) = take 2 s" using assms(2) by (cases s; cases "tl s") (auto simp: lower_def low)
  moreover have "take 2 s \<noteq> [CHR ''0'', x]" if "\<not> is_digit_char x" for x
    using assms(2) that by (cases s; cases "tl s") auto
  then have "take 2 s \<noteq> ''0x''" "take 2 s \<noteq> ''0o''" "take 2 s \<noteq> ''0b''" using no by blast+
  moreover have "signed_int s = radix_int 10 s" using assms no by (cases s) (auto simp: signed_int_def)
  ultimately show ?thesis
    using assms by (simp add: bigIntOf_def trim radix_int_dec)
qed

function dec_digits :: "int \<Rightarrow> string" where
  "dec_digits i = (if i < 10 then [char_of (48 + i)] else dec_digits (i div 10) @ [char_of (48 + i mod 10)])"
  by auto

termination
  by (relation "measure nat") auto

declare dec_digits.simps [simp del]

lemma dec_digits_nat: "0 \<le> i \<Longrightarrow> dec_digits i = dec_of_nat (nat i)"
proof (induction i rule: dec_digits.induct)
  case (1 i)
  have "char_of (48 + j) = digit_char (nat j)" if "0 \<le> j" for j :: int
    using that by (simp add: digit_char_def)
  with 1 show ?case
    by (subst dec_digits.simps, subst dec_of_nat.simps) (auto simp: nat_div_distrib nat_mod_distrib)
qed

lemma dec_of_int_code [code]:
  "dec_of_int i = (if i < 0 then CHR ''-'' # dec_digits (- i) else dec_digits i)"
  by (simp add: dec_of_int_def dec_digits_nat)

lemma sep_inj:
  "c \<notin> set a \<Longrightarrow> c \<notin> set a' \<Longrightarrow> a @ c # r = a' @ c # r' \<longleftrightarrow> a = a' \<and> r = r'"
proof (induction a arbitrary: a')
  case Nil
  then show ?case by (cases a') auto
next
  case (Cons x a)
  then show ?case by (cases a') auto
qed

lemma dec_of_int_bar [simp]: "CHR ''|'' \<notin> set (dec_of_int i)"
proof -
  have "\<not> is_digit_char (CHR ''|'')" by code_simp
  then have "CHR ''|'' \<notin> set (dec_of_nat n)" for n
    using dec_of_nat_digits [of n] by (auto simp: list_all_iff)
  then show ?thesis by (simp add: dec_of_int_def)
qed

lemma dec_of_nat_minus [simp]: "dec_of_nat n \<noteq> CHR ''-'' # s"
proof
  assume "dec_of_nat n = CHR ''-'' # s"
  then have "is_digit_char (CHR ''-'')" using dec_of_nat_digits [of n] by simp
  moreover have "\<not> is_digit_char (CHR ''-'')" by code_simp
  ultimately show False by simp
qed

lemma dec_of_int_inj [simp]: "dec_of_int i = dec_of_int j \<longleftrightarrow> i = j"
  using dec_of_nat_minus [symmetric] by (auto simp: dec_of_int_def)

lemma dec_of_int_colon: "CHR '':'' \<notin> set (dec_of_int n)"
proof -
  have "\<not> is_digit_char (CHR '':'')" by code_simp
  then have "CHR '':'' \<notin> set (dec_of_nat m)" for m
    using dec_of_nat_digits [of m] by (auto simp: list_all_iff)
  then show ?thesis by (simp add: dec_of_int_def)
qed

text \<open>Keys of the shape \<open>text:number\<close> determine both parts.\<close>

lemma colon_key_inj: "a @ CHR '':'' # dec_of_int n = a' @ CHR '':'' # dec_of_int n' \<longleftrightarrow> a = a' \<and> n = n'"
proof -
  have "a @ CHR '':'' # dec_of_int n = a' @ CHR '':'' # dec_of_int n' \<longleftrightarrow>
      rev (a @ CHR '':'' # dec_of_int n) = rev (a' @ CHR '':'' # dec_of_int n')"
    by (simp only: rev_is_rev_conv)
  also have "\<dots> \<longleftrightarrow> rev (dec_of_int n) = rev (dec_of_int n') \<and> rev a = rev a'"
    using dec_of_int_colon by (simp add: sep_inj del: rev_is_rev_conv)
  finally show ?thesis by auto
qed

lemma hex_string_bar: "hex_string n v \<Longrightarrow> CHR ''|'' \<notin> set v"
proof -
  assume h: "hex_string n v"
  have "\<not> is_hex_char (CHR ''|'')" by code_simp
  with h have "CHR ''|'' \<notin> set (drop 2 v)" "CHR ''|'' \<notin> set (take 2 v)"
    by (auto simp: hex_string_def list_all_iff)
  then show ?thesis by (metis append_take_drop_id Un_iff set_append)
qed

section \<open>Bigint division\<close>

definition bigint_div :: "int \<Rightarrow> int \<Rightarrow> int" where
  "bigint_div a b = sgn a * sgn b * (\<bar>a\<bar> div \<bar>b\<bar>)"

lemma bigint_div_nonneg [simp]: "0 \<le> a \<Longrightarrow> 0 \<le> b \<Longrightarrow> bigint_div a b = a div b"
  by (cases "a = 0"; cases "b = 0") (auto simp: bigint_div_def sgn_if)

section \<open>Sorting by a comparator\<close>

fun js_insert :: "('a \<Rightarrow> 'a \<Rightarrow> int) \<Rightarrow> 'a \<Rightarrow> 'a list \<Rightarrow> 'a list" where
  "js_insert cmp x [] = [x]"
| "js_insert cmp x (y # ys) =
     (if cmp x y \<le> 0 then x # y # ys else y # js_insert cmp x ys)"

definition js_sort :: "('a \<Rightarrow> 'a \<Rightarrow> int) \<Rightarrow> 'a list \<Rightarrow> 'a list" where
  "js_sort cmp xs = foldr (js_insert cmp) xs []"

lemma js_sort_simps [simp]:
  "js_sort cmp [] = []"
  "js_sort cmp (x # xs) = js_insert cmp x (js_sort cmp xs)"
  by (simp_all add: js_sort_def)

lemma mset_js_insert [simp]: "mset (js_insert cmp x xs) = add_mset x (mset xs)"
  by (induction xs) auto

lemma mset_js_sort [simp]: "mset (js_sort cmp xs) = mset xs"
  by (induction xs) auto

lemma set_js_sort [simp]: "set (js_sort cmp xs) = set xs"
  by (metis mset_js_sort set_mset_mset)

lemma length_js_sort [simp]: "length (js_sort cmp xs) = length xs"
  by (metis mset_js_sort size_mset)

lemma distinct_js_sort [simp]: "distinct (js_sort cmp xs) = distinct xs"
  by (metis mset_eq_imp_distinct_iff mset_js_sort)

lemma js_insert_cong:
  "(\<And>y. y \<in> set ys \<Longrightarrow> (c x y \<le> 0) = (c' x y \<le> 0)) \<Longrightarrow> js_insert c x ys = js_insert c' x ys"
  by (induction ys) auto

lemma js_sort_cong:
  assumes "\<And>x y. x \<in> set xs \<Longrightarrow> y \<in> set xs \<Longrightarrow> x \<noteq> y \<Longrightarrow> (c x y \<le> 0) = (c' x y \<le> 0)"
    and "distinct xs"
  shows "js_sort c xs = js_sort c' xs"
  using assms
proof (induction xs)
  case (Cons x xs)
  then have IH: "js_sort c xs = js_sort c' xs" by simp
  have "js_insert c x (js_sort c' xs) = js_insert c' x (js_sort c' xs)"
    by (rule js_insert_cong) (use Cons.prems in \<open>auto intro!: Cons.prems(1)\<close>)
  with IH show ?case by simp
qed simp

locale comparator =
  fixes cmp :: "'a \<Rightarrow> 'a \<Rightarrow> int"
  assumes cmp_flip: "cmp x y < 0 \<longleftrightarrow> 0 < cmp y x"
    and cmp_trans: "cmp x y \<le> 0 \<Longrightarrow> cmp y z \<le> 0 \<Longrightarrow> cmp x z \<le> 0"
begin

lemma cmp_total: "\<not> cmp x y \<le> 0 \<Longrightarrow> cmp y x \<le> 0"
  using cmp_flip [of y x] by auto

lemma cmp_refl: "cmp x x = 0"
  using cmp_flip [of x x] by linarith

lemma cmp_antisym: "cmp x y \<le> 0 \<Longrightarrow> cmp y x \<le> 0 \<Longrightarrow> cmp x y = 0"
  using cmp_flip [of x y] by linarith

lemma sorted_insert:
  assumes "sorted_wrt (\<lambda>a b. cmp a b \<le> 0) ys"
  shows "sorted_wrt (\<lambda>a b. cmp a b \<le> 0) (js_insert cmp x ys)"
  using assms
proof (induction ys)
  case (Cons y ys)
  show ?case
  proof (cases "cmp x y \<le> 0")
    case True
    with Cons.prems show ?thesis by (auto intro: cmp_trans [OF True])
  next
    case False
    have "set (js_insert cmp x ys) = insert x (set ys)"
      by (metis mset_js_insert set_mset_add_mset_insert set_mset_mset)
    with False Cons show ?thesis by (auto dest: cmp_total)
  qed
qed simp

lemma sorted_js_sort: "sorted_wrt (\<lambda>a b. cmp a b \<le> 0) (js_sort cmp xs)"
  by (induction xs) (auto intro: sorted_insert)

lemma sorted_unique:
  assumes "sorted_wrt (\<lambda>a b. cmp a b \<le> 0) xs" "sorted_wrt (\<lambda>a b. cmp a b \<le> 0) ys"
    and "mset xs = mset ys"
    and "\<And>a b. a \<in> set xs \<Longrightarrow> b \<in> set xs \<Longrightarrow> cmp a b = 0 \<Longrightarrow> a = b"
  shows "xs = ys"
  using assms
proof (induction xs arbitrary: ys)
  case Nil
  then show ?case by simp
next
  case (Cons x xs)
  then obtain y ys' where ys: "ys = y # ys'" by (cases ys) auto
  have sets: "set (x # xs) = set ys" by (rule mset_eq_setD) (rule Cons.prems(3))
  have "x = y"
  proof (rule ccontr)
    assume ne: "x \<noteq> y"
    have "y \<in> set (x # xs)" using sets ys by simp
    with ne have "y \<in> set xs" by simp
    moreover have "x \<in> set (y # ys')" using sets ys by (metis list.set_intros(1))
    with ne have "x \<in> set ys'" by simp
    ultimately have "cmp x y \<le> 0" "cmp y x \<le> 0"
      using Cons.prems(1,2) ys by auto
    then have "cmp x y = 0" by (rule cmp_antisym)
    with ne \<open>y \<in> set xs\<close> Cons.prems(4) show False by simp
  qed
  with Cons ys show ?case by simp
qed

lemma js_sort_perm:
  assumes "mset xs = mset ys"
    and "\<And>a b. a \<in> set xs \<Longrightarrow> b \<in> set xs \<Longrightarrow> cmp a b = 0 \<Longrightarrow> a = b"
  shows "js_sort cmp xs = js_sort cmp ys"
  by (rule sorted_unique) (use assms in \<open>auto intro: sorted_js_sort\<close>)

lemma js_sort_sorted_id:
  assumes "sorted_wrt (\<lambda>a b. cmp a b \<le> 0) xs"
  shows "js_sort cmp xs = xs"
  using assms
proof (induction xs)
  case (Cons x xs)
  then show ?case by (cases xs) auto
qed simp

end

definition str_cmp :: "string \<Rightarrow> string \<Rightarrow> int" where
  "str_cmp a b = (if a < b then -1 else if a > b then 1 else 0)"

definition int_cmp :: "int \<Rightarrow> int \<Rightarrow> int" where
  "int_cmp a b = (if a < b then -1 else if a > b then 1 else 0)"

interpretation strc: comparator str_cmp
  by unfold_locales (auto simp: str_cmp_def split: if_splits)

interpretation intc: comparator int_cmp
  by unfold_locales (auto simp: int_cmp_def split: if_splits)

lemma str_cmp_0 [simp]: "str_cmp a b = 0 \<longleftrightarrow> a = b"
  by (auto simp: str_cmp_def)

lemma str_cmp_le [simp]: "str_cmp a b \<le> 0 \<longleftrightarrow> a \<le> b"
  by (auto simp: str_cmp_def)

lemma int_cmp_le [simp]: "int_cmp a b \<le> 0 \<longleftrightarrow> a \<le> b"
  by (auto simp: int_cmp_def)

lemma sorted_str_sort: "sorted (js_sort str_cmp xs)"
  using strc.sorted_js_sort [of xs] by simp

lemma sorted_int_sort: "sorted (js_sort int_cmp xs)"
  using intc.sorted_js_sort [of xs] by simp

section \<open>Maps and sets in insertion order\<close>

locale keyed_map =
  fixes get :: "'m \<Rightarrow> 'k \<Rightarrow> 'v::comm_monoid_add option"
    and put :: "'k \<Rightarrow> 'v \<Rightarrow> 'm \<Rightarrow> 'm"
  assumes get_put: "get (put k v m) k' = (if k' = k then Some v else get m k')"
begin

definition getd :: "'m \<Rightarrow> 'k \<Rightarrow> 'v" where
  "getd m k = (case get m k of None \<Rightarrow> 0 | Some v \<Rightarrow> v)"

definition add_at :: "'k \<Rightarrow> 'v \<Rightarrow> 'm \<Rightarrow> 'm" where
  "add_at k v m = put k (getd m k + v) m"

lemma getd_put: "getd (put k v m) k' = (if k' = k then v else getd m k')"
  by (simp add: getd_def get_put)

lemma getd_add_at: "getd (add_at k v m) k' = getd m k' + (if k' = k then v else 0)"
  by (simp add: add_at_def getd_put)

lemma getd_fold_add_at:
  "getd (fold (\<lambda>x. add_at (k x) (v x)) xs m) j =
   getd m j + (\<Sum>x\<leftarrow>xs. if j = k x then v x else 0)"
  by (induction xs arbitrary: m) (auto simp: getd_add_at add.assoc)

end

text \<open>\<open>m.get(k) ?? 0n\<close>.\<close>

definition getOr0 :: "('k \<times> 'v::zero) list \<Rightarrow> 'k \<Rightarrow> 'v" where
  "getOr0 m k = (case map_of m k of None \<Rightarrow> 0 | Some v \<Rightarrow> v)"

interpretation jsmap: keyed_map "map_of :: ('k \<times> 'v::comm_monoid_add) list \<Rightarrow> 'k \<Rightarrow> 'v option" AList.update
  rewrites "keyed_map.getd (map_of :: ('k \<times> 'v) list \<Rightarrow> 'k \<Rightarrow> 'v option) = getOr0"
proof -
  show km: "keyed_map (map_of :: ('k \<times> 'v) list \<Rightarrow> 'k \<Rightarrow> 'v option) AList.update"
    by unfold_locales (simp add: update_conv')
  show "keyed_map.getd (map_of :: ('k \<times> 'v) list \<Rightarrow> 'k \<Rightarrow> 'v option) = getOr0"
    by (intro ext) (simp add: keyed_map.getd_def [OF km] getOr0_def)
qed

lemma update_fresh: "map_of m k = None \<Longrightarrow> AList.update k v m = m @ [(k, v)]"
  by (induction m) (auto split: if_splits)

definition set_add :: "'a \<Rightarrow> 'a list \<Rightarrow> 'a list" where
  "set_add x xs = (if x \<in> set xs then xs else xs @ [x])"

definition js_set :: "'a list \<Rightarrow> 'a list" where
  "js_set xs = fold set_add xs []"

lemma set_set_add [simp]: "set (set_add x xs) = insert x (set xs)"
  by (auto simp: set_add_def)

lemma distinct_set_add [simp]: "distinct (set_add x xs) = distinct xs"
  by (auto simp: set_add_def)

lemma set_fold_set_add [simp]: "set (fold set_add xs ys) = set xs \<union> set ys"
  by (induction xs arbitrary: ys) auto

lemma distinct_fold_set_add [simp]: "distinct (fold set_add xs ys) = distinct ys"
  by (induction xs arbitrary: ys) auto

lemma set_js_set [simp]: "set (js_set xs) = set xs"
  by (simp add: js_set_def)

lemma distinct_js_set [simp]: "distinct (js_set xs)"
  by (simp add: js_set_def)

end
