(* ===== verification/PodModel.thy ===== *)
theory PodModel
  imports Prelude
begin

text \<open>
  The data of the Proof-of-Distribution engine (\<open>packages/shared/src/proof-of-distribution\<close>)
  and its small numeric layer: \<open>constants.ts\<close>, \<open>model.ts\<close>, \<open>errors.ts\<close>, \<open>numeric.ts\<close>,
  \<open>address.ts\<close> and \<open>epoch.ts\<close>. A thrown \<open>ProofOfDistributionError\<close> is its code; the
  human-readable message is not modelled (no code of the repository reads it back).
  \<open>SchemaError\<close> is the exception of the schema library on a fixture it rejects,
  \<open>CanonicalizeError\<close> the plain \<open>Error\<close> of \<open>serialize.ts\<close>,
  \<open>RuntimeError\<close> an exception of the language (\<open>TypeError\<close>, \<open>SyntaxError\<close>) or a plain \<open>Error\<close>.
\<close>

section \<open>Errors\<close>

datatype pod_error =
    ProofOfDistributionError string
  | SchemaError
  | CanonicalizeError
  | RuntimeError

definition fail :: "string \<Rightarrow> pod_error + 'a" where
  "fail code = Inl (ProofOfDistributionError code)"

lemma fail_neq_Inr [simp]: "fail c \<noteq> Inr a" "Inr a \<noteq> fail c"
  by (simp_all add: fail_def)

lemma rbind_fail [simp]: "rbind (fail c) f = fail c"
  by (simp add: fail_def)

lemma is_ok_fail [simp]: "\<not> is_ok (fail c)"
  by (simp add: fail_def)

lemma if_fail_eq_Inr [simp, result_simps]:
  "(if b then fail c else r) = Inr a \<longleftrightarrow> \<not> b \<and> r = Inr a"
  by (simp add: fail_def)

section \<open>Constants\<close>

definition ECON_VERSION :: string where "ECON_VERSION = ''BPS-ECON-2.0''"
definition MANIFEST_SCHEMA_VERSION :: string where
  "MANIFEST_SCHEMA_VERSION = ''bps.pod.manifest/1''"
definition LEAF_SCHEMA_VERSION :: string where "LEAF_SCHEMA_VERSION = ''bps.pod.leaf/1''"

definition EPOCH_SECONDS :: int where "EPOCH_SECONDS = 900"
definition PARTICIPANT_POOL_BPS :: int where "PARTICIPANT_POOL_BPS = 8000"
definition BPS_DENOMINATOR :: int where "BPS_DENOMINATOR = 10000"

definition LEAF_ABI_TYPES :: "string list" where
  "LEAF_ABI_TYPES =
     [''uint256'', ''address'', ''uint256'', ''address'', ''address'', ''uint256'']"

datatype LockTier = LOCK_7D | LOCK_14D | LOCK_21D | LOCK_30D

record TierSpec =
  tier_name :: LockTier
  multiplierBps :: int
  durationSeconds :: int

definition DAY :: int where "DAY = 86400"

fun TIER_SPECS :: "LockTier \<Rightarrow> TierSpec" where
  "TIER_SPECS LOCK_7D =
     \<lparr>tier_name = LOCK_7D, multiplierBps = 11000, durationSeconds = 7 * DAY\<rparr>"
| "TIER_SPECS LOCK_14D =
     \<lparr>tier_name = LOCK_14D, multiplierBps = 12500, durationSeconds = 14 * DAY\<rparr>"
| "TIER_SPECS LOCK_21D =
     \<lparr>tier_name = LOCK_21D, multiplierBps = 15000, durationSeconds = 21 * DAY\<rparr>"
| "TIER_SPECS LOCK_30D =
     \<lparr>tier_name = LOCK_30D, multiplierBps = 17500, durationSeconds = 30 * DAY\<rparr>"

definition SUPPORTED_LOCK_TIERS :: "LockTier list" where
  "SUPPORTED_LOCK_TIERS = [LOCK_7D, LOCK_14D, LOCK_21D, LOCK_30D]"

definition lockTier_of_string :: "string \<Rightarrow> LockTier option" where
  "lockTier_of_string s =
    (if s = ''LOCK_7D'' then Some LOCK_7D
     else if s = ''LOCK_14D'' then Some LOCK_14D
     else if s = ''LOCK_21D'' then Some LOCK_21D
     else if s = ''LOCK_30D'' then Some LOCK_30D
     else None)"

definition EXCLUSION_CATEGORIES :: "string list" where
  "EXCLUSION_CATEGORIES =
     [''UNISWAP_POOL'', ''NONFUNGIBLE_POSITION_MANAGER'', ''ZERO_BURN_DEAD'',
      ''OFFICIAL_ROUTER'', ''ACQUISITION_VAULT'', ''DISTRIBUTION_VAULT'',
      ''STRATEGIC_ASSET_RESERVE'', ''LOCKING_VAULT'', ''PROTOCOL_TREASURY'', ''TEAM_VESTING'',
      ''BRIDGE'', ''CONTRACT_INELIGIBLE'', ''EXPLICIT_MANIFEST'']"

lemma set_tiers [simp]: "set SUPPORTED_LOCK_TIERS = UNIV"
  by (auto simp: SUPPORTED_LOCK_TIERS_def intro: LockTier.exhaust)

lemma sum_tiers: "sum_list (map f SUPPORTED_LOCK_TIERS) =
    f LOCK_7D + (f LOCK_14D + (f LOCK_21D + (f LOCK_30D :: int)))"
  by (simp add: SUPPORTED_LOCK_TIERS_def)

lemma multiplier_bounds: "10000 < multiplierBps (TIER_SPECS t)" "multiplierBps (TIER_SPECS t) \<le> 17500"
  by (cases t; simp)+

section \<open>The domain model\<close>

record CycleConfig =
  cy_schemaVersion :: string
  cy_cycleId :: int
  cy_chainId :: int
  cy_bpsTokenAddress :: string
  cy_claimManagerAddress :: string
  cy_economicsVersion :: string
  cy_rewardPolicyVersion :: string
  cy_epochId :: int
  cy_epochStart :: int
  cy_epochEnd :: int
  cy_startBlock :: int
  cy_endBlock :: int
  cy_snapshotBlock :: int
  cy_finalizedBlock :: int
  cy_confirmationDepth :: int
  cy_claimStart :: int
  cy_claimDeadline :: int
  cy_termsVersion :: string
  cy_eligibilityPolicyVersion :: string
  cy_restrictedJurisdictionPolicyVersion :: string

record ConfirmedTransfer =
  tr_chainId :: int
  tr_blockNumber :: int
  tr_blockHash :: string
  tr_transactionHash :: string
  tr_transactionIndex :: int
  tr_logIndex :: int
  tr_timestamp :: int
  tr_from :: string
  tr_to :: string
  tr_rawAmount :: int

record EpochStartBalance =
  eb_wallet :: string
  eb_rawBalance :: int

record LockRecord =
  lk_wallet :: string
  lk_rawPrincipal :: int
  lk_tier :: LockTier
  lk_startTimestamp :: int
  lk_unlockTimestamp :: int
  lk_withdrawalTimestamp :: "int option"

record EligibilityRecord =
  el_wallet :: string
  el_eligible :: bool
  el_policyVersion :: string
  el_validFrom :: int
  el_expiry :: "int option"
  el_revoked :: bool

record ExcludedAddress =
  ex_address :: string
  ex_category :: string
  ex_reason :: string
  ex_policyVersion :: string

record AcquiredAsset =
  as_ticker :: string
  as_name :: string
  as_tokenAddress :: string
  as_decimals :: int
  as_acquiredRawAmount :: int

record CycleFixture =
  fx_cycle :: CycleConfig
  fx_excludedAddresses :: "ExcludedAddress list"
  fx_eligibility :: "EligibilityRecord list"
  fx_epochStartBalances :: "EpochStartBalance list"
  fx_transfers :: "ConfirmedTransfer list"
  fx_locks :: "LockRecord list"
  fx_assets :: "AcquiredAsset list"

record Entitlement =
  en_cycleId :: int
  en_wallet :: string
  en_asset :: string
  en_amount :: int

section \<open>Numbers\<close>

definition isNonNegativeIntegerString :: "string \<Rightarrow> bool" where
  "isNonNegativeIntegerString s \<longleftrightarrow>
     s = ''0'' \<or> (s \<noteq> [] \<and> hd s \<noteq> CHR ''0'' \<and> list_all is_digit_char s)"

definition parseNonNegativeInteger :: "string \<Rightarrow> pod_error + int" where
  "parseNonNegativeInteger value =
     (if \<not> isNonNegativeIntegerString value then fail ''INVALID_INTEGER''
      else Inr (int_of_dec value))"

definition toDecimalString :: "int \<Rightarrow> pod_error + string" where
  "toDecimalString value =
     (if value < 0 then fail ''NEGATIVE_VALUE'' else Inr (dec_of_int value))"

definition mulDivFloor :: "int \<Rightarrow> int \<Rightarrow> int \<Rightarrow> pod_error + int" where
  "mulDivFloor a b denom =
     (if denom \<le> 0 then fail ''BAD_DENOMINATOR'' else Inr (bigint_div (a * b) denom))"

lemma mulDivFloor_nonneg:
  "0 \<le> a \<Longrightarrow> 0 \<le> b \<Longrightarrow> 0 < d \<Longrightarrow> mulDivFloor a b d = Inr (a * b div d)"
  by (simp add: mulDivFloor_def)

lemma isNonNegativeIntegerString_dec [simp]: "isNonNegativeIntegerString (dec_of_nat n)"
proof (cases "n = 0")
  case True
  then have "dec_of_nat n = ''0''" by simp code_simp
  then show ?thesis by (simp add: isNonNegativeIntegerString_def)
next
  case False
  then show ?thesis
    using dec_of_nat_head dec_of_nat_digits by (simp add: isNonNegativeIntegerString_def)
qed

lemma dec_of_nat_canonical:
  assumes "isNonNegativeIntegerString s"
  shows "dec_of_nat (nat_of_dec s) = s"
proof (rule dec_of_nat_of_dec)
  have "is_digit_char (CHR ''0'')" by code_simp
  then show "list_all is_digit_char s" "s \<noteq> []" "length s = 1 \<or> hd s \<noteq> CHR ''0''"
    using assms by (auto simp: isNonNegativeIntegerString_def)
qed

lemma int_of_dec_nonneg [simp]: "0 \<le> int_of_dec s"
  by (simp add: int_of_dec_def)

lemma parse_toDecimalString:
  "toDecimalString v = Inr s \<Longrightarrow> parseNonNegativeInteger s = Inr v"
  by (auto simp: toDecimalString_def parseNonNegativeInteger_def dec_of_int_def int_of_dec_def
      fail_def split: if_splits)

lemma toDecimalString_parse:
  "parseNonNegativeInteger s = Inr v \<Longrightarrow> toDecimalString v = Inr s"
  by (auto simp: toDecimalString_def parseNonNegativeInteger_def dec_of_int_def int_of_dec_def
      fail_def dec_of_nat_canonical split: if_splits)

section \<open>Addresses\<close>

definition ZERO_ADDRESS :: string where
  "ZERO_ADDRESS = ''0x0000000000000000000000000000000000000000''"

definition isHexAddress :: "string \<Rightarrow> bool" where
  "isHexAddress value = hex_string 40 value"

definition normalizeAddress :: "string \<Rightarrow> pod_error + string" where
  "normalizeAddress value =
     (if \<not> isHexAddress value then fail ''INVALID_ADDRESS'' else Inr (lower value))"

definition isZeroAddress :: "string \<Rightarrow> pod_error + bool" where
  "isZeroAddress value = rbind (normalizeAddress value) (\<lambda>a. Inr (a = ZERO_ADDRESS))"

definition normalized_address :: "string \<Rightarrow> bool" where
  "normalized_address a \<longleftrightarrow> isHexAddress a \<and> lower a = a"

lemma normalizeAddress_eq_Inr:
  "normalizeAddress v = Inr a \<longleftrightarrow> isHexAddress v \<and> a = lower v"
  by (auto simp: normalizeAddress_def)

lemma normalizeAddress_normalized: "normalizeAddress v = Inr a \<Longrightarrow> normalized_address a"
  by (auto simp: normalizeAddress_eq_Inr normalized_address_def isHexAddress_def
      intro: hex_string_lower)

lemma normalizeAddress_id: "normalized_address a \<Longrightarrow> normalizeAddress a = Inr a"
  by (simp add: normalizeAddress_def normalized_address_def)

section \<open>Epochs\<close>

record EpochBounds =
  bo_epochId :: int
  bo_epochStart :: int
  bo_epochEnd :: int

definition epochIdOf :: "int \<Rightarrow> int" where
  "epochIdOf unixTimestamp = bigint_div unixTimestamp EPOCH_SECONDS"

definition epochStartOf :: "int \<Rightarrow> int" where
  "epochStartOf epochId = epochId * EPOCH_SECONDS"

definition epochEndOf :: "int \<Rightarrow> int" where
  "epochEndOf epochId = epochStartOf epochId + EPOCH_SECONDS"

definition epochBoundsOf :: "int \<Rightarrow> EpochBounds" where
  "epochBoundsOf unixTimestamp =
     (let epochId = epochIdOf unixTimestamp
      in \<lparr>bo_epochId = epochId, bo_epochStart = epochStartOf epochId,
          bo_epochEnd = epochEndOf epochId\<rparr>)"

lemma epoch_contains:
  "0 \<le> t \<Longrightarrow> epochStartOf (epochIdOf t) \<le> t \<and> t < epochEndOf (epochIdOf t)"
  unfolding epochStartOf_def epochEndOf_def epochIdOf_def EPOCH_SECONDS_def
  by (simp only: bigint_div_nonneg zero_le_numeral, presburger)

lemma epoch_unique:
  assumes "0 \<le> t" "epochStartOf e \<le> t" "t < epochEndOf e"
  shows "e = epochIdOf t"
proof -
  have "t div 900 = e"
    by (rule int_div_pos_eq [where r = "t - e * 900"])
      (use assms in \<open>auto simp: epochStartOf_def epochEndOf_def EPOCH_SECONDS_def\<close>)
  with assms(1) show ?thesis by (simp add: epochIdOf_def EPOCH_SECONDS_def)
qed

end
