(* ===== verification/Validate.thy ===== *)
theory Validate
  imports PodModel
begin

text \<open>
  \<open>schemas.ts\<close> and \<open>validate.ts\<close>: from an unknown JSON value to the typed fixture.

  The schema library decides whether a value has the declared shape (an object with exactly
  these keys, strings where strings are due): that part is the parameter \<open>decode\<close>, which
  yields the raw record of strings or nothing. Everything the repository itself says about the
  strings - the refinements, the enumerations, the bounds - is the predicate
  \<open>cycleFixtureSchema\<close>, translated line by line from \<open>schemas.ts\<close>. The \<open>normalize\<close> functions
  of \<open>validate.ts\<close> follow; the \<open>seen\<close> sets their closures share are the accumulator of
  \<open>map_unique\<close>.
\<close>

section \<open>The raw fixture and its schema\<close>

record RawCycle =
  rc_schemaVersion :: string
  rc_cycleId :: string
  rc_chainId :: string
  rc_bpsTokenAddress :: string
  rc_claimManagerAddress :: string
  rc_economicsVersion :: string
  rc_rewardPolicyVersion :: string
  rc_epochId :: string
  rc_epochStart :: string
  rc_epochEnd :: string
  rc_startBlock :: string
  rc_endBlock :: string
  rc_snapshotBlock :: string
  rc_finalizedBlock :: string
  rc_confirmationDepth :: string
  rc_claimStart :: string
  rc_claimDeadline :: string
  rc_termsVersion :: string
  rc_eligibilityPolicyVersion :: string
  rc_restrictedJurisdictionPolicyVersion :: string

record RawTransfer =
  rt_chainId :: string
  rt_blockNumber :: string
  rt_blockHash :: string
  rt_transactionHash :: string
  rt_transactionIndex :: string
  rt_logIndex :: string
  rt_timestamp :: string
  rt_from :: string
  rt_to :: string
  rt_rawAmount :: string

record RawBalance =
  rb_wallet :: string
  rb_rawBalance :: string

record RawLock =
  rl_wallet :: string
  rl_rawPrincipal :: string
  rl_tier :: string
  rl_startTimestamp :: string
  rl_unlockTimestamp :: string
  rl_withdrawalTimestamp :: "string option"

record RawEligibility =
  re_wallet :: string
  re_eligible :: bool
  re_policyVersion :: string
  re_validFrom :: string
  re_expiry :: "string option"
  re_revoked :: bool

record RawExclusion =
  rx_address :: string
  rx_category :: string
  rx_reason :: string
  rx_policyVersion :: string

record RawAsset =
  ra_ticker :: string
  ra_name :: string
  ra_tokenAddress :: string
  ra_decimals :: int
  ra_acquiredRawAmount :: string

record RawCycleFixture =
  rf_cycle :: RawCycle
  rf_excludedAddresses :: "RawExclusion list"
  rf_eligibility :: "RawEligibility list"
  rf_epochStartBalances :: "RawBalance list"
  rf_transfers :: "RawTransfer list"
  rf_locks :: "RawLock list"
  rf_assets :: "RawAsset list"

definition zAddress :: "string \<Rightarrow> bool" where "zAddress v = isHexAddress v"
definition zBig :: "string \<Rightarrow> bool" where "zBig v = isNonNegativeIntegerString v"
definition zHash32 :: "string \<Rightarrow> bool" where "zHash32 v = hex_string 64 v"

definition zBigOptional :: "string option \<Rightarrow> bool" where
  "zBigOptional v = (case v of None \<Rightarrow> True | Some s \<Rightarrow> zBig s)"

definition cycleConfigSchema :: "RawCycle \<Rightarrow> bool" where
  "cycleConfigSchema r \<longleftrightarrow>
     rc_schemaVersion r \<noteq> [] \<and> zBig (rc_cycleId r) \<and> zBig (rc_chainId r) \<and>
     zAddress (rc_bpsTokenAddress r) \<and> zAddress (rc_claimManagerAddress r) \<and>
     rc_economicsVersion r = ECON_VERSION \<and> rc_rewardPolicyVersion r \<noteq> [] \<and>
     zBig (rc_epochId r) \<and> zBig (rc_epochStart r) \<and> zBig (rc_epochEnd r) \<and>
     zBig (rc_startBlock r) \<and> zBig (rc_endBlock r) \<and> zBig (rc_snapshotBlock r) \<and>
     zBig (rc_finalizedBlock r) \<and> zBig (rc_confirmationDepth r) \<and>
     zBig (rc_claimStart r) \<and> zBig (rc_claimDeadline r) \<and>
     rc_termsVersion r \<noteq> [] \<and> rc_eligibilityPolicyVersion r \<noteq> [] \<and>
     rc_restrictedJurisdictionPolicyVersion r \<noteq> []"

definition confirmedTransferSchema :: "RawTransfer \<Rightarrow> bool" where
  "confirmedTransferSchema r \<longleftrightarrow>
     zBig (rt_chainId r) \<and> zBig (rt_blockNumber r) \<and> zHash32 (rt_blockHash r) \<and>
     zHash32 (rt_transactionHash r) \<and> zBig (rt_transactionIndex r) \<and> zBig (rt_logIndex r) \<and>
     zBig (rt_timestamp r) \<and> zAddress (rt_from r) \<and> zAddress (rt_to r) \<and> zBig (rt_rawAmount r)"

definition epochStartBalanceSchema :: "RawBalance \<Rightarrow> bool" where
  "epochStartBalanceSchema r \<longleftrightarrow> zAddress (rb_wallet r) \<and> zBig (rb_rawBalance r)"

definition lockRecordSchema :: "RawLock \<Rightarrow> bool" where
  "lockRecordSchema r \<longleftrightarrow>
     zAddress (rl_wallet r) \<and> zBig (rl_rawPrincipal r) \<and>
     lockTier_of_string (rl_tier r) \<noteq> None \<and>
     zBig (rl_startTimestamp r) \<and> zBig (rl_unlockTimestamp r) \<and>
     zBigOptional (rl_withdrawalTimestamp r)"

definition eligibilityRecordSchema :: "RawEligibility \<Rightarrow> bool" where
  "eligibilityRecordSchema r \<longleftrightarrow>
     zAddress (re_wallet r) \<and> re_policyVersion r \<noteq> [] \<and> zBig (re_validFrom r) \<and>
     zBigOptional (re_expiry r)"

definition excludedAddressSchema :: "RawExclusion \<Rightarrow> bool" where
  "excludedAddressSchema r \<longleftrightarrow>
     zAddress (rx_address r) \<and> rx_category r \<in> set EXCLUSION_CATEGORIES \<and>
     rx_reason r \<noteq> [] \<and> rx_policyVersion r \<noteq> []"

definition acquiredAssetSchema :: "RawAsset \<Rightarrow> bool" where
  "acquiredAssetSchema r \<longleftrightarrow>
     ra_ticker r \<noteq> [] \<and> ra_name r \<noteq> [] \<and> zAddress (ra_tokenAddress r) \<and>
     0 \<le> ra_decimals r \<and> ra_decimals r \<le> 255 \<and> zBig (ra_acquiredRawAmount r)"

definition cycleFixtureSchema :: "RawCycleFixture \<Rightarrow> bool" where
  "cycleFixtureSchema r \<longleftrightarrow>
     cycleConfigSchema (rf_cycle r) \<and>
     list_all excludedAddressSchema (rf_excludedAddresses r) \<and>
     list_all eligibilityRecordSchema (rf_eligibility r) \<and>
     list_all epochStartBalanceSchema (rf_epochStartBalances r) \<and>
     list_all confirmedTransferSchema (rf_transfers r) \<and>
     list_all lockRecordSchema (rf_locks r) \<and>
     list_all acquiredAssetSchema (rf_assets r) \<and> rf_assets r \<noteq> []"

definition parseCycleFixture ::
  "('i \<Rightarrow> RawCycleFixture option) \<Rightarrow> 'i \<Rightarrow> pod_error + RawCycleFixture" where
  "parseCycleFixture decode input =
     (case decode input of
        None \<Rightarrow> Inl SchemaError
      | Some raw \<Rightarrow> if cycleFixtureSchema raw then Inr raw else Inl SchemaError)"

section \<open>Normalization\<close>

text \<open>\<open>BigInt(value)\<close> on a string the schema has accepted.\<close>

definition b :: "string \<Rightarrow> int" where "b value = int_of_dec value"

lemma b_nonneg [simp]: "0 \<le> b v"
  by (simp add: b_def)

definition normalizeCycle :: "RawCycle \<Rightarrow> pod_error + CycleConfig" where
  "normalizeCycle raw =
     rbind (normalizeAddress (rc_bpsTokenAddress raw)) (\<lambda>bps.
     rbind (normalizeAddress (rc_claimManagerAddress raw)) (\<lambda>cm.
     let cycle = \<lparr>
       cy_schemaVersion = rc_schemaVersion raw,
       cy_cycleId = b (rc_cycleId raw),
       cy_chainId = b (rc_chainId raw),
       cy_bpsTokenAddress = bps,
       cy_claimManagerAddress = cm,
       cy_economicsVersion = rc_economicsVersion raw,
       cy_rewardPolicyVersion = rc_rewardPolicyVersion raw,
       cy_epochId = b (rc_epochId raw),
       cy_epochStart = b (rc_epochStart raw),
       cy_epochEnd = b (rc_epochEnd raw),
       cy_startBlock = b (rc_startBlock raw),
       cy_endBlock = b (rc_endBlock raw),
       cy_snapshotBlock = b (rc_snapshotBlock raw),
       cy_finalizedBlock = b (rc_finalizedBlock raw),
       cy_confirmationDepth = b (rc_confirmationDepth raw),
       cy_claimStart = b (rc_claimStart raw),
       cy_claimDeadline = b (rc_claimDeadline raw),
       cy_termsVersion = rc_termsVersion raw,
       cy_eligibilityPolicyVersion = rc_eligibilityPolicyVersion raw,
       cy_restrictedJurisdictionPolicyVersion = rc_restrictedJurisdictionPolicyVersion raw\<rparr>
     in
       if cy_epochStart cycle \<noteq> cy_epochId cycle * EPOCH_SECONDS then fail ''EPOCH_BOUNDARY''
       else if cy_epochEnd cycle \<noteq> cy_epochStart cycle + EPOCH_SECONDS
         then fail ''EPOCH_BOUNDARY''
       else if cy_startBlock cycle > cy_endBlock cycle then fail ''BLOCK_ORDER''
       else if cy_snapshotBlock cycle < cy_startBlock cycle \<or>
               cy_snapshotBlock cycle > cy_endBlock cycle then fail ''BLOCK_ORDER''
       else if cy_snapshotBlock cycle > cy_finalizedBlock cycle
         then fail ''SNAPSHOT_AFTER_FINALIZED''
       else if cy_endBlock cycle > cy_finalizedBlock cycle then fail ''BLOCK_ORDER''
       else if cy_claimStart cycle > cy_claimDeadline cycle then fail ''CLAIM_PERIOD''
       else Inr cycle))"

fun map_unique ::
  "('r \<Rightarrow> pod_error + string) \<Rightarrow> string \<Rightarrow> ('r \<Rightarrow> string \<Rightarrow> 'a) \<Rightarrow> string list \<Rightarrow> 'r list
    \<Rightarrow> pod_error + 'a list" where
  "map_unique norm dup build seen [] = Inr []"
| "map_unique norm dup build seen (r # rs) =
     rbind (norm r) (\<lambda>k.
       if k \<in> set seen then fail dup
       else rbind (map_unique norm dup build (set_add k seen) rs) (\<lambda>out. Inr (build r k # out)))"

definition normalizeExclusions :: "RawExclusion list \<Rightarrow> pod_error + ExcludedAddress list" where
  "normalizeExclusions raw =
     map_unique (\<lambda>e. normalizeAddress (rx_address e)) ''DUPLICATE_EXCLUSION''
       (\<lambda>e address. \<lparr>ex_address = address, ex_category = rx_category e,
                     ex_reason = rx_reason e, ex_policyVersion = rx_policyVersion e\<rparr>) [] raw"

definition normalizeEligibility :: "RawEligibility list \<Rightarrow> pod_error + EligibilityRecord list" where
  "normalizeEligibility raw =
     map_unique (\<lambda>r. normalizeAddress (re_wallet r)) ''DUPLICATE_HOLDER''
       (\<lambda>r wallet. \<lparr>el_wallet = wallet, el_eligible = re_eligible r,
                    el_policyVersion = re_policyVersion r, el_validFrom = b (re_validFrom r),
                    el_expiry = map_option b (re_expiry r), el_revoked = re_revoked r\<rparr>) [] raw"

definition normalizeBalances :: "RawBalance list \<Rightarrow> pod_error + EpochStartBalance list" where
  "normalizeBalances raw =
     map_unique (\<lambda>r. normalizeAddress (rb_wallet r)) ''DUPLICATE_HOLDER''
       (\<lambda>r wallet. \<lparr>eb_wallet = wallet, eb_rawBalance = b (rb_rawBalance r)\<rparr>) [] raw"

definition normalizeTransfer :: "CycleConfig \<Rightarrow> RawTransfer \<Rightarrow> pod_error + ConfirmedTransfer" where
  "normalizeTransfer cycle t =
     (if b (rt_chainId t) \<noteq> cy_chainId cycle then fail ''CHAIN_MISMATCH''
      else let timestamp = b (rt_timestamp t)
           in if timestamp < cy_epochStart cycle \<or> timestamp > cy_epochEnd cycle
              then fail ''TRANSFER_OUT_OF_EPOCH''
              else rbind (normalizeAddress (rt_from t)) (\<lambda>from.
                   rbind (normalizeAddress (rt_to t)) (\<lambda>to.
                   Inr \<lparr>tr_chainId = b (rt_chainId t), tr_blockNumber = b (rt_blockNumber t),
                        tr_blockHash = lower (rt_blockHash t),
                        tr_transactionHash = lower (rt_transactionHash t),
                        tr_transactionIndex = b (rt_transactionIndex t),
                        tr_logIndex = b (rt_logIndex t), tr_timestamp = timestamp,
                        tr_from = from, tr_to = to, tr_rawAmount = b (rt_rawAmount t)\<rparr>)))"

definition normalizeTransfers ::
  "RawTransfer list \<Rightarrow> CycleConfig \<Rightarrow> pod_error + ConfirmedTransfer list" where
  "normalizeTransfers raw cycle = rmap (normalizeTransfer cycle) raw"

definition normalizeLock :: "RawLock \<Rightarrow> pod_error + LockRecord" where
  "normalizeLock l =
     (case lockTier_of_string (rl_tier l) of
        None \<Rightarrow> fail ''UNSUPPORTED_TIER''
      | Some tier \<Rightarrow>
          let spec = TIER_SPECS tier;
              startTimestamp = b (rl_startTimestamp l);
              unlockTimestamp = b (rl_unlockTimestamp l);
              withdrawal = map_option b (rl_withdrawalTimestamp l)
          in if unlockTimestamp - startTimestamp \<noteq> durationSeconds spec
             then fail ''UNSUPPORTED_DURATION''
             else if (case withdrawal of None \<Rightarrow> False | Some w \<Rightarrow> w < startTimestamp)
             then fail ''BAD_WITHDRAWAL''
             else rbind (normalizeAddress (rl_wallet l)) (\<lambda>wallet.
                  Inr \<lparr>lk_wallet = wallet, lk_rawPrincipal = b (rl_rawPrincipal l),
                       lk_tier = tier, lk_startTimestamp = startTimestamp,
                       lk_unlockTimestamp = unlockTimestamp,
                       lk_withdrawalTimestamp = withdrawal\<rparr>))"

definition normalizeLocks :: "RawLock list \<Rightarrow> pod_error + LockRecord list" where
  "normalizeLocks raw = rmap normalizeLock raw"

definition normalizeAssets :: "RawAsset list \<Rightarrow> pod_error + AcquiredAsset list" where
  "normalizeAssets raw =
     map_unique (\<lambda>a. normalizeAddress (ra_tokenAddress a)) ''DUPLICATE_ASSET''
       (\<lambda>a tokenAddress. \<lparr>as_ticker = ra_ticker a, as_name = ra_name a,
                          as_tokenAddress = tokenAddress, as_decimals = ra_decimals a,
                          as_acquiredRawAmount = b (ra_acquiredRawAmount a)\<rparr>) [] raw"

definition loadCycleFixture ::
  "('i \<Rightarrow> RawCycleFixture option) \<Rightarrow> 'i \<Rightarrow> pod_error + CycleFixture" where
  "loadCycleFixture decode input =
     rbind (parseCycleFixture decode input) (\<lambda>raw.
     rbind (normalizeCycle (rf_cycle raw)) (\<lambda>cycle.
     rbind (normalizeExclusions (rf_excludedAddresses raw)) (\<lambda>excludedAddresses.
     rbind (normalizeEligibility (rf_eligibility raw)) (\<lambda>eligibility.
     rbind (normalizeBalances (rf_epochStartBalances raw)) (\<lambda>epochStartBalances.
     rbind (normalizeTransfers (rf_transfers raw) cycle) (\<lambda>transfers.
     rbind (normalizeLocks (rf_locks raw)) (\<lambda>locks.
     rbind (normalizeAssets (rf_assets raw)) (\<lambda>assets.
     Inr \<lparr>fx_cycle = cycle, fx_excludedAddresses = excludedAddresses,
          fx_eligibility = eligibility, fx_epochStartBalances = epochStartBalances,
          fx_transfers = transfers, fx_locks = locks, fx_assets = assets\<rparr>))))))))"

section \<open>What a loaded fixture satisfies\<close>

definition cycle_wf :: "CycleConfig \<Rightarrow> bool" where
  "cycle_wf c \<longleftrightarrow>
     cy_economicsVersion c = ECON_VERSION \<and>
     normalized_address (cy_bpsTokenAddress c) \<and> normalized_address (cy_claimManagerAddress c) \<and>
     0 \<le> cy_chainId c \<and> 0 \<le> cy_cycleId c \<and>
     0 \<le> cy_epochId c \<and> cy_epochStart c = epochStartOf (cy_epochId c) \<and>
     cy_epochEnd c = epochEndOf (cy_epochId c) \<and>
     0 \<le> cy_startBlock c \<and> cy_startBlock c \<le> cy_snapshotBlock c \<and>
     cy_snapshotBlock c \<le> cy_endBlock c \<and> cy_endBlock c \<le> cy_finalizedBlock c \<and>
     cy_claimStart c \<le> cy_claimDeadline c"

definition transfer_wf :: "CycleConfig \<Rightarrow> ConfirmedTransfer \<Rightarrow> bool" where
  "transfer_wf c t \<longleftrightarrow>
     tr_chainId t = cy_chainId c \<and>
     cy_epochStart c \<le> tr_timestamp t \<and> tr_timestamp t \<le> cy_epochEnd c \<and>
     normalized_address (tr_from t) \<and> normalized_address (tr_to t) \<and> 0 \<le> tr_rawAmount t \<and>
     hex_string 64 (tr_transactionHash t)"

definition lock_wf :: "LockRecord \<Rightarrow> bool" where
  "lock_wf l \<longleftrightarrow>
     normalized_address (lk_wallet l) \<and> 0 \<le> lk_rawPrincipal l \<and> 0 \<le> lk_startTimestamp l \<and>
     lk_unlockTimestamp l = lk_startTimestamp l + durationSeconds (TIER_SPECS (lk_tier l)) \<and>
     (\<forall>w \<in> set_option (lk_withdrawalTimestamp l). lk_startTimestamp l \<le> w)"

definition fixture_wf :: "CycleFixture \<Rightarrow> bool" where
  "fixture_wf f \<longleftrightarrow>
     cycle_wf (fx_cycle f) \<and>
     distinct (map ex_address (fx_excludedAddresses f)) \<and>
     list_all (\<lambda>e. normalized_address (ex_address e) \<and> ex_category e \<in> set EXCLUSION_CATEGORIES)
       (fx_excludedAddresses f) \<and>
     distinct (map el_wallet (fx_eligibility f)) \<and>
     list_all (\<lambda>e. normalized_address (el_wallet e)) (fx_eligibility f) \<and>
     distinct (map eb_wallet (fx_epochStartBalances f)) \<and>
     list_all (\<lambda>e. normalized_address (eb_wallet e) \<and> 0 \<le> eb_rawBalance e)
       (fx_epochStartBalances f) \<and>
     list_all (transfer_wf (fx_cycle f)) (fx_transfers f) \<and>
     list_all lock_wf (fx_locks f) \<and>
     fx_assets f \<noteq> [] \<and>
     distinct (map as_tokenAddress (fx_assets f)) \<and>
     list_all (\<lambda>a. normalized_address (as_tokenAddress a) \<and> 0 \<le> as_acquiredRawAmount a \<and>
                   0 \<le> as_decimals a \<and> as_decimals a \<le> 255) (fx_assets f)"

lemma map_unique_sound:
  assumes "map_unique norm dup build seen rs = Inr out"
    and "\<And>r k. key (build r k) = k"
  shows "list_all2 (\<lambda>r a. \<exists>k. norm r = Inr k \<and> a = build r k) rs out \<and>
         distinct (map key out) \<and> set (map key out) \<inter> set seen = {}"
  using assms(1)
proof (induction rs arbitrary: seen out)
  case (Cons r rs)
  then obtain k out' where k: "norm r = Inr k" "k \<notin> set seen" "out = build r k # out'"
    and rest: "map_unique norm dup build (set_add k seen) rs = Inr out'"
    by (auto simp: rbind_eq_Inr split: if_splits)
  show ?case using Cons.IH [OF rest] k assms(2) by auto
qed simp

lemma map_unique_complete:
  assumes "list_all2 (\<lambda>r k. norm r = Inr k) rs ks" and "distinct ks" and "set ks \<inter> set seen = {}"
  shows "map_unique norm dup build seen rs = Inr (map2 build rs ks)"
  using assms
proof (induction rs ks arbitrary: seen rule: list_all2_induct)
  case (Cons r rs k ks)
  then have "map_unique norm dup build (set_add k seen) rs = Inr (map2 build rs ks)"
    by auto
  with Cons show ?case by simp
qed simp

lemma map_unique_duplicate:
  assumes "list_all2 (\<lambda>r k. norm r = Inr k) rs ks" and "\<not> distinct ks"
  shows "map_unique norm dup build seen rs = fail dup"
proof -
  have "map_unique norm dup build seen rs = fail dup"
    if "\<not> distinct ks \<or> set ks \<inter> set seen \<noteq> {}"
    using assms(1) that
  proof (induction rs ks arbitrary: seen rule: list_all2_induct)
    case (Cons r rs k ks)
    show ?case
    proof (cases "k \<in> set seen")
      case False
      with Cons.prems have "\<not> distinct ks \<or> set ks \<inter> set (set_add k seen) \<noteq> {}"
        by auto
      then have "map_unique norm dup build (set_add k seen) rs = fail dup"
        by (rule Cons.IH)
      with False Cons.hyps show ?thesis by simp
    qed (use Cons in simp)
  qed simp
  with assms(2) show ?thesis by simp
qed

lemma list_all_from_all2:
  assumes "list_all2 R xs ys" and "list_all P xs" and "\<And>x y. R x y \<Longrightarrow> P x \<Longrightarrow> Q y"
  shows "list_all Q ys"
  using assms by (induction rule: list_all2_induct) auto

lemma normalizeCycle_wf:
  assumes "normalizeCycle raw = Inr c" and "cycleConfigSchema raw"
  shows "cycle_wf c"
  using assms
  by (auto simp: normalizeCycle_def Let_def rbind_eq_Inr cycle_wf_def cycleConfigSchema_def
      epochStartOf_def epochEndOf_def dest: normalizeAddress_normalized)

lemma normalizeTransfer_wf:
  assumes "normalizeTransfer c t = Inr tr" and "confirmedTransferSchema t"
  shows "transfer_wf c tr"
  using assms
  by (auto simp: normalizeTransfer_def Let_def rbind_eq_Inr transfer_wf_def
      confirmedTransferSchema_def zHash32_def hex_string_lower
      dest: normalizeAddress_normalized)

lemma normalizeLock_wf:
  assumes "normalizeLock l = Inr lk"
  shows "lock_wf lk"
  using assms
  by (auto simp: normalizeLock_def Let_def rbind_eq_Inr lock_wf_def
      split: option.splits dest: normalizeAddress_normalized)

lemma loadCycleFixture_eq_Inr:
  "loadCycleFixture decode input = Inr f \<longleftrightarrow>
   (\<exists>raw. decode input = Some raw \<and> cycleFixtureSchema raw \<and>
      normalizeCycle (rf_cycle raw) = Inr (fx_cycle f) \<and>
      normalizeExclusions (rf_excludedAddresses raw) = Inr (fx_excludedAddresses f) \<and>
      normalizeEligibility (rf_eligibility raw) = Inr (fx_eligibility f) \<and>
      normalizeBalances (rf_epochStartBalances raw) = Inr (fx_epochStartBalances f) \<and>
      normalizeTransfers (rf_transfers raw) (fx_cycle f) = Inr (fx_transfers f) \<and>
      normalizeLocks (rf_locks raw) = Inr (fx_locks f) \<and>
      normalizeAssets (rf_assets raw) = Inr (fx_assets f))"
  by (cases f) (auto simp: loadCycleFixture_def parseCycleFixture_def rbind_eq_Inr
      split: option.splits)

lemma load_wf:
  assumes "loadCycleFixture decode input = Inr f"
  shows "fixture_wf f"
proof -
  from assms obtain raw where raw: "cycleFixtureSchema raw"
    and cycle: "normalizeCycle (rf_cycle raw) = Inr (fx_cycle f)"
    and excl: "normalizeExclusions (rf_excludedAddresses raw) = Inr (fx_excludedAddresses f)"
    and elig: "normalizeEligibility (rf_eligibility raw) = Inr (fx_eligibility f)"
    and bals: "normalizeBalances (rf_epochStartBalances raw) = Inr (fx_epochStartBalances f)"
    and trans: "normalizeTransfers (rf_transfers raw) (fx_cycle f) = Inr (fx_transfers f)"
    and locks: "normalizeLocks (rf_locks raw) = Inr (fx_locks f)"
    and assets: "normalizeAssets (rf_assets raw) = Inr (fx_assets f)"
    by (auto simp: loadCycleFixture_eq_Inr)
  have "cycle_wf (fx_cycle f)"
    using cycle raw by (auto intro: normalizeCycle_wf simp: cycleFixtureSchema_def)
  moreover note map_unique_sound [OF excl [unfolded normalizeExclusions_def], of ex_address]
  moreover note map_unique_sound [OF elig [unfolded normalizeEligibility_def], of el_wallet]
  moreover note map_unique_sound [OF bals [unfolded normalizeBalances_def], of eb_wallet]
  moreover note map_unique_sound [OF assets [unfolded normalizeAssets_def], of as_tokenAddress]
  moreover have "list_all (transfer_wf (fx_cycle f)) (fx_transfers f)"
    using trans raw
    by (auto simp: normalizeTransfers_def rmap_eq_Inr cycleFixtureSchema_def
        elim!: list_all_from_all2 intro: normalizeTransfer_wf)
  moreover have "list_all lock_wf (fx_locks f)"
    using locks raw
    by (auto simp: normalizeLocks_def rmap_eq_Inr cycleFixtureSchema_def
        elim!: list_all_from_all2 intro: normalizeLock_wf)
  ultimately show ?thesis
    using raw unfolding fixture_wf_def cycleFixtureSchema_def
    by (auto elim!: list_all_from_all2 simp: excludedAddressSchema_def acquiredAssetSchema_def
        dest: normalizeAddress_normalized)
qed

text \<open>
  C4: a fixture that loads is well formed: the epoch is the 900-second interval of its id, the
  blocks are ordered and final, every address is in canonical form, no wallet, exclusion or asset
  occurs twice, every transfer is of the cycle's chain and within its epoch, every lock has
  exactly its tier's duration and no withdrawal before its start.
\<close>

theorem loadCycleFixture_wf:
  assumes "loadCycleFixture decode input = Inr f"
  shows "fixture_wf f"
  using assms by (rule load_wf)

end
