(* ===== verification/Transfers.thy ===== *)
theory Transfers
  imports Validate
begin

text \<open>
  The canonical order of the confirmed transfers (\<open>twab.ts\<close>, \<open>canonicalizeTransfers\<close>):
  identical logs collapse, two different logs of one identity are refused, the rest is sorted by
  block, transaction index and log index, and an order that is ambiguous or contradicts the
  timestamps is refused. The outcome depends on the set of the logs only.
\<close>

definition identity :: "ConfirmedTransfer \<Rightarrow> string" where
  "identity t = dec_of_int (tr_chainId t) @ ''|'' @ tr_transactionHash t @ ''|'' @
     dec_of_int (tr_logIndex t)"

definition sameTransfer :: "ConfirmedTransfer \<Rightarrow> ConfirmedTransfer \<Rightarrow> bool" where
  "sameTransfer x y \<longleftrightarrow>
     tr_blockNumber x = tr_blockNumber y \<and> tr_blockHash x = tr_blockHash y \<and>
     tr_transactionIndex x = tr_transactionIndex y \<and> tr_timestamp x = tr_timestamp y \<and>
     tr_from x = tr_from y \<and> tr_to x = tr_to y \<and> tr_rawAmount x = tr_rawAmount y"

definition compareCanonical :: "ConfirmedTransfer \<Rightarrow> ConfirmedTransfer \<Rightarrow> int" where
  "compareCanonical x y =
     (if tr_blockNumber x \<noteq> tr_blockNumber y
      then if tr_blockNumber x < tr_blockNumber y then -1 else 1
      else if tr_transactionIndex x \<noteq> tr_transactionIndex y
      then if tr_transactionIndex x < tr_transactionIndex y then -1 else 1
      else if tr_logIndex x \<noteq> tr_logIndex y
      then if tr_logIndex x < tr_logIndex y then -1 else 1
      else 0)"

definition dedupLog ::
  "(string \<times> ConfirmedTransfer) list \<Rightarrow> ConfirmedTransfer
    \<Rightarrow> pod_error + (string \<times> ConfirmedTransfer) list" where
  "dedupLog byIdentity t =
     (let id = identity t in
      case map_of byIdentity id of
        Some existing \<Rightarrow>
          if \<not> sameTransfer existing t then fail ''CONFLICTING_LOG'' else Inr byIdentity
      | None \<Rightarrow> Inr (AList.update id t byIdentity))"

fun checkOrder :: "ConfirmedTransfer list \<Rightarrow> pod_error + unit" where
  "checkOrder (prev # cur # rest) =
     (if compareCanonical prev cur = 0 then fail ''AMBIGUOUS_ORDER''
      else if tr_timestamp cur < tr_timestamp prev then fail ''NONMONOTONIC_TIMESTAMP''
      else checkOrder (cur # rest))"
| "checkOrder _ = Inr ()"

definition canonicalizeTransfers ::
  "ConfirmedTransfer list \<Rightarrow> pod_error + ConfirmedTransfer list" where
  "canonicalizeTransfers transfers =
     rbind (rfold dedupLog [] transfers) (\<lambda>byIdentity.
     let deduped = js_sort compareCanonical (map snd byIdentity) in
     rbind (checkOrder deduped) (\<lambda>_. Inr deduped))"

interpretation canon: comparator compareCanonical
  by unfold_locales (auto simp: compareCanonical_def split: if_splits)

definition plain_hash :: "ConfirmedTransfer \<Rightarrow> bool" where
  "plain_hash t \<longleftrightarrow> CHR ''|'' \<notin> set (tr_transactionHash t)"

lemma transfer_wf_plain: "transfer_wf c t \<Longrightarrow> plain_hash t"
  by (auto simp: transfer_wf_def plain_hash_def dest: hex_string_bar)

lemma identity_inj:
  assumes "plain_hash x" "plain_hash y"
  shows "identity x = identity y \<longleftrightarrow>
    tr_chainId x = tr_chainId y \<and> tr_transactionHash x = tr_transactionHash y \<and>
    tr_logIndex x = tr_logIndex y"
  using assms by (auto simp: identity_def sep_inj plain_hash_def)

lemma same_identity_eq:
  "plain_hash x \<Longrightarrow> plain_hash y \<Longrightarrow> identity x = identity y \<and> sameTransfer x y \<longleftrightarrow> x = y"
  by (cases x; cases y) (auto simp: identity_inj sameTransfer_def)

definition no_conflict :: "ConfirmedTransfer set \<Rightarrow> bool" where
  "no_conflict S \<longleftrightarrow> (\<forall>x\<in>S. \<forall>y\<in>S. identity x = identity y \<longrightarrow> x = y)"

definition keyed_by_identity :: "(string \<times> ConfirmedTransfer) list \<Rightarrow> bool" where
  "keyed_by_identity m \<longleftrightarrow> distinct (map fst m) \<and> (\<forall>(k, t) \<in> set m. k = identity t)"

lemma keyed_map_of:
  assumes "keyed_by_identity m"
  shows "map_of m k = Some t \<longleftrightarrow> t \<in> snd ` set m \<and> identity t = k"
proof -
  have "map_of m k = Some t \<longleftrightarrow> (k, t) \<in> set m"
    using assms by (simp add: keyed_by_identity_def)
  also have "\<dots> \<longleftrightarrow> t \<in> snd ` set m \<and> identity t = k"
    using assms by (force simp: keyed_by_identity_def)
  finally show ?thesis .
qed

lemma keyed_map_of_None:
  "keyed_by_identity m \<Longrightarrow> map_of m k = None \<longleftrightarrow> (\<forall>t \<in> snd ` set m. identity t \<noteq> k)"
  using keyed_map_of [of m k] by (metis not_None_eq)

lemma keyed_values_distinct: "keyed_by_identity m \<Longrightarrow> distinct (map snd m)"
proof (induction m)
  case (Cons p m)
  obtain k t where p: "p = (k, t)" by force
  have "t \<notin> snd ` set m"
  proof
    assume "t \<in> snd ` set m"
    then have "k \<in> fst ` set m"
      using Cons.prems p by (force simp: keyed_by_identity_def)
    with Cons.prems p show False by (simp add: keyed_by_identity_def)
  qed
  with Cons p show ?case by (simp add: keyed_by_identity_def)
qed simp

lemma dedup_result:
  assumes "keyed_by_identity m" and "\<forall>t \<in> set ts \<union> snd ` set m. plain_hash t"
  shows "rfold dedupLog m ts = Inr m' \<Longrightarrow>
    keyed_by_identity m' \<and> snd ` set m' = set ts \<union> snd ` set m"
  using assms
proof (induction ts arbitrary: m)
  case (Cons t ts)
  show ?case
  proof (cases "map_of m (identity t)")
    case None
    then have kd: "keyed_by_identity (m @ [(identity t, t)])"
      using Cons.prems(2)
      by (auto simp: keyed_by_identity_def map_of_eq_None_iff)
    show ?thesis
      using Cons.IH [OF _ kd] Cons.prems None
      by (auto simp: dedupLog_def Let_def update_fresh)
  next
    case (Some e)
    then have e: "e \<in> snd ` set m" "identity e = identity t"
      using Cons.prems(2) by (auto simp: keyed_map_of)
    have "sameTransfer e t"
      using Cons.prems(1) Some by (auto simp: dedupLog_def Let_def split: if_splits)
    then have "e = t"
      using e Cons.prems(3) same_identity_eq [of e t] by auto
    with Some e Cons show ?thesis by (auto simp: dedupLog_def Let_def split: if_splits)
  qed
qed simp

lemma dedup_success:
  assumes "keyed_by_identity m" and "\<forall>t \<in> set ts \<union> snd ` set m. plain_hash t"
  shows "is_ok (rfold dedupLog m ts) \<longleftrightarrow> no_conflict (set ts \<union> snd ` set m)"
  using assms
proof (induction ts arbitrary: m)
  case Nil
  then have "no_conflict (snd ` set m)"
    unfolding no_conflict_def by (metis keyed_map_of option.inject)
  then show ?case by simp
next
  case (Cons t ts)
  show ?case
  proof (cases "map_of m (identity t)")
    case None
    then have kd: "keyed_by_identity (m @ [(identity t, t)])"
      using Cons.prems(1) by (auto simp: keyed_by_identity_def map_of_eq_None_iff)
    have "set ts \<union> snd ` set (m @ [(identity t, t)]) = set (t # ts) \<union> snd ` set m" by auto
    with Cons.IH [OF kd] Cons.prems None show ?thesis
      by (simp add: dedupLog_def Let_def update_fresh)
  next
    case (Some e)
    then have e: "e \<in> snd ` set m" "identity e = identity t"
      using Cons.prems(1) by (auto simp: keyed_map_of)
    show ?thesis
    proof (cases "e = t")
      case True
      then have "set (t # ts) \<union> snd ` set m = set ts \<union> snd ` set m" using e by auto
      moreover have "sameTransfer t t" by (simp add: sameTransfer_def)
      ultimately show ?thesis
        using Cons.IH [OF Cons.prems(1)] Cons.prems(2) Some True
        by (simp add: dedupLog_def Let_def)
    next
      case False
      then have "\<not> sameTransfer e t"
        using e Cons.prems(2) same_identity_eq [of e t] by auto
      moreover have "\<not> no_conflict (set (t # ts) \<union> snd ` set m)"
        using False e by (auto simp: no_conflict_def)
      ultimately show ?thesis using Some by (simp add: dedupLog_def Let_def)
    qed
  qed
qed

definition canonical :: "ConfirmedTransfer list \<Rightarrow> bool" where
  "canonical r \<longleftrightarrow> sorted_wrt (\<lambda>x y. compareCanonical x y < 0) r \<and> sorted (map tr_timestamp r)"

lemma compareCanonical_less_trans:
  "compareCanonical x y < 0 \<Longrightarrow> compareCanonical y z < 0 \<Longrightarrow> compareCanonical x z < 0"
  by (auto simp: compareCanonical_def split: if_splits)

lemma checkOrder_iff:
  assumes "sorted_wrt (\<lambda>x y. compareCanonical x y \<le> 0) r"
  shows "is_ok (checkOrder r) \<longleftrightarrow> canonical r"
  using assms
proof (induction r rule: checkOrder.induct)
  case (1 prev cur rest)
  have step: "canonical (prev # cur # rest) \<longleftrightarrow>
      compareCanonical prev cur < 0 \<and> tr_timestamp prev \<le> tr_timestamp cur \<and>
      canonical (cur # rest)"
    by (auto simp: canonical_def intro: compareCanonical_less_trans)
  have "compareCanonical prev cur \<le> 0" "sorted_wrt (\<lambda>x y. compareCanonical x y \<le> 0) (cur # rest)"
    using "1.prems" by simp_all
  then show ?case
    using "1.IH" unfolding step by auto
qed (simp_all add: canonical_def)

lemma canonical_distinct: "canonical r \<Longrightarrow> distinct r"
proof -
  assume "canonical r"
  then have "sorted_wrt (\<lambda>x y. x \<noteq> y) r"
    by (auto simp: canonical_def canon.cmp_refl elim!: sorted_wrt_mono_rel [rotated])
  then show ?thesis by (simp add: distinct_conv_nth sorted_wrt_iff_nth_less) (metis linorder_neqE_nat)
qed

lemma canonical_strict:
  assumes "canonical r" "x \<in> set r" "y \<in> set r" "compareCanonical x y = 0"
  shows "x = y"
proof (rule ccontr)
  assume "x \<noteq> y"
  with assms(2,3) obtain i j where ij: "i < length r" "j < length r" "x = r ! i" "y = r ! j" "i \<noteq> j"
    by (auto simp: in_set_conv_nth)
  then have "compareCanonical x y < 0 \<or> compareCanonical y x < 0"
    using assms(1) by (auto simp: canonical_def sorted_wrt_iff_nth_less neq_iff)
  with assms(4) canon.cmp_flip [of y x] show False by auto
qed

lemma canonical_sorted: "canonical r \<Longrightarrow> sorted_wrt (\<lambda>x y. compareCanonical x y \<le> 0) r"
  by (auto simp: canonical_def elim!: sorted_wrt_mono_rel [rotated])

lemma dedup_subset:
  assumes "rfold dedupLog [] ts = Inr m"
  shows "snd ` set m \<subseteq> set ts"
proof -
  have "\<forall>p\<in>set m. snd p \<in> set ts"
    by (rule rfold_invariant [OF assms])
      (auto simp: dedupLog_def Let_def update_fresh split: option.splits if_splits)
  then show ?thesis by auto
qed

lemma canonicalizeTransfers_canonical:
  assumes "canonicalizeTransfers ts = Inr r"
  shows "canonical r" "set r \<subseteq> set ts"
proof -
  from assms obtain m where m: "rfold dedupLog [] ts = Inr m"
    "checkOrder (js_sort compareCanonical (map snd m)) = Inr ()" "r = js_sort compareCanonical (map snd m)"
    by (auto simp: canonicalizeTransfers_def Let_def rbind_eq_Inr)
  then show "canonical r"
    using checkOrder_iff [OF canon.sorted_js_sort, of "map snd m"] by simp
  show "set r \<subseteq> set ts" using dedup_subset [OF m(1)] m(3) by auto
qed

text \<open>
  C2: on logs of hexadecimal transaction hashes, \<open>canonicalizeTransfers\<close> returns exactly the one
  list that holds the same logs, each once, in strictly increasing canonical order with
  non-decreasing timestamps, and it returns one exactly when no two different logs share an
  identity and such an order exists. So the outcome is independent of the order and of the
  multiplicity in which the logs arrive.
\<close>

theorem canonicalizeTransfers_spec:
  assumes "\<forall>t \<in> set ts. plain_hash t"
  shows "canonicalizeTransfers ts = Inr r \<longleftrightarrow>
    no_conflict (set ts) \<and> set r = set ts \<and> canonical r"
proof (cases "rfold dedupLog [] ts")
  case (Inl e)
  then have "\<not> no_conflict (set ts)"
    using dedup_success [of "[]" ts] assms by (simp add: keyed_by_identity_def)
  with Inl show ?thesis by (simp add: canonicalizeTransfers_def)
next
  case (Inr m)
  let ?d = "js_sort compareCanonical (map snd m)"
  have nc: "no_conflict (set ts)"
    using dedup_success [of "[]" ts] assms Inr by (simp add: keyed_by_identity_def)
  have m: "keyed_by_identity m" "snd ` set m = set ts"
    using dedup_result [of "[]" ts m] assms Inr by (simp_all add: keyed_by_identity_def)
  have srt: "sorted_wrt (\<lambda>x y. compareCanonical x y \<le> 0) ?d" by (rule canon.sorted_js_sort)
  have dist: "distinct ?d"
    using keyed_values_distinct [OF m(1)] by simp
  have eq: "canonicalizeTransfers ts = Inr r \<longleftrightarrow> is_ok (checkOrder ?d) \<and> r = ?d"
    using Inr by (auto simp: canonicalizeTransfers_def Let_def rbind_eq_Inr is_ok_iff)
  show ?thesis
  proof
    assume "canonicalizeTransfers ts = Inr r"
    then show "no_conflict (set ts) \<and> set r = set ts \<and> canonical r"
      using eq nc m checkOrder_iff [OF srt] by auto
  next
    assume r: "no_conflict (set ts) \<and> set r = set ts \<and> canonical r"
    have "r = ?d"
    proof (rule canon.sorted_unique [symmetric, OF srt])
      show "sorted_wrt (\<lambda>x y. compareCanonical x y \<le> 0) r"
        using r by (simp add: canonical_sorted)
      have "set ?d = set r" using r m by simp
      then show "mset ?d = mset r"
        using r dist canonical_distinct set_eq_iff_mset_eq_distinct by blast
      fix x y assume xy: "x \<in> set ?d" "y \<in> set ?d" "compareCanonical x y = 0"
      then have "x \<in> set r" "y \<in> set r" using r m by auto
      then show "x = y"
        using r xy(3) canonical_strict by blast
    qed
    with r eq checkOrder_iff [OF srt] show "canonicalizeTransfers ts = Inr r" by auto
  qed
qed

end
