(* ===== verification/Twab.thy ===== *)
theory Twab
  imports Transfers
begin

text \<open>
  Time-weighted balances and effective weights over one epoch (\<open>twab.ts\<close>,
  \<open>computeWeights\<close>). The closures of the function are definitions that take what they capture;
  the mutable maps are the fields of \<open>TwabState\<close>, \<open>cursor\<close> is the list of the transfers not
  yet applied. The abstract side is \<open>balance_at\<close> and \<open>locked_at\<close>, what a wallet holds and has
  locked at one second; the refinement is that the code's sums over breakpoints are the sums
  of these over all seconds of the epoch.
\<close>

section \<open>The code\<close>

record WalletWeight =
  ww_wallet :: string
  ww_snapshotBalance :: int
  ww_baseTwab :: int
  ww_unlockedTwab :: int
  ww_lockedTwabByTier :: "LockTier \<Rightarrow> int"
  ww_effectiveWeight :: int

record WeightComputation =
  wc_weights :: "(string \<times> WalletWeight) list"
  wc_appliedTransfers :: "ConfirmedTransfer list"

definition zeroTierRecord :: "LockTier \<Rightarrow> int" where
  "zeroTierRecord = (\<lambda>_. 0)"

definition bonusEnd :: "LockRecord \<Rightarrow> int" where
  "bonusEnd l =
     (case lk_withdrawalTimestamp l of
        None \<Rightarrow> lk_unlockTimestamp l
      | Some w \<Rightarrow> if w < lk_unlockTimestamp l then w else lk_unlockTimestamp l)"

definition activeLockedByTier :: "LockRecord list \<Rightarrow> int \<Rightarrow> LockTier \<Rightarrow> int" where
  "activeLockedByTier locks t =
     fold (\<lambda>l out. if lk_startTimestamp l \<le> t \<and> t < bonusEnd l
                   then out(lk_tier l := out (lk_tier l) + lk_rawPrincipal l) else out)
       locks zeroTierRecord"

record TwabState =
  tw_balances :: "(string \<times> int) list"
  tw_pending :: "ConfirmedTransfer list"
  tw_baseSeconds :: "(string \<times> int) list"
  tw_unlockedSeconds :: "(string \<times> int) list"
  tw_lockedSeconds :: "(string \<times> (LockTier \<Rightarrow> int)) list"

definition relevantWallets ::
  "EpochStartBalance list \<Rightarrow> ConfirmedTransfer list \<Rightarrow> LockRecord list \<Rightarrow> string list" where
  "relevantWallets epochStartBalances inEpoch locks =
     (let r1 = fold (\<lambda>x. set_add (eb_wallet x)) epochStartBalances [];
          r2 = fold (\<lambda>t r. let r' = (if tr_from t \<noteq> ZERO_ADDRESS then set_add (tr_from t) r else r)
                           in if tr_to t \<noteq> ZERO_ADDRESS then set_add (tr_to t) r' else r')
                 inEpoch r1
      in fold (\<lambda>l. set_add (lk_wallet l)) locks r2)"

definition groupLocks :: "LockRecord list \<Rightarrow> (string \<times> LockRecord list) list" where
  "groupLocks locks =
     fold (\<lambda>l m. AList.update (lk_wallet l)
             ((case map_of m (lk_wallet l) of None \<Rightarrow> [] | Some ls \<Rightarrow> ls) @ [l]) m) locks []"

definition locksOf :: "(string \<times> LockRecord list) list \<Rightarrow> string \<Rightarrow> LockRecord list" where
  "locksOf m w = (case map_of m w of None \<Rightarrow> [] | Some ls \<Rightarrow> ls)"

definition lockTimes :: "int \<Rightarrow> int \<Rightarrow> LockRecord \<Rightarrow> int list \<Rightarrow> int list" where
  "lockTimes E0 E1 l ts0 =
     (let times1 = fold (\<lambda>tt ts. if tt > E0 \<and> tt < E1 then set_add tt ts else ts)
                     [lk_startTimestamp l, lk_unlockTimestamp l, bonusEnd l] ts0
      in case lk_withdrawalTimestamp l of
           None \<Rightarrow> times1
         | Some w \<Rightarrow> if w > E0 \<and> w < E1 then set_add w times1 else times1)"

definition sortedTimes ::
  "int \<Rightarrow> int \<Rightarrow> ConfirmedTransfer list \<Rightarrow> LockRecord list \<Rightarrow> int list" where
  "sortedTimes E0 E1 inEpoch locks =
     (let times1 = fold (\<lambda>t. set_add (tr_timestamp t)) inEpoch (set_add E0 []);
          times2 = fold (lockTimes E0 E1) locks times1
      in js_sort int_cmp times2 @ [E1])"

definition bump :: "string \<Rightarrow> int \<Rightarrow> (string \<times> int) list \<Rightarrow> (string \<times> int) list" where
  "bump w v m = (if v \<noteq> 0 then AList.update w (getOr0 m w + v) m else m)"

definition applyTransfer ::
  "(string \<times> int) list \<Rightarrow> ConfirmedTransfer \<Rightarrow> pod_error + (string \<times> int) list" where
  "applyTransfer balances tr =
     rbind
       (if tr_from tr \<noteq> ZERO_ADDRESS
        then let next = getOr0 balances (tr_from tr) - tr_rawAmount tr
             in if next < 0 then fail ''NEGATIVE_BALANCE''
                else Inr (AList.update (tr_from tr) next balances)
        else Inr balances)
       (\<lambda>balances'.
        Inr (if tr_to tr \<noteq> ZERO_ADDRESS
             then AList.update (tr_to tr) (getOr0 balances' (tr_to tr) + tr_rawAmount tr)
                    balances'
             else balances'))"

fun applyAt ::
  "int \<Rightarrow> (string \<times> int) list \<Rightarrow> ConfirmedTransfer list
    \<Rightarrow> pod_error + ((string \<times> int) list \<times> ConfirmedTransfer list)" where
  "applyAt tCur balances [] = Inr (balances, [])"
| "applyAt tCur balances (tr # trs) =
     (if tr_timestamp tr = tCur
      then rbind (applyTransfer balances tr) (\<lambda>balances'. applyAt tCur balances' trs)
      else Inr (balances, tr # trs))"

definition lockedOf :: "(string \<times> (LockTier \<Rightarrow> int)) list \<Rightarrow> string \<Rightarrow> LockTier \<Rightarrow> int" where
  "lockedOf m w = (case map_of m w of None \<Rightarrow> zeroTierRecord | Some r \<Rightarrow> r)"

definition bumpLocked ::
  "string \<Rightarrow> (LockTier \<Rightarrow> int) \<Rightarrow> int \<Rightarrow> LockTier
    \<Rightarrow> (string \<times> (LockTier \<Rightarrow> int)) list \<Rightarrow> (string \<times> (LockTier \<Rightarrow> int)) list" where
  "bumpLocked w active dur tier m =
     (if active tier \<noteq> 0
      then let r = lockedOf m w in AList.update w (r(tier := r tier + active tier * dur)) m
      else m)"

definition accrueWallet ::
  "(string \<times> LockRecord list) list \<Rightarrow> int \<Rightarrow> int \<Rightarrow> TwabState \<Rightarrow> string
    \<Rightarrow> pod_error + TwabState" where
  "accrueWallet locksByWallet tCur dur st w =
     (let bal = getOr0 (tw_balances st) w;
          active = activeLockedByTier (locksOf locksByWallet w) tCur;
          activeTotal = foldl (\<lambda>acc tier. acc + active tier) 0 SUPPORTED_LOCK_TIERS;
          free = bal - activeTotal
      in if free < 0 then fail ''LOCK_EXCEEDS_BALANCE''
         else Inr (st\<lparr>tw_baseSeconds := bump w (bal * dur) (tw_baseSeconds st),
                      tw_unlockedSeconds := bump w (free * dur) (tw_unlockedSeconds st),
                      tw_lockedSeconds := fold (bumpLocked w active dur) SUPPORTED_LOCK_TIERS
                                            (tw_lockedSeconds st)\<rparr>))"

definition accrueSegment ::
  "(string \<times> LockRecord list) list \<Rightarrow> string list \<Rightarrow> int \<Rightarrow> int \<Rightarrow> TwabState
    \<Rightarrow> pod_error + TwabState" where
  "accrueSegment locksByWallet relevant tCur tNext st =
     rbind (applyAt tCur (tw_balances st) (tw_pending st)) (\<lambda>(balances, pending).
       let st' = st\<lparr>tw_balances := balances, tw_pending := pending\<rparr>;
           dur = tNext - tCur
       in if dur \<le> 0 then Inr st'
          else rfold (accrueWallet locksByWallet tCur dur) st' relevant)"

fun integrate ::
  "(string \<times> LockRecord list) list \<Rightarrow> string list \<Rightarrow> TwabState \<Rightarrow> int list
    \<Rightarrow> pod_error + TwabState" where
  "integrate locksByWallet relevant st (tCur # tNext # ts) =
     rbind (accrueSegment locksByWallet relevant tCur tNext st) (\<lambda>st'.
       integrate locksByWallet relevant st' (tNext # ts))"
| "integrate locksByWallet relevant st _ = Inr st"

definition tierWeight ::
  "(LockTier \<Rightarrow> int) \<Rightarrow> (LockTier \<Rightarrow> int) \<times> int \<Rightarrow> LockTier \<Rightarrow> pod_error + (LockTier \<Rightarrow> int) \<times> int"
where
  "tierWeight lockedSec acc tier =
     (let twab = bigint_div (lockedSec tier) EPOCH_SECONDS
      in rbind (mulDivFloor twab (multiplierBps (TIER_SPECS tier)) 10000) (\<lambda>v.
         Inr ((fst acc)(tier := twab), snd acc + v)))"

definition walletWeight :: "TwabState \<Rightarrow> string \<Rightarrow> pod_error + string \<times> WalletWeight" where
  "walletWeight st w =
     (let lockedSec = lockedOf (tw_lockedSeconds st) w;
          unlockedTwab = (case map_of (tw_unlockedSeconds st) w of
                            None \<Rightarrow> 0 | Some v \<Rightarrow> bigint_div v EPOCH_SECONDS)
      in rbind (rfold (tierWeight lockedSec) (zeroTierRecord, unlockedTwab) SUPPORTED_LOCK_TIERS)
           (\<lambda>(lockedTwabByTier, effectiveWeight).
            Inr (w, \<lparr>ww_wallet = w, ww_snapshotBalance = getOr0 (tw_balances st) w,
                     ww_baseTwab = bigint_div (getOr0 (tw_baseSeconds st) w) EPOCH_SECONDS,
                     ww_unlockedTwab = unlockedTwab,
                     ww_lockedTwabByTier = lockedTwabByTier,
                     ww_effectiveWeight = effectiveWeight\<rparr>)))"

definition startBalances :: "EpochStartBalance list \<Rightarrow> (string \<times> int) list" where
  "startBalances epochStartBalances =
     fold (\<lambda>x. AList.update (eb_wallet x) (eb_rawBalance x)) epochStartBalances []"

definition computeWeights ::
  "CycleConfig \<Rightarrow> EpochStartBalance list \<Rightarrow> ConfirmedTransfer list \<Rightarrow> LockRecord list
    \<Rightarrow> pod_error + WeightComputation" where
  "computeWeights cycle epochStartBalances transfers locks =
     (let E0 = cy_epochStart cycle; E1 = cy_epochEnd cycle in
      rbind (canonicalizeTransfers transfers) (\<lambda>deduped.
      let inEpoch = filter (\<lambda>t. tr_timestamp t < E1) deduped;
          relevant = relevantWallets epochStartBalances inEpoch locks;
          st0 = \<lparr>tw_balances = startBalances epochStartBalances, tw_pending = inEpoch,
                 tw_baseSeconds = [], tw_unlockedSeconds = [], tw_lockedSeconds = []\<rparr>
      in rbind (integrate (groupLocks locks) relevant st0 (sortedTimes E0 E1 inEpoch locks)) (\<lambda>st.
         rbind (rmap (walletWeight st) relevant) (\<lambda>weights.
         Inr \<lparr>wc_weights = weights, wc_appliedTransfers = inEpoch\<rparr>))))"

section \<open>What a wallet holds and has locked at one second\<close>

definition delta :: "string \<Rightarrow> ConfirmedTransfer \<Rightarrow> int" where
  "delta w t =
     (if w = ZERO_ADDRESS then 0
      else (if tr_to t = w then tr_rawAmount t else 0) - (if tr_from t = w then tr_rawAmount t else 0))"

definition balance_at ::
  "EpochStartBalance list \<Rightarrow> ConfirmedTransfer list \<Rightarrow> string \<Rightarrow> int \<Rightarrow> int" where
  "balance_at bals trs w t =
     getOr0 (startBalances bals) w + (\<Sum>x\<leftarrow>filter (\<lambda>x. tr_timestamp x \<le> t) trs. delta w x)"

text \<open>A lock earns its tier from its start until it unlocks or is withdrawn, whichever is first.\<close>

definition earns_at :: "LockRecord \<Rightarrow> int \<Rightarrow> bool" where
  "earns_at l t \<longleftrightarrow>
     lk_startTimestamp l \<le> t \<and> t < lk_unlockTimestamp l \<and>
     (case lk_withdrawalTimestamp l of None \<Rightarrow> True | Some v \<Rightarrow> t < v)"

definition locked_at :: "LockRecord list \<Rightarrow> string \<Rightarrow> LockTier \<Rightarrow> int \<Rightarrow> int" where
  "locked_at locks w tier t =
     (\<Sum>l\<leftarrow>filter (\<lambda>l. lk_wallet l = w \<and> lk_tier l = tier \<and> earns_at l t) locks. lk_rawPrincipal l)"

definition locked_total :: "LockRecord list \<Rightarrow> string \<Rightarrow> int \<Rightarrow> int" where
  "locked_total locks w t = (\<Sum>tier\<leftarrow>SUPPORTED_LOCK_TIERS. locked_at locks w tier t)"

definition twab_of :: "CycleConfig \<Rightarrow> (int \<Rightarrow> int) \<Rightarrow> int" where
  "twab_of c f = (\<Sum>t\<in>{cy_epochStart c..<cy_epochEnd c}. f t) div 900"

definition weight_spec ::
  "CycleConfig \<Rightarrow> EpochStartBalance list \<Rightarrow> ConfirmedTransfer list \<Rightarrow> LockRecord list \<Rightarrow> string
    \<Rightarrow> WalletWeight" where
  "weight_spec c bals trs locks w =
     (let unlocked = twab_of c (\<lambda>t. balance_at bals trs w t - locked_total locks w t);
          locked = (\<lambda>tier. twab_of c (locked_at locks w tier))
      in \<lparr>ww_wallet = w,
          ww_snapshotBalance = balance_at bals trs w (cy_epochEnd c),
          ww_baseTwab = twab_of c (balance_at bals trs w),
          ww_unlockedTwab = unlocked,
          ww_lockedTwabByTier = locked,
          ww_effectiveWeight = unlocked +
            (\<Sum>tier\<leftarrow>SUPPORTED_LOCK_TIERS. locked tier * multiplierBps (TIER_SPECS tier) div 10000)\<rparr>)"

section \<open>Each step of the computation\<close>

lemma earns_at_bonusEnd: "earns_at l t \<longleftrightarrow> lk_startTimestamp l \<le> t \<and> t < bonusEnd l"
  by (auto simp: earns_at_def bonusEnd_def split: option.splits)

lemma locked_at_bonusEnd:
  "locked_at locks w tier t =
     (\<Sum>l\<leftarrow>filter (\<lambda>l. lk_wallet l = w \<and> lk_tier l = tier \<and>
                       lk_startTimestamp l \<le> t \<and> t < bonusEnd l) locks. lk_rawPrincipal l)"
  by (simp add: locked_at_def earns_at_bonusEnd)

lemma activeLockedByTier_sum:
  "activeLockedByTier locks t tier =
   (\<Sum>l\<leftarrow>filter (\<lambda>l. lk_tier l = tier \<and> lk_startTimestamp l \<le> t \<and> t < bonusEnd l) locks.
      lk_rawPrincipal l)"
proof -
  have "fold (\<lambda>l out. if lk_startTimestamp l \<le> t \<and> t < bonusEnd l
                   then out(lk_tier l := out (lk_tier l) + lk_rawPrincipal l) else out) locks out tier
    = out tier + (\<Sum>l\<leftarrow>filter (\<lambda>l. lk_tier l = tier \<and> lk_startTimestamp l \<le> t \<and> t < bonusEnd l) locks.
      lk_rawPrincipal l)" for out
    by (induction locks arbitrary: out) auto
  then show ?thesis by (simp add: activeLockedByTier_def zeroTierRecord_def)
qed

lemma locksOf_groupLocks: "locksOf (groupLocks locks) w = filter (\<lambda>l. lk_wallet l = w) locks"
proof -
  have "locksOf (fold (\<lambda>l m. AList.update (lk_wallet l)
             ((case map_of m (lk_wallet l) of None \<Rightarrow> [] | Some ls \<Rightarrow> ls) @ [l]) m) locks m) w
    = locksOf m w @ filter (\<lambda>l. lk_wallet l = w) locks" for m
    by (induction locks arbitrary: m) (auto simp: locksOf_def update_conv')
  then show ?thesis by (simp add: groupLocks_def locksOf_def)
qed

lemma active_is_locked_at:
  "activeLockedByTier (locksOf (groupLocks locks) w) t tier = locked_at locks w tier t"
  by (simp add: activeLockedByTier_sum locksOf_groupLocks locked_at_bonusEnd conj_ac)

lemma active_is_locked:
  "activeLockedByTier (locksOf (groupLocks locks) w) t = (\<lambda>tier. locked_at locks w tier t)"
  by (rule ext) (rule active_is_locked_at)

lemma getd_bump [simp]:
  "getOr0 (bump w v m) w' = getOr0 m w' + (if w' = w then v else 0)"
  by (auto simp: bump_def jsmap.getd_put)

lemma lockedOf_bumpLocked [simp]:
  "lockedOf (bumpLocked w active dur tier m) w' tier' =
   lockedOf m w' tier' + (if w' = w \<and> tier' = tier then active tier * dur else 0)"
  by (auto simp: bumpLocked_def Let_def lockedOf_def update_conv')

lemma lockedOf_bumps:
  "lockedOf (fold (bumpLocked w active dur) SUPPORTED_LOCK_TIERS m) w' tier =
   lockedOf m w' tier + (if w' = w then active tier * dur else 0)"
  by (cases tier) (simp_all add: SUPPORTED_LOCK_TIERS_def)

lemma startTotal: "foldl (\<lambda>acc tier. acc + f tier) 0 SUPPORTED_LOCK_TIERS =
    (\<Sum>tier\<leftarrow>SUPPORTED_LOCK_TIERS. f tier :: int)"
  by (simp add: SUPPORTED_LOCK_TIERS_def)

lemma applyTransfer_effect:
  assumes "applyTransfer m tr = Inr m'"
  shows "getOr0 m' w = getOr0 m w + delta w tr"
  using assms
  by (auto simp: applyTransfer_def Let_def rbind_eq_Inr jsmap.getd_put delta_def split: if_splits)

lemma applyAt_effect:
  assumes "applyAt t m trs = Inr (m', rest)"
  shows "\<exists>dn. trs = dn @ rest \<and> (\<forall>x\<in>set dn. tr_timestamp x = t) \<and>
           (rest \<noteq> [] \<longrightarrow> tr_timestamp (hd rest) \<noteq> t) \<and>
           (\<forall>w. getOr0 m' w = getOr0 m w + (\<Sum>x\<leftarrow>dn. delta w x))"
  using assms
proof (induction t m trs rule: applyAt.induct)
  case (2 t m tr trs)
  show ?case
  proof (cases "tr_timestamp tr = t")
    case True
    with "2.prems" obtain m1 where m1: "applyTransfer m tr = Inr m1" "applyAt t m1 trs = Inr (m', rest)"
      by (auto simp: rbind_eq_Inr)
    with "2.IH" [OF True m1(2)] obtain dn where "trs = dn @ rest"
      "\<forall>x\<in>set dn. tr_timestamp x = t" "rest \<noteq> [] \<longrightarrow> tr_timestamp (hd rest) \<noteq> t"
      "\<forall>w. getOr0 m' w = getOr0 m1 w + (\<Sum>x\<leftarrow>dn. delta w x)" by auto
    with True applyTransfer_effect [OF m1(1)] show ?thesis
      by (intro exI [of _ "tr # dn"]) auto
  next
    case False
    with "2.prems" show ?thesis by auto
  qed
qed simp

text \<open>\<open>gained\<close>: by how much the three accumulators of every wallet grew.\<close>

definition gained ::
  "TwabState \<Rightarrow> TwabState \<Rightarrow> (string \<Rightarrow> int) \<Rightarrow> (string \<Rightarrow> int) \<Rightarrow> (string \<Rightarrow> LockTier \<Rightarrow> int) \<Rightarrow> bool"
where
  "gained st st' B U L \<longleftrightarrow>
     (\<forall>v. getOr0 (tw_baseSeconds st') v = getOr0 (tw_baseSeconds st) v + B v \<and>
          getOr0 (tw_unlockedSeconds st') v = getOr0 (tw_unlockedSeconds st) v + U v \<and>
          (\<forall>tier. lockedOf (tw_lockedSeconds st') v tier =
                  lockedOf (tw_lockedSeconds st) v tier + L v tier))"

lemma gained_refl: "gained st st (\<lambda>_. 0) (\<lambda>_. 0) (\<lambda>_ _. 0)"
  by (simp add: gained_def)

lemma gained_trans:
  assumes "gained st st1 B U L" "gained st1 st2 B' U' L'"
    and "\<And>v. B'' v = B v + B' v" "\<And>v. U'' v = U v + U' v" "\<And>v tier. L'' v tier = L v tier + L' v tier"
  shows "gained st st2 B'' U'' L''"
  using assms by (simp add: gained_def)

lemma accrueWallet_effect:
  assumes "accrueWallet (groupLocks locks) t dur st w = Inr st'"
    and "getOr0 (tw_balances st) w = bal"
  shows "tw_balances st' = tw_balances st \<and> tw_pending st' = tw_pending st \<and>
    locked_total locks w t \<le> bal \<and>
    gained st st' (\<lambda>v. if v = w then bal * dur else 0)
      (\<lambda>v. if v = w then (bal - locked_total locks w t) * dur else 0)
      (\<lambda>v tier. if v = w then locked_at locks w tier t * dur else 0)"
  using assms
  by (auto simp: accrueWallet_def Let_def gained_def startTotal lockedOf_bumps active_is_locked
      locked_total_def)

lemma accrueWallets_effect:
  assumes "rfold (accrueWallet (groupLocks locks) t dur) st ws = Inr st'" and "distinct ws"
    and "\<And>w. w \<in> set ws \<Longrightarrow> getOr0 (tw_balances st) w = F w"
  shows "tw_balances st' = tw_balances st \<and> tw_pending st' = tw_pending st \<and>
    (\<forall>w\<in>set ws. locked_total locks w t \<le> F w) \<and>
    gained st st' (\<lambda>v. if v \<in> set ws then F v * dur else 0)
      (\<lambda>v. if v \<in> set ws then (F v - locked_total locks v t) * dur else 0)
      (\<lambda>v tier. if v \<in> set ws then locked_at locks v tier t * dur else 0)"
  using assms
proof (induction ws arbitrary: st)
  case Nil
  then show ?case by (simp add: gained_def)
next
  case (Cons w ws)
  then obtain s1 where s1: "accrueWallet (groupLocks locks) t dur st w = Inr s1"
    and rest: "rfold (accrueWallet (groupLocks locks) t dur) s1 ws = Inr st'"
    by (auto simp: rbind_eq_Inr)
  note e1 = accrueWallet_effect [OF s1 Cons.prems(3) [of w], simplified]
  have bal: "getOr0 (tw_balances s1) v = F v" if "v \<in> set ws" for v
    using e1 Cons.prems(3) that by simp
  note e2 = Cons.IH [OF rest _ bal]
  have "gained st st' (\<lambda>v. if v \<in> set (w # ws) then F v * dur else 0)
      (\<lambda>v. if v \<in> set (w # ws) then (F v - locked_total locks v t) * dur else 0)
      (\<lambda>v tier. if v \<in> set (w # ws) then locked_at locks v tier t * dur else 0)"
    by (rule gained_trans [OF conjunct2 [OF conjunct2 [OF conjunct2 [OF e1]]]])
      (use e2 Cons.prems(2) in \<open>auto\<close>)
  with e1 e2 Cons.prems(2) show ?case by auto
qed

section \<open>The loop over the breakpoints\<close>

definition synced ::
  "EpochStartBalance list \<Rightarrow> ConfirmedTransfer list \<Rightarrow> TwabState \<Rightarrow> int \<Rightarrow> bool" where
  "synced bals trs st t \<longleftrightarrow>
     tw_pending st = filter (\<lambda>x. t \<le> tr_timestamp x) trs \<and>
     (\<forall>w. getOr0 (tw_balances st) w = getOr0 (startBalances bals) w +
            (\<Sum>x\<leftarrow>filter (\<lambda>x. tr_timestamp x < t) trs. delta w x))"

fun pair_sum :: "(int \<Rightarrow> int) \<Rightarrow> int list \<Rightarrow> int" where
  "pair_sum f (a # c # ts) = f a * (c - a) + pair_sum f (c # ts)"
| "pair_sum f _ = 0"

lemma applyAt_filter:
  assumes "applyAt t m (filter (\<lambda>x. t \<le> tr_timestamp x) trs) = Inr (m', rest)"
    and "sorted (map tr_timestamp trs)"
  shows "rest = filter (\<lambda>x. t < tr_timestamp x) trs \<and>
    (\<forall>w. getOr0 m' w = getOr0 m w + (\<Sum>x\<leftarrow>filter (\<lambda>x. tr_timestamp x = t) trs. delta w x))"
proof -
  let ?p = "filter (\<lambda>x. t \<le> tr_timestamp x) trs"
  obtain dn where dn: "?p = dn @ rest" "\<forall>x\<in>set dn. tr_timestamp x = t"
    "rest \<noteq> [] \<longrightarrow> tr_timestamp (hd rest) \<noteq> t"
    "\<forall>w. getOr0 m' w = getOr0 m w + (\<Sum>x\<leftarrow>dn. delta w x)"
    using applyAt_effect [OF assms(1)] by auto
  have "sorted (map tr_timestamp ?p)" using assms(2) by (rule sorted_filter)
  then have srt: "sorted (map tr_timestamp rest)" unfolding dn(1) by (simp add: sorted_append)
  have "set rest \<subseteq> set ?p" using dn(1) by auto
  then have ge: "\<forall>x\<in>set rest. t \<le> tr_timestamp x" by auto
  have gt: "\<forall>x\<in>set rest. t < tr_timestamp x"
  proof (cases rest)
    case (Cons y ys)
    then have "t < tr_timestamp y" using dn(3) ge by auto
    then show ?thesis using srt Cons by fastforce
  qed simp
  have "filter (\<lambda>x. t < tr_timestamp x) ?p = rest"
    unfolding dn(1) using dn(2) gt by (simp add: filter_id_conv)
  moreover have "filter (\<lambda>x. tr_timestamp x = t) ?p = dn"
    unfolding dn(1) using dn(2) gt by (auto simp: filter_id_conv filter_empty_conv)
  moreover have "filter (\<lambda>x. t < tr_timestamp x) ?p = filter (\<lambda>x. t < tr_timestamp x) trs"
    "filter (\<lambda>x. tr_timestamp x = t) ?p = filter (\<lambda>x. tr_timestamp x = t) trs"
    by (auto intro: filter_cong)
  ultimately show ?thesis using dn(4) by simp
qed

lemma sum_filter_split:
  "(\<Sum>x\<leftarrow>filter (\<lambda>x. f x < (t::int)) xs. g x :: int) + (\<Sum>x\<leftarrow>filter (\<lambda>x. f x = t) xs. g x) =
   (\<Sum>x\<leftarrow>filter (\<lambda>x. f x \<le> t) xs. g x)"
  by (induction xs) auto

lemma accrueSegment_effect:
  assumes "accrueSegment (groupLocks locks) ws a c st = Inr st'"
    and syn: "synced bals trs st a" and srt: "sorted (map tr_timestamp trs)" and "distinct ws"
    and ac: "a < c" and gap: "\<forall>x\<in>set trs. \<not> (a < tr_timestamp x \<and> tr_timestamp x < c)"
  shows "synced bals trs st' c \<and>
    (\<forall>w\<in>set ws. locked_total locks w a \<le> balance_at bals trs w a) \<and>
    gained st st' (\<lambda>v. if v \<in> set ws then balance_at bals trs v a * (c - a) else 0)
      (\<lambda>v. if v \<in> set ws then (balance_at bals trs v a - locked_total locks v a) * (c - a) else 0)
      (\<lambda>v tier. if v \<in> set ws then locked_at locks v tier a * (c - a) else 0)"
proof -
  obtain m p where ap: "applyAt a (tw_balances st) (tw_pending st) = Inr (m, p)"
    and acc: "rfold (accrueWallet (groupLocks locks) a (c - a))
        (st\<lparr>tw_balances := m, tw_pending := p\<rparr>) ws = Inr st'"
    using assms(1) ac by (auto simp: accrueSegment_def rbind_eq_Inr Let_def)
  have p: "p = filter (\<lambda>x. a < tr_timestamp x) trs" and m: "\<And>w. getOr0 m w =
      getOr0 (tw_balances st) w + (\<Sum>x\<leftarrow>filter (\<lambda>x. tr_timestamp x = a) trs. delta w x)"
    using applyAt_filter [OF _ srt] ap syn by (simp_all add: synced_def)
  have bal: "getOr0 m w = balance_at bals trs w a" for w
    using syn m sum_filter_split [of "delta w" tr_timestamp a trs]
    by (simp add: synced_def balance_at_def)
  have "p = filter (\<lambda>x. c \<le> tr_timestamp x) trs"
    unfolding p by (rule filter_cong) (use gap ac in \<open>auto simp: not_less\<close>)
  moreover have "filter (\<lambda>x. tr_timestamp x \<le> a) trs = filter (\<lambda>x. tr_timestamp x < c) trs"
    by (rule filter_cong) (use gap ac in \<open>auto simp: not_less\<close>)
  moreover note accrueWallets_effect [OF acc \<open>distinct ws\<close>, of "\<lambda>w. balance_at bals trs w a"]
  ultimately show ?thesis
    using bal by (simp add: synced_def balance_at_def gained_def)
qed

lemma integrate_effect:
  assumes "integrate (groupLocks locks) ws st ts = Inr st'"
    and "sorted_wrt (<) ts" and "ts \<noteq> []"
    and "synced bals trs st (hd ts)"
    and "sorted (map tr_timestamp trs)" and "distinct ws"
    and "\<forall>x\<in>set trs. hd ts \<le> tr_timestamp x \<longrightarrow> tr_timestamp x \<in> set ts"
  shows "synced bals trs st' (last ts) \<and>
    (\<forall>t\<in>set (butlast ts). \<forall>w\<in>set ws. locked_total locks w t \<le> balance_at bals trs w t) \<and>
    gained st st' (\<lambda>v. if v \<in> set ws then pair_sum (balance_at bals trs v) ts else 0)
      (\<lambda>v. if v \<in> set ws then pair_sum (\<lambda>t. balance_at bals trs v t - locked_total locks v t) ts else 0)
      (\<lambda>v tier. if v \<in> set ws then pair_sum (locked_at locks v tier) ts else 0)"
  using assms
proof (induction "groupLocks locks" ws st ts rule: integrate.induct)
  case (1 ws st a c ts)
  then obtain s1 where s1: "accrueSegment (groupLocks locks) ws a c st = Inr s1"
    and rest: "integrate (groupLocks locks) ws s1 (c # ts) = Inr st'"
    by (auto simp: rbind_eq_Inr)
  have gap: "\<forall>x\<in>set trs. \<not> (a < tr_timestamp x \<and> tr_timestamp x < c)"
    using "1.prems"(2,7) by fastforce
  have "synced bals trs st a" "a < c" using "1.prems"(2,4) by auto
  note seg = accrueSegment_effect [OF s1 this(1) "1.prems"(5,6) this(2) gap]
  have c: "\<forall>x\<in>set trs. hd (c # ts) \<le> tr_timestamp x \<longrightarrow> tr_timestamp x \<in> set (c # ts)"
    using "1.prems"(7) \<open>a < c\<close> by auto
  note IH = "1.hyps" [OF rest]
  have ih: "synced bals trs st' (last (c # ts)) \<and>
    (\<forall>t\<in>set (butlast (c # ts)). \<forall>w\<in>set ws. locked_total locks w t \<le> balance_at bals trs w t) \<and>
    gained s1 st' (\<lambda>v. if v \<in> set ws then pair_sum (balance_at bals trs v) (c # ts) else 0)
      (\<lambda>v. if v \<in> set ws
           then pair_sum (\<lambda>t. balance_at bals trs v t - locked_total locks v t) (c # ts) else 0)
      (\<lambda>v tier. if v \<in> set ws then pair_sum (locked_at locks v tier) (c # ts) else 0)"
    by (rule IH) (use "1.prems" seg c in auto)
  have "gained st st' (\<lambda>v. if v \<in> set ws then pair_sum (balance_at bals trs v) (a # c # ts) else 0)
      (\<lambda>v. if v \<in> set ws
           then pair_sum (\<lambda>t. balance_at bals trs v t - locked_total locks v t) (a # c # ts) else 0)
      (\<lambda>v tier. if v \<in> set ws then pair_sum (locked_at locks v tier) (a # c # ts) else 0)"
    by (rule gained_trans [OF conjunct2 [OF conjunct2 [OF seg]] conjunct2 [OF conjunct2 [OF ih]]]) auto
  with ih seg show ?case by auto
qed (simp_all add: gained_def)

lemma pair_sum_integral:
  assumes "sorted_wrt (<) ts" and "ts \<noteq> []"
    and "\<And>a t. a \<in> set ts \<Longrightarrow> a \<le> t \<Longrightarrow> t < last ts \<Longrightarrow> \<forall>c\<in>set ts. \<not> (a < c \<and> c \<le> t) \<Longrightarrow> f t = f a"
  shows "pair_sum f ts = (\<Sum>t\<in>{hd ts..<last ts}. f t)"
  using assms
proof (induction f ts rule: pair_sum.induct)
  case (1 f a c ts)
  have le: "c \<le> last (c # ts)"
    using "1.prems"(1) by (cases ts rule: rev_cases) auto
  have ac: "a < c" using "1.prems"(1) by simp
  have IH: "pair_sum f (c # ts) = (\<Sum>t\<in>{c..<last (c # ts)}. f t)"
  proof -
    have "pair_sum f (c # ts) = (\<Sum>t\<in>{hd (c # ts)..<last (c # ts)}. f t)"
    proof (rule "1.IH")
      fix x t
      assume x: "x \<in> set (c # ts)" "x \<le> t" "t < last (c # ts)" "\<forall>d\<in>set (c # ts). \<not> (x < d \<and> d \<le> t)"
      moreover have "a < x" using x(1) "1.prems"(1) by auto
      ultimately show "f t = f x" by (intro "1.prems"(3)) auto
    qed (use "1.prems" in auto)
    then show ?thesis by simp
  qed
  have const: "f t = f a" if "a \<le> t" "t < c" for t
  proof (rule "1.prems"(3))
    show "t < last (a # c # ts)" using that le by simp
    show "\<forall>d\<in>set (a # c # ts). \<not> (a < d \<and> d \<le> t)"
      using "1.prems"(1) that by fastforce
  qed (use that in auto)
  have "(\<Sum>t\<in>{a..<c}. f t) = (\<Sum>t\<in>{a..<c}. f a)"
    by (rule sum.cong) (auto intro: const)
  also have "\<dots> = f a * (c - a)" using ac by simp
  finally have first: "(\<Sum>t\<in>{a..<c}. f t) = f a * (c - a)" .
  have "{a..<last (c # ts)} = {a..<c} \<union> {c..<last (c # ts)}" using ac le by auto
  then have "(\<Sum>t\<in>{a..<last (c # ts)}. f t) = (\<Sum>t\<in>{a..<c}. f t) + (\<Sum>t\<in>{c..<last (c # ts)}. f t)"
    by (simp add: sum.union_disjoint ivl_disj_int)
  with IH first show ?case by simp
qed simp_all

section \<open>The breakpoints\<close>

definition changeTimes :: "LockRecord \<Rightarrow> int set" where
  "changeTimes l =
     {lk_startTimestamp l, lk_unlockTimestamp l, bonusEnd l} \<union> set_option (lk_withdrawalTimestamp l)"

lemma set_lockTimes [simp]:
  "set (lockTimes E0 E1 l ts) = set ts \<union> {t \<in> changeTimes l. E0 < t \<and> t < E1}"
  by (auto simp: lockTimes_def changeTimes_def Let_def split: option.splits)

lemma distinct_lockTimes [simp]: "distinct (lockTimes E0 E1 l ts) = distinct ts"
  by (auto simp: lockTimes_def Let_def split: option.splits)

lemma set_fold_lockTimes:
  "set (fold (lockTimes E0 E1) locks ts) = set ts \<union> {t \<in> \<Union>(changeTimes ` set locks). E0 < t \<and> t < E1}"
  by (induction locks arbitrary: ts) auto

lemma distinct_fold_lockTimes [simp]: "distinct (fold (lockTimes E0 E1) locks ts) = distinct ts"
  by (induction locks arbitrary: ts) auto

lemma set_fold_times:
  "set (fold (\<lambda>t. set_add (f t)) xs ts) = f ` set xs \<union> set ts"
  "distinct (fold (\<lambda>t. set_add (f t)) xs ts) = distinct ts"
  by (induction xs arbitrary: ts) auto

lemma sortedTimes_props:
  assumes "E0 < E1" and "\<forall>x\<in>set trs. E0 \<le> tr_timestamp x \<and> tr_timestamp x < E1"
  shows "set (sortedTimes E0 E1 trs locks) = {E0, E1} \<union> tr_timestamp ` set trs \<union>
           {t \<in> \<Union>(changeTimes ` set locks). E0 < t \<and> t < E1}"
    and "sorted_wrt (<) (sortedTimes E0 E1 trs locks)"
    and "hd (sortedTimes E0 E1 trs locks) = E0" and "last (sortedTimes E0 E1 trs locks) = E1"
    and "sortedTimes E0 E1 trs locks \<noteq> []"
proof -
  let ?ts = "fold (lockTimes E0 E1) locks (fold (\<lambda>t. set_add (tr_timestamp t)) trs (set_add E0 []))"
  let ?s = "js_sort int_cmp ?ts"
  have st: "sortedTimes E0 E1 trs locks = ?s @ [E1]" by (simp add: sortedTimes_def Let_def)
  have set_ts: "set ?ts = {E0} \<union> tr_timestamp ` set trs \<union>
      {t \<in> \<Union>(changeTimes ` set locks). E0 < t \<and> t < E1}"
    by (auto simp: set_fold_lockTimes set_fold_times)
  have dist: "distinct ?s" by (simp add: set_fold_times)
  have "sorted ?s" by (rule sorted_int_sort)
  with dist have strict: "sorted_wrt (<) ?s" by (simp add: strict_sorted_iff)
  have lt: "\<forall>t\<in>set ?s. E0 \<le> t \<and> t < E1" using set_ts assms by auto
  show "set (sortedTimes E0 E1 trs locks) = {E0, E1} \<union> tr_timestamp ` set trs \<union>
           {t \<in> \<Union>(changeTimes ` set locks). E0 < t \<and> t < E1}"
    unfolding st using set_ts by auto
  show "sorted_wrt (<) (sortedTimes E0 E1 trs locks)"
    unfolding st using strict lt by (auto simp: sorted_wrt_append)
  have "E0 \<in> set ?s" using set_ts by simp
  then show "hd (sortedTimes E0 E1 trs locks) = E0"
    unfolding st using strict lt by (cases ?s) auto
  show "last (sortedTimes E0 E1 trs locks) = E1" "sortedTimes E0 E1 trs locks \<noteq> []"
    unfolding st by simp_all
qed

lemma locked_at_const:
  assumes "a \<le> t" and "\<forall>c\<in>\<Union>(changeTimes ` set locks). \<not> (a < c \<and> c \<le> t)"
  shows "locked_at locks w tier t = locked_at locks w tier a"
proof -
  have "filter (\<lambda>l. lk_wallet l = w \<and> lk_tier l = tier \<and> lk_startTimestamp l \<le> t \<and> t < bonusEnd l) locks
      = filter (\<lambda>l. lk_wallet l = w \<and> lk_tier l = tier \<and> lk_startTimestamp l \<le> a \<and> a < bonusEnd l) locks"
  proof (rule filter_cong)
    fix l assume "l \<in> set locks"
    then have "\<not> (a < lk_startTimestamp l \<and> lk_startTimestamp l \<le> t)" "\<not> (a < bonusEnd l \<and> bonusEnd l \<le> t)"
      using assms(2) by (auto simp: changeTimes_def)
    then show "(lk_wallet l = w \<and> lk_tier l = tier \<and> lk_startTimestamp l \<le> t \<and> t < bonusEnd l) =
        (lk_wallet l = w \<and> lk_tier l = tier \<and> lk_startTimestamp l \<le> a \<and> a < bonusEnd l)"
      using assms(1) by auto
  qed simp
  then show ?thesis by (simp add: locked_at_bonusEnd)
qed

lemma balance_at_const:
  assumes "a \<le> t" and "\<forall>x\<in>set trs. \<not> (a < tr_timestamp x \<and> tr_timestamp x \<le> t)"
  shows "balance_at bals trs w t = balance_at bals trs w a"
proof -
  have "filter (\<lambda>x. tr_timestamp x \<le> t) trs = filter (\<lambda>x. tr_timestamp x \<le> a) trs"
    by (rule filter_cong) (use assms in auto)
  then show ?thesis by (simp add: balance_at_def)
qed

lemma distinct_relevantWallets [simp]: "distinct (relevantWallets bals trs locks)"
proof -
  have "distinct (fold (\<lambda>t r. let r' = (if tr_from t \<noteq> ZERO_ADDRESS then set_add (tr_from t) r else r)
                           in if tr_to t \<noteq> ZERO_ADDRESS then set_add (tr_to t) r' else r') trs r)
        = distinct r" for r
    by (induction trs arbitrary: r) (auto simp: Let_def)
  then show ?thesis by (simp add: relevantWallets_def Let_def set_fold_times)
qed

section \<open>The weights\<close>

lemma rfold_tierWeight:
  assumes "\<And>tier. 0 \<le> sec tier"
  shows "rfold (tierWeight sec) (zeroTierRecord, u) SUPPORTED_LOCK_TIERS =
    Inr (\<lambda>tier. sec tier div 900,
         u + (\<Sum>tier\<leftarrow>SUPPORTED_LOCK_TIERS. sec tier div 900 * multiplierBps (TIER_SPECS tier) div 10000))"
proof -
  have "tierWeight sec acc tier =
      Inr ((fst acc)(tier := sec tier div 900),
           snd acc + sec tier div 900 * multiplierBps (TIER_SPECS tier) div 10000)" for acc tier
  proof -
    have "0 \<le> multiplierBps (TIER_SPECS tier)" using multiplier_bounds(1) [of tier] by simp
    then show ?thesis
      using assms [of tier]
      by (simp add: tierWeight_def Let_def EPOCH_SECONDS_def mulDivFloor_nonneg pos_imp_zdiv_nonneg_iff)
  qed
  then show ?thesis
    by (simp add: SUPPORTED_LOCK_TIERS_def zeroTierRecord_def fun_eq_iff) (metis LockTier.exhaust)
qed

lemma walletWeight_value:
  assumes "\<And>tier. 0 \<le> lockedOf (tw_lockedSeconds st) w tier"
    and "0 \<le> getOr0 (tw_unlockedSeconds st) w" and "0 \<le> getOr0 (tw_baseSeconds st) w"
  shows "walletWeight st w = Inr (w,
    \<lparr>ww_wallet = w, ww_snapshotBalance = getOr0 (tw_balances st) w,
     ww_baseTwab = getOr0 (tw_baseSeconds st) w div 900,
     ww_unlockedTwab = getOr0 (tw_unlockedSeconds st) w div 900,
     ww_lockedTwabByTier = (\<lambda>tier. lockedOf (tw_lockedSeconds st) w tier div 900),
     ww_effectiveWeight = getOr0 (tw_unlockedSeconds st) w div 900 +
       (\<Sum>tier\<leftarrow>SUPPORTED_LOCK_TIERS.
          lockedOf (tw_lockedSeconds st) w tier div 900 * multiplierBps (TIER_SPECS tier) div 10000)\<rparr>)"
proof -
  have "(case map_of (tw_unlockedSeconds st) w of None \<Rightarrow> 0 | Some v \<Rightarrow> bigint_div v EPOCH_SECONDS)
      = getOr0 (tw_unlockedSeconds st) w div 900"
    using assms(2) by (auto simp: getOr0_def EPOCH_SECONDS_def split: option.splits)
  with assms show ?thesis
    by (simp add: walletWeight_def Let_def rfold_tierWeight EPOCH_SECONDS_def)
qed

lemma locked_at_nonneg:
  "\<forall>l\<in>set locks. 0 \<le> lk_rawPrincipal l \<Longrightarrow> 0 \<le> locked_at locks w tier t"
  by (auto simp: locked_at_def intro!: sum_list_nonneg)

lemma rmap_pure: "(\<And>x. x \<in> set xs \<Longrightarrow> f x = Inr (g x)) \<Longrightarrow> rmap f xs = Inr (map g xs)"
  by (induction xs) auto

text \<open>
  The inputs \<open>validate.ts\<close> lets through, as far as this computation relies on them: a
  900-second epoch, no transfer before it, no negative principal.
\<close>

definition twab_input ::
  "CycleConfig \<Rightarrow> ConfirmedTransfer list \<Rightarrow> LockRecord list \<Rightarrow> bool" where
  "twab_input c trs locks \<longleftrightarrow>
     cy_epochEnd c = cy_epochStart c + 900 \<and>
     (\<forall>t\<in>set trs. cy_epochStart c \<le> tr_timestamp t) \<and>
     (\<forall>l\<in>set locks. 0 \<le> lk_rawPrincipal l)"

lemma fixture_wf_twab_input:
  "fixture_wf f \<Longrightarrow> twab_input (fx_cycle f) (fx_transfers f) (fx_locks f)"
  by (auto simp: fixture_wf_def twab_input_def cycle_wf_def epochStartOf_def epochEndOf_def
      EPOCH_SECONDS_def list_all_iff transfer_wf_def lock_wf_def)

lemma computeWeights_eq_Inr:
  "computeWeights c bals trs locks = Inr wc \<longleftrightarrow>
   (\<exists>deduped st. canonicalizeTransfers trs = Inr deduped \<and>
      wc_appliedTransfers wc = filter (\<lambda>t. tr_timestamp t < cy_epochEnd c) deduped \<and>
      integrate (groupLocks locks) (relevantWallets bals (wc_appliedTransfers wc) locks)
        \<lparr>tw_balances = startBalances bals, tw_pending = wc_appliedTransfers wc,
         tw_baseSeconds = [], tw_unlockedSeconds = [], tw_lockedSeconds = []\<rparr>
        (sortedTimes (cy_epochStart c) (cy_epochEnd c) (wc_appliedTransfers wc) locks) = Inr st \<and>
      rmap (walletWeight st) (relevantWallets bals (wc_appliedTransfers wc) locks) =
        Inr (wc_weights wc))"
  by (cases wc) (auto simp: computeWeights_def Let_def rbind_eq_Inr)

lemma integral_balance:
  assumes "E0 < E1" and "\<forall>x\<in>set trs. E0 \<le> tr_timestamp x \<and> tr_timestamp x < E1"
    and f: "f = balance_at bals trs w \<or> f = locked_at locks w tier \<or>
      f = (\<lambda>t. balance_at bals trs w t - locked_total locks w t)"
  shows "pair_sum f (sortedTimes E0 E1 trs locks) = (\<Sum>t\<in>{E0..<E1}. f t)"
proof -
  note props = sortedTimes_props [OF assms(1,2), of locks]
  have const: "balance_at bals trs w t = balance_at bals trs w a"
    "\<And>tier. locked_at locks w tier t = locked_at locks w tier a"
    if a: "a \<in> set (sortedTimes E0 E1 trs locks)" and at: "a \<le> t" "t < E1"
      and none: "\<forall>c\<in>set (sortedTimes E0 E1 trs locks). \<not> (a < c \<and> c \<le> t)" for a t
  proof -
    have "E0 \<le> a" using a assms props(1) by auto
    then show "balance_at bals trs w t = balance_at bals trs w a"
      "\<And>tier. locked_at locks w tier t = locked_at locks w tier a"
      using at none props(1) by (auto intro!: balance_at_const locked_at_const)
  qed
  have "pair_sum f (sortedTimes E0 E1 trs locks) =
      (\<Sum>t\<in>{hd (sortedTimes E0 E1 trs locks)..<last (sortedTimes E0 E1 trs locks)}. f t)"
  proof (rule pair_sum_integral [OF props(2,5)])
    fix a t
    assume h: "a \<in> set (sortedTimes E0 E1 trs locks)" "a \<le> t" "t < last (sortedTimes E0 E1 trs locks)"
      "\<forall>c\<in>set (sortedTimes E0 E1 trs locks). \<not> (a < c \<and> c \<le> t)"
    have "t < E1" using h(3) props(4) by simp
    from f show "f t = f a"
      using const [OF h(1,2) \<open>t < E1\<close> h(4)] by (elim disjE) (simp_all only: locked_total_def)
  qed
  then show ?thesis using props(3,4) by simp
qed

lemma breakpoint_below:
  assumes "sorted_wrt (<) ts" and "ts \<noteq> []" and "hd ts \<le> t" and "t < last ts"
  shows "\<exists>a\<in>set (butlast ts). a \<le> t \<and> (\<forall>c\<in>set ts. \<not> (a < c \<and> c \<le> (t::int)))"
  using assms
proof (induction ts)
  case (Cons a ts)
  show ?case
  proof (cases ts)
    case (Cons c ts')
    show ?thesis
    proof (cases "c \<le> t")
      case True
      then have "\<exists>x\<in>set (butlast ts). x \<le> t \<and> (\<forall>d\<in>set ts. \<not> (x < d \<and> d \<le> t))"
        using Cons.IH Cons.prems Cons by auto
      moreover have "\<forall>x\<in>set (butlast ts). a < x"
        using Cons.prems(1) by (auto dest: in_set_butlastD)
      ultimately show ?thesis using Cons by fastforce
    next
      case False
      with Cons.prems Cons show ?thesis by (intro bexI [of _ a]) auto
    qed
  qed (use Cons.prems in auto)
qed simp

lemma computeWeights_run:
  assumes ok: "computeWeights c bals trs locks = Inr wc" and input: "twab_input c trs locks"
  defines "E0 \<equiv> cy_epochStart c" and "E1 \<equiv> cy_epochEnd c" and "applied \<equiv> wc_appliedTransfers wc"
  defines "ws \<equiv> relevantWallets bals applied locks"
  shows "wc_weights wc = map (\<lambda>w. (w, weight_spec c bals applied locks w)) ws \<and>
    (\<forall>w\<in>set ws. \<forall>t\<in>{E0..<E1}. locked_total locks w t \<le> balance_at bals applied w t)"
proof -
  obtain deduped st where dd: "canonicalizeTransfers trs = Inr deduped"
    and app: "applied = filter (\<lambda>t. tr_timestamp t < E1) deduped"
    and int: "integrate (groupLocks locks) ws
        \<lparr>tw_balances = startBalances bals, tw_pending = applied,
         tw_baseSeconds = [], tw_unlockedSeconds = [], tw_lockedSeconds = []\<rparr>
        (sortedTimes E0 E1 applied locks) = Inr st"
    and wts: "rmap (walletWeight st) ws = Inr (wc_weights wc)"
    using ok unfolding computeWeights_eq_Inr E0_def E1_def applied_def ws_def by blast
  have E: "E0 < E1" and dur: "{E0..<E1} = {cy_epochStart c..<cy_epochEnd c}"
    using input by (simp_all add: twab_input_def E0_def E1_def)
  have inE: "\<forall>x\<in>set applied. E0 \<le> tr_timestamp x \<and> tr_timestamp x < E1"
    using canonicalizeTransfers_canonical(2) [OF dd] input app by (auto simp: twab_input_def E0_def)
  have srt: "sorted (map tr_timestamp applied)"
    unfolding app using canonicalizeTransfers_canonical(1) [OF dd]
    by (auto simp: canonical_def intro: sorted_filter)
  note props = sortedTimes_props [OF E inE, of locks]
  have none: "filter (\<lambda>x. tr_timestamp x < E0) applied = []"
    using inE by (auto simp: filter_empty_conv)
  have "synced bals applied \<lparr>tw_balances = startBalances bals, tw_pending = applied,
         tw_baseSeconds = [], tw_unlockedSeconds = [], tw_lockedSeconds = []\<rparr> E0"
    using inE none by (auto simp: synced_def filter_id_conv)
  then have run: "synced bals applied st (last (sortedTimes E0 E1 applied locks)) \<and>
    (\<forall>t\<in>set (butlast (sortedTimes E0 E1 applied locks)).
       \<forall>w\<in>set ws. locked_total locks w t \<le> balance_at bals applied w t) \<and>
    gained \<lparr>tw_balances = startBalances bals, tw_pending = applied,
         tw_baseSeconds = [], tw_unlockedSeconds = [], tw_lockedSeconds = []\<rparr> st
      (\<lambda>v. if v \<in> set ws then pair_sum (balance_at bals applied v) (sortedTimes E0 E1 applied locks) else 0)
      (\<lambda>v. if v \<in> set ws
           then pair_sum (\<lambda>t. balance_at bals applied v t - locked_total locks v t)
                  (sortedTimes E0 E1 applied locks) else 0)
      (\<lambda>v tier. if v \<in> set ws then pair_sum (locked_at locks v tier) (sortedTimes E0 E1 applied locks) else 0)"
    by (intro integrate_effect [OF int props(2,5)])
      (use props srt in \<open>auto simp: ws_def\<close>)
  have safe: "locked_total locks w t \<le> balance_at bals applied w t"
    if w: "w \<in> set ws" and t: "E0 \<le> t" "t < E1" for w t
  proof -
    obtain a where a: "a \<in> set (butlast (sortedTimes E0 E1 applied locks))" "a \<le> t"
      "\<forall>x\<in>set (sortedTimes E0 E1 applied locks). \<not> (a < x \<and> x \<le> t)"
      using breakpoint_below [OF props(2,5)] props(3,4) t by auto
    then have "a \<in> set (sortedTimes E0 E1 applied locks)" by (auto dest: in_set_butlastD)
    then have "E0 \<le> a" using inE E props(1) by auto
    then have "balance_at bals applied w t = balance_at bals applied w a"
      "\<And>tier. locked_at locks w tier t = locked_at locks w tier a"
      using a t props(1) by (auto intro!: balance_at_const locked_at_const)
    moreover have "locked_total locks w a \<le> balance_at bals applied w a"
      using run w a(1) by blast
    ultimately show ?thesis by (simp only: locked_total_def)
  qed
  note ints = integral_balance [OF E inE disjI1 [OF refl]]
    integral_balance [OF E inE disjI2 [OF disjI1 [OF refl]]]
    integral_balance [OF E inE disjI2 [OF disjI2 [OF refl]]]
  have weight: "walletWeight st w = Inr (w, weight_spec c bals applied locks w)"
    if w: "w \<in> set ws" for w
  proof -
    have base: "getOr0 (tw_baseSeconds st) w = (\<Sum>t\<in>{E0..<E1}. balance_at bals applied w t)"
      and unl: "getOr0 (tw_unlockedSeconds st) w =
        (\<Sum>t\<in>{E0..<E1}. balance_at bals applied w t - locked_total locks w t)"
      and lck: "\<And>tier. lockedOf (tw_lockedSeconds st) w tier =
        (\<Sum>t\<in>{E0..<E1}. locked_at locks w tier t)"
      using run w ints
      by (simp_all add: gained_def getOr0_def lockedOf_def zeroTierRecord_def)
    have pos: "0 \<le> locked_at locks w tier t" for tier t
      using input by (auto simp: twab_input_def intro: locked_at_nonneg)
    then have "0 \<le> locked_total locks w t" for t
      by (auto simp: locked_total_def intro!: sum_list_nonneg)
    then have "0 \<le> balance_at bals applied w t" if "t \<in> {E0..<E1}" for t
      using safe [OF w, of t] that by (meson atLeastLessThan_iff order_trans)
    then have nn: "0 \<le> getOr0 (tw_baseSeconds st) w" "0 \<le> getOr0 (tw_unlockedSeconds st) w"
      "\<And>tier. 0 \<le> lockedOf (tw_lockedSeconds st) w tier"
      unfolding base unl lck using safe [OF w] pos by (auto intro!: sum_nonneg)
    have "filter (\<lambda>x. tr_timestamp x < E1) applied = filter (\<lambda>x. tr_timestamp x \<le> E1) applied"
      using inE by (intro filter_cong) auto
    then have snap: "getOr0 (tw_balances st) w = balance_at bals applied w E1"
      using run props(4) by (simp add: synced_def balance_at_def)
    show ?thesis
      unfolding walletWeight_value [OF nn(3,2,1)] weight_spec_def Let_def twab_of_def base unl lck snap
      by (simp add: E0_def E1_def)
  qed
  have "rmap (walletWeight st) ws = Inr (map (\<lambda>w. (w, weight_spec c bals applied locks w)) ws)"
    by (rule rmap_pure) (rule weight)
  with wts safe show ?thesis by simp
qed

section \<open>Properties\<close>


definition ex_cycle :: CycleConfig where
  "ex_cycle = \<lparr>cy_schemaVersion = ''1'', cy_cycleId = 1, cy_chainId = 1,
     cy_bpsTokenAddress = ''0xb'', cy_claimManagerAddress = ''0xc'',
     cy_economicsVersion = ECON_VERSION, cy_rewardPolicyVersion = ''1'', cy_epochId = 2,
     cy_epochStart = 1800, cy_epochEnd = 2700, cy_startBlock = 1, cy_endBlock = 9,
     cy_snapshotBlock = 9, cy_finalizedBlock = 9, cy_confirmationDepth = 1, cy_claimStart = 1,
     cy_claimDeadline = 2, cy_termsVersion = ''1'', cy_eligibilityPolicyVersion = ''1'',
     cy_restrictedJurisdictionPolicyVersion = ''1''\<rparr>"

definition ex_transfer :: "int \<Rightarrow> int \<Rightarrow> int \<Rightarrow> string \<Rightarrow> string \<Rightarrow> int \<Rightarrow> ConfirmedTransfer" where
  "ex_transfer block log t from to amount = \<lparr>tr_chainId = 1, tr_blockNumber = block,
     tr_blockHash = ''h'', tr_transactionHash = ''x'', tr_transactionIndex = 0, tr_logIndex = log,
     tr_timestamp = t, tr_from = from, tr_to = to, tr_rawAmount = amount\<rparr>"

definition ex_transfers :: "ConfirmedTransfer list" where
  "ex_transfers = [ex_transfer 2 1 2000 ''0xa1'' ''0xa2'' 300, ex_transfer 1 0 1900 ''0xa2'' ''0xa1'' 50]"

definition ex_balances :: "EpochStartBalance list" where
  "ex_balances = [\<lparr>eb_wallet = ''0xa1'', eb_rawBalance = 1000\<rparr>, \<lparr>eb_wallet = ''0xa2'', eb_rawBalance = 100\<rparr>]"

definition ex_locks :: "LockRecord list" where
  "ex_locks = [\<lparr>lk_wallet = ''0xa1'', lk_rawPrincipal = 600, lk_tier = LOCK_7D,
     lk_startTimestamp = 1850, lk_unlockTimestamp = 1850 + 7 * DAY,
     lk_withdrawalTimestamp = Some 2500\<rparr>]"

lemma ex_weights_ok: "is_ok (computeWeights ex_cycle ex_balances ex_transfers ex_locks)"
  by code_simp

lemma ex_twab_input: "twab_input ex_cycle ex_transfers ex_locks"
  by (simp add: twab_input_def ex_cycle_def ex_transfers_def ex_transfer_def ex_locks_def)


text \<open>
  When \<open>computeWeights\<close> returns, no wallet has more actively locked than it holds at any
  second of the epoch - also at the seconds between breakpoints, which the code never looks at.
\<close>

theorem computeWeights_lock_safety:
  assumes "computeWeights c bals trs locks = Inr wc" and "twab_input c trs locks"
    and "w \<in> fst ` set (wc_weights wc)" and "cy_epochStart c \<le> t" and "t < cy_epochEnd c"
  shows "locked_total locks w t \<le> balance_at bals (wc_appliedTransfers wc) w t"
  using computeWeights_run [OF assms(1,2)] assms(3-5) by (auto simp: image_iff)

theorem computeWeights_lock_safety_witness:
  "\<exists>wc. computeWeights ex_cycle ex_balances ex_transfers ex_locks = Inr wc \<and>
     (''0xa1'' \<in> fst ` set (wc_weights wc) \<longrightarrow>
      locked_total ex_locks ''0xa1'' 2000 \<le>
        balance_at ex_balances (wc_appliedTransfers wc) ''0xa1'' 2000)"
  using ex_weights_ok computeWeights_lock_safety [OF _ ex_twab_input, of ex_balances _ "''0xa1''" 2000]
  by (auto simp: is_ok_iff ex_cycle_def)

lemma floor_sum2:
  fixes x y d :: int
  assumes d: "0 < d"
  shows "x div d + y div d \<le> (x + y) div d" "(x + y) div d \<le> x div d + y div d + 1"
proof -
  let ?r = "x mod d + y mod d"
  have m: "(x + y) div d = x div d + y div d + ?r div d"
    by (rule div_add1_eq)
  have r: "0 \<le> ?r" "?r < d + d"
    using pos_mod_sign [OF d, of x] pos_mod_sign [OF d, of y] pos_mod_bound [OF d, of x]
      pos_mod_bound [OF d, of y] by linarith+
  have "?r div d = 0 \<or> ?r div d = 1"
  proof (cases "?r < d")
    case True
    with r show ?thesis by (simp add: div_pos_pos_trivial)
  next
    case False
    with r show ?thesis by (intro disjI2 int_div_pos_eq [where r = "?r - d"]) simp_all
  qed
  with m show "x div d + y div d \<le> (x + y) div d" "(x + y) div d \<le> x div d + y div d + 1"
    by linarith+
qed

lemma floor_sum5_gen:
  fixes a :: int
  assumes "0 < d"
  shows "a div d + (p div d + (q div d + (r div d + s div d))) \<le> (a + (p + (q + (r + s)))) div d"
    and "(a + (p + (q + (r + s)))) div d \<le> a div d + (p div d + (q div d + (r div d + s div d))) + 4"
  using floor_sum2 [OF assms, of r s] floor_sum2 [OF assms, of q "r + s"]
    floor_sum2 [OF assms, of p "q + (r + s)"] floor_sum2 [OF assms, of a "p + (q + (r + s))"]
  by linarith+

lemmas floor_sum5 = floor_sum5_gen [of 900, simplified]

lemma tier_floor:
  assumes "0 \<le> v"
  shows "v \<le> v * multiplierBps (TIER_SPECS tier) div 10000"
    and "10000 * (v * multiplierBps (TIER_SPECS tier) div 10000) \<le> 17500 * v"
proof -
  let ?m = "multiplierBps (TIER_SPECS tier)"
  have m: "10000 \<le> ?m" "?m \<le> 17500" using multiplier_bounds [of tier] by simp_all
  have "v * 10000 div 10000 \<le> v * ?m div 10000"
    by (rule zdiv_mono1) (use assms m in \<open>auto intro: mult_left_mono\<close>)
  then show "v \<le> v * ?m div 10000" by simp
  have "10000 * (x div 10000) \<le> x" for x :: int
    using pos_mod_sign [of 10000 x] by (simp add: minus_mod_eq_mult_div [symmetric])
  then have "10000 * (v * ?m div 10000) \<le> v * ?m" .
  also have "\<dots> \<le> v * 17500" using assms m by (auto intro: mult_left_mono)
  finally show "10000 * (v * ?m div 10000) \<le> 17500 * v" by simp
qed

lemma weight_arith:
  fixes u :: int
  assumes "u + (p + (q + (r + s))) \<le> B" and "B \<le> u + (p + (q + (r + s))) + 4"
    and "p \<le> P" "10000 * P \<le> 17500 * p" and "q \<le> Q" "10000 * Q \<le> 17500 * q"
    and "r \<le> R" "10000 * R \<le> 17500 * r" and "s \<le> S" "10000 * S \<le> 17500 * s"
    and "0 \<le> u" "0 \<le> p" "0 \<le> q" "0 \<le> r" "0 \<le> s"
  shows "u + (p + (q + (r + s))) \<le> B \<and> B \<le> u + (p + (q + (r + s))) + 4 \<and> 0 \<le> u \<and> 0 \<le> B \<and>
    B - 4 \<le> u + (P + (Q + (R + S))) \<and> 10000 * (u + (P + (Q + (R + S)))) \<le> 17500 * B"
proof -
  have "4 * P \<le> 7 * p" "4 * Q \<le> 7 * q" "4 * R \<le> 7 * r" "4 * S \<le> 7 * s"
    using assms(4,6,8,10) by simp_all
  then have "4 * (u + (P + (Q + (R + S)))) \<le> 4 * u + 7 * (p + (q + (r + s)))"
    by (simp add: algebra_simps)
  also have "\<dots> \<le> 7 * B" using assms(1,11) by (simp add: algebra_simps)
  finally have "10000 * (u + (P + (Q + (R + S)))) \<le> 17500 * B" by simp
  moreover have "0 \<le> B" "B - 4 \<le> u + (P + (Q + (R + S)))" using assms by linarith+
  ultimately show ?thesis using assms(1,2,11) by blast
qed

lemma weight_spec_split:
  "(\<Sum>t\<in>T. balance_at bals trs w t) =
   (\<Sum>t\<in>T. balance_at bals trs w t - locked_total locks w t) +
   ((\<Sum>t\<in>T. locked_at locks w LOCK_7D t) + ((\<Sum>t\<in>T. locked_at locks w LOCK_14D t) +
    ((\<Sum>t\<in>T. locked_at locks w LOCK_21D t) + (\<Sum>t\<in>T. locked_at locks w LOCK_30D t))))"
  by (simp add: sum_subtractf locked_total_def sum_tiers sum.distrib)

text \<open>
  C3: every weight is consistent: the unlocked and the per-tier averages add up to the base
  average up to the rounding of the five divisions, and the effective weight lies between the
  base average (less that rounding) and 1.75 times it - locking never loses weight, and no
  combination of locks earns more than the highest multiplier.
\<close>

theorem computeWeights_bounds:
  assumes "computeWeights c bals trs locks = Inr wc" and "twab_input c trs locks"
    and "(w, ww) \<in> set (wc_weights wc)"
  shows "ww_unlockedTwab ww + (\<Sum>tier\<leftarrow>SUPPORTED_LOCK_TIERS. ww_lockedTwabByTier ww tier) \<le> ww_baseTwab ww \<and>
    ww_baseTwab ww \<le>
      ww_unlockedTwab ww + (\<Sum>tier\<leftarrow>SUPPORTED_LOCK_TIERS. ww_lockedTwabByTier ww tier) + 4 \<and>
    0 \<le> ww_unlockedTwab ww \<and> 0 \<le> ww_baseTwab ww \<and>
    ww_baseTwab ww - 4 \<le> ww_effectiveWeight ww \<and>
    10000 * ww_effectiveWeight ww \<le> 17500 * ww_baseTwab ww"
proof -
  let ?app = "wc_appliedTransfers wc"
  let ?T = "{cy_epochStart c..<cy_epochEnd c}"
  have ww: "ww = weight_spec c bals ?app locks w" "w \<in> set (relevantWallets bals ?app locks)"
    and safe: "\<forall>t\<in>?T. locked_total locks w t \<le> balance_at bals ?app w t"
    using computeWeights_run [OF assms(1,2)] assms(3) by auto
  have pos: "0 \<le> locked_at locks w tier t" for tier t
    using assms(2) by (auto simp: twab_input_def intro: locked_at_nonneg)
  then have lck: "0 \<le> twab_of c (locked_at locks w tier)" for tier
    by (simp add: twab_of_def sum_nonneg pos_imp_zdiv_nonneg_iff)
  have unl: "0 \<le> twab_of c (\<lambda>t. balance_at bals ?app w t - locked_total locks w t)"
    using safe by (auto simp: twab_of_def pos_imp_zdiv_nonneg_iff intro!: sum_nonneg)
  note fl = floor_sum5 [of "\<Sum>t\<in>?T. balance_at bals ?app w t - locked_total locks w t"
      "\<Sum>t\<in>?T. locked_at locks w LOCK_7D t" "\<Sum>t\<in>?T. locked_at locks w LOCK_14D t"
      "\<Sum>t\<in>?T. locked_at locks w LOCK_21D t" "\<Sum>t\<in>?T. locked_at locks w LOCK_30D t",
      folded weight_spec_split twab_of_def]
  note tf = tier_floor [OF lck [of LOCK_7D], of LOCK_7D] tier_floor [OF lck [of LOCK_14D], of LOCK_14D]
    tier_floor [OF lck [of LOCK_21D], of LOCK_21D] tier_floor [OF lck [of LOCK_30D], of LOCK_30D]
  show ?thesis
    using weight_arith [OF fl tf unl lck [of LOCK_7D] lck [of LOCK_14D] lck [of LOCK_21D] lck [of LOCK_30D]]
    unfolding ww(1) weight_spec_def Let_def by (simp add: sum_tiers)
qed

theorem computeWeights_bounds_witness:
  "\<exists>wc. computeWeights ex_cycle ex_balances ex_transfers ex_locks = Inr wc \<and>
     (\<forall>(w, ww) \<in> set (wc_weights wc). 10000 * ww_effectiveWeight ww \<le> 17500 * ww_baseTwab ww)"
  using ex_weights_ok computeWeights_bounds [OF _ ex_twab_input, of ex_balances]
  by (auto simp: is_ok_iff)

theorem canonicalizeTransfers_spec_witness:
  "\<exists>r. canonicalizeTransfers ex_transfers = Inr r \<and> set r = set ex_transfers \<and> canonical r"
proof -
  have "is_ok (canonicalizeTransfers ex_transfers)" by code_simp
  moreover have "\<forall>t\<in>set ex_transfers. plain_hash t"
    by (simp add: ex_transfers_def ex_transfer_def plain_hash_def)
  ultimately show ?thesis
    using canonicalizeTransfers_spec [of ex_transfers] by (auto simp: is_ok_iff)
qed

end
