(* ===== verification/Allocation.thy ===== *)
theory Allocation
  imports Twab
begin

text \<open>
  \<open>eligibility.ts\<close>, \<open>allocation.ts\<close> and \<open>reconciliation.ts\<close>: which wallets take part, how each
  asset is split 80/20 and floor-allocated by effective weight, and the per-asset accounting
  identity. The defensive \<open>fail\<close> branches of the code are branches of the model, and the
  properties show which of them cannot be taken.
\<close>

section \<open>Eligibility\<close>

record EligibilityResolution =
  er_eligibleWallets :: "string list"
  er_excluded :: "string list"
  er_referenceTimestamp :: int
  er_totalEligibleSnapshotBalance :: int
  er_totalBaseTwab :: int
  er_totalEffectiveWeight :: int

definition recordAdmits ::
  "CycleConfig \<Rightarrow> string list \<Rightarrow> int \<Rightarrow> EligibilityRecord \<Rightarrow> bool" where
  "recordAdmits cycle excluded referenceTimestamp r =
     (if \<not> el_eligible r then False
      else if el_revoked r then False
      else if el_policyVersion r \<noteq> cy_eligibilityPolicyVersion cycle then False
      else if el_validFrom r > referenceTimestamp then False
      else if (case el_expiry r of None \<Rightarrow> False | Some e \<Rightarrow> referenceTimestamp \<ge> e) then False
      else if el_wallet r \<in> set excluded then False
      else True)"

text \<open>\<open>weights.get(w) ?? ZERO_WEIGHT\<close>, one field of it.\<close>

definition weightField ::
  "(WalletWeight \<Rightarrow> int) \<Rightarrow> (string \<times> WalletWeight) list \<Rightarrow> string \<Rightarrow> int" where
  "weightField fld weights w = (case map_of weights w of None \<Rightarrow> 0 | Some ww \<Rightarrow> fld ww)"

definition resolveEligibility ::
  "CycleConfig \<Rightarrow> ExcludedAddress list \<Rightarrow> EligibilityRecord list \<Rightarrow> (string \<times> WalletWeight) list
    \<Rightarrow> EligibilityResolution" where
  "resolveEligibility cycle excludedAddresses eligibility weights =
     (let excluded = js_set (map ex_address excludedAddresses);
          referenceTimestamp = cy_epochEnd cycle;
          admitted = map el_wallet (filter (recordAdmits cycle excluded referenceTimestamp) eligibility);
          eligibleWallets = js_sort str_cmp admitted;
          totals = foldl (\<lambda>(s, p, e) w.
              (s + weightField ww_snapshotBalance weights w,
               p + weightField ww_baseTwab weights w,
               e + weightField ww_effectiveWeight weights w)) (0, 0, 0) eligibleWallets
      in \<lparr>er_eligibleWallets = eligibleWallets, er_excluded = excluded,
          er_referenceTimestamp = referenceTimestamp,
          er_totalEligibleSnapshotBalance = fst totals,
          er_totalBaseTwab = fst (snd totals),
          er_totalEffectiveWeight = snd (snd totals)\<rparr>)"

section \<open>Allocation\<close>

record WalletAllocation =
  wa_wallet :: string
  wa_amount :: int

record AssetAllocation =
  aa_asset :: AcquiredAsset
  aa_acquired :: int
  aa_participantPool :: int
  aa_strategicReserve :: int
  aa_allocated :: int
  aa_distributionDust :: int
  aa_walletAllocations :: "WalletAllocation list"
  aa_entitlements :: "Entitlement list"

datatype NonPublishable = ZeroTotalWeight | NoEntitlements

record AllocationResult =
  ar_assets :: "AssetAllocation list"
  ar_entitlements :: "Entitlement list"
  ar_totalEffectiveWeight :: int
  ar_publishable :: bool
  ar_nonPublishableReason :: "NonPublishable option"

definition allocateWallet ::
  "CycleConfig \<Rightarrow> AcquiredAsset \<Rightarrow> (string \<times> WalletWeight) list \<Rightarrow> int \<Rightarrow> int
    \<Rightarrow> int \<times> WalletAllocation list \<times> Entitlement list \<Rightarrow> string
    \<Rightarrow> pod_error + int \<times> WalletAllocation list \<times> Entitlement list" where
  "allocateWallet cycle asset weights participantPool totalEffectiveWeight acc wallet =
     (case acc of (allocated, walletAllocations, entitlements) \<Rightarrow>
      let weight = weightField ww_effectiveWeight weights wallet in
      if weight \<le> 0 then Inr acc
      else rbind (mulDivFloor participantPool weight totalEffectiveWeight) (\<lambda>amount.
           if amount \<le> 0 then Inr acc
           else Inr (allocated + amount,
                     walletAllocations @ [\<lparr>wa_wallet = wallet, wa_amount = amount\<rparr>],
                     entitlements @ [\<lparr>en_cycleId = cy_cycleId cycle, en_wallet = wallet,
                                      en_asset = as_tokenAddress asset, en_amount = amount\<rparr>])))"

definition allocateAsset ::
  "CycleConfig \<Rightarrow> AcquiredAsset \<Rightarrow> string list \<Rightarrow> (string \<times> WalletWeight) list \<Rightarrow> int
    \<Rightarrow> pod_error + AssetAllocation" where
  "allocateAsset cycle asset eligibleWallets weights totalEffectiveWeight =
     (let acquired = as_acquiredRawAmount asset in
      rbind (mulDivFloor acquired PARTICIPANT_POOL_BPS BPS_DENOMINATOR) (\<lambda>participantPool.
      let strategicReserve = acquired - participantPool in
      rbind
        (if totalEffectiveWeight > 0
         then rfold (allocateWallet cycle asset weights participantPool totalEffectiveWeight)
                (0, [], []) eligibleWallets
         else Inr (0, [], []))
        (\<lambda>(allocated, walletAllocations, entitlements).
         let distributionDust = participantPool - allocated in
         if participantPool + strategicReserve \<noteq> acquired then fail ''ALLOC_CONSERVATION''
         else if allocated + distributionDust \<noteq> participantPool then fail ''ALLOC_CONSERVATION''
         else if allocated > participantPool then fail ''ALLOC_OVERFLOW''
         else Inr \<lparr>aa_asset = asset, aa_acquired = acquired,
                   aa_participantPool = participantPool, aa_strategicReserve = strategicReserve,
                   aa_allocated = allocated, aa_distributionDust = distributionDust,
                   aa_walletAllocations = walletAllocations,
                   aa_entitlements = entitlements\<rparr>)))"

definition allocate ::
  "CycleConfig \<Rightarrow> AcquiredAsset list \<Rightarrow> string list \<Rightarrow> (string \<times> WalletWeight) list \<Rightarrow> int
    \<Rightarrow> pod_error + AllocationResult" where
  "allocate cycle assets eligibleWallets weights totalEffectiveWeight =
     rbind (rmap (\<lambda>asset. allocateAsset cycle asset eligibleWallets weights totalEffectiveWeight) assets)
       (\<lambda>assetAllocations.
        let entitlements = concat (map aa_entitlements assetAllocations);
            reason = (if totalEffectiveWeight = 0 then Some ZeroTotalWeight
                      else if length entitlements = 0 then Some NoEntitlements
                      else None)
        in Inr \<lparr>ar_assets = assetAllocations, ar_entitlements = entitlements,
                ar_totalEffectiveWeight = totalEffectiveWeight,
                ar_publishable = (reason = None), ar_nonPublishableReason = reason\<rparr>)"

section \<open>Reconciliation\<close>

record AssetReconciliation =
  rn_assetAddress :: string
  rn_ticker :: string
  rn_decimals :: int
  rn_acquired :: int
  rn_participantPool :: int
  rn_strategicReserve :: int
  rn_allocated :: int
  rn_distributionDust :: int
  rn_fundedRequired :: int
  rn_claimable :: int
  rn_claimed :: int
  rn_unclaimed :: int
  rn_rollover :: int
  rn_claimExecuted :: bool

record Reconciliation =
  rn_publishable :: bool
  rn_assets :: "AssetReconciliation list"

definition reconcileAsset :: "AssetAllocation \<Rightarrow> pod_error + AssetReconciliation" where
  "reconcileAsset a =
     (if aa_acquired a \<noteq> aa_strategicReserve a + aa_allocated a + aa_distributionDust a
      then fail ''RECON_CONSERVATION''
      else Inr \<lparr>rn_assetAddress = as_tokenAddress (aa_asset a), rn_ticker = as_ticker (aa_asset a),
                rn_decimals = as_decimals (aa_asset a), rn_acquired = aa_acquired a,
                rn_participantPool = aa_participantPool a,
                rn_strategicReserve = aa_strategicReserve a, rn_allocated = aa_allocated a,
                rn_distributionDust = aa_distributionDust a, rn_fundedRequired = aa_allocated a,
                rn_claimable = aa_allocated a, rn_claimed = 0, rn_unclaimed = aa_allocated a,
                rn_rollover = aa_distributionDust a, rn_claimExecuted = False\<rparr>)"

definition reconcile :: "AllocationResult \<Rightarrow> pod_error + Reconciliation" where
  "reconcile allocation =
     rbind (rmap reconcileAsset (ar_assets allocation)) (\<lambda>assets.
       Inr \<lparr>rn_publishable = ar_publishable allocation, rn_assets = assets\<rparr>)"

definition formatAsset :: "AssetReconciliation \<Rightarrow> string" where
  "formatAsset a =
     ''asset '' @ rn_ticker a @ '' ('' @ rn_assetAddress a @ '') decimals='' @
     dec_of_int (rn_decimals a) @ '': acquired='' @ dec_of_int (rn_acquired a) @
     '' reserve='' @ dec_of_int (rn_strategicReserve a) @
     '' pool='' @ dec_of_int (rn_participantPool a) @
     '' allocated='' @ dec_of_int (rn_allocated a) @
     '' dust='' @ dec_of_int (rn_distributionDust a) @
     '' claimed='' @ dec_of_int (rn_claimed a) @
     '' unclaimed='' @ dec_of_int (rn_unclaimed a) @ '' (claim not executed)''"

definition formatReconciliation :: "Reconciliation \<Rightarrow> string list" where
  "formatReconciliation recon =
     (''publishable: '' @ (if rn_publishable recon then ''yes'' else ''no''))
     # map formatAsset (rn_assets recon)"

section \<open>Lemmas\<close>

lemma eligibility_totals:
  "foldl (\<lambda>(s, p, e) w. (s + f w, p + g w, e + h w)) (s0, p0, e0) ws =
   (s0 + (\<Sum>w\<leftarrow>ws. f w), p0 + (\<Sum>w\<leftarrow>ws. g w), e0 + (\<Sum>w\<leftarrow>ws. h w :: int))"
  for f g h :: "string \<Rightarrow> int"
  by (induction ws arbitrary: s0 p0 e0) (auto simp: add.assoc)

text \<open>The amount one wallet is due: its floor share of the pool.\<close>

definition share :: "(string \<times> WalletWeight) list \<Rightarrow> int \<Rightarrow> int \<Rightarrow> string \<Rightarrow> int" where
  "share weights pool tot w =
     (if 0 < weightField ww_effectiveWeight weights w
      then pool * weightField ww_effectiveWeight weights w div tot else 0)"

definition entitle :: "CycleConfig \<Rightarrow> AcquiredAsset \<Rightarrow> string \<Rightarrow> int \<Rightarrow> Entitlement" where
  "entitle c asset w amount =
     \<lparr>en_cycleId = cy_cycleId c, en_wallet = w, en_asset = as_tokenAddress asset, en_amount = amount\<rparr>"

lemma share_nonneg: "0 \<le> pool \<Longrightarrow> 0 < tot \<Longrightarrow> 0 \<le> share weights pool tot w"
  by (simp add: share_def pos_imp_zdiv_nonneg_iff)

lemma allocateWallets_value:
  assumes "0 \<le> pool" and "0 < tot"
  shows "rfold (allocateWallet c asset weights pool tot) (al, was, ents) ws =
    Inr (al + (\<Sum>w\<leftarrow>ws. share weights pool tot w),
         was @ map (\<lambda>w. \<lparr>wa_wallet = w, wa_amount = share weights pool tot w\<rparr>)
                 (filter (\<lambda>w. 0 < share weights pool tot w) ws),
         ents @ map (\<lambda>w. entitle c asset w (share weights pool tot w))
                 (filter (\<lambda>w. 0 < share weights pool tot w) ws))"
proof (induction ws arbitrary: al was ents)
  case (Cons w ws)
  let ?wt = "weightField ww_effectiveWeight weights w" and ?s = "share weights pool tot w"
  have "allocateWallet c asset weights pool tot (al, was, ents) w =
    Inr (if 0 < ?s
         then (al + ?s, was @ [\<lparr>wa_wallet = w, wa_amount = ?s\<rparr>], ents @ [entitle c asset w ?s])
         else (al, was, ents))"
  proof (cases "0 < ?wt")
    case True
    with assms have "mulDivFloor pool ?wt tot = Inr ?s"
      by (simp add: mulDivFloor_nonneg share_def)
    with True show ?thesis by (simp add: allocateWallet_def entitle_def)
  qed (simp add: allocateWallet_def share_def)
  moreover have "?s = 0" if "\<not> 0 < ?s"
    using that share_nonneg [OF assms, of weights w] by simp
  ultimately show ?case using Cons by simp
qed simp

lemma share_bounds:
  assumes "0 \<le> pool" and "0 < tot"
  shows "share weights pool tot w * tot \<le> pool * max 0 (weightField ww_effectiveWeight weights w)"
    and "pool * max 0 (weightField ww_effectiveWeight weights w) < (share weights pool tot w + 1) * tot"
proof -
  let ?x = "pool * weightField ww_effectiveWeight weights w"
  have "?x div tot * tot \<le> ?x" "?x < (?x div tot + 1) * tot"
    using pos_mod_sign [OF assms(2), of ?x] pos_mod_bound [OF assms(2), of ?x]
      div_mult_mod_eq [of ?x tot] by (simp_all only: distrib_right mult_1)
  then show "share weights pool tot w * tot \<le> pool * max 0 (weightField ww_effectiveWeight weights w)"
    "pool * max 0 (weightField ww_effectiveWeight weights w) < (share weights pool tot w + 1) * tot"
    using assms by (auto simp: share_def)
qed

text \<open>The wallets that can receive something.\<close>

definition weighted :: "(string \<times> WalletWeight) list \<Rightarrow> string list \<Rightarrow> string list" where
  "weighted weights ws = filter (\<lambda>w. 0 < weightField ww_effectiveWeight weights w) ws"

lemma shares_bounds:
  assumes "0 \<le> pool" and "0 < tot"
    and tot: "tot = (\<Sum>w\<leftarrow>ws. weightField ww_effectiveWeight weights w)"
    and nonneg: "\<forall>w\<in>set ws. 0 \<le> weightField ww_effectiveWeight weights w"
  shows "(\<Sum>w\<leftarrow>ws. share weights pool tot w) \<le> pool"
    and "pool - (\<Sum>w\<leftarrow>ws. share weights pool tot w) < int (length (weighted weights ws))"
proof -
  let ?f = "weightField ww_effectiveWeight weights"
  have up: "(\<Sum>w\<leftarrow>vs. share weights pool tot w) * tot \<le> pool * (\<Sum>w\<leftarrow>vs. ?f w)"
    if "set vs \<subseteq> set ws" for vs
    using that
  proof (induction vs)
    case (Cons v vs)
    then show ?case
      using share_bounds(1) [OF assms(1,2), of weights v] nonneg by (simp add: algebra_simps max_def)
  qed simp
  from up [of ws] tot assms(2) show "(\<Sum>w\<leftarrow>ws. share weights pool tot w) \<le> pool"
    by (simp add: mult.commute)
  have lo: "pool * (\<Sum>w\<leftarrow>vs. ?f w) \<le>
      ((\<Sum>w\<leftarrow>vs. share weights pool tot w) + int (length (weighted weights vs))) * tot \<and>
    (weighted weights vs \<noteq> [] \<longrightarrow> pool * (\<Sum>w\<leftarrow>vs. ?f w) <
      ((\<Sum>w\<leftarrow>vs. share weights pool tot w) + int (length (weighted weights vs))) * tot)"
    if "set vs \<subseteq> set ws" for vs
    using that
  proof (induction vs)
    case (Cons v vs)
    show ?case
    proof (cases "0 < ?f v")
      case True
      then show ?thesis
        using Cons share_bounds(2) [OF assms(1,2), of weights v]
        by (auto simp: weighted_def algebra_simps max_def)
    next
      case False
      then have "?f v = 0" using nonneg Cons.prems by force
      then show ?thesis using Cons by (auto simp: weighted_def share_def)
    qed
  qed (simp add: weighted_def)
  have "weighted weights ws \<noteq> []"
  proof
    assume "weighted weights ws = []"
    then have "\<forall>w\<in>set ws. ?f w \<le> 0" by (auto simp: weighted_def filter_empty_conv not_less)
    then have "(\<Sum>w\<leftarrow>ws. ?f w) \<le> 0" by (induction ws) auto
    with assms(2) tot show False by simp
  qed
  with lo [of ws] have "pool * tot <
      ((\<Sum>w\<leftarrow>ws. share weights pool tot w) + int (length (weighted weights ws))) * tot"
    using tot by simp
  then show "pool - (\<Sum>w\<leftarrow>ws. share weights pool tot w) < int (length (weighted weights ws))"
    using assms(2) by simp
qed

lemma pool_value: "0 \<le> a \<Longrightarrow> mulDivFloor a PARTICIPANT_POOL_BPS BPS_DENOMINATOR = Inr (a * 8000 div 10000)"
  by (simp add: mulDivFloor_nonneg PARTICIPANT_POOL_BPS_def BPS_DENOMINATOR_def)

section \<open>Properties\<close>

text \<open>
  C5: \<open>resolveEligibility\<close> returns, in ascending order, exactly the wallets of the records that are
  eligible, not revoked, of the cycle's policy, valid at the end of the epoch and not excluded, each once
  when the records name each wallet once; and its three totals (snapshot balance, base TWAB, effective
  weight) are the sums of that field of the weights over those wallets, a wallet without a weight counting 0.
\<close>

theorem resolveEligibility_spec:
  "let e = resolveEligibility c excl recs weights in
   sorted (er_eligibleWallets e) \<and>
   (\<forall>w. w \<in> set (er_eligibleWallets e) \<longleftrightarrow>
      (\<exists>r\<in>set recs. el_wallet r = w \<and> el_eligible r \<and> \<not> el_revoked r \<and>
         el_policyVersion r = cy_eligibilityPolicyVersion c \<and> el_validFrom r \<le> cy_epochEnd c \<and>
         (\<forall>x\<in>set_option (el_expiry r). cy_epochEnd c < x)) \<and>
      w \<notin> ex_address ` set excl) \<and>
   (distinct (map el_wallet recs) \<longrightarrow> distinct (er_eligibleWallets e)) \<and>
   er_totalEffectiveWeight e =
     (\<Sum>w\<leftarrow>er_eligibleWallets e. case map_of weights w of None \<Rightarrow> 0 | Some x \<Rightarrow> ww_effectiveWeight x) \<and>
   er_totalBaseTwab e =
     (\<Sum>w\<leftarrow>er_eligibleWallets e. case map_of weights w of None \<Rightarrow> 0 | Some x \<Rightarrow> ww_baseTwab x) \<and>
   er_totalEligibleSnapshotBalance e =
     (\<Sum>w\<leftarrow>er_eligibleWallets e. case map_of weights w of None \<Rightarrow> 0 | Some x \<Rightarrow> ww_snapshotBalance x) \<and>
   er_referenceTimestamp e = cy_epochEnd c \<and> set (er_excluded e) = ex_address ` set excl"
proof -
  have adm: "recordAdmits c ex t r \<longleftrightarrow> el_eligible r \<and> \<not> el_revoked r \<and>
      el_policyVersion r = cy_eligibilityPolicyVersion c \<and> el_validFrom r \<le> t \<and>
      (\<forall>x\<in>set_option (el_expiry r). t < x) \<and> el_wallet r \<notin> set ex" for ex t r
    by (auto simp: recordAdmits_def split: option.splits)
  show ?thesis
    by (auto simp: resolveEligibility_def Let_def eligibility_totals sorted_str_sort adm image_iff weightField_def
        intro: distinct_map_filter)
qed

definition ex_records :: "EligibilityRecord list" where
  "ex_records =
     [\<lparr>el_wallet = ''0xa2'', el_eligible = True, el_policyVersion = ''1'', el_validFrom = 0,
       el_expiry = None, el_revoked = False\<rparr>,
      \<lparr>el_wallet = ''0xa3'', el_eligible = True, el_policyVersion = ''1'', el_validFrom = 0,
       el_expiry = None, el_revoked = True\<rparr>,
      \<lparr>el_wallet = ''0xa1'', el_eligible = True, el_policyVersion = ''1'', el_validFrom = 0,
       el_expiry = Some 9000, el_revoked = False\<rparr>]"

definition ex_record_weights :: "(string \<times> WalletWeight) list" where
  "ex_record_weights =
     [(''0xa1'', \<lparr>ww_wallet = ''0xa1'', ww_snapshotBalance = 3, ww_baseTwab = 5, ww_unlockedTwab = 5,
        ww_lockedTwabByTier = zeroTierRecord, ww_effectiveWeight = 7\<rparr>),
      (''0xa2'', \<lparr>ww_wallet = ''0xa2'', ww_snapshotBalance = 10, ww_baseTwab = 20, ww_unlockedTwab = 20,
        ww_lockedTwabByTier = zeroTierRecord, ww_effectiveWeight = 40\<rparr>)]"

theorem resolveEligibility_spec_witness:
  "let e = resolveEligibility ex_cycle [] ex_records ex_record_weights in
   er_eligibleWallets e = [''0xa1'', ''0xa2''] \<and> distinct (er_eligibleWallets e) \<and>
   er_totalEligibleSnapshotBalance e = 13 \<and> er_totalBaseTwab e = 25 \<and> er_totalEffectiveWeight e = 47"
proof -
  have wallets: "er_eligibleWallets (resolveEligibility ex_cycle [] ex_records ex_record_weights) = [''0xa1'', ''0xa2'']"
    by code_simp
  have "distinct (map el_wallet ex_records)" by code_simp
  with wallets resolveEligibility_spec [of ex_cycle "[]" ex_records ex_record_weights] show ?thesis
    by (simp add: Let_def) (simp add: ex_record_weights_def)
qed

lemma allocateAsset_value:
  assumes acq: "0 \<le> as_acquiredRawAmount asset"
    and tot: "tot = (\<Sum>w\<leftarrow>ws. weightField ww_effectiveWeight weights w)"
    and nonneg: "\<forall>w\<in>set ws. 0 \<le> weightField ww_effectiveWeight weights w"
  defines "pool \<equiv> as_acquiredRawAmount asset * 8000 div 10000"
  defines "al \<equiv> if 0 < tot then \<Sum>w\<leftarrow>ws. share weights pool tot w else 0"
  defines "rs \<equiv> if 0 < tot then filter (\<lambda>w. 0 < share weights pool tot w) ws else []"
  shows "allocateAsset c asset ws weights tot =
    Inr \<lparr>aa_asset = asset, aa_acquired = as_acquiredRawAmount asset, aa_participantPool = pool,
         aa_strategicReserve = as_acquiredRawAmount asset - pool, aa_allocated = al,
         aa_distributionDust = pool - al,
         aa_walletAllocations = map (\<lambda>w. \<lparr>wa_wallet = w, wa_amount = share weights pool tot w\<rparr>) rs,
         aa_entitlements = map (\<lambda>w. entitle c asset w (share weights pool tot w)) rs\<rparr>"
    and "0 \<le> pool" and "0 \<le> al" and "al \<le> pool"
proof -
  show pos: "0 \<le> pool" using acq by (simp add: pool_def pos_imp_zdiv_nonneg_iff)
  show "0 \<le> al"
    using share_nonneg [OF pos] by (auto simp: al_def intro!: sum_list_nonneg)
  show le: "al \<le> pool"
    using shares_bounds(1) [OF pos _ tot nonneg] pos by (simp add: al_def)
  show "allocateAsset c asset ws weights tot =
    Inr \<lparr>aa_asset = asset, aa_acquired = as_acquiredRawAmount asset, aa_participantPool = pool,
         aa_strategicReserve = as_acquiredRawAmount asset - pool, aa_allocated = al,
         aa_distributionDust = pool - al,
         aa_walletAllocations = map (\<lambda>w. \<lparr>wa_wallet = w, wa_amount = share weights pool tot w\<rparr>) rs,
         aa_entitlements = map (\<lambda>w. entitle c asset w (share weights pool tot w)) rs\<rparr>"
    using le pos pool_value [OF acq, folded pool_def] allocateWallets_value [OF pos]
    by (simp add: allocateAsset_def Let_def al_def rs_def split: if_splits)
qed

lemma allocateAsset_facts:
  assumes "0 \<le> as_acquiredRawAmount asset"
    and "tot = (\<Sum>w\<leftarrow>ws. weightField ww_effectiveWeight weights w)"
    and "\<forall>w\<in>set ws. 0 \<le> weightField ww_effectiveWeight weights w"
  shows "\<exists>a. allocateAsset c asset ws weights tot = Inr a \<and> aa_asset a = asset \<and>
    aa_acquired a = as_acquiredRawAmount asset \<and>
    aa_acquired a = aa_strategicReserve a + aa_allocated a + aa_distributionDust a \<and>
    aa_participantPool a = as_acquiredRawAmount asset * 8000 div 10000 \<and>
    0 \<le> aa_allocated a \<and> aa_allocated a \<le> aa_participantPool a \<and>
    0 \<le> aa_distributionDust a \<and>
    (0 < tot \<longrightarrow> aa_distributionDust a < int (length (weighted weights ws))) \<and>
    aa_allocated a = (\<Sum>e\<leftarrow>aa_entitlements a. en_amount e) \<and>
    (\<forall>e\<in>set (aa_entitlements a). 0 < en_amount e \<and> en_wallet e \<in> set ws \<and>
       en_asset e = as_tokenAddress asset \<and> en_cycleId e = cy_cycleId c \<and> 0 < tot)"
proof -
  let ?pool = "as_acquiredRawAmount asset * 8000 div 10000"
  note v = allocateAsset_value [OF assms]
  have "(\<Sum>w\<leftarrow>filter (\<lambda>w. 0 < share weights ?pool tot w) vs. share weights ?pool tot w) =
      (\<Sum>w\<leftarrow>vs. share weights ?pool tot w)" if "0 < tot" for vs
    using share_nonneg [OF v(2) that, of weights] by (induction vs) (auto simp: not_less antisym)
  with v(2-4) show ?thesis
    unfolding v(1) using shares_bounds(2) [OF v(2) _ assms(2,3)]
    by (auto simp: entitle_def comp_def split: if_splits)
qed

text \<open>
  C6: with a total that is the sum of non-negative weights, \<open>allocateAsset\<close> never takes one of its
  error branches, splits the acquired amount exactly into reserve, allocation and dust, puts at
  most 80 percent (rounded down) into the pool, never allocates more than the pool, leaves less
  dust than there are weighted wallets, and issues the entitlements whose sum is the allocation.
\<close>

theorem allocateAsset_conservation:
  assumes "0 \<le> as_acquiredRawAmount asset"
    and "tot = (\<Sum>w\<leftarrow>ws. weightField ww_effectiveWeight weights w)"
    and "\<forall>w\<in>set ws. 0 \<le> weightField ww_effectiveWeight weights w"
  shows "\<exists>a. allocateAsset c asset ws weights tot = Inr a \<and>
    as_acquiredRawAmount asset =
      aa_strategicReserve a + aa_allocated a + aa_distributionDust a \<and>
    aa_participantPool a = as_acquiredRawAmount asset * 8000 div 10000 \<and>
    0 \<le> aa_allocated a \<and> aa_allocated a \<le> aa_participantPool a \<and>
    (0 < tot \<longrightarrow> aa_distributionDust a < int (length (weighted weights ws))) \<and>
    aa_allocated a = (\<Sum>e\<leftarrow>aa_entitlements a. en_amount e) \<and>
    (\<forall>e\<in>set (aa_entitlements a). 0 < en_amount e \<and> en_wallet e \<in> set ws)"
  using allocateAsset_facts [OF assms, of c] by metis

definition ex_asset :: AcquiredAsset where
  "ex_asset = \<lparr>as_ticker = ''T'', as_name = ''n'', as_tokenAddress = ''0xt'', as_decimals = 18,
     as_acquiredRawAmount = 1001\<rparr>"

definition ex_weight :: "string \<Rightarrow> int \<Rightarrow> string \<times> WalletWeight" where
  "ex_weight w e = (w, \<lparr>ww_wallet = w, ww_snapshotBalance = e, ww_baseTwab = e,
     ww_unlockedTwab = e, ww_lockedTwabByTier = zeroTierRecord, ww_effectiveWeight = e\<rparr>)"

definition ex_weights :: "(string \<times> WalletWeight) list" where
  "ex_weights = [ex_weight ''0xa1'' 7, ex_weight ''0xa2'' 4]"

theorem allocateAsset_conservation_witness:
  "\<exists>a. allocateAsset ex_cycle ex_asset [''0xa1'', ''0xa2''] ex_weights 11 = Inr a \<and>
     1001 = aa_strategicReserve a + aa_allocated a + aa_distributionDust a"
  using allocateAsset_conservation
    [where asset = ex_asset and tot = 11 and ws = "[''0xa1'', ''0xa2'']" and weights = ex_weights
     and c = ex_cycle]
  by (auto simp: ex_asset_def ex_weights_def ex_weight_def weightField_def)

lemma allocate_reconcile_facts:
  assumes "\<forall>a\<in>set assets. 0 \<le> as_acquiredRawAmount a"
    and "tot = (\<Sum>w\<leftarrow>ws. weightField ww_effectiveWeight weights w)"
    and "\<forall>w\<in>set ws. 0 \<le> weightField ww_effectiveWeight weights w"
  shows "\<exists>al rc. allocate c assets ws weights tot = Inr al \<and> reconcile al = Inr rc \<and>
    list_all2 (\<lambda>asset r. rn_assetAddress r = as_tokenAddress asset \<and>
        as_acquiredRawAmount asset = rn_strategicReserve r + rn_claimable r + rn_rollover r \<and>
        0 \<le> rn_claimable r \<and> 0 \<le> rn_rollover r) assets (rn_assets rc) \<and>
    rn_publishable rc = (tot \<noteq> 0 \<and> ar_entitlements al \<noteq> []) \<and>
    (\<forall>e\<in>set (ar_entitlements al). 0 < en_amount e \<and> en_wallet e \<in> set ws \<and>
       en_asset e \<in> as_tokenAddress ` set assets)"
proof -
  have "\<forall>asset\<in>set assets. \<exists>a. allocateAsset c asset ws weights tot = Inr a \<and> aa_asset a = asset \<and>
      aa_acquired a = as_acquiredRawAmount asset \<and>
      aa_acquired a = aa_strategicReserve a + aa_allocated a + aa_distributionDust a \<and>
      0 \<le> aa_allocated a \<and> 0 \<le> aa_distributionDust a \<and>
      (\<forall>e\<in>set (aa_entitlements a). 0 < en_amount e \<and> en_wallet e \<in> set ws \<and>
         en_asset e = as_tokenAddress asset \<and> 0 < tot)"
    using allocateAsset_facts [OF _ assms(2,3), of _ c] assms(1) by blast
  then obtain A where A: "\<And>asset. asset \<in> set assets \<Longrightarrow>
      allocateAsset c asset ws weights tot = Inr (A asset) \<and> aa_asset (A asset) = asset \<and>
      aa_acquired (A asset) = as_acquiredRawAmount asset \<and>
      aa_acquired (A asset) = aa_strategicReserve (A asset) + aa_allocated (A asset) +
        aa_distributionDust (A asset) \<and>
      0 \<le> aa_allocated (A asset) \<and> 0 \<le> aa_distributionDust (A asset) \<and>
      (\<forall>e\<in>set (aa_entitlements (A asset)). 0 < en_amount e \<and> en_wallet e \<in> set ws \<and>
         en_asset e = as_tokenAddress asset \<and> 0 < tot)"
    by metis
  have m: "rmap (\<lambda>asset. allocateAsset c asset ws weights tot) assets = Inr (map A assets)"
    by (rule rmap_pure) (use A in blast)
  define R where "R = (\<lambda>asset. projr (reconcileAsset (A asset)))"
  have R: "reconcileAsset (A asset) = Inr (R asset) \<and> rn_assetAddress (R asset) = as_tokenAddress asset \<and>
      as_acquiredRawAmount asset =
        rn_strategicReserve (R asset) + rn_claimable (R asset) + rn_rollover (R asset) \<and>
      0 \<le> rn_claimable (R asset) \<and> 0 \<le> rn_rollover (R asset)" if "asset \<in> set assets" for asset
    using A [OF that] by (simp add: R_def reconcileAsset_def)
  have r: "rmap reconcileAsset (map A assets) = Inr (map R assets)"
    using R by (induction assets) auto
  show ?thesis
    using m r R A
    by (auto simp: allocate_def reconcile_def Let_def list_all2_map2 list_all2_same)
qed



end
