(* ===== verification/Merkle.thy ===== *)
theory Merkle
  imports Allocation
begin

text \<open>
  \<open>merkle.ts\<close> and \<open>viem-verify.ts\<close>: the tree over the entitlements, the wallet index, and the
  independent verifier. The hash library (\<open>viem\<close>: \<open>keccak256\<close>, \<open>concatHex\<close>,
  \<open>encodeAbiParameters\<close>) and the tree library (\<open>@openzeppelin/merkle-tree\<close>) are parameters:
  records of functions. Encoding, building a tree and verifying against one throw on values the ABI
  types do not admit, so they return an option: \<open>None\<close> is the exception, and \<open>orThrow\<close> its propagation
  through the code. What the two libraries document is stated in \<open>viem_documented\<close> and
  \<open>oz_documented\<close>, over typed ABI values and byte order alone, with no definition that
  models code of the repository; a concrete instance shows that it can hold.
\<close>

section \<open>The libraries\<close>

datatype AbiValue = AUint int | AAddress string

record Viem =
  vi_keccak256 :: "string \<Rightarrow> string"
  vi_concatHex :: "string list \<Rightarrow> string"
  vi_encodeAbiParameters :: "string list \<Rightarrow> AbiValue list \<Rightarrow> string option"

text \<open>
  A built tree, and the static functions of the library. \<open>leafHash\<close> and \<open>getProof\<close> are asked only for
  values the tree was built from, on which they do not throw.
\<close>

record OzTree =
  zt_root :: string
  zt_leafHash :: "string list \<Rightarrow> string"
  zt_getProof :: "string list \<Rightarrow> string list"

record TreeLib =
  oz_of :: "string list list \<Rightarrow> string list \<Rightarrow> OzTree option"
  oz_verify :: "string \<Rightarrow> string list \<Rightarrow> string list \<Rightarrow> string list \<Rightarrow> bool option"

definition orThrow :: "'a option \<Rightarrow> pod_error + 'a" where
  "orThrow r = (case r of None \<Rightarrow> Inl RuntimeError | Some a \<Rightarrow> Inr a)"

lemma orThrow_simps [simp, result_simps]:
  "orThrow (Some a) = Inr a"
  "orThrow None = Inl RuntimeError"
  "orThrow r = Inr a \<longleftrightarrow> r = Some a"
  "is_ok (orThrow r) \<longleftrightarrow> r \<noteq> None"
  by (auto simp: orThrow_def split: option.splits)

text \<open>\<open>BigInt(h)\<close> on a \<open>0x\<close>-prefixed hex string.\<close>

definition hex_digit_val :: "char \<Rightarrow> int" where
  "hex_digit_val c =
     (let n = of_char c :: int
      in if n \<le> 57 then n - 48 else if n \<le> 70 then n - 55 else n - 87)"

definition bigint_of_hex :: "string \<Rightarrow> int" where
  "bigint_of_hex h = foldl (\<lambda>acc c. acc * 16 + hex_digit_val c) 0 (drop 2 h)"

section \<open>The independent verifier\<close>

record LeafFields =
  lf_chainId :: int
  lf_claimManager :: string
  lf_cycleId :: int
  lf_wallet :: string
  lf_asset :: string
  lf_amount :: int

definition LEAF_ABI_PARAMS :: "string list" where
  "LEAF_ABI_PARAMS =
     [''uint256'', ''address'', ''uint256'', ''address'', ''address'', ''uint256'']"

definition viemLeafHashRaw :: "Viem \<Rightarrow> LeafFields \<Rightarrow> string option" where
  "viemLeafHashRaw v f =
     map_option (\<lambda>encoded. vi_keccak256 v (vi_keccak256 v encoded))
       (vi_encodeAbiParameters v LEAF_ABI_PARAMS
            [AUint (lf_chainId f), AAddress (lf_claimManager f), AUint (lf_cycleId f),
             AAddress (lf_wallet f), AAddress (lf_asset f), AUint (lf_amount f)])"

definition leafFieldsOf :: "CycleConfig \<Rightarrow> Entitlement \<Rightarrow> LeafFields" where
  "leafFieldsOf cycle e =
     \<lparr>lf_chainId = cy_chainId cycle, lf_claimManager = cy_claimManagerAddress cycle,
      lf_cycleId = cy_cycleId cycle, lf_wallet = en_wallet e, lf_asset = en_asset e,
      lf_amount = en_amount e\<rparr>"

definition viemLeafHash :: "Viem \<Rightarrow> CycleConfig \<Rightarrow> Entitlement \<Rightarrow> string option" where
  "viemLeafHash v cycle e = viemLeafHashRaw v (leafFieldsOf cycle e)"

definition sortedPair :: "Viem \<Rightarrow> string \<Rightarrow> string \<Rightarrow> string" where
  "sortedPair v x y =
     (if bigint_of_hex x < bigint_of_hex y then vi_concatHex v [x, y] else vi_concatHex v [y, x])"

definition viemProcessProof :: "Viem \<Rightarrow> string \<Rightarrow> string list \<Rightarrow> string" where
  "viemProcessProof v leaf proof =
     foldl (\<lambda>computed sibling. vi_keccak256 v (sortedPair v computed sibling)) leaf proof"

definition viemVerifyRaw :: "Viem \<Rightarrow> LeafFields \<Rightarrow> string list \<Rightarrow> string \<Rightarrow> bool option" where
  "viemVerifyRaw v f proof root =
     map_option (\<lambda>leaf. viemProcessProof v leaf proof = root) (viemLeafHashRaw v f)"

definition viemVerify ::
  "Viem \<Rightarrow> CycleConfig \<Rightarrow> Entitlement \<Rightarrow> string list \<Rightarrow> string \<Rightarrow> bool option" where
  "viemVerify v cycle e proof root =
     map_option (\<lambda>leaf. viemProcessProof v leaf proof = root) (viemLeafHash v cycle e)"

section \<open>The tree\<close>

record MerkleLeafEntry =
  me_entitlement :: Entitlement
  me_leaf :: string
  me_proof :: "string list"

record MerkleResult =
  mr_root :: string
  mr_leafEncoding :: "string list"
  mr_entries :: "MerkleLeafEntry list"
  mr_walletIndex :: "(string \<times> MerkleLeafEntry list) list"

definition toValue :: "CycleConfig \<Rightarrow> Entitlement \<Rightarrow> string list" where
  "toValue cycle e =
     [dec_of_int (cy_chainId cycle), cy_claimManagerAddress cycle, dec_of_int (cy_cycleId cycle),
      en_wallet e, en_asset e, dec_of_int (en_amount e)]"

definition compareEntitlements :: "Entitlement \<Rightarrow> Entitlement \<Rightarrow> int" where
  "compareEntitlements x y =
     (if en_wallet x \<noteq> en_wallet y then if en_wallet x < en_wallet y then -1 else 1
      else if en_asset x \<noteq> en_asset y then if en_asset x < en_asset y then -1 else 1
      else 0)"

definition entitlementKey :: "Entitlement \<Rightarrow> string" where
  "entitlementKey e = dec_of_int (en_cycleId e) @ ''|'' @ en_wallet e @ ''|'' @ en_asset e"

fun checkLeaves :: "string list \<Rightarrow> Entitlement list \<Rightarrow> pod_error + unit" where
  "checkLeaves seen [] = Inr ()"
| "checkLeaves seen (e # es) =
     (if en_amount e \<le> 0 then fail ''ZERO_LEAF''
      else if entitlementKey e \<in> set seen then fail ''DUPLICATE_ENTITLEMENT''
      else checkLeaves (set_add (entitlementKey e) seen) es)"

definition indexEntry ::
  "MerkleLeafEntry \<Rightarrow> (string \<times> MerkleLeafEntry list) list
    \<Rightarrow> (string \<times> MerkleLeafEntry list) list" where
  "indexEntry entry m =
     (let w = en_wallet (me_entitlement entry)
      in AList.update w ((case map_of m w of None \<Rightarrow> [] | Some es \<Rightarrow> es) @ [entry]) m)"

definition buildMerkle ::
  "TreeLib \<Rightarrow> CycleConfig \<Rightarrow> Entitlement list \<Rightarrow> pod_error + MerkleResult" where
  "buildMerkle oz cycle entitlements =
     (if length entitlements = 0 then fail ''EMPTY_TREE''
      else let sorted = js_sort compareEntitlements entitlements in
        rbind (checkLeaves [] sorted) (\<lambda>_.
        let values = map (toValue cycle) sorted in
        rbind (orThrow (oz_of oz values LEAF_ABI_TYPES)) (\<lambda>tree.
        let entries = map (\<lambda>e. \<lparr>me_entitlement = e,
                               me_leaf = zt_leafHash tree (toValue cycle e),
                               me_proof = zt_getProof tree (toValue cycle e)\<rparr>)
                        sorted
        in Inr \<lparr>mr_root = zt_root tree, mr_leafEncoding = LEAF_ABI_TYPES,
                mr_entries = entries, mr_walletIndex = fold indexEntry entries []\<rparr>)))"

definition walletClaims :: "MerkleResult \<Rightarrow> string \<Rightarrow> pod_error + MerkleLeafEntry list" where
  "walletClaims result address =
     rbind (normalizeAddress address) (\<lambda>w.
       Inr (case map_of (mr_walletIndex result) w of None \<Rightarrow> [] | Some es \<Rightarrow> es))"

definition ozVerify ::
  "TreeLib \<Rightarrow> string \<Rightarrow> CycleConfig \<Rightarrow> Entitlement \<Rightarrow> string list \<Rightarrow> bool option" where
  "ozVerify oz root cycle e proof = oz_verify oz root LEAF_ABI_TYPES (toValue cycle e) proof"

section \<open>What the libraries document\<close>

text \<open>
  Hex texts and 32-byte words in lower case; the ABI values a list of types admits, their texts, and the
  range of \<open>uint256\<close>.
\<close>

definition hex_text :: "string \<Rightarrow> bool" where
  "hex_text t \<longleftrightarrow> take 2 t = ''0x'' \<and> list_all is_hex_char (drop 2 t)"

definition hash_word :: "string \<Rightarrow> bool" where
  "hash_word h \<longleftrightarrow> hex_string 64 h \<and> lower h = h"

definition uint256 :: "int \<Rightarrow> bool" where
  "uint256 i \<longleftrightarrow> 0 \<le> i \<and> i < 2 ^ 256"

fun in_range :: "AbiValue \<Rightarrow> bool" where
  "in_range (AUint i) = uint256 i"
| "in_range (AAddress a) = True"

fun textOf :: "AbiValue \<Rightarrow> string" where
  "textOf (AUint i) = dec_of_int i"
| "textOf (AAddress a) = a"

fun has_type :: "string \<Rightarrow> AbiValue \<Rightarrow> bool" where
  "has_type t (AUint i) \<longleftrightarrow> t = ''uint256''"
| "has_type t (AAddress a) \<longleftrightarrow> t = ''address'' \<and> normalized_address a"

definition abi_typed :: "string list \<Rightarrow> AbiValue list \<Rightarrow> bool" where
  "abi_typed types row \<longleftrightarrow> list_all2 has_type types row"

text \<open>
  \<open>viem\<close>: the digest of a hex text is a word, \<open>concatHex\<close> joins words, and a list of unsigned integers and
  normalized addresses is encoded exactly when the integers are in range.
\<close>

definition viem_documented :: "Viem \<Rightarrow> bool" where
  "viem_documented v \<longleftrightarrow>
     (\<forall>t. hex_text t \<longrightarrow> hash_word (vi_keccak256 v t)) \<and>
     (\<forall>x y. hash_word x \<and> hash_word y \<longrightarrow> vi_concatHex v [x, y] = x @ drop 2 y) \<and>
     (\<forall>types row. abi_typed types row \<longrightarrow>
        (case vi_encodeAbiParameters v types row of
           None \<Rightarrow> \<not> list_all in_range row
         | Some t \<Rightarrow> list_all in_range row \<and> hex_text t))"

text \<open>
  The standard tree: a leaf is the double hash of the ABI encoding of its value, an inner node the hash
  of its two children in byte order. A tree is built exactly from a non-empty list of encodable values;
  the nodes folded along the proof of a value of the tree end in its root, and \<open>verify\<close> is that fold.
\<close>

definition leafNode :: "Viem \<Rightarrow> string list \<Rightarrow> AbiValue list \<Rightarrow> string option" where
  "leafNode v types row =
     map_option (\<lambda>t. vi_keccak256 v (vi_keccak256 v t)) (vi_encodeAbiParameters v types row)"

definition innerNode :: "Viem \<Rightarrow> string \<Rightarrow> string \<Rightarrow> string" where
  "innerNode v x y = vi_keccak256 v (if x \<le> y then x @ drop 2 y else y @ drop 2 x)"

definition tree_of_rows :: "Viem \<Rightarrow> string list \<Rightarrow> AbiValue list list \<Rightarrow> OzTree \<Rightarrow> bool" where
  "tree_of_rows v types rows t \<longleftrightarrow>
     hash_word (zt_root t) \<and>
     (\<forall>row\<in>set rows.
        leafNode v types row = Some (zt_leafHash t (map textOf row)) \<and>
        list_all hash_word (zt_getProof t (map textOf row)) \<and>
        foldl (innerNode v) (zt_leafHash t (map textOf row)) (zt_getProof t (map textOf row)) = zt_root t)"

definition oz_documented :: "Viem \<Rightarrow> TreeLib \<Rightarrow> bool" where
  "oz_documented v oz \<longleftrightarrow>
     viem_documented v \<and>
     (\<forall>types rows. list_all (abi_typed types) rows \<longrightarrow>
        (case oz_of oz (map (map textOf) rows) types of
           None \<Rightarrow> rows = [] \<or> \<not> list_all (list_all in_range) rows
         | Some t \<Rightarrow> rows \<noteq> [] \<and> list_all (list_all in_range) rows \<and> tree_of_rows v types rows t)) \<and>
     (\<forall>root types row proof. abi_typed types row \<and> list_all hash_word proof \<longrightarrow>
        oz_verify oz root types (map textOf row) proof =
          map_option (\<lambda>leaf. foldl (innerNode v) leaf proof = root) (leafNode v types row))"

section \<open>Lemmas\<close>

interpretation entc: comparator compareEntitlements
  by unfold_locales (auto simp: compareEntitlements_def split: if_splits)

lemma compareEntitlements_0:
  "compareEntitlements x y = 0 \<longleftrightarrow> en_wallet x = en_wallet y \<and> en_asset x = en_asset y"
  by (auto simp: compareEntitlements_def)

lemma checkLeaves_ok:
  "checkLeaves seen es = Inr () \<longleftrightarrow>
   (\<forall>e\<in>set es. 0 < en_amount e) \<and> distinct (map entitlementKey es) \<and>
   entitlementKey ` set es \<inter> set seen = {}"
  by (induction seen es rule: checkLeaves.induct) (auto simp: not_le)

definition entriesOf :: "(string \<times> MerkleLeafEntry list) list \<Rightarrow> string \<Rightarrow> MerkleLeafEntry list" where
  "entriesOf m w = (case map_of m w of None \<Rightarrow> [] | Some es \<Rightarrow> es)"

lemma entriesOf_fold:
  "entriesOf (fold indexEntry es m) w =
   entriesOf m w @ filter (\<lambda>x. en_wallet (me_entitlement x) = w) es"
  by (induction es arbitrary: m) (auto simp: indexEntry_def Let_def entriesOf_def update_conv')

lemma buildMerkle_eq_Inr:
  "buildMerkle oz cycle es = Inr r \<longleftrightarrow>
   es \<noteq> [] \<and> (\<forall>e\<in>set es. 0 < en_amount e) \<and> distinct (map entitlementKey es) \<and>
   (let sorted = js_sort compareEntitlements es in
    \<exists>t. oz_of oz (map (toValue cycle) sorted) LEAF_ABI_TYPES = Some t \<and>
      (let entries = map (\<lambda>e. \<lparr>me_entitlement = e, me_leaf = zt_leafHash t (toValue cycle e),
                              me_proof = zt_getProof t (toValue cycle e)\<rparr>) sorted
       in r = \<lparr>mr_root = zt_root t, mr_leafEncoding = LEAF_ABI_TYPES,
               mr_entries = entries, mr_walletIndex = fold indexEntry entries []\<rparr>))"
proof -
  have "distinct (map entitlementKey (js_sort compareEntitlements es)) = distinct (map entitlementKey es)"
    by (metis mset_js_sort mset_map mset_eq_imp_distinct_iff)
  then show ?thesis
    by (auto simp: buildMerkle_def Let_def rbind_eq_Inr checkLeaves_ok)
qed

subsection \<open>Numbers and bytes agree on words\<close>

text \<open>On hex digits in lower case the order of the characters is the order of their values.\<close>

lemma hex_digit_order:
  assumes "is_hex_char c" "lower_char c = c" "is_hex_char d" "lower_char d = d"
  shows "c < d \<longleftrightarrow> hex_digit_val c < hex_digit_val d" and "hex_digit_val c = hex_digit_val d \<longleftrightarrow> c = d"
    and "0 \<le> hex_digit_val c \<and> hex_digit_val c < 16"
proof -
  have val: "hex_digit_val x = (if (of_char x :: int) \<le> 57 then of_char x - 48 else of_char x - 87)"
    "48 \<le> (of_char x :: int)" "(of_char x :: int) \<le> 57 \<or> 97 \<le> (of_char x :: int)" "(of_char x :: int) \<le> 102"
    if "is_hex_char x" "lower_char x = x" for x
  proof -
    have "\<not> (65 \<le> (of_char x :: int) \<and> (of_char x :: int) \<le> 90)"
    proof
      assume up: "65 \<le> (of_char x :: int) \<and> (of_char x :: int) \<le> 90"
      then have "(of_char (lower_char x) :: int) = of_char x + 32"
        by (simp add: lower_char_def of_char_of)
      with that(2) show False by simp
    qed
    then show "hex_digit_val x = (if (of_char x :: int) \<le> 57 then of_char x - 48 else of_char x - 87)"
      "48 \<le> (of_char x :: int)" "(of_char x :: int) \<le> 57 \<or> 97 \<le> (of_char x :: int)" "(of_char x :: int) \<le> 102"
      using that(1) by (auto simp: hex_digit_val_def is_hex_char_def Let_def)
  qed
  have ord: "c < d \<longleftrightarrow> (of_char c :: int) < of_char d"
    using of_nat_less_iff [of "of_char c" "of_char d", where 'a = int]
    by (simp only: of_nat_of_char less_char_def)
  show "c < d \<longleftrightarrow> hex_digit_val c < hex_digit_val d"
    using val [OF assms(1,2)] val [OF assms(3,4)] by (auto simp: ord)
  show "hex_digit_val c = hex_digit_val d \<longleftrightarrow> c = d"
    using val [OF assms(1,2)] val [OF assms(3,4)]
    by (auto dest!: inj_onD [OF inj_of_char, of c d] split: if_splits)
  show "0 \<le> hex_digit_val c \<and> hex_digit_val c < 16"
    using val [OF assms(1,2)] by auto
qed

definition hex_value :: "string \<Rightarrow> int" where
  "hex_value cs = foldl (\<lambda>acc c. acc * 16 + hex_digit_val c) 0 cs"

lemma hex_value_Cons: "hex_value (c # cs) = hex_digit_val c * 16 ^ length cs + hex_value cs"
proof -
  have "foldl (\<lambda>acc c. acc * 16 + hex_digit_val c) a cs = a * 16 ^ length cs + hex_value cs" for a
    unfolding hex_value_def
  proof (induction cs arbitrary: a)
    case (Cons d ds)
    have "(a * 16 + k) * 16 ^ length ds + x = a * 16 ^ length (d # ds) + ((0 * 16 + k) * 16 ^ length ds + x)"
      for k x by (simp add: distrib_right)
    then show ?case
      unfolding foldl_Cons Cons.IH [of "a * 16 + hex_digit_val d"] Cons.IH [of "0 * 16 + hex_digit_val d"] .
  qed simp
  from this [of "0 * 16 + hex_digit_val c"] show ?thesis
    unfolding hex_value_def [of "c # cs"] foldl_Cons by simp
qed

lemma hex_value_bounds:
  assumes "list_all is_hex_char cs" "lower cs = cs"
  shows "0 \<le> hex_value cs \<and> hex_value cs < 16 ^ length cs"
  using assms
proof (induction cs)
  case (Cons c cs)
  then have c: "0 \<le> hex_digit_val c" "hex_digit_val c + 1 \<le> 16" and IH: "0 \<le> hex_value cs" "hex_value cs < 16 ^ length cs"
    using hex_digit_order(3) [of c c] by (auto simp: lower_def)
  have "(hex_digit_val c + 1) * 16 ^ length cs \<le> 16 * 16 ^ length cs"
    using c(2) by (intro mult_right_mono) auto
  then have "hex_digit_val c * 16 ^ length cs + 16 ^ length cs \<le> 16 * 16 ^ length cs"
    by (simp only: distrib_right mult_1)
  moreover have "0 \<le> hex_digit_val c * 16 ^ length cs" using c(1) by simp
  ultimately show ?case using IH unfolding hex_value_Cons length_Cons power_Suc by linarith
qed (simp add: hex_value_def)

lemma hex_value_less:
  assumes "length xs = length ys" "list_all is_hex_char xs" "lower xs = xs" "list_all is_hex_char ys" "lower ys = ys"
  shows "hex_value xs < hex_value ys \<longleftrightarrow> xs < ys"
  using assms
proof (induction xs ys rule: list_induct2)
  case (Cons c cs d ds)
  then have c: "is_hex_char c" "lower_char c = c" and d: "is_hex_char d" "lower_char d = d"
    and cs: "list_all is_hex_char cs" "lower cs = cs" and ds: "list_all is_hex_char ds" "lower ds = ds"
    by (auto simp: lower_def)
  note ord = hex_digit_order [OF c d] and IH = Cons.IH [OF cs ds]
  let ?B = "16 ^ length cs :: int"
  have b: "0 \<le> hex_value cs" "hex_value cs < ?B" "0 \<le> hex_value ds" "hex_value ds < ?B"
    using hex_value_bounds [OF cs] hex_value_bounds [OF ds] Cons.hyps by auto
  consider "c < d" | "d < c" | "c = d" using linorder_less_linear by blast
  then show ?case
  proof cases
    case 1
    then have "hex_digit_val c + 1 \<le> hex_digit_val d" using ord(1) by simp
    then have "(hex_digit_val c + 1) * ?B \<le> hex_digit_val d * ?B" by (intro mult_right_mono) auto
    then have "hex_digit_val c * ?B + ?B \<le> hex_digit_val d * ?B" by (simp only: distrib_right mult_1)
    then have "hex_value (c # cs) < hex_value (d # ds)"
      using b unfolding hex_value_Cons Cons.hyps(1) [symmetric] by linarith
    with 1 show ?thesis by simp
  next
    case 2
    then have "hex_digit_val d + 1 \<le> hex_digit_val c" using hex_digit_order(1) [OF d c] by simp
    then have "(hex_digit_val d + 1) * ?B \<le> hex_digit_val c * ?B" by (intro mult_right_mono) auto
    then have "hex_digit_val d * ?B + ?B \<le> hex_digit_val c * ?B" by (simp only: distrib_right mult_1)
    then have "hex_value (d # ds) < hex_value (c # cs)"
      using b unfolding hex_value_Cons Cons.hyps(1) [symmetric] by linarith
    with 2 show ?thesis by auto
  next
    case 3
    with IH Cons.hyps show ?thesis by (simp add: hex_value_Cons)
  qed
qed (simp add: hex_value_def)

lemma hash_word_less:
  assumes "hash_word x" and "hash_word y"
  shows "bigint_of_hex x < bigint_of_hex y \<longleftrightarrow> x < y"
proof -
  obtain xs ys where xs: "x = CHR ''0'' # CHR ''x'' # xs" and ys: "y = CHR ''0'' # CHR ''x'' # ys"
    using assms by (metis append_Cons append_Nil append_take_drop_id hash_word_def hex_string_def)
  have "hex_value xs < hex_value ys \<longleftrightarrow> xs < ys"
    using assms unfolding xs ys by (intro hex_value_less) (auto simp: hash_word_def hex_string_def lower_def)
  then show ?thesis unfolding xs ys by (simp add: bigint_of_hex_def hex_value_def)
qed

subsection \<open>The verifier folds as the tree does\<close>

lemma hash_word_hex: "hash_word h \<Longrightarrow> hex_text h"
  by (simp add: hash_word_def hex_string_def hex_text_def)

lemma hash_word_join: "hash_word x \<Longrightarrow> hash_word y \<Longrightarrow> hex_text (x @ drop 2 y)"
  by (simp add: hash_word_def hex_string_def hex_text_def)

lemma innerNode_word:
  assumes "viem_documented v" "hash_word x" "hash_word y"
  shows "hash_word (innerNode v x y)"
  using assms hash_word_join by (auto simp: innerNode_def viem_documented_def)

lemma sortedPair_innerNode:
  assumes "viem_documented v" "hash_word x" "hash_word y"
  shows "vi_keccak256 v (sortedPair v x y) = innerNode v x y"
  using assms hash_word_less [OF assms(2,3)]
  by (auto simp: sortedPair_def innerNode_def viem_documented_def order_le_less)

lemma viemProcessProof_nodes:
  assumes "viem_documented v" "hash_word leaf" "list_all hash_word proof"
  shows "viemProcessProof v leaf proof = foldl (innerNode v) leaf proof"
  using assms(2,3)
proof (induction "proof" arbitrary: leaf)
  case (Cons h hs)
  then show ?case
    using sortedPair_innerNode [OF assms(1), of leaf h] innerNode_word [OF assms(1), of leaf h]
    by (simp add: viemProcessProof_def)
qed (simp add: viemProcessProof_def)

definition rowOf :: "LeafFields \<Rightarrow> AbiValue list" where
  "rowOf f =
     [AUint (lf_chainId f), AAddress (lf_claimManager f), AUint (lf_cycleId f),
      AAddress (lf_wallet f), AAddress (lf_asset f), AUint (lf_amount f)]"

definition lf_normalized :: "LeafFields \<Rightarrow> bool" where
  "lf_normalized f \<longleftrightarrow> normalized_address (lf_claimManager f) \<and> normalized_address (lf_wallet f) \<and>
     normalized_address (lf_asset f)"

definition lf_encodable :: "LeafFields \<Rightarrow> bool" where
  "lf_encodable f \<longleftrightarrow> uint256 (lf_chainId f) \<and> uint256 (lf_cycleId f) \<and> uint256 (lf_amount f)"

lemma rowOf_facts:
  "viemLeafHashRaw v f = leafNode v LEAF_ABI_TYPES (rowOf f)"
  "lf_normalized f \<Longrightarrow> abi_typed LEAF_ABI_TYPES (rowOf f)"
  "list_all in_range (rowOf f) \<longleftrightarrow> lf_encodable f"
  "toValue cycle e = map textOf (rowOf (leafFieldsOf cycle e))"
  by (auto simp: viemLeafHashRaw_def leafNode_def LEAF_ABI_PARAMS_def LEAF_ABI_TYPES_def rowOf_def
      abi_typed_def lf_normalized_def lf_encodable_def toValue_def leafFieldsOf_def)

lemma viemVerify_raw: "viemVerify v cycle e = viemVerifyRaw v (leafFieldsOf cycle e)"
  by (simp add: fun_eq_iff viemVerify_def viemVerifyRaw_def viemLeafHash_def)

text \<open>A leaf hash exists exactly for fields in range, and is a word.\<close>

lemma viemLeafHashRaw_iff:
  assumes "viem_documented v" "lf_normalized f"
  shows "viemLeafHashRaw v f \<noteq> None \<longleftrightarrow> lf_encodable f"
    and "viemLeafHashRaw v f = Some leaf \<Longrightarrow> hash_word leaf"
proof -
  have "case vi_encodeAbiParameters v LEAF_ABI_TYPES (rowOf f) of
      None \<Rightarrow> \<not> lf_encodable f | Some t \<Rightarrow> lf_encodable f \<and> hex_text t"
    using assms rowOf_facts(2) unfolding viem_documented_def rowOf_facts(3) [symmetric] by blast
  then show "viemLeafHashRaw v f \<noteq> None \<longleftrightarrow> lf_encodable f"
    and "viemLeafHashRaw v f = Some leaf \<Longrightarrow> hash_word leaf"
    using assms(1) hash_word_hex
    by (auto simp: rowOf_facts(1) leafNode_def viem_documented_def split: option.splits)
qed

lemma viem_of_documented: "oz_documented v oz \<Longrightarrow> viem_documented v"
  by (simp add: oz_documented_def)

text \<open>What the documentation says of a tree over leaf fields.\<close>

lemma tree_documented:
  assumes "oz_documented v oz" and "\<forall>f\<in>set fs. lf_normalized f"
  shows "oz_of oz (map (\<lambda>f. map textOf (rowOf f)) fs) LEAF_ABI_TYPES \<noteq> None \<longleftrightarrow>
      fs \<noteq> [] \<and> (\<forall>f\<in>set fs. lf_encodable f)"
    and "oz_of oz (map (\<lambda>f. map textOf (rowOf f)) fs) LEAF_ABI_TYPES = Some t \<Longrightarrow> f \<in> set fs \<Longrightarrow>
      viemLeafHashRaw v f = Some (zt_leafHash t (map textOf (rowOf f))) \<and>
      viemVerifyRaw v f (zt_getProof t (map textOf (rowOf f))) (zt_root t) = Some True \<and>
      oz_verify oz (zt_root t) LEAF_ABI_TYPES (map textOf (rowOf f)) (zt_getProof t (map textOf (rowOf f))) =
        Some True"
    and "oz_of oz (map (\<lambda>f. map textOf (rowOf f)) fs) LEAF_ABI_TYPES = Some t \<Longrightarrow> hash_word (zt_root t)"
proof -
  note vd = viem_of_documented [OF assms(1)]
  have rows: "list_all (abi_typed LEAF_ABI_TYPES) (map rowOf fs)"
    using assms(2) rowOf_facts(2) by (simp add: list_all_iff)
  have law: "case oz_of oz (map (map textOf) (map rowOf fs)) LEAF_ABI_TYPES of
           None \<Rightarrow> map rowOf fs = [] \<or> \<not> list_all (list_all in_range) (map rowOf fs)
         | Some t \<Rightarrow> map rowOf fs \<noteq> [] \<and> list_all (list_all in_range) (map rowOf fs) \<and>
             tree_of_rows v LEAF_ABI_TYPES (map rowOf fs) t"
    using assms(1) rows unfolding oz_documented_def by blast
  have row_texts: "map (map textOf) (map rowOf fs) = map (\<lambda>f. map textOf (rowOf f)) fs" by simp
  have range: "list_all (list_all in_range) (map rowOf fs) \<longleftrightarrow> (\<forall>f\<in>set fs. lf_encodable f)"
    by (simp add: list_all_iff flip: rowOf_facts(3))
  show "oz_of oz (map (\<lambda>f. map textOf (rowOf f)) fs) LEAF_ABI_TYPES \<noteq> None \<longleftrightarrow>
      fs \<noteq> [] \<and> (\<forall>f\<in>set fs. lf_encodable f)"
    using law unfolding row_texts range by (auto split: option.splits)
  assume t: "oz_of oz (map (\<lambda>f. map textOf (rowOf f)) fs) LEAF_ABI_TYPES = Some t"
  then have tree: "tree_of_rows v LEAF_ABI_TYPES (map rowOf fs) t" using law unfolding row_texts by simp
  then show "hash_word (zt_root t)" by (simp add: tree_of_rows_def)
  assume f: "f \<in> set fs"
  let ?leaf = "zt_leafHash t (map textOf (rowOf f))" and ?proof = "zt_getProof t (map textOf (rowOf f))"
  have leaf: "viemLeafHashRaw v f = Some ?leaf" "list_all hash_word ?proof"
    "foldl (innerNode v) ?leaf ?proof = zt_root t"
    using tree f unfolding tree_of_rows_def rowOf_facts(1) by auto
  have word: "hash_word ?leaf" using viemLeafHashRaw_iff(2) [OF vd] assms(2) f leaf(1) by blast
  have "oz_verify oz (zt_root t) LEAF_ABI_TYPES (map textOf (rowOf f)) ?proof =
      map_option (\<lambda>leaf. foldl (innerNode v) leaf ?proof = zt_root t) (leafNode v LEAF_ABI_TYPES (rowOf f))"
    using assms f leaf(2) rowOf_facts(2) unfolding oz_documented_def by blast
  with leaf word viemProcessProof_nodes [OF vd word leaf(2)]
  show "viemLeafHashRaw v f = Some ?leaf \<and> viemVerifyRaw v f ?proof (zt_root t) = Some True \<and>
      oz_verify oz (zt_root t) LEAF_ABI_TYPES (map textOf (rowOf f)) ?proof = Some True"
    by (simp add: viemVerifyRaw_def flip: rowOf_facts(1))
qed

text \<open>The same for the tree of \<open>buildMerkle\<close>.\<close>

definition leaves_normalized :: "CycleConfig \<Rightarrow> Entitlement list \<Rightarrow> bool" where
  "leaves_normalized cycle es \<longleftrightarrow> (\<forall>e\<in>set es. lf_normalized (leafFieldsOf cycle e))"

definition leaves_encodable :: "CycleConfig \<Rightarrow> Entitlement list \<Rightarrow> bool" where
  "leaves_encodable cycle es \<longleftrightarrow> (\<forall>e\<in>set es. lf_encodable (leafFieldsOf cycle e))"

lemma toValue_rows: "map (toValue cycle) es = map (\<lambda>f. map textOf (rowOf f)) (map (leafFieldsOf cycle) es)"
  by (simp add: rowOf_facts(4))

lemma buildMerkle_ok_iff:
  assumes "oz_documented v oz" and "leaves_normalized cycle es"
  shows "is_ok (buildMerkle oz cycle es) \<longleftrightarrow>
    es \<noteq> [] \<and> (\<forall>e\<in>set es. 0 < en_amount e) \<and> distinct (map entitlementKey es) \<and> leaves_encodable cycle es"
proof -
  let ?fs = "map (leafFieldsOf cycle) (js_sort compareEntitlements es)"
  have "\<forall>f\<in>set ?fs. lf_normalized f" using assms(2) by (auto simp: leaves_normalized_def)
  from tree_documented(1) [OF assms(1) this]
  have "(\<exists>t. oz_of oz (map (toValue cycle) (js_sort compareEntitlements es)) LEAF_ABI_TYPES = Some t) \<longleftrightarrow>
      ?fs \<noteq> [] \<and> leaves_encodable cycle es"
    unfolding toValue_rows leaves_encodable_def by auto
  moreover have "?fs \<noteq> [] \<longleftrightarrow> es \<noteq> []" by (metis length_0_conv length_map size_mset mset_js_sort)
  ultimately show ?thesis by (auto simp: is_ok_iff buildMerkle_eq_Inr Let_def)
qed

lemma buildMerkle_proofs:
  assumes "oz_documented v oz" and "leaves_normalized cycle es"
    and "buildMerkle oz cycle es = Inr r" and "x \<in> set (mr_entries r)"
  shows "ozVerify oz (mr_root r) cycle (me_entitlement x) (me_proof x) = Some True"
    and "viemVerify v cycle (me_entitlement x) (me_proof x) (mr_root r) = Some True"
    and "viemLeafHash v cycle (me_entitlement x) = Some (me_leaf x)"
    and "me_entitlement x \<in> set es"
proof -
  let ?s = "js_sort compareEntitlements es"
  from assms(3,4) obtain e t where e: "e \<in> set ?s" "me_entitlement x = e"
    "me_leaf x = zt_leafHash t (toValue cycle e)" "me_proof x = zt_getProof t (toValue cycle e)"
    "mr_root r = zt_root t"
    and t: "oz_of oz (map (toValue cycle) ?s) LEAF_ABI_TYPES = Some t"
    by (auto simp: buildMerkle_eq_Inr Let_def)
  have "\<forall>f\<in>set (map (leafFieldsOf cycle) ?s). lf_normalized f"
    using assms(2) by (auto simp: leaves_normalized_def)
  from tree_documented(2) [OF assms(1) this t [unfolded toValue_rows], of "leafFieldsOf cycle e"] e
  show "ozVerify oz (mr_root r) cycle (me_entitlement x) (me_proof x) = Some True"
    "viemVerify v cycle (me_entitlement x) (me_proof x) (mr_root r) = Some True"
    "viemLeafHash v cycle (me_entitlement x) = Some (me_leaf x)"
    by (simp_all add: ozVerify_def viemVerify_raw viemLeafHash_def rowOf_facts(4))
  show "me_entitlement x \<in> set es" using e by simp
qed

section \<open>Properties\<close>

text \<open>
  C8: \<open>buildMerkle\<close> succeeds exactly on a non-empty list of positive entitlements without two of the
  same (cycle, wallet, asset) whose values the tree library accepts; its entries then are the
  entitlements, each once, sorted by wallet and asset, with the leaf and the proof the tree built from
  them gives, and the claims of a wallet, asked for in any letter case, are exactly its entries.
\<close>

theorem buildMerkle_complete:
  "(is_ok (buildMerkle oz cycle es) \<longleftrightarrow>
      es \<noteq> [] \<and> (\<forall>e\<in>set es. 0 < en_amount e) \<and> distinct (map entitlementKey es) \<and>
      oz_of oz (map (toValue cycle) (js_sort compareEntitlements es)) LEAF_ABI_TYPES \<noteq> None) \<and>
   (\<forall>r. buildMerkle oz cycle es = Inr r \<longrightarrow>
      mset (map me_entitlement (mr_entries r)) = mset es \<and>
      sorted_wrt (\<lambda>x y. compareEntitlements x y \<le> 0) (map me_entitlement (mr_entries r)) \<and>
      (\<exists>t. oz_of oz (map (toValue cycle) (map me_entitlement (mr_entries r))) LEAF_ABI_TYPES = Some t \<and>
         mr_root r = zt_root t \<and>
         (\<forall>x\<in>set (mr_entries r). me_leaf x = zt_leafHash t (toValue cycle (me_entitlement x)) \<and>
            me_proof x = zt_getProof t (toValue cycle (me_entitlement x)))) \<and>
      (\<forall>a. isHexAddress a \<longrightarrow> walletClaims r a =
         Inr (filter (\<lambda>x. en_wallet (me_entitlement x) = lower a) (mr_entries r))))"
proof -
  have claims: "walletClaims r a = Inr (entriesOf (mr_walletIndex r) (lower a))"
    if "isHexAddress a" for r a
    using that by (simp add: walletClaims_def normalizeAddress_def entriesOf_def)
  have none: "entriesOf [] w = []" for w by (simp add: entriesOf_def)
  have same: "map me_entitlement (map (\<lambda>e. \<lparr>me_entitlement = e, me_leaf = f e, me_proof = g e\<rparr>) xs) = xs"
    for f g and xs :: "Entitlement list" by (simp add: comp_def)
  show ?thesis
    by (auto simp: is_ok_iff buildMerkle_eq_Inr Let_def claims none entriesOf_fold same
        entc.sorted_js_sort simp del: map_map mset_map)
qed

text \<open>
  C9: when the libraries keep their documentation and the addresses are normalized, \<open>buildMerkle\<close>
  succeeds exactly on positive, distinct entitlements whose integers are all in the range of
  \<open>uint256\<close>; and then every leaf it emits is the one the independent verifier computes from the fields, and
  every proof passes both verifiers against the root.
\<close>

theorem buildMerkle_independently_verifies:
  assumes "oz_documented v oz" and "normalized_address (cy_claimManagerAddress cycle)"
    and "\<forall>e\<in>set es. normalized_address (en_wallet e) \<and> normalized_address (en_asset e)"
  shows "(is_ok (buildMerkle oz cycle es) \<longleftrightarrow>
      es \<noteq> [] \<and> distinct (map entitlementKey es) \<and>
      0 \<le> cy_chainId cycle \<and> cy_chainId cycle < 2 ^ 256 \<and> 0 \<le> cy_cycleId cycle \<and> cy_cycleId cycle < 2 ^ 256 \<and>
      (\<forall>e\<in>set es. 0 < en_amount e \<and> en_amount e < 2 ^ 256)) \<and>
    (\<forall>r. buildMerkle oz cycle es = Inr r \<longrightarrow> (\<forall>x\<in>set (mr_entries r).
      viemLeafHash v cycle (me_entitlement x) = Some (me_leaf x) \<and>
      viemVerify v cycle (me_entitlement x) (me_proof x) (mr_root r) = Some True \<and>
      ozVerify oz (mr_root r) cycle (me_entitlement x) (me_proof x) = Some True))"
proof -
  have norm: "leaves_normalized cycle es"
    using assms(2,3) by (auto simp: leaves_normalized_def lf_normalized_def leafFieldsOf_def)
  have "leaves_encodable cycle es \<longleftrightarrow> (\<forall>e\<in>set es. uint256 (cy_chainId cycle) \<and> uint256 (cy_cycleId cycle) \<and>
      uint256 (en_amount e))"
    by (auto simp: leaves_encodable_def lf_encodable_def leafFieldsOf_def)
  then have "is_ok (buildMerkle oz cycle es) \<longleftrightarrow>
      es \<noteq> [] \<and> distinct (map entitlementKey es) \<and>
      0 \<le> cy_chainId cycle \<and> cy_chainId cycle < 2 ^ 256 \<and> 0 \<le> cy_cycleId cycle \<and> cy_cycleId cycle < 2 ^ 256 \<and>
      (\<forall>e\<in>set es. 0 < en_amount e \<and> en_amount e < 2 ^ 256)"
    unfolding buildMerkle_ok_iff [OF assms(1) norm] uint256_def
    by (cases es) (auto dest: less_imp_le)
  with buildMerkle_proofs [OF assms(1) norm] show ?thesis by blast
qed

section \<open>A concrete library\<close>

text \<open>
  A digest that keeps only a parity, and a comb-shaped tree whose root folds the leaves from the left: a
  small instance that keeps the documentation.
\<close>

definition toy_keccak :: "string \<Rightarrow> string" where
  "toy_keccak s = ''0x'' @ replicate 63 (CHR ''0'') @ (if length s mod 2 = 0 then ''0'' else ''1'')"

fun toy_word :: "AbiValue \<Rightarrow> string" where
  "toy_word (AUint i) = dec_of_int i"
| "toy_word (AAddress a) = drop 2 a"

definition toy_viem :: Viem where
  "toy_viem = \<lparr>vi_keccak256 = toy_keccak, vi_concatHex = (\<lambda>hs. ''0x'' @ concat (map (drop 2) hs)),
     vi_encodeAbiParameters = (\<lambda>ts vs. if list_all in_range vs then Some (''0x'' @ concat (map toy_word vs)) else None)\<rparr>"

definition toy_leaf :: "string list \<Rightarrow> string list \<Rightarrow> string" where
  "toy_leaf types value =
     toy_keccak (toy_keccak (''0x'' @ concat (map (\<lambda>(t, x). if t = ''uint256'' then x else drop 2 x) (zip types value))))"

definition toy_fits :: "string list \<Rightarrow> string list \<Rightarrow> bool" where
  "toy_fits types value = list_all (\<lambda>(t, x). t = ''uint256'' \<longrightarrow> hd x \<noteq> CHR ''-'' \<and> int_of_dec x < 2 ^ 256) (zip types value)"

fun toy_root :: "string list \<Rightarrow> string" where
  "toy_root [] = toy_keccak []"
| "toy_root (l # ls) = foldl (innerNode toy_viem) l ls"

fun toy_proof :: "string \<Rightarrow> string list \<Rightarrow> string list \<Rightarrow> string list" where
  "toy_proof x pre [] = []"
| "toy_proof x pre (l # ls) =
     (if l = x then (if pre = [] then ls else toy_root pre # ls) else toy_proof x (pre @ [l]) ls)"

definition toy_oz :: TreeLib where
  "toy_oz = \<lparr>oz_of = (\<lambda>values types.
       if values = [] \<or> \<not> list_all (toy_fits types) values then None
       else Some \<lparr>zt_root = toy_root (map (toy_leaf types) values), zt_leafHash = toy_leaf types,
              zt_getProof = (\<lambda>value. toy_proof (toy_leaf types value) [] (map (toy_leaf types) values))\<rparr>),
     oz_verify = (\<lambda>root types value proof.
       if toy_fits types value then Some (foldl (innerNode toy_viem) (toy_leaf types value) proof = root)
       else None)\<rparr>"

lemma toy_keccak_word: "hash_word (toy_keccak t)"
proof -
  have "is_hex_char (CHR ''0'')" "is_hex_char (CHR ''1'')" "lower_char (CHR ''0'') = CHR ''0''"
    "lower_char (CHR ''1'') = CHR ''1''" "lower_char (CHR ''x'') = CHR ''x''" by code_simp+
  then show ?thesis
    by (auto simp: hash_word_def hex_string_def toy_keccak_def lower_def list_all_iff)
qed

lemma toy_viem_documented: "viem_documented toy_viem"
proof -
  have hexes: "list_all is_hex_char (concat (map toy_word row))"
    if "list_all in_range row" "list_all2 has_type types row" for types row
    using that(2,1)
  proof (induction rule: list_all2_induct)
    case (Cons t ts a row)
    then show ?case
    proof (cases a)
      case (AUint i)
      with Cons show ?thesis
        using dec_of_nat_digits [of "nat i"] is_hex_digit by (auto simp: uint256_def dec_of_int_def list_all_iff)
    next
      case (AAddress x)
      with Cons show ?thesis by (simp add: normalized_address_def isHexAddress_def hex_string_def)
    qed
  qed simp
  have join: "''0x'' @ drop 2 x @ drop 2 y = x @ drop 2 y" if "hash_word x" for x y
    using that append_take_drop_id [of 2 x] by (metis append.assoc hash_word_def hex_string_def)
  show ?thesis
    using hexes join
    by (auto simp: viem_documented_def toy_viem_def toy_keccak_word abi_typed_def hex_text_def)
qed

lemma toy_row:
  assumes "abi_typed types row"
  shows "toy_fits types (map textOf row) \<longleftrightarrow> list_all in_range row"
    and "leafNode toy_viem types row =
      (if list_all in_range row then Some (toy_leaf types (map textOf row)) else None)"
proof -
  have dec: "hd (dec_of_int i) \<noteq> CHR ''-'' \<and> int_of_dec (dec_of_int i) < 2 ^ 256 \<longleftrightarrow> uint256 i" for i
  proof (cases "0 \<le> i")
    case True
    have "dec_of_nat (nat i) \<noteq> []" "list_all is_digit_char (dec_of_nat (nat i))"
      using dec_of_nat_digits [of "nat i"] by auto
    then have "is_digit_char (hd (dec_of_nat (nat i)))" by (cases "dec_of_nat (nat i)") auto
    moreover have "\<not> is_digit_char (CHR ''-'')" by code_simp
    ultimately have "hd (dec_of_nat (nat i)) \<noteq> CHR ''-''" by metis
    with True show ?thesis by (simp add: dec_of_int_def uint256_def int_of_dec_def)
  qed (simp add: dec_of_int_def uint256_def)
  have "list_all2 has_type types row" using assms by (simp add: abi_typed_def)
  then have "(toy_fits types (map textOf row) \<longleftrightarrow> list_all in_range row) \<and>
      map (\<lambda>(t, x). if t = ''uint256'' then x else drop 2 x) (zip types (map textOf row)) = map toy_word row"
  proof (induction rule: list_all2_induct)
    case (Cons t ts a row)
    then show ?case using dec by (cases a) (auto simp: toy_fits_def)
  qed (simp add: toy_fits_def)
  then show "toy_fits types (map textOf row) \<longleftrightarrow> list_all in_range row"
    "leafNode toy_viem types row = (if list_all in_range row then Some (toy_leaf types (map textOf row)) else None)"
    by (auto simp: leafNode_def toy_leaf_def toy_viem_def)
qed

lemma toy_words:
  assumes "list_all hash_word ls" and "list_all hash_word pre"
  shows "hash_word (toy_root ls)" and "list_all hash_word (toy_proof x pre ls)"
proof -
  have root: "hash_word (toy_root ls)" if ls: "list_all hash_word ls" for ls
  proof (cases ls)
    case (Cons l ks)
    have "hash_word (foldl (innerNode toy_viem) l ks)" if "hash_word l" "list_all hash_word ks" for l ks
      using that by (induction ks arbitrary: l) (auto intro: innerNode_word [OF toy_viem_documented])
    with Cons ls show ?thesis by simp
  qed (simp add: toy_keccak_word)
  then show "hash_word (toy_root ls)" using assms(1) .
  show "list_all hash_word (toy_proof x pre ls)"
    using assms by (induction x pre ls rule: toy_proof.induct) (auto intro: root)
qed

lemma innerNode_comm: "innerNode v x y = innerNode v y x"
  by (auto simp: innerNode_def)

lemma toy_proof_verifies:
  "x \<in> set ls \<Longrightarrow> foldl (innerNode toy_viem) x (toy_proof x pre ls) = toy_root (pre @ ls)"
proof (induction ls arbitrary: pre)
  case (Cons l ls)
  show ?case
  proof (cases "l = x")
    case True
    then show ?thesis
      by (cases pre) (simp_all add: innerNode_comm [of toy_viem x])
  next
    case False
    with Cons show ?thesis by simp
  qed
qed simp

lemma toy_documented: "oz_documented toy_viem toy_oz"
proof -
  have built: "case oz_of toy_oz (map (map textOf) rows) types of
           None \<Rightarrow> rows = [] \<or> \<not> list_all (list_all in_range) rows
         | Some t \<Rightarrow> rows \<noteq> [] \<and> list_all (list_all in_range) rows \<and> tree_of_rows toy_viem types rows t"
    if "list_all (abi_typed types) rows" for types rows
  proof -
    let ?ls = "map (toy_leaf types) (map (map textOf) rows)"
    have fits: "list_all (toy_fits types) (map (map textOf) rows) \<longleftrightarrow> list_all (list_all in_range) rows"
      using that toy_row(1) by (auto simp: list_all_iff)
    have words: "list_all hash_word ?ls" by (simp add: list_all_iff toy_leaf_def toy_keccak_word)
    have "tree_of_rows toy_viem types rows \<lparr>zt_root = toy_root ?ls, zt_leafHash = toy_leaf types,
              zt_getProof = (\<lambda>value. toy_proof (toy_leaf types value) [] ?ls)\<rparr>"
      if "list_all (list_all in_range) rows"
      unfolding tree_of_rows_def
      using that \<open>list_all (abi_typed types) rows\<close> toy_row(2) toy_words [OF words, of "[]"] toy_proof_verifies [of _ ?ls "[]"]
      by (auto simp: list_all_iff)
    then show ?thesis by (simp add: toy_oz_def fits)
  qed
  have "oz_verify toy_oz root types (map textOf row) proof =
      map_option (\<lambda>leaf. foldl (innerNode toy_viem) leaf proof = root) (leafNode toy_viem types row)"
    if "abi_typed types row" for root types row "proof"
    using toy_row [OF that] by (simp add: toy_oz_def)
  with built toy_viem_documented show ?thesis unfolding oz_documented_def by blast
qed

definition ex_account :: "char \<Rightarrow> string" where
  "ex_account c = ''0x'' @ replicate 40 c"

definition ex_tree_cycle :: CycleConfig where
  "ex_tree_cycle = ex_cycle\<lparr>cy_claimManagerAddress := ex_account (CHR ''c'')\<rparr>"

definition ex_entitlements :: "Entitlement list" where
  "ex_entitlements =
     (let asset = ex_asset\<lparr>as_tokenAddress := ex_account (CHR ''d'')\<rparr>
      in [entitle ex_tree_cycle asset (ex_account (CHR ''b'')) 5, entitle ex_tree_cycle asset (ex_account (CHR ''a'')) 7])"

lemma ex_account_normalized:
  "list_all (\<lambda>c. normalized_address (ex_account c)) ''abcdef0123456789''"
  by code_simp

lemma ex_leaves:
  "distinct (map entitlementKey ex_entitlements)"
  "normalized_address (cy_claimManagerAddress ex_tree_cycle)"
  "list_all (\<lambda>e. normalized_address (en_wallet e) \<and> normalized_address (en_asset e) \<and>
     0 < en_amount e \<and> en_amount e < 2 ^ 256) ex_entitlements"
  "cy_chainId ex_tree_cycle = 1" "cy_cycleId ex_tree_cycle = 1" "ex_entitlements \<noteq> []"
  by code_simp+

theorem buildMerkle_independently_verifies_witness:
  "\<exists>r. buildMerkle toy_oz ex_tree_cycle ex_entitlements = Inr r \<and>
     (\<forall>x\<in>set (mr_entries r).
        viemVerify toy_viem ex_tree_cycle (me_entitlement x) (me_proof x) (mr_root r) = Some True) \<and>
     \<not> is_ok (buildMerkle toy_oz (ex_tree_cycle\<lparr>cy_chainId := 2 ^ 256\<rparr>) ex_entitlements)"
proof -
  have norm: "\<forall>e\<in>set ex_entitlements. normalized_address (en_wallet e) \<and> normalized_address (en_asset e)"
    using ex_leaves(3) by (simp add: list_all_iff)
  note th = buildMerkle_independently_verifies [OF toy_documented _ norm]
  have "is_ok (buildMerkle toy_oz ex_tree_cycle ex_entitlements)"
    using th [OF ex_leaves(2)] ex_leaves by (simp add: list_all_iff)
  moreover have "\<not> is_ok (buildMerkle toy_oz (ex_tree_cycle\<lparr>cy_chainId := 2 ^ 256\<rparr>) ex_entitlements)"
    using th [of "ex_tree_cycle\<lparr>cy_chainId := 2 ^ 256\<rparr>"] ex_leaves(2) by simp
  ultimately show ?thesis using th [OF ex_leaves(2)] by (auto simp: is_ok_iff)
qed

lemma ex_leaves_normalized: "leaves_normalized ex_tree_cycle ex_entitlements"
  using ex_leaves(2,3) by (auto simp: leaves_normalized_def lf_normalized_def leafFieldsOf_def list_all_iff)

lemma ex_tree: "is_ok (buildMerkle toy_oz ex_tree_cycle ex_entitlements)"
  unfolding buildMerkle_ok_iff [OF toy_documented ex_leaves_normalized]
  using ex_leaves
  by (auto simp: list_all_iff leaves_encodable_def lf_encodable_def leafFieldsOf_def uint256_def less_imp_le)

theorem buildMerkle_complete_witness:
  "\<exists>r. buildMerkle toy_oz ex_tree_cycle ex_entitlements = Inr r \<and>
     mset (map me_entitlement (mr_entries r)) = mset ex_entitlements \<and>
     walletClaims r (''0x'' @ replicate 40 (CHR ''A'')) =
       Inr (filter (\<lambda>x. en_wallet (me_entitlement x) = ex_account (CHR ''a'')) (mr_entries r))"
proof -
  obtain r where r: "buildMerkle toy_oz ex_tree_cycle ex_entitlements = Inr r"
    using ex_tree unfolding is_ok_iff by blast
  have "isHexAddress (''0x'' @ replicate 40 (CHR ''A''))"
    "lower (''0x'' @ replicate 40 (CHR ''A'')) = ex_account (CHR ''a'')" by code_simp+
  with r buildMerkle_complete [of toy_oz ex_tree_cycle ex_entitlements] show ?thesis by metis
qed

text \<open>
  The outcome of \<open>buildMerkle\<close> does not depend on the order of the entitlements: lists with the
  same members give the same root, entries, proofs and index.
\<close>

theorem buildMerkle_order_independent:
  assumes "mset es = mset es'" and "\<forall>e\<in>set es. en_cycleId e = cy_cycleId cycle"
    and "is_ok (buildMerkle oz cycle es)"
  shows "buildMerkle oz cycle es' = buildMerkle oz cycle es"
proof -
  have dist: "distinct (map entitlementKey es)"
    using assms(3) by (auto simp: is_ok_iff buildMerkle_eq_Inr Let_def)
  have "js_sort compareEntitlements es = js_sort compareEntitlements es'"
  proof (rule entc.js_sort_perm [OF assms(1)])
    fix x y assume xy: "x \<in> set es" "y \<in> set es" "compareEntitlements x y = 0"
    then have "entitlementKey x = entitlementKey y"
      using assms(2) by (simp add: compareEntitlements_0 entitlementKey_def)
    with dist xy(1,2) show "x = y" by (auto simp: distinct_map inj_on_def)
  qed
  moreover have "length es = length es'" using assms(1) by (metis size_mset)
  ultimately show ?thesis by (simp add: buildMerkle_def)
qed

theorem buildMerkle_order_independent_witness:
  "buildMerkle toy_oz ex_tree_cycle (rev ex_entitlements) = buildMerkle toy_oz ex_tree_cycle ex_entitlements"
proof (rule buildMerkle_order_independent)
  show "\<forall>e\<in>set ex_entitlements. en_cycleId e = cy_cycleId ex_tree_cycle"
    by (simp add: ex_entitlements_def entitle_def Let_def)
qed (simp_all add: ex_tree)

end
