(* ===== verification/Serialize.thy ===== *)
theory Serialize
  imports PodModel
begin

text \<open>
  \<open>serialize.ts\<close>: canonical JSON. A value the serializer may meet is a \<open>Json\<close>; an object is the
  list of its properties in enumeration order, which \<open>js_object\<close> computes from the order of
  assignment: array-index keys first, ascending, then the other keys as assigned.
  \<open>JSON.stringify(_, null, 2)\<close> is \<open>stringify\<close>. The hash is a parameter.
\<close>

datatype Json =
    JNull
  | JUndefined
  | JBool bool
  | JNum int
  | JFrac
  | JBigint int
  | JStr string
  | JArr "Json list"
  | JObj "(string \<times> Json) list"

section \<open>Objects\<close>

definition is_array_index :: "string \<Rightarrow> bool" where
  "is_array_index k \<longleftrightarrow> isNonNegativeIntegerString k \<and> int_of_dec k < 4294967295"

definition js_object :: "(string \<times> 'a) list \<Rightarrow> (string \<times> 'a) list" where
  "js_object kvs =
     js_sort (\<lambda>p q. int_cmp (int_of_dec (fst p)) (int_of_dec (fst q)))
       (filter (\<lambda>p. is_array_index (fst p)) kvs)
     @ filter (\<lambda>p. \<not> is_array_index (fst p)) kvs"

definition sort_keys :: "(string \<times> 'a) list \<Rightarrow> (string \<times> 'a) list" where
  "sort_keys kvs = js_sort (\<lambda>p q. str_cmp (fst p) (fst q)) kvs"

lemma mset_js_object [simp]: "mset (js_object kvs) = mset kvs"
  by (simp add: js_object_def)

lemma set_js_object [simp]: "set (js_object kvs) = set kvs"
  by (metis mset_js_object set_mset_mset)

lemma mset_sort_keys [simp]: "mset (sort_keys kvs) = mset kvs"
  by (simp add: sort_keys_def)

lemma set_sort_keys [simp]: "set (sort_keys kvs) = set kvs"
  by (simp add: sort_keys_def)

section \<open>The code\<close>

lemma size_member: "(k, v) \<in> set kvs \<Longrightarrow> size v < Suc (size_list (size_prod (\<lambda>_. 0) size) kvs)"
  by (induction kvs) auto

function canonicalize :: "Json \<Rightarrow> pod_error + Json" where
  "canonicalize (JBigint i) = Inl CanonicalizeError"
| "canonicalize JNull = Inr JNull"
| "canonicalize (JArr vs) = rbind (rmap canonicalize vs) (\<lambda>ws. Inr (JArr ws))"
| "canonicalize (JStr s) = Inr (JStr s)"
| "canonicalize (JBool b) = Inr (JBool b)"
| "canonicalize (JNum i) = Inr (JNum i)"
| "canonicalize JFrac = Inl CanonicalizeError"
| "canonicalize (JObj kvs) =
     rbind (rmap (\<lambda>p. rbind (canonicalize (snd p)) (\<lambda>w. Inr (fst p, w))) (sort_keys kvs))
       (\<lambda>out. Inr (JObj (js_object out)))"
| "canonicalize JUndefined = Inl CanonicalizeError"
  by pat_completeness auto

termination
  by (relation "measure size") (auto simp: size_list_estimation' less_Suc_eq_le dest: size_member)

definition hex_digit :: "nat \<Rightarrow> char" where
  "hex_digit d = (if d < 10 then char_of (48 + d) else char_of (87 + d))"

definition quote_char :: "char \<Rightarrow> string" where
  "quote_char c =
     (let n = of_char c :: nat in
      if n = 34 then [char_of (92 :: nat), char_of (34 :: nat)]
      else if n = 92 then [char_of (92 :: nat), char_of (92 :: nat)]
      else if n = 8 then char_of (92 :: nat) # ''b''
      else if n = 12 then char_of (92 :: nat) # ''f''
      else if n = 10 then char_of (92 :: nat) # ''n''
      else if n = 13 then char_of (92 :: nat) # ''r''
      else if n = 9 then char_of (92 :: nat) # ''t''
      else if n < 32 then char_of (92 :: nat) # ''u00'' @ [hex_digit (n div 16), hex_digit (n mod 16)]
      else [c])"

definition quote :: "string \<Rightarrow> string" where
  "quote s = [char_of (34 :: nat)] @ concat (map quote_char s) @ [char_of (34 :: nat)]"

definition newline :: string where "newline = [char_of (10 :: nat)]"

definition spaces :: "nat \<Rightarrow> string" where "spaces n = replicate n (CHR '' '')"

fun join :: "string \<Rightarrow> string list \<Rightarrow> string" where
  "join sep [] = []"
| "join sep [x] = x"
| "join sep (x # y # ys) = x @ sep @ join sep (y # ys)"

fun stringify :: "nat \<Rightarrow> Json \<Rightarrow> string" where
  "stringify ind (JStr s) = quote s"
| "stringify ind (JBool b) = (if b then ''true'' else ''false'')"
| "stringify ind (JNum i) = dec_of_int i"
| "stringify ind (JArr vs) =
     (if vs = [] then ''[]''
      else ''['' @ newline @ spaces (ind + 2)
        @ join ('','' @ newline @ spaces (ind + 2)) (map (stringify (ind + 2)) vs)
        @ newline @ spaces ind @ '']'')"
| "stringify ind (JObj kvs) =
     (if kvs = [] then ''{}''
      else ''{'' @ newline @ spaces (ind + 2)
        @ join ('','' @ newline @ spaces (ind + 2))
            (map (\<lambda>(k, v). quote k @ '': '' @ stringify (ind + 2) v) kvs)
        @ newline @ spaces ind @ ''}'')"
| "stringify ind _ = ''null''"

definition canonicalStringify :: "Json \<Rightarrow> pod_error + string" where
  "canonicalStringify v = rbind (canonicalize v) (\<lambda>w. Inr (stringify 0 w))"

definition keccakOfString :: "(string \<Rightarrow> string) \<Rightarrow> string \<Rightarrow> string" where
  "keccakOfString keccak text = keccak text"

definition keccakOfCanonical :: "(string \<Rightarrow> string) \<Rightarrow> Json \<Rightarrow> pod_error + string" where
  "keccakOfCanonical keccak v = rbind (canonicalStringify v) (\<lambda>text. Inr (keccakOfString keccak text))"

section \<open>The order of keys does not matter\<close>

inductive same_json :: "Json \<Rightarrow> Json \<Rightarrow> bool" where
  same_refl: "same_json v v"
| same_arr: "list_all2 same_json vs ws \<Longrightarrow> same_json (JArr vs) (JArr ws)"
| same_obj: "list_all2 (\<lambda>p q. fst p = fst q \<and> same_json (snd p) (snd q)) kvs ms \<Longrightarrow>
    mset ms = mset kvs' \<Longrightarrow> distinct (map fst kvs) \<Longrightarrow> same_json (JObj kvs) (JObj kvs')"
  monos list_all2_mono

definition key_cmp :: "string \<times> 'a \<Rightarrow> string \<times> 'a \<Rightarrow> int" where
  "key_cmp p q = str_cmp (fst p) (fst q)"

interpretation keyc: comparator "key_cmp :: string \<times> 'a \<Rightarrow> string \<times> 'a \<Rightarrow> int"
  by unfold_locales (auto simp: key_cmp_def str_cmp_def split: if_splits)

lemma sort_keys_key_cmp: "sort_keys kvs = js_sort key_cmp kvs"
  by (simp add: sort_keys_def key_cmp_def [abs_def])

lemma sort_keys_perm:
  assumes "mset kvs = mset kvs'" and "distinct (map fst kvs)"
  shows "sort_keys kvs = sort_keys kvs'"
  unfolding sort_keys_key_cmp
proof (rule keyc.js_sort_perm [OF assms(1)])
  fix p q assume pq: "p \<in> set kvs" "q \<in> set kvs" "key_cmp p q = 0"
  then have "fst p = fst q" by (simp add: key_cmp_def)
  with assms(2) pq show "p = q" by (auto simp: distinct_map inj_on_def)
qed

lemma js_insert_all2:
  assumes "list_all2 R xs ys" and "R x y"
    and "\<And>a b c d. R a b \<Longrightarrow> R c d \<Longrightarrow> cmp a c = cmp' b d"
  shows "list_all2 R (js_insert cmp x xs) (js_insert cmp' y ys)"
  using assms(1,2) by (induction rule: list_all2_induct) (auto simp: assms(3))

lemma js_sort_all2:
  assumes "list_all2 R xs ys" and "\<And>a b c d. R a b \<Longrightarrow> R c d \<Longrightarrow> cmp a c = cmp' b d"
  shows "list_all2 R (js_sort cmp xs) (js_sort cmp' ys)"
  using assms(1) by (induction rule: list_all2_induct) (auto intro: js_insert_all2 assms(2))

lemma rmap_all2_cong:
  assumes "list_all2 (\<lambda>x y. f x = g y) xs ys"
  shows "rmap f xs = rmap g ys"
  using assms by (induction rule: list_all2_induct) auto

lemma canonicalize_same:
  assumes "same_json v w"
  shows "canonicalize v = canonicalize w"
  using assms
proof (induction rule: same_json.induct)
  case (same_arr vs ws)
  have "rmap canonicalize vs = rmap canonicalize ws"
    by (rule rmap_all2_cong) (use same_arr in \<open>auto elim!: list_all2_mono\<close>)
  then show ?case by simp
next
  case (same_obj kvs ms kvs')
  let ?R = "\<lambda>p q. fst p = fst q \<and> canonicalize (snd p) = canonicalize (snd q)"
  have all: "list_all2 ?R kvs ms" using same_obj(1) by (auto elim!: list_all2_mono)
  have "map fst kvs = map fst ms" using all by (induction rule: list_all2_induct) auto
  then have "sort_keys ms = sort_keys kvs'"
    using same_obj(2,3) by (intro sort_keys_perm) simp_all
  moreover have "list_all2 ?R (sort_keys kvs) (sort_keys ms)"
    unfolding sort_keys_def by (rule js_sort_all2 [OF all]) simp
  then have "rmap (\<lambda>p. rbind (canonicalize (snd p)) (\<lambda>w. Inr (fst p, w))) (sort_keys kvs) =
      rmap (\<lambda>p. rbind (canonicalize (snd p)) (\<lambda>w. Inr (fst p, w))) (sort_keys ms)"
    by (intro rmap_all2_cong) (auto elim!: list_all2_mono)
  ultimately show ?case by simp
qed simp

text \<open>
  Canonical serialization and the content hash do not see the order of object keys, at any
  depth: two values that differ only in the order of the properties of their objects give the
  same text and the same hash, or the same error.
\<close>

theorem canonicalStringify_key_order:
  assumes "same_json v w"
  shows "canonicalStringify v = canonicalStringify w \<and>
    keccakOfCanonical keccak v = keccakOfCanonical keccak w"
  using canonicalize_same [OF assms] by (simp add: canonicalStringify_def keccakOfCanonical_def)

definition ex_json1 :: Json where
  "ex_json1 = JObj [(''b'', JNum 1), (''a'', JObj [(''d'', JNum 4), (''c'', JNum 3)])]"

definition ex_json2 :: Json where
  "ex_json2 = JObj [(''a'', JObj [(''c'', JNum 3), (''d'', JNum 4)]), (''b'', JNum 1)]"

lemma ex_json_same: "same_json ex_json1 ex_json2"
proof -
  have "same_json (JObj [(''d'', JNum 4), (''c'', JNum 3)]) (JObj [(''c'', JNum 3), (''d'', JNum 4)])"
    by (rule same_obj [where ms = "[(''d'', JNum 4), (''c'', JNum 3)]"]) (auto intro: same_refl)
  then show ?thesis
    unfolding ex_json1_def ex_json2_def
    by (intro same_obj [where ms = "[(''b'', JNum 1), (''a'', JObj [(''c'', JNum 3), (''d'', JNum 4)])]"])
      (auto intro: same_refl)
qed

theorem canonicalStringify_key_order_witness:
  "ex_json1 \<noteq> ex_json2 \<and> canonicalStringify ex_json1 = canonicalStringify ex_json2"
  using canonicalStringify_key_order [OF ex_json_same] by (simp add: ex_json1_def ex_json2_def)

section \<open>Which values serialize\<close>

fun json_safe :: "Json \<Rightarrow> bool" where
  "json_safe (JBigint i) = False"
| "json_safe JUndefined = False"
| "json_safe JFrac = False"
| "json_safe (JArr vs) = list_all json_safe vs"
| "json_safe (JObj kvs) = list_all (\<lambda>(k, v). json_safe v) kvs"
| "json_safe _ = True"

lemma rmap_ok_iff: "is_ok (rmap f xs) \<longleftrightarrow> (\<forall>x\<in>set xs. is_ok (f x))"
proof (induction xs)
  case (Cons x xs)
  then show ?case by (cases "f x"; cases "rmap f xs") auto
qed simp

lemma rbind_ok_pure [simp]: "is_ok (rbind m (\<lambda>x. Inr (f x))) = is_ok m"
  by (cases m) simp_all

lemma canonicalize_ok: "is_ok (canonicalize v) \<longleftrightarrow> json_safe v"
  by (induction v rule: canonicalize.induct) (auto simp: rmap_ok_iff list_all_iff)

text \<open>
  Serialization succeeds exactly on the values without a bigint, an undefined or a number that is
  not an integer at any depth.
\<close>

theorem canonicalStringify_total:
  "is_ok (canonicalStringify v) \<longleftrightarrow> json_safe v"
  by (simp add: canonicalStringify_def canonicalize_ok)

end
