(* ===== verification/Artifacts.thy ===== *)
theory Artifacts
  imports Merkle Serialize
begin

text \<open>
  \<open>artifacts.ts\<close> and \<open>independent-verify.ts\<close>: the four artifacts the engine emits, as JSON
  values, and the re-verification that reads nothing but them.
\<close>

section \<open>Policies recorded in the manifest\<close>

definition ALLOCATION_ROUNDING_POLICY :: string where
  "ALLOCATION_ROUNDING_POLICY =
     ''floor(participantPool * walletEffectiveWeight / totalEffectiveWeight); '' @
     ''per-wallet floor, remainder retained as distribution dust in the vault''"

definition RESERVE_POLICY :: string where
  "RESERVE_POLICY =
     ''participantPool = floor(acquired * 8000 / 10000); strategicReserve = acquired - participantPool''"

definition LEAF_ORDER :: "string list" where
  "LEAF_ORDER = [''chainId'', ''claimManager'', ''cycleId'', ''wallet'', ''asset'', ''amount'']"

definition FICTIONAL_NOTICE :: string where
  "FICTIONAL_NOTICE =
     ''All assets, tickers, and addresses in this artifact are fictional. This is a mock '' @
     ''proof-of-distribution computation.''"

definition ONCHAIN_NOTICE :: string where
  "ONCHAIN_NOTICE =
     ''No on-chain claim or protocol transaction occurred. Proofs are claim-ready but unclaimed.''"

definition reasonText :: "NonPublishable \<Rightarrow> string" where
  "reasonText r = (case r of
     ZeroTotalWeight \<Rightarrow> ''total effective weight is zero; no entitlements or Merkle root produced''
   | NoEntitlements \<Rightarrow> ''no non-zero entitlements were produced; nothing to publish'')"

section \<open>The builders\<close>

record Artifact =
  at_object :: Json
  at_json :: string

definition s :: "int \<Rightarrow> Json" where "s i = JStr (dec_of_int i)"

definition withNewline :: "Json \<Rightarrow> pod_error + string" where
  "withNewline v = rbind (canonicalStringify v) (\<lambda>t. Inr (t @ newline))"

definition artifactOf :: "Json \<Rightarrow> pod_error + Artifact" where
  "artifactOf object =
     rbind (withNewline object) (\<lambda>json. Inr \<lparr>at_object = object, at_json = json\<rparr>)"

definition assetAllocationJson :: "AssetAllocation \<Rightarrow> (string \<times> Json) list" where
  "assetAllocationJson a =
     [(''assetAddress'', JStr (as_tokenAddress (aa_asset a))),
      (''ticker'', JStr (as_ticker (aa_asset a))),
      (''name'', JStr (as_name (aa_asset a))),
      (''decimals'', JNum (as_decimals (aa_asset a))),
      (''acquired'', s (aa_acquired a)),
      (''participantPool'', s (aa_participantPool a)),
      (''strategicReserve'', s (aa_strategicReserve a)),
      (''allocated'', s (aa_allocated a)),
      (''distributionDust'', s (aa_distributionDust a)),
      (''entitlementCount'', JNum (int (length (aa_entitlements a))))]"

definition buildAllocations :: "CycleConfig \<Rightarrow> AllocationResult \<Rightarrow> pod_error + Artifact" where
  "buildAllocations cycle allocation =
     (let object = JObj
        [(''schemaVersion'', JStr ''bps.pod.allocations/1''),
         (''cycleId'', s (cy_cycleId cycle)),
         (''chainId'', s (cy_chainId cycle)),
         (''economicsVersion'', JStr ECON_VERSION),
         (''rewardPolicyVersion'', JStr (cy_rewardPolicyVersion cycle)),
         (''totalEffectiveWeight'', s (ar_totalEffectiveWeight allocation)),
         (''publishable'', JBool (ar_publishable allocation)),
         (''assets'', JArr (map (\<lambda>a. JObj (assetAllocationJson a @
            [(''allocations'', JArr (map (\<lambda>w. JObj [(''wallet'', JStr (wa_wallet w)),
                                                  (''amount'', s (wa_amount w))])
                (aa_walletAllocations a)))])) (ar_assets allocation)))]
      in artifactOf object)"

definition claimJson :: "MerkleLeafEntry \<Rightarrow> Json" where
  "claimJson e = JObj
     [(''asset'', JStr (en_asset (me_entitlement e))),
      (''amount'', s (en_amount (me_entitlement e))),
      (''leaf'', JStr (me_leaf e)),
      (''proof'', JArr (map JStr (me_proof e)))]"

definition sortByAsset :: "MerkleLeafEntry list \<Rightarrow> MerkleLeafEntry list" where
  "sortByAsset es =
     js_sort (\<lambda>x y. str_cmp (en_asset (me_entitlement x)) (en_asset (me_entitlement y))) es"

definition walletsJson :: "MerkleResult option \<Rightarrow> (string \<times> Json) list" where
  "walletsJson merkle =
     (case merkle of
        None \<Rightarrow> []
      | Some m \<Rightarrow> fold (\<lambda>(wallet, entries) ws.
            AList.update wallet (JArr (map claimJson (sortByAsset entries))) ws)
          (mr_walletIndex m) [])"

definition rootJson :: "MerkleResult option \<Rightarrow> Json" where
  "rootJson merkle = (case merkle of None \<Rightarrow> JNull | Some m \<Rightarrow> JStr (mr_root m))"

definition buildWalletProofs ::
  "CycleConfig \<Rightarrow> MerkleResult option \<Rightarrow> AllocationResult \<Rightarrow> pod_error + Artifact" where
  "buildWalletProofs cycle merkle allocation =
     (let object = JObj
        [(''schemaVersion'', JStr ''bps.pod.wallet-proofs/1''),
         (''leafSchemaVersion'', JStr LEAF_SCHEMA_VERSION),
         (''cycleId'', s (cy_cycleId cycle)),
         (''chainId'', s (cy_chainId cycle)),
         (''claimManager'', JStr (cy_claimManagerAddress cycle)),
         (''economicsVersion'', JStr ECON_VERSION),
         (''publishable'', JBool (ar_publishable allocation)),
         (''merkleRoot'', rootJson merkle),
         (''leafEncoding'', JArr (map JStr LEAF_ABI_TYPES)),
         (''leafOrder'', JArr (map JStr LEAF_ORDER)),
         (''wallets'', JObj (js_object (walletsJson merkle)))]
      in artifactOf object)"

definition assetReconciliationJson :: "AssetReconciliation \<Rightarrow> Json" where
  "assetReconciliationJson a = JObj
     [(''assetAddress'', JStr (rn_assetAddress a)),
      (''ticker'', JStr (rn_ticker a)),
      (''decimals'', JNum (rn_decimals a)),
      (''acquired'', s (rn_acquired a)),
      (''participantPool'', s (rn_participantPool a)),
      (''strategicReserve'', s (rn_strategicReserve a)),
      (''allocated'', s (rn_allocated a)),
      (''distributionDust'', s (rn_distributionDust a)),
      (''fundedRequired'', s (rn_fundedRequired a)),
      (''claimable'', s (rn_claimable a)),
      (''claimed'', s (rn_claimed a)),
      (''unclaimed'', s (rn_unclaimed a)),
      (''rollover'', s (rn_rollover a)),
      (''claimExecuted'', JBool (rn_claimExecuted a))]"

definition buildReconciliation ::
  "CycleConfig \<Rightarrow> Reconciliation \<Rightarrow> MerkleResult option \<Rightarrow> pod_error + Artifact" where
  "buildReconciliation cycle recon merkle =
     (let object = JObj
        [(''schemaVersion'', JStr ''bps.pod.reconciliation/1''),
         (''cycleId'', s (cy_cycleId cycle)),
         (''chainId'', s (cy_chainId cycle)),
         (''economicsVersion'', JStr ECON_VERSION),
         (''publishable'', JBool (rn_publishable recon)),
         (''merkleRoot'', rootJson merkle),
         (''fictionalDataNotice'', JStr FICTIONAL_NOTICE),
         (''onchainClaimNotice'', JStr ONCHAIN_NOTICE),
         (''assets'', JArr (map assetReconciliationJson (rn_assets recon)))]
      in artifactOf object)"

definition epochJson :: "CycleConfig \<Rightarrow> Json" where
  "epochJson cycle = JObj
     [(''epochId'', s (cy_epochId cycle)), (''epochStart'', s (cy_epochStart cycle)),
      (''epochEnd'', s (cy_epochEnd cycle)), (''startBlock'', s (cy_startBlock cycle)),
      (''endBlock'', s (cy_endBlock cycle)), (''snapshotBlock'', s (cy_snapshotBlock cycle)),
      (''finalizedBlock'', s (cy_finalizedBlock cycle)),
      (''confirmationDepth'', s (cy_confirmationDepth cycle))]"

definition exclusionJson :: "ExcludedAddress \<Rightarrow> Json" where
  "exclusionJson e = JObj
     [(''address'', JStr (ex_address e)), (''category'', JStr (ex_category e)),
      (''reason'', JStr (ex_reason e)), (''policyVersion'', JStr (ex_policyVersion e))]"

definition manifestBody ::
  "CycleFixture \<Rightarrow> EligibilityResolution \<Rightarrow> AllocationResult \<Rightarrow> MerkleResult option \<Rightarrow> string
    \<Rightarrow> (string \<times> Json) list" where
  "manifestBody fixture eligibility allocation merkle allocationsContentHash =
     (let cycle = fx_cycle fixture in
      [(''manifestSchemaVersion'', JStr MANIFEST_SCHEMA_VERSION),
       (''leafSchemaVersion'', JStr LEAF_SCHEMA_VERSION),
       (''cycleId'', s (cy_cycleId cycle)),
       (''chainId'', s (cy_chainId cycle)),
       (''bpsTokenAddress'', JStr (cy_bpsTokenAddress cycle)),
       (''claimManagerAddress'', JStr (cy_claimManagerAddress cycle)),
       (''economicsVersion'', JStr ECON_VERSION),
       (''rewardPolicyVersion'', JStr (cy_rewardPolicyVersion cycle)),
       (''epoch'', epochJson cycle),
       (''exclusions'', JArr (map exclusionJson
          (js_sort (\<lambda>x y. str_cmp (ex_address x) (ex_address y)) (fx_excludedAddresses fixture)))),
       (''eligibilityPolicyVersion'', JStr (cy_eligibilityPolicyVersion cycle)),
       (''termsVersion'', JStr (cy_termsVersion cycle)),
       (''restrictedJurisdictionPolicyVersion'',
          JStr (cy_restrictedJurisdictionPolicyVersion cycle)),
       (''totals'', JObj
          [(''totalEligibleSnapshotBalance'', s (er_totalEligibleSnapshotBalance eligibility)),
           (''totalBaseTwab'', s (er_totalBaseTwab eligibility)),
           (''totalEffectiveWeight'', s (er_totalEffectiveWeight eligibility))]),
       (''assets'', JArr (map (\<lambda>a. JObj (assetAllocationJson a))
          (js_sort (\<lambda>x y. str_cmp (as_tokenAddress (aa_asset x)) (as_tokenAddress (aa_asset y)))
             (ar_assets allocation)))),
       (''allocationRoundingPolicy'', JStr ALLOCATION_ROUNDING_POLICY),
       (''reservePolicy'', JStr RESERVE_POLICY),
       (''merkleRoot'', rootJson merkle),
       (''leafEncoding'', JArr (map JStr LEAF_ABI_TYPES)),
       (''leafOrder'', JArr (map JStr LEAF_ORDER)),
       (''allocationsContentHash'', JStr allocationsContentHash),
       (''claimPeriod'', JObj [(''claimStart'', s (cy_claimStart cycle)),
                             (''claimDeadline'', s (cy_claimDeadline cycle))]),
       (''publishable'', JBool (ar_publishable allocation)),
       (''nonPublishableReason'',
          case ar_nonPublishableReason allocation of None \<Rightarrow> JNull | Some r \<Rightarrow> JStr (reasonText r)),
       (''fictionalDataNotice'', JStr FICTIONAL_NOTICE),
       (''onchainClaimNotice'', JStr ONCHAIN_NOTICE)])"

definition buildManifest ::
  "(string \<Rightarrow> string) \<Rightarrow> CycleFixture \<Rightarrow> EligibilityResolution \<Rightarrow> AllocationResult
    \<Rightarrow> MerkleResult option \<Rightarrow> string \<Rightarrow> pod_error + Artifact" where
  "buildManifest keccak fixture eligibility allocation merkle allocationsContentHash =
     (let body = manifestBody fixture eligibility allocation merkle allocationsContentHash in
      rbind (keccakOfCanonical keccak (JObj body)) (\<lambda>envelopeHash.
        artifactOf (JObj (body @ [(''envelopeHash'', JStr envelopeHash)]))))"

section \<open>Re-verification from the artifacts alone\<close>

text \<open>Property access, \<open>Object.keys\<close>, iteration and \<open>BigInt\<close> of a string, as the language has them.\<close>

definition jget :: "Json \<Rightarrow> string \<Rightarrow> pod_error + Json" where
  "jget v k =
     (case v of
        JNull \<Rightarrow> Inl RuntimeError
      | JUndefined \<Rightarrow> Inl RuntimeError
      | JObj kvs \<Rightarrow> Inr (case map_of kvs k of None \<Rightarrow> JUndefined | Some w \<Rightarrow> w)
      | JArr vs \<Rightarrow> Inr (if is_array_index k \<and> int_of_dec k < int (length vs) then vs ! nat (int_of_dec k)
                       else JUndefined)
      | JStr t \<Rightarrow> Inr (if is_array_index k \<and> int_of_dec k < int (length t) then JStr [t ! nat (int_of_dec k)]
                       else JUndefined)
      | _ \<Rightarrow> Inr JUndefined)"

definition jkeys :: "Json \<Rightarrow> string list" where
  "jkeys v =
     (case v of
        JObj kvs \<Rightarrow> map fst kvs
      | JArr vs \<Rightarrow> map dec_of_int [0..int (length vs) - 1]
      | JStr t \<Rightarrow> map dec_of_int [0..int (length t) - 1]
      | _ \<Rightarrow> [])"

definition jelements :: "Json \<Rightarrow> pod_error + Json list" where
  "jelements v =
     (case v of
        JArr vs \<Rightarrow> Inr vs
      | JStr t \<Rightarrow> Inr (map (\<lambda>c. JStr [c]) t)
      | _ \<Rightarrow> Inl RuntimeError)"

definition bigint_of_string :: "string \<Rightarrow> pod_error + int" where
  "bigint_of_string t =
     (if t = [] then Inr 0
      else if list_all is_digit_char t then Inr (int_of_dec t)
      else if hd t = CHR ''-'' \<and> tl t \<noteq> [] \<and> list_all is_digit_char (tl t)
        then Inr (- int_of_dec (tl t))
      else if take 2 t = ''0x'' \<and> drop 2 t \<noteq> [] \<and> list_all is_hex_char (drop 2 t)
        then Inr (bigint_of_hex t)
      else Inl RuntimeError)"

definition asString :: "Json \<Rightarrow> pod_error + string" where
  "asString v = (case v of JStr t \<Rightarrow> Inr t | _ \<Rightarrow> Inl RuntimeError)"

definition field :: "Json \<Rightarrow> string \<Rightarrow> pod_error + string" where
  "field v k = rbind (jget v k) asString"

record IndependentProofResult =
  ip_root :: "string option"
  ip_proofCount :: int
  ip_verified :: int
  ip_ok :: bool
  ip_failures :: "string list"

definition verifyClaimJson ::
  "Viem \<Rightarrow> int \<Rightarrow> string \<Rightarrow> int \<Rightarrow> string \<Rightarrow> string \<Rightarrow> int \<times> int \<times> string list \<Rightarrow> Json
    \<Rightarrow> pod_error + int \<times> int \<times> string list" where
  "verifyClaimJson v chainId claimManager cycleId root wallet acc claim =
     (case acc of (proofCount, verified, failures) \<Rightarrow>
      rbind (field claim ''asset'') (\<lambda>asset.
      rbind (rbind (field claim ''amount'') bigint_of_string) (\<lambda>amount.
      rbind (rbind (jget claim ''proof'')
               (\<lambda>p. case p of JArr ps \<Rightarrow> rmap asString ps | _ \<Rightarrow> Inl RuntimeError)) (\<lambda>proof.
      rbind (orThrow (viemVerifyRaw v
            \<lparr>lf_chainId = chainId, lf_claimManager = claimManager, lf_cycleId = cycleId,
             lf_wallet = wallet, lf_asset = asset, lf_amount = amount\<rparr> proof root)) (\<lambda>ok.
      Inr (if ok then (proofCount + 1, verified + 1, failures)
           else (proofCount + 1, verified,
                 failures @ [''proof failed for '' @ wallet @ '' / '' @ asset])))))))"

definition independentlyVerifyWalletProofs ::
  "Viem \<Rightarrow> Json \<Rightarrow> pod_error + IndependentProofResult" where
  "independentlyVerifyWalletProofs v wp =
     rbind (jget wp ''merkleRoot'') (\<lambda>rootValue.
     rbind (jget wp ''wallets'') (\<lambda>wallets0.
     let wallets = (if wallets0 = JNull \<or> wallets0 = JUndefined then JObj [] else wallets0) in
     if rootValue = JNull \<or> rootValue = JUndefined
     then let failures = (if length (jkeys wallets) > 0 then [''null root but wallets present''] else [])
          in Inr \<lparr>ip_root = None, ip_proofCount = 0, ip_verified = 0,
                  ip_ok = (length failures = 0), ip_failures = failures\<rparr>
     else
       rbind (asString rootValue) (\<lambda>root.
       rbind (rbind (field wp ''chainId'') bigint_of_string) (\<lambda>chainId.
       rbind (field wp ''claimManager'') (\<lambda>claimManager.
       rbind (rbind (field wp ''cycleId'') bigint_of_string) (\<lambda>cycleId.
       rbind (rfold (\<lambda>acc wallet.
                rbind (rbind (jget wallets wallet) jelements) (\<lambda>claims.
                rfold (verifyClaimJson v chainId claimManager cycleId root wallet) acc claims))
              (0, 0, []) (jkeys wallets)) (\<lambda>(proofCount, verified, failures).
       Inr \<lparr>ip_root = Some root, ip_proofCount = proofCount, ip_verified = verified,
            ip_ok = (length failures = 0 \<and> verified = proofCount),
            ip_failures = failures\<rparr>)))))))"

definition verifyManifestEnvelope :: "(string \<Rightarrow> string) \<Rightarrow> Json \<Rightarrow> pod_error + bool" where
  "verifyManifestEnvelope keccak manifest =
     rbind (jget manifest ''envelopeHash'') (\<lambda>committed.
       case committed of
         JStr h \<Rightarrow>
           (case manifest of
              JObj kvs \<Rightarrow>
                rbind (keccakOfCanonical keccak (JObj (filter (\<lambda>p. fst p \<noteq> ''envelopeHash'') kvs)))
                  (\<lambda>h'. Inr (h' = h))
            | _ \<Rightarrow> Inr False)
       | _ \<Rightarrow> Inr False)"

definition verifyAllocationsContentHash ::
  "(string \<Rightarrow> string) \<Rightarrow> Json \<Rightarrow> Json \<Rightarrow> pod_error + bool" where
  "verifyAllocationsContentHash keccak manifest allocations =
     rbind (jget manifest ''allocationsContentHash'') (\<lambda>committed.
       case committed of
         JStr h \<Rightarrow> rbind (keccakOfCanonical keccak allocations) (\<lambda>h'. Inr (h' = h))
       | _ \<Rightarrow> Inr False)"

section \<open>What the artifacts carry verifies\<close>

lemma bigint_of_string_dec [simp]: "bigint_of_string (dec_of_int i) = Inr i"
proof -
  have nd: "\<not> is_digit_char (CHR ''-'')" by code_simp
  show ?thesis
    using nd dec_of_nat_digits [of "nat i"] dec_of_nat_digits [of "nat (- i)"]
    by (auto simp: bigint_of_string_def dec_of_int_def int_of_dec_def)
qed

lemma field_simp:
  "field (JObj kvs) k = (case map_of kvs k of Some (JStr t) \<Rightarrow> Inr t | _ \<Rightarrow> Inl RuntimeError)"
  by (auto simp: field_def jget_def asString_def split: option.splits Json.splits)

lemma rmap_JStr [simp]: "rmap asString (map JStr ps) = Inr ps"
  by (induction ps) (simp_all add: asString_def)

lemma verifyClaimJson_ok:
  assumes "viemVerify v cycle (me_entitlement e) (me_proof e) root = Some True"
    and "w = en_wallet (me_entitlement e)"
  shows "verifyClaimJson v (cy_chainId cycle) (cy_claimManagerAddress cycle) (cy_cycleId cycle) root w
    (p, k, fs) (claimJson e) = Inr (p + 1, k + 1, fs)"
  using assms
  by (simp add: verifyClaimJson_def claimJson_def field_simp s_def jget_def viemVerify_raw leafFieldsOf_def)

lemma verifyClaims_ok:
  assumes "\<forall>e\<in>set es. viemVerify v cycle (me_entitlement e) (me_proof e) root = Some True \<and>
      en_wallet (me_entitlement e) = w"
  shows "rfold (verifyClaimJson v (cy_chainId cycle) (cy_claimManagerAddress cycle) (cy_cycleId cycle) root w)
    (p, k, fs) (map claimJson es) = Inr (p + int (length es), k + int (length es), fs)"
  using assms
proof (induction es arbitrary: p k)
  case (Cons e es)
  then show ?case
    using verifyClaimJson_ok [of v cycle e root w p k fs] by (simp add: algebra_simps)
qed simp

lemma indexEntry_size:
  "(\<Sum>q\<leftarrow>indexEntry x m. int (length (snd q))) = (\<Sum>q\<leftarrow>m. int (length (snd q))) + 1"
proof (induction m)
  case (Cons q m)
  show ?case
  proof (cases "fst q = en_wallet (me_entitlement x)")
    case True
    then show ?thesis by (cases q) (simp add: indexEntry_def Let_def)
  next
    case False
    then have "indexEntry x (q # m) = q # indexEntry x m"
      by (cases q) (simp add: indexEntry_def Let_def)
    with Cons show ?thesis by simp
  qed
qed (simp add: indexEntry_def)

lemma index_size:
  "(\<Sum>q\<leftarrow>fold indexEntry es m. int (length (snd q))) = (\<Sum>q\<leftarrow>m. int (length (snd q))) + int (length es)"
  by (induction es arbitrary: m) (simp_all add: indexEntry_size)

lemma index_distinct:
  "distinct (map fst m) \<Longrightarrow> distinct (map fst (fold indexEntry es m))"
  by (induction es arbitrary: m) (simp_all add: indexEntry_def Let_def distinct_update)

lemma index_member:
  assumes "(w, xs) \<in> set (fold indexEntry es [])"
  shows "xs = filter (\<lambda>x. en_wallet (me_entitlement x) = w) es"
proof -
  have "map_of (fold indexEntry es []) w = Some xs"
    using assms index_distinct [of "[]" es] by simp
  then have "xs = entriesOf (fold indexEntry es []) w" by (simp add: entriesOf_def)
  then show ?thesis by (simp add: entriesOf_fold) (simp add: entriesOf_def)
qed

lemma walletsJson_value:
  assumes "distinct (map fst idx)"
  shows "fold (\<lambda>(wallet, entries) ws. AList.update wallet (f entries) ws) idx [] =
    map (\<lambda>(w, es). (w, f es)) idx"
proof -
  have "fold (\<lambda>(wallet, entries) ws. AList.update wallet (f entries) ws) idx acc =
      acc @ map (\<lambda>(w, es). (w, f es)) idx"
    if "distinct (map fst acc @ map fst idx)" for acc
    using that assms
  proof (induction idx arbitrary: acc)
    case (Cons q idx)
    obtain w es where q: "q = (w, es)" by force
    have "map_of acc w = None" using Cons.prems(1) q by (auto simp: map_of_eq_None_iff)
    then show ?case
      using Cons.IH [of "acc @ [(w, f es)]"] Cons.prems q by (simp add: update_fresh)
  qed simp
  from this [of "[]"] assms show ?thesis by simp
qed

lemma sum_list_mset: "mset xs = mset ys \<Longrightarrow> (\<Sum>x\<leftarrow>xs. f x) = (\<Sum>x\<leftarrow>ys. f x :: int)"
  by (metis mset_map sum_mset_sum_list)

lemma keep_keys: "map fst (map (\<lambda>(k, x). (k, f x)) kvs) = map fst kvs"
  by (induction kvs) auto

lemma map_of_js_object:
  assumes "distinct (map fst kvs)"
  shows "map_of (js_object kvs) k = map_of kvs k"
proof -
  have "distinct (map fst (js_object kvs))"
    using assms mset_map [of fst] by (metis mset_eq_imp_distinct_iff mset_js_object)
  with assms show ?thesis
    by (metis map_of_eqI map_of_eq_Some_iff set_js_object map_of_SomeD weak_map_of_SomeI
        not_None_eq option.exhaust)
qed

lemma verifyWallets_ok:
  assumes verified: "\<forall>e\<in>set es. viemVerify v cycle (me_entitlement e) (me_proof e) root = Some True"
    and idx: "idx = fold indexEntry es []" and K: "set K \<subseteq> fst ` set idx"
  defines "ws \<equiv> JObj (js_object (map (\<lambda>(w, es). (w, JArr (map claimJson (sortByAsset es)))) idx))"
  shows "rfold (\<lambda>acc wallet. rbind (rbind (jget ws wallet) jelements) (\<lambda>claims.
      rfold (verifyClaimJson v (cy_chainId cycle) (cy_claimManagerAddress cycle) (cy_cycleId cycle) root wallet)
        acc claims)) (p, k, fs) K =
    Inr (p + (\<Sum>w\<leftarrow>K. int (length (entriesOf idx w))), k + (\<Sum>w\<leftarrow>K. int (length (entriesOf idx w))), fs)"
  using K
proof (induction K arbitrary: p k)
  case (Cons w K)
  let ?g = "\<lambda>(w, es). (w, JArr (map claimJson (sortByAsset es)))"
  have dist: "distinct (map fst idx)" unfolding idx by (rule index_distinct) simp
  obtain xs where xs: "(w, xs) \<in> set idx" using Cons.prems by auto
  then have mo: "map_of idx w = Some xs" using dist by simp
  have "map_of (js_object (map ?g idx)) w = map_of (map ?g idx) w"
    by (rule map_of_js_object) (simp only: keep_keys dist)
  also have "\<dots> = Some (JArr (map claimJson (sortByAsset xs)))"
    using mo by (simp add: map_of_map)
  finally have "map_of (js_object (map ?g idx)) w = Some (JArr (map claimJson (sortByAsset xs)))" .
  then have get: "rbind (jget ws w) jelements = Inr (map claimJson (sortByAsset xs))"
    by (simp add: ws_def jget_def jelements_def)
  have "xs = filter (\<lambda>x. en_wallet (me_entitlement x) = w) es"
    using index_member xs idx by simp
  then have "\<forall>e\<in>set (sortByAsset xs). viemVerify v cycle (me_entitlement e) (me_proof e) root = Some True \<and>
      en_wallet (me_entitlement e) = w"
    using verified by (simp add: sortByAsset_def)
  note step = verifyClaims_ok [OF this, of p k fs]
  have "length (sortByAsset xs) = length (entriesOf idx w)"
    using mo by (simp add: sortByAsset_def entriesOf_def)
  with step get Cons show ?case by (simp add: algebra_simps)
qed simp

lemma artifactOf_object: "artifactOf v = Inr a \<Longrightarrow> at_object a = v"
  by (auto simp: artifactOf_def rbind_eq_Inr)

lemma artifactOf_ok: "is_ok (artifactOf v) \<longleftrightarrow> json_safe v"
proof -
  have "is_ok (artifactOf v) \<longleftrightarrow> is_ok (canonicalize v)"
    by (cases "canonicalize v") (simp_all add: artifactOf_def withNewline_def canonicalStringify_def)
  then show ?thesis by (simp add: canonicalize_ok)
qed

lemma walletProofs_object:
  assumes "buildWalletProofs cycle (Some m) allocation = Inr a"
    and "distinct (map fst (mr_walletIndex m))"
  shows "jget (at_object a) ''merkleRoot'' = Inr (JStr (mr_root m))"
    and "jget (at_object a) ''wallets'' = Inr (JObj (js_object
      (map (\<lambda>(w, es). (w, JArr (map claimJson (sortByAsset es)))) (mr_walletIndex m))))"
    and "field (at_object a) ''chainId'' = Inr (dec_of_int (cy_chainId cycle))"
    and "field (at_object a) ''cycleId'' = Inr (dec_of_int (cy_cycleId cycle))"
    and "field (at_object a) ''claimManager'' = Inr (cy_claimManagerAddress cycle)"
  using walletsJson_value [OF assms(2), of "\<lambda>es. JArr (map claimJson (sortByAsset es))"]
    artifactOf_object [of _ a] assms(1)
  by (auto simp: buildWalletProofs_def Let_def jget_def field_simp s_def rootJson_def walletsJson_def)

lemma walletProofs_verified:
  assumes "oz_documented v oz" and norm: "leaves_normalized cycle es" and "buildMerkle oz cycle es = Inr m"
    and "buildWalletProofs cycle (Some m) allocation = Inr a"
  shows "independentlyVerifyWalletProofs v (at_object a) =
    Inr \<lparr>ip_root = Some (mr_root m), ip_proofCount = int (length es),
         ip_verified = int (length es), ip_ok = True, ip_failures = []\<rparr>"
proof -
  let ?idx = "mr_walletIndex m"
  let ?ws = "map (\<lambda>(w, es). (w, JArr (map claimJson (sortByAsset es)))) ?idx"
  have idx: "?idx = fold indexEntry (mr_entries m) []" and len: "length (mr_entries m) = length es"
    using assms(3) by (auto simp: buildMerkle_eq_Inr Let_def)
  have dist: "distinct (map fst ?idx)" unfolding idx by (rule index_distinct) simp
  note obj = walletProofs_object [OF assms(4) dist]
  have keys: "mset (map fst (js_object ?ws)) = mset (map fst ?idx)"
  proof -
    have "mset (map fst (js_object ?ws)) = mset (map fst ?ws)" by (simp only: mset_map mset_js_object)
    then show ?thesis by (simp only: keep_keys)
  qed
  then have "set (map fst (js_object ?ws)) = set (map fst ?idx)" by (rule mset_eq_setD)
  then have sub: "set (map fst (js_object ?ws)) \<subseteq> fst ` set ?idx" by simp
  have "(\<Sum>w\<leftarrow>map fst (js_object ?ws). int (length (entriesOf ?idx w))) =
      (\<Sum>w\<leftarrow>map fst ?idx. int (length (entriesOf ?idx w)))"
    by (rule sum_list_mset [OF keys])
  also have "\<dots> = (\<Sum>q\<leftarrow>?idx. int (length (snd q)))"
    using dist by (auto simp: comp_def entriesOf_def intro!: arg_cong [where f = sum_list] map_cong)
  also have "\<dots> = int (length es)" unfolding idx by (simp add: index_size len)
  finally have count: "(\<Sum>w\<leftarrow>map fst (js_object ?ws). int (length (entriesOf ?idx w))) = int (length es)" .
  have "\<forall>e\<in>set (mr_entries m). viemVerify v cycle (me_entitlement e) (me_proof e) (mr_root m) = Some True"
    using buildMerkle_proofs(2) [OF assms(1-3)] by blast
  note run = verifyWallets_ok [OF this idx sub, of 0 0 "[]", unfolded count]
  define W where "W = JObj (js_object ?ws)"
  define K where "K = map fst (js_object ?ws)"
  have "jkeys W = K" "W \<noteq> JNull" "W \<noteq> JUndefined" by (simp_all add: W_def K_def jkeys_def)
  then show ?thesis
    using run [folded W_def K_def] obj [folded W_def]
    by (simp add: independentlyVerifyWalletProofs_def asString_def)
qed

text \<open>
  The wallet-proofs artifact of a tree that documented libraries built over normalized addresses passes the
  re-verification that uses only the artifact: it counts one proof per entitlement, every one
  verifies, and there is no failure.
\<close>

theorem walletProofs_verify:
  assumes "oz_documented v oz" and "leaves_normalized cycle es" and "buildMerkle oz cycle es = Inr m"
    and "buildWalletProofs cycle (Some m) allocation = Inr a"
  shows "independentlyVerifyWalletProofs v (at_object a) =
    Inr \<lparr>ip_root = Some (mr_root m), ip_proofCount = int (length es),
         ip_verified = int (length es), ip_ok = True, ip_failures = []\<rparr>"
  by (rule walletProofs_verified [OF assms])

subsection \<open>The builders never fail\<close>

lemma json_safe_s [simp]: "json_safe (s i)"
  by (simp add: s_def)

lemma json_safe_strings [simp]: "list_all json_safe (map JStr xs)"
  by (simp add: list_all_iff)

lemma json_safe_claim [simp]: "json_safe (claimJson e)"
  by (simp add: claimJson_def)

lemma json_safe_root [simp]: "json_safe (rootJson m)"
  by (simp add: rootJson_def split: option.splits)

lemma json_safe_assetAllocation: "list_all (\<lambda>(k, v). json_safe v) (assetAllocationJson a)"
  by (simp add: assetAllocationJson_def)

lemma json_safe_wallets: "list_all (\<lambda>(k, v). json_safe v) (js_object (walletsJson m))"
proof -
  have upd: "list_all (\<lambda>(k, v). json_safe v) acc \<Longrightarrow> json_safe v \<Longrightarrow>
      list_all (\<lambda>(k, v). json_safe v) (AList.update k v acc)" for k v and acc :: "(string \<times> Json) list"
    by (induction acc) auto
  have "list_all (\<lambda>(k, v). json_safe v) (fold (\<lambda>(wallet, entries) ws.
            AList.update wallet (JArr (map claimJson (sortByAsset entries))) ws) idx acc)"
    if "list_all (\<lambda>(k, v). json_safe v) acc" for idx :: "(string \<times> MerkleLeafEntry list) list" and acc
    using that
  proof (induction idx arbitrary: acc)
    case (Cons q idx)
    have "json_safe (JArr (map claimJson (sortByAsset (snd q))))" by (simp add: list_all_iff)
    then show ?case using Cons by (cases q) (simp add: upd)
  qed simp
  then have "list_all (\<lambda>(k, v). json_safe v) (walletsJson m)"
    by (simp add: walletsJson_def split: option.splits)
  then show ?thesis by (simp add: list_all_iff)
qed

lemma buildAllocations_ok: "is_ok (buildAllocations cycle allocation)"
  unfolding buildAllocations_def Let_def artifactOf_ok
  using json_safe_assetAllocation by (auto simp: list_all_iff)

lemma buildWalletProofs_ok: "is_ok (buildWalletProofs cycle m allocation)"
  unfolding buildWalletProofs_def Let_def artifactOf_ok
  using json_safe_wallets by simp

lemma buildReconciliation_ok: "is_ok (buildReconciliation cycle recon m)"
  unfolding buildReconciliation_def Let_def artifactOf_ok
  by (auto simp: list_all_iff assetReconciliationJson_def)

lemma manifestBody_safe: "list_all (\<lambda>(k, v). json_safe v) (manifestBody fixture e al m h)"
  unfolding manifestBody_def Let_def
  by (auto simp: list_all_iff epochJson_def exclusionJson_def
      dest: json_safe_assetAllocation [unfolded list_all_iff, rule_format] split: option.splits)

lemma keccakOfCanonical_ok: "is_ok (keccakOfCanonical keccak v) \<longleftrightarrow> json_safe v"
  by (simp add: keccakOfCanonical_def canonicalStringify_def canonicalize_ok)

lemma buildManifest_ok: "is_ok (buildManifest keccak fixture e al m h)"
proof -
  have safe: "json_safe (JObj (manifestBody fixture e al m h))" by (simp add: manifestBody_safe)
  then obtain env where "keccakOfCanonical keccak (JObj (manifestBody fixture e al m h)) = Inr env"
    using keccakOfCanonical_ok [of keccak] unfolding is_ok_iff by blast
  then show ?thesis using safe by (simp add: buildManifest_def artifactOf_ok)
qed

lemma manifestBody_keys:
  "map fst (manifestBody fixture e al m h) =
    [''manifestSchemaVersion'', ''leafSchemaVersion'', ''cycleId'', ''chainId'', ''bpsTokenAddress'',
     ''claimManagerAddress'', ''economicsVersion'', ''rewardPolicyVersion'', ''epoch'', ''exclusions'',
     ''eligibilityPolicyVersion'', ''termsVersion'', ''restrictedJurisdictionPolicyVersion'',
     ''totals'', ''assets'', ''allocationRoundingPolicy'', ''reservePolicy'', ''merkleRoot'',
     ''leafEncoding'', ''leafOrder'', ''allocationsContentHash'', ''claimPeriod'', ''publishable'',
     ''nonPublishableReason'', ''fictionalDataNotice'', ''onchainClaimNotice'']"
  by (simp add: manifestBody_def Let_def)

lemma filter_other_keys: "k \<notin> set (map fst kvs) \<Longrightarrow> filter (\<lambda>p. fst p \<noteq> k) kvs = kvs"
  by (induction kvs) auto

lemma manifest_verifies:
  assumes "keccakOfCanonical keccak allocations = Inr h"
  shows "\<exists>a. buildManifest keccak fixture e al m h = Inr a \<and>
    verifyManifestEnvelope keccak (at_object a) = Inr True \<and>
    verifyAllocationsContentHash keccak (at_object a) allocations = Inr True \<and>
    (\<forall>other h'. keccakOfCanonical keccak other = Inr h' \<longrightarrow>
       verifyAllocationsContentHash keccak (at_object a) other = Inr (h' = h))"
proof -
  let ?body = "manifestBody fixture e al m h"
  obtain a where a: "buildManifest keccak fixture e al m h = Inr a"
    using buildManifest_ok unfolding is_ok_iff by blast
  then obtain env where env: "keccakOfCanonical keccak (JObj ?body) = Inr env"
    and obj: "at_object a = JObj (?body @ [(''envelopeHash'', JStr env)])"
    by (auto simp: buildManifest_def Let_def rbind_eq_Inr dest: artifactOf_object)
  have fresh: "''envelopeHash'' \<notin> set (map fst ?body)" unfolding manifestBody_keys by simp
  then have "map_of (?body @ [(''envelopeHash'', JStr env)]) ''envelopeHash'' = Some (JStr env)"
    using map_of_eq_None_iff [of ?body "''envelopeHash''"] by (simp add: map_add_def)
  then have get: "jget (at_object a) ''envelopeHash'' = Inr (JStr env)"
    unfolding obj by (simp add: jget_def)
  have ch: "jget (at_object a) ''allocationsContentHash'' = Inr (JStr h)"
    unfolding obj by (simp add: jget_def manifestBody_def Let_def)
  have "verifyManifestEnvelope keccak (at_object a) = Inr True"
    unfolding verifyManifestEnvelope_def get
    using fresh env by (simp add: obj filter_other_keys)
  with a ch assms show ?thesis by (auto simp: verifyAllocationsContentHash_def)
qed

text \<open>
  C10: the manifest the engine emits is always built, its envelope hash re-verifies from the
  manifest alone, and the hash of the allocations it commits to verifies against those
  allocations and against no others of a different hash.
\<close>

theorem buildManifest_verifies:
  assumes "keccakOfCanonical keccak allocations = Inr h"
  shows "\<exists>a. buildManifest keccak fixture e al m h = Inr a \<and>
    verifyManifestEnvelope keccak (at_object a) = Inr True \<and>
    verifyAllocationsContentHash keccak (at_object a) allocations = Inr True \<and>
    (\<forall>other h'. keccakOfCanonical keccak other = Inr h' \<longrightarrow>
       verifyAllocationsContentHash keccak (at_object a) other = Inr (h' = h))"
  by (rule manifest_verifies [OF assms])

definition ex_allocation :: AllocationResult where
  "ex_allocation = \<lparr>ar_assets = [], ar_entitlements = ex_entitlements, ar_totalEffectiveWeight = 11,
     ar_publishable = True, ar_nonPublishableReason = None\<rparr>"

definition ex_fixture :: CycleFixture where
  "ex_fixture = \<lparr>fx_cycle = ex_cycle, fx_excludedAddresses = [], fx_eligibility = [],
     fx_epochStartBalances = ex_balances, fx_transfers = ex_transfers, fx_locks = ex_locks,
     fx_assets = [ex_asset]\<rparr>"

theorem buildManifest_verifies_witness:
  "\<exists>h a. keccakOfCanonical toy_keccak JNull = Inr h \<and>
     buildManifest toy_keccak ex_fixture
       (resolveEligibility ex_cycle [] [] []) ex_allocation None h = Inr a \<and>
     verifyManifestEnvelope toy_keccak (at_object a) = Inr True"
proof -
  obtain h where h: "keccakOfCanonical toy_keccak JNull = Inr h"
    by (simp add: keccakOfCanonical_def canonicalStringify_def)
  show ?thesis using buildManifest_verifies [OF h] h by blast
qed

theorem walletProofs_verify_witness:
  "\<exists>m a. buildMerkle toy_oz ex_tree_cycle ex_entitlements = Inr m \<and>
     buildWalletProofs ex_tree_cycle (Some m) ex_allocation = Inr a \<and>
     independentlyVerifyWalletProofs toy_viem (at_object a) =
       Inr \<lparr>ip_root = Some (mr_root m), ip_proofCount = 2, ip_verified = 2, ip_ok = True, ip_failures = []\<rparr>"
proof -
  obtain m where m: "buildMerkle toy_oz ex_tree_cycle ex_entitlements = Inr m"
    using ex_tree unfolding is_ok_iff by blast
  obtain a where a: "buildWalletProofs ex_tree_cycle (Some m) ex_allocation = Inr a"
    using buildWalletProofs_ok unfolding is_ok_iff by blast
  have len: "int (length ex_entitlements) = 2" by (simp add: ex_entitlements_def Let_def)
  show ?thesis
    using walletProofs_verify [OF toy_documented ex_leaves_normalized m a] m a unfolding len by blast
qed

end
