(* ===== verification/PodPipeline.thy ===== *)
theory PodPipeline
  imports Artifacts
begin

text \<open>
  \<open>pipeline.ts\<close> and the checks of the pilot's command line (\<open>packages/pilot/src/cli.ts\<close>): the whole
  engine, from the unknown fixture to the artifacts, and what its success and failure mean.
\<close>

section \<open>The code\<close>

record ArtifactSet =
  as_manifest :: Artifact
  as_allocations :: Artifact
  as_walletProofs :: Artifact
  as_reconciliation :: Artifact

record VerificationSummary =
  vs_proofCount :: int
  vs_ozVerified :: int
  vs_viemVerified :: int
  vs_allVerified :: bool

record PipelineResult =
  pr_fixture :: CycleFixture
  pr_weights :: "(string \<times> WalletWeight) list"
  pr_eligibility :: EligibilityResolution
  pr_allocation :: AllocationResult
  pr_merkle :: "MerkleResult option"
  pr_reconciliation :: Reconciliation
  pr_verification :: VerificationSummary
  pr_artifacts :: ArtifactSet

definition verifyProofs ::
  "Viem \<Rightarrow> TreeLib \<Rightarrow> CycleFixture \<Rightarrow> MerkleResult option \<Rightarrow> pod_error + VerificationSummary" where
  "verifyProofs v oz fixture merkle =
     (case merkle of
        None \<Rightarrow> Inr \<lparr>vs_proofCount = 0, vs_ozVerified = 0, vs_viemVerified = 0, vs_allVerified = True\<rparr>
      | Some m \<Rightarrow>
          rbind (rfold (\<lambda>(oz_ok, viem_ok) entry.
                rbind (orThrow (ozVerify oz (mr_root m) (fx_cycle fixture) (me_entitlement entry) (me_proof entry)))
                  (\<lambda>o_ok.
                rbind (orThrow (viemVerify v (fx_cycle fixture) (me_entitlement entry) (me_proof entry) (mr_root m)))
                  (\<lambda>v_ok.
                Inr (if o_ok then oz_ok + 1 else oz_ok, if v_ok then viem_ok + 1 else viem_ok))))
              (0, 0) (mr_entries m)) (\<lambda>counts.
          let proofCount = int (length (mr_entries m));
              allVerified = (fst counts = proofCount \<and> snd counts = proofCount)
          in if \<not> allVerified then fail ''PROOF_VERIFICATION''
             else Inr \<lparr>vs_proofCount = proofCount, vs_ozVerified = fst counts,
                       vs_viemVerified = snd counts, vs_allVerified = allVerified\<rparr>))"

definition emitArtifacts ::
  "Viem \<Rightarrow> CycleFixture \<Rightarrow> EligibilityResolution \<Rightarrow> AllocationResult \<Rightarrow> MerkleResult option
    \<Rightarrow> Reconciliation \<Rightarrow> pod_error + ArtifactSet" where
  "emitArtifacts v fixture eligibility allocation merkle reconciliation =
     rbind (buildAllocations (fx_cycle fixture) allocation) (\<lambda>allocations.
     rbind (keccakOfCanonical (vi_keccak256 v) (at_object allocations)) (\<lambda>allocationsContentHash.
     rbind (buildWalletProofs (fx_cycle fixture) merkle allocation) (\<lambda>walletProofs.
     rbind (buildReconciliation (fx_cycle fixture) reconciliation merkle) (\<lambda>reconciliationArtifact.
     rbind (buildManifest (vi_keccak256 v) fixture eligibility allocation merkle allocationsContentHash)
       (\<lambda>manifest.
     Inr \<lparr>as_manifest = manifest, as_allocations = allocations, as_walletProofs = walletProofs,
          as_reconciliation = reconciliationArtifact\<rparr>)))))"

definition runProofOfDistribution ::
  "Viem \<Rightarrow> TreeLib \<Rightarrow> ('i \<Rightarrow> RawCycleFixture option) \<Rightarrow> 'i \<Rightarrow> pod_error + PipelineResult" where
  "runProofOfDistribution v oz decode input =
     rbind (loadCycleFixture decode input) (\<lambda>fixture.
     rbind (computeWeights (fx_cycle fixture) (fx_epochStartBalances fixture) (fx_transfers fixture)
              (fx_locks fixture)) (\<lambda>wc.
     let weights = wc_weights wc;
         eligibility = resolveEligibility (fx_cycle fixture) (fx_excludedAddresses fixture)
                         (fx_eligibility fixture) weights
     in
     rbind (allocate (fx_cycle fixture) (fx_assets fixture) (er_eligibleWallets eligibility) weights
              (er_totalEffectiveWeight eligibility)) (\<lambda>allocation.
     rbind (if ar_publishable allocation
            then rbind (buildMerkle oz (fx_cycle fixture) (ar_entitlements allocation)) (\<lambda>m. Inr (Some m))
            else Inr None) (\<lambda>merkle.
     rbind (verifyProofs v oz fixture merkle) (\<lambda>verification.
     rbind (reconcile allocation) (\<lambda>reconciliation.
     rbind (emitArtifacts v fixture eligibility allocation merkle reconciliation) (\<lambda>artifacts.
     Inr \<lparr>pr_fixture = fixture, pr_weights = weights, pr_eligibility = eligibility,
          pr_allocation = allocation, pr_merkle = merkle, pr_reconciliation = reconciliation,
          pr_verification = verification, pr_artifacts = artifacts\<rparr>)))))))"

text \<open>The exit code of the pilot's \<open>run\<close>; its file and console output is not modelled.\<close>

definition pilotRun :: "Viem \<Rightarrow> TreeLib \<Rightarrow> ('i \<Rightarrow> RawCycleFixture option) \<Rightarrow> 'i \<Rightarrow> pod_error + int" where
  "pilotRun v oz decode fixture =
     rbind (runProofOfDistribution v oz decode fixture) (\<lambda>result.
     let artifacts = pr_artifacts result in
     rbind (independentlyVerifyWalletProofs v (at_object (as_walletProofs artifacts))) (\<lambda>independent.
     rbind (verifyManifestEnvelope (vi_keccak256 v) (at_object (as_manifest artifacts))) (\<lambda>envelopeOk.
     rbind (verifyAllocationsContentHash (vi_keccak256 v) (at_object (as_manifest artifacts))
              (at_object (as_allocations artifacts))) (\<lambda>allocationHashOk.
     let ok = (vs_allVerified (pr_verification result) \<and> ip_ok independent \<and> envelopeOk \<and>
               allocationHashOk)
     in Inr (if ok then 0 else 1)))))"

section \<open>No stage after the weights can fail\<close>

lemma weights_nonneg:
  assumes "computeWeights c bals trs locks = Inr wc" and "twab_input c trs locks"
  shows "0 \<le> weightField ww_effectiveWeight (wc_weights wc) w"
proof (cases "map_of (wc_weights wc) w")
  case (Some ww)
  then have "ww = weight_spec c bals (wc_appliedTransfers wc) locks w"
    and mem: "w \<in> set (relevantWallets bals (wc_appliedTransfers wc) locks)"
    using computeWeights_run [OF assms] by (auto simp: map_of_map_keys dest!: map_of_SomeD)
  moreover have l: "0 \<le> twab_of c (locked_at locks w tier)" for tier
    using assms(2) by (auto simp: twab_of_def twab_input_def pos_imp_zdiv_nonneg_iff
        intro!: sum_nonneg locked_at_nonneg)
  moreover have u: "0 \<le> twab_of c (\<lambda>t. balance_at bals (wc_appliedTransfers wc) w t - locked_total locks w t)"
    using computeWeights_run [OF assms] mem
    by (auto simp: twab_of_def pos_imp_zdiv_nonneg_iff intro!: sum_nonneg)
  moreover have t: "0 \<le> v * multiplierBps (TIER_SPECS tier) div 10000" if "0 \<le> v" for v tier
    using tier_floor(1) [OF that, of tier] that by simp
  have "0 \<le> ww_effectiveWeight (weight_spec c bals (wc_appliedTransfers wc) locks w)"
    unfolding weight_spec_def Let_def sum_tiers WalletWeight.simps
    by (intro add_nonneg_nonneg u t l)
  ultimately have "0 \<le> ww_effectiveWeight ww" by simp
  with Some show ?thesis by (simp add: weightField_def)
qed (simp add: weightField_def)

lemma eligible_wallets:
  fixes weights :: "(string \<times> WalletWeight) list"
  assumes "fixture_wf f"
  defines "e \<equiv> resolveEligibility (fx_cycle f) (fx_excludedAddresses f) (fx_eligibility f) weights"
  shows "distinct (er_eligibleWallets e)"
    and "\<forall>w\<in>set (er_eligibleWallets e). normalized_address w \<and>
      (\<exists>r\<in>set (fx_eligibility f). el_wallet r = w \<and> el_eligible r \<and> \<not> el_revoked r \<and>
         el_validFrom r \<le> cy_epochEnd (fx_cycle f)) \<and>
      w \<notin> ex_address ` set (fx_excludedAddresses f)"
    and "er_totalEffectiveWeight e =
      (\<Sum>w\<leftarrow>er_eligibleWallets e. weightField ww_effectiveWeight weights w)"
  using assms(1)
  by (auto simp: e_def resolveEligibility_def Let_def eligibility_totals fixture_wf_def list_all_iff
      recordAdmits_def image_iff intro!: distinct_map_filter split: if_splits)

lemma normalized_no_bar: "normalized_address a \<Longrightarrow> CHR ''|'' \<notin> set a"
  by (auto simp: normalized_address_def isHexAddress_def dest: hex_string_bar)

lemma allocateAsset_entitlements:
  assumes "allocateAsset c asset ws weights tot = Inr a" and "distinct ws"
    and "0 \<le> as_acquiredRawAmount asset"
    and "tot = (\<Sum>w\<leftarrow>ws. weightField ww_effectiveWeight weights w)"
    and "\<forall>w\<in>set ws. 0 \<le> weightField ww_effectiveWeight weights w"
  shows "\<exists>g rs. aa_entitlements a = map (\<lambda>w. entitle c asset w (g w)) rs \<and> set rs \<subseteq> set ws \<and> distinct rs"
proof -
  let ?sh = "share weights (as_acquiredRawAmount asset * 8000 div 10000) tot"
  define rs where "rs = (if 0 < tot then filter (\<lambda>w. 0 < ?sh w) ws else [])"
  have "aa_entitlements a = map (\<lambda>w. entitle c asset w (?sh w)) rs"
  proof -
    have "aa_entitlements a = aa_entitlements (projr (allocateAsset c asset ws weights tot))"
      using assms(1) by simp
    also have "\<dots> = map (\<lambda>w. entitle c asset w (?sh w)) rs"
      unfolding allocateAsset_value(1) [OF assms(3-5), of c] rs_def by (simp only: sum.sel AssetAllocation.simps)
    finally show ?thesis .
  qed
  moreover have "set rs \<subseteq> set ws" "distinct rs" using assms(2) by (auto simp: rs_def)
  ultimately show ?thesis by blast
qed

lemma entitlementKey_entitle:
  assumes "CHR ''|'' \<notin> set w" "CHR ''|'' \<notin> set w'"
  shows "entitlementKey (entitle c asset w x) = entitlementKey (entitle c asset' w' x') \<longleftrightarrow>
    w = w' \<and> as_tokenAddress asset = as_tokenAddress asset'"
  using assms by (auto simp: entitlementKey_def entitle_def sep_inj)

lemma entitlement_keys_distinct:
  assumes "rmap (\<lambda>asset. allocateAsset c asset ws weights tot) assets = Inr als"
    and "\<forall>asset\<in>set assets. 0 \<le> as_acquiredRawAmount asset"
    and tot: "tot = (\<Sum>w\<leftarrow>ws. weightField ww_effectiveWeight weights w)"
    and nonneg: "\<forall>w\<in>set ws. 0 \<le> weightField ww_effectiveWeight weights w"
    and dist: "distinct ws" and "distinct (map as_tokenAddress assets)"
    and bar: "\<forall>w\<in>set ws. CHR ''|'' \<notin> set w"
  shows "distinct (map entitlementKey (concat (map aa_entitlements als))) \<and>
    (\<forall>e\<in>set (concat (map aa_entitlements als)).
       \<exists>asset\<in>set assets. \<exists>w\<in>set ws. \<exists>x. e = entitle c asset w x)"
  using assms(1,2,6)
proof (induction assets arbitrary: als)
  case (Cons asset assets)
  obtain a als' where a: "allocateAsset c asset ws weights tot = Inr a"
    and als': "rmap (\<lambda>asset. allocateAsset c asset ws weights tot) assets = Inr als'"
    and als: "als = a # als'"
    using Cons.prems(1) by (auto simp: rbind_eq_Inr)
  obtain g rs where rs: "aa_entitlements a = map (\<lambda>w. entitle c asset w (g w)) rs"
    "set rs \<subseteq> set ws" "distinct rs"
    using allocateAsset_entitlements [OF a dist _ tot nonneg] Cons.prems(2) by auto
  have IH: "distinct (map entitlementKey (concat (map aa_entitlements als')))"
    "\<forall>e\<in>set (concat (map aa_entitlements als')).
       \<exists>asset\<in>set assets. \<exists>w\<in>set ws. \<exists>x. e = entitle c asset w x"
    using Cons.IH [OF als'] Cons.prems by auto
  have "inj_on (\<lambda>w. entitlementKey (entitle c asset w (g w))) (set rs)"
    using rs(2) bar by (intro inj_onI) (metis entitlementKey_entitle subsetD)
  then have one: "distinct (map entitlementKey (aa_entitlements a))"
    using rs by (simp add: distinct_map comp_def)
  have "entitlementKey e \<noteq> entitlementKey e'"
    if e1: "e \<in> set (aa_entitlements a)" and e2: "e' \<in> set (concat (map aa_entitlements als'))" for e e'
  proof -
    have "e \<in> (\<lambda>w. entitle c asset w (g w)) ` set rs" using e1 unfolding rs(1) by simp
    then obtain w where w: "w \<in> set ws" "e = entitle c asset w (g w)" using rs(2) by blast
    obtain asset' w' x where e': "asset' \<in> set assets" "w' \<in> set ws" "e' = entitle c asset' w' x"
      using IH(2) e2 by blast
    have "as_tokenAddress asset \<noteq> as_tokenAddress asset'" using Cons.prems(3) e'(1) by auto
    then show ?thesis using w e' bar by (simp add: entitlementKey_entitle)
  qed
  then have two: "set (map entitlementKey (aa_entitlements a)) \<inter>
      set (map entitlementKey (concat (map aa_entitlements als'))) = {}"
    by (auto simp del: set_concat)
  have "\<forall>e\<in>set (aa_entitlements a). \<exists>w\<in>set ws. \<exists>x. e = entitle c asset w x"
    using rs(1,2) by auto
  with IH one two show ?case unfolding als by auto
qed simp

lemma asset_totals:
  assumes "rmap (\<lambda>asset. allocateAsset c asset ws weights tot) assets = Inr als"
    and "\<forall>asset\<in>set assets. 0 \<le> as_acquiredRawAmount asset"
    and tot: "tot = (\<Sum>w\<leftarrow>ws. weightField ww_effectiveWeight weights w)"
    and nonneg: "\<forall>w\<in>set ws. 0 \<le> weightField ww_effectiveWeight weights w"
    and "distinct (map as_tokenAddress assets)"
  shows "(\<forall>asset\<in>set assets.
      (\<Sum>e\<leftarrow>filter (\<lambda>e. en_asset e = as_tokenAddress asset) (concat (map aa_entitlements als)). en_amount e)
        \<le> as_acquiredRawAmount asset * 8000 div 10000) \<and>
    (\<forall>e\<in>set (concat (map aa_entitlements als)). en_asset e \<in> as_tokenAddress ` set assets)"
  using assms(1,2,5)
proof (induction assets arbitrary: als)
  case (Cons asset assets)
  obtain a als' where a: "allocateAsset c asset ws weights tot = Inr a"
    and als': "rmap (\<lambda>asset. allocateAsset c asset ws weights tot) assets = Inr als'"
    and als: "als = a # als'"
    using Cons.prems(1) by (auto simp: rbind_eq_Inr)
  let ?own = "aa_entitlements a" and ?rest = "concat (map aa_entitlements als')"
  have IH: "\<forall>asset\<in>set assets. (\<Sum>e\<leftarrow>filter (\<lambda>e. en_asset e = as_tokenAddress asset) ?rest. en_amount e)
        \<le> as_acquiredRawAmount asset * 8000 div 10000"
    "\<forall>e\<in>set ?rest. en_asset e \<in> as_tokenAddress ` set assets"
    using Cons.IH [OF als'] Cons.prems by auto
  have own: "(\<Sum>e\<leftarrow>?own. en_amount e) \<le> as_acquiredRawAmount asset * 8000 div 10000"
    "\<forall>e\<in>set ?own. en_asset e = as_tokenAddress asset"
    using allocateAsset_facts [OF _ tot nonneg, of asset c] a Cons.prems(2) by auto
  have "filter (\<lambda>e. en_asset e = as_tokenAddress asset) ?own = ?own" using own(2) by simp
  moreover have "filter (\<lambda>e. en_asset e = as_tokenAddress asset) ?rest = []"
  proof -
    have "as_tokenAddress asset \<notin> as_tokenAddress ` set assets" using Cons.prems(3) by simp
    with IH(2) show ?thesis unfolding filter_empty_conv by metis
  qed
  moreover have "filter (\<lambda>e. en_asset e = as_tokenAddress asset') ?own = []"
    if "asset' \<in> set assets" for asset'
    using own(2) Cons.prems(3) that by (auto simp: filter_empty_conv)
  ultimately show ?case
    using IH own unfolding als by (auto simp del: set_concat simp: set_append)
qed simp

lemma verifyProofs_ok:
  assumes "oz_documented v oz" and "leaves_normalized (fx_cycle f) es"
    and "buildMerkle oz (fx_cycle f) es = Inr m"
  shows "verifyProofs v oz f (Some m) =
    Inr \<lparr>vs_proofCount = int (length es), vs_ozVerified = int (length es),
         vs_viemVerified = int (length es), vs_allVerified = True\<rparr>"
proof -
  have len: "length (mr_entries m) = length es"
    using assms(3) by (auto simp: buildMerkle_eq_Inr Let_def)
  have "rfold (\<lambda>(oz_ok, viem_ok) entry.
          rbind (orThrow (ozVerify oz (mr_root m) (fx_cycle f) (me_entitlement entry) (me_proof entry))) (\<lambda>o_ok.
          rbind (orThrow (viemVerify v (fx_cycle f) (me_entitlement entry) (me_proof entry) (mr_root m))) (\<lambda>v_ok.
          Inr (if o_ok then oz_ok + 1 else oz_ok, if v_ok then viem_ok + 1 else viem_ok)))) (x, y) xs =
        Inr (x + int (length xs), y + int (length xs))"
    if "set xs \<subseteq> set (mr_entries m)" for xs x y
    using that buildMerkle_proofs(1,2) [OF assms]
    by (induction xs arbitrary: x y) auto
  from this [of "mr_entries m" 0 0] show ?thesis
    by (simp add: verifyProofs_def Let_def len)
qed

lemma artifactOf_safe: "artifactOf v = Inr a \<Longrightarrow> json_safe (at_object a)"
  using artifactOf_ok [of v] artifactOf_object [of v a] by simp

text \<open>The arguments of the allocation stage, for a loaded fixture and its weights.\<close>

lemma allocation_stage:
  fixes weights :: "(string \<times> WalletWeight) list"
  assumes wf: "fixture_wf f"
    and wc: "computeWeights (fx_cycle f) (fx_epochStartBalances f) (fx_transfers f) (fx_locks f) = Inr wc"
  defines "e \<equiv> resolveEligibility (fx_cycle f) (fx_excludedAddresses f) (fx_eligibility f) (wc_weights wc)"
  shows "\<forall>a\<in>set (fx_assets f). 0 \<le> as_acquiredRawAmount a"
    and "er_totalEffectiveWeight e =
      (\<Sum>w\<leftarrow>er_eligibleWallets e. weightField ww_effectiveWeight (wc_weights wc) w)"
    and "\<forall>w\<in>set (er_eligibleWallets e). 0 \<le> weightField ww_effectiveWeight (wc_weights wc) w"
    and "distinct (er_eligibleWallets e)" and "distinct (map as_tokenAddress (fx_assets f))"
    and "\<forall>w\<in>set (er_eligibleWallets e). CHR ''|'' \<notin> set w"
  using eligible_wallets [OF wf, of "wc_weights wc"] wf
    weights_nonneg [OF wc fixture_wf_twab_input [OF wf]] normalized_no_bar
  by (auto simp: e_def fixture_wf_def list_all_iff)

lemma stage_leaves:
  assumes wf: "fixture_wf f"
    and wc: "computeWeights (fx_cycle f) (fx_epochStartBalances f) (fx_transfers f) (fx_locks f) = Inr wc"
    and al: "allocate (fx_cycle f) (fx_assets f)
      (er_eligibleWallets (resolveEligibility (fx_cycle f) (fx_excludedAddresses f) (fx_eligibility f) (wc_weights wc)))
      (wc_weights wc)
      (er_totalEffectiveWeight
        (resolveEligibility (fx_cycle f) (fx_excludedAddresses f) (fx_eligibility f) (wc_weights wc))) = Inr al"
  shows "leaves_normalized (fx_cycle f) (ar_entitlements al)"
    and "distinct (map entitlementKey (ar_entitlements al))"
    and "\<forall>e\<in>set (ar_entitlements al). 0 < en_amount e"
    and "ar_entitlements al \<noteq> [] \<Longrightarrow> leaves_encodable (fx_cycle f) (ar_entitlements al) \<longleftrightarrow>
      cy_chainId (fx_cycle f) < 2 ^ 256 \<and> cy_cycleId (fx_cycle f) < 2 ^ 256 \<and>
      (\<forall>e\<in>set (ar_entitlements al). en_amount e < 2 ^ 256)"
proof -
  note st = allocation_stage [OF wf wc]
  have facts: "\<forall>e\<in>set (ar_entitlements al). 0 < en_amount e \<and>
      en_wallet e \<in> set (er_eligibleWallets
        (resolveEligibility (fx_cycle f) (fx_excludedAddresses f) (fx_eligibility f) (wc_weights wc))) \<and>
      en_asset e \<in> as_tokenAddress ` set (fx_assets f)"
    using allocate_reconcile_facts [OF st(1-3), of "fx_cycle f"] al by auto
  then show pos: "\<forall>e\<in>set (ar_entitlements al). 0 < en_amount e" by blast
  have "normalized_address (en_wallet e)" if "e \<in> set (ar_entitlements al)" for e
    using facts eligible_wallets(2) [OF wf, of "wc_weights wc"] that by blast
  moreover have "normalized_address (en_asset e)" if "e \<in> set (ar_entitlements al)" for e
    using facts wf that by (fastforce simp: fixture_wf_def list_all_iff)
  moreover have "normalized_address (cy_claimManagerAddress (fx_cycle f))"
    and nonneg: "0 \<le> cy_chainId (fx_cycle f)" "0 \<le> cy_cycleId (fx_cycle f)"
    using wf by (auto simp: fixture_wf_def cycle_wf_def)
  ultimately show "leaves_normalized (fx_cycle f) (ar_entitlements al)"
    by (simp add: leaves_normalized_def lf_normalized_def leafFieldsOf_def)
  show "distinct (map entitlementKey (ar_entitlements al))"
    using entitlement_keys_distinct [OF _ st(1-6)] al by (auto simp: allocate_def rbind_eq_Inr Let_def)
  show "leaves_encodable (fx_cycle f) (ar_entitlements al) \<longleftrightarrow>
      cy_chainId (fx_cycle f) < 2 ^ 256 \<and> cy_cycleId (fx_cycle f) < 2 ^ 256 \<and>
      (\<forall>e\<in>set (ar_entitlements al). en_amount e < 2 ^ 256)" if "ar_entitlements al \<noteq> []"
    using that pos nonneg
    by (cases "ar_entitlements al")
      (auto simp: leaves_encodable_def lf_encodable_def leafFieldsOf_def uint256_def less_imp_le)
qed

lemma emitArtifacts_ok: "is_ok (emitArtifacts v f e al m rc)"
proof -
  obtain a where a: "buildAllocations (fx_cycle f) al = Inr a"
    using buildAllocations_ok unfolding is_ok_iff by blast
  have "json_safe (at_object a)"
    using a by (auto simp: buildAllocations_def Let_def intro: artifactOf_safe)
  then obtain h where h: "keccakOfCanonical (vi_keccak256 v) (at_object a) = Inr h"
    using keccakOfCanonical_ok unfolding is_ok_iff by blast
  obtain p where p: "buildWalletProofs (fx_cycle f) m al = Inr p"
    using buildWalletProofs_ok unfolding is_ok_iff by blast
  obtain r where r: "buildReconciliation (fx_cycle f) rc m = Inr r"
    using buildReconciliation_ok unfolding is_ok_iff by blast
  obtain man where man: "buildManifest (vi_keccak256 v) f e al m h = Inr man"
    using buildManifest_ok unfolding is_ok_iff by blast
  show ?thesis by (simp add: emitArtifacts_def a h p r man)
qed

text \<open>The allocation of a loaded fixture and its weights exists; what is left to fail is the encoding.\<close>

definition encodable_leaves :: "CycleFixture \<Rightarrow> AllocationResult \<Rightarrow> bool" where
  "encodable_leaves f al \<longleftrightarrow>
     (ar_publishable al \<longrightarrow> cy_chainId (fx_cycle f) < 2 ^ 256 \<and> cy_cycleId (fx_cycle f) < 2 ^ 256 \<and>
       (\<forall>e\<in>set (ar_entitlements al). en_amount e < 2 ^ 256))"

lemma pipeline_total:
  fixes f wc
  defines "e \<equiv> resolveEligibility (fx_cycle f) (fx_excludedAddresses f) (fx_eligibility f) (wc_weights wc)"
  assumes oz: "oz_documented v oz"
    and load: "loadCycleFixture decode input = Inr f"
    and wc: "computeWeights (fx_cycle f) (fx_epochStartBalances f) (fx_transfers f) (fx_locks f) = Inr wc"
  shows "\<exists>al. allocate (fx_cycle f) (fx_assets f) (er_eligibleWallets e) (wc_weights wc)
      (er_totalEffectiveWeight e) = Inr al \<and>
    (is_ok (runProofOfDistribution v oz decode input) \<longleftrightarrow> encodable_leaves f al)"
proof -
  note wf = load_wf [OF load]
  note st = allocation_stage [OF wf wc, folded e_def]
  obtain al rc where al: "allocate (fx_cycle f) (fx_assets f) (er_eligibleWallets e) (wc_weights wc)
      (er_totalEffectiveWeight e) = Inr al" and rc: "reconcile al = Inr rc"
    using allocate_reconcile_facts [OF st(1-3), of "fx_cycle f"] by blast
  note leaves = stage_leaves [OF wf wc al [unfolded e_def]]
  have run: "runProofOfDistribution v oz decode input =
      rbind (if ar_publishable al
            then rbind (buildMerkle oz (fx_cycle f) (ar_entitlements al)) (\<lambda>m. Inr (Some m))
            else Inr None) (\<lambda>merkle.
     rbind (verifyProofs v oz f merkle) (\<lambda>verification.
     rbind (emitArtifacts v f e al merkle rc) (\<lambda>artifacts.
     Inr \<lparr>pr_fixture = f, pr_weights = wc_weights wc, pr_eligibility = e,
          pr_allocation = al, pr_merkle = merkle, pr_reconciliation = rc,
          pr_verification = verification, pr_artifacts = artifacts\<rparr>)))"
    by (simp add: runProofOfDistribution_def load wc Let_def rc al [unfolded e_def] e_def)
  have "is_ok (runProofOfDistribution v oz decode input) \<longleftrightarrow> encodable_leaves f al"
  proof (cases "ar_publishable al")
    case True
    then have ne: "ar_entitlements al \<noteq> []"
      using al by (auto simp: allocate_def rbind_eq_Inr Let_def split: if_splits)
    have built: "is_ok (buildMerkle oz (fx_cycle f) (ar_entitlements al)) \<longleftrightarrow> encodable_leaves f al"
      unfolding buildMerkle_ok_iff [OF oz leaves(1)] leaves(4) [OF ne] encodable_leaves_def
      using True ne leaves(2,3) by blast
    show ?thesis
    proof (cases "buildMerkle oz (fx_cycle f) (ar_entitlements al)")
      case (Inl err)
      then show ?thesis using built by (simp add: run True)
    next
      case (Inr m)
      obtain arts where "emitArtifacts v f e al (Some m) rc = Inr arts"
        using emitArtifacts_ok unfolding is_ok_iff by blast
      with Inr show ?thesis
        using built by (simp add: run True verifyProofs_ok [OF oz leaves(1) Inr])
    qed
  next
    case False
    obtain arts where "emitArtifacts v f e al None rc = Inr arts"
      using emitArtifacts_ok unfolding is_ok_iff by blast
    with False show ?thesis by (simp add: run verifyProofs_def encodable_leaves_def)
  qed
  with al show ?thesis by blast
qed

section \<open>Properties\<close>

text \<open>
  C11: once a fixture loads and its weights compute, the allocation exists and the engine can fail in one
  way only: when there is something to publish and the chain id, the cycle id or an amount is not below
  \<open>2^256\<close>, the bound the schema does not impose and the ABI encoding does. The other defensive checks of the
  allocation, the tree, the proofs and the reconciliation are unreachable.
\<close>

theorem runProofOfDistribution_total:
  assumes "oz_documented v oz" and "loadCycleFixture decode input = Inr f"
    and "computeWeights (fx_cycle f) (fx_epochStartBalances f) (fx_transfers f) (fx_locks f) = Inr wc"
    and "e = resolveEligibility (fx_cycle f) (fx_excludedAddresses f) (fx_eligibility f) (wc_weights wc)"
  shows "\<exists>al. allocate (fx_cycle f) (fx_assets f) (er_eligibleWallets e) (wc_weights wc)
      (er_totalEffectiveWeight e) = Inr al \<and>
    (is_ok (runProofOfDistribution v oz decode input) \<longleftrightarrow>
      (ar_publishable al \<longrightarrow> cy_chainId (fx_cycle f) < 2 ^ 256 \<and> cy_cycleId (fx_cycle f) < 2 ^ 256 \<and>
        (\<forall>x\<in>set (ar_entitlements al). en_amount x < 2 ^ 256)))"
  using pipeline_total [OF assms(1-3)] unfolding assms(4) encodable_leaves_def .

lemma run_stages:
  assumes "runProofOfDistribution v oz decode input = Inr r"
  shows "\<exists>wc. loadCycleFixture decode input = Inr (pr_fixture r) \<and>
    computeWeights (fx_cycle (pr_fixture r)) (fx_epochStartBalances (pr_fixture r))
      (fx_transfers (pr_fixture r)) (fx_locks (pr_fixture r)) = Inr wc \<and>
    pr_weights r = wc_weights wc \<and>
    pr_eligibility r = resolveEligibility (fx_cycle (pr_fixture r))
      (fx_excludedAddresses (pr_fixture r)) (fx_eligibility (pr_fixture r)) (wc_weights wc) \<and>
    allocate (fx_cycle (pr_fixture r)) (fx_assets (pr_fixture r))
      (er_eligibleWallets (pr_eligibility r)) (wc_weights wc)
      (er_totalEffectiveWeight (pr_eligibility r)) = Inr (pr_allocation r) \<and>
    (case pr_merkle r of
       None \<Rightarrow> \<not> ar_publishable (pr_allocation r)
     | Some m \<Rightarrow> ar_publishable (pr_allocation r) \<and>
         buildMerkle oz (fx_cycle (pr_fixture r)) (ar_entitlements (pr_allocation r)) = Inr m) \<and>
    verifyProofs v oz (pr_fixture r) (pr_merkle r) = Inr (pr_verification r) \<and>
    emitArtifacts v (pr_fixture r) (pr_eligibility r) (pr_allocation r) (pr_merkle r)
      (pr_reconciliation r) = Inr (pr_artifacts r)"
  using assms
  by (auto simp: runProofOfDistribution_def rbind_eq_Inr Let_def split: if_splits)

text \<open>
  C12: whatever a run entitles is deserved and funded: every entitlement is positive, is of an asset of
  the fixture, and goes to a wallet with an eligible, unrevoked, already valid record that is not
  excluded; and per asset the entitlements add up to at most 80 percent of what was acquired.
\<close>

theorem runProofOfDistribution_safe:
  assumes "runProofOfDistribution v oz decode input = Inr r"
  shows "(\<forall>e\<in>set (ar_entitlements (pr_allocation r)).
      0 < en_amount e \<and> en_asset e \<in> as_tokenAddress ` set (fx_assets (pr_fixture r)) \<and>
      (\<exists>rec\<in>set (fx_eligibility (pr_fixture r)). el_wallet rec = en_wallet e \<and> el_eligible rec \<and>
         \<not> el_revoked rec \<and> el_validFrom rec \<le> cy_epochEnd (fx_cycle (pr_fixture r))) \<and>
      en_wallet e \<notin> ex_address ` set (fx_excludedAddresses (pr_fixture r))) \<and>
    (\<forall>asset\<in>set (fx_assets (pr_fixture r)).
      (\<Sum>e\<leftarrow>filter (\<lambda>e. en_asset e = as_tokenAddress asset) (ar_entitlements (pr_allocation r)).
         en_amount e) \<le> as_acquiredRawAmount asset * 8000 div 10000)"
proof -
  obtain wc where load: "loadCycleFixture decode input = Inr (pr_fixture r)"
    and wc: "computeWeights (fx_cycle (pr_fixture r)) (fx_epochStartBalances (pr_fixture r))
      (fx_transfers (pr_fixture r)) (fx_locks (pr_fixture r)) = Inr wc"
    and el: "pr_eligibility r = resolveEligibility (fx_cycle (pr_fixture r))
      (fx_excludedAddresses (pr_fixture r)) (fx_eligibility (pr_fixture r)) (wc_weights wc)"
    and al: "allocate (fx_cycle (pr_fixture r)) (fx_assets (pr_fixture r))
      (er_eligibleWallets (pr_eligibility r)) (wc_weights wc)
      (er_totalEffectiveWeight (pr_eligibility r)) = Inr (pr_allocation r)"
    using run_stages [OF assms] by blast
  note wf = load_wf [OF load]
  note st = allocation_stage [OF wf wc, folded el]
  note ew = eligible_wallets(2) [OF wf, of "wc_weights wc", folded el]
  obtain als where als: "rmap (\<lambda>asset. allocateAsset (fx_cycle (pr_fixture r)) asset
      (er_eligibleWallets (pr_eligibility r)) (wc_weights wc)
      (er_totalEffectiveWeight (pr_eligibility r))) (fx_assets (pr_fixture r)) = Inr als"
    "ar_entitlements (pr_allocation r) = concat (map aa_entitlements als)"
    using al by (cases "pr_allocation r") (auto simp: allocate_def rbind_eq_Inr Let_def)
  have "\<forall>e\<in>set (ar_entitlements (pr_allocation r)).
      0 < en_amount e \<and> en_wallet e \<in> set (er_eligibleWallets (pr_eligibility r)) \<and>
      en_asset e \<in> as_tokenAddress ` set (fx_assets (pr_fixture r))"
    using allocate_reconcile_facts [OF st(1-3), of "fx_cycle (pr_fixture r)"] al by auto
  with ew asset_totals [OF als(1) st(1-3,5)] show ?thesis
    unfolding als(2) by blast
qed

lemma independent_null:
  assumes "buildWalletProofs cycle None allocation = Inr a"
  shows "independentlyVerifyWalletProofs v (at_object a) =
    Inr \<lparr>ip_root = None, ip_proofCount = 0, ip_verified = 0, ip_ok = True, ip_failures = []\<rparr>"
  using assms artifactOf_object [of _ a]
  by (auto simp: buildWalletProofs_def Let_def independentlyVerifyWalletProofs_def jget_def
      rootJson_def walletsJson_def jkeys_def js_object_def)

text \<open>
  The pilot exits with 0 on every fixture the engine accepts: the re-verification of the emitted
  artifacts, which uses only their content, agrees with the engine.
\<close>

theorem pilotRun_exit_code:
  assumes oz: "oz_documented v oz" and run: "runProofOfDistribution v oz decode input = Inr r"
  shows "pilotRun v oz decode input = Inr 0"
proof -
  let ?f = "pr_fixture r" and ?al = "pr_allocation r" and ?m = "pr_merkle r"
  obtain wc where load: "loadCycleFixture decode input = Inr ?f"
    and wc: "computeWeights (fx_cycle ?f) (fx_epochStartBalances ?f) (fx_transfers ?f) (fx_locks ?f) = Inr wc"
    and el: "pr_eligibility r = resolveEligibility (fx_cycle ?f) (fx_excludedAddresses ?f) (fx_eligibility ?f)
      (wc_weights wc)"
    and al: "allocate (fx_cycle ?f) (fx_assets ?f) (er_eligibleWallets (pr_eligibility r)) (wc_weights wc)
      (er_totalEffectiveWeight (pr_eligibility r)) = Inr ?al"
    using run_stages [OF run] by blast
  note leaves = stage_leaves(1) [OF load_wf [OF load] wc al [unfolded el]]
  from run_stages [OF run] have
    mk: "case ?m of None \<Rightarrow> True | Some m \<Rightarrow> buildMerkle oz (fx_cycle ?f) (ar_entitlements ?al) = Inr m"
    and ver: "verifyProofs v oz ?f ?m = Inr (pr_verification r)"
    and em: "emitArtifacts v ?f (pr_eligibility r) ?al ?m (pr_reconciliation r) = Inr (pr_artifacts r)"
    by (auto split: option.splits)
  obtain h where h: "keccakOfCanonical (vi_keccak256 v) (at_object (as_allocations (pr_artifacts r))) = Inr h"
    and wp: "buildWalletProofs (fx_cycle ?f) ?m ?al = Inr (as_walletProofs (pr_artifacts r))"
    and man: "buildManifest (vi_keccak256 v) ?f (pr_eligibility r) ?al ?m h =
      Inr (as_manifest (pr_artifacts r))"
    using em by (cases "pr_artifacts r") (auto simp: emitArtifacts_def rbind_eq_Inr)
  have env: "verifyManifestEnvelope (vi_keccak256 v) (at_object (as_manifest (pr_artifacts r))) = Inr True"
    "verifyAllocationsContentHash (vi_keccak256 v) (at_object (as_manifest (pr_artifacts r)))
      (at_object (as_allocations (pr_artifacts r))) = Inr True"
    using manifest_verifies [OF h, of ?f "pr_eligibility r" ?al ?m] man by auto
  obtain ip where ip: "independentlyVerifyWalletProofs v (at_object (as_walletProofs (pr_artifacts r))) = Inr ip"
    "ip_ok ip"
  proof (cases ?m)
    case None
    with wp show ?thesis using that independent_null [of _ ?al "as_walletProofs (pr_artifacts r)" v] by auto
  next
    case (Some m)
    with wp mk show ?thesis
      using that walletProofs_verified [OF oz leaves] by auto
  qed
  have all: "vs_allVerified (pr_verification r)"
    using ver by (cases "pr_verification r")
      (auto simp: verifyProofs_def Let_def rbind_eq_Inr split: option.splits if_splits)
  show ?thesis
    by (simp add: pilotRun_def run Let_def ip env all)
qed

section \<open>A concrete run\<close>

definition ex_raw_cycle :: RawCycle where
  "ex_raw_cycle = \<lparr>rc_schemaVersion = ''1'', rc_cycleId = ''7'', rc_chainId = ''1'',
     rc_bpsTokenAddress = ''0xbbbbbbbbbbbbbbbbbbbbbbbbbbbbbbbbbbbbbbbb'',
     rc_claimManagerAddress = ''0xcccccccccccccccccccccccccccccccccccccccc'',
     rc_economicsVersion = ECON_VERSION, rc_rewardPolicyVersion = ''1'', rc_epochId = ''2'',
     rc_epochStart = ''1800'', rc_epochEnd = ''2700'', rc_startBlock = ''1'', rc_endBlock = ''9'',
     rc_snapshotBlock = ''9'', rc_finalizedBlock = ''9'', rc_confirmationDepth = ''1'',
     rc_claimStart = ''1'', rc_claimDeadline = ''2'', rc_termsVersion = ''1'',
     rc_eligibilityPolicyVersion = ''1'', rc_restrictedJurisdictionPolicyVersion = ''1''\<rparr>"

definition ex_raw :: RawCycleFixture where
  "ex_raw = \<lparr>rf_cycle = ex_raw_cycle, rf_excludedAddresses = [],
     rf_eligibility = [\<lparr>re_wallet = ''0xAAAAAAAAAAAAAAAAAAAAAAAAAAAAAAAAAAAAAAAA'', re_eligible = True,
       re_policyVersion = ''1'', re_validFrom = ''0'', re_expiry = None, re_revoked = False\<rparr>],
     rf_epochStartBalances = [\<lparr>rb_wallet = ''0xaaaaaaaaaaaaaaaaaaaaaaaaaaaaaaaaaaaaaaaa'', rb_rawBalance = ''1000''\<rparr>],
     rf_transfers = [],
     rf_locks = [\<lparr>rl_wallet = ''0xaaaaaaaaaaaaaaaaaaaaaaaaaaaaaaaaaaaaaaaa'', rl_rawPrincipal = ''600'',
       rl_tier = ''LOCK_7D'', rl_startTimestamp = ''2000'', rl_unlockTimestamp = ''606800'',
       rl_withdrawalTimestamp = None\<rparr>],
     rf_assets = [\<lparr>ra_ticker = ''T'', ra_name = ''n'', ra_tokenAddress = ''0xdddddddddddddddddddddddddddddddddddddddd'',
       ra_decimals = 18, ra_acquiredRawAmount = ''1001''\<rparr>]\<rparr>"

lemma ex_raw_loads: "is_ok (loadCycleFixture Some ex_raw)"
  by code_simp

theorem loadCycleFixture_wf_witness:
  "\<exists>f. loadCycleFixture Some ex_raw = Inr f \<and> fixture_wf f"
  using ex_raw_loads loadCycleFixture_wf [of Some ex_raw] by (auto simp: is_ok_iff)

text \<open>The example run succeeds; the same fixture on chain \<open>2^256\<close> passes every check but the encoding.\<close>

definition ex_raw_big :: RawCycleFixture where
  "ex_raw_big = ex_raw\<lparr>rf_cycle := ex_raw_cycle\<lparr>rc_chainId :=
     ''115792089237316195423570985008687907853269984665640564039457584007913129639936''\<rparr>\<rparr>"

definition ex_stages :: "RawCycleFixture \<Rightarrow> (bool \<times> bool) option" where
  "ex_stages raw =
    (case loadCycleFixture Some raw of
       Inl _ \<Rightarrow> None
     | Inr f \<Rightarrow>
         (case computeWeights (fx_cycle f) (fx_epochStartBalances f) (fx_transfers f) (fx_locks f) of
            Inl _ \<Rightarrow> None
          | Inr wc \<Rightarrow>
              (let e = resolveEligibility (fx_cycle f) (fx_excludedAddresses f) (fx_eligibility f) (wc_weights wc) in
               case allocate (fx_cycle f) (fx_assets f) (er_eligibleWallets e) (wc_weights wc)
                      (er_totalEffectiveWeight e) of
                 Inl _ \<Rightarrow> None
               | Inr al \<Rightarrow> Some (ar_publishable al, cy_chainId (fx_cycle f) < 2 ^ 256 \<and>
                   cy_cycleId (fx_cycle f) < 2 ^ 256 \<and> list_all (\<lambda>x. en_amount x < 2 ^ 256) (ar_entitlements al)))))"

lemma ex_stages_values: "ex_stages ex_raw = Some (True, True)" "ex_stages ex_raw_big = Some (True, False)"
  by code_simp+

lemma ex_raw_runs: "\<exists>r. runProofOfDistribution toy_viem toy_oz Some ex_raw = Inr r"
proof -
  obtain f wc where f: "loadCycleFixture Some ex_raw = Inr f"
    and wc: "computeWeights (fx_cycle f) (fx_epochStartBalances f) (fx_transfers f) (fx_locks f) = Inr wc"
    using ex_stages_values(1) by (auto simp: ex_stages_def split: sum.splits)
  from pipeline_total [OF toy_documented f wc] ex_stages_values(1) f wc show ?thesis
    by (auto simp: ex_stages_def Let_def list_all_iff is_ok_iff encodable_leaves_def)
qed

theorem runProofOfDistribution_total_witness:
  "is_ok (runProofOfDistribution toy_viem toy_oz Some ex_raw) \<and>
   \<not> is_ok (runProofOfDistribution toy_viem toy_oz Some ex_raw_big)"
proof -
  have run: "is_ok (runProofOfDistribution toy_viem toy_oz Some raw) \<longleftrightarrow> (pub \<longrightarrow> fits)"
    if st: "ex_stages raw = Some (pub, fits)" for raw pub fits
  proof -
    obtain f wc where f: "loadCycleFixture Some raw = Inr f"
      and wc: "computeWeights (fx_cycle f) (fx_epochStartBalances f) (fx_transfers f) (fx_locks f) = Inr wc"
      using st by (auto simp: ex_stages_def split: sum.splits)
    from runProofOfDistribution_total [OF toy_documented f wc refl] st f wc show ?thesis
      by (auto simp: ex_stages_def Let_def list_all_iff)
  qed
  show ?thesis using run [OF ex_stages_values(1)] run [OF ex_stages_values(2)] by blast
qed

theorem runProofOfDistribution_safe_witness:
  "\<exists>r. runProofOfDistribution toy_viem toy_oz Some ex_raw = Inr r \<and>
     (\<forall>e\<in>set (ar_entitlements (pr_allocation r)). 0 < en_amount e)"
  using ex_raw_runs runProofOfDistribution_safe [of toy_viem toy_oz Some ex_raw] by blast

theorem pilotRun_exit_code_witness: "pilotRun toy_viem toy_oz Some ex_raw = Inr 0"
  using ex_raw_runs pilotRun_exit_code [OF toy_documented, of Some ex_raw] by blast

end
