(* ===== verification/PriceGuard.thy ===== *)
theory PriceGuard
  imports Prelude
begin

text \<open>
  \<open>packages/rialto/src/price-guard.ts\<close>: the independent acquisition-price guard over two USD
  feeds. A thrown \<open>PriceGuardError\<close> is its code. Decimals are JavaScript numbers; the model takes
  integers, so the \<open>Number.isInteger\<close> test of \<open>pow10\<close> is met by construction.
\<close>

section \<open>The code\<close>

datatype PriceGuardErrorCode =
    PRICE_POLICY_MISSING | PRICE_FEED_MISSING | SEMANTICS_MISMATCH | RAW_UNDERLYING_NOT_APPROVED
  | NON_POSITIVE_ANSWER | STALE_ANSWER | INCOMPLETE_ROUND | BAD_DECIMALS | ORACLE_PAUSED
  | MULTIPLIER_MISSING | MULTIPLIER_TRANSITION | ASSET_BINDING_MISMATCH | FEED_IDENTITY_MISMATCH
  | FEED_BINDING_MISSING | ZERO_ROUND | AMOUNT_OUT_OF_DOMAIN | SEQUENCER_POLICY_MISSING
  | SEQUENCER_DOWN | SEQUENCER_GRACE_PERIOD | SEQUENCER_BAD_ROUND | TX_CAP_EXCEEDED
  | DEVIATION_EXCEEDED | UNSAFE_NUMBER

datatype PriceSemantics = PER_TOKEN_CHAINLINK | RAW_UNDERLYING

record UsdPriceObservation =
  po_semantics :: PriceSemantics
  po_feedIdentity :: string
  po_asset :: string
  po_answer :: int
  po_decimals :: int
  po_roundId :: int
  po_updatedAtSec :: int
  po_roundComplete :: bool
  po_observedAtBlock :: int

record StockTokenState =
  st_multiplierE18 :: int
  st_transitionPending :: bool
  st_oraclePaused :: bool

record SequencerObservation =
  sq_feedIdentity :: string
  sq_answer :: int
  sq_startedAtSec :: int
  sq_updatedAtSec :: int

record PriceRiskPolicy =
  pp_maxStalenessSec :: int
  pp_maxDeviationBps :: int
  pp_maxTxInputRaw :: int
  pp_sequencerFeedIdentity :: string
  pp_sequencerGraceSec :: int
  pp_inputFeedIdentity :: string
  pp_outputFeedIdentity :: string
  pp_outputSemantics :: PriceSemantics
  pp_allowRawUnderlyingForEvidence :: bool

record AcquisitionPriceInput =
  ai_sellToken :: string
  ai_sellAmountRaw :: int
  ai_sellDecimals :: int
  ai_buyToken :: string
  ai_minBuyAmountRaw :: int
  ai_buyDecimals :: int
  ai_nowSec :: int

record FeedJustification =
  fj_answer :: string
  fj_decimals :: int
  fj_updatedAtSec :: string
  fj_block :: string

record PriceGuardResult =
  pg_expectedBuyAmountRaw :: int
  pg_minAllowedBuyAmountRaw :: int
  pg_deviationBpsObserved :: int
  pg_inputFeed :: FeedJustification
  pg_outputFeed :: FeedJustification
  pg_outputSemantics :: PriceSemantics
  pg_multiplierE18 :: string
  pg_multiplierApplied :: bool

definition BPS :: int where "BPS = 10000"
definition E18 :: int where "E18 = 10 ^ 18"
definition MAX_UINT256 :: int where "MAX_UINT256 = 2 ^ 256 - 1"

definition pow10 :: "int \<Rightarrow> PriceGuardErrorCode + int" where
  "pow10 n = (if n < 0 \<or> n > 77 then Inl BAD_DECIMALS else Inr (10 ^ nat n))"

definition checkFeed ::
  "UsdPriceObservation option \<Rightarrow> string \<Rightarrow> string \<Rightarrow> PriceSemantics \<Rightarrow> int \<Rightarrow> int
    \<Rightarrow> PriceGuardErrorCode + UsdPriceObservation" where
  "checkFeed observation expectedAsset expectedIdentity expectedSemantics nowSec maxStalenessSec =
     (case observation of
        None \<Rightarrow> Inl PRICE_FEED_MISSING
      | Some feed \<Rightarrow>
          if expectedIdentity = [] then Inl FEED_BINDING_MISSING
          else if po_feedIdentity feed \<noteq> expectedIdentity then Inl FEED_IDENTITY_MISMATCH
          else if po_semantics feed \<noteq> expectedSemantics then Inl SEMANTICS_MISMATCH
          else if lower (po_asset feed) \<noteq> lower expectedAsset then Inl ASSET_BINDING_MISMATCH
          else if po_answer feed \<le> 0 then Inl NON_POSITIVE_ANSWER
          else if po_answer feed > MAX_UINT256 then Inl AMOUNT_OUT_OF_DOMAIN
          else if po_roundId feed \<le> 0 then Inl ZERO_ROUND
          else if \<not> po_roundComplete feed then Inl INCOMPLETE_ROUND
          else if po_updatedAtSec feed \<le> 0 then Inl INCOMPLETE_ROUND
          else if nowSec < po_updatedAtSec feed then Inl UNSAFE_NUMBER
          else if nowSec - po_updatedAtSec feed > maxStalenessSec then Inl STALE_ANSWER
          else Inr feed)"

definition checkSequencer ::
  "SequencerObservation option \<Rightarrow> PriceRiskPolicy \<Rightarrow> int \<Rightarrow> PriceGuardErrorCode + unit" where
  "checkSequencer observation policy nowSec =
     (if pp_sequencerFeedIdentity policy = [] \<or> pp_sequencerGraceSec policy < 0
      then Inl SEQUENCER_POLICY_MISSING
      else case observation of
        None \<Rightarrow> Inl SEQUENCER_POLICY_MISSING
      | Some seq \<Rightarrow>
          if lower (sq_feedIdentity seq) \<noteq> lower (pp_sequencerFeedIdentity policy)
          then Inl SEQUENCER_POLICY_MISSING
          else if sq_startedAtSec seq \<le> 0 \<or> sq_updatedAtSec seq \<le> 0 \<or> nowSec < sq_startedAtSec seq
          then Inl SEQUENCER_BAD_ROUND
          else if sq_answer seq \<noteq> 0 then Inl SEQUENCER_DOWN
          else if nowSec - sq_startedAtSec seq < pp_sequencerGraceSec policy
          then Inl SEQUENCER_GRACE_PERIOD
          else Inr ())"

definition checkTokenAndAmounts ::
  "AcquisitionPriceInput \<Rightarrow> StockTokenState option \<Rightarrow> PriceRiskPolicy
    \<Rightarrow> PriceGuardErrorCode + StockTokenState" where
  "checkTokenAndAmounts io tokenState policy =
     (case tokenState of
        None \<Rightarrow> Inl MULTIPLIER_MISSING
      | Some ts \<Rightarrow>
          if st_oraclePaused ts then Inl ORACLE_PAUSED
          else if st_transitionPending ts then Inl MULTIPLIER_TRANSITION
          else if st_multiplierE18 ts \<le> 0 then Inl MULTIPLIER_MISSING
          else if ai_sellAmountRaw io \<le> 0 \<or> ai_minBuyAmountRaw io \<le> 0 then Inl UNSAFE_NUMBER
          else if ai_sellAmountRaw io > MAX_UINT256 \<or> ai_minBuyAmountRaw io > MAX_UINT256
          then Inl AMOUNT_OUT_OF_DOMAIN
          else if ai_sellAmountRaw io > pp_maxTxInputRaw policy then Inl TX_CAP_EXCEEDED
          else Inr ts)"

definition perTokenPrice ::
  "UsdPriceObservation \<Rightarrow> StockTokenState \<Rightarrow> PriceRiskPolicy
    \<Rightarrow> PriceGuardErrorCode + (int \<times> int \<times> bool)" where
  "perTokenPrice outF tokenState policy =
     (if po_semantics outF = PER_TOKEN_CHAINLINK then Inr (po_answer outF, 1, False)
      else if \<not> pp_allowRawUnderlyingForEvidence policy then Inl RAW_UNDERLYING_NOT_APPROVED
      else Inr (po_answer outF * st_multiplierE18 tokenState, E18, True))"

definition expectedOut ::
  "AcquisitionPriceInput \<Rightarrow> UsdPriceObservation \<Rightarrow> UsdPriceObservation \<Rightarrow> int \<Rightarrow> int
    \<Rightarrow> PriceGuardErrorCode + int" where
  "expectedOut io inF outF perTokenNum perTokenDen =
     rbind (pow10 (po_decimals outF)) (\<lambda>outFeed.
     rbind (pow10 (ai_buyDecimals io)) (\<lambda>outDec.
     rbind (pow10 (ai_sellDecimals io)) (\<lambda>sellDec.
     rbind (pow10 (po_decimals inF)) (\<lambda>inFeed.
     let numerator = ai_sellAmountRaw io * po_answer inF * outFeed * outDec * perTokenDen;
         denominator = sellDec * inFeed * perTokenNum
     in Inr (bigint_div numerator denominator)))))"

definition justify :: "UsdPriceObservation \<Rightarrow> FeedJustification" where
  "justify f = \<lparr>fj_answer = dec_of_int (po_answer f), fj_decimals = po_decimals f,
     fj_updatedAtSec = dec_of_int (po_updatedAtSec f), fj_block = dec_of_int (po_observedAtBlock f)\<rparr>"

definition validateAcquisitionPrice ::
  "AcquisitionPriceInput \<Rightarrow> UsdPriceObservation option \<Rightarrow> UsdPriceObservation option
    \<Rightarrow> StockTokenState option \<Rightarrow> SequencerObservation option \<Rightarrow> PriceRiskPolicy option
    \<Rightarrow> PriceGuardErrorCode + PriceGuardResult" where
  "validateAcquisitionPrice io inputFeed outputFeed tokenState sequencer policy0 =
     (case policy0 of
        None \<Rightarrow> Inl PRICE_POLICY_MISSING
      | Some policy \<Rightarrow>
     rbind (checkSequencer sequencer policy (ai_nowSec io)) (\<lambda>_.
     rbind (checkFeed inputFeed (ai_sellToken io) (pp_inputFeedIdentity policy) PER_TOKEN_CHAINLINK
              (ai_nowSec io) (pp_maxStalenessSec policy)) (\<lambda>inF.
     rbind (checkFeed outputFeed (ai_buyToken io) (pp_outputFeedIdentity policy)
              (pp_outputSemantics policy) (ai_nowSec io) (pp_maxStalenessSec policy)) (\<lambda>outF.
     rbind (checkTokenAndAmounts io tokenState policy) (\<lambda>ts.
     rbind (perTokenPrice outF ts policy) (\<lambda>(perTokenNum, perTokenDen, multiplierApplied).
     rbind (expectedOut io inF outF perTokenNum perTokenDen) (\<lambda>expected.
     if expected \<le> 0 then Inl DEVIATION_EXCEEDED
     else
       let minAllowed = bigint_div (expected * (BPS - pp_maxDeviationBps policy)) BPS in
       if ai_minBuyAmountRaw io < minAllowed then Inl DEVIATION_EXCEEDED
       else Inr
         \<lparr>pg_expectedBuyAmountRaw = expected, pg_minAllowedBuyAmountRaw = minAllowed,
          pg_deviationBpsObserved =
            (if ai_minBuyAmountRaw io \<ge> expected then 0
             else bigint_div ((expected - ai_minBuyAmountRaw io) * BPS) expected),
          pg_inputFeed = justify inF, pg_outputFeed = justify outF,
          pg_outputSemantics = po_semantics outF,
          pg_multiplierE18 = dec_of_int (st_multiplierE18 ts),
          pg_multiplierApplied = multiplierApplied\<rparr>)))))))"

section \<open>What an accepted price means\<close>

definition fresh :: "UsdPriceObservation \<Rightarrow> string \<Rightarrow> string \<Rightarrow> PriceSemantics \<Rightarrow> int \<Rightarrow> int \<Rightarrow> bool" where
  "fresh f asset identity sem now maxAge \<longleftrightarrow>
     identity \<noteq> [] \<and> po_feedIdentity f = identity \<and> po_semantics f = sem \<and>
     lower (po_asset f) = lower asset \<and> 0 < po_answer f \<and> po_answer f \<le> MAX_UINT256 \<and>
     0 < po_roundId f \<and> po_roundComplete f \<and> 0 < po_updatedAtSec f \<and>
     po_updatedAtSec f \<le> now \<and> now \<le> po_updatedAtSec f + maxAge"

lemma checkFeed_eq_Inr:
  "checkFeed ob asset identity sem now maxAge = Inr f \<longleftrightarrow>
   ob = Some f \<and> fresh f asset identity sem now maxAge"
  by (auto simp: checkFeed_def fresh_def split: option.splits)

definition sequencer_up :: "SequencerObservation \<Rightarrow> PriceRiskPolicy \<Rightarrow> int \<Rightarrow> bool" where
  "sequencer_up s policy now \<longleftrightarrow>
     pp_sequencerFeedIdentity policy \<noteq> [] \<and> 0 \<le> pp_sequencerGraceSec policy \<and>
     lower (sq_feedIdentity s) = lower (pp_sequencerFeedIdentity policy) \<and>
     0 < sq_startedAtSec s \<and> 0 < sq_updatedAtSec s \<and> sq_answer s = 0 \<and>
     sq_startedAtSec s + pp_sequencerGraceSec policy \<le> now"

lemma checkSequencer_eq_Inr:
  "checkSequencer ob policy now = Inr u \<longleftrightarrow> (\<exists>s. ob = Some s \<and> sequencer_up s policy now)"
  by (auto simp: checkSequencer_def sequencer_up_def split: option.splits)

definition usable :: "StockTokenState \<Rightarrow> AcquisitionPriceInput \<Rightarrow> PriceRiskPolicy \<Rightarrow> bool" where
  "usable ts io policy \<longleftrightarrow>
     \<not> st_oraclePaused ts \<and> \<not> st_transitionPending ts \<and> 0 < st_multiplierE18 ts \<and>
     0 < ai_sellAmountRaw io \<and> ai_sellAmountRaw io \<le> MAX_UINT256 \<and>
     ai_sellAmountRaw io \<le> pp_maxTxInputRaw policy \<and>
     0 < ai_minBuyAmountRaw io \<and> ai_minBuyAmountRaw io \<le> MAX_UINT256"

lemma checkTokenAndAmounts_eq_Inr:
  "checkTokenAndAmounts io ob policy = Inr ts \<longleftrightarrow> ob = Some ts \<and> usable ts io policy"
  by (auto simp: checkTokenAndAmounts_def usable_def split: option.splits)

definition decimals_ok :: "AcquisitionPriceInput \<Rightarrow> UsdPriceObservation \<Rightarrow> UsdPriceObservation \<Rightarrow> bool" where
  "decimals_ok io inF outF \<longleftrightarrow>
     (\<forall>d\<in>{po_decimals outF, ai_buyDecimals io, ai_sellDecimals io, po_decimals inF}. 0 \<le> d \<and> d \<le> 77)"

lemma pow10_eq_Inr: "pow10 n = Inr p \<longleftrightarrow> 0 \<le> n \<and> n \<le> 77 \<and> p = 10 ^ nat n"
  by (auto simp: pow10_def)

text \<open>The exact value the guard compares against, with the multiplier applied at most once.\<close>

definition expected_value ::
  "AcquisitionPriceInput \<Rightarrow> UsdPriceObservation \<Rightarrow> UsdPriceObservation \<Rightarrow> StockTokenState \<Rightarrow> int" where
  "expected_value io inF outF ts =
     (let num = ai_sellAmountRaw io * po_answer inF * 10 ^ nat (po_decimals outF) * 10 ^ nat (ai_buyDecimals io);
          den = 10 ^ nat (ai_sellDecimals io) * 10 ^ nat (po_decimals inF)
      in case po_semantics outF of
           PER_TOKEN_CHAINLINK \<Rightarrow> num div (den * po_answer outF)
         | RAW_UNDERLYING \<Rightarrow> num * 10 ^ 18 div (den * (po_answer outF * st_multiplierE18 ts)))"

lemma expectedOut_eq_Inr:
  assumes "0 \<le> ai_sellAmountRaw io" "0 \<le> po_answer inF" "0 \<le> n" "0 \<le> d"
  shows "expectedOut io inF outF n d = Inr e \<longleftrightarrow>
    decimals_ok io inF outF \<and>
    e = ai_sellAmountRaw io * po_answer inF * 10 ^ nat (po_decimals outF) * 10 ^ nat (ai_buyDecimals io) * d
        div (10 ^ nat (ai_sellDecimals io) * 10 ^ nat (po_decimals inF) * n)"
  using assms by (auto simp: expectedOut_def rbind_eq_Inr pow10_eq_Inr decimals_ok_def Let_def)

lemma perTokenPrice_eq_Inr:
  "perTokenPrice outF ts policy = Inr p \<longleftrightarrow>
   (case po_semantics outF of
      PER_TOKEN_CHAINLINK \<Rightarrow> p = (po_answer outF, 1, False)
    | RAW_UNDERLYING \<Rightarrow> pp_allowRawUnderlyingForEvidence policy \<and>
        p = (po_answer outF * st_multiplierE18 ts, E18, True))"
  by (auto simp: perTokenPrice_def split: PriceSemantics.splits)

text \<open>
  C22: the guard accepts exactly when the policy exists, the sequencer is up past its grace
  period, both feeds are the pinned, fresh, positive observations of the right assets, the token
  state is usable, the amounts are in their domain and below the cap, and the minimum output is
  at least the tolerated share of the exact expected output; raw-underlying prices pass only when
  the policy allows them, and then the multiplier enters exactly once.
\<close>

theorem validateAcquisitionPrice_accepts:
  assumes "0 \<le> pp_maxDeviationBps policy" and "pp_maxDeviationBps policy \<le> 10000"
  shows "is_ok (validateAcquisitionPrice io fi fo ts0 sq0 (Some policy)) \<longleftrightarrow>
    (\<exists>inF outF ts sq. fi = Some inF \<and> fo = Some outF \<and> ts0 = Some ts \<and> sq0 = Some sq \<and>
       sequencer_up sq policy (ai_nowSec io) \<and>
       fresh inF (ai_sellToken io) (pp_inputFeedIdentity policy) PER_TOKEN_CHAINLINK (ai_nowSec io)
         (pp_maxStalenessSec policy) \<and>
       fresh outF (ai_buyToken io) (pp_outputFeedIdentity policy) (pp_outputSemantics policy)
         (ai_nowSec io) (pp_maxStalenessSec policy) \<and>
       usable ts io policy \<and> decimals_ok io inF outF \<and>
       (po_semantics outF = RAW_UNDERLYING \<longrightarrow> pp_allowRawUnderlyingForEvidence policy) \<and>
       0 < expected_value io inF outF ts \<and>
       expected_value io inF outF ts * (10000 - pp_maxDeviationBps policy) div 10000
         \<le> ai_minBuyAmountRaw io)"
proof -
  let ?ok = "\<lambda>inF outF ts e. decimals_ok io inF outF \<and> e = expected_value io inF outF ts \<and>
      (po_semantics outF = RAW_UNDERLYING \<longrightarrow> pp_allowRawUnderlyingForEvidence policy)"
  have pv: "(\<exists>p. perTokenPrice outF ts policy = Inr p \<and>
        expectedOut io inF outF (fst p) (fst (snd p)) = Inr e) \<longleftrightarrow> ?ok inF outF ts e"
    if "usable ts io policy" "0 < po_answer inF" "0 < po_answer outF" for inF outF ts e
    using that
    by (cases "po_semantics outF")
      (auto simp: perTokenPrice_eq_Inr expectedOut_eq_Inr usable_def expected_value_def E18_def Let_def
        mult.assoc)
  have "is_ok (validateAcquisitionPrice io fi fo ts0 sq0 (Some policy)) \<longleftrightarrow>
    (\<exists>inF outF ts e. checkSequencer sq0 policy (ai_nowSec io) = Inr () \<and>
       checkFeed fi (ai_sellToken io) (pp_inputFeedIdentity policy) PER_TOKEN_CHAINLINK
         (ai_nowSec io) (pp_maxStalenessSec policy) = Inr inF \<and>
       checkFeed fo (ai_buyToken io) (pp_outputFeedIdentity policy) (pp_outputSemantics policy)
         (ai_nowSec io) (pp_maxStalenessSec policy) = Inr outF \<and>
       checkTokenAndAmounts io ts0 policy = Inr ts \<and>
       (\<exists>p. perTokenPrice outF ts policy = Inr p \<and>
          expectedOut io inF outF (fst p) (fst (snd p)) = Inr e) \<and>
       0 < e \<and> bigint_div (e * (BPS - pp_maxDeviationBps policy)) BPS \<le> ai_minBuyAmountRaw io)"
    by (auto simp: validateAcquisitionPrice_def is_ok_rbind Let_def not_le not_less)
  also have "\<dots> \<longleftrightarrow> (\<exists>inF outF ts sq e. fi = Some inF \<and> fo = Some outF \<and> ts0 = Some ts \<and> sq0 = Some sq \<and>
       sequencer_up sq policy (ai_nowSec io) \<and>
       fresh inF (ai_sellToken io) (pp_inputFeedIdentity policy) PER_TOKEN_CHAINLINK (ai_nowSec io)
         (pp_maxStalenessSec policy) \<and>
       fresh outF (ai_buyToken io) (pp_outputFeedIdentity policy) (pp_outputSemantics policy)
         (ai_nowSec io) (pp_maxStalenessSec policy) \<and>
       usable ts io policy \<and> ?ok inF outF ts e \<and> 0 < e \<and>
       e * (10000 - pp_maxDeviationBps policy) div 10000 \<le> ai_minBuyAmountRaw io)"
    unfolding checkFeed_eq_Inr checkSequencer_eq_Inr checkTokenAndAmounts_eq_Inr
    using pv assms by (auto simp: BPS_def fresh_def cong: conj_cong)
  finally show ?thesis by auto
qed

definition ex_price_policy :: PriceRiskPolicy where
  "ex_price_policy = \<lparr>pp_maxStalenessSec = 100, pp_maxDeviationBps = 100, pp_maxTxInputRaw = 10 ^ 20,
     pp_sequencerFeedIdentity = ''seq'', pp_sequencerGraceSec = 60, pp_inputFeedIdentity = ''eth'',
     pp_outputFeedIdentity = ''aapl'', pp_outputSemantics = RAW_UNDERLYING,
     pp_allowRawUnderlyingForEvidence = True\<rparr>"

definition ex_price_io :: AcquisitionPriceInput where
  "ex_price_io = \<lparr>ai_sellToken = ''0xA'', ai_sellAmountRaw = 1000, ai_sellDecimals = 2,
     ai_buyToken = ''0xB'', ai_minBuyAmountRaw = 99, ai_buyDecimals = 2, ai_nowSec = 1000\<rparr>"

definition ex_price_feed :: "string \<Rightarrow> string \<Rightarrow> PriceSemantics \<Rightarrow> int \<Rightarrow> UsdPriceObservation" where
  "ex_price_feed identity asset sem answer = \<lparr>po_semantics = sem, po_feedIdentity = identity,
     po_asset = asset, po_answer = answer, po_decimals = 0, po_roundId = 1, po_updatedAtSec = 950,
     po_roundComplete = True, po_observedAtBlock = 7\<rparr>"

definition ex_token_state :: StockTokenState where
  "ex_token_state = \<lparr>st_multiplierE18 = 2 * 10 ^ 18, st_transitionPending = False, st_oraclePaused = False\<rparr>"

definition ex_sequencer :: SequencerObservation where
  "ex_sequencer = \<lparr>sq_feedIdentity = ''SEQ'', sq_answer = 0, sq_startedAtSec = 900, sq_updatedAtSec = 900\<rparr>"

lemma lower_ex [simp]: "lower ''SEQ'' = ''seq''" "lower ''seq'' = ''seq''"
  by code_simp+

lemma ex_price_conditions:
  "sequencer_up ex_sequencer ex_price_policy 1000"
  "fresh (ex_price_feed ''eth'' ''0xA'' PER_TOKEN_CHAINLINK 2) ''0xA'' ''eth'' PER_TOKEN_CHAINLINK 1000 100"
  "fresh (ex_price_feed ''aapl'' ''0xB'' RAW_UNDERLYING 10) ''0xB'' ''aapl'' RAW_UNDERLYING 1000 100"
  "usable ex_token_state ex_price_io ex_price_policy"
  "decimals_ok ex_price_io (ex_price_feed ''eth'' ''0xA'' PER_TOKEN_CHAINLINK 2)
     (ex_price_feed ''aapl'' ''0xB'' RAW_UNDERLYING 10)"
  "expected_value ex_price_io (ex_price_feed ''eth'' ''0xA'' PER_TOKEN_CHAINLINK 2)
     (ex_price_feed ''aapl'' ''0xB'' RAW_UNDERLYING 10) ex_token_state = 100"
  by (simp_all add: sequencer_up_def ex_sequencer_def ex_price_policy_def fresh_def ex_price_feed_def
      usable_def ex_token_state_def ex_price_io_def decimals_ok_def MAX_UINT256_def expected_value_def)

theorem validateAcquisitionPrice_accepts_witness:
  "is_ok (validateAcquisitionPrice ex_price_io (Some (ex_price_feed ''eth'' ''0xA'' PER_TOKEN_CHAINLINK 2))
     (Some (ex_price_feed ''aapl'' ''0xB'' RAW_UNDERLYING 10)) (Some ex_token_state) (Some ex_sequencer)
     (Some ex_price_policy))"
proof -
  have io: "ai_nowSec ex_price_io = 1000" "ai_sellToken ex_price_io = ''0xA''"
    "ai_buyToken ex_price_io = ''0xB''" "ai_minBuyAmountRaw ex_price_io = 99"
    by (simp_all add: ex_price_io_def)
  have pol: "pp_inputFeedIdentity ex_price_policy = ''eth''" "pp_outputFeedIdentity ex_price_policy = ''aapl''"
    "pp_outputSemantics ex_price_policy = RAW_UNDERLYING" "pp_maxStalenessSec ex_price_policy = 100"
    "pp_maxDeviationBps ex_price_policy = 100" "pp_allowRawUnderlyingForEvidence ex_price_policy"
    by (simp_all add: ex_price_policy_def)
  show ?thesis
    using validateAcquisitionPrice_accepts [of ex_price_policy ex_price_io] ex_price_conditions
    by (simp add: io pol)
qed

text \<open>
  The result of an accepted price carries the exact floor of the expected output, the tolerated
  minimum the order respects, and an observed deviation that exceeds the policy's by less than
  the rounding of one output unit.
\<close>

theorem validateAcquisitionPrice_result:
  assumes "validateAcquisitionPrice io (Some inF) (Some outF) (Some ts) sq (Some policy) = Inr r"
    and "0 \<le> pp_maxDeviationBps policy" and "pp_maxDeviationBps policy \<le> 10000"
  shows "pg_expectedBuyAmountRaw r = expected_value io inF outF ts \<and> 0 < pg_expectedBuyAmountRaw r \<and>
    pg_minAllowedBuyAmountRaw r \<le> ai_minBuyAmountRaw io \<and>
    pg_multiplierApplied r = (po_semantics outF = RAW_UNDERLYING) \<and>
    0 \<le> pg_deviationBpsObserved r \<and>
    pg_deviationBpsObserved r * pg_expectedBuyAmountRaw r
      < pp_maxDeviationBps policy * pg_expectedBuyAmountRaw r + 10000"
proof -
  let ?d = "pp_maxDeviationBps policy" and ?min = "ai_minBuyAmountRaw io"
  obtain p e where us: "usable ts io policy" and fr: "0 < po_answer inF" "0 < po_answer outF"
    and p: "perTokenPrice outF ts policy = Inr p"
    and e: "expectedOut io inF outF (fst p) (fst (snd p)) = Inr e" "0 < e"
    and min: "bigint_div (e * (BPS - ?d)) BPS \<le> ?min"
    and r: "pg_expectedBuyAmountRaw r = e" "pg_minAllowedBuyAmountRaw r = bigint_div (e * (BPS - ?d)) BPS"
      "pg_multiplierApplied r = snd (snd p)"
      "pg_deviationBpsObserved r = (if e \<le> ?min then 0 else bigint_div ((e - ?min) * BPS) e)"
    using assms(1)
    by (auto simp: validateAcquisitionPrice_def rbind_eq_Inr Let_def checkFeed_eq_Inr
        checkTokenAndAmounts_eq_Inr fresh_def not_le not_less)
  have val: "e = expected_value io inF outF ts" "snd (snd p) = (po_semantics outF = RAW_UNDERLYING)"
    using p e us fr
    by (cases "po_semantics outF"; auto simp: perTokenPrice_eq_Inr expectedOut_eq_Inr usable_def
        expected_value_def E18_def Let_def mult.assoc)+
  have m: "e * (10000 - ?d) div 10000 \<le> ?min" using min e(2) assms(2,3) by (simp add: BPS_def)
  have low: "e * (10000 - ?d) < (?min + 1) * 10000"
    using m pos_mod_bound [of 10000 "e * (10000 - ?d)"] div_mult_mod_eq [of "e * (10000 - ?d)" 10000]
    by (simp add: algebra_simps)
  have dev: "0 \<le> pg_deviationBpsObserved r \<and> pg_deviationBpsObserved r * e < ?d * e + 10000"
  proof (cases "e \<le> ?min")
    case True
    then show ?thesis using r(4) e(2) mult_nonneg_nonneg [OF assms(2), of e] by simp
  next
    case False
    then have "pg_deviationBpsObserved r = (e - ?min) * 10000 div e" using r(4) e(2) by (simp add: BPS_def)
    moreover have "(e - ?min) * 10000 div e * e \<le> (e - ?min) * 10000"
      using e(2) pos_mod_sign [of e "(e - ?min) * 10000"] div_mult_mod_eq [of "(e - ?min) * 10000" e]
      by linarith
    moreover have "(e - ?min) * 10000 < ?d * e + 10000" using low by (simp add: algebra_simps)
    moreover have "0 \<le> (e - ?min) * 10000 div e" using False e(2) by (simp add: pos_imp_zdiv_nonneg_iff)
    ultimately show ?thesis by simp
  qed
  show ?thesis using r val e(2) min dev by simp
qed

theorem validateAcquisitionPrice_result_witness:
  "\<exists>r. validateAcquisitionPrice ex_price_io (Some (ex_price_feed ''eth'' ''0xA'' PER_TOKEN_CHAINLINK 2))
     (Some (ex_price_feed ''aapl'' ''0xB'' RAW_UNDERLYING 10)) (Some ex_token_state) (Some ex_sequencer)
     (Some ex_price_policy) = Inr r \<and> pg_multiplierApplied r \<and> 0 < pg_expectedBuyAmountRaw r"
proof -
  have "is_ok (validateAcquisitionPrice ex_price_io (Some (ex_price_feed ''eth'' ''0xA'' PER_TOKEN_CHAINLINK 2))
     (Some (ex_price_feed ''aapl'' ''0xB'' RAW_UNDERLYING 10)) (Some ex_token_state) (Some ex_sequencer)
     (Some ex_price_policy))"
    by code_simp
  then obtain r where r: "validateAcquisitionPrice ex_price_io
     (Some (ex_price_feed ''eth'' ''0xA'' PER_TOKEN_CHAINLINK 2))
     (Some (ex_price_feed ''aapl'' ''0xB'' RAW_UNDERLYING 10)) (Some ex_token_state) (Some ex_sequencer)
     (Some ex_price_policy) = Inr r" by (auto simp: is_ok_iff)
  have "0 \<le> pp_maxDeviationBps ex_price_policy" "pp_maxDeviationBps ex_price_policy \<le> 10000"
    by (simp_all add: ex_price_policy_def)
  from validateAcquisitionPrice_result [OF r this] r show ?thesis by (auto simp: ex_price_feed_def)
qed

end
