(* ===== verification/Registry.thy ===== *)
theory Registry
  imports PodModel
begin

text \<open>
  \<open>packages/rialto/src/registry-structural.ts\<close> and \<open>boundary-status.ts\<close>: the offline
  reconciliation of a quote target with a registry observation, the replay verdict that keeps
  router and selector apart, and the status a consumer may read. A field that may be missing
  (\<open>undefined\<close>) is an option; the notes are texts and not modelled.
\<close>

section \<open>Registry reconciliation\<close>

record RegistryFeatureObservation =
  ro_registry :: "string option"
  ro_feature :: "int option"
  ro_currentRouter :: "string option"
  ro_previousRouter :: "string option"
  ro_nextRouter :: "string option"
  ro_paused :: "bool option"
  ro_blockNumber :: "int option"
  ro_observationTimeUtc :: "string option"

datatype RegistryReconcileCode =
    OK | MISSING_REGISTRY_FIELD | MALFORMED_ADDRESS | ZERO_CURRENT_ROUTER | FEATURE_PAUSED
  | TARGET_ROUTER_MISMATCH

record RegistryReconciliation =
  rg_code :: RegistryReconcileCode
  rg_routerReconciled :: bool
  rg_matchedCurrent :: bool
  rg_matchedPreviousOnly :: bool
  rg_matchedNextOnly :: bool
  rg_snapshotDated :: bool

definition snapshotDated :: "RegistryFeatureObservation \<Rightarrow> bool" where
  "snapshotDated obs \<longleftrightarrow> ro_blockNumber obs \<noteq> None \<or> ro_observationTimeUtc obs \<noteq> None"

definition failRegistry ::
  "RegistryFeatureObservation option \<Rightarrow> RegistryReconcileCode \<Rightarrow> bool \<Rightarrow> bool \<Rightarrow> RegistryReconciliation" where
  "failRegistry obs code prevOnly nextOnly =
     \<lparr>rg_code = code, rg_routerReconciled = False, rg_matchedCurrent = False,
      rg_matchedPreviousOnly = prevOnly, rg_matchedNextOnly = nextOnly,
      rg_snapshotDated = (case obs of None \<Rightarrow> False | Some ob \<Rightarrow> snapshotDated ob)\<rparr>"

definition missingField :: "RegistryFeatureObservation \<Rightarrow> bool" where
  "missingField obs \<longleftrightarrow>
     ro_registry obs = None \<or> ro_feature obs = None \<or> ro_currentRouter obs = None \<or>
     ro_previousRouter obs = None \<or> ro_nextRouter obs = None \<or> ro_paused obs = None"

definition reconcileRegistryTarget ::
  "string option \<Rightarrow> RegistryFeatureObservation option \<Rightarrow> RegistryReconciliation" where
  "reconcileRegistryTarget target obs0 =
     (case obs0 of
        None \<Rightarrow> failRegistry None MISSING_REGISTRY_FIELD False False
      | Some obs \<Rightarrow>
          if missingField obs then failRegistry obs0 MISSING_REGISTRY_FIELD False False
          else if target = None \<or>
                  \<not> list_all (\<lambda>a. isHexAddress (the a))
                      [target, ro_registry obs, ro_currentRouter obs, ro_previousRouter obs, ro_nextRouter obs]
          then failRegistry obs0 MALFORMED_ADDRESS False False
          else if lower (the (ro_currentRouter obs)) = ZERO_ADDRESS
          then failRegistry obs0 ZERO_CURRENT_ROUTER False False
          else if ro_paused obs = Some True then failRegistry obs0 FEATURE_PAUSED False False
          else
            let t = lower (the target); cur = lower (the (ro_currentRouter obs));
                prev = lower (the (ro_previousRouter obs)); next = lower (the (ro_nextRouter obs))
            in if t \<noteq> cur
               then failRegistry obs0 TARGET_ROUTER_MISMATCH
                      (t = prev \<and> prev \<noteq> ZERO_ADDRESS) (t = next \<and> next \<noteq> ZERO_ADDRESS)
               else \<lparr>rg_code = OK, rg_routerReconciled = True, rg_matchedCurrent = True,
                     rg_matchedPreviousOnly = False, rg_matchedNextOnly = False,
                     rg_snapshotDated = snapshotDated obs\<rparr>)"

datatype DerivedStructuralStatus =
    SELECTOR_UNAPPROVED | STRUCTURALLY_APPROVED | ROUTER_UNRECONCILED | MALFORMED_SELECTOR | WRONG_CHAIN

record DerivedReplayInput =
  di_chainId :: int
  di_target :: string
  di_selector :: string
  di_registry :: "RegistryFeatureObservation option"
  di_approvedSelectors :: "string list"
  di_selectorAbi :: "(string \<times> string) list option"

record DerivedReplayResult =
  dr_derivedStatus :: DerivedStructuralStatus
  dr_routerReconciled :: bool
  dr_registryPaused :: bool
  dr_snapshotDated :: bool
  dr_selector :: string
  dr_selectorApproved :: bool
  dr_selectorFunctionName :: "string option"
  dr_productionStructuralApproved :: bool
  dr_registryReconciliation :: RegistryReconciliation
  dr_d6 :: string

definition resolveSelectorName :: "string \<Rightarrow> (string \<times> string) list option \<Rightarrow> string option" where
  "resolveSelectorName selector abi =
     (case abi of
        None \<Rightarrow> None
      | Some m \<Rightarrow>
          (case (case map_of m (lower selector) of None \<Rightarrow> map_of m selector | Some h \<Rightarrow> Some h) of
             None \<Rightarrow> None
           | Some hit \<Rightarrow> if length hit > 0 then Some hit else None))"

definition isSelector :: "string \<Rightarrow> bool" where "isSelector v = hex_string 8 v"

definition deriveStructuralReplay :: "DerivedReplayInput \<Rightarrow> DerivedReplayResult" where
  "deriveStructuralReplay input =
     (let rec = reconcileRegistryTarget (Some (di_target input)) (di_registry input);
          result = (\<lambda>status approved production.
            \<lparr>dr_derivedStatus = status, dr_routerReconciled = rg_routerReconciled rec,
             dr_registryPaused = (case di_registry input of None \<Rightarrow> False
                                  | Some ob \<Rightarrow> ro_paused ob = Some True),
             dr_snapshotDated = rg_snapshotDated rec, dr_selector = di_selector input,
             dr_selectorApproved = approved,
             dr_selectorFunctionName = resolveSelectorName (di_selector input) (di_selectorAbi input),
             dr_productionStructuralApproved = production,
             dr_registryReconciliation = rec, dr_d6 = ''OPEN''\<rparr>)
      in if di_chainId input \<noteq> 4663 then result WRONG_CHAIN False False
         else if \<not> isSelector (di_selector input) then result MALFORMED_SELECTOR False False
         else if \<not> rg_routerReconciled rec then result ROUTER_UNRECONCILED False False
         else
           let approved = lower (di_selector input) \<in> set (map lower (di_approvedSelectors input))
           in result (if approved then STRUCTURALLY_APPROVED else SELECTOR_UNAPPROVED) approved
                (rg_routerReconciled rec \<and> approved))"

section \<open>Boundary status\<close>

datatype RialtoBoundaryStatus =
    QUOTE_NOT_OBSERVED | QUOTE_OBSERVED | QUOTE_STRUCTURALLY_VALID | PRICE_GUARD_PASSED
  | SETTLEMENT_NOT_EXECUTED | SETTLEMENT_EXECUTED_LOCAL_FORK_ONLY | MAINNET_SETTLEMENT_CONFIRMED

record SettlementReceiptProof =
  sr_txHash :: string
  sr_blockNumber :: int
  sr_blockHash :: string
  sr_acquisitionId :: int
  sr_stockReceivedRaw :: int

record BoundaryObservation =
  bo_quoteObserved :: bool
  bo_structuralValidationPassed :: bool
  bo_priceGuardPassed :: bool
  bo_localForkSettlementPassed :: bool
  bo_mainnetReceipt :: "SettlementReceiptProof option"

definition validReceipt :: "SettlementReceiptProof \<Rightarrow> bool" where
  "validReceipt p \<longleftrightarrow>
     hex_string 64 (sr_txHash p) \<and> hex_string 64 (sr_blockHash p) \<and> sr_blockNumber p > 0 \<and>
     sr_acquisitionId p > 0 \<and> sr_stockReceivedRaw p > 0"

text \<open>The three texts of a view are constants; the model names them.\<close>

datatype LegalEligibility = UNRESOLVED_NOT_ESTABLISHED_BY_THIS_BOUNDARY

datatype BoundaryNote =
    NOTE_NOT_EXECUTED | NOTE_LOCAL_FORK_ONLY | NOTE_MAINNET_PROOF_BY_CALLER | NOTE_MALFORMED_PROOF_IGNORED

record BoundaryStatusView =
  bv_status :: RialtoBoundaryStatus
  bv_legalEligibility :: LegalEligibility
  bv_note :: BoundaryNote

definition classifyBoundary :: "BoundaryObservation \<Rightarrow> BoundaryStatusView" where
  "classifyBoundary obs =
     (let status0 = QUOTE_NOT_OBSERVED;
          status1 = (if bo_quoteObserved obs then QUOTE_OBSERVED else status0);
          status2 = (if bo_quoteObserved obs \<and> bo_structuralValidationPassed obs
                     then QUOTE_STRUCTURALLY_VALID else status1);
          status3 = (if bo_quoteObserved obs \<and> bo_structuralValidationPassed obs \<and> bo_priceGuardPassed obs
                     then PRICE_GUARD_PASSED else status2);
          status4 = (if status3 = PRICE_GUARD_PASSED \<or> status3 = QUOTE_STRUCTURALLY_VALID
                     then (if bo_localForkSettlementPassed obs then SETTLEMENT_EXECUTED_LOCAL_FORK_ONLY
                           else status3)
                     else status3);
          view = (\<lambda>status.
            let notExecuted = status \<noteq> SETTLEMENT_EXECUTED_LOCAL_FORK_ONLY \<and>
                              status \<noteq> MAINNET_SETTLEMENT_CONFIRMED
            in \<lparr>bv_status = status, bv_legalEligibility = UNRESOLVED_NOT_ESTABLISHED_BY_THIS_BOUNDARY,
                bv_note = (if notExecuted then NOTE_NOT_EXECUTED
                           else if status = SETTLEMENT_EXECUTED_LOCAL_FORK_ONLY then NOTE_LOCAL_FORK_ONLY
                           else NOTE_MAINNET_PROOF_BY_CALLER)\<rparr>)
      in case bo_mainnetReceipt obs of
           None \<Rightarrow> view status4
         | Some p \<Rightarrow>
             if \<not> validReceipt p
             then \<lparr>bv_status = status4, bv_legalEligibility = UNRESOLVED_NOT_ESTABLISHED_BY_THIS_BOUNDARY,
                   bv_note = NOTE_MALFORMED_PROOF_IGNORED\<rparr>
             else view MAINNET_SETTLEMENT_CONFIRMED)"

section \<open>Properties\<close>

lemma reconciled_iff:
  "rg_routerReconciled (reconcileRegistryTarget target obs) \<longleftrightarrow>
   (\<exists>t r ob. target = Some t \<and> obs = Some ob \<and> \<not> missingField ob \<and>
      isHexAddress t \<and> isHexAddress (the (ro_registry ob)) \<and> ro_currentRouter ob = Some r \<and>
      isHexAddress r \<and> isHexAddress (the (ro_previousRouter ob)) \<and> isHexAddress (the (ro_nextRouter ob)) \<and>
      lower r \<noteq> ZERO_ADDRESS \<and> ro_paused ob = Some False \<and> lower t = lower r)"
  by (cases target; cases obs)
    (auto simp: reconcileRegistryTarget_def failRegistry_def missingField_def Let_def)

text \<open>
  C23: a structural replay approves for production exactly when the chain is 4663, the selector is
  well formed and on the explicit allow-list, and the target is, in any letter case, the current
  router of a complete, well-formed, unpaused observation whose current router is not zero; so with an
  empty allow-list nothing is ever approved, and a match with only the previous or the next
  router never reconciles.
\<close>

theorem deriveStructuralReplay_approves:
  "dr_productionStructuralApproved (deriveStructuralReplay input) \<longleftrightarrow>
   di_chainId input = 4663 \<and> isSelector (di_selector input) \<and>
   lower (di_selector input) \<in> lower ` set (di_approvedSelectors input) \<and>
   (\<exists>r ob. di_registry input = Some ob \<and> \<not> missingField ob \<and> isHexAddress (di_target input) \<and>
      isHexAddress (the (ro_registry ob)) \<and> ro_currentRouter ob = Some r \<and> isHexAddress r \<and>
      isHexAddress (the (ro_previousRouter ob)) \<and> isHexAddress (the (ro_nextRouter ob)) \<and>
      lower r \<noteq> ZERO_ADDRESS \<and> ro_paused ob = Some False \<and> lower (di_target input) = lower r)"
  by (auto simp: deriveStructuralReplay_def Let_def reconciled_iff)

text \<open>
  The boundary status is never overstated: mainnet confirmation is given exactly on a well-formed
  receipt proof, the local-fork state needs an observed and structurally valid quote and the fork
  evidence, a passed price guard needs all of the quote, its structure and the guard, an
  unobserved quote leaves the initial state, and only a confirmed view says that a
  mainnet proof was supplied.
\<close>

theorem classifyBoundary_truthful:
  "(bv_status (classifyBoundary obs) = MAINNET_SETTLEMENT_CONFIRMED \<longleftrightarrow>
      (\<exists>p. bo_mainnetReceipt obs = Some p \<and> validReceipt p)) \<and>
   (bv_status (classifyBoundary obs) = SETTLEMENT_EXECUTED_LOCAL_FORK_ONLY \<longrightarrow>
      bo_quoteObserved obs \<and> bo_structuralValidationPassed obs \<and> bo_localForkSettlementPassed obs) \<and>
   (bv_status (classifyBoundary obs) = PRICE_GUARD_PASSED \<longrightarrow>
      bo_quoteObserved obs \<and> bo_structuralValidationPassed obs \<and> bo_priceGuardPassed obs \<and>
      \<not> bo_localForkSettlementPassed obs) \<and>
   (bv_status (classifyBoundary obs) = QUOTE_STRUCTURALLY_VALID \<longrightarrow>
      bo_quoteObserved obs \<and> bo_structuralValidationPassed obs) \<and>
   (\<not> bo_quoteObserved obs \<longrightarrow> bv_status (classifyBoundary obs) \<in> {QUOTE_NOT_OBSERVED, MAINNET_SETTLEMENT_CONFIRMED}) \<and>
   (bv_note (classifyBoundary obs) = NOTE_MAINNET_PROOF_BY_CALLER \<longleftrightarrow>
      bv_status (classifyBoundary obs) = MAINNET_SETTLEMENT_CONFIRMED)"
  by (auto simp: classifyBoundary_def Let_def split: option.splits if_splits)

theorem classifyBoundary_truthful_witness:
  "bv_status (classifyBoundary \<lparr>bo_quoteObserved = False, bo_structuralValidationPassed = True,
     bo_priceGuardPassed = True, bo_localForkSettlementPassed = True, bo_mainnetReceipt = None\<rparr>)
     \<in> {QUOTE_NOT_OBSERVED, MAINNET_SETTLEMENT_CONFIRMED}"
  by (rule classifyBoundary_truthful [THEN conjunct2, THEN conjunct2, THEN conjunct2, THEN conjunct2,
        THEN conjunct1, rule_format]) simp

end
