(* ===== verification/Settlement.thy ===== *)
theory Settlement
  imports Registry
begin

text \<open>
  \<open>packages/rialto/src/guarded-settlement.ts\<close>: the offline guard that collects every failure of a
  settlement intent against a policy, a registry and a price observation and a replay store. One
  definition per numbered block of \<open>evaluateGuardedSettlement\<close>, each the list of the statuses it adds;
  the messages are texts and not modelled. SHA-256, keccak256, the ABI encoder and \<open>Date.parse\<close> (in
  milliseconds, \<open>None\<close> for \<open>NaN\<close>) are parameters. The cap table of a policy is read by its own
  keys only.
\<close>

section \<open>Data\<close>

definition GUARD_VERSION :: string where "GUARD_VERSION = ''bps-guarded-settlement/1''"
definition OFFICIAL_REGISTRY :: string where
  "OFFICIAL_REGISTRY = ''0x71a120CbBf3Ce7cD910a3c50fF77aFc62735687E''"
definition WETH :: string where "WETH = ''0x0Bd7D308f8E1639FAb988df18A8011f41EAcAD73''"
definition NVDA :: string where "NVDA = ''0xd0601CE157Db5bdC3162BbaC2a2C8aF5320D9EEC''"
definition DEAD_ADDRESS :: string where
  "DEAD_ADDRESS = ''0x000000000000000000000000000000000000dead''"

datatype GuardStatus =
    READY_OFFLINE_ONLY | POLICY_INCOMPLETE | WRONG_CHAIN | REGISTRY_MISMATCH | FEATURE_MISMATCH
  | REGISTRY_OBSERVATION_MISSING | REGISTRY_OBSERVATION_STALE | REGISTRY_PAUSED | ROUTER_MISMATCH
  | SELECTOR_UNAPPROVED | TAKER_UNRESOLVED | TAKER_MISMATCH | TOKEN_NOT_ALLOWED | AMOUNT_INVALID
  | AMOUNT_LIMIT_UNRESOLVED | AMOUNT_EXCEEDS_LIMIT | NONZERO_TX_VALUE | FEE_POLICY_VIOLATION
  | SLIPPAGE_POLICY_VIOLATION | CALLDATA_HASH_INVALID | PRICE_SOURCE_UNRESOLVED | PRICE_PAIR_MISMATCH
  | PRICE_OBSERVATION_STALE | PRICE_DEVIATION_EXCEEDED | MISSING_DEADLINE | INTENT_EXPIRED
  | INTENT_LIFETIME_EXCESSIVE | DIGEST_MISMATCH | REPLAY_DETECTED | NONCE_REUSED

record TokenPair =
  tp_sellToken :: string
  tp_buyToken :: string

record SettlementPolicy =
  sp_guardVersion :: string
  sp_chainId :: int
  sp_registry :: string
  sp_feature :: int
  sp_allowedPairs :: "TokenPair list"
  sp_maxSellAmountRawByToken :: "(string \<times> int option) list"
  sp_allowedSelectors :: "string list"
  sp_maxPlatformFeeBps :: int
  sp_integratorFeeAllowed :: bool
  sp_defaultSlippageBps :: int
  sp_maxSlippageBps :: int
  sp_maxPriceDeviationBps :: int
  sp_maxPriceObservationAgeSec :: "int option"
  sp_maxRegistryObservationAgeSec :: "int option"
  sp_maxIntentLifetimeSec :: int
  sp_finalTaker :: "string option"
  sp_allowedPriceSources :: "string list"
  sp_paused :: bool

record SettlementIntent =
  si_version :: string
  si_chainId :: int
  si_registry :: string
  si_feature :: int
  si_sellToken :: string
  si_buyToken :: string
  si_sellAmountRaw :: int
  si_minBuyAmountRaw :: int
  si_expectedTarget :: string
  si_selector :: string
  si_calldataHash :: "string option"
  si_txValue :: int
  si_platformFeeBps :: int
  si_integratorFeePresent :: bool
  si_slippageBps :: int
  si_taker :: string
  si_nonce :: int
  si_intentDigest :: string
  si_createdAtSec :: int
  si_deadlineSec :: int

record PriceObservation =
  pb_source :: string
  pb_observedTimeSec :: "int option"
  pb_observedBlock :: "int option"
  pb_sellToken :: string
  pb_buyToken :: string
  pb_refSellAmountRaw :: int
  pb_refBuyAmountRaw :: int
  pb_sellDecimals :: int
  pb_buyDecimals :: int

section \<open>Replay protection\<close>

text \<open>The interface: what the guard asks of a store and what consuming an intent promises.\<close>

locale replay_store =
  fixes digest_consumed :: "'s \<Rightarrow> string \<Rightarrow> bool"
    and nonce_used :: "'s \<Rightarrow> string \<Rightarrow> int \<Rightarrow> bool"
    and consume :: "string \<Rightarrow> string \<Rightarrow> int \<Rightarrow> 's \<Rightarrow> 's"
  assumes digest_consume:
      "digest_consumed (consume d t n s) d' \<longleftrightarrow> lower d' = lower d \<or> digest_consumed s d'"
    and nonce_consume:
      "nonce_used (consume d t n s) t' n' \<longleftrightarrow> lower t' = lower t \<and> n' = n \<or> nonce_used s t' n'"
begin

definition consume_all :: "(string \<times> string \<times> int) list \<Rightarrow> 's \<Rightarrow> 's" where
  "consume_all xs s = fold (\<lambda>(d, t, n). consume d t n) xs s"

lemma digest_consume_all:
  "digest_consumed (consume_all xs s) d \<longleftrightarrow>
   (\<exists>(d', t, n)\<in>set xs. lower d' = lower d) \<or> digest_consumed s d"
  by (induction xs arbitrary: s) (auto simp: consume_all_def digest_consume)

lemma nonce_consume_all:
  "nonce_used (consume_all xs s) t n \<longleftrightarrow>
   (\<exists>(d, t', n')\<in>set xs. lower t' = lower t \<and> n' = n) \<or> nonce_used s t n"
  by (induction xs arbitrary: s) (auto simp: consume_all_def nonce_consume)

lemma consumed_stays:
  "digest_consumed s d \<Longrightarrow> digest_consumed (consume_all xs s) d"
  "nonce_used s t n \<Longrightarrow> nonce_used (consume_all xs s) t n"
  by (simp_all add: digest_consume_all nonce_consume_all)

end

record InMemoryReplayStore =
  ms_digests :: "string list"
  ms_nonces :: "string list"

definition newReplayStore :: "string list \<Rightarrow> string list \<Rightarrow> InMemoryReplayStore" where
  "newReplayStore consumedDigests usedNonces =
     \<lparr>ms_digests = js_set (map lower consumedDigests), ms_nonces = js_set (map lower usedNonces)\<rparr>"

definition nonceKey :: "string \<Rightarrow> int \<Rightarrow> string" where
  "nonceKey taker nonce = lower taker @ '':'' @ dec_of_int nonce"

definition isDigestConsumed :: "InMemoryReplayStore \<Rightarrow> string \<Rightarrow> bool" where
  "isDigestConsumed s digest \<longleftrightarrow> lower digest \<in> set (ms_digests s)"

definition isNonceUsed :: "InMemoryReplayStore \<Rightarrow> string \<Rightarrow> int \<Rightarrow> bool" where
  "isNonceUsed s taker nonce \<longleftrightarrow> nonceKey taker nonce \<in> set (ms_nonces s)"

definition markConsumed :: "string \<Rightarrow> string \<Rightarrow> int \<Rightarrow> InMemoryReplayStore \<Rightarrow> InMemoryReplayStore" where
  "markConsumed digest taker nonce s =
     \<lparr>ms_digests = set_add (lower digest) (ms_digests s),
      ms_nonces = set_add (nonceKey taker nonce) (ms_nonces s)\<rparr>"

lemma nonceKey_inj: "nonceKey t n = nonceKey t' n' \<longleftrightarrow> lower t = lower t' \<and> n = n'"
  using colon_key_inj by (simp add: nonceKey_def)

interpretation mem: replay_store isDigestConsumed isNonceUsed markConsumed
  by unfold_locales (auto simp: isDigestConsumed_def isNonceUsed_def markConsumed_def nonceKey_inj)

text \<open>A store as the guard sees it; the flag is \<open>instanceof InMemoryReplayStore\<close>.\<close>

record ReplayStore =
  rs_isDigestConsumed :: "string \<Rightarrow> bool"
  rs_isNonceUsed :: "string \<Rightarrow> int \<Rightarrow> bool"
  rs_inMemory :: bool

definition inMemory :: "InMemoryReplayStore \<Rightarrow> ReplayStore" where
  "inMemory s = \<lparr>rs_isDigestConsumed = isDigestConsumed s, rs_isNonceUsed = isNonceUsed s, rs_inMemory = True\<rparr>"

section \<open>The guard\<close>

record GuardedSettlementInput =
  gi_policy :: SettlementPolicy
  gi_intent :: SettlementIntent
  gi_registryObservation :: "RegistryFeatureObservation option"
  gi_priceObservation :: "PriceObservation option"
  gi_replayStore :: ReplayStore
  gi_nowSec :: int

definition productionCandidatePolicy :: SettlementPolicy where
  "productionCandidatePolicy =
     \<lparr>sp_guardVersion = GUARD_VERSION, sp_chainId = 4663, sp_registry = OFFICIAL_REGISTRY, sp_feature = 2,
      sp_allowedPairs = [\<lparr>tp_sellToken = WETH, tp_buyToken = NVDA\<rparr>],
      sp_maxSellAmountRawByToken = [(lower WETH, None)], sp_allowedSelectors = [],
      sp_maxPlatformFeeBps = 5, sp_integratorFeeAllowed = False, sp_defaultSlippageBps = 50,
      sp_maxSlippageBps = 100, sp_maxPriceDeviationBps = 100, sp_maxPriceObservationAgeSec = None,
      sp_maxRegistryObservationAgeSec = None, sp_maxIntentLifetimeSec = 300, sp_finalTaker = None,
      sp_allowedPriceSources = [], sp_paused = False\<rparr>"

fun join_bar :: "string list \<Rightarrow> string" where
  "join_bar [] = []"
| "join_bar [x] = x"
| "join_bar (x # y # ys) = x @ ''|'' @ join_bar (y # ys)"

definition digestParts :: "SettlementIntent \<Rightarrow> string list" where
  "digestParts i =
     [''BPS-GUARDED-SETTLEMENT'', si_version i, dec_of_int (si_chainId i), lower (si_registry i),
      dec_of_int (si_feature i), lower (si_taker i), dec_of_int (si_nonce i), dec_of_int (si_deadlineSec i),
      lower (si_expectedTarget i), lower (si_selector i), lower (si_sellToken i), lower (si_buyToken i),
      dec_of_int (si_sellAmountRaw i), dec_of_int (si_minBuyAmountRaw i),
      (if si_calldataHash i = None \<or> si_calldataHash i = Some [] then ''NO_CALLDATA_HASH''
       else lower (the (si_calldataHash i)))]"

definition computeIntentDigest :: "(string \<Rightarrow> string) \<Rightarrow> SettlementIntent \<Rightarrow> string" where
  "computeIntentDigest sha256Hex i = ''0x'' @ sha256Hex (join_bar (digestParts i))"

definition buildIntent :: "(string \<Rightarrow> string) \<Rightarrow> SettlementIntent \<Rightarrow> SettlementIntent" where
  "buildIntent sha256Hex i =
     (let withVersion = i\<lparr>si_version := GUARD_VERSION\<rparr>
      in withVersion\<lparr>si_intentDigest := computeIntentDigest sha256Hex withVersion\<rparr>)"

definition floorDiv :: "int \<Rightarrow> int \<Rightarrow> int" where "floorDiv a b = bigint_div a b"

definition pairAllowed :: "SettlementPolicy \<Rightarrow> string \<Rightarrow> string \<Rightarrow> bool" where
  "pairAllowed policy sellToken buyToken =
     list_ex (\<lambda>p. lower (tp_sellToken p) = lower sellToken \<and> lower (tp_buyToken p) = lower buyToken)
       (sp_allowedPairs policy)"

text \<open>\<open>policy.maxSellAmountRawByToken[lower(token)] ?? null\<close>.\<close>

definition capOf :: "SettlementPolicy \<Rightarrow> string \<Rightarrow> int option" where
  "capOf policy token =
     (case map_of (sp_maxSellAmountRawByToken policy) (lower token) of None \<Rightarrow> None | Some c \<Rightarrow> c)"

datatype ProductionGate =
    APPROVED_SELECTOR | FINAL_TAKER | PER_TOKEN_AMOUNT_CAP | DATED_REGISTRY_STRATEGY | TRUSTED_PRICE_SOURCE

definition computeRemainingGates :: "SettlementPolicy \<Rightarrow> ProductionGate list" where
  "computeRemainingGates policy =
     (if length (sp_allowedSelectors policy) = 0 then [APPROVED_SELECTOR] else [])
     @ (if sp_finalTaker policy = None \<or> \<not> isHexAddress (the (sp_finalTaker policy)) then [FINAL_TAKER] else [])
     @ (if list_ex (\<lambda>p. capOf policy (tp_sellToken p) = None) (sp_allowedPairs policy)
        then [PER_TOKEN_AMOUNT_CAP] else [])
     @ (if sp_maxRegistryObservationAgeSec policy = None then [DATED_REGISTRY_STRATEGY] else [])
     @ (if length (sp_allowedPriceSources policy) = 0 \<or> sp_maxPriceObservationAgeSec policy = None
        then [TRUSTED_PRICE_SOURCE] else [])"

text \<open>\<open>if (c) add(status)\<close>.\<close>

abbreviation add_if :: "bool \<Rightarrow> GuardStatus \<Rightarrow> GuardStatus list" where
  "add_if c status \<equiv> (if c then [status] else [])"

definition checkPolicy :: "SettlementPolicy \<Rightarrow> GuardStatus list" where
  "checkPolicy policy =
     add_if (sp_guardVersion policy \<noteq> GUARD_VERSION) POLICY_INCOMPLETE
     @ add_if (\<not> isHexAddress (sp_registry policy)) POLICY_INCOMPLETE
     @ add_if (sp_maxSlippageBps policy \<le> 0 \<or> sp_defaultSlippageBps policy < 0) POLICY_INCOMPLETE
     @ add_if (sp_defaultSlippageBps policy > sp_maxSlippageBps policy) POLICY_INCOMPLETE
     @ add_if (sp_maxIntentLifetimeSec policy \<le> 0 \<or> sp_maxIntentLifetimeSec policy > 300) POLICY_INCOMPLETE
     @ add_if (sp_paused policy) POLICY_INCOMPLETE"

definition checkIdentity :: "SettlementPolicy \<Rightarrow> SettlementIntent \<Rightarrow> GuardStatus list" where
  "checkIdentity policy intent =
     add_if (si_chainId intent \<noteq> sp_chainId policy) WRONG_CHAIN
     @ add_if (lower (si_registry intent) \<noteq> lower (sp_registry policy)) REGISTRY_MISMATCH
     @ add_if (si_feature intent \<noteq> sp_feature policy) FEATURE_MISMATCH
     @ add_if (\<not> pairAllowed policy (si_sellToken intent) (si_buyToken intent)) TOKEN_NOT_ALLOWED"

definition checkAmounts :: "SettlementPolicy \<Rightarrow> SettlementIntent \<Rightarrow> GuardStatus list" where
  "checkAmounts policy intent =
     add_if (si_sellAmountRaw intent \<le> 0 \<or> si_minBuyAmountRaw intent \<le> 0) AMOUNT_INVALID
     @ (case capOf policy (si_sellToken intent) of
          None \<Rightarrow> [AMOUNT_LIMIT_UNRESOLVED]
        | Some cap \<Rightarrow> add_if (si_sellAmountRaw intent > cap) AMOUNT_EXCEEDS_LIMIT)
     @ add_if (si_txValue intent \<noteq> 0) NONZERO_TX_VALUE"

definition checkFeesAndSlippage :: "SettlementPolicy \<Rightarrow> SettlementIntent \<Rightarrow> GuardStatus list" where
  "checkFeesAndSlippage policy intent =
     add_if (si_platformFeeBps intent > sp_maxPlatformFeeBps policy \<or> si_platformFeeBps intent < 0)
       FEE_POLICY_VIOLATION
     @ add_if (si_integratorFeePresent intent \<and> \<not> sp_integratorFeeAllowed policy) FEE_POLICY_VIOLATION
     @ add_if (si_slippageBps intent < 0 \<or> si_slippageBps intent > sp_maxSlippageBps policy)
         SLIPPAGE_POLICY_VIOLATION"

definition checkCalldata :: "SettlementPolicy \<Rightarrow> SettlementIntent \<Rightarrow> GuardStatus list" where
  "checkCalldata policy intent =
     add_if (\<not> (case si_calldataHash intent of None \<Rightarrow> False | Some h \<Rightarrow> hex_string 64 h)) CALLDATA_HASH_INVALID
     @ add_if (\<not> (isSelector (si_selector intent) \<and>
                  lower (si_selector intent) \<in> set (map lower (sp_allowedSelectors policy))))
         SELECTOR_UNAPPROVED"

definition checkTaker :: "SettlementPolicy \<Rightarrow> SettlementIntent \<Rightarrow> GuardStatus list" where
  "checkTaker policy intent =
     (case sp_finalTaker policy of
        None \<Rightarrow> [TAKER_UNRESOLVED]
      | Some policyTaker \<Rightarrow>
          if \<not> isHexAddress policyTaker \<or> lower policyTaker = ZERO_ADDRESS \<or> lower policyTaker = DEAD_ADDRESS
          then [TAKER_UNRESOLVED]
          else add_if (\<not> isHexAddress (si_taker intent) \<or> lower (si_taker intent) \<noteq> lower policyTaker)
                 TAKER_MISMATCH)
     @ add_if (isHexAddress (si_taker intent) \<and>
               (lower (si_taker intent) = DEAD_ADDRESS \<or> lower (si_taker intent) = ZERO_ADDRESS))
         TAKER_UNRESOLVED"

definition checkRegistry ::
  "(string \<Rightarrow> int option) \<Rightarrow> SettlementPolicy \<Rightarrow> SettlementIntent \<Rightarrow> RegistryFeatureObservation option
    \<Rightarrow> int \<Rightarrow> GuardStatus list" where
  "checkRegistry dateParse policy intent observation nowSec =
     (case observation of
        None \<Rightarrow> [REGISTRY_OBSERVATION_MISSING]
      | Some obs \<Rightarrow>
          add_if (\<not> (case ro_registry obs of
                       None \<Rightarrow> False
                     | Some r \<Rightarrow> isHexAddress r \<and> lower r = lower (sp_registry policy))) REGISTRY_MISMATCH
          @ add_if (ro_feature obs \<noteq> Some (sp_feature policy)) FEATURE_MISMATCH
          @ (let rec = reconcileRegistryTarget (Some (si_expectedTarget intent)) (Some obs)
             in if rg_code rec = FEATURE_PAUSED then [REGISTRY_PAUSED]
                else if rg_code rec = MISSING_REGISTRY_FIELD then [REGISTRY_OBSERVATION_MISSING]
                else add_if (rg_code rec \<noteq> OK) ROUTER_MISMATCH)
          @ (if \<not> snapshotDated obs then [REGISTRY_OBSERVATION_STALE]
             else case (sp_maxRegistryObservationAgeSec policy, ro_observationTimeUtc obs) of
                    (Some maxAge, Some obsTime) \<Rightarrow>
                      (case dateParse obsTime of
                         None \<Rightarrow> [REGISTRY_OBSERVATION_STALE]
                       | Some ms \<Rightarrow>
                           let obsSec = ms div 1000
                           in add_if (nowSec - obsSec > maxAge \<or> obsSec > nowSec) REGISTRY_OBSERVATION_STALE)
                  | _ \<Rightarrow> [REGISTRY_OBSERVATION_STALE]))"

definition permittedMax :: "SettlementPolicy \<Rightarrow> SettlementIntent \<Rightarrow> PriceObservation \<Rightarrow> int" where
  "permittedMax policy intent p =
     (let refBuyForSell = floorDiv (pb_refBuyAmountRaw p * si_sellAmountRaw intent) (pb_refSellAmountRaw p)
      in floorDiv (refBuyForSell * (10000 + sp_maxPriceDeviationBps policy)) 10000)"

definition checkPrice ::
  "SettlementPolicy \<Rightarrow> SettlementIntent \<Rightarrow> PriceObservation option \<Rightarrow> int \<Rightarrow> GuardStatus list" where
  "checkPrice policy intent observation nowSec =
     (case (if length (sp_allowedPriceSources policy) = 0 then None else sp_maxPriceObservationAgeSec policy) of
        None \<Rightarrow> [PRICE_SOURCE_UNRESOLVED]
      | Some maxAge \<Rightarrow>
      (case observation of
        None \<Rightarrow> [PRICE_SOURCE_UNRESOLVED]
      | Some p \<Rightarrow>
          if lower (pb_source p) \<notin> set (map lower (sp_allowedPriceSources policy)) then [PRICE_SOURCE_UNRESOLVED]
          else if lower (pb_sellToken p) \<noteq> lower (si_sellToken intent) \<or>
                  lower (pb_buyToken p) \<noteq> lower (si_buyToken intent) then [PRICE_PAIR_MISMATCH]
          else if pb_refSellAmountRaw p \<le> 0 \<or> pb_refBuyAmountRaw p \<le> 0 then [PRICE_SOURCE_UNRESOLVED]
          else case pb_observedTimeSec p of
                 None \<Rightarrow> [PRICE_OBSERVATION_STALE]
               | Some t \<Rightarrow>
                   if nowSec - t > maxAge \<or> t > nowSec then [PRICE_OBSERVATION_STALE]
                   else add_if (si_minBuyAmountRaw intent > permittedMax policy intent p)
                          PRICE_DEVIATION_EXCEEDED))"

definition checkExpiry :: "SettlementPolicy \<Rightarrow> SettlementIntent \<Rightarrow> int \<Rightarrow> GuardStatus list" where
  "checkExpiry policy intent nowSec =
     (if si_deadlineSec intent \<le> 0 then [MISSING_DEADLINE]
      else
        let lifetime = si_deadlineSec intent - si_createdAtSec intent
        in (if lifetime \<le> 0 then [INTENT_EXPIRED]
            else add_if (lifetime > sp_maxIntentLifetimeSec policy) INTENT_LIFETIME_EXCESSIVE)
           @ add_if (nowSec > si_deadlineSec intent) INTENT_EXPIRED)"

definition checkReplay :: "(string \<Rightarrow> string) \<Rightarrow> SettlementIntent \<Rightarrow> ReplayStore \<Rightarrow> GuardStatus list" where
  "checkReplay sha256Hex intent store =
     add_if (lower (computeIntentDigest sha256Hex intent) \<noteq> lower (si_intentDigest intent)) DIGEST_MISMATCH
     @ add_if (rs_isDigestConsumed store (si_intentDigest intent)) REPLAY_DETECTED
     @ add_if (isHexAddress (si_taker intent) \<and> rs_isNonceUsed store (si_taker intent) (si_nonce intent))
         NONCE_REUSED"

definition guardFailures ::
  "(string \<Rightarrow> string) \<Rightarrow> (string \<Rightarrow> int option) \<Rightarrow> GuardedSettlementInput \<Rightarrow> GuardStatus list" where
  "guardFailures sha256Hex dateParse input =
     (let policy = gi_policy input; intent = gi_intent input; nowSec = gi_nowSec input
      in checkPolicy policy @ checkIdentity policy intent @ checkAmounts policy intent
         @ checkFeesAndSlippage policy intent @ checkCalldata policy intent @ checkTaker policy intent
         @ checkRegistry dateParse policy intent (gi_registryObservation input) nowSec
         @ checkPrice policy intent (gi_priceObservation input) nowSec
         @ checkExpiry policy intent nowSec @ checkReplay sha256Hex intent (gi_replayStore input))"


text \<open>The result; the details of the steps and the two closing texts of a plan are constants and left out.\<close>

record SettlementPlanStep =
  ps_order :: nat
  ps_action :: string

record SettlementPlan =
  pl_guardVersion :: string
  pl_intentDigest :: string
  pl_taker :: string
  pl_target :: string
  pl_sellToken :: string
  pl_buyToken :: string
  pl_sellAmountRaw :: string
  pl_minBuyAmountRaw :: string
  pl_deadlineSec :: int
  pl_steps :: "SettlementPlanStep list"

record ValidatedPolicy =
  vp_guardVersion :: string
  vp_chainId :: int
  vp_registry :: string
  vp_feature :: int
  vp_selectorAllowListSize :: nat
  vp_finalTakerResolved :: bool
  vp_priceSourcesResolved :: bool
  vp_registryAgeLimitResolved :: bool
  vp_priceAgeLimitResolved :: bool
  vp_paused :: bool

record ReadinessResult =
  rr_ready :: bool
  rr_status :: GuardStatus
  rr_failures :: "GuardStatus list"
  rr_inMemoryWarning :: bool
  rr_validatedPolicy :: ValidatedPolicy
  rr_sanitizedPlan :: "SettlementPlan option"
  rr_remainingProductionGates :: "ProductionGate list"

definition planSteps :: "SettlementPlanStep list" where
  "planSteps =
     [\<lparr>ps_order = 1, ps_action = ''REVERIFY_REGISTRY''\<rparr>, \<lparr>ps_order = 2, ps_action = ''APPROVE_EXACT''\<rparr>,
      \<lparr>ps_order = 3, ps_action = ''CALL_ROUTER''\<rparr>, \<lparr>ps_order = 4, ps_action = ''REQUIRE_MIN_BUY''\<rparr>,
      \<lparr>ps_order = 5, ps_action = ''CLEAR_ALLOWANCE''\<rparr>, \<lparr>ps_order = 6, ps_action = ''CONSUME_INTENT''\<rparr>,
      \<lparr>ps_order = 7, ps_action = ''RECORD_EVIDENCE''\<rparr>]"

definition planOf :: "SettlementPolicy \<Rightarrow> SettlementIntent \<Rightarrow> SettlementPlan" where
  "planOf policy intent =
     \<lparr>pl_guardVersion = sp_guardVersion policy, pl_intentDigest = si_intentDigest intent,
      pl_taker = si_taker intent, pl_target = si_expectedTarget intent, pl_sellToken = si_sellToken intent,
      pl_buyToken = si_buyToken intent, pl_sellAmountRaw = dec_of_int (si_sellAmountRaw intent),
      pl_minBuyAmountRaw = dec_of_int (si_minBuyAmountRaw intent), pl_deadlineSec = si_deadlineSec intent,
      pl_steps = planSteps\<rparr>"

definition validatedPolicy :: "SettlementPolicy \<Rightarrow> ValidatedPolicy" where
  "validatedPolicy policy =
     \<lparr>vp_guardVersion = sp_guardVersion policy, vp_chainId = sp_chainId policy,
      vp_registry = sp_registry policy, vp_feature = sp_feature policy,
      vp_selectorAllowListSize = length (sp_allowedSelectors policy),
      vp_finalTakerResolved =
        (case sp_finalTaker policy of
           None \<Rightarrow> False
         | Some t \<Rightarrow> isHexAddress t \<and> lower t \<noteq> ZERO_ADDRESS \<and> lower t \<noteq> DEAD_ADDRESS),
      vp_priceSourcesResolved =
        (length (sp_allowedPriceSources policy) > 0 \<and> sp_maxPriceObservationAgeSec policy \<noteq> None),
      vp_registryAgeLimitResolved = (sp_maxRegistryObservationAgeSec policy \<noteq> None),
      vp_priceAgeLimitResolved = (sp_maxPriceObservationAgeSec policy \<noteq> None),
      vp_paused = sp_paused policy\<rparr>"

definition evaluateGuardedSettlement ::
  "(string \<Rightarrow> string) \<Rightarrow> (string \<Rightarrow> int option) \<Rightarrow> GuardedSettlementInput \<Rightarrow> ReadinessResult" where
  "evaluateGuardedSettlement sha256Hex dateParse input =
     (let failures = guardFailures sha256Hex dateParse input;
          ready = (length failures = 0)
      in \<lparr>rr_ready = ready,
          rr_status = (if ready then READY_OFFLINE_ONLY else hd failures),
          rr_failures = failures,
          rr_inMemoryWarning = rs_inMemory (gi_replayStore input),
          rr_validatedPolicy = validatedPolicy (gi_policy input),
          rr_sanitizedPlan = (if ready then Some (planOf (gi_policy input) (gi_intent input)) else None),
          rr_remainingProductionGates = computeRemainingGates (gi_policy input)\<rparr>)"

section \<open>The opaque quote and the on-chain digest\<close>

record OpaqueQuote =
  oq_settlement :: string
  oq_txTo :: string
  oq_txValue :: string
  oq_selector :: string
  oq_callData :: string
  oq_sellToken :: string
  oq_buyToken :: string
  oq_taker :: string
  oq_sellAmountRaw :: int
  oq_minBuyAmountRaw :: int
  oq_platformFeeBps :: int
  oq_integratorFeePresent :: bool
  oq_allowanceSpender :: "string option"
  oq_expirySec :: "int option"

record OpaqueQuoteContext =
  oc_chainId :: int
  oc_resolvedRouter :: string
  oc_executor :: string
  oc_weth :: string
  oc_nvda :: string
  oc_maxPlatformFeeBps :: int
  oc_nowSec :: int
  oc_intentSellAmountRaw :: int
  oc_intentMinBuyAmountRaw :: int

record OpaqueQuoteValidation =
  ov_ok :: bool
  ov_failures :: "string list"
  ov_calldataHash :: string

definition OPAQUE_SETTLEMENT_SELECTOR :: string where "OPAQUE_SETTLEMENT_SELECTOR = ''0x77963966''"

definition opaqueFailures :: "OpaqueQuote \<Rightarrow> OpaqueQuoteContext \<Rightarrow> string list" where
  "opaqueFailures q ctx =
     (let eq = (\<lambda>a b. lower a = lower b); add = (\<lambda>c f. if c then [f] else []) in
      add (oc_chainId ctx \<noteq> 4663) ''WRONG_CHAIN''
      @ add (oq_settlement q \<noteq> ''allowance'') ''SETTLEMENT_NOT_ALLOWANCE''
      @ add (\<not> eq (oq_txTo q) (oc_resolvedRouter ctx)) ''TX_TO_NOT_ROUTER''
      @ add (case oq_allowanceSpender q of None \<Rightarrow> False | Some sp \<Rightarrow> \<not> eq sp (oc_resolvedRouter ctx))
          ''ALLOWANCE_SPENDER_NOT_ROUTER''
      @ add (oq_txValue q \<noteq> ''0'') ''NONZERO_TX_VALUE''
      @ add (\<not> eq (oq_selector q) OPAQUE_SETTLEMENT_SELECTOR) ''WRONG_SELECTOR''
      @ add (\<not> eq (take 10 (oq_callData q)) OPAQUE_SETTLEMENT_SELECTOR) ''CALLDATA_SELECTOR_MISMATCH''
      @ add (\<not> eq (oq_sellToken q) (oc_weth ctx)) ''SELL_TOKEN_NOT_WETH''
      @ add (\<not> eq (oq_buyToken q) (oc_nvda ctx)) ''BUY_TOKEN_NOT_NVDA''
      @ add (\<not> eq (oq_taker q) (oc_executor ctx)) ''TAKER_NOT_EXECUTOR''
      @ add (oq_sellAmountRaw q \<le> 0 \<or> oq_sellAmountRaw q \<noteq> oc_intentSellAmountRaw ctx) ''SELL_AMOUNT_MISMATCH''
      @ add (oq_minBuyAmountRaw q \<le> 0 \<or> oq_minBuyAmountRaw q \<noteq> oc_intentMinBuyAmountRaw ctx) ''MIN_BUY_MISMATCH''
      @ add (oq_platformFeeBps q < 0 \<or> oq_platformFeeBps q > oc_maxPlatformFeeBps ctx) ''PLATFORM_FEE_TOO_HIGH''
      @ add (oq_integratorFeePresent q) ''INTEGRATOR_FEE_PRESENT''
      @ add (case oq_expirySec q of None \<Rightarrow> True | Some e \<Rightarrow> e \<le> oc_nowSec ctx) ''QUOTE_EXPIRED'')"

definition validateOpaqueQuoteForIntent ::
  "(string \<Rightarrow> string) \<Rightarrow> OpaqueQuote \<Rightarrow> OpaqueQuoteContext \<Rightarrow> OpaqueQuoteValidation" where
  "validateOpaqueQuoteForIntent keccak256 q ctx =
     (let failures = opaqueFailures q ctx
      in \<lparr>ov_ok = (length failures = 0), ov_failures = failures, ov_calldataHash = keccak256 (oq_callData q)\<rparr>)"

record OnchainDigestInput =
  oi_chainId :: int
  oi_executor :: string
  oi_registry :: string
  oi_feature :: int
  oi_target :: string
  oi_selector :: string
  oi_sellToken :: string
  oi_buyToken :: string
  oi_sellAmountRaw :: int
  oi_minBuyAmountRaw :: int
  oi_platformFeeBps :: int
  oi_slippageBps :: int
  oi_taker :: string
  oi_nonce :: int
  oi_deadlineSec :: int
  oi_calldataHash :: string

text \<open>A value handed to the ABI encoder with its type name.\<close>

datatype AbiValue = AText string string | AInt string int

definition onchainFields :: "(string \<Rightarrow> string) \<Rightarrow> OnchainDigestInput \<Rightarrow> AbiValue list" where
  "onchainFields keccakText i =
     [AText ''bytes32'' (keccakText ''BPS-GUARDED-SETTLEMENT/1''), AInt ''uint256'' (oi_chainId i),
      AText ''address'' (oi_executor i), AText ''address'' (oi_registry i), AInt ''uint256'' (oi_feature i),
      AText ''address'' (oi_target i), AText ''bytes4'' (oi_selector i), AText ''address'' (oi_sellToken i),
      AText ''address'' (oi_buyToken i), AInt ''uint256'' (oi_sellAmountRaw i),
      AInt ''uint256'' (oi_minBuyAmountRaw i), AInt ''uint16'' (oi_platformFeeBps i),
      AInt ''uint16'' (oi_slippageBps i), AText ''address'' (oi_taker i), AInt ''uint256'' (oi_nonce i),
      AInt ''uint256'' (oi_deadlineSec i), AText ''bytes32'' (oi_calldataHash i)]"

definition computeOnchainIntentDigest ::
  "(string \<Rightarrow> string) \<Rightarrow> (string \<Rightarrow> string) \<Rightarrow> (AbiValue list \<Rightarrow> string) \<Rightarrow> OnchainDigestInput \<Rightarrow> string" where
  "computeOnchainIntentDigest keccakText keccak256 encode i = keccak256 (encode (onchainFields keccakText i))"

section \<open>Properties\<close>

lemmas guard_parts = checkPolicy_def checkIdentity_def checkAmounts_def checkFeesAndSlippage_def
  checkCalldata_def checkTaker_def checkExpiry_def checkReplay_def

lemma ready_iff: "rr_ready (evaluateGuardedSettlement sha dp input) \<longleftrightarrow> guardFailures sha dp input = []"
  by (simp add: evaluateGuardedSettlement_def Let_def)

lemma ready_parts:
  "rr_ready (evaluateGuardedSettlement sha dp input) \<longleftrightarrow>
   checkPolicy (gi_policy input) = [] \<and> checkIdentity (gi_policy input) (gi_intent input) = [] \<and>
   checkAmounts (gi_policy input) (gi_intent input) = [] \<and>
   checkFeesAndSlippage (gi_policy input) (gi_intent input) = [] \<and>
   checkCalldata (gi_policy input) (gi_intent input) = [] \<and> checkTaker (gi_policy input) (gi_intent input) = [] \<and>
   checkRegistry dp (gi_policy input) (gi_intent input) (gi_registryObservation input) (gi_nowSec input) = [] \<and>
   checkPrice (gi_policy input) (gi_intent input) (gi_priceObservation input) (gi_nowSec input) = [] \<and>
   checkExpiry (gi_policy input) (gi_intent input) (gi_nowSec input) = [] \<and>
   checkReplay sha (gi_intent input) (gi_replayStore input) = []"
  by (simp add: ready_iff guardFailures_def Let_def)

lemma checkTaker_Nil:
  "checkTaker policy intent = [] \<longleftrightarrow>
   (\<exists>t. sp_finalTaker policy = Some t \<and> isHexAddress t \<and> isHexAddress (si_taker intent) \<and>
      lower (si_taker intent) = lower t \<and> lower t \<noteq> ZERO_ADDRESS \<and> lower t \<noteq> DEAD_ADDRESS)"
  by (auto simp: checkTaker_def split: option.splits)

lemma reconcile_OK:
  "rg_code (reconcileRegistryTarget t ob) = OK \<longleftrightarrow> rg_routerReconciled (reconcileRegistryTarget t ob)"
  by (auto simp: reconcileRegistryTarget_def failRegistry_def Let_def split: option.splits)

lemma checkRegistry_Nil:
  "checkRegistry dp policy intent ob now = [] \<longleftrightarrow>
   (\<exists>obs reg at ms age. ob = Some obs \<and> ro_registry obs = Some reg \<and> isHexAddress reg \<and>
      lower reg = lower (sp_registry policy) \<and> ro_feature obs = Some (sp_feature policy) \<and>
      rg_routerReconciled (reconcileRegistryTarget (Some (si_expectedTarget intent)) ob) \<and>
      ro_observationTimeUtc obs = Some at \<and> dp at = Some ms \<and>
      sp_maxRegistryObservationAgeSec policy = Some age \<and> ms div 1000 \<le> now \<and> now - ms div 1000 \<le> age)"
  (is "?l = ?r")
proof (cases ob)
  case None
  then show ?thesis by (simp add: checkRegistry_def)
next
  case (Some obs)
  let ?rec = "reconcileRegistryTarget (Some (si_expectedTarget intent)) (Some obs)"
  have "rg_code ?rec = FEATURE_PAUSED \<or> rg_code ?rec = MISSING_REGISTRY_FIELD \<or> rg_code ?rec \<noteq> OK
      \<longleftrightarrow> \<not> rg_routerReconciled ?rec"
    unfolding reconcile_OK [symmetric] by auto
  moreover have "snapshotDated obs" if "ro_observationTimeUtc obs \<noteq> None"
    using that by (simp add: snapshotDated_def)
  ultimately show ?thesis
    by (auto simp: Some checkRegistry_def Let_def not_less not_le reconcile_OK split: option.splits)
qed

lemma checkPrice_Nil:
  "checkPrice policy intent ob now = [] \<longleftrightarrow>
   (\<exists>p t age. ob = Some p \<and> sp_maxPriceObservationAgeSec policy = Some age \<and>
      lower (pb_source p) \<in> lower ` set (sp_allowedPriceSources policy) \<and>
      lower (pb_sellToken p) = lower (si_sellToken intent) \<and> lower (pb_buyToken p) = lower (si_buyToken intent) \<and>
      0 < pb_refSellAmountRaw p \<and> 0 < pb_refBuyAmountRaw p \<and> pb_observedTimeSec p = Some t \<and>
      t \<le> now \<and> now - t \<le> age \<and> si_minBuyAmountRaw intent \<le> permittedMax policy intent p)"
  by (auto simp: checkPrice_def not_less not_le split: option.splits)

lemma checkPolicy_Nil:
  "checkPolicy policy = [] \<longleftrightarrow>
   sp_guardVersion policy = GUARD_VERSION \<and> isHexAddress (sp_registry policy) \<and>
   0 < sp_maxSlippageBps policy \<and> 0 \<le> sp_defaultSlippageBps policy \<and>
   sp_defaultSlippageBps policy \<le> sp_maxSlippageBps policy \<and>
   0 < sp_maxIntentLifetimeSec policy \<and> sp_maxIntentLifetimeSec policy \<le> 300 \<and> \<not> sp_paused policy"
  by (auto simp: checkPolicy_def not_less not_le split: if_splits)

lemma checkIdentity_Nil:
  "checkIdentity policy intent = [] \<longleftrightarrow>
   si_chainId intent = sp_chainId policy \<and> lower (si_registry intent) = lower (sp_registry policy) \<and>
   si_feature intent = sp_feature policy \<and>
   (\<exists>q\<in>set (sp_allowedPairs policy). lower (tp_sellToken q) = lower (si_sellToken intent) \<and>
      lower (tp_buyToken q) = lower (si_buyToken intent))"
  by (auto simp: checkIdentity_def pairAllowed_def list_ex_iff split: if_splits)

lemma checkAmounts_Nil:
  "checkAmounts policy intent = [] \<longleftrightarrow>
   0 < si_sellAmountRaw intent \<and> 0 < si_minBuyAmountRaw intent \<and> si_txValue intent = 0 \<and>
   (\<exists>cap. map_of (sp_maxSellAmountRawByToken policy) (lower (si_sellToken intent)) = Some (Some cap) \<and>
      si_sellAmountRaw intent \<le> cap)"
  by (auto simp: checkAmounts_def capOf_def not_less not_le split: if_splits option.splits)

lemma checkFeesAndSlippage_Nil:
  "checkFeesAndSlippage policy intent = [] \<longleftrightarrow>
   0 \<le> si_platformFeeBps intent \<and> si_platformFeeBps intent \<le> sp_maxPlatformFeeBps policy \<and>
   (si_integratorFeePresent intent \<longrightarrow> sp_integratorFeeAllowed policy) \<and>
   0 \<le> si_slippageBps intent \<and> si_slippageBps intent \<le> sp_maxSlippageBps policy"
  by (auto simp: checkFeesAndSlippage_def not_less not_le split: if_splits)

lemma checkCalldata_Nil:
  "checkCalldata policy intent = [] \<longleftrightarrow>
   (\<exists>h. si_calldataHash intent = Some h \<and> hex_string 64 h) \<and> isSelector (si_selector intent) \<and>
   lower (si_selector intent) \<in> lower ` set (sp_allowedSelectors policy)"
  by (auto simp: checkCalldata_def split: if_splits option.splits)

lemma checkExpiry_Nil:
  "checkExpiry policy intent now = [] \<longleftrightarrow>
   0 < si_deadlineSec intent \<and> si_createdAtSec intent < si_deadlineSec intent \<and>
   si_deadlineSec intent \<le> si_createdAtSec intent + sp_maxIntentLifetimeSec policy \<and>
   now \<le> si_deadlineSec intent"
  by (auto simp: checkExpiry_def Let_def not_less not_le algebra_simps split: if_splits)

lemma checkReplay_Nil:
  assumes "isHexAddress (si_taker intent)"
  shows "checkReplay sha intent store = [] \<longleftrightarrow>
    lower (si_intentDigest intent) = lower (computeIntentDigest sha intent) \<and>
    \<not> rs_isDigestConsumed store (si_intentDigest intent) \<and>
    \<not> rs_isNonceUsed store (si_taker intent) (si_nonce intent)"
  using assms by (auto simp: checkReplay_def split: if_splits)

text \<open>The permitted maximum for a positive minimum, as two divisions that round down.\<close>

lemma permittedMax_div:
  assumes "0 < m" and "0 < si_sellAmountRaw intent" "0 < pb_refSellAmountRaw p" "0 < pb_refBuyAmountRaw p"
  shows "m \<le> permittedMax policy intent p \<longleftrightarrow>
    m \<le> pb_refBuyAmountRaw p * si_sellAmountRaw intent div pb_refSellAmountRaw p *
      (10000 + sp_maxPriceDeviationBps policy) div 10000"
proof -
  let ?q = "pb_refBuyAmountRaw p * si_sellAmountRaw intent div pb_refSellAmountRaw p"
  let ?x = "?q * (10000 + sp_maxPriceDeviationBps policy)"
  have "0 \<le> pb_refBuyAmountRaw p * si_sellAmountRaw intent" using assms by simp
  then have pm: "permittedMax policy intent p = bigint_div ?x 10000"
    using assms(3) by (simp add: permittedMax_def floorDiv_def)
  show ?thesis
  proof (cases "0 \<le> ?x")
    case True
    then show ?thesis unfolding pm by simp
  next
    case False
    then have "?x div 10000 < 0" by (simp add: neg_imp_zdiv_neg_iff)
    moreover have "sgn ?x * (\<bar>?x\<bar> div 10000) \<le> 0"
      using False by (intro mult_nonpos_nonneg) (auto simp: sgn_if pos_imp_zdiv_nonneg_iff)
    then have "permittedMax policy intent p \<le> 0" unfolding pm by (simp add: bigint_div_def)
    ultimately show ?thesis using assms(1) by simp
  qed
qed

text \<open>
  C26: the guard calls an intent ready exactly when every guard is satisfied:
  the policy is of this guard's version, names a registry, has its slippage defaults in order, a
  lifetime limit of at most 300 seconds, and is not paused;
  the intent is for the policy's chain, registry, feature and an allowed pair;
  it sells a positive amount within the cap of its token, asks for a positive minimum and moves no native value;
  the platform fee and the slippage are within the policy's limits and an integrator fee is there only
  if it is allowed;
  the calldata hash is well formed and the selector is well formed and on the allow-list;
  the taker is the policy's resolved one;
  the target is the current router of a complete, unpaused observation of the policy's registry and feature
  that is dated, not in the future and not older than the limit;
  the price comes from an allowed source, is for the pair of the intent, is positive, not in the
  future and not older than its limit, and the minimum is within the tolerated excess over it;
  the intent lives at most as long as the policy allows and has not expired;
  it carries the digest of its own fields, and neither the digest nor the nonce was used.
  A ready result has no failure and reports readiness offline only.
\<close>

theorem evaluateGuardedSettlement_ready:
  assumes "intent = gi_intent input" and "policy = gi_policy input" and "now = gi_nowSec input"
  shows "(rr_ready (evaluateGuardedSettlement sha256Hex dateParse input) \<longleftrightarrow>
    sp_guardVersion policy = GUARD_VERSION \<and> isHexAddress (sp_registry policy) \<and>
    0 < sp_maxSlippageBps policy \<and> 0 \<le> sp_defaultSlippageBps policy \<and>
    sp_defaultSlippageBps policy \<le> sp_maxSlippageBps policy \<and>
    0 < sp_maxIntentLifetimeSec policy \<and> sp_maxIntentLifetimeSec policy \<le> 300 \<and> \<not> sp_paused policy \<and>
    si_chainId intent = sp_chainId policy \<and> lower (si_registry intent) = lower (sp_registry policy) \<and>
    si_feature intent = sp_feature policy \<and>
    (\<exists>q\<in>set (sp_allowedPairs policy). lower (tp_sellToken q) = lower (si_sellToken intent) \<and>
       lower (tp_buyToken q) = lower (si_buyToken intent)) \<and>
    0 < si_sellAmountRaw intent \<and> 0 < si_minBuyAmountRaw intent \<and> si_txValue intent = 0 \<and>
    (\<exists>cap. map_of (sp_maxSellAmountRawByToken policy) (lower (si_sellToken intent)) = Some (Some cap) \<and>
       si_sellAmountRaw intent \<le> cap) \<and>
    0 \<le> si_platformFeeBps intent \<and> si_platformFeeBps intent \<le> sp_maxPlatformFeeBps policy \<and>
    (si_integratorFeePresent intent \<longrightarrow> sp_integratorFeeAllowed policy) \<and>
    0 \<le> si_slippageBps intent \<and> si_slippageBps intent \<le> sp_maxSlippageBps policy \<and>
    (\<exists>h. si_calldataHash intent = Some h \<and> hex_string 64 h) \<and> hex_string 8 (si_selector intent) \<and>
    lower (si_selector intent) \<in> lower ` set (sp_allowedSelectors policy) \<and>
    (\<exists>t. sp_finalTaker policy = Some t \<and> isHexAddress t \<and> isHexAddress (si_taker intent) \<and>
       lower (si_taker intent) = lower t \<and> lower t \<noteq> ZERO_ADDRESS \<and> lower t \<noteq> DEAD_ADDRESS) \<and>
    (\<exists>obs reg r prev next at ms age. gi_registryObservation input = Some obs \<and> \<not> missingField obs \<and>
       ro_registry obs = Some reg \<and> isHexAddress reg \<and> lower reg = lower (sp_registry policy) \<and>
       ro_feature obs = Some (sp_feature policy) \<and>
       ro_currentRouter obs = Some r \<and> isHexAddress r \<and> lower r \<noteq> ZERO_ADDRESS \<and>
       ro_previousRouter obs = Some prev \<and> isHexAddress prev \<and>
       ro_nextRouter obs = Some next \<and> isHexAddress next \<and> ro_paused obs = Some False \<and>
       isHexAddress (si_expectedTarget intent) \<and> lower (si_expectedTarget intent) = lower r \<and>
       ro_observationTimeUtc obs = Some at \<and> dateParse at = Some ms \<and>
       sp_maxRegistryObservationAgeSec policy = Some age \<and> ms div 1000 \<le> now \<and> now \<le> ms div 1000 + age) \<and>
    (\<exists>p t age. gi_priceObservation input = Some p \<and> sp_maxPriceObservationAgeSec policy = Some age \<and>
       lower (pb_source p) \<in> lower ` set (sp_allowedPriceSources policy) \<and>
       lower (pb_sellToken p) = lower (si_sellToken intent) \<and> lower (pb_buyToken p) = lower (si_buyToken intent) \<and>
       0 < pb_refSellAmountRaw p \<and> 0 < pb_refBuyAmountRaw p \<and>
       pb_observedTimeSec p = Some t \<and> t \<le> now \<and> now \<le> t + age \<and>
       si_minBuyAmountRaw intent \<le>
         pb_refBuyAmountRaw p * si_sellAmountRaw intent div pb_refSellAmountRaw p *
           (10000 + sp_maxPriceDeviationBps policy) div 10000) \<and>
    0 < si_deadlineSec intent \<and> si_createdAtSec intent < si_deadlineSec intent \<and>
    si_deadlineSec intent \<le> si_createdAtSec intent + sp_maxIntentLifetimeSec policy \<and>
    now \<le> si_deadlineSec intent \<and>
    lower (si_intentDigest intent) = lower (computeIntentDigest sha256Hex intent) \<and>
    \<not> rs_isDigestConsumed (gi_replayStore input) (si_intentDigest intent) \<and>
    \<not> rs_isNonceUsed (gi_replayStore input) (si_taker intent) (si_nonce intent)) \<and>
   (rr_ready (evaluateGuardedSettlement sha256Hex dateParse input) \<longleftrightarrow>
      rr_failures (evaluateGuardedSettlement sha256Hex dateParse input) = []) \<and>
   (rr_ready (evaluateGuardedSettlement sha256Hex dateParse input) \<longleftrightarrow>
      rr_status (evaluateGuardedSettlement sha256Hex dateParse input) = READY_OFFLINE_ONLY)"
proof -
  have registry: "checkRegistry dateParse policy intent (gi_registryObservation input) now = [] \<longleftrightarrow>
    (\<exists>obs reg r prev next at ms age. gi_registryObservation input = Some obs \<and> \<not> missingField obs \<and>
       ro_registry obs = Some reg \<and> isHexAddress reg \<and> lower reg = lower (sp_registry policy) \<and>
       ro_feature obs = Some (sp_feature policy) \<and>
       ro_currentRouter obs = Some r \<and> isHexAddress r \<and> lower r \<noteq> ZERO_ADDRESS \<and>
       ro_previousRouter obs = Some prev \<and> isHexAddress prev \<and>
       ro_nextRouter obs = Some next \<and> isHexAddress next \<and> ro_paused obs = Some False \<and>
       isHexAddress (si_expectedTarget intent) \<and> lower (si_expectedTarget intent) = lower r \<and>
       ro_observationTimeUtc obs = Some at \<and> dateParse at = Some ms \<and>
       sp_maxRegistryObservationAgeSec policy = Some age \<and> ms div 1000 \<le> now \<and> now \<le> ms div 1000 + age)"
    unfolding checkRegistry_Nil reconciled_iff by (auto simp: missingField_def algebra_simps)
  have price: "checkPrice policy intent (gi_priceObservation input) now = [] \<longleftrightarrow>
    (\<exists>p t age. gi_priceObservation input = Some p \<and> sp_maxPriceObservationAgeSec policy = Some age \<and>
       lower (pb_source p) \<in> lower ` set (sp_allowedPriceSources policy) \<and>
       lower (pb_sellToken p) = lower (si_sellToken intent) \<and> lower (pb_buyToken p) = lower (si_buyToken intent) \<and>
       0 < pb_refSellAmountRaw p \<and> 0 < pb_refBuyAmountRaw p \<and>
       pb_observedTimeSec p = Some t \<and> t \<le> now \<and> now \<le> t + age \<and>
       si_minBuyAmountRaw intent \<le>
         pb_refBuyAmountRaw p * si_sellAmountRaw intent div pb_refSellAmountRaw p *
           (10000 + sp_maxPriceDeviationBps policy) div 10000)"
    if "0 < si_minBuyAmountRaw intent" "0 < si_sellAmountRaw intent"
    unfolding checkPrice_Nil using permittedMax_div [OF that] by (auto simp: algebra_simps)
  have never: "READY_OFFLINE_ONLY \<notin> set (guardFailures sha256Hex dateParse input)"
  proof -
    have "READY_OFFLINE_ONLY \<notin> set (checkPolicy P)" "READY_OFFLINE_ONLY \<notin> set (checkIdentity P I)"
      "READY_OFFLINE_ONLY \<notin> set (checkAmounts P I)" "READY_OFFLINE_ONLY \<notin> set (checkFeesAndSlippage P I)"
      "READY_OFFLINE_ONLY \<notin> set (checkCalldata P I)" "READY_OFFLINE_ONLY \<notin> set (checkTaker P I)"
      "READY_OFFLINE_ONLY \<notin> set (checkExpiry P I N)" "READY_OFFLINE_ONLY \<notin> set (checkReplay sha256Hex I S)"
      for P I N S
      by (simp_all add: guard_parts Let_def split: option.split)
    moreover have "READY_OFFLINE_ONLY \<notin> set (checkRegistry dateParse P I R N)"
      "READY_OFFLINE_ONLY \<notin> set (checkPrice P I Q N)" for P I R Q N
      by (simp_all add: checkRegistry_def checkPrice_def Let_def split: option.split)
    ultimately show ?thesis by (simp add: guardFailures_def Let_def)
  qed
  show ?thesis
  proof (intro conjI)
    show "rr_ready (evaluateGuardedSettlement sha256Hex dateParse input) \<longleftrightarrow>
        rr_failures (evaluateGuardedSettlement sha256Hex dateParse input) = []"
      by (simp add: evaluateGuardedSettlement_def Let_def)
    show "rr_ready (evaluateGuardedSettlement sha256Hex dateParse input) \<longleftrightarrow>
        rr_status (evaluateGuardedSettlement sha256Hex dateParse input) = READY_OFFLINE_ONLY"
      using never by (auto simp: evaluateGuardedSettlement_def Let_def dest: hd_in_set)
  qed (unfold ready_parts assms(1-3) [symmetric] checkPolicy_Nil checkIdentity_Nil checkAmounts_Nil
      checkFeesAndSlippage_Nil checkCalldata_Nil checkTaker_Nil isSelector_def registry checkExpiry_Nil,
      use price checkReplay_Nil in blast)
qed

text \<open>
  C27: once an intent is consumed in the in-memory store, whatever is consumed before and after it, no
  intent with the same digest or with the same taker and nonce is ready again, at any time and
  under any policy.
\<close>

theorem consumed_intent_never_ready:
  assumes "(d, t, n) \<in> set log" and "lower d = lower (si_intentDigest (gi_intent input)) \<or>
      lower t = lower (si_taker (gi_intent input)) \<and> n = si_nonce (gi_intent input)"
    and "gi_replayStore input = inMemory (fold (\<lambda>(d, t, n). markConsumed d t n) log store)"
  shows "\<not> rr_ready (evaluateGuardedSettlement sha256Hex dateParse input)"
proof
  assume r: "rr_ready (evaluateGuardedSettlement sha256Hex dateParse input)"
  let ?s = "mem.consume_all log store"
  have s: "gi_replayStore input = inMemory ?s" using assms(3) by (simp add: mem.consume_all_def)
  have "isHexAddress (si_taker (gi_intent input))" using r unfolding ready_parts checkTaker_Nil by blast
  moreover have "checkReplay sha256Hex (gi_intent input) (gi_replayStore input) = []"
    using r unfolding ready_parts by blast
  ultimately have "\<not> isDigestConsumed ?s (si_intentDigest (gi_intent input))"
    "\<not> isNonceUsed ?s (si_taker (gi_intent input)) (si_nonce (gi_intent input))"
    by (auto simp: checkReplay_def s inMemory_def split: if_splits)
  then show False
    using assms(1,2) unfolding mem.digest_consume_all mem.nonce_consume_all by blast
qed

text \<open>
  The production candidate policy is closed: no intent, observation, store or time makes it ready, its
  refusals always include the unapproved selector, the unresolved taker, the unresolved cap and the
  unresolved price source, and it reports all five open gates.
\<close>

theorem productionCandidatePolicy_closed:
  "\<not> rr_ready (evaluateGuardedSettlement sha256Hex dateParse (input\<lparr>gi_policy := productionCandidatePolicy\<rparr>)) \<and>
   {SELECTOR_UNAPPROVED, TAKER_UNRESOLVED, AMOUNT_LIMIT_UNRESOLVED, PRICE_SOURCE_UNRESOLVED}
     \<subseteq> set (rr_failures (evaluateGuardedSettlement sha256Hex dateParse (input\<lparr>gi_policy := productionCandidatePolicy\<rparr>))) \<and>
   rr_sanitizedPlan (evaluateGuardedSettlement sha256Hex dateParse (input\<lparr>gi_policy := productionCandidatePolicy\<rparr>)) = None \<and>
   computeRemainingGates productionCandidatePolicy =
     [APPROVED_SELECTOR, FINAL_TAKER, PER_TOKEN_AMOUNT_CAP, DATED_REGISTRY_STRATEGY, TRUSTED_PRICE_SOURCE]"
proof -
  let ?p = productionCandidatePolicy and ?i = "gi_intent input"
  have parts: "SELECTOR_UNAPPROVED \<in> set (checkCalldata ?p ?i)" "TAKER_UNRESOLVED \<in> set (checkTaker ?p ?i)"
    "PRICE_SOURCE_UNRESOLVED \<in> set (checkPrice ?p ?i (gi_priceObservation input) (gi_nowSec input))"
    "AMOUNT_LIMIT_UNRESOLVED \<in> set (checkAmounts ?p ?i)"
    by (simp_all add: productionCandidatePolicy_def checkCalldata_def checkTaker_def checkPrice_def
        checkAmounts_def capOf_def)
  then have f: "{SELECTOR_UNAPPROVED, TAKER_UNRESOLVED, AMOUNT_LIMIT_UNRESOLVED, PRICE_SOURCE_UNRESOLVED}
      \<subseteq> set (guardFailures sha256Hex dateParse (input\<lparr>gi_policy := ?p\<rparr>))"
    by (auto simp: guardFailures_def Let_def)
  moreover have "guardFailures sha256Hex dateParse (input\<lparr>gi_policy := ?p\<rparr>) \<noteq> []" using f by force
  moreover have "computeRemainingGates ?p =
     [APPROVED_SELECTOR, FINAL_TAKER, PER_TOKEN_AMOUNT_CAP, DATED_REGISTRY_STRATEGY, TRUSTED_PRICE_SOURCE]"
    by (simp add: computeRemainingGates_def productionCandidatePolicy_def capOf_def)
  ultimately show ?thesis by (simp add: evaluateGuardedSettlement_def Let_def)
qed

subsection \<open>What a digest commits to\<close>

lemma join_bar_snoc: "xs \<noteq> [] \<Longrightarrow> join_bar (xs @ [y]) = join_bar xs @ ''|'' @ y"
  by (induction xs rule: join_bar.induct) auto

lemma join_bar_inj:
  assumes "length ys = length zs" and "\<forall>s\<in>set ys \<union> set zs. CHR ''|'' \<notin> set s"
    and "join_bar (v # ys) = join_bar (w # zs)"
  shows "v = w \<and> ys = zs"
  using assms
proof (induction ys arbitrary: zs rule: rev_induct)
  case Nil
  then show ?case by simp
next
  case (snoc y ys)
  then obtain z zs' where zs: "zs = zs' @ [z]" by (cases zs rule: rev_cases) auto
  have "join_bar (v # ys) @ ''|'' @ y = join_bar (w # zs') @ ''|'' @ z"
    using snoc.prems(3) join_bar_snoc [of "v # ys" y] join_bar_snoc [of "w # zs'" z] by (simp add: zs)
  then have "rev y @ CHR ''|'' # rev (join_bar (v # ys)) = rev z @ CHR ''|'' # rev (join_bar (w # zs'))"
    by (metis append.assoc append_Cons append_Nil rev.simps(2) rev_append rev_singleton_conv)
  then have "y = z" "join_bar (v # ys) = join_bar (w # zs')"
    using snoc.prems(2) sep_inj [of "CHR ''|''" "rev y" "rev z"] by (auto simp: zs)
  with snoc.IH [of zs'] snoc.prems zs show ?case by simp
qed


definition wellFormedIntent :: "SettlementIntent \<Rightarrow> bool" where
  "wellFormedIntent i \<longleftrightarrow>
     list_all isHexAddress [si_registry i, si_taker i, si_expectedTarget i, si_sellToken i, si_buyToken i] \<and>
     isSelector (si_selector i) \<and> (case si_calldataHash i of None \<Rightarrow> False | Some h \<Rightarrow> hex_string 64 h)"

lemma wellFormed_bar_free:
  assumes "wellFormedIntent i" and "s \<in> set (drop 2 (digestParts i))"
  shows "CHR ''|'' \<notin> set s"
proof -
  have "CHR ''|'' \<notin> set (lower v)" if "hex_string n v" for n v
    using hex_string_bar [OF hex_string_lower [OF that]] .
  then show ?thesis
    using assms by (auto simp: wellFormedIntent_def digestParts_def isHexAddress_def isSelector_def
        split: option.splits if_splits)
qed

lemma digestParts_eq:
  assumes "wellFormedIntent i" and "wellFormedIntent j"
    and "join_bar (digestParts i) = join_bar (digestParts j)"
  shows "si_version i = si_version j \<and> drop 2 (digestParts i) = drop 2 (digestParts j)"
proof -
  let ?h = "''BPS-GUARDED-SETTLEMENT''"
  have split: "join_bar (digestParts k) = join_bar ((?h @ ''|'' @ si_version k) # drop 2 (digestParts k))" for k
    by (simp add: digestParts_def)
  have "length (drop 2 (digestParts i)) = length (drop 2 (digestParts j))" by (simp add: digestParts_def)
  moreover have "\<forall>s\<in>set (drop 2 (digestParts i)) \<union> set (drop 2 (digestParts j)). CHR ''|'' \<notin> set s"
    using wellFormed_bar_free assms(1,2) by blast
  ultimately have "?h @ ''|'' @ si_version i = ?h @ ''|'' @ si_version j \<and>
      drop 2 (digestParts i) = drop 2 (digestParts j)"
    using assms(3) unfolding split by (rule join_bar_inj)
  then show ?thesis by simp
qed

text \<open>
  The digest of a well-formed intent commits to its version, chain, registry, feature, taker, nonce,
  deadline, target, selector, tokens, amounts and calldata hash: two intents with the same digest agree on
  all of them, letter case aside, as long as SHA-256 does not collide on their two texts.
\<close>

theorem computeIntentDigest_commits:
  assumes "wellFormedIntent i" and "wellFormedIntent j"
    and "computeIntentDigest sha256Hex i = computeIntentDigest sha256Hex j"
    and "sha256Hex (join_bar (digestParts i)) = sha256Hex (join_bar (digestParts j)) \<Longrightarrow>
         join_bar (digestParts i) = join_bar (digestParts j)"
  shows "si_version i = si_version j \<and> si_chainId i = si_chainId j \<and> si_feature i = si_feature j \<and>
    si_nonce i = si_nonce j \<and> si_deadlineSec i = si_deadlineSec j \<and>
    si_sellAmountRaw i = si_sellAmountRaw j \<and> si_minBuyAmountRaw i = si_minBuyAmountRaw j \<and>
    lower (si_registry i) = lower (si_registry j) \<and> lower (si_taker i) = lower (si_taker j) \<and>
    lower (si_expectedTarget i) = lower (si_expectedTarget j) \<and> lower (si_selector i) = lower (si_selector j) \<and>
    lower (si_sellToken i) = lower (si_sellToken j) \<and> lower (si_buyToken i) = lower (si_buyToken j) \<and>
    map_option lower (si_calldataHash i) = map_option lower (si_calldataHash j)"
proof -
  have "join_bar (digestParts i) = join_bar (digestParts j)"
    using assms(3) by (intro assms(4)) (simp add: computeIntentDigest_def)
  note eq = digestParts_eq [OF assms(1,2) this]
  obtain h k where "si_calldataHash i = Some h" "hex_string 64 h" "si_calldataHash j = Some k" "hex_string 64 k"
    using assms(1,2) by (auto simp: wellFormedIntent_def split: option.splits)
  moreover have "h \<noteq> []" "k \<noteq> []" using calculation by (auto simp: hex_string_def)
  ultimately show ?thesis using eq by (simp add: digestParts_def)
qed

text \<open>
  C28: the on-chain digest of an intent prepared from an accepted opaque quote commits to the quote's complete
  calldata: a second intent with the same digest is the same intent, and its quote carries the same
  calldata, so also the approved selector, as long as the encoder and keccak do not
  collide on the values at hand.
\<close>

theorem computeOnchainIntentDigest_commits:
  assumes "ov_ok (validateOpaqueQuoteForIntent keccak256 q1 c1)"
    and "oi_calldataHash i = ov_calldataHash (validateOpaqueQuoteForIntent keccak256 q1 c1)"
    and "oi_calldataHash j = ov_calldataHash (validateOpaqueQuoteForIntent keccak256 q2 c2)"
    and "computeOnchainIntentDigest keccakText keccak256 encode i =
         computeOnchainIntentDigest keccakText keccak256 encode j"
    and "inj_on keccak256 {encode (onchainFields keccakText i), encode (onchainFields keccakText j),
           oq_callData q1, oq_callData q2}"
    and "inj_on encode {onchainFields keccakText i, onchainFields keccakText j}"
  shows "i = j \<and> oq_callData q1 = oq_callData q2 \<and>
    lower (take 10 (oq_callData q2)) = lower OPAQUE_SETTLEMENT_SELECTOR"
proof -
  have "encode (onchainFields keccakText i) = encode (onchainFields keccakText j)"
    by (rule inj_onD [OF assms(5) assms(4) [unfolded computeOnchainIntentDigest_def]]) blast+
  then have "onchainFields keccakText i = onchainFields keccakText j"
    by (rule inj_onD [OF assms(6)]) blast+
  then have ij: "i = j" by (cases i; cases j) (simp add: onchainFields_def)
  then have "keccak256 (oq_callData q1) = keccak256 (oq_callData q2)"
    using assms(2,3) by (simp add: validateOpaqueQuoteForIntent_def Let_def)
  then have cd: "oq_callData q1 = oq_callData q2" by (rule inj_onD [OF assms(5)]) blast+
  have "opaqueFailures q1 c1 = []" using assms(1) by (simp add: validateOpaqueQuoteForIntent_def Let_def)
  then have "lower (take 10 (oq_callData q1)) = lower OPAQUE_SETTLEMENT_SELECTOR"
    unfolding opaqueFailures_def Let_def append_is_Nil_conv by (simp split: if_splits)
  with ij cd show ?thesis by simp
qed

subsection \<open>A ready intent\<close>

definition ex_taker :: string where "ex_taker = ''0x'' @ replicate 40 (CHR ''a'')"

definition ex_settlement_policy :: SettlementPolicy where
  "ex_settlement_policy = productionCandidatePolicy
     \<lparr>sp_maxSellAmountRawByToken := [(lower WETH, Some 1000)], sp_allowedSelectors := [''0x77963966''],
      sp_maxPriceObservationAgeSec := Some 60, sp_maxRegistryObservationAgeSec := Some 60,
      sp_finalTaker := Some ex_taker, sp_allowedPriceSources := [''feed'']\<rparr>"

definition ex_intent :: SettlementIntent where
  "ex_intent = buildIntent id
     \<lparr>si_version = [], si_chainId = 4663, si_registry = OFFICIAL_REGISTRY, si_feature = 2,
      si_sellToken = WETH, si_buyToken = NVDA, si_sellAmountRaw = 1000, si_minBuyAmountRaw = 500,
      si_expectedTarget = ''0x'' @ replicate 40 (CHR ''B''), si_selector = ''0x77963966'',
      si_calldataHash = Some (''0x'' @ replicate 64 (CHR ''c'')), si_txValue = 0, si_platformFeeBps = 5,
      si_integratorFeePresent = False, si_slippageBps = 50, si_taker = ex_taker, si_nonce = 7,
      si_intentDigest = [], si_createdAtSec = 900, si_deadlineSec = 1100\<rparr>"

definition ex_observation :: RegistryFeatureObservation where
  "ex_observation =
     \<lparr>ro_registry = Some OFFICIAL_REGISTRY, ro_feature = Some 2,
      ro_currentRouter = Some (''0x'' @ replicate 40 (CHR ''b'')), ro_previousRouter = Some ZERO_ADDRESS,
      ro_nextRouter = Some ZERO_ADDRESS, ro_paused = Some False, ro_blockNumber = Some 9,
      ro_observationTimeUtc = Some ''now''\<rparr>"

definition ex_settlement_input :: "ReplayStore \<Rightarrow> GuardedSettlementInput" where
  "ex_settlement_input store =
     \<lparr>gi_policy = ex_settlement_policy, gi_intent = ex_intent, gi_registryObservation = Some ex_observation,
      gi_priceObservation = Some \<lparr>pb_source = ''FEED'', pb_observedTimeSec = Some 990, pb_observedBlock = None,
        pb_sellToken = WETH, pb_buyToken = NVDA, pb_refSellAmountRaw = 2000, pb_refBuyAmountRaw = 1000,
        pb_sellDecimals = 18, pb_buyDecimals = 18\<rparr>,
      gi_replayStore = store, gi_nowSec = 1000\<rparr>"

theorem evaluateGuardedSettlement_ready_witness:
  "rr_status (evaluateGuardedSettlement id (\<lambda>_. Some 980000)
     (ex_settlement_input (inMemory (newReplayStore [] [])))) = READY_OFFLINE_ONLY \<and>
   0 < si_minBuyAmountRaw ex_intent \<and>
   rr_status (evaluateGuardedSettlement id (\<lambda>_. Some 930000)
     (ex_settlement_input (inMemory (newReplayStore [] [])))) \<noteq> READY_OFFLINE_ONLY"
proof -
  let ?in = "ex_settlement_input (inMemory (newReplayStore [] []))"
  have ready: "rr_ready (evaluateGuardedSettlement id (\<lambda>_. Some 980000) ?in)" by code_simp
  have stale: "\<not> rr_ready (evaluateGuardedSettlement id (\<lambda>_. Some 930000) ?in)" by code_simp
  have intent: "gi_intent ?in = ex_intent" by (simp add: ex_settlement_input_def)
  note th = evaluateGuardedSettlement_ready [OF refl refl refl, where input = ?in and sha256Hex = id]
  have "0 < si_minBuyAmountRaw (gi_intent ?in)"
    using conjunct1 [OF th, THEN iffD1, OF ready] by (elim conjE)
  moreover note conjunct2 [OF conjunct2 [OF th], THEN iffD1, OF ready]
  moreover note conjunct2 [OF conjunct2 [OF th [of "\<lambda>_. Some 930000"]]]
  ultimately show ?thesis using stale unfolding intent by simp
qed

theorem consumed_intent_never_ready_witness:
  "\<not> rr_ready (evaluateGuardedSettlement id (\<lambda>_. Some 980000)
     (ex_settlement_input (inMemory (fold (\<lambda>(d, t, n). markConsumed d t n) [(''0xab'', ex_taker, 7)]
        (newReplayStore [] [])))))"
  by (rule consumed_intent_never_ready [of "''0xab''" ex_taker 7 "[(''0xab'', ex_taker, 7)]" _ "newReplayStore [] []"])
    (simp_all add: ex_settlement_input_def ex_intent_def buildIntent_def Let_def)

theorem computeIntentDigest_commits_witness:
  "si_nonce ex_intent = si_nonce (ex_intent\<lparr>si_taker := ''0x'' @ replicate 40 (CHR ''A''), si_createdAtSec := 5\<rparr>)"
proof -
  let ?j = "ex_intent\<lparr>si_taker := ''0x'' @ replicate 40 (CHR ''A''), si_createdAtSec := 5\<rparr>"
  have "wellFormedIntent ex_intent" "wellFormedIntent ?j" by code_simp+
  moreover have "computeIntentDigest id ex_intent = computeIntentDigest id ?j" by code_simp
  ultimately show ?thesis using computeIntentDigest_commits [of ex_intent ?j id] by (simp only: id_apply)
qed

definition ex_opaque :: OpaqueQuote where
  "ex_opaque = \<lparr>oq_settlement = ''allowance'', oq_txTo = ''0xR'', oq_txValue = ''0'', oq_selector = ''0x77963966'',
     oq_callData = ''0x7796396600'', oq_sellToken = ''0xW'', oq_buyToken = ''0xN'', oq_taker = ''0xE'',
     oq_sellAmountRaw = 10, oq_minBuyAmountRaw = 5, oq_platformFeeBps = 5, oq_integratorFeePresent = False,
     oq_allowanceSpender = None, oq_expirySec = Some 11\<rparr>"

definition ex_opaque_context :: OpaqueQuoteContext where
  "ex_opaque_context = \<lparr>oc_chainId = 4663, oc_resolvedRouter = ''0xr'', oc_executor = ''0xe'', oc_weth = ''0xw'',
     oc_nvda = ''0xn'', oc_maxPlatformFeeBps = 5, oc_nowSec = 10, oc_intentSellAmountRaw = 10,
     oc_intentMinBuyAmountRaw = 5\<rparr>"

definition ex_onchain :: OnchainDigestInput where
  "ex_onchain = \<lparr>oi_chainId = 4663, oi_executor = ''0xe'', oi_registry = ''0xg'', oi_feature = 2,
     oi_target = ''0xr'', oi_selector = ''0x77963966'', oi_sellToken = ''0xw'', oi_buyToken = ''0xn'',
     oi_sellAmountRaw = 10, oi_minBuyAmountRaw = 5, oi_platformFeeBps = 5, oi_slippageBps = 50,
     oi_taker = ''0xe'', oi_nonce = 1, oi_deadlineSec = 99, oi_calldataHash = ''0x7796396600''\<rparr>"

theorem computeOnchainIntentDigest_commits_witness:
  "lower (take 10 (oq_callData ex_opaque)) = lower OPAQUE_SETTLEMENT_SELECTOR"
proof -
  have "ov_ok (validateOpaqueQuoteForIntent id ex_opaque ex_opaque_context)" by code_simp
  then show ?thesis
    using computeOnchainIntentDigest_commits [of id ex_opaque ex_opaque_context ex_onchain ex_onchain
        ex_opaque ex_opaque_context id "\<lambda>_. []"]
    by (simp add: validateOpaqueQuoteForIntent_def ex_onchain_def ex_opaque_def Let_def)
qed

end
