(* ===== verification/Deployment.thy ===== *)
theory Deployment
  imports PodModel Serialize
begin

text \<open>
  The deployment boundary of the web application: \<open>apps/web/lib/manifest.ts\<close>. The schema library is
  third-party code: the result of \<open>manifestSchema.safeParse\<close> is the argument of \<open>resolveDeployment\<close>,
  \<open>Inl\<close> its issues or \<open>Inr\<close> the parsed manifest. The locale \<open>write_gate\<close> is the contract every
  manifest boundary of the application keeps between resolving, the code check and the write permission.
\<close>

section \<open>The contract of a write gate\<close>

locale write_gate =
  fixes allowed :: "'s \<Rightarrow> bool"
    and enable :: "'s \<Rightarrow> (string \<Rightarrow> bool) \<Rightarrow> 's"
    and required :: "'s \<Rightarrow> string list option"
  assumes enable_allowed:
      "allowed (enable s code) \<longleftrightarrow> (\<exists>rs. required s = Some rs \<and> list_all (\<lambda>a. code (lower a)) rs)"
    and enable_required: "required (enable s code) = required s"
begin

lemma last_check_decides: "allowed (enable (enable s code) code') \<longleftrightarrow> allowed (enable s code')"
  by (simp add: enable_allowed enable_required)

lemma lost_code_closes:
  "required s = Some rs \<Longrightarrow> a \<in> set rs \<Longrightarrow> \<not> code (lower a) \<Longrightarrow> \<not> allowed (enable s code)"
  by (auto simp: enable_allowed list_all_iff)

lemma more_code_keeps:
  "(\<And>a. code a \<Longrightarrow> code' a) \<Longrightarrow> allowed (enable s code) \<Longrightarrow> allowed (enable s code')"
  by (auto simp: enable_allowed list_all_iff)

end

section \<open>Errors of the planners\<close>

text \<open>
  What an operation of the application throws: an error of its own, one of a library it calls, or the
  \<open>RangeError\<close> of a division by zero.
\<close>

datatype app_error = AppError string | LibraryError | RangeError

section \<open>Addresses\<close>

definition ROBINHOOD_CHAIN_ID :: int where "ROBINHOOD_CHAIN_ID = 4663"

definition ADDRESS_RE :: "string \<Rightarrow> bool" where "ADDRESS_RE a = hex_string 40 a"

definition ZERO :: string where "ZERO = ''0x'' @ replicate 40 (CHR ''0'')"

definition PLACEHOLDERS :: "string list" where
  "PLACEHOLDERS = js_set (map lower
     [ZERO,
      ''0x'' @ replicate 39 (CHR ''0'') @ ''1'',
      ''0x'' @ replicate 36 (CHR ''0'') @ ''dead'',
      ''0x'' @ replicate 40 (CHR ''e''),
      ''0x'' @ replicate 40 (CHR ''1'')])"

definition isRealAddress :: "string option \<Rightarrow> bool" where
  "isRealAddress a =
     (case a of None \<Rightarrow> False | Some x \<Rightarrow> ADDRESS_RE x \<and> lower x \<notin> set PLACEHOLDERS)"

section \<open>The manifest\<close>

datatype DeploymentMode = local_mode | fork_mode | restricted_beta | production_mode

datatype ContractKey = bpsToken | lockingVault | claimManager | rialtoAdapter | coordinator | stockVault
  | uniswapAdapter | tradeRouter

definition contractSet :: "ContractKey list" where
  "contractSet = [bpsToken, lockingVault, claimManager, rialtoAdapter, coordinator, stockVault,
     uniswapAdapter, tradeRouter]"

fun keyName :: "ContractKey \<Rightarrow> string" where
  "keyName bpsToken = ''bpsToken''"
| "keyName lockingVault = ''lockingVault''"
| "keyName claimManager = ''claimManager''"
| "keyName rialtoAdapter = ''rialtoAdapter''"
| "keyName coordinator = ''coordinator''"
| "keyName stockVault = ''stockVault''"
| "keyName uniswapAdapter = ''uniswapAdapter''"
| "keyName tradeRouter = ''tradeRouter''"

datatype VerificationStatus = VERIFIED | BLOCKED

record VerifiedContract =
  vc_address :: string
  vc_runtimeCodeHash :: string
  vc_status :: VerificationStatus

record DeploymentManifest =
  dm_chainId :: int
  dm_sourceCommit :: string
  dm_broadcastReady :: bool
  dm_mode :: "DeploymentMode option"
  dm_isFixture :: "bool option"
  dm_deployer :: "string option"
  dm_weth :: VerifiedContract
  dm_rialtoRegistry :: VerifiedContract
  dm_swapRouter02 :: VerifiedContract
  dm_predicted :: "ContractKey \<Rightarrow> string option"
  dm_actual :: "ContractKey \<Rightarrow> string option"

definition WRITE_REQUIRED_CONTRACTS :: "ContractKey list" where
  "WRITE_REQUIRED_CONTRACTS = [tradeRouter, lockingVault, claimManager, stockVault, coordinator]"

section \<open>The deployment state\<close>

record LiveDeployment =
  ld_mode :: DeploymentMode
  ld_isFixture :: bool
  ld_sourceCommit :: string
  ld_chainId :: int
  ld_addresses :: "ContractKey \<Rightarrow> string"
  ld_requiredCodeAddresses :: "string list"
  ld_writesEnabled :: bool

datatype DeploymentState =
    Invalid "string list"
  | NotLive string DeploymentMode bool string
  | Live LiveDeployment

definition dquote :: string where "dquote = [char_of (34 :: nat)]"

text \<open>The loop over the contracts: the first one without a real address ends it.\<close>

fun collectAddresses ::
  "(ContractKey \<Rightarrow> string option) \<Rightarrow> ContractKey list \<Rightarrow> ContractKey + (ContractKey \<times> string) list" where
  "collectAddresses actual [] = Inr []"
| "collectAddresses actual (k # ks) =
     (if \<not> isRealAddress (actual k) then Inl k
      else rbind (collectAddresses actual ks) (\<lambda>m. Inr ((k, the (actual k)) # m)))"

definition lookupAddress :: "(ContractKey \<times> string) list \<Rightarrow> ContractKey \<Rightarrow> string" where
  "lookupAddress m k = (case map_of m k of Some a \<Rightarrow> a | None \<Rightarrow> [])"

definition resolveDeployment :: "string list + DeploymentManifest \<Rightarrow> DeploymentState" where
  "resolveDeployment parsed =
     (case parsed of
        Inl issues \<Rightarrow> Invalid issues
      | Inr m \<Rightarrow>
          (let mode = (case dm_mode m of Some k \<Rightarrow> k
               | None \<Rightarrow> if dm_broadcastReady m then production_mode else local_mode);
               isFixture = (dm_isFixture m = Some True)
           in if dm_chainId m \<noteq> ROBINHOOD_CHAIN_ID
              then Invalid [''chainId '' @ dec_of_int (dm_chainId m) @ '' != '' @ dec_of_int ROBINHOOD_CHAIN_ID]
              else if \<not> dm_broadcastReady m
              then NotLive ''manifest is not broadcast-ready (dry-run): live protocol writes are disabled''
                     mode isFixture (dm_sourceCommit m)
              else
                (case collectAddresses (dm_actual m) contractSet of
                   Inl k \<Rightarrow> NotLive (''contract '' @ dquote @ keyName k @ dquote
                       @ '' has no valid deployed address (null/zero/placeholder/malformed)'')
                       mode isFixture (dm_sourceCommit m)
                 | Inr addresses \<Rightarrow>
                     Live \<lparr>ld_mode = mode, ld_isFixture = isFixture, ld_sourceCommit = dm_sourceCommit m,
                       ld_chainId = dm_chainId m, ld_addresses = lookupAddress addresses,
                       ld_requiredCodeAddresses = map (lookupAddress addresses) WRITE_REQUIRED_CONTRACTS,
                       ld_writesEnabled = False\<rparr>)))"

text \<open>\<open>codePresent a\<close> stands for \<open>codePresent[a] === true\<close>.\<close>

fun enableWrites :: "DeploymentState \<Rightarrow> (string \<Rightarrow> bool) \<Rightarrow> DeploymentState" where
  "enableWrites (Live d) codePresent =
     (if ld_isFixture d then Live (d\<lparr>ld_writesEnabled := False\<rparr>)
      else Live (d\<lparr>ld_writesEnabled := list_all (\<lambda>a. codePresent (lower a)) (ld_requiredCodeAddresses d)\<rparr>))"
| "enableWrites state codePresent = state"

fun writesAllowed :: "DeploymentState \<Rightarrow> bool" where
  "writesAllowed (Live d) \<longleftrightarrow> ld_writesEnabled d \<and> \<not> ld_isFixture d"
| "writesAllowed state \<longleftrightarrow> False"

section \<open>Lemmas\<close>

fun required_code :: "DeploymentState \<Rightarrow> string list option" where
  "required_code (Live d) = (if ld_isFixture d then None else Some (ld_requiredCodeAddresses d))"
| "required_code state = None"

interpretation deployment: write_gate writesAllowed enableWrites required_code
proof
  fix s code
  show "writesAllowed (enableWrites s code) \<longleftrightarrow>
      (\<exists>rs. required_code s = Some rs \<and> list_all (\<lambda>a. code (lower a)) rs)"
    by (cases s) auto
  show "required_code (enableWrites s code) = required_code s"
    by (cases s) auto
qed

lemma isRealAddress_iff:
  "isRealAddress x \<longleftrightarrow> (\<exists>a. x = Some a \<and> hex_string 40 a \<and> lower a \<notin> set PLACEHOLDERS)"
  by (auto simp: isRealAddress_def ADDRESS_RE_def split: option.split)

lemma hex_string_not_Nil: "hex_string n a \<Longrightarrow> a \<noteq> []"
  by (auto simp: hex_string_def)

lemma collectAddresses_eq_Inr:
  "collectAddresses actual ks = Inr m \<longleftrightarrow>
   list_all (\<lambda>k. isRealAddress (actual k)) ks \<and> m = map (\<lambda>k. (k, the (actual k))) ks"
  by (induction ks arbitrary: m) (auto simp: rbind_eq_Inr)

lemma collectAddresses_eq_Inl:
  "collectAddresses actual ks = Inl k \<Longrightarrow> k \<in> set ks \<and> \<not> isRealAddress (actual k)"
  by (induction ks) (auto simp: rbind_eq_Inl split: if_splits)

lemma lookup_contract:
  "k \<in> set ks \<Longrightarrow> lookupAddress (map (\<lambda>k. (k, the (actual k))) ks) k = the (actual k)"
  by (induction ks) (auto simp: lookupAddress_def)

lemma contractSet_all: "k \<in> set contractSet"
  by (cases k) (simp_all add: contractSet_def)

lemma lookup_all: "lookupAddress (map (\<lambda>k. (k, the (actual k))) contractSet) = (\<lambda>k. the (actual k))"
  by (rule ext) (rule lookup_contract [OF contractSet_all])

lemma resolve_Live:
  "resolveDeployment parsed = Live d \<longleftrightarrow>
   (\<exists>m. parsed = Inr m \<and> dm_chainId m = 4663 \<and> dm_broadcastReady m \<and>
     list_all (\<lambda>k. isRealAddress (dm_actual m k)) contractSet \<and>
     d = \<lparr>ld_mode = (case dm_mode m of Some k \<Rightarrow> k | None \<Rightarrow> production_mode),
          ld_isFixture = (dm_isFixture m = Some True), ld_sourceCommit = dm_sourceCommit m,
          ld_chainId = 4663, ld_addresses = (\<lambda>k. the (dm_actual m k)),
          ld_requiredCodeAddresses = map (\<lambda>k. the (dm_actual m k)) WRITE_REQUIRED_CONTRACTS,
          ld_writesEnabled = False\<rparr>)"
proof (cases parsed)
  case (Inr m)
  show ?thesis
  proof (cases "dm_chainId m = 4663 \<and> dm_broadcastReady m")
    case True
    show ?thesis
    proof (cases "collectAddresses (dm_actual m) contractSet")
      case (Inl k)
      from collectAddresses_eq_Inl [OF this] Inl True show ?thesis
        by (auto simp: resolveDeployment_def \<open>parsed = Inr m\<close> Let_def ROBINHOOD_CHAIN_ID_def list_all_iff)
    next
      case (Inr as)
      have as: "list_all (\<lambda>k. isRealAddress (dm_actual m k)) contractSet"
        "lookupAddress as = (\<lambda>k. the (dm_actual m k))"
        using Inr lookup_all by (auto simp: collectAddresses_eq_Inr)
      with Inr True show ?thesis
        by (auto simp: resolveDeployment_def \<open>parsed = Inr m\<close> Let_def ROBINHOOD_CHAIN_ID_def)
    qed
  qed (auto simp: resolveDeployment_def Inr Let_def ROBINHOOD_CHAIN_ID_def)
qed (simp add: resolveDeployment_def)

lemma resolve_never_writes: "\<not> writesAllowed (resolveDeployment parsed)"
proof (cases "resolveDeployment parsed")
  case (Live d)
  from Live [unfolded resolve_Live] Live show ?thesis by auto
qed simp_all

lemma writes_iff:
  "writesAllowed (enableWrites (resolveDeployment parsed) codePresent) \<longleftrightarrow>
   (\<exists>m. parsed = Inr m \<and> dm_chainId m = 4663 \<and> dm_broadcastReady m \<and> dm_isFixture m \<noteq> Some True \<and>
     list_all (\<lambda>k. isRealAddress (dm_actual m k)) contractSet \<and>
     list_all (\<lambda>k. codePresent (lower (the (dm_actual m k)))) WRITE_REQUIRED_CONTRACTS)"
proof (cases "resolveDeployment parsed")
  case (Live d)
  from Live [unfolded resolve_Live] show ?thesis
    unfolding deployment.enable_allowed Live by (auto simp: list_all_iff)
next
  case (Invalid x)
  then show ?thesis using resolve_Live [of parsed] by (auto simp: deployment.enable_allowed)
next
  case (NotLive a b c d)
  then show ?thesis using resolve_Live [of parsed] by (auto simp: deployment.enable_allowed)
qed

text \<open>
  C37: the write gate of the application is closed until proven open. Parsing alone never enables a write;
  after the code check writes are allowed exactly when the manifest parses, names chain 4663, is
  broadcast-ready and no fixture, every contract has a well-formed address that is no placeholder, and the
  five contracts users write to all have runtime code; a later check that misses code closes the gate.
\<close>

theorem writesAllowed_exactly:
  "\<not> writesAllowed (resolveDeployment parsed) \<and>
   (writesAllowed (enableWrites (resolveDeployment parsed) codePresent) \<longleftrightarrow>
    (\<exists>m. parsed = Inr m \<and> dm_chainId m = 4663 \<and> dm_broadcastReady m \<and> dm_isFixture m \<noteq> Some True \<and>
      list_all (\<lambda>k. \<exists>a. dm_actual m k = Some a \<and> hex_string 40 a \<and> lower a \<notin> set PLACEHOLDERS)
        [bpsToken, lockingVault, claimManager, rialtoAdapter, coordinator, stockVault, uniswapAdapter,
         tradeRouter] \<and>
      list_all (\<lambda>k. codePresent (lower (the (dm_actual m k))))
        [tradeRouter, lockingVault, claimManager, stockVault, coordinator])) \<and>
   (writesAllowed (enableWrites (enableWrites (resolveDeployment parsed) earlier) codePresent) \<longleftrightarrow>
    writesAllowed (enableWrites (resolveDeployment parsed) codePresent))"
  using resolve_never_writes
  unfolding deployment.last_check_decides writes_iff isRealAddress_iff contractSet_def
    WRITE_REQUIRED_CONTRACTS_def
  by blast

end
