(* ===== verification/ChainReads.thy ===== *)
theory ChainReads
  imports Deployment
begin

text \<open>
  The read service of the web application: \<open>apps/web/lib/services/reads.ts\<close>. A client is the record of
  its answers to every call the service makes; \<open>Inl ()\<close> is a rejected promise. A read of a contract that
  is made later may be answered by a later state, so a sequence of reads takes a client per read. The
  cause an error carries is left out.
\<close>

section \<open>The client\<close>

record RawLog =
  rl_address :: string
  rl_topics :: "string list option"
  rl_data :: "string option"
  rl_blockNumber :: "int option"
  rl_transactionHash :: "string option"
  rl_logIndex :: "int option"

record AcquisitionRecord =
  aq_status :: int
  aq_stockToken :: string
  aq_wethSpent :: int
  aq_acquiredStock :: int
  aq_distributionAmount :: int
  aq_reserveAmount :: int
  aq_cycleId :: int

record PublicClient =
  pc_getChainId :: "unit + int"
  pc_getCode :: "string \<Rightarrow> unit + string option"
  pc_getLogs :: "string \<Rightarrow> int \<Rightarrow> int \<Rightarrow> unit + RawLog list"
  pc_balanceOf :: "string \<Rightarrow> string \<Rightarrow> unit + int"
  pc_decimals :: "string \<Rightarrow> unit + int"
  pc_allowance :: "string \<Rightarrow> string \<Rightarrow> string \<Rightarrow> unit + int"
  pc_paused :: "string \<Rightarrow> unit + bool"
  pc_lockedPrincipal :: "string \<Rightarrow> string \<Rightarrow> unit + int"
  pc_lockCount :: "string \<Rightarrow> string \<Rightarrow> unit + int"
  pc_remaining :: "string \<Rightarrow> int \<Rightarrow> string \<Rightarrow> unit + int"
  pc_cycles :: "string \<Rightarrow> int \<Rightarrow> unit + string \<times> string \<times> string \<times> int \<times> int \<times> bool"
  pc_assetFunding :: "string \<Rightarrow> int \<Rightarrow> string \<Rightarrow> unit + bool \<times> int \<times> int"
  pc_claimed :: "string \<Rightarrow> int \<Rightarrow> string \<Rightarrow> string \<Rightarrow> unit + bool"
  pc_acquisitions :: "string \<Rightarrow> int \<Rightarrow> unit + int \<times> string \<times> int \<times> int \<times> int \<times> int \<times> int"
  pc_cycleUsed :: "string \<Rightarrow> int \<Rightarrow> unit + bool"
  pc_cycleAcquisitionId :: "string \<Rightarrow> int \<Rightarrow> unit + int"
  pc_leafFor :: "string \<Rightarrow> int \<Rightarrow> string \<Rightarrow> string \<Rightarrow> int \<Rightarrow> unit + string"
  pc_oraclePaused :: "string \<Rightarrow> unit + bool"
  pc_latestRoundData :: "string \<Rightarrow> unit + int \<times> int \<times> int \<times> int \<times> int"

section \<open>Errors\<close>

datatype read_error =
    WrongChainError int
  | MissingCodeError string
  | ReadFailedError string

text \<open>\<open>try { await call } catch (e) { throw new ReadFailedError(what, e) }\<close>.\<close>

definition attempt :: "string \<Rightarrow> unit + 'a \<Rightarrow> read_error + 'a" where
  "attempt what r = (case r of Inl _ \<Rightarrow> Inl (ReadFailedError what) | Inr a \<Rightarrow> Inr a)"

definition requireCode :: "PublicClient \<Rightarrow> string \<Rightarrow> read_error + unit" where
  "requireCode client a =
     rbind (attempt (''getCode '' @ a) (pc_getCode client a)) (\<lambda>code.
     if code = None \<or> code = Some [] \<or> code = Some ''0x'' then Inl (MissingCodeError a) else Inr ())"

definition assertReadable :: "PublicClient \<Rightarrow> string list \<Rightarrow> read_error + unit" where
  "assertReadable client requiredAddresses =
     rbind (attempt ''getChainId'' (pc_getChainId client)) (\<lambda>chainId.
     if chainId \<noteq> ROBINHOOD_CHAIN_ID then Inl (WrongChainError chainId)
     else rfold (\<lambda>_. requireCode client) () requiredAddresses)"

section \<open>Contract reads\<close>

record Erc20Snapshot =
  es_balance :: int
  es_decimals :: int
  es_allowance :: int

definition readErc20 :: "PublicClient \<Rightarrow> string \<Rightarrow> string \<Rightarrow> string \<Rightarrow> read_error + Erc20Snapshot" where
  "readErc20 client token owner spender =
     attempt (''erc20 '' @ token)
       (rbind (pc_balanceOf client token owner) (\<lambda>balance.
        rbind (pc_decimals client token) (\<lambda>decimals.
        rbind (pc_allowance client token owner spender) (\<lambda>allowance.
          Inr \<lparr>es_balance = balance, es_decimals = decimals, es_allowance = allowance\<rparr>))))"

definition readRouterPaused :: "PublicClient \<Rightarrow> string \<Rightarrow> read_error + bool" where
  "readRouterPaused client router = attempt ''router.paused'' (pc_paused client router)"

definition readLockedPrincipal :: "PublicClient \<Rightarrow> string \<Rightarrow> string \<Rightarrow> read_error + int" where
  "readLockedPrincipal client vault account =
     attempt ''vault.lockedPrincipal'' (pc_lockedPrincipal client vault account)"

definition readClaimRemaining :: "PublicClient \<Rightarrow> string \<Rightarrow> int \<Rightarrow> string \<Rightarrow> read_error + int" where
  "readClaimRemaining client manager cycleId asset =
     attempt ''manager.remaining'' (pc_remaining client manager cycleId asset)"

definition readLockCount :: "PublicClient \<Rightarrow> string \<Rightarrow> string \<Rightarrow> read_error + int" where
  "readLockCount client vault account = attempt ''vault.lockCount'' (pc_lockCount client vault account)"

record CycleState =
  cyc_merkleRoot :: string
  cyc_claimStart :: int
  cyc_claimDeadline :: int
  cyc_published :: bool

definition readCycle :: "PublicClient \<Rightarrow> string \<Rightarrow> int \<Rightarrow> read_error + CycleState" where
  "readCycle client manager cycleId =
     rbind (attempt ''manager.cycles'' (pc_cycles client manager cycleId))
       (\<lambda>(root, contentHash, envelopeHash, start, deadline, published).
         Inr \<lparr>cyc_merkleRoot = root, cyc_claimStart = start, cyc_claimDeadline = deadline,
              cyc_published = published\<rparr>)"

record AssetFundingState =
  af_registered :: bool
  af_funded :: int
  af_claimed :: int

definition readAssetFunding :: "PublicClient \<Rightarrow> string \<Rightarrow> int \<Rightarrow> string \<Rightarrow> read_error + AssetFundingState" where
  "readAssetFunding client manager cycleId asset =
     rbind (attempt ''manager.assetFunding'' (pc_assetFunding client manager cycleId asset))
       (\<lambda>(registered, funded, claimed).
         Inr \<lparr>af_registered = registered, af_funded = funded, af_claimed = claimed\<rparr>)"

definition readClaimUsed ::
  "PublicClient \<Rightarrow> string \<Rightarrow> int \<Rightarrow> string \<Rightarrow> string \<Rightarrow> read_error + bool" where
  "readClaimUsed client manager cycleId claimant asset =
     attempt ''manager.claimed'' (pc_claimed client manager cycleId claimant asset)"

definition readAcquisition :: "PublicClient \<Rightarrow> string \<Rightarrow> int \<Rightarrow> read_error + AcquisitionRecord" where
  "readAcquisition client coord acquisitionId =
     rbind (attempt ''coordinator.acquisitions'' (pc_acquisitions client coord acquisitionId))
       (\<lambda>(status, stockToken, wethSpent, acquiredStock, distributionAmount, reserveAmount, cycleId).
         Inr \<lparr>aq_status = status, aq_stockToken = stockToken, aq_wethSpent = wethSpent,
              aq_acquiredStock = acquiredStock, aq_distributionAmount = distributionAmount,
              aq_reserveAmount = reserveAmount, aq_cycleId = cycleId\<rparr>)"

definition readCycleUsed :: "PublicClient \<Rightarrow> string \<Rightarrow> int \<Rightarrow> read_error + bool" where
  "readCycleUsed client coord cycleId =
     attempt ''coordinator.cycleUsed'' (pc_cycleUsed client coord cycleId)"

definition readCycleAcquisitionId :: "PublicClient \<Rightarrow> string \<Rightarrow> int \<Rightarrow> read_error + int" where
  "readCycleAcquisitionId client coord cycleId =
     attempt ''coordinator.cycleAcquisitionId'' (pc_cycleAcquisitionId client coord cycleId)"

definition readLeaf ::
  "PublicClient \<Rightarrow> string \<Rightarrow> int \<Rightarrow> string \<Rightarrow> string \<Rightarrow> int \<Rightarrow> read_error + string" where
  "readLeaf client manager cycleId claimant asset amount =
     attempt ''manager.leafFor'' (pc_leafFor client manager cycleId claimant asset amount)"

section \<open>Logs\<close>

definition logKey :: "string \<Rightarrow> int \<Rightarrow> string" where
  "logKey txHash logIndex = lower txHash @ '':'' @ dec_of_int logIndex"

fun dedupeStep :: "string list \<times> RawLog list \<Rightarrow> RawLog \<Rightarrow> string list \<times> RawLog list" where
  "dedupeStep (seen, out) l =
     (case (rl_transactionHash l, rl_logIndex l) of
        (Some h, Some i) \<Rightarrow>
          if logKey h i \<in> set seen then (seen, out) else (set_add (logKey h i) seen, out @ [l])
      | _ \<Rightarrow> (seen, out @ [l]))"

definition dedupeLogs :: "RawLog list \<Rightarrow> RawLog list" where
  "dedupeLogs logs = snd (foldl dedupeStep ([], []) logs)"

text \<open>The loop over the windows; a window size that is not positive may keep it from ending.\<close>

partial_function (option) getLogsLoop ::
  "PublicClient \<Rightarrow> string \<Rightarrow> int \<Rightarrow> int \<Rightarrow> int \<Rightarrow> RawLog list \<Rightarrow> (read_error + RawLog list) option" where
  "getLogsLoop client address safeHead chunkSize start all =
     (if start \<le> safeHead then
        (let stop = (if start + chunkSize - 1 > safeHead then safeHead else start + chunkSize - 1) in
         case attempt (''getLogs '' @ dec_of_int start @ ''-'' @ dec_of_int stop)
                (pc_getLogs client address start stop) of
           Inl e \<Rightarrow> Some (Inl e)
         | Inr logs \<Rightarrow> getLogsLoop client address safeHead chunkSize (start + chunkSize) (all @ logs))
      else Some (Inr all))"

definition getLogsChunked ::
  "PublicClient \<Rightarrow> string \<Rightarrow> int \<Rightarrow> int \<Rightarrow> int \<Rightarrow> int \<Rightarrow> (read_error + RawLog list) option" where
  "getLogsChunked client address fromBlock headBlock confirmations chunkSize =
     (let safeHead = headBlock - confirmations in
      if safeHead < fromBlock then Some (Inr [])
      else map_option (\<lambda>r. rbind r (\<lambda>all. Inr (dedupeLogs all)))
             (getLogsLoop client address safeHead chunkSize fromBlock []))"

section \<open>Lemmas\<close>

lemma attempt_eq [simp]:
  "attempt what r = Inr a \<longleftrightarrow> r = Inr a"
  "attempt what r = Inl e \<longleftrightarrow> r = Inl () \<and> e = ReadFailedError what"
  by (cases r; auto simp: attempt_def)+

lemma requireCode_eq_Inr:
  "requireCode client a = Inr () \<longleftrightarrow>
   (\<exists>code. pc_getCode client a = Inr (Some code) \<and> code \<noteq> [] \<and> code \<noteq> ''0x'')"
  by (auto simp: requireCode_def rbind_eq_Inr)

lemma assertReadable_eq_Inr:
  "assertReadable client as = Inr () \<longleftrightarrow>
   pc_getChainId client = Inr 4663 \<and>
   list_all (\<lambda>a. \<exists>code. pc_getCode client a = Inr (Some code) \<and> code \<noteq> [] \<and> code \<noteq> ''0x'') as"
proof -
  have "rfold (\<lambda>_. requireCode client) () as = Inr () \<longleftrightarrow>
      list_all (\<lambda>a. \<exists>code. pc_getCode client a = Inr (Some code) \<and> code \<noteq> [] \<and> code \<noteq> ''0x'') as"
    by (induction as) (simp_all add: rbind_eq_Inr requireCode_eq_Inr)
  then show ?thesis by (auto simp: assertReadable_def rbind_eq_Inr ROBINHOOD_CHAIN_ID_def)
qed

subsection \<open>Deduplication\<close>

text \<open>The identity of a log, and the list with the first log of every identity.\<close>

definition log_id :: "RawLog \<Rightarrow> (string \<times> int) option" where
  "log_id l = (case (rl_transactionHash l, rl_logIndex l) of (Some h, Some i) \<Rightarrow> Some (lower h, i) | _ \<Rightarrow> None)"

definition first_logs :: "RawLog list \<Rightarrow> RawLog list" where
  "first_logs logs = map ((!) logs) (filter (\<lambda>i. log_id (logs ! i) = None \<or>
     (\<forall>j<i. log_id (logs ! j) \<noteq> log_id (logs ! i))) [0..<length logs])"

lemma first_logs_snoc:
  "first_logs (logs @ [l]) = first_logs logs @
     (if log_id l = None \<or> log_id l \<notin> log_id ` set logs then [l] else [])"
proof -
  have "map ((!) (logs @ [l])) (filter (\<lambda>i. log_id ((logs @ [l]) ! i) = None \<or>
      (\<forall>j<i. log_id ((logs @ [l]) ! j) \<noteq> log_id ((logs @ [l]) ! i))) [0..<length logs]) = first_logs logs"
    unfolding first_logs_def
    by (rule map_cong) (auto simp: nth_append intro!: filter_cong)
  moreover have "(\<forall>j<length logs. log_id ((logs @ [l]) ! j) \<noteq> log_id l) \<longleftrightarrow> log_id l \<notin> log_id ` set logs"
    by (auto simp: nth_append image_iff in_set_conv_nth) (metis nth_mem)
  ultimately show ?thesis by (simp add: first_logs_def)
qed

lemma dedupe_fold:
  "\<exists>seen. foldl dedupeStep ([], []) logs = (seen, first_logs logs) \<and>
     (\<forall>h i. logKey h i \<in> set seen \<longleftrightarrow> Some (lower h, i) \<in> log_id ` set logs)"
proof (induction logs rule: rev_induct)
  case Nil
  then show ?case by (simp add: first_logs_def)
next
  case (snoc l logs)
  then obtain seen where IH: "foldl dedupeStep ([], []) logs = (seen, first_logs logs)"
    "\<And>h i. logKey h i \<in> set seen \<longleftrightarrow> Some (lower h, i) \<in> log_id ` set logs" by blast
  have key: "logKey h i = logKey h' i' \<longleftrightarrow> Some (lower h, i) = Some (lower h', i')" for h i h' i'
    by (simp add: logKey_def colon_key_inj)
  show ?case
  proof (cases "log_id l")
    case None
    then have "dedupeStep (seen, out) l = (seen, out @ [l])" for out
      by (auto simp: log_id_def split: option.splits)
    with IH None show ?thesis by (simp add: first_logs_snoc)
  next
    case (Some k)
    then obtain h i where l: "rl_transactionHash l = Some h" "rl_logIndex l = Some i" "k = (lower h, i)"
      by (auto simp: log_id_def split: option.splits)
    show ?thesis
    proof (cases "logKey h i \<in> set seen")
      case True
      with IH l Some show ?thesis by (auto simp: first_logs_snoc)
    next
      case False
      then have "Some k \<notin> log_id ` set logs" unfolding l(3) IH(2) .
      with IH(1) l Some False show ?thesis by (simp add: first_logs_snoc key IH(2))
    qed
  qed
qed

lemma dedupeLogs_first: "dedupeLogs logs = first_logs logs"
  using dedupe_fold [of logs] by (auto simp: dedupeLogs_def)

subsection \<open>Windows\<close>

text \<open>Windows that cover a range of blocks without gap or overlap.\<close>

definition tiles :: "int \<Rightarrow> int \<Rightarrow> (int \<times> int) list \<Rightarrow> bool" where
  "tiles a z ws \<longleftrightarrow> list_all (\<lambda>(x, y). x \<le> y) ws \<and> concat (map (\<lambda>(x, y). [x..y]) ws) = [a..z]"

lemma tiles_Cons:
  assumes "a \<le> m" and "m \<le> z" and "tiles (m + 1) z ws"
  shows "tiles a z ((a, m) # ws)"
proof -
  have "[a..z] = [a..m] @ [m + 1..z]" using upto_split2 [of a m z] assms(1,2) by simp
  then show ?thesis using assms by (simp add: tiles_def)
qed

definition chunk_result ::
  "PublicClient \<Rightarrow> string \<Rightarrow> int \<Rightarrow> int \<Rightarrow> int \<Rightarrow> RawLog list \<Rightarrow> read_error + RawLog list \<Rightarrow> bool" where
  "chunk_result client address a z chunkSize pre r \<longleftrightarrow>
     (case r of
        Inl e \<Rightarrow> \<exists>x y. a \<le> x \<and> x \<le> y \<and> y \<le> z \<and> pc_getLogs client address x y = Inl ()
      | Inr logs \<Rightarrow> \<exists>ws parts. tiles a z ws \<and> list_all (\<lambda>(x, y). y - x < chunkSize) ws \<and>
          list_all2 (\<lambda>(x, y) part. pc_getLogs client address x y = Inr part) ws parts \<and>
          logs = pre @ concat parts)"

lemma getLogsLoop_total:
  assumes "0 < chunkSize"
  shows "\<exists>r. getLogsLoop client address z chunkSize a pre = Some r \<and> chunk_result client address a z chunkSize pre r"
proof (induction "nat (z + 1 - a)" arbitrary: a pre rule: less_induct)
  case less
  show ?case
  proof (cases "a \<le> z")
    case False
    then have "chunk_result client address a z chunkSize pre (Inr pre)"
      unfolding chunk_result_def sum.case
      by (intro exI [of _ "[]"]) (simp add: tiles_def)
    with False show ?thesis by (subst getLogsLoop.simps) auto
  next
    case True
    define m where "m = (if a + chunkSize - 1 > z then z else a + chunkSize - 1)"
    have m: "a \<le> m" "m \<le> z" "m - a < chunkSize" using True assms by (auto simp: m_def)
    have unroll: "getLogsLoop client address z chunkSize a pre =
        (case attempt (''getLogs '' @ dec_of_int a @ ''-'' @ dec_of_int m) (pc_getLogs client address a m) of
           Inl e \<Rightarrow> Some (Inl e)
         | Inr logs \<Rightarrow> getLogsLoop client address z chunkSize (a + chunkSize) (pre @ logs))"
      using True by (subst getLogsLoop.simps) (simp add: m_def Let_def)
    show ?thesis
    proof (cases "pc_getLogs client address a m")
      case (Inl u)
      then have "chunk_result client address a z chunkSize pre (Inl e)" for e
        using m unfolding chunk_result_def sum.case
        by (intro exI [of _ a] exI [of _ m] conjI) simp_all
      with Inl show ?thesis unfolding unroll by (simp add: attempt_def)
    next
      case (Inr logs)
      have "nat (z + 1 - (a + chunkSize)) < nat (z + 1 - a)" using True assms by simp
      from less [OF this, of "pre @ logs"] obtain r where
        r: "getLogsLoop client address z chunkSize (a + chunkSize) (pre @ logs) = Some r"
          "chunk_result client address (a + chunkSize) z chunkSize (pre @ logs) r" by blast
      have "chunk_result client address a z chunkSize pre r"
      proof (cases r)
        case (Inl e)
        then obtain x y where "a + chunkSize \<le> x" "x \<le> y" "y \<le> z" "pc_getLogs client address x y = Inl ()"
          using r(2) by (auto simp: chunk_result_def)
        then show ?thesis using assms unfolding chunk_result_def Inl sum.case
          by (intro exI [of _ x] exI [of _ y] conjI) simp_all
      next
        case r': (Inr out)
        with r(2) obtain ws parts where ws: "tiles (a + chunkSize) z ws"
          "list_all (\<lambda>(x, y). y - x < chunkSize) ws"
          "list_all2 (\<lambda>(x, y) part. pc_getLogs client address x y = Inr part) ws parts"
          "out = (pre @ logs) @ concat parts" by (auto simp: chunk_result_def)
        have "tiles (m + 1) z ws" using ws(1) assms by (auto simp: m_def tiles_def split: if_splits)
        from tiles_Cons [OF m(1,2) this] show ?thesis
          unfolding chunk_result_def r' sum.case using ws Inr m(3)
          by (intro exI [of _ "(a, m) # ws"] exI [of _ "logs # parts"]) simp
      qed
      with r(1) Inr show ?thesis unfolding unroll by (simp add: attempt_def)
    qed
  qed
qed

text \<open>
  C36: chunked log retrieval with a positive window always returns. Its answer either reports a window that
  the client rejected, or is made of windows, none longer than the window size, that cover the
  blocks from the start to the confirmed head without gap or overlap and never beyond, with the first log
  of every transaction hash and log index kept in order.
\<close>

theorem getLogsChunked_exact:
  assumes "0 < chunkSize"
  shows "\<exists>r. getLogsChunked client address fromBlock headBlock confirmations chunkSize = Some r \<and>
    (case r of
       Inl e \<Rightarrow> \<exists>x y. fromBlock \<le> x \<and> x \<le> y \<and> y \<le> headBlock - confirmations \<and>
         pc_getLogs client address x y = Inl ()
     | Inr logs \<Rightarrow> \<exists>ws parts. tiles fromBlock (headBlock - confirmations) ws \<and>
         list_all (\<lambda>(x, y). y - x < chunkSize) ws \<and>
         list_all2 (\<lambda>(x, y) part. pc_getLogs client address x y = Inr part) ws parts \<and>
         logs = first_logs (concat parts))"
proof (cases "headBlock - confirmations < fromBlock")
  case True
  then show ?thesis
    unfolding getLogsChunked_def Let_def
    by (intro exI [of _ "Inr []"]) (auto simp: tiles_def first_logs_def intro!: exI [of _ "[]"])
next
  case False
  obtain r where "getLogsLoop client address (headBlock - confirmations) chunkSize fromBlock [] = Some r"
    "chunk_result client address fromBlock (headBlock - confirmations) chunkSize [] r"
    using getLogsLoop_total [OF assms] by blast
  with False show ?thesis
    by (cases r) (auto simp: getLogsChunked_def Let_def chunk_result_def dedupeLogs_first)
qed

definition ex_log :: "int \<Rightarrow> RawLog" where
  "ex_log i = \<lparr>rl_address = [], rl_topics = None, rl_data = None, rl_blockNumber = Some i,
     rl_transactionHash = Some ''0xA'', rl_logIndex = Some (i mod 2)\<rparr>"

definition ex_client :: PublicClient where
  "ex_client =
     \<lparr>pc_getChainId = Inr 4663, pc_getCode = (\<lambda>_. Inr (Some ''0x60'')),
      pc_getLogs = (\<lambda>_ x y. Inr (map ex_log [x..y])), pc_balanceOf = (\<lambda>_ _. Inr 0), pc_decimals = (\<lambda>_. Inr 18),
      pc_allowance = (\<lambda>_ _ _. Inr 0), pc_paused = (\<lambda>_. Inr False), pc_lockedPrincipal = (\<lambda>_ _. Inr 0),
      pc_lockCount = (\<lambda>_ _. Inr 0), pc_remaining = (\<lambda>_ _ _. Inr 0),
      pc_cycles = (\<lambda>_ _. Inr ([], [], [], 0, 0, True)), pc_assetFunding = (\<lambda>_ _ _. Inr (True, 9, 0)),
      pc_claimed = (\<lambda>_ _ _ _. Inr False), pc_acquisitions = (\<lambda>_ _. Inl ()), pc_cycleUsed = (\<lambda>_ _. Inr False),
      pc_cycleAcquisitionId = (\<lambda>_ _. Inr 0), pc_leafFor = (\<lambda>_ _ _ _ _. Inr []),
      pc_oraclePaused = (\<lambda>_. Inr False), pc_latestRoundData = (\<lambda>_. Inr (1, 1, 1, 1, 1))\<rparr>"

theorem getLogsChunked_exact_witness:
  "\<exists>logs. getLogsChunked ex_client [] 3 10 2 2 = Some (Inr logs)"
proof -
  obtain r where r: "getLogsChunked ex_client [] 3 10 2 2 = Some r" and
    c: "case r of
       Inl e \<Rightarrow> \<exists>x y. 3 \<le> x \<and> x \<le> y \<and> y \<le> 10 - 2 \<and> pc_getLogs ex_client [] x y = Inl ()
     | Inr logs \<Rightarrow> \<exists>ws parts. tiles 3 (10 - 2) ws \<and>
         list_all (\<lambda>(x, y). y - x < 2) ws \<and>
         list_all2 (\<lambda>(x, y) part. pc_getLogs ex_client [] x y = Inr part) ws parts \<and>
         logs = first_logs (concat parts)"
    using getLogsChunked_exact [of 2 ex_client "[]" 3 10 2] by auto
  from c have "\<exists>logs. r = Inr logs" by (cases r) (simp_all add: ex_client_def)
  with r show ?thesis by blast
qed

end
