(* ===== verification/Snapshot.thy ===== *)
theory Snapshot
  imports Artifacts
begin

text \<open>
  The chain-bound snapshot of the indexer (\<open>apps/indexer/src/lock-snapshot\<close>: \<open>types.ts\<close>,
  \<open>enumeration.ts\<close>, \<open>pipeline.ts\<close>; \<open>consumer.ts\<close> is in \<open>Consumer\<close>). A \<open>SnapshotPipelineError\<close> is its code; an error of
  the shared library is \<open>Shared\<close>, a rejected read \<open>ReaderError\<close>. The chain reader is a record of the
  answers of its methods; the tree, hash and ABI libraries are parameters as in \<open>Merkle\<close>, and
  \<open>getProof(i)\<close> is the proof of the \<open>i\<close>-th value; what they throw is \<open>Shared RuntimeError\<close>. The texts carry the em dash as its three UTF-8 bytes.
\<close>

section \<open>Types\<close>

datatype snapshot_error = SnapshotPipelineError string | Shared pod_error | ReaderError

definition shared :: "pod_error + 'a \<Rightarrow> snapshot_error + 'a" where
  "shared r = (case r of Inl e \<Rightarrow> Inl (Shared e) | Inr a \<Rightarrow> Inr a)"

definition snapFail :: "string \<Rightarrow> snapshot_error + 'a" where
  "snapFail code = Inl (SnapshotPipelineError code)"

record LockCreatedRecord =
  lc_account :: string
  lc_lockId :: int
  lc_blockNumber :: int
  lc_logIndex :: int

text \<open>\<open>LockWithdrawnRecord\<close> has the same fields.\<close>

type_synonym LockWithdrawnRecord = LockCreatedRecord

record SnapshotRequest =
  sr_chainId :: int
  sr_lockingVault :: string
  sr_claimManager :: string
  sr_snapshotBlock :: int
  sr_expectedBlockHash :: string
  sr_enumerationStartBlock :: int
  sr_distributionAsset :: string
  sr_distributionAmount :: int
  sr_cycleId :: int
  sr_claimStart :: int
  sr_claimDeadline :: int

record BlockHeader =
  bh_hash :: string
  bh_timestamp :: int

record ChainReader =
  cr_chainId :: "snapshot_error + int"
  cr_block :: "int \<Rightarrow> snapshot_error + BlockHeader option"
  cr_vaultHasCodeAt :: "int \<Rightarrow> snapshot_error + bool"
  cr_lockCreated :: "int \<Rightarrow> int \<Rightarrow> snapshot_error + LockCreatedRecord list"
  cr_lockWithdrawn :: "int \<Rightarrow> int \<Rightarrow> snapshot_error + LockWithdrawnRecord list"
  cr_lockCountAt :: "string \<Rightarrow> int \<Rightarrow> snapshot_error + int"
  cr_positionWeightAt :: "string \<Rightarrow> int \<Rightarrow> int \<Rightarrow> int \<Rightarrow> snapshot_error + int"
  cr_leafFor :: "int \<Rightarrow> string \<Rightarrow> string \<Rightarrow> int \<Rightarrow> int \<Rightarrow> snapshot_error + string"
  cr_syncedThrough :: "snapshot_error + int"

record ParticipantWeight =
  pw_address :: string
  pw_lockCount :: string
  pw_effectiveWeight :: string

record ParticipantEntitlement =
  pe_address :: string
  pe_effectiveWeight :: string
  pe_entitlement :: string
  pe_leaf :: string
  pe_proof :: "string list"

record CanonicalSnapshot =
  cs_chainId :: string
  cs_snapshotBlock :: string
  cs_snapshotBlockHash :: string
  cs_snapshotBlockTimestamp :: string
  cs_lockingVault :: string
  cs_claimManager :: string
  cs_enumerationStartBlock :: string
  cs_indexerSyncedThrough :: string
  cs_candidateCount :: nat
  cs_zeroWeightExcludedCount :: nat
  cs_includedParticipantCount :: nat
  cs_participants :: "ParticipantWeight list"
  cs_totalEffectiveWeight :: string
  cs_distributionAsset :: string
  cs_distributionAmount :: string
  cs_cycleId :: string
  cs_entitlements :: "ParticipantEntitlement list"
  cs_entitlementTotal :: string
  cs_dust :: string
  cs_merkleRoot :: string
  cs_inputDigests :: "(string \<times> string) list"

record ProofBundle =
  pb_chainId :: string
  pb_cycleId :: string
  pb_claimManager :: string
  pb_distributionAsset :: string
  pb_merkleRoot :: string
  pb_canonicalSnapshotDigest :: string
  pb_participants :: "ParticipantEntitlement list"

record PublishArguments =
  pu_cycleId :: int
  pu_merkleRoot :: string
  pu_allocationsContentHash :: string
  pu_manifestEnvelopeHash :: string
  pu_claimStart :: int
  pu_claimDeadline :: int
  pu_assets :: "string list"
  pu_fundedAmounts :: "int list"

record UnsignedPublication =
  un_chainId :: string
  un_to :: string
  un_value :: string
  un_arguments :: PublishArguments
  un_encodedCalldata :: string
  un_snapshotBlock :: string
  un_snapshotBlockHash :: string
  un_merkleRoot :: string
  un_cycleId :: string
  un_distributionAsset :: string
  un_distributionAmount :: string
  un_canonicalSnapshotDigest :: string

record SnapshotRunResult =
  rs_snapshot :: CanonicalSnapshot
  rs_proofBundle :: ProofBundle
  rs_unsignedPublication :: UnsignedPublication
  rs_canonicalSnapshotDigest :: string
  rs_proofBundleDigest :: string
  rs_checked :: nat
  rs_matched :: nat
  rs_observedChainHead :: string

section \<open>Candidates\<close>

record EnumerationResult =
  er_candidates :: "string list"
  er_excludedAfterSnapshot :: nat
  er_recordsSeen :: nat

definition enumerateRecord ::
  "int \<Rightarrow> string list \<times> nat \<Rightarrow> LockCreatedRecord \<Rightarrow> snapshot_error + string list \<times> nat" where
  "enumerateRecord snapshotBlock acc r =
     (case acc of (unique, excluded) \<Rightarrow>
      if \<not> isHexAddress (lc_account r) then snapFail ''MALFORMED_ACCOUNT''
      else if lc_blockNumber r < 0 \<or> lc_lockId r < 0 then snapFail ''MALFORMED_RECORD''
      else if lc_blockNumber r > snapshotBlock then Inr (unique, excluded + 1)
      else rbind (shared (normalizeAddress (lc_account r))) (\<lambda>a. Inr (set_add a unique, excluded)))"

definition enumerateCandidates ::
  "LockCreatedRecord list \<Rightarrow> int \<Rightarrow> snapshot_error + EnumerationResult" where
  "enumerateCandidates records snapshotBlock =
     rbind (rfold (enumerateRecord snapshotBlock) ([], 0) records) (\<lambda>(unique, excluded).
       Inr \<lparr>er_candidates = js_sort (\<lambda>a b. if lower a < lower b then -1 else 1) unique,
            er_excludedAfterSnapshot = excluded, er_recordsSeen = length records\<rparr>)"

section \<open>The pipeline\<close>

definition requirePositive :: "int \<Rightarrow> string \<Rightarrow> snapshot_error + unit" where
  "requirePositive v code = (if v \<le> 0 then snapFail code else Inr ())"

definition validateRequestShape :: "SnapshotRequest \<Rightarrow> snapshot_error + unit" where
  "validateRequestShape req =
     rbind (requirePositive (sr_chainId req) ''BAD_CHAIN_ID'') (\<lambda>_.
     rbind (requirePositive (sr_snapshotBlock req) ''BAD_BLOCK'') (\<lambda>_.
     rbind (requirePositive (sr_distributionAmount req) ''ZERO_DISTRIBUTION'') (\<lambda>_.
     rbind (requirePositive (sr_cycleId req) ''BAD_CYCLE'') (\<lambda>_.
     if \<not> (hex_string 64 (sr_expectedBlockHash req) \<or>
            (take 2 (sr_expectedBlockHash req) = ''0X'' \<and>
             hex_string 64 (''0x'' @ drop 2 (sr_expectedBlockHash req))))
     then snapFail ''BAD_BLOCK_HASH''
     else
     rbind (shared (normalizeAddress (sr_lockingVault req))) (\<lambda>_.
     rbind (shared (normalizeAddress (sr_claimManager req))) (\<lambda>_.
     rbind (shared (normalizeAddress (sr_distributionAsset req))) (\<lambda>_.
     if sr_enumerationStartBlock req < 0 \<or> sr_enumerationStartBlock req > sr_snapshotBlock req
     then snapFail ''BAD_START_BLOCK''
     else if sr_claimDeadline req \<le> sr_claimStart req then snapFail ''BAD_CLAIM_WINDOW''
     else Inr ())))))))"

definition chainGuards ::
  "ChainReader \<Rightarrow> SnapshotRequest \<Rightarrow> snapshot_error + BlockHeader \<times> int" where
  "chainGuards reader req =
     rbind (cr_chainId reader) (\<lambda>chainId.
     if chainId \<noteq> sr_chainId req then snapFail ''CHAIN_ID_MISMATCH''
     else rbind (cr_block reader (sr_snapshotBlock req)) (\<lambda>h.
     case h of
       None \<Rightarrow> snapFail ''BLOCK_NOT_FOUND''
     | Some header \<Rightarrow>
         if lower (bh_hash header) \<noteq> lower (sr_expectedBlockHash req) then snapFail ''BLOCK_HASH_MISMATCH''
         else rbind (cr_syncedThrough reader) (\<lambda>synced.
         if synced < sr_snapshotBlock req then snapFail ''INDEXER_BEHIND''
         else rbind (cr_vaultHasCodeAt reader (sr_enumerationStartBlock req - 1)) (\<lambda>codeAtStart.
         if codeAtStart then snapFail ''INCOMPLETE_COVERAGE''
         else rbind (cr_vaultHasCodeAt reader (sr_snapshotBlock req)) (\<lambda>codeAtPin.
         if \<not> codeAtPin then snapFail ''VAULT_NOT_DEPLOYED''
         else Inr (header, synced))))))"

definition positionsWeight ::
  "ChainReader \<Rightarrow> int \<Rightarrow> int \<Rightarrow> string \<Rightarrow> int \<Rightarrow> snapshot_error + int" where
  "positionsWeight reader ts block account lockCount =
     rfold (\<lambda>weight lockId.
       rbind (cr_positionWeightAt reader account lockId ts block) (\<lambda>w.
         if w < 0 then snapFail ''NEGATIVE_WEIGHT'' else Inr (weight + w)))
       0 (map int [0..<nat lockCount])"

definition weighAccount ::
  "ChainReader \<Rightarrow> int \<Rightarrow> int \<Rightarrow> ParticipantWeight list \<times> nat \<times> int \<Rightarrow> string
    \<Rightarrow> snapshot_error + ParticipantWeight list \<times> nat \<times> int" where
  "weighAccount reader ts block acc account =
     (case acc of (participants, zeroWeight, totalWeight) \<Rightarrow>
      rbind (cr_lockCountAt reader account block) (\<lambda>lockCount.
      rbind (positionsWeight reader ts block account lockCount) (\<lambda>weight.
      if weight = 0 then Inr (participants, zeroWeight + 1, totalWeight)
      else
        rbind (shared (toDecimalString lockCount)) (\<lambda>lc.
        rbind (shared (toDecimalString weight)) (\<lambda>ew.
          Inr (participants @ [\<lparr>pw_address = account, pw_lockCount = lc, pw_effectiveWeight = ew\<rparr>],
               zeroWeight, totalWeight + weight))))))"

record Entitled =
  ew_address :: string
  ew_weight :: int
  ew_amount :: int

definition entitleParticipant ::
  "int \<Rightarrow> int \<Rightarrow> Entitled list \<times> int \<Rightarrow> ParticipantWeight \<Rightarrow> snapshot_error + Entitled list \<times> int" where
  "entitleParticipant distributionAmount totalWeight acc p =
     (case acc of (entitled, entitlementTotal) \<Rightarrow>
      rbind (shared (bigint_of_string (pw_effectiveWeight p))) (\<lambda>w.
      rbind (shared (mulDivFloor distributionAmount w totalWeight)) (\<lambda>amount.
      if amount = 0 then Inr acc
      else Inr (entitled @ [\<lparr>ew_address = pw_address p, ew_weight = w, ew_amount = amount\<rparr>],
                entitlementTotal + amount))))"

definition valueRow :: "SnapshotRequest \<Rightarrow> string \<Rightarrow> string \<Rightarrow> Entitled \<Rightarrow> string list" where
  "valueRow req manager asset e =
     [dec_of_int (sr_chainId req), manager, dec_of_int (sr_cycleId req), ew_address e, asset,
      dec_of_int (ew_amount e)]"

definition proveEntitled ::
  "Viem \<Rightarrow> OzTree \<Rightarrow> SnapshotRequest \<Rightarrow> string \<Rightarrow> string \<Rightarrow> Entitled
    \<Rightarrow> snapshot_error + ParticipantEntitlement" where
  "proveEntitled v tree req manager asset e =
     (let leaf = zt_leafHash tree (valueRow req manager asset e);
          proof = zt_getProof tree (valueRow req manager asset e)
      in rbind (shared (orThrow (viemVerifyRaw v
               \<lparr>lf_chainId = sr_chainId req, lf_claimManager = manager, lf_cycleId = sr_cycleId req,
                lf_wallet = ew_address e, lf_asset = asset, lf_amount = ew_amount e\<rparr> proof (zt_root tree)))) (\<lambda>ok.
         if \<not> ok then snapFail ''PROOF_SELF_VERIFY_FAILED''
         else
           rbind (shared (toDecimalString (ew_weight e))) (\<lambda>weight.
           rbind (shared (toDecimalString (ew_amount e))) (\<lambda>entitlement.
             Inr \<lparr>pe_address = ew_address e, pe_effectiveWeight = weight, pe_entitlement = entitlement,
                  pe_leaf = leaf, pe_proof = proof\<rparr>))))"

definition leafParity ::
  "ChainReader \<Rightarrow> SnapshotRequest \<Rightarrow> string \<Rightarrow> nat \<Rightarrow> ParticipantEntitlement \<Rightarrow> snapshot_error + nat" where
  "leafParity reader req asset matched p =
     rbind (shared (bigint_of_string (pe_entitlement p))) (\<lambda>amount.
     rbind (cr_leafFor reader (sr_cycleId req) (pe_address p) asset amount (sr_snapshotBlock req)) (\<lambda>onchain.
     if lower onchain \<noteq> lower (pe_leaf p) then snapFail ''LEAF_PARITY_MISMATCH''
     else Inr (matched + 1)))"


section \<open>The artifacts\<close>

definition emdash :: string where "emdash = [CHR 0xE2, CHR 0x80, CHR 0x94]"

definition CLASSIFICATION :: string where
  "CLASSIFICATION =
     ''TECHNICAL CANDIDATE SNAPSHOT '' @ emdash @ '' LEGAL ELIGIBILITY UNVERIFIED '' @ emdash
     @ '' NOT AUTHORIZED FOR PUBLICATION''"

definition ENTITLEMENT_RULE :: string where
  "ENTITLEMENT_RULE =
     ''floor(distributionAmount * participantEffectiveWeight / totalEffectiveWeight); '' @
     ''per-wallet floor, remainder retained as distribution dust (@bps/shared ALLOCATION_ROUNDING_POLICY)''"

definition requestJson :: "SnapshotRequest \<Rightarrow> string \<Rightarrow> string \<Rightarrow> string \<Rightarrow> Json" where
  "requestJson req vault manager asset = JObj
     [(''chainId'', s (sr_chainId req)), (''lockingVault'', JStr vault), (''claimManager'', JStr manager),
      (''snapshotBlock'', s (sr_snapshotBlock req)),
      (''expectedBlockHash'', JStr (lower (sr_expectedBlockHash req))),
      (''enumerationStartBlock'', s (sr_enumerationStartBlock req)),
      (''distributionAsset'', JStr asset), (''distributionAmount'', s (sr_distributionAmount req)),
      (''cycleId'', s (sr_cycleId req)), (''claimStart'', s (sr_claimStart req)),
      (''claimDeadline'', s (sr_claimDeadline req))]"

definition recordJson :: "LockCreatedRecord \<Rightarrow> snapshot_error + Json" where
  "recordJson r =
     rbind (shared (normalizeAddress (lc_account r))) (\<lambda>a. Inr (JObj
       [(''account'', JStr a), (''lockId'', s (lc_lockId r)), (''blockNumber'', s (lc_blockNumber r)),
        (''logIndex'', JNum (lc_logIndex r))]))"

definition inputDigests ::
  "(string \<Rightarrow> string) \<Rightarrow> SnapshotRequest \<Rightarrow> string \<Rightarrow> string \<Rightarrow> string
    \<Rightarrow> LockCreatedRecord list \<Rightarrow> LockWithdrawnRecord list \<Rightarrow> snapshot_error + (string \<times> string) list" where
  "inputDigests keccak req vault manager asset created withdrawn =
     rbind (shared (keccakOfCanonical keccak (requestJson req vault manager asset))) (\<lambda>d1.
     rbind (rmap recordJson created) (\<lambda>cs.
     rbind (shared (keccakOfCanonical keccak (JArr cs))) (\<lambda>d2.
     rbind (rmap recordJson withdrawn) (\<lambda>ws.
     rbind (shared (keccakOfCanonical keccak (JArr ws))) (\<lambda>d3.
       Inr [(''request'', d1), (''lockCreatedRecords'', d2), (''lockWithdrawnRecords'', d3)])))))"

definition weightJson :: "ParticipantWeight \<Rightarrow> Json" where
  "weightJson p = JObj
     [(''address'', JStr (pw_address p)), (''lockCount'', JStr (pw_lockCount p)),
      (''effectiveWeight'', JStr (pw_effectiveWeight p))]"

definition entitlementJson :: "ParticipantEntitlement \<Rightarrow> (string \<times> Json) list" where
  "entitlementJson p =
     [(''address'', JStr (pe_address p)), (''effectiveWeight'', JStr (pe_effectiveWeight p)),
      (''entitlement'', JStr (pe_entitlement p)), (''leaf'', JStr (pe_leaf p))]"

definition snapshotJson :: "CanonicalSnapshot \<Rightarrow> Json" where
  "snapshotJson c = JObj
     [(''schemaVersion'', JStr ''bps.snapshot.chain-bound/1''), (''classification'', JStr CLASSIFICATION),
      (''chainId'', JStr (cs_chainId c)), (''snapshotBlock'', JStr (cs_snapshotBlock c)),
      (''snapshotBlockHash'', JStr (cs_snapshotBlockHash c)),
      (''snapshotBlockTimestamp'', JStr (cs_snapshotBlockTimestamp c)),
      (''lockingVault'', JStr (cs_lockingVault c)), (''claimManager'', JStr (cs_claimManager c)),
      (''enumerationStartBlock'', JStr (cs_enumerationStartBlock c)),
      (''indexerSyncedThrough'', JStr (cs_indexerSyncedThrough c)),
      (''candidateCount'', JNum (int (cs_candidateCount c))),
      (''zeroWeightExcludedCount'', JNum (int (cs_zeroWeightExcludedCount c))),
      (''includedParticipantCount'', JNum (int (cs_includedParticipantCount c))),
      (''participants'', JArr (map weightJson (cs_participants c))),
      (''totalEffectiveWeight'', JStr (cs_totalEffectiveWeight c)),
      (''distributionAsset'', JStr (cs_distributionAsset c)),
      (''distributionAmount'', JStr (cs_distributionAmount c)), (''cycleId'', JStr (cs_cycleId c)),
      (''entitlementRule'', JStr ENTITLEMENT_RULE),
      (''entitlements'', JArr (map (\<lambda>p. JObj (entitlementJson p)) (cs_entitlements c))),
      (''entitlementTotal'', JStr (cs_entitlementTotal c)), (''dust'', JStr (cs_dust c)),
      (''leafEncoding'', JArr (map JStr LEAF_ABI_TYPES)), (''leafOrder'', JArr (map JStr LEAF_ORDER)),
      (''merkleRoot'', JStr (cs_merkleRoot c)),
      (''inputDigests'', JObj (map (\<lambda>(k, d). (k, JStr d)) (cs_inputDigests c)))]"

definition bundleJson :: "ProofBundle \<Rightarrow> Json" where
  "bundleJson bundle = JObj
     [(''schemaVersion'', JStr ''bps.snapshot.proof-bundle/1''), (''classification'', JStr CLASSIFICATION),
      (''chainId'', JStr (pb_chainId bundle)), (''cycleId'', JStr (pb_cycleId bundle)),
      (''claimManager'', JStr (pb_claimManager bundle)), (''distributionAsset'', JStr (pb_distributionAsset bundle)),
      (''merkleRoot'', JStr (pb_merkleRoot bundle)),
      (''canonicalSnapshotDigest'', JStr (pb_canonicalSnapshotDigest bundle)),
      (''participants'', JArr (map (\<lambda>p. JObj (entitlementJson p @
          [(''proof'', JArr (map JStr (pe_proof p)))])) (pb_participants bundle)))]"

text \<open>Everything after the reads: the snapshot, the proof bundle and the unsigned publication.\<close>

record Weighed =
  we_created :: "LockCreatedRecord list"
  we_withdrawn :: "LockWithdrawnRecord list"
  we_candidates :: "string list"
  we_participants :: "ParticipantWeight list"
  we_zeroWeight :: nat
  we_totalWeight :: int

definition weighCandidates ::
  "ChainReader \<Rightarrow> SnapshotRequest \<Rightarrow> int \<Rightarrow> snapshot_error + Weighed" where
  "weighCandidates reader req ts =
     rbind (cr_lockCreated reader (sr_enumerationStartBlock req) (sr_snapshotBlock req)) (\<lambda>created.
     rbind (cr_lockWithdrawn reader (sr_enumerationStartBlock req) (sr_snapshotBlock req)) (\<lambda>withdrawn.
     rbind (enumerateCandidates created (sr_snapshotBlock req)) (\<lambda>en.
     rbind (rfold (weighAccount reader ts (sr_snapshotBlock req)) ([], 0, 0) (er_candidates en))
       (\<lambda>(participants, zeroWeight, totalWeight).
     if length participants = 0 \<or> totalWeight = 0 then snapFail ''NO_PARTICIPANTS''
     else Inr \<lparr>we_created = created, we_withdrawn = withdrawn, we_candidates = er_candidates en,
               we_participants = participants, we_zeroWeight = zeroWeight,
               we_totalWeight = totalWeight\<rparr>))))"

definition entitleAll :: "SnapshotRequest \<Rightarrow> Weighed \<Rightarrow> snapshot_error + Entitled list \<times> int" where
  "entitleAll req w =
     rbind (rfold (entitleParticipant (sr_distributionAmount req) (we_totalWeight w)) ([], 0) (we_participants w))
       (\<lambda>(entitled, entitlementTotal).
     if length entitled = 0 then snapFail ''DUST_ONLY_DISTRIBUTION''
     else if entitlementTotal > sr_distributionAmount req then snapFail ''OVER_ALLOCATION''
     else Inr (entitled, entitlementTotal))"

definition snapshotOf ::
  "SnapshotRequest \<Rightarrow> string \<Rightarrow> string \<Rightarrow> string \<Rightarrow> BlockHeader \<Rightarrow> Weighed \<Rightarrow> string
    \<Rightarrow> ParticipantEntitlement list \<Rightarrow> (string \<times> string) list \<Rightarrow> string \<Rightarrow> string \<Rightarrow> string
    \<Rightarrow> CanonicalSnapshot" where
  "snapshotOf req vault manager asset header w root withProofs digests totalText totalWeight dust =
     \<lparr>cs_chainId = dec_of_int (sr_chainId req), cs_snapshotBlock = dec_of_int (sr_snapshotBlock req),
      cs_snapshotBlockHash = lower (bh_hash header),
      cs_snapshotBlockTimestamp = dec_of_int (bh_timestamp header),
      cs_lockingVault = vault, cs_claimManager = manager,
      cs_enumerationStartBlock = dec_of_int (sr_enumerationStartBlock req),
      cs_indexerSyncedThrough = dec_of_int (sr_snapshotBlock req),
      cs_candidateCount = length (we_candidates w), cs_zeroWeightExcludedCount = we_zeroWeight w,
      cs_includedParticipantCount = length (we_participants w), cs_participants = we_participants w,
      cs_totalEffectiveWeight = totalWeight, cs_distributionAsset = asset,
      cs_distributionAmount = dec_of_int (sr_distributionAmount req), cs_cycleId = dec_of_int (sr_cycleId req),
      cs_entitlements = map (\<lambda>p. p\<lparr>pe_proof := []\<rparr>) withProofs, cs_entitlementTotal = totalText, cs_dust = dust,
      cs_merkleRoot = root, cs_inputDigests = digests\<rparr>"

definition publishArguments ::
  "SnapshotRequest \<Rightarrow> string \<Rightarrow> string \<Rightarrow> string \<Rightarrow> string \<Rightarrow> PublishArguments" where
  "publishArguments req asset root snapshotDigest bundleDigest =
     \<lparr>pu_cycleId = sr_cycleId req, pu_merkleRoot = root, pu_allocationsContentHash = snapshotDigest,
      pu_manifestEnvelopeHash = bundleDigest, pu_claimStart = sr_claimStart req,
      pu_claimDeadline = sr_claimDeadline req, pu_assets = [asset],
      pu_fundedAmounts = [sr_distributionAmount req]\<rparr>"

definition assemble ::
  "(string \<Rightarrow> string) \<Rightarrow> (PublishArguments \<Rightarrow> snapshot_error + string) \<Rightarrow> SnapshotRequest \<Rightarrow> string \<Rightarrow> CanonicalSnapshot
    \<Rightarrow> ParticipantEntitlement list \<Rightarrow> nat \<Rightarrow> int \<Rightarrow> snapshot_error + SnapshotRunResult" where
  "assemble keccak encodePublish req manager snapshot withProofs matched head =
     rbind (shared (keccakOfCanonical keccak (snapshotJson snapshot))) (\<lambda>snapshotDigest.
     let bundle = \<lparr>pb_chainId = cs_chainId snapshot, pb_cycleId = cs_cycleId snapshot,
                   pb_claimManager = manager, pb_distributionAsset = cs_distributionAsset snapshot,
                   pb_merkleRoot = cs_merkleRoot snapshot, pb_canonicalSnapshotDigest = snapshotDigest,
                   pb_participants = withProofs\<rparr>
     in rbind (shared (keccakOfCanonical keccak (bundleJson bundle))) (\<lambda>bundleDigest.
        let args = publishArguments req (cs_distributionAsset snapshot) (cs_merkleRoot snapshot)
                     snapshotDigest bundleDigest
        in rbind (encodePublish args) (\<lambda>calldata.
           Inr \<lparr>rs_snapshot = snapshot, rs_proofBundle = bundle,
            rs_unsignedPublication =
              \<lparr>un_chainId = cs_chainId snapshot, un_to = manager, un_value = ''0'', un_arguments = args,
               un_encodedCalldata = calldata, un_snapshotBlock = cs_snapshotBlock snapshot,
               un_snapshotBlockHash = cs_snapshotBlockHash snapshot,
               un_merkleRoot = cs_merkleRoot snapshot, un_cycleId = cs_cycleId snapshot,
               un_distributionAsset = cs_distributionAsset snapshot,
               un_distributionAmount = cs_distributionAmount snapshot,
               un_canonicalSnapshotDigest = snapshotDigest\<rparr>,
            rs_canonicalSnapshotDigest = snapshotDigest, rs_proofBundleDigest = bundleDigest,
            rs_checked = length withProofs, rs_matched = matched,
            rs_observedChainHead = dec_of_int head\<rparr>)))"

definition runSnapshotPipeline ::
  "Viem \<Rightarrow> TreeLib \<Rightarrow> (string \<Rightarrow> string) \<Rightarrow> (PublishArguments \<Rightarrow> snapshot_error + string) \<Rightarrow> ChainReader \<Rightarrow> SnapshotRequest
    \<Rightarrow> snapshot_error + SnapshotRunResult" where
  "runSnapshotPipeline v oz keccak encodePublish reader req =
     rbind (validateRequestShape req) (\<lambda>_.
     rbind (shared (normalizeAddress (sr_lockingVault req))) (\<lambda>vault.
     rbind (shared (normalizeAddress (sr_claimManager req))) (\<lambda>manager.
     rbind (shared (normalizeAddress (sr_distributionAsset req))) (\<lambda>asset.
     rbind (chainGuards reader req) (\<lambda>(header, synced).
     rbind (weighCandidates reader req (bh_timestamp header)) (\<lambda>w.
     rbind (entitleAll req w) (\<lambda>(entitled, entitlementTotal).
     let dust = sr_distributionAmount req - entitlementTotal;
         values = map (valueRow req manager asset) entitled
     in rbind (shared (orThrow (oz_of oz values LEAF_ABI_TYPES))) (\<lambda>tree.
        rbind (rmap (proveEntitled v tree req manager asset) entitled) (\<lambda>withProofs.
        rbind (rfold (leafParity reader req asset) 0 withProofs) (\<lambda>matched.
        rbind (inputDigests keccak req vault manager asset (we_created w) (we_withdrawn w)) (\<lambda>digests.
        rbind (shared (toDecimalString (we_totalWeight w))) (\<lambda>totalWeight.
        rbind (shared (toDecimalString entitlementTotal)) (\<lambda>totalText.
        rbind (shared (toDecimalString dust)) (\<lambda>dustText.
          assemble keccak encodePublish req manager
            (snapshotOf req vault manager asset header w (zt_root tree) withProofs digests totalText totalWeight
              dustText)
            withProofs matched synced))))))))))))))"

section \<open>Lemmas\<close>

lemma shared_simps [simp]: "shared (Inr a) = Inr a" "shared (Inl e) = Inl (Shared e)"
  by (simp_all add: shared_def)

lemma shared_eq_Inr [simp]: "shared r = Inr a \<longleftrightarrow> r = Inr a"
  by (cases r) auto

lemma snapFail_neq_Inr [simp]: "snapFail c \<noteq> Inr a"
  by (simp add: snapFail_def)

lemma if_snapFail_eq_Inr [simp]: "(if c then snapFail e else r) = Inr a \<longleftrightarrow> \<not> c \<and> r = Inr a"
  by (simp add: snapFail_def)

lemma int_of_dec_of_int [simp]: "0 \<le> i \<Longrightarrow> int_of_dec (dec_of_int i) = i"
  by (simp add: int_of_dec_def dec_of_int_def)

lemma toDecimalString_eq_Inr [simp]: "toDecimalString i = Inr t \<longleftrightarrow> 0 \<le> i \<and> t = dec_of_int i"
  by (auto simp: toDecimalString_def)

subsection \<open>Candidates\<close>

definition valid_record :: "LockCreatedRecord \<Rightarrow> bool" where
  "valid_record r \<longleftrightarrow> isHexAddress (lc_account r) \<and> 0 \<le> lc_blockNumber r \<and> 0 \<le> lc_lockId r"

lemma enumerate_fold:
  "rfold (enumerateRecord pin) (u, k) rs = Inr (u', k') \<longleftrightarrow>
   list_all valid_record rs \<and>
   u' = fold set_add (map (\<lambda>r. lower (lc_account r)) (filter (\<lambda>r. lc_blockNumber r \<le> pin) rs)) u \<and>
   k' = k + length (filter (\<lambda>r. pin < lc_blockNumber r) rs)"
proof (induction rs arbitrary: u k)
  case (Cons r rs)
  have "enumerateRecord pin (u, k) r = Inr x \<longleftrightarrow> valid_record r \<and>
      x = (if pin < lc_blockNumber r then (u, k + 1) else (set_add (lower (lc_account r)) u, k))" for x
    by (auto simp: enumerateRecord_def valid_record_def rbind_eq_Inr normalizeAddress_eq_Inr not_less)
  with Cons.IH show ?case by (auto simp: rbind_eq_Inr not_less)
qed auto

text \<open>
  The candidates of a snapshot are the normalized accounts of the lock records at or before the pinned
  block, each once and in ascending order; later records do not influence them and are
  counted, and the enumeration fails exactly when some record is malformed.
\<close>

theorem enumerateCandidates_spec:
  "enumerateCandidates records pin = Inr e \<longleftrightarrow>
   list_all valid_record records \<and>
   er_candidates e = sorted_list_of_set
     ((\<lambda>r. lower (lc_account r)) ` {r \<in> set records. lc_blockNumber r \<le> pin}) \<and>
   er_excludedAfterSnapshot e = length (filter (\<lambda>r. pin < lc_blockNumber r) records) \<and>
   er_recordsSeen e = length records"
proof -
  let ?u = "fold set_add (map (\<lambda>r. lower (lc_account r)) (filter (\<lambda>r. lc_blockNumber r \<le> pin) records)) []"
  let ?cmp = "\<lambda>a b :: string. if lower a < lower b then -1 else (1 :: int)"
  have low: "lower a = a" if "a \<in> set ?u" for a using that by auto
  have "js_sort ?cmp ?u = js_sort str_cmp ?u"
  proof (rule js_sort_cong)
    fix x y assume "x \<in> set ?u" "y \<in> set ?u" "x \<noteq> y"
    then have "lower x = x" "lower y = y" "x \<noteq> y" using low by blast+
    then show "(?cmp x y \<le> 0) = (str_cmp x y \<le> 0)" unfolding str_cmp_le by (simp add: less_le)
  qed simp
  moreover have "sorted_list_of_set (set (js_sort str_cmp ?u)) = js_sort str_cmp ?u"
    by (rule sorted_list_of_set.idem_if_sorted_distinct [OF sorted_str_sort])
      (simp only: distinct_js_sort distinct_fold_set_add distinct.simps)
  moreover have "set ?u = (\<lambda>r. lower (lc_account r)) ` {r \<in> set records. lc_blockNumber r \<le> pin}"
    by auto
  ultimately have "js_sort ?cmp ?u = sorted_list_of_set
      ((\<lambda>r. lower (lc_account r)) ` {r \<in> set records. lc_blockNumber r \<le> pin})"
    by (simp only: set_js_sort)
  then show ?thesis
    by (cases e) (auto simp: enumerateCandidates_def rbind_eq_Inr enumerate_fold split_paired_Ex)
qed

lemma candidates_set:
  assumes "enumerateCandidates rs pin = Inr e"
  shows "set (er_candidates e) = (\<lambda>r. lower (lc_account r)) ` {r \<in> set rs. lc_blockNumber r \<le> pin}"
    and "list_all valid_record rs"
proof -
  have "list_all valid_record rs \<and>
      set (er_candidates e) = (\<lambda>r. lower (lc_account r)) ` set (filter (\<lambda>r. lc_blockNumber r \<le> pin) rs)"
    using assms by (auto simp: enumerateCandidates_def rbind_eq_Inr enumerate_fold)
  then show "set (er_candidates e) = (\<lambda>r. lower (lc_account r)) ` {r \<in> set rs. lc_blockNumber r \<le> pin}"
    and "list_all valid_record rs" by auto
qed

lemma candidates_distinct: "enumerateCandidates rs pin = Inr e \<Longrightarrow> distinct (er_candidates e)"
  by (auto simp: enumerateCandidates_def rbind_eq_Inr enumerate_fold)

subsection \<open>Weights\<close>

lemma positionsWeight_eq_Inr:
  "positionsWeight reader ts block account n = Inr w \<longleftrightarrow>
   (\<exists>ws. rmap (\<lambda>i. cr_positionWeightAt reader account i ts block) (map int [0..<nat n]) = Inr ws \<and>
      list_all ((\<le>) 0) ws \<and> w = sum_list ws)"
proof -
  have "rfold (\<lambda>weight lockId. rbind (cr_positionWeightAt reader account lockId ts block) (\<lambda>w.
         if w < 0 then snapFail ''NEGATIVE_WEIGHT'' else Inr (weight + w))) a ids = Inr w \<longleftrightarrow>
    (\<exists>ws. rmap (\<lambda>i. cr_positionWeightAt reader account i ts block) ids = Inr ws \<and>
      list_all ((\<le>) 0) ws \<and> w = a + sum_list ws)" for a ids
  proof (induction ids arbitrary: a)
    case (Cons i ids)
    show ?case
      by (auto simp: rbind_eq_Inr Cons.IH not_less add.assoc)
  qed auto
  then show ?thesis by (simp add: positionsWeight_def)
qed

lemma positionsWeight_nonneg: "positionsWeight reader ts block account n = Inr w \<Longrightarrow> 0 \<le> w"
  by (auto simp: positionsWeight_eq_Inr list_all_iff intro: sum_list_nonneg)

text \<open>The weight of an account at the pin, and the participant it makes.\<close>

definition pinned_weight :: "ChainReader \<Rightarrow> int \<Rightarrow> int \<Rightarrow> string \<Rightarrow> int \<Rightarrow> bool" where
  "pinned_weight reader ts block account w \<longleftrightarrow>
     (\<exists>n ws. cr_lockCountAt reader account block = Inr n \<and>
        rmap (\<lambda>i. cr_positionWeightAt reader account i ts block) (map int [0..<nat n]) = Inr ws \<and>
        w = sum_list ws)"

definition weight_of :: "ParticipantWeight \<Rightarrow> int" where
  "weight_of p = int_of_dec (pw_effectiveWeight p)"

definition good_participant :: "ChainReader \<Rightarrow> int \<Rightarrow> int \<Rightarrow> ParticipantWeight \<Rightarrow> bool" where
  "good_participant reader ts block p \<longleftrightarrow>
     pw_effectiveWeight p = dec_of_int (weight_of p) \<and> 0 < weight_of p \<and>
     pinned_weight reader ts block (pw_address p) (weight_of p)"

lemma weighAccount_Inr:
  assumes "weighAccount reader ts block (ps, z, t) a = Inr (ps', z', t')"
  shows "(ps' = ps \<and> t' = t \<and> pinned_weight reader ts block a 0) \<or>
    (\<exists>p. ps' = ps @ [p] \<and> pw_address p = a \<and> t' = t + weight_of p \<and> good_participant reader ts block p)"
proof -
  from assms obtain n w where n: "cr_lockCountAt reader a block = Inr n"
    and w: "positionsWeight reader ts block a n = Inr w"
    and r: "if w = 0 then ps' = ps \<and> t' = t
      else ps' = ps @ [\<lparr>pw_address = a, pw_lockCount = dec_of_int n, pw_effectiveWeight = dec_of_int w\<rparr>] \<and>
           t' = t + w"
    by (auto simp: weighAccount_def rbind_eq_Inr split: if_splits)
  have pin: "pinned_weight reader ts block a w" using n w by (auto simp: pinned_weight_def positionsWeight_eq_Inr)
  show ?thesis
    using r pin positionsWeight_nonneg [OF w]
    by (auto simp: good_participant_def weight_of_def split: if_splits)
qed

lemma weigh_fold:
  assumes "rfold (weighAccount reader ts block) (ps, z, t) as = Inr (ps', z', t')" and "distinct as"
  shows "\<exists>qs. ps' = ps @ qs \<and> t' = t + (\<Sum>p\<leftarrow>qs. weight_of p) \<and>
    list_all (good_participant reader ts block) qs \<and>
    distinct (map pw_address qs) \<and> pw_address ` set qs \<subseteq> set as \<and>
    (\<forall>a\<in>set as - pw_address ` set qs. pinned_weight reader ts block a 0)"
  using assms
proof (induction as arbitrary: ps z t)
  case Nil
  then show ?case by auto
next
  case (Cons a as)
  then obtain ps1 z1 t1 where s: "weighAccount reader ts block (ps, z, t) a = Inr (ps1, z1, t1)"
    and r: "rfold (weighAccount reader ts block) (ps1, z1, t1) as = Inr (ps', z', t')"
    by (auto simp: rbind_eq_Inr)
  obtain qs where IH: "ps' = ps1 @ qs" "t' = t1 + (\<Sum>p\<leftarrow>qs. weight_of p)"
    "list_all (good_participant reader ts block) qs" "distinct (map pw_address qs)"
    "pw_address ` set qs \<subseteq> set as" "\<forall>a\<in>set as - pw_address ` set qs. pinned_weight reader ts block a 0"
    using Cons.IH [OF r] Cons.prems(2) by auto
  from weighAccount_Inr [OF s] show ?case
  proof
    assume "ps1 = ps \<and> t1 = t \<and> pinned_weight reader ts block a 0"
    with IH show ?thesis by (intro exI [of _ qs]) auto
  next
    assume "\<exists>p. ps1 = ps @ [p] \<and> pw_address p = a \<and> t1 = t + weight_of p \<and> good_participant reader ts block p"
    then obtain p where p: "ps1 = ps @ [p]" "pw_address p = a" "t1 = t + weight_of p"
      "good_participant reader ts block p" by blast
    with IH Cons.prems(2) show ?thesis by (intro exI [of _ "p # qs"]) auto
  qed
qed

lemma weighCandidates_Inr:
  assumes "weighCandidates reader req ts = Inr w"
  shows "cr_lockCreated reader (sr_enumerationStartBlock req) (sr_snapshotBlock req) = Inr (we_created w) \<and>
    cr_lockWithdrawn reader (sr_enumerationStartBlock req) (sr_snapshotBlock req) = Inr (we_withdrawn w) \<and>
    (\<exists>e. enumerateCandidates (we_created w) (sr_snapshotBlock req) = Inr e \<and> we_candidates w = er_candidates e) \<and>
    list_all (good_participant reader ts (sr_snapshotBlock req)) (we_participants w) \<and>
    distinct (map pw_address (we_participants w)) \<and>
    pw_address ` set (we_participants w) \<subseteq> set (we_candidates w) \<and>
    (\<forall>a\<in>set (we_candidates w) - pw_address ` set (we_participants w).
       pinned_weight reader ts (sr_snapshotBlock req) a 0) \<and>
    we_totalWeight w = (\<Sum>p\<leftarrow>we_participants w. weight_of p) \<and> 0 < we_totalWeight w"
proof -
  from assms obtain created withdrawn e ps z t where
    c: "cr_lockCreated reader (sr_enumerationStartBlock req) (sr_snapshotBlock req) = Inr created"
      "cr_lockWithdrawn reader (sr_enumerationStartBlock req) (sr_snapshotBlock req) = Inr withdrawn"
      "enumerateCandidates created (sr_snapshotBlock req) = Inr e"
    and f: "rfold (weighAccount reader ts (sr_snapshotBlock req)) ([], 0, 0) (er_candidates e) = Inr (ps, z, t)"
    and ne: "ps \<noteq> []" "t \<noteq> 0"
    and w: "we_created w = created" "we_withdrawn w = withdrawn" "we_candidates w = er_candidates e"
      "we_participants w = ps" "we_totalWeight w = t"
    by (auto simp: weighCandidates_def rbind_eq_Inr)
  from weigh_fold [OF f candidates_distinct [OF c(3)]] have p:
    "t = (\<Sum>p\<leftarrow>ps. weight_of p)" "list_all (good_participant reader ts (sr_snapshotBlock req)) ps"
    "distinct (map pw_address ps)" "pw_address ` set ps \<subseteq> set (er_candidates e)"
    "\<forall>a\<in>set (er_candidates e) - pw_address ` set ps. pinned_weight reader ts (sr_snapshotBlock req) a 0"
    by auto
  have "0 \<le> t" unfolding p(1) using p(2)
    by (intro sum_list_nonneg) (auto simp: list_all_iff good_participant_def)
  with ne(2) have "0 < t" by simp
  with c p show ?thesis unfolding w by blast
qed

subsection \<open>Entitlements\<close>

definition share :: "int \<Rightarrow> int \<Rightarrow> ParticipantWeight \<Rightarrow> int" where
  "share D T p = D * weight_of p div T"

lemma pinned_share_nonneg: "0 \<le> D \<Longrightarrow> 0 < T \<Longrightarrow> 0 \<le> weight_of p \<Longrightarrow> 0 \<le> share D T p"
  by (simp add: share_def pos_imp_zdiv_nonneg_iff)

definition entitled_of :: "int \<Rightarrow> int \<Rightarrow> ParticipantWeight \<Rightarrow> Entitled" where
  "entitled_of D T p = \<lparr>ew_address = pw_address p, ew_weight = weight_of p, ew_amount = share D T p\<rparr>"

lemma entitle_fold:
  assumes "list_all (\<lambda>p. pw_effectiveWeight p = dec_of_int (weight_of p) \<and> 0 < weight_of p) ps"
    and "0 < D" and "0 < T"
  shows "rfold (entitleParticipant D T) (es, t) ps =
    Inr (es @ map (entitled_of D T) (filter (\<lambda>p. share D T p \<noteq> 0) ps), t + (\<Sum>p\<leftarrow>ps. share D T p))"
  using assms(1)
proof (induction ps arbitrary: es t)
  case (Cons p ps)
  then have "entitleParticipant D T (es, t) p = Inr (if share D T p = 0 then (es, t)
      else (es @ [entitled_of D T p], t + share D T p))"
    using assms(2,3) by (auto simp: entitleParticipant_def mulDivFloor_def share_def entitled_of_def)
  with Cons show ?case by auto
qed simp

text \<open>Shares by floor stay below the whole by less than one unit per participant.\<close>

lemma share_sum:
  assumes "\<forall>p\<in>set ps. 0 \<le> weight_of p" and "0 \<le> D" and "0 < T" and "T = (\<Sum>p\<leftarrow>ps. weight_of p)"
  shows "(\<Sum>p\<leftarrow>ps. share D T p) \<le> D" and "ps \<noteq> [] \<Longrightarrow> D < (\<Sum>p\<leftarrow>ps. share D T p) + int (length ps)"
proof -
  have one: "share D T p * T \<le> D * weight_of p \<and> D * weight_of p < share D T p * T + T" for p
    unfolding share_def
    using pos_mod_sign [OF assms(3), of "D * weight_of p"] pos_mod_bound [OF assms(3), of "D * weight_of p"]
      div_mult_mod_eq [of "D * weight_of p" T] by linarith
  have sums: "(\<Sum>p\<leftarrow>qs. share D T p) * T \<le> D * (\<Sum>p\<leftarrow>qs. weight_of p) \<and>
      (qs \<noteq> [] \<longrightarrow> D * (\<Sum>p\<leftarrow>qs. weight_of p) < ((\<Sum>p\<leftarrow>qs. share D T p) + int (length qs)) * T)" for qs
  proof (induction qs)
    case (Cons p qs)
    with one [of p] show ?case by (cases "qs = []") (auto simp: algebra_simps)
  qed simp
  show "(\<Sum>p\<leftarrow>ps. share D T p) \<le> D"
    using sums [of ps] assms(3) unfolding assms(4) [symmetric] by (simp add: mult_le_cancel_right)
  show "D < (\<Sum>p\<leftarrow>ps. share D T p) + int (length ps)" if "ps \<noteq> []"
    using sums [of ps] that assms(3) unfolding assms(4) [symmetric] by (simp add: mult_less_cancel_right)
qed


lemma sum_list_filter_nonzero: "(\<Sum>x\<leftarrow>filter (\<lambda>x. f x \<noteq> 0) xs. f x) = (\<Sum>x\<leftarrow>xs. f x :: int)"
  by (induction xs) auto

lemma entitleAll_Inr:
  assumes "entitleAll req w = Inr (es, t)" and "0 < sr_distributionAmount req" and "0 < we_totalWeight w"
    and "list_all (good_participant reader ts block) (we_participants w)"
  shows "es = map (entitled_of (sr_distributionAmount req) (we_totalWeight w))
      (filter (\<lambda>p. share (sr_distributionAmount req) (we_totalWeight w) p \<noteq> 0) (we_participants w)) \<and>
    t = (\<Sum>p\<leftarrow>we_participants w. share (sr_distributionAmount req) (we_totalWeight w) p) \<and>
    t \<le> sr_distributionAmount req \<and> es \<noteq> []"
proof -
  have "list_all (\<lambda>p. pw_effectiveWeight p = dec_of_int (weight_of p) \<and> 0 < weight_of p) (we_participants w)"
    using assms(4) by (auto simp: list_all_iff good_participant_def)
  from entitle_fold [OF this assms(2,3)] assms(1) show ?thesis
    by (auto simp: entitleAll_def)
qed

definition fieldsOf :: "SnapshotRequest \<Rightarrow> string \<Rightarrow> string \<Rightarrow> string \<Rightarrow> int \<Rightarrow> LeafFields" where
  "fieldsOf req manager asset wallet amount =
     \<lparr>lf_chainId = sr_chainId req, lf_claimManager = manager, lf_cycleId = sr_cycleId req,
      lf_wallet = wallet, lf_asset = asset, lf_amount = amount\<rparr>"

lemma proveEntitled_Inr:
  assumes "proveEntitled v tree req manager asset e = Inr p"
  shows "pe_address p = ew_address e \<and> pe_effectiveWeight p = dec_of_int (ew_weight e) \<and>
    pe_entitlement p = dec_of_int (ew_amount e) \<and> 0 \<le> ew_amount e \<and>
    viemVerifyRaw v (fieldsOf req manager asset (ew_address e) (ew_amount e)) (pe_proof p)
      (zt_root tree) = Some True"
  using assms by (auto simp: proveEntitled_def Let_def rbind_eq_Inr fieldsOf_def)

lemma leafParity_fold:
  assumes "rfold (leafParity reader req asset) k ps = Inr k'"
  shows "k' = k + length ps \<and>
    (\<forall>p\<in>set ps. \<exists>amount l. bigint_of_string (pe_entitlement p) = Inr amount \<and>
       cr_leafFor reader (sr_cycleId req) (pe_address p) asset amount (sr_snapshotBlock req) = Inr l \<and>
       lower l = lower (pe_leaf p))"
  using assms
  by (induction ps arbitrary: k) (fastforce simp: leafParity_def rbind_eq_Inr)+

lemma assemble_Inr:
  assumes "assemble keccak encodePublish req manager snapshot ps matched head = Inr res"
  shows "rs_snapshot res = snapshot \<and> rs_checked res = length ps \<and> rs_matched res = matched \<and>
    pb_participants (rs_proofBundle res) = ps \<and> pb_chainId (rs_proofBundle res) = cs_chainId snapshot \<and>
    pb_cycleId (rs_proofBundle res) = cs_cycleId snapshot \<and>
    pb_claimManager (rs_proofBundle res) = manager \<and>
    pb_distributionAsset (rs_proofBundle res) = cs_distributionAsset snapshot \<and>
    pb_merkleRoot (rs_proofBundle res) = cs_merkleRoot snapshot \<and>
    keccakOfCanonical keccak (snapshotJson snapshot) = Inr (rs_canonicalSnapshotDigest res) \<and>
    keccakOfCanonical keccak (bundleJson (rs_proofBundle res)) = Inr (rs_proofBundleDigest res) \<and>
    un_arguments (rs_unsignedPublication res) =
      publishArguments req (cs_distributionAsset snapshot) (cs_merkleRoot snapshot)
        (rs_canonicalSnapshotDigest res) (rs_proofBundleDigest res) \<and>
    un_to (rs_unsignedPublication res) = manager"
  using assms by (auto simp: assemble_def rbind_eq_Inr Let_def)

text \<open>Everything a successful run went through.\<close>

definition run_facts ::
  "Viem \<Rightarrow> ChainReader \<Rightarrow> SnapshotRequest \<Rightarrow> BlockHeader \<Rightarrow> Weighed \<Rightarrow> string \<Rightarrow> string \<Rightarrow> string
    \<Rightarrow> ParticipantEntitlement list \<Rightarrow> int \<Rightarrow> bool" where
  "run_facts v reader req header w manager asset root ps t \<longleftrightarrow>
     cr_block reader (sr_snapshotBlock req) = Inr (Some header) \<and>
     lower (bh_hash header) = lower (sr_expectedBlockHash req) \<and>
     normalizeAddress (sr_claimManager req) = Inr manager \<and>
     normalizeAddress (sr_distributionAsset req) = Inr asset \<and>
     0 < sr_distributionAmount req \<and>
     weighCandidates reader req (bh_timestamp header) = Inr w \<and>
     t = (\<Sum>p\<leftarrow>we_participants w. share (sr_distributionAmount req) (we_totalWeight w) p) \<and>
     t \<le> sr_distributionAmount req \<and> ps \<noteq> [] \<and>
     list_all2 (\<lambda>p e. pe_address e = pw_address p \<and> pe_effectiveWeight e = pw_effectiveWeight p \<and>
         pe_entitlement e = dec_of_int (share (sr_distributionAmount req) (we_totalWeight w) p))
       (filter (\<lambda>p. share (sr_distributionAmount req) (we_totalWeight w) p \<noteq> 0) (we_participants w)) ps \<and>
     (\<forall>e\<in>set ps. viemVerifyRaw v (fieldsOf req manager asset (pe_address e)
          (int_of_dec (pe_entitlement e))) (pe_proof e) root = Some True) \<and>
     (\<forall>e\<in>set ps. \<exists>l. cr_leafFor reader (sr_cycleId req) (pe_address e) asset
        (int_of_dec (pe_entitlement e)) (sr_snapshotBlock req) = Inr l \<and> lower l = lower (pe_leaf e))"

lemma chainGuards_Inr:
  assumes "chainGuards reader req = Inr (header, head)"
  shows "cr_chainId reader = Inr (sr_chainId req) \<and> cr_block reader (sr_snapshotBlock req) = Inr (Some header) \<and>
    lower (bh_hash header) = lower (sr_expectedBlockHash req) \<and> cr_syncedThrough reader = Inr head \<and>
    sr_snapshotBlock req \<le> head \<and> cr_vaultHasCodeAt reader (sr_enumerationStartBlock req - 1) = Inr False \<and>
    cr_vaultHasCodeAt reader (sr_snapshotBlock req) = Inr True"
  using assms unfolding chainGuards_def
  by (clarsimp simp: rbind_eq_Inr not_less split: option.split_asm)

lemma validateRequestShape_Inr:
  "validateRequestShape req = Inr u \<Longrightarrow> 0 < sr_distributionAmount req \<and> 0 < sr_chainId req \<and> 0 < sr_cycleId req"
  by (auto simp: validateRequestShape_def requirePositive_def rbind_eq_Inr)

lemma run_Inr:
  assumes "runSnapshotPipeline v oz keccak encodePublish reader req = Inr res"
  shows "\<exists>header w manager asset t.
    run_facts v reader req header w manager asset (cs_merkleRoot (rs_snapshot res))
      (pb_participants (rs_proofBundle res)) t \<and>
    cs_participants (rs_snapshot res) = we_participants w \<and>
    cs_includedParticipantCount (rs_snapshot res) = length (we_participants w) \<and>
    cs_dust (rs_snapshot res) = dec_of_int (sr_distributionAmount req - t) \<and>
    cs_entitlementTotal (rs_snapshot res) = dec_of_int t \<and>
    cs_totalEffectiveWeight (rs_snapshot res) = dec_of_int (we_totalWeight w) \<and>
    pb_chainId (rs_proofBundle res) = dec_of_int (sr_chainId req) \<and>
    pb_cycleId (rs_proofBundle res) = dec_of_int (sr_cycleId req) \<and>
    pb_claimManager (rs_proofBundle res) = manager \<and> pb_distributionAsset (rs_proofBundle res) = asset \<and>
    pb_merkleRoot (rs_proofBundle res) = cs_merkleRoot (rs_snapshot res) \<and>
    rs_matched res = length (pb_participants (rs_proofBundle res)) \<and> rs_checked res = rs_matched res"
proof -
  let ?D = "sr_distributionAmount req"
  obtain u vault manager asset header head w es t tree ps matched digests where
    val: "validateRequestShape req = Inr u"
    and m: "normalizeAddress (sr_claimManager req) = Inr manager"
      "normalizeAddress (sr_distributionAsset req) = Inr asset"
    and g: "chainGuards reader req = Inr (header, head)"
    and w: "weighCandidates reader req (bh_timestamp header) = Inr w"
    and e: "entitleAll req w = Inr (es, t)"
    and p: "rmap (proveEntitled v tree req manager asset) es = Inr ps"
    and k: "rfold (leafParity reader req asset) 0 ps = Inr matched"
    and a: "assemble keccak encodePublish req manager
        (snapshotOf req vault manager asset header w
          (zt_root tree) ps digests (dec_of_int t)
          (dec_of_int (we_totalWeight w)) (dec_of_int (?D - t))) ps matched head = Inr res"
    using assms unfolding runSnapshotPipeline_def Let_def
    by (clarsimp simp only: rbind_eq_Inr shared_eq_Inr orThrow_simps toDecimalString_eq_Inr split_paired_Ex prod.case
        simp_thms ex_simps)
  have D: "0 < ?D" using validateRequestShape_Inr [OF val] by blast
  have T: "0 < we_totalWeight w"
    and gp: "list_all (good_participant reader (bh_timestamp header) (sr_snapshotBlock req)) (we_participants w)"
    using weighCandidates_Inr [OF w] by blast+
  note es = entitleAll_Inr [OF e D T gp]
  let ?root = "zt_root tree"
  have l2: "list_all2 (\<lambda>x y. pe_address y = ew_address x \<and> pe_effectiveWeight y = dec_of_int (ew_weight x) \<and>
      pe_entitlement y = dec_of_int (ew_amount x) \<and> 0 \<le> ew_amount x \<and>
      viemVerifyRaw v (fieldsOf req manager asset (ew_address x) (ew_amount x)) (pe_proof y) ?root = Some True) es ps"
    using p unfolding rmap_eq_Inr by (rule list_all2_mono) (rule proveEntitled_Inr)
  have ne: "ps \<noteq> []" using l2 es by (auto dest: list_all2_lengthD)
  have ver: "0 \<le> int_of_dec (pe_entitlement y) \<and> pe_entitlement y = dec_of_int (int_of_dec (pe_entitlement y)) \<and>
      viemVerifyRaw v (fieldsOf req manager asset (pe_address y)
      (int_of_dec (pe_entitlement y))) (pe_proof y) ?root = Some True" if "y \<in> set ps" for y
    using l2 that by (auto simp: list_all2_conv_all_nth in_set_conv_nth)
  have par: "\<exists>l. cr_leafFor reader (sr_cycleId req) (pe_address y) asset
        (int_of_dec (pe_entitlement y)) (sr_snapshotBlock req) = Inr l \<and> lower l = lower (pe_leaf y)"
    if y: "y \<in> set ps" for y
  proof -
    obtain amount l where "bigint_of_string (pe_entitlement y) = Inr amount"
      "cr_leafFor reader (sr_cycleId req) (pe_address y) asset amount (sr_snapshotBlock req) = Inr l"
      "lower l = lower (pe_leaf y)"
      using conjunct2 [OF leafParity_fold [OF k]] y by blast
    moreover have "bigint_of_string (pe_entitlement y) = Inr (int_of_dec (pe_entitlement y))"
      using ver [OF y] bigint_of_string_dec by metis
    ultimately show ?thesis by (simp only: sum.inject) blast
  qed
  have pw: "list_all2 (\<lambda>p e. pe_address e = pw_address p \<and> pe_effectiveWeight e = pw_effectiveWeight p \<and>
         pe_entitlement e = dec_of_int (share ?D (we_totalWeight w) p))
       (filter (\<lambda>p. share ?D (we_totalWeight w) p \<noteq> 0) (we_participants w)) ps" (is "list_all2 _ ?qs ps")
  proof -
    have eff: "pw_effectiveWeight p = dec_of_int (weight_of p)" if "p \<in> set ?qs" for p
      using gp that by (auto simp: list_all_iff good_participant_def)
    have "list_all2 (\<lambda>p e. pe_address e = pw_address p \<and> pe_effectiveWeight e = dec_of_int (weight_of p) \<and>
         pe_entitlement e = dec_of_int (share ?D (we_totalWeight w) p)) ?qs ps"
      using l2 unfolding es [THEN conjunct1] list_all2_map1
      by (rule list_all2_mono) (simp add: entitled_of_def)
    then show ?thesis by (rule list.rel_mono_strong) (simp add: eff)
  qed
  note as = assemble_Inr [OF a]
  have "run_facts v reader req header w manager asset ?root ps t"
    unfolding run_facts_def
    using chainGuards_Inr [OF g] m D w es pw ver par ne by blast
  then show ?thesis
    using as conjunct1 [OF leafParity_fold [OF k]]
    by (intro exI [of _ header] exI [of _ w] exI [of _ manager] exI [of _ asset] exI [of _ t] conjI)
      (simp_all add: snapshotOf_def)
qed

end
