(* ===== verification/Consumer.thy ===== *)
theory Consumer
  imports Snapshot
begin

text \<open>
  What a successful run of the snapshot pipeline publishes, and the read-only consumer of its artifacts
  (\<open>apps/indexer/src/lock-snapshot/consumer.ts\<close>). The classification of a bundle and of a snapshot is
  a literal type, so the constant stands for the field.
\<close>

section \<open>The consumer\<close>

record ParticipantView =
  vw_address :: string
  vw_effectiveWeight :: string
  vw_entitlement :: string
  vw_leaf :: string
  vw_proof :: "string list"
  vw_merkleRoot :: string
  vw_verified :: bool
  vw_classification :: string

definition lookupParticipant ::
  "Viem \<Rightarrow> ProofBundle \<Rightarrow> string \<Rightarrow> pod_error + ParticipantView option" where
  "lookupParticipant v bundle address =
     rbind (normalizeAddress address) (\<lambda>normalized.
     case find (\<lambda>x. pe_address x = normalized) (pb_participants bundle) of
       None \<Rightarrow> Inr None
     | Some p \<Rightarrow>
         rbind (bigint_of_string (pb_chainId bundle)) (\<lambda>chainId.
         rbind (bigint_of_string (pb_cycleId bundle)) (\<lambda>cycleId.
         rbind (bigint_of_string (pe_entitlement p)) (\<lambda>amount.
         rbind (orThrow (viemVerifyRaw v
                        \<lparr>lf_chainId = chainId, lf_claimManager = pb_claimManager bundle,
                         lf_cycleId = cycleId, lf_wallet = pe_address p,
                         lf_asset = pb_distributionAsset bundle, lf_amount = amount\<rparr>
                        (pe_proof p) (pb_merkleRoot bundle))) (\<lambda>verified.
           Inr (Some \<lparr>vw_address = pe_address p, vw_effectiveWeight = pe_effectiveWeight p,
                      vw_entitlement = pe_entitlement p, vw_leaf = pe_leaf p, vw_proof = pe_proof p,
                      vw_merkleRoot = pb_merkleRoot bundle, vw_verified = verified,
                      vw_classification = CLASSIFICATION\<rparr>))))))"


record AggregateView =
  ag_chainId :: string
  ag_snapshotBlock :: string
  ag_snapshotBlockHash :: string
  ag_merkleRoot :: string
  ag_distributionAsset :: string
  ag_distributionAmount :: string
  ag_entitlementTotal :: string
  ag_dust :: string
  ag_includedParticipantCount :: nat
  ag_classification :: string
  ag_publicationStatus :: string

definition aggregateView :: "CanonicalSnapshot \<Rightarrow> AggregateView" where
  "aggregateView snapshot =
     \<lparr>ag_chainId = cs_chainId snapshot, ag_snapshotBlock = cs_snapshotBlock snapshot,
      ag_snapshotBlockHash = cs_snapshotBlockHash snapshot, ag_merkleRoot = cs_merkleRoot snapshot,
      ag_distributionAsset = cs_distributionAsset snapshot,
      ag_distributionAmount = cs_distributionAmount snapshot,
      ag_entitlementTotal = cs_entitlementTotal snapshot, ag_dust = cs_dust snapshot,
      ag_includedParticipantCount = cs_includedParticipantCount snapshot,
      ag_classification = CLASSIFICATION,
      ag_publicationStatus = ''NOT PUBLISHED '' @ emdash @ '' NOT AUTHORIZED''\<rparr>"

section \<open>What a run distributes\<close>

text \<open>The pinned weights of the participants, as a function of the account.\<close>

definition weight_in :: "ParticipantWeight list \<Rightarrow> string \<Rightarrow> int" where
  "weight_in ps a = (case map_of (map (\<lambda>p. (pw_address p, weight_of p)) ps) a of None \<Rightarrow> 0 | Some w \<Rightarrow> w)"

lemma weight_in_member:
  assumes "distinct (map pw_address ps)" and "p \<in> set ps"
  shows "weight_in ps (pw_address p) = weight_of p"
proof -
  have "map_of (map (\<lambda>p. (pw_address p, weight_of p)) ps) (pw_address p) = Some (weight_of p)"
    using assms by (intro map_of_is_SomeI) (auto simp: comp_def)
  then show ?thesis by (simp add: weight_in_def)
qed

lemma weight_in_other: "a \<notin> pw_address ` set ps \<Longrightarrow> weight_in ps a = 0"
  by (auto simp: weight_in_def comp_def map_of_eq_None_iff image_iff split: option.split dest!: map_of_SomeD)

lemma weight_in_sum:
  assumes "distinct (map pw_address ps)" and "pw_address ` set ps \<subseteq> A" and "finite A"
  shows "(\<Sum>a\<in>A. weight_in ps a) = (\<Sum>p\<leftarrow>ps. weight_of p)"
proof -
  have "(\<Sum>a\<in>A. weight_in ps a) = (\<Sum>a\<in>pw_address ` set ps. weight_in ps a)"
    using assms(2,3) by (intro sum.mono_neutral_right) (auto intro: weight_in_other)
  also have "\<dots> = (\<Sum>p\<in>set ps. weight_of p)"
    using assms(1) by (simp add: distinct_map sum.reindex weight_in_member)
  also have "\<dots> = (\<Sum>p\<leftarrow>ps. weight_of p)"
    using assms(1) by (simp add: distinct_map sum_list_distinct_conv_sum_set)
  finally show ?thesis .
qed

lemma entitlement_sum:
  assumes "list_all2 (\<lambda>p e. pe_entitlement e = dec_of_int (share D T p)) qs es"
    and "\<forall>p\<in>set qs. 0 \<le> share D T p"
  shows "(\<Sum>e\<leftarrow>es. int_of_dec (pe_entitlement e)) = (\<Sum>p\<leftarrow>qs. share D T p)"
  using assms by (induction rule: list_all2_induct) auto

lemma run_conservation:
  assumes "runSnapshotPipeline v oz keccak encodePublish reader req = Inr res"
  shows "(\<Sum>p\<leftarrow>pb_participants (rs_proofBundle res). int_of_dec (pe_entitlement p)) +
      int_of_dec (cs_dust (rs_snapshot res)) = sr_distributionAmount req \<and>
    0 \<le> int_of_dec (cs_dust (rs_snapshot res)) \<and>
    int_of_dec (cs_dust (rs_snapshot res)) < int (cs_includedParticipantCount (rs_snapshot res))"
proof -
  obtain header w manager asset t where
    f: "run_facts v reader req header w manager asset (cs_merkleRoot (rs_snapshot res))
      (pb_participants (rs_proofBundle res)) t"
    and dust: "cs_dust (rs_snapshot res) = dec_of_int (sr_distributionAmount req - t)"
    and n: "cs_includedParticipantCount (rs_snapshot res) = length (we_participants w)"
    using run_Inr [OF assms] by blast
  let ?D = "sr_distributionAmount req" and ?T = "we_totalWeight w" and ?ps = "we_participants w"
  have w: "weighCandidates reader req (bh_timestamp header) = Inr w" and D: "0 < ?D"
    and t: "t = (\<Sum>p\<leftarrow>?ps. share ?D ?T p)" "t \<le> ?D"
    and l2: "list_all2 (\<lambda>p e. pe_entitlement e = dec_of_int (share ?D ?T p))
      (filter (\<lambda>p. share ?D ?T p \<noteq> 0) ?ps) (pb_participants (rs_proofBundle res))"
    using f unfolding run_facts_def by (auto elim: list_all2_mono)
  have T: "?T = (\<Sum>p\<leftarrow>?ps. weight_of p)" "0 < ?T"
    and pos: "\<forall>p\<in>set ?ps. 0 \<le> weight_of p"
    using weighCandidates_Inr [OF w] by (auto simp: list_all_iff good_participant_def less_imp_le)
  have "(\<Sum>e\<leftarrow>pb_participants (rs_proofBundle res). int_of_dec (pe_entitlement e)) = t"
    using entitlement_sum [OF l2] pinned_share_nonneg pos D T(2) unfolding t(1)
    by (simp add: sum_list_filter_nonzero)
  moreover have "?D < t + int (length ?ps)"
    using share_sum(2) [of ?ps ?D ?T] pos D T unfolding t(1) by (cases "?ps = []") simp_all
  ultimately show ?thesis using t(2) dust n by simp
qed

text \<open>
  C30: whatever the chain answers, a snapshot that the pipeline produces conserves the distribution: the
  entitlements of the proof bundle and the dust sum to the distribution amount, and the dust is
  non-negative and smaller than the number of participants.
\<close>

theorem runSnapshotPipeline_conservation:
  assumes "runSnapshotPipeline v oz keccak encodePublish reader req = Inr res"
  shows "(\<Sum>p\<leftarrow>pb_participants (rs_proofBundle res). int_of_dec (pe_entitlement p)) +
      int_of_dec (ag_dust (aggregateView (rs_snapshot res))) = sr_distributionAmount req \<and>
    0 \<le> int_of_dec (ag_dust (aggregateView (rs_snapshot res))) \<and>
    int_of_dec (ag_dust (aggregateView (rs_snapshot res))) <
      int (ag_includedParticipantCount (aggregateView (rs_snapshot res)))"
  using run_conservation [OF assms] by (simp add: aggregateView_def)

lemma floor_pos: "0 \<le> (D::int) \<Longrightarrow> 0 < T \<Longrightarrow> 0 \<le> w \<Longrightarrow> D * w div T \<noteq> 0 \<longleftrightarrow> 0 < D * w div T"
  by (simp add: order_less_le pos_imp_zdiv_nonneg_iff)

lemma run_entitlements:
  assumes "runSnapshotPipeline v oz keccak encodePublish reader req = Inr res"
  shows "\<exists>header created f.
    cr_block reader (sr_snapshotBlock req) = Inr (Some header) \<and>
    lower (bh_hash header) = lower (sr_expectedBlockHash req) \<and>
    cr_lockCreated reader (sr_enumerationStartBlock req) (sr_snapshotBlock req) = Inr created \<and>
    (let accounts = (\<lambda>r. lower (lc_account r)) ` {r \<in> set created. lc_blockNumber r \<le> sr_snapshotBlock req};
         total = (\<Sum>a\<in>accounts. f a)
     in (\<forall>a\<in>accounts. pinned_weight reader (bh_timestamp header) (sr_snapshotBlock req) a (f a)) \<and>
        distinct (map pe_address (pb_participants (rs_proofBundle res))) \<and>
        (\<lambda>p. (pe_address p, pe_entitlement p)) ` set (pb_participants (rs_proofBundle res)) =
          (\<lambda>a. (a, dec_of_int (sr_distributionAmount req * f a div total))) `
            {a \<in> accounts. 0 < sr_distributionAmount req * f a div total})"
proof -
  obtain header w manager asset t where
    f: "run_facts v reader req header w manager asset (cs_merkleRoot (rs_snapshot res))
      (pb_participants (rs_proofBundle res)) t"
    using run_Inr [OF assms] by blast
  let ?D = "sr_distributionAmount req" and ?T = "we_totalWeight w" and ?ps = "we_participants w"
    and ?es = "pb_participants (rs_proofBundle res)" and ?f = "weight_in (we_participants w)"
  let ?A = "(\<lambda>r. lower (lc_account r)) ` {r \<in> set (we_created w). lc_blockNumber r \<le> sr_snapshotBlock req}"
  let ?qs = "filter (\<lambda>p. share ?D ?T p \<noteq> 0) ?ps"
  have head: "cr_block reader (sr_snapshotBlock req) = Inr (Some header)"
    "lower (bh_hash header) = lower (sr_expectedBlockHash req)" and D: "0 < ?D"
    and w: "weighCandidates reader req (bh_timestamp header) = Inr w"
    and l2: "list_all2 (\<lambda>p e. pe_address e = pw_address p \<and> pe_entitlement e = dec_of_int (share ?D ?T p)) ?qs ?es"
    using f unfolding run_facts_def by (auto elim: list_all2_mono)
  obtain en where en: "enumerateCandidates (we_created w) (sr_snapshotBlock req) = Inr en"
      "we_candidates w = er_candidates en"
    and created: "cr_lockCreated reader (sr_enumerationStartBlock req) (sr_snapshotBlock req) = Inr (we_created w)"
    and good: "list_all (good_participant reader (bh_timestamp header) (sr_snapshotBlock req)) ?ps"
    and dist: "distinct (map pw_address ?ps)" and sub: "pw_address ` set ?ps \<subseteq> set (we_candidates w)"
    and zero: "\<forall>a\<in>set (we_candidates w) - pw_address ` set ?ps.
       pinned_weight reader (bh_timestamp header) (sr_snapshotBlock req) a 0"
    and T: "?T = (\<Sum>p\<leftarrow>?ps. weight_of p)" "0 < ?T"
    using weighCandidates_Inr [OF w] by blast
  have A: "set (we_candidates w) = ?A" using candidates_set(1) [OF en(1)] en(2) by simp
  have fp: "?f (pw_address p) = weight_of p" if "p \<in> set ?ps" for p
    using weight_in_member [OF dist that] .
  have total: "(\<Sum>a\<in>?A. ?f a) = ?T"
    using weight_in_sum [OF dist sub] T(1) A by simp
  have pin: "\<forall>a\<in>?A. pinned_weight reader (bh_timestamp header) (sr_snapshotBlock req) a (?f a)"
  proof
    fix a assume "a \<in> ?A"
    show "pinned_weight reader (bh_timestamp header) (sr_snapshotBlock req) a (?f a)"
    proof (cases "a \<in> pw_address ` set ?ps")
      case True
      then show ?thesis using good fp by (auto simp: list_all_iff good_participant_def)
    next
      case False
      then show ?thesis using zero \<open>a \<in> ?A\<close> A weight_in_other [OF False] by auto
    qed
  qed
  have addr: "map pe_address ?es = map pw_address ?qs"
    and ents: "map (\<lambda>e. (pe_address e, pe_entitlement e)) ?es =
      map (\<lambda>p. (pw_address p, dec_of_int (share ?D ?T p))) ?qs"
    using l2 by (auto simp: list_all2_conv_all_nth intro: nth_equalityI)
  have "distinct (map pe_address ?es)" unfolding addr using dist by (auto simp: distinct_map intro: inj_on_subset)
  moreover have "(\<lambda>e. (pe_address e, pe_entitlement e)) ` set ?es =
      (\<lambda>p. (pw_address p, dec_of_int (share ?D ?T p))) ` set ?qs"
    using arg_cong [OF ents, of set] by simp
  moreover have "\<dots> = (\<lambda>a. (a, dec_of_int (?D * ?f a div ?T))) ` {a \<in> ?A. 0 < ?D * ?f a div ?T}" (is "?L = ?R")
  proof (intro equalityI subsetI)
    fix x assume "x \<in> ?L"
    then obtain p where p: "p \<in> set ?ps" "share ?D ?T p \<noteq> 0"
      "x = (pw_address p, dec_of_int (share ?D ?T p))" by auto
    moreover have "0 \<le> weight_of p" using good p(1) by (auto simp: list_all_iff good_participant_def)
    ultimately show "x \<in> ?R"
      using fp [OF p(1)] floor_pos [of ?D ?T "weight_of p"] D T(2) sub A
      by (intro image_eqI [of _ _ "pw_address p"]) (auto simp: share_def)
  next
    fix x assume "x \<in> ?R"
    then obtain a where a: "a \<in> ?A" "0 < ?D * ?f a div ?T" "x = (a, dec_of_int (?D * ?f a div ?T))" by blast
    then have "a \<in> pw_address ` set ?ps" using weight_in_other [of a ?ps] by fastforce
    then obtain p where "p \<in> set ?ps" "a = pw_address p" by blast
    with a fp show "x \<in> ?L" by (auto simp: share_def)
  qed
  ultimately show ?thesis
    using head created pin unfolding Let_def
    by (intro exI [of _ header] exI [of _ "we_created w"] exI [of _ ?f]) (simp only: total simp_thms)
qed

text \<open>
  A produced snapshot is bound to the pinned block: the proof bundle holds, for every account that made
  a lock record up to the pin and no other, once each, the floor of its share by the account's weight read
  at the pinned block and timestamp, when the floor is positive.
\<close>

theorem runSnapshotPipeline_entitlements:
  assumes "runSnapshotPipeline v oz keccak encodePublish reader req = Inr res"
  shows "\<exists>header created f.
    cr_block reader (sr_snapshotBlock req) = Inr (Some header) \<and>
    lower (bh_hash header) = lower (sr_expectedBlockHash req) \<and>
    cr_lockCreated reader (sr_enumerationStartBlock req) (sr_snapshotBlock req) = Inr created \<and>
    (let accounts = (\<lambda>r. lower (lc_account r)) ` {r \<in> set created. lc_blockNumber r \<le> sr_snapshotBlock req};
         total = (\<Sum>a\<in>accounts. f a)
     in (\<forall>a\<in>accounts. pinned_weight reader (bh_timestamp header) (sr_snapshotBlock req) a (f a)) \<and>
        distinct (map pe_address (pb_participants (rs_proofBundle res))) \<and>
        (\<lambda>p. (pe_address p, pe_entitlement p)) ` set (pb_participants (rs_proofBundle res)) =
          (\<lambda>a. (a, dec_of_int (sr_distributionAmount req * f a div total))) `
            {a \<in> accounts. 0 < sr_distributionAmount req * f a div total})"
  by (rule run_entitlements [OF assms])

section \<open>What a participant looks up\<close>

lemma find_distinct:
  assumes "distinct (map g xs)" and "x \<in> set xs"
  shows "find (\<lambda>y. g y = g x) xs = Some x"
  using assms by (induction xs) (auto simp: rev_image_eqI)

lemma run_entitlement_text:
  assumes "run_facts v reader req header w manager asset root es t" and "e \<in> set es"
  shows "viemVerifyRaw v (fieldsOf req manager asset (pe_address e) (int_of_dec (pe_entitlement e)))
      (pe_proof e) root = Some True"
    and "\<exists>i. 0 \<le> i \<and> pe_entitlement e = dec_of_int i"
proof -
  show "viemVerifyRaw v (fieldsOf req manager asset (pe_address e) (int_of_dec (pe_entitlement e)))
      (pe_proof e) root = Some True" using assms unfolding run_facts_def by blast
  let ?s = "share (sr_distributionAmount req) (we_totalWeight w)"
  have w: "weighCandidates reader req (bh_timestamp header) = Inr w" and D: "0 < sr_distributionAmount req"
    and l2: "list_all2 (\<lambda>p e. pe_entitlement e = dec_of_int (?s p)) (filter (\<lambda>p. ?s p \<noteq> 0) (we_participants w)) es"
    using assms(1) unfolding run_facts_def by (auto elim: list_all2_mono)
  obtain p where "p \<in> set (we_participants w)" "pe_entitlement e = dec_of_int (?s p)"
    using l2 assms(2) by (auto simp: list_all2_conv_all_nth in_set_conv_nth) (metis filter_is_subset in_set_conv_nth subsetD)
  moreover have "0 < we_totalWeight w" "\<forall>p\<in>set (we_participants w). 0 < weight_of p"
    using weighCandidates_Inr [OF w] by (auto simp: list_all_iff good_participant_def)
  ultimately show "\<exists>i. 0 \<le> i \<and> pe_entitlement e = dec_of_int i"
    using D pinned_share_nonneg [of "sr_distributionAmount req" "we_totalWeight w" p] by (auto simp: less_imp_le)
qed

lemma lookup_run:
  assumes "runSnapshotPipeline v oz keccak encodePublish reader req = Inr res"
    and "normalizeAddress address = Inr a"
  shows "lookupParticipant v (rs_proofBundle res) address = Inr (
    case find (\<lambda>p. pe_address p = a) (pb_participants (rs_proofBundle res)) of
      None \<Rightarrow> None
    | Some p \<Rightarrow> Some \<lparr>vw_address = a, vw_effectiveWeight = pe_effectiveWeight p,
        vw_entitlement = pe_entitlement p, vw_leaf = pe_leaf p, vw_proof = pe_proof p,
        vw_merkleRoot = cs_merkleRoot (rs_snapshot res), vw_verified = True,
        vw_classification = CLASSIFICATION\<rparr>)"
proof -
  obtain header w manager asset t where
    f: "run_facts v reader req header w manager asset (cs_merkleRoot (rs_snapshot res))
      (pb_participants (rs_proofBundle res)) t"
    and pb: "pb_chainId (rs_proofBundle res) = dec_of_int (sr_chainId req)"
      "pb_cycleId (rs_proofBundle res) = dec_of_int (sr_cycleId req)"
      "pb_claimManager (rs_proofBundle res) = manager" "pb_distributionAsset (rs_proofBundle res) = asset"
      "pb_merkleRoot (rs_proofBundle res) = cs_merkleRoot (rs_snapshot res)"
    using run_Inr [OF assms(1)] by blast
  let ?es = "pb_participants (rs_proofBundle res)"
  show ?thesis
  proof (cases "find (\<lambda>p. pe_address p = a) ?es")
    case None
    then show ?thesis by (simp add: lookupParticipant_def assms(2))
  next
    case (Some p)
    then have p: "p \<in> set ?es" "pe_address p = a" by (auto simp: find_Some_iff)
    have ver: "viemVerifyRaw v (fieldsOf req manager asset a (int_of_dec (pe_entitlement p))) (pe_proof p)
        (cs_merkleRoot (rs_snapshot res)) = Some True"
      and ent: "\<exists>i. 0 \<le> i \<and> pe_entitlement p = dec_of_int i"
      using run_entitlement_text [OF f p(1)] p(2) by blast+
    from ent obtain i where "0 \<le> i" "pe_entitlement p = dec_of_int i" by blast
    with ver Some p(2) pb show ?thesis by (simp add: lookupParticipant_def assms(2) fieldsOf_def)
  qed
qed

text \<open>
  A participant finds exactly what the run assigned: a lookup by address, in any letter case, in the
  bundle of a run succeeds; it gives the participant's own entitlement and proof, verified against the root
  by the independent verifier and with the leaf the claim contract computes, and nothing for an address
  that is not a participant.
\<close>

theorem lookupParticipant_of_run:
  assumes "runSnapshotPipeline v oz keccak encodePublish reader req = Inr res"
    and "normalizeAddress address = Inr a"
  shows "case lookupParticipant v (rs_proofBundle res) address of
      Inl _ \<Rightarrow> False
    | Inr None \<Rightarrow> a \<notin> pe_address ` set (pb_participants (rs_proofBundle res))
    | Inr (Some view) \<Rightarrow> vw_address view = a \<and> vw_verified view \<and>
        (\<exists>p\<in>set (pb_participants (rs_proofBundle res)). pe_address p = a \<and>
           vw_entitlement view = pe_entitlement p \<and> vw_proof view = pe_proof p \<and> vw_leaf view = pe_leaf p) \<and>
        (\<exists>asset l. normalizeAddress (sr_distributionAsset req) = Inr asset \<and>
           cr_leafFor reader (sr_cycleId req) a asset (int_of_dec (vw_entitlement view))
             (sr_snapshotBlock req) = Inr l \<and> lower l = lower (vw_leaf view))"
proof (cases "find (\<lambda>p. pe_address p = a) (pb_participants (rs_proofBundle res))")
  case None
  then have "a \<notin> pe_address ` set (pb_participants (rs_proofBundle res))"
    by (auto simp: find_None_iff)
  then show ?thesis unfolding lookup_run [OF assms] None by simp
next
  case (Some p)
  then have p: "p \<in> set (pb_participants (rs_proofBundle res))" "pe_address p = a"
    by (auto simp: find_Some_iff)
  obtain header w manager asset t where
    "run_facts v reader req header w manager asset (cs_merkleRoot (rs_snapshot res))
      (pb_participants (rs_proofBundle res)) t"
    using run_Inr [OF assms(1)] by blast
  then have "normalizeAddress (sr_distributionAsset req) = Inr asset"
    "\<exists>l. cr_leafFor reader (sr_cycleId req) a asset (int_of_dec (pe_entitlement p))
       (sr_snapshotBlock req) = Inr l \<and> lower l = lower (pe_leaf p)"
    unfolding run_facts_def using p by blast+
  with p show ?thesis by (auto simp: lookup_run [OF assms] Some)
qed

section \<open>When a run succeeds\<close>

text \<open>A contract that computes the leaves as the documented encoding does, for amounts it can encode.\<close>

definition leaf_contract :: "Viem \<Rightarrow> ChainReader \<Rightarrow> SnapshotRequest \<Rightarrow> bool" where
  "leaf_contract v reader req \<longleftrightarrow>
     (\<forall>manager asset wallet amount leaf.
        normalizeAddress (sr_claimManager req) = Inr manager \<longrightarrow>
        normalizeAddress (sr_distributionAsset req) = Inr asset \<longrightarrow>
        viemLeafHashRaw v (fieldsOf req manager asset wallet amount) = Some leaf \<longrightarrow>
        cr_leafFor reader (sr_cycleId req) wallet asset amount (sr_snapshotBlock req) = Inr leaf)"

text \<open>
  The encoder of the \<open>publishCycle\<close> call: on words and normalized addresses it fails exactly when an
  integer is outside the range of its ABI type.
\<close>

definition uint64 :: "int \<Rightarrow> bool" where
  "uint64 i \<longleftrightarrow> 0 \<le> i \<and> i < 2 ^ 64"

definition publish_documented :: "(PublishArguments \<Rightarrow> snapshot_error + string) \<Rightarrow> bool" where
  "publish_documented encodePublish \<longleftrightarrow>
     (\<forall>args. hash_word (pu_merkleRoot args) \<and> hash_word (pu_allocationsContentHash args) \<and>
        hash_word (pu_manifestEnvelopeHash args) \<and> list_all normalized_address (pu_assets args) \<longrightarrow>
        (is_ok (encodePublish args) \<longleftrightarrow>
           uint256 (pu_cycleId args) \<and> uint64 (pu_claimStart args) \<and> uint64 (pu_claimDeadline args) \<and>
           list_all uint256 (pu_fundedAmounts args)))"

lemma valueRow_row:
  "valueRow req manager asset e = map textOf (rowOf (fieldsOf req manager asset (ew_address e) (ew_amount e)))"
  by (simp add: valueRow_def rowOf_def fieldsOf_def)

lemma proveEntitled_ok:
  assumes "viemVerifyRaw v (fieldsOf req manager asset (ew_address e) (ew_amount e))
      (zt_getProof tree (valueRow req manager asset e)) (zt_root tree) = Some True"
    and "0 \<le> ew_weight e" and "0 \<le> ew_amount e"
  shows "proveEntitled v tree req manager asset e =
    Inr \<lparr>pe_address = ew_address e, pe_effectiveWeight = dec_of_int (ew_weight e),
      pe_entitlement = dec_of_int (ew_amount e), pe_leaf = zt_leafHash tree (valueRow req manager asset e),
      pe_proof = zt_getProof tree (valueRow req manager asset e)\<rparr>"
  using assms by (simp add: proveEntitled_def Let_def toDecimalString_def fieldsOf_def)

lemma leafParity_ok:
  assumes "list_all (\<lambda>p. \<exists>i. pe_entitlement p = dec_of_int i \<and>
      cr_leafFor reader (sr_cycleId req) (pe_address p) asset i (sr_snapshotBlock req) = Inr (pe_leaf p)) ps"
  shows "rfold (leafParity reader req asset) k ps = Inr (k + length ps)"
  using assms by (induction ps arbitrary: k) (auto simp: leafParity_def)

lemma recordJson_ok: "isHexAddress (lc_account r) \<Longrightarrow> \<exists>j. recordJson r = Inr j \<and> json_safe j"
  by (auto simp: recordJson_def rbind_eq_Inr normalizeAddress_eq_Inr)

lemma recordJson_all:
  assumes "list_all (\<lambda>r. isHexAddress (lc_account r)) rs"
  shows "\<exists>js. rmap recordJson rs = Inr js \<and> list_all json_safe js"
  using assms
proof (induction rs)
  case (Cons r rs)
  then obtain j js where "recordJson r = Inr j" "json_safe j" "rmap recordJson rs = Inr js" "list_all json_safe js"
    using recordJson_ok [of r] by auto
  then show ?case by simp
qed simp

lemma keccak_safe: "json_safe j \<Longrightarrow> \<exists>d. keccakOfCanonical keccak j = Inr d"
  using keccakOfCanonical_ok unfolding is_ok_iff by blast

lemma inputDigests_ok:
  assumes "list_all (\<lambda>r. isHexAddress (lc_account r)) created"
    and "list_all (\<lambda>r. isHexAddress (lc_account r)) withdrawn"
  shows "\<exists>d. inputDigests keccak req vault manager asset created withdrawn = Inr d"
proof -
  obtain cs ws where "rmap recordJson created = Inr cs" "list_all json_safe cs"
    "rmap recordJson withdrawn = Inr ws" "list_all json_safe ws"
    using recordJson_all assms by metis
  moreover from this obtain d1 d2 d3 where
    "keccakOfCanonical keccak (requestJson req vault manager asset) = Inr d1"
    "keccakOfCanonical keccak (JArr cs) = Inr d2" "keccakOfCanonical keccak (JArr ws) = Inr d3"
    using keccak_safe [of "requestJson req vault manager asset" keccak] keccak_safe [of "JArr cs" keccak]
      keccak_safe [of "JArr ws" keccak] by (auto simp: requestJson_def)
  ultimately show ?thesis by (simp add: inputDigests_def)
qed

lemma snapshotJson_safe: "json_safe (snapshotJson c)"
  by (auto simp: snapshotJson_def weightJson_def entitlementJson_def list_all_iff split: prod.splits)

lemma bundleJson_safe: "json_safe (bundleJson c)"
  by (auto simp: bundleJson_def entitlementJson_def list_all_iff)

lemma assemble_ok:
  assumes "publish_documented enc" and "\<forall>t. hash_word (keccak t)"
    and "hash_word (cs_merkleRoot snapshot)" and "normalized_address (cs_distributionAsset snapshot)"
  shows "is_ok (assemble keccak enc req manager snapshot ps k head) \<longleftrightarrow>
    uint256 (sr_cycleId req) \<and> uint64 (sr_claimStart req) \<and> uint64 (sr_claimDeadline req) \<and>
    uint256 (sr_distributionAmount req)"
proof -
  obtain d where d: "keccakOfCanonical keccak (snapshotJson snapshot) = Inr d"
    using keccak_safe [OF snapshotJson_safe] by blast
  define bu where "bu = \<lparr>pb_chainId = cs_chainId snapshot, pb_cycleId = cs_cycleId snapshot,
                   pb_claimManager = manager, pb_distributionAsset = cs_distributionAsset snapshot,
                   pb_merkleRoot = cs_merkleRoot snapshot, pb_canonicalSnapshotDigest = d,
                   pb_participants = ps\<rparr>"
  obtain h where h: "keccakOfCanonical keccak (bundleJson bu) = Inr h"
    using keccak_safe [OF bundleJson_safe] by blast
  have "hash_word d" "hash_word h"
    using d h assms(2) by (auto simp: keccakOfCanonical_def keccakOfString_def rbind_eq_Inr)
  then have "is_ok (enc (publishArguments req (cs_distributionAsset snapshot) (cs_merkleRoot snapshot) d h)) \<longleftrightarrow>
      uint256 (sr_cycleId req) \<and> uint64 (sr_claimStart req) \<and> uint64 (sr_claimDeadline req) \<and>
      uint256 (sr_distributionAmount req)"
    using assms by (simp add: publish_documented_def publishArguments_def)
  moreover have "is_ok (assemble keccak enc req manager snapshot ps k head) \<longleftrightarrow>
      is_ok (enc (publishArguments req (cs_distributionAsset snapshot) (cs_merkleRoot snapshot) d h))"
    by (cases "enc (publishArguments req (cs_distributionAsset snapshot) (cs_merkleRoot snapshot) d h)")
      (simp_all add: assemble_def Let_def d h [unfolded bu_def])
  ultimately show ?thesis by simp
qed

lemma entitleAll_iff:
  assumes "list_all (good_participant reader ts block) (we_participants w)"
    and "0 < sr_distributionAmount req" and "we_totalWeight w = (\<Sum>p\<leftarrow>we_participants w. weight_of p)"
    and "0 < we_totalWeight w"
  shows "entitleAll req w =
    (let D = sr_distributionAmount req; T = we_totalWeight w in
     if \<exists>p\<in>set (we_participants w). share D T p \<noteq> 0
     then Inr (map (entitled_of D T) (filter (\<lambda>p. share D T p \<noteq> 0) (we_participants w)),
               \<Sum>p\<leftarrow>we_participants w. share D T p)
     else snapFail ''DUST_ONLY_DISTRIBUTION'')"
proof -
  have good: "list_all (\<lambda>p. pw_effectiveWeight p = dec_of_int (weight_of p) \<and> 0 < weight_of p) (we_participants w)"
    using assms(1) by (auto simp: list_all_iff good_participant_def)
  then have "\<forall>p\<in>set (we_participants w). 0 \<le> weight_of p" by (auto simp: list_all_iff)
  from share_sum(1) [OF this _ assms(4,3), of "sr_distributionAmount req"] entitle_fold [OF good assms(2,4)]
  show ?thesis using assms(2) by (auto simp: entitleAll_def Let_def filter_empty_conv)
qed

lemma share_nonzero:
  assumes "0 < weight_of p" and "0 < D" and "0 < T"
  shows "share D T p \<noteq> 0 \<longleftrightarrow> T \<le> D * weight_of p"
proof -
  have "0 < D * weight_of p" using assms by simp
  then have "D * weight_of p div T \<noteq> 0 \<longleftrightarrow> 0 < D * weight_of p div T"
    using assms(3) by (simp add: order_less_le pos_imp_zdiv_nonneg_iff)
  then show ?thesis unfolding share_def using pos_imp_zdiv_pos_iff [OF assms(3)] by simp
qed

lemma share_below:
  assumes "p \<in> set ps" and "\<forall>p\<in>set ps. 0 \<le> share D T p"
  shows "share D T p \<le> (\<Sum>p\<leftarrow>ps. share D T p)"
proof -
  obtain xs ys where "ps = xs @ p # ys" using assms(1) by (auto simp: in_set_conv_decomp)
  moreover have "0 \<le> (\<Sum>p\<leftarrow>xs. share D T p)" "0 \<le> (\<Sum>p\<leftarrow>ys. share D T p)"
    using assms(2) calculation by (auto intro!: sum_list_nonneg)
  ultimately show ?thesis by simp
qed

lemma participants_normalized:
  assumes "weighCandidates reader req ts = Inr w" and "p \<in> set (we_participants w)"
  shows "normalized_address (pw_address p)"
proof -
  obtain e where e: "enumerateCandidates (we_created w) (sr_snapshotBlock req) = Inr e"
      "we_candidates w = er_candidates e" "pw_address ` set (we_participants w) \<subseteq> set (we_candidates w)"
    using weighCandidates_Inr [OF assms(1)] by blast
  have "pw_address p \<in> (\<lambda>r. lower (lc_account r)) ` set (we_created w)"
    using e assms(2) candidates_set(1) [OF e(1)] by auto
  moreover have "isHexAddress (lc_account r)" if "r \<in> set (we_created w)" for r
    using candidates_set(2) [OF e(1)] that by (auto simp: list_all_iff valid_record_def)
  ultimately show ?thesis
    by (auto simp: normalized_address_def isHexAddress_def hex_string_lower)
qed

text \<open>What the encodings of a run demand of its request.\<close>

definition request_encodable :: "SnapshotRequest \<Rightarrow> bool" where
  "request_encodable req \<longleftrightarrow>
     sr_chainId req < 2 ^ 256 \<and> sr_cycleId req < 2 ^ 256 \<and> sr_distributionAmount req < 2 ^ 256 \<and>
     0 \<le> sr_claimStart req \<and> sr_claimDeadline req < 2 ^ 64"

text \<open>The part of the run after the entitlements: the tree, the proofs, the parity and the artifacts.\<close>

lemma run_after_entitlements:
  fixes req defines "D \<equiv> sr_distributionAmount req"
  assumes val: "validateRequestShape req = Inr u"
    and n: "normalizeAddress (sr_claimManager req) = Inr manager" "normalizeAddress (sr_distributionAsset req) = Inr asset"
    and w: "weighCandidates reader req ts = Inr w"
    and wd: "list_all (\<lambda>r. isHexAddress (lc_account r)) (we_withdrawn w)"
    and e: "entitleAll req w = Inr (es, t)"
    and oz: "oz_documented v oz" and leaf: "leaf_contract v reader req"
    and enc: "publish_documented encodePublish" and kec: "\<forall>t. hash_word (keccak t)"
  shows "is_ok (rbind (shared (orThrow (oz_of oz (map (valueRow req manager asset) es) LEAF_ABI_TYPES))) (\<lambda>tree.
      rbind (rmap (proveEntitled v tree req manager asset) es) (\<lambda>withProofs.
      rbind (rfold (leafParity reader req asset) 0 withProofs) (\<lambda>matched.
      rbind (inputDigests keccak req vault manager asset (we_created w) (we_withdrawn w)) (\<lambda>digests.
      rbind (shared (toDecimalString (we_totalWeight w))) (\<lambda>totalWeight.
      rbind (shared (toDecimalString t)) (\<lambda>totalText.
      rbind (shared (toDecimalString (D - t))) (\<lambda>dustText.
        assemble keccak encodePublish req manager
          (snapshotOf req vault manager asset header w (zt_root tree) withProofs digests totalText totalWeight
            dustText) withProofs matched head)))))))) \<longleftrightarrow> request_encodable req"
    (is "is_ok ?run \<longleftrightarrow> _")
proof -
  note w' = weighCandidates_Inr [OF w]
  have good: "list_all (good_participant reader ts (sr_snapshotBlock req)) (we_participants w)"
    and T: "we_totalWeight w = (\<Sum>p\<leftarrow>we_participants w. weight_of p)" "0 < we_totalWeight w"
    and created: "list_all (\<lambda>r. isHexAddress (lc_account r)) (we_created w)"
    using w' candidates_set(2) by (auto simp: list_all_iff valid_record_def)
  have D: "0 < D" and pos: "0 < sr_chainId req" "0 < sr_cycleId req" "sr_claimStart req < sr_claimDeadline req"
    using validateRequestShape_Inr [OF val] val unfolding D_def
    by (auto simp: validateRequestShape_def rbind_eq_Inr not_le)
  have norm: "normalized_address manager" "normalized_address asset" using n normalizeAddress_normalized by auto
  let ?s = "share D (we_totalWeight w)"
  have es: "es = map (entitled_of D (we_totalWeight w)) (filter (\<lambda>p. ?s p \<noteq> 0) (we_participants w))"
    and t: "t = (\<Sum>p\<leftarrow>we_participants w. ?s p)" "t \<le> D" and ne: "es \<noteq> []"
    using entitleAll_Inr [OF e D [unfolded D_def] T(2) good] unfolding D_def by blast+
  have wpos: "\<forall>p\<in>set (we_participants w). 0 < weight_of p"
    using good by (auto simp: list_all_iff good_participant_def)
  then have spos: "\<forall>p\<in>set (we_participants w). 0 \<le> ?s p"
    using pinned_share_nonneg D T(2) by (auto simp: less_imp_le)
  then have tpos: "0 \<le> t" unfolding t(1) by (auto intro!: sum_list_nonneg)
  have amounts: "0 \<le> ew_weight x \<and> 0 \<le> ew_amount x \<and> ew_amount x \<le> D \<and> normalized_address (ew_address x)"
    if "x \<in> set es" for x
    using that wpos spos share_below [OF _ spos] t participants_normalized [OF w]
    unfolding es by (fastforce simp: entitled_of_def less_imp_le)
  define fs where "fs = map (\<lambda>x. fieldsOf req manager asset (ew_address x) (ew_amount x)) es"
  have "\<forall>f\<in>set fs. lf_normalized f"
    using amounts norm by (auto simp: fs_def lf_normalized_def fieldsOf_def)
  note tree = tree_documented [OF oz this]
  have rows: "map (\<lambda>f. map textOf (rowOf f)) fs = map (valueRow req manager asset) es"
    by (simp add: fs_def valueRow_row)
  have fs_range: "(\<forall>f\<in>set fs. lf_encodable f) \<longleftrightarrow>
      sr_chainId req < 2 ^ 256 \<and> sr_cycleId req < 2 ^ 256 \<and> (\<forall>x\<in>set es. ew_amount x < 2 ^ 256)"
    using ne pos amounts
    by (cases es) (auto simp: fs_def lf_encodable_def fieldsOf_def uint256_def less_imp_le)
  show ?thesis
  proof (cases "oz_of oz (map (valueRow req manager asset) es) LEAF_ABI_TYPES")
    case None
    with tree(1) ne have "\<not> (\<forall>f\<in>set fs. lf_encodable f)" unfolding rows by (simp add: fs_def)
    then have "\<not> request_encodable req"
      unfolding fs_range request_encodable_def using amounts order_le_less_trans unfolding D_def by blast
    with None show ?thesis by simp
  next
    case (Some tr)
    then have range: "sr_chainId req < 2 ^ 256" "sr_cycleId req < 2 ^ 256"
      using tree(1) fs_range unfolding rows by auto
    have leaf_of: "viemLeafHashRaw v (fieldsOf req manager asset (ew_address x) (ew_amount x)) =
        Some (zt_leafHash tr (valueRow req manager asset x)) \<and>
      viemVerifyRaw v (fieldsOf req manager asset (ew_address x) (ew_amount x))
        (zt_getProof tr (valueRow req manager asset x)) (zt_root tr) = Some True" if "x \<in> set es" for x
      using tree(2) [OF Some [folded rows], of "fieldsOf req manager asset (ew_address x) (ew_amount x)"] that
      by (simp add: fs_def valueRow_row)
    define ps where "ps = map (\<lambda>x. \<lparr>pe_address = ew_address x, pe_effectiveWeight = dec_of_int (ew_weight x),
      pe_entitlement = dec_of_int (ew_amount x), pe_leaf = zt_leafHash tr (valueRow req manager asset x),
      pe_proof = zt_getProof tr (valueRow req manager asset x)\<rparr>) es"
    have prove: "rmap (proveEntitled v tr req manager asset) es = Inr ps"
      unfolding ps_def using leaf_of amounts by (intro rmap_total proveEntitled_ok) auto
    have parity: "rfold (leafParity reader req asset) 0 ps = Inr (0 + length ps)"
      using leaf n leaf_of by (intro leafParity_ok) (auto simp: ps_def list_all_iff leaf_contract_def)
    obtain d where dig: "inputDigests keccak req vault manager asset (we_created w) (we_withdrawn w) = Inr d"
      using inputDigests_ok [OF created wd] by blast
    let ?snap = "snapshotOf req vault manager asset header w (zt_root tr) ps d (dec_of_int t)
      (dec_of_int (we_totalWeight w)) (dec_of_int (D - t))"
    have "?run = assemble keccak encodePublish req manager ?snap ps (0 + length ps) head"
      using T(2) tpos t(2) by (simp add: Some prove parity dig toDecimalString_def)
    moreover have "is_ok (assemble keccak encodePublish req manager ?snap ps (0 + length ps) head) \<longleftrightarrow>
        request_encodable req"
      using assemble_ok [OF enc kec, of ?snap req manager ps "0 + length ps" head] tree(3) [OF Some [folded rows]]
        norm range pos D
      by (auto simp: snapshotOf_def request_encodable_def uint256_def uint64_def D_def)
    ultimately show ?thesis by simp
  qed
qed

lemma run_after_weights:
  assumes "validateRequestShape req = Inr u" and "chainGuards reader req = Inr (header, head)"
    and "weighCandidates reader req (bh_timestamp header) = Inr w"
    and "list_all (\<lambda>r. isHexAddress (lc_account r)) (we_withdrawn w)"
    and "oz_documented v oz" and "leaf_contract v reader req"
    and "publish_documented encodePublish" and "\<forall>t. hash_word (keccak t)"
  shows "is_ok (runSnapshotPipeline v oz keccak encodePublish reader req) \<longleftrightarrow>
    is_ok (entitleAll req w) \<and> request_encodable req"
proof -
  obtain vault manager asset where n: "normalizeAddress (sr_lockingVault req) = Inr vault"
    "normalizeAddress (sr_claimManager req) = Inr manager"
    "normalizeAddress (sr_distributionAsset req) = Inr asset"
    using assms(1) by (auto simp: validateRequestShape_def rbind_eq_Inr)
  show ?thesis
  proof (cases "entitleAll req w")
    case (Inl err)
    then show ?thesis unfolding runSnapshotPipeline_def Let_def using assms(1-3) n by simp
  next
    case (Inr r)
    obtain es t where r: "r = (es, t)" by force
    show ?thesis
      using run_after_entitlements [OF assms(1) n(2,3) assms(3,4) Inr [unfolded r] assms(5-8),
          of vault header head]
      unfolding runSnapshotPipeline_def Let_def using assms(1-3) n Inr r by simp
  qed
qed

lemma run_ok_iff:
  assumes "validateRequestShape req = Inr u" and "chainGuards reader req = Inr (header, head)"
    and "weighCandidates reader req (bh_timestamp header) = Inr w"
    and "list_all (\<lambda>r. isHexAddress (lc_account r)) (we_withdrawn w)"
    and "oz_documented v oz" and "leaf_contract v reader req"
    and "publish_documented encodePublish" and "\<forall>t. hash_word (keccak t)"
  shows "is_ok (runSnapshotPipeline v oz keccak encodePublish reader req) \<longleftrightarrow>
    (\<exists>p\<in>set (we_participants w). we_totalWeight w \<le> sr_distributionAmount req * weight_of p) \<and>
    request_encodable req"
proof -
  have D: "0 < sr_distributionAmount req" using validateRequestShape_Inr [OF assms(1)] by blast
  have good: "list_all (good_participant reader (bh_timestamp header) (sr_snapshotBlock req)) (we_participants w)"
    and T: "we_totalWeight w = (\<Sum>p\<leftarrow>we_participants w. weight_of p)" "0 < we_totalWeight w"
    using weighCandidates_Inr [OF assms(3)] by blast+
  have wpos: "\<forall>p\<in>set (we_participants w). 0 < weight_of p"
    using good by (auto simp: list_all_iff good_participant_def)
  have "is_ok (entitleAll req w) \<longleftrightarrow>
      (\<exists>p\<in>set (we_participants w). share (sr_distributionAmount req) (we_totalWeight w) p \<noteq> 0)"
    unfolding entitleAll_iff [OF good D T] Let_def by (simp add: snapFail_def)
  also have "\<dots> \<longleftrightarrow> (\<exists>p\<in>set (we_participants w). we_totalWeight w \<le> sr_distributionAmount req * weight_of p)"
    using share_nonzero D T(2) wpos by (intro bex_cong) auto
  finally show ?thesis using run_after_weights [OF assms] by blast
qed

text \<open>
  C31: liveness: when the request is well formed, the guards hold, the candidates can be weighed, the
  withdrawal records name addresses, the libraries keep their documentation (digests are words, the
  encoders reject integers outside their ABI types and nothing else) and the claim contract computes the
  documented leaf, the run succeeds exactly when some participant's floor is positive and the request fits
  its encodings: the chain id, the cycle id and the distribution below \<open>2^256\<close>, the claim window within
  \<open>uint64\<close>. No other check of the pipeline can stop it.
\<close>

theorem runSnapshotPipeline_succeeds_iff:
  assumes "validateRequestShape req = Inr u" and "chainGuards reader req = Inr (header, head)"
    and "weighCandidates reader req (bh_timestamp header) = Inr w"
    and "list_all (\<lambda>r. isHexAddress (lc_account r)) (we_withdrawn w)"
    and "oz_documented v oz" and "leaf_contract v reader req"
    and "publish_documented encodePublish" and "\<forall>t. hash_word (keccak t)"
  shows "is_ok (runSnapshotPipeline v oz keccak encodePublish reader req) \<longleftrightarrow>
    (\<exists>p\<in>set (we_participants w). we_totalWeight w \<le> sr_distributionAmount req * weight_of p) \<and>
    sr_chainId req < 2 ^ 256 \<and> sr_cycleId req < 2 ^ 256 \<and> sr_distributionAmount req < 2 ^ 256 \<and>
    0 \<le> sr_claimStart req \<and> sr_claimDeadline req < 2 ^ 64"
  using run_ok_iff [OF assms] unfolding request_encodable_def .

section \<open>A concrete run\<close>

definition ex_request :: SnapshotRequest where
  "ex_request =
     \<lparr>sr_chainId = 7, sr_lockingVault = ex_account (CHR ''1''), sr_claimManager = ex_account (CHR ''2''),
      sr_snapshotBlock = 10, sr_expectedBlockHash = ''0x'' @ replicate 64 (CHR ''c''),
      sr_enumerationStartBlock = 4, sr_distributionAsset = ex_account (CHR ''3''),
      sr_distributionAmount = 100, sr_cycleId = 1, sr_claimStart = 20, sr_claimDeadline = 30\<rparr>"

definition ex_lock :: "char \<Rightarrow> int \<Rightarrow> LockCreatedRecord" where
  "ex_lock c n = \<lparr>lc_account = ex_account c, lc_lockId = 0, lc_blockNumber = n, lc_logIndex = 0\<rparr>"

definition ex_reader :: ChainReader where
  "ex_reader =
     \<lparr>cr_chainId = Inr 7,
      cr_block = (\<lambda>n. Inr (Some \<lparr>bh_hash = ''0x'' @ replicate 64 (CHR ''C''), bh_timestamp = 500\<rparr>)),
      cr_vaultHasCodeAt = (\<lambda>n. Inr (4 \<le> n)),
      cr_lockCreated = (\<lambda>_ _. Inr [ex_lock (CHR ''B'') 5, ex_lock (CHR ''a'') 6, ex_lock (CHR ''d'') 11,
        ex_lock (CHR ''b'') 9, ex_lock (CHR ''e'') 9]),
      cr_lockWithdrawn = (\<lambda>_ _. Inr []), cr_lockCountAt = (\<lambda>a n. Inr 1),
      cr_positionWeightAt = (\<lambda>a i ts n. Inr (if a = ex_account (CHR ''a'') then 2 else
        if a = ex_account (CHR ''b'') then 1 else 0)),
      cr_leafFor = (\<lambda>cycle wallet asset amount n.
        case viemLeafHashRaw toy_viem (fieldsOf ex_request (ex_account (CHR ''2'')) asset wallet amount) of
          None \<Rightarrow> Inl ReaderError | Some leaf \<Rightarrow> Inr leaf),
      cr_syncedThrough = Inr 12\<rparr>"

definition ex_weighed :: Weighed where
  "ex_weighed = (case weighCandidates ex_reader ex_request 500 of Inr w \<Rightarrow> w
     | Inl _ \<Rightarrow> \<lparr>we_created = [], we_withdrawn = [], we_candidates = [], we_participants = [],
         we_zeroWeight = 0, we_totalWeight = 0\<rparr>)"

lemma ex_run_hyps:
  "validateRequestShape ex_request = Inr ()"
  "chainGuards ex_reader ex_request =
     Inr (\<lparr>bh_hash = ''0x'' @ replicate 64 (CHR ''C''), bh_timestamp = 500\<rparr>, 12)"
  "is_ok (weighCandidates ex_reader ex_request 500)"
  "list_all (\<lambda>r. isHexAddress (lc_account r)) (we_withdrawn ex_weighed)"
  "list_ex (\<lambda>p. we_totalWeight ex_weighed \<le> sr_distributionAmount ex_request * weight_of p)
     (we_participants ex_weighed)"
  "request_encodable ex_request"
  by code_simp+

text \<open>An encoder that refuses integers outside their types.\<close>

definition ex_publish :: "PublishArguments \<Rightarrow> snapshot_error + string" where
  "ex_publish args =
     (if uint256 (pu_cycleId args) \<and> uint64 (pu_claimStart args) \<and> uint64 (pu_claimDeadline args) \<and>
         list_all uint256 (pu_fundedAmounts args) then Inr ''0x'' else Inl (Shared RuntimeError))"

lemma ex_publish_documented: "publish_documented ex_publish"
  by (simp add: publish_documented_def ex_publish_def)

lemma toy_keccak_words: "\<forall>t. hash_word (toy_keccak t)"
  by (simp add: toy_keccak_word)

lemma ex_weighed: "weighCandidates ex_reader ex_request 500 = Inr ex_weighed"
  using ex_run_hyps(3) by (auto simp: ex_weighed_def is_ok_iff)

lemma ex_leaf_contract: "leaf_contract toy_viem ex_reader ex_request"
proof -
  have "normalizeAddress (sr_claimManager ex_request) = Inr (ex_account (CHR ''2''))"
    by code_simp
  then show ?thesis by (simp add: leaf_contract_def ex_reader_def)
qed

theorem runSnapshotPipeline_succeeds_iff_witness:
  "is_ok (runSnapshotPipeline toy_viem toy_oz toy_keccak ex_publish ex_reader ex_request)"
  using runSnapshotPipeline_succeeds_iff [OF ex_run_hyps(1,2) _ ex_run_hyps(4) toy_documented ex_leaf_contract
      ex_publish_documented toy_keccak_words] ex_weighed ex_run_hyps(5,6)
  by (simp add: list_ex_iff request_encodable_def)

lemma ex_run:
  obtains res where "runSnapshotPipeline toy_viem toy_oz toy_keccak ex_publish ex_reader ex_request = Inr res"
  using run_ok_iff [OF ex_run_hyps(1,2) _ ex_run_hyps(4) toy_documented ex_leaf_contract
      ex_publish_documented toy_keccak_words] ex_weighed ex_run_hyps(5,6)
  by (auto simp: list_ex_iff is_ok_iff)

theorem runSnapshotPipeline_conservation_witness:
  "\<exists>res. runSnapshotPipeline toy_viem toy_oz toy_keccak ex_publish ex_reader ex_request = Inr res \<and>
     (\<Sum>p\<leftarrow>pb_participants (rs_proofBundle res). int_of_dec (pe_entitlement p)) +
       int_of_dec (ag_dust (aggregateView (rs_snapshot res))) = 100"
proof -
  obtain res where r: "runSnapshotPipeline toy_viem toy_oz toy_keccak ex_publish ex_reader ex_request = Inr res"
    by (rule ex_run)
  with runSnapshotPipeline_conservation [OF r] show ?thesis by (auto simp: ex_request_def)
qed

theorem runSnapshotPipeline_entitlements_witness:
  "\<exists>res header. runSnapshotPipeline toy_viem toy_oz toy_keccak ex_publish ex_reader ex_request = Inr res \<and>
     distinct (map pe_address (pb_participants (rs_proofBundle res))) \<and>
     cr_block ex_reader 10 = Inr (Some header)"
proof -
  obtain res where r: "runSnapshotPipeline toy_viem toy_oz toy_keccak ex_publish ex_reader ex_request = Inr res"
    by (rule ex_run)
  with runSnapshotPipeline_entitlements [OF r] show ?thesis
    unfolding Let_def by (auto simp: ex_request_def)
qed

theorem lookupParticipant_of_run_witness:
  "\<exists>res. runSnapshotPipeline toy_viem toy_oz toy_keccak ex_publish ex_reader ex_request = Inr res \<and>
     is_ok (lookupParticipant toy_viem (rs_proofBundle res) (ex_account (CHR ''A'')))"
proof -
  obtain res where r: "runSnapshotPipeline toy_viem toy_oz toy_keccak ex_publish ex_reader ex_request = Inr res"
    by (rule ex_run)
  have "normalizeAddress (ex_account (CHR ''A'')) = Inr (ex_account (CHR ''a''))" by code_simp
  from lookupParticipant_of_run [OF r this] r show ?thesis
    by (auto simp: is_ok_def split: sum.splits)
qed

end
