(* ===== verification/Claim.thy ===== *)
theory Claim
  imports ChainReads Consumer
begin

text \<open>
  Claims of the web application: \<open>apps/web/lib/claim.ts\<close>, \<open>lib/proof/provider.ts\<close> and
  \<open>lib/services/claim-validation.ts\<close>. The hash library is the parameter of \<open>Merkle\<close>, the encoder of the
  call is a parameter that may throw. The last section composes the application with the indexer: what
  a snapshot publishes is what the application accepts.
\<close>

section \<open>Leaf and proof\<close>

definition computeLeaf ::
  "Viem \<Rightarrow> int \<Rightarrow> string \<Rightarrow> int \<Rightarrow> string \<Rightarrow> string \<Rightarrow> int \<Rightarrow> app_error + string" where
  "computeLeaf v chainId manager cycleId claimant asset amount =
     (case vi_encodeAbiParameters v
            [''uint256'', ''address'', ''uint256'', ''address'', ''address'', ''uint256'']
            [AUint chainId, AAddress manager, AUint cycleId, AAddress claimant, AAddress asset, AUint amount] of
        None \<Rightarrow> Inl LibraryError
      | Some encoded \<Rightarrow> Inr (vi_keccak256 v (vi_keccak256 v encoded)))"

fun foldProof :: "Viem \<Rightarrow> string \<Rightarrow> string list \<Rightarrow> string" where
  "foldProof v node [] = node"
| "foldProof v node (sibling # proof) =
     foldProof v
       (if bigint_of_hex node < bigint_of_hex sibling
        then vi_keccak256 v (vi_concatHex v [node, sibling])
        else vi_keccak256 v (vi_concatHex v [sibling, node])) proof"

section \<open>The verdict\<close>

record ClaimEntitlement =
  ce_cycleId :: int
  ce_claimManager :: string
  ce_asset :: string
  ce_assetSymbol :: string
  ce_claimant :: string
  ce_amount :: int
  ce_proof :: "string list"
  ce_root :: string

record OnchainCycle =
  oc_cycleId :: int
  oc_root :: string
  oc_asset :: string
  oc_remaining :: int
  oc_claimStartSec :: int
  oc_claimDeadlineSec :: int

datatype ClaimRejection = cycle_mismatch | asset_mismatch | root_mismatch | proof_invalid
  | amount_exceeds_remaining | outside_claim_window | already_claimed

text \<open>
  A verdict: \<open>Inl\<close> the reason, or \<open>Inr\<close> the recomputed root. The encoding of the leaf may throw, after the
  checks before it; the exception leaves \<open>verifyClaim\<close>.
\<close>

type_synonym ClaimVerdict = "ClaimRejection + string"

definition verifyClaim ::
  "Viem \<Rightarrow> ClaimEntitlement \<Rightarrow> OnchainCycle \<Rightarrow> int \<Rightarrow> int \<Rightarrow> bool \<Rightarrow> app_error + ClaimVerdict" where
  "verifyClaim v entitlement cycle chainId nowSec alreadyClaimed =
     (if alreadyClaimed then Inr (Inl already_claimed)
      else if ce_cycleId entitlement \<noteq> oc_cycleId cycle then Inr (Inl cycle_mismatch)
      else if lower (ce_asset entitlement) \<noteq> lower (oc_asset cycle) then Inr (Inl asset_mismatch)
      else if lower (ce_root entitlement) \<noteq> lower (oc_root cycle) then Inr (Inl root_mismatch)
      else if nowSec < oc_claimStartSec cycle \<or> nowSec > oc_claimDeadlineSec cycle
      then Inr (Inl outside_claim_window)
      else if ce_amount entitlement > oc_remaining cycle then Inr (Inl amount_exceeds_remaining)
      else
        rbind (computeLeaf v chainId (ce_claimManager entitlement) (ce_cycleId entitlement)
               (ce_claimant entitlement) (ce_asset entitlement) (ce_amount entitlement)) (\<lambda>leaf.
         let recomputedRoot = foldProof v leaf (ce_proof entitlement)
         in if lower recomputedRoot \<noteq> lower (oc_root cycle) then Inr (Inl proof_invalid)
            else Inr (Inr recomputedRoot)))"

record ClaimPlan =
  cp_target :: string
  cp_calldata :: string
  cp_canSubmit :: bool
  cp_verdict :: ClaimVerdict

fun planClaim ::
  "Viem \<Rightarrow> (int \<Rightarrow> string \<Rightarrow> int \<Rightarrow> string list \<Rightarrow> unit + string) \<Rightarrow> ClaimEntitlement \<Rightarrow> OnchainCycle
    \<Rightarrow> DeploymentState \<Rightarrow> int \<Rightarrow> bool \<Rightarrow> bool \<Rightarrow> app_error + ClaimPlan" where
  "planClaim v encodeClaim entitlement cycle (Live d) nowSec alreadyClaimed eligible =
     rbind (verifyClaim v entitlement cycle (ld_chainId d) nowSec alreadyClaimed) (\<lambda>verdict.
      case encodeClaim (ce_cycleId entitlement) (ce_asset entitlement) (ce_amount entitlement)
             (ce_proof entitlement) of
        Inl _ \<Rightarrow> Inl LibraryError
      | Inr calldata \<Rightarrow>
          Inr \<lparr>cp_target = ld_addresses d claimManager, cp_calldata = calldata,
               cp_canSubmit = (writesAllowed (Live d) \<and> eligible \<and> is_ok verdict), cp_verdict = verdict\<rparr>)"
| "planClaim v encodeClaim entitlement cycle deployment nowSec alreadyClaimed eligible =
     Inl (AppError ''no live deployment'')"

section \<open>The local proof provider\<close>

record ProofArtifact =
  pa_artifactVersion :: string
  pa_cycleId :: int
  pa_chainId :: int
  pa_claimManager :: string
  pa_stockToken :: string
  pa_stockSymbol :: string
  pa_root :: string
  pa_account :: string
  pa_amount :: int
  pa_proof :: "string list"
  pa_artifactId :: string

record LocalProofConfig =
  lp_chainId :: int
  lp_claimManager :: string
  lp_stockToken :: string
  lp_stockSymbol :: string
  lp_cycleId :: int
  lp_account :: string
  lp_amount :: int
  lp_siblingAccount :: string
  lp_siblingAmount :: int

definition pair :: "Viem \<Rightarrow> string \<Rightarrow> string \<Rightarrow> string" where
  "pair v x y =
     (if bigint_of_hex x < bigint_of_hex y then vi_keccak256 v (vi_concatHex v [x, y])
      else vi_keccak256 v (vi_concatHex v [y, x]))"

text \<open>The provider, or the exception of its creation; its \<open>getArtifact\<close> answers \<open>None\<close> for \<open>null\<close>.\<close>

definition createLocalProofProvider ::
  "Viem \<Rightarrow> LocalProofConfig \<Rightarrow> app_error + (int \<Rightarrow> string \<Rightarrow> ProofArtifact option)" where
  "createLocalProofProvider v cfg =
     rbind (computeLeaf v (lp_chainId cfg) (lp_claimManager cfg) (lp_cycleId cfg) (lp_account cfg)
            (lp_stockToken cfg) (lp_amount cfg)) (\<lambda>leaf.
     rbind (computeLeaf v (lp_chainId cfg) (lp_claimManager cfg) (lp_cycleId cfg)
            (lp_siblingAccount cfg) (lp_stockToken cfg) (lp_siblingAmount cfg)) (\<lambda>sibling.
      let root = pair v leaf sibling
      in Inr (\<lambda>cycleId account.
        if cycleId \<noteq> lp_cycleId cfg \<or> lower account \<noteq> lower (lp_account cfg) then None
        else Some \<lparr>pa_artifactVersion = ''bps.pod.artifact/1'', pa_cycleId = lp_cycleId cfg,
               pa_chainId = lp_chainId cfg, pa_claimManager = lp_claimManager cfg,
               pa_stockToken = lp_stockToken cfg, pa_stockSymbol = lp_stockSymbol cfg, pa_root = root,
               pa_account = lp_account cfg, pa_amount = lp_amount cfg, pa_proof = [sibling],
               pa_artifactId = ''local-'' @ dec_of_int (lp_cycleId cfg) @ ''-'' @ lower (lp_account cfg)\<rparr>)))"

section \<open>Readiness\<close>

record ClaimReadinessInput =
  ri_manager :: string
  ri_cycleId :: int
  ri_asset :: string
  ri_claimant :: string
  ri_amount :: int
  ri_artifactRoot :: string

datatype ClaimReadinessReason = cycle_not_published | readiness_root_mismatch
  | exceeds_published_allocation | readiness_already_claimed | manager_balance_insufficient

record ClaimReadinessResult =
  rr_reason :: "ClaimReadinessReason option"
  rr_onchainRoot :: "string option"
  rr_remaining :: "int option"

definition rr_ok :: "ClaimReadinessResult \<Rightarrow> bool" where
  "rr_ok r \<longleftrightarrow> rr_reason r = None"

definition notReady :: "ClaimReadinessReason \<Rightarrow> string option \<Rightarrow> ClaimReadinessResult" where
  "notReady reason root = \<lparr>rr_reason = Some reason, rr_onchainRoot = root, rr_remaining = None\<rparr>"

text \<open>The five reads are awaited one after the other: \<open>client n\<close> is the chain at the \<open>n\<close>-th.\<close>

definition validateClaimReadiness ::
  "(nat \<Rightarrow> PublicClient) \<Rightarrow> ClaimReadinessInput \<Rightarrow> read_error + ClaimReadinessResult" where
  "validateClaimReadiness client input =
     rbind (readCycle (client 0) (ri_manager input) (ri_cycleId input)) (\<lambda>cyc.
     if \<not> cyc_published cyc then Inr (notReady cycle_not_published None)
     else if lower (cyc_merkleRoot cyc) \<noteq> lower (ri_artifactRoot input)
     then Inr (notReady readiness_root_mismatch (Some (cyc_merkleRoot cyc)))
     else rbind (readAssetFunding (client 1) (ri_manager input) (ri_cycleId input) (ri_asset input)) (\<lambda>af.
     if \<not> af_registered af \<or> ri_amount input > af_funded af
     then Inr (notReady exceeds_published_allocation (Some (cyc_merkleRoot cyc)))
     else rbind (readClaimUsed (client 2) (ri_manager input) (ri_cycleId input) (ri_claimant input)
            (ri_asset input)) (\<lambda>used.
     if used then Inr (notReady readiness_already_claimed (Some (cyc_merkleRoot cyc)))
     else rbind (readErc20 (client 3) (ri_asset input) (ri_manager input) (ri_manager input)) (\<lambda>erc20.
     if es_balance erc20 < ri_amount input
     then Inr (notReady manager_balance_insufficient (Some (cyc_merkleRoot cyc)))
     else rbind (readClaimRemaining (client 4) (ri_manager input) (ri_cycleId input) (ri_asset input))
       (\<lambda>remaining.
       Inr \<lparr>rr_reason = None, rr_onchainRoot = Some (cyc_merkleRoot cyc),
            rr_remaining = Some remaining\<rparr>)))))"

section \<open>Lemmas\<close>

text \<open>The application and the shared library compute the same leaf and fold proofs alike.\<close>

lemma computeLeaf_raw:
  "computeLeaf v chainId manager cycleId claimant asset amount =
   (case viemLeafHashRaw v \<lparr>lf_chainId = chainId, lf_claimManager = manager, lf_cycleId = cycleId,
     lf_wallet = claimant, lf_asset = asset, lf_amount = amount\<rparr> of
      None \<Rightarrow> Inl LibraryError | Some leaf \<Rightarrow> Inr leaf)"
  by (simp add: computeLeaf_def viemLeafHashRaw_def LEAF_ABI_PARAMS_def split: option.split)

lemma foldProof_process: "foldProof v node path = viemProcessProof v node path"
  by (induction v node path rule: foldProof.induct)
    (simp_all add: viemProcessProof_def sortedPair_def)

lemma pair_foldProof: "foldProof v leaf [sibling] = pair v leaf sibling"
  by (simp add: pair_def)

text \<open>The chain side of a verdict, before the proof is looked at.\<close>

definition chain_rejection :: "ClaimEntitlement \<Rightarrow> OnchainCycle \<Rightarrow> int \<Rightarrow> bool \<Rightarrow> ClaimRejection option" where
  "chain_rejection e c now claimed =
     (if claimed then Some already_claimed
      else if ce_cycleId e \<noteq> oc_cycleId c then Some cycle_mismatch
      else if lower (ce_asset e) \<noteq> lower (oc_asset c) then Some asset_mismatch
      else if lower (ce_root e) \<noteq> lower (oc_root c) then Some root_mismatch
      else if \<not> (oc_claimStartSec c \<le> now \<and> now \<le> oc_claimDeadlineSec c) then Some outside_claim_window
      else if oc_remaining c < ce_amount e then Some amount_exceeds_remaining
      else None)"

definition entitlement_fields :: "int \<Rightarrow> ClaimEntitlement \<Rightarrow> LeafFields" where
  "entitlement_fields chainId e =
     \<lparr>lf_chainId = chainId, lf_claimManager = ce_claimManager e, lf_cycleId = ce_cycleId e,
      lf_wallet = ce_claimant e, lf_asset = ce_asset e, lf_amount = ce_amount e\<rparr>"

lemma verifyClaim_eq:
  "verifyClaim v e c chainId now claimed =
   (case chain_rejection e c now claimed of
      Some r \<Rightarrow> Inr (Inl r)
    | None \<Rightarrow>
        (case viemLeafHashRaw v (entitlement_fields chainId e) of
           None \<Rightarrow> Inl LibraryError
         | Some leaf \<Rightarrow>
             (let root = viemProcessProof v leaf (ce_proof e)
              in Inr (if lower root = lower (oc_root c) then Inr root else Inl proof_invalid))))"
  by (auto simp: verifyClaim_def chain_rejection_def entitlement_fields_def foldProof_process computeLeaf_raw
      Let_def not_le split: option.split)

text \<open>A proof the independent verifier accepts is never the reason of a rejection.\<close>

lemma verified_verdict:
  assumes "viemVerifyRaw v (entitlement_fields chainId e) (ce_proof e) (ce_root e) = Some True"
  shows "verifyClaim v e c chainId now claimed =
    Inr (case chain_rejection e c now claimed of Some r \<Rightarrow> Inl r | None \<Rightarrow> Inr (ce_root e))"
  using assms unfolding verifyClaim_eq viemVerifyRaw_def
  by (auto simp: chain_rejection_def Let_def split: option.split)

lemma local_artifact_verified:
  assumes "createLocalProofProvider v cfg = Inr getArtifact" and "getArtifact cycleId account = Some a"
  shows "pa_cycleId a = cycleId \<and> lower (pa_account a) = lower account \<and>
    viemVerifyRaw v \<lparr>lf_chainId = pa_chainId a, lf_claimManager = pa_claimManager a, lf_cycleId = pa_cycleId a,
      lf_wallet = pa_account a, lf_asset = pa_stockToken a, lf_amount = pa_amount a\<rparr> (pa_proof a) (pa_root a) =
      Some True"
  using assms pair_foldProof
  by (auto simp: createLocalProofProvider_def Let_def viemVerifyRaw_def computeLeaf_raw rbind_eq_Inr
      foldProof_process [symmetric] split: if_splits option.splits)

lemma planClaim_submits:
  assumes "planClaim v encode e c deployment now claimed eligible = Inr plan" and "cp_canSubmit plan"
  shows "writesAllowed deployment \<and> eligible \<and>
    (\<exists>d. deployment = Live d \<and> cp_target plan = ld_addresses d claimManager \<and>
       encode (ce_cycleId e) (ce_asset e) (ce_amount e) (ce_proof e) = Inr (cp_calldata plan) \<and>
       chain_rejection e c now claimed = None \<and>
       (\<exists>leaf. viemLeafHashRaw v (entitlement_fields (ld_chainId d) e) = Some leaf \<and>
          lower (viemProcessProof v leaf (ce_proof e)) = lower (oc_root c)))"
proof (cases deployment)
  case (Live d)
  with assms(1) obtain verdict calldata where
    verdict: "verifyClaim v e c (ld_chainId d) now claimed = Inr verdict"
    and call: "encode (ce_cycleId e) (ce_asset e) (ce_amount e) (ce_proof e) = Inr calldata"
    and plan: "plan = \<lparr>cp_target = ld_addresses d claimManager, cp_calldata = calldata,
      cp_canSubmit = (writesAllowed (Live d) \<and> eligible \<and> is_ok verdict), cp_verdict = verdict\<rparr>"
    by (cases "encode (ce_cycleId e) (ce_asset e) (ce_amount e) (ce_proof e)") (auto simp: rbind_eq_Inr)
  with assms(2) have "writesAllowed (Live d)" "eligible" "is_ok verdict" by simp_all
  moreover have "chain_rejection e c now claimed = None \<and>
      (\<exists>leaf. viemLeafHashRaw v (entitlement_fields (ld_chainId d) e) = Some leaf \<and>
         lower (viemProcessProof v leaf (ce_proof e)) = lower (oc_root c))"
    using verdict \<open>is_ok verdict\<close>
    by (auto simp: verifyClaim_eq Let_def is_ok_def split: option.splits if_splits)
  ultimately show ?thesis using Live call plan by simp
qed (use assms in auto)

section \<open>Claims are safe\<close>

text \<open>
  C34: a plan can be submitted only if everything agrees: the deployment came from a broadcast-ready
  manifest for chain 4663 that is no fixture, with code at the claim manager it targets; the wallet is
  eligible and the leaf unclaimed; cycle, asset and root of the entitlement are those of the cycle on chain;
  the time is in the claim window and the amount within the remaining funds; and the proof leads from the
  double-hashed leaf of exactly this claim to the root on chain. The calldata encodes exactly this claim.
\<close>

theorem planClaim_safe:
  assumes "planClaim v encode e c (enableWrites (resolveDeployment parsed) code) now claimed eligible = Inr plan"
    and "cp_canSubmit plan"
  shows "eligible \<and> \<not> claimed \<and> ce_cycleId e = oc_cycleId c \<and> lower (ce_asset e) = lower (oc_asset c) \<and>
    lower (ce_root e) = lower (oc_root c) \<and> oc_claimStartSec c \<le> now \<and> now \<le> oc_claimDeadlineSec c \<and>
    ce_amount e \<le> oc_remaining c \<and>
    (\<exists>leaf. viemLeafHashRaw v \<lparr>lf_chainId = 4663, lf_claimManager = ce_claimManager e,
       lf_cycleId = ce_cycleId e, lf_wallet = ce_claimant e, lf_asset = ce_asset e, lf_amount = ce_amount e\<rparr> =
         Some leaf \<and>
       lower (viemProcessProof v leaf (ce_proof e)) = lower (oc_root c)) \<and>
    encode (ce_cycleId e) (ce_asset e) (ce_amount e) (ce_proof e) = Inr (cp_calldata plan) \<and>
    (\<exists>m. parsed = Inr m \<and> dm_chainId m = 4663 \<and> dm_broadcastReady m \<and> dm_isFixture m \<noteq> Some True \<and>
       dm_actual m claimManager = Some (cp_target plan) \<and> code (lower (cp_target plan)))"
proof -
  from planClaim_submits [OF assms] obtain d where w: "eligible"
      "writesAllowed (enableWrites (resolveDeployment parsed) code)"
    and d: "enableWrites (resolveDeployment parsed) code = Live d" "cp_target plan = ld_addresses d claimManager"
      "encode (ce_cycleId e) (ce_asset e) (ce_amount e) (ce_proof e) = Inr (cp_calldata plan)"
      "chain_rejection e c now claimed = None"
      "\<exists>leaf. viemLeafHashRaw v (entitlement_fields (ld_chainId d) e) = Some leaf \<and>
         lower (viemProcessProof v leaf (ce_proof e)) = lower (oc_root c)" by blast
  from d(1) obtain d' where d': "resolveDeployment parsed = Live d'" "ld_addresses d = ld_addresses d'"
    "ld_chainId d = ld_chainId d'" by (cases "resolveDeployment parsed") (auto split: if_splits)
  from d'(1) [unfolded resolve_Live] obtain m where m: "parsed = Inr m" "dm_chainId m = 4663" "dm_broadcastReady m"
    "list_all (\<lambda>k. isRealAddress (dm_actual m k)) contractSet"
    "ld_addresses d' = (\<lambda>k. the (dm_actual m k))" "ld_chainId d' = 4663" by auto
  from w(2) [unfolded writes_iff] m(1) have code: "dm_isFixture m \<noteq> Some True"
    "list_all (\<lambda>k. code (lower (the (dm_actual m k)))) WRITE_REQUIRED_CONTRACTS" by auto
  obtain a where "dm_actual m claimManager = Some a"
    using m(4) contractSet_all [of claimManager] unfolding list_all_iff isRealAddress_iff by blast
  with d(2) d'(2) m(5) code(2) have "dm_actual m claimManager = Some (cp_target plan)"
    "code (lower (cp_target plan))" by (auto simp: WRITE_REQUIRED_CONTRACTS_def)
  with w(1) d m code d' show ?thesis
    by (auto simp: chain_rejection_def entitlement_fields_def split: if_splits)
qed

definition ex_manifest :: DeploymentManifest where
  "ex_manifest =
     (let vc = \<lparr>vc_address = [], vc_runtimeCodeHash = [], vc_status = VERIFIED\<rparr> in
      \<lparr>dm_chainId = 4663, dm_sourceCommit = ''c0'', dm_broadcastReady = True, dm_mode = None,
       dm_isFixture = None, dm_deployer = None, dm_weth = vc, dm_rialtoRegistry = vc, dm_swapRouter02 = vc,
       dm_predicted = (\<lambda>_. None), dm_actual = (\<lambda>_. Some (ex_account (CHR ''A'')))\<rparr>)"

definition ex_claim :: ClaimEntitlement where
  "ex_claim =
     \<lparr>ce_cycleId = 1, ce_claimManager = ex_account (CHR ''a''), ce_asset = ex_account (CHR ''b''),
      ce_assetSymbol = ''X'', ce_claimant = ex_account (CHR ''c''), ce_amount = 5, ce_proof = [''0x0'', ''0x1''],
      ce_root = (case computeLeaf toy_viem 4663 (ex_account (CHR ''a'')) 1 (ex_account (CHR ''c''))
          (ex_account (CHR ''b'')) 5 of
        Inl _ \<Rightarrow> [] | Inr leaf \<Rightarrow> foldProof toy_viem leaf [''0x0'', ''0x1''])\<rparr>"

definition ex_cycle_state :: OnchainCycle where
  "ex_cycle_state = \<lparr>oc_cycleId = 1, oc_root = ce_root ex_claim, oc_asset = ex_account (CHR ''B''),
     oc_remaining = 7, oc_claimStartSec = 10, oc_claimDeadlineSec = 20\<rparr>"

theorem planClaim_safe_witness:
  "\<exists>plan. planClaim toy_viem (\<lambda>_ _ _ _. Inr ''0xc1'') ex_claim ex_cycle_state
       (enableWrites (resolveDeployment (Inr ex_manifest)) (\<lambda>a. a = ex_account (CHR ''a''))) 15 False True =
     Inr plan \<and> cp_canSubmit plan \<and> dm_actual ex_manifest claimManager = Some (cp_target plan)"
proof -
  have "case planClaim toy_viem (\<lambda>_ _ _ _. Inr ''0xc1'') ex_claim ex_cycle_state
       (enableWrites (resolveDeployment (Inr ex_manifest)) (\<lambda>a. a = ex_account (CHR ''a''))) 15 False True of
     Inr plan \<Rightarrow> cp_canSubmit plan | Inl _ \<Rightarrow> False"
    by code_simp
  then obtain plan where plan: "planClaim toy_viem (\<lambda>_ _ _ _. Inr ''0xc1'') ex_claim ex_cycle_state
       (enableWrites (resolveDeployment (Inr ex_manifest)) (\<lambda>a. a = ex_account (CHR ''a''))) 15 False True =
     Inr plan" "cp_canSubmit plan" by (auto split: sum.splits)
  from planClaim_safe [OF plan] plan show ?thesis by auto
qed

section \<open>What a snapshot publishes can be claimed\<close>

definition claim_of_view :: "ProofBundle \<Rightarrow> int \<Rightarrow> string \<Rightarrow> ParticipantView \<Rightarrow> ClaimEntitlement" where
  "claim_of_view bundle cycleId symbol view =
     \<lparr>ce_cycleId = cycleId, ce_claimManager = pb_claimManager bundle, ce_asset = pb_distributionAsset bundle,
      ce_assetSymbol = symbol, ce_claimant = vw_address view, ce_amount = int_of_dec (vw_entitlement view),
      ce_proof = vw_proof view, ce_root = vw_merkleRoot view\<rparr>"

lemma snapshot_view_verified:
  assumes "runSnapshotPipeline v oz keccak encodePublish reader req = Inr res"
    and "lookupParticipant v (rs_proofBundle res) address = Inr (Some view)"
  shows "viemVerifyRaw v (entitlement_fields (sr_chainId req)
      (claim_of_view (rs_proofBundle res) (sr_cycleId req) symbol view)) (vw_proof view) (vw_merkleRoot view) = Some True"
proof -
  obtain a where a: "normalizeAddress address = Inr a"
    using assms(2) by (auto simp: lookupParticipant_def rbind_eq_Inr)
  obtain p where find: "find (\<lambda>p. pe_address p = a) (pb_participants (rs_proofBundle res)) = Some p"
    and v: "vw_address view = a" "vw_entitlement view = pe_entitlement p" "vw_proof view = pe_proof p"
      "vw_merkleRoot view = cs_merkleRoot (rs_snapshot res)"
    using assms(2) by (auto simp: lookup_run [OF assms(1) a] split: option.splits)
  obtain header w manager asset t where
    f: "run_facts v reader req header w manager asset (cs_merkleRoot (rs_snapshot res))
      (pb_participants (rs_proofBundle res)) t"
    and pb: "pb_claimManager (rs_proofBundle res) = manager" "pb_distributionAsset (rs_proofBundle res) = asset"
    using run_Inr [OF assms(1)] by blast
  have p: "p \<in> set (pb_participants (rs_proofBundle res))" "pe_address p = a"
    using find by (auto simp: find_Some_iff)
  show ?thesis
    using run_entitlement_text(1) [OF f p(1)] p(2) v pb
    by (simp add: entitlement_fields_def claim_of_view_def fieldsOf_def)
qed

text \<open>
  C33: the indexer and the application agree end to end: an entitlement that a participant looks up in the
  bundle of a successful snapshot run is never rejected for its proof. The application's verdict on it
  depends on the chain alone: already claimed, another cycle, asset or root, outside the window, more than
  what remains, and otherwise accepted with the published root.
\<close>

theorem snapshot_claim_verdict:
  assumes "runSnapshotPipeline v oz keccak encodePublish reader req = Inr res"
    and "lookupParticipant v (rs_proofBundle res) address = Inr (Some view)"
  shows "verifyClaim v (claim_of_view (rs_proofBundle res) (sr_cycleId req) symbol view) c
      (sr_chainId req) now claimed =
    Inr (if claimed then Inl already_claimed
     else if sr_cycleId req \<noteq> oc_cycleId c then Inl cycle_mismatch
     else if lower (pb_distributionAsset (rs_proofBundle res)) \<noteq> lower (oc_asset c) then Inl asset_mismatch
     else if lower (vw_merkleRoot view) \<noteq> lower (oc_root c) then Inl root_mismatch
     else if \<not> (oc_claimStartSec c \<le> now \<and> now \<le> oc_claimDeadlineSec c) then Inl outside_claim_window
     else if oc_remaining c < int_of_dec (vw_entitlement view) then Inl amount_exceeds_remaining
     else Inr (vw_merkleRoot view))"
  using snapshot_view_verified [OF assms, of symbol]
  by (subst verified_verdict) (simp_all add: chain_rejection_def claim_of_view_def)

lemma ex_created_hex:
  "case cr_lockCreated ex_reader 4 10 of
     Inr rs \<Rightarrow> list_all (\<lambda>r. isHexAddress (lc_account r)) rs | Inl _ \<Rightarrow> False"
  by code_simp

lemma ex_participant:
  assumes "runSnapshotPipeline toy_viem toy_oz toy_keccak ex_publish ex_reader ex_request = Inr res"
  shows "\<exists>address view. lookupParticipant toy_viem (rs_proofBundle res) address = Inr (Some view)"
proof -
  obtain header w manager asset t where
    "run_facts toy_viem ex_reader ex_request header w manager asset (cs_merkleRoot (rs_snapshot res))
      (pb_participants (rs_proofBundle res)) t" using run_Inr [OF assms] by blast
  then obtain p where p: "p \<in> set (pb_participants (rs_proofBundle res))"
    by (cases "pb_participants (rs_proofBundle res)") (auto simp: run_facts_def)
  obtain created where "cr_lockCreated ex_reader 4 10 = Inr created"
    "pe_address p \<in> (\<lambda>r. lower (lc_account r)) ` set created"
    using run_entitlements [OF assms] p unfolding Let_def by (fastforce simp: ex_request_def)
  then have norm: "normalizeAddress (pe_address p) = Inr (pe_address p)"
    using ex_created_hex hex_string_lower
    by (auto simp: normalizeAddress_eq_Inr isHexAddress_def list_all_iff)
  obtain q where "find (\<lambda>q. pe_address q = pe_address p) (pb_participants (rs_proofBundle res)) = Some q"
    using p by (cases "find (\<lambda>q. pe_address q = pe_address p) (pb_participants (rs_proofBundle res))")
      (auto simp: find_None_iff)
  then show ?thesis using lookup_run [OF assms norm] by auto
qed

theorem snapshot_claim_verdict_witness:
  "\<exists>res address view. runSnapshotPipeline toy_viem toy_oz toy_keccak ex_publish ex_reader ex_request = Inr res \<and>
     lookupParticipant toy_viem (rs_proofBundle res) address = Inr (Some view) \<and>
     verifyClaim toy_viem (claim_of_view (rs_proofBundle res) (sr_cycleId ex_request) ''X'' view)
       \<lparr>oc_cycleId = sr_cycleId ex_request, oc_root = vw_merkleRoot view,
        oc_asset = pb_distributionAsset (rs_proofBundle res),
        oc_remaining = int_of_dec (vw_entitlement view), oc_claimStartSec = 0, oc_claimDeadlineSec = 9\<rparr>
       (sr_chainId ex_request) 5 False = Inr (Inr (vw_merkleRoot view))"
proof -
  obtain res where r: "runSnapshotPipeline toy_viem toy_oz toy_keccak ex_publish ex_reader ex_request = Inr res"
    by (rule ex_run)
  obtain view address where "lookupParticipant toy_viem (rs_proofBundle res) address = Inr (Some view)"
    using ex_participant [OF r] by blast
  from snapshot_claim_verdict [OF r this, of "''X''"
      "\<lparr>oc_cycleId = sr_cycleId ex_request, oc_root = vw_merkleRoot view,
        oc_asset = pb_distributionAsset (rs_proofBundle res),
        oc_remaining = int_of_dec (vw_entitlement view), oc_claimStartSec = 0, oc_claimDeadlineSec = 9\<rparr>" 5 False]
  have "verifyClaim toy_viem (claim_of_view (rs_proofBundle res) (sr_cycleId ex_request) ''X'' view)
       \<lparr>oc_cycleId = sr_cycleId ex_request, oc_root = vw_merkleRoot view,
        oc_asset = pb_distributionAsset (rs_proofBundle res),
        oc_remaining = int_of_dec (vw_entitlement view), oc_claimStartSec = 0, oc_claimDeadlineSec = 9\<rparr>
       (sr_chainId ex_request) 5 False = Inr (Inr (vw_merkleRoot view))" by simp
  then show ?thesis using r \<open>lookupParticipant toy_viem (rs_proofBundle res) address = Inr (Some view)\<close> by blast
qed

text \<open>
  Claim readiness is decided by the claim manager's own state at the time of each read, never by an
  event: it is reported exactly when the cycle is published with the artifact's root, the asset is funded with
  at least the amount, the claim is unused, the manager's balance covers the amount and the last read
  answers; the reported root and remaining allocation are the ones read.
\<close>

theorem validateClaimReadiness_ok:
  "validateClaimReadiness client input = Inr r \<and> rr_ok r \<longleftrightarrow>
   (\<exists>root h1 h2 start deadline funded spent balance decimals allowance remaining.
      pc_cycles (client 0) (ri_manager input) (ri_cycleId input) = Inr (root, h1, h2, start, deadline, True) \<and>
      lower root = lower (ri_artifactRoot input) \<and>
      pc_assetFunding (client 1) (ri_manager input) (ri_cycleId input) (ri_asset input) =
        Inr (True, funded, spent) \<and> ri_amount input \<le> funded \<and>
      pc_claimed (client 2) (ri_manager input) (ri_cycleId input) (ri_claimant input) (ri_asset input) =
        Inr False \<and>
      pc_balanceOf (client 3) (ri_asset input) (ri_manager input) = Inr balance \<and> ri_amount input \<le> balance \<and>
      pc_decimals (client 3) (ri_asset input) = Inr decimals \<and>
      pc_allowance (client 3) (ri_asset input) (ri_manager input) (ri_manager input) = Inr allowance \<and>
      pc_remaining (client 4) (ri_manager input) (ri_cycleId input) (ri_asset input) = Inr remaining \<and>
      r = \<lparr>rr_reason = None, rr_onchainRoot = Some root, rr_remaining = Some remaining\<rparr>)"
  (is "?l \<longleftrightarrow> ?r")
proof
  assume ?l
  then show ?r
    unfolding validateClaimReadiness_def readCycle_def readAssetFunding_def readClaimUsed_def readErc20_def
      readClaimRemaining_def rr_ok_def notReady_def
    by (auto simp: rbind_eq_Inr not_le not_less split: if_splits)
next
  assume ?r
  then show ?l
    unfolding validateClaimReadiness_def readCycle_def readAssetFunding_def readClaimUsed_def readErc20_def
      readClaimRemaining_def rr_ok_def
    by (elim exE conjE) (simp add: attempt_def)
qed

end
