(* ===== verification/Canary.thy ===== *)
theory Canary
  imports Deployment
begin

text \<open>
  The canary profile of the web application: \<open>apps/web/lib/canary/manifest.ts\<close>,
  \<open>operations.ts\<close> and \<open>profile.ts\<close>. As in \<open>Deployment\<close> the argument of \<open>resolveCanary\<close> is the
  result of \<open>canaryManifestSchema.safeParse\<close>; the literal fields \<open>canary: true\<close> and
  \<open>production: false\<close> are what a parsed manifest has. The address rules are those of \<open>Deployment\<close>,
  which this file of the source repeats. The label carries the em dash as its three UTF-8 bytes.
\<close>

section \<open>The manifest\<close>

definition CANARY_LABEL :: string where
  "CANARY_LABEL = ''BPSC-TEST '' @ [CHR 0xE2, CHR 0x80, CHR 0x94] @ '' ROBINHOOD MAINNET CANARY ''
     @ [CHR 0xE2, CHR 0x80, CHR 0x94] @ '' TEST ONLY''"

definition CANARY_TOKEN_SYMBOL :: string where "CANARY_TOKEN_SYMBOL = ''BPSC-TEST''"

definition BLOCKSCOUT_BASE :: string where
  "BLOCKSCOUT_BASE = ''https://robinhoodchain.blockscout.com''"

datatype CanaryOpKey = op_tradeRouter | op_lockingVault | op_claimManager | op_stockVault | op_coordinator
  | op_canaryToken

fun opName :: "CanaryOpKey \<Rightarrow> string" where
  "opName op_tradeRouter = ''tradeRouter''"
| "opName op_lockingVault = ''lockingVault''"
| "opName op_claimManager = ''claimManager''"
| "opName op_stockVault = ''stockVault''"
| "opName op_coordinator = ''coordinator''"
| "opName op_canaryToken = ''canaryToken''"

record CapitalCaps =
  cc_lpWethMaxWei :: "string option"
  cc_individualTradeWethMaxWei :: "string option"
  cc_lpWethMaxUsd :: int
  cc_individualTradeMaxUsd :: int
  cc_controlledTradesMaxUsd :: int
  cc_gasMaxUsd :: int
  cc_aggregateMaxUsd :: int

record CanaryManifest =
  cm_chainId :: int
  cm_broadcastReady :: bool
  cm_liveWritesApproved :: bool
  cm_isFixture :: "bool option"
  cm_tokenName :: string
  cm_tokenSymbol :: string
  cm_tokenDecimals :: int
  cm_actual :: "CanaryOpKey \<Rightarrow> string option"
  cm_capitalCaps :: CapitalCaps

definition WRITE_REQUIRED :: "CanaryOpKey list" where
  "WRITE_REQUIRED = [op_tradeRouter, op_lockingVault, op_claimManager, op_stockVault, op_coordinator]"

record ReadyCanary =
  rc_label :: string
  rc_symbol :: string
  rc_chainId :: int
  rc_addresses :: "CanaryOpKey \<Rightarrow> string"
  rc_lpWethMaxWei :: int
  rc_individualTradeWethMaxWei :: int
  rc_writesEnabled :: bool

datatype CanaryState =
    InvalidCanary "string list"
  | NotApproved string string string
  | Ready ReadyCanary

definition weiString :: "string \<Rightarrow> bool" where
  "weiString v \<longleftrightarrow> v \<noteq> [] \<and> list_all is_digit_char v"

definition resolveCanary :: "string list + CanaryManifest \<Rightarrow> CanaryState" where
  "resolveCanary parsed =
     (case parsed of
        Inl issues \<Rightarrow> InvalidCanary issues
      | Inr m \<Rightarrow>
          (let label = CANARY_LABEL; symbol = cm_tokenSymbol m in
           if cm_chainId m \<noteq> ROBINHOOD_CHAIN_ID
           then InvalidCanary
             [''chainId '' @ dec_of_int (cm_chainId m) @ '' != '' @ dec_of_int ROBINHOOD_CHAIN_ID]
           else if cm_tokenSymbol m \<noteq> CANARY_TOKEN_SYMBOL
           then InvalidCanary
             [''token.symbol '' @ dquote @ cm_tokenSymbol m @ dquote @ '' != '' @ CANARY_TOKEN_SYMBOL]
           else if cm_isFixture m = Some True
           then InvalidCanary [''isFixture manifest cannot be a live canary'']
           else if \<not> cm_broadcastReady m \<or> \<not> cm_liveWritesApproved m
           then NotApproved (''canary writes disabled: broadcastReady='' @ boolText (cm_broadcastReady m)
               @ '', liveWritesApproved='' @ boolText (cm_liveWritesApproved m)) label symbol
           else
             (case find (\<lambda>k. \<not> isRealAddress (cm_actual m k)) (WRITE_REQUIRED @ [op_canaryToken]) of
                Some k \<Rightarrow> NotApproved (''contract '' @ dquote @ opName k @ dquote
                    @ '' has no valid deployed address'') label symbol
              | None \<Rightarrow>
                  (case (cc_lpWethMaxWei (cm_capitalCaps m), cc_individualTradeWethMaxWei (cm_capitalCaps m)) of
                     (Some lpWei, Some tradeWei) \<Rightarrow>
                       if \<not> weiString lpWei \<or> \<not> weiString tradeWei
                       then NotApproved ''WETH capital caps not populated (fail closed)'' label symbol
                       else Ready \<lparr>rc_label = label, rc_symbol = symbol, rc_chainId = cm_chainId m,
                              rc_addresses = (\<lambda>k. the (cm_actual m k)), rc_lpWethMaxWei = int_of_dec lpWei,
                              rc_individualTradeWethMaxWei = int_of_dec tradeWei,
                              rc_writesEnabled = False\<rparr>
                   | _ \<Rightarrow> NotApproved ''WETH capital caps not populated (fail closed)'' label symbol))))"

fun enableCanaryWrites :: "CanaryState \<Rightarrow> (string \<Rightarrow> bool) \<Rightarrow> CanaryState" where
  "enableCanaryWrites (Ready r) codePresent =
     Ready (r\<lparr>rc_writesEnabled := list_all (\<lambda>k. codePresent (lower (rc_addresses r k))) WRITE_REQUIRED\<rparr>)"
| "enableCanaryWrites state codePresent = state"

fun canaryWritesAllowed :: "CanaryState \<Rightarrow> bool" where
  "canaryWritesAllowed (Ready r) \<longleftrightarrow> rc_writesEnabled r"
| "canaryWritesAllowed state \<longleftrightarrow> False"

fun withinIndividualTradeCap :: "CanaryState \<Rightarrow> int \<Rightarrow> bool" where
  "withinIndividualTradeCap (Ready r) quotedWethWei \<longleftrightarrow>
     quotedWethWei > 0 \<and> quotedWethWei \<le> rc_individualTradeWethMaxWei r"
| "withinIndividualTradeCap state quotedWethWei \<longleftrightarrow> False"

fun withinLpCap :: "CanaryState \<Rightarrow> int \<Rightarrow> bool" where
  "withinLpCap (Ready r) lpWethWei \<longleftrightarrow> lpWethWei > 0 \<and> lpWethWei \<le> rc_lpWethMaxWei r"
| "withinLpCap state lpWethWei \<longleftrightarrow> False"

text \<open>An address list of the source may hold \<open>null\<close>; \<open>filter(Boolean)\<close> and \<open>a \<and>\<close> drop it and \<open>''''\<close>.\<close>

definition truthy_address :: "string option \<Rightarrow> bool" where
  "truthy_address a \<longleftrightarrow> a \<noteq> None \<and> a \<noteq> Some []"

definition assertNoCanonicalOverlap ::
  "string option list \<Rightarrow> string option list \<Rightarrow> string + unit" where
  "assertNoCanonicalOverlap canaryAddresses canonicalAddresses =
     (let canon = js_set (map (\<lambda>a. lower (the a)) (filter truthy_address canonicalAddresses)) in
      case find (\<lambda>a. truthy_address a \<and> lower (the a) \<in> set canon) canaryAddresses of
        Some a \<Rightarrow> Inl (''canary address '' @ the a @ '' collides with a canonical BPS production address'')
      | None \<Rightarrow> Inr ())"

definition explorerTxUrl :: "string \<Rightarrow> string" where
  "explorerTxUrl hash = BLOCKSCOUT_BASE @ ''/tx/'' @ hash"

definition explorerAddressUrl :: "string \<Rightarrow> string" where
  "explorerAddressUrl address = BLOCKSCOUT_BASE @ ''/address/'' @ address"

section \<open>The operations router\<close>

text \<open>A \<open>CanaryOpResult\<close> is a sum: \<open>Inl\<close> the reason, \<open>Inr\<close> the value.\<close>

definition requireCanaryChain :: "int option \<Rightarrow> string + int" where
  "requireCanaryChain chainId =
     (if chainId \<noteq> Some ROBINHOOD_CHAIN_ID
      then Inl (''wrong-chain:'' @ (case chainId of Some i \<Rightarrow> dec_of_int i | None \<Rightarrow> ''none''))
      else Inr ROBINHOOD_CHAIN_ID)"

definition selectCanaryContract :: "CanaryState \<Rightarrow> CanaryOpKey \<Rightarrow> string + string" where
  "selectCanaryContract state key =
     (case state of
        InvalidCanary errors \<Rightarrow> Inl (''invalid:'' @ join ''; '' errors)
      | NotApproved reason _ _ \<Rightarrow> Inl (''not-approved:'' @ reason)
      | Ready r \<Rightarrow>
          if \<not> canaryWritesAllowed state then Inl ''writes-disabled''
          else if rc_addresses r key = [] then Inl (''no-address:'' @ opName key)
          else Inr (rc_addresses r key))"

definition prepareCanaryAction :: "CanaryState \<Rightarrow> int option \<Rightarrow> CanaryOpKey \<Rightarrow> string + string" where
  "prepareCanaryAction state chainId key =
     rbind (requireCanaryChain chainId) (\<lambda>_. selectCanaryContract state key)"

definition enforceCanaryBuyCap :: "CanaryState \<Rightarrow> int \<Rightarrow> string + int" where
  "enforceCanaryBuyCap state grossWethInWei =
     (if \<not> withinIndividualTradeCap state grossWethInWei then Inl ''exceeds-2usd-cap-or-not-ready''
      else Inr grossWethInWei)"

definition enforceCanarySellCap :: "CanaryState \<Rightarrow> int \<Rightarrow> string + int" where
  "enforceCanarySellCap state simulatedWethOutWei =
     (if \<not> withinIndividualTradeCap state simulatedWethOutWei then Inl ''exceeds-2usd-cap-or-not-ready''
      else Inr simulatedWethOutWei)"

definition enforceCanaryLpCap :: "CanaryState \<Rightarrow> int \<Rightarrow> string + int" where
  "enforceCanaryLpCap state lpWethWei =
     (if \<not> withinLpCap state lpWethWei then Inl ''exceeds-100usd-lp-cap-or-not-ready'' else Inr lpWethWei)"

fun assertCanarySeparation :: "CanaryState \<Rightarrow> string option list \<Rightarrow> string + unit" where
  "assertCanarySeparation (Ready r) canonicalAddresses =
     assertNoCanonicalOverlap (map (\<lambda>k. Some (rc_addresses r k)) (WRITE_REQUIRED @ [op_canaryToken]))
       canonicalAddresses"
| "assertCanarySeparation state canonicalAddresses = Inr ()"

definition canaryBlockReason :: "CanaryState \<Rightarrow> int option \<Rightarrow> string option" where
  "canaryBlockReason state chainId =
     (case requireCanaryChain chainId of
        Inl reason \<Rightarrow> Some reason
      | Inr _ \<Rightarrow> (case selectCanaryContract state op_tradeRouter of Inl reason \<Rightarrow> Some reason | Inr _ \<Rightarrow> None))"

definition isCanaryMode :: "string option \<Rightarrow> bool" where
  "isCanaryMode NEXT_PUBLIC_BPS_CANARY \<longleftrightarrow> NEXT_PUBLIC_BPS_CANARY = Some ''1''"

section \<open>Lemmas\<close>

fun required_canary_code :: "CanaryState \<Rightarrow> string list option" where
  "required_canary_code (Ready r) = Some (map (rc_addresses r) WRITE_REQUIRED)"
| "required_canary_code state = None"

interpretation canary: write_gate canaryWritesAllowed enableCanaryWrites required_canary_code
proof
  fix s code
  show "canaryWritesAllowed (enableCanaryWrites s code) \<longleftrightarrow>
      (\<exists>rs. required_canary_code s = Some rs \<and> list_all (\<lambda>a. code (lower a)) rs)"
    by (cases s) (auto simp: list_all_iff)
  show "required_canary_code (enableCanaryWrites s code) = required_canary_code s"
    by (cases s) auto
qed

text \<open>The conditions a manifest must meet to be ready.\<close>

definition approved_canary :: "CanaryManifest \<Rightarrow> bool" where
  "approved_canary m \<longleftrightarrow>
     cm_chainId m = 4663 \<and> cm_tokenSymbol m = ''BPSC-TEST'' \<and> cm_isFixture m \<noteq> Some True \<and>
     cm_broadcastReady m \<and> cm_liveWritesApproved m \<and>
     (\<forall>k. \<exists>a. cm_actual m k = Some a \<and> hex_string 40 a \<and> lower a \<notin> set PLACEHOLDERS) \<and>
     (\<exists>lp. cc_lpWethMaxWei (cm_capitalCaps m) = Some lp \<and> lp \<noteq> [] \<and> list_all is_digit_char lp) \<and>
     (\<exists>tr. cc_individualTradeWethMaxWei (cm_capitalCaps m) = Some tr \<and> tr \<noteq> [] \<and> list_all is_digit_char tr)"

lemma find_real:
  "find (\<lambda>k. \<not> isRealAddress (f k)) (WRITE_REQUIRED @ [op_canaryToken]) = None \<longleftrightarrow>
   (\<forall>k. \<exists>a. f k = Some a \<and> hex_string 40 a \<and> lower a \<notin> set PLACEHOLDERS)"
proof -
  have "k \<in> set (WRITE_REQUIRED @ [op_canaryToken])" for k
    by (cases k) (simp_all add: WRITE_REQUIRED_def)
  then show ?thesis unfolding find_None_iff isRealAddress_iff by blast
qed

lemma resolve_Ready:
  "resolveCanary parsed = Ready r \<longleftrightarrow>
   (\<exists>m. parsed = Inr m \<and> approved_canary m \<and>
     r = \<lparr>rc_label = CANARY_LABEL, rc_symbol = ''BPSC-TEST'', rc_chainId = 4663,
          rc_addresses = (\<lambda>k. the (cm_actual m k)),
          rc_lpWethMaxWei = int_of_dec (the (cc_lpWethMaxWei (cm_capitalCaps m))),
          rc_individualTradeWethMaxWei =
            int_of_dec (the (cc_individualTradeWethMaxWei (cm_capitalCaps m))),
          rc_writesEnabled = False\<rparr>)"
proof (cases parsed)
  case (Inr m)
  let ?f = "find (\<lambda>k. \<not> isRealAddress (cm_actual m k)) (WRITE_REQUIRED @ [op_canaryToken])"
  show ?thesis
  proof (cases ?f)
    case None
    with find_real [of "cm_actual m"]
    have addr: "\<forall>k. \<exists>a. cm_actual m k = Some a \<and> hex_string 40 a \<and> lower a \<notin> set PLACEHOLDERS" by blast
    show ?thesis
      using addr unfolding resolveCanary_def Inr approved_canary_def Let_def sum.case None
      by (auto simp: ROBINHOOD_CHAIN_ID_def CANARY_TOKEN_SYMBOL_def weiString_def split: option.splits)
  next
    case (Some k)
    with find_real [of "cm_actual m"]
    have "\<not> (\<forall>k. \<exists>a. cm_actual m k = Some a \<and> hex_string 40 a \<and> lower a \<notin> set PLACEHOLDERS)" by simp
    then have "\<not> approved_canary m" unfolding approved_canary_def by blast
    then show ?thesis
      unfolding resolveCanary_def Inr Let_def sum.case Some by simp
  qed
qed (simp add: resolveCanary_def)

lemma canary_resolve_never_writes: "\<not> canaryWritesAllowed (resolveCanary parsed)"
proof (cases "resolveCanary parsed")
  case (Ready r)
  from Ready [unfolded resolve_Ready] Ready show ?thesis by auto
qed simp_all

lemma prepare_iff:
  "prepareCanaryAction (enableCanaryWrites (resolveCanary parsed) codePresent) chainId key = Inr target \<longleftrightarrow>
   chainId = Some 4663 \<and> (\<exists>m. parsed = Inr m \<and> approved_canary m \<and>
     list_all (\<lambda>k. codePresent (lower (the (cm_actual m k)))) WRITE_REQUIRED \<and>
     target = the (cm_actual m key))"
proof (cases "resolveCanary parsed")
  case (Ready r)
  from Ready [unfolded resolve_Ready] obtain m where m: "parsed = Inr m" "approved_canary m"
    "rc_addresses r = (\<lambda>k. the (cm_actual m k))" by auto
  have "the (cm_actual m key) \<noteq> []"
    using m(2) hex_string_not_Nil unfolding approved_canary_def by (metis option.sel)
  then show ?thesis
    unfolding prepareCanaryAction_def Ready enableCanaryWrites.simps selectCanaryContract_def
    using m by (auto simp: requireCanaryChain_def ROBINHOOD_CHAIN_ID_def rbind_eq_Inr)
next
  case (InvalidCanary x)
  then show ?thesis using resolve_Ready [of parsed]
    by (auto simp: prepareCanaryAction_def selectCanaryContract_def rbind_eq_Inr)
next
  case (NotApproved a b c)
  then show ?thesis using resolve_Ready [of parsed]
    by (auto simp: prepareCanaryAction_def selectCanaryContract_def rbind_eq_Inr)
qed

lemma buyCap_iff:
  "enforceCanaryBuyCap (enableCanaryWrites (resolveCanary parsed) codePresent) v = Inr v' \<longleftrightarrow>
   v' = v \<and> 0 < v \<and> (\<exists>m tr. parsed = Inr m \<and> approved_canary m \<and>
     cc_individualTradeWethMaxWei (cm_capitalCaps m) = Some tr \<and> v \<le> int_of_dec tr)"
proof (cases "resolveCanary parsed")
  case (Ready r)
  from Ready [unfolded resolve_Ready] obtain m where m: "parsed = Inr m" "approved_canary m"
    "rc_individualTradeWethMaxWei r = int_of_dec (the (cc_individualTradeWethMaxWei (cm_capitalCaps m)))"
    by auto
  obtain tr where "cc_individualTradeWethMaxWei (cm_capitalCaps m) = Some tr"
    using m(2) unfolding approved_canary_def by blast
  with m Ready show ?thesis by (auto simp: enforceCanaryBuyCap_def)
next
  case (InvalidCanary x)
  then show ?thesis using resolve_Ready [of parsed] by (auto simp: enforceCanaryBuyCap_def)
next
  case (NotApproved a b c)
  then show ?thesis using resolve_Ready [of parsed] by (auto simp: enforceCanaryBuyCap_def)
qed

lemma separation_disjoint:
  "assertCanarySeparation (Ready r) canonical = Inr () \<longleftrightarrow>
   (\<forall>k a. Some a \<in> set canonical \<longrightarrow> a \<noteq> [] \<longrightarrow> rc_addresses r k \<noteq> [] \<longrightarrow> lower (rc_addresses r k) \<noteq> lower a)"
proof -
  have "k \<in> set (WRITE_REQUIRED @ [op_canaryToken])" for k
    by (cases k) (simp_all add: WRITE_REQUIRED_def)
  then have all: "set (WRITE_REQUIRED @ [op_canaryToken]) = UNIV" by blast
  have canon: "x \<in> lower ` the ` set (filter truthy_address canonical) \<longleftrightarrow>
      (\<exists>a. Some a \<in> set canonical \<and> a \<noteq> [] \<and> x = lower a)" for x
    by (simp add: image_iff Bex_def split_option_ex truthy_address_def conj_ac)
  have "assertCanarySeparation (Ready r) canonical = Inr () \<longleftrightarrow>
      find (\<lambda>a. truthy_address a \<and> lower (the a) \<in> lower ` the ` set (filter truthy_address canonical))
        (map (\<lambda>k. Some (rc_addresses r k)) (WRITE_REQUIRED @ [op_canaryToken])) = None"
    by (auto simp: assertNoCanonicalOverlap_def Let_def image_image split: option.splits)
  also have "\<dots> \<longleftrightarrow> (\<forall>k. \<not> (rc_addresses r k \<noteq> [] \<and>
      lower (rc_addresses r k) \<in> lower ` the ` set (filter truthy_address canonical)))"
    unfolding find_None_iff set_map all by (auto simp: truthy_address_def)
  also have "\<dots> \<longleftrightarrow> (\<forall>k a. Some a \<in> set canonical \<longrightarrow> a \<noteq> [] \<longrightarrow> rc_addresses r k \<noteq> [] \<longrightarrow>
      lower (rc_addresses r k) \<noteq> lower a)"
    unfolding canon by blast
  finally show ?thesis .
qed

text \<open>
  A canary operation gets a contract address exactly when the wallet is on chain 4663, the manifest is
  the approved canary (right chain and token, no fixture, both approvals, every address real, both caps
  given in digits) and every write contract has runtime code; the address is the manifest's own. A trade
  passes the cap exactly when it is positive and at most the manifest's cap.
\<close>

theorem prepareCanaryAction_exactly:
  "(prepareCanaryAction (enableCanaryWrites (resolveCanary parsed) codePresent) chainId key = Inr target \<longleftrightarrow>
    chainId = Some 4663 \<and> (\<exists>m. parsed = Inr m \<and> approved_canary m \<and> cm_actual m key = Some target \<and>
      list_all (\<lambda>k. codePresent (lower (the (cm_actual m k))))
        [op_tradeRouter, op_lockingVault, op_claimManager, op_stockVault, op_coordinator])) \<and>
   (enforceCanaryBuyCap (enableCanaryWrites (resolveCanary parsed) codePresent) v = Inr v' \<longleftrightarrow>
    v' = v \<and> 0 < v \<and> (\<exists>m tr. parsed = Inr m \<and> approved_canary m \<and>
      cc_individualTradeWethMaxWei (cm_capitalCaps m) = Some tr \<and> v \<le> int_of_dec tr))"
proof -
  have "approved_canary m \<Longrightarrow> cm_actual m key = Some target \<longleftrightarrow> target = the (cm_actual m key)" for m
    unfolding approved_canary_def by (metis option.collapse option.distinct(1) option.sel)
  then have eq: "(\<exists>m. parsed = Inr m \<and> approved_canary m \<and> C m \<and> target = the (cm_actual m key)) \<longleftrightarrow>
      (\<exists>m. parsed = Inr m \<and> approved_canary m \<and> cm_actual m key = Some target \<and> C m)" for C
    by auto
  show ?thesis by (simp only: prepare_iff buyCap_iff WRITE_REQUIRED_def eq)
qed

end
