(* ===== verification/Lifecycle.thy ===== *)
theory Lifecycle
  imports Deployment
begin

text \<open>
  The transaction lifecycle of the web application: \<open>apps/web/lib/wallet/tx.ts\<close>. The chain and the wallet
  are a world of any type that every call may change; a call that rejects gives the text of what it threw.
  An action passes the world and a log of what was done and observed, in order, and either goes on or
  leaves: an early \<open>return\<close> of the source is \<open>Returned\<close>, a rejection outside a \<open>try\<close> is \<open>Thrown\<close>.
\<close>

section \<open>Requests, results, events\<close>

datatype LifecycleStep = validate_step | read_allowance | approve_step | await_approval | reread_allowance
  | simulate_step | submit_step | await_receipt | reconcile_step | done_step

record ApprovalRequirement =
  ap_token :: string
  ap_spender :: string
  ap_amount :: int

record ActionRequest =
  ar_target :: string
  ar_data :: string
  ar_value :: "int option"
  ar_approval :: "ApprovalRequirement option"
  ar_confirmations :: int
  ar_reconcile :: bool

record LifecycleResult =
  lr_ok :: bool
  lr_step :: LifecycleStep
  lr_hash :: "string option"
  lr_reason :: "string option"

datatype ConfirmOutcome =
    Receipt bool
  | Cancelled
  | ConfirmError string

record Tx =
  tx_to :: string
  tx_data :: string
  tx_value :: "int option"

datatype event =
    Step LifecycleStep
  | ReadChain "string + int"
  | ReadAllowance "string + int"
  | Send Tx "string + string"
  | Simulate Tx "string + unit"
  | Confirm string ConfirmOutcome
  | Reconcile "string + bool"

datatype leave = Thrown string | Returned LifecycleResult

text \<open>
  The calls. \<open>waitForTransactionReceipt\<close> gives the reason of the last replacement it was told of, if any,
  and whether the receipt's status is \<open>success\<close>, or what it threw.
\<close>

record 'w Clients =
  cl_account :: string
  cl_getChainId :: "'w \<Rightarrow> (string + int) \<times> 'w"
  cl_allowance :: "string \<Rightarrow> string \<Rightarrow> string \<Rightarrow> 'w \<Rightarrow> (string + int) \<times> 'w"
  cl_encodeApprove :: "string \<Rightarrow> int \<Rightarrow> string + string"
  cl_sendTransaction :: "Tx \<Rightarrow> 'w \<Rightarrow> (string + string) \<times> 'w"
  cl_call :: "Tx \<Rightarrow> 'w \<Rightarrow> (string + unit) \<times> 'w"
  cl_waitForTransactionReceipt :: "string \<Rightarrow> int \<Rightarrow> 'w \<Rightarrow> (string option \<times> (string + bool)) \<times> 'w"
  cl_reconcile :: "'w \<Rightarrow> (string + bool) \<times> 'w"

section \<open>Actions\<close>

type_synonym ('w, 'a) action = "'w \<times> event list \<Rightarrow> (leave + 'a) \<times> 'w \<times> event list"

definition abind :: "('w, 'a) action \<Rightarrow> ('a \<Rightarrow> ('w, 'b) action) \<Rightarrow> ('w, 'b) action" where
  "abind m k = (\<lambda>s. case m s of (Inl l, s') \<Rightarrow> (Inl l, s') | (Inr a, s') \<Rightarrow> k a s')"

definition areturn :: "'a \<Rightarrow> ('w, 'a) action" where
  "areturn a = (\<lambda>s. (Inr a, s))"

definition aleave :: "leave \<Rightarrow> ('w, 'a) action" where
  "aleave l = (\<lambda>s. (Inl l, s))"

definition report :: "LifecycleStep \<Rightarrow> ('w, unit) action" where
  "report st = (\<lambda>(w, ev). (Inr (), w, ev @ [Step st]))"

text \<open>A call whose answer is observed as an event.\<close>

definition observe :: "('w \<Rightarrow> 'a \<times> 'w) \<Rightarrow> ('a \<Rightarrow> event) \<Rightarrow> ('w, 'a) action" where
  "observe call e = (\<lambda>(w, ev). case call w of (a, w') \<Rightarrow> (Inr a, w', ev @ [e a]))"

text \<open>An \<open>await\<close> outside a \<open>try\<close>.\<close>

definition unguarded :: "('w, string + 'a) action \<Rightarrow> ('w, 'a) action" where
  "unguarded m = abind m (\<lambda>r. case r of Inl e \<Rightarrow> aleave (Thrown e) | Inr a \<Rightarrow> areturn a)"

definition failed :: "LifecycleStep \<Rightarrow> string option \<Rightarrow> string \<Rightarrow> ('w, 'a) action" where
  "failed st hash reason =
     aleave (Returned \<lparr>lr_ok = False, lr_step = st, lr_hash = hash, lr_reason = Some reason\<rparr>)"

section \<open>The code\<close>

text \<open>\<open>newlineChar\<close> ends the first line.\<close>

definition rejectionReason :: "string \<Rightarrow> string" where
  "rejectionReason raw =
     (let msg = lower raw in
      if str_includes msg ''reject'' \<or> str_includes msg ''denied'' then ''user-rejected''
      else if str_includes msg ''revert'' then ''reverted''
      else if str_includes msg ''replac'' then ''replaced''
      else ''failed: '' @ take 120 (takeWhile (\<lambda>c. c \<noteq> char_of (10 :: nat)) raw))"

definition waitConfirmed :: "'w Clients \<Rightarrow> string \<Rightarrow> int \<Rightarrow> ('w, ConfirmOutcome) action" where
  "waitConfirmed clients hash confirmations =
     observe (\<lambda>w. case cl_waitForTransactionReceipt clients hash confirmations w of
       ((replacementReason, r), w') \<Rightarrow>
         (case r of
            Inl e \<Rightarrow> ConfirmError (rejectionReason e)
          | Inr success \<Rightarrow> if replacementReason = Some ''cancelled'' then Cancelled else Receipt success,
          w')) (Confirm hash)"

definition currentAllowance :: "'w Clients \<Rightarrow> ApprovalRequirement \<Rightarrow> ('w, int) action" where
  "currentAllowance clients a =
     unguarded (observe (cl_allowance clients (ap_token a) (cl_account clients) (ap_spender a)) ReadAllowance)"

definition sendTransaction :: "'w Clients \<Rightarrow> Tx \<Rightarrow> ('w, string + string) action" where
  "sendTransaction clients tx = observe (cl_sendTransaction clients tx) (Send tx)"

text \<open>The approval, when the allowance does not suffice.\<close>

definition approvalPhase :: "'w Clients \<Rightarrow> int \<Rightarrow> ApprovalRequirement \<Rightarrow> ('w, unit) action" where
  "approvalPhase clients confirmations a =
     abind (report read_allowance) (\<lambda>_.
     abind (currentAllowance clients a) (\<lambda>have_now.
     if have_now < ap_amount a then
       abind (report approve_step) (\<lambda>_.
       case cl_encodeApprove clients (ap_spender a) (ap_amount a) of
         Inl e \<Rightarrow> failed approve_step None (rejectionReason e)
       | Inr data \<Rightarrow>
           abind (sendTransaction clients \<lparr>tx_to = ap_token a, tx_data = data, tx_value = None\<rparr>) (\<lambda>sent.
           case sent of
             Inl e \<Rightarrow> failed approve_step None (rejectionReason e)
           | Inr approveHash \<Rightarrow>
               abind (report await_approval) (\<lambda>_.
               abind (waitConfirmed clients approveHash confirmations) (\<lambda>outcome.
               case outcome of
                 Cancelled \<Rightarrow> failed await_approval None ''approval-cancelled-replacement''
               | ConfirmError e \<Rightarrow> failed await_approval None (''confirm-error:'' @ e)
               | Receipt success \<Rightarrow>
                   if \<not> success then failed await_approval None ''approval-reverted''
                   else
                     abind (report reread_allowance) (\<lambda>_.
                     abind (currentAllowance clients a) (\<lambda>again.
                     if again < ap_amount a then failed reread_allowance None ''allowance-insufficient''
                     else areturn ()))))))
     else areturn ()))"

definition actionTx :: "ActionRequest \<Rightarrow> Tx" where
  "actionTx req = \<lparr>tx_to = ar_target req, tx_data = ar_data req,
     tx_value = Some (case ar_value req of Some i \<Rightarrow> i | None \<Rightarrow> 0)\<rparr>"

definition submitPhase :: "'w Clients \<Rightarrow> ActionRequest \<Rightarrow> ('w, string) action" where
  "submitPhase clients req =
     abind (report simulate_step) (\<lambda>_.
     abind (observe (cl_call clients (actionTx req)) (Simulate (actionTx req))) (\<lambda>sim.
     case sim of
       Inl e \<Rightarrow> failed simulate_step None (''simulation-failed:'' @ rejectionReason e)
     | Inr _ \<Rightarrow>
         abind (report submit_step) (\<lambda>_.
         abind (sendTransaction clients (actionTx req)) (\<lambda>sent.
         case sent of
           Inl e \<Rightarrow> failed submit_step None (rejectionReason e)
         | Inr hash \<Rightarrow> areturn hash))))"

definition confirmPhase :: "'w Clients \<Rightarrow> ActionRequest \<Rightarrow> string \<Rightarrow> ('w, unit) action" where
  "confirmPhase clients req hash =
     abind (report await_receipt) (\<lambda>_.
     abind (waitConfirmed clients hash (ar_confirmations req)) (\<lambda>outcome.
     case outcome of
       Cancelled \<Rightarrow> failed await_receipt (Some hash) ''cancelled-replacement''
     | ConfirmError e \<Rightarrow> failed await_receipt (Some hash) (''confirm-error:'' @ e)
     | Receipt success \<Rightarrow>
         if \<not> success then failed await_receipt (Some hash) ''reverted''
         else
           abind (report reconcile_step) (\<lambda>_.
           if ar_reconcile req then
             abind (observe (cl_reconcile clients) Reconcile) (\<lambda>r.
             if r \<noteq> Inr True then failed reconcile_step (Some hash) ''reconciliation-failed'' else areturn ())
           else areturn ())))"

definition runActionLifecycle :: "'w Clients \<Rightarrow> ActionRequest \<Rightarrow> ('w, LifecycleResult) action" where
  "runActionLifecycle clients req =
     abind (report validate_step) (\<lambda>_.
     abind (unguarded (observe (cl_getChainId clients) ReadChain)) (\<lambda>chainId.
     if chainId \<noteq> ROBINHOOD_CHAIN_ID then failed validate_step None ''wrong-chain''
     else
       abind (case ar_approval req of None \<Rightarrow> areturn ()
              | Some a \<Rightarrow> approvalPhase clients (ar_confirmations req) a) (\<lambda>_.
       abind (submitPhase clients req) (\<lambda>hash.
       abind (confirmPhase clients req hash) (\<lambda>_.
       abind (report done_step) (\<lambda>_.
         areturn \<lparr>lr_ok = True, lr_step = done_step, lr_hash = Some hash, lr_reason = None\<rparr>))))))"

section \<open>Lemmas\<close>

text \<open>
  The specification of an action by what it appends to the log: \<open>good a\<close> holds of the new events when it
  returns \<open>a\<close>, \<open>bad l\<close> when it leaves with \<open>l\<close>.
\<close>

definition logs :: "('w, 'a) action \<Rightarrow> ('a \<Rightarrow> event list \<Rightarrow> bool) \<Rightarrow> (leave \<Rightarrow> event list \<Rightarrow> bool) \<Rightarrow> bool" where
  "logs m good bad \<longleftrightarrow> (\<forall>w ev. \<exists>r w' new. m (w, ev) = (r, w', ev @ new) \<and>
     (case r of Inl l \<Rightarrow> bad l new | Inr a \<Rightarrow> good a new))"

lemma logs_leave: "bad l [] \<Longrightarrow> logs (aleave l) good bad"
  by (auto simp: logs_def aleave_def)

lemma logs_failed:
  "bad (Returned \<lparr>lr_ok = False, lr_step = st, lr_hash = h, lr_reason = Some reason\<rparr>) [] \<Longrightarrow>
   logs (failed st h reason) good bad"
  by (simp add: failed_def logs_leave)

lemma logs_return: "good a [] \<Longrightarrow> logs (areturn a) good bad"
  by (auto simp: logs_def areturn_def)

lemma logs_report:
  assumes "logs (k ()) (\<lambda>b new. good b (Step st # new)) (\<lambda>l new. bad l (Step st # new))"
  shows "logs (abind (report st) k) good bad"
  unfolding logs_def
proof (intro allI)
  fix w ev
  from assms [unfolded logs_def, rule_format, of w "ev @ [Step st]"]
  show "\<exists>r w' new. abind (report st) k (w, ev) = (r, w', ev @ new) \<and>
      (case r of Inl l \<Rightarrow> bad l new | Inr a \<Rightarrow> good a new)"
    by (auto simp: abind_def report_def)
qed

lemma logs_observe:
  assumes "\<And>a. logs (k a) (\<lambda>b new. good b (e a # new)) (\<lambda>l new. bad l (e a # new))"
  shows "logs (abind (observe call e) k) good bad"
  unfolding logs_def
proof (intro allI)
  fix w ev
  obtain a w1 where c: "call w = (a, w1)" by fastforce
  from assms [of a, unfolded logs_def, rule_format, of w1 "ev @ [e a]"] c
  show "\<exists>r w' new. abind (observe call e) k (w, ev) = (r, w', ev @ new) \<and>
      (case r of Inl l \<Rightarrow> bad l new | Inr a \<Rightarrow> good a new)"
    by (auto simp: abind_def observe_def)
qed

lemma abind_unguarded:
  "abind (unguarded m) k = abind m (\<lambda>r. case r of Inl e \<Rightarrow> aleave (Thrown e) | Inr a \<Rightarrow> k a)"
  by (rule ext) (auto simp: abind_def unguarded_def aleave_def areturn_def split: sum.split prod.split)

lemma logs_unguarded:
  assumes "\<And>x. bad (Thrown x) [e (Inl x)]"
    and "\<And>a. logs (k a) (\<lambda>b new. good b (e (Inr a) # new)) (\<lambda>l new. bad l (e (Inr a) # new))"
  shows "logs (abind (unguarded (observe call e)) k) good bad"
  unfolding abind_unguarded
  by (rule logs_observe) (use assms in \<open>auto intro: logs_leave split: sum.split\<close>)

lemma logs_seq:
  assumes "logs m good1 bad1"
    and "\<And>a new1. good1 a new1 \<Longrightarrow> logs (k a) (\<lambda>b new. good b (new1 @ new)) (\<lambda>l new. bad l (new1 @ new))"
    and "\<And>l new. bad1 l new \<Longrightarrow> bad l new"
  shows "logs (abind m k) good bad"
  unfolding logs_def
proof (intro allI)
  fix w ev
  from assms(1) obtain r w1 new where m: "m (w, ev) = (r, w1, ev @ new)"
    "case r of Inl l \<Rightarrow> bad1 l new | Inr a \<Rightarrow> good1 a new" unfolding logs_def by blast
  show "\<exists>r w' new. abind m k (w, ev) = (r, w', ev @ new) \<and>
      (case r of Inl l \<Rightarrow> bad l new | Inr a \<Rightarrow> good a new)"
  proof (cases r)
    case (Inl l)
    with m assms(3) show ?thesis by (auto simp: abind_def)
  next
    case (Inr a)
    with m(2) assms(2) have "logs (k a) (\<lambda>b new'. good b (new @ new')) (\<lambda>l new'. bad l (new @ new'))" by simp
    from this [unfolded logs_def, rule_format, of w1 "ev @ new"] m(1) Inr
    show ?thesis by (auto simp: abind_def)
  qed
qed

lemma logs_if:
  "(c \<Longrightarrow> logs m good bad) \<Longrightarrow> (\<not> c \<Longrightarrow> logs m' good bad) \<Longrightarrow> logs (if c then m else m') good bad"
  by simp

lemma logs_sum:
  "(\<And>e. r = Inl e \<Longrightarrow> logs (f e) good bad) \<Longrightarrow> (\<And>a. r = Inr a \<Longrightarrow> logs (g a) good bad) \<Longrightarrow>
   logs (case r of Inl e \<Rightarrow> f e | Inr a \<Rightarrow> g a) good bad"
  by (cases r) simp_all

lemma logs_outcome:
  "(\<And>x. r = Receipt x \<Longrightarrow> logs (f x) good bad) \<Longrightarrow> (r = Cancelled \<Longrightarrow> logs g good bad) \<Longrightarrow>
   (\<And>e. r = ConfirmError e \<Longrightarrow> logs (h e) good bad) \<Longrightarrow>
   logs (case r of Receipt x \<Rightarrow> f x | Cancelled \<Rightarrow> g | ConfirmError e \<Rightarrow> h e) good bad"
  by (cases r) simp_all

lemmas logs_rules = logs_report logs_unguarded logs_observe logs_if logs_sum logs_outcome logs_failed
  logs_return

subsection \<open>The shape of the log\<close>

definition approveTx :: "'w Clients \<Rightarrow> ApprovalRequirement \<Rightarrow> Tx \<Rightarrow> bool" where
  "approveTx clients a tx \<longleftrightarrow>
     (\<exists>data. cl_encodeApprove clients (ap_spender a) (ap_amount a) = Inr data \<and>
       tx = \<lparr>tx_to = ap_token a, tx_data = data, tx_value = None\<rparr>)"

text \<open>An approval phase that goes on: the allowance sufficed, or one exact approval was confirmed.\<close>

definition approval_log :: "'w Clients \<Rightarrow> ApprovalRequirement option \<Rightarrow> event list \<Rightarrow> bool" where
  "approval_log clients req_a A \<longleftrightarrow>
     (case req_a of
        None \<Rightarrow> A = []
      | Some a \<Rightarrow>
          (\<exists>x. ap_amount a \<le> x \<and> A = [Step read_allowance, ReadAllowance (Inr x)]) \<or>
          (\<exists>x tx h y. x < ap_amount a \<and> approveTx clients a tx \<and> ap_amount a \<le> y \<and>
             A = [Step read_allowance, ReadAllowance (Inr x), Step approve_step, Send tx (Inr h),
               Step await_approval, Confirm h (Receipt True), Step reread_allowance, ReadAllowance (Inr y)]))"

fun sends :: "event list \<Rightarrow> Tx list" where
  "sends [] = []"
| "sends (Send tx _ # ev) = tx # sends ev"
| "sends (_ # ev) = sends ev"

lemma sends_append [simp]: "sends (ev @ ev') = sends ev @ sends ev'"
  by (induction ev rule: sends.induct) auto

text \<open>A phase that stops: at most one transaction was sent, an exact approval.\<close>

definition stopped :: "'w Clients \<Rightarrow> ApprovalRequirement option \<Rightarrow> leave \<Rightarrow> event list \<Rightarrow> bool" where
  "stopped clients req_a l ev \<longleftrightarrow>
     (case l of Thrown _ \<Rightarrow> True | Returned r \<Rightarrow> \<not> lr_ok r) \<and>
     (sends ev = [] \<or> (\<exists>a tx. req_a = Some a \<and> approveTx clients a tx \<and> sends ev = [tx]))"

lemma approvalPhase_logs:
  "logs (approvalPhase clients confirmations a)
     (\<lambda>_. approval_log clients (Some a)) (stopped clients (Some a))"
  unfolding approvalPhase_def currentAllowance_def sendTransaction_def waitConfirmed_def
  by (intro logs_rules) (auto simp: stopped_def approveTx_def approval_log_def)

text \<open>Simulation and submission: the action is sent only after a successful simulation.\<close>

definition submit_log :: "ActionRequest \<Rightarrow> string + string \<Rightarrow> event list" where
  "submit_log req x = [Step simulate_step, Simulate (actionTx req) (Inr ()), Step submit_step,
     Send (actionTx req) x]"

lemma submitPhase_logs:
  "logs (submitPhase clients req) (\<lambda>hash ev. ev = submit_log req (Inr hash))
     (\<lambda>l ev. (\<exists>r. l = Returned r \<and> \<not> lr_ok r) \<and>
        (sends ev = [] \<or> (\<exists>e. ev = submit_log req (Inl e))))"
  unfolding submitPhase_def sendTransaction_def
  by (intro logs_rules) (auto simp: submit_log_def)

definition confirm_log :: "ActionRequest \<Rightarrow> string \<Rightarrow> event list" where
  "confirm_log req hash = [Step await_receipt, Confirm hash (Receipt True), Step reconcile_step] @
     (if ar_reconcile req then [Reconcile (Inr True)] else [])"

lemma confirmPhase_logs:
  "logs (confirmPhase clients req hash) (\<lambda>_ ev. ev = confirm_log req hash)
     (\<lambda>l ev. (\<exists>r. l = Returned r \<and> \<not> lr_ok r) \<and> sends ev = [])"
  unfolding confirmPhase_def waitConfirmed_def
  by (intro logs_rules) (auto simp: confirm_log_def)

text \<open>All that a run can have done when it ends.\<close>

definition run_log ::
  "'w Clients \<Rightarrow> ActionRequest \<Rightarrow> LifecycleResult \<Rightarrow> event list \<Rightarrow> bool" where
  "run_log clients req result ev \<longleftrightarrow>
     (\<exists>A hash. approval_log clients (ar_approval req) A \<and> lr_ok result \<and> lr_hash result = Some hash \<and>
        ev = [Step validate_step, ReadChain (Inr 4663)] @ A @ submit_log req (Inr hash) @
          confirm_log req hash @ [Step done_step])"

definition left_log :: "'w Clients \<Rightarrow> ActionRequest \<Rightarrow> leave \<Rightarrow> event list \<Rightarrow> bool" where
  "left_log clients req l ev \<longleftrightarrow>
     (case l of Thrown _ \<Rightarrow> True | Returned r \<Rightarrow> \<not> lr_ok r) \<and>
     (sends ev = [] \<or>
      (\<exists>a tx. ar_approval req = Some a \<and> approveTx clients a tx \<and> sends ev = [tx]) \<or>
      (\<exists>A x rest. approval_log clients (ar_approval req) A \<and> sends rest = [] \<and>
         ev = [Step validate_step, ReadChain (Inr 4663)] @ A @ submit_log req x @ rest))"

lemma approval_logs:
  "logs (case ar_approval req of None \<Rightarrow> areturn ()
     | Some a \<Rightarrow> approvalPhase clients (ar_confirmations req) a)
     (\<lambda>_. approval_log clients (ar_approval req)) (stopped clients (ar_approval req))"
  by (cases "ar_approval req")
    (auto intro: logs_return approvalPhase_logs simp: approval_log_def)

lemma approval_sends:
  "approval_log clients req_a A \<Longrightarrow>
   sends A = [] \<or> (\<exists>a tx. req_a = Some a \<and> approveTx clients a tx \<and> sends A = [tx])"
  by (auto simp: approval_log_def split: option.splits)

lemma left_before:
  assumes "approval_log clients (ar_approval req) A" and "sends ev = []" and "\<not> lr_ok r"
  shows "left_log clients req (Returned r) (Step validate_step # ReadChain (Inr 4663) # A @ ev)"
  using assms approval_sends [OF assms(1)] by (auto simp: left_log_def)

lemma left_after:
  assumes "approval_log clients (ar_approval req) A" and "sends rest = []" and "\<not> lr_ok r"
  shows "left_log clients req (Returned r)
    (Step validate_step # ReadChain (Inr 4663) # A @ submit_log req x @ rest)"
  using assms by (auto simp: left_log_def)

lemma runActionLifecycle_logs:
  "logs (runActionLifecycle clients req) (run_log clients req) (left_log clients req)"
proof -
  have tail: "logs (abind (submitPhase clients req) (\<lambda>hash.
       abind (confirmPhase clients req hash) (\<lambda>_.
       abind (report done_step) (\<lambda>_.
         areturn \<lparr>lr_ok = True, lr_step = done_step, lr_hash = Some hash, lr_reason = None\<rparr>))))
      (\<lambda>res ev. run_log clients req res (Step validate_step # ReadChain (Inr 4663) # A @ ev))
      (\<lambda>l ev. left_log clients req l (Step validate_step # ReadChain (Inr 4663) # A @ ev))"
    if A: "approval_log clients (ar_approval req) A" for A
  proof (rule logs_seq [OF submitPhase_logs])
    fix l ev
    assume "(\<exists>r. l = Returned r \<and> \<not> lr_ok r) \<and> (sends ev = [] \<or> (\<exists>e. ev = submit_log req (Inl e)))"
    then show "left_log clients req l (Step validate_step # ReadChain (Inr 4663) # A @ ev)"
      using left_before [OF A] left_after [OF A, where rest = "[]"] by (elim conjE exE disjE) simp_all
  next
    fix hash ev
    assume ev: "ev = submit_log req (Inr hash)"
    show "logs (abind (confirmPhase clients req hash) (\<lambda>_. abind (report done_step) (\<lambda>_.
         areturn \<lparr>lr_ok = True, lr_step = done_step, lr_hash = Some hash, lr_reason = None\<rparr>)))
      (\<lambda>res new. run_log clients req res (Step validate_step # ReadChain (Inr 4663) # A @ ev @ new))
      (\<lambda>l new. left_log clients req l (Step validate_step # ReadChain (Inr 4663) # A @ ev @ new))"
    proof (rule logs_seq [OF confirmPhase_logs])
      fix l new
      assume "(\<exists>r. l = Returned r \<and> \<not> lr_ok r) \<and> sends new = []"
      then show "left_log clients req l (Step validate_step # ReadChain (Inr 4663) # A @ ev @ new)"
        using left_after [OF A] unfolding ev by auto
    next
      fix new assume "new = confirm_log req hash"
      then show "logs (abind (report done_step) (\<lambda>_.
          areturn \<lparr>lr_ok = True, lr_step = done_step, lr_hash = Some hash, lr_reason = None\<rparr>))
        (\<lambda>res new'. run_log clients req res (Step validate_step # ReadChain (Inr 4663) # A @ ev @ new @ new'))
        (\<lambda>l new'. left_log clients req l (Step validate_step # ReadChain (Inr 4663) # A @ ev @ new @ new'))"
        using A unfolding ev by (intro logs_rules) (auto simp: run_log_def)
    qed
  qed
  have mid: "logs (if chainId \<noteq> ROBINHOOD_CHAIN_ID then failed validate_step None ''wrong-chain''
       else abind (case ar_approval req of None \<Rightarrow> areturn ()
          | Some a \<Rightarrow> approvalPhase clients (ar_confirmations req) a) (\<lambda>_.
         abind (submitPhase clients req) (\<lambda>hash.
         abind (confirmPhase clients req hash) (\<lambda>_.
         abind (report done_step) (\<lambda>_.
           areturn \<lparr>lr_ok = True, lr_step = done_step, lr_hash = Some hash, lr_reason = None\<rparr>)))))
     (\<lambda>res ev. run_log clients req res (Step validate_step # ReadChain (Inr chainId) # ev))
     (\<lambda>l ev. left_log clients req l (Step validate_step # ReadChain (Inr chainId) # ev))" for chainId
  proof (cases "chainId = ROBINHOOD_CHAIN_ID")
    case True
    then have c: "chainId = 4663" by (simp add: ROBINHOOD_CHAIN_ID_def)
    have "left_log clients req l (Step validate_step # ReadChain (Inr 4663) # new)"
      if "stopped clients (ar_approval req) l new" for l new
      using that by (auto simp: left_log_def stopped_def)
    with c show ?thesis
      by (simp add: ROBINHOOD_CHAIN_ID_def) (rule logs_seq [OF approval_logs], rule tail)
  qed (auto intro!: logs_failed simp: left_log_def)
  show ?thesis
    unfolding runActionLifecycle_def
    by (intro logs_report logs_unguarded mid) (simp add: left_log_def)
qed

section \<open>Properties\<close>

lemma runActionLifecycle_run:
  assumes "runActionLifecycle clients req (w, []) = (r, w', ev)"
  shows "case r of Inl l \<Rightarrow> left_log clients req l ev | Inr res \<Rightarrow> run_log clients req res ev"
  using runActionLifecycle_logs [unfolded logs_def, rule_format, of clients req w "[]"] assms by auto

text \<open>
  C35: a lifecycle reports success only after the whole protocol, in order, on chain 4663: an allowance of at
  least the required amount (found, or set by one approval of exactly that amount to the named spender whose
  receipt succeeded and which was read again), a successful simulation of the action, its submission, a
  successful receipt of that very hash, and, when one is asked for, a positive reconciliation. No other
  transaction is sent on the way.
\<close>

theorem lifecycle_success:
  assumes "runActionLifecycle clients req (w, []) = (r, w', ev)"
    and "r = Inr res \<or> (r = Inl (Returned res) \<and> lr_ok res)"
  shows "\<exists>A hash. r = Inr res \<and> lr_ok res \<and> lr_hash res = Some hash \<and>
    ev = [Step validate_step, ReadChain (Inr 4663)] @ A @
      [Step simulate_step, Simulate (actionTx req) (Inr ()), Step submit_step, Send (actionTx req) (Inr hash),
       Step await_receipt, Confirm hash (Receipt True), Step reconcile_step] @
      (if ar_reconcile req then [Reconcile (Inr True)] else []) @ [Step done_step] \<and>
    (case ar_approval req of
       None \<Rightarrow> A = []
     | Some a \<Rightarrow>
         (\<exists>x. ap_amount a \<le> x \<and> A = [Step read_allowance, ReadAllowance (Inr x)]) \<or>
         (\<exists>x data h y. x < ap_amount a \<and> cl_encodeApprove clients (ap_spender a) (ap_amount a) = Inr data \<and>
            ap_amount a \<le> y \<and>
            A = [Step read_allowance, ReadAllowance (Inr x), Step approve_step,
              Send \<lparr>tx_to = ap_token a, tx_data = data, tx_value = None\<rparr> (Inr h), Step await_approval,
              Confirm h (Receipt True), Step reread_allowance, ReadAllowance (Inr y)]))"
proof -
  have "r = Inr res \<and> run_log clients req res ev"
    using runActionLifecycle_run [OF assms(1)] assms(2) by (auto simp: left_log_def)
  then show ?thesis
    by (fastforce simp: run_log_def approval_log_def approveTx_def submit_log_def confirm_log_def
        split: option.splits)
qed

text \<open>
  However a lifecycle ends, error or rejection included, it sent nothing, or one approval of exactly the
  required amount, or the action itself once, and the action only on chain 4663, with the
  allowance in place, right after a successful simulation.
\<close>

theorem lifecycle_sends:
  assumes "runActionLifecycle clients req (w, []) = (r, w', ev)"
  shows "sends ev = [] \<or>
    (\<exists>a data. ar_approval req = Some a \<and> cl_encodeApprove clients (ap_spender a) (ap_amount a) = Inr data \<and>
       sends ev = [\<lparr>tx_to = ap_token a, tx_data = data, tx_value = None\<rparr>]) \<or>
    (\<exists>A x rest. approval_log clients (ar_approval req) A \<and> sends rest = [] \<and>
       ev = [Step validate_step, ReadChain (Inr 4663)] @ A @
         [Step simulate_step, Simulate (actionTx req) (Inr ()), Step submit_step, Send (actionTx req) x] @ rest)"
proof (cases r)
  case (Inl l)
  then have "left_log clients req l ev" using runActionLifecycle_run [OF assms] by simp
  then show ?thesis unfolding left_log_def approveTx_def submit_log_def by blast
next
  case (Inr res)
  then have "run_log clients req res ev" using runActionLifecycle_run [OF assms] by simp
  then obtain A hash where A: "approval_log clients (ar_approval req) A"
    "ev = [Step validate_step, ReadChain (Inr 4663)] @ A @ submit_log req (Inr hash) @
          confirm_log req hash @ [Step done_step]" unfolding run_log_def by blast
  then show ?thesis
    by (intro disjI2 exI [of _ A] exI [of _ "Inr hash"] exI [of _ "confirm_log req hash @ [Step done_step]"])
      (simp add: submit_log_def confirm_log_def)
qed

text \<open>A wallet whose allowance starts at zero; the world is the allowance.\<close>

definition ex_clients :: "int Clients" where
  "ex_clients =
     \<lparr>cl_account = ''0xa'', cl_getChainId = (\<lambda>w. (Inr 4663, w)), cl_allowance = (\<lambda>_ _ _ w. (Inr w, w)),
      cl_encodeApprove = (\<lambda>s n. Inr (s @ dec_of_int n)),
      cl_sendTransaction = (\<lambda>tx w. (Inr (tx_data tx), if tx_value tx = None then 7 else w)),
      cl_call = (\<lambda>_ w. (Inr (), w)), cl_waitForTransactionReceipt = (\<lambda>h n w. ((None, Inr True), w)),
      cl_reconcile = (\<lambda>w. (Inr True, w))\<rparr>"

definition ex_action :: ActionRequest where
  "ex_action = \<lparr>ar_target = ''0xb'', ar_data = ''0xc'', ar_value = None,
     ar_approval = Some \<lparr>ap_token = ''0xd'', ap_spender = ''0xb'', ap_amount = 7\<rparr>, ar_confirmations = 2,
     ar_reconcile = True\<rparr>"

lemma ex_lifecycle:
  "\<exists>w' ev. runActionLifecycle ex_clients ex_action (0, []) =
     (Inr \<lparr>lr_ok = True, lr_step = done_step, lr_hash = Some ''0xc'', lr_reason = None\<rparr>, w', ev)"
proof -
  have "fst (runActionLifecycle ex_clients ex_action (0, [])) =
     Inr \<lparr>lr_ok = True, lr_step = done_step, lr_hash = Some ''0xc'', lr_reason = None\<rparr>" by code_simp
  then show ?thesis by (metis prod.collapse)
qed

theorem lifecycle_success_witness:
  "\<exists>w' ev res hash. runActionLifecycle ex_clients ex_action (0, []) = (Inr res, w', ev) \<and>
     lr_hash res = Some hash \<and> Confirm hash (Receipt True) \<in> set ev"
proof -
  obtain w' ev where r: "runActionLifecycle ex_clients ex_action (0, []) =
     (Inr \<lparr>lr_ok = True, lr_step = done_step, lr_hash = Some ''0xc'', lr_reason = None\<rparr>, w', ev)"
    using ex_lifecycle by blast
  from lifecycle_success [OF r disjI1 [OF refl]] have "Confirm ''0xc'' (Receipt True) \<in> set ev" by auto
  with r show ?thesis by auto
qed

theorem lifecycle_sends_witness:
  "\<exists>r w' ev. runActionLifecycle ex_clients ex_action (0, []) = (r, w', ev) \<and> length (sends ev) \<le> 2"
proof -
  obtain r w' ev where r: "runActionLifecycle ex_clients ex_action (0, []) = (r, w', ev)"
    by (metis prod_cases3)
  from lifecycle_sends [OF r] have "length (sends ev) \<le> 2"
    by (elim disjE exE conjE) (auto simp: approval_log_def split: option.splits)
  with r show ?thesis by blast
qed

end
