(* ===== verification/Trading.thy ===== *)
theory Trading
  imports ChainReads
begin

text \<open>
  Trading, locking and eligibility of the web application: \<open>apps/web/lib/economics.ts\<close>, \<open>oracle.ts\<close>,
  \<open>services/oracle-reads.ts\<close>, \<open>locking.ts\<close>, \<open>trade.ts\<close>, \<open>eligibility.ts\<close> and \<open>config.ts\<close>. The call
  encoders and the recovery of a signer are parameters that may throw. A JavaScript number that the source
  turns into a bigint (slippage, deviation, heartbeat, multiplier, duration) is an integer here.
\<close>

section \<open>Economics\<close>

definition BPS_DENOMINATOR :: int where "BPS_DENOMINATOR = 10000"
definition BUY_STOCK_BPS :: int where "BUY_STOCK_BPS = 200"
definition BUY_BURN_BPS :: int where "BUY_BURN_BPS = 100"
definition SELL_STOCK_BPS :: int where "SELL_STOCK_BPS = 200"
definition SELL_BURN_BPS :: int where "SELL_BURN_BPS = 200"
definition DISTRIBUTION_PERCENT :: int where "DISTRIBUTION_PERCENT = 80"
definition SPLIT_DENOMINATOR :: int where "SPLIT_DENOMINATOR = 100"

record TradeAllocation =
  ta_gross :: int
  ta_stockBudget :: int
  ta_burnBudget :: int
  ta_userAmount :: int
  ta_totalProtocolBps :: int

definition floorBps :: "int \<Rightarrow> int \<Rightarrow> int" where
  "floorBps amount bps = bigint_div (amount * bps) BPS_DENOMINATOR"

definition buyAllocation :: "int \<Rightarrow> app_error + TradeAllocation" where
  "buyAllocation grossWeth =
     (if grossWeth < 0 then Inl (AppError ''negative input'')
      else let stockBudget = floorBps grossWeth BUY_STOCK_BPS;
               burnBudget = floorBps grossWeth BUY_BURN_BPS;
               userAmount = grossWeth - stockBudget - burnBudget
           in Inr \<lparr>ta_gross = grossWeth, ta_stockBudget = stockBudget, ta_burnBudget = burnBudget,
                   ta_userAmount = userAmount, ta_totalProtocolBps = 300\<rparr>)"

definition sellAllocation :: "int \<Rightarrow> app_error + TradeAllocation" where
  "sellAllocation actualWethProceeds =
     (if actualWethProceeds < 0 then Inl (AppError ''negative proceeds'')
      else let stockBudget = floorBps actualWethProceeds SELL_STOCK_BPS;
               burnBudget = floorBps actualWethProceeds SELL_BURN_BPS;
               userAmount = actualWethProceeds - stockBudget - burnBudget
           in Inr \<lparr>ta_gross = actualWethProceeds, ta_stockBudget = stockBudget, ta_burnBudget = burnBudget,
                   ta_userAmount = userAmount, ta_totalProtocolBps = 400\<rparr>)"

text \<open>The distribution and the reserve.\<close>

definition acquiredStockSplit :: "int \<Rightarrow> app_error + int \<times> int" where
  "acquiredStockSplit acquired =
     (if acquired < 0 then Inl (AppError ''negative acquired'')
      else let distribution = bigint_div (acquired * DISTRIBUTION_PERCENT) SPLIT_DENOMINATOR
           in Inr (distribution, acquired - distribution))"

section \<open>Oracle\<close>

record FeedConfig =
  fc_stockSymbol :: string
  fc_proxy :: string
  fc_decimals :: int
  fc_heartbeatSec :: int
  fc_multiplier :: int
  fc_sourceUrl :: string

record FeedReading =
  fr_hasCode :: bool
  fr_answer :: int
  fr_decimals :: int
  fr_updatedAtSec :: int
  fr_oraclePaused :: bool

record SequencerStatus =
  sq_up :: bool
  sq_changedAtSec :: int
  sq_gracePeriodSec :: int

datatype OracleRejection = feed_no_code | decimals_mismatch | non_positive_price | stale | oracle_paused
  | sequencer_down | sequencer_grace_period

fun rejectionText :: "OracleRejection \<Rightarrow> string" where
  "rejectionText feed_no_code = ''feed-no-code''"
| "rejectionText decimals_mismatch = ''decimals-mismatch''"
| "rejectionText non_positive_price = ''non-positive-price''"
| "rejectionText stale = ''stale''"
| "rejectionText oracle_paused = ''oracle-paused''"
| "rejectionText sequencer_down = ''sequencer-down''"
| "rejectionText sequencer_grace_period = ''sequencer-grace-period''"

type_synonym OracleVerdict = "OracleRejection + int"

definition evaluateFeed :: "FeedConfig \<Rightarrow> FeedReading \<Rightarrow> SequencerStatus \<Rightarrow> int \<Rightarrow> OracleVerdict" where
  "evaluateFeed config reading sequencer nowSec =
     (if \<not> sq_up sequencer then Inl sequencer_down
      else if nowSec - sq_changedAtSec sequencer \<le> sq_gracePeriodSec sequencer then Inl sequencer_grace_period
      else if \<not> fr_hasCode reading then Inl feed_no_code
      else if fr_decimals reading \<noteq> fc_decimals config then Inl decimals_mismatch
      else if fr_oraclePaused reading then Inl oracle_paused
      else if fr_answer reading \<le> 0 then Inl non_positive_price
      else if nowSec - fr_updatedAtSec reading > fc_heartbeatSec config then Inl stale
      else Inr (fr_answer reading * fc_multiplier config))"

record MinStockOutPolicyInput =
  mi_quoteStockOut :: int
  mi_wethIn :: int
  mi_oraclePrice :: int
  mi_oracleScale :: int
  mi_maxDeviationBps :: int
  mi_maxAcquisitionWethIn :: int
  mi_nowSec :: int
  mi_deadlineSec :: int
  mi_feedVerdict :: OracleVerdict

text \<open>The inner sum is the result: \<open>Inl\<close> the reason, \<open>Inr\<close> the minimum.\<close>

definition deriveMinStockOut :: "MinStockOutPolicyInput \<Rightarrow> app_error + (string + int)" where
  "deriveMinStockOut p =
     (case mi_feedVerdict p of
        Inl reason \<Rightarrow> Inr (Inl (''feed:'' @ rejectionText reason))
      | Inr _ \<Rightarrow>
          if mi_nowSec p \<ge> mi_deadlineSec p then Inr (Inl ''deadline-expired'')
          else if mi_wethIn p \<le> 0 then Inr (Inl ''zero-input'')
          else if mi_wethIn p > mi_maxAcquisitionWethIn p then Inr (Inl ''exceeds-max-acquisition'')
          else if mi_maxDeviationBps p < 0 \<or> mi_maxDeviationBps p > 10000
          then Inr (Inl ''bad-deviation-config'')
          else if mi_oracleScale p = 0 then Inl RangeError
          else
            (let oracleImplied = bigint_div (mi_wethIn p * mi_oraclePrice p) (mi_oracleScale p);
                 oracleFloor = bigint_div (oracleImplied * (10000 - mi_maxDeviationBps p)) 10000;
                 minStockOut = (if mi_quoteStockOut p < oracleFloor then mi_quoteStockOut p else oracleFloor)
             in if minStockOut \<le> 0 then Inr (Inl ''non-positive-min'')
                else if mi_quoteStockOut p < oracleFloor then Inr (Inl ''quote-below-oracle-floor'')
                else Inr (Inr minStockOut)))"

text \<open>The reads behind a verdict: the code first, then three reads at once.\<close>

definition readFeed :: "(nat \<Rightarrow> PublicClient) \<Rightarrow> FeedConfig \<Rightarrow> string \<Rightarrow> read_error + FeedReading" where
  "readFeed client config stockToken =
     (let feed = fc_proxy config in
      rbind (attempt (''feed getCode '' @ feed) (pc_getCode (client 0) feed)) (\<lambda>code.
      if code = None \<or> code = Some [] \<or> code = Some ''0x''
      then Inr \<lparr>fr_hasCode = False, fr_answer = 0, fr_decimals = 0, fr_updatedAtSec = 0,
                fr_oraclePaused = False\<rparr>
      else attempt ''feed latestRoundData/oraclePaused''
        (rbind (pc_decimals (client 1) feed) (\<lambda>decimals.
         rbind (pc_latestRoundData (client 1) feed) (\<lambda>(roundId, answer, startedAt, updatedAt, answeredInRound).
         rbind (pc_oraclePaused (client 1) stockToken) (\<lambda>paused.
           Inr \<lparr>fr_hasCode = True, fr_answer = answer, fr_decimals = decimals,
                fr_updatedAtSec = updatedAt, fr_oraclePaused = paused\<rparr>))))))"

definition readSequencer :: "PublicClient \<Rightarrow> string \<Rightarrow> int \<Rightarrow> read_error + SequencerStatus" where
  "readSequencer client sequencerFeed gracePeriodSec =
     rbind (attempt ''sequencer latestRoundData'' (pc_latestRoundData client sequencerFeed))
       (\<lambda>(roundId, answer, startedAt, updatedAt, answeredInRound).
         Inr \<lparr>sq_up = (answer = 0), sq_changedAtSec = startedAt, sq_gracePeriodSec = gracePeriodSec\<rparr>)"

section \<open>Locking\<close>

record LockTierRow =
  lt_label :: string
  lt_durationSec :: int
  lt_multiplierBps :: int

definition LOCK_TIERS :: "LockTierRow list" where
  "LOCK_TIERS =
     [\<lparr>lt_label = ''7 days'', lt_durationSec = 604800, lt_multiplierBps = 11000\<rparr>,
      \<lparr>lt_label = ''14 days'', lt_durationSec = 1209600, lt_multiplierBps = 12500\<rparr>,
      \<lparr>lt_label = ''21 days'', lt_durationSec = 1814400, lt_multiplierBps = 15000\<rparr>,
      \<lparr>lt_label = ''30 days'', lt_durationSec = 2592000, lt_multiplierBps = 17500\<rparr>]"

record LockView =
  lv_walletBpsBalance :: int
  lv_lockedPrincipal :: int
  lv_tiers :: "LockTierRow list"

definition buildLockView :: "int \<Rightarrow> int \<Rightarrow> app_error + LockView" where
  "buildLockView walletBpsBalance lockedPrincipal =
     (if walletBpsBalance < 0 \<or> lockedPrincipal < 0 then Inl (AppError ''negative balance'')
      else Inr \<lparr>lv_walletBpsBalance = walletBpsBalance, lv_lockedPrincipal = lockedPrincipal,
                lv_tiers = LOCK_TIERS\<rparr>)"

definition previewLockWeight :: "int \<Rightarrow> int \<Rightarrow> app_error + int" where
  "previewLockWeight lockPrincipal durationSec =
     (case find (\<lambda>t. lt_durationSec t = durationSec) LOCK_TIERS of
        None \<Rightarrow> Inl (AppError ''unsupported lock duration'')
      | Some tier \<Rightarrow> Inr (bigint_div (lockPrincipal * lt_multiplierBps tier) 10000))"

record LockActionPlan =
  la_target :: string
  la_allowanceToken :: string
  la_allowanceAmount :: int
  la_calldata :: string
  la_canSubmit :: bool

text \<open>The result of an encoder that may throw.\<close>

definition encoded :: "unit + 'a \<Rightarrow> app_error + 'a" where
  "encoded r = (case r of Inl _ \<Rightarrow> Inl LibraryError | Inr a \<Rightarrow> Inr a)"

fun planCreateLock ::
  "(int \<Rightarrow> int \<Rightarrow> unit + string) \<Rightarrow> int \<Rightarrow> int \<Rightarrow> DeploymentState \<Rightarrow> bool \<Rightarrow> app_error + LockActionPlan" where
  "planCreateLock encodeLock amount durationSec (Live d) eligible =
     (if amount \<le> 0 then Inl (AppError ''zero amount'')
      else if \<not> list_ex (\<lambda>t. lt_durationSec t = durationSec) LOCK_TIERS
      then Inl (AppError ''unsupported duration'')
      else rbind (encoded (encodeLock amount durationSec)) (\<lambda>calldata.
        Inr \<lparr>la_target = ld_addresses d lockingVault, la_allowanceToken = ''BPS'', la_allowanceAmount = amount,
             la_calldata = calldata, la_canSubmit = (writesAllowed (Live d) \<and> eligible)\<rparr>))"
| "planCreateLock encodeLock amount durationSec deployment eligible = Inl (AppError ''no live deployment'')"

text \<open>The target, the calldata and whether it may be submitted.\<close>

fun planWithdraw ::
  "(int \<Rightarrow> unit + string) \<Rightarrow> int \<Rightarrow> DeploymentState \<Rightarrow> bool \<Rightarrow> app_error + string \<times> string \<times> bool" where
  "planWithdraw encodeWithdraw lockId (Live d) eligible =
     rbind (encoded (encodeWithdraw lockId)) (\<lambda>calldata.
       Inr (ld_addresses d lockingVault, calldata, writesAllowed (Live d) \<and> eligible))"
| "planWithdraw encodeWithdraw lockId deployment eligible = Inl (AppError ''no live deployment'')"

section \<open>Trades\<close>

datatype TradeDirection = buy | sell

record TradeRequest =
  tr_direction :: TradeDirection
  tr_amountIn :: int
  tr_expectedUserOut :: int
  tr_expectedWethProceeds :: "int option"
  tr_slippageBps :: int
  tr_recipient :: string
  tr_nowSec :: int
  tr_ttlSec :: int
  tr_poolFee :: "int option"

record TradePreview =
  tp_direction :: TradeDirection
  tp_chainId :: int
  tp_target :: string
  tp_amountIn :: int
  tp_minUserOut :: int
  tp_allocation :: TradeAllocation
  tp_stockAcquisitionFunding :: int
  tp_bpsBurnComponent :: int
  tp_totalDeductions :: int
  tp_totalProtocolBps :: int
  tp_deadline :: int
  tp_allowanceToken :: string
  tp_allowanceAmount :: int
  tp_poolFee :: "int option"
  tp_calldata :: string

definition applySlippage :: "int \<Rightarrow> int \<Rightarrow> app_error + int" where
  "applySlippage amount slippageBps =
     (if slippageBps < 0 \<or> slippageBps > 10000 then Inl (AppError ''slippageBps out of range'')
      else Inr (bigint_div (amount * (10000 - slippageBps)) 10000))"

text \<open>The calls the router is sent: the arguments in the order of its interface.\<close>

record RouterEncoders =
  re_buyExactWethForBps :: "int \<Rightarrow> int \<Rightarrow> int \<Rightarrow> string \<Rightarrow> int \<Rightarrow> unit + string"
  re_sellExactBpsForWeth :: "int \<Rightarrow> int \<Rightarrow> int \<Rightarrow> int \<Rightarrow> string \<Rightarrow> int \<Rightarrow> unit + string"

definition previewOf ::
  "TradeRequest \<Rightarrow> LiveDeployment \<Rightarrow> int \<Rightarrow> TradeAllocation \<Rightarrow> string \<Rightarrow> string \<Rightarrow> TradePreview" where
  "previewOf req d minUserOut allocation token calldata =
     \<lparr>tp_direction = tr_direction req, tp_chainId = ld_chainId d, tp_target = ld_addresses d tradeRouter,
      tp_amountIn = tr_amountIn req, tp_minUserOut = minUserOut, tp_allocation = allocation,
      tp_stockAcquisitionFunding = ta_stockBudget allocation,
      tp_bpsBurnComponent = ta_burnBudget allocation,
      tp_totalDeductions = ta_stockBudget allocation + ta_burnBudget allocation,
      tp_totalProtocolBps = ta_totalProtocolBps allocation, tp_deadline = tr_nowSec req + tr_ttlSec req,
      tp_allowanceToken = token, tp_allowanceAmount = tr_amountIn req, tp_poolFee = tr_poolFee req,
      tp_calldata = calldata\<rparr>"

fun buildTradePreview ::
  "RouterEncoders \<Rightarrow> TradeRequest \<Rightarrow> DeploymentState \<Rightarrow> app_error + TradePreview" where
  "buildTradePreview enc req (Live d) =
     (if ld_chainId d \<noteq> ROBINHOOD_CHAIN_ID then Inl (AppError ''wrong chain'')
      else if tr_amountIn req \<le> 0 then Inl (AppError ''zero input'')
      else
        (let deadline = tr_nowSec req + tr_ttlSec req in
         rbind (applySlippage (tr_expectedUserOut req) (tr_slippageBps req)) (\<lambda>minUserOut.
         if tr_direction req = buy then
           rbind (buyAllocation (tr_amountIn req)) (\<lambda>allocation.
           rbind (encoded (re_buyExactWethForBps enc (tr_amountIn req) minUserOut 0 (tr_recipient req)
                    deadline)) (\<lambda>calldata.
             Inr (previewOf req d minUserOut allocation ''WETH'' calldata)))
         else
           (let proceeds = (case tr_expectedWethProceeds req of Some w \<Rightarrow> w | None \<Rightarrow> tr_expectedUserOut req) in
            rbind (sellAllocation proceeds) (\<lambda>allocation.
            rbind (encoded (re_sellExactBpsForWeth enc (tr_amountIn req) 0 minUserOut 0 (tr_recipient req)
                     deadline)) (\<lambda>calldata.
              Inr (previewOf req d minUserOut allocation ''BPS'' calldata)))))))"
| "buildTradePreview enc req deployment =
     Inl (AppError ''no live deployment: trade preview unavailable'')"

fun assertOfficialRoute :: "string \<Rightarrow> DeploymentState \<Rightarrow> app_error + unit" where
  "assertOfficialRoute target (Live d) =
     (if lower target \<noteq> lower (ld_addresses d tradeRouter)
      then Inl (AppError
        ''refused: official trades must route through BPSTradeRouter, not an external pool'')
      else Inr ())"
| "assertOfficialRoute target deployment = Inl (AppError ''no live deployment'')"

record SubmissionGateInput =
  sg_deployment :: DeploymentState
  sg_eligible :: bool
  sg_simulationOk :: bool
  sg_quoteFresh :: bool
  sg_nowSec :: int
  sg_deadline :: int
  sg_manifestSourceCommit :: string
  sg_quoteSourceCommit :: string

text \<open>\<open>Inr ()\<close> is \<open>canSubmit: true\<close>.\<close>

definition tradeSubmissionGate :: "SubmissionGateInput \<Rightarrow> string + unit" where
  "tradeSubmissionGate g =
     (if \<not> writesAllowed (sg_deployment g) then Inl ''protocol-not-live''
      else if \<not> sg_eligible g then Inl ''not-eligible''
      else if sg_manifestSourceCommit g \<noteq> sg_quoteSourceCommit g then Inl ''manifest-quote-commit-mismatch''
      else if \<not> sg_quoteFresh g then Inl ''stale-quote''
      else if sg_nowSec g \<ge> sg_deadline g then Inl ''deadline-expired''
      else if \<not> sg_simulationOk g then Inl ''simulation-failed''
      else Inr ())"

section \<open>Declarations and eligibility\<close>

record DeclarationMessage =
  de_wallet :: string
  de_documentHash :: string
  de_documentVersion :: int
  de_nonce :: int
  de_expiry :: int

record SignedDeclaration =
  sd_message :: DeclarationMessage
  sd_signature :: string
  sd_chainId :: int

record DeclarationPolicy =
  dp_currentDocumentVersion :: int
  dp_currentDocumentHash :: string
  dp_nowSec :: int
  dp_usedNonces :: "string set"

datatype DeclarationRejection = wrong_chain | wrong_signer | expired | replayed_nonce
  | stale_document_version | stale_document_hash | bad_signature

definition declarationNonceKey :: "DeclarationMessage \<Rightarrow> string" where
  "declarationNonceKey m = lower (de_wallet m) @ '':'' @ dec_of_int (de_nonce m)"

text \<open>\<open>recover\<close> is the recovery of the signer under the fixed domain and types.\<close>

definition verifyDeclaration ::
  "(DeclarationMessage \<Rightarrow> string \<Rightarrow> unit + string) \<Rightarrow> SignedDeclaration \<Rightarrow> DeclarationPolicy
    \<Rightarrow> DeclarationRejection + unit" where
  "verifyDeclaration recover signed policy =
     (if sd_chainId signed \<noteq> ROBINHOOD_CHAIN_ID then Inl wrong_chain
      else if de_documentVersion (sd_message signed) \<noteq> dp_currentDocumentVersion policy
      then Inl stale_document_version
      else if lower (de_documentHash (sd_message signed)) \<noteq> lower (dp_currentDocumentHash policy)
      then Inl stale_document_hash
      else if de_expiry (sd_message signed) \<le> dp_nowSec policy then Inl expired
      else if declarationNonceKey (sd_message signed) \<in> dp_usedNonces policy then Inl replayed_nonce
      else
        (case recover (sd_message signed) (sd_signature signed) of
           Inl _ \<Rightarrow> Inl bad_signature
         | Inr recovered \<Rightarrow>
             if lower recovered \<noteq> lower (de_wallet (sd_message signed)) then Inl wrong_signer else Inr ()))"

datatype EligibilityResult = res_eligible | res_ineligible | res_unknown

record WalletContext =
  wc_address :: "string option"
  wc_chainId :: "int option"

datatype EligibilityState =
    wallet_disconnected
  | wrong_network int
  | connected_unsigned
  | declaration_expired_or_superseded DeclarationRejection
  | signed_eligibility_unverified
  | eligible
  | ineligible

definition eligibilityWriteGate :: "EligibilityState \<Rightarrow> bool" where
  "eligibilityWriteGate state \<longleftrightarrow> state = eligible"

definition deriveEligibilityState ::
  "WalletContext \<Rightarrow> (DeclarationRejection + unit) option \<Rightarrow> EligibilityResult \<Rightarrow> EligibilityState" where
  "deriveEligibilityState wallet declarationVerdict eligibility =
     (if wc_address wallet = None then wallet_disconnected
      else if wc_chainId wallet \<noteq> Some ROBINHOOD_CHAIN_ID
      then wrong_network (case wc_chainId wallet of Some i \<Rightarrow> i | None \<Rightarrow> 0)
      else
        (case declarationVerdict of
           None \<Rightarrow> connected_unsigned
         | Some (Inl reason) \<Rightarrow>
             if reason = expired \<or> reason = stale_document_version \<or> reason = stale_document_hash
             then declaration_expired_or_superseded reason else connected_unsigned
         | Some (Inr _) \<Rightarrow>
             if eligibility = res_eligible then eligible
             else if eligibility = res_ineligible then ineligible
             else signed_eligibility_unverified))"

section \<open>Configuration\<close>

record DeclarationConfig =
  dc_domainName :: string
  dc_domainVersion :: string
  dc_domainChainId :: int
  dc_documentVersion :: int
  dc_documentHash :: string
  dc_source :: string

definition PRODUCTION_DECLARATION_CONFIG :: "DeclarationConfig option" where
  "PRODUCTION_DECLARATION_CONFIG = None"

definition LOCAL_TEST_DECLARATION_CONFIG :: "(string \<Rightarrow> string) \<Rightarrow> DeclarationConfig" where
  "LOCAL_TEST_DECLARATION_CONFIG keccakText =
     \<lparr>dc_domainName = ''BPS Restricted Beta Declarations'', dc_domainVersion = ''1'',
      dc_domainChainId = ROBINHOOD_CHAIN_ID, dc_documentVersion = 1,
      dc_documentHash = keccakText ''bps-local-test-declaration-v1'', dc_source = ''local-test''\<rparr>"

definition resolveDeclarationConfig ::
  "(string \<Rightarrow> string) \<Rightarrow> DeploymentMode \<Rightarrow> DeclarationConfig option" where
  "resolveDeclarationConfig keccakText mode =
     (if mode = local_mode \<or> mode = fork_mode then Some (LOCAL_TEST_DECLARATION_CONFIG keccakText)
      else PRODUCTION_DECLARATION_CONFIG)"

definition createLocalMockEligibilityService :: "string list \<Rightarrow> string \<Rightarrow> EligibilityResult" where
  "createLocalMockEligibilityService eligibleAccounts account =
     (let allow = js_set (map lower eligibleAccounts) in
      if lower account \<in> set allow then res_eligible else res_ineligible)"

section \<open>Lemmas\<close>

lemma encoded_eq_Inr [simp]: "encoded r = Inr a \<longleftrightarrow> r = Inr a"
  by (cases r) (simp_all add: encoded_def)

text \<open>What an allocation of a gross amount is.\<close>

definition splits :: "int \<Rightarrow> int \<Rightarrow> TradeAllocation \<Rightarrow> bool" where
  "splits stockBps burnBps a \<longleftrightarrow>
     0 \<le> ta_gross a \<and> ta_stockBudget a = ta_gross a * stockBps div 10000 \<and>
     ta_burnBudget a = ta_gross a * burnBps div 10000 \<and>
     ta_stockBudget a + ta_burnBudget a + ta_userAmount a = ta_gross a \<and>
     ta_totalProtocolBps a = stockBps + burnBps \<and>
     ta_gross a * (10000 - stockBps - burnBps) \<le> 10000 * ta_userAmount a"

lemma splits_floors:
  assumes "0 \<le> (g::int)" and "0 \<le> sb" and "0 \<le> bb"
  shows "g * (10000 - sb - bb) \<le> 10000 * (g - g * sb div 10000 - g * bb div 10000)"
proof -
  have "10000 * (g * sb div 10000) \<le> g * sb" "10000 * (g * bb div 10000) \<le> g * bb" by simp_all
  then show ?thesis by (simp add: algebra_simps)
qed

lemma buyAllocation_splits:
  "buyAllocation g = Inr a \<Longrightarrow> splits 200 100 a \<and> ta_gross a = g"
  using splits_floors [of g 200 100]
  by (auto simp: buyAllocation_def splits_def floorBps_def BUY_STOCK_BPS_def BUY_BURN_BPS_def
      BPS_DENOMINATOR_def Let_def)

lemma sellAllocation_splits:
  "sellAllocation g = Inr a \<Longrightarrow> splits 200 200 a \<and> ta_gross a = g"
  using splits_floors [of g 200 200]
  by (auto simp: sellAllocation_def splits_def floorBps_def SELL_STOCK_BPS_def SELL_BURN_BPS_def
      BPS_DENOMINATOR_def Let_def)

lemma acquiredStockSplit_eq:
  "acquiredStockSplit x = Inr (d, r) \<longleftrightarrow> 0 \<le> x \<and> d = x * 80 div 100 \<and> r = x - d"
  by (auto simp: acquiredStockSplit_def DISTRIBUTION_PERCENT_def SPLIT_DENOMINATOR_def Let_def)

lemma preview_Inr:
  assumes "buildTradePreview enc req deployment = Inr p"
  shows "\<exists>d. deployment = Live d \<and> ld_chainId d = 4663 \<and> 0 < tr_amountIn req \<and>
    tp_target p = ld_addresses d tradeRouter \<and> tp_chainId p = 4663 \<and>
    tp_allowanceAmount p = tr_amountIn req \<and> tp_amountIn p = tr_amountIn req \<and>
    tp_deadline p = tr_nowSec req + tr_ttlSec req \<and>
    0 \<le> tr_slippageBps req \<and> tr_slippageBps req \<le> 10000 \<and>
    tp_minUserOut p = bigint_div (tr_expectedUserOut req * (10000 - tr_slippageBps req)) 10000 \<and>
    tp_stockAcquisitionFunding p = ta_stockBudget (tp_allocation p) \<and>
    tp_bpsBurnComponent p = ta_burnBudget (tp_allocation p) \<and>
    (if tr_direction req = buy
     then splits 200 100 (tp_allocation p) \<and> ta_gross (tp_allocation p) = tr_amountIn req \<and>
       tp_allowanceToken p = ''WETH'' \<and>
       re_buyExactWethForBps enc (tr_amountIn req) (tp_minUserOut p) 0 (tr_recipient req) (tp_deadline p) =
         Inr (tp_calldata p)
     else splits 200 200 (tp_allocation p) \<and>
       ta_gross (tp_allocation p) = (case tr_expectedWethProceeds req of Some w \<Rightarrow> w
         | None \<Rightarrow> tr_expectedUserOut req) \<and>
       tp_allowanceToken p = ''BPS'' \<and>
       re_sellExactBpsForWeth enc (tr_amountIn req) 0 (tp_minUserOut p) 0 (tr_recipient req) (tp_deadline p) =
         Inr (tp_calldata p))"
proof (cases deployment)
  case (Live d)
  note facts = assms [unfolded Live buildTradePreview.simps Let_def]
  show ?thesis
  proof (cases "tr_direction req = buy")
    case True
    with facts obtain m a c where
      "ld_chainId d = ROBINHOOD_CHAIN_ID" "0 < tr_amountIn req"
      "applySlippage (tr_expectedUserOut req) (tr_slippageBps req) = Inr m"
      "buyAllocation (tr_amountIn req) = Inr a"
      "re_buyExactWethForBps enc (tr_amountIn req) m 0 (tr_recipient req) (tr_nowSec req + tr_ttlSec req) = Inr c"
      "p = previewOf req d m a ''WETH'' c"
      by (auto simp: rbind_eq_Inr)
    with True Live buyAllocation_splits show ?thesis
      by (auto simp: previewOf_def applySlippage_def ROBINHOOD_CHAIN_ID_def)
  next
    case False
    with facts obtain m a c where
      "ld_chainId d = ROBINHOOD_CHAIN_ID" "0 < tr_amountIn req"
      "applySlippage (tr_expectedUserOut req) (tr_slippageBps req) = Inr m"
      "sellAllocation (case tr_expectedWethProceeds req of Some w \<Rightarrow> w | None \<Rightarrow> tr_expectedUserOut req) = Inr a"
      "re_sellExactBpsForWeth enc (tr_amountIn req) 0 m 0 (tr_recipient req) (tr_nowSec req + tr_ttlSec req) =
        Inr c"
      "p = previewOf req d m a ''BPS'' c"
      by (auto simp: rbind_eq_Inr)
    with False Live sellAllocation_splits show ?thesis
      by (auto simp: previewOf_def applySlippage_def ROBINHOOD_CHAIN_ID_def)
  qed
qed (use assms in auto)

section \<open>Properties\<close>

text \<open>
  A trade preview discloses exactly what it will do: it targets the router address of the manifest
  for chain 4663, asks the exact input as allowance, splits the gross amount without loss into stock budget,
  burn budget and at least 97 % (buy) or 96 % (sell) for the user, bounds the output by the slippage,
  and its calldata is the encoding of exactly these numbers.
\<close>

theorem buildTradePreview_exact:
  assumes "buildTradePreview enc req (enableWrites (resolveDeployment parsed) code) = Inr p"
  shows "(\<exists>m. parsed = Inr m \<and> dm_chainId m = 4663 \<and> dm_broadcastReady m \<and>
      dm_actual m tradeRouter = Some (tp_target p)) \<and>
    0 < tr_amountIn req \<and> tp_allowanceAmount p = tr_amountIn req \<and>
    tp_minUserOut p = bigint_div (tr_expectedUserOut req * (10000 - tr_slippageBps req)) 10000 \<and>
    ta_stockBudget (tp_allocation p) + ta_burnBudget (tp_allocation p) + ta_userAmount (tp_allocation p) =
      ta_gross (tp_allocation p) \<and>
    ta_stockBudget (tp_allocation p) = ta_gross (tp_allocation p) * 200 div 10000 \<and>
    (if tr_direction req = buy
     then ta_gross (tp_allocation p) = tr_amountIn req \<and>
       ta_burnBudget (tp_allocation p) = tr_amountIn req * 100 div 10000 \<and>
       97 * tr_amountIn req \<le> 100 * ta_userAmount (tp_allocation p) \<and>
       re_buyExactWethForBps enc (tr_amountIn req) (tp_minUserOut p) 0 (tr_recipient req)
         (tr_nowSec req + tr_ttlSec req) = Inr (tp_calldata p)
     else ta_burnBudget (tp_allocation p) = ta_gross (tp_allocation p) * 200 div 10000 \<and>
       96 * ta_gross (tp_allocation p) \<le> 100 * ta_userAmount (tp_allocation p) \<and>
       re_sellExactBpsForWeth enc (tr_amountIn req) 0 (tp_minUserOut p) 0 (tr_recipient req)
         (tr_nowSec req + tr_ttlSec req) = Inr (tp_calldata p))"
proof -
  from preview_Inr [OF assms] obtain d where d: "enableWrites (resolveDeployment parsed) code = Live d"
    "tp_target p = ld_addresses d tradeRouter" by blast
  from d(1) obtain d' where d': "resolveDeployment parsed = Live d'" "ld_addresses d = ld_addresses d'"
    by (cases "resolveDeployment parsed") (auto split: if_splits)
  from d'(1) [unfolded resolve_Live] obtain m where m: "parsed = Inr m" "dm_chainId m = 4663"
    "dm_broadcastReady m" "list_all (\<lambda>k. isRealAddress (dm_actual m k)) contractSet"
    "ld_addresses d' = (\<lambda>k. the (dm_actual m k))" by auto
  obtain a where "dm_actual m tradeRouter = Some a"
    using m(4) contractSet_all [of tradeRouter] unfolding list_all_iff isRealAddress_iff by blast
  with d(2) d'(2) m(5) have target: "dm_actual m tradeRouter = Some (tp_target p)" by simp
  show ?thesis
    using preview_Inr [OF assms] m(1-3) target by (auto simp: splits_def split: if_splits)
qed

text \<open>
  When the operator policy allows an acquisition, the feed was live (sequencer up past its grace period,
  code, no pause, a positive and fresh answer), the deadline has not passed, the input is positive and within
  the cap, and the minimum is the floor of the oracle-implied output less the deviation, which the
  quote reaches and which is positive.
\<close>

theorem deriveMinStockOut_bounds:
  assumes "deriveMinStockOut p = Inr (Inr m)"
    and "mi_feedVerdict p = evaluateFeed config reading sequencer now"
    and "0 < mi_oracleScale p" and "0 \<le> mi_oraclePrice p"
  shows "sq_up sequencer \<and> sq_gracePeriodSec sequencer < now - sq_changedAtSec sequencer \<and>
    fr_hasCode reading \<and> \<not> fr_oraclePaused reading \<and> 0 < fr_answer reading \<and>
    fr_decimals reading = fc_decimals config \<and> now - fr_updatedAtSec reading \<le> fc_heartbeatSec config \<and>
    mi_nowSec p < mi_deadlineSec p \<and> 0 < mi_wethIn p \<and> mi_wethIn p \<le> mi_maxAcquisitionWethIn p \<and>
    m = (mi_wethIn p * mi_oraclePrice p div mi_oracleScale p) * (10000 - mi_maxDeviationBps p) div 10000 \<and>
    0 < m \<and> m \<le> mi_quoteStockOut p \<and>
    10000 * mi_oracleScale p * m \<le> mi_wethIn p * mi_oraclePrice p * (10000 - mi_maxDeviationBps p)"
proof -
  let ?x = "mi_wethIn p * mi_oraclePrice p" and ?S = "mi_oracleScale p" and ?k = "10000 - mi_maxDeviationBps p"
  have feed: "sq_up sequencer" "sq_gracePeriodSec sequencer < now - sq_changedAtSec sequencer"
    "fr_hasCode reading" "\<not> fr_oraclePaused reading" "0 < fr_answer reading"
    "fr_decimals reading = fc_decimals config" "now - fr_updatedAtSec reading \<le> fc_heartbeatSec config"
    and pol: "mi_nowSec p < mi_deadlineSec p" "0 < mi_wethIn p" "mi_wethIn p \<le> mi_maxAcquisitionWethIn p"
      "0 \<le> mi_maxDeviationBps p" "mi_maxDeviationBps p \<le> 10000"
    and m: "m = bigint_div (bigint_div ?x ?S * ?k) 10000" "0 < m" "m \<le> mi_quoteStockOut p"
    using assms(1,2) by (auto simp: deriveMinStockOut_def evaluateFeed_def Let_def split: sum.splits if_splits)
  have "0 \<le> ?x" using pol(2) assms(4) by simp
  then have m': "m = (?x div ?S) * ?k div 10000"
    using m(1) assms(3) pol(5) by (simp add: pos_imp_zdiv_nonneg_iff)
  have "10000 * m \<le> (?x div ?S) * ?k" unfolding m' by simp
  then have "?S * (10000 * m) \<le> ?S * ((?x div ?S) * ?k)" using assms(3) by (intro mult_left_mono) simp_all
  also have "\<dots> = (?S * (?x div ?S)) * ?k" by (simp add: algebra_simps)
  also have "\<dots> \<le> ?x * ?k"
    using mult_div_mod_eq [of ?S ?x] pos_mod_sign [OF assms(3), of ?x] pol(5)
    by (intro mult_right_mono) linarith+
  finally have "10000 * ?S * m \<le> ?x * ?k" by (simp add: algebra_simps)
  then show ?thesis using feed pol m' m(2,3) by simp
qed

text \<open>
  The write gate of eligibility opens exactly for a connected wallet on chain 4663 with a declaration
  for that chain, of the current document, unexpired, with an unused nonce, whose recovered signer is the
  wallet it names, and a separate result that says eligible: no signature alone ever opens it.
\<close>

theorem eligibility_exactly:
  "eligibilityWriteGate (deriveEligibilityState wallet
     (map_option (\<lambda>d. verifyDeclaration recover d policy) signed) result) \<longleftrightarrow>
   (\<exists>a d signer. wc_address wallet = Some a \<and> wc_chainId wallet = Some 4663 \<and> signed = Some d \<and>
      sd_chainId d = 4663 \<and> de_documentVersion (sd_message d) = dp_currentDocumentVersion policy \<and>
      lower (de_documentHash (sd_message d)) = lower (dp_currentDocumentHash policy) \<and>
      dp_nowSec policy < de_expiry (sd_message d) \<and>
      lower (de_wallet (sd_message d)) @ '':'' @ dec_of_int (de_nonce (sd_message d)) \<notin> dp_usedNonces policy \<and>
      recover (sd_message d) (sd_signature d) = Inr signer \<and>
      lower signer = lower (de_wallet (sd_message d)) \<and> result = res_eligible)"
proof -
  have ver: "verifyDeclaration recover d policy = Inr () \<longleftrightarrow>
      (\<exists>signer. sd_chainId d = 4663 \<and> de_documentVersion (sd_message d) = dp_currentDocumentVersion policy \<and>
      lower (de_documentHash (sd_message d)) = lower (dp_currentDocumentHash policy) \<and>
      dp_nowSec policy < de_expiry (sd_message d) \<and> declarationNonceKey (sd_message d) \<notin> dp_usedNonces policy \<and>
      recover (sd_message d) (sd_signature d) = Inr signer \<and>
      lower signer = lower (de_wallet (sd_message d)))" for d
    by (auto simp: verifyDeclaration_def ROBINHOOD_CHAIN_ID_def not_le split: sum.splits)
  have "eligibilityWriteGate (deriveEligibilityState wallet verdict result) \<longleftrightarrow>
      wc_address wallet \<noteq> None \<and> wc_chainId wallet = Some 4663 \<and> verdict = Some (Inr ()) \<and>
      result = res_eligible" for verdict
    by (auto simp: eligibilityWriteGate_def deriveEligibilityState_def ROBINHOOD_CHAIN_ID_def
        split: option.splits sum.splits)
  then show ?thesis by (auto simp: ver declarationNonceKey_def)
qed

text \<open>
  The lock table of the application and the tier table of the distribution library agree: the previewed
  weight of a lock is the floor the library computes for the tier of that duration, and a duration
  without a tier is refused.
\<close>

theorem previewLockWeight_tiers:
  "previewLockWeight amount durationSec =
   (case find (\<lambda>t. durationSeconds (TIER_SPECS t) = durationSec) SUPPORTED_LOCK_TIERS of
      None \<Rightarrow> Inl (AppError ''unsupported lock duration'')
    | Some t \<Rightarrow> (case mulDivFloor amount (multiplierBps (TIER_SPECS t)) 10000 of
        Inr w \<Rightarrow> Inr w | Inl _ \<Rightarrow> Inl RangeError))"
  by (simp add: previewLockWeight_def LOCK_TIERS_def SUPPORTED_LOCK_TIERS_def DAY_def mulDivFloor_def)

section \<open>Concrete instances\<close>

definition ex_trade_manifest :: DeploymentManifest where
  "ex_trade_manifest =
     (let vc = \<lparr>vc_address = [], vc_runtimeCodeHash = [], vc_status = VERIFIED\<rparr> in
      \<lparr>dm_chainId = 4663, dm_sourceCommit = ''c0'', dm_broadcastReady = True, dm_mode = Some restricted_beta,
       dm_isFixture = Some False, dm_deployer = None, dm_weth = vc, dm_rialtoRegistry = vc,
       dm_swapRouter02 = vc, dm_predicted = (\<lambda>_. None),
       dm_actual = (\<lambda>_. Some (''0x'' @ replicate 40 (CHR ''A'')))\<rparr>)"

definition ex_trade :: TradeRequest where
  "ex_trade = \<lparr>tr_direction = sell, tr_amountIn = 1000, tr_expectedUserOut = 959,
     tr_expectedWethProceeds = Some 999, tr_slippageBps = 100, tr_recipient = [], tr_nowSec = 5, tr_ttlSec = 60,
     tr_poolFee = None\<rparr>"

definition ex_encoders :: RouterEncoders where
  "ex_encoders = \<lparr>re_buyExactWethForBps = (\<lambda>_ _ _ _ _. Inl ()),
     re_sellExactBpsForWeth = (\<lambda>_ _ _ _ _ _. Inr ''0xab'')\<rparr>"

theorem buildTradePreview_exact_witness:
  "\<exists>p. buildTradePreview ex_encoders ex_trade
       (enableWrites (resolveDeployment (Inr ex_trade_manifest)) (\<lambda>_. True)) = Inr p \<and>
     ta_stockBudget (tp_allocation p) + ta_burnBudget (tp_allocation p) + ta_userAmount (tp_allocation p) =
       ta_gross (tp_allocation p)"
proof -
  have "is_ok (buildTradePreview ex_encoders ex_trade
      (enableWrites (resolveDeployment (Inr ex_trade_manifest)) (\<lambda>_. True)))" by code_simp
  then obtain p where p: "buildTradePreview ex_encoders ex_trade
      (enableWrites (resolveDeployment (Inr ex_trade_manifest)) (\<lambda>_. True)) = Inr p"
    by (auto simp: is_ok_iff)
  with buildTradePreview_exact [OF p] show ?thesis by blast
qed

definition ex_policy_input :: MinStockOutPolicyInput where
  "ex_policy_input = \<lparr>mi_quoteStockOut = 990, mi_wethIn = 100, mi_oraclePrice = 1000, mi_oracleScale = 100,
     mi_maxDeviationBps = 200, mi_maxAcquisitionWethIn = 100, mi_nowSec = 50, mi_deadlineSec = 60,
     mi_feedVerdict = evaluateFeed \<lparr>fc_stockSymbol = [], fc_proxy = [], fc_decimals = 2, fc_heartbeatSec = 9,
         fc_multiplier = 1, fc_sourceUrl = []\<rparr>
       \<lparr>fr_hasCode = True, fr_answer = 1000, fr_decimals = 2, fr_updatedAtSec = 45, fr_oraclePaused = False\<rparr>
       \<lparr>sq_up = True, sq_changedAtSec = 1, sq_gracePeriodSec = 20\<rparr> 50\<rparr>"

theorem deriveMinStockOut_bounds_witness:
  "deriveMinStockOut ex_policy_input = Inr (Inr 980) \<and>
   10000 * mi_oracleScale ex_policy_input * 980 \<le>
     mi_wethIn ex_policy_input * mi_oraclePrice ex_policy_input * (10000 - mi_maxDeviationBps ex_policy_input)"
proof -
  have r: "deriveMinStockOut ex_policy_input = Inr (Inr 980)" by code_simp
  moreover have "0 < mi_oracleScale ex_policy_input" "0 \<le> mi_oraclePrice ex_policy_input"
    by (simp_all add: ex_policy_input_def)
  moreover have "mi_feedVerdict ex_policy_input = evaluateFeed \<lparr>fc_stockSymbol = [], fc_proxy = [],
        fc_decimals = 2, fc_heartbeatSec = 9, fc_multiplier = 1, fc_sourceUrl = []\<rparr>
       \<lparr>fr_hasCode = True, fr_answer = 1000, fr_decimals = 2, fr_updatedAtSec = 45, fr_oraclePaused = False\<rparr>
       \<lparr>sq_up = True, sq_changedAtSec = 1, sq_gracePeriodSec = 20\<rparr> 50"
    by (simp add: ex_policy_input_def)
  ultimately show ?thesis using deriveMinStockOut_bounds by blast
qed

end
