(* ===== verification/Transparency.thy ===== *)
theory Transparency
  imports Trading
begin

text \<open>
  The transparency reads of the web application: \<open>apps/web/lib/transparency.ts\<close>,
  \<open>services/transparency-reads.ts\<close> and \<open>services/acquisition-reconcile.ts\<close>. The decoder of the event
  log library is a parameter; what it gives for the events the source names is \<open>EventArgs\<close>. The fixed
  texts of a report and the detail text of a reconciliation are left out.
\<close>

section \<open>Events\<close>

datatype Provenance = onchain_verified | derived | offchain_artifact | unavailable | fixture

record 'a Tagged =
  tg_value :: 'a
  tg_provenance :: Provenance

record EventRef =
  ef_txHash :: string
  ef_blockNumber :: int
  ef_emitter :: string

record OfficialTradeEvent =
  ot_buy :: bool
  ot_stockBudget :: int
  ot_bpsBurned :: int
  ot_gross :: int
  ot_ref :: "EventRef option"

record AcquisitionRecordedEvent =
  rec_acquisitionId :: int
  rec_stockToken :: string
  rec_wethSpent :: int
  rec_acquiredStock :: int
  rec_distributionAmount :: int
  rec_reserveAmount :: int
  rec_ref :: "EventRef option"

record AcquisitionFundedEvent =
  fu_acquisitionId :: int
  fu_cycleId :: int
  fu_stockToken :: string
  fu_amount :: int
  fu_merkleRoot :: string
  fu_ref :: "EventRef option"

record RepurchaseBurnEvent =
  rb_tradeId :: int
  rb_wethSpent :: int
  rb_bpsBurned :: int
  rb_ref :: "EventRef option"

record BudgetDeliveryEvent =
  bd_tradeId :: int
  bd_recipient :: string
  bd_amount :: int
  bd_ref :: "EventRef option"

record CycleReads =
  cr_cycleId :: int
  cr_asset :: string
  cr_remaining :: int
  cr_funded :: int

record AcquisitionRow =
  row_acquisitionId :: int
  row_stockToken :: string
  row_wethSpent :: "int Tagged"
  row_acquiredStock :: "int Tagged"
  row_distribution80 :: "int Tagged"
  row_reserve20 :: "int Tagged"
  row_splitReconciles :: bool
  row_cycleId :: "int option Tagged"
  row_released :: "int option Tagged"
  row_claimed :: "int option Tagged"
  row_remaining :: "int option Tagged"
  row_merkleRoot :: "string option Tagged"
  row_ref :: "EventRef option"

record TransparencyReport =
  rp_buyVolume :: "int Tagged"
  rp_sellVolume :: "int Tagged"
  rp_totalBpsBurned :: "int Tagged"
  rp_budgetAccrued :: "int Tagged"
  rp_budgetSpent :: "int Tagged"
  rp_pendingBudget :: "int Tagged"
  rp_repurchaseWethSpent :: "int Tagged"
  rp_repurchaseBpsBurned :: "int Tagged"
  rp_stockBudgetDelivered :: "int Tagged"
  rp_acquisitions :: "AcquisitionRow list"

record TransparencyInputs =
  ti_trades :: "OfficialTradeEvent list"
  ti_recorded :: "AcquisitionRecordedEvent list"
  ti_funded :: "AcquisitionFundedEvent list"
  ti_cycleReads :: "CycleReads list"
  ti_repurchases :: "RepurchaseBurnEvent list"
  ti_budgetDeliveries :: "BudgetDeliveryEvent list"
  ti_isFixture :: bool

section \<open>The report\<close>

definition tag :: "'a \<Rightarrow> bool \<Rightarrow> Provenance \<Rightarrow> 'a Tagged" where
  "tag v isFixture base = \<lparr>tg_value = v, tg_provenance = (if isFixture then fixture else base)\<rparr>"

text \<open>\<open>new Map(entries)\<close> read back: the last entry of a key.\<close>

definition last_of :: "('k \<times> 'v) list \<Rightarrow> 'k \<Rightarrow> 'v option" where
  "last_of kvs k = map_of (rev kvs) k"

definition acquisitionRow ::
  "TransparencyInputs \<Rightarrow> AcquisitionRecordedEvent \<Rightarrow> app_error + AcquisitionRow" where
  "acquisitionRow input r =
     (let f = ti_isFixture input;
          fundedById = map (\<lambda>x. (dec_of_int (fu_acquisitionId x), x)) (ti_funded input);
          cycleById = map (\<lambda>c. (dec_of_int (cr_cycleId c), c)) (ti_cycleReads input)
      in rbind (acquiredStockSplit (rec_acquiredStock r)) (\<lambda>(distribution, reserve).
         let splitReconciles = (distribution = rec_distributionAmount r \<and> reserve = rec_reserveAmount r \<and>
               rec_distributionAmount r + rec_reserveAmount r = rec_acquiredStock r);
             fund = last_of fundedById (dec_of_int (rec_acquisitionId r));
             cyc = (case fund of None \<Rightarrow> None | Some x \<Rightarrow> last_of cycleById (dec_of_int (fu_cycleId x)));
             claimed = (case (cyc, fund) of (Some c, Some x) \<Rightarrow> Some (fu_amount x - cr_remaining c) | _ \<Rightarrow> None)
         in Inr \<lparr>row_acquisitionId = rec_acquisitionId r, row_stockToken = rec_stockToken r,
              row_wethSpent = tag (rec_wethSpent r) f onchain_verified,
              row_acquiredStock = tag (rec_acquiredStock r) f onchain_verified,
              row_distribution80 = tag (rec_distributionAmount r) f onchain_verified,
              row_reserve20 = tag (rec_reserveAmount r) f onchain_verified,
              row_splitReconciles = splitReconciles,
              row_cycleId = tag (map_option fu_cycleId fund) f
                (if fund = None then unavailable else onchain_verified),
              row_released = tag (map_option fu_amount fund) f
                (if fund = None then unavailable else onchain_verified),
              row_claimed = tag claimed f (if claimed = None then unavailable else derived),
              row_remaining = tag (map_option cr_remaining cyc) f
                (if cyc = None then unavailable else onchain_verified),
              row_merkleRoot = tag (map_option fu_merkleRoot fund) f
                (if fund = None then unavailable else offchain_artifact),
              row_ref = rec_ref r\<rparr>))"

definition buildTransparencyReport :: "TransparencyInputs \<Rightarrow> app_error + TransparencyReport" where
  "buildTransparencyReport input =
     (let f = ti_isFixture input;
          buyVolume = foldl (\<lambda>a t. a + ot_gross t) 0 (filter ot_buy (ti_trades input));
          sellVolume = foldl (\<lambda>a t. a + ot_gross t) 0 (filter (\<lambda>t. \<not> ot_buy t) (ti_trades input));
          totalBpsBurned = foldl (\<lambda>a t. a + ot_bpsBurned t) 0 (ti_trades input);
          budgetAccrued = foldl (\<lambda>a t. a + ot_stockBudget t) 0 (ti_trades input);
          budgetSpent = foldl (\<lambda>a r. a + rec_wethSpent r) 0 (ti_recorded input);
          pending = (if budgetAccrued > budgetSpent then budgetAccrued - budgetSpent else 0);
          repurchaseWethSpent = foldl (\<lambda>a r. a + rb_wethSpent r) 0 (ti_repurchases input);
          repurchaseBpsBurned = foldl (\<lambda>a r. a + rb_bpsBurned r) 0 (ti_repurchases input);
          stockBudgetDelivered = foldl (\<lambda>a d. a + bd_amount d) 0 (ti_budgetDeliveries input)
      in rbind (rmap (acquisitionRow input) (ti_recorded input)) (\<lambda>acquisitions.
         Inr \<lparr>rp_buyVolume = tag buyVolume f derived, rp_sellVolume = tag sellVolume f derived,
              rp_totalBpsBurned = tag totalBpsBurned f derived,
              rp_budgetAccrued = tag budgetAccrued f derived, rp_budgetSpent = tag budgetSpent f derived,
              rp_pendingBudget = tag pending f derived,
              rp_repurchaseWethSpent = tag repurchaseWethSpent f onchain_verified,
              rp_repurchaseBpsBurned = tag repurchaseBpsBurned f onchain_verified,
              rp_stockBudgetDelivered = tag stockBudgetDelivered f onchain_verified,
              rp_acquisitions = acquisitions\<rparr>))"

section \<open>Decoding logs\<close>

text \<open>The name of an event with the arguments the source reads.\<close>

datatype EventArgs =
    OfficialBuy (stockBudget: int) (bpsBurned: int) (gross: int)
  | OfficialSell int int int
  | BpsRepurchasedAndBurned int int int
  | StockBudgetDelivered int string int
  | AcquisitionRecorded int string int int int int
  | AcquisitionFunded int int string int string
  | Claimed int string int
  | OtherEvent string

record DecodedEvent =
  dv_args :: EventArgs
  dv_blockNumber :: int
  dv_transactionHash :: string
  dv_logIndex :: int
  dv_address :: string

definition decodeKey :: "int option \<Rightarrow> string \<Rightarrow> int \<Rightarrow> string" where
  "decodeKey blockNumber txHash logIndex =
     (case blockNumber of Some i \<Rightarrow> dec_of_int i | None \<Rightarrow> ''null'') @ '':'' @ lower txHash @ '':'' @
     dec_of_int logIndex"

fun decodeStep ::
  "(string list \<Rightarrow> string \<Rightarrow> unit + EventArgs) \<Rightarrow> string list \<times> DecodedEvent list \<Rightarrow> RawLog
    \<Rightarrow> string list \<times> DecodedEvent list" where
  "decodeStep decodeEventLog (seen, out) l =
     (case (rl_topics l, rl_data l, rl_transactionHash l, rl_logIndex l) of
        (Some (t # ts), Some data, Some h, Some i) \<Rightarrow>
          (let key = decodeKey (rl_blockNumber l) h i in
           if key \<in> set seen then (seen, out)
           else (set_add key seen,
             case decodeEventLog (t # ts) data of
               Inl _ \<Rightarrow> out
             | Inr args \<Rightarrow> out @ [\<lparr>dv_args = args,
                 dv_blockNumber = (case rl_blockNumber l of Some n \<Rightarrow> n | None \<Rightarrow> 0),
                 dv_transactionHash = h, dv_logIndex = i, dv_address = rl_address l\<rparr>]))
      | _ \<Rightarrow> (seen, out))"

definition decodeLogs ::
  "(string list \<Rightarrow> string \<Rightarrow> unit + EventArgs) \<Rightarrow> RawLog list \<Rightarrow> DecodedEvent list" where
  "decodeLogs decodeEventLog logs = snd (foldl (decodeStep decodeEventLog) ([], []) logs)"

section \<open>Aggregation\<close>

record Collected =
  co_trades :: "OfficialTradeEvent list"
  co_recorded :: "AcquisitionRecordedEvent list"
  co_funded :: "AcquisitionFundedEvent list"
  co_repurchases :: "RepurchaseBurnEvent list"
  co_budgetDeliveries :: "BudgetDeliveryEvent list"
  co_claimed :: "(string \<times> int) list"

definition refOf :: "DecodedEvent \<Rightarrow> EventRef" where
  "refOf d = \<lparr>ef_txHash = dv_transactionHash d, ef_blockNumber = dv_blockNumber d, ef_emitter = dv_address d\<rparr>"

definition claimKey :: "int \<Rightarrow> string \<Rightarrow> string" where
  "claimKey cycleId asset = dec_of_int cycleId @ '':'' @ lower asset"

definition claimedAmount :: "(string \<times> int) list \<Rightarrow> string \<Rightarrow> int" where
  "claimedAmount m key = (case map_of m key of Some n \<Rightarrow> n | None \<Rightarrow> 0)"

definition collect :: "Collected \<Rightarrow> DecodedEvent \<Rightarrow> Collected" where
  "collect c d =
     (case dv_args d of
        OfficialBuy budget burned g \<Rightarrow>
          c\<lparr>co_trades := co_trades c @ [\<lparr>ot_buy = True, ot_stockBudget = budget, ot_bpsBurned = burned,
            ot_gross = g, ot_ref = Some (refOf d)\<rparr>]\<rparr>
      | OfficialSell budget burned g \<Rightarrow>
          c\<lparr>co_trades := co_trades c @ [\<lparr>ot_buy = False, ot_stockBudget = budget, ot_bpsBurned = burned,
            ot_gross = g, ot_ref = Some (refOf d)\<rparr>]\<rparr>
      | BpsRepurchasedAndBurned tradeId spent burned \<Rightarrow>
          c\<lparr>co_repurchases := co_repurchases c @ [\<lparr>rb_tradeId = tradeId, rb_wethSpent = spent,
            rb_bpsBurned = burned, rb_ref = Some (refOf d)\<rparr>]\<rparr>
      | StockBudgetDelivered tradeId recipient amount \<Rightarrow>
          c\<lparr>co_budgetDeliveries := co_budgetDeliveries c @ [\<lparr>bd_tradeId = tradeId, bd_recipient = recipient,
            bd_amount = amount, bd_ref = Some (refOf d)\<rparr>]\<rparr>
      | AcquisitionRecorded i stockToken spent acquired dist res \<Rightarrow>
          c\<lparr>co_recorded := co_recorded c @ [\<lparr>rec_acquisitionId = i, rec_stockToken = stockToken,
            rec_wethSpent = spent, rec_acquiredStock = acquired, rec_distributionAmount = dist,
            rec_reserveAmount = res, rec_ref = Some (refOf d)\<rparr>]\<rparr>
      | AcquisitionFunded i cycleId stockToken amount root \<Rightarrow>
          c\<lparr>co_funded := co_funded c @ [\<lparr>fu_acquisitionId = i, fu_cycleId = cycleId,
            fu_stockToken = stockToken, fu_amount = amount, fu_merkleRoot = root,
            fu_ref = Some (refOf d)\<rparr>]\<rparr>
      | Claimed cycleId asset amount \<Rightarrow>
          c\<lparr>co_claimed := AList.update (claimKey cycleId asset)
            (claimedAmount (co_claimed c) (claimKey cycleId asset) + amount) (co_claimed c)\<rparr>
      | OtherEvent _ \<Rightarrow> c)"

definition cycleReadOf :: "(string \<times> int) list \<Rightarrow> AcquisitionFundedEvent \<Rightarrow> CycleReads" where
  "cycleReadOf claimed f =
     \<lparr>cr_cycleId = fu_cycleId f, cr_asset = fu_stockToken f,
      cr_remaining = fu_amount f - claimedAmount claimed (claimKey (fu_cycleId f) (fu_stockToken f)),
      cr_funded = fu_amount f\<rparr>"

definition aggregateEvents :: "DecodedEvent list \<Rightarrow> bool \<Rightarrow> app_error + TransparencyReport" where
  "aggregateEvents decoded isFixture =
     (let c = foldl collect \<lparr>co_trades = [], co_recorded = [], co_funded = [], co_repurchases = [],
            co_budgetDeliveries = [], co_claimed = []\<rparr> decoded;
          cycleReads = map (cycleReadOf (co_claimed c)) (co_funded c)
      in buildTransparencyReport \<lparr>ti_trades = co_trades c, ti_recorded = co_recorded c,
           ti_funded = co_funded c, ti_cycleReads = cycleReads, ti_repurchases = co_repurchases c,
           ti_budgetDeliveries = co_budgetDeliveries c, ti_isFixture = isFixture\<rparr>)"

text \<open>The logs of every address; \<open>None\<close> when a retrieval does not return.\<close>

fun fetchAll ::
  "PublicClient \<Rightarrow> int \<Rightarrow> int \<Rightarrow> int \<Rightarrow> int \<Rightarrow> string list \<Rightarrow> (read_error + RawLog list) option" where
  "fetchAll client fromBlock headBlock confirmations chunkSize [] = Some (Inr [])"
| "fetchAll client fromBlock headBlock confirmations chunkSize (a # as) =
     (case getLogsChunked client a fromBlock headBlock confirmations chunkSize of
        None \<Rightarrow> None
      | Some (Inl e) \<Rightarrow> Some (Inl e)
      | Some (Inr logs) \<Rightarrow>
          map_option (\<lambda>r. rbind r (\<lambda>rest. Inr (logs @ rest)))
            (fetchAll client fromBlock headBlock confirmations chunkSize as))"

definition fetchTransparency ::
  "(string list \<Rightarrow> string \<Rightarrow> unit + EventArgs) \<Rightarrow> PublicClient \<Rightarrow> string list \<Rightarrow> int \<Rightarrow> int \<Rightarrow> int \<Rightarrow> int
    \<Rightarrow> bool \<Rightarrow> (read_error + (app_error + TransparencyReport)) option" where
  "fetchTransparency decodeEventLog client addresses fromBlock headBlock confirmations chunkSize isFixture =
     map_option (\<lambda>r. rbind r (\<lambda>logs. Inr (aggregateEvents (decodeLogs decodeEventLog logs) isFixture)))
       (fetchAll client fromBlock headBlock confirmations chunkSize addresses)"

section \<open>Reconciliation of an acquisition\<close>

definition ZERO_ADDR :: string where "ZERO_ADDR = ''0x'' @ replicate 40 (CHR ''0'')"

definition STATUS_FUNDED :: int where "STATUS_FUNDED = 2"

datatype AcquisitionLinkageStatus = authoritative_confirmed | cycle_unused | cycle_acquisition_mismatch
  | acquisition_missing | acquisition_cycle_mismatch | funding_record_mismatch | read_failed

record EventAcquisitionExpectation =
  ee_acquisitionId :: int
  ee_wethSpent :: "int option"
  ee_distributionAmount :: "int option"
  ee_reserveAmount :: "int option"
  ee_acquiredStock :: "int option"

record AcquisitionReconciliation =
  an_cycleId :: int
  an_expectedAcquisitionId :: "int option"
  an_onchainAcquisitionId :: "int option"
  an_record :: "AcquisitionRecord option"
  an_status :: AcquisitionLinkageStatus
  an_ok :: bool

definition isEmptyRecord :: "AcquisitionRecord \<Rightarrow> bool" where
  "isEmptyRecord r \<longleftrightarrow> lower (aq_stockToken r) = ZERO_ADDR \<and> aq_cycleId r = 0 \<and>
     aq_distributionAmount r = 0 \<and> aq_acquiredStock r = 0"

definition differs :: "int option \<Rightarrow> int \<Rightarrow> bool" where
  "differs expected actual \<longleftrightarrow> expected \<noteq> None \<and> expected \<noteq> Some actual"

definition disagree :: "EventAcquisitionExpectation \<Rightarrow> AcquisitionRecord \<Rightarrow> bool" where
  "disagree e r \<longleftrightarrow> differs (ee_wethSpent e) (aq_wethSpent r) \<or>
     differs (ee_distributionAmount e) (aq_distributionAmount r) \<or>
     differs (ee_reserveAmount e) (aq_reserveAmount r) \<or>
     differs (ee_acquiredStock e) (aq_acquiredStock r)"

text \<open>The three reads are awaited one after the other.\<close>

definition reconcileCycleAcquisition ::
  "(nat \<Rightarrow> PublicClient) \<Rightarrow> string \<Rightarrow> int \<Rightarrow> EventAcquisitionExpectation option
    \<Rightarrow> AcquisitionReconciliation" where
  "reconcileCycleAcquisition client coord cycleId expectation =
     (let base = \<lparr>an_cycleId = cycleId, an_expectedAcquisitionId = map_option ee_acquisitionId expectation,
            an_onchainAcquisitionId = None, an_record = None, an_status = read_failed, an_ok = False\<rparr> in
      case readCycleUsed (client 0) coord cycleId of
        Inl _ \<Rightarrow> base
      | Inr used \<Rightarrow>
          if \<not> used then
            (if expectation \<noteq> None then base\<lparr>an_status := cycle_acquisition_mismatch\<rparr>
             else base\<lparr>an_status := cycle_unused, an_ok := True\<rparr>)
          else
            (case readCycleAcquisitionId (client 1) coord cycleId of
               Inl _ \<Rightarrow> base
             | Inr onchainId \<Rightarrow>
                 (let withId = base\<lparr>an_onchainAcquisitionId := Some onchainId\<rparr> in
                  if onchainId = 0 then withId\<lparr>an_status := acquisition_missing\<rparr>
                  else if expectation \<noteq> None \<and> map_option ee_acquisitionId expectation \<noteq> Some onchainId
                  then withId\<lparr>an_status := cycle_acquisition_mismatch\<rparr>
                  else
                    (case readAcquisition (client 2) coord onchainId of
                       Inl _ \<Rightarrow> withId
                     | Inr acq \<Rightarrow>
                         (let withRecord = withId\<lparr>an_record := Some acq\<rparr> in
                          if isEmptyRecord acq \<or> aq_status acq \<noteq> STATUS_FUNDED
                          then withRecord\<lparr>an_status := acquisition_missing\<rparr>
                          else if aq_cycleId acq \<noteq> cycleId
                          then withRecord\<lparr>an_status := acquisition_cycle_mismatch\<rparr>
                          else if (case expectation of None \<Rightarrow> False | Some e \<Rightarrow> disagree e acq)
                          then withRecord\<lparr>an_status := funding_record_mismatch\<rparr>
                          else withRecord\<lparr>an_status := authoritative_confirmed, an_ok := True\<rparr>)))))"

section \<open>What the events say\<close>

fun recorded_of :: "DecodedEvent \<Rightarrow> AcquisitionRecordedEvent option" where
  "recorded_of d = (case dv_args d of
     AcquisitionRecorded i t spent acquired dist res \<Rightarrow>
       Some \<lparr>rec_acquisitionId = i, rec_stockToken = t, rec_wethSpent = spent, rec_acquiredStock = acquired,
         rec_distributionAmount = dist, rec_reserveAmount = res, rec_ref = Some (refOf d)\<rparr>
   | _ \<Rightarrow> None)"

fun funded_of :: "DecodedEvent \<Rightarrow> AcquisitionFundedEvent option" where
  "funded_of d = (case dv_args d of
     AcquisitionFunded i c t amount root \<Rightarrow>
       Some \<lparr>fu_acquisitionId = i, fu_cycleId = c, fu_stockToken = t, fu_amount = amount, fu_merkleRoot = root,
         fu_ref = Some (refOf d)\<rparr>
   | _ \<Rightarrow> None)"

fun claim_of :: "int \<Rightarrow> string \<Rightarrow> DecodedEvent \<Rightarrow> int" where
  "claim_of c t d = (case dv_args d of
     Claimed c' t' amount \<Rightarrow> if c' = c \<and> lower t' = lower t then amount else 0 | _ \<Rightarrow> 0)"

fun accrued_of :: "DecodedEvent \<Rightarrow> int" where
  "accrued_of d = (case dv_args d of OfficialBuy budget _ _ \<Rightarrow> budget | OfficialSell budget _ _ \<Rightarrow> budget | _ \<Rightarrow> 0)"

fun bought_of :: "DecodedEvent \<Rightarrow> int" where
  "bought_of d = (case dv_args d of OfficialBuy _ _ g \<Rightarrow> g | _ \<Rightarrow> 0)"

fun sold_of :: "DecodedEvent \<Rightarrow> int" where
  "sold_of d = (case dv_args d of OfficialSell _ _ g \<Rightarrow> g | _ \<Rightarrow> 0)"

fun burned_of :: "DecodedEvent \<Rightarrow> int" where
  "burned_of d = (case dv_args d of OfficialBuy _ n _ \<Rightarrow> n | OfficialSell _ n _ \<Rightarrow> n | _ \<Rightarrow> 0)"

fun repurchased_of :: "DecodedEvent \<Rightarrow> int \<times> int" where
  "repurchased_of d = (case dv_args d of BpsRepurchasedAndBurned _ spent n \<Rightarrow> (spent, n) | _ \<Rightarrow> (0, 0))"

fun delivered_of :: "DecodedEvent \<Rightarrow> int" where
  "delivered_of d = (case dv_args d of StockBudgetDelivered _ _ amount \<Rightarrow> amount | _ \<Rightarrow> 0)"

definition recorded :: "DecodedEvent list \<Rightarrow> AcquisitionRecordedEvent list" where
  "recorded ds = List.map_filter recorded_of ds"

definition funded :: "DecodedEvent list \<Rightarrow> AcquisitionFundedEvent list" where
  "funded ds = List.map_filter funded_of ds"

lemma claimKey_inj: "claimKey c t = claimKey c' t' \<longleftrightarrow> c = c' \<and> lower t = lower t'"
  using dec_of_int_colon by (simp add: claimKey_def sep_inj)

lemma claimedAmount_update:
  "claimedAmount (AList.update k v m) k' = (if k' = k then v else claimedAmount m k')"
  by (simp add: claimedAmount_def update_conv')

lemma collect_step:
  "co_recorded (collect c d) = co_recorded c @ recorded [d]"
  "co_funded (collect c d) = co_funded c @ funded [d]"
  "claimedAmount (co_claimed (collect c d)) (claimKey i t) =
     claimedAmount (co_claimed c) (claimKey i t) + claim_of i t d"
  "(\<Sum>x\<leftarrow>co_trades (collect c d). ot_stockBudget x) =
     (\<Sum>x\<leftarrow>co_trades c. ot_stockBudget x) + accrued_of d"
     apply (simp add: collect_def recorded_def map_filter_simps split: EventArgs.split)
    apply (simp add: collect_def funded_def map_filter_simps split: EventArgs.split)
   apply (auto simp: collect_def claimedAmount_update claimKey_inj
     intro!: arg_cong [of _ _ "claimedAmount (co_claimed c)"] split: EventArgs.split)[1]
  apply (simp add: collect_def split: EventArgs.split)
  done

lemma recorded_Cons: "recorded (d # ds) = recorded [d] @ recorded ds"
  by (simp add: recorded_def map_filter_simps split: option.split)

lemma funded_Cons: "funded (d # ds) = funded [d] @ funded ds"
  by (simp add: funded_def map_filter_simps split: option.split)

lemma collect_fold:
  "co_recorded (foldl collect c ds) = co_recorded c @ recorded ds"
  "co_funded (foldl collect c ds) = co_funded c @ funded ds"
  "claimedAmount (co_claimed (foldl collect c ds)) (claimKey i t) =
     claimedAmount (co_claimed c) (claimKey i t) + (\<Sum>d\<leftarrow>ds. claim_of i t d)"
  "(\<Sum>x\<leftarrow>co_trades (foldl collect c ds). ot_stockBudget x) =
     (\<Sum>x\<leftarrow>co_trades c. ot_stockBudget x) + (\<Sum>d\<leftarrow>ds. accrued_of d)"
proof (induction ds arbitrary: c)
  case (Cons d ds)
  {
    case 1
    show ?case by (subst recorded_Cons) (simp add: Cons.IH collect_step)
  next
    case 2
    show ?case by (subst funded_Cons) (simp add: Cons.IH collect_step)
  next
    case 3
    show ?case by (simp add: Cons.IH collect_step del: claim_of.simps)
  next
    case 4
    show ?case by (simp add: Cons.IH collect_step del: accrued_of.simps)
  }
qed (simp_all add: recorded_def funded_def map_filter_simps)

text \<open>The totals of the collected events, as sums over the events.\<close>

lemma total_step:
  "(\<Sum>x\<leftarrow>filter ot_buy (co_trades (collect c d)). ot_gross x) =
     (\<Sum>x\<leftarrow>filter ot_buy (co_trades c). ot_gross x) + bought_of d"
  "(\<Sum>x\<leftarrow>filter (\<lambda>x. \<not> ot_buy x) (co_trades (collect c d)). ot_gross x) =
     (\<Sum>x\<leftarrow>filter (\<lambda>x. \<not> ot_buy x) (co_trades c). ot_gross x) + sold_of d"
  "(\<Sum>x\<leftarrow>co_trades (collect c d). ot_bpsBurned x) = (\<Sum>x\<leftarrow>co_trades c. ot_bpsBurned x) + burned_of d"
  "(\<Sum>x\<leftarrow>co_repurchases (collect c d). rb_wethSpent x) =
     (\<Sum>x\<leftarrow>co_repurchases c. rb_wethSpent x) + fst (repurchased_of d)"
  "(\<Sum>x\<leftarrow>co_repurchases (collect c d). rb_bpsBurned x) =
     (\<Sum>x\<leftarrow>co_repurchases c. rb_bpsBurned x) + snd (repurchased_of d)"
  "(\<Sum>x\<leftarrow>co_budgetDeliveries (collect c d). bd_amount x) =
     (\<Sum>x\<leftarrow>co_budgetDeliveries c. bd_amount x) + delivered_of d"
  by (simp_all add: collect_def split: EventArgs.split)

lemma fold_total:
  assumes "\<And>c d. f (collect c d) = f c + g d"
  shows "f (foldl collect c ds) = f c + (\<Sum>d\<leftarrow>ds. g d :: int)"
  by (induction ds arbitrary: c) (simp_all add: assms)

lemmas collect_totals = total_step [THEN fold_total]

lemma claimedAmount_Nil [simp]: "claimedAmount [] k = 0"
  by (simp add: claimedAmount_def)

lemma foldl_sum: "foldl (\<lambda>a x. a + f x) (k :: int) xs = k + (\<Sum>x\<leftarrow>xs. f x)"
  by (induction xs arbitrary: k) simp_all

lemma last_of_Some: "last_of kvs k = Some v \<Longrightarrow> (k, v) \<in> set kvs"
  unfolding last_of_def by (drule map_of_SomeD) simp

lemma last_of_None: "last_of kvs k = None \<longleftrightarrow> k \<notin> fst ` set kvs"
  by (simp add: last_of_def map_of_eq_None_iff)

text \<open>
  What a row shows of an acquisition: \<open>fs\<close> the fundings, \<open>claims\<close> what was claimed of a cycle's asset.
  Every figure carries its provenance: of fixture data \<open>fixture\<close>, otherwise where the figure comes from.
\<close>

definition shows_as :: "bool \<Rightarrow> 'a Tagged \<Rightarrow> 'a \<Rightarrow> Provenance \<Rightarrow> bool" where
  "shows_as isFixture field v base \<longleftrightarrow>
     tg_value field = v \<and> tg_provenance field = (if isFixture then fixture else base)"

definition row_truthful ::
  "bool \<Rightarrow> AcquisitionFundedEvent list \<Rightarrow> (int \<Rightarrow> string \<Rightarrow> int) \<Rightarrow> AcquisitionRecordedEvent \<Rightarrow> AcquisitionRow
    \<Rightarrow> bool" where
  "row_truthful isFixture fs claims r row \<longleftrightarrow>
     row_acquisitionId row = rec_acquisitionId r \<and> row_stockToken row = rec_stockToken r \<and>
     row_ref row = rec_ref r \<and>
     shows_as isFixture (row_wethSpent row) (rec_wethSpent r) onchain_verified \<and>
     shows_as isFixture (row_acquiredStock row) (rec_acquiredStock r) onchain_verified \<and>
     shows_as isFixture (row_distribution80 row) (rec_distributionAmount r) onchain_verified \<and>
     shows_as isFixture (row_reserve20 row) (rec_reserveAmount r) onchain_verified \<and>
     (row_splitReconciles row \<longleftrightarrow> rec_distributionAmount r = rec_acquiredStock r * 80 div 100 \<and>
        rec_reserveAmount r = rec_acquiredStock r - rec_distributionAmount r) \<and>
     (if rec_acquisitionId r \<in> fu_acquisitionId ` set fs
      then \<exists>f\<in>set fs. fu_acquisitionId f = rec_acquisitionId r \<and>
        shows_as isFixture (row_cycleId row) (Some (fu_cycleId f)) onchain_verified \<and>
        shows_as isFixture (row_released row) (Some (fu_amount f)) onchain_verified \<and>
        shows_as isFixture (row_claimed row) (Some (claims (fu_cycleId f) (fu_stockToken f))) derived \<and>
        shows_as isFixture (row_remaining row)
          (Some (fu_amount f - claims (fu_cycleId f) (fu_stockToken f))) onchain_verified \<and>
        shows_as isFixture (row_merkleRoot row) (Some (fu_merkleRoot f)) offchain_artifact
      else shows_as isFixture (row_cycleId row) None unavailable \<and>
        shows_as isFixture (row_released row) None unavailable \<and>
        shows_as isFixture (row_claimed row) None unavailable \<and>
        shows_as isFixture (row_remaining row) None unavailable \<and>
        shows_as isFixture (row_merkleRoot row) None unavailable)"

lemma acquisitionRow_ok:
  assumes "0 \<le> rec_acquiredStock r"
  shows "\<exists>row. acquisitionRow input r = Inr row"
proof -
  have "acquiredStockSplit (rec_acquiredStock r) = Inr
      (rec_acquiredStock r * 80 div 100, rec_acquiredStock r - rec_acquiredStock r * 80 div 100)"
    using assms by (simp add: acquiredStockSplit_eq)
  then show ?thesis by (simp add: acquisitionRow_def Let_def)
qed

lemma acquisitionRow_truthful:
  assumes "acquisitionRow input r = Inr row" and "distinct (map fu_cycleId (ti_funded input))"
    and "ti_cycleReads input = map (cycleReadOf claimed) (ti_funded input)"
  shows "row_truthful (ti_isFixture input) (ti_funded input)
    (\<lambda>c t. claimedAmount claimed (claimKey c t)) r row"
proof -
  let ?byId = "map (\<lambda>x. (dec_of_int (fu_acquisitionId x), x)) (ti_funded input)"
  let ?byCycle = "map (\<lambda>c. (dec_of_int (cr_cycleId c), c)) (ti_cycleReads input)"
  have split: "acquiredStockSplit (rec_acquiredStock r) = Inr
      (rec_acquiredStock r * 80 div 100, rec_acquiredStock r - rec_acquiredStock r * 80 div 100)"
    using assms(1) by (auto simp: acquisitionRow_def Let_def rbind_eq_Inr acquiredStockSplit_eq)
  show ?thesis
  proof (cases "last_of ?byId (dec_of_int (rec_acquisitionId r))")
    case None
    then have "rec_acquisitionId r \<notin> fu_acquisitionId ` set (ti_funded input)"
      by (auto simp: last_of_None image_iff)
    with assms(1) None split show ?thesis
      by (auto simp: acquisitionRow_def row_truthful_def shows_as_def Let_def tag_def)
  next
    case (Some f)
    have f: "f \<in> set (ti_funded input)" "fu_acquisitionId f = rec_acquisitionId r"
      using last_of_Some [OF Some] by auto
    have cyc: "last_of ?byCycle (dec_of_int (fu_cycleId f)) = Some (cycleReadOf claimed f)"
    proof (cases "last_of ?byCycle (dec_of_int (fu_cycleId f))")
      case None
      then show ?thesis using f(1) by (force simp: last_of_None assms(3) cycleReadOf_def)
    next
      case (Some c)
      then obtain g where "g \<in> set (ti_funded input)" "fu_cycleId g = fu_cycleId f" "c = cycleReadOf claimed g"
        using last_of_Some [OF Some] by (auto simp: assms(3)) (simp add: cycleReadOf_def)
      moreover from this have "g = f" using assms(2) f(1) by (auto simp: distinct_map inj_on_def)
      ultimately show ?thesis using Some by simp
    qed
    have mem: "rec_acquisitionId r \<in> fu_acquisitionId ` set (ti_funded input)" using f by (metis imageI)
    obtain d where d: "d = rec_acquiredStock r * 80 div 100" by simp
    note row = assms(1) [unfolded acquisitionRow_def Let_def Some, simplified split cyc d [symmetric], simplified]
    show ?thesis
      unfolding row_truthful_def if_P [OF mem] d [symmetric]
      using row f by (intro conjI bexI [of _ f]) (auto simp: tag_def shows_as_def cycleReadOf_def cyc)
  qed
qed

text \<open>
  C38: the report follows the decoded events: when no cycle is funded twice, there is one row per recorded
  acquisition, in order; a funded one shows the cycle, the amount released, the sum of all claims of its cycle
  and asset as claimed, the difference as remaining and the root of the funding, an unfunded one shows none
  of them; the 80/20 check is exact. The totals are the sums over the events: the budget accrues from buys
  and sells, and what is pending is what accrued beyond what was spent. Every figure of
  fixture data is tagged as such, and every other one with the provenance the report documents for it,
  a missing one as unavailable. The report fails only for a negative amount of acquired stock.
\<close>

theorem aggregateEvents_truthful:
  assumes "distinct (map fu_cycleId (funded ds))"
  shows "case aggregateEvents ds isFixture of
      Inl _ \<Rightarrow> \<exists>r\<in>set (recorded ds). rec_acquiredStock r < 0
    | Inr report \<Rightarrow>
        list_all2 (row_truthful isFixture (funded ds) (\<lambda>c t. \<Sum>d\<leftarrow>ds. claim_of c t d)) (recorded ds)
          (rp_acquisitions report) \<and>
        shows_as isFixture (rp_buyVolume report) (\<Sum>d\<leftarrow>ds. bought_of d) derived \<and>
        shows_as isFixture (rp_sellVolume report) (\<Sum>d\<leftarrow>ds. sold_of d) derived \<and>
        shows_as isFixture (rp_totalBpsBurned report) (\<Sum>d\<leftarrow>ds. burned_of d) derived \<and>
        shows_as isFixture (rp_budgetAccrued report) (\<Sum>d\<leftarrow>ds. accrued_of d) derived \<and>
        shows_as isFixture (rp_budgetSpent report) (\<Sum>r\<leftarrow>recorded ds. rec_wethSpent r) derived \<and>
        shows_as isFixture (rp_pendingBudget report)
          (max 0 ((\<Sum>d\<leftarrow>ds. accrued_of d) - (\<Sum>r\<leftarrow>recorded ds. rec_wethSpent r))) derived \<and>
        shows_as isFixture (rp_repurchaseWethSpent report) (\<Sum>d\<leftarrow>ds. fst (repurchased_of d)) onchain_verified \<and>
        shows_as isFixture (rp_repurchaseBpsBurned report) (\<Sum>d\<leftarrow>ds. snd (repurchased_of d)) onchain_verified \<and>
        shows_as isFixture (rp_stockBudgetDelivered report) (\<Sum>d\<leftarrow>ds. delivered_of d) onchain_verified"
proof -
  define c where "c = foldl collect \<lparr>co_trades = [], co_recorded = [], co_funded = [], co_repurchases = [],
            co_budgetDeliveries = [], co_claimed = []\<rparr> ds"
  define input where "input = \<lparr>ti_trades = co_trades c, ti_recorded = co_recorded c,
           ti_funded = co_funded c, ti_cycleReads = map (cycleReadOf (co_claimed c)) (co_funded c),
           ti_repurchases = co_repurchases c, ti_budgetDeliveries = co_budgetDeliveries c,
           ti_isFixture = isFixture\<rparr>"
  have c: "co_recorded c = recorded ds" "co_funded c = funded ds"
    "\<And>i t. claimedAmount (co_claimed c) (claimKey i t) = (\<Sum>d\<leftarrow>ds. claim_of i t d)"
    "(\<Sum>x\<leftarrow>co_trades c. ot_stockBudget x) = (\<Sum>d\<leftarrow>ds. accrued_of d)"
    by (simp_all add: c_def collect_fold del: claim_of.simps accrued_of.simps)
  have t: "(\<Sum>x\<leftarrow>filter ot_buy (co_trades c). ot_gross x) = (\<Sum>d\<leftarrow>ds. bought_of d)"
    "(\<Sum>x\<leftarrow>filter (\<lambda>x. \<not> ot_buy x) (co_trades c). ot_gross x) = (\<Sum>d\<leftarrow>ds. sold_of d)"
    "(\<Sum>x\<leftarrow>co_trades c. ot_bpsBurned x) = (\<Sum>d\<leftarrow>ds. burned_of d)"
    "(\<Sum>x\<leftarrow>co_repurchases c. rb_wethSpent x) = (\<Sum>d\<leftarrow>ds. fst (repurchased_of d))"
    "(\<Sum>x\<leftarrow>co_repurchases c. rb_bpsBurned x) = (\<Sum>d\<leftarrow>ds. snd (repurchased_of d))"
    "(\<Sum>x\<leftarrow>co_budgetDeliveries c. bd_amount x) = (\<Sum>d\<leftarrow>ds. delivered_of d)"
    by (simp_all add: c_def collect_totals del: bought_of.simps sold_of.simps burned_of.simps
        repurchased_of.simps delivered_of.simps)
  have run: "aggregateEvents ds isFixture = buildTransparencyReport input"
    by (simp add: aggregateEvents_def c_def [symmetric] input_def Let_def)
  show ?thesis
  proof (cases "buildTransparencyReport input")
    case (Inl err)
    then obtain r where "r \<in> set (recorded ds)" "\<forall>row. acquisitionRow input r \<noteq> Inr row"
      using rmap_total [of "recorded ds" "acquisitionRow input" "\<lambda>r. projr (acquisitionRow input r)"]
      by (fastforce simp: buildTransparencyReport_def Let_def rbind_eq_Inl input_def c)
    moreover from this have "rec_acquiredStock r < 0"
      using acquisitionRow_ok [of r input] by (meson not_less)
    ultimately show ?thesis using Inl run by auto
  next
    case (Inr report)
    then have rows: "list_all2 (\<lambda>r row. acquisitionRow input r = Inr row) (recorded ds) (rp_acquisitions report)"
      by (auto simp: buildTransparencyReport_def Let_def rbind_eq_Inr rmap_eq_Inr input_def c)
    have "list_all2 (row_truthful isFixture (funded ds) (\<lambda>c t. \<Sum>d\<leftarrow>ds. claim_of c t d)) (recorded ds)
        (rp_acquisitions report)"
      using rows
    proof (rule list_all2_mono)
      fix r row assume "acquisitionRow input r = Inr row"
      from acquisitionRow_truthful [OF this, of "co_claimed c"] assms
      show "row_truthful isFixture (funded ds) (\<lambda>c t. \<Sum>d\<leftarrow>ds. claim_of c t d) r row"
        by (simp add: input_def c)
    qed
    with Inr run show ?thesis
      by (auto simp: buildTransparencyReport_def Let_def rbind_eq_Inr input_def c t foldl_sum shows_as_def
          tag_def max_def simp del: bought_of.simps sold_of.simps burned_of.simps accrued_of.simps
          claim_of.simps repurchased_of.simps delivered_of.simps)
  qed
qed

definition exampleEvents :: "DecodedEvent list" where
  "exampleEvents = map (\<lambda>(i, e). \<lparr>dv_args = e, dv_blockNumber = 100 + i, dv_transactionHash = ''0xaa'',
     dv_logIndex = i, dv_address = ''0x01''\<rparr>)
     [(0, OfficialBuy 900 3 30000), (1, AcquisitionRecorded 1 ''0xAB'' 500 1001 800 201),
      (2, AcquisitionFunded 1 7 ''0xAB'' 800 ''0x05''), (3, Claimed 7 ''0xab'' 120), (4, Claimed 7 ''0xAb'' 30),
      (5, Claimed 8 ''0xab'' 11), (6, AcquisitionRecorded 2 ''0xCD'' 100 10 7 3)]"

theorem aggregateEvents_truthful_witness:
  "(case aggregateEvents exampleEvents True of Inl _ \<Rightarrow> False
    | Inr report \<Rightarrow> list_all2 (row_truthful True (funded exampleEvents)
        (\<lambda>c t. \<Sum>d\<leftarrow>exampleEvents. claim_of c t d)) (recorded exampleEvents) (rp_acquisitions report) \<and>
      tg_provenance (rp_budgetAccrued report) = fixture) \<and>
   (case aggregateEvents exampleEvents False of Inl _ \<Rightarrow> False
    | Inr report \<Rightarrow>
      map (tg_value \<circ> row_claimed) (rp_acquisitions report) = [Some 150, None] \<and>
      map (tg_provenance \<circ> row_merkleRoot) (rp_acquisitions report) = [offchain_artifact, unavailable] \<and>
      tg_value (rp_pendingBudget report) = 300 \<and> tg_provenance (rp_pendingBudget report) = derived)"
proof -
  have ok: "distinct (map fu_cycleId (funded exampleEvents))"
    "is_ok (aggregateEvents exampleEvents True)"
    "case aggregateEvents exampleEvents False of Inl _ \<Rightarrow> False
     | Inr report \<Rightarrow> map (tg_value \<circ> row_claimed) (rp_acquisitions report) = [Some 150, None] \<and>
        map (tg_provenance \<circ> row_merkleRoot) (rp_acquisitions report) = [offchain_artifact, unavailable] \<and>
        tg_value (rp_pendingBudget report) = 300"
    by code_simp+
  from ok(2) obtain report where "aggregateEvents exampleEvents True = Inr report" by (auto simp: is_ok_iff)
  moreover from ok(3) obtain report' where "aggregateEvents exampleEvents False = Inr report'"
    by (cases "aggregateEvents exampleEvents False") auto
  ultimately show ?thesis
    using aggregateEvents_truthful [OF ok(1), of True] aggregateEvents_truthful [OF ok(1), of False] ok(3)
    by (simp add: shows_as_def del: claim_of.simps accrued_of.simps)
qed

lemmas reads = readCycleUsed_def readCycleAcquisitionId_def readAcquisition_def attempt_def

text \<open>
  A cycle is confirmed exactly when the chain itself says so at each read: it is unused and no event
  claims otherwise, or it is used, bound to a non-zero acquisition that agrees with the events, whose record
  is funded, not empty, names this very cycle and repeats every amount the events gave.
\<close>

theorem reconcileCycleAcquisition_ok:
  "an_ok (reconcileCycleAcquisition client coord cycleId expectation) \<longleftrightarrow>
   (pc_cycleUsed (client 0) coord cycleId = Inr False \<and> expectation = None) \<or>
   (\<exists>i token spent acquired dist res. pc_cycleUsed (client 0) coord cycleId = Inr True \<and>
      pc_cycleAcquisitionId (client 1) coord cycleId = Inr i \<and> i \<noteq> 0 \<and>
      pc_acquisitions (client 2) coord i = Inr (2, token, spent, acquired, dist, res, cycleId) \<and>
      (lower token \<noteq> ''0x'' @ replicate 40 (CHR ''0'') \<or> cycleId \<noteq> 0 \<or> dist \<noteq> 0 \<or> acquired \<noteq> 0) \<and>
      (case expectation of None \<Rightarrow> True
       | Some e \<Rightarrow> ee_acquisitionId e = i \<and> ee_wethSpent e \<in> {None, Some spent} \<and>
           ee_distributionAmount e \<in> {None, Some dist} \<and> ee_reserveAmount e \<in> {None, Some res} \<and>
           ee_acquiredStock e \<in> {None, Some acquired}))"
  (is "?l \<longleftrightarrow> ?r")
proof (cases "pc_cycleUsed (client 0) coord cycleId")
  case (Inr used)
  show ?thesis
  proof (cases used)
    case True
    show ?thesis
    proof (cases "pc_cycleAcquisitionId (client 1) coord cycleId")
      case (Inr i)
      note used = \<open>pc_cycleUsed (client 0) coord cycleId = Inr used\<close> True
      show ?thesis
      proof (cases "pc_acquisitions (client 2) coord i")
        case acquisition: (Inr a)
        obtain status token spent acquired dist res cyc
          where "a = (status, token, spent, acquired, dist, res, cyc)" by (metis prod_cases7)
        with Inr used acquisition show ?thesis
          by (cases expectation)
            (simp_all add: reconcileCycleAcquisition_def Let_def reads isEmptyRecord_def ZERO_ADDR_def
              STATUS_FUNDED_def disagree_def differs_def)
      qed (use Inr used in \<open>simp add: reconcileCycleAcquisition_def Let_def reads\<close>)
    qed (use Inr True in \<open>simp add: reconcileCycleAcquisition_def Let_def reads\<close>)
  qed (simp add: Inr reconcileCycleAcquisition_def Let_def reads)
qed (simp add: reconcileCycleAcquisition_def Let_def reads)

end
