(* ===== verification/Preflight.thy ===== *)
theory Preflight
  imports Complex_Main Settlement Serialize
begin

text \<open>
  \<open>packages/rialto/src/canary-preflight.ts\<close>: the read-only readiness report of the guarded-settlement
  canary. The injected \<open>ChainReader\<close> and the ABI coding and hashing of viem are parameters, any read
  may fail with any error. The report is built by appending to the lists of checks and flags, so that what
  was added before a read fails stays in it. A \<open>number\<close> of the configuration is a whole number, a
  fraction with its text, NaN or an infinity. The em dash is its three UTF-8 bytes.
\<close>

section \<open>Constants\<close>

definition ROBINHOOD_CHAIN_ID :: int where "ROBINHOOD_CHAIN_ID = 4663"
definition FEATURE_ID :: int where "FEATURE_ID = 2"
definition ETH_USD_FEED :: string where "ETH_USD_FEED = ''0x78F3556b67E17Df817D51Ef5a990cDaF09E8d3A9''"
definition NVDA_USD_FEED :: string where "NVDA_USD_FEED = ''0x379EC4f7C378F34a1B47E4F3cbeBCbAC3E8E9F15''"
definition ETH_USD_FEED_DESCRIPTION :: string where "ETH_USD_FEED_DESCRIPTION = ''ETH / USD''"
definition NVDA_USD_FEED_DESCRIPTION :: string where "NVDA_USD_FEED_DESCRIPTION = ''RHNVDA / USD''"
definition EXPECTED_FEED_DECIMALS :: int where "EXPECTED_FEED_DECIMALS = 8"
definition EXPECTED_TOKEN_DECIMALS :: int where "EXPECTED_TOKEN_DECIMALS = 18"
definition WETH_SYMBOL :: string where "WETH_SYMBOL = ''WETH''"
definition NVDA_SYMBOL :: string where "NVDA_SYMBOL = ''NVDA''"
definition ROUTER_CODE_HASH :: string where
  "ROUTER_CODE_HASH = ''0xa7041268d6f20802f420b5c71e84a991dc797f27cb474265598b89e43ef27611''"
definition EXPECTED_SETTLEMENT_SELECTOR :: string where "EXPECTED_SETTLEMENT_SELECTOR = ''0x77963966''"
definition CANARY_MAX_SELL_WETH :: int where "CANARY_MAX_SELL_WETH = 1000000000000000"
definition MAX_FEED_AGE_CEILING_SEC :: int where "MAX_FEED_AGE_CEILING_SEC = 900"
definition FLAG_CONTROLLER_REQUIRED :: string where "FLAG_CONTROLLER_REQUIRED = ''CONTROLLER_REQUIRED''"
definition FLAG_NVDA_STALE_MARKET_CLOSED :: string where
  "FLAG_NVDA_STALE_MARKET_CLOSED = ''NVDA_FEED_STALE_MARKET_CLOSED''"
definition FLAG_ETH_FEED_STALE :: string where "FLAG_ETH_FEED_STALE = ''ETH_USD_FEED_STALE''"

section \<open>The reader, the configuration and the report\<close>

datatype thrown = ErrorObject string string | OtherThrown string

text \<open>\<open>e.message.split("\n")[0]\<close>.\<close>

definition firstLine :: "string \<Rightarrow> string" where
  "firstLine m = takeWhile (\<lambda>c. c \<noteq> char_of (10 :: nat)) m"

fun short :: "thrown \<Rightarrow> string" where
  "short (ErrorObject n m) = n @ '': '' @ take 120 (firstLine m)"
| "short (OtherThrown s) = take 120 s"

record ChainReader =
  rd_getChainId :: "thrown + int"
  rd_getCode :: "string \<Rightarrow> thrown + string"
  rd_call :: "string \<Rightarrow> string \<Rightarrow> thrown + string"

text \<open>The views of the ABI constants; each result type has its decoder.\<close>

datatype View = view_decimals | view_description | view_latestRoundData | view_ownerOf int | view_symbol
  | view_oraclePaused | view_paused

record Viem =
  vm_encode :: "View \<Rightarrow> string"
  vm_uint8 :: "string \<Rightarrow> thrown + int"
  vm_string :: "string \<Rightarrow> thrown + string"
  vm_address :: "string \<Rightarrow> thrown + string"
  vm_bool :: "string \<Rightarrow> thrown + bool"
  vm_round :: "string \<Rightarrow> thrown + int \<times> int \<times> int \<times> int \<times> int"
  vm_keccak256 :: "string \<Rightarrow> string"

datatype JsNumber = Whole int | Fraction rat string | NaN | Infinite bool

fun numberText :: "JsNumber \<Rightarrow> string" where
  "numberText (Whole n) = dec_of_int n"
| "numberText (Fraction _ t) = t"
| "numberText NaN = ''NaN''"
| "numberText (Infinite positive) = (if positive then ''Infinity'' else ''-Infinity'')"

text \<open>\<open>a <= n\<close> for a whole number \<open>a\<close>.\<close>

fun leNumber :: "int \<Rightarrow> JsNumber \<Rightarrow> bool" where
  "leNumber a (Whole n) \<longleftrightarrow> a \<le> n"
| "leNumber a (Fraction q _) \<longleftrightarrow> rat_of_int a \<le> q"
| "leNumber a NaN \<longleftrightarrow> False"
| "leNumber a (Infinite positive) \<longleftrightarrow> positive"

fun ageOk :: "JsNumber \<Rightarrow> bool" where
  "ageOk (Whole age) \<longleftrightarrow> age > 0 \<and> age \<le> MAX_FEED_AGE_CEILING_SEC"
| "ageOk (Fraction _ _) \<longleftrightarrow> False"
| "ageOk NaN \<longleftrightarrow> False"
| "ageOk (Infinite _) \<longleftrightarrow> False"

record CanaryPreflightConfig =
  pc_controller :: "string option"
  pc_executor :: "string option"
  pc_sequencerFeed :: string
  pc_maxWethFeedAgeSec :: JsNumber
  pc_maxNvdaFeedAgeSec :: JsNumber
  pc_canaryCapWei :: int
  pc_nowSec :: int
  pc_qex1Consumed :: bool
  pc_expectedRouterCodeHash :: "string option"

record CheckResult =
  ck_id :: string
  ck_ok :: bool
  ck_detail :: string

datatype CanaryStatus = CANARY_BUILD_READY_EXECUTION_LOCKED | CANARY_NOT_READY

record CanaryReadinessReport =
  cr_status :: CanaryStatus
  cr_executionLocked :: bool
  cr_chainId :: "int option"
  cr_checks :: "CheckResult list"
  cr_failed :: "string list"
  cr_flags :: "string list"

text \<open>The two lists the evaluation grows.\<close>

record Findings =
  fd_checks :: "CheckResult list"
  fd_flags :: "string list"

definition add :: "string \<Rightarrow> bool \<Rightarrow> string \<Rightarrow> Findings \<Rightarrow> Findings" where
  "add i ok detail s = s\<lparr>fd_checks := fd_checks s @ [\<lparr>ck_id = i, ck_ok = ok, ck_detail = detail\<rparr>]\<rparr>"

definition flag :: "string \<Rightarrow> Findings \<Rightarrow> Findings" where
  "flag f s = s\<lparr>fd_flags := set_add f (fd_flags s)\<rparr>"

section \<open>The checks\<close>

definition eqAddr :: "string \<Rightarrow> string \<Rightarrow> bool" where
  "eqAddr a b \<longleftrightarrow> lower a = lower b"

definition isZeroOrDead :: "string \<Rightarrow> bool" where
  "isZeroOrDead a \<longleftrightarrow> eqAddr a ZERO_ADDRESS \<or> eqAddr a DEAD_ADDRESS"

definition readView :: "Viem \<Rightarrow> ChainReader \<Rightarrow> string \<Rightarrow> View \<Rightarrow> (string \<Rightarrow> thrown + 'a) \<Rightarrow> thrown + 'a" where
  "readView vm reader target view decode = rbind (rd_call reader target (vm_encode vm view)) decode"

definition hasCode :: "string \<Rightarrow> bool" where
  "hasCode code \<longleftrightarrow> code \<noteq> [] \<and> code \<noteq> ''0x''"

definition codeCheck :: "ChainReader \<Rightarrow> string \<Rightarrow> string \<Rightarrow> Findings \<Rightarrow> Findings" where
  "codeCheck reader i addr s =
     (case rd_getCode reader addr of
        Inl e \<Rightarrow> add i False (addr @ '' getCode failed: '' @ short e) s
      | Inr code \<Rightarrow> add i (hasCode code) (addr @ '' code present='' @ boolText (hasCode code)) s)"

definition tokenCheck ::
  "Viem \<Rightarrow> ChainReader \<Rightarrow> string \<Rightarrow> string \<Rightarrow> string \<Rightarrow> Findings \<Rightarrow> Findings" where
  "tokenCheck vm reader i addr expectedSymbol s =
     (let failed = (\<lambda>e. add (i @ ''-token'') False (addr @ '' token check failed: '' @ short e)) in
      case rd_getCode reader addr of
        Inl e \<Rightarrow> failed e s
      | Inr code \<Rightarrow>
          if \<not> hasCode code then add (i @ ''-token'') False (addr @ '' has no code'') s
          else
            (case readView vm reader addr view_decimals (vm_uint8 vm) of
               Inl e \<Rightarrow> failed e s
             | Inr dec \<Rightarrow>
                 (let s = add (i @ ''-token-decimals'') (dec = EXPECTED_TOKEN_DECIMALS)
                        (addr @ '' decimals='' @ dec_of_int dec @ '' (expected '' @
                         dec_of_int EXPECTED_TOKEN_DECIMALS @ '')'') s in
                  case readView vm reader addr view_symbol (vm_string vm) of
                    Inl e \<Rightarrow> failed e s
                  | Inr symb \<Rightarrow> add (i @ ''-token-symbol'') (symb = expectedSymbol)
                      (''symbol='' @ quote symb @ '' (expected '' @ quote expectedSymbol @ '')'') s)))"

text \<open>The rows of a read round: the answer, the round, the age and the flag of a stale answer.\<close>

fun roundChecks ::
  "int \<Rightarrow> string \<Rightarrow> JsNumber \<Rightarrow> string \<Rightarrow> int \<times> int \<times> int \<times> int \<times> int \<Rightarrow> Findings \<Rightarrow> Findings" where
  "roundChecks nowSec i maxAgeSec staleFlagToken (roundId, answer, startedAt, updatedAt, answeredInRound) s =
     (let positive = answer > 0;
          completeRound = roundId \<noteq> 0 \<and> answeredInRound \<ge> roundId;
          ts = updatedAt;
          age = nowSec - ts;
          fresh = ts > 0 \<and> ts \<le> nowSec \<and> leNumber age maxAgeSec;
          s = add (i @ ''-feed-answer'') positive (''answer>0='' @ boolText positive) s;
          s = add (i @ ''-feed-round'') completeRound
            (''roundId!=0 && answeredInRound>=roundId = '' @ boolText completeRound) s;
          s = add (i @ ''-feed-fresh'') fresh
            (''age='' @ dec_of_int age @ ''s (max '' @ numberText maxAgeSec @ ''s)'') s
      in if \<not> fresh \<and> ts > 0 \<and> ts \<le> nowSec then flag staleFlagToken s else s)"

definition feedCheck ::
  "Viem \<Rightarrow> ChainReader \<Rightarrow> int \<Rightarrow> string \<Rightarrow> string \<Rightarrow> string \<Rightarrow> JsNumber \<Rightarrow> string \<Rightarrow> Findings \<Rightarrow> Findings" where
  "feedCheck vm reader nowSec i addr expectedDescription maxAgeSec staleFlagToken s =
     (let failed = (\<lambda>e. add (i @ ''-feed'') False (addr @ '' feed check failed: '' @ short e)) in
      case rd_getCode reader addr of
        Inl e \<Rightarrow> failed e s
      | Inr code \<Rightarrow>
          if \<not> hasCode code then add (i @ ''-feed'') False (addr @ '' has no code'') s
          else
            (case readView vm reader addr view_decimals (vm_uint8 vm) of
               Inl e \<Rightarrow> failed e s
             | Inr dec \<Rightarrow>
                 (let s = add (i @ ''-feed-decimals'') (dec = EXPECTED_FEED_DECIMALS)
                        (''decimals='' @ dec_of_int dec @ '' (expected '' @
                         dec_of_int EXPECTED_FEED_DECIMALS @ '')'') s in
                  case readView vm reader addr view_description (vm_string vm) of
                    Inl e \<Rightarrow> failed e s
                  | Inr desc \<Rightarrow>
                      (let s = add (i @ ''-feed-description'') (desc = expectedDescription)
                             (''description='' @ quote desc @ '' (expected '' @ quote expectedDescription
                              @ '')'') s in
                       case readView vm reader addr view_latestRoundData (vm_round vm) of
                         Inl e \<Rightarrow> failed e s
                       | Inr rd \<Rightarrow> roundChecks nowSec i maxAgeSec staleFlagToken rd s))))"

section \<open>The evaluation\<close>

definition checkChain :: "ChainReader \<Rightarrow> Findings \<Rightarrow> int option \<times> Findings" where
  "checkChain reader s =
     (case rd_getChainId reader of
        Inl e \<Rightarrow> (None, add ''chain-id'' False (''chainId read failed: '' @ short e) s)
      | Inr chainId \<Rightarrow> (Some chainId, add ''chain-id'' (chainId = ROBINHOOD_CHAIN_ID)
          (''chainId='' @ dec_of_int chainId @ '' (expected '' @ dec_of_int ROBINHOOD_CHAIN_ID @ '')'') s))"

definition selectorOk :: bool where
  "selectorOk \<longleftrightarrow> eqAddr OPAQUE_SETTLEMENT_SELECTOR EXPECTED_SETTLEMENT_SELECTOR"

definition checkRouter ::
  "Viem \<Rightarrow> ChainReader \<Rightarrow> CanaryPreflightConfig \<Rightarrow> Findings \<Rightarrow> bool \<times> Findings" where
  "checkRouter vm reader config s =
     (let failed = (\<lambda>e. add ''router-owner'' False (''ownerOf(2) failed: '' @ short e)) in
      case readView vm reader OFFICIAL_REGISTRY (view_ownerOf FEATURE_ID) (vm_address vm) of
        Inl e \<Rightarrow> (False, failed e s)
      | Inr router \<Rightarrow>
          if isZeroOrDead router
          then (False, add ''router-owner'' False
            ''ownerOf(2) returned zero/dead router (feature 2 paused/uninitialized)'' s)
          else
            (let s = add ''router-owner'' True (''router='' @ router @ '' (feature 2 active/unpaused)'') s in
             case rd_getCode reader router of
               Inl e \<Rightarrow> (False, failed e s)
             | Inr code \<Rightarrow>
                 if \<not> hasCode code
                 then (False, add ''router-code-hash'' False (''router '' @ router @ '' has no code'') s)
                 else
                   (let expected = (case pc_expectedRouterCodeHash config of
                          None \<Rightarrow> ROUTER_CODE_HASH | Some h \<Rightarrow> h);
                        hash = vm_keccak256 vm code;
                        routerHashOk = eqAddr hash expected
                    in (routerHashOk, add ''router-code-hash'' routerHashOk
                         (''router codeHash '' @ (if routerHashOk then ''matches pin'' else ''MISMATCH'')) s))))"

definition checkOracle :: "Viem \<Rightarrow> ChainReader \<Rightarrow> Findings \<Rightarrow> Findings" where
  "checkOracle vm reader s =
     (case readView vm reader NVDA view_oraclePaused (vm_bool vm) of
        Inl e \<Rightarrow> add ''nvda-oracle-not-paused'' False (''oraclePaused read failed: '' @ short e) s
      | Inr paused \<Rightarrow> add ''nvda-oracle-not-paused'' (paused = False) (''oraclePaused='' @ boolText paused) s)"

definition checkSequencer :: "ChainReader \<Rightarrow> CanaryPreflightConfig \<Rightarrow> Findings \<Rightarrow> thrown + Findings" where
  "checkSequencer reader config s =
     (if eqAddr (pc_sequencerFeed config) ZERO_ADDRESS
      then Inr (add ''sequencer-policy'' True
        ''no sequencer feed configured (none officially published); dual-feed freshness enforced'' s)
      else rbind (rd_getCode reader (pc_sequencerFeed config)) (\<lambda>code.
        Inr (add ''sequencer-policy'' (hasCode code)
          (''sequencer feed '' @ pc_sequencerFeed config @ '' code present='' @ boolText (hasCode code)) s)))"

definition checkController :: "ChainReader \<Rightarrow> CanaryPreflightConfig \<Rightarrow> Findings \<Rightarrow> thrown + Findings" where
  "checkController reader config s =
     (case pc_controller config of
        None \<Rightarrow> Inr (flag FLAG_CONTROLLER_REQUIRED
          (add ''controller'' False (FLAG_CONTROLLER_REQUIRED @ '': no controller address supplied'') s))
      | Some c \<Rightarrow>
          if isZeroOrDead c then Inr (add ''controller'' False ''controller is zero/dead'' s)
          else rbind (rd_getCode reader c) (\<lambda>code.
            Inr (add ''controller'' (hasCode code) (''controller code present='' @ boolText (hasCode code)) s)))"

definition checkBounds :: "CanaryPreflightConfig \<Rightarrow> Findings \<Rightarrow> Findings" where
  "checkBounds config s =
     add ''feed-age-policy'' (ageOk (pc_maxWethFeedAgeSec config) \<and> ageOk (pc_maxNvdaFeedAgeSec config))
       (''maxWethAge='' @ numberText (pc_maxWethFeedAgeSec config) @ ''s maxNvdaAge='' @
        numberText (pc_maxNvdaFeedAgeSec config) @ ''s (must be 0<age<='' @
        dec_of_int MAX_FEED_AGE_CEILING_SEC @ '')'')
       (add ''canary-cap'' (pc_canaryCapWei config > 0 \<and> pc_canaryCapWei config \<le> CANARY_MAX_SELL_WETH)
         (''cap='' @ dec_of_int (pc_canaryCapWei config) @ '' wei (must be 0<cap<='' @
          dec_of_int CANARY_MAX_SELL_WETH @ '')'') s)"

definition checkLock ::
  "Viem \<Rightarrow> ChainReader \<Rightarrow> CanaryPreflightConfig \<Rightarrow> Findings \<Rightarrow> bool \<times> Findings" where
  "checkLock vm reader config s =
     (let failed = (\<lambda>e. (False, add ''execution-locked'' False (''executor paused() read failed: '' @ short e) s)) in
      case pc_executor config of
        None \<Rightarrow> (True, add ''execution-locked'' True ''executor not yet deployed (execution not possible)'' s)
      | Some executor \<Rightarrow>
          (case rd_getCode reader executor of
             Inl e \<Rightarrow> failed e
           | Inr code \<Rightarrow>
               if \<not> hasCode code
               then (True, add ''execution-locked'' True
                 ''executor address has no code yet (execution not possible)'' s)
               else
                 (case readView vm reader executor view_paused (vm_bool vm) of
                    Inl e \<Rightarrow> failed e
                  | Inr paused \<Rightarrow> (paused, add ''execution-locked'' paused
                      (''executor paused='' @ boolText paused) s))))"

text \<open>Steps 1 to 9, which no failing read leaves.\<close>

definition liveFindings ::
  "Viem \<Rightarrow> ChainReader \<Rightarrow> CanaryPreflightConfig \<Rightarrow> int option \<times> Findings" where
  "liveFindings vm reader config =
     (let (chainId, s) = checkChain reader \<lparr>fd_checks = [], fd_flags = []\<rparr>;
          s = add ''settlement-selector'' selectorOk
            (''selector='' @ OPAQUE_SETTLEMENT_SELECTOR @ '' (expected '' @ EXPECTED_SETTLEMENT_SELECTOR @ '')'') s;
          s = codeCheck reader ''registry-code'' OFFICIAL_REGISTRY s;
          (routerHashOk, s) = checkRouter vm reader config s;
          s = add ''selector-codehash-pairing'' (selectorOk \<and> routerHashOk)
            (''approved selector paired with pinned router code hash = '' @
             boolText (selectorOk \<and> routerHashOk)) s;
          s = tokenCheck vm reader ''weth'' WETH WETH_SYMBOL s;
          s = tokenCheck vm reader ''nvda'' NVDA NVDA_SYMBOL s;
          s = feedCheck vm reader (pc_nowSec config) ''eth-usd'' ETH_USD_FEED ETH_USD_FEED_DESCRIPTION
            (pc_maxWethFeedAgeSec config) FLAG_ETH_FEED_STALE s;
          s = feedCheck vm reader (pc_nowSec config) ''nvda-usd'' NVDA_USD_FEED NVDA_USD_FEED_DESCRIPTION
            (pc_maxNvdaFeedAgeSec config) FLAG_NVDA_STALE_MARKET_CLOSED s;
          s = checkOracle vm reader s
      in (chainId, s))"

definition evaluateCanaryReadiness ::
  "Viem \<Rightarrow> ChainReader \<Rightarrow> CanaryPreflightConfig \<Rightarrow> thrown + CanaryReadinessReport" where
  "evaluateCanaryReadiness vm reader config =
     (let (chainId, s) = liveFindings vm reader config
      in rbind (checkSequencer reader config s) (\<lambda>s.
         rbind (checkController reader config s) (\<lambda>s.
         let s = checkBounds config s;
             (executionLocked, s) = checkLock vm reader config s;
             s = add ''qex1-consumed'' (pc_qex1Consumed config)
               (''QEX1_CONSUMED='' @ boolText (pc_qex1Consumed config)) s;
             failed = map ck_id (filter (\<lambda>c. \<not> ck_ok c) (fd_checks s))
         in Inr \<lparr>cr_status = (if length failed = 0 \<and> executionLocked
                   then CANARY_BUILD_READY_EXECUTION_LOCKED else CANARY_NOT_READY),
              cr_executionLocked = executionLocked, cr_chainId = chainId, cr_checks = fd_checks s,
              cr_failed = failed, cr_flags = fd_flags s\<rparr>)))"

definition statusText :: "CanaryStatus \<Rightarrow> string" where
  "statusText st = (case st of
     CANARY_BUILD_READY_EXECUTION_LOCKED \<Rightarrow> ''CANARY_BUILD_READY_EXECUTION_LOCKED''
   | CANARY_NOT_READY \<Rightarrow> ''CANARY_NOT_READY'')"

definition checkLine :: "CheckResult \<Rightarrow> string" where
  "checkLine c = ''  ['' @ (if ck_ok c then ''PASS'' else ''FAIL'') @ ''] '' @ ck_id c @ '' ''
     @ [CHR 0xE2, CHR 0x80, CHR 0x94] @ '' '' @ ck_detail c"

definition formatCanaryReport :: "CanaryReadinessReport \<Rightarrow> string" where
  "formatCanaryReport r =
     join newline (
       [''BPS GUARDED-SETTLEMENT CANARY PREFLIGHT'',
        ''chainId: '' @ (case cr_chainId r of None \<Rightarrow> ''unknown'' | Some i \<Rightarrow> dec_of_int i),
        ''executionLocked: '' @ boolText (cr_executionLocked r), ''checks:'']
       @ map checkLine (cr_checks r)
       @ (if length (cr_failed r) > 0 then [''failed: '' @ join '', '' (cr_failed r)] else [])
       @ (if length (cr_flags r) > 0 then [''flags: '' @ join '', '' (cr_flags r)] else [])
       @ [''STATUS: '' @ statusText (cr_status r)])"

section \<open>Readiness\<close>

definition allOk :: "Findings \<Rightarrow> bool" where "allOk s \<longleftrightarrow> list_all ck_ok (fd_checks s)"

named_theorems passes

lemma allOk_add [passes]: "allOk (add i ok d s) \<longleftrightarrow> allOk s \<and> ok"
  by (auto simp: allOk_def add_def)

lemma allOk_flag [passes]: "allOk (flag f s) \<longleftrightarrow> allOk s"
  by (simp add: allOk_def flag_def)

text \<open>What the chain must show.\<close>

definition codeAt :: "ChainReader \<Rightarrow> string \<Rightarrow> bool" where
  "codeAt reader a \<longleftrightarrow> (case rd_getCode reader a of Inl _ \<Rightarrow> False | Inr code \<Rightarrow> hasCode code)"

definition tokenReady :: "Viem \<Rightarrow> ChainReader \<Rightarrow> string \<Rightarrow> string \<Rightarrow> bool" where
  "tokenReady vm reader a symb \<longleftrightarrow> codeAt reader a \<and>
     readView vm reader a view_decimals (vm_uint8 vm) = Inr 18 \<and>
     readView vm reader a view_symbol (vm_string vm) = Inr symb"

definition feedReady :: "Viem \<Rightarrow> ChainReader \<Rightarrow> int \<Rightarrow> string \<Rightarrow> string \<Rightarrow> JsNumber \<Rightarrow> bool" where
  "feedReady vm reader nowSec a description maxAge \<longleftrightarrow> codeAt reader a \<and>
     readView vm reader a view_decimals (vm_uint8 vm) = Inr 8 \<and>
     readView vm reader a view_description (vm_string vm) = Inr description \<and>
     (\<exists>roundId answer startedAt updatedAt answeredInRound.
        readView vm reader a view_latestRoundData (vm_round vm) =
          Inr (roundId, answer, startedAt, updatedAt, answeredInRound) \<and>
        answer > 0 \<and> roundId \<noteq> 0 \<and> answeredInRound \<ge> roundId \<and>
        0 < updatedAt \<and> updatedAt \<le> nowSec \<and> leNumber (nowSec - updatedAt) maxAge)"

definition routerReady :: "Viem \<Rightarrow> ChainReader \<Rightarrow> string \<Rightarrow> bool" where
  "routerReady vm reader pin \<longleftrightarrow>
     (\<exists>router code. readView vm reader OFFICIAL_REGISTRY (view_ownerOf 2) (vm_address vm) = Inr router \<and>
        \<not> isZeroOrDead router \<and> rd_getCode reader router = Inr code \<and> hasCode code \<and>
        lower (vm_keccak256 vm code) = lower pin)"

definition lockedOut :: "Viem \<Rightarrow> ChainReader \<Rightarrow> string option \<Rightarrow> bool" where
  "lockedOut vm reader executor \<longleftrightarrow> (case executor of None \<Rightarrow> True
     | Some a \<Rightarrow> (case rd_getCode reader a of Inl _ \<Rightarrow> False
         | Inr code \<Rightarrow> if hasCode code then readView vm reader a view_paused (vm_bool vm) = Inr True else True))"

lemma allOk_codeCheck [passes]: "allOk (codeCheck reader i a s) \<longleftrightarrow> allOk s \<and> codeAt reader a"
  by (simp add: codeCheck_def codeAt_def passes split: sum.split)

lemma allOk_tokenCheck [passes]:
  "allOk (tokenCheck vm reader i a symb s) \<longleftrightarrow> allOk s \<and> tokenReady vm reader a symb"
  by (auto simp: tokenCheck_def tokenReady_def codeAt_def passes Let_def EXPECTED_TOKEN_DECIMALS_def
      split: sum.split)

lemma allOk_feedCheck [passes]:
  "allOk (feedCheck vm reader nowSec i a d m f s) \<longleftrightarrow> allOk s \<and> feedReady vm reader nowSec a d m"
  by (auto simp: feedCheck_def feedReady_def codeAt_def passes Let_def EXPECTED_FEED_DECIMALS_def
      split: sum.split)

lemma allOk_checkOracle [passes]:
  "allOk (checkOracle vm reader s) \<longleftrightarrow>
   allOk s \<and> readView vm reader NVDA view_oraclePaused (vm_bool vm) = Inr False"
  by (simp add: checkOracle_def passes split: sum.split)

lemma allOk_checkBounds [passes]:
  "allOk (checkBounds config s) \<longleftrightarrow> allOk s \<and> 0 < pc_canaryCapWei config \<and>
     pc_canaryCapWei config \<le> CANARY_MAX_SELL_WETH \<and>
     ageOk (pc_maxWethFeedAgeSec config) \<and> ageOk (pc_maxNvdaFeedAgeSec config)"
  by (auto simp: checkBounds_def passes)

lemma allOk_checkChain [passes]:
  "allOk (snd (checkChain reader s)) \<longleftrightarrow> allOk s \<and> rd_getChainId reader = Inr 4663"
  by (auto simp: checkChain_def passes ROBINHOOD_CHAIN_ID_def split: sum.split)

lemma allOk_checkRouter [passes]:
  "allOk (snd (checkRouter vm reader config s)) \<longleftrightarrow> allOk s \<and>
   routerReady vm reader (case pc_expectedRouterCodeHash config of None \<Rightarrow> ROUTER_CODE_HASH | Some h \<Rightarrow> h)"
  by (auto simp: checkRouter_def routerReady_def passes Let_def FEATURE_ID_def eqAddr_def
      split: sum.split option.split)

lemma fst_checkRouter:
  "fst (checkRouter vm reader config s) \<longleftrightarrow>
   routerReady vm reader (case pc_expectedRouterCodeHash config of None \<Rightarrow> ROUTER_CODE_HASH | Some h \<Rightarrow> h)"
  by (auto simp: checkRouter_def routerReady_def Let_def FEATURE_ID_def eqAddr_def
      split: sum.split option.split)

lemma allOk_checkLock [passes]:
  "allOk (snd (checkLock vm reader config s)) \<longleftrightarrow> allOk s \<and> lockedOut vm reader (pc_executor config)"
  by (auto simp: checkLock_def lockedOut_def passes Let_def split: sum.split option.split)

lemma fst_checkLock: "fst (checkLock vm reader config s) \<longleftrightarrow> lockedOut vm reader (pc_executor config)"
  by (auto simp: checkLock_def lockedOut_def Let_def split: sum.split option.split)

lemma selectorOk [passes]: selectorOk
  by (simp add: selectorOk_def eqAddr_def OPAQUE_SETTLEMENT_SELECTOR_def EXPECTED_SETTLEMENT_SELECTOR_def)

definition sequencerReady :: "ChainReader \<Rightarrow> string \<Rightarrow> bool" where
  "sequencerReady reader feed \<longleftrightarrow> lower feed = ZERO_ADDRESS \<or> codeAt reader feed"

definition controllerReady :: "ChainReader \<Rightarrow> string option \<Rightarrow> bool" where
  "controllerReady reader controller \<longleftrightarrow>
     (case controller of None \<Rightarrow> False | Some c \<Rightarrow> \<not> isZeroOrDead c \<and> codeAt reader c)"

lemma lower_ZERO_ADDRESS [simp]: "lower ZERO_ADDRESS = ZERO_ADDRESS"
  by code_simp

lemma allOk_checkSequencer:
  "(\<exists>s'. checkSequencer reader config s = Inr s' \<and> allOk s') \<longleftrightarrow>
   allOk s \<and> sequencerReady reader (pc_sequencerFeed config)"
  by (auto simp: checkSequencer_def sequencerReady_def codeAt_def eqAddr_def passes rbind_eq_Inr split: sum.split)

lemma allOk_checkController:
  "(\<exists>s'. checkController reader config s = Inr s' \<and> allOk s') \<longleftrightarrow>
   allOk s \<and> controllerReady reader (pc_controller config)"
  by (auto simp: checkController_def controllerReady_def codeAt_def passes rbind_eq_Inr
      split: sum.split option.split)

text \<open>The checks before the sequencer, and the end of the evaluation.\<close>

definition liveChecks :: "Viem \<Rightarrow> ChainReader \<Rightarrow> CanaryPreflightConfig \<Rightarrow> bool" where
  "liveChecks vm reader config \<longleftrightarrow>
     rd_getChainId reader = Inr 4663 \<and> codeAt reader OFFICIAL_REGISTRY \<and>
     routerReady vm reader (case pc_expectedRouterCodeHash config of None \<Rightarrow> ROUTER_CODE_HASH | Some h \<Rightarrow> h) \<and>
     tokenReady vm reader WETH ''WETH'' \<and> tokenReady vm reader NVDA ''NVDA'' \<and>
     feedReady vm reader (pc_nowSec config) ETH_USD_FEED ''ETH / USD'' (pc_maxWethFeedAgeSec config) \<and>
     feedReady vm reader (pc_nowSec config) NVDA_USD_FEED ''RHNVDA / USD'' (pc_maxNvdaFeedAgeSec config) \<and>
     readView vm reader NVDA view_oraclePaused (vm_bool vm) = Inr False"

lemma failed_none: "filter (\<lambda>c. \<not> ck_ok c) (fd_checks s) = [] \<longleftrightarrow> allOk s"
  by (simp add: allOk_def filter_empty_conv list_all_iff)

lemma allOk_liveFindings: "allOk (snd (liveFindings vm reader config)) \<longleftrightarrow> liveChecks vm reader config"
  by (auto simp: liveFindings_def Let_def case_prod_beta passes fst_checkRouter liveChecks_def
      WETH_SYMBOL_def NVDA_SYMBOL_def ETH_USD_FEED_DESCRIPTION_def NVDA_USD_FEED_DESCRIPTION_def)
   (simp_all add: allOk_def)

definition boundsReady :: "Viem \<Rightarrow> ChainReader \<Rightarrow> CanaryPreflightConfig \<Rightarrow> bool" where
  "boundsReady vm reader config \<longleftrightarrow>
     0 < pc_canaryCapWei config \<and> pc_canaryCapWei config \<le> CANARY_MAX_SELL_WETH \<and>
     ageOk (pc_maxWethFeedAgeSec config) \<and> ageOk (pc_maxNvdaFeedAgeSec config) \<and>
     lockedOut vm reader (pc_executor config) \<and> pc_qex1Consumed config"

lemma evaluate_status:
  "(\<exists>r. evaluateCanaryReadiness vm reader config = Inr r \<and>
     cr_status r = CANARY_BUILD_READY_EXECUTION_LOCKED) \<longleftrightarrow>
   (\<exists>s1 s2. checkSequencer reader config (snd (liveFindings vm reader config)) = Inr s1 \<and>
     checkController reader config s1 = Inr s2 \<and> allOk s2 \<and> boundsReady vm reader config)"
proof (cases "checkSequencer reader config (snd (liveFindings vm reader config))")
  case (Inr s1)
  then show ?thesis
    by (cases "checkController reader config s1")
      (auto simp: evaluateCanaryReadiness_def Let_def case_prod_beta failed_none passes fst_checkLock
        boundsReady_def)
qed (simp add: evaluateCanaryReadiness_def Let_def case_prod_beta)

lemma preflight_ready_iff:
  "(\<exists>r. evaluateCanaryReadiness vm reader config = Inr r \<and>
     cr_status r = CANARY_BUILD_READY_EXECUTION_LOCKED) \<longleftrightarrow>
   liveChecks vm reader config \<and> sequencerReady reader (pc_sequencerFeed config) \<and>
   controllerReady reader (pc_controller config) \<and> 0 < pc_canaryCapWei config \<and>
   pc_canaryCapWei config \<le> 10 ^ 15 \<and> ageOk (pc_maxWethFeedAgeSec config) \<and>
   ageOk (pc_maxNvdaFeedAgeSec config) \<and> lockedOut vm reader (pc_executor config) \<and> pc_qex1Consumed config"
proof -
  have "(\<exists>s1 s2. checkSequencer reader config s = Inr s1 \<and> checkController reader config s1 = Inr s2 \<and> allOk s2)
      \<longleftrightarrow> allOk s \<and> sequencerReady reader (pc_sequencerFeed config) \<and>
        controllerReady reader (pc_controller config)" for s
    using allOk_checkSequencer [of reader config s] allOk_checkController [of reader config] by metis
  then show ?thesis
    unfolding evaluate_status allOk_liveFindings [symmetric] boundsReady_def
    by (simp add: CANARY_MAX_SELL_WETH_def) blast
qed

text \<open>
  C39: the report says ready exactly when everything it stands for was read from the chain: the chain, the
  registry's code, the pinned router behind feature 2, both tokens, both feeds with a positive, complete and
  fresh answer, an unpaused stock oracle, a sequencer feed that is zero or has code, a controller that is a
  contract, the bounded cap and ages, an executor that cannot execute, and the consumed quote evaluation.
\<close>

theorem evaluateCanaryReadiness_ready:
  "(\<exists>r. evaluateCanaryReadiness vm reader config = Inr r \<and>
     cr_status r = CANARY_BUILD_READY_EXECUTION_LOCKED) \<longleftrightarrow>
   liveChecks vm reader config \<and> sequencerReady reader (pc_sequencerFeed config) \<and>
   controllerReady reader (pc_controller config) \<and> 0 < pc_canaryCapWei config \<and>
   pc_canaryCapWei config \<le> 10 ^ 15 \<and> ageOk (pc_maxWethFeedAgeSec config) \<and>
   ageOk (pc_maxNvdaFeedAgeSec config) \<and> lockedOut vm reader (pc_executor config) \<and> pc_qex1Consumed config"
  by (rule preflight_ready_iff)

subsection \<open>What a failing read becomes\<close>

text \<open>
  The check that a failing read of the chain has to fail, for every read inside a \<open>try\<close>; a read counts only
  where the evaluation reaches it.
\<close>

definition tokenUnread :: "Viem \<Rightarrow> ChainReader \<Rightarrow> string \<Rightarrow> bool" where
  "tokenUnread vm reader a \<longleftrightarrow> \<not> is_ok (rd_getCode reader a) \<or>
     codeAt reader a \<and> (\<not> is_ok (readView vm reader a view_decimals (vm_uint8 vm)) \<or>
       \<not> is_ok (readView vm reader a view_symbol (vm_string vm)))"

definition feedUnread :: "Viem \<Rightarrow> ChainReader \<Rightarrow> string \<Rightarrow> bool" where
  "feedUnread vm reader a \<longleftrightarrow> \<not> is_ok (rd_getCode reader a) \<or>
     codeAt reader a \<and> (\<not> is_ok (readView vm reader a view_decimals (vm_uint8 vm)) \<or>
       \<not> is_ok (readView vm reader a view_description (vm_string vm)) \<or>
       \<not> is_ok (readView vm reader a view_latestRoundData (vm_round vm)))"

definition routerUnread :: "Viem \<Rightarrow> ChainReader \<Rightarrow> bool" where
  "routerUnread vm reader \<longleftrightarrow>
     (case readView vm reader OFFICIAL_REGISTRY (view_ownerOf 2) (vm_address vm) of
        Inl _ \<Rightarrow> True
      | Inr router \<Rightarrow> \<not> isZeroOrDead router \<and> \<not> is_ok (rd_getCode reader router))"

definition executorUnread :: "Viem \<Rightarrow> ChainReader \<Rightarrow> string option \<Rightarrow> bool" where
  "executorUnread vm reader executor \<longleftrightarrow>
     (\<exists>a. executor = Some a \<and> (\<not> is_ok (rd_getCode reader a) \<or>
        codeAt reader a \<and> \<not> is_ok (readView vm reader a view_paused (vm_bool vm))))"

definition readFails :: "Viem \<Rightarrow> ChainReader \<Rightarrow> CanaryPreflightConfig \<Rightarrow> string \<Rightarrow> bool" where
  "readFails vm reader config i \<longleftrightarrow>
     i = ''chain-id'' \<and> \<not> is_ok (rd_getChainId reader) \<or>
     i = ''registry-code'' \<and> \<not> is_ok (rd_getCode reader OFFICIAL_REGISTRY) \<or>
     i = ''router-owner'' \<and> routerUnread vm reader \<or>
     i = ''weth-token'' \<and> tokenUnread vm reader WETH \<or>
     i = ''nvda-token'' \<and> tokenUnread vm reader NVDA \<or>
     i = ''eth-usd-feed'' \<and> feedUnread vm reader ETH_USD_FEED \<or>
     i = ''nvda-usd-feed'' \<and> feedUnread vm reader NVDA_USD_FEED \<or>
     i = ''nvda-oracle-not-paused'' \<and> \<not> is_ok (readView vm reader NVDA view_oraclePaused (vm_bool vm)) \<or>
     i = ''execution-locked'' \<and> executorUnread vm reader (pc_executor config)"

definition failing :: "string \<Rightarrow> Findings \<Rightarrow> bool" where
  "failing i s \<longleftrightarrow> (\<exists>c\<in>set (fd_checks s). ck_id c = i \<and> \<not> ck_ok c)"

lemma failing_add [simp]: "failing i (add j ok d s) \<longleftrightarrow> failing i s \<or> j = i \<and> \<not> ok"
  by (auto simp: failing_def add_def)

lemma failing_flag [simp]: "failing i (flag f s) \<longleftrightarrow> failing i s"
  by (simp add: failing_def flag_def)

lemma failing_roundChecks: "failing i s \<Longrightarrow> failing i (roundChecks n j m f rd s)"
  by (cases rd) (simp add: Let_def)

lemma failing_chain: "failing i s \<or> i = ''chain-id'' \<and> \<not> is_ok (rd_getChainId reader) \<Longrightarrow>
    failing i (snd (checkChain reader s))"
  by (auto simp: checkChain_def split: sum.split)

lemma failing_codeCheck: "failing i s \<or> i = j \<and> \<not> is_ok (rd_getCode reader a) \<Longrightarrow>
    failing i (codeCheck reader j a s)"
  by (auto simp: codeCheck_def split: sum.split)

lemma failing_router: "failing i s \<or> i = ''router-owner'' \<and> routerUnread vm reader \<Longrightarrow>
    failing i (snd (checkRouter vm reader config s))"
  by (auto simp: checkRouter_def routerUnread_def Let_def FEATURE_ID_def is_ok_def split: sum.splits)

lemma failing_token: "failing i s \<or> i = j @ ''-token'' \<and> tokenUnread vm reader a \<Longrightarrow>
    failing i (tokenCheck vm reader j a symb s)"
  by (auto simp: tokenCheck_def tokenUnread_def codeAt_def Let_def is_ok_def split: sum.splits)

lemma failing_feed: "failing i s \<or> i = j @ ''-feed'' \<and> feedUnread vm reader a \<Longrightarrow>
    failing i (feedCheck vm reader n j a d m f s)"
  by (auto simp: feedCheck_def feedUnread_def codeAt_def Let_def is_ok_def failing_roundChecks split: sum.splits)

lemma failing_oracle: "failing i s \<or> i = ''nvda-oracle-not-paused'' \<and>
      \<not> is_ok (readView vm reader NVDA view_oraclePaused (vm_bool vm)) \<Longrightarrow>
    failing i (checkOracle vm reader s)"
  by (auto simp: checkOracle_def split: sum.split)

lemma failing_lock: "failing i s \<or> i = ''execution-locked'' \<and> executorUnread vm reader (pc_executor config) \<Longrightarrow>
    failing i (snd (checkLock vm reader config s))"
  by (auto simp: checkLock_def executorUnread_def codeAt_def Let_def is_ok_def split: sum.splits option.splits)

lemma failing_kept:
  "checkSequencer reader config s = Inr s' \<Longrightarrow> failing i s \<Longrightarrow> failing i s'"
  "checkController reader config s = Inr s' \<Longrightarrow> failing i s \<Longrightarrow> failing i s'"
  "failing i s \<Longrightarrow> failing i (checkBounds config s)"
  by (auto simp: checkSequencer_def checkController_def checkBounds_def rbind_eq_Inr split: option.splits if_splits)

lemmas failing_steps = failing_chain failing_codeCheck failing_router failing_token failing_feed failing_oracle

lemma failing_live:
  "readFails vm reader config i \<Longrightarrow> failing i (snd (liveFindings vm reader config)) \<or>
    i = ''execution-locked'' \<and> executorUnread vm reader (pc_executor config)"
  unfolding readFails_def
  by (elim disjE) (simp_all add: liveFindings_def Let_def case_prod_beta failing_steps)

text \<open>
  C40: the evaluation itself fails exactly when the code of a configured sequencer feed or, past it, of a
  controller cannot be read: these two reads are outside every \<open>try\<close>. Otherwise it reports, and every other
  read that fails (the chain id, the registry's code, the owner or the code of the router, the code, decimals,
  symbol, description or round of a token or feed, the oracle's pause, the executor's code or pause) is a
  failed check of its own component in the report, which is then not ready.
\<close>

theorem evaluateCanaryReadiness_throws:
  "(evaluateCanaryReadiness vm reader config = Inl e \<longleftrightarrow>
     (if lower (pc_sequencerFeed config) \<noteq> ZERO_ADDRESS \<and> \<not> is_ok (rd_getCode reader (pc_sequencerFeed config))
      then rd_getCode reader (pc_sequencerFeed config) = Inl e
      else \<exists>c. pc_controller config = Some c \<and> \<not> isZeroOrDead c \<and> rd_getCode reader c = Inl e)) \<and>
   (\<forall>r i. evaluateCanaryReadiness vm reader config = Inr r \<and> readFails vm reader config i \<longrightarrow>
     (\<exists>c\<in>set (cr_checks r). ck_id c = i \<and> \<not> ck_ok c) \<and> i \<in> set (cr_failed r) \<and>
     cr_status r = CANARY_NOT_READY)"
proof (intro conjI allI impI)
  show "evaluateCanaryReadiness vm reader config = Inl e \<longleftrightarrow>
     (if lower (pc_sequencerFeed config) \<noteq> ZERO_ADDRESS \<and> \<not> is_ok (rd_getCode reader (pc_sequencerFeed config))
      then rd_getCode reader (pc_sequencerFeed config) = Inl e
      else \<exists>c. pc_controller config = Some c \<and> \<not> isZeroOrDead c \<and> rd_getCode reader c = Inl e)"
    by (cases "rd_getCode reader (pc_sequencerFeed config)")
      (auto simp: evaluateCanaryReadiness_def Let_def case_prod_beta rbind_eq_Inl checkSequencer_def
        checkController_def eqAddr_def is_ok_iff split: option.splits)
  fix r i assume run: "evaluateCanaryReadiness vm reader config = Inr r \<and> readFails vm reader config i"
  then obtain s1 s2 where s: "checkSequencer reader config (snd (liveFindings vm reader config)) = Inr s1"
      "checkController reader config s1 = Inr s2"
    by (auto simp: evaluateCanaryReadiness_def Let_def case_prod_beta rbind_eq_Inr)
  define s3 where "s3 = add ''qex1-consumed'' (pc_qex1Consumed config)
    (''QEX1_CONSUMED='' @ boolText (pc_qex1Consumed config))
    (snd (checkLock vm reader config (checkBounds config s2)))"
  have "failing i (snd (checkLock vm reader config (checkBounds config s2)))"
    using failing_live [of vm reader config i] run failing_kept s failing_lock by meson
  then have "failing i s3" by (simp add: s3_def)
  then obtain c where c: "c \<in> set (fd_checks s3)" "ck_id c = i" "\<not> ck_ok c" by (auto simp: failing_def)
  have "cr_checks r = fd_checks s3" "cr_failed r = map ck_id (filter (\<lambda>c. \<not> ck_ok c) (fd_checks s3))"
    "cr_status r = CANARY_BUILD_READY_EXECUTION_LOCKED \<Longrightarrow> cr_failed r = []"
    using run s by (auto simp: evaluateCanaryReadiness_def Let_def case_prod_beta s3_def split: if_splits)
  with c show "\<exists>c\<in>set (cr_checks r). ck_id c = i \<and> \<not> ck_ok c" "i \<in> set (cr_failed r)"
    "cr_status r = CANARY_NOT_READY"
    by (auto simp: filter_empty_conv intro: CanaryStatus.exhaust [of "cr_status r"])
qed

subsection \<open>A ready canary\<close>

definition ex_vm :: Viem where
  "ex_vm = \<lparr>vm_encode = (\<lambda>v. case v of view_decimals \<Rightarrow> ''decimals'' | view_description \<Rightarrow> ''description''
       | view_latestRoundData \<Rightarrow> ''round'' | view_ownerOf _ \<Rightarrow> ''owner'' | view_symbol \<Rightarrow> ''symbol''
       | view_oraclePaused \<Rightarrow> ''oraclePaused'' | view_paused \<Rightarrow> ''paused''),
     vm_uint8 = (\<lambda>t. Inr (int_of_dec t)), vm_string = Inr, vm_address = Inr,
     vm_bool = (\<lambda>t. Inr (t = ''1'')), vm_round = (\<lambda>_. Inr (5, 7, 0, 1000, 5)),
     vm_keccak256 = (\<lambda>_. ROUTER_CODE_HASH)\<rparr>"

definition ex_reader :: ChainReader where
  "ex_reader = \<lparr>rd_getChainId = Inr 4663, rd_getCode = (\<lambda>a. Inr (if a = ''0xe'' then ''0x'' else ''0x60'')),
     rd_call = (\<lambda>a d. Inr (
       if d = ''decimals'' then (if a = WETH \<or> a = NVDA then ''18'' else ''8'')
       else if d = ''symbol'' then (if a = WETH then ''WETH'' else ''NVDA'')
       else if d = ''description'' then (if a = ETH_USD_FEED then ''ETH / USD'' else ''RHNVDA / USD'')
       else if d = ''owner'' then ''0xaa'' else ''0''))\<rparr>"

definition ex_config :: CanaryPreflightConfig where
  "ex_config = \<lparr>pc_controller = Some ''0xcc'', pc_executor = Some ''0xe'', pc_sequencerFeed = ZERO_ADDRESS,
     pc_maxWethFeedAgeSec = Whole 900, pc_maxNvdaFeedAgeSec = Whole 900, pc_canaryCapWei = 10 ^ 15,
     pc_nowSec = 1900, pc_qex1Consumed = True, pc_expectedRouterCodeHash = None\<rparr>"

lemma ready_example:
  "\<exists>r. evaluateCanaryReadiness ex_vm ex_reader ex_config = Inr r \<and>
     cr_status r = CANARY_BUILD_READY_EXECUTION_LOCKED"
proof -
  have code: "codeAt ex_reader a" if "a \<noteq> ''0xe''" for a
    using that by (simp add: codeAt_def ex_reader_def hasCode_def)
  have addresses: "WETH \<noteq> NVDA" "ETH_USD_FEED \<noteq> WETH" "ETH_USD_FEED \<noteq> NVDA" "NVDA_USD_FEED \<noteq> WETH"
    "NVDA_USD_FEED \<noteq> NVDA" "NVDA_USD_FEED \<noteq> ETH_USD_FEED" "OFFICIAL_REGISTRY \<noteq> ''0xe''" "WETH \<noteq> ''0xe''"
    "NVDA \<noteq> ''0xe''" "ETH_USD_FEED \<noteq> ''0xe''" "NVDA_USD_FEED \<noteq> ''0xe''"
    by (simp_all add: WETH_def NVDA_def ETH_USD_FEED_def NVDA_USD_FEED_def OFFICIAL_REGISTRY_def)
  have zero: "\<not> isZeroOrDead ''0xaa''" "\<not> isZeroOrDead ''0xcc''" by code_simp+
  have decimals: "int_of_dec ''18'' = 18" "int_of_dec ''8'' = 8" by code_simp+
  have "liveChecks ex_vm ex_reader ex_config"
    using addresses zero code decimals
    by (auto simp: liveChecks_def tokenReady_def feedReady_def routerReady_def readView_def hasCode_def
        ex_vm_def ex_reader_def ex_config_def)
  then show ?thesis
    unfolding preflight_ready_iff using zero code
    by (simp add: sequencerReady_def controllerReady_def lockedOut_def ex_config_def
        MAX_FEED_AGE_CEILING_SEC_def) (simp add: ex_reader_def hasCode_def)
qed

text \<open>A reader that answers no call, and one that cannot read code behind a configured sequencer feed.\<close>

theorem evaluateCanaryReadiness_throws_witness:
  "(\<exists>r. evaluateCanaryReadiness ex_vm (ex_reader\<lparr>rd_call := (\<lambda>_ _. Inl (OtherThrown ''down''))\<rparr>) ex_config = Inr r \<and>
      {''router-owner'', ''weth-token'', ''nvda-usd-feed'', ''nvda-oracle-not-paused''} \<subseteq> set (cr_failed r) \<and>
      cr_status r = CANARY_NOT_READY) \<and>
   evaluateCanaryReadiness ex_vm (ex_reader\<lparr>rd_getCode := (\<lambda>_. Inl (OtherThrown ''down''))\<rparr>)
     (ex_config\<lparr>pc_sequencerFeed := ''0x5f''\<rparr>) = Inl (OtherThrown ''down'')"
proof -
  let ?R = "ex_reader\<lparr>rd_call := (\<lambda>_ _. Inl (OtherThrown ''down''))\<rparr>"
  note th = evaluateCanaryReadiness_throws
  have code: "codeAt ?R a" if "a \<noteq> ''0xe''" for a
    using that by (simp add: codeAt_def ex_reader_def hasCode_def)
  have far: "WETH \<noteq> ''0xe''" "NVDA_USD_FEED \<noteq> ''0xe''"
    by (simp_all add: WETH_def NVDA_USD_FEED_def)
  have fails: "readFails ex_vm ?R ex_config i"
    if "i \<in> {''router-owner'', ''weth-token'', ''nvda-usd-feed'', ''nvda-oracle-not-paused''}" for i
    using that code far
    by (auto simp: readFails_def routerUnread_def tokenUnread_def feedUnread_def readView_def)
  have "evaluateCanaryReadiness ex_vm ?R ex_config \<noteq> Inl e" for e
    using th [of ex_vm ?R ex_config e] by (auto simp: ex_config_def ex_reader_def)
  then obtain r where r: "evaluateCanaryReadiness ex_vm ?R ex_config = Inr r"
    by (cases "evaluateCanaryReadiness ex_vm ?R ex_config") auto
  have "lower ''0x5f'' \<noteq> ZERO_ADDRESS" by code_simp
  then have "evaluateCanaryReadiness ex_vm (ex_reader\<lparr>rd_getCode := (\<lambda>_. Inl (OtherThrown ''down''))\<rparr>)
     (ex_config\<lparr>pc_sequencerFeed := ''0x5f''\<rparr>) = Inl (OtherThrown ''down'')"
    using th [of ex_vm "ex_reader\<lparr>rd_getCode := (\<lambda>_. Inl (OtherThrown ''down''))\<rparr>" "ex_config\<lparr>pc_sequencerFeed := ''0x5f''\<rparr>" "OtherThrown ''down''"]
    by simp
  with r conjunct2 [OF th, rule_format, OF conjI [OF r fails]] show ?thesis by blast
qed

end
