(* ===== verification/Quotes.thy ===== *)
theory Quotes
  imports PodModel
begin

text \<open>
  \<open>packages/rialto/src/quote-client.ts\<close>: the server-side quote boundary. A value of a parsed
  JSON response is a \<open>JsonValue\<close>; its numbers are safe integers, integers beyond the safe range
  (the value and its text) or non-integers (their text). A property that is not there is \<open>None\<close>.
  A thrown \<open>RialtoQuoteError\<close> is its code, any other exception is \<open>OtherError\<close>. The URL parser,
  \<open>fetch\<close>, \<open>JSON.parse\<close> and SHA-256 are parameters.
\<close>

section \<open>Values of a response\<close>

datatype number = Safe int | Big int string | Frac string

datatype JsonValue =
    VNull
  | VBool bool
  | VNum number
  | VStr string
  | VArr "JsonValue list"
  | VObj "(string \<times> JsonValue) list"

text \<open>\<open>Number.isInteger\<close> with the value, and \<open>String(n)\<close>.\<close>

fun num_int :: "number \<Rightarrow> int option" where
  "num_int (Safe i) = Some i"
| "num_int (Big i _) = Some i"
| "num_int (Frac _) = None"

fun num_text :: "number \<Rightarrow> string" where
  "num_text (Safe i) = dec_of_int i"
| "num_text (Big _ t) = t"
| "num_text (Frac t) = t"

definition MAX_SAFE_INTEGER :: int where "MAX_SAFE_INTEGER = 2 ^ 53 - 1"

fun jfield :: "JsonValue \<Rightarrow> string \<Rightarrow> JsonValue option" where
  "jfield (VObj kvs) k = map_of kvs k"
| "jfield _ k = None"

fun isObject :: "JsonValue option \<Rightarrow> bool" where
  "isObject (Some (VObj _)) = True"
| "isObject (Some (VArr _)) = True"
| "isObject _ = False"

text \<open>\<open>undefined\<close> or \<open>null\<close>.\<close>

definition nullish :: "JsonValue option \<Rightarrow> bool" where
  "nullish v \<longleftrightarrow> v = None \<or> v = Some VNull"

fun entries :: "JsonValue \<Rightarrow> (string \<times> JsonValue) list" where
  "entries (VObj kvs) = kvs"
| "entries (VArr vs) = map (\<lambda>i. (dec_of_nat i, vs ! i)) [0..<length vs]"
| "entries _ = []"

fun join_comma :: "string list \<Rightarrow> string" where
  "join_comma [] = []"
| "join_comma [x] = x"
| "join_comma (x # y # ys) = x @ '','' @ join_comma (y # ys)"

text \<open>\<open>String(v)\<close>: an object whose own \<open>toString\<close> is data cannot be converted.\<close>

fun to_string :: "JsonValue \<Rightarrow> string option" where
  "to_string VNull = Some ''null''"
| "to_string (VBool b) = Some (if b then ''true'' else ''false'')"
| "to_string (VNum n) = Some (num_text n)"
| "to_string (VStr s) = Some s"
| "to_string (VArr vs) =
     map_option join_comma (those (map (\<lambda>v. if v = VNull then Some [] else to_string v) vs))"
| "to_string (VObj kvs) = (if map_of kvs ''toString'' = None then Some ''[object Object]'' else None)"

section \<open>Errors, configuration, results\<close>

datatype RialtoQuoteErrorCode =
    MISSING_API_KEY | BAD_CONFIG | BAD_ORIGIN | BAD_SELL_AMOUNT | TIMEOUT | HTTP_ERROR
  | OVERSIZE_RESPONSE | INVALID_JSON | WRONG_CHAIN | WRONG_SETTLEMENT | PERMIT2_PRESENT
  | GASLESS_PRESENT | WRONG_SELL_TOKEN | WRONG_BUY_TOKEN | WRONG_SELL_AMOUNT | WRONG_TAKER
  | MISSING_TX_TO | MALFORMED_CALLDATA | NONZERO_VALUE | ZERO_MIN_BUY | INCONSISTENT_MIN_BUY
  | BALANCE_ISSUE | SIMULATION_INCOMPLETE | INVALID_ALLOWANCE | WRONG_ALLOWANCE_SPENDER

datatype failure = RialtoQuoteError RialtoQuoteErrorCode | OtherError

definition OFFICIAL_RIALTO_HOST :: string where
  "OFFICIAL_RIALTO_HOST = ''rialto-trade-api.rialto.xyz''"

definition SELL_TOKEN_DECIMALS :: nat where "SELL_TOKEN_DECIMALS = 18"

record RialtoQuoteConfig =
  qc_apiBaseUrl :: string
  qc_chainId :: number
  qc_wethAddress :: string
  qc_adapterAddress :: string
  qc_slippageBps :: number
  qc_timeoutMs :: "int option"
  qc_maxResponseBytes :: "int option"
  qc_maxCallDataBytes :: "int option"

record RialtoQuoteRequest =
  qr_buyToken :: string
  qr_sellAmountDecimal :: string

record RialtoRouteLeg =
  rl_pool :: "string option"
  rl_feeTier :: "int option"
  rl_tokenIn :: "string option"
  rl_tokenOut :: "string option"

record QuoteIssues =
  is_balancePresent :: bool
  is_simulationIncomplete :: bool
  is_allowanceSpender :: "string option"

record RialtoQuoteMeta =
  qm_chainId :: int
  qm_sellToken :: string
  qm_buyToken :: string
  qm_requestedSellAmountDecimal :: string
  qm_returnedSellAmountRaw :: string
  qm_buyAmountRaw :: "string option"
  qm_minBuyAmountRaw :: string
  qm_settlementMode :: string
  qm_integratorFeeRequested :: bool
  qm_platformFee :: "(string \<times> JsonValue) list option"
  qm_networkFeeEstimate :: "string option"
  qm_issues :: QuoteIssues
  qm_routeLegs :: "RialtoRouteLeg list option"
  qm_txTarget :: string
  qm_selector :: string
  qm_callDataBytes :: int
  qm_txValue :: string
  qm_quoteCreatedAtSec :: "int option"
  qm_quoteExpirySec :: "int option"
  qm_quoteIdSha256 :: "string option"

record RialtoQuoteResult =
  qt_target :: string
  qt_callData :: string
  qt_sellAmountRaw :: int
  qt_sellAmountDecimal :: string
  qt_minBuyAmountRaw :: int
  qt_buyToken :: string
  qt_quoteExpiry :: "int option"
  qt_meta :: RialtoQuoteMeta

section \<open>Reading fields\<close>

definition digits :: "string \<Rightarrow> bool" where
  "digits s \<longleftrightarrow> s \<noteq> [] \<and> list_all is_digit_char s"

definition hex_re :: "string \<Rightarrow> bool" where
  "hex_re s \<longleftrightarrow> take 2 s = ''0x'' \<and> list_all is_hex_char (drop 2 s)"

fun normAddress :: "JsonValue option \<Rightarrow> string option" where
  "normAddress (Some (VStr s)) = (if hex_string 40 s then Some (lower s) else None)"
| "normAddress _ = None"

fun rawEquals :: "JsonValue option \<Rightarrow> int \<Rightarrow> bool" where
  "rawEquals (Some (VStr s)) expected = (digits s \<and> int_of_dec s = expected)"
| "rawEquals (Some (VNum n)) expected = (num_int n = Some expected)"
| "rawEquals _ _ = False"

fun parsePositiveBigInt :: "JsonValue option \<Rightarrow> int option" where
  "parsePositiveBigInt (Some (VStr s)) =
     (if digits s then (let n = int_of_dec s in if n > 0 then Some n else None) else None)"
| "parsePositiveBigInt (Some (VNum v)) =
     (case num_int v of None \<Rightarrow> None | Some i \<Rightarrow> if i > 0 then Some i else None)"
| "parsePositiveBigInt _ = None"

text \<open>\<open>DECIMAL_RE\<close>, and \<open>split(".")\<close> on what it matches.\<close>

definition int_part :: "string \<Rightarrow> string" where
  "int_part s = takeWhile (\<lambda>c. c \<noteq> CHR ''.'') s"

definition frac_part :: "string \<Rightarrow> string" where
  "frac_part s = drop (Suc (length (int_part s))) s"

definition decimal_re :: "string \<Rightarrow> bool" where
  "decimal_re s \<longleftrightarrow>
     digits (int_part s) \<and> (int_part s = s \<or> digits (frac_part s))"

definition decimalToBaseUnits :: "string \<Rightarrow> nat \<Rightarrow> int option" where
  "decimalToBaseUnits decimal decimals =
     (if \<not> decimal_re decimal then None
      else
        let fracPart = frac_part decimal in
        if length fracPart > decimals then None
        else
          let combined = int_part decimal @ fracPart @ replicate (decimals - length fracPart) (CHR ''0'');
              val = int_of_dec combined
          in if val > 0 then Some val else None)"

fun intLikeToString :: "JsonValue option \<Rightarrow> string option" where
  "intLikeToString (Some (VStr s)) = (if digits s then Some s else None)"
| "intLikeToString (Some (VNum n)) =
     (case num_int n of None \<Rightarrow> None | Some i \<Rightarrow> if i \<ge> 0 then Some (num_text n) else None)"
| "intLikeToString _ = None"

fun intLikeToPositiveNumber :: "JsonValue option \<Rightarrow> int option" where
  "intLikeToPositiveNumber (Some (VNum n)) =
     (case num_int n of None \<Rightarrow> None | Some i \<Rightarrow> if i > 0 then Some i else None)"
| "intLikeToPositiveNumber (Some (VStr s)) =
     (if digits s
      then (let n = int_of_dec s in if n \<le> MAX_SAFE_INTEGER \<and> n > 0 then Some n else None)
      else None)"
| "intLikeToPositiveNumber _ = None"

fun is_primitive :: "JsonValue \<Rightarrow> bool" where
  "is_primitive (VStr _) = True"
| "is_primitive (VNum _) = True"
| "is_primitive (VBool _) = True"
| "is_primitive _ = False"

text \<open>Assigning a primitive to \<open>__proto__\<close> of a plain object has no effect.\<close>

definition sanitizePrimitiveMap :: "JsonValue option \<Rightarrow> (string \<times> JsonValue) list option" where
  "sanitizePrimitiveMap v =
     (if \<not> isObject v then None
      else
        let out = filter (\<lambda>(k, val). is_primitive val \<and> k \<noteq> ''__proto__'') (entries (the v))
        in if length out > 0 then Some out else None)"

fun firstDefined :: "JsonValue option list \<Rightarrow> JsonValue option" where
  "firstDefined [] = None"
| "firstDefined (v # vs) = (if nullish v then firstDefined vs else v)"

definition routeLeg :: "JsonValue \<Rightarrow> RialtoRouteLeg" where
  "routeLeg raw =
     \<lparr>rl_pool = normAddress (firstDefined [jfield raw ''pool'', jfield raw ''pool_address'', jfield raw ''address'']),
      rl_feeTier = intLikeToPositiveNumber
        (firstDefined [jfield raw ''fee'', jfield raw ''fee_tier'', jfield raw ''feeTier'']),
      rl_tokenIn = normAddress (firstDefined [jfield raw ''token_in'', jfield raw ''tokenIn'', jfield raw ''from'']),
      rl_tokenOut = normAddress (firstDefined [jfield raw ''token_out'', jfield raw ''tokenOut'', jfield raw ''to''])\<rparr>"

definition extractRouteLegs :: "JsonValue \<Rightarrow> RialtoRouteLeg list option" where
  "extractRouteLegs body =
     (let route = jfield body ''route'';
          candidate =
            (case route of
               Some (VArr vs) \<Rightarrow> Some vs
             | _ \<Rightarrow>
                 (case (if isObject route then jfield (the route) ''legs'' else None) of
                    Some (VArr vs) \<Rightarrow> Some vs
                  | _ \<Rightarrow> (case jfield body ''legs'' of Some (VArr vs) \<Rightarrow> Some vs | _ \<Rightarrow> None)))
      in case candidate of
           None \<Rightarrow> None
         | Some vs \<Rightarrow>
             let legs = map routeLeg (filter (\<lambda>raw. isObject (Some raw)) vs)
             in if length legs > 0 then Some legs else None)"

section \<open>The origin\<close>

record Url =
  u_protocol :: string
  u_hostname :: string
  u_username :: string
  u_password :: string
  u_port :: string
  u_pathname :: string
  u_search :: string
  u_hash :: string

definition assertOfficialRialtoOrigin :: "(string \<Rightarrow> Url option) \<Rightarrow> string \<Rightarrow> failure + Url" where
  "assertOfficialRialtoOrigin parse base =
     (case parse base of
        None \<Rightarrow> Inl (RialtoQuoteError BAD_ORIGIN)
      | Some u \<Rightarrow>
          if u_protocol u \<noteq> ''https:'' then Inl (RialtoQuoteError BAD_ORIGIN)
          else if u_hostname u \<noteq> OFFICIAL_RIALTO_HOST then Inl (RialtoQuoteError BAD_ORIGIN)
          else if u_username u \<noteq> [] \<or> u_password u \<noteq> [] then Inl (RialtoQuoteError BAD_ORIGIN)
          else if u_port u \<noteq> [] then Inl (RialtoQuoteError BAD_ORIGIN)
          else if u_pathname u \<noteq> [] \<and> u_pathname u \<noteq> ''/'' then Inl (RialtoQuoteError BAD_ORIGIN)
          else if u_search u \<noteq> [] \<or> u_hash u \<noteq> [] then Inl (RialtoQuoteError BAD_ORIGIN)
          else Inr u)"


section \<open>The request\<close>

record FetchRequest =
  fr_url :: string
  fr_method :: string
  fr_headers :: "(string \<times> string) list"
  fr_timeoutMs :: int
  fr_cache :: string
  fr_redirect :: string

text \<open>
  The serializer of \<open>URLSearchParams\<close> on characters below 128, and the text of \<open>new URL("/quote", base)\<close>
  with its parameters: the checked base carries no credentials, port, path, query or fragment.
\<close>

definition form_char :: "char \<Rightarrow> string" where
  "form_char c =
     (let n = of_char c :: int; h = (\<lambda>d. char_of (if d < 10 then 48 + d else 55 + d) :: char)
      in if is_digit_char c \<or> (65 \<le> n \<and> n \<le> 90) \<or> (97 \<le> n \<and> n \<le> 122) \<or> n \<in> {42, 45, 46, 95} then [c]
         else if n = 32 then ''+''
         else [CHR ''%'', h (n div 16), h (n mod 16)])"

definition form_text :: "string \<Rightarrow> string" where "form_text s = concat (map form_char s)"

fun query_text :: "(string \<times> string) list \<Rightarrow> string" where
  "query_text [] = []"
| "query_text [(k, v)] = form_text k @ ''='' @ form_text v"
| "query_text ((k, v) # p # ps) = form_text k @ ''='' @ form_text v @ ''&'' @ query_text (p # ps)"

definition quoteUrl :: "Url \<Rightarrow> (string \<times> string) list \<Rightarrow> string" where
  "quoteUrl u params = u_protocol u @ ''//'' @ u_hostname u @ ''/quote?'' @ query_text params"

record Prepared =
  pr_weth :: string
  pr_taker :: string
  pr_buyToken :: string
  pr_expectedSellRaw :: int
  pr_request :: FetchRequest

definition checkConfig ::
  "RialtoQuoteConfig \<Rightarrow> RialtoQuoteRequest \<Rightarrow> failure + (string \<times> string \<times> string \<times> int)" where
  "checkConfig config request =
     (case (normAddress (Some (VStr (qc_wethAddress config))),
            normAddress (Some (VStr (qc_adapterAddress config))),
            normAddress (Some (VStr (qr_buyToken request)))) of
        (Some weth, Some taker, Some buyToken) \<Rightarrow>
          if num_int (qc_chainId config) \<noteq> Some 4663 then Inl (RialtoQuoteError BAD_CONFIG)
          else if (case num_int (qc_slippageBps config) of None \<Rightarrow> True | Some b \<Rightarrow> b < 0 \<or> b > 10000)
          then Inl (RialtoQuoteError BAD_CONFIG)
          else (case decimalToBaseUnits (qr_sellAmountDecimal request) SELL_TOKEN_DECIMALS of
                  None \<Rightarrow> Inl (RialtoQuoteError BAD_SELL_AMOUNT)
                | Some expectedSellRaw \<Rightarrow> Inr (weth, taker, buyToken, expectedSellRaw))
      | _ \<Rightarrow> Inl (RialtoQuoteError BAD_CONFIG))"

definition buildRequest ::
  "Url \<Rightarrow> string \<Rightarrow> RialtoQuoteConfig \<Rightarrow> RialtoQuoteRequest \<Rightarrow> string \<Rightarrow> string \<Rightarrow> string \<Rightarrow> FetchRequest" where
  "buildRequest u key config request weth taker buyToken =
     \<lparr>fr_url = quoteUrl u
        [(''chain_id'', ''4663''), (''settlement'', ''allowance''),
         (''sell_token'', weth), (''buy_token'', buyToken),
         (''sell_amount'', qr_sellAmountDecimal request), (''taker'', taker),
         (''slippage_bps'', num_text (qc_slippageBps config))],
      fr_method = ''GET'',
      fr_headers = [(''Authorization'', ''Bearer '' @ key), (''Accept'', ''application/json'')],
      fr_timeoutMs = (case qc_timeoutMs config of None \<Rightarrow> 5000 | Some t \<Rightarrow> t),
      fr_cache = ''no-store'', fr_redirect = ''error''\<rparr>"

definition prepareRequest ::
  "(string \<Rightarrow> Url option) \<Rightarrow> string option \<Rightarrow> RialtoQuoteConfig \<Rightarrow> RialtoQuoteRequest
    \<Rightarrow> failure + Prepared" where
  "prepareRequest parse apiKey config request =
     (if apiKey = None \<or> apiKey = Some [] then Inl (RialtoQuoteError MISSING_API_KEY)
      else
        rbind (assertOfficialRialtoOrigin parse (qc_apiBaseUrl config)) (\<lambda>u.
        rbind (checkConfig config request) (\<lambda>(weth, taker, buyToken, expectedSellRaw).
          Inr \<lparr>pr_weth = weth, pr_taker = taker, pr_buyToken = buyToken,
               pr_expectedSellRaw = expectedSellRaw,
               pr_request = buildRequest u (the apiKey) config request weth taker buyToken\<rparr>)))"

section \<open>Validation of the response\<close>

definition checkHeader ::
  "string \<Rightarrow> string \<Rightarrow> string \<Rightarrow> int \<Rightarrow> JsonValue \<Rightarrow> RialtoQuoteErrorCode + unit" where
  "checkHeader weth taker buyToken expectedSellRaw body =
     (if \<not> isObject (Some body) then Inl INVALID_JSON
      else if jfield body ''chain_id'' \<noteq> Some (VNum (Safe 4663)) then Inl WRONG_CHAIN
      else if jfield body ''settlement'' \<noteq> Some (VStr ''allowance'') then Inl WRONG_SETTLEMENT
      else if \<not> nullish (jfield body ''permit2'') then Inl PERMIT2_PRESENT
      else if jfield body ''gasless'' = Some (VBool True) \<or>
              (isObject (jfield body ''gasless'') \<and> length (entries (the (jfield body ''gasless''))) > 0)
      then Inl GASLESS_PRESENT
      else if normAddress (jfield body ''sell_token'') \<noteq> Some weth then Inl WRONG_SELL_TOKEN
      else if normAddress (jfield body ''buy_token'') \<noteq> Some buyToken then Inl WRONG_BUY_TOKEN
      else if \<not> rawEquals (jfield body ''sell_amount'') expectedSellRaw then Inl WRONG_SELL_AMOUNT
      else if normAddress (jfield body ''taker'') \<noteq> Some taker then Inl WRONG_TAKER
      else Inr ())"

definition boundedCalldata :: "JsonValue option \<Rightarrow> int \<Rightarrow> string option" where
  "boundedCalldata v maxBytes =
     (case v of
        Some (VStr d) \<Rightarrow>
          if \<not> hex_re d \<or> length d < 10 \<or> odd (length d) \<or> int ((length d - 2) div 2) > maxBytes
          then None else Some d
      | _ \<Rightarrow> None)"

definition checkTx ::
  "RialtoQuoteConfig \<Rightarrow> JsonValue \<Rightarrow> RialtoQuoteErrorCode + (string \<times> string)" where
  "checkTx config body =
     (if \<not> isObject (jfield body ''tx'') then Inl MISSING_TX_TO
      else
        let tx = the (jfield body ''tx'') in
        if \<not> nullish (jfield tx ''signature_offset'') then Inl PERMIT2_PRESENT
        else case normAddress (jfield tx ''to'') of
          None \<Rightarrow> Inl MISSING_TX_TO
        | Some target \<Rightarrow>
            if target = ZERO_ADDRESS then Inl MISSING_TX_TO
            else case boundedCalldata (jfield tx ''data'')
                        (case qc_maxCallDataBytes config of None \<Rightarrow> 8192 | Some m \<Rightarrow> m) of
              None \<Rightarrow> Inl MALFORMED_CALLDATA
            | Some callData \<Rightarrow>
                if \<not> rawEquals (jfield tx ''value'') 0 then Inl NONZERO_VALUE
                else Inr (target, callData))"

definition checkMinBuy :: "int \<Rightarrow> JsonValue \<Rightarrow> RialtoQuoteErrorCode + int" where
  "checkMinBuy expectedSellRaw body =
     (case parsePositiveBigInt (jfield body ''min_buy_amount'') of
        None \<Rightarrow> Inl ZERO_MIN_BUY
      | Some minBuy \<Rightarrow>
          if minBuy > expectedSellRaw * 1000000 then Inl INCONSISTENT_MIN_BUY else Inr minBuy)"

definition checkIssues :: "string \<Rightarrow> JsonValue option \<Rightarrow> RialtoQuoteErrorCode + string option" where
  "checkIssues target issues0 =
     (if \<not> isObject issues0 then Inr None
      else
        let issues = the issues0; allowance = jfield issues ''allowance'' in
        if \<not> nullish (jfield issues ''balance'') then Inl BALANCE_ISSUE
        else if jfield issues ''simulationIncomplete'' = Some (VBool True) then Inl SIMULATION_INCOMPLETE
        else if nullish allowance then Inr None
        else if \<not> isObject allowance then Inl INVALID_ALLOWANCE
        else
          let spender = normAddress (jfield (the allowance) ''spender'') in
          if spender = None \<or> spender \<noteq> Some target then Inl WRONG_ALLOWANCE_SPENDER
          else Inr spender)"

definition quoteExpiryOf :: "JsonValue \<Rightarrow> int option" where
  "quoteExpiryOf body =
     (case jfield body ''expiry'' of
        Some (VNum n) \<Rightarrow> (case num_int n of None \<Rightarrow> None | Some i \<Rightarrow> if i > 0 then Some i else None)
      | _ \<Rightarrow> None)"

definition quoteIdDigest :: "(string \<Rightarrow> string) \<Rightarrow> JsonValue \<Rightarrow> failure + string option" where
  "quoteIdDigest sha256Hex body =
     (case firstDefined [jfield body ''quote_id'', jfield body ''quoteId'', jfield body ''id''] of
        None \<Rightarrow> Inr None
      | Some v \<Rightarrow> (case to_string v of None \<Rightarrow> Inl OtherError | Some t \<Rightarrow> Inr (Some (sha256Hex t))))"

definition quoteMeta ::
  "RialtoQuoteRequest \<Rightarrow> string \<Rightarrow> string \<Rightarrow> int \<Rightarrow> JsonValue \<Rightarrow> string \<Rightarrow> string \<Rightarrow> int \<Rightarrow> string option
    \<Rightarrow> string option \<Rightarrow> RialtoQuoteMeta" where
  "quoteMeta request weth buyToken expectedSellRaw body target callData minBuy spender digest =
     \<lparr>qm_chainId = 4663, qm_sellToken = weth, qm_buyToken = buyToken,
      qm_requestedSellAmountDecimal = qr_sellAmountDecimal request,
      qm_returnedSellAmountRaw = dec_of_int expectedSellRaw,
      qm_buyAmountRaw = intLikeToString (firstDefined [jfield body ''buy_amount'', jfield body ''buyAmount'']),
      qm_minBuyAmountRaw = dec_of_int minBuy, qm_settlementMode = ''allowance'',
      qm_integratorFeeRequested = False,
      qm_platformFee = sanitizePrimitiveMap
        (firstDefined [jfield body ''fees'', jfield body ''platform_fee'', jfield body ''fee'']),
      qm_networkFeeEstimate = intLikeToString
        (firstDefined [jfield body ''network_fee'', jfield body ''gas_estimate'',
                       jfield body ''estimated_gas'', jfield body ''gas'']),
      qm_issues = \<lparr>is_balancePresent = False, is_simulationIncomplete = False,
                   is_allowanceSpender = spender\<rparr>,
      qm_routeLegs = extractRouteLegs body, qm_txTarget = target, qm_selector = take 10 callData,
      qm_callDataBytes = int ((length callData - 2) div 2), qm_txValue = ''0'',
      qm_quoteCreatedAtSec = intLikeToPositiveNumber
        (firstDefined [jfield body ''created_at'', jfield body ''createdAt'',
                       jfield body ''timestamp'', jfield body ''created'']),
      qm_quoteExpirySec = quoteExpiryOf body, qm_quoteIdSha256 = digest\<rparr>"

definition typed :: "RialtoQuoteErrorCode + 'a \<Rightarrow> failure + 'a" where
  "typed r = (case r of Inl c \<Rightarrow> Inl (RialtoQuoteError c) | Inr a \<Rightarrow> Inr a)"

definition validateQuote ::
  "(string \<Rightarrow> string) \<Rightarrow> RialtoQuoteConfig \<Rightarrow> RialtoQuoteRequest \<Rightarrow> string \<Rightarrow> string \<Rightarrow> string \<Rightarrow> int
    \<Rightarrow> JsonValue \<Rightarrow> failure + RialtoQuoteResult" where
  "validateQuote sha256Hex config request weth taker buyToken expectedSellRaw body =
     rbind (typed (checkHeader weth taker buyToken expectedSellRaw body)) (\<lambda>_.
     rbind (typed (checkTx config body)) (\<lambda>(target, callData).
     rbind (typed (checkMinBuy expectedSellRaw body)) (\<lambda>minBuy.
     rbind (typed (checkIssues target (jfield body ''issues''))) (\<lambda>allowanceSpender.
     rbind (quoteIdDigest sha256Hex body) (\<lambda>digest.
       Inr \<lparr>qt_target = target, qt_callData = callData, qt_sellAmountRaw = expectedSellRaw,
            qt_sellAmountDecimal = qr_sellAmountDecimal request, qt_minBuyAmountRaw = minBuy,
            qt_buyToken = buyToken, qt_quoteExpiry = quoteExpiryOf body,
            qt_meta = quoteMeta request weth buyToken expectedSellRaw body target callData minBuy
                        allowanceSpender digest\<rparr>)))))"

text \<open>
  The outcome of \<open>fetch\<close>: a rejection with the name of the error, or a response with its \<open>ok\<close> flag
  and its text (\<open>None\<close> when reading the text fails).
\<close>

datatype FetchOutcome = Rejected string | Responded bool "string option"

definition readResponse ::
  "(string \<Rightarrow> JsonValue option) \<Rightarrow> int \<Rightarrow> FetchOutcome \<Rightarrow> failure + JsonValue" where
  "readResponse parseJson maxBytes outcome =
     (case outcome of
        Rejected name \<Rightarrow>
          Inl (RialtoQuoteError (if name = ''TimeoutError'' then TIMEOUT else HTTP_ERROR))
      | Responded ok content \<Rightarrow>
          if \<not> ok then Inl (RialtoQuoteError HTTP_ERROR)
          else case content of
            None \<Rightarrow> Inl OtherError
          | Some t \<Rightarrow>
              if int (length t) > maxBytes then Inl (RialtoQuoteError OVERSIZE_RESPONSE)
              else case parseJson t of
                None \<Rightarrow> Inl (RialtoQuoteError INVALID_JSON)
              | Some body \<Rightarrow> Inr body)"

definition fetchRialtoAllowanceQuote ::
  "(string \<Rightarrow> Url option) \<Rightarrow> (string \<Rightarrow> JsonValue option) \<Rightarrow> (string \<Rightarrow> string)
    \<Rightarrow> (FetchRequest \<Rightarrow> FetchOutcome) \<Rightarrow> string option \<Rightarrow> RialtoQuoteConfig \<Rightarrow> RialtoQuoteRequest
    \<Rightarrow> failure + RialtoQuoteResult" where
  "fetchRialtoAllowanceQuote parseUrl parseJson sha256Hex fetch apiKey config request =
     rbind (prepareRequest parseUrl apiKey config request) (\<lambda>p.
     rbind (readResponse parseJson (case qc_maxResponseBytes config of None \<Rightarrow> 65536 | Some m \<Rightarrow> m)
              (fetch (pr_request p))) (\<lambda>body.
       validateQuote sha256Hex config request (pr_weth p) (pr_taker p) (pr_buyToken p)
         (pr_expectedSellRaw p) body))"

section \<open>Properties\<close>

subsection \<open>Amounts\<close>

lemma nat_of_dec_append: "nat_of_dec (s @ t) = nat_of_dec s * 10 ^ length t + nat_of_dec t"
proof (induction t rule: rev_induct)
  case (snoc c t)
  have "nat_of_dec (s @ t @ [c]) = nat_of_dec (s @ t) * 10 + digit_val c"
    using nat_of_dec_snoc [of "s @ t" c] by simp
  with snoc show ?case by (simp add: algebra_simps)
qed simp

lemma nat_of_dec_zeros: "nat_of_dec (replicate n (CHR ''0'')) = 0"
proof (induction n)
  case (Suc n)
  have "nat_of_dec (replicate n (CHR ''0'') @ [CHR ''0'']) = 0"
    using Suc by (simp add: digit_val_def)
  then show ?case by (simp add: replicate_append_same)
qed simp

lemma int_of_dec_padded:
  "int_of_dec (a @ b @ replicate n (CHR ''0'')) =
   int_of_dec a * 10 ^ (length b + n) + int_of_dec b * 10 ^ n"
  by (simp add: int_of_dec_def nat_of_dec_append nat_of_dec_zeros power_add algebra_simps)

text \<open>
  A decimal amount converts exactly when it is a decimal with at most the token's fractional
  digits and positive, and then to its exact value in base units: the integer part times ten to the
  decimals plus the fraction scaled by its own length, with no rounding.
\<close>

theorem decimalToBaseUnits_spec:
  "decimalToBaseUnits s d = Some n \<longleftrightarrow>
   decimal_re s \<and> length (frac_part s) \<le> d \<and> 0 < n \<and>
   n = int_of_dec (int_part s) * 10 ^ d + int_of_dec (frac_part s) * 10 ^ (d - length (frac_part s))"
  using int_of_dec_padded [of "int_part s" "frac_part s" "d - length (frac_part s)"]
  by (auto simp: decimalToBaseUnits_def Let_def)

lemma decimalToBaseUnits_pos: "decimalToBaseUnits s d = Some n \<Longrightarrow> 0 < n"
  by (auto simp: decimalToBaseUnits_def Let_def split: if_splits)

subsection \<open>The request\<close>

lemma form_char_hex: "is_hex_char c \<Longrightarrow> form_char c = [c]"
  by (auto simp: form_char_def is_hex_char_def is_digit_char_def Let_def)

lemma form_text_plain: "list_all (\<lambda>c. is_hex_char c \<or> c \<in> {CHR ''x'', CHR ''.'', CHR ''_''}) s \<Longrightarrow> form_text s = s"
proof (induction s)
  case (Cons c s)
  have "form_char (CHR ''x'') = ''x''" "form_char (CHR ''.'') = ''.''" "form_char (CHR ''_'') = ''_''"
    by code_simp+
  with Cons show ?case by (auto simp: form_text_def form_char_hex)
qed (simp add: form_text_def)

lemma address_plain: "hex_string n v \<Longrightarrow> form_text v = v"
proof (rule form_text_plain)
  assume h: "hex_string n v"
  obtain r where v: "v = ''0x'' @ r" "list_all is_hex_char r"
    using h by (metis append_take_drop_id hex_string_def)
  have "is_hex_char (CHR ''0'')" by code_simp
  with v show "list_all (\<lambda>c. is_hex_char c \<or> c \<in> {CHR ''x'', CHR ''.'', CHR ''_''}) v"
    by (auto simp: list_all_iff)
qed

lemma decimal_plain:
  assumes "decimal_re s" shows "form_text s = s"
proof (rule form_text_plain)
  have ip: "list_all is_digit_char (int_part s)" using assms by (simp add: decimal_re_def digits_def)
  show "list_all (\<lambda>c. is_hex_char c \<or> c \<in> {CHR ''x'', CHR ''.'', CHR ''_''}) s"
  proof (cases "int_part s = s")
    case True
    with ip show ?thesis by (auto simp: list_all_iff is_hex_digit)
  next
    case False
    with assms have fp: "list_all is_digit_char (frac_part s)" by (simp add: decimal_re_def digits_def)
    have "dropWhile (\<lambda>c. c \<noteq> CHR ''.'') s \<noteq> []" using False by (auto simp: int_part_def takeWhile_eq_all_conv)
    then obtain c r where r: "dropWhile (\<lambda>c. c \<noteq> CHR ''.'') s = c # r" by (cases "dropWhile (\<lambda>c. c \<noteq> CHR ''.'') s") auto
    then have c: "c = CHR ''.''" using hd_dropWhile [of "\<lambda>c. c \<noteq> CHR ''.''" s] by simp
    have split: "s = int_part s @ c # r"
      using takeWhile_dropWhile_id [of "\<lambda>c. c \<noteq> CHR ''.''" s] r by (simp add: int_part_def)
    then have "frac_part s = r" unfolding frac_part_def by (metis append_eq_conv_conj drop_Suc list.sel(3) tl_drop)
    with fp have "list_all is_digit_char r" by simp
    with ip c show ?thesis
      by (subst split) (auto simp: list_all_iff is_hex_digit)
  qed
qed

lemma normAddress_Some:
  "normAddress v = Some a \<longleftrightarrow> (\<exists>s. v = Some (VStr s) \<and> hex_string 40 s \<and> a = lower s)"
  by (cases v rule: normAddress.cases) auto

lemma form_text_keys [simp]:
  "form_text ''chain_id'' = ''chain_id''" "form_text ''4663'' = ''4663''"
  "form_text ''settlement'' = ''settlement''" "form_text ''allowance'' = ''allowance''"
  "form_text ''sell_token'' = ''sell_token''" "form_text ''buy_token'' = ''buy_token''"
  "form_text ''sell_amount'' = ''sell_amount''" "form_text ''taker'' = ''taker''"
  "form_text ''slippage_bps'' = ''slippage_bps''"
  by code_simp+


lemma assertOfficialRialtoOrigin_eq_Inr:
  "assertOfficialRialtoOrigin parse base = Inr u \<longleftrightarrow>
   parse base = Some u \<and> u_protocol u = ''https:'' \<and> u_hostname u = OFFICIAL_RIALTO_HOST \<and>
   u_username u = [] \<and> u_password u = [] \<and> u_port u = [] \<and> u_pathname u \<in> {[], ''/''} \<and>
   u_search u = [] \<and> u_hash u = []"
  by (auto simp: assertOfficialRialtoOrigin_def split: option.splits)

text \<open>The one request the client may send, as the text of its URL.\<close>

definition official_url :: "RialtoQuoteConfig \<Rightarrow> RialtoQuoteRequest \<Rightarrow> string" where
  "official_url config request =
     ''https://rialto-trade-api.rialto.xyz/quote?chain_id=4663&settlement=allowance&sell_token=''
     @ lower (qc_wethAddress config) @ ''&buy_token='' @ lower (qr_buyToken request)
     @ ''&sell_amount='' @ qr_sellAmountDecimal request @ ''&taker='' @ lower (qc_adapterAddress config)
     @ ''&slippage_bps='' @ form_text (num_text (qc_slippageBps config))"

lemma prepareRequest_Inr:
  assumes "prepareRequest parse apiKey config request = Inr p"
  shows "(\<exists>key. apiKey = Some key \<and> key \<noteq> [] \<and>
      fr_headers (pr_request p) = [(''Authorization'', ''Bearer '' @ key), (''Accept'', ''application/json'')]) \<and>
    fr_url (pr_request p) = official_url config request \<and> fr_method (pr_request p) = ''GET'' \<and>
    fr_redirect (pr_request p) = ''error'' \<and>
    pr_weth p = lower (qc_wethAddress config) \<and> pr_taker p = lower (qc_adapterAddress config) \<and>
    pr_buyToken p = lower (qr_buyToken request) \<and>
    decimalToBaseUnits (qr_sellAmountDecimal request) 18 = Some (pr_expectedSellRaw p)"
proof -
  obtain key u w t b n where k: "apiKey = Some key" "key \<noteq> []"
    and u: "assertOfficialRialtoOrigin parse (qc_apiBaseUrl config) = Inr u"
    and c: "checkConfig config request = Inr (w, t, b, n)"
    and p: "p = \<lparr>pr_weth = w, pr_taker = t, pr_buyToken = b, pr_expectedSellRaw = n,
               pr_request = buildRequest u key config request w t b\<rparr>"
    using assms unfolding prepareRequest_def if_Inl_eq_Inr
    by (cases apiKey) (simp_all add: rbind_eq_Inr split_paired_Ex, blast)
  have ad: "normAddress (Some (VStr (qc_wethAddress config))) = Some w"
      "normAddress (Some (VStr (qc_adapterAddress config))) = Some t"
      "normAddress (Some (VStr (qr_buyToken request))) = Some b"
    and n: "decimalToBaseUnits (qr_sellAmountDecimal request) 18 = Some n"
    using c by (auto simp: checkConfig_def SELL_TOKEN_DECIMALS_def simp del: normAddress.simps
        split: option.splits if_splits)
  have dec: "decimal_re (qr_sellAmountDecimal request)"
    using n by (simp add: decimalToBaseUnits_def split: if_splits)
  have ad': "w = lower (qc_wethAddress config)" "t = lower (qc_adapterAddress config)"
    "b = lower (qr_buyToken request)" and plain: "form_text w = w" "form_text t = t" "form_text b = b"
    using ad unfolding normAddress_Some by (auto intro!: address_plain hex_string_lower)
  have "fr_url (pr_request p) = official_url config request"
    using u unfolding p official_url_def quoteUrl_def buildRequest_def ad' [symmetric]
    by (simp add: assertOfficialRialtoOrigin_eq_Inr OFFICIAL_RIALTO_HOST_def plain decimal_plain [OF dec])
  with k p n ad' show ?thesis by (simp add: buildRequest_def)
qed

subsection \<open>The response\<close>

lemma typed_eq_Inr [simp]: "typed r = Inr a \<longleftrightarrow> r = Inr a"
  by (cases r) (auto simp: typed_def)

lemma checkTx_eq_Inr:
  "checkTx config body = Inr (target, d) \<longleftrightarrow>
   (\<exists>tx. jfield body ''tx'' = Some tx \<and> isObject (Some tx) \<and> nullish (jfield tx ''signature_offset'') \<and>
      normAddress (jfield tx ''to'') = Some target \<and> target \<noteq> ZERO_ADDRESS \<and>
      jfield tx ''data'' = Some (VStr d) \<and> hex_re d \<and> 10 \<le> length d \<and> even (length d) \<and>
      int ((length d - 2) div 2) \<le> (case qc_maxCallDataBytes config of None \<Rightarrow> 8192 | Some m \<Rightarrow> m) \<and>
      rawEquals (jfield tx ''value'') 0)"
  by (cases "jfield body ''tx''")
    (auto simp: checkTx_def boundedCalldata_def Let_def not_less split: option.splits JsonValue.splits)

lemma parsePositiveBigInt_pos: "parsePositiveBigInt v = Some n \<Longrightarrow> 0 < n \<and> rawEquals v n"
  by (cases v rule: parsePositiveBigInt.cases) (auto simp: Let_def split: if_splits option.splits)

lemma checkIssues_Inr: "checkIssues target iss = Inr sp \<Longrightarrow> sp = None \<or> sp = Some target"
  by (auto simp: checkIssues_def Let_def split: if_splits)

lemma checkHeader_Inr:
  "checkHeader weth taker buyToken sell body = Inr u \<Longrightarrow>
   jfield body ''chain_id'' = Some (VNum (Safe 4663)) \<and>
   jfield body ''settlement'' = Some (VStr ''allowance'') \<and> nullish (jfield body ''permit2'') \<and>
   normAddress (jfield body ''sell_token'') = Some weth \<and> normAddress (jfield body ''buy_token'') = Some buyToken \<and>
   rawEquals (jfield body ''sell_amount'') sell \<and> normAddress (jfield body ''taker'') = Some taker"
  by (auto simp: checkHeader_def split: if_splits)

lemma validateQuote_Inr:
  assumes "validateQuote sha config request weth taker buyToken sell body = Inr r"
  shows "checkHeader weth taker buyToken sell body = Inr () \<and>
    checkTx config body = Inr (qt_target r, qt_callData r) \<and> qt_sellAmountRaw r = sell \<and>
    qt_buyToken r = buyToken \<and> qt_minBuyAmountRaw r \<le> sell * 1000000 \<and>
    parsePositiveBigInt (jfield body ''min_buy_amount'') = Some (qt_minBuyAmountRaw r) \<and>
    is_allowanceSpender (qm_issues (qt_meta r)) \<in> {None, Some (qt_target r)} \<and>
    qm_txTarget (qt_meta r) = qt_target r \<and> qm_selector (qt_meta r) = take 10 (qt_callData r)"
proof -
  obtain target d minBuy sp digest where
    h: "checkHeader weth taker buyToken sell body = Inr ()" and t: "checkTx config body = Inr (target, d)"
    and m: "checkMinBuy sell body = Inr minBuy" and i: "checkIssues target (jfield body ''issues'') = Inr sp"
    and r: "r = \<lparr>qt_target = target, qt_callData = d, qt_sellAmountRaw = sell,
            qt_sellAmountDecimal = qr_sellAmountDecimal request, qt_minBuyAmountRaw = minBuy,
            qt_buyToken = buyToken, qt_quoteExpiry = quoteExpiryOf body,
            qt_meta = quoteMeta request weth buyToken sell body target d minBuy sp digest\<rparr>"
    using assms by (auto simp: validateQuote_def rbind_eq_Inr)
  have "parsePositiveBigInt (jfield body ''min_buy_amount'') = Some minBuy" "minBuy \<le> sell * 1000000"
    using m by (auto simp: checkMinBuy_def split: option.splits)
  with h t i checkIssues_Inr [OF i] show ?thesis unfolding r by (simp add: quoteMeta_def)
qed

lemma readResponse_eq_Inr:
  "readResponse parseJson m oc = Inr body \<longleftrightarrow>
   (\<exists>t. oc = Responded True (Some t) \<and> int (length t) \<le> m \<and> parseJson t = Some body)"
  by (auto simp: readResponse_def not_less split: FetchOutcome.splits option.splits)

text \<open>
  C24: a quote the client returns was read from the answer to the one request to the official host,
  a GET that follows no redirect; it buys the requested token for the configured adapter, sells
  exactly the requested decimal amount, moves no native value, carries no permit, targets a
  non-zero address with bounded, byte-aligned calldata, promises a positive minimum, and asks for
  an allowance to no one but its target.
\<close>

theorem fetchRialtoAllowanceQuote_safe:
  assumes "fetchRialtoAllowanceQuote parseUrl parseJson sha256Hex fetch apiKey config request = Inr r"
  shows "\<exists>rq t body tx. fr_url rq = official_url config request \<and> fr_method rq = ''GET'' \<and>
    fr_redirect rq = ''error'' \<and> fetch rq = Responded True (Some t) \<and> parseJson t = Some body \<and>
    jfield body ''chain_id'' = Some (VNum (Safe 4663)) \<and>
    nullish (jfield body ''permit2'') \<and>
    normAddress (jfield body ''sell_token'') = Some (lower (qc_wethAddress config)) \<and>
    normAddress (jfield body ''buy_token'') = Some (lower (qr_buyToken request)) \<and>
    normAddress (jfield body ''taker'') = Some (lower (qc_adapterAddress config)) \<and>
    decimalToBaseUnits (qr_sellAmountDecimal request) 18 = Some (qt_sellAmountRaw r) \<and>
    rawEquals (jfield body ''sell_amount'') (qt_sellAmountRaw r) \<and>
    rawEquals (jfield body ''min_buy_amount'') (qt_minBuyAmountRaw r) \<and>
    0 < qt_minBuyAmountRaw r \<and> qt_minBuyAmountRaw r \<le> qt_sellAmountRaw r * 1000000 \<and>
    jfield body ''tx'' = Some tx \<and> rawEquals (jfield tx ''value'') 0 \<and>
    normAddress (jfield tx ''to'') = Some (qt_target r) \<and> qt_target r \<noteq> ZERO_ADDRESS \<and>
    jfield tx ''data'' = Some (VStr (qt_callData r)) \<and> hex_re (qt_callData r) \<and>
    10 \<le> length (qt_callData r) \<and> even (length (qt_callData r)) \<and>
    is_allowanceSpender (qm_issues (qt_meta r)) \<in> {None, Some (qt_target r)}"
proof -
  from assms obtain p t body where p: "prepareRequest parseUrl apiKey config request = Inr p"
    and f: "fetch (pr_request p) = Responded True (Some t)" and b: "parseJson t = Some body"
    and v: "validateQuote sha256Hex config request (pr_weth p) (pr_taker p) (pr_buyToken p)
      (pr_expectedSellRaw p) body = Inr r"
    by (auto simp: fetchRialtoAllowanceQuote_def rbind_eq_Inr readResponse_eq_Inr)
  note rq = prepareRequest_Inr [OF p] and vq = validateQuote_Inr [OF v]
  obtain tx where tx: "jfield body ''tx'' = Some tx" "rawEquals (jfield tx ''value'') 0"
    "normAddress (jfield tx ''to'') = Some (qt_target r)" "qt_target r \<noteq> ZERO_ADDRESS"
    "jfield tx ''data'' = Some (VStr (qt_callData r))" "hex_re (qt_callData r)"
    "10 \<le> length (qt_callData r)" "even (length (qt_callData r))"
    using vq by (auto simp: checkTx_eq_Inr)
  have h: "checkHeader (pr_weth p) (pr_taker p) (pr_buyToken p) (pr_expectedSellRaw p) body = Inr ()"
    using vq by blast
  have m: "0 < qt_minBuyAmountRaw r \<and> rawEquals (jfield body ''min_buy_amount'') (qt_minBuyAmountRaw r)"
    using vq by (intro parsePositiveBigInt_pos) blast
  show ?thesis
    by (rule exI [of _ "pr_request p"], rule exI [of _ t], rule exI [of _ body], rule exI [of _ tx])
      (use rq vq tx m f b checkHeader_Inr [OF h] in simp)
qed

text \<open>
  The API key reaches nothing but the request: with any two keys on which the server answers alike,
  the client returns the same quote or the same error.
\<close>

theorem fetchRialtoAllowanceQuote_key_independent:
  assumes "k1 \<noteq> []" and "k2 \<noteq> []"
    and "\<And>rq. fetch (rq\<lparr>fr_headers := [(''Authorization'', ''Bearer '' @ k1), (''Accept'', ''application/json'')]\<rparr>)
          = fetch (rq\<lparr>fr_headers := [(''Authorization'', ''Bearer '' @ k2), (''Accept'', ''application/json'')]\<rparr>)"
  shows "fetchRialtoAllowanceQuote parseUrl parseJson sha256Hex fetch (Some k1) config request =
         fetchRialtoAllowanceQuote parseUrl parseJson sha256Hex fetch (Some k2) config request"
proof -
  let ?h = "\<lambda>k. [(''Authorization'', ''Bearer '' @ k), (''Accept'', ''application/json'')]"
  have eq: "prepareRequest parseUrl (Some k2) config request =
      rbind (prepareRequest parseUrl (Some k1) config request)
        (\<lambda>p. Inr (p\<lparr>pr_request := (pr_request p)\<lparr>fr_headers := ?h k2\<rparr>\<rparr>))"
    using assms(1,2) by (auto simp: prepareRequest_def rbind_def buildRequest_def split: sum.splits)
  have hd: "(pr_request p)\<lparr>fr_headers := ?h k1\<rparr> = pr_request p"
    if "prepareRequest parseUrl (Some k1) config request = Inr p" for p
    using prepareRequest_Inr [OF that] by (cases "pr_request p") auto
  show ?thesis
  proof (cases "prepareRequest parseUrl (Some k1) config request")
    case (Inl e)
    then show ?thesis by (simp add: fetchRialtoAllowanceQuote_def eq)
  next
    case (Inr p)
    have "fetch ((pr_request p)\<lparr>fr_headers := ?h k2\<rparr>) = fetch (pr_request p)"
      using assms(3) [of "pr_request p"] hd [OF Inr] by metis
    with Inr show ?thesis by (simp add: fetchRialtoAllowanceQuote_def eq)
  qed
qed


subsection \<open>A concrete quote\<close>

definition ex_address :: "char \<Rightarrow> string" where
  "ex_address c = ''0x'' @ replicate 40 c"

definition ex_quote_config :: RialtoQuoteConfig where
  "ex_quote_config = \<lparr>qc_apiBaseUrl = ''base'', qc_chainId = Safe 4663, qc_wethAddress = ex_address (CHR ''A''),
     qc_adapterAddress = ex_address (CHR ''b''), qc_slippageBps = Safe 50, qc_timeoutMs = None,
     qc_maxResponseBytes = None, qc_maxCallDataBytes = None\<rparr>"

definition ex_quote_request :: RialtoQuoteRequest where
  "ex_quote_request = \<lparr>qr_buyToken = ex_address (CHR ''c''), qr_sellAmountDecimal = ''0.01''\<rparr>"

definition ex_url :: Url where
  "ex_url = \<lparr>u_protocol = ''https:'', u_hostname = OFFICIAL_RIALTO_HOST, u_username = [], u_password = [],
     u_port = [], u_pathname = ''/'', u_search = [], u_hash = []\<rparr>"

definition ex_body :: JsonValue where
  "ex_body = VObj
     [(''chain_id'', VNum (Safe 4663)), (''settlement'', VStr ''allowance''),
      (''sell_token'', VStr (ex_address (CHR ''a''))), (''buy_token'', VStr (ex_address (CHR ''C''))),
      (''sell_amount'', VStr ''10000000000000000''), (''taker'', VStr (ex_address (CHR ''B''))),
      (''tx'', VObj [(''to'', VStr (ex_address (CHR ''d''))), (''data'', VStr ''0x12345678''), (''value'', VStr ''0'')]),
      (''min_buy_amount'', VStr ''77''), (''expiry'', VNum (Safe 2000)),
      (''issues'', VObj [(''allowance'', VObj [(''spender'', VStr (ex_address (CHR ''D'')))])])]"

definition ex_fetch :: "FetchRequest \<Rightarrow> FetchOutcome" where
  "ex_fetch rq = (if fr_method rq = ''GET'' then Responded True (Some ''body'') else Rejected ''Error'')"

definition ex_fetch_quote :: "string \<Rightarrow> failure + RialtoQuoteResult" where
  "ex_fetch_quote key = fetchRialtoAllowanceQuote (\<lambda>_. Some ex_url) (\<lambda>_. Some ex_body) id ex_fetch (Some key)
     ex_quote_config ex_quote_request"

lemma ex_fetch_quote_ok: "is_ok (ex_fetch_quote ''k'')"
  by code_simp

theorem fetchRialtoAllowanceQuote_safe_witness:
  "\<exists>r. ex_fetch_quote ''k'' = Inr r \<and> 0 < qt_minBuyAmountRaw r \<and> qt_target r \<noteq> ZERO_ADDRESS"
proof -
  obtain r where r: "ex_fetch_quote ''k'' = Inr r" using ex_fetch_quote_ok by (auto simp: is_ok_iff)
  then show ?thesis
    using fetchRialtoAllowanceQuote_safe [OF r [unfolded ex_fetch_quote_def]] by blast
qed

theorem fetchRialtoAllowanceQuote_key_independent_witness:
  "ex_fetch_quote ''k'' = ex_fetch_quote ''other''"
  unfolding ex_fetch_quote_def
  by (rule fetchRialtoAllowanceQuote_key_independent) (simp_all add: ex_fetch_def)

end
