(* ===== verification/Execution.thy ===== *)
theory Execution
  imports Quotes
begin

text \<open>
  \<open>packages/rialto/src/quote-structural.ts\<close>: the fail-closed check of a quote's calldata against the
  live router and the approved selectors. The ABI codec (of the viem library) is the parameters
  \<open>decodeAbi\<close> (\<open>None\<close> when it throws) and \<open>encodeAbi\<close>. A decoded value is a text, a bigint or
  something else of which only the text is used; the
  encoder does not throw on what the decoder returned.
\<close>

section \<open>The code\<close>

datatype QuoteExecutionErrorCode =
    SELECTOR_POLICY_MISSING | ROUTER_UNRESOLVED | ROUTER_MISMATCH | WRONG_CHAIN | EMPTY_CALLDATA
  | SHORT_CALLDATA | UNKNOWN_SELECTOR | MULTICALL_FORBIDDEN | DECODE_FAILED | TRAILING_CALLDATA
  | ARG_TOKEN_MISMATCH | ARG_AMOUNT_MISMATCH | ARG_RECIPIENT_MISMATCH | EXPIRED_QUOTE
  | MISSING_EXPIRY | NONZERO_VALUE

datatype DecodedArg = DStr string | DBig int | DOther string

type_synonym AbiParameters = "string list"

record ApprovedSelector =
  as_selector :: string
  as_signature :: string
  as_params :: AbiParameters
  as_tokenArgIndex :: "int option"
  as_amountArgIndex :: "int option"
  as_recipientArgIndex :: "int option"

record QuoteExecutionPolicy =
  ep_approvedSelectors :: "ApprovedSelector list"
  ep_forbiddenSelectors :: "string list option"

definition DEFAULT_FORBIDDEN_SELECTORS :: "string list" where
  "DEFAULT_FORBIDDEN_SELECTORS = [''0xac9650d8'', ''0x5ae401dc'', ''0x1f0464d1'']"

record QuoteExecutionContext =
  ec_chainId :: int
  ec_resolvedRouter :: "string option"
  ec_expectedBuyToken :: string
  ec_expectedSellAmountRaw :: int
  ec_expectedRecipient :: string
  ec_nowSec :: int

record QuoteExecutionValidation =
  ev_selector :: string
  ev_signature :: string
  ev_decodedArgs :: "DecodedArg list"
  ev_boundToken :: "string option"
  ev_boundAmount :: "string option"
  ev_boundRecipient :: "string option"

text \<open>\<open>decoded[i]\<close>, \<open>None\<close> for \<open>undefined\<close>; \<open>String\<close> of a decoded value.\<close>

definition argAt :: "DecodedArg list \<Rightarrow> int \<Rightarrow> DecodedArg option" where
  "argAt decoded i = (if 0 \<le> i \<and> i < int (length decoded) then Some (decoded ! nat i) else None)"

fun arg_text :: "DecodedArg option \<Rightarrow> string" where
  "arg_text None = ''undefined''"
| "arg_text (Some (DStr s)) = s"
| "arg_text (Some (DBig i)) = dec_of_int i"
| "arg_text (Some (DOther t)) = t"

text \<open>A role argument that must be a text equal to the expected one, letter case aside.\<close>

definition addressArgOk :: "DecodedArg list \<Rightarrow> int option \<Rightarrow> string \<Rightarrow> bool" where
  "addressArgOk decoded i expected \<longleftrightarrow>
     (case i of None \<Rightarrow> True
      | Some j \<Rightarrow> (case argAt decoded j of Some (DStr s) \<Rightarrow> lower s = lower expected | _ \<Rightarrow> False))"

definition amountArgOk :: "DecodedArg list \<Rightarrow> int option \<Rightarrow> int \<Rightarrow> bool" where
  "amountArgOk decoded i expected \<longleftrightarrow>
     (case i of None \<Rightarrow> True | Some j \<Rightarrow> argAt decoded j = Some (DBig expected))"

definition boundText :: "DecodedArg list \<Rightarrow> int option \<Rightarrow> string option" where
  "boundText decoded i = map_option (\<lambda>j. arg_text (argAt decoded j)) i"

definition selectApproved ::
  "string \<Rightarrow> QuoteExecutionPolicy \<Rightarrow> QuoteExecutionErrorCode + ApprovedSelector" where
  "selectApproved selector policy =
     (let forbidden = map lower (case ep_forbiddenSelectors policy of
                                   None \<Rightarrow> DEFAULT_FORBIDDEN_SELECTORS | Some fs \<Rightarrow> fs)
      in if selector \<in> set forbidden then Inl MULTICALL_FORBIDDEN
         else if length (ep_approvedSelectors policy) = 0 then Inl SELECTOR_POLICY_MISSING
         else case find (\<lambda>a. lower (as_selector a) = selector) (ep_approvedSelectors policy) of
           None \<Rightarrow> Inl UNKNOWN_SELECTOR
         | Some approved \<Rightarrow> Inr approved)"

definition decodeExact ::
  "(AbiParameters \<Rightarrow> string \<Rightarrow> DecodedArg list option) \<Rightarrow> (AbiParameters \<Rightarrow> DecodedArg list \<Rightarrow> string)
    \<Rightarrow> ApprovedSelector \<Rightarrow> string \<Rightarrow> QuoteExecutionErrorCode + DecodedArg list" where
  "decodeExact decodeAbi encodeAbi approved data =
     (case decodeAbi (as_params approved) (''0x'' @ drop 10 data) of
        None \<Rightarrow> Inl DECODE_FAILED
      | Some decoded \<Rightarrow>
          let reencoded = encodeAbi (as_params approved) decoded in
          if lower (''0x'' @ drop 10 data) \<noteq> lower reencoded then Inl TRAILING_CALLDATA
          else Inr decoded)"

definition validateQuoteExecution ::
  "(AbiParameters \<Rightarrow> string \<Rightarrow> DecodedArg list option) \<Rightarrow> (AbiParameters \<Rightarrow> DecodedArg list \<Rightarrow> string)
    \<Rightarrow> RialtoQuoteResult \<Rightarrow> QuoteExecutionContext \<Rightarrow> QuoteExecutionPolicy
    \<Rightarrow> QuoteExecutionErrorCode + QuoteExecutionValidation" where
  "validateQuoteExecution decodeAbi encodeAbi quote ctx policy =
     (if ec_chainId ctx \<noteq> 4663 then Inl WRONG_CHAIN
      else if ec_resolvedRouter ctx = None \<or> ec_resolvedRouter ctx = Some [] then Inl ROUTER_UNRESOLVED
      else if lower (qt_target quote) \<noteq> lower (the (ec_resolvedRouter ctx)) then Inl ROUTER_MISMATCH
      else
        let data = qt_callData quote; selector = lower (take 10 data) in
        if data = ''0x'' \<or> length data = 0 then Inl EMPTY_CALLDATA
        else if length data < 10 then Inl SHORT_CALLDATA
        else
          rbind (selectApproved selector policy) (\<lambda>approved.
          rbind (decodeExact decodeAbi encodeAbi approved data) (\<lambda>decoded.
            if \<not> addressArgOk decoded (as_tokenArgIndex approved) (ec_expectedBuyToken ctx)
            then Inl ARG_TOKEN_MISMATCH
            else if \<not> amountArgOk decoded (as_amountArgIndex approved) (ec_expectedSellAmountRaw ctx)
            then Inl ARG_AMOUNT_MISMATCH
            else if \<not> addressArgOk decoded (as_recipientArgIndex approved) (ec_expectedRecipient ctx)
            then Inl ARG_RECIPIENT_MISMATCH
            else case qt_quoteExpiry quote of
              None \<Rightarrow> Inl MISSING_EXPIRY
            | Some e \<Rightarrow>
                if e \<le> ec_nowSec ctx then Inl EXPIRED_QUOTE
                else Inr \<lparr>ev_selector = selector, ev_signature = as_signature approved,
                          ev_decodedArgs = decoded,
                          ev_boundToken = boundText decoded (as_tokenArgIndex approved),
                          ev_boundAmount = boundText decoded (as_amountArgIndex approved),
                          ev_boundRecipient = boundText decoded (as_recipientArgIndex approved)\<rparr>)))"

section \<open>Properties\<close>

lemma selectApproved_eq_Inr:
  "selectApproved sel policy = Inr a \<longleftrightarrow>
   sel \<notin> lower ` set (case ep_forbiddenSelectors policy of None \<Rightarrow> DEFAULT_FORBIDDEN_SELECTORS | Some fs \<Rightarrow> fs) \<and>
   find (\<lambda>a. lower (as_selector a) = sel) (ep_approvedSelectors policy) = Some a"
  by (cases "ep_approvedSelectors policy") (auto simp: selectApproved_def Let_def split: option.splits)

lemma decodeExact_eq_Inr:
  "decodeExact dec enc a data = Inr xs \<longleftrightarrow>
   dec (as_params a) (''0x'' @ drop 10 data) = Some xs \<and>
   lower (''0x'' @ drop 10 data) = lower (enc (as_params a) xs)"
  by (auto simp: decodeExact_def Let_def split: option.splits)

lemma addressArgOk_Some:
  "addressArgOk xs (Some j) e \<Longrightarrow> \<exists>s. argAt xs j = Some (DStr s) \<and> lower s = lower e"
  by (auto simp: addressArgOk_def split: option.splits DecodedArg.splits)

lemma lower_calldata:
  assumes "10 \<le> length data" and "lower (''0x'' @ drop 10 data) = lower (enc ps xs)"
  shows "lower data = lower (take 10 data) @ drop 2 (lower (enc ps xs))"
proof -
  have "drop 2 (lower (''0x'' @ drop 10 data)) = lower (drop 10 data)" by (simp add: lower_def)
  moreover have "lower data = lower (take 10 data) @ lower (drop 10 data)"
    by (simp flip: lower_append)
  ultimately show ?thesis using assms(2) by simp
qed

text \<open>
  C25: calldata passes only for the live router on chain 4663, before its expiry, under an approved and
  not forbidden selector, when it is byte for byte the selector followed by the canonical
  encoding of its decoded arguments, and every role the policy declares is bound: the token to the
  expected stock, the amount to the authorized input, the recipient to the adapter.
\<close>

theorem validateQuoteExecution_binds:
  assumes "validateQuoteExecution decodeAbi encodeAbi quote ctx policy = Inr v"
  shows "\<exists>a router e. a \<in> set (ep_approvedSelectors policy) \<and>
    ec_chainId ctx = 4663 \<and> ec_resolvedRouter ctx = Some router \<and> lower (qt_target quote) = lower router \<and>
    lower (as_selector a) = ev_selector v \<and> ev_signature v = as_signature a \<and>
    ev_selector v \<notin> lower ` set (case ep_forbiddenSelectors policy of
                                  None \<Rightarrow> DEFAULT_FORBIDDEN_SELECTORS | Some fs \<Rightarrow> fs) \<and>
    lower (qt_callData quote) = ev_selector v @ drop 2 (lower (encodeAbi (as_params a) (ev_decodedArgs v))) \<and>
    addressArgOk (ev_decodedArgs v) (as_tokenArgIndex a) (ec_expectedBuyToken ctx) \<and>
    amountArgOk (ev_decodedArgs v) (as_amountArgIndex a) (ec_expectedSellAmountRaw ctx) \<and>
    addressArgOk (ev_decodedArgs v) (as_recipientArgIndex a) (ec_expectedRecipient ctx) \<and>
    map_option lower (ev_boundToken v) = map_option (\<lambda>_. lower (ec_expectedBuyToken ctx)) (as_tokenArgIndex a) \<and>
    ev_boundAmount v = map_option (\<lambda>_. dec_of_int (ec_expectedSellAmountRaw ctx)) (as_amountArgIndex a) \<and>
    map_option lower (ev_boundRecipient v)
      = map_option (\<lambda>_. lower (ec_expectedRecipient ctx)) (as_recipientArgIndex a) \<and>
    qt_quoteExpiry quote = Some e \<and> ec_nowSec ctx < e"
proof -
  let ?data = "qt_callData quote"
  obtain a xs router e where base: "ec_chainId ctx = 4663" "ec_resolvedRouter ctx = Some router"
      "lower (qt_target quote) = lower router" "10 \<le> length ?data"
    and sel: "selectApproved (lower (take 10 ?data)) policy = Inr a"
    and dec: "decodeExact decodeAbi encodeAbi a ?data = Inr xs"
    and args: "addressArgOk xs (as_tokenArgIndex a) (ec_expectedBuyToken ctx)"
      "amountArgOk xs (as_amountArgIndex a) (ec_expectedSellAmountRaw ctx)"
      "addressArgOk xs (as_recipientArgIndex a) (ec_expectedRecipient ctx)"
    and e: "qt_quoteExpiry quote = Some e" "ec_nowSec ctx < e"
    and v: "ev_selector v = lower (take 10 ?data)" "ev_signature v = as_signature a" "ev_decodedArgs v = xs"
      "ev_boundToken v = boundText xs (as_tokenArgIndex a)" "ev_boundAmount v = boundText xs (as_amountArgIndex a)"
      "ev_boundRecipient v = boundText xs (as_recipientArgIndex a)"
    using assms
    by (auto simp: validateQuoteExecution_def Let_def rbind_eq_Inr not_less not_le split: option.splits)
  have addr: "map_option lower (boundText xs i) = map_option (\<lambda>_. lower ex) i"
    if "addressArgOk xs i ex" for i ex
    using that by (cases i) (auto simp: boundText_def dest!: addressArgOk_Some)
  have amt: "boundText xs (as_amountArgIndex a)
      = map_option (\<lambda>_. dec_of_int (ec_expectedSellAmountRaw ctx)) (as_amountArgIndex a)"
    using args(2) by (cases "as_amountArgIndex a") (auto simp: amountArgOk_def boundText_def)
  have mem: "a \<in> set (ep_approvedSelectors policy)" "lower (as_selector a) = lower (take 10 ?data)"
    using sel by (auto simp: selectApproved_eq_Inr find_Some_iff)
  have data: "lower ?data = lower (take 10 ?data) @ drop 2 (lower (encodeAbi (as_params a) xs))"
    using base(4) dec by (intro lower_calldata) (auto simp: decodeExact_eq_Inr)
  have nf: "lower (take 10 ?data) \<notin> lower ` set (case ep_forbiddenSelectors policy of
                                  None \<Rightarrow> DEFAULT_FORBIDDEN_SELECTORS | Some fs \<Rightarrow> fs)"
    using sel unfolding selectApproved_eq_Inr by blast
  show ?thesis
    by (rule exI [of _ a], rule exI [of _ router], rule exI [of _ e])
      (use base(1-3) mem data nf args e v addr [OF args(1)] addr [OF args(3)] amt in simp)
qed

definition ex_selector :: ApprovedSelector where
  "ex_selector = \<lparr>as_selector = ''0x12345678'', as_signature = ''buy(address,uint256)'',
     as_params = [''address'', ''uint256''], as_tokenArgIndex = Some 0, as_amountArgIndex = Some 1,
     as_recipientArgIndex = None\<rparr>"

definition ex_ctx :: QuoteExecutionContext where
  "ex_ctx = \<lparr>ec_chainId = 4663, ec_resolvedRouter = Some (ex_address (CHR ''D'')),
     ec_expectedBuyToken = ''0xC'', ec_expectedSellAmountRaw = 5, ec_expectedRecipient = ''0xB'',
     ec_nowSec = 1000\<rparr>"

definition ex_encode :: "AbiParameters \<Rightarrow> DecodedArg list \<Rightarrow> string" where
  "ex_encode ps xs = ''0x'' @ concat (map (\<lambda>x. arg_text (Some x)) xs)"

definition ex_execute :: "QuoteExecutionErrorCode + QuoteExecutionValidation" where
  "ex_execute = validateQuoteExecution (\<lambda>_ _. Some [DStr ''0xc'', DBig 5]) ex_encode
     \<lparr>qt_target = ex_address (CHR ''d''), qt_callData = ''0x123456780xC5'', qt_sellAmountRaw = 5,
      qt_sellAmountDecimal = ''0.000000000000000005'', qt_minBuyAmountRaw = 1, qt_buyToken = ''0xc'',
      qt_quoteExpiry = Some 1001,
      qt_meta = quoteMeta ex_quote_request [] [] 5 VNull [] [] 1 None None\<rparr>
     ex_ctx \<lparr>ep_approvedSelectors = [ex_selector], ep_forbiddenSelectors = None\<rparr>"

theorem validateQuoteExecution_binds_witness:
  "\<exists>v. ex_execute = Inr v \<and> ev_selector v \<notin> lower ` set DEFAULT_FORBIDDEN_SELECTORS"
proof -
  have "is_ok ex_execute" by code_simp
  then obtain v where v: "ex_execute = Inr v" by (auto simp: is_ok_iff)
  then show ?thesis using validateQuoteExecution_binds [OF v [unfolded ex_execute_def]] by auto
qed

text \<open>
  With no approved selector every quote is refused, whatever it carries.
\<close>

theorem validateQuoteExecution_default_closed:
  "ep_approvedSelectors policy = [] \<Longrightarrow>
   \<not> is_ok (validateQuoteExecution decodeAbi encodeAbi quote ctx policy)"
  by (auto simp: validateQuoteExecution_def selectApproved_def Let_def is_ok_def)

theorem validateQuoteExecution_default_closed_witness:
  "\<not> is_ok (validateQuoteExecution (\<lambda>_ _. Some []) ex_encode
     \<lparr>qt_target = ex_address (CHR ''d''), qt_callData = ''0x12345678'', qt_sellAmountRaw = 5,
      qt_sellAmountDecimal = ''1'', qt_minBuyAmountRaw = 1, qt_buyToken = ''0xc'', qt_quoteExpiry = None,
      qt_meta = quoteMeta ex_quote_request [] [] 5 VNull [] [] 1 None None\<rparr>
     ex_ctx \<lparr>ep_approvedSelectors = [], ep_forbiddenSelectors = Some []\<rparr>)"
  by (rule validateQuoteExecution_default_closed) simp

end
