(* ===== verification/QuoteEval.thy ===== *)
theory QuoteEval
  imports Execution Registry
begin

text \<open>
  \<open>packages/rialto/src/quote-eval-cli.ts\<close>: one isolated quote evaluation, composed of the quote client
  (\<open>Quotes\<close>), the calldata check (\<open>Execution\<close>) and the boundary status (\<open>Registry\<close>), its configuration
  from the environment and the retired command line. The literal fields and the notes of the report, which
  nothing reads back, are left out of its record. Codes are values of the two error types, \<open>OtherError\<close>
  standing for \<open>"UNKNOWN_ERROR"\<close>; what the command line writes is the list of its two streams' items.
  The conversion of a decimal beyond the safe integers to a double is a parameter.
\<close>

section \<open>The evaluation\<close>

definition OFFICIAL_RIALTO_ORIGIN :: string where
  "OFFICIAL_RIALTO_ORIGIN = ''https://rialto-trade-api.rialto.xyz''"

definition OFFICIAL_RIALTO_ROUTER_REGISTRY :: string where
  "OFFICIAL_RIALTO_ROUTER_REGISTRY = ''0x71a120CbBf3Ce7cD910a3c50fF77aFc62735687E''"

datatype EvalStage = stage_fetch | stage_structural | stage_done

record RequestView =
  rv_origin :: string
  rv_sellToken :: string
  rv_buyToken :: string
  rv_taker :: string
  rv_sellAmountDecimal :: string
  rv_slippageBps :: number

record RouterReconciliation =
  rr_observedTarget :: string
  rr_operatorSuppliedRouter :: "string option"
  rr_officialRegistry :: string

record QuoteEvalReport =
  qe_ok :: bool
  qe_stage :: EvalStage
  qe_request :: RequestView
  qe_quote :: "RialtoQuoteMeta option"
  qe_structuralPassed :: bool
  qe_structuralErrorCode :: "QuoteExecutionErrorCode option"
  qe_routerReconciliation :: "RouterReconciliation option"
  qe_boundaryStatus :: RialtoBoundaryStatus
  qe_fetchErrorCode :: "failure option"

definition requestView :: "RialtoQuoteConfig \<Rightarrow> RialtoQuoteRequest \<Rightarrow> RequestView" where
  "requestView config request =
     \<lparr>rv_origin = qc_apiBaseUrl config, rv_sellToken = qc_wethAddress config,
      rv_buyToken = qr_buyToken request, rv_taker = qc_adapterAddress config,
      rv_sellAmountDecimal = qr_sellAmountDecimal request, rv_slippageBps = qc_slippageBps config\<rparr>"

definition boundaryOf :: "bool \<Rightarrow> bool \<Rightarrow> RialtoBoundaryStatus" where
  "boundaryOf observed passed =
     bv_status (classifyBoundary \<lparr>bo_quoteObserved = observed, bo_structuralValidationPassed = passed,
       bo_priceGuardPassed = False, bo_localForkSettlementPassed = False, bo_mainnetReceipt = None\<rparr>)"

text \<open>The chain id of the context is a whole number: a quote is only fetched with the id 4663.\<close>

definition evalContext ::
  "RialtoQuoteConfig \<Rightarrow> RialtoQuoteRequest \<Rightarrow> RialtoQuoteResult \<Rightarrow> string option \<Rightarrow> int
    \<Rightarrow> QuoteExecutionContext" where
  "evalContext config request quote resolvedRouter nowSec =
     \<lparr>ec_chainId = (case num_int (qc_chainId config) of Some i \<Rightarrow> i | None \<Rightarrow> 0),
      ec_resolvedRouter = resolvedRouter, ec_expectedBuyToken = qr_buyToken request,
      ec_expectedSellAmountRaw = qt_sellAmountRaw quote, ec_expectedRecipient = qc_adapterAddress config,
      ec_nowSec = nowSec\<rparr>"

definition emptyPolicy :: QuoteExecutionPolicy where
  "emptyPolicy = \<lparr>ep_approvedSelectors = [], ep_forbiddenSelectors = None\<rparr>"

definition runQuoteEval ::
  "(AbiParameters \<Rightarrow> string \<Rightarrow> DecodedArg list option) \<Rightarrow> (AbiParameters \<Rightarrow> DecodedArg list \<Rightarrow> string)
    \<Rightarrow> (RialtoQuoteConfig \<Rightarrow> RialtoQuoteRequest \<Rightarrow> failure + RialtoQuoteResult)
    \<Rightarrow> RialtoQuoteConfig \<Rightarrow> RialtoQuoteRequest \<Rightarrow> string option \<Rightarrow> int \<Rightarrow> QuoteEvalReport" where
  "runQuoteEval decodeAbi encodeAbi fetchQuote config request resolvedRouter nowSec =
     (let request_view = requestView config request in
      case fetchQuote config request of
        Inl err \<Rightarrow>
          \<lparr>qe_ok = False, qe_stage = stage_fetch, qe_request = request_view, qe_quote = None,
           qe_structuralPassed = False, qe_structuralErrorCode = None, qe_routerReconciliation = None,
           qe_boundaryStatus = boundaryOf False False, qe_fetchErrorCode = Some err\<rparr>
      | Inr quote \<Rightarrow>
          (let verdict = validateQuoteExecution decodeAbi encodeAbi quote
                 (evalContext config request quote resolvedRouter nowSec) emptyPolicy;
               structuralPassed = is_ok verdict;
               structuralErrorCode = (case verdict of Inl code \<Rightarrow> Some code | Inr _ \<Rightarrow> None)
           in \<lparr>qe_ok = True, qe_stage = (if structuralPassed then stage_done else stage_structural),
               qe_request = request_view, qe_quote = Some (qt_meta quote),
               qe_structuralPassed = structuralPassed, qe_structuralErrorCode = structuralErrorCode,
               qe_routerReconciliation = Some \<lparr>rr_observedTarget = qt_target quote,
                 rr_operatorSuppliedRouter = resolvedRouter,
                 rr_officialRegistry = OFFICIAL_RIALTO_ROUTER_REGISTRY\<rparr>,
               qe_boundaryStatus = boundaryOf True structuralPassed, qe_fetchErrorCode = None\<rparr>))"

section \<open>The command line\<close>

type_synonym env = "string \<Rightarrow> string option"

datatype usage_error = UsageError string

definition present :: "string option \<Rightarrow> bool" where
  "present v \<longleftrightarrow> v \<noteq> None \<and> v \<noteq> Some []"

definition requireEnv :: "env \<Rightarrow> string \<Rightarrow> usage_error + string" where
  "requireEnv env name =
     (if \<not> present (env name) then Inl (UsageError (''missing required environment variable: '' @ name))
      else Inr (the (env name)))"

definition toNumber :: "(string \<Rightarrow> number) \<Rightarrow> string \<Rightarrow> number" where
  "toNumber toDouble s = (if int_of_dec s \<le> MAX_SAFE_INTEGER then Safe (int_of_dec s) else toDouble s)"

definition configFromEnv ::
  "(string \<Rightarrow> number) \<Rightarrow> env \<Rightarrow> usage_error + RialtoQuoteConfig \<times> RialtoQuoteRequest \<times> string option" where
  "configFromEnv toDouble env =
     (if \<not> present (env ''RIALTO_API_KEY'')
      then Inl (UsageError ''missing required environment variable: RIALTO_API_KEY'')
      else
        rbind (requireEnv env ''RIALTO_SELL_AMOUNT_DECIMAL'') (\<lambda>sellDecimal.
        if decimalToBaseUnits sellDecimal 18 = None
        then Inl (UsageError (''RIALTO_SELL_AMOUNT_DECIMAL must be a positive decimal token amount '' @
          ''(<= 18 fractional digits), e.g. 0.01''))
        else
          rbind (requireEnv env ''RIALTO_SLIPPAGE_BPS'') (\<lambda>slippageStr.
          if \<not> digits slippageStr then Inl (UsageError ''RIALTO_SLIPPAGE_BPS must be a non-negative integer'')
          else
            (let override = env ''RIALTO_API_BASE_URL'' in
             rbind (requireEnv env ''RIALTO_SELL_TOKEN'') (\<lambda>weth.
             rbind (requireEnv env ''RIALTO_TAKER'') (\<lambda>taker.
             rbind (requireEnv env ''RIALTO_BUY_TOKEN'') (\<lambda>buyToken.
             let rr = env ''RIALTO_RESOLVED_ROUTER'' in
             Inr (\<lparr>qc_apiBaseUrl = (if present override then the override else OFFICIAL_RIALTO_ORIGIN),
                   qc_chainId = Safe 4663, qc_wethAddress = weth, qc_adapterAddress = taker,
                   qc_slippageBps = toNumber toDouble slippageStr, qc_timeoutMs = None,
                   qc_maxResponseBytes = None, qc_maxCallDataBytes = None\<rparr>,
                  \<lparr>qr_buyToken = buyToken, qr_sellAmountDecimal = sellDecimal\<rparr>,
                  if present rr then rr else None))))))))"

definition QEX1_CONSUMED :: bool where "QEX1_CONSUMED = True"

datatype CliStatus = QEX1_CONSUMED_STATUS | AUTH_OK | BAD_CONFIG_STATUS | OK_STATUS | FETCH_STATUS failure
  | ERROR_STATUS

definition evaluateLiveCliAuthorization :: "bool \<times> CliStatus" where
  "evaluateLiveCliAuthorization = (if QEX1_CONSUMED then (False, QEX1_CONSUMED_STATUS) else (True, AUTH_OK))"

text \<open>What is written: the refusal and the usage message go to the error stream, the report to the other.\<close>

datatype Written = ErrConsumed | ErrUsage usage_error | OutReport QuoteEvalReport

definition runLiveQex1Cli ::
  "(string \<Rightarrow> number) \<Rightarrow> (RialtoQuoteConfig \<Rightarrow> RialtoQuoteRequest \<Rightarrow> string option \<Rightarrow> QuoteEvalReport) \<Rightarrow> env
    \<Rightarrow> Written list \<times> CliStatus \<times> int" where
  "runLiveQex1Cli toDouble evaluate env =
     (let (allowed, status) = evaluateLiveCliAuthorization in
      if \<not> allowed then ([ErrConsumed], status, 3)
      else
        (case configFromEnv toDouble env of
           Inl err \<Rightarrow> ([ErrUsage err], BAD_CONFIG_STATUS, 2)
         | Inr (config, request, resolvedRouter) \<Rightarrow>
             (let report = evaluate config request resolvedRouter in
              ([OutReport report],
               if qe_ok report then OK_STATUS
               else (case qe_fetchErrorCode report of Some code \<Rightarrow> FETCH_STATUS code | None \<Rightarrow> ERROR_STATUS),
               if qe_ok report then 0 else 1))))"

section \<open>The evaluation approves nothing\<close>

text \<open>What the client has checked by the time it returns a quote.\<close>

lemma fetched_quote:
  assumes "fetchRialtoAllowanceQuote parseUrl parseJson sha256Hex fetch apiKey config request = Inr q"
  shows "num_int (qc_chainId config) = Some 4663 \<and> 10 \<le> length (qt_callData q)"
proof -
  from assms obtain p body where p: "prepareRequest parseUrl apiKey config request = Inr p"
    and v: "validateQuote sha256Hex config request (pr_weth p) (pr_taker p) (pr_buyToken p)
      (pr_expectedSellRaw p) body = Inr q"
    by (auto simp: fetchRialtoAllowanceQuote_def rbind_eq_Inr)
  have "10 \<le> length (qt_callData q)"
    using validateQuote_Inr [OF v] by (auto simp: checkTx_eq_Inr)
  moreover have "num_int (qc_chainId config) = Some 4663"
    using p by (auto simp: prepareRequest_def rbind_eq_Inr checkConfig_def split: option.splits if_splits)
  ultimately show ?thesis by simp
qed

definition closedCode :: "string option \<Rightarrow> RialtoQuoteResult \<Rightarrow> QuoteExecutionErrorCode" where
  "closedCode router q =
     (case router of None \<Rightarrow> ROUTER_UNRESOLVED
      | Some r \<Rightarrow>
          if r = [] then ROUTER_UNRESOLVED
          else if lower (qt_target q) \<noteq> lower r then ROUTER_MISMATCH
          else if lower (take 10 (qt_callData q)) \<in> {''0xac9650d8'', ''0x5ae401dc'', ''0x1f0464d1''}
          then MULTICALL_FORBIDDEN else SELECTOR_POLICY_MISSING)"

lemma validate_empty:
  assumes "num_int (qc_chainId config) = Some 4663" and "10 \<le> length (qt_callData q)"
  shows "validateQuoteExecution decodeAbi encodeAbi q (evalContext config request q router nowSec) emptyPolicy
    = Inl (closedCode router q)"
proof -
  have "lower ''0xac9650d8'' = ''0xac9650d8''" "lower ''0x5ae401dc'' = ''0x5ae401dc''"
    "lower ''0x1f0464d1'' = ''0x1f0464d1''" by code_simp+
  moreover have "qt_callData q \<noteq> ''0x''" "qt_callData q \<noteq> []" using assms(2) by auto
  ultimately show ?thesis using assms
    by (simp add: validateQuoteExecution_def evalContext_def emptyPolicy_def closedCode_def Let_def
        selectApproved_def DEFAULT_FORBIDDEN_SELECTORS_def split: option.split)
qed

text \<open>
  An evaluation never passes: a failed fetch is reported with its code and nothing observed; a fetched
  quote is reported with its target and metadata as observed, and its validation fails with exactly the code
  that names the missing approval, never with a complaint about chain, calldata or decoding.
\<close>

theorem runQuoteEval_closed:
  "let fetchQuote = fetchRialtoAllowanceQuote parseUrl parseJson sha256Hex fetch apiKey;
       report = runQuoteEval decodeAbi encodeAbi fetchQuote config request router nowSec
   in \<not> qe_structuralPassed report \<and>
     (case fetchQuote config request of
        Inl err \<Rightarrow> \<not> qe_ok report \<and> qe_fetchErrorCode report = Some err \<and> qe_quote report = None \<and>
          qe_boundaryStatus report = QUOTE_NOT_OBSERVED
      | Inr q \<Rightarrow> qe_ok report \<and> qe_stage report = stage_structural \<and> qe_quote report = Some (qt_meta q) \<and>
          qe_structuralErrorCode report = Some (closedCode router q) \<and>
          qe_boundaryStatus report = QUOTE_OBSERVED)"
proof (cases "fetchRialtoAllowanceQuote parseUrl parseJson sha256Hex fetch apiKey config request")
  case (Inl e)
  then show ?thesis by (simp add: runQuoteEval_def Let_def boundaryOf_def classifyBoundary_def)
next
  case (Inr q)
  have "num_int (qc_chainId config) = Some 4663" "10 \<le> length (qt_callData q)"
    using fetched_quote [OF Inr] by simp_all
  with Inr show ?thesis
    by (simp add: runQuoteEval_def Let_def boundaryOf_def classifyBoundary_def validate_empty)
qed

text \<open>
  The live command line is retired: whatever the environment and whatever an evaluation would answer, it
  writes the refusal only and exits with 3.
\<close>

theorem runLiveQex1Cli_retired:
  "runLiveQex1Cli toDouble evaluate env = ([ErrConsumed], QEX1_CONSUMED_STATUS, 3)"
  by (simp add: runLiveQex1Cli_def evaluateLiveCliAuthorization_def QEX1_CONSUMED_def)

end
