(* ===== verification/PreflightCli.thy ===== *)
theory PreflightCli
  imports Preflight QuoteEval
begin

text \<open>
  \<open>packages/rialto/src/canary-preflight-cli.ts\<close>: the command line of the preflight over an environment,
  a clock reading and a reader maker, the redaction of the endpoint and the reader made of an RPC client.
  Texts are ASCII. The URL parser, the client and \<open>Number\<close> of a text that is no whole number within the
  safe integers are parameters; \<open>BigInt\<close> of a text is written out. The outcome is the lines logged, the
  status and the exit code; an exception outside the \<open>try\<close> is an error.
\<close>

section \<open>Texts\<close>

text \<open>\<open>s.split(x).join(y)\<close> for a non-empty \<open>x\<close>.\<close>

function replace_all :: "string \<Rightarrow> string \<Rightarrow> string \<Rightarrow> string" where
  "replace_all x y [] = []"
| "replace_all x y (c # cs) =
     (if x \<noteq> [] \<and> take (length x) (c # cs) = x then y @ replace_all x y (drop (length x) (c # cs))
      else c # replace_all x y cs)"
  by pat_completeness auto
termination by (relation "measure (\<lambda>(x, y, s). length s)") auto

text \<open>A match of \<open>https?://\<close> followed by characters other than blanks, quotes and the closing parenthesis.\<close>

definition url_char :: "char \<Rightarrow> bool" where
  "url_char c \<longleftrightarrow> \<not> white c \<and> (of_char c :: nat) \<notin> {34, 39, 41}"

definition url_head :: "string \<Rightarrow> nat option" where
  "url_head s = (if take 8 s = ''https://'' then Some 8 else if take 7 s = ''http://'' then Some 7 else None)"

definition url_match :: "string \<Rightarrow> bool" where
  "url_match s = (case url_head s of None \<Rightarrow> False
     | Some n \<Rightarrow> (case drop n s of [] \<Rightarrow> False | c # cs \<Rightarrow> url_char c))"

function sweep :: "string \<Rightarrow> string" where
  "sweep [] = []"
| "sweep (c # cs) =
     (if url_match (c # cs)
      then ''[REDACTED_URL]'' @ sweep (dropWhile url_char (drop (the (url_head (c # cs))) (c # cs)))
      else c # sweep cs)"
  by pat_completeness auto
termination
proof (relation "measure length")
  fix c :: char and cs
  assume "url_match (c # cs)"
  then obtain n where "url_head (c # cs) = Some n" "0 < n"
    by (auto simp: url_match_def url_head_def split: option.splits if_splits)
  then show "(dropWhile url_char (drop (the (url_head (c # cs))) (c # cs)), c # cs) \<in> measure length"
    using length_dropWhile_le [of url_char "drop n (c # cs)"] by simp
qed auto

record UrlParts =
  up_host :: string
  up_pathname :: string

definition redactRpc :: "(string \<Rightarrow> UrlParts option) \<Rightarrow> string \<Rightarrow> string \<Rightarrow> string" where
  "redactRpc parseUrl url s =
     (let out = s;
          out = (if url = [] then out
            else
              (let out = replace_all url ''[REDACTED_RPC_URL]'' out in
               case parseUrl url of
                 None \<Rightarrow> out
               | Some u \<Rightarrow>
                   (let out = (if up_host u \<noteq> [] then replace_all (up_host u) ''[REDACTED_RPC_HOST]'' out else out)
                    in if up_pathname u \<noteq> [] \<and> up_pathname u \<noteq> ''/''
                       then replace_all (up_pathname u) ''/[REDACTED_RPC_PATH]'' out else out)))
      in sweep out)"

section \<open>The reader\<close>

record RpcClient =
  cl_getChainId :: "thrown + int"
  cl_getBytecode :: "string \<Rightarrow> thrown + string option"
  cl_call :: "string \<Rightarrow> string \<Rightarrow> thrown + string option"

fun messageOf :: "thrown \<Rightarrow> string" where
  "messageOf (ErrorObject n m) = m"
| "messageOf (OtherThrown s) = s"

definition guard :: "(string \<Rightarrow> UrlParts option) \<Rightarrow> string \<Rightarrow> thrown + 'a \<Rightarrow> thrown + 'a" where
  "guard parseUrl rpcUrl r =
     (case r of Inl e \<Rightarrow> Inl (ErrorObject ''Error'' (redactRpc parseUrl rpcUrl (messageOf e))) | Inr a \<Rightarrow> Inr a)"

definition orEmpty :: "string option \<Rightarrow> string" where
  "orEmpty v = (case v of None \<Rightarrow> ''0x'' | Some h \<Rightarrow> h)"

definition makeRpcReader :: "(string \<Rightarrow> UrlParts option) \<Rightarrow> (string \<Rightarrow> RpcClient) \<Rightarrow> string \<Rightarrow> ChainReader" where
  "makeRpcReader parseUrl connect rpcUrl =
     (let client = connect rpcUrl in
      \<lparr>rd_getChainId = guard parseUrl rpcUrl (cl_getChainId client),
       rd_getCode = (\<lambda>a. guard parseUrl rpcUrl (rbind (cl_getBytecode client a) (\<lambda>v. Inr (orEmpty v)))),
       rd_call = (\<lambda>a d. guard parseUrl rpcUrl (rbind (cl_call client a d) (\<lambda>v. Inr (orEmpty v))))\<rparr>)"

section \<open>Numbers of the environment\<close>

definition numberOf :: "(string \<Rightarrow> JsNumber) \<Rightarrow> string \<Rightarrow> JsNumber" where
  "numberOf otherNumber s =
     (let t = trim s in
      if t = [] then Whole 0
      else
        (case signed_int t of
           Some n \<Rightarrow> if \<bar>n\<bar> \<le> MAX_SAFE_INTEGER then Whole n else otherNumber t
         | None \<Rightarrow> otherNumber t))"

section \<open>The command\<close>

definition FORBIDDEN_SECRET_ENV :: "string list" where
  "FORBIDDEN_SECRET_ENV =
     [''PRIVATE_KEY'', ''PRIVATE_KEYS'', ''GS_PRIVATE_KEY'', ''DEPLOYER_PRIVATE_KEY'', ''WALLET_PRIVATE_KEY'',
      ''MNEMONIC'', ''SEED_PHRASE'', ''RIALTO_API_KEY'']"

datatype CliOutcomeStatus = Reported CanaryStatus | ABORTED

record CliOutcome =
  co_status :: CliOutcomeStatus
  co_exitCode :: int

definition orDefault :: "string \<Rightarrow> string option \<Rightarrow> string" where
  "orDefault d v = (case v of None \<Rightarrow> d | Some s \<Rightarrow> s)"

definition parseAddress :: "string option \<Rightarrow> string option \<Rightarrow> string option" where
  "parseAddress v fallback = (case v of None \<Rightarrow> fallback | Some s \<Rightarrow> if trim s = [] then fallback else Some (trim s))"

definition cliConfig ::
  "(string \<Rightarrow> JsNumber) \<Rightarrow> env \<Rightarrow> int \<Rightarrow> string option \<Rightarrow> thrown + CanaryPreflightConfig" where
  "cliConfig otherNumber env now expectedRouterCodeHash =
     (let capText = orDefault ''0'' (env ''GS_CANARY_CAP_WEI'') in
      case bigIntOf capText of
        None \<Rightarrow> Inl (ErrorObject ''SyntaxError'' (''Cannot convert '' @ capText @ '' to a BigInt''))
      | Some cap \<Rightarrow> Inr
          \<lparr>pc_controller = parseAddress (env ''GS_CONTROLLER'') None,
           pc_executor = parseAddress (env ''CANARY_EXECUTOR_ADDRESS'') None,
           pc_sequencerFeed = the (parseAddress (env ''GS_SEQUENCER_FEED'') (Some ZERO_ADDRESS)),
           pc_maxWethFeedAgeSec = numberOf otherNumber (orDefault ''0'' (env ''GS_MAX_WETH_FEED_AGE_SEC'')),
           pc_maxNvdaFeedAgeSec = numberOf otherNumber (orDefault ''0'' (env ''GS_MAX_NVDA_FEED_AGE_SEC'')),
           pc_canaryCapWei = cap, pc_nowSec = now, pc_qex1Consumed = QEX1_CONSUMED,
           pc_expectedRouterCodeHash =
             (if expectedRouterCodeHash = Some [] then None else expectedRouterCodeHash)\<rparr>)"

definition runCanaryPreflightCli ::
  "(string \<Rightarrow> UrlParts option) \<Rightarrow> Viem \<Rightarrow> (string \<Rightarrow> JsNumber) \<Rightarrow> env \<Rightarrow> int \<Rightarrow> (string \<Rightarrow> thrown + ChainReader)
    \<Rightarrow> string option \<Rightarrow> thrown + string list \<times> CliOutcome" where
  "runCanaryPreflightCli parseUrl vm otherNumber env now makeReader expectedRouterCodeHash =
     (let present = filter (\<lambda>n. trim (orDefault [] (env n)) \<noteq> []) FORBIDDEN_SECRET_ENV in
      if length present > 0
      then Inr ([''ABORT: refusing to run with secret-bearing env present: '' @ join '', '' present
             @ '' (names only). Remove them.''], \<lparr>co_status = ABORTED, co_exitCode = 2\<rparr>)
      else
        (let rpcUrl = trim (orDefault [] (env ''CANARY_RPC_URL'')) in
         if rpcUrl = []
         then Inr ([''CANARY_NOT_READY: CANARY_RPC_URL is not set (read-only RPC endpoint required).''],
           \<lparr>co_status = Reported CANARY_NOT_READY, co_exitCode = 1\<rparr>)
         else
           rbind (cliConfig otherNumber env now expectedRouterCodeHash) (\<lambda>config.
           case rbind (makeReader rpcUrl) (\<lambda>reader. evaluateCanaryReadiness vm reader config) of
             Inl e \<Rightarrow>
               (let msg = redactRpc parseUrl rpcUrl (case e of ErrorObject _ m \<Rightarrow> firstLine m | OtherThrown t \<Rightarrow> t)
                in Inr ([''CANARY_NOT_READY: preflight aborted: '' @ msg],
                     \<lparr>co_status = Reported CANARY_NOT_READY, co_exitCode = 1\<rparr>))
           | Inr report \<Rightarrow>
               Inr ([formatCanaryReport report],
                 \<lparr>co_status = Reported (cr_status report),
                  co_exitCode = (if cr_status report = CANARY_BUILD_READY_EXECUTION_LOCKED then 0 else 1)\<rparr>))))"

section \<open>No address of a server survives redaction\<close>

fun has_url :: "string \<Rightarrow> bool" where
  "has_url [] \<longleftrightarrow> False"
| "has_url (c # cs) \<longleftrightarrow> url_match (c # cs) \<or> has_url cs"

lemma url_match_iff:
  "url_match s \<longleftrightarrow> (\<exists>p c t. p \<in> {''https://'', ''http://''} \<and> s = p @ c # t \<and> url_char c)"
proof
  assume "url_match s"
  then obtain n c t where n: "url_head s = Some n" and d: "drop n s = c # t" "url_char c"
    by (auto simp: url_match_def split: option.splits list.splits)
  have "s = take n s @ c # t" using d(1) by (metis append_take_drop_id)
  with n d(2) show "\<exists>p c t. p \<in> {''https://'', ''http://''} \<and> s = p @ c # t \<and> url_char c"
    by (intro exI [of _ "take n s"] exI [of _ c] exI [of _ t]) (auto simp: url_head_def split: if_splits)
qed (auto simp: url_match_def url_head_def)

lemma url_match_Cons:
  "url_match (c # cs) \<longleftrightarrow> c = CHR ''h'' \<and> (\<exists>d t. (cs = ''ttps://'' @ d # t \<or> cs = ''ttp://'' @ d # t) \<and> url_char d)"
  unfolding url_match_iff by auto

lemma has_url_append: "CHR ''h'' \<notin> set x \<Longrightarrow> has_url (x @ y) = has_url y"
  by (induction x) (auto simp: url_match_iff)

lemma sweep_reflects:
  assumes "sweep s = p @ d # t" and "CHR ''['' \<notin> set p" and "url_char d"
  shows "\<exists>d' t'. s = p @ d' # t' \<and> url_char d'"
  using assms
proof (induction p arbitrary: s)
  case Nil
  then obtain c cs where s: "s = c # cs" by (cases s) auto
  show ?case
  proof (cases "url_match s")
    case True
    then have "c = CHR ''h''" by (auto simp: s url_match_iff)
    then show ?thesis by (simp add: s url_char_def white_def)
  next
    case False
    then show ?thesis using Nil by (simp add: s)
  qed
next
  case (Cons a p)
  then obtain c cs where s: "s = c # cs" by (cases s) auto
  have "\<not> url_match s" using Cons.prems by (auto simp: s)
  then show ?case using Cons by (auto simp: s)
qed

lemma sweep_clean: "\<not> has_url (sweep s)"
proof (induction s rule: sweep.induct)
  case (2 c cs)
  show ?case
  proof (cases "url_match (c # cs)")
    case True
    have "CHR ''h'' \<notin> set ''[REDACTED_URL]''" by simp
    then show ?thesis
      unfolding sweep.simps if_P [OF True] using 2(1) [OF True] by (metis has_url_append)
  next
    case False
    have "\<not> url_match (c # sweep cs)"
    proof
      assume "url_match (c # sweep cs)"
      then obtain p d t where p: "p = ''ttps://'' \<or> p = ''ttp://''" and c: "c = CHR ''h''"
        and s: "sweep cs = p @ d # t" "url_char d"
        unfolding url_match_Cons by metis
      from p have "CHR ''['' \<notin> set p" by auto
      from sweep_reflects [OF s(1) this s(2)] obtain d' t' where "cs = p @ d' # t'" "url_char d'" by blast
      with p c False show False unfolding url_match_Cons by blast
    qed
    with False 2(2) show ?thesis by simp
  qed
qed simp

text \<open>
  Whatever the text, the endpoint and the URL parser, no absolute http or https address is left in what
  the redaction returns.
\<close>

theorem redactRpc_no_url: "\<not> has_url (redactRpc parseUrl url s)"
  by (simp add: redactRpc_def Let_def sweep_clean)

text \<open>
  The command exits with 0 exactly when no secret is in the environment, an endpoint is given, the cap
  is a number, and the evaluation over the reader made for the endpoint says ready.
\<close>

theorem runCanaryPreflightCli_exit_zero:
  "(\<exists>log status. runCanaryPreflightCli parseUrl vm otherNumber env now makeReader pin =
      Inr (log, \<lparr>co_status = status, co_exitCode = 0\<rparr>)) \<longleftrightarrow>
   list_all (\<lambda>n. trim (orDefault [] (env n)) = []) FORBIDDEN_SECRET_ENV \<and>
   trim (orDefault [] (env ''CANARY_RPC_URL'')) \<noteq> [] \<and>
   (\<exists>config reader report. cliConfig otherNumber env now pin = Inr config \<and>
      makeReader (trim (orDefault [] (env ''CANARY_RPC_URL''))) = Inr reader \<and>
      evaluateCanaryReadiness vm reader config = Inr report \<and>
      cr_status report = CANARY_BUILD_READY_EXECUTION_LOCKED)"
proof (cases "list_all (\<lambda>n. trim (orDefault [] (env n)) = []) FORBIDDEN_SECRET_ENV \<and>
    trim (orDefault [] (env ''CANARY_RPC_URL'')) \<noteq> []")
  case clean: True
  then have none: "filter (\<lambda>n. trim (orDefault [] (env n)) \<noteq> []) FORBIDDEN_SECRET_ENV = []"
    by (simp add: list_all_iff filter_empty_conv)
  show ?thesis
  proof (cases "cliConfig otherNumber env now pin")
    case config: (Inr config)
    show ?thesis
    proof (cases "rbind (makeReader (trim (orDefault [] (env ''CANARY_RPC_URL''))))
        (\<lambda>reader. evaluateCanaryReadiness vm reader config)")
      case (Inl e)
      then show ?thesis using clean none config by (auto simp: runCanaryPreflightCli_def Let_def)
    next
      case (Inr report)
      then obtain reader where "makeReader (trim (orDefault [] (env ''CANARY_RPC_URL''))) = Inr reader"
        "evaluateCanaryReadiness vm reader config = Inr report" by (auto simp: rbind_eq_Inr)
      then show ?thesis using clean none config by (simp add: runCanaryPreflightCli_def Let_def)
    qed
  qed (use clean none in \<open>simp add: runCanaryPreflightCli_def Let_def\<close>)
next
  case False
  then show ?thesis
    by (auto simp: runCanaryPreflightCli_def Let_def list_all_iff filter_empty_conv)
qed

end
