(* ===== verification/OperatorChain.thy ===== *)
theory OperatorChain
  imports Serialize
begin

text \<open>
  What the canary operator (\<open>canary-packet/exec/operator/operator-core.mjs\<close>) works on: the wallet's
  JSON-RPC requests, the durable storage, and the text and ABI helpers of the class.

  A method of the class is an action on a machine: the operator's own fields, the durable storage, and a
  world of any type that answers requests. An action ends with a value, with an exception, or because the
  page went away (\<open>Crashed\<close>), which may happen at every request and every access to the storage; then
  only the storage and the world are left. A request may also change the world, and a write to the storage
  may be lost or refused. Every request is logged together with the state in which it was made.
\<close>

section \<open>Exceptions and outcomes\<close>

datatype exn = Exn (xcode: "int option") (xmessage: string)

datatype 'a outcome = Done 'a | Threw exn | Crashed

definition jsError :: "string \<Rightarrow> exn" where "jsError m = Exn None m"

section \<open>Requests and answers\<close>

record CallTx =
  ct_from :: "string option"
  ct_to :: "string option"
  ct_data :: string
  ct_value :: "string option"

record SendTx =
  sx_from :: string
  sx_value :: string
  sx_data :: string
  sx_gas :: string
  sx_maxFeePerGas :: string
  sx_maxPriorityFeePerGas :: string
  sx_type :: string
  sx_nonce :: string
  sx_chainId :: string
  sx_to :: "string option"

datatype Rpc =
    EthChainId
  | EthAccounts
  | EthGetTransactionCount string string
  | EthGetCode string string
  | EthGetBlockByNumber string
  | EthGetBalance string string
  | EthCall CallTx string
  | EthEstimateGas CallTx
  | EthSendTransaction SendTx
  | EthGetTransactionByHash string
  | EthGetTransactionReceipt string

fun rpcMethod :: "Rpc \<Rightarrow> string" where
  "rpcMethod EthChainId = ''eth_chainId''"
| "rpcMethod EthAccounts = ''eth_accounts''"
| "rpcMethod (EthGetTransactionCount a tag) = ''eth_getTransactionCount''"
| "rpcMethod (EthGetCode a tag) = ''eth_getCode''"
| "rpcMethod (EthGetBlockByNumber tag) = ''eth_getBlockByNumber''"
| "rpcMethod (EthGetBalance a tag) = ''eth_getBalance''"
| "rpcMethod (EthCall c tag) = ''eth_call''"
| "rpcMethod (EthEstimateGas c) = ''eth_estimateGas''"
| "rpcMethod (EthSendTransaction tx) = ''eth_sendTransaction''"
| "rpcMethod (EthGetTransactionByHash h) = ''eth_getTransactionByHash''"
| "rpcMethod (EthGetTransactionReceipt h) = ''eth_getTransactionReceipt''"

fun isSend :: "Rpc \<Rightarrow> bool" where
  "isSend (EthSendTransaction tx) = True"
| "isSend _ = False"

definition FORBIDDEN_METHODS :: "string list" where
  "FORBIDDEN_METHODS = [''eth_sendRawTransaction'', ''eth_sign'', ''personal_sign'', ''eth_signTransaction'',
     ''eth_signTypedData'', ''eth_signTypedData_v4'', ''wallet_addEthereumChain'', ''wallet_switchEthereumChain'']"

text \<open>
  Answers. A quantity is the number \<open>BigInt\<close> reads from it; code, call results and hashes stay texts. An
  absent \<open>chainId\<close>, \<open>to\<close> or \<open>contractAddress\<close> is \<open>None\<close>.
\<close>

record Log =
  lg_address :: string
  lg_topics :: "string list"
  lg_data :: string

record OnchainTx =
  ot_chainId :: "int option"
  ot_from :: string
  ot_nonce :: int
  ot_type :: int
  ot_to :: "string option"
  ot_value :: int
  ot_input :: string
  ot_accessList :: "string list"
  ot_blob :: bool
  ot_gas :: int
  ot_maxFeePerGas :: int
  ot_maxPriorityFeePerGas :: int

record TxReceipt =
  rc_transactionHash :: string
  rc_status :: int
  rc_contractAddress :: "string option"
  rc_logs :: "Log list"

datatype Reply =
    RQuantity int
  | RAccounts "string list"
  | RText string
  | RBlock int int
  | RTx "OnchainTx option"
  | RReceipt "TxReceipt option"

record LivePrice =
  lp_coinbaseMicroUsd :: "int option"
  lp_krakenMicroUsd :: "int option"
  lp_coinbaseAgeS :: int
  lp_krakenAgeS :: int

section \<open>What is stored durably\<close>

record Intent =
  in_digest :: string
  in_step :: nat
  in_signer :: string
  in_nonce :: int
  in_signableTxHash :: string

record Pending =
  pe_digest :: string
  pe_step :: nat
  pe_txHash :: string

record JournalEntry =
  je_digest :: string
  je_step :: nat
  je_txHash :: string
  je_receiptStatus :: string
  je_verified :: bool

text \<open>
  A stored text, as \<open>JSON.parse\<close> reads it: a text that is not the rendering of a value of the expected
  shape is \<open>SBroken\<close>. A hole of the journal array is stored as \<open>null\<close>, here \<open>None\<close>.
\<close>

datatype Stored =
    SNull
  | SHalt string "Intent option"
  | SJournal "JournalEntry option list"
  | SPending Pending
  | SIntent Intent
  | SBroken

type_synonym store = "string \<Rightarrow> Stored option"

section \<open>Machines and actions\<close>

record 'o Event =
  ev_op :: 'o
  ev_store :: store
  ev_rpc :: Rpc
  ev_reply :: "Reply outcome"

record ('o, 'w) Machine =
  mc_op :: 'o
  mc_store :: store
  mc_world :: 'w
  mc_trace :: "'o Event list"

record 'w Env =
  en_request :: "Rpc \<Rightarrow> 'w \<Rightarrow> Reply outcome \<times> 'w"
  en_set :: "string \<Rightarrow> 'w \<Rightarrow> (bool \<times> unit outcome) \<times> 'w"
  en_get :: "string \<Rightarrow> 'w \<Rightarrow> unit outcome \<times> 'w"
  en_price :: "('w \<Rightarrow> LivePrice outcome \<times> 'w) option"
  en_now :: "'w \<Rightarrow> int"
  en_dateParse :: "string \<Rightarrow> int option"
  en_keccak256 :: "string \<Rightarrow> string"
  en_getAddress :: "string \<Rightarrow> exn + string"
  en_receiptPolls :: nat

type_synonym ('o, 'w, 'a) act = "('o, 'w) Machine \<Rightarrow> 'a outcome \<times> ('o, 'w) Machine"

definition doneA :: "'a \<Rightarrow> ('o, 'w, 'a) act" where
  "doneA a = (\<lambda>m. (Done a, m))"

definition throw :: "exn \<Rightarrow> ('o, 'w, 'a) act" where
  "throw e = (\<lambda>m. (Threw e, m))"

definition bindA :: "('o, 'w, 'a) act \<Rightarrow> ('a \<Rightarrow> ('o, 'w, 'b) act) \<Rightarrow> ('o, 'w, 'b) act" where
  "bindA x k = (\<lambda>m. case x m of
     (Done a, m') \<Rightarrow> k a m' | (Threw e, m') \<Rightarrow> (Threw e, m') | (Crashed, m') \<Rightarrow> (Crashed, m'))"

text \<open>\<open>try \<dots> catch\<close>: what was done before the exception stays done.\<close>

definition catch :: "('o, 'w, 'a) act \<Rightarrow> (exn \<Rightarrow> ('o, 'w, 'a) act) \<Rightarrow> ('o, 'w, 'a) act" where
  "catch x h = (\<lambda>m. case x m of
     (Done a, m') \<Rightarrow> (Done a, m') | (Threw e, m') \<Rightarrow> h e m' | (Crashed, m') \<Rightarrow> (Crashed, m'))"

text \<open>A computation on values that may throw.\<close>

definition lift :: "exn + 'a \<Rightarrow> ('o, 'w, 'a) act" where
  "lift r = (case r of Inl e \<Rightarrow> throw e | Inr a \<Rightarrow> doneA a)"

definition gets :: "('o \<Rightarrow> 'a) \<Rightarrow> ('o, 'w, 'a) act" where
  "gets f = (\<lambda>m. (Done (f (mc_op m)), m))"

definition modify :: "('o \<Rightarrow> 'o) \<Rightarrow> ('o, 'w, unit) act" where
  "modify f = (\<lambda>m. (Done (), m\<lparr>mc_op := f (mc_op m)\<rparr>))"

text \<open>\<open>_req\<close>.\<close>

definition req :: "'w Env \<Rightarrow> Rpc \<Rightarrow> ('o, 'w, Reply) act" where
  "req env r = (\<lambda>m.
     if rpcMethod r \<in> set FORBIDDEN_METHODS
     then (Threw (jsError (''FORBIDDEN wallet method blocked: '' @ rpcMethod r)), m)
     else (case en_request env r (mc_world m) of (a, w') \<Rightarrow>
       (a, m\<lparr>mc_world := w', mc_trace := mc_trace m @
          [\<lparr>ev_op = mc_op m, ev_store = mc_store m, ev_rpc = r, ev_reply = a\<rparr>]\<rparr>)))"

definition quantityOf :: "Reply \<Rightarrow> exn + int" where
  "quantityOf r = (case r of RQuantity n \<Rightarrow> Inr n | _ \<Rightarrow> Inl (jsError ''Cannot convert to a BigInt''))"

definition textOf :: "Reply \<Rightarrow> exn + string" where
  "textOf r = (case r of RText s \<Rightarrow> Inr s | _ \<Rightarrow> Inl (jsError ''not a string''))"

text \<open>An answer that is no array has no accounts.\<close>

definition accountsOf :: "Reply \<Rightarrow> string list" where
  "accountsOf r = (case r of RAccounts xs \<Rightarrow> xs | _ \<Rightarrow> [])"

definition reqQuantity :: "'w Env \<Rightarrow> Rpc \<Rightarrow> ('o, 'w, int) act" where
  "reqQuantity env r = bindA (req env r) (\<lambda>a. lift (quantityOf a))"

definition reqText :: "'w Env \<Rightarrow> Rpc \<Rightarrow> ('o, 'w, string) act" where
  "reqText env r = bindA (req env r) (\<lambda>a. lift (textOf a))"

definition reqTx :: "'w Env \<Rightarrow> string \<Rightarrow> ('o, 'w, OnchainTx option) act" where
  "reqTx env h = bindA (req env (EthGetTransactionByHash h)) (\<lambda>a.
     case a of RTx t \<Rightarrow> doneA t | _ \<Rightarrow> throw (jsError ''not a transaction''))"

definition reqReceipt :: "'w Env \<Rightarrow> string \<Rightarrow> ('o, 'w, TxReceipt option) act" where
  "reqReceipt env h = bindA (req env (EthGetTransactionReceipt h)) (\<lambda>a.
     case a of RReceipt t \<Rightarrow> doneA t | _ \<Rightarrow> throw (jsError ''not a receipt''))"

text \<open>The storage: \<open>set\<close>, and \<open>_durableSet\<close>, which reads back what it wrote.\<close>

definition storageSet :: "'w Env \<Rightarrow> string \<Rightarrow> Stored \<Rightarrow> ('o, 'w, unit) act" where
  "storageSet env key v = (\<lambda>m. case en_set env key (mc_world m) of ((landed, r), w') \<Rightarrow>
     (r, m\<lparr>mc_world := w', mc_store := (if landed then (mc_store m)(key \<mapsto> v) else mc_store m)\<rparr>))"

definition storageGet :: "'w Env \<Rightarrow> string \<Rightarrow> ('o, 'w, Stored option) act" where
  "storageGet env key = (\<lambda>m. case en_get env key (mc_world m) of (r, w') \<Rightarrow>
     ((case r of Done _ \<Rightarrow> Done (mc_store m key) | Threw e \<Rightarrow> Threw e | Crashed \<Rightarrow> Crashed),
      m\<lparr>mc_world := w'\<rparr>))"

definition durableSet :: "'w Env \<Rightarrow> string \<Rightarrow> Stored \<Rightarrow> ('o, 'w, bool) act" where
  "durableSet env key v =
     catch (bindA (storageSet env key v) (\<lambda>_. bindA (storageGet env key) (\<lambda>x. doneA (x = Some v))))
       (\<lambda>_. doneA False)"

section \<open>Texts and numbers\<close>

text \<open>\<open>toString(16)\<close> of a non-negative number, and \<open>padStart\<close>.\<close>

function hexDigits :: "int \<Rightarrow> string" where
  "hexDigits n = (if n < 16 then [hex_digit (nat n)] else hexDigits (n div 16) @ [hex_digit (nat (n mod 16))])"
  by auto

termination
  by (relation "measure nat") auto

declare hexDigits.simps [simp del]

definition padStart :: "nat \<Rightarrow> string \<Rightarrow> string" where
  "padStart n s = replicate (n - length s) (CHR ''0'') @ s"

definition hexQuantity :: "int \<Rightarrow> string" where
  "hexQuantity n = ''0x'' @ hexDigits n"

definition hexValue :: "char \<Rightarrow> int" where
  "hexValue c =
     (let n = of_char c :: int in if n \<le> 57 then n - 48 else if n \<le> 70 then n - 55 else n - 87)"

text \<open>\<open>BigInt(s)\<close> and \<open>BigInt("0x" + s)\<close>.\<close>

definition bigIntText :: "string \<Rightarrow> exn + int" where
  "bigIntText s = (case bigIntOf s of
     None \<Rightarrow> Inl (jsError (''Cannot convert '' @ s @ '' to a BigInt'')) | Some i \<Rightarrow> Inr i)"

definition bigIntHex :: "string \<Rightarrow> exn + int" where
  "bigIntHex s = bigIntText (''0x'' @ s)"

definition slice :: "nat \<Rightarrow> nat \<Rightarrow> string \<Rightarrow> string" where
  "slice a b s = take (b - a) (drop a s)"

text \<open>\<open>xs[i]\<close> where a missing element is used as a text.\<close>

definition elementAt :: "string list \<Rightarrow> nat \<Rightarrow> exn + string" where
  "elementAt xs i = (if i < length xs then Inr (xs ! i) else Inl (jsError ''undefined''))"

definition utf8ToHex :: "string \<Rightarrow> string" where
  "utf8ToHex s = ''0x'' @ concat (map (\<lambda>c. padStart 2 (hexDigits (of_char c))) s)"

text \<open>
  \<open>_stable\<close>: the canonical text of a value, with sorted keys and no white space. \<open>undefined\<close> joins to nothing
  in an array. A number that is no integer has a text that is no decimal number, here a point; a bigint does
  not occur in what is rendered.
\<close>

function stableText :: "Json \<Rightarrow> string" where
  "stableText (JArr vs) = ''['' @ join '','' (map (\<lambda>v. if v = JUndefined then [] else stableText v) vs) @ '']''"
| "stableText (JObj kvs) =
     ''{'' @ join '','' (map (\<lambda>p. quote (fst p) @ '':'' @ stableText (snd p)) (sort_keys kvs)) @ ''}''"
| "stableText (JStr s) = quote s"
| "stableText (JBool b) = boolText b"
| "stableText (JNum i) = dec_of_int i"
| "stableText JNull = ''null''"
| "stableText JUndefined = ''undefined''"
| "stableText (JBigint i) = ''undefined''"
| "stableText JFrac = ''.''"
  by pat_completeness auto

termination
  by (relation "measure size") (auto simp: size_list_estimation' less_Suc_eq_le dest: size_member)

section \<open>ABI helpers\<close>

definition asAddr :: "'w Env \<Rightarrow> int \<Rightarrow> exn + string" where
  "asAddr env n = en_getAddress env (''0x'' @ padStart 40 (hexDigits n))"

definition asI24 :: "int \<Rightarrow> int" where
  "asI24 n = (if n \<ge> 2 ^ 255 then n - 2 ^ 256 else n)"

definition selector :: "'w Env \<Rightarrow> string \<Rightarrow> string" where
  "selector env sig = take 10 (en_keccak256 env (utf8ToHex sig))"

definition encAddr :: "'w Env \<Rightarrow> string \<Rightarrow> exn + string" where
  "encAddr env a = rbind (en_getAddress env a) (\<lambda>x.
     let l = lower x in Inr (padStart 64 (if take 2 l = ''0x'' then drop 2 l else l)))"

definition encUint :: "int \<Rightarrow> string" where
  "encUint n = padStart 64 (hexDigits n)"

definition calldataWord :: "string \<Rightarrow> nat \<Rightarrow> string" where
  "calldataWord data i = slice (10 + i * 64) (10 + i * 64 + 64) data"

definition calldataAddr :: "'w Env \<Rightarrow> string \<Rightarrow> nat \<Rightarrow> exn + string" where
  "calldataAddr env data i = en_getAddress env (''0x'' @ drop 24 (calldataWord data i))"

definition calldataUint :: "string \<Rightarrow> nat \<Rightarrow> exn + int" where
  "calldataUint data i = bigIntHex (calldataWord data i)"

definition callContract :: "'w Env \<Rightarrow> string \<Rightarrow> string \<Rightarrow> string list \<Rightarrow> ('o, 'w, string) act" where
  "callContract env to sig argsHex = reqText env (EthCall
     \<lparr>ct_from = None, ct_to = Some to, ct_data = selector env sig @ concat argsHex, ct_value = None\<rparr> ''latest'')"

definition callAddr :: "'w Env \<Rightarrow> string \<Rightarrow> string \<Rightarrow> string list \<Rightarrow> ('o, 'w, string) act" where
  "callAddr env to sig argsHex =
     bindA (callContract env to sig argsHex) (\<lambda>r. doneA (''0x'' @ drop (length r - 40) r))"

definition callUint :: "'w Env \<Rightarrow> string \<Rightarrow> string \<Rightarrow> string list \<Rightarrow> ('o, 'w, int) act" where
  "callUint env to sig argsHex =
     bindA (callContract env to sig argsHex) (\<lambda>r.
     lift (bigIntText (if length r \<ge> 66 then take 66 r else r)))"

definition callBool :: "'w Env \<Rightarrow> string \<Rightarrow> string \<Rightarrow> string list \<Rightarrow> ('o, 'w, bool) act" where
  "callBool env to sig argsHex =
     bindA (callContract env to sig argsHex) (\<lambda>r. bindA (lift (bigIntText r)) (\<lambda>n. doneA (n = 1)))"

text \<open>The bytes of a hex text, two digits each; a last single digit counts as a byte.\<close>

definition byteChar :: "int \<Rightarrow> char" where "byteChar n = char_of n"

fun bytesText :: "string \<Rightarrow> string" where
  "bytesText [] = []"
| "bytesText [a] = [byteChar (hexValue a)]"
| "bytesText (a # b # cs) = byteChar (hexValue a * 16 + hexValue b) # bytesText cs"

definition callString :: "'w Env \<Rightarrow> string \<Rightarrow> string \<Rightarrow> ('o, 'w, string) act" where
  "callString env to sig =
     bindA (callContract env to sig []) (\<lambda>r.
     bindA (lift (bigIntHex (slice 66 130 r))) (\<lambda>len.
     doneA (bytesText (slice 130 (130 + nat len * 2) r))))"

section \<open>Events\<close>

record Decoded =
  de_topics :: "string list"
  de_d :: "int list"

text \<open>The words of the arguments that are not indexed, in order.\<close>

definition dataWords :: "nat \<Rightarrow> string \<Rightarrow> exn + int list" where
  "dataWords n data = rmap (\<lambda>k. bigIntHex (slice (k * 64) ((k + 1) * 64) data)) [0..<n]"

fun findEvent :: "'w Env \<Rightarrow> string \<Rightarrow> string \<Rightarrow> nat \<Rightarrow> Log list \<Rightarrow> exn + Decoded option" where
  "findEvent env em t0 n [] = Inr None"
| "findEvent env em t0 n (lg # logs) =
     rbind (en_getAddress env (lg_address lg)) (\<lambda>a.
     if a \<noteq> em then findEvent env em t0 n logs
     else rbind (elementAt (lg_topics lg) 0) (\<lambda>topic.
       if lower topic \<noteq> t0 then findEvent env em t0 n logs
       else rbind (dataWords n (drop 2 (lg_data lg))) (\<lambda>d.
         Inr (Some \<lparr>de_topics = lg_topics lg, de_d = d\<rparr>))))"

definition decodeEvent :: "'w Env \<Rightarrow> Log list \<Rightarrow> string \<Rightarrow> string \<Rightarrow> bool list \<Rightarrow> exn + Decoded option" where
  "decodeEvent env logs emitter sig indexed =
     (let t0 = lower (en_keccak256 env (utf8ToHex sig)) in
      rbind (en_getAddress env emitter) (\<lambda>em.
      findEvent env em t0 (length (filter (\<lambda>i. \<not> i) indexed)) logs))"

section \<open>Reasoning about actions\<close>

named_theorems act_simps \<open>what an action does, by its outcome\<close>
named_theorems quiet_intros \<open>actions that send nothing and change no state of the operator\<close>

text \<open>\<open>wp x Q m\<close>: run on \<open>m\<close>, the action ends in an outcome and a machine with \<open>Q\<close>.\<close>

definition wp :: "('o, 'w, 'a) act \<Rightarrow> ('a outcome \<Rightarrow> ('o, 'w) Machine \<Rightarrow> bool) \<Rightarrow> ('o, 'w) Machine \<Rightarrow> bool" where
  "wp x Q m = (case x m of (r, m') \<Rightarrow> Q r m')"

lemma wpD: "wp x Q m \<Longrightarrow> x m = (r, m') \<Longrightarrow> Q r m'"
  by (simp add: wp_def)

lemma wpI: "(\<And>r m'. x m = (r, m') \<Longrightarrow> Q r m') \<Longrightarrow> wp x Q m"
  by (simp add: wp_def split: prod.split)

lemma wp_mono: "wp x P m \<Longrightarrow> (\<And>r m'. P r m' \<Longrightarrow> Q r m') \<Longrightarrow> wp x Q m"
  by (auto simp: wp_def)

lemma wp_conj: "wp x (\<lambda>r m'. P r m' \<and> Q r m') m \<longleftrightarrow> wp x P m \<and> wp x Q m"
  by (auto simp: wp_def)

lemma wp_doneA [simp]: "wp (doneA a) Q m = Q (Done a) m"
  by (simp add: wp_def doneA_def)

lemma wp_throw [simp]: "wp (throw e) Q m = Q (Threw e) m"
  by (simp add: wp_def throw_def)

lemma wp_gets [simp]: "wp (gets f) Q m = Q (Done (f (mc_op m))) m"
  by (simp add: wp_def gets_def)

lemma wp_modify [simp]: "wp (modify f) Q m = Q (Done ()) (m\<lparr>mc_op := f (mc_op m)\<rparr>)"
  by (simp add: wp_def modify_def)

lemma wp_lift [simp]: "wp (lift r) Q m = (case r of Inl e \<Rightarrow> Q (Threw e) m | Inr a \<Rightarrow> Q (Done a) m)"
  by (simp add: lift_def split: sum.split)

lemma wp_bindA [simp]:
  "wp (bindA x k) Q m =
   wp x (\<lambda>r m'. case r of Done a \<Rightarrow> wp (k a) Q m' | Threw e \<Rightarrow> Q (Threw e) m' | Crashed \<Rightarrow> Q Crashed m') m"
  by (auto simp: wp_def bindA_def split: prod.split outcome.split)

lemma wp_bindI:
  "wp x (\<lambda>r m'. case r of Done a \<Rightarrow> wp (k a) Q m' | Threw e \<Rightarrow> Q (Threw e) m' | Crashed \<Rightarrow> Q Crashed m') m \<Longrightarrow>
   wp (bindA x k) Q m"
  by simp

lemma wp_catch [simp]:
  "wp (catch x h) Q m =
   wp x (\<lambda>r m'. case r of Done a \<Rightarrow> Q (Done a) m' | Threw e \<Rightarrow> wp (h e) Q m' | Crashed \<Rightarrow> Q Crashed m') m"
  by (auto simp: wp_def catch_def split: prod.split outcome.split)

lemma wp_if [simp]: "wp (if b then x else y) Q m = (if b then wp x Q m else wp y Q m)"
  by simp

text \<open>The transactions handed to the wallet.\<close>

definition sends :: "('o, 'w) Machine \<Rightarrow> 'o Event list" where
  "sends m = filter (\<lambda>e. isSend (ev_rpc e)) (mc_trace m)"

definition same :: "('o, 'w) Machine \<Rightarrow> ('o, 'w) Machine \<Rightarrow> bool" where
  "same m m' \<longleftrightarrow> mc_op m' = mc_op m \<and> mc_store m' = mc_store m \<and> sends m' = sends m"

definition quiet :: "('o, 'w, 'a) act \<Rightarrow> bool" where
  "quiet x \<longleftrightarrow> (\<forall>m. wp x (\<lambda>_. same m) m)"

lemma same_refl [simp]: "same m m"
  by (simp add: same_def)

lemma same_trans: "same m m' \<Longrightarrow> same m' m'' \<Longrightarrow> same m m''"
  by (simp add: same_def)

lemma quietD: "quiet x \<Longrightarrow> x m = (r, m') \<Longrightarrow> same m m'"
  by (auto simp: quiet_def dest: wpD)

lemma wp_quiet: "quiet x \<Longrightarrow> (\<And>r m'. same m m' \<Longrightarrow> Q r m') \<Longrightarrow> wp x Q m"
  by (auto simp: quiet_def wp_def split: prod.splits)

lemma quiet_doneA [quiet_intros]: "quiet (doneA a)"
  by (simp add: quiet_def)

lemma quiet_throw [quiet_intros]: "quiet (throw e)"
  by (simp add: quiet_def)

lemma quiet_lift [quiet_intros]: "quiet (lift r)"
  by (simp add: quiet_def split: sum.split)

lemma quiet_gets [quiet_intros]: "quiet (gets f)"
  by (simp add: quiet_def)

lemma quiet_bindA [quiet_intros]: "quiet x \<Longrightarrow> (\<And>a. quiet (k a)) \<Longrightarrow> quiet (bindA x k)"
  unfolding quiet_def wp_bindA
  by (intro allI, rule wp_mono, erule spec)
    (auto split: outcome.split intro: wp_mono same_trans)

lemma quiet_catch [quiet_intros]: "quiet x \<Longrightarrow> (\<And>e. quiet (h e)) \<Longrightarrow> quiet (catch x h)"
  unfolding quiet_def wp_catch
  by (intro allI, rule wp_mono, erule spec)
    (auto split: outcome.split intro: wp_mono same_trans)

lemma quiet_if [quiet_intros]: "quiet x \<Longrightarrow> quiet y \<Longrightarrow> quiet (if b then x else y)"
  by simp

lemma quiet_option [quiet_intros]:
  "quiet x \<Longrightarrow> (\<And>a. quiet (y a)) \<Longrightarrow> quiet (case z of None \<Rightarrow> x | Some a \<Rightarrow> y a)"
  by (cases z) simp_all

lemma quiet_let [quiet_intros]: "(\<And>x. quiet (f x)) \<Longrightarrow> quiet (let x = v in f x)"
  by simp

lemma quiet_req [quiet_intros]: "\<not> isSend r \<Longrightarrow> quiet (req env r)"
  by (auto simp: quiet_def wp_def req_def same_def sends_def split: prod.splits)

lemma quiet_reqQuantity [quiet_intros]: "\<not> isSend r \<Longrightarrow> quiet (reqQuantity env r)"
  unfolding reqQuantity_def by (intro quiet_intros)

lemma quiet_reqText [quiet_intros]: "\<not> isSend r \<Longrightarrow> quiet (reqText env r)"
  unfolding reqText_def by (intro quiet_intros)

lemma quiet_reqTx [quiet_intros]: "quiet (reqTx env h)"
  unfolding reqTx_def by (intro quiet_intros) (auto intro: quiet_intros split: Reply.split)

lemma quiet_reqReceipt [quiet_intros]: "quiet (reqReceipt env h)"
  unfolding reqReceipt_def by (intro quiet_intros) (auto intro: quiet_intros split: Reply.split)

lemma quiet_callContract [quiet_intros]: "quiet (callContract env to sig args)"
  unfolding callContract_def by (intro quiet_intros) simp

lemma quiet_calls [quiet_intros]:
  "quiet (callAddr env to sig args)" "quiet (callUint env to sig args)"
  "quiet (callBool env to sig args)" "quiet (callString env to sig)"
  unfolding callAddr_def callUint_def callBool_def callString_def by (intro quiet_intros)+

text \<open>Actions run from a machine that only requests separate from \<open>m0\<close>.\<close>

definition fromSame :: "('o, 'w) Machine \<Rightarrow> ('a outcome \<Rightarrow> ('o, 'w) Machine \<Rightarrow> bool) \<Rightarrow> ('o, 'w, 'a) act \<Rightarrow> bool" where
  "fromSame m0 Q x \<longleftrightarrow> (\<forall>m. same m0 m \<longrightarrow> wp x Q m)"

lemma fromSame_start: "fromSame m Q x \<Longrightarrow> wp x Q m"
  by (simp add: fromSame_def)

lemma fromSame_bind:
  assumes "quiet x" "\<And>a. fromSame m0 Q (k a)"
    and "\<And>e m. same m0 m \<Longrightarrow> Q (Threw e) m" "\<And>m. same m0 m \<Longrightarrow> Q Crashed m"
  shows "fromSame m0 Q (bindA x k)"
  unfolding fromSame_def wp_bindA
proof (intro allI impI wp_quiet [OF assms(1)])
  fix m r m' assume "same m0 m" "same m m'"
  then have "same m0 m'" by (rule same_trans)
  with assms(2-4) show "case r of Done a \<Rightarrow> wp (k a) Q m' | Threw e \<Rightarrow> Q (Threw e) m' | Crashed \<Rightarrow> Q Crashed m'"
    by (simp add: fromSame_def split: outcome.split)
qed

lemma fromSame_gets: "fromSame m0 Q (k (f (mc_op m0))) \<Longrightarrow> fromSame m0 Q (bindA (gets f) k)"
  by (simp add: fromSame_def same_def)

lemma fromSame_doneA: "(\<And>m. same m0 m \<Longrightarrow> Q (Done a) m) \<Longrightarrow> fromSame m0 Q (doneA a)"
  by (simp add: fromSame_def)

text \<open>
  A write that reads back says True only when the storage then holds the value. It changes nothing but
  that key, and that key at most to the new value.
\<close>

lemma machine_upd [simp]:
  "m\<lparr>mc_world := w, mc_store := s\<rparr> = m\<lparr>mc_store := s, mc_world := w\<rparr>"
  "m\<lparr>mc_store := mc_store m, mc_world := w\<rparr> = m\<lparr>mc_world := w\<rparr>"
  by (cases m; simp)+

lemma wp_storageSet:
  assumes "\<And>r w. Q r (m\<lparr>mc_world := w\<rparr>)"
    and "\<And>r w. Q r (m\<lparr>mc_store := (mc_store m)(key \<mapsto> v), mc_world := w\<rparr>)"
  shows "wp (storageSet env key v) Q m"
proof -
  obtain landed r w1 where "en_set env key (mc_world m) = ((landed, r), w1)"
    by (metis prod.exhaust)
  with assms show ?thesis
    by (cases landed) (simp_all add: wp_def storageSet_def)
qed

lemma wp_durableSet:
  assumes lost: "\<And>w. Q (Done False) (m\<lparr>mc_world := w\<rparr>)" "\<And>w. Q Crashed (m\<lparr>mc_world := w\<rparr>)"
    and stored: "\<And>b w. Q (Done b) (m\<lparr>mc_store := (mc_store m)(key \<mapsto> v), mc_world := w\<rparr>)"
      "\<And>w. Q Crashed (m\<lparr>mc_store := (mc_store m)(key \<mapsto> v), mc_world := w\<rparr>)"
  shows "wp (durableSet env key v) Q m"
proof -
  have again: "Q (Done b) (m\<lparr>mc_world := w\<rparr>)" if "mc_store m key = Some v" for b w
  proof -
    have "(mc_store m)(key \<mapsto> v) = mc_store m" using that by auto
    with stored(1) [of b w] show ?thesis by simp
  qed
  obtain landed r w1 where set: "en_set env key (mc_world m) = ((landed, r), w1)"
    by (metis prod.exhaust)
  obtain g w2 where get: "en_get env key w1 = (g, w2)" by fastforce
  show ?thesis
    by (cases landed; cases r; cases g; cases "mc_store m key = Some v")
      (simp_all add: durableSet_def storageSet_def storageGet_def wp_def catch_def bindA_def doneA_def set get
        lost stored again)
qed

end
