(* ===== verification/OperatorVerify.thy ===== *)
theory OperatorVerify
  imports OperatorChain
begin

text \<open>
  What \<open>operator-core.mjs\<close> checks about a transaction that was sent: \<open>_verifyTxAndReceipt\<close> compares the
  transaction and its receipt with the bound step, \<open>_receiptPostcondition\<close> the events of the receipt with
  the expectations bound for the step's type, and \<open>_cumulativeCheckpoint\<close> the state of the contracts with
  all that was done up to a step. The bound data are a \<open>Runtime\<close>, built when the packet is bound; decimal
  texts of amounts are the numbers they denote. The operator's fields are an \<open>OpState\<close>.
\<close>

section \<open>Bound data\<close>

record GasCeilings =
  gc_gasLimitCeiling :: int
  gc_maxFeeCeilingWei :: int
  gc_maxPriorityCeilingWei :: int
  gc_maxGasCostCeilingWei :: int

record BoundStep =
  st_index :: nat
  st_originalIndex :: nat
  st_phase :: string
  st_label :: string
  st_postconditionType :: string
  st_signer :: string
  st_nonce :: int
  st_to :: "string option"
  st_value :: string
  st_dataOrInitCode :: string
  st_gasLimit :: int
  st_maxFeePerGas :: int
  st_maxPriorityFeePerGas :: int
  st_maxGasCostWei :: int
  st_slot :: "string option"
  st_predictedCreationAddress :: "string option"
  st_expectedRuntimeHash :: "string option"
  st_gasCeilings :: "GasCeilings option"

record LpExpectation =
  le_feeTier :: int
  le_tickSpacing :: int
  le_sqrtPriceX96 :: int
  le_tick :: int
  le_tickLower :: int
  le_tickUpper :: int
  le_amount0Used :: int
  le_amount1Used :: int
  le_amount0Min :: int
  le_amount1Min :: int
  le_poolLiquidityAfter :: int
  le_token0 :: string
  le_token1 :: string
  le_positionOwner :: string

record BuyExpectation =
  be_tradeId :: int
  be_trader :: string
  be_recipient :: string
  be_adapter :: string
  be_stockBudgetRecipient :: string
  be_grossWethInput :: int
  be_stockBudget :: int
  be_burnBudget :: int
  be_userWethBudget :: int
  be_userBpsOutput :: int
  be_bpsBurned :: int
  be_minimumUserBpsOutput :: int

record SellExpectation =
  se_tradeId :: int
  se_trader :: string
  se_recipient :: string
  se_adapter :: string
  se_stockBudgetRecipient :: string
  se_grossBpsInput :: int
  se_grossWethOutput :: int
  se_stockBudget :: int
  se_burnBudget :: int
  se_userWethOutput :: int
  se_bpsBurned :: int
  se_minimumGrossWethOutput :: int
  se_minimumUserWethOutput :: int

record LockExpectation =
  ke_account :: string
  ke_lockId :: int
  ke_principal :: int
  ke_duration :: int
  ke_multiplierBps :: int
  ke_policyVersion :: int

record DependencyCode =
  dc_address :: string
  dc_runtimeCodeHash :: string
  dc_codeBytes :: int

record Runtime =
  rt_steps :: "BoundStep list"
  rt_capMicro :: int
  rt_DEPLOYER :: string
  rt_TESTER :: string
  rt_FACTORY :: string
  rt_NPM :: string
  rt_NVDA :: string
  rt_pool :: string
  rt_addr :: "(string \<times> string) list"
  rt_symbol :: string
  rt_lp :: LpExpectation
  rt_buy :: BuyExpectation
  rt_sell :: SellExpectation
  rt_lock :: LockExpectation
  rt_dependencies :: "DependencyCode list"
  rt_expiresAtUtc :: string
  rt_exposurePrincipalWei :: int
  rt_exposureGasWei :: int
  rt_authFlags :: "(string \<times> bool) list"

section \<open>The operator's fields\<close>

record OpState =
  op_kHalt :: string
  op_kJournal :: string
  op_kPending :: string
  op_kIntent :: string
  op_execDigest :: string
  op_runtime :: "Runtime option"
  op_bound :: bool
  op_connected :: bool
  op_reconciled :: bool
  op_halted :: bool
  op_haltReason :: "string option"
  op_uncertainSend :: "Intent option"
  op_journal :: "JournalEntry option list"
  op_pending :: "Pending option"
  op_intent :: "Intent option"
  op_current :: nat

type_synonym ('w, 'a) op_act = "(OpState, 'w, 'a) act"

text \<open>Before binding there are no steps and no bound object: reading one throws.\<close>

definition runtime :: "('w, Runtime) op_act" where
  "runtime = bindA (gets op_runtime) (\<lambda>r.
     case r of None \<Rightarrow> throw (jsError ''Cannot read properties of null'') | Some rt \<Rightarrow> doneA rt)"

definition steps :: "OpState \<Rightarrow> BoundStep list" where
  "steps s = (case op_runtime s of None \<Rightarrow> [] | Some rt \<Rightarrow> rt_steps rt)"

definition stepAt :: "nat \<Rightarrow> ('w, BoundStep) op_act" where
  "stepAt i = bindA (gets steps) (\<lambda>xs.
     if i < length xs then doneA (xs ! i) else throw (jsError ''Cannot read properties of undefined''))"

lemma quiet_runtime [quiet_intros]: "quiet runtime"
  unfolding runtime_def by (intro quiet_intros)

lemma quiet_stepAt [quiet_intros]: "quiet (stepAt i)"
  unfolding stepAt_def by (intro quiet_intros)

section \<open>Comparing addresses\<close>

definition addrOpt :: "'w Env \<Rightarrow> string option \<Rightarrow> exn + string" where
  "addrOpt env a = (case a of None \<Rightarrow> Inl (jsError ''Cannot read properties of null'') | Some x \<Rightarrow> en_getAddress env x)"

definition sameAddr :: "'w Env \<Rightarrow> string option \<Rightarrow> string option \<Rightarrow> exn + bool" where
  "sameAddr env a b = rbind (addrOpt env a) (\<lambda>x. rbind (addrOpt env b) (\<lambda>y. Inr (x = y)))"

text \<open>The short-circuit \<open>&&\<close> of conditions that may throw.\<close>

definition andE :: "exn + bool \<Rightarrow> exn + bool \<Rightarrow> exn + bool" where
  "andE x y = rbind x (\<lambda>b. if b then y else Inr False)"

lemma andE_True [simp]: "andE x y = Inr True \<longleftrightarrow> x = Inr True \<and> y = Inr True"
  by (auto simp: andE_def rbind_eq_Inr)

lemma sameAddr_True: "sameAddr env a b = Inr True \<longleftrightarrow>
    (\<exists>x y c. a = Some x \<and> b = Some y \<and> en_getAddress env x = Inr c \<and> en_getAddress env y = Inr c)"
  by (auto simp: sameAddr_def addrOpt_def rbind_eq_Inr split: option.splits)

section \<open>The transaction and its receipt\<close>

datatype Verified = VFail string | VOk OnchainTx TxReceipt

definition assertChain :: "'w Env \<Rightarrow> ('o, 'w, bool) act" where
  "assertChain env = catch (bindA (reqQuantity env EthChainId) (\<lambda>n. doneA (n = 4663))) (\<lambda>_. doneA False)"

definition fieldOk :: "'w Env \<Rightarrow> BoundStep \<Rightarrow> OnchainTx \<Rightarrow> exn + bool" where
  "fieldOk env t otx =
     andE (sameAddr env (Some (ot_from otx)) (Some (st_signer t)))
     (andE (Inr (ot_nonce otx = st_nonce t))
     (andE (Inr (ot_type otx = 2))
     (andE (case st_to t of Some to \<Rightarrow> sameAddr env (ot_to otx) (Some to) | None \<Rightarrow> Inr (ot_to otx = None))
     (andE (Inr (ot_value otx = 0))
       (Inr (lower (ot_input otx) = lower (st_dataOrInitCode t)))))))"

text \<open>The gas fields: exact, or below the ceilings of a recovery step. \<open>None\<close> when they pass.\<close>

definition gasRefusal :: "BoundStep \<Rightarrow> OnchainTx \<Rightarrow> string option" where
  "gasRefusal t otx =
     (let gl = ot_gas otx; mf = ot_maxFeePerGas otx; mp = ot_maxPriorityFeePerGas otx in
      case st_gasCeilings t of
        None \<Rightarrow>
          if \<not> (gl = st_gasLimit t \<and> mf = st_maxFeePerGas t \<and> mp = st_maxPriorityFeePerGas t)
          then Some ''gas fields differ from packet'' else None
      | Some g \<Rightarrow>
          if gl > gc_gasLimitCeiling g then Some ''gasLimit exceeds ceiling (2x reviewed)''
          else if mf > gc_maxFeeCeilingWei g then Some ''maxFeePerGas exceeds reviewed maximum''
          else if mp > gc_maxPriorityCeilingWei g then Some ''maxPriorityFeePerGas exceeds reviewed maximum''
          else if mp > mf then Some ''maxPriorityFeePerGas > maxFeePerGas''
          else if gl * mf > gc_maxGasCostCeilingWei g
          then Some (''gasLimit*maxFeePerGas exceeds the step'' @ [char_of (39 :: nat)] @ ''s reviewed maxGasCostWei'')
          else None)"

text \<open>The checks of the transaction, in order; \<open>None\<close> when all pass.\<close>

definition txRefusal :: "'w Env \<Rightarrow> BoundStep \<Rightarrow> OnchainTx \<Rightarrow> exn + string option" where
  "txRefusal env t otx =
     (if ot_chainId otx = None \<and> st_gasCeilings t = None
      then Inr (Some ''missing chainId (no default permitted)'')
      else if ot_chainId otx \<noteq> None \<and> ot_chainId otx \<noteq> Some 4663
      then Inr (Some ''tx-response chainId present and != 4663'')
      else rbind (fieldOk env t otx) (\<lambda>ok.
        if \<not> ok then Inr (Some ''tx fields differ from packet'')
        else if ot_accessList otx \<noteq> [] then Inr (Some ''unexpected non-empty access list'')
        else if ot_blob otx then Inr (Some ''unexpected blob fields'')
        else Inr (gasRefusal t otx)))"

fun pollReceipt :: "'w Env \<Rightarrow> string \<Rightarrow> nat \<Rightarrow> ('o, 'w, TxReceipt option) act" where
  "pollReceipt env txHash 0 = doneA None"
| "pollReceipt env txHash (Suc k) =
     bindA (reqReceipt env txHash) (\<lambda>r.
       case r of None \<Rightarrow> pollReceipt env txHash k | Some rc \<Rightarrow> doneA (Some rc))"

definition receiptRefusal :: "'w Env \<Rightarrow> BoundStep \<Rightarrow> string \<Rightarrow> TxReceipt \<Rightarrow> exn + string option" where
  "receiptRefusal env t txHash rc =
     (if lower (rc_transactionHash rc) \<noteq> lower txHash then Inr (Some ''receipt hash mismatch'')
      else if rc_status rc \<noteq> 1 then Inr (Some ''receipt reverted'')
      else if st_phase t = ''A-deploy''
      then rbind (sameAddr env (rc_contractAddress rc) (st_predictedCreationAddress t)) (\<lambda>eq.
        Inr (if eq then None else Some ''deployed address != predicted''))
      else Inr None)"

definition verifyTxAndReceipt :: "'w Env \<Rightarrow> BoundStep \<Rightarrow> string \<Rightarrow> ('o, 'w, Verified) act" where
  "verifyTxAndReceipt env t txHash =
     bindA (if st_gasCeilings t \<noteq> None then assertChain env else doneA True) (\<lambda>chain.
     if \<not> chain then doneA (VFail ''provider chain != 4663 at verify boundary'')
     else bindA (reqTx env txHash) (\<lambda>r.
       case r of
         None \<Rightarrow> doneA (VFail ''transaction lookup returned null'')
       | Some otx \<Rightarrow>
           bindA (lift (txRefusal env t otx)) (\<lambda>refusal.
           case refusal of
             Some reason \<Rightarrow> doneA (VFail reason)
           | None \<Rightarrow>
               bindA (pollReceipt env txHash (en_receiptPolls env)) (\<lambda>p.
               case p of
                 None \<Rightarrow> doneA (VFail ''receipt timeout'')
               | Some rc \<Rightarrow>
                   bindA (lift (receiptRefusal env t txHash rc)) (\<lambda>bad.
                   case bad of Some reason \<Rightarrow> doneA (VFail reason) | None \<Rightarrow> doneA (VOk otx rc))))))"

lemma quiet_assertChain [quiet_intros]: "quiet (assertChain env)"
  unfolding assertChain_def by (intro quiet_intros) simp

lemma quiet_pollReceipt [quiet_intros]: "quiet (pollReceipt env txHash k)"
  by (induction k) (auto intro!: quiet_intros)

lemma quiet_verifyTxAndReceipt [quiet_intros]: "quiet (verifyTxAndReceipt env t txHash)"
  unfolding verifyTxAndReceipt_def by (intro quiet_intros)

section \<open>The events of the receipt\<close>

definition ev_erc20Approval :: string where "ev_erc20Approval = ''Approval(address,address,uint256)''"

definition ev_erc721Transfer :: string where "ev_erc721Transfer = ''Transfer(address,address,uint256)''"

definition ev_poolCreated :: string where "ev_poolCreated = ''PoolCreated(address,address,uint24,int24,address)''"

definition ev_poolInitialize :: string where "ev_poolInitialize = ''Initialize(uint160,int24)''"

definition ev_increaseLiquidity :: string where
  "ev_increaseLiquidity = ''IncreaseLiquidity(uint256,uint128,uint256,uint256)''"

definition ev_officialBuy :: string where
  "ev_officialBuy = ''OfficialBuy(uint256,address,address,uint256,uint256,uint256,uint256,uint256,uint256,address,address)''"

definition ev_officialSell :: string where
  "ev_officialSell = ''OfficialSell(uint256,address,address,uint256,uint256,uint256,uint256,uint256,uint256,address,address)''"

definition ev_lockCreated :: string where
  "ev_lockCreated = ''LockCreated(address,uint256,uint256,uint64,uint32,uint64,uint16,uint16)''"

text \<open>The result of a postcondition: a reason, or the values reported.\<close>

datatype Post = PFail string | POk "(string \<times> string) list"

definition topicAddr :: "'w Env \<Rightarrow> string list \<Rightarrow> nat \<Rightarrow> exn + string" where
  "topicAddr env topics i = rbind (elementAt topics i) (\<lambda>tp. en_getAddress env (''0x'' @ drop 26 tp))"

definition topicInt :: "string list \<Rightarrow> nat \<Rightarrow> exn + int" where
  "topicInt topics i = rbind (elementAt topics i) bigIntText"

definition topicIs :: "'w Env \<Rightarrow> string list \<Rightarrow> nat \<Rightarrow> string \<Rightarrow> exn + bool" where
  "topicIs env topics i a =
     rbind (topicAddr env topics i) (\<lambda>x. rbind (en_getAddress env a) (\<lambda>y. Inr (x = y)))"

definition wordIs :: "'w Env \<Rightarrow> int \<Rightarrow> string \<Rightarrow> exn + bool" where
  "wordIs env n a = rbind (asAddr env n) (\<lambda>x. rbind (en_getAddress env a) (\<lambda>y. Inr (x = y)))"

text \<open>\<open>if (!c) return { ok: false, reason }\<close>.\<close>

definition need :: "exn + bool \<Rightarrow> string \<Rightarrow> exn + Post \<Rightarrow> exn + Post" where
  "need c reason k = rbind c (\<lambda>b. if b then k else Inr (PFail reason))"

definition addrOf :: "Runtime \<Rightarrow> string \<Rightarrow> exn + string" where
  "addrOf rt slot = (case map_of (rt_addr rt) slot of
     None \<Rightarrow> Inl (jsError ''Cannot read properties of undefined'') | Some a \<Rightarrow> Inr a)"

text \<open>The event to be found, then its checks.\<close>

definition withEvent :: "'w Env \<Rightarrow> TxReceipt \<Rightarrow> string \<Rightarrow> string \<Rightarrow> bool list \<Rightarrow> string
    \<Rightarrow> (string list \<Rightarrow> int list \<Rightarrow> exn + Post) \<Rightarrow> exn + Post" where
  "withEvent env rc emitter sig indexed reason k =
     rbind (decodeEvent env (rc_logs rc) emitter sig indexed) (\<lambda>e.
       case e of None \<Rightarrow> Inr (PFail reason) | Some ev \<Rightarrow> k (de_topics ev) (de_d ev))"

definition postDeploy :: "'w Env \<Rightarrow> BoundStep \<Rightarrow> TxReceipt \<Rightarrow> exn + Post" where
  "postDeploy env t rc =
     need (sameAddr env (rc_contractAddress rc) (st_predictedCreationAddress t)) ''deploy address''
       (rbind (addrOpt env (rc_contractAddress rc)) (\<lambda>a. Inr (POk [(''deployed'', a)])))"

definition postApprove :: "'w Env \<Rightarrow> BoundStep \<Rightarrow> TxReceipt \<Rightarrow> exn + Post" where
  "postApprove env t rc =
     rbind (calldataAddr env (st_dataOrInitCode t) 0) (\<lambda>spender.
     rbind (calldataUint (st_dataOrInitCode t) 1) (\<lambda>amount.
     rbind (addrOpt env (st_to t)) (\<lambda>token.
     withEvent env rc token ev_erc20Approval [True, True, False] ''no Approval event'' (\<lambda>topics d.
       need (topicIs env topics 1 (st_signer t)) ''approval owner != signer''
       (need (rbind (topicAddr env topics 2) (\<lambda>a. Inr (a = spender))) ''approval spender''
       (need (Inr (d ! 0 = amount)) ''approval amount''
         (Inr (POk [(''allowance'', dec_of_int (d ! 0))]))))))))"

definition postCreatePool :: "'w Env \<Rightarrow> Runtime \<Rightarrow> TxReceipt \<Rightarrow> exn + Post" where
  "postCreatePool env rt rc =
     (let lp = rt_lp rt in
      withEvent env rc (rt_FACTORY rt) ev_poolCreated [True, True, True, False, False] ''no PoolCreated''
        (\<lambda>topics d.
        need (andE (topicIs env topics 1 (le_token0 lp)) (topicIs env topics 2 (le_token1 lp)))
          ''PoolCreated token0/token1''
        (need (rbind (topicInt topics 3) (\<lambda>n. Inr (n = le_feeTier lp))) ''PoolCreated fee''
        (need (Inr (asI24 (d ! 0) = le_tickSpacing lp)) ''PoolCreated tickSpacing''
        (rbind (asAddr env (d ! 1)) (\<lambda>pool.
          need (Inr (pool = rt_pool rt)) (''PoolCreated pool '' @ pool) (Inr (POk [(''pool'', pool)]))))))))"

definition postInitialize :: "'w Env \<Rightarrow> Runtime \<Rightarrow> TxReceipt \<Rightarrow> exn + Post" where
  "postInitialize env rt rc =
     withEvent env rc (rt_pool rt) ev_poolInitialize [False, False] ''no Initialize'' (\<lambda>topics d.
       need (Inr (d ! 0 = le_sqrtPriceX96 (rt_lp rt))) ''Initialize sqrtPriceX96''
       (need (Inr (asI24 (d ! 1) = le_tick (rt_lp rt))) ''Initialize tick''
         (Inr (POk [(''sqrtPriceX96'', dec_of_int (d ! 0))]))))"

text \<open>
  The ERC-721 transfers of the position manager: the code keeps the last one in the receipt, with its
  token id and recipient.
\<close>

definition isNftTransfer :: "'w Env \<Rightarrow> Runtime \<Rightarrow> Log \<Rightarrow> exn + bool" where
  "isNftTransfer env rt lg =
     rbind (en_getAddress env (lg_address lg)) (\<lambda>a.
       Inr (a = rt_NPM rt \<and> length (lg_topics lg) = 4 \<and>
            lower (lg_topics lg ! 0) = lower (en_keccak256 env (utf8ToHex ev_erc721Transfer))))"

fun lastNftTransfer :: "'w Env \<Rightarrow> Runtime \<Rightarrow> (int \<times> string) option \<Rightarrow> Log list \<Rightarrow> exn + (int \<times> string) option" where
  "lastNftTransfer env rt acc [] = Inr acc"
| "lastNftTransfer env rt acc (lg # logs) =
     rbind (isNftTransfer env rt lg) (\<lambda>b.
     if \<not> b then lastNftTransfer env rt acc logs
     else rbind (topicInt (lg_topics lg) 3) (\<lambda>tokenId.
          rbind (topicAddr env (lg_topics lg) 2) (\<lambda>to.
            lastNftTransfer env rt (Some (tokenId, to)) logs)))"

fun firstNftTransfer :: "'w Env \<Rightarrow> Runtime \<Rightarrow> Log list \<Rightarrow> exn + int option" where
  "firstNftTransfer env rt [] = Inr None"
| "firstNftTransfer env rt (lg # logs) =
     rbind (isNftTransfer env rt lg) (\<lambda>b.
     if b then rbind (topicInt (lg_topics lg) 3) (\<lambda>n. Inr (Some n)) else firstNftTransfer env rt logs)"

definition mintCalldata :: "'w Env \<Rightarrow> LpExpectation \<Rightarrow> string \<Rightarrow> exn + Post \<Rightarrow> exn + Post" where
  "mintCalldata env lp d k =
     (let cAddr = (\<lambda>i a. rbind (calldataAddr env d i) (\<lambda>x. rbind (en_getAddress env a) (\<lambda>y. Inr (x = y))));
          cInt = (\<lambda>i f. rbind (calldataUint d i) (\<lambda>n. Inr (f n))) in
      need (andE (cAddr 0 (le_token0 lp)) (cAddr 1 (le_token1 lp))) ''mint calldata token0/1''
      (need (cInt 2 (\<lambda>n. n = le_feeTier lp)) ''mint calldata fee''
      (need (andE (cInt 3 (\<lambda>n. asI24 n = le_tickLower lp)) (cInt 4 (\<lambda>n. asI24 n = le_tickUpper lp)))
        ''mint calldata ticks''
      (need (andE (cInt 7 (\<lambda>n. n = le_amount0Min lp)) (cInt 8 (\<lambda>n. n = le_amount1Min lp)))
        ''mint calldata minimums''
      (need (cAddr 9 (le_positionOwner lp)) ''mint calldata recipient'' k)))))"

definition postMint :: "'w Env \<Rightarrow> Runtime \<Rightarrow> BoundStep \<Rightarrow> TxReceipt \<Rightarrow> exn + Post" where
  "postMint env rt t rc =
     (let lp = rt_lp rt in
      mintCalldata env lp (st_dataOrInitCode t)
      (rbind (decodeEvent env (rc_logs rc) (rt_NPM rt) ev_increaseLiquidity [True, False, False, False]) (\<lambda>inc.
       rbind (lastNftTransfer env rt None (rc_logs rc)) (\<lambda>xfer.
       case (inc, xfer) of
         (Some ev, Some (tokenId, to)) \<Rightarrow>
           need (rbind (topicInt (de_topics ev) 1) (\<lambda>n. Inr (n = tokenId)))
             ''mint tokenId mismatch Transfer vs IncreaseLiquidity''
           (need (rbind (en_getAddress env (le_positionOwner lp)) (\<lambda>a. Inr (to = a))) ''mint NFT recipient''
           (need (Inr (de_d ev ! 0 = le_poolLiquidityAfter lp)) ''mint liquidity''
           (need (Inr (de_d ev ! 1 = le_amount0Used lp \<and> de_d ev ! 2 = le_amount1Used lp)) ''mint amounts used''
           (need (Inr (de_d ev ! 1 \<ge> le_amount0Min lp \<and> de_d ev ! 2 \<ge> le_amount1Min lp)) ''mint amounts < minimum''
             (Inr (POk [(''tokenId'', dec_of_int tokenId), (''liquidity'', dec_of_int (de_d ev ! 0))]))))))
       | _ \<Rightarrow> Inr (PFail ''no IncreaseLiquidity/Transfer'')))))"

definition tradeIndexed :: "bool list" where
  "tradeIndexed = [True, True, True, False, False, False, False, False, False, False, False]"

text \<open>A missing trade id is a failure, where the other topics throw.\<close>

definition tradeId :: "string list \<Rightarrow> int \<Rightarrow> exn + bool" where
  "tradeId topics expected =
     (if length topics \<le> 1 then Inr False else rbind (topicInt topics 1) (\<lambda>n. Inr (n = expected)))"

definition postBuy :: "'w Env \<Rightarrow> Runtime \<Rightarrow> TxReceipt \<Rightarrow> exn + Post" where
  "postBuy env rt rc =
     (let bu = rt_buy rt in
      rbind (addrOf rt ''tradeRouter'') (\<lambda>router.
      withEvent env rc router ev_officialBuy tradeIndexed ''no OfficialBuy'' (\<lambda>topics d.
        need (tradeId topics (be_tradeId bu)) ''buy tradeId''
        (need (topicIs env topics 2 (be_trader bu)) ''buy trader''
        (need (topicIs env topics 3 (be_recipient bu)) ''buy recipient''
        (need (Inr (d ! 0 = be_grossWethInput bu \<and> d ! 1 = be_stockBudget bu \<and> d ! 2 = be_burnBudget bu \<and>
             d ! 3 = be_userWethBudget bu \<and> d ! 4 = be_userBpsOutput bu \<and> d ! 5 = be_bpsBurned bu))
           ''buy accounting amounts''
        (need (andE (wordIs env (d ! 6) (be_adapter bu)) (wordIs env (d ! 7) (be_stockBudgetRecipient bu)))
           ''buy adapter/stockBudgetRecipient''
        (need (Inr (d ! 4 \<ge> be_minimumUserBpsOutput bu)) ''buy < minimum''
          (Inr (POk [(''userBpsOutput'', dec_of_int (d ! 4))]))))))))))"

definition postSell :: "'w Env \<Rightarrow> Runtime \<Rightarrow> TxReceipt \<Rightarrow> exn + Post" where
  "postSell env rt rc =
     (let se = rt_sell rt in
      rbind (addrOf rt ''tradeRouter'') (\<lambda>router.
      withEvent env rc router ev_officialSell tradeIndexed ''no OfficialSell'' (\<lambda>topics d.
        need (tradeId topics (se_tradeId se)) ''sell tradeId''
        (need (topicIs env topics 2 (se_trader se)) ''sell trader''
        (need (topicIs env topics 3 (se_recipient se)) ''sell recipient''
        (need (Inr (d ! 0 = se_grossBpsInput se \<and> d ! 1 = se_grossWethOutput se \<and> d ! 2 = se_stockBudget se \<and>
             d ! 3 = se_burnBudget se \<and> d ! 4 = se_userWethOutput se \<and> d ! 5 = se_bpsBurned se))
           ''sell accounting amounts''
        (need (andE (wordIs env (d ! 6) (se_adapter se)) (wordIs env (d ! 7) (se_stockBudgetRecipient se)))
           ''sell adapter/stockBudgetRecipient''
        (need (Inr (d ! 1 \<ge> se_minimumGrossWethOutput se \<and> d ! 4 \<ge> se_minimumUserWethOutput se))
           ''sell < minimum''
          (Inr (POk [(''userWethOutput'', dec_of_int (d ! 4))]))))))))))"

definition postLock :: "'w Env \<Rightarrow> Runtime \<Rightarrow> TxReceipt \<Rightarrow> exn + Post" where
  "postLock env rt rc =
     (let lk = rt_lock rt in
      rbind (addrOf rt ''lockingVault'') (\<lambda>vault.
      withEvent env rc vault ev_lockCreated [True, True, False, False, False, False, False, False]
        ''no LockCreated'' (\<lambda>topics d.
        need (topicIs env topics 1 (ke_account lk)) ''lock account''
        (need (rbind (topicInt topics 2) (\<lambda>n. Inr (n = ke_lockId lk))) ''lock lockId''
        (need (Inr (d ! 0 = ke_principal lk)) ''lock principal''
        (need (Inr (d ! 2 = ke_duration lk)) ''lock duration''
        (need (Inr (d ! 1 + d ! 2 = d ! 3)) ''lock event unlock != start+duration''
        (need (Inr (d ! 4 = ke_multiplierBps lk)) ''lock multiplierBps''
        (need (Inr (d ! 5 = ke_policyVersion lk)) ''lock policyVersion''
          (Inr (POk [(''principal'', dec_of_int (d ! 0)), (''unlockTime'', dec_of_int (d ! 3))])))))))))))"

definition receiptPostcondition :: "'w Env \<Rightarrow> Runtime \<Rightarrow> BoundStep \<Rightarrow> TxReceipt \<Rightarrow> exn + Post" where
  "receiptPostcondition env rt t rc =
     (let ty = st_postconditionType t in
      if ty = ''deploy'' then postDeploy env t rc
      else if ty = ''approve'' then postApprove env t rc
      else if ty = ''createPool'' then postCreatePool env rt rc
      else if ty = ''initialize'' then postInitialize env rt rc
      else if ty = ''mint'' then postMint env rt t rc
      else if ty = ''buy'' then postBuy env rt rc
      else if ty = ''sell'' then postSell env rt rc
      else if ty = ''lock'' then postLock env rt rc
      else Inr (PFail (''no postcondition for type '' @ ty)))"

section \<open>The cumulative checkpoint\<close>

text \<open>A checkpoint passes (\<open>None\<close>) or gives its reason. \<open>demand\<close> is \<open>if (!(await c)) return {ok: false, reason}\<close>.\<close>

type_synonym ('w, 'o) checkpoint = "('o, 'w, string option) act"

definition demand :: "('o, 'w, bool) act \<Rightarrow> string \<Rightarrow> ('o, 'w, string option) act \<Rightarrow> ('o, 'w, string option) act" where
  "demand c reason k = bindA c (\<lambda>b. if b then k else doneA (Some reason))"

definition andA :: "('o, 'w, bool) act \<Rightarrow> ('o, 'w, bool) act \<Rightarrow> ('o, 'w, bool) act" where
  "andA x y = bindA x (\<lambda>b. if b then y else doneA False)"

text \<open>\<open>W\<close>: a getter of a contract returns the expected address.\<close>

definition wired :: "'w Env \<Rightarrow> string \<Rightarrow> string \<Rightarrow> string \<Rightarrow> ('o, 'w, bool) act" where
  "wired env to sig expected =
     bindA (callAddr env to sig []) (\<lambda>r.
     bindA (lift (en_getAddress env r)) (\<lambda>x.
     bindA (lift (en_getAddress env expected)) (\<lambda>y. doneA (x = y))))"

text \<open>The deployed contracts among the steps done: code, with the bound hash.\<close>

fun checkDeployed :: "'w Env \<Rightarrow> BoundStep list \<Rightarrow> ('o, 'w, string option) act \<Rightarrow> ('o, 'w, string option) act" where
  "checkDeployed env [] k = k"
| "checkDeployed env (s # ss) k =
     (if st_phase s \<noteq> ''A-deploy'' then checkDeployed env ss k
      else case (st_predictedCreationAddress s, st_expectedRuntimeHash s) of
        (Some predicted, Some expected) \<Rightarrow>
          bindA (reqText env (EthGetCode predicted ''latest'')) (\<lambda>code.
          let slot = (case st_slot s of Some x \<Rightarrow> x | None \<Rightarrow> ''undefined'') in
          if code = [] \<or> code = ''0x'' then doneA (Some (''missing code '' @ slot))
          else if lower (en_keccak256 env code) \<noteq> lower expected
          then doneA (Some (''runtime code hash '' @ slot))
          else checkDeployed env ss k)
      | _ \<Rightarrow> throw (jsError ''Cannot read properties of undefined''))"

definition stepsUpTo :: "Runtime \<Rightarrow> nat \<Rightarrow> BoundStep list" where
  "stepsUpTo rt uptoStep = take (Suc uptoStep) (rt_steps rt)"

definition deployedSlot :: "Runtime \<Rightarrow> nat \<Rightarrow> string \<Rightarrow> bool" where
  "deployedSlot rt uptoStep slot = list_ex (\<lambda>s. st_slot s = Some slot) (stepsUpTo rt uptoStep)"

definition doneType :: "Runtime \<Rightarrow> nat \<Rightarrow> string \<Rightarrow> bool" where
  "doneType rt uptoStep ty = list_ex (\<lambda>s. st_postconditionType s = ty) (stepsUpTo rt uptoStep)"

definition slotAt :: "Runtime \<Rightarrow> string \<Rightarrow> ('o, 'w, string) act" where
  "slotAt rt slot = lift (addrOf rt slot)"

definition ifDeployed :: "Runtime \<Rightarrow> nat \<Rightarrow> string \<Rightarrow> ('o, 'w, bool) act \<Rightarrow> string
    \<Rightarrow> ('o, 'w, string option) act \<Rightarrow> ('o, 'w, string option) act" where
  "ifDeployed rt uptoStep slot c reason k = (if deployedSlot rt uptoStep slot then demand c reason k else k)"

definition checkWiring :: "'w Env \<Rightarrow> Runtime \<Rightarrow> nat \<Rightarrow> ('o, 'w, string option) act \<Rightarrow> ('o, 'w, string option) act" where
  "checkWiring env rt uptoStep k =
     ifDeployed rt uptoStep ''canaryToken''
        (bindA (slotAt rt ''canaryToken'') (\<lambda>token.
         bindA (callString env token ''symbol()'') (\<lambda>x. doneA (x = rt_symbol rt)))) ''symbol''
      (ifDeployed rt uptoStep ''lockingVault''
        (bindA (slotAt rt ''lockingVault'') (\<lambda>vault. bindA (slotAt rt ''canaryToken'') (\<lambda>token.
         andA (wired env vault ''owner()'' (rt_DEPLOYER rt)) (wired env vault ''bpsToken()'' token)))) ''vault wiring''
      (ifDeployed rt uptoStep ''stockVault''
        (bindA (slotAt rt ''stockVault'') (\<lambda>vault.
         bindA (slotAt rt ''coordinator'') (\<lambda>coordinator.
         bindA (lift (encAddr env (rt_NVDA rt))) (\<lambda>nvdaArg.
         bindA (callBool env vault ''isApprovedStockToken(address)'' [nvdaArg]) (\<lambda>nvda.
         andA (wired env vault ''acquisitionExecutor()'' coordinator)
           (andA (wired env vault ''reserveRecipient()'' (rt_DEPLOYER rt)) (doneA nvda))))))) ''vault immutables/NVDA''
      (ifDeployed rt uptoStep ''tradeRouter''
        (bindA (slotAt rt ''tradeRouter'') (\<lambda>router.
         bindA (slotAt rt ''canaryToken'') (\<lambda>token.
         bindA (slotAt rt ''uniswapAdapter'') (\<lambda>adapter.
         bindA (slotAt rt ''stockVault'') (\<lambda>vault.
         andA (wired env router ''owner()'' (rt_DEPLOYER rt))
           (andA (wired env router ''bpsToken()'' token)
           (andA (wired env router ''swapAdapter()'' adapter)
             (wired env router ''stockBudgetRecipient()'' vault)))))))) ''router wiring'' k)))"

definition poolCall :: "'w Env \<Rightarrow> Runtime \<Rightarrow> ('o, 'w, string) act" where
  "poolCall env rt =
     bindA (lift (encAddr env (le_token0 (rt_lp rt)))) (\<lambda>a0.
     bindA (lift (encAddr env (le_token1 (rt_lp rt)))) (\<lambda>a1.
     bindA (callAddr env (rt_FACTORY rt) ''getPool(address,address,uint24)''
       [a0, a1, encUint (le_feeTier (rt_lp rt))]) (\<lambda>r. lift (en_getAddress env r))))"

definition checkPool :: "'w Env \<Rightarrow> Runtime \<Rightarrow> nat \<Rightarrow> ('o, 'w, string option) act \<Rightarrow> ('o, 'w, string option) act" where
  "checkPool env rt uptoStep k =
     (if doneType rt uptoStep ''createPool''
      then demand (bindA (poolCall env rt) (\<lambda>p. doneA (p = rt_pool rt))) ''pool getPool'' k
      else k)"

text \<open>The token id of the position: from the receipt at hand, or from the receipt of the journalled mint.\<close>

definition mintStepOf :: "Runtime \<Rightarrow> BoundStep option" where
  "mintStepOf rt = find (\<lambda>s. st_postconditionType s = ''mint'') (rt_steps rt)"

text \<open>A hole of the journal has no step to compare: reading it throws.\<close>

fun journalFind :: "nat \<Rightarrow> JournalEntry option list \<Rightarrow> exn + JournalEntry option" where
  "journalFind i [] = Inr None"
| "journalFind i (None # js) = Inl (jsError ''Cannot read properties of undefined'')"
| "journalFind i (Some j # js) = (if je_step j = i then Inr (Some j) else journalFind i js)"

definition mintTokenId :: "'w Env \<Rightarrow> Runtime \<Rightarrow> BoundStep \<Rightarrow> ('w, int option) op_act" where
  "mintTokenId env rt mintStep =
     bindA (gets op_journal) (\<lambda>journal.
     bindA (lift (journalFind (st_index mintStep) journal)) (\<lambda>j.
     case j of
       None \<Rightarrow> doneA None
     | Some e \<Rightarrow>
         bindA (reqReceipt env (je_txHash e)) (\<lambda>rc.
         case rc of None \<Rightarrow> doneA None | Some r \<Rightarrow> lift (firstNftTransfer env rt (rc_logs r)))))"

definition wordOf :: "string \<Rightarrow> nat \<Rightarrow> string" where
  "wordOf pos n = slice (2 + n * 64) (2 + (n + 1) * 64) pos"

definition positionRefusal :: "'w Env \<Rightarrow> LpExpectation \<Rightarrow> string \<Rightarrow> exn + string option" where
  "positionRefusal env lp pos =
     rbind (en_getAddress env (''0x'' @ drop 24 (wordOf pos 2))) (\<lambda>pToken0.
     rbind (en_getAddress env (''0x'' @ drop 24 (wordOf pos 3))) (\<lambda>pToken1.
     rbind (bigIntHex (wordOf pos 4)) (\<lambda>pFee.
     rbind (bigIntHex (wordOf pos 5)) (\<lambda>pTickLower.
     rbind (bigIntHex (wordOf pos 6)) (\<lambda>pTickUpper.
     rbind (bigIntHex (wordOf pos 7)) (\<lambda>pLiq.
     rbind (en_getAddress env (le_token0 lp)) (\<lambda>t0.
     rbind (if pToken0 = t0 then en_getAddress env (le_token1 lp) else Inr []) (\<lambda>t1.
       Inr (if pToken0 \<noteq> t0 \<or> pToken1 \<noteq> t1 then Some ''position token0/token1''
            else if pFee \<noteq> le_feeTier lp \<or> asI24 pTickLower \<noteq> le_tickLower lp \<or> asI24 pTickUpper \<noteq> le_tickUpper lp
            then Some ''position fee/ticks''
            else if pLiq \<noteq> le_poolLiquidityAfter lp then Some ''position liquidity''
            else None)))))))))"

definition checkPosition :: "'w Env \<Rightarrow> Runtime \<Rightarrow> nat \<Rightarrow> TxReceipt option \<Rightarrow> ('w, string option) op_act \<Rightarrow> ('w, string option) op_act" where
  "checkPosition env rt uptoStep mintRc k =
     (if \<not> doneType rt uptoStep ''mint'' then k
      else case mintStepOf rt of
        None \<Rightarrow> throw (jsError ''Cannot read properties of undefined'')
      | Some mintStep \<Rightarrow>
          bindA (case (st_index mintStep = uptoStep, mintRc) of
                   (True, Some rc) \<Rightarrow> lift (firstNftTransfer env rt (rc_logs rc))
                 | _ \<Rightarrow> mintTokenId env rt mintStep) (\<lambda>tid.
          case tid of
            None \<Rightarrow> doneA (Some ''mint tokenId (checkpoint)'')
          | Some n \<Rightarrow>
              bindA (callAddr env (rt_NPM rt) ''ownerOf(uint256)'' [encUint n]) (\<lambda>r.
              bindA (lift (en_getAddress env r)) (\<lambda>owner.
              bindA (lift (en_getAddress env (le_positionOwner (rt_lp rt)))) (\<lambda>expected.
              if owner \<noteq> expected then doneA (Some ''LP NFT owner'')
              else bindA (callContract env (rt_NPM rt) ''positions(uint256)'' [encUint n]) (\<lambda>pos.
                   bindA (lift (positionRefusal env (rt_lp rt) pos)) (\<lambda>bad.
                   case bad of Some reason \<Rightarrow> doneA (Some reason) | None \<Rightarrow> k)))))))"

definition checkLock :: "'w Env \<Rightarrow> Runtime \<Rightarrow> nat \<Rightarrow> ('o, 'w, string option) act" where
  "checkLock env rt uptoStep =
     (if doneType rt uptoStep ''lock''
      then demand
        (bindA (slotAt rt ''lockingVault'') (\<lambda>vault.
         bindA (lift (encAddr env (rt_TESTER rt))) (\<lambda>arg.
         bindA (callUint env vault ''lockedPrincipal(address)'' [arg]) (\<lambda>n.
         doneA (n = ke_principal (rt_lock rt)))))) ''lockedPrincipal'' (doneA None)
      else doneA None)"

definition cumulativeCheckpoint :: "'w Env \<Rightarrow> nat \<Rightarrow> TxReceipt option \<Rightarrow> ('w, string option) op_act" where
  "cumulativeCheckpoint env uptoStep mintRc =
     bindA runtime (\<lambda>rt.
     checkDeployed env (stepsUpTo rt uptoStep)
       (checkWiring env rt uptoStep (checkPool env rt uptoStep
         (checkPosition env rt uptoStep mintRc (checkLock env rt uptoStep)))))"

lemma quiet_demand [quiet_intros]: "quiet c \<Longrightarrow> quiet k \<Longrightarrow> quiet (demand c reason k)"
  unfolding demand_def by (intro quiet_intros)

lemma quiet_andA [quiet_intros]: "quiet x \<Longrightarrow> quiet y \<Longrightarrow> quiet (andA x y)"
  unfolding andA_def by (intro quiet_intros)

lemma quiet_wired [quiet_intros]: "quiet (wired env to sig expected)"
  unfolding wired_def by (intro quiet_intros)

lemma quiet_slotAt [quiet_intros]: "quiet (slotAt rt slot)"
  unfolding slotAt_def by (intro quiet_intros)

lemma quiet_checkDeployed [quiet_intros]: "quiet k \<Longrightarrow> quiet (checkDeployed env ss k)"
proof (induction ss)
  case (Cons s ss)
  then show ?case
    by (cases "st_predictedCreationAddress s"; cases "st_expectedRuntimeHash s")
      (auto intro!: quiet_intros)
qed simp

lemma quiet_ifDeployed [quiet_intros]: "quiet c \<Longrightarrow> quiet k \<Longrightarrow> quiet (ifDeployed rt uptoStep slot c reason k)"
  unfolding ifDeployed_def by (intro quiet_intros)

lemma quiet_checkWiring [quiet_intros]: "quiet k \<Longrightarrow> quiet (checkWiring env rt uptoStep k)"
  unfolding checkWiring_def by (intro quiet_intros)

lemma quiet_poolCall [quiet_intros]: "quiet (poolCall env rt)"
  unfolding poolCall_def by (intro quiet_intros)

lemma quiet_checkPool [quiet_intros]: "quiet k \<Longrightarrow> quiet (checkPool env rt uptoStep k)"
  unfolding checkPool_def by (intro quiet_intros)

lemma quiet_mintTokenId [quiet_intros]: "quiet (mintTokenId env rt s)"
  unfolding mintTokenId_def by (intro quiet_intros)

lemma quiet_checkPosition [quiet_intros]: "quiet k \<Longrightarrow> quiet (checkPosition env rt uptoStep mintRc k)"
  unfolding checkPosition_def
  by (cases mintRc) (auto intro!: quiet_intros split: option.split bool.split)

lemma quiet_checkLock [quiet_intros]: "quiet (checkLock env rt uptoStep)"
  unfolding checkLock_def by (intro quiet_intros)

lemma quiet_cumulativeCheckpoint [quiet_intros]: "quiet (cumulativeCheckpoint env uptoStep mintRc)"
  unfolding cumulativeCheckpoint_def by (intro quiet_intros)

section \<open>What a verified transaction is\<close>

text \<open>The transaction a step stands for, field by field; the gas exactly, or within the ceilings of recovery.\<close>

definition boundTx :: "'w Env \<Rightarrow> BoundStep \<Rightarrow> OnchainTx \<Rightarrow> bool" where
  "boundTx env t otx \<longleftrightarrow>
     (ot_chainId otx = Some 4663 \<or> ot_chainId otx = None \<and> st_gasCeilings t \<noteq> None) \<and>
     sameAddr env (Some (ot_from otx)) (Some (st_signer t)) = Inr True \<and>
     ot_nonce otx = st_nonce t \<and> ot_type otx = 2 \<and>
     (case st_to t of None \<Rightarrow> ot_to otx = None | Some to \<Rightarrow> sameAddr env (ot_to otx) (Some to) = Inr True) \<and>
     ot_value otx = 0 \<and> lower (ot_input otx) = lower (st_dataOrInitCode t) \<and>
     ot_accessList otx = [] \<and> \<not> ot_blob otx \<and>
     (case st_gasCeilings t of
        None \<Rightarrow> ot_gas otx = st_gasLimit t \<and> ot_maxFeePerGas otx = st_maxFeePerGas t \<and>
          ot_maxPriorityFeePerGas otx = st_maxPriorityFeePerGas t
      | Some g \<Rightarrow> ot_gas otx \<le> gc_gasLimitCeiling g \<and> ot_maxFeePerGas otx \<le> gc_maxFeeCeilingWei g \<and>
          ot_maxPriorityFeePerGas otx \<le> min (gc_maxPriorityCeilingWei g) (ot_maxFeePerGas otx) \<and>
          ot_gas otx * ot_maxFeePerGas otx \<le> gc_maxGasCostCeilingWei g)"

definition boundReceipt :: "'w Env \<Rightarrow> BoundStep \<Rightarrow> string \<Rightarrow> TxReceipt \<Rightarrow> bool" where
  "boundReceipt env t txHash rc \<longleftrightarrow>
     lower (rc_transactionHash rc) = lower txHash \<and> rc_status rc = 1 \<and>
     (st_phase t = ''A-deploy'' \<longrightarrow>
        sameAddr env (rc_contractAddress rc) (st_predictedCreationAddress t) = Inr True)"

lemma fieldOk_True: "fieldOk env t otx = Inr True \<longleftrightarrow>
   sameAddr env (Some (ot_from otx)) (Some (st_signer t)) = Inr True \<and> ot_nonce otx = st_nonce t \<and> ot_type otx = 2 \<and>
   (case st_to t of None \<Rightarrow> ot_to otx = None | Some to \<Rightarrow> sameAddr env (ot_to otx) (Some to) = Inr True) \<and>
   ot_value otx = 0 \<and> lower (ot_input otx) = lower (st_dataOrInitCode t)"
  by (auto simp: fieldOk_def split: option.split)

lemma gasRefusal_None: "gasRefusal t otx = None \<longleftrightarrow>
   (case st_gasCeilings t of
      None \<Rightarrow> ot_gas otx = st_gasLimit t \<and> ot_maxFeePerGas otx = st_maxFeePerGas t \<and>
        ot_maxPriorityFeePerGas otx = st_maxPriorityFeePerGas t
    | Some g \<Rightarrow> ot_gas otx \<le> gc_gasLimitCeiling g \<and> ot_maxFeePerGas otx \<le> gc_maxFeeCeilingWei g \<and>
        ot_maxPriorityFeePerGas otx \<le> min (gc_maxPriorityCeilingWei g) (ot_maxFeePerGas otx) \<and>
        ot_gas otx * ot_maxFeePerGas otx \<le> gc_maxGasCostCeilingWei g)"
  by (auto simp: gasRefusal_def Let_def split: option.split)

lemma txRefusal_None: "txRefusal env t otx = Inr None \<longleftrightarrow> boundTx env t otx"
proof -
  have "txRefusal env t otx = Inr None \<longleftrightarrow>
      (ot_chainId otx = Some 4663 \<or> ot_chainId otx = None \<and> st_gasCeilings t \<noteq> None) \<and>
      fieldOk env t otx = Inr True \<and> ot_accessList otx = [] \<and> \<not> ot_blob otx \<and> gasRefusal t otx = None"
    by (cases "fieldOk env t otx") (auto simp: txRefusal_def)
  then show ?thesis
    unfolding fieldOk_True gasRefusal_None boundTx_def by blast
qed

lemma receiptRefusal_None: "receiptRefusal env t txHash rc = Inr None \<longleftrightarrow> boundReceipt env t txHash rc"
  by (auto simp: receiptRefusal_def boundReceipt_def rbind_eq_Inr)

text \<open>Answers that were logged.\<close>

definition answered :: "('o, 'w) Machine \<Rightarrow> Rpc \<Rightarrow> Reply \<Rightarrow> bool" where
  "answered m r a \<longleftrightarrow> list_ex (\<lambda>e. ev_rpc e = r \<and> ev_reply e = Done a) (mc_trace m)"

lemma wp_req_answered:
  "(\<And>r m'. (\<forall>a. r = Done a \<longrightarrow> answered m' rpc a) \<Longrightarrow> (\<forall>q a. answered m q a \<longrightarrow> answered m' q a) \<Longrightarrow> Q r m') \<Longrightarrow>
   wp (req env rpc) Q m"
  by (auto simp: wp_def req_def answered_def split: prod.split)

lemma wp_reqTx:
  "(\<And>r m'. (\<forall>t. r = Done t \<longrightarrow> answered m' (EthGetTransactionByHash h) (RTx t)) \<Longrightarrow>
     (\<forall>q a. answered m q a \<longrightarrow> answered m' q a) \<Longrightarrow> Q r m') \<Longrightarrow> wp (reqTx env h) Q m"
  unfolding reqTx_def wp_bindA
  by (rule wp_req_answered) (auto split: outcome.split Reply.split)

lemma wp_reqReceipt:
  "(\<And>r m'. (\<forall>t. r = Done t \<longrightarrow> answered m' (EthGetTransactionReceipt h) (RReceipt t)) \<Longrightarrow>
     (\<forall>q a. answered m q a \<longrightarrow> answered m' q a) \<Longrightarrow> Q r m') \<Longrightarrow> wp (reqReceipt env h) Q m"
  unfolding reqReceipt_def wp_bindA
  by (rule wp_req_answered) (auto split: outcome.split Reply.split)

lemma wp_pollReceipt:
  "(\<And>r m'. (\<forall>rc. r = Done (Some rc) \<longrightarrow> answered m' (EthGetTransactionReceipt h) (RReceipt (Some rc))) \<Longrightarrow>
     (\<forall>q a. answered m q a \<longrightarrow> answered m' q a) \<Longrightarrow> Q r m') \<Longrightarrow> wp (pollReceipt env h k) Q m"
proof (induction k arbitrary: m)
  case (Suc k)
  show ?case
    unfolding pollReceipt.simps wp_bindA
    by (rule wp_reqReceipt) (auto split: outcome.split option.split intro!: Suc)
qed simp

text \<open>What acceptance says, for the machine in which it ends.\<close>

definition acceptedTx :: "'w Env \<Rightarrow> BoundStep \<Rightarrow> string \<Rightarrow> Verified outcome \<Rightarrow> (OpState, 'w) Machine \<Rightarrow> bool" where
  "acceptedTx env t txHash r m \<longleftrightarrow> (case r of
     Done (VOk otx rc) \<Rightarrow>
       boundTx env t otx \<and> boundReceipt env t txHash rc \<and>
       answered m (EthGetTransactionByHash txHash) (RTx (Some otx)) \<and>
       answered m (EthGetTransactionReceipt txHash) (RReceipt (Some rc))
   | _ \<Rightarrow> True)"

lemma wp_verifyTxAndReceipt: "wp (verifyTxAndReceipt env t txHash) (acceptedTx env t txHash) m"
proof -
  have poll: "wp (bindA (pollReceipt env txHash n) (\<lambda>p.
       case p of None \<Rightarrow> doneA (VFail x) | Some rc \<Rightarrow>
         bindA (lift (receiptRefusal env t txHash rc)) (\<lambda>bad.
         case bad of Some reason \<Rightarrow> doneA (VFail reason) | None \<Rightarrow> doneA (VOk otx rc)))) (acceptedTx env t txHash) m'"
    if "boundTx env t otx" "answered m' (EthGetTransactionByHash txHash) (RTx (Some otx))" for n x otx m'
    by (rule wp_bindI, rule wp_pollReceipt)
      (use that in \<open>auto simp: acceptedTx_def receiptRefusal_None split: outcome.split option.split sum.split\<close>)
  show ?thesis
    unfolding verifyTxAndReceipt_def
    apply (rule wp_bindI, rule wpI)
    subgoal for r m'
      by (cases r) (auto simp: acceptedTx_def txRefusal_None wp_bindA [of "lift _"] simp del: wp_bindA
        split: outcome.split option.split sum.split intro!: wp_bindI [of "reqTx _ _"] wp_reqTx poll)
    done
qed

text \<open>
  C15: When the verifier accepts a hash for a step, the chain answered a transaction that agrees with the step
  in every security-critical field (for a recovery step: gas within its ceilings), and a successful receipt of
  that hash, for a deployment at the predicted address.
\<close>

theorem verifyTxAndReceipt_exact:
  "case verifyTxAndReceipt env t txHash m of (r, m') \<Rightarrow> acceptedTx env t txHash r m'"
  using wp_verifyTxAndReceipt [of env t txHash m] by (simp add: wp_def)

end
