(* ===== verification/Operator.thy ===== *)
theory Operator
  imports OperatorVerify
begin

text \<open>
  The canary operator itself, \<open>operator-core.mjs\<close>: its durable records, the states
  bound / connected / reconciled / halted, the gates before a transaction, the one transaction per step, its
  verification, the reconciliation after a restart and the resolution of an uncertain send. A method that
  a subclass overrides is an argument of the methods that call it. In a message the dash is written \<open>-\<close>.
\<close>

section \<open>Results\<close>

text \<open>
  What a method returns. \<open>Refused\<close>, \<open>HaltedResult\<close>, \<open>WrongAccount\<close>, \<open>PendingBlocks\<close>, \<open>AllDone\<close>,
  \<open>UserRejected\<close> and \<open>UncertainSend\<close> are the results with \<open>ok: false\<close>.
\<close>

datatype OpResult =
    Refused string
  | HaltedResult "string option"
  | WrongAccount string
  | PendingBlocks
  | AllDone
  | UserRejected nat
  | UncertainSend "string option"
  | PreOk nat "(string \<times> bool) list" SendTx
  | Sent nat string
  | StepVerified nat string "(string \<times> string) list" bool
  | ConnectedOk
  | Reconciled nat
  | PendingUnresolved nat
  | PendingResolved nat
  | ResolvedStep nat
  | BoundOk

fun isOk :: "OpResult \<Rightarrow> bool" where
  "isOk (Refused r) = False"
| "isOk (HaltedResult r) = False"
| "isOk (WrongAccount r) = False"
| "isOk PendingBlocks = False"
| "isOk AllDone = False"
| "isOk (UserRejected n) = False"
| "isOk (UncertainSend h) = False"
| "isOk _ = True"

type_synonym 'w op_method = "('w, OpResult) op_act"

section \<open>Construction from the durable records\<close>

definition parseHalt :: "Stored option \<Rightarrow> exn + (string \<times> Intent option) option" where
  "parseHalt v = (case v of
     None \<Rightarrow> Inr None
   | Some SNull \<Rightarrow> Inr None
   | Some (SHalt reason u) \<Rightarrow> Inr (Some (reason, u))
   | _ \<Rightarrow> Inl (jsError ''Unexpected token''))"

definition parseJournal :: "Stored option \<Rightarrow> exn + JournalEntry option list" where
  "parseJournal v = (case v of
     None \<Rightarrow> Inr []
   | Some (SJournal js) \<Rightarrow> Inr js
   | _ \<Rightarrow> Inl (jsError ''Unexpected token''))"

definition parsePending :: "Stored option \<Rightarrow> exn + Pending option" where
  "parsePending v = (case v of
     None \<Rightarrow> Inr None
   | Some SNull \<Rightarrow> Inr None
   | Some (SPending p) \<Rightarrow> Inr (Some p)
   | _ \<Rightarrow> Inl (jsError ''Unexpected token''))"

definition parseIntent :: "Stored option \<Rightarrow> exn + Intent option" where
  "parseIntent v = (case v of
     None \<Rightarrow> Inr None
   | Some SNull \<Rightarrow> Inr None
   | Some (SIntent i) \<Rightarrow> Inr (Some i)
   | _ \<Rightarrow> Inl (jsError ''Unexpected token''))"

definition inFlightReason :: string where
  "inFlightReason =
     ''in-flight send intent persisted with no confirmed tx hash or journal entry - reconciliation required (no blind retry)''"

text \<open>The key of a record: the namespace, the kind of record, and the digest it belongs to.\<close>

definition keyOf :: "string \<Rightarrow> string \<Rightarrow> string \<Rightarrow> string" where
  "keyOf keyPrefix kind kd = keyPrefix @ '':'' @ kind @ '':'' @ kd"

lemma keyOf_kind [simp]: "keyOf kp a kd = keyOf kp b kd \<longleftrightarrow> a = b"
  by (simp add: keyOf_def)

text \<open>The fields after the constructor, from what the four records parse to.\<close>

definition initialState :: "string \<Rightarrow> string \<Rightarrow> string \<Rightarrow> (string \<times> Intent option) option
    \<Rightarrow> JournalEntry option list \<Rightarrow> Pending option \<Rightarrow> Intent option \<Rightarrow> exn + OpState" where
  "initialState keyPrefix kd execDigest h journal pending intent =
     (let s = \<lparr>op_kHalt = keyOf keyPrefix ''halt'' kd, op_kJournal = keyOf keyPrefix ''journal'' kd,
               op_kPending = keyOf keyPrefix ''pending'' kd, op_kIntent = keyOf keyPrefix ''intent'' kd,
               op_execDigest = execDigest, op_runtime = None, op_bound = False, op_connected = False,
               op_reconciled = False, op_halted = (h \<noteq> None), op_haltReason = map_option fst h,
               op_uncertainSend = (case h of None \<Rightarrow> None | Some x \<Rightarrow> snd x), op_journal = journal,
               op_pending = pending, op_intent = intent, op_current = 0\<rparr>
      in case (intent, op_uncertainSend s) of
           (Some i, None) \<Rightarrow>
             rbind (journalFind (in_step i) journal) (\<lambda>journaled.
             let pendingForStep = (case pending of None \<Rightarrow> False | Some p \<Rightarrow> pe_step p = in_step i) in
             Inr (if journaled = None \<and> \<not> pendingForStep
                  then s\<lparr>op_halted := True, op_uncertainSend := Some i, op_haltReason := Some inFlightReason\<rparr>
                  else s))
         | _ \<Rightarrow> Inr s)"

definition construct :: "'w Env \<Rightarrow> string \<Rightarrow> string \<Rightarrow> string \<Rightarrow> ('w, unit) op_act" where
  "construct env keyPrefix kd execDigest =
     bindA (bindA (storageGet env (keyOf keyPrefix ''halt'' kd)) (\<lambda>v. lift (parseHalt v))) (\<lambda>h.
     bindA (bindA (storageGet env (keyOf keyPrefix ''journal'' kd)) (\<lambda>v. lift (parseJournal v))) (\<lambda>journal.
     bindA (bindA (storageGet env (keyOf keyPrefix ''pending'' kd)) (\<lambda>v. lift (parsePending v))) (\<lambda>pending.
     bindA (bindA (storageGet env (keyOf keyPrefix ''intent'' kd)) (\<lambda>v. lift (parseIntent v))) (\<lambda>intent.
     bindA (lift (initialState keyPrefix kd execDigest h journal pending intent)) (\<lambda>s.
       modify (\<lambda>_. s))))))"

section \<open>Halting\<close>

text \<open>\<open>_persistHalt\<close> and \<open>_halt\<close>: the memory halts whether or not the record is written.\<close>

definition persistHalt :: "'w Env \<Rightarrow> string \<Rightarrow> Intent option \<Rightarrow> ('w, unit) op_act" where
  "persistHalt env reason u =
     bindA (modify (\<lambda>s. s\<lparr>op_halted := True, op_haltReason := Some reason, op_uncertainSend := u\<rparr>)) (\<lambda>_.
     bindA (gets op_kHalt) (\<lambda>key.
       catch (storageSet env key (SHalt reason u)) (\<lambda>_. doneA ())))"

definition halt :: "'w Env \<Rightarrow> string \<Rightarrow> 'w op_method" where
  "halt env reason =
     bindA (gets op_uncertainSend) (\<lambda>u.
     bindA (persistHalt env reason u) (\<lambda>_. doneA (HaltedResult (Some reason))))"

section \<open>Binding and connecting\<close>

definition failedNames :: "(string \<times> bool) list \<Rightarrow> string" where
  "failedNames checks = join '','' (map fst (filter (\<lambda>c. \<not> snd c) checks))"

text \<open>The end of \<open>bindAndVerifyPacket\<close>: bound exactly when every check passed; then the runtime data.\<close>

definition applyBinding :: "'w Env \<Rightarrow> string \<Rightarrow> (string \<times> bool) list \<Rightarrow> exn + Runtime \<Rightarrow> 'w op_method" where
  "applyBinding env what checks rt =
     (let ok = list_all snd checks in
      bindA (modify (\<lambda>s. s\<lparr>op_bound := ok\<rparr>)) (\<lambda>_.
      if \<not> ok then halt env (what @ '' binding failed: '' @ failedNames checks)
      else bindA (lift rt) (\<lambda>r. bindA (modify (\<lambda>s. s\<lparr>op_runtime := Some r\<rparr>)) (\<lambda>_. doneA BoundOk))))"

definition wrongChain :: string where
  "wrongChain = ''wrong chain (need 4663/0x1237); switch Rabby manually''"

definition markConnected :: "'w Env \<Rightarrow> 'w op_method" where
  "markConnected env =
     bindA (gets (\<lambda>s. s)) (\<lambda>s.
     if \<not> op_bound s then doneA (Refused ''not bound'')
     else if op_halted s then doneA (HaltedResult (op_haltReason s))
     else bindA (reqQuantity env EthChainId) (\<lambda>chain.
       if chain \<noteq> 4663 then doneA (Refused wrongChain)
       else bindA (req env EthAccounts) (\<lambda>a.
         if accountsOf a = [] then doneA (Refused ''no account exposed'')
         else bindA (modify (\<lambda>s. s\<lparr>op_connected := True\<rparr>)) (\<lambda>_. doneA ConnectedOk))))"

definition statesReady :: "OpState \<Rightarrow> bool" where
  "statesReady s \<longleftrightarrow> op_bound s \<and> op_connected s \<and> op_reconciled s \<and> \<not> op_halted s \<and> op_uncertainSend s = None"

section \<open>Exposure\<close>

text \<open>
  \<open>_exposureGate\<close>: whether the gate passes and, when it was computed, the exposure in micro dollars. An age in
  seconds is the least whole number not below it, which is at most 300 exactly when the age is.
\<close>

definition exposureOf :: "Runtime \<Rightarrow> int \<Rightarrow> int \<Rightarrow> int" where
  "exposureOf rt coinbase kraken =
     bigint_div ((rt_exposurePrincipalWei rt + rt_exposureGasWei rt) * (if coinbase > kraken then coinbase else kraken))
       (10 ^ 18)"

definition exposureVerdict :: "Runtime \<Rightarrow> LivePrice \<Rightarrow> bool \<times> int option" where
  "exposureVerdict rt pr =
     (case (lp_coinbaseMicroUsd pr, lp_krakenMicroUsd pr) of
        (Some coinbase, Some kraken) \<Rightarrow>
          if \<not> (lp_coinbaseAgeS pr \<le> 300 \<and> lp_krakenAgeS pr \<le> 300) then (False, None)
          else let e = exposureOf rt coinbase kraken in (e \<le> rt_capMicro rt, Some e)
      | _ \<Rightarrow> (False, None))"

definition priceRequest :: "('w \<Rightarrow> LivePrice outcome \<times> 'w) \<Rightarrow> ('o, 'w, LivePrice) act" where
  "priceRequest p = (\<lambda>m. case p (mc_world m) of (r, w') \<Rightarrow> (r, m\<lparr>mc_world := w'\<rparr>))"

definition exposureGate :: "'w Env \<Rightarrow> Runtime \<Rightarrow> ('o, 'w, bool \<times> int option) act" where
  "exposureGate env rt =
     (case en_price env of
        None \<Rightarrow> doneA (False, None)
      | Some p \<Rightarrow> bindA (catch (bindA (priceRequest p) (\<lambda>x. doneA (Some x))) (\<lambda>_. doneA None)) (\<lambda>pr.
          case pr of None \<Rightarrow> doneA (False, None) | Some x \<Rightarrow> doneA (exposureVerdict rt x)))"

section \<open>The gates before a transaction\<close>

definition callTxOf :: "BoundStep \<Rightarrow> CallTx" where
  "callTxOf t = \<lparr>ct_from = Some (st_signer t), ct_to = st_to t, ct_data = st_dataOrInitCode t, ct_value = Some ''0x0''\<rparr>"

definition buildSendTx :: "'w Env \<Rightarrow> BoundStep \<Rightarrow> exn + SendTx" where
  "buildSendTx env t =
     rbind (en_getAddress env (st_signer t)) (\<lambda>from.
     rbind (case st_to t of None \<Rightarrow> Inr None | Some to \<Rightarrow> rbind (en_getAddress env to) (\<lambda>a. Inr (Some a))) (\<lambda>to.
     Inr \<lparr>sx_from = from, sx_value = ''0x0'', sx_data = st_dataOrInitCode t, sx_gas = hexQuantity (st_gasLimit t),
          sx_maxFeePerGas = hexQuantity (st_maxFeePerGas t),
          sx_maxPriorityFeePerGas = hexQuantity (st_maxPriorityFeePerGas t), sx_type = ''0x2'',
          sx_nonce = hexQuantity (st_nonce t), sx_chainId = ''0x1237'', sx_to = to\<rparr>))"

definition accountSelected :: "'w Env \<Rightarrow> string list \<Rightarrow> BoundStep \<Rightarrow> exn + bool" where
  "accountSelected env accts t =
     (case accts of
        [] \<Rightarrow> Inr False
      | a # _ \<Rightarrow> if a = [] then Inr False else sameAddr env (Some a) (Some (st_signer t)))"

fun dependenciesUnchanged :: "'w Env \<Rightarrow> bool \<Rightarrow> DependencyCode list \<Rightarrow> ('o, 'w, bool) act" where
  "dependenciesUnchanged env dep [] = doneA dep"
| "dependenciesUnchanged env dep (d # ds) =
     bindA (reqText env (EthGetCode (dc_address d) ''latest'')) (\<lambda>code.
       dependenciesUnchanged env
         (if lower (en_keccak256 env code) \<noteq> lower (dc_runtimeCodeHash d) \<or>
             int (length code) - 2 \<noteq> 2 * dc_codeBytes d
          then False else dep) ds)"

definition predictedCreateEmpty :: "'w Env \<Rightarrow> BoundStep \<Rightarrow> ('o, 'w, bool) act" where
  "predictedCreateEmpty env t =
     (if st_phase t \<noteq> ''A-deploy'' then doneA True
      else case st_predictedCreationAddress t of
        None \<Rightarrow> throw (jsError ''missing value for required argument'')
      | Some a \<Rightarrow> bindA (reqText env (EthGetCode a ''latest'')) (\<lambda>code. doneA (code = ''0x'' \<or> code = ''0x0'')))"

definition reqBlock :: "'w Env \<Rightarrow> ('o, 'w, int \<times> int) act" where
  "reqBlock env = bindA (req env (EthGetBlockByNumber ''latest'')) (\<lambda>a.
     case a of RBlock baseFee ts \<Rightarrow> doneA (baseFee, ts) | _ \<Rightarrow> throw (jsError ''Cannot read properties of null''))"

definition simulates :: "'w Env \<Rightarrow> BoundStep \<Rightarrow> ('o, 'w, bool) act" where
  "simulates env t =
     catch (bindA (req env (EthCall (callTxOf t) ''latest'')) (\<lambda>_. doneA True)) (\<lambda>_. doneA False)"

definition estimateWithinLimit :: "'w Env \<Rightarrow> BoundStep \<Rightarrow> ('o, 'w, bool) act" where
  "estimateWithinLimit env t =
     catch (bindA (reqQuantity env (EthEstimateGas (callTxOf t))) (\<lambda>n. doneA (n \<le> st_gasLimit t))) (\<lambda>_. doneA False)"

definition FLAGS :: "string list" where
  "FLAGS = [''broadcastReady'', ''liveWritesApproved'', ''executionAuthorized'', ''fundingAuthorized'']"

definition authorizationEnabled :: "Runtime \<Rightarrow> bool" where
  "authorizationEnabled rt = list_all (\<lambda>k. map_of (rt_authFlags rt) k = Some True) FLAGS"

definition notExpired :: "'w Env \<Rightarrow> Runtime \<Rightarrow> ('o, 'w, bool) act" where
  "notExpired env rt = (\<lambda>m. (Done (case en_dateParse env (rt_expiresAtUtc rt) of
     None \<Rightarrow> False | Some t \<Rightarrow> en_now env (mc_world m) \<le> t), m))"

text \<open>All the gates of step \<open>i\<close>, in order; a request that rejects leaves the method.\<close>

definition gates :: "'w Env \<Rightarrow> Runtime \<Rightarrow> nat \<Rightarrow> BoundStep \<Rightarrow> ('w, (string \<times> bool) list) op_act" where
  "gates env rt i t =
     bindA (notExpired env rt) (\<lambda>expiryOk.
     bindA (reqQuantity env EthChainId) (\<lambda>chain.
     bindA (req env EthAccounts) (\<lambda>a.
     bindA (lift (accountSelected env (accountsOf a) t)) (\<lambda>account.
     bindA (reqQuantity env (EthGetTransactionCount (st_signer t) ''latest'')) (\<lambda>nLatest.
     bindA (reqQuantity env (EthGetTransactionCount (st_signer t) ''pending'')) (\<lambda>nPending.
     bindA (gets op_journal) (\<lambda>journal.
     bindA (dependenciesUnchanged env True (rt_dependencies rt)) (\<lambda>dep.
     bindA (predictedCreateEmpty env t) (\<lambda>empty.
     bindA (reqBlock env) (\<lambda>head.
     bindA (reqQuantity env (EthGetBalance (st_signer t) ''latest'')) (\<lambda>balance.
     bindA (simulates env t) (\<lambda>sim.
     bindA (estimateWithinLimit env t) (\<lambda>est.
     bindA (exposureGate env rt) (\<lambda>exposure.
     doneA [(''notExpired'', expiryOk), (''correctChain'', chain = 4663), (''accountSelected'', account),
            (''nonceLatestMatches'', nLatest = st_nonce t), (''noncePendingMatches'', nPending = st_nonce t),
            (''priorStepsVerified'', length journal = i), (''dependencyHashesUnchanged'', dep),
            (''predictedCreateEmpty'', empty),
            (''baseFeeInBounds'', fst head + st_maxPriorityFeePerGas t \<le> st_maxFeePerGas t),
            (''ethSufficient'', balance \<ge> st_maxGasCostWei t), (''simulationNoRevert'', sim),
            (''gasEstimateWithinLimit'', est), (''freshExposureWithinCap'', fst exposure),
            (''authorizationEnabled'', authorizationEnabled rt)]))))))))))))))"

definition preconditions :: "'w Env \<Rightarrow> 'w op_method" where
  "preconditions env =
     bindA (gets (\<lambda>s. s)) (\<lambda>s.
     if op_halted s then doneA (HaltedResult (op_haltReason s))
     else if op_uncertainSend s \<noteq> None
     then doneA (HaltedResult (Some ''uncertain send pending - reconciliation required''))
     else if \<not> op_bound s then doneA (Refused ''not bound'')
     else if \<not> op_connected s then doneA (Refused ''not connected'')
     else if \<not> op_reconciled s then doneA (Refused ''not reconciled - run reconcile() after Connect'')
     else if op_pending s \<noteq> None then doneA PendingBlocks
     else if length (steps s) \<le> op_current s then doneA AllDone
     else bindA runtime (\<lambda>rt.
       let i = op_current s; t = steps s ! i in
       bindA (gates env rt i t) (\<lambda>g.
       if \<not> list_all snd g
       then halt env (''precondition failed at step '' @ dec_of_int (int i) @ '': '' @ failedNames g)
       else bindA (lift (buildSendTx env t)) (\<lambda>tx. doneA (PreOk i g tx)))))"

section \<open>Sending\<close>

definition signable :: "'w Env \<Rightarrow> BoundStep \<Rightarrow> exn + Json" where
  "signable env t =
     rbind (en_getAddress env (st_signer t)) (\<lambda>signer.
     rbind (case st_to t of None \<Rightarrow> Inr JNull | Some to \<Rightarrow> rbind (en_getAddress env to) (\<lambda>a. Inr (JStr a))) (\<lambda>to.
     Inr (JObj [(''chainId'', JNum 4663), (''signer'', JStr signer), (''nonce'', JNum (st_nonce t)), (''type'', JNum 2),
       (''to'', to), (''value'', JStr (if st_value t = [] then ''0'' else st_value t)),
       (''data'', JStr (st_dataOrInitCode t)), (''gasLimit'', JStr (dec_of_int (st_gasLimit t))),
       (''maxFeePerGas'', JStr (dec_of_int (st_maxFeePerGas t))),
       (''maxPriorityFeePerGas'', JStr (dec_of_int (st_maxPriorityFeePerGas t)))])))"

definition signableHash :: "'w Env \<Rightarrow> BoundStep \<Rightarrow> exn + string" where
  "signableHash env t = rbind (signable env t) (\<lambda>j. Inr (en_keccak256 env (utf8ToHex (stableText j))))"

definition intentOf :: "'w Env \<Rightarrow> OpState \<Rightarrow> BoundStep \<Rightarrow> exn + Intent" where
  "intentOf env s t =
     rbind (en_getAddress env (st_signer t)) (\<lambda>signer.
     rbind (signableHash env t) (\<lambda>h.
     Inr \<lparr>in_digest = op_execDigest s, in_step = op_current s, in_signer = signer, in_nonce = st_nonce t,
          in_signableTxHash = h\<rparr>))"

text \<open>A rejection by the user before anything was broadcast: code 4001, or its text.\<close>

definition userRejected :: "exn \<Rightarrow> bool" where
  "userRejected e \<longleftrightarrow> xcode e = Some 4001 \<or>
     str_includes (lower (xmessage e)) ''user rejected'' \<or> str_includes (lower (xmessage e)) ''user denied''"

text \<open>The storage helpers on the operator's own keys.\<close>

definition durableAt :: "'w Env \<Rightarrow> (OpState \<Rightarrow> string) \<Rightarrow> Stored \<Rightarrow> ('w, bool) op_act" where
  "durableAt env key v = bindA (gets key) (\<lambda>k. durableSet env k v)"

text \<open>The answer of \<open>eth_sendTransaction\<close>: the hash, or what was thrown, also by the building of the request.\<close>

definition askWallet :: "'w Env \<Rightarrow> BoundStep \<Rightarrow> ('w, exn + string) op_act" where
  "askWallet env t =
     catch (bindA (lift (buildSendTx env t)) (\<lambda>tx.
            bindA (reqText env (EthSendTransaction tx)) (\<lambda>h. doneA (Inr h))))
       (\<lambda>e. doneA (Inl e))"

definition afterWalletError :: "'w Env \<Rightarrow> Intent \<Rightarrow> exn \<Rightarrow> 'w op_method" where
  "afterWalletError env intent e =
     (if userRejected e
      then bindA (durableAt env op_kIntent SNull) (\<lambda>cleared.
        if \<not> cleared
        then bindA (persistHalt env
               ''failed to clear a rejected-send intent - reconciliation required (no blind retry)'' (Some intent))
             (\<lambda>_. doneA (UncertainSend None))
        else bindA (modify (\<lambda>s. s\<lparr>op_intent := None\<rparr>)) (\<lambda>_.
             bindA (gets op_current) (\<lambda>i. doneA (UserRejected i))))
      else bindA (persistHalt env
             (''unknown provider error after eth_sendTransaction invoked - reconciliation required (no blind retry): ''
              @ xmessage e) (Some intent))
           (\<lambda>_. doneA (UncertainSend None)))"

definition afterHash :: "'w Env \<Rightarrow> bool \<Rightarrow> Intent \<Rightarrow> string \<Rightarrow> 'w op_method" where
  "afterHash env boundary intent txHash =
     bindA (if boundary then assertChain env else doneA True) (\<lambda>chain.
     if \<not> chain
     then bindA (persistHalt env
            (''provider chain != 4663 immediately after tx hash returned - reconciliation required (no blind retry): ''
             @ txHash) (Some intent))
          (\<lambda>_. doneA (UncertainSend (Some txHash)))
     else bindA (gets (\<lambda>s. \<lparr>pe_digest = op_execDigest s, pe_step = op_current s, pe_txHash = txHash\<rparr>)) (\<lambda>pending.
          bindA (durableAt env op_kPending (SPending pending)) (\<lambda>stored.
          if \<not> stored
          then bindA (persistHalt env
                 (''failed to durably record the returned tx hash - reconciliation required (supply the hash to resolve): ''
                  @ txHash) (Some intent))
               (\<lambda>_. doneA (UncertainSend (Some txHash)))
          else bindA (modify (\<lambda>s. s\<lparr>op_pending := Some pending\<rparr>)) (\<lambda>_.
               bindA (gets op_current) (\<lambda>i. doneA (Sent i txHash))))))"

text \<open>The intent is durable: the wallet is asked, unless the chain changed.\<close>

definition invokeWallet :: "'w Env \<Rightarrow> BoundStep \<Rightarrow> bool \<Rightarrow> Intent \<Rightarrow> 'w op_method" where
  "invokeWallet env t boundary intent =
     bindA (modify (\<lambda>s. s\<lparr>op_intent := Some intent\<rparr>)) (\<lambda>_.
     bindA (if boundary then assertChain env else doneA True) (\<lambda>chain.
     if \<not> chain
     then bindA (durableAt env op_kIntent SNull) (\<lambda>_.
          bindA (modify (\<lambda>s. s\<lparr>op_intent := None\<rparr>)) (\<lambda>_.
          doneA (Refused ''provider chain != 4663 immediately before eth_sendTransaction'')))
     else bindA (askWallet env t) (\<lambda>r.
          case r of Inl e \<Rightarrow> afterWalletError env intent e
                  | Inr txHash \<Rightarrow> afterHash env boundary intent txHash)))"

definition dispatch :: "'w Env \<Rightarrow> 'w op_method" where
  "dispatch env =
     bindA (gets (\<lambda>s. s)) (\<lambda>s.
     bindA (stepAt (op_current s)) (\<lambda>t.
     bindA (if st_gasCeilings t \<noteq> None then assertChain env else doneA True) (\<lambda>chain.
     if \<not> chain then doneA (Refused ''provider chain != 4663 immediately before intent persistence'')
     else bindA (lift (intentOf env s t)) (\<lambda>intent.
     bindA (durableAt env op_kIntent (SIntent intent)) (\<lambda>stored.
     if \<not> stored
     then doneA (Refused ''storage unavailable - refusing to invoke wallet (no in-flight intent persisted)'')
     else invokeWallet env t (st_gasCeilings t \<noteq> None) intent)))))"

text \<open>\<open>pre\<close> is \<open>this.preconditions\<close>, which the recovery operator overrides.\<close>

definition sendCurrent :: "'w Env \<Rightarrow> 'w op_method \<Rightarrow> 'w op_method" where
  "sendCurrent env pre =
     bindA (gets (\<lambda>s. s)) (\<lambda>s.
     if op_halted s \<or> op_uncertainSend s \<noteq> None
     then doneA (HaltedResult (case op_haltReason s of None \<Rightarrow> Some ''uncertain send'' | Some r \<Rightarrow> Some r))
     else if \<not> statesReady s then doneA (Refused ''states not ready (bound/connected/reconciled)'')
     else if op_pending s \<noteq> None then doneA PendingBlocks
     else bindA pre (\<lambda>p. if \<not> isOk p then doneA p else dispatch env))"

section \<open>Verification of what was sent\<close>

definition journalEntry :: "OpState \<Rightarrow> nat \<Rightarrow> string \<Rightarrow> JournalEntry" where
  "journalEntry s i txHash = \<lparr>je_digest = op_execDigest s, je_step = i, je_txHash = txHash,
     je_receiptStatus = ''success'', je_verified = True\<rparr>"

text \<open>The pending record and the intent are superseded by the journal; clearing them is best effort.\<close>

definition finishStep :: "'w Env \<Rightarrow> nat \<Rightarrow> string \<Rightarrow> (string \<times> string) list \<Rightarrow> 'w op_method" where
  "finishStep env i txHash values =
     bindA (durableAt env op_kPending SNull) (\<lambda>_.
     bindA (modify (\<lambda>s. s\<lparr>op_pending := None\<rparr>)) (\<lambda>_.
     bindA (durableAt env op_kIntent SNull) (\<lambda>_.
     bindA (modify (\<lambda>s. s\<lparr>op_intent := None, op_current := op_current s + 1\<rparr>)) (\<lambda>_.
     bindA (gets (\<lambda>s. length (steps s) \<le> op_current s)) (\<lambda>finished.
     doneA (StepVerified i txHash values finished))))))"

text \<open>The durable journal comes first.\<close>

definition journalStep :: "'w Env \<Rightarrow> nat \<Rightarrow> string \<Rightarrow> (string \<times> string) list \<Rightarrow> 'w op_method" where
  "journalStep env i txHash values =
     bindA (gets (\<lambda>s. op_journal s @ [Some (journalEntry s i txHash)])) (\<lambda>nextJournal.
     bindA (durableAt env op_kJournal (SJournal nextJournal)) (\<lambda>stored.
     if \<not> stored
     then doneA (Refused (''failed to durably journal step '' @ dec_of_int (int i)
            @ '' - pending retained; reload will re-verify the same tx''))
     else bindA (modify (\<lambda>s. s\<lparr>op_journal := nextJournal\<rparr>)) (\<lambda>_. finishStep env i txHash values)))"

definition verifyAfterHash :: "'w Env \<Rightarrow> string \<Rightarrow> 'w op_method" where
  "verifyAfterHash env txHash =
     bindA (gets (\<lambda>s. s)) (\<lambda>s.
     if op_halted s then doneA (HaltedResult (op_haltReason s))
     else if (case op_pending s of None \<Rightarrow> True | Some p \<Rightarrow> lower (pe_txHash p) \<noteq> lower txHash)
     then halt env ''verifyAfterHash for a non-pending hash''
     else let i = op_current s; at = (\<lambda>what reason. what @ '' at step '' @ dec_of_int (int i) @ reason) in
       bindA (stepAt i) (\<lambda>t. bindA runtime (\<lambda>rt.
       bindA (verifyTxAndReceipt env t txHash) (\<lambda>v.
       case v of
         VFail reason \<Rightarrow> halt env (at ''verify'' ('': '' @ reason))
       | VOk otx rc \<Rightarrow>
           bindA (lift (receiptPostcondition env rt t rc)) (\<lambda>post.
           case post of
             PFail reason \<Rightarrow> halt env (at ''postcondition'' ('' ('' @ st_label t @ ''): '' @ reason))
           | POk values \<Rightarrow>
               bindA (cumulativeCheckpoint env i (Some rc)) (\<lambda>chk.
               case chk of
                 Some reason \<Rightarrow> halt env (at ''checkpoint'' ('': '' @ reason))
               | None \<Rightarrow> journalStep env i txHash values))))))"

section \<open>Restart\<close>

text \<open>Every entry of the journal, in order: \<open>None\<close> when all verify, or the result to return.\<close>

fun checkJournal :: "'w Env \<Rightarrow> nat \<Rightarrow> JournalEntry option list \<Rightarrow> ('w, OpResult option) op_act" where
  "checkJournal env k [] = doneA None"
| "checkJournal env k (None # js) = throw (jsError ''Cannot read properties of null'')"
| "checkJournal env k (Some j # js) =
     bindA (gets op_execDigest) (\<lambda>digest.
     if je_digest j \<noteq> digest \<or> je_step j \<noteq> k
     then bindA (halt env (''journal step/digest mismatch at '' @ dec_of_int (int k))) (\<lambda>r. doneA (Some r))
     else bindA (stepAt k) (\<lambda>t. bindA runtime (\<lambda>rt.
       bindA (verifyTxAndReceipt env t (je_txHash j)) (\<lambda>v.
       case v of
         VFail reason \<Rightarrow>
           bindA (halt env (''journal verify at step '' @ dec_of_int (int k) @ '': '' @ reason)) (\<lambda>r. doneA (Some r))
       | VOk otx rc \<Rightarrow>
           bindA (lift (receiptPostcondition env rt t rc)) (\<lambda>post.
           case post of
             PFail reason \<Rightarrow>
               bindA (halt env (''journal postcondition at step '' @ dec_of_int (int k) @ '': '' @ reason))
                 (\<lambda>r. doneA (Some r))
           | POk values \<Rightarrow> checkJournal env (Suc k) js)))))"

text \<open>A pending record of a step that is journalled is stale: it is dropped.\<close>

definition dropStalePending :: "'w Env \<Rightarrow> ('w, unit) op_act" where
  "dropStalePending env =
     bindA (gets (\<lambda>s. case op_pending s of None \<Rightarrow> False | Some p \<Rightarrow> pe_step p < length (op_journal s))) (\<lambda>stale.
     if stale then bindA (durableAt env op_kPending SNull) (\<lambda>_. modify (\<lambda>s. s\<lparr>op_pending := None\<rparr>))
     else doneA ())"

text \<open>What is left to do about a pending record once the journal is validated.\<close>

definition resumePending :: "'w Env \<Rightarrow> 'w op_method" where
  "resumePending env =
     bindA (dropStalePending env) (\<lambda>_.
     bindA (gets (\<lambda>s. s)) (\<lambda>s.
     case op_pending s of
       None \<Rightarrow> doneA (Reconciled (op_current s))
     | Some p \<Rightarrow>
         bindA (reqTx env (pe_txHash p)) (\<lambda>otx.
         case otx of
           None \<Rightarrow> bindA (modify (\<lambda>s. s\<lparr>op_reconciled := False\<rparr>)) (\<lambda>_. doneA (PendingUnresolved (op_current s)))
         | Some _ \<Rightarrow>
             bindA (verifyAfterHash env (pe_txHash p)) (\<lambda>v.
             if \<not> isOk v then doneA v
             else bindA (modify (\<lambda>s. s\<lparr>op_reconciled := True\<rparr>)) (\<lambda>_.
                  bindA (gets op_current) (\<lambda>i. doneA (PendingResolved i)))))))"

definition reconcile :: "'w Env \<Rightarrow> 'w op_method" where
  "reconcile env =
     bindA (gets (\<lambda>s. s)) (\<lambda>s.
     if \<not> op_bound s then doneA (Refused ''not bound'')
     else if \<not> op_connected s then doneA (Refused ''not connected'')
     else if op_halted s \<and> op_uncertainSend s = None then doneA (HaltedResult (op_haltReason s))
     else if op_uncertainSend s \<noteq> None
     then doneA (HaltedResult (Some
       ''uncertain send - supply a tx hash to resolve, or regenerate under review proving no broadcast''))
     else bindA (checkJournal env 0 (op_journal s)) (\<lambda>bad.
       case bad of
         Some r \<Rightarrow> doneA r
       | None \<Rightarrow>
           bindA (if op_journal s = [] then doneA None
                  else cumulativeCheckpoint env (length (op_journal s) - 1) None) (\<lambda>chk.
           case chk of
             Some reason \<Rightarrow> halt env (''restart checkpoint: '' @ reason)
           | None \<Rightarrow>
               bindA (modify (\<lambda>s. s\<lparr>op_current := length (op_journal s), op_reconciled := True\<rparr>)) (\<lambda>_.
               resumePending env))))"

section \<open>Resolving an uncertain send\<close>

text \<open>\<open>next[step] = entry\<close>: past the end it leaves holes.\<close>

definition putAt :: "nat \<Rightarrow> 'a \<Rightarrow> 'a option list \<Rightarrow> 'a option list" where
  "putAt i x xs = (if i < length xs then xs[i := Some x] else xs @ replicate (i - length xs) None @ [Some x])"

definition clearUncertain :: "'w Env \<Rightarrow> nat \<Rightarrow> 'w op_method" where
  "clearUncertain env i =
     bindA (durableAt env op_kIntent SNull) (\<lambda>clearedIntent.
     bindA (durableAt env op_kHalt SNull) (\<lambda>clearedHalt.
     if \<not> clearedIntent \<or> \<not> clearedHalt
     then doneA (HaltedResult (Some
       ''resolved+journalled but failed to clear durable halt/intent - remains halted until storage recovers (no blind retry)''))
     else bindA (modify (\<lambda>s. s\<lparr>op_uncertainSend := None, op_intent := None, op_halted := False,
            op_haltReason := None, op_current := length (op_journal s)\<rparr>)) (\<lambda>_.
          doneA (ResolvedStep i))))"

definition resolveUncertainSend :: "'w Env \<Rightarrow> string \<Rightarrow> 'w op_method" where
  "resolveUncertainSend env txHash =
     bindA (gets (\<lambda>s. s)) (\<lambda>s.
     case op_uncertainSend s of
       None \<Rightarrow> doneA (Refused ''no uncertain send'')
     | Some u \<Rightarrow>
         bindA (stepAt (in_step u)) (\<lambda>t. bindA runtime (\<lambda>rt.
         bindA (verifyTxAndReceipt env t txHash) (\<lambda>v.
         case v of
           VFail reason \<Rightarrow> doneA (Refused (''supplied tx does not reconcile: '' @ reason))
         | VOk otx rc \<Rightarrow>
             bindA (lift (receiptPostcondition env rt t rc)) (\<lambda>post.
             case post of
               PFail reason \<Rightarrow> doneA (Refused (''postcondition: '' @ reason))
             | POk values \<Rightarrow>
                 let next = putAt (in_step u) (journalEntry s (in_step u) txHash) (op_journal s) in
                 bindA (durableAt env op_kJournal (SJournal next)) (\<lambda>stored.
                 if \<not> stored
                 then doneA (HaltedResult (Some
                   ''failed to durably journal during uncertain-send resolution - remains halted (no blind retry)''))
                 else bindA (modify (\<lambda>s. s\<lparr>op_journal := next\<rparr>)) (\<lambda>_. clearUncertain env (in_step u))))))))"

end
