(* ===== verification/OperatorSafety.thy ===== *)
theory OperatorSafety
  imports Operator
begin

text \<open>
  What the operator never does, over every session: any sequence of calls of its methods and of reloads of
  the page, with any answers of the wallet and the chain, any failure of the storage, and the page lost at
  any request or access to the storage. A transaction is handed to the wallet only in the ready state, for
  the current step, with its intent durable; and of every step at most one transaction that the user did not
  reject. The methods a subclass overrides are the parameters of the locale \<open>hooks\<close>, with what the proofs
  rely on of them.
\<close>

section \<open>Sends of a trace\<close>

definition rejectedReply :: "Reply outcome \<Rightarrow> bool" where
  "rejectedReply r = (case r of Threw e \<Rightarrow> userRejected e | _ \<Rightarrow> False)"

text \<open>The steps whose transaction may have been broadcast, in order.\<close>

definition liveSteps :: "(OpState, 'w) Machine \<Rightarrow> nat list" where
  "liveSteps m = map (\<lambda>e. op_current (ev_op e)) (filter (\<lambda>e. \<not> rejectedReply (ev_reply e)) (sends m))"

text \<open>What holds at the moment of a send.\<close>

definition readyState :: "OpState \<Rightarrow> bool" where
  "readyState s \<longleftrightarrow> statesReady s \<and> op_pending s = None \<and> op_current s < length (steps s) \<and>
     length (op_journal s) = op_current s"

definition authorizedSend :: "'w Env \<Rightarrow> OpState Event \<Rightarrow> bool" where
  "authorizedSend env e =
     (let s = ev_op e; t = steps s ! op_current s in
      readyState s \<and>
      (case buildSendTx env t of Inl _ \<Rightarrow> False | Inr tx \<Rightarrow> ev_rpc e = EthSendTransaction tx) \<and>
      (case ev_store e (op_kIntent s) of
         Some (SIntent i) \<Rightarrow> Inr i = intentOf env s t
       | _ \<Rightarrow> False))"

section \<open>The invariant\<close>

definition journalIn :: "Stored option \<Rightarrow> JournalEntry option list" where
  "journalIn v = (case v of Some (SJournal js) \<Rightarrow> js | _ \<Rightarrow> [])"

definition pendingIn :: "Stored option \<Rightarrow> Pending option" where
  "pendingIn v = (case v of Some (SPending p) \<Rightarrow> Some p | _ \<Rightarrow> None)"

definition intentIn :: "Stored option \<Rightarrow> Intent option" where
  "intentIn v = (case v of Some (SIntent i) \<Rightarrow> Some i | _ \<Rightarrow> None)"

definition haltIn :: "Stored option \<Rightarrow> (string \<times> Intent option) option" where
  "haltIn v = (case v of Some (SHalt r u) \<Rightarrow> Some (r, u) | _ \<Rightarrow> None)"

lemma stored_simps [simp]:
  "journalIn (Some (SJournal js)) = js" "pendingIn (Some (SPending p)) = Some p" "pendingIn (Some SNull) = None"
  "intentIn (Some (SIntent i)) = Some i" "intentIn (Some SNull) = None"
  "haltIn (Some (SHalt r u)) = Some (r, u)" "haltIn (Some SNull) = None"
  "journalIn None = []" "pendingIn None = None" "intentIn None = None" "haltIn None = None"
  by (simp_all add: journalIn_def pendingIn_def intentIn_def haltIn_def)

text \<open>The four records of a namespace.\<close>

definition storedJournal :: "string \<Rightarrow> string \<Rightarrow> store \<Rightarrow> JournalEntry option list" where
  "storedJournal kp kd st = journalIn (st (keyOf kp ''journal'' kd))"

definition storedPending :: "string \<Rightarrow> string \<Rightarrow> store \<Rightarrow> Pending option" where
  "storedPending kp kd st = pendingIn (st (keyOf kp ''pending'' kd))"

definition storedIntent :: "string \<Rightarrow> string \<Rightarrow> store \<Rightarrow> Intent option" where
  "storedIntent kp kd st = intentIn (st (keyOf kp ''intent'' kd))"

definition storedHalt :: "string \<Rightarrow> string \<Rightarrow> store \<Rightarrow> (string \<times> Intent option) option" where
  "storedHalt kp kd st = haltIn (st (keyOf kp ''halt'' kd))"

lemma stored_upd [simp]:
  "storedJournal kp kd (st(keyOf kp k kd \<mapsto> v)) = (if k = ''journal'' then journalIn (Some v) else storedJournal kp kd st)"
  "storedPending kp kd (st(keyOf kp k kd \<mapsto> v)) = (if k = ''pending'' then pendingIn (Some v) else storedPending kp kd st)"
  "storedIntent kp kd (st(keyOf kp k kd \<mapsto> v)) = (if k = ''intent'' then intentIn (Some v) else storedIntent kp kd st)"
  "storedHalt kp kd (st(keyOf kp k kd \<mapsto> v)) = (if k = ''halt'' then haltIn (Some v) else storedHalt kp kd st)"
  by (simp_all add: storedJournal_def storedPending_def storedIntent_def storedHalt_def)

definition covers :: "Pending option \<Rightarrow> nat \<Rightarrow> bool" where
  "covers p n \<longleftrightarrow> (case p of None \<Rightarrow> False | Some x \<Rightarrow> pe_step x = n)"

definition aimsAt :: "Intent option \<Rightarrow> nat \<Rightarrow> bool" where
  "aimsAt i n \<longleftrightarrow> (case i of None \<Rightarrow> False | Some x \<Rightarrow> in_step x = n)"

definition pendingBelow :: "Pending option \<Rightarrow> nat \<Rightarrow> bool" where
  "pendingBelow p n \<longleftrightarrow> (case p of None \<Rightarrow> True | Some x \<Rightarrow> pe_step x \<le> n)"

definition intentBelow :: "Intent option \<Rightarrow> nat \<Rightarrow> bool" where
  "intentBelow i n \<longleftrightarrow> (case i of None \<Rightarrow> True | Some x \<Rightarrow> in_step x \<le> n)"

definition haltAim :: "(string \<times> Intent option) option \<Rightarrow> Intent option" where
  "haltAim h = (case h of None \<Rightarrow> None | Some (r, u) \<Rightarrow> u)"

lemma aim_simps [simp]: "\<not> covers None n" "covers (Some x) n \<longleftrightarrow> pe_step x = n"
  "\<not> aimsAt None n" "aimsAt (Some i) n \<longleftrightarrow> in_step i = n"
  "pendingBelow None n" "pendingBelow (Some x) n \<longleftrightarrow> pe_step x \<le> n"
  "intentBelow None n" "intentBelow (Some i) n \<longleftrightarrow> in_step i \<le> n"
  "haltAim None = None" "haltAim (Some (r, u)) = u"
  by (simp_all add: covers_def aimsAt_def pendingBelow_def intentBelow_def haltAim_def)

lemma below_mono: "pendingBelow p n \<Longrightarrow> n \<le> n' \<Longrightarrow> pendingBelow p n'"
  "intentBelow i n \<Longrightarrow> n \<le> n' \<Longrightarrow> intentBelow i n'"
  by (cases p; simp) (cases i; simp)

definition entriesBelow :: "nat \<Rightarrow> JournalEntry option list \<Rightarrow> bool" where
  "entriesBelow n js \<longleftrightarrow> list_all (\<lambda>e. case e of None \<Rightarrow> True | Some j \<Rightarrow> je_step j < n) js"

lemma entriesBelow_mono: "entriesBelow n js \<Longrightarrow> n \<le> n' \<Longrightarrow> entriesBelow n' js"
  by (auto simp: entriesBelow_def list_all_iff split: option.splits)

definition upToAll :: "nat list \<Rightarrow> nat \<Rightarrow> bool" where
  "upToAll S n \<longleftrightarrow> list_all (\<lambda>k. k \<le> n) S"

lemma upToAll_Suc: "upToAll S n \<Longrightarrow> Suc n \<notin> set S"
  by (auto simp: upToAll_def list_all_iff)

lemma upToAll_mono: "upToAll S n \<Longrightarrow> n \<le> n' \<Longrightarrow> upToAll S n'"
  by (auto simp: upToAll_def list_all_iff)

text \<open>
  The durable records, given the steps \<open>S\<close> that may have been broadcast: at most the step after the journal
  is not journalled, and then the pending record or the intent says so. \<open>aims\<close> is the intent of a halt.
\<close>

definition recordsOk :: "nat list \<Rightarrow> JournalEntry option list \<Rightarrow> Pending option \<Rightarrow> Intent option \<Rightarrow> Intent option \<Rightarrow> bool" where
  "recordsOk S js p i aims \<longleftrightarrow>
     (let N = length js in
      distinct S \<and> upToAll S N \<and> entriesBelow N js \<and> (N \<in> set S \<longrightarrow> covers p N \<or> aimsAt i N) \<and>
      pendingBelow p N \<and> intentBelow i N \<and> intentBelow aims N \<and>
      (N \<in> set S \<longrightarrow> aims = None \<or> aimsAt aims N \<or> covers p N))"

text \<open>The memory of a page (journal \<open>j\<close>, pending \<open>q\<close>, uncertain send \<open>u\<close>), against the records.\<close>

definition pageOk :: "nat list \<Rightarrow> nat \<Rightarrow> Pending option \<Rightarrow> Intent option \<Rightarrow> (string \<times> Intent option) option
    \<Rightarrow> JournalEntry option list \<Rightarrow> Pending option \<Rightarrow> Intent option \<Rightarrow> bool \<Rightarrow> nat \<Rightarrow> bool" where
  "pageOk S N p i h j q u halted cur \<longleftrightarrow>
     (let n = length j in
      upToAll S n \<and> entriesBelow n j \<and> (n \<in> set S \<longrightarrow> covers q n \<or> aimsAt u n) \<and>
      (u \<noteq> None \<longrightarrow> halted) \<and> pendingBelow q n \<and> (q \<noteq> None \<longrightarrow> p = q) \<and> intentBelow u n \<and>
      cur \<le> n \<and> n \<le> N \<and> N \<le> Suc n \<and> (\<not> halted \<longrightarrow> h = None) \<and>
      pendingBelow p n \<and> intentBelow i n \<and> intentBelow (haltAim h) n)"

definition durableInv :: "string \<Rightarrow> string \<Rightarrow> nat list \<Rightarrow> store \<Rightarrow> bool" where
  "durableInv kp kd S st \<longleftrightarrow>
     recordsOk S (storedJournal kp kd st) (storedPending kp kd st) (storedIntent kp kd st) (haltAim (storedHalt kp kd st))"

definition keysOk :: "string \<Rightarrow> string \<Rightarrow> OpState \<Rightarrow> bool" where
  "keysOk kp kd s \<longleftrightarrow> op_kHalt s = keyOf kp ''halt'' kd \<and> op_kJournal s = keyOf kp ''journal'' kd \<and>
     op_kPending s = keyOf kp ''pending'' kd \<and> op_kIntent s = keyOf kp ''intent'' kd"

definition memoryInv :: "string \<Rightarrow> string \<Rightarrow> nat list \<Rightarrow> store \<Rightarrow> OpState \<Rightarrow> bool" where
  "memoryInv kp kd S st s \<longleftrightarrow>
     keysOk kp kd s \<and>
     pageOk S (length (storedJournal kp kd st)) (storedPending kp kd st) (storedIntent kp kd st) (storedHalt kp kd st)
       (op_journal s) (op_pending s) (op_uncertainSend s) (op_halted s) (op_current s)"

definition durableOk :: "'w Env \<Rightarrow> string \<Rightarrow> string \<Rightarrow> (OpState, 'w) Machine \<Rightarrow> bool" where
  "durableOk env kp kd m \<longleftrightarrow> durableInv kp kd (liveSteps m) (mc_store m) \<and> list_all (authorizedSend env) (sends m)"

definition machineOk :: "'w Env \<Rightarrow> string \<Rightarrow> string \<Rightarrow> (OpState, 'w) Machine \<Rightarrow> bool" where
  "machineOk env kp kd m \<longleftrightarrow> durableOk env kp kd m \<and> memoryInv kp kd (liveSteps m) (mc_store m) (mc_op m)"

text \<open>After an action: the records are good, and the memory too unless the page is gone.\<close>

definition leaves :: "'w Env \<Rightarrow> string \<Rightarrow> string \<Rightarrow> 'a outcome \<Rightarrow> (OpState, 'w) Machine \<Rightarrow> bool" where
  "leaves env kp kd r m \<longleftrightarrow> durableOk env kp kd m \<and> (r \<noteq> Crashed \<longrightarrow> machineOk env kp kd m)"

definition keeps :: "'w Env \<Rightarrow> string \<Rightarrow> string \<Rightarrow> ('w, 'a) op_act \<Rightarrow> bool" where
  "keeps env kp kd x \<longleftrightarrow> (\<forall>m. machineOk env kp kd m \<longrightarrow> wp x (leaves env kp kd) m)"

lemma leaves_ok: "machineOk env kp kd m \<Longrightarrow> leaves env kp kd r m"
  by (simp add: leaves_def machineOk_def)

lemma leaves_crash: "durableOk env kp kd m \<Longrightarrow> leaves env kp kd Crashed m"
  by (simp add: leaves_def)

lemma keepsI: "(\<And>m. machineOk env kp kd m \<Longrightarrow> wp x (leaves env kp kd) m) \<Longrightarrow> keeps env kp kd x"
  by (simp add: keeps_def)

lemma keepsD: "keeps env kp kd x \<Longrightarrow> machineOk env kp kd m \<Longrightarrow> wp x (leaves env kp kd) m"
  by (simp add: keeps_def)

lemma wp_keeps:
  assumes "keeps env kp kd x" "machineOk env kp kd m"
    and "\<And>a m'. machineOk env kp kd m' \<Longrightarrow> Q (Done a) m'"
    and "\<And>e m'. machineOk env kp kd m' \<Longrightarrow> Q (Threw e) m'"
    and "\<And>m'. durableOk env kp kd m' \<Longrightarrow> Q Crashed m'"
  shows "wp x Q m"
proof (rule wp_mono [OF keepsD [OF assms(1,2)]])
  show "Q r m'" if "leaves env kp kd r m'" for r m'
    using that assms(3-5) by (cases r) (auto simp: leaves_def)
qed

text \<open>What matters of a machine is its fields, its storage and its sends.\<close>

lemma same_liveSteps: "same m m' \<Longrightarrow> liveSteps m' = liveSteps m"
  by (simp add: same_def liveSteps_def)

lemma same_machineOk: "same m m' \<Longrightarrow> machineOk env kp kd m \<Longrightarrow> machineOk env kp kd m'"
  using same_liveSteps [of m m'] by (simp add: same_def machineOk_def durableOk_def)

lemma keeps_quiet: "quiet x \<Longrightarrow> keeps env kp kd x"
  by (rule keepsI, erule wp_quiet, rule leaves_ok, erule same_machineOk)

lemma keeps_bindA: "keeps env kp kd x \<Longrightarrow> (\<And>a. keeps env kp kd (k a)) \<Longrightarrow> keeps env kp kd (bindA x k)"
  by (rule keepsI, unfold wp_bindA, rule wp_keeps, assumption, assumption) (simp_all add: keepsD leaves_ok leaves_crash)

lemma liveSteps_upd [simp]:
  "liveSteps (m\<lparr>mc_op := s\<rparr>) = liveSteps m" "liveSteps (m\<lparr>mc_store := st\<rparr>) = liveSteps m"
  "liveSteps (m\<lparr>mc_world := w\<rparr>) = liveSteps m"
  by (simp_all add: liveSteps_def sends_def)

lemma sends_upd [simp]:
  "sends (m\<lparr>mc_op := s\<rparr>) = sends m" "sends (m\<lparr>mc_store := st\<rparr>) = sends m" "sends (m\<lparr>mc_world := w\<rparr>) = sends m"
  by (simp_all add: sends_def)

section \<open>Halting keeps it\<close>

lemmas inv_defs = machineOk_def durableOk_def durableInv_def memoryInv_def keysOk_def
lemmas view_defs = recordsOk_def pageOk_def Let_def

lemma machineOk_world [simp]: "machineOk env kp kd (m\<lparr>mc_world := w\<rparr>) = machineOk env kp kd m"
  by (simp add: machineOk_def durableOk_def)

lemma durableOk_world [simp]: "durableOk env kp kd (m\<lparr>mc_world := w\<rparr>) = durableOk env kp kd m"
  by (simp add: durableOk_def)

lemma durableOk_op [simp]: "durableOk env kp kd (m\<lparr>mc_op := s\<rparr>) = durableOk env kp kd m"
  by (simp add: durableOk_def)

text \<open>The two updates of halting: the memory first, then the record, which may be lost.\<close>

lemma halted_pageOk:
  "pageOk S N p i h j q u0 hl cur \<Longrightarrow> intentBelow u (length j) \<Longrightarrow>
   (length j \<in> set S \<Longrightarrow> covers q (length j) \<or> aimsAt u (length j)) \<Longrightarrow> pageOk S N p i h j q u True cur"
  by (auto simp: view_defs)

lemma halted_recordsOk:
  assumes "recordsOk S js p i aims" "pageOk S (length js) p i h j q u True cur"
  shows "recordsOk S js p i u \<and> pageOk S (length js) p i (Some (r, u)) j q u True cur"
proof -
  have "length js \<in> set S \<Longrightarrow> length j = length js"
    using assms(2) upToAll_Suc [of S "length j"] by (auto simp: view_defs le_Suc_eq)
  with assms show ?thesis
    by (auto simp: view_defs intro: below_mono)
qed

text \<open>The memory as \<open>pageOk\<close> sees it, for chosen values of what is pending, uncertain and halted.\<close>

definition pageWith :: "string \<Rightarrow> string \<Rightarrow> (OpState, 'w) Machine \<Rightarrow> Pending option \<Rightarrow> Intent option \<Rightarrow> bool \<Rightarrow> bool" where
  "pageWith kp kd m q u halted \<longleftrightarrow>
     (let s = mc_op m; st = mc_store m in
      keysOk kp kd s \<and>
      pageOk (liveSteps m) (length (storedJournal kp kd st)) (storedPending kp kd st) (storedIntent kp kd st)
        (storedHalt kp kd st) (op_journal s) q u halted (op_current s))"

lemma machineOk_pageWith:
  "machineOk env kp kd m \<longleftrightarrow> durableOk env kp kd m \<and>
     pageWith kp kd m (op_pending (mc_op m)) (op_uncertainSend (mc_op m)) (op_halted (mc_op m))"
  by (simp add: machineOk_def memoryInv_def pageWith_def Let_def)

lemma wp_persistHalt:
  assumes durable: "durableOk env kp kd m" and page: "pageWith kp kd m (op_pending (mc_op m)) u True"
  shows "wp (persistHalt env reason u) (leaves env kp kd) m"
proof -
  let ?m = "m\<lparr>mc_op := (mc_op m)\<lparr>op_halted := True, op_haltReason := Some reason, op_uncertainSend := u\<rparr>\<rparr>"
  have 1: "machineOk env kp kd ?m"
    using durable page by (simp add: inv_defs pageWith_def Let_def)
  have 2: "machineOk env kp kd
      (?m\<lparr>mc_store := (mc_store ?m)(op_kHalt (mc_op ?m) \<mapsto> SHalt reason u), mc_world := w\<rparr>)" for w
    using 1 by (simp add: inv_defs) (metis halted_recordsOk)
  show ?thesis
    unfolding persistHalt_def
    by simp (rule wp_storageSet, use 1 2 in \<open>auto intro: leaves_ok split: outcome.split\<close>)
qed

lemma keeps_halt: "keeps env kp kd (halt env reason)"
proof (rule keepsI)
  fix m :: "(OpState, 'a) Machine" assume m: "machineOk env kp kd m"
  then have "pageWith kp kd m (op_pending (mc_op m)) (op_uncertainSend (mc_op m)) True"
    by (auto simp: machineOk_pageWith pageWith_def view_defs)
  with m have "wp (persistHalt env reason (op_uncertainSend (mc_op m))) (leaves env kp kd) m"
    by (intro wp_persistHalt) (simp_all add: machineOk_def)
  then show "wp (halt env reason) (leaves env kp kd) m"
    unfolding halt_def by simp (erule wp_mono, auto simp: leaves_def split: outcome.split)
qed

section \<open>Sending keeps it\<close>

lemma intent_write:
  assumes "recordsOk S js p i aims" "pageOk S (length js) p i h j q u hl cur"
    and "length j \<notin> set S" "intentBelow x (length j)"
  shows "recordsOk S js p x aims \<and> pageOk S (length js) p x h j q u hl cur"
proof -
  have "length js \<notin> set S"
    using assms(2,3) upToAll_Suc [of S "length j"] by (auto simp: view_defs le_Suc_eq)
  with assms show ?thesis by (auto simp: view_defs intro: below_mono)
qed

lemma pending_write:
  assumes "recordsOk S js p i None" "pageOk S (length js) p i None j q u hl cur" "pe_step x = length j"
  shows "recordsOk S js (Some x) i None"
proof -
  have "length js \<in> set S \<Longrightarrow> length js = length j"
    using assms(2) upToAll_Suc [of S "length j"] by (auto simp: view_defs le_Suc_eq)
  with assms show ?thesis by (auto simp: view_defs)
qed

lemma send_step:
  assumes "recordsOk S js p (Some x) None" "pageOk S (length js) p (Some x) None j q u hl cur"
    and "length j \<notin> set S" "in_step x = length j"
  shows "recordsOk (S @ [length j]) js p (Some x) None \<and>
    pageOk (S @ [length j]) (length js) p (Some x) None j q (Some x) True cur"
proof -
  have "length js \<notin> set S"
    using assms(2,3) upToAll_Suc [of S "length j"] by (auto simp: view_defs le_Suc_eq)
  with assms show ?thesis
    by (auto simp: view_defs upToAll_def)
qed

text \<open>
  Between the durable intent and the record of the answer: nothing is halted or pending in memory, and
  the state is one that halting with this intent makes good.
\<close>

definition inFlight :: "'w Env \<Rightarrow> string \<Rightarrow> string \<Rightarrow> Intent \<Rightarrow> (OpState, 'w) Machine \<Rightarrow> bool" where
  "inFlight env kp kd x m \<longleftrightarrow>
     durableOk env kp kd m \<and> pageWith kp kd m None (Some x) True \<and> storedHalt kp kd (mc_store m) = None \<and>
     op_pending (mc_op m) = None \<and> op_uncertainSend (mc_op m) = None \<and> \<not> op_halted (mc_op m) \<and>
     in_step x = length (op_journal (mc_op m)) \<and> op_current (mc_op m) = length (op_journal (mc_op m))"

lemma inFlight_world [simp]: "inFlight env kp kd x (m\<lparr>mc_world := w\<rparr>) = inFlight env kp kd x m"
  by (simp add: inFlight_def pageWith_def Let_def)

lemma inFlight_same: "inFlight env kp kd x m \<Longrightarrow> same m m' \<Longrightarrow> inFlight env kp kd x m'"
  using same_liveSteps [of m m'] by (auto simp: inFlight_def same_def pageWith_def Let_def durableOk_def)

lemma inFlight_halt: "inFlight env kp kd x m \<Longrightarrow> wp (persistHalt env reason (Some x)) (leaves env kp kd) m"
  by (rule wp_persistHalt) (simp_all add: inFlight_def)

lemma wp_durableAt:
  assumes "\<And>w. Q (Done False) (m\<lparr>mc_world := w\<rparr>)" "\<And>w. Q Crashed (m\<lparr>mc_world := w\<rparr>)"
    and "\<And>b w. Q (Done b) (m\<lparr>mc_store := (mc_store m)(key (mc_op m) \<mapsto> v), mc_world := w\<rparr>)"
      "\<And>w. Q Crashed (m\<lparr>mc_store := (mc_store m)(key (mc_op m) \<mapsto> v), mc_world := w\<rparr>)"
  shows "wp (durableAt env key v) Q m"
  unfolding durableAt_def by simp (rule wp_durableSet, (rule assms)+)

lemma inFlight_unsent:
  "inFlight env kp kd x m \<Longrightarrow> op_current (mc_op m) \<notin> set (liveSteps m) \<Longrightarrow> machineOk env kp kd m"
  by (auto simp: inFlight_def machineOk_pageWith pageWith_def view_defs)

text \<open>Writing the intent record, when the step at hand was not sent.\<close>

lemma intent_store:
  assumes "machineOk env kp kd m" "length (op_journal (mc_op m)) \<notin> set (liveSteps m)"
    and "intentBelow x (length (op_journal (mc_op m)))" "intentIn (Some v) = x"
  shows "machineOk env kp kd (m\<lparr>mc_store := (mc_store m)(op_kIntent (mc_op m) \<mapsto> v), mc_world := w\<rparr>)"
  using assms intent_write by (simp add: inv_defs) blast

lemma wp_clearIntent:
  assumes "machineOk env kp kd m" "length (op_journal (mc_op m)) \<notin> set (liveSteps m)"
    and "\<And>b m'. machineOk env kp kd m' \<Longrightarrow> mc_op m' = mc_op m \<Longrightarrow> liveSteps m' = liveSteps m \<Longrightarrow>
       storedHalt kp kd (mc_store m') = storedHalt kp kd (mc_store m) \<Longrightarrow> Q (Done b) m'"
    and "\<And>m'. machineOk env kp kd m' \<Longrightarrow> Q Crashed m'"
  shows "wp (durableAt env op_kIntent SNull) Q m"
proof (rule wp_durableAt)
  have keys: "op_kIntent (mc_op m) = keyOf kp ''intent'' kd" using assms(1) by (simp add: inv_defs)
  have ok: "machineOk env kp kd (m\<lparr>mc_store := (mc_store m)(op_kIntent (mc_op m) \<mapsto> SNull), mc_world := w\<rparr>)" for w
    by (rule intent_store [OF assms(1,2)]) simp_all
  show "Q (Done b) (m\<lparr>mc_store := (mc_store m)(op_kIntent (mc_op m) \<mapsto> SNull), mc_world := w\<rparr>)" for b w
    by (rule assms(3) [OF ok]) (simp_all add: keys)
  show "Q Crashed (m\<lparr>mc_store := (mc_store m)(op_kIntent (mc_op m) \<mapsto> SNull), mc_world := w\<rparr>)" for w
    by (rule assms(4) [OF ok])
qed (use assms in auto)

lemma memoryInv_intent [simp]: "memoryInv kp kd S st (s\<lparr>op_intent := x\<rparr>) = memoryInv kp kd S st s"
  by (simp add: memoryInv_def keysOk_def)

lemma machineOk_intent [simp]:
  "machineOk env kp kd (m\<lparr>mc_op := (mc_op m)\<lparr>op_intent := x\<rparr>\<rparr>) = machineOk env kp kd m"
  by (simp add: inv_defs)

text \<open>Halting as the last thing a method does.\<close>

lemma wp_haltedReturn:
  assumes "durableOk env kp kd m" "pageWith kp kd m (op_pending (mc_op m)) u True"
  shows "wp (bindA (persistHalt env reason u) (\<lambda>_. doneA y)) (leaves env kp kd) m"
  unfolding wp_bindA
  by (rule wp_mono [OF wp_persistHalt [OF assms]]) (auto simp: leaves_def split: outcome.split)

lemma machineOk_setIntent:
  "machineOk env kp kd m \<Longrightarrow> mc_op m = s \<Longrightarrow> machineOk env kp kd (m\<lparr>mc_op := s\<lparr>op_intent := x\<rparr>\<rparr>)"
  by auto

lemma wp_afterWalletError:
  assumes fl: "inFlight env kp kd x m"
    and rej: "userRejected e \<Longrightarrow> op_current (mc_op m) \<notin> set (liveSteps m)"
  shows "wp (afterWalletError env x e) (leaves env kp kd) m"
proof (cases "userRejected e")
  case False
  with fl show ?thesis
    unfolding afterWalletError_def if_not_P [OF False]
    by (intro wp_haltedReturn) (simp_all add: inFlight_def)
next
  case True
  have ok: "machineOk env kp kd m" by (rule inFlight_unsent [OF fl rej [OF True]])
  have n: "length (op_journal (mc_op m)) \<notin> set (liveSteps m)"
    using rej [OF True] fl by (simp add: inFlight_def)
  have page: "pageWith kp kd m' (op_pending (mc_op m')) (Some x) True"
    if "machineOk env kp kd m'" "mc_op m' = mc_op m" for m' :: "(OpState, 'a) Machine"
    using that fl by (auto simp: machineOk_pageWith pageWith_def inFlight_def view_defs)
  show ?thesis
    unfolding afterWalletError_def if_P [OF True]
    apply (rule wp_bindI, rule wp_clearIntent [OF ok n])
    subgoal for b m'
      by (cases b) (auto intro!: leaves_ok wp_haltedReturn page simp: machineOk_def simp del: wp_bindA
        simp: wp_bindA [of "modify _"] wp_bindA [of "gets _"])
    by (auto intro: leaves_ok)
qed

lemma wp_boundary:
  assumes "\<And>c m'. same m m' \<Longrightarrow> Q (Done c) m'" "\<And>m'. same m m' \<Longrightarrow> Q Crashed m'"
  shows "wp (if boundary then assertChain env else doneA True) Q m"
proof -
  have "wp (assertChain env) Q m"
    unfolding assertChain_def wp_catch
    by (rule wp_quiet, intro quiet_intros, simp) (auto split: outcome.split intro: assms)
  then show ?thesis using assms by simp
qed

lemma wp_afterHash:
  assumes fl: "inFlight env kp kd x m"
  shows "wp (afterHash env boundary x h) (leaves env kp kd) m"
proof -
  have halt: "wp (bindA (persistHalt env r (Some x)) (\<lambda>_. doneA y)) (leaves env kp kd) m'"
    if "inFlight env kp kd x m'" for r y and m' :: "(OpState, 'a) Machine"
    using that by (intro wp_haltedReturn) (simp_all add: inFlight_def)
  let ?p = "\<lambda>m'. \<lparr>pe_digest = op_execDigest (mc_op m'), pe_step = op_current (mc_op m'), pe_txHash = h\<rparr>"
  have stored: "inFlight env kp kd x (m'\<lparr>mc_store := (mc_store m')(op_kPending (mc_op m') \<mapsto> SPending (?p m'))\<rparr>)"
    if "inFlight env kp kd x m'" for m' :: "(OpState, 'a) Machine"
    using that by (auto simp: inFlight_def pageWith_def durableOk_def durableInv_def keysOk_def Let_def
        intro: pending_write) (auto simp: view_defs)
  have final: "machineOk env kp kd (m'\<lparr>mc_op := (mc_op m')\<lparr>op_pending := Some (?p m')\<rparr>\<rparr>)"
    if "inFlight env kp kd x m'" "storedPending kp kd (mc_store m') = Some (?p m')" for m' :: "(OpState, 'a) Machine"
    using that by (auto simp: inFlight_def pageWith_def machineOk_def memoryInv_def view_defs keysOk_def)
  have return: "wp (bindA (gets (\<lambda>s. \<lparr>pe_digest = op_execDigest s, pe_step = op_current s, pe_txHash = h\<rparr>)) (\<lambda>pending.
      bindA (durableAt env op_kPending (SPending pending)) (\<lambda>stored.
      if \<not> stored then bindA (persistHalt env r (Some x)) (\<lambda>_. doneA y)
      else bindA (modify (\<lambda>s. s\<lparr>op_pending := Some pending\<rparr>)) (\<lambda>_.
           bindA (gets op_current) (\<lambda>i. doneA (Sent i h)))))) (leaves env kp kd) m'"
    if m': "inFlight env kp kd x m'" for r y and m' :: "(OpState, 'a) Machine"
  proof (rule wp_bindI, unfold wp_gets outcome.case, rule wp_bindI, rule wp_durableAt, unfold outcome.case)
    let ?st = "m'\<lparr>mc_store := (mc_store m')(op_kPending (mc_op m') \<mapsto> SPending (?p m'))\<rparr>"
    have st: "inFlight env kp kd x ?st" by (rule stored [OF m'])
    have key: "op_kPending (mc_op m') = keyOf kp ''pending'' kd"
      using m' by (simp add: inFlight_def pageWith_def keysOk_def Let_def)
    show "leaves env kp kd Crashed (m'\<lparr>mc_world := w\<rparr>)" for w
      using m' by (simp add: leaves_def inFlight_def)
    show "leaves env kp kd Crashed (m'\<lparr>mc_store := (mc_store m')(op_kPending (mc_op m') \<mapsto> SPending (?p m')),
        mc_world := w\<rparr>)" for w
      using st by (intro leaves_crash) (simp only: inFlight_def durableOk_world)
    show "wp (if \<not> False then bindA (persistHalt env r (Some x)) (\<lambda>_. doneA y)
        else bindA (modify (\<lambda>s. s\<lparr>op_pending := Some (?p m')\<rparr>)) (\<lambda>_.
             bindA (gets op_current) (\<lambda>i. doneA (Sent i h)))) (leaves env kp kd) (m'\<lparr>mc_world := w\<rparr>)" for w
      using m' by (simp add: halt del: wp_bindA)
    show "wp (if \<not> b then bindA (persistHalt env r (Some x)) (\<lambda>_. doneA y)
        else bindA (modify (\<lambda>s. s\<lparr>op_pending := Some (?p m')\<rparr>)) (\<lambda>_.
             bindA (gets op_current) (\<lambda>i. doneA (Sent i h)))) (leaves env kp kd)
        (m'\<lparr>mc_store := (mc_store m')(op_kPending (mc_op m') \<mapsto> SPending (?p m')), mc_world := w\<rparr>)" for b w
      using final [of "?st\<lparr>mc_world := w\<rparr>"] st halt [of "?st\<lparr>mc_world := w\<rparr>" r y] key
      by (cases b) (simp_all add: leaves_ok)
  qed
  show ?thesis
    unfolding afterHash_def
    by (rule wp_bindI, rule wp_boundary)
      (use inFlight_same [OF fl] in \<open>auto intro!: halt return leaves_crash simp: inFlight_def simp del: wp_bindA\<close>)
qed

text \<open>The state in which the wallet is asked: everything ready, the intent durable.\<close>

definition armed :: "'w Env \<Rightarrow> string \<Rightarrow> string \<Rightarrow> Intent \<Rightarrow> (OpState, 'w) Machine \<Rightarrow> bool" where
  "armed env kp kd x m \<longleftrightarrow>
     machineOk env kp kd m \<and> readyState (mc_op m) \<and> mc_store m (op_kIntent (mc_op m)) = Some (SIntent x) \<and>
     Inr x = intentOf env (mc_op m) (steps (mc_op m) ! op_current (mc_op m))"

lemma intentOf_step: "Inr x = intentOf env s t \<Longrightarrow> in_step x = op_current s"
  by (auto simp: intentOf_def rbind_def split: sum.splits)

lemma armed_unsent: "armed env kp kd x m \<Longrightarrow> op_current (mc_op m) \<notin> set (liveSteps m)"
  by (auto simp: armed_def readyState_def statesReady_def machineOk_pageWith pageWith_def view_defs)

lemma armed_inFlight: "armed env kp kd x m \<Longrightarrow> inFlight env kp kd x m"
  by (auto simp: armed_def readyState_def statesReady_def machineOk_pageWith pageWith_def inFlight_def view_defs
      dest: intentOf_step)

text \<open>The request to the wallet: what is logged is authorized, and what is not rejected is one more live step.\<close>

lemma liveSteps_request:
  "liveSteps (m\<lparr>mc_world := w, mc_trace := mc_trace m @
     [\<lparr>ev_op = mc_op m, ev_store = mc_store m, ev_rpc = EthSendTransaction tx, ev_reply = a\<rparr>]\<rparr>) =
   liveSteps m @ (if rejectedReply a then [] else [op_current (mc_op m)])"
  by (simp add: liveSteps_def sends_def)

lemma request_inFlight:
  assumes "armed env kp kd x m" and tx: "buildSendTx env (steps (mc_op m) ! op_current (mc_op m)) = Inr tx"
  shows "inFlight env kp kd x (m\<lparr>mc_world := w, mc_trace := mc_trace m @
     [\<lparr>ev_op = mc_op m, ev_store = mc_store m, ev_rpc = EthSendTransaction tx, ev_reply = a\<rparr>]\<rparr>)" (is "inFlight _ _ _ _ ?m")
proof -
  have fl: "inFlight env kp kd x m" by (rule armed_inFlight [OF assms(1)])
  have new: "op_current (mc_op m) \<notin> set (liveSteps m)" by (rule armed_unsent [OF assms(1)])
  have auth: "list_all (authorizedSend env) (sends ?m)"
    using assms by (auto simp: armed_def authorizedSend_def sends_def machineOk_def durableOk_def Let_def)
  have si: "storedIntent kp kd (mc_store m) = Some x"
    using assms(1) by (auto simp: armed_def inv_defs storedIntent_def)
  have n: "op_current (mc_op m) = length (op_journal (mc_op m))" "in_step x = length (op_journal (mc_op m))"
    "storedHalt kp kd (mc_store m) = None"
    using fl by (simp_all add: inFlight_def)
  show ?thesis
  proof (cases "rejectedReply a")
    case True
    with fl auth show ?thesis
      by (auto simp: inFlight_def durableOk_def pageWith_def Let_def liveSteps_request)
  next
    case False
    let ?S = "liveSteps m"
    have "recordsOk ?S (storedJournal kp kd (mc_store m)) (storedPending kp kd (mc_store m)) (Some x) None"
      "pageOk ?S (length (storedJournal kp kd (mc_store m))) (storedPending kp kd (mc_store m)) (Some x) None
        (op_journal (mc_op m)) None (Some x) True (op_current (mc_op m))"
      using fl si n(3) by (auto simp: inFlight_def durableOk_def durableInv_def pageWith_def Let_def)
    from send_step [OF this] new n
    have "recordsOk (?S @ [op_current (mc_op m)]) (storedJournal kp kd (mc_store m))
        (storedPending kp kd (mc_store m)) (Some x) None"
      "pageOk (?S @ [op_current (mc_op m)]) (length (storedJournal kp kd (mc_store m)))
        (storedPending kp kd (mc_store m)) (Some x) None (op_journal (mc_op m)) None (Some x) True (op_current (mc_op m))"
      by simp_all
    with fl auth False si n show ?thesis
      by (auto simp: inFlight_def durableOk_def durableInv_def pageWith_def Let_def liveSteps_request)
  qed
qed

lemma not_rejected_text: "\<not> userRejected (jsError ''not a string'')"
  by code_simp

lemma wp_askWallet:
  assumes arm: "armed env kp kd x m" and t: "t = steps (mc_op m) ! op_current (mc_op m)"
    and hash: "\<And>h m'. inFlight env kp kd x m' \<Longrightarrow> Q (Done (Inr h)) m'"
    and err: "\<And>e m'. inFlight env kp kd x m' \<Longrightarrow> (userRejected e \<Longrightarrow> op_current (mc_op m') \<notin> set (liveSteps m')) \<Longrightarrow>
       Q (Done (Inl e)) m'"
    and crash: "\<And>m'. inFlight env kp kd x m' \<Longrightarrow> Q Crashed m'"
  shows "wp (askWallet env t) Q m"
proof (cases "buildSendTx env t")
  case (Inl e)
  then show ?thesis
    by (simp add: askWallet_def err armed_inFlight [OF arm] armed_unsent [OF arm])
next
  case (Inr tx)
  obtain a w where a: "en_request env (EthSendTransaction tx) (mc_world m) = (a, w)" by fastforce
  let ?m = "m\<lparr>mc_world := w, mc_trace := mc_trace m @
     [\<lparr>ev_op = mc_op m, ev_store = mc_store m, ev_rpc = EthSendTransaction tx, ev_reply = a\<rparr>]\<rparr>"
  have fl: "inFlight env kp kd x ?m"
    by (rule request_inFlight [OF arm Inr [unfolded t]])
  have unsent: "op_current (mc_op ?m) \<notin> set (liveSteps ?m)" if "rejectedReply a"
    using that armed_unsent [OF arm] by (simp add: liveSteps_request)
  have req: "wp (req env (EthSendTransaction tx)) R m = R a ?m" for R
    by (simp add: wp_def req_def a FORBIDDEN_METHODS_def)
  have noText: "Q (Done (Inl (jsError ''not a string''))) ?m"
    by (rule err [OF fl]) (simp add: not_rejected_text)
  have thrown: "Q (Done (Inl e)) ?m" if "a = Threw e" for e
    by (rule err [OF fl], rule unsent) (simp add: rejectedReply_def that)
  show ?thesis
    using hash [OF fl] noText thrown crash [OF fl]
    by (cases a) (auto simp: askWallet_def Inr reqText_def req textOf_def split: Reply.split)
qed

lemma armed_same: "armed env kp kd x m \<Longrightarrow> same m m' \<Longrightarrow> armed env kp kd x m'"
  using same_machineOk [of m m'] by (simp add: armed_def same_def)

lemma wp_invokeWallet:
  assumes ok: "machineOk env kp kd m" and ready: "readyState (mc_op m)"
    and stored: "mc_store m (op_kIntent (mc_op m)) = Some (SIntent x)"
    and t: "t = steps (mc_op m) ! op_current (mc_op m)" and x: "Inr x = intentOf env (mc_op m) t"
  shows "wp (invokeWallet env t boundary x) (leaves env kp kd) m"
  unfolding invokeWallet_def
proof (rule wp_bindI, unfold wp_modify outcome.case, rule wp_bindI, rule wp_boundary, unfold outcome.case)
  let ?m = "m\<lparr>mc_op := (mc_op m)\<lparr>op_intent := Some x\<rparr>\<rparr>"
  have okm: "machineOk env kp kd ?m" using ok by simp
  have arm: "armed env kp kd x ?m"
    unfolding armed_def using okm ready stored x t
    by (auto simp: readyState_def statesReady_def steps_def intentOf_def)
  show "leaves env kp kd Crashed m'" if "same ?m m'" for m'
    using armed_same [OF arm that] by (intro leaves_crash) (simp add: armed_def machineOk_def)
  fix c m' assume s: "same ?m m'"
  have arm': "armed env kp kd x m'" by (rule armed_same [OF arm s])
  then have ok': "machineOk env kp kd m'" by (simp add: armed_def)
  have new': "length (op_journal (mc_op m')) \<notin> set (liveSteps m')"
    using armed_unsent [OF arm'] arm' by (simp add: armed_def readyState_def)
  have t': "t = steps (mc_op m') ! op_current (mc_op m')"
    using s t by (simp add: same_def steps_def)
  have clear: "wp (bindA (durableAt env op_kIntent SNull) (\<lambda>_. bindA (modify (\<lambda>s. s\<lparr>op_intent := None\<rparr>)) (\<lambda>_. doneA y)))
      (leaves env kp kd) m'" for y :: OpResult
    by (rule wp_bindI, rule wp_clearIntent [OF ok' new']) (auto intro!: leaves_ok machineOk_setIntent)
  have ask: "wp (bindA (askWallet env t) (\<lambda>r. case r of Inl e \<Rightarrow> afterWalletError env x e
      | Inr txHash \<Rightarrow> afterHash env boundary x txHash)) (leaves env kp kd) m'"
    by (rule wp_bindI, rule wp_askWallet [OF arm' t'])
      (simp_all add: wp_afterWalletError wp_afterHash leaves_crash inFlight_def)
  from clear ask
  show "wp (if \<not> c then bindA (durableAt env op_kIntent SNull) (\<lambda>_.
        bindA (modify (\<lambda>s. s\<lparr>op_intent := None\<rparr>)) (\<lambda>_.
        doneA (Refused ''provider chain != 4663 immediately before eth_sendTransaction'')))
      else bindA (askWallet env t) (\<lambda>r.
        case r of Inl e \<Rightarrow> afterWalletError env x e | Inr txHash \<Rightarrow> afterHash env boundary x txHash)) (leaves env kp kd) m'"
    by (cases c) (simp_all del: wp_bindA)
qed

text \<open>The intent record, written and read back, then the wallet.\<close>

lemma wp_storeIntent:
  assumes ok: "machineOk env kp kd m" and ready: "readyState (mc_op m)"
    and t: "t = steps (mc_op m) ! op_current (mc_op m)" and x: "Inr x = intentOf env (mc_op m) t"
  shows "wp (bindA (durableAt env op_kIntent (SIntent x)) (\<lambda>stored.
     if \<not> stored then doneA y else invokeWallet env t boundary x)) (leaves env kp kd) m"
proof (rule wp_bindI, rule wp_durableAt, unfold outcome.case)
  let ?st = "\<lambda>w. m\<lparr>mc_store := (mc_store m)(op_kIntent (mc_op m) \<mapsto> SIntent x), mc_world := w\<rparr>"
  have new: "length (op_journal (mc_op m)) \<notin> set (liveSteps m)"
    using ok ready by (auto simp: readyState_def statesReady_def inv_defs view_defs)
  have st: "machineOk env kp kd (?st w)" for w
    by (rule intent_store [OF ok new])
      (use intentOf_step [OF x] ready in \<open>simp_all add: readyState_def\<close>)
  show "wp (if \<not> False then doneA y else invokeWallet env t boundary x) (leaves env kp kd) (m\<lparr>mc_world := w\<rparr>)" for w
    using ok by (simp add: leaves_ok)
  show "leaves env kp kd Crashed (m\<lparr>mc_world := w\<rparr>)" for w
    using ok by (simp add: leaves_ok)
  show "leaves env kp kd Crashed (?st w)" for w
    by (rule leaves_ok [OF st])
  have "wp (invokeWallet env t boundary x) (leaves env kp kd) (?st w)" for w
    by (rule wp_invokeWallet [OF st]) (use ready t x in simp_all)
  then show "wp (if \<not> b then doneA y else invokeWallet env t boundary x) (leaves env kp kd) (?st w)" for b w
    using leaves_ok [OF st] by (cases b) simp_all
qed

lemma readyState_same: "readyState (mc_op m) \<Longrightarrow> same m m' \<Longrightarrow> readyState (mc_op m')"
  by (simp add: same_def)

lemma wp_stepAt: "i < length (steps (mc_op m)) \<Longrightarrow> wp (bindA (stepAt i) k) Q m = wp (k (steps (mc_op m) ! i)) Q m"
  by (simp add: stepAt_def)

lemma wp_dispatch:
  assumes ok: "machineOk env kp kd m" and ready: "readyState (mc_op m)"
  shows "wp (dispatch env) (leaves env kp kd) m"
proof -
  let ?t = "steps (mc_op m) ! op_current (mc_op m)"
  have lt: "op_current (mc_op m) < length (steps (mc_op m))" using ready by (simp add: readyState_def)
  have go: "wp (bindA (lift (intentOf env (mc_op m) ?t)) (\<lambda>intent.
     bindA (durableAt env op_kIntent (SIntent intent)) (\<lambda>stored.
     if \<not> stored then doneA y else invokeWallet env ?t boundary intent))) (leaves env kp kd) m'"
    if "same m m'" for m' y boundary
    using that same_machineOk [OF that ok] readyState_same [OF ready that]
    by (cases "intentOf env (mc_op m) ?t")
      (auto intro!: wp_storeIntent leaves_ok simp: same_def simp del: wp_bindA simp: wp_bindA [of "lift _"])
  show ?thesis
    unfolding dispatch_def
    apply (rule wp_bindI, unfold wp_gets outcome.case wp_stepAt [OF lt])
    apply (rule wp_bindI, rule wp_boundary, unfold outcome.case)
    subgoal for c m'
      using go same_machineOk [OF _ ok] by (cases c) (auto intro: leaves_ok simp del: wp_bindA)
    using same_machineOk [OF _ ok] by (auto intro: leaves_ok)
qed

section \<open>The other methods keep it\<close>

text \<open>What \<open>sendCurrent\<close> relies on of the gate it calls.\<close>

definition gateOk :: "('w, OpResult) op_act \<Rightarrow> bool" where
  "gateOk pre \<longleftrightarrow> (\<forall>m. wp pre (\<lambda>r m'. case r of
     Done p \<Rightarrow> isOk p \<longrightarrow> same m m' \<and> readyState (mc_op m) | _ \<Rightarrow> True) m)"

lemma keeps_sendCurrent:
  assumes "keeps env kp kd pre" and "gateOk pre"
  shows "keeps env kp kd (sendCurrent env pre)"
proof (rule keepsI)
  fix m :: "(OpState, 'a) Machine" assume ok: "machineOk env kp kd m"
  have gate: "wp pre (\<lambda>r m'. leaves env kp kd r m' \<and>
      (case r of Done p \<Rightarrow> isOk p \<longrightarrow> same m m' \<and> readyState (mc_op m) | _ \<Rightarrow> True)) m"
    using keepsD [OF assms(1) ok] assms(2) by (simp add: wp_conj gateOk_def)
  have "wp (bindA pre (\<lambda>p. if \<not> isOk p then doneA p else dispatch env)) (leaves env kp kd) m"
    apply (rule wp_bindI, rule wp_mono [OF gate])
    subgoal for r m'
      using wp_dispatch [of env kp kd m'] same_machineOk [OF _ ok, of m'] readyState_same [of m m']
      by (cases r) (auto simp: leaves_def)
    done
  then show "wp (sendCurrent env pre) (leaves env kp kd) m"
    unfolding sendCurrent_def using ok
    by (auto intro: leaves_ok simp: wp_bindA [of "gets _"] simp del: wp_bindA)
qed

lemma pageOk_current:
  "pageOk S N p i h j q u hl cur \<Longrightarrow> cur' = cur \<or> cur' = length j \<Longrightarrow> pageOk S N p i h j q u hl cur'"
  by (auto simp: pageOk_def Let_def)

lemma keeps_modify:
  assumes "\<And>s. op_kHalt (f s) = op_kHalt s" "\<And>s. op_kJournal (f s) = op_kJournal s"
    "\<And>s. op_kPending (f s) = op_kPending s" "\<And>s. op_kIntent (f s) = op_kIntent s"
    "\<And>s. op_journal (f s) = op_journal s" "\<And>s. op_pending (f s) = op_pending s"
    "\<And>s. op_uncertainSend (f s) = op_uncertainSend s" "\<And>s. op_halted (f s) = op_halted s"
    "\<And>s. op_current (f s) = op_current s \<or> op_current (f s) = length (op_journal s)"
  shows "keeps env kp kd (modify f)"
proof (rule keepsI)
  fix m :: "(OpState, 'a) Machine" assume ok: "machineOk env kp kd m"
  have "machineOk env kp kd (m\<lparr>mc_op := f (mc_op m)\<rparr>)"
    using ok pageOk_current [OF _ assms(9) [of "mc_op m"]] by (simp add: inv_defs assms(1-8))
  then show "wp (modify f) (leaves env kp kd) m" by (simp add: leaves_ok)
qed

named_theorems keeps_intros \<open>actions that keep the invariant\<close>

lemmas [keeps_intros] = keeps_halt keeps_bindA

lemma keeps_if [keeps_intros]: "keeps env kp kd x \<Longrightarrow> keeps env kp kd y \<Longrightarrow> keeps env kp kd (if b then x else y)"
  by simp

lemma keeps_option [keeps_intros]:
  "keeps env kp kd x \<Longrightarrow> (\<And>a. keeps env kp kd (y a)) \<Longrightarrow> keeps env kp kd (case z of None \<Rightarrow> x | Some a \<Rightarrow> y a)"
  by (cases z) simp_all

lemma keeps_let [keeps_intros]: "(\<And>x. keeps env kp kd (f x)) \<Longrightarrow> keeps env kp kd (let x = v in f x)"
  by simp

lemma keeps_simple [keeps_intros]: "keeps env kp kd (doneA a)" "keeps env kp kd (throw e)" "keeps env kp kd (lift r)"
  "keeps env kp kd (gets f)" "keeps env kp kd (stepAt i)" "keeps env kp kd runtime"
  "keeps env kp kd (reqTx env h)" "keeps env kp kd (verifyTxAndReceipt env t h)"
  "keeps env kp kd (cumulativeCheckpoint env i rc)"
  by (intro keeps_quiet quiet_intros)+

lemma keeps_markConnected: "keeps env kp kd (markConnected env)"
  unfolding markConnected_def
  by (intro keeps_intros keeps_modify keeps_quiet [OF quiet_reqQuantity] keeps_quiet [OF quiet_req]) simp_all

lemma keeps_applyBinding: "keeps env kp kd (applyBinding env what checks rt)"
  unfolding applyBinding_def
  by (intro keeps_intros keeps_modify) simp_all

subsection \<open>Journalling\<close>

lemma journal_append:
  assumes "recordsOk S js p i (haltAim h)" "pageOk S (length js) p i h j q u False cur" "je_step e = cur"
  shows "recordsOk S (j @ [Some e]) p i (haltAim h) \<and>
    pageOk S (length (j @ [Some e])) p i h j q u False cur \<and>
    pageOk S (length (j @ [Some e])) p i h (j @ [Some e]) q u False cur \<and> length (j @ [Some e]) \<notin> set S"
proof -
  have "entriesBelow (Suc (length j)) (j @ [Some e])"
    using assms(2,3) entriesBelow_mono [of "length j" j "Suc (length j)"]
    by (auto simp: view_defs entriesBelow_def)
  with assms upToAll_Suc [of S "length j"] upToAll_mono [of S "length j" "Suc (length j)"]
  show ?thesis
    by (auto simp: view_defs intro: below_mono)
qed

lemma pending_clear:
  assumes "recordsOk S js p i (haltAim h)" "pageOk S (length js) p i h j q u False cur" "length j \<notin> set S"
  shows "recordsOk S js None i (haltAim h) \<and> pageOk S (length js) None i h j None u False cur \<and>
    pageOk S (length js) p i h j None u False cur"
proof -
  have "length js \<notin> set S"
    using assms(2,3) upToAll_Suc [of S "length j"] by (auto simp: view_defs le_Suc_eq)
  with assms show ?thesis by (auto simp: view_defs)
qed

lemma wp_clearPending:
  assumes ok: "machineOk env kp kd m" and run: "\<not> op_halted (mc_op m)"
    and new: "length (op_journal (mc_op m)) \<notin> set (liveSteps m)"
    and go: "\<And>b m'. machineOk env kp kd (m'\<lparr>mc_op := (mc_op m)\<lparr>op_pending := None\<rparr>\<rparr>) \<Longrightarrow> mc_op m' = mc_op m \<Longrightarrow>
       liveSteps m' = liveSteps m \<Longrightarrow> Q (Done b) m'"
    and crash: "\<And>m'. durableOk env kp kd m' \<Longrightarrow> Q Crashed m'"
  shows "wp (durableAt env op_kPending SNull) Q m"
proof (rule wp_durableAt)
  let ?m = "\<lambda>w. m\<lparr>mc_store := (mc_store m)(op_kPending (mc_op m) \<mapsto> SNull), mc_world := w\<rparr>"
  have view: "recordsOk (liveSteps m) (storedJournal kp kd (mc_store m)) (storedPending kp kd (mc_store m))
      (storedIntent kp kd (mc_store m)) (haltAim (storedHalt kp kd (mc_store m)))"
    "pageOk (liveSteps m) (length (storedJournal kp kd (mc_store m))) (storedPending kp kd (mc_store m))
      (storedIntent kp kd (mc_store m)) (storedHalt kp kd (mc_store m)) (op_journal (mc_op m)) (op_pending (mc_op m))
      (op_uncertainSend (mc_op m)) False (op_current (mc_op m))"
    using ok run by (simp_all add: inv_defs)
  note cleared = pending_clear [OF view new]
  have 1: "machineOk env kp kd (m\<lparr>mc_world := w, mc_op := (mc_op m)\<lparr>op_pending := None\<rparr>\<rparr>)" for w
    using ok run cleared by (simp add: inv_defs)
  have 2: "durableOk env kp kd (?m w)" "machineOk env kp kd ((?m w)\<lparr>mc_op := (mc_op m)\<lparr>op_pending := None\<rparr>\<rparr>)" for w
    using ok run cleared by (simp_all add: inv_defs)
  show "Q (Done False) (m\<lparr>mc_world := w\<rparr>)" for w by (rule go) (use 1 in simp_all)
  show "Q Crashed (m\<lparr>mc_world := w\<rparr>)" for w using crash ok by (simp add: machineOk_def)
  show "Q (Done b) (?m w)" for b w by (rule go [OF 2(2)]) simp_all
  show "Q Crashed (?m w)" for w by (rule crash [OF 2(1)])
qed

lemma machineOk_current:
  assumes "machineOk env kp kd m" "mc_op m = s" "cur \<le> length (op_journal s)"
  shows "machineOk env kp kd (m\<lparr>mc_op := s\<lparr>op_intent := x, op_current := cur\<rparr>\<rparr>)"
  using assms by (auto simp: inv_defs pageOk_def Let_def)

lemma wp_finishStep:
  assumes ok: "machineOk env kp kd m" and run: "\<not> op_halted (mc_op m)"
    and new: "length (op_journal (mc_op m)) \<notin> set (liveSteps m)"
    and cur: "Suc (op_current (mc_op m)) \<le> length (op_journal (mc_op m))"
  shows "wp (finishStep env i txHash values) (leaves env kp kd) m"
  unfolding finishStep_def
proof (rule wp_bindI, rule wp_clearPending [OF ok run new])
  fix b and m' :: "(OpState, 'a) Machine"
  let ?m = "m'\<lparr>mc_op := (mc_op m)\<lparr>op_pending := None\<rparr>\<rparr>"
  assume m': "machineOk env kp kd ?m" "mc_op m' = mc_op m" "liveSteps m' = liveSteps m"
  have new': "length (op_journal (mc_op ?m)) \<notin> set (liveSteps ?m)" using m' new by simp
  have "wp (bindA (durableAt env op_kIntent SNull) (\<lambda>_.
     bindA (modify (\<lambda>s. s\<lparr>op_intent := None, op_current := op_current s + 1\<rparr>)) (\<lambda>_.
     bindA (gets (\<lambda>s. length (steps s) \<le> op_current s)) (\<lambda>finished.
     doneA (StepVerified i txHash values finished))))) (leaves env kp kd) ?m"
    by (rule wp_bindI, rule wp_clearIntent [OF m'(1) new'])
      (use cur in \<open>auto intro!: leaves_ok machineOk_current\<close>)
  then show "case Done b of Done a \<Rightarrow> wp (bindA (modify (\<lambda>s. s\<lparr>op_pending := None\<rparr>)) (\<lambda>_.
     bindA (durableAt env op_kIntent SNull) (\<lambda>_.
     bindA (modify (\<lambda>s. s\<lparr>op_intent := None, op_current := op_current s + 1\<rparr>)) (\<lambda>_.
     bindA (gets (\<lambda>s. length (steps s) \<le> op_current s)) (\<lambda>finished.
     doneA (StepVerified i txHash values finished)))))) (leaves env kp kd) m'
     | Threw e \<Rightarrow> leaves env kp kd (Threw e) m' | Crashed \<Rightarrow> leaves env kp kd Crashed m'"
    unfolding outcome.case wp_bindA [of "modify _"] wp_modify m'(2) .
qed (simp add: leaves_crash)

lemma wp_journalStep:
  assumes ok: "machineOk env kp kd m" and run: "\<not> op_halted (mc_op m)" and i: "i = op_current (mc_op m)"
  shows "wp (journalStep env i txHash values) (leaves env kp kd) m"
  unfolding journalStep_def
proof (rule wp_bindI, unfold wp_gets outcome.case, rule wp_bindI, rule wp_durableAt, unfold outcome.case)
  let ?e = "journalEntry (mc_op m) i txHash"
  let ?j = "op_journal (mc_op m) @ [Some ?e]"
  let ?st = "\<lambda>w. m\<lparr>mc_store := (mc_store m)(op_kJournal (mc_op m) \<mapsto> SJournal ?j), mc_world := w\<rparr>"
  have "je_step ?e = op_current (mc_op m)" by (simp add: journalEntry_def i)
  note app = journal_append [OF _ _ this, where S = "liveSteps m" and j = "op_journal (mc_op m)"]
  have 1: "machineOk env kp kd (?st w)" for w
    using ok run app by (fastforce simp: inv_defs)
  have 2: "machineOk env kp kd ((?st w)\<lparr>mc_op := (mc_op m)\<lparr>op_journal := ?j\<rparr>\<rparr>)" "length ?j \<notin> set (liveSteps m)" for w
    using ok run app by (fastforce simp: inv_defs)+
  have cur: "op_current (mc_op m) \<le> length (op_journal (mc_op m))"
    using ok by (simp add: inv_defs view_defs)
  have fin: "wp (finishStep env i txHash values) (leaves env kp kd) ((?st w)\<lparr>mc_op := (mc_op m)\<lparr>op_journal := ?j\<rparr>\<rparr>)" for w
    by (rule wp_finishStep [OF 2(1)]) (use run cur 2(2) in simp_all)
  show "wp (if \<not> False then doneA (Refused r) else bindA (modify (\<lambda>s. s\<lparr>op_journal := ?j\<rparr>)) (\<lambda>_. finishStep env i txHash values))
      (leaves env kp kd) (m\<lparr>mc_world := w\<rparr>)" for w r
    using ok by (simp add: leaves_ok)
  show "leaves env kp kd Crashed (m\<lparr>mc_world := w\<rparr>)" for w using ok by (simp add: leaves_ok)
  show "leaves env kp kd Crashed (?st w)" for w by (rule leaves_ok [OF 1])
  show "wp (if \<not> b then doneA (Refused r) else bindA (modify (\<lambda>s. s\<lparr>op_journal := ?j\<rparr>)) (\<lambda>_. finishStep env i txHash values))
      (leaves env kp kd) (?st w)" for b w r
    using fin leaves_ok [OF 1] by (cases b) simp_all
qed

text \<open>Actions that keep it, run from a state that only requests separate from \<open>m0\<close>.\<close>

definition keepsFrom :: "'w Env \<Rightarrow> string \<Rightarrow> string \<Rightarrow> (OpState, 'w) Machine \<Rightarrow> ('w, 'a) op_act \<Rightarrow> bool" where
  "keepsFrom env kp kd m0 x \<longleftrightarrow> machineOk env kp kd m0 \<and> fromSame m0 (leaves env kp kd) x"

lemma keepsFrom_start: "keepsFrom env kp kd m x \<Longrightarrow> wp x (leaves env kp kd) m"
  by (simp add: keepsFrom_def fromSame_start)

lemma keepsFrom_keeps: "machineOk env kp kd m0 \<Longrightarrow> keeps env kp kd x \<Longrightarrow> keepsFrom env kp kd m0 x"
  by (auto simp: keepsFrom_def fromSame_def intro: keepsD same_machineOk)

lemma keepsFrom_bind:
  "machineOk env kp kd m0 \<Longrightarrow> quiet x \<Longrightarrow> (\<And>a. keepsFrom env kp kd m0 (k a)) \<Longrightarrow> keepsFrom env kp kd m0 (bindA x k)"
  unfolding keepsFrom_def by (auto intro!: fromSame_bind leaves_ok intro: same_machineOk)

lemma keepsFrom_gets:
  "machineOk env kp kd m0 \<Longrightarrow> keepsFrom env kp kd m0 (k (f (mc_op m0))) \<Longrightarrow> keepsFrom env kp kd m0 (bindA (gets f) k)"
  by (simp add: keepsFrom_def fromSame_gets)

lemma keepsFrom_journalStep:
  assumes "machineOk env kp kd m0" "\<not> op_halted (mc_op m0)" "i = op_current (mc_op m0)"
  shows "keepsFrom env kp kd m0 (journalStep env i txHash vs)"
  unfolding keepsFrom_def fromSame_def
  by (intro conjI allI impI assms(1) wp_journalStep, erule same_machineOk)
    (use assms in \<open>auto simp: same_def\<close>)

lemma keepsFrom_cases:
  "(\<And>r. keepsFrom env kp kd m0 (f1 r)) \<Longrightarrow> (\<And>a b. keepsFrom env kp kd m0 (g1 a b)) \<Longrightarrow>
    keepsFrom env kp kd m0 (case v of VFail r \<Rightarrow> f1 r | VOk a b \<Rightarrow> g1 a b)"
  "(\<And>r. keepsFrom env kp kd m0 (f2 r)) \<Longrightarrow> (\<And>a. keepsFrom env kp kd m0 (g2 a)) \<Longrightarrow>
    keepsFrom env kp kd m0 (case w of PFail r \<Rightarrow> f2 r | POk a \<Rightarrow> g2 a)"
  "keepsFrom env kp kd m0 f3 \<Longrightarrow> (\<And>a. keepsFrom env kp kd m0 (g3 a)) \<Longrightarrow>
    keepsFrom env kp kd m0 (case z of None \<Rightarrow> f3 | Some a \<Rightarrow> g3 a)"
  "keepsFrom env kp kd m0 x \<Longrightarrow> keepsFrom env kp kd m0 y \<Longrightarrow> keepsFrom env kp kd m0 (if b then x else y)"
  by (simp_all split: Verified.split Post.split option.split)

lemma keeps_verifyAfterHash: "keeps env kp kd (verifyAfterHash env txHash)"
proof (rule keepsI, rule keepsFrom_start)
  fix m :: "(OpState, 'a) Machine" assume ok: "machineOk env kp kd m"
  show "keepsFrom env kp kd m (verifyAfterHash env txHash)"
  proof (cases "op_halted (mc_op m)")
    case True
    then show ?thesis
      unfolding verifyAfterHash_def
      by (intro keepsFrom_gets ok) (simp add: keepsFrom_keeps [OF ok] keeps_simple)
  next
    case False
    note journal = keepsFrom_journalStep [OF ok False refl]
    note halt = keepsFrom_keeps [OF ok keeps_halt]
    show ?thesis
      unfolding verifyAfterHash_def Let_def
      by (intro keepsFrom_gets ok, unfold if_not_P [OF False])
        (intro keepsFrom_cases(4) halt keepsFrom_bind ok quiet_intros keepsFrom_cases journal)
  qed
qed

lemma keeps_checkJournal: "keeps env kp kd (checkJournal env k js)"
proof (induction js arbitrary: k)
  case (Cons j js)
  show ?case
    by (cases j) (auto intro!: keeps_intros Cons split: Verified.split Post.split)
qed (auto intro: keeps_intros)

lemma keeps_reconcileStart:
  "keeps env kp kd (modify (\<lambda>s. s\<lparr>op_current := length (op_journal s), op_reconciled := True\<rparr>))"
  by (rule keeps_modify) simp_all

lemma stale_clear:
  assumes "recordsOk S js p i aims" "pageOk S (length js) p i h j (Some x) u hl cur" "pe_step x < length j"
  shows "recordsOk S js None i aims \<and> pageOk S (length js) None i h j None u hl cur \<and>
    pageOk S (length js) p i h j None u hl cur"
proof -
  have "p = Some x" "\<not> covers p (length js)" using assms(2,3) by (auto simp: pageOk_def Let_def)
  with assms show ?thesis by (auto simp: view_defs)
qed

lemma keeps_dropStalePending: "keeps env kp kd (dropStalePending env)"
proof (rule keepsI)
  fix m :: "(OpState, 'a) Machine" assume ok: "machineOk env kp kd m"
  show "wp (dropStalePending env) (leaves env kp kd) m"
  proof (cases "case op_pending (mc_op m) of None \<Rightarrow> False | Some p \<Rightarrow> pe_step p < length (op_journal (mc_op m))")
    case False
    with ok show ?thesis by (simp add: dropStalePending_def leaves_ok)
  next
    case True
    then obtain x where x: "op_pending (mc_op m) = Some x" "pe_step x < length (op_journal (mc_op m))"
      by (auto split: option.splits)
    let ?m = "\<lambda>w. m\<lparr>mc_store := (mc_store m)(op_kPending (mc_op m) \<mapsto> SNull), mc_world := w\<rparr>"
    have view: "recordsOk (liveSteps m) (storedJournal kp kd (mc_store m)) (storedPending kp kd (mc_store m))
        (storedIntent kp kd (mc_store m)) (haltAim (storedHalt kp kd (mc_store m)))"
      "pageOk (liveSteps m) (length (storedJournal kp kd (mc_store m))) (storedPending kp kd (mc_store m))
        (storedIntent kp kd (mc_store m)) (storedHalt kp kd (mc_store m)) (op_journal (mc_op m)) (Some x)
        (op_uncertainSend (mc_op m)) (op_halted (mc_op m)) (op_current (mc_op m))"
      using ok x(1) by (simp_all add: inv_defs)
    note cleared = stale_clear [OF view x(2)]
    have "machineOk env kp kd (m\<lparr>mc_world := w, mc_op := (mc_op m)\<lparr>op_pending := None\<rparr>\<rparr>)"
      "durableOk env kp kd (?m w)" "machineOk env kp kd ((?m w)\<lparr>mc_op := (mc_op m)\<lparr>op_pending := None\<rparr>\<rparr>)" for w
      using ok cleared by (simp_all add: inv_defs)
    with ok True show ?thesis
      unfolding dropStalePending_def
      by simp (rule wp_durableAt, auto intro: leaves_ok leaves_crash)
  qed
qed

lemma keeps_setReconciled: "keeps env kp kd (modify (\<lambda>s. s\<lparr>op_reconciled := b\<rparr>))"
  by (rule keeps_modify) simp_all

lemma keeps_resumePending: "keeps env kp kd (resumePending env)"
  unfolding resumePending_def
  by (intro keeps_intros keeps_dropStalePending keeps_verifyAfterHash keeps_setReconciled)

lemma keeps_reconcile: "keeps env kp kd (reconcile env)"
  unfolding reconcile_def
  by (intro keeps_intros keeps_checkJournal keeps_reconcileStart keeps_resumePending)

subsection \<open>Resolving\<close>

lemma entriesBelow_putAt:
  assumes "entriesBelow n js" "n = length js" "i \<le> n" "je_step e = i"
  shows "entriesBelow (length (putAt i e js)) (putAt i e js)"
  using assms
  by (auto simp: entriesBelow_def putAt_def list_all_iff split: option.splits
      dest: set_update_subset_insert [THEN subsetD])

lemma length_putAt: "i \<le> length js \<Longrightarrow> length (putAt i e js) = (if i = length js then Suc (length js) else length js)"
  by (auto simp: putAt_def)

lemma resolve_put:
  assumes "recordsOk S js p i (haltAim h)" "pageOk S (length js) p i h j q (Some x) hl cur" "je_step e = in_step x"
  defines "j' \<equiv> putAt (in_step x) e j"
  shows "recordsOk S j' p i (haltAim h) \<and> pageOk S (length j') p i h j q (Some x) hl cur \<and>
    pageOk S (length j') p i h j' q (Some x) hl cur \<and> (length j' \<in> set S \<longrightarrow> covers q (length j'))"
proof -
  have x: "in_step x \<le> length j" using assms(2) by (simp add: view_defs)
  have e: "entriesBelow (length j') j'"
    unfolding j'_def by (rule entriesBelow_putAt [OF _ refl x]) (use assms in \<open>auto simp: view_defs\<close>)
  have len: "length j' = (if in_step x = length j then Suc (length j) else length j)"
    unfolding j'_def by (rule length_putAt [OF x])
  show ?thesis
  proof (cases "in_step x = length j")
    case True
    with assms(1,2) e len upToAll_Suc [of S "length j"] upToAll_mono [of S "length j" "Suc (length j)"] show ?thesis
      by (auto simp: view_defs intro: below_mono)
  next
    case False
    with assms(1,2) e len show ?thesis
      by (auto simp: view_defs)
  qed
qed

text \<open>Resolved: the journal is durable, and a pending record covers what it does not hold.\<close>

definition resolved :: "'w Env \<Rightarrow> string \<Rightarrow> string \<Rightarrow> (OpState, 'w) Machine \<Rightarrow> bool" where
  "resolved env kp kd m \<longleftrightarrow> machineOk env kp kd m \<and>
     length (storedJournal kp kd (mc_store m)) = length (op_journal (mc_op m)) \<and>
     (length (op_journal (mc_op m)) \<in> set (liveSteps m) \<longrightarrow> covers (op_pending (mc_op m)) (length (op_journal (mc_op m)))) \<and>
     op_halted (mc_op m)"

lemma resolved_world [simp]: "resolved env kp kd (m\<lparr>mc_world := w\<rparr>) = resolved env kp kd m"
  by (simp add: resolved_def)

lemma resolved_view:
  assumes "recordsOk S js p i (haltAim h)" "pageOk S (length js) p i h j q u True cur" "length js = length j"
    "length j \<in> set S \<longrightarrow> covers q (length j)"
  shows "recordsOk S js p None (haltAim h) \<and> pageOk S (length js) p None h j q u True cur \<and>
    recordsOk S js p i None \<and> pageOk S (length js) p i None j q u True cur"
proof -
  have "covers q n \<Longrightarrow> p = q" for n using assms(2) by (cases q) (auto simp: pageOk_def Let_def)
  with assms show ?thesis by (auto simp: view_defs)
qed

lemma resolved_clear:
  assumes "resolved env kp kd m"
  shows "resolved env kp kd (m\<lparr>mc_store := (mc_store m)(op_kIntent (mc_op m) \<mapsto> SNull)\<rparr>)"
    and "resolved env kp kd (m\<lparr>mc_store := (mc_store m)(op_kHalt (mc_op m) \<mapsto> SNull)\<rparr>)"
proof -
  have "recordsOk (liveSteps m) (storedJournal kp kd (mc_store m)) (storedPending kp kd (mc_store m))
      (storedIntent kp kd (mc_store m)) (haltAim (storedHalt kp kd (mc_store m)))"
    "pageOk (liveSteps m) (length (storedJournal kp kd (mc_store m))) (storedPending kp kd (mc_store m))
      (storedIntent kp kd (mc_store m)) (storedHalt kp kd (mc_store m)) (op_journal (mc_op m)) (op_pending (mc_op m))
      (op_uncertainSend (mc_op m)) True (op_current (mc_op m))"
    "length (storedJournal kp kd (mc_store m)) = length (op_journal (mc_op m))"
    "length (op_journal (mc_op m)) \<in> set (liveSteps m) \<longrightarrow> covers (op_pending (mc_op m)) (length (op_journal (mc_op m)))"
    using assms by (auto simp: resolved_def inv_defs)
  note cleared = resolved_view [OF this]
  show "resolved env kp kd (m\<lparr>mc_store := (mc_store m)(op_kIntent (mc_op m) \<mapsto> SNull)\<rparr>)"
    and "resolved env kp kd (m\<lparr>mc_store := (mc_store m)(op_kHalt (mc_op m) \<mapsto> SNull)\<rparr>)"
    using assms cleared by (simp_all add: resolved_def inv_defs)
qed

lemma resolved_run:
  assumes "resolved env kp kd m" "storedHalt kp kd (mc_store m) = None"
  shows "machineOk env kp kd (m\<lparr>mc_op := (mc_op m)\<lparr>op_uncertainSend := None, op_intent := None, op_halted := False,
     op_haltReason := None, op_current := length (op_journal (mc_op m))\<rparr>\<rparr>)"
  using assms by (auto simp: resolved_def inv_defs view_defs)

lemma resolved_leaves: "resolved env kp kd m \<Longrightarrow> leaves env kp kd r m"
  by (simp add: resolved_def leaves_ok)

lemma wp_clearUncertain:
  assumes res: "resolved env kp kd m"
  shows "wp (clearUncertain env i) (leaves env kp kd) m"
proof -
  have halt: "wp (bindA (durableAt env op_kHalt SNull) (\<lambda>clearedHalt.
     if \<not> ci \<or> \<not> clearedHalt then doneA y
     else bindA (modify (\<lambda>s. s\<lparr>op_uncertainSend := None, op_intent := None, op_halted := False,
            op_haltReason := None, op_current := length (op_journal s)\<rparr>)) (\<lambda>_. doneA z))) (leaves env kp kd) m'"
    if "resolved env kp kd m'" for m' ci y z
  proof -
    let ?m = "\<lambda>w. m'\<lparr>mc_store := (mc_store m')(op_kHalt (mc_op m') \<mapsto> SNull), mc_world := w\<rparr>"
    have st: "resolved env kp kd (?m w)" for w
      using resolved_clear(2) [OF that] by (simp add: resolved_def)
    have "op_kHalt (mc_op m') = keyOf kp ''halt'' kd" using that by (simp add: resolved_def inv_defs)
    then have run: "machineOk env kp kd ((?m w)\<lparr>mc_op := (mc_op m')\<lparr>op_uncertainSend := None, op_intent := None,
       op_halted := False, op_haltReason := None, op_current := length (op_journal (mc_op m'))\<rparr>\<rparr>)" for w
      using resolved_run [OF st [of w]] by simp
    show ?thesis
      by (rule wp_bindI, rule wp_durableAt) (use that st run in \<open>auto intro: leaves_ok resolved_leaves\<close>)
  qed
  let ?m = "\<lambda>w. m\<lparr>mc_store := (mc_store m)(op_kIntent (mc_op m) \<mapsto> SNull), mc_world := w\<rparr>"
  have st: "resolved env kp kd (?m w)" for w
    using resolved_clear(1) [OF res] by (simp add: resolved_def)
  show ?thesis
    unfolding clearUncertain_def
    by (rule wp_bindI, rule wp_durableAt, unfold outcome.case)
      (rule halt resolved_leaves, use res st in simp)+
qed

lemma wp_adoptJournal:
  assumes ok: "machineOk env kp kd m" and u: "op_uncertainSend (mc_op m) = Some x" and e: "je_step e = in_step x"
  shows "wp (bindA (durableAt env op_kJournal (SJournal (putAt (in_step x) e (op_journal (mc_op m))))) (\<lambda>stored.
     if \<not> stored then doneA y
     else bindA (modify (\<lambda>s. s\<lparr>op_journal := putAt (in_step x) e (op_journal (mc_op m))\<rparr>)) (\<lambda>_. clearUncertain env i)))
    (leaves env kp kd) m"
proof -
  let ?j = "putAt (in_step x) e (op_journal (mc_op m))"
  let ?m = "\<lambda>w. m\<lparr>mc_store := (mc_store m)(op_kJournal (mc_op m) \<mapsto> SJournal ?j), mc_world := w\<rparr>"
  have "recordsOk (liveSteps m) (storedJournal kp kd (mc_store m)) (storedPending kp kd (mc_store m))
      (storedIntent kp kd (mc_store m)) (haltAim (storedHalt kp kd (mc_store m)))"
    "pageOk (liveSteps m) (length (storedJournal kp kd (mc_store m))) (storedPending kp kd (mc_store m))
      (storedIntent kp kd (mc_store m)) (storedHalt kp kd (mc_store m)) (op_journal (mc_op m)) (op_pending (mc_op m))
      (Some x) (op_halted (mc_op m)) (op_current (mc_op m))"
    using ok u by (simp_all add: inv_defs)
  note put = resolve_put [OF this e]
  have halted: "op_halted (mc_op m)" using ok u by (simp add: inv_defs pageOk_def Let_def)
  have st: "machineOk env kp kd (?m w)" for w
    using ok put u by (simp add: inv_defs)
  have res: "resolved env kp kd ((?m w)\<lparr>mc_op := (mc_op m)\<lparr>op_journal := ?j\<rparr>\<rparr>)" for w
    using ok put u halted by (simp add: resolved_def inv_defs)
  have clear: "wp (clearUncertain env i) (leaves env kp kd) ((?m w)\<lparr>mc_op := (mc_op m)\<lparr>op_journal := ?j\<rparr>\<rparr>)" for w
    by (rule wp_clearUncertain [OF res])
  show ?thesis
    by (rule wp_bindI, rule wp_durableAt) (use ok st clear in \<open>auto intro: leaves_ok\<close>)
qed

lemma keeps_resolveUncertainSend: "keeps env kp kd (resolveUncertainSend env txHash)"
proof (rule keepsI, rule keepsFrom_start)
  fix m :: "(OpState, 'a) Machine" assume ok: "machineOk env kp kd m"
  have adopt: "keepsFrom env kp kd m (bindA (durableAt env op_kJournal (SJournal (putAt (in_step x)
       (journalEntry (mc_op m) (in_step x) txHash) (op_journal (mc_op m))))) (\<lambda>stored.
     if \<not> stored then doneA y
     else bindA (modify (\<lambda>s. s\<lparr>op_journal := putAt (in_step x) (journalEntry (mc_op m) (in_step x) txHash)
       (op_journal (mc_op m))\<rparr>)) (\<lambda>_. clearUncertain env (in_step x))))"
    if "op_uncertainSend (mc_op m) = Some x" for x y
    unfolding keepsFrom_def fromSame_def
  proof (intro conjI allI impI ok)
    fix m' assume s: "same m m'"
    then have eq: "mc_op m' = mc_op m" by (simp add: same_def)
    have "je_step (journalEntry (mc_op m) (in_step x) txHash) = in_step x" by (simp add: journalEntry_def)
    with that show "wp (bindA (durableAt env op_kJournal (SJournal (putAt (in_step x)
       (journalEntry (mc_op m) (in_step x) txHash) (op_journal (mc_op m))))) (\<lambda>stored.
     if \<not> stored then doneA y
     else bindA (modify (\<lambda>s. s\<lparr>op_journal := putAt (in_step x) (journalEntry (mc_op m) (in_step x) txHash)
       (op_journal (mc_op m))\<rparr>)) (\<lambda>_. clearUncertain env (in_step x)))) (leaves env kp kd) m'"
      by (rule wp_adoptJournal [OF same_machineOk [OF s ok], unfolded eq])
  qed
  show "keepsFrom env kp kd m (resolveUncertainSend env txHash)"
  proof (cases "op_uncertainSend (mc_op m)")
    case None
    then show ?thesis
      unfolding resolveUncertainSend_def
      by (intro keepsFrom_gets ok) (simp add: keepsFrom_keeps [OF ok] keeps_simple)
  next
    case (Some x)
    show ?thesis
      unfolding resolveUncertainSend_def Let_def
      by (intro keepsFrom_gets ok, unfold Some option.case)
        (intro keepsFrom_bind ok quiet_intros keepsFrom_cases keepsFrom_keeps [OF ok keeps_simple(1)] adopt [OF Some])
  qed
qed

section \<open>The gate of the base operator\<close>

lemma quiet_gateParts:
  "quiet (exposureGate env rt)" "quiet (dependenciesUnchanged env dep ds)" "quiet (notExpired env rt)"
  "quiet (predictedCreateEmpty env t)" "quiet (reqBlock env)" "quiet (simulates env t)"
  "quiet (estimateWithinLimit env t)"
proof -
  have price: "quiet (priceRequest p)" for p
    by (auto simp: quiet_def wp_def priceRequest_def same_def split: prod.split)
  show "quiet (exposureGate env rt)"
    unfolding exposureGate_def by (intro quiet_intros price)
  show "quiet (dependenciesUnchanged env dep ds)"
    by (induction ds arbitrary: dep) (auto intro!: quiet_intros)
  show "quiet (notExpired env rt)"
    by (simp add: quiet_def wp_def notExpired_def)
  show "quiet (predictedCreateEmpty env t)" "quiet (reqBlock env)" "quiet (simulates env t)"
    "quiet (estimateWithinLimit env t)"
    unfolding predictedCreateEmpty_def reqBlock_def simulates_def estimateWithinLimit_def
    by (auto intro!: quiet_intros split: Reply.split)
qed

lemma quiet_gates [quiet_intros]: "quiet (gates env rt i t)"
  unfolding gates_def by (intro quiet_intros quiet_gateParts) simp_all

lemma keeps_preconditions: "keeps env kp kd (preconditions env)"
  unfolding preconditions_def
  by (intro keeps_intros keeps_quiet [OF quiet_gates])

text \<open>The gates see the journal of the state they run in.\<close>

lemma gates_journal:
  "wp (gates env rt i t) (\<lambda>r m'. case r of
     Done g \<Rightarrow> same m m' \<and> (list_all snd g \<longrightarrow> length (op_journal (mc_op m)) = i) | _ \<Rightarrow> True) m"
  by (rule fromSame_start)
    (unfold gates_def, intro fromSame_gets fromSame_bind fromSame_doneA quiet_gateParts quiet_intros, simp_all)

lemma wp_runtime:
  "wp (bindA runtime k) Q m = (case op_runtime (mc_op m) of
     None \<Rightarrow> Q (Threw (jsError ''Cannot read properties of null'')) m | Some rt \<Rightarrow> wp (k rt) Q m)"
  by (simp add: runtime_def split: option.split)

lemma gateOk_preconditions: "gateOk (preconditions env)"
  unfolding gateOk_def
proof
  fix m :: "(OpState, 'a) Machine"
  let ?s = "mc_op m" let ?t = "steps (mc_op m) ! op_current (mc_op m)"
  let ?Q = "\<lambda>r m'. case r of Done p \<Rightarrow> isOk p \<longrightarrow> same m m' \<and> readyState (mc_op m) | _ \<Rightarrow> True"
  have gated: "wp (bindA (gates env rt (op_current ?s) ?t) (\<lambda>g.
       if \<not> list_all snd g then halt env (reason g)
       else bindA (lift (buildSendTx env ?t)) (\<lambda>tx. doneA (PreOk (op_current ?s) g tx)))) ?Q m"
    if "statesReady ?s" "op_pending ?s = None" "op_current ?s < length (steps ?s)" for rt reason
  proof (rule wp_bindI, rule wp_mono [OF gates_journal])
    fix r :: "(string \<times> bool) list outcome" and m' :: "(OpState, 'a) Machine"
    assume g: "case r of Done g \<Rightarrow> same m m' \<and> (list_all snd g \<longrightarrow> length (op_journal ?s) = op_current ?s) | _ \<Rightarrow> True"
    have "wp (halt env x) ?Q m'" for x
      by (rule wpI) (auto simp: halt_def bindA_def gets_def doneA_def split: outcome.splits prod.splits)
    with g that show "case r of Done g \<Rightarrow> wp (if \<not> list_all snd g then halt env (reason g)
       else bindA (lift (buildSendTx env ?t)) (\<lambda>tx. doneA (PreOk (op_current ?s) g tx))) ?Q m'
       | Threw e \<Rightarrow> ?Q (Threw e) m' | Crashed \<Rightarrow> ?Q Crashed m'"
      by (auto simp: readyState_def split: outcome.splits sum.split)
  qed
  show "wp (preconditions env) ?Q m"
    unfolding preconditions_def
    using gated by (auto simp: statesReady_def wp_bindA [of "gets _"] wp_runtime Let_def split: option.split simp del: wp_bindA)
qed

section \<open>Construction\<close>

lemma parse_view:
  "parseHalt v = Inr h \<Longrightarrow> haltIn v = h" "parseJournal v = Inr js \<Longrightarrow> journalIn v = js"
  "parsePending v = Inr p \<Longrightarrow> pendingIn v = p" "parseIntent v = Inr i \<Longrightarrow> intentIn v = i"
  by (auto simp: parseHalt_def parseJournal_def parsePending_def parseIntent_def haltIn_def journalIn_def
      pendingIn_def intentIn_def split: option.splits Stored.splits)

lemma journalFind_entry: "journalFind i js = Inr (Some e) \<Longrightarrow> Some e \<in> set js \<and> je_step e = i"
  by (induction i js rule: journalFind.induct) (auto split: if_splits)

lemma haltAim_snd: "haltAim h = (case h of None \<Rightarrow> None | Some x \<Rightarrow> snd x)"
  by (auto simp: haltAim_def split: option.split)

lemma loaded_pageOk:
  assumes "recordsOk S js p i (haltAim h)"
    and "length js \<in> set S \<Longrightarrow> covers p (length js) \<or> aimsAt u (length js)" "u \<noteq> None \<Longrightarrow> hl"
    and "intentBelow u (length js)" "\<not> hl \<Longrightarrow> h = None"
  shows "pageOk S (length js) p i h js p u hl 0"
  using assms by (auto simp: view_defs)

text \<open>The fields of the new page, by the case of the constructor.\<close>

lemma initialState_cases:
  assumes "initialState kp kd digest h js p i = Inr s"
  shows "keysOk kp kd s \<and> op_journal s = js \<and> op_pending s = p \<and> op_current s = 0 \<and>
    ((op_uncertainSend s = haltAim h \<and> op_halted s = (h \<noteq> None) \<and>
        (i = None \<or> haltAim h \<noteq> None \<or> (\<exists>x. i = Some x \<and> (covers p (in_step x) \<or>
           (\<exists>e. journalFind (in_step x) js = Inr (Some e)))))) \<or>
     (op_uncertainSend s = i \<and> i \<noteq> None \<and> op_halted s))"
  using assms
  by (cases i; cases "haltAim h"; cases p)
    (auto simp: initialState_def haltAim_snd keysOk_def rbind_eq_Inr Let_def split: if_splits)

lemma initial_pageOk:
  assumes rec: "recordsOk S js p i (haltAim h)" and s: "initialState kp kd digest h js p i = Inr s"
  shows "keysOk kp kd s \<and> pageOk S (length js) p i h (op_journal s) (op_pending s) (op_uncertainSend s)
    (op_halted s) (op_current s)"
proof -
  have found: "journalFind (in_step x) js = Inr (Some e) \<Longrightarrow> in_step x < length js" for x e
    using rec journalFind_entry [of "in_step x" js e]
    by (auto simp: recordsOk_def entriesBelow_def list_all_iff Let_def split: option.splits)
  have halt: "haltAim h \<noteq> None \<Longrightarrow> h \<noteq> None" by (cases h) (auto simp: haltAim_def)
  have "pageOk S (length js) p i h js p (op_uncertainSend s) (op_halted s) 0"
    using initialState_cases [OF s]
  proof (elim conjE disjE)
    assume u: "op_uncertainSend s = haltAim h" "op_halted s = (h \<noteq> None)"
    assume "i = None"
    then show ?thesis
      by (intro loaded_pageOk rec) (use rec u halt in \<open>cases h; auto simp: recordsOk_def Let_def\<close>)+
  next
    assume u: "op_uncertainSend s = haltAim h" "op_halted s = (h \<noteq> None)"
    assume "haltAim h \<noteq> None"
    then show ?thesis
      by (intro loaded_pageOk rec) (use rec u halt in \<open>cases h; auto simp: recordsOk_def Let_def\<close>)+
  next
    assume u: "op_uncertainSend s = haltAim h" "op_halted s = (h \<noteq> None)"
    assume "\<exists>x. i = Some x \<and> (covers p (in_step x) \<or> (\<exists>e. journalFind (in_step x) js = Inr (Some e)))"
    then show ?thesis
      by (intro loaded_pageOk rec) (use rec u halt in \<open>cases h; auto simp: recordsOk_def Let_def dest: found\<close>)+
  next
    assume u: "op_uncertainSend s = i" "op_halted s"
    then show ?thesis
      by (intro loaded_pageOk rec) (use rec u halt in \<open>cases h; auto simp: recordsOk_def Let_def\<close>)+
  qed
  with initialState_cases [OF s] show ?thesis by simp
qed

text \<open>What reading the records gives: only the world moves.\<close>

lemma wp_storageGet:
  "(\<And>w. Q (Done (mc_store m key)) (m\<lparr>mc_world := w\<rparr>)) \<Longrightarrow> (\<And>e w. Q (Threw e) (m\<lparr>mc_world := w\<rparr>)) \<Longrightarrow>
   (\<And>w. Q Crashed (m\<lparr>mc_world := w\<rparr>)) \<Longrightarrow> wp (storageGet env key) Q m"
  by (auto simp: wp_def storageGet_def split: prod.split outcome.split)

lemma wp_readRecord:
  assumes "\<And>w. Q Crashed (m\<lparr>mc_world := w\<rparr>)" "\<And>e w. Q (Threw e) (m\<lparr>mc_world := w\<rparr>)"
    and "\<And>a w. parse (mc_store m key) = Inr a \<Longrightarrow> wp (k a) Q (m\<lparr>mc_world := w\<rparr>)"
  shows "wp (bindA (bindA (storageGet env key) (\<lambda>v. lift (parse v))) k) Q m"
  unfolding wp_bindA
  by (rule wp_storageGet) (use assms in \<open>auto split: sum.split\<close>)

lemma wp_construct:
  assumes ok: "durableOk env kp kd m"
  shows "wp (construct env kp kd digest) (\<lambda>r m'. durableOk env kp kd m' \<and> (r = Done () \<longrightarrow> machineOk env kp kd m')) m"
proof -
  let ?Q = "\<lambda>r m'. durableOk env kp kd m' \<and> (r = Done () \<longrightarrow> machineOk env kp kd m')"
  have load: "wp (bindA (lift (initialState kp kd digest h js p i)) (\<lambda>s. modify (\<lambda>_. s))) ?Q (m\<lparr>mc_world := w\<rparr>)"
    if "parseHalt (mc_store m (keyOf kp ''halt'' kd)) = Inr h" "parseJournal (mc_store m (keyOf kp ''journal'' kd)) = Inr js"
      "parsePending (mc_store m (keyOf kp ''pending'' kd)) = Inr p" "parseIntent (mc_store m (keyOf kp ''intent'' kd)) = Inr i"
    for h js p i w
  proof -
    have view: "storedHalt kp kd (mc_store m) = h" "storedJournal kp kd (mc_store m) = js"
      "storedPending kp kd (mc_store m) = p" "storedIntent kp kd (mc_store m) = i"
      using that by (simp_all add: storedHalt_def storedJournal_def storedPending_def storedIntent_def parse_view)
    with ok have "recordsOk (liveSteps m) js p i (haltAim h)" by (simp add: durableOk_def durableInv_def)
    note page = initial_pageOk [OF this, of kp kd digest]
    show ?thesis
      using ok page view by (auto simp: machineOk_def memoryInv_def split: sum.split)
  qed
  show ?thesis
    unfolding construct_def
    by (intro wp_readRecord) (use ok load in \<open>simp_all del: wp_bindA\<close>)
qed

section \<open>Sessions\<close>

text \<open>The methods a subclass overrides.\<close>

record 'w Methods =
  me_bind :: "'w op_method"
  me_markConnected :: "'w op_method"
  me_preconditions :: "'w op_method"
  me_reconcile :: "'w op_method"

text \<open>A session: calls of the page and reloads.\<close>

datatype Call =
    Reload
  | BindPacket
  | MarkConnected
  | Preconditions
  | SendCurrent
  | VerifyAfterHash string
  | Reconcile
  | ResolveUncertainSend string

fun invoke :: "'w Env \<Rightarrow> 'w Methods \<Rightarrow> Call \<Rightarrow> 'w op_method" where
  "invoke env me Reload = doneA BoundOk"
| "invoke env me BindPacket = me_bind me"
| "invoke env me MarkConnected = me_markConnected me"
| "invoke env me Preconditions = me_preconditions me"
| "invoke env me SendCurrent = sendCurrent env (me_preconditions me)"
| "invoke env me (VerifyAfterHash h) = verifyAfterHash env h"
| "invoke env me Reconcile = me_reconcile me"
| "invoke env me (ResolveUncertainSend h) = resolveUncertainSend env h"

text \<open>The state of a session: whether a page is there, and the machine.\<close>

definition sessionStep :: "'w Env \<Rightarrow> 'w Methods \<Rightarrow> string \<Rightarrow> string \<Rightarrow> string \<Rightarrow> bool \<times> (OpState, 'w) Machine \<Rightarrow> Call
    \<Rightarrow> bool \<times> (OpState, 'w) Machine" where
  "sessionStep env me kp kd digest p c =
     (case c of
        Reload \<Rightarrow> (case construct env kp kd digest (snd p) of
          (Done _, m) \<Rightarrow> (True, m) | (Threw _, m) \<Rightarrow> (False, m) | (Crashed, m) \<Rightarrow> (False, m))
      | _ \<Rightarrow> if \<not> fst p then p
             else (case invoke env me c (snd p) of
               (Done _, m) \<Rightarrow> (True, m) | (Threw _, m) \<Rightarrow> (True, m) | (Crashed, m) \<Rightarrow> (False, m)))"

definition session :: "'w Env \<Rightarrow> 'w Methods \<Rightarrow> string \<Rightarrow> string \<Rightarrow> string \<Rightarrow> (OpState, 'w) Machine \<Rightarrow> Call list
    \<Rightarrow> (OpState, 'w) Machine" where
  "session env me kp kd digest m cs = snd (foldl (sessionStep env me kp kd digest) (False, m) cs)"

text \<open>Before the first page: no records of this packet, nothing requested yet.\<close>

definition fresh :: "string \<Rightarrow> string \<Rightarrow> store \<Rightarrow> 'w \<Rightarrow> OpState \<Rightarrow> (OpState, 'w) Machine" where
  "fresh kp kd st w s0 =
     \<lparr>mc_op = s0, mc_store = st(keyOf kp ''halt'' kd := None, keyOf kp ''journal'' kd := None,
        keyOf kp ''pending'' kd := None, keyOf kp ''intent'' kd := None), mc_world = w, mc_trace = []\<rparr>"

lemma fresh_ok: "durableOk env kp kd (fresh kp kd st w s0)"
  by (simp add: fresh_def durableOk_def durableInv_def recordsOk_def sends_def liveSteps_def upToAll_def
      entriesBelow_def storedJournal_def storedPending_def storedIntent_def storedHalt_def Let_def)

locale hooks =
  fixes env :: "'w Env" and kp kd :: string and me :: "'w Methods"
  assumes bind_keeps: "keeps env kp kd (me_bind me)"
    and connect_keeps: "keeps env kp kd (me_markConnected me)"
    and gate_keeps: "keeps env kp kd (me_preconditions me)"
    and gate_ok: "gateOk (me_preconditions me)"
    and reconcile_keeps: "keeps env kp kd (me_reconcile me)"
begin

lemma keeps_invoke: "keeps env kp kd (invoke env me c)"
  by (cases c) (simp_all add: keeps_simple bind_keeps connect_keeps gate_keeps reconcile_keeps
      keeps_verifyAfterHash keeps_resolveUncertainSend keeps_sendCurrent gate_ok)

lemma step_ok:
  assumes "durableOk env kp kd (snd p)" "fst p \<longrightarrow> machineOk env kp kd (snd p)"
  shows "durableOk env kp kd (snd (sessionStep env me kp kd digest p c)) \<and>
    (fst (sessionStep env me kp kd digest p c) \<longrightarrow> machineOk env kp kd (snd (sessionStep env me kp kd digest p c)))"
proof (cases "c = Reload")
  case True
  show ?thesis
    using wp_construct [OF assms(1), of digest] True
    by (auto simp: sessionStep_def wp_def split: prod.splits outcome.splits)
next
  case False
  show ?thesis
  proof (cases "fst p")
    case True
    with assms(2) have "wp (invoke env me c) (leaves env kp kd) (snd p)"
      by (intro keepsD [OF keeps_invoke]) simp
    with True False show ?thesis
      by (cases c) (auto simp: sessionStep_def wp_def leaves_def machineOk_def split: prod.splits outcome.splits)
  qed (use False assms(1,2) in \<open>cases c; simp add: sessionStep_def\<close>)
qed

lemma session_ok: "durableOk env kp kd (session env me kp kd digest (fresh kp kd st w s0) cs)"
proof -
  have "durableOk env kp kd (snd (foldl (sessionStep env me kp kd digest) p cs))"
    if "durableOk env kp kd (snd p)" "fst p \<longrightarrow> machineOk env kp kd (snd p)" for p
    using that by (induction cs arbitrary: p) (use step_ok in auto)
  from this [of "(False, fresh kp kd st w s0)"] show ?thesis
    by (simp add: session_def fresh_ok)
qed

lemma sends_distinct: "distinct (liveSteps (session env me kp kd digest (fresh kp kd st w s0) cs))"
  using session_ok by (simp add: durableOk_def durableInv_def recordsOk_def Let_def)

lemma sends_authorized: "list_all (authorizedSend env) (sends (session env me kp kd digest (fresh kp kd st w s0) cs))"
  using session_ok by (simp add: durableOk_def)

end

end
