(* ===== verification/CanonicalAuth.thy ===== *)
theory CanonicalAuth
  imports OperatorChain
begin

text \<open>
  \<open>canary-packet/exec/operator/canonical.mjs\<close>: the canonical reviewed authorization. It is rebuilt from the
  packet, the policy and the snapshot with every defect noted, a packaged copy is validated, and its digest
  is the hash of its canonical text. Inputs are values of JSON; reading a property of \<open>null\<close> or
  \<open>undefined\<close> throws. What \<open>Number\<close> makes of a text that is no decimal number, and the hash and checksum
  functions, are parameters.
\<close>

section \<open>Reading values\<close>

fun truthy :: "Json \<Rightarrow> bool" where
  "truthy JNull = False"
| "truthy JUndefined = False"
| "truthy (JBool b) = b"
| "truthy (JNum i) = (i \<noteq> 0)"
| "truthy (JStr s) = (s \<noteq> [])"
| "truthy (JBigint i) = (i \<noteq> 0)"
| "truthy _ = True"

definition lookupKey :: "(string \<times> Json) list \<Rightarrow> string \<Rightarrow> Json" where
  "lookupKey kvs k = (case map_of kvs k of None \<Rightarrow> JUndefined | Some v \<Rightarrow> v)"

text \<open>\<open>v.k\<close>, for a name \<open>k\<close> that no object inherits.\<close>

fun getProp :: "string \<Rightarrow> Json \<Rightarrow> exn + Json" where
  "getProp k JNull = Inl (jsError ''Cannot read properties of null'')"
| "getProp k JUndefined = Inl (jsError ''Cannot read properties of undefined'')"
| "getProp k (JObj kvs) = Inr (lookupKey kvs k)"
| "getProp k (JArr vs) = Inr (if k = ''length'' then JNum (int (length vs)) else JUndefined)"
| "getProp k v = Inr JUndefined"

text \<open>\<open>v.k1.k2\<close>\<dots>\<close>

fun path :: "string list \<Rightarrow> Json \<Rightarrow> exn + Json" where
  "path [] v = Inr v"
| "path (k # ks) v = rbind (getProp k v) (path ks)"

text \<open>\<open>v && v.k1 && v.k1.k2\<close>\<dots>, as a condition.\<close>

fun chain :: "string list \<Rightarrow> Json \<Rightarrow> bool" where
  "chain [] v = truthy v"
| "chain (k # ks) v = (truthy v \<and> (case getProp k v of Inl _ \<Rightarrow> False | Inr w \<Rightarrow> chain ks w))"

text \<open>A method of an array, or the loop over one, and a method of a text: other values throw.\<close>

fun arrayOf :: "Json \<Rightarrow> exn + Json list" where
  "arrayOf (JArr vs) = Inr vs"
| "arrayOf v = Inl (jsError ''is not a function'')"

fun stringOf :: "Json \<Rightarrow> exn + string" where
  "stringOf (JStr s) = Inr s"
| "stringOf v = Inl (jsError ''is not a function'')"

text \<open>\<open>Object.entries\<close>.\<close>

fun objectEntries :: "Json \<Rightarrow> exn + (string \<times> Json) list" where
  "objectEntries (JObj kvs) = Inr (js_object kvs)"
| "objectEntries (JArr vs) = Inr (map (\<lambda>(i, v). (dec_of_int (int i), v)) (enumerate 0 vs))"
| "objectEntries (JStr s) = Inr (map (\<lambda>(i, c). (dec_of_int (int i), JStr [c])) (enumerate 0 s))"
| "objectEntries JNull = Inl (jsError ''Cannot convert undefined or null to object'')"
| "objectEntries JUndefined = Inl (jsError ''Cannot convert undefined or null to object'')"
| "objectEntries v = Inr []"

text \<open>\<open>===\<close>: two arrays or objects of the inputs are never the same one.\<close>

fun strictEq :: "Json \<Rightarrow> Json \<Rightarrow> bool" where
  "strictEq (JArr vs) w = False"
| "strictEq (JObj kvs) w = False"
| "strictEq JFrac w = False"
| "strictEq v w = (v = w)"

text \<open>\<open>String(v)\<close>; a number that is no integer has a text that is no decimal number, here a point.\<close>

fun jsString :: "Json \<Rightarrow> string" where
  "jsString (JStr s) = s"
| "jsString (JNum i) = dec_of_int i"
| "jsString (JBigint i) = dec_of_int i"
| "jsString (JBool b) = boolText b"
| "jsString JNull = ''null''"
| "jsString JUndefined = ''undefined''"
| "jsString JFrac = ''.''"
| "jsString (JArr vs) = join '','' (map (\<lambda>v. if v = JNull \<or> v = JUndefined then [] else jsString v) vs)"
| "jsString (JObj kvs) = ''[object Object]''"

text \<open>\<open>isDec\<close>, \<open>isHex(x, n)\<close> and \<open>isHex(x)\<close>.\<close>

definition isDecText :: "string \<Rightarrow> bool" where
  "isDecText s \<longleftrightarrow> s \<noteq> [] \<and> list_all is_digit_char s \<and> (s = ''0'' \<or> hd s \<noteq> CHR ''0'')"

fun isDec :: "Json \<Rightarrow> bool" where
  "isDec (JStr s) = isDecText s"
| "isDec v = False"

fun isHexN :: "nat \<Rightarrow> Json \<Rightarrow> bool" where
  "isHexN n (JStr s) = hex_string (n * 2) s"
| "isHexN n v = False"

fun isHexAny :: "Json \<Rightarrow> bool" where
  "isHexAny (JStr s) = (length s > 2 \<and> hex_string (length s - 2) s)"
| "isHexAny v = False"

text \<open>\<open>Number(v)\<close>; \<open>NaN\<close> is a number that is no integer.\<close>

definition numberOfText :: "(string \<Rightarrow> Json) \<Rightarrow> string \<Rightarrow> Json" where
  "numberOfText numText s = (if isDecText s then JNum (int_of_dec s) else numText s)"

fun jsNumber :: "(string \<Rightarrow> Json) \<Rightarrow> Json \<Rightarrow> Json" where
  "jsNumber numText (JStr s) = numberOfText numText s"
| "jsNumber numText (JNum i) = JNum i"
| "jsNumber numText (JBigint i) = JNum i"
| "jsNumber numText (JBool b) = JNum (if b then 1 else 0)"
| "jsNumber numText JNull = JNum 0"
| "jsNumber numText JUndefined = JFrac"
| "jsNumber numText JFrac = JFrac"
| "jsNumber numText (JArr vs) = numberOfText numText (jsString (JArr vs))"
| "jsNumber numText (JObj kvs) = JFrac"

text \<open>\<open>A(v)\<close> of a value, and \<open>BigInt(v)\<close>.\<close>

definition addressOf :: "(string \<Rightarrow> exn + string) \<Rightarrow> Json \<Rightarrow> exn + string" where
  "addressOf ga v = rbind (stringOf v) ga"

fun bigIntJ :: "Json \<Rightarrow> exn + int" where
  "bigIntJ (JStr s) = bigIntText s"
| "bigIntJ (JNum i) = Inr i"
| "bigIntJ (JBigint i) = Inr i"
| "bigIntJ (JBool b) = Inr (if b then 1 else 0)"
| "bigIntJ (JArr vs) = bigIntText (jsString (JArr vs))"
| "bigIntJ v = Inl (jsError ''Cannot convert to a BigInt'')"

text \<open>\<open>v + n\<close> for a number \<open>n\<close>.\<close>

fun plusNumber :: "Json \<Rightarrow> int \<Rightarrow> Json" where
  "plusNumber (JNum i) n = JNum (i + n)"
| "plusNumber (JBool b) n = JNum ((if b then 1 else 0) + n)"
| "plusNumber JNull n = JNum n"
| "plusNumber JUndefined n = JFrac"
| "plusNumber JFrac n = JFrac"
| "plusNumber v n = JStr (jsString v @ dec_of_int n)"

text \<open>A conjunction of conditions that may throw, evaluated until one is false.\<close>

fun allE :: "(exn + bool) list \<Rightarrow> exn + bool" where
  "allE [] = Inr True"
| "allE (x # xs) = rbind x (\<lambda>b. if b then allE xs else Inr False)"

section \<open>Building with notes\<close>

text \<open>A computation that may throw and notes defects, in order.\<close>

type_synonym 'a noted = "exn + string list \<times> 'a"

definition okN :: "'a \<Rightarrow> 'a noted" where "okN a = Inr ([], a)"

definition noteN :: "string \<Rightarrow> 'a \<Rightarrow> 'a noted" where "noteN w a = Inr ([w], a)"

definition bindN :: "'a noted \<Rightarrow> ('a \<Rightarrow> 'b noted) \<Rightarrow> 'b noted" where
  "bindN m f = rbind m (\<lambda>(e, a). rbind (f a) (\<lambda>(e', b). Inr (e @ e', b)))"

definition liftN :: "exn + 'a \<Rightarrow> 'a noted" where "liftN r = rbind r okN"

fun traverseN :: "('a \<Rightarrow> 'b noted) \<Rightarrow> 'a list \<Rightarrow> 'b list noted" where
  "traverseN f [] = okN []"
| "traverseN f (x # xs) = bindN (f x) (\<lambda>y. bindN (traverseN f xs) (\<lambda>ys. okN (y # ys)))"

text \<open>An object literal, its fields in order.\<close>

definition fieldN :: "string \<times> Json noted \<Rightarrow> (string \<times> Json) noted" where
  "fieldN = (\<lambda>(k, m). bindN m (\<lambda>v. okN (k, v)))"

definition objN :: "(string \<times> Json noted) list \<Rightarrow> Json noted" where
  "objN fs = bindN (traverseN fieldN fs) (\<lambda>kvs. okN (JObj kvs))"

text \<open>\<open>o[k] = v\<close> one after the other; the name \<open>__proto__\<close> makes no property.\<close>

definition assignKey :: "string \<Rightarrow> Json \<Rightarrow> (string \<times> Json) list \<Rightarrow> (string \<times> Json) list" where
  "assignKey k v kvs = (if k = ''__proto__'' then kvs else AList.update k v kvs)"

definition assignN :: "(string \<times> Json noted) list \<Rightarrow> Json noted" where
  "assignN fs = bindN (traverseN fieldN fs)
     (\<lambda>kvs. okN (JObj (foldl (\<lambda>kvs' (k, v). assignKey k v kvs') [] kvs)))"

definition ensureN :: "bool \<Rightarrow> string \<Rightarrow> Json \<Rightarrow> Json \<Rightarrow> Json noted" where
  "ensureN c w good bad = (if c then okN good else noteN w bad)"

text \<open>The helpers of \<open>buildCanonical\<close>: \<open>A\<close>, \<open>N\<close>, \<open>I\<close>, \<open>BOOLT\<close>, \<open>BOOLF\<close>, \<open>STR\<close>, \<open>HH\<close>, \<open>SI\<close>.\<close>

definition zeroAddressText :: string where
  "zeroAddressText = ''0x'' @ replicate 40 (CHR ''0'')"

definition asA :: "(string \<Rightarrow> exn + string) \<Rightarrow> Json \<Rightarrow> string \<Rightarrow> Json noted" where
  "asA ga x w =
     (if isHexN 20 x then rbind (ga (jsString x)) (\<lambda>a. okN (JStr a))
      else noteN (''non-address '' @ w) (JStr zeroAddressText))"

definition asN :: "Json \<Rightarrow> string \<Rightarrow> Json noted" where
  "asN x w =
     (let v = (case x of JNum i \<Rightarrow> JStr (jsString x) | JFrac \<Rightarrow> JStr (jsString x) | _ \<Rightarrow> x) in
      if isDec v then okN v
      else noteN (''non-canonical-number '' @ w @ '' ('' @ jsString x @ '')'') (JStr ''0''))"

definition asI :: "Json \<Rightarrow> string \<Rightarrow> Json noted" where
  "asI x w = (case x of
     JNum i \<Rightarrow> if i < 0 then noteN (''non-integer '' @ w) (JNum 0) else okN x
   | _ \<Rightarrow> noteN (''non-integer '' @ w) (JNum 0))"

definition asBoolT :: "Json \<Rightarrow> string \<Rightarrow> Json noted" where
  "asBoolT x w = (if x = JBool True then okN (JBool True) else noteN (''expected-true '' @ w) (JBool False))"

definition asBoolF :: "Json \<Rightarrow> string \<Rightarrow> Json noted" where
  "asBoolF x w = (if x = JBool False then okN (JBool False) else noteN (''expected-false '' @ w) (JBool False))"

definition asStr :: "Json \<Rightarrow> string \<Rightarrow> Json noted" where
  "asStr x w = (case x of JStr s \<Rightarrow> okN x | _ \<Rightarrow> noteN (''bad-string '' @ w) (JStr []))"

definition asStrIs :: "string \<Rightarrow> Json \<Rightarrow> string \<Rightarrow> Json noted" where
  "asStrIs want x w = (if x = JStr want then okN x else noteN (''bad-string '' @ w) (JStr want))"

definition asHash :: "Json \<Rightarrow> string \<Rightarrow> Json noted" where
  "asHash x w =
     (if isHexN 32 x then okN (JStr (lower (jsString x)))
      else noteN (''bad-hash '' @ w) (JStr (''0x'' @ replicate 64 (CHR ''0''))))"

definition asSI :: "Json \<Rightarrow> string \<Rightarrow> Json noted" where
  "asSI x w = (case x of JNum i \<Rightarrow> okN x | _ \<Rightarrow> noteN (''non-int '' @ w) (JNum 0))"

text \<open>A helper at a property of an input, and \<open>&&\<close>.\<close>

definition fld :: "(Json \<Rightarrow> string \<Rightarrow> Json noted) \<Rightarrow> Json \<Rightarrow> string list \<Rightarrow> string \<Rightarrow> Json noted" where
  "fld f v ks w = bindN (liftN (path ks v)) (\<lambda>x. f x w)"

definition andN :: "Json noted \<Rightarrow> Json noted \<Rightarrow> Json noted" where
  "andN x y = bindN x (\<lambda>v. if truthy v then y else okN v)"

definition bigOf :: "Json \<Rightarrow> int" where
  "bigOf v = int_of_dec (jsString v)"

section \<open>The canonical object\<close>

definition CANON_SCHEMA :: string where "CANON_SCHEMA = ''canary-reviewed-authorization''"

definition CANON_VERSION :: string where "CANON_VERSION = ''10D-4''"

definition SCOPE :: string where
  "SCOPE = ''BPSC-TEST canary only; Robinhood Chain mainnet; maximum all-inclusive exposure $130; individual Rabby approvals; canonical BPS production excluded.''"

definition DEPLOY_SLOTS :: "string list" where
  "DEPLOY_SLOTS = [''canaryToken'', ''lockingVault'', ''claimManager'', ''rialtoAdapter'', ''coordinator'',
     ''stockVault'', ''uniswapAdapter'', ''tradeRouter'']"

definition SLOT_CONTRACT :: "(string \<times> string) list" where
  "SLOT_CONTRACT = [(''canaryToken'', ''BPSCanaryToken''), (''lockingVault'', ''BPSLockingVault''),
     (''claimManager'', ''DistributionClaimManager''), (''rialtoAdapter'', ''RialtoStockAcquisitionAdapter''),
     (''coordinator'', ''DistributionFundingCoordinator''), (''stockVault'', ''StockAcquisitionVault''),
     (''uniswapAdapter'', ''UniswapV3BPSSwapAdapter''), (''tradeRouter'', ''BPSTradeRouter'')]"

definition DEP_NAMES :: "string list" where
  "DEP_NAMES = [''weth'', ''uniswapV3Factory'', ''nonfungiblePositionManager'', ''swapRouter02'',
     ''rialtoRegistry'', ''nvdaStockToken'']"

text \<open>
  \<open>postconditionType\<close>. The table is an object of the language: a label that every object inherits finds a
  function, which no text shows, or for \<open>__proto__\<close> an object without properties of its own.
\<close>

definition POSTCONDITIONS :: "(string \<times> string) list" where
  "POSTCONDITIONS = [(''factory.createPool'', ''createPool''), (''pool.initialize'', ''initialize''),
     (''NPM.mint'', ''mint''), (''buyExactWethForBps'', ''buy''), (''sellExactBpsForWeth'', ''sell''),
     (''createLock(amount,7d)'', ''lock'')]"

definition INHERITED :: "string list" where
  "INHERITED = [''constructor'', ''toString'', ''valueOf'', ''hasOwnProperty'', ''isPrototypeOf'',
     ''propertyIsEnumerable'', ''toLocaleString'', ''__defineGetter__'', ''__defineSetter__'',
     ''__lookupGetter__'', ''__lookupSetter__'']"

definition postconditionType :: "Json \<Rightarrow> exn + Json" where
  "postconditionType t =
     rbind (getProp ''phase'' t) (\<lambda>phase.
     if phase = JStr ''A-deploy'' then Inr (JStr ''deploy'')
     else rbind (getProp ''label'' t) (\<lambda>label.
       if (case label of JStr l \<Rightarrow> str_includes l ''approve'' | _ \<Rightarrow> False) then Inr (JStr ''approve'')
       else (let k = jsString label in
         case map_of POSTCONDITIONS k of
           Some ty \<Rightarrow> Inr (JStr ty)
         | None \<Rightarrow> if k \<in> set INHERITED then Inr JUndefined
                   else if k = ''__proto__'' then Inr (JObj [])
                   else Inr (JStr ''unknown''))))"

text \<open>\<open>sig\<close>: what is signed, and the identity of the step.\<close>

definition signedFields :: "(string \<Rightarrow> exn + string) \<Rightarrow> Json \<Rightarrow> (string \<times> Json noted) list" where
  "signedFields ga t =
     [(''chainId'', fld asI t [''chainId''] ''tx.chainId''),
      (''signer'', fld (asA ga) t [''signer''] ''tx.signer''),
      (''nonce'', fld asI t [''nonce''] ''tx.nonce''),
      (''type'', okN (JNum 2)),
      (''to'', fld (\<lambda>x w. if truthy x then asA ga x w else okN JNull) t [''to''] ''tx.to''),
      (''value'', fld (\<lambda>x w. asN (if truthy x then x else JStr ''0'') w) t [''value''] ''tx.value''),
      (''data'', fld (\<lambda>x w. if isHexAny x then okN (JStr (lower (jsString x))) else noteN w (JStr ''0x''))
         t [''dataOrInitCode''] ''tx.data''),
      (''gasLimit'', fld asN t [''gasLimit''] ''tx.gasLimit''),
      (''maxFeePerGas'', fld asN t [''maxFeePerGas''] ''tx.maxFeePerGas''),
      (''maxPriorityFeePerGas'', fld asN t [''maxPriorityFeePerGas''] ''tx.maxPriorityFeePerGas'')]"

definition identityFields :: "Json \<Rightarrow> (string \<times> Json noted) list" where
  "identityFields t =
     [(''index'', bindN (liftN (path [''index''] t)) (\<lambda>x.
         if x \<noteq> JUndefined then asI x ''tx.index'' else fld asI t [''_i''] ''tx.index'')),
      (''phase'', fld asStr t [''phase''] ''tx.phase''),
      (''label'', fld asStr t [''label''] ''tx.label''),
      (''postconditionType'', bindN (liftN (postconditionType t)) (\<lambda>pc.
         if pc = JStr ''unknown''
         then bindN (liftN (path [''label''] t)) (\<lambda>l. noteN (''tx.postconditionType unknown: '' @ jsString l) pc)
         else okN pc))]"

definition sigOf :: "(string \<Rightarrow> exn + string) \<Rightarrow> bool \<Rightarrow> Json \<Rightarrow> Json noted" where
  "sigOf ga withIndex t = objN (signedFields ga t @ (if withIndex then identityFields t else []))"

text \<open>\<open>{ ...t, _i: i }\<close>.\<close>

definition withPosition :: "nat \<Rightarrow> Json \<Rightarrow> Json" where
  "withPosition i t = JObj ((''_i'', JNum (int i)) # (case t of JObj kvs \<Rightarrow> kvs | _ \<Rightarrow> []))"

text \<open>The deployments, in nonce order; differences that are not numbers compare as equal.\<close>

definition nonceOrder :: "(string \<Rightarrow> Json) \<Rightarrow> Json \<Rightarrow> Json \<Rightarrow> int" where
  "nonceOrder numText x y =
     (case (getProp ''nonce'' x, getProp ''nonce'' y) of
        (Inr m, Inr n) \<Rightarrow> (case (jsNumber numText m, jsNumber numText n) of (JNum i, JNum j) \<Rightarrow> i - j | _ \<Rightarrow> 0)
      | _ \<Rightarrow> 0)"

fun rfilter :: "('a \<Rightarrow> exn + bool) \<Rightarrow> 'a list \<Rightarrow> exn + 'a list" where
  "rfilter f [] = Inr []"
| "rfilter f (x # xs) = rbind (f x) (\<lambda>b. rbind (rfilter f xs) (\<lambda>ys. Inr (if b then x # ys else ys)))"

definition deploysOf :: "(string \<Rightarrow> Json) \<Rightarrow> Json list \<Rightarrow> exn + Json list" where
  "deploysOf numText ts =
     rbind (rfilter (\<lambda>t. rbind (getProp ''phase'' t) (\<lambda>ph. Inr (ph = JStr ''A-deploy''))) ts)
       (\<lambda>ds. Inr (js_sort (nonceOrder numText) ds))"

definition slotName :: "nat \<Rightarrow> string" where
  "slotName i = (if i < length DEPLOY_SLOTS then DEPLOY_SLOTS ! i else ''undefined'')"

definition contractOf :: "string \<Rightarrow> string" where
  "contractOf slot = (case map_of SLOT_CONTRACT slot of Some c \<Rightarrow> c | None \<Rightarrow> ''undefined'')"

definition predictedN :: "(string \<Rightarrow> exn + string) \<Rightarrow> Json list \<Rightarrow> Json noted" where
  "predictedN ga deploys = assignN (map (\<lambda>(i, t).
     (slotName i, fld (asA ga) t [''predictedCreationAddress''] (''predicted.'' @ slotName i)))
     (enumerate 0 deploys))"

definition provenanceN :: "(string \<times> Json) list \<Rightarrow> Json noted" where
  "provenanceN contracts = assignN (map (\<lambda>(name, pv). (name, objN
     [(''creationBytecodeKeccak'', fld asStr pv [''creationBytecodeKeccak''] ''prov.cre''),
      (''runtimeBytecodeKeccak'', fld asStr pv [''runtimeBytecodeKeccak''] ''prov.run''),
      (''artifactSha256'', fld asStr pv [''artifactSha256''] ''prov.art''),
      (''sourceListKeccak'', fld asStr pv [''sourceListKeccak''] ''prov.src''),
      (''solc'', fld asStr pv [''solc''] ''prov.solc'')])) contracts)"

definition dependencyN :: "(string \<Rightarrow> exn + string) \<Rightarrow> Json \<Rightarrow> string \<Rightarrow> (string \<times> Json) list noted" where
  "dependencyN ga s name =
     bindN (liftN (path [''externalCodeHashes'', name] s)) (\<lambda>d.
     if \<not> truthy d then noteN (''dependency missing '' @ name) []
     else bindN (objN
       [(''address'', fld (asA ga) d [''address''] (''dep.'' @ name)),
        (''runtimeCodeHash'', fld asHash d [''runtimeCodeHash''] (''dep.hash.'' @ name)),
        (''codeBytes'', fld asI d [''codeBytes''] (''dep.bytes.'' @ name))])
       (\<lambda>v. okN [(name, v)]))"

definition dependenciesN :: "(string \<Rightarrow> exn + string) \<Rightarrow> Json \<Rightarrow> Json noted" where
  "dependenciesN ga s = bindN (traverseN (dependencyN ga s) DEP_NAMES) (\<lambda>xs. okN (JObj (concat xs)))"

definition deploymentN :: "(string \<Rightarrow> exn + string) \<Rightarrow> Json \<Rightarrow> nat \<times> Json \<Rightarrow> string \<times> Json noted" where
  "deploymentN ga a = (\<lambda>(i, t). (slotName i,
     bindN (liftN (path [''provenance'', ''contracts'', contractOf (slotName i)] a)) (\<lambda>pv.
     bindN (liftN (path [''deployedRuntimeCodeHashes''] a)) (\<lambda>hashes.
     bindN (if truthy hashes then liftN (getProp (slotName i) hashes) else okN JUndefined) (\<lambda>drh.
     objN
       [(''predictedAddress'', fld (asA ga) t [''predictedCreationAddress''] (''dep2.'' @ slotName i)),
        (''runtimeCodeHash'', asHash drh (''runtimeHash.'' @ slotName i)),
        (''artifactRuntimeKeccak'',
           bindN (if truthy pv then liftN (getProp ''runtimeBytecodeKeccak'' pv) else okN JUndefined)
             (\<lambda>x. asHash x (''artHash.'' @ slotName i)))])))))"

definition deploymentsN :: "(string \<Rightarrow> exn + string) \<Rightarrow> Json \<Rightarrow> Json list \<Rightarrow> Json noted" where
  "deploymentsN ga a deploys = assignN (map (deploymentN ga a) (enumerate 0 deploys))"

definition lpN :: "(string \<Rightarrow> exn + string) \<Rightarrow> (string \<Rightarrow> Json) \<Rightarrow> Json \<Rightarrow> Json \<Rightarrow> Json noted" where
  "lpN ga numText a p = (let lu = (\<lambda>f k w. fld f a [''lpUsage'', k] w) in objN
     [(''feeTier'', fld (\<lambda>x w. asI (jsNumber numText x) w) p [''economics'', ''feeTier''] ''lp.feeTier''),
      (''tickSpacing'', fld (\<lambda>x w. asI (jsNumber numText x) w) p [''economics'', ''tickSpacing''] ''lp.tickSpacing''),
      (''sqrtPriceX96'', lu asN ''sqrtPriceX96'' ''lp.sqrt''),
      (''tick'', lu asSI ''poolTickAfter'' ''lp.tick''),
      (''tickLower'', lu asSI ''tickLower'' ''lp.tl''),
      (''tickUpper'', lu asSI ''tickUpper'' ''lp.tu''),
      (''amount0Used'', lu asN ''amount0Used'' ''lp.a0''),
      (''amount1Used'', lu asN ''amount1Used'' ''lp.a1''),
      (''amount0Min'', lu asN ''amount0Min'' ''lp.a0m''),
      (''amount1Min'', lu asN ''amount1Min'' ''lp.a1m''),
      (''poolLiquidityAfter'', lu asN ''poolLiquidityAfter'' ''lp.liq''),
      (''token0'', lu (asA ga) ''token0'' ''lp.t0''),
      (''token1'', lu (asA ga) ''token1'' ''lp.t1''),
      (''positionOwner'', lu (asA ga) ''positionOwner'' ''lp.owner''),
      (''positionFee'', lu asI ''positionFee'' ''lp.pfee'')])"

definition buyN :: "(string \<Rightarrow> exn + string) \<Rightarrow> Json \<Rightarrow> Json noted" where
  "buyN ga a = (let bu = (\<lambda>f k w. fld f a [''buyAccounting'', k] w) in objN
     [(''tradeId'', bu asN ''tradeId'' ''buy.tradeId''),
      (''trader'', bu (asA ga) ''trader'' ''buy.trader''),
      (''recipient'', bu (asA ga) ''recipient'' ''buy.recipient''),
      (''adapter'', bu (asA ga) ''adapter'' ''buy.adapter''),
      (''stockBudgetRecipient'', bu (asA ga) ''stockBudgetRecipient'' ''buy.sbr''),
      (''grossWethInput'', bu asN ''grossWethInput'' ''buy.gross''),
      (''stockBudget'', bu asN ''stockBudget2pct'' ''buy.stock''),
      (''burnBudget'', bu asN ''burnBudget1pct'' ''buy.burn''),
      (''userWethBudget'', bu asN ''userWethBudget97pct'' ''buy.uwb''),
      (''userBpsOutput'', bu asN ''userBpsOutput'' ''buy.ubo''),
      (''bpsBurned'', bu asN ''bpsBurned'' ''buy.bb''),
      (''minimumUserBpsOutput'', bu asN ''minimumUserBpsOutput'' ''buy.min'')])"

definition sellN :: "(string \<Rightarrow> exn + string) \<Rightarrow> Json \<Rightarrow> Json noted" where
  "sellN ga a = (let se = (\<lambda>f k w. fld f a [''sellAccounting'', k] w) in objN
     [(''tradeId'', se asN ''tradeId'' ''sell.tradeId''),
      (''trader'', se (asA ga) ''trader'' ''sell.trader''),
      (''recipient'', se (asA ga) ''recipient'' ''sell.recipient''),
      (''adapter'', se (asA ga) ''adapter'' ''sell.adapter''),
      (''stockBudgetRecipient'', se (asA ga) ''stockBudgetRecipient'' ''sell.sbr''),
      (''grossBpsInput'', se asN ''grossBpsInput'' ''sell.gross''),
      (''grossWethOutput'', se asN ''grossWethOutput'' ''sell.gwo''),
      (''stockBudget'', se asN ''stockAcquisition2pct'' ''sell.stock''),
      (''burnBudget'', se asN ''retirementBurn2pct'' ''sell.burn''),
      (''userWethOutput'', se asN ''userWethOutput96pct'' ''sell.uwo''),
      (''bpsBurned'', se asN ''bpsBurned'' ''sell.bb''),
      (''minimumGrossWethOutput'', se asN ''minimumGrossWethOutput'' ''sell.mgo''),
      (''minimumUserWethOutput'', se asN ''minimumUserWethOutput'' ''sell.muo'')])"

definition lockN :: "(string \<Rightarrow> exn + string) \<Rightarrow> Json \<Rightarrow> Json noted" where
  "lockN ga a = (let lk = (\<lambda>f k w. fld f a [''lockAndWithdraw'', k] w) in objN
     [(''account'', lk (asA ga) ''account'' ''lock.acct''),
      (''lockId'', lk asN ''lockId'' ''lock.id''),
      (''principal'', lk asN ''principal'' ''lock.principal''),
      (''startTime'', lk asN ''startTime'' ''lock.start''),
      (''duration'', lk asI ''duration'' ''lock.dur''),
      (''unlockTime'', lk asN ''unlockTime'' ''lock.unlock''),
      (''multiplierBps'', lk asI ''multiplierBps'' ''lock.mult''),
      (''policyVersion'', lk asI ''policyVersion'' ''lock.pol'')])"

text \<open>The fields of the object in groups.\<close>

definition identityN :: "(string \<Rightarrow> exn + string) \<Rightarrow> (string \<Rightarrow> Json) \<Rightarrow> Json \<Rightarrow> Json \<Rightarrow> (string \<times> Json noted) list" where
  "identityN ga numText a p =
     (let au = [''meta'', ''authorization''];
          flag = (\<lambda>k c. (k, andN (fld asBoolT a [''safetyFlags'', k] (''flag.'' @ c))
                                (fld asBoolT p [''safetyFlags'', k] (''pflag.'' @ c))));
          wallet = (\<lambda>k. (k,
            bindN (fld (asA ga) a [''meta'', k] k) (\<lambda>x.
            bindN (fld (asA ga) p [''wallets'', k] (''p.'' @ k)) (\<lambda>y.
            if strictEq x y then fld (asA ga) a [''meta'', k] k else noteN k (JStr [])))))
      in
     [(''schema'', asStrIs CANON_SCHEMA (JStr CANON_SCHEMA) ''schema''),
      (''version'', asStrIs CANON_VERSION (JStr CANON_VERSION) ''version''),
      (''canary'', andN (fld asBoolT a (au @ [''canary'']) ''canary'') (fld asBoolT p [''canary''] ''policy.canary'')),
      (''production'',
         bindN (fld asBoolF a (au @ [''production'']) ''production'') (\<lambda>x.
         bindN (if x = JBool False then fld asBoolF p [''production''] ''policy.production'' else okN JUndefined) (\<lambda>y.
         ensureN (y = JBool False) ''production'' (JBool False) (JBool True)))),
      (''chainId'',
         bindN (fld asI a [''meta'', ''chainId''] ''chainId'') (\<lambda>x.
         bindN (liftN (path [''chainId''] p)) (\<lambda>y.
         ensureN (x = JNum 4663 \<and> y = JNum 4663) ''chainId!=4663'' (JNum 4663) (JNum 0)))),
      (''scope'',
         bindN (fld (asStrIs SCOPE) a (au @ [''scope'']) ''scope'') (\<lambda>x.
         bindN (liftN (path [''authorizationScope''] p)) (\<lambda>y.
         ensureN (x = JStr SCOPE \<and> y = JStr SCOPE) ''scope'' (JStr SCOPE) (JStr [])))),
      (''flags'', objN [flag ''broadcastReady'' ''b'', flag ''liveWritesApproved'' ''l'',
         flag ''executionAuthorized'' ''e'', flag ''fundingAuthorized'' ''f'']),
      (''executable'', andN (fld asBoolT a [''meta'', ''executable''] ''executable'')
         (fld asBoolT p [''executable''] ''policy.executable'')),
      (''maxAllInclusiveExposureUsd'',
         bindN (liftN (path (au @ [''maxAllInclusiveExposureUsd'']) a)) (\<lambda>x.
         bindN (liftN (path [''caps'', ''aggregateUsd''] p)) (\<lambda>y.
         bindN (liftN (path [''maxAllInclusiveExposureUsd''] p)) (\<lambda>z.
         ensureN (jsNumber numText x = JNum 130 \<and> jsNumber numText y = JNum 130 \<and> jsNumber numText z = JNum 130)
           ''cap!=130'' (JNum 130) (JNum 0))))),
      (''generatedAtUtc'', fld asStr a [''meta'', ''generatedAtUtc''] ''generatedAtUtc''),
      (''expiresAtUtc'', fld asStr a [''meta'', ''expiresAtUtc''] ''expiresAtUtc''),
      (''validityWindowSeconds'',
         bindN (fld asI a [''meta'', ''validityWindowSeconds''] ''validity'') (\<lambda>x.
         bindN (liftN (path [''validity'', ''windowSeconds''] p)) (\<lambda>y.
         bindN (liftN (path [''meta'', ''validityWindowSeconds''] a)) (\<lambda>z.
         ensureN (strictEq x y) ''validity'' z (JNum 0))))),
      (''wallets'', objN [wallet ''deployer'', wallet ''tester'']),
      (''startNonces'', objN
        [(''deployerLatest'', fld asI a [''meta'', ''startNonces'', ''deployer''] ''sn.dl''),
         (''deployerPending'', fld asI a [''meta'', ''startNonces'', ''deployer''] ''sn.dp''),
         (''testerLatest'', fld asI a [''meta'', ''startNonces'', ''tester''] ''sn.tl''),
         (''testerPending'', fld asI a [''meta'', ''startNonces'', ''tester''] ''sn.tp'')])])"

definition blockField :: "(Json \<Rightarrow> string \<Rightarrow> Json noted) \<Rightarrow> Json \<Rightarrow> Json \<Rightarrow> string \<Rightarrow> string \<Rightarrow> string \<Rightarrow> Json noted" where
  "blockField num s a k mk w =
     bindN (liftN (path [''pinnedBlock'', k] s)) (\<lambda>x.
     bindN (num (JStr (jsString x)) w) (\<lambda>n.
     bindN (liftN (path [''meta'', mk] a)) (\<lambda>y.
     ensureN (strictEq n y) w (JStr (jsString x)) (JStr ''0''))))"

definition blockHashN :: "Json \<Rightarrow> Json \<Rightarrow> string \<Rightarrow> Json noted" where
  "blockHashN s a w =
     bindN (liftN (path [''pinnedBlock'', ''hash''] s)) (\<lambda>x.
     if \<not> isHexN 32 x then noteN w (JStr ''0x'')
     else bindN (liftN (rbind (path [''meta'', ''forkBlockHash''] a) stringOf)) (\<lambda>y.
          ensureN (lower (jsString x) = lower y) w (JStr (lower (jsString x))) (JStr ''0x'')))"

definition balancesN :: "(Json \<Rightarrow> string \<Rightarrow> Json noted) \<Rightarrow> Json \<Rightarrow> Json noted" where
  "balancesN num s =
     (let bal = (\<lambda>t w k. bindN (liftN (path [''balances'', t, w] s)) (\<lambda>x. num (JStr (jsString x)) k)) in objN
        [(''deployerEth'', bal ''eth'' ''deployer'' ''sb.de''), (''deployerWeth'', bal ''weth'' ''deployer'' ''sb.dw''),
         (''testerEth'', bal ''eth'' ''tester'' ''sb.te''), (''testerWeth'', bal ''weth'' ''tester'' ''sb.tw'')])"

definition snapshotN :: "Json \<Rightarrow> Json \<Rightarrow> Json \<Rightarrow> (string \<times> Json noted) list" where
  "snapshotN a p s =
     (let nonceF = (\<lambda>w k. (w,
            bindN (fld asI s [''nonces'', w] k) (\<lambda>x.
            bindN (liftN (path [''expectedNonces'', w] p)) (\<lambda>y.
            bindN (liftN (path [''nonces'', w] s)) (\<lambda>z.
            ensureN (strictEq x y) k z (JNum (-1)))))))
      in
     [(''block'', objN
        [(''number'', blockField asN s a ''number'' ''forkBlock'' ''block.num''),
         (''hash'', blockHashN s a ''block.hash''),
         (''timestamp'', blockField asN s a ''timestamp'' ''forkTimestamp'' ''block.ts''),
         (''baseFeePerGasWei'', blockField asN s a ''baseFeePerGasWei'' ''forkBaseFeePerGasWei'' ''block.bf''),
         (''chainId'', fld asI a [''meta'', ''chainId''] ''block.chain'')]),
      (''snapshotBalances'', balancesN asN s),
      (''snapshotNonces'', objN [nonceF ''deployer'' ''snn.d'', nonceF ''tester'' ''snn.t''])])"

definition infrastructureN :: "(string \<Rightarrow> exn + string) \<Rightarrow> Json \<Rightarrow> Json noted" where
  "infrastructureN ga p =
     objN (map (\<lambda>(k, w). (k, fld (asA ga) p [''infrastructure'', k] w))
       [(''weth'', ''weth''), (''uniswapV3Factory'', ''factory''), (''nonfungiblePositionManager'', ''npm''),
        (''swapRouter02'', ''swap''), (''rialtoRegistry'', ''registry''), (''nvdaStockToken'', ''nvda'')])"

definition transactionsN :: "(string \<Rightarrow> exn + string) \<Rightarrow> Json list \<Rightarrow> Json \<Rightarrow> Json noted" where
  "transactionsN ga ts delayed = objN
     [(''count'', bindN (asI (JNum (int (length ts))) ''txcount'') (\<lambda>n.
         ensureN (n = JNum 19) ''txcount!=19'' (JNum 19) (JNum 0))),
      (''immediate'', bindN (traverseN (\<lambda>(i, t). sigOf ga True (withPosition i t)) (enumerate 0 ts)) (\<lambda>vs. okN (JArr vs))),
      (''delayed'', objN (signedFields ga delayed @ [(''disabled'', asBoolT (JBool True) ''delayedDisabled'')]))]"

text \<open>\<open>req\<close>: what must be there before anything is read.\<close>

definition missingInputs :: "Json \<Rightarrow> Json \<Rightarrow> Json \<Rightarrow> string list" where
  "missingInputs a p s = map (\<lambda>c. ''missing '' @ fst c) (filter (\<lambda>c. \<not> snd c)
     [(''meta.authorization'', chain [''meta'', ''authorization''] a),
      (''safetyFlags'', chain [''safetyFlags''] a),
      (''forkFunding.inbound'', chain [''forkFunding'', ''inbound''] a),
      (''capArithmetic'', chain [''capArithmetic''] a),
      (''addressGuards'', chain [''addressGuards''] a),
      (''transactions'', chain [''immediateTransactions''] a \<and> chain [''delayedWithdrawalSubPacket''] a),
      (''provenance'', chain [''provenance'', ''contracts''] a),
      (''snapshot'', list_all (\<lambda>k. chain [k] s) [''pinnedBlock'', ''nonces'', ''balances'']),
      (''policy'', list_all (\<lambda>k. chain [k] p)
         [''wallets'', ''infrastructure'', ''caps'', ''gas'', ''validity'', ''expectedNonces'', ''snapshot''])])"

definition buildObject :: "(string \<Rightarrow> exn + string) \<Rightarrow> (string \<Rightarrow> Json) \<Rightarrow> Json \<Rightarrow> Json \<Rightarrow> Json \<Rightarrow> Json noted" where
  "buildObject ga numText a p s =
     bindN (liftN (rbind (path [''immediateTransactions''] a) arrayOf)) (\<lambda>ts.
     bindN (liftN (deploysOf numText ts)) (\<lambda>deploys.
     bindN (predictedN ga deploys) (\<lambda>predicted.
     bindN (fld asN a [''forkFunding'', ''inbound'', ''deployer'', ''weth''] ''inb.deployer.weth'') (\<lambda>wd.
     bindN (fld asN a [''forkFunding'', ''inbound'', ''tester'', ''weth''] ''inb.tester.weth'') (\<lambda>wt.
     let principal = bigOf wd + bigOf wt in
     bindN (fld asN a [''capArithmetic'', ''allInclusiveGasWei''] ''allInclusiveGasWei'') (\<lambda>gas.
     bindN (fld asN a [''capArithmetic'', ''aggregateWei''] ''aggWei'') (\<lambda>agg.
     bindN (ensureN (principal + bigOf gas = bigOf agg) ''exposure identity: principal+gas != aggregate'' JNull JNull) (\<lambda>_.
     bindN (liftN (rbind (path [''provenance'', ''contracts''] a) objectEntries)) (\<lambda>contracts.
     bindN (provenanceN contracts) (\<lambda>provenance.
     bindN (dependenciesN ga s) (\<lambda>dependencies.
     bindN (deploymentsN ga a deploys) (\<lambda>deployments.
     bindN (lpN ga numText a p) (\<lambda>lp.
     bindN (buyN ga a) (\<lambda>buy.
     bindN (sellN ga a) (\<lambda>sell.
     bindN (lockN ga a) (\<lambda>lk.
     bindN (liftN (path [''delayedWithdrawalSubPacket''] a)) (\<lambda>delayed.
     objN (identityN ga numText a p @ snapshotN a p s @
       [(''infrastructure'', infrastructureN ga p),
        (''pool'', fld (asA ga) a [''addressGuards'', ''poolAddress''] ''pool''),
        (''canaryTokenSymbol'', fld (asStrIs ''BPSC-TEST'') a [''addressGuards'', ''canaryTokenSymbol''] ''symbol''),
        (''predicted'', okN predicted),
        (''predictedAllEmptyAsserted'', fld asBoolT s [''allPredictedAddressesEmpty''] ''allEmpty''),
        (''dependencies'', okN dependencies), (''deployments'', okN deployments), (''lp'', okN lp),
        (''buy'', okN buy), (''sell'', okN sell), (''lock'', okN lk),
        (''transactions'', transactionsN ga ts delayed),
        (''exposure'', objN
          [(''totalPrincipalWei'', okN (JStr (dec_of_int principal))), (''totalMaxGasWei'', okN gas),
           (''aggregateWei'', okN agg),
           (''aggregateMicroUsd'', fld asN a [''capArithmetic'', ''allInclusiveExposureMicroUsd''] ''aggMicro'')]),
        (''provenance'', objN
          [(''repoHead'', fld asStr a [''provenance'', ''repoHead''] ''repoHead''),
           (''dirtyTrackedTree'', fld (\<lambda>x w. ensureN (x = JBool False) w (JBool False) (JBool True)) a
              [''provenance'', ''dirtyTrackedTree''] ''dirtyTree''),
           (''contracts'', okN provenance)]),
        (''digests'', objN
          [(''executionPacketDigest'', fld asStr a [''meta'', ''executionPacketDigest''] ''execDigest''),
           (''deploymentOnlyDigest'', fld asStr a [''meta'', ''deploymentOnlyDigest''] ''depDigest'')]),
        (''delayedWithdrawalDisabled'', asBoolT (JBool True) ''delayedWithdrawalDisabled'')]))))))))))))))))))"

text \<open>\<open>buildCanonical\<close>: the errors, and the object unless something was missing.\<close>

definition buildCanonical :: "(string \<Rightarrow> exn + string) \<Rightarrow> (string \<Rightarrow> Json) \<Rightarrow> Json \<Rightarrow> Json \<Rightarrow> Json
    \<Rightarrow> exn + string list \<times> Json option" where
  "buildCanonical ga numText a p s =
     (if missingInputs a p s \<noteq> [] then Inr (missingInputs a p s, None)
      else rbind (buildObject ga numText a p s) (\<lambda>(errors, v). Inr (errors, Some v)))"

text \<open>\<open>canonicalStable\<close> is the same function as the operator's \<open>_stable\<close>.\<close>

definition digestOf :: "(string \<Rightarrow> string) \<Rightarrow> Json \<Rightarrow> string" where
  "digestOf keccak v = keccak (utf8ToHex (stableText v))"

section \<open>The packaged copy\<close>

definition TOP_KEYS :: "string list" where
  "TOP_KEYS = [''schema'', ''version'', ''canary'', ''production'', ''chainId'', ''scope'', ''flags'', ''executable'',
     ''maxAllInclusiveExposureUsd'', ''generatedAtUtc'', ''expiresAtUtc'', ''validityWindowSeconds'', ''wallets'',
     ''startNonces'', ''block'', ''snapshotBalances'', ''snapshotNonces'', ''infrastructure'', ''pool'',
     ''canaryTokenSymbol'', ''predicted'', ''predictedAllEmptyAsserted'', ''dependencies'', ''deployments'', ''lp'',
     ''buy'', ''sell'', ''lock'', ''transactions'', ''exposure'', ''provenance'', ''digests'',
     ''delayedWithdrawalDisabled'']"

definition checkN :: "bool \<Rightarrow> string \<Rightarrow> unit noted" where
  "checkN c w = (if c then okN () else noteN w ())"

definition allN :: "('a \<Rightarrow> unit noted) \<Rightarrow> 'a list \<Rightarrow> unit noted" where
  "allN f xs = bindN (traverseN f xs) (\<lambda>_. okN ())"

definition thenN :: "unit noted \<Rightarrow> unit noted \<Rightarrow> unit noted" where
  "thenN x y = bindN x (\<lambda>_. y)"

definition seqN :: "unit noted list \<Rightarrow> unit noted" where
  "seqN xs = foldr thenN xs (okN ())"

text \<open>\<open>chkAddr\<close>, \<open>chkDec\<close>, \<open>chkHash\<close>.\<close>

definition chkAddr :: "(string \<Rightarrow> exn + string) \<Rightarrow> Json \<Rightarrow> string \<Rightarrow> unit noted" where
  "chkAddr ga x w =
     (if isHexN 20 x
      then bindN (liftN (ga (jsString x))) (\<lambda>c. checkN (c = jsString x) (''non-canonical-address '' @ w))
      else noteN (''non-canonical-address '' @ w) ())"

definition chkDec :: "Json \<Rightarrow> string \<Rightarrow> unit noted" where
  "chkDec x w = checkN (isDec x) (''non-canonical-number '' @ w)"

definition chkHash :: "Json \<Rightarrow> string \<Rightarrow> unit noted" where
  "chkHash x w = checkN (isHexN 32 x \<and> lower (jsString x) = jsString x) (''non-canonical-hash '' @ w)"

text \<open>A check of the properties \<open>ks\<close> of \<open>v\<close>; a block for a property that is present.\<close>

definition chkProps :: "(Json \<Rightarrow> string \<Rightarrow> unit noted) \<Rightarrow> Json \<Rightarrow> string \<Rightarrow> string list \<Rightarrow> unit noted" where
  "chkProps chk v w ks = allN (\<lambda>k. bindN (liftN (getProp k v)) (\<lambda>x. chk x (w @ k))) ks"

definition whenN :: "Json \<Rightarrow> (Json \<Rightarrow> unit noted) \<Rightarrow> unit noted" where
  "whenN v f = (if truthy v then f v else okN ())"

definition forEntries :: "Json \<Rightarrow> (string \<Rightarrow> Json \<Rightarrow> unit noted) \<Rightarrow> unit noted" where
  "forEntries v f = bindN (liftN (objectEntries v)) (\<lambda>kvs. allN (\<lambda>(k, x). f k x) kvs)"

definition chkEntry :: "(string \<Rightarrow> exn + string) \<Rightarrow> string \<Rightarrow> string \<Rightarrow> string \<Rightarrow> Json \<Rightarrow> unit noted" where
  "chkEntry ga addressKey w k d = seqN
     [bindN (liftN (getProp addressKey d)) (\<lambda>x. chkAddr ga x (w @ ''.'' @ k)),
      bindN (liftN (getProp ''runtimeCodeHash'' d)) (\<lambda>x. chkHash x (w @ ''.hash.'' @ k))]"

text \<open>The transactions. \<open>Set\<close> identifies what \<open>===\<close> does.\<close>

fun hasRepeat :: "Json list \<Rightarrow> bool" where
  "hasRepeat [] = False"
| "hasRepeat (x # xs) = (list_ex (strictEq x) xs \<or> hasRepeat xs)"

definition chkTransaction :: "(string \<Rightarrow> exn + string) \<Rightarrow> Json \<Rightarrow> unit noted" where
  "chkTransaction ga t = seqN
     [bindN (liftN (getProp ''signer'' t)) (\<lambda>x. chkAddr ga x ''tx.signer''),
      bindN (liftN (getProp ''to'' t)) (\<lambda>x. if x = JNull then okN () else chkAddr ga x ''tx.to''),
      chkProps chkDec t ''tx.'' [''value'', ''gasLimit'', ''maxFeePerGas'', ''maxPriorityFeePerGas''],
      bindN (liftN (getProp ''type'' t)) (\<lambda>x. checkN (x = JNum 2) ''tx.type''),
      bindN (liftN (getProp ''chainId'' t)) (\<lambda>x. checkN (x = JNum 4663) ''tx.chainId'')]"

definition chkTransactions :: "(string \<Rightarrow> exn + string) \<Rightarrow> Json \<Rightarrow> unit noted" where
  "chkTransactions ga v =
     bindN (liftN (getProp ''immediate'' v)) (\<lambda>x.
     bindN (liftN (arrayOf (if truthy x then x else JArr []))) (\<lambda>im.
     bindN (liftN (getProp ''count'' v)) (\<lambda>n.
     thenN (checkN (n = JNum 19 \<and> length im = 19) ''tx count'')
     (bindN (liftN (rmap (getProp ''index'') im)) (\<lambda>idxs.
     seqN
       [checkN (\<not> hasRepeat idxs) ''duplicate tx index'',
        checkN (list_all (\<lambda>(i, x). x = JNum (int i)) (enumerate 0 idxs)) ''non-sequential/reordered tx index'',
        allN (chkTransaction ga) im])))))"

definition chkTop :: "(string \<times> Json) list \<Rightarrow> (string \<Rightarrow> exn + string) \<Rightarrow> Json \<Rightarrow> unit noted list" where
  "chkTop entries ga loaded =
     (let top = (\<lambda>k f. bindN (liftN (getProp k loaded)) f) in
     [allN (\<lambda>(k, _). checkN (k \<in> set TOP_KEYS) (''unknown key '' @ k)) entries,
      allN (\<lambda>k. checkN (k \<in> fst ` set entries) (''missing key '' @ k)) TOP_KEYS,
      top ''schema'' (\<lambda>x. checkN (x = JStr CANON_SCHEMA) ''schema''),
      top ''version'' (\<lambda>x. checkN (x = JStr CANON_VERSION) ''version''),
      top ''chainId'' (\<lambda>x. checkN (x = JNum 4663) ''chainId''),
      top ''maxAllInclusiveExposureUsd'' (\<lambda>x. checkN (x = JNum 130) ''cap!=130''),
      top ''wallets'' (\<lambda>x. if truthy x then chkProps (chkAddr ga) x ''wallets.'' [''deployer'', ''tester'']
        else allN (\<lambda>k. chkAddr ga x (''wallets.'' @ k)) [''deployer'', ''tester'']),
      top ''infrastructure'' (\<lambda>x. whenN x (\<lambda>v. forEntries v (\<lambda>k y. chkAddr ga y (''infra.'' @ k)))),
      top ''pool'' (\<lambda>x. chkAddr ga x ''pool''),
      top ''predicted'' (\<lambda>x. whenN x (\<lambda>v. forEntries v (\<lambda>k y. chkAddr ga y (''predicted.'' @ k))))])"

definition chkGroups :: "(string \<Rightarrow> exn + string) \<Rightarrow> Json \<Rightarrow> unit noted list" where
  "chkGroups ga loaded =
     (let top = (\<lambda>k f. bindN (liftN (getProp k loaded)) (\<lambda>x. whenN x f));
          trade = (\<lambda>grp. top grp (\<lambda>v. seqN
            [chkProps (chkAddr ga) v (grp @ ''.'') [''trader'', ''recipient'', ''adapter'', ''stockBudgetRecipient''],
             chkProps chkDec v (grp @ ''.'') [''tradeId'', ''bpsBurned'']])) in
     [top ''exposure'' (\<lambda>v. chkProps chkDec v ''exposure.''
        [''totalPrincipalWei'', ''totalMaxGasWei'', ''aggregateWei'', ''aggregateMicroUsd'']),
      top ''dependencies'' (\<lambda>v. forEntries v (chkEntry ga ''address'' ''dep'')),
      top ''deployments'' (\<lambda>v. forEntries v (chkEntry ga ''predictedAddress'' ''deploy'')),
      top ''lp'' (\<lambda>v. seqN
        [chkProps (chkAddr ga) v ''lp.'' [''token0'', ''token1'', ''positionOwner''],
         chkProps chkDec v ''lp.'' [''sqrtPriceX96'', ''amount0Used'', ''amount1Used'', ''amount0Min'', ''amount1Min'',
           ''poolLiquidityAfter'']]),
      trade ''buy'', trade ''sell'',
      top ''lock'' (\<lambda>v. seqN
        [chkProps (chkAddr ga) v ''lock.'' [''account''],
         chkProps chkDec v ''lock.'' [''lockId'', ''principal'', ''startTime'', ''unlockTime'']]),
      bindN (liftN (getProp ''canaryTokenSymbol'' loaded)) (\<lambda>x. checkN (x = JStr ''BPSC-TEST'') ''canaryTokenSymbol''),
      top ''transactions'' (chkTransactions ga)])"

text \<open>\<open>validateStrict\<close>; its look at the raw text computes nothing.\<close>

definition isObjectValue :: "Json \<Rightarrow> bool" where
  "isObjectValue v = (case v of JObj _ \<Rightarrow> True | JArr _ \<Rightarrow> True | _ \<Rightarrow> False)"

definition validateStrict :: "(string \<Rightarrow> exn + string) \<Rightarrow> Json \<Rightarrow> exn + string list" where
  "validateStrict ga loaded =
     (if \<not> isObjectValue loaded then Inr [''not an object'']
      else rbind (objectEntries loaded) (\<lambda>entries.
           rbind (seqN (chkTop entries ga loaded @ chkGroups ga loaded)) (\<lambda>(errors, _). Inr errors)))"

section \<open>Repeated keys of a text\<close>

text \<open>
  \<open>rawDuplicateKeys\<close>: one pass over the text. The stack has the keys seen in each open object, and nothing for
  an open array.
\<close>

record KeyScan =
  ks_inStr :: bool
  ks_esc :: bool
  ks_expectKey :: bool
  ks_curKey :: string
  ks_stack :: "string list option list"
  ks_dups :: "string list"

definition keyScanStart :: KeyScan where
  "keyScanStart = \<lparr>ks_inStr = False, ks_esc = False, ks_expectKey = False, ks_curKey = [], ks_stack = [], ks_dups = []\<rparr>"

definition seenKey :: "KeyScan \<Rightarrow> KeyScan" where
  "seenKey st = (case ks_stack st of
     Some ks # rest \<Rightarrow> st\<lparr>ks_stack := Some (ks_curKey st # ks) # rest,
       ks_dups := (if ks_curKey st \<in> set ks then ks_dups st @ [ks_curKey st] else ks_dups st)\<rparr>
   | _ \<Rightarrow> st)"

definition inString :: "KeyScan \<Rightarrow> char \<Rightarrow> KeyScan" where
  "inString st c =
     (if ks_esc st then st\<lparr>ks_esc := False\<rparr>
      else if c = char_of (92 :: nat) then st\<lparr>ks_esc := True\<rparr>
      else if c = char_of (34 :: nat) then st\<lparr>ks_inStr := False\<rparr>
      else if ks_expectKey st then st\<lparr>ks_curKey := ks_curKey st @ [c]\<rparr>
      else st)"

definition keyScanStep :: "KeyScan \<Rightarrow> char \<Rightarrow> KeyScan" where
  "keyScanStep st c =
     (if ks_inStr st then inString st c
      else if c = char_of (34 :: nat)
      then st\<lparr>ks_inStr := True, ks_curKey := (if ks_expectKey st then [] else ks_curKey st)\<rparr>
      else if c = CHR ''{'' then st\<lparr>ks_stack := Some [] # ks_stack st, ks_expectKey := True, ks_curKey := []\<rparr>
      else if c = CHR ''}'' then st\<lparr>ks_stack := tl (ks_stack st)\<rparr>
      else if c = CHR '':'' then (seenKey st)\<lparr>ks_expectKey := False\<rparr>
      else if c = CHR '','' then (if ks_stack st \<noteq> [] then st\<lparr>ks_expectKey := True\<rparr> else st)
      else if c = CHR ''['' then st\<lparr>ks_stack := None # ks_stack st\<rparr>
      else if c = CHR '']'' then st\<lparr>ks_stack := tl (ks_stack st)\<rparr>
      else st)"

definition rawDuplicateKeys :: "string \<Rightarrow> string list" where
  "rawDuplicateKeys s = ks_dups (foldl keyScanStep keyScanStart s)"

end
