(* ===== verification/CanonicalText.thy ===== *)
theory CanonicalText
  imports CanonicalAuth
begin

text \<open>
  What the canonical text and the scan for repeated keys are worth: two values with the same canonical text
  are the same up to the order of keys, and the scan of a rendered value finds exactly the repeated keys.
\<close>

section \<open>Quoted texts\<close>

lemma hex_digit_inj: "a < 16 \<Longrightarrow> b < 16 \<Longrightarrow> hex_digit a = hex_digit b \<Longrightarrow> a = b"
  by (auto simp: hex_digit_def char_of_eq_iff take_bit_nat_eq_self split: if_splits)

lemma quote_char_inj:
  assumes "quote_char c = quote_char d"
  shows "c = d"
proof -
  have hex: "x = y" if "x < 32" "y < 32" "hex_digit (x div 16) = hex_digit (y div 16)"
    "hex_digit (x mod 16) = hex_digit (y mod 16)" for x y :: nat
  proof -
    have "x div 16 = y div 16" "x mod 16 = y mod 16"
      using that by (auto intro!: hex_digit_inj)
    then show ?thesis by (metis div_mult_mod_eq)
  qed
  have eq: "(of_char c :: nat) = of_char d \<Longrightarrow> c = d"
    by simp
  show ?thesis
    by (rule eq) (use assms in \<open>auto simp: quote_char_def Let_def char_of_def simp del: of_char_eq_iff intro: hex split: if_splits\<close>)
qed

lemma quote_char_prefix:
  assumes "quote_char c @ x = quote_char d @ y"
  shows "c = d \<and> x = y"
proof -
  define len where "len s = (if hd s \<noteq> char_of (92 :: nat) then 1 else if s ! 1 = CHR ''u'' then 6 else (2 :: nat))"
    for s
  have "length (quote_char e) = len (quote_char e @ z)" for e z
    by (auto simp: len_def quote_char_def Let_def char_of_def)
  then have "length (quote_char c) = length (quote_char d)" using assms by metis
  then show ?thesis using assms by (auto dest: quote_char_inj)
qed

lemma quote_char_first [simp]:
  "quote_char c \<noteq> []" "quote_char c \<noteq> char_of (34 :: nat) # r" "char_of (34 :: nat) # r \<noteq> quote_char c"
  by (auto simp: quote_char_def Let_def char_of_eq_iff split: if_splits)

lemma quote_prefix:
  assumes "quote s @ x = quote t @ y"
  shows "s = t \<and> x = y"
proof -
  let ?q = "char_of (34 :: nat)"
  have "concat (map quote_char s) @ ?q # x = concat (map quote_char t) @ ?q # y"
    using assms by (simp add: quote_def)
  then show ?thesis
  proof (induction s arbitrary: t)
    case Nil
    then show ?case
      by (cases t) (auto simp: append_eq_Cons_conv Cons_eq_append_conv)
  next
    case (Cons c s)
    then obtain d t' where t: "t = d # t'"
      by (cases t) (auto simp: append_eq_Cons_conv)
    with Cons.prems have "c = d" "concat (map quote_char s) @ ?q # x = concat (map quote_char t') @ ?q # y"
      using quote_char_prefix [of c "concat (map quote_char s) @ ?q # x" d "concat (map quote_char t') @ ?q # y"]
      by simp_all
    with Cons.IH t show ?case by simp
  qed
qed

section \<open>Equal canonical texts\<close>

text \<open>What a JSON text can carry: no \<open>undefined\<close>, bigint or fraction, and no key twice in an object.\<close>

fun plainJson :: "Json \<Rightarrow> bool" where
  "plainJson (JArr vs) = list_all plainJson vs"
| "plainJson (JObj kvs) = (distinct (map fst kvs) \<and> list_all (\<lambda>(k, v). plainJson v) kvs)"
| "plainJson JUndefined = False"
| "plainJson (JBigint i) = False"
| "plainJson JFrac = False"
| "plainJson _ = True"

text \<open>What the code may build: an \<open>undefined\<close> would vanish from an array.\<close>

fun rendered :: "Json \<Rightarrow> bool" where
  "rendered (JArr vs) = list_all (\<lambda>v. v \<noteq> JUndefined \<and> rendered v) vs"
| "rendered (JObj kvs) = (distinct (map fst kvs) \<and> list_all (\<lambda>(k, v). rendered v) kvs)"
| "rendered _ = True"

lemma plain_rendered: "plainJson v \<Longrightarrow> rendered v"
  by (induction v rule: plainJson.induct) (auto simp: list_all_iff)

lemma join_Cons: "join sep (x # xs) = x @ concat (map (\<lambda>y. sep @ y) xs)"
  by (induction xs arbitrary: x) auto

text \<open>What may follow a value in a text.\<close>

definition delimited :: "string \<Rightarrow> bool" where
  "delimited r \<longleftrightarrow> r = [] \<or> hd r \<in> {CHR '','', CHR ''}'', CHR '']''}"

definition numeric :: "char \<Rightarrow> bool" where
  "numeric c \<longleftrightarrow> is_digit_char c \<or> c = CHR ''-''"

lemma dec_of_int_numeric: "list_all numeric (dec_of_int i)"
  using dec_of_nat_digits [of "nat i"] dec_of_nat_digits [of "nat (- i)"]
  by (auto simp: dec_of_int_def numeric_def list_all_iff)

lemma delimited_numeric: "delimited r \<Longrightarrow> takeWhile numeric r = []"
  by (cases r) (auto simp: delimited_def numeric_def is_digit_char_def)

lemma dec_of_int_prefix:
  assumes "dec_of_int i @ r = dec_of_int j @ r'" and "delimited r" and "delimited r'"
  shows "i = j \<and> r = r'"
proof -
  have "takeWhile numeric (dec_of_int n @ q) = dec_of_int n" if "delimited q" for n q
    using dec_of_int_numeric [of n] delimited_numeric [OF that] by (simp add: list_all_iff takeWhile_append2)
  then have "dec_of_int i = dec_of_int j" using assms by metis
  then show ?thesis using assms(1) by simp
qed

lemma dec_of_int_hd: "dec_of_int i = c # s \<Longrightarrow> numeric c"
  using dec_of_int_numeric [of i] by simp

text \<open>The kind of a value is in the first character of its text.\<close>

fun kind :: "Json \<Rightarrow> char" where
  "kind (JBool b) = (if b then CHR ''t'' else CHR ''f'')"
| "kind (JNum i) = CHR ''0''"
| "kind (JStr s) = char_of (34 :: nat)"
| "kind (JArr vs) = CHR ''[''"
| "kind (JObj kvs) = CHR ''{''"
| "kind JNull = CHR ''n''"
| "kind JFrac = CHR ''.''"
| "kind _ = CHR ''u''"

definition kindOf :: "char \<Rightarrow> char" where
  "kindOf c = (if numeric c then CHR ''0'' else c)"

lemma stableText_first:
  assumes "rendered v"
  shows "\<exists>c s. stableText v = c # s \<and> kindOf c = kind v"
proof (cases v)
  case (JNum i)
  moreover have "dec_of_int i \<noteq> []" by (simp add: dec_of_int_def)
  ultimately show ?thesis by (cases "dec_of_int i") (auto dest: dec_of_int_hd simp: kindOf_def)
qed (use assms in \<open>auto simp: boolText_def quote_def numeric_def is_digit_char_def char_of_def kindOf_def\<close>)

lemma same_kind:
  assumes "stableText v @ r = stableText w @ r'" and "rendered v" and "rendered w"
  shows "kind v = kind w"
  using stableText_first [OF assms(2)] stableText_first [OF assms(3)] assms(1) by auto

lemma same_obj_sorted:
  assumes "list_all2 (\<lambda>p q. fst p = fst q \<and> same_json (snd p) (snd q)) (sort_keys kvs) (sort_keys kvs')"
    and "distinct (map fst kvs)"
  shows "same_json (JObj kvs) (JObj kvs')"
proof -
  obtain ms where "list_all2 (\<lambda>p q. fst p = fst q \<and> same_json (snd p) (snd q)) kvs ms"
    and "mset ms = mset (sort_keys kvs')"
    using list_all2_reorder_left_invariance [OF assms(1), of kvs] by auto
  then show ?thesis using same_obj [of kvs ms kvs'] assms(2) by simp
qed

text \<open>The elements of an array or object, up to the closing bracket \<open>e\<close>.\<close>

definition splits :: "('a \<Rightarrow> string) \<Rightarrow> ('a \<Rightarrow> 'a \<Rightarrow> bool) \<Rightarrow> 'a list \<Rightarrow> 'a list \<Rightarrow> bool" where
  "splits f R xs ys \<longleftrightarrow> (\<forall>x\<in>set xs. \<forall>y\<in>set ys. \<forall>q q'.
     f x @ q = f y @ q' \<longrightarrow> delimited q \<longrightarrow> delimited q' \<longrightarrow> R x y \<and> q = q')"

lemma splits_tail: "splits f R (x # xs) (y # ys) \<Longrightarrow> splits f R xs ys"
  unfolding splits_def by (meson list.set_intros(2))

lemma tail_prefix:
  assumes "splits f R xs ys" and "e \<in> {CHR ''}'', CHR '']''}"
    and "concat (map (\<lambda>x. '','' @ f x) xs) @ e # r = concat (map (\<lambda>x. '','' @ f x) ys) @ e # r'"
  shows "list_all2 R xs ys \<and> r = r'"
  using assms(1,3)
proof (induction xs arbitrary: ys)
  case Nil
  then show ?case using assms(2) by (cases ys) auto
next
  case (Cons x xs)
  then obtain y ys' where y: "ys = y # ys'" using assms(2) by (cases ys) auto
  let ?q = "\<lambda>zs r. concat (map (\<lambda>x. '','' @ f x) zs) @ e # r"
  have delim: "delimited (?q zs q)" for zs q using assms(2) by (cases zs) (auto simp: delimited_def)
  have "f x @ ?q xs r = f y @ ?q ys' r'" using Cons.prems(2) y by simp
  then have "R x y \<and> ?q xs r = ?q ys' r'"
    using Cons.prems(1) delim unfolding y splits_def by (metis list.set_intros(1))
  moreover have "splits f R xs ys'" using Cons.prems(1) unfolding y by (rule splits_tail)
  ultimately show ?case using Cons.IH y by auto
qed

lemma join_prefix:
  assumes "splits f R xs ys" and e: "e \<in> {CHR ''}'', CHR '']''}"
    and "join '','' (map f xs) @ e # r = join '','' (map f ys) @ e # r'"
    and first: "\<And>x. x \<in> set xs \<union> set ys \<Longrightarrow> \<exists>c s. f x = c # s \<and> c \<noteq> e"
  shows "list_all2 R xs ys \<and> r = r'"
proof (cases xs)
  case Nil
  then show ?thesis using assms(3) first
    by (cases ys) (auto simp: join_Cons, metis append_Cons list.inject)
next
  case (Cons x xs')
  then obtain y ys' where y: "ys = y # ys'"
    using assms(3) first by (cases ys) (auto simp: join_Cons, metis append_Cons list.inject)
  let ?q = "\<lambda>zs r. concat (map (\<lambda>x. '','' @ f x) zs) @ e # r"
  have delim: "delimited (?q zs q)" for zs q using e by (cases zs) (auto simp: delimited_def)
  have "f x @ ?q xs' r = f y @ ?q ys' r'" using assms(3) Cons y by (simp add: join_Cons comp_def)
  then have "R x y \<and> ?q xs' r = ?q ys' r'"
    using assms(1) delim unfolding Cons y splits_def by (metis list.set_intros(1))
  moreover have "splits f R xs' ys'" using assms(1) unfolding Cons y by (rule splits_tail)
  ultimately show ?thesis using tail_prefix [OF _ e, of f R xs' ys' r r'] Cons y by simp
qed

lemma first_not_bracket:
  assumes "rendered v"
  shows "\<exists>c s. stableText v = c # s \<and> c \<noteq> CHR '']''"
  using stableText_first [OF assms]
  by (cases v) (auto simp: kindOf_def numeric_def is_digit_char_def char_of_def split: if_splits)

lemma array_text:
  assumes "rendered (JArr vs)"
  shows "stableText (JArr vs) = CHR ''['' # join '','' (map stableText vs) @ '']''"
proof -
  have "map (\<lambda>v. if v = JUndefined then [] else stableText v) vs = map stableText vs"
    by (rule map_cong) (use assms in \<open>auto simp: list_all_iff\<close>)
  then show ?thesis by (metis stableText.simps(1) append_Cons append_Nil)
qed

lemma stableText_prefix:
  assumes "plainJson v" and "rendered w" and "stableText v @ r = stableText w @ r'"
    and "delimited r" and "delimited r'"
  shows "same_json v w \<and> r = r'"
  using assms
proof (induction v arbitrary: w r r' rule: stableText.induct)
  case (1 vs)
  obtain ws where w: "w = JArr ws"
    using same_kind [OF "1.prems"(3) plain_rendered [OF "1.prems"(1)] "1.prems"(2)] by (cases w) (auto split: if_splits simp: char_of_def)
  have plain: "list_all plainJson vs" "rendered (JArr vs)" "rendered (JArr ws)"
    using "1.prems"(1,2) plain_rendered w by (auto simp del: rendered.simps)
  have "splits stableText same_json vs ws"
    using "1.IH" plain unfolding splits_def list_all_iff rendered.simps by (metis plainJson.simps(3))
  then have "list_all2 same_json vs ws \<and> r = r'"
  proof (rule join_prefix [where e = "CHR '']''"])
    show "join '','' (map stableText vs) @ CHR '']'' # r = join '','' (map stableText ws) @ CHR '']'' # r'"
      using "1.prems"(3) plain w by (simp add: array_text del: stableText.simps(1))
  qed (use plain first_not_bracket in \<open>auto simp: list_all_iff\<close>)
  then show ?case using w by (simp add: same_arr)
next
  case (2 kvs)
  let ?f = "\<lambda>p. quote (fst p) @ '':'' @ stableText (snd p)"
  let ?R = "\<lambda>p q. fst p = fst q \<and> same_json (snd p) (snd q)"
  obtain ms where w: "w = JObj ms"
    using same_kind [OF "2.prems"(3) plain_rendered [OF "2.prems"(1)] "2.prems"(2)] by (cases w) (auto split: if_splits simp: char_of_def)
  have plain: "\<forall>p\<in>set kvs. plainJson (snd p)" "\<forall>p\<in>set ms. rendered (snd p)"
    using "2.prems"(1,2) w by (auto simp: list_all_iff)
  have "splits ?f ?R (sort_keys kvs) (sort_keys ms)"
    unfolding splits_def
  proof (intro ballI allI impI)
    fix p q x y
    assume in_sets: "p \<in> set (sort_keys kvs)" "q \<in> set (sort_keys ms)"
      and eq: "?f p @ x = ?f q @ y" and delim: "delimited x" "delimited y"
    have "fst p = fst q \<and> '':'' @ stableText (snd p) @ x = '':'' @ stableText (snd q) @ y"
      using quote_prefix [of "fst p" "'':'' @ stableText (snd p) @ x"] eq by simp
    then show "?R p q \<and> x = y"
      using "2.IH" [of p "snd q" x y] in_sets plain delim by simp
  qed
  then have "list_all2 ?R (sort_keys kvs) (sort_keys ms) \<and> r = r'"
  proof (rule join_prefix [where e = "CHR ''}''"])
    show "join '','' (map ?f (sort_keys kvs)) @ CHR ''}'' # r = join '','' (map ?f (sort_keys ms)) @ CHR ''}'' # r'"
      using "2.prems"(3) w by simp
  qed (auto simp: quote_def char_of_def)
  then show ?case using w "2.prems"(1) by (simp add: same_obj_sorted)
next
  case (3 s)
  then obtain t where "w = JStr t"
    using same_kind [OF "3.prems"(3) plain_rendered [OF "3.prems"(1)] "3.prems"(2)] by (cases w) (auto split: if_splits simp: char_of_def)
  then show ?case using "3.prems" quote_prefix [of s r t r'] by (auto intro: same_json.same_refl)
next
  case (4 b)
  then have "w = JBool b"
    using same_kind [OF "4.prems"(3) plain_rendered [OF "4.prems"(1)] "4.prems"(2)] by (cases w) (auto split: if_splits simp: char_of_def)
  then show ?case using "4.prems" by (auto intro: same_json.same_refl)
next
  case (5 i)
  then obtain j where "w = JNum j"
    using same_kind [OF "5.prems"(3) plain_rendered [OF "5.prems"(1)] "5.prems"(2)] by (cases w) (auto split: if_splits simp: char_of_def)
  then show ?case using "5.prems" dec_of_int_prefix [of i r j r'] by (auto intro: same_json.same_refl)
next
  case 6
  then have "w = JNull"
    using same_kind [OF "6.prems"(3) plain_rendered [OF "6.prems"(1)] "6.prems"(2)] by (cases w) (auto split: if_splits simp: char_of_def)
  then show ?case using "6.prems" by (auto intro: same_json.same_refl)
qed simp_all

lemma stableText_same:
  "plainJson v \<Longrightarrow> rendered w \<Longrightarrow> stableText v = stableText w \<Longrightarrow> same_json v w"
  using stableText_prefix [of v w "[]" "[]"] by (simp add: delimited_def)

lemma stableText_cong:
  assumes "same_json v w"
  shows "stableText v = stableText w"
  using assms
proof (induction rule: same_json.induct)
  case (same_arr vs ws)
  have "list_all2 (\<lambda>v w. (if v = JUndefined then [] else stableText v) = (if w = JUndefined then [] else stableText w))
      vs ws"
    using same_arr by (rule list_all2_mono) (auto elim: same_json.cases)
  then have "map (\<lambda>v. if v = JUndefined then [] else stableText v) vs =
      map (\<lambda>v. if v = JUndefined then [] else stableText v) ws"
    by (induction rule: list_all2_induct) auto
  then show ?case by (simp only: stableText.simps(1))
next
  case (same_obj kvs ms kvs')
  let ?R = "\<lambda>p q. fst p = fst q \<and> stableText (snd p) = stableText (snd q)"
  have all: "list_all2 ?R kvs ms" using same_obj(1) by (auto elim!: list_all2_mono)
  have "map fst kvs = map fst ms" using all by (induction rule: list_all2_induct) auto
  then have "sort_keys ms = sort_keys kvs'"
    using same_obj(2,3) by (intro sort_keys_perm) simp_all
  moreover have "list_all2 ?R (sort_keys kvs) (sort_keys ms)"
    unfolding sort_keys_def by (rule js_sort_all2 [OF all]) simp
  then have "map (\<lambda>p. quote (fst p) @ '':'' @ stableText (snd p)) (sort_keys kvs) =
      map (\<lambda>p. quote (fst p) @ '':'' @ stableText (snd p)) (sort_keys ms)"
    by (induction rule: list_all2_induct) auto
  ultimately show ?case by simp
qed simp

lemma byte_hex: "padStart 2 (hexDigits (of_char c)) = [hex_digit (of_char c div 16), hex_digit (of_char c mod 16)]"
proof -
  define n where "n = (of_char c :: nat)"
  have n: "n < 256" "(of_char c :: int) = int n" by (simp_all add: n_def of_nat_of_char)
  have "int n div 16 < 16" using n(1) by linarith
  then have "hexDigits (int n) =
      (if n < 16 then [hex_digit n] else [hex_digit (n div 16), hex_digit (n mod 16)])"
    using n(1) by (simp add: hexDigits.simps [of "int n"] hexDigits.simps [of "int n div 16"] zmod_int
        nat_div_distrib nat_mod_distrib)
  moreover have "CHR ''0'' = char_of (48 :: nat)" by (subst eq_commute) (simp add: char_of_eq_iff)
  ultimately show ?thesis
    unfolding n(2) n_def [symmetric] by (simp add: padStart_def hex_digit_def)
qed

lemma byte_hex_inj:
  "padStart 2 (hexDigits (of_char c)) = padStart 2 (hexDigits (of_char d)) \<Longrightarrow> c = d"
proof -
  assume "padStart 2 (hexDigits (of_char c)) = padStart 2 (hexDigits (of_char d))"
  moreover have "(of_char c :: nat) < 256" "(of_char d :: nat) < 256" by simp_all
  ultimately have "(of_char c :: nat) div 16 = of_char d div 16" "(of_char c :: nat) mod 16 = of_char d mod 16"
    by (auto simp: byte_hex less_mult_imp_div_less intro!: hex_digit_inj)
  then have "(of_char c :: nat) = of_char d" by (metis div_mult_mod_eq)
  then show "c = d" by simp
qed

lemma utf8ToHex_inj: "utf8ToHex s = utf8ToHex t \<longleftrightarrow> s = t"
proof
  let ?h = "\<lambda>c. padStart 2 (hexDigits (of_char c))"
  have "concat (map ?h s) = concat (map ?h t) \<Longrightarrow> s = t"
  proof (induction s arbitrary: t)
    case Nil
    then show ?case by (cases t) (auto simp: byte_hex)
  next
    case (Cons c s)
    then obtain d t' where t: "t = d # t'" by (cases t) (auto simp: byte_hex)
    have len: "length (?h e) = 2" for e by (simp add: byte_hex)
    from Cons.prems have "?h c @ concat (map ?h s) = ?h d @ concat (map ?h t')" by (simp add: t)
    then have "?h c = ?h d" "concat (map ?h s) = concat (map ?h t')"
      by (metis append_eq_append_conv len)+
    with Cons.IH show ?case by (simp add: t byte_hex_inj)
  qed
  then show "utf8ToHex s = utf8ToHex t \<Longrightarrow> s = t" by (simp add: utf8ToHex_def)
qed simp

text \<open>
  C18: the digest commits to every leaf. For two values that a JSON text can carry, and a hash without a
  collision on their two texts, the digests agree exactly when the values are the same at every depth up to
  the order of keys.
\<close>

theorem digestOf_commits:
  assumes "plainJson v" and "plainJson w"
    and "keccak (utf8ToHex (stableText v)) = keccak (utf8ToHex (stableText w)) \<Longrightarrow>
      utf8ToHex (stableText v) = utf8ToHex (stableText w)"
  shows "digestOf keccak v = digestOf keccak w \<longleftrightarrow> same_json v w"
  using assms(3) stableText_same [OF assms(1) plain_rendered [OF assms(2)]] stableText_cong [of v w]
  unfolding digestOf_def utf8ToHex_inj by metis

theorem digestOf_commits_witness:
  "digestOf id ex_json1 = digestOf id ex_json2 \<and> digestOf id ex_json1 \<noteq> digestOf id (JObj [(''a'', JNum 1)])"
proof -
  have plain: "plainJson ex_json1" "plainJson ex_json2" "plainJson (JObj [(''a'', JNum 1)])"
    by (simp_all add: ex_json1_def ex_json2_def)
  have "\<not> same_json ex_json1 (JObj [(''a'', JNum 1)])"
    by (auto simp: ex_json1_def elim!: same_json.cases)
  then show ?thesis
    using digestOf_commits [OF plain(1,2), of id] digestOf_commits [OF plain(1,3), of id] ex_json_same by simp
qed

section \<open>Repeated keys\<close>

text \<open>The keys that come again in their object, in the order of the text.\<close>

fun repeatedKeys :: "Json \<Rightarrow> string list" and repeatedIn :: "string set \<Rightarrow> (string \<times> Json) list \<Rightarrow> string list" where
  "repeatedKeys (JArr vs) = concat (map repeatedKeys vs)"
| "repeatedKeys (JObj kvs) = repeatedIn {} kvs"
| "repeatedKeys v = []"
| "repeatedIn ks [] = []"
| "repeatedIn ks ((k, v) # kvs) = (if k \<in> ks then [k] else []) @ repeatedKeys v @ repeatedIn (insert k ks) kvs"

text \<open>Keys that are rendered as they are.\<close>

definition plainKey :: "string \<Rightarrow> bool" where
  "plainKey k \<longleftrightarrow> list_all (\<lambda>c. quote_char c = [c]) k"

fun plainKeys :: "Json \<Rightarrow> bool" where
  "plainKeys (JArr vs) = list_all plainKeys vs"
| "plainKeys (JObj kvs) = list_all (\<lambda>(k, v). plainKey k \<and> plainKeys v) kvs"
| "plainKeys v = True"

fun distinctKeys :: "Json \<Rightarrow> bool" where
  "distinctKeys (JArr vs) = list_all distinctKeys vs"
| "distinctKeys (JObj kvs) = (distinct (map fst kvs) \<and> list_all (\<lambda>(k, v). distinctKeys v) kvs)"
| "distinctKeys v = True"

abbreviation scan :: "KeyScan \<Rightarrow> string \<Rightarrow> KeyScan" where
  "scan \<equiv> foldl keyScanStep"

text \<open>Between the tokens of a text.\<close>

definition outside :: "KeyScan \<Rightarrow> bool" where
  "outside st \<longleftrightarrow> \<not> ks_inStr st \<and> \<not> ks_esc st"

definition special :: "char \<Rightarrow> bool" where
  "special c \<longleftrightarrow> c \<in> {char_of (34 :: nat), CHR ''{'', CHR ''}'', CHR '':'', CHR '','', CHR ''['', CHR '']''}"

lemma scan_plain: "outside st \<Longrightarrow> \<forall>c\<in>set s. \<not> special c \<Longrightarrow> scan st s = st"
  by (induction s) (simp_all add: keyScanStep_def outside_def special_def)

definition inner :: "char \<Rightarrow> bool" where
  "inner c \<longleftrightarrow> c \<noteq> char_of (34 :: nat) \<and> c \<noteq> char_of (92 :: nat)"

lemma inner_hex_digit: "d < 16 \<Longrightarrow> inner (hex_digit d)"
  by (auto simp: inner_def hex_digit_def char_of_eq_iff take_bit_nat_eq_self)

lemma quote_char_cases:
  obtains (Plain) "quote_char c = [c]" "inner c"
    | (Escaped) x s where "quote_char c = char_of (92 :: nat) # x # s" "list_all inner s" "quote_char c \<noteq> [c]"
proof (cases "of_char c \<in> {34, 92 :: nat} \<or> (of_char c :: nat) < 32")
  case False
  then have "c \<noteq> char_of (34 :: nat)" "c \<noteq> char_of (92 :: nat)" by (auto simp: of_char_of)
  with False show ?thesis by (intro Plain) (auto simp: quote_char_def Let_def inner_def)
next
  case True
  have "inner (CHR ''0'')" by (simp add: inner_def char_of_def)
  with True show ?thesis
    by (intro Escaped [of "hd (tl (quote_char c))" "tl (tl (quote_char c))"])
      (auto simp: quote_char_def Let_def intro!: inner_hex_digit split: if_splits)
qed

definition inString_after :: "KeyScan \<Rightarrow> string \<Rightarrow> KeyScan" where
  "inString_after st s = st\<lparr>ks_curKey := (if ks_expectKey st then ks_curKey st @ s else ks_curKey st)\<rparr>"

lemma scan_inner:
  assumes "ks_inStr st" and "\<not> ks_esc st" and "list_all inner s"
  shows "scan st s = inString_after st s"
  using assms
proof (induction s arbitrary: st)
  case (Cons c s)
  then have "keyScanStep st c = inString_after st [c]"
    by (simp add: keyScanStep_def inString_def inString_after_def inner_def)
  with Cons show ?case by (simp add: inString_after_def)
qed (simp add: inString_after_def)

lemma scan_quote_char:
  assumes "ks_inStr st" and "\<not> ks_esc st"
  shows "\<exists>s. scan st (quote_char c) = inString_after st s \<and> (quote_char c = [c] \<longrightarrow> s = [c])"
proof (cases rule: quote_char_cases [of c])
  case Plain
  then show ?thesis using scan_inner [OF assms, of "[c]"] by (intro exI [of _ "[c]"]) simp
next
  case (Escaped x s)
  have "keyScanStep (keyScanStep st (char_of (92 :: nat))) x = st"
    using assms by (simp add: keyScanStep_def inString_def char_of_def)
  then have "scan st (quote_char c) = inString_after st s"
    using scan_inner [OF assms] Escaped by simp
  with Escaped show ?thesis by auto
qed

lemma scan_quoted_inside:
  assumes "ks_inStr st" and "\<not> ks_esc st"
  shows "\<exists>t. scan st (concat (map quote_char s)) = inString_after st t \<and> (plainKey s \<longrightarrow> t = s)"
  using assms
proof (induction s arbitrary: st)
  case (Cons c s)
  obtain t where t: "scan st (quote_char c) = inString_after st t" "quote_char c = [c] \<longrightarrow> t = [c]"
    using scan_quote_char [OF Cons.prems] by blast
  obtain u where "scan (inString_after st t) (concat (map quote_char s)) = inString_after (inString_after st t) u"
    "plainKey s \<longrightarrow> u = s"
    using Cons.IH [of "inString_after st t"] Cons.prems by (auto simp: inString_after_def)
  with t show ?case
    by (intro exI [of _ "t @ u"]) (auto simp: inString_after_def plainKey_def)
qed (auto simp: inString_after_def intro: exI [of _ "[]"])

text \<open>A quoted text outside: as a key it is remembered.\<close>

lemma scan_quote:
  assumes "outside st"
  shows "\<exists>k. scan st (quote s) = st\<lparr>ks_curKey := k\<rparr> \<and> (ks_expectKey st \<and> plainKey s \<longrightarrow> k = s)"
proof -
  let ?st = "st\<lparr>ks_inStr := True, ks_curKey := (if ks_expectKey st then [] else ks_curKey st)\<rparr>"
  have start: "keyScanStep st (char_of (34 :: nat)) = ?st"
    using assms by (simp add: outside_def keyScanStep_def)
  obtain t where t: "scan ?st (concat (map quote_char s)) = inString_after ?st t" "plainKey s \<longrightarrow> t = s"
    using scan_quoted_inside [of ?st s] assms by (auto simp: outside_def)
  have "keyScanStep (inString_after ?st t) (char_of (34 :: nat)) =
      st\<lparr>ks_curKey := ks_curKey (inString_after ?st t)\<rparr>"
    using assms by (simp add: keyScanStep_def inString_def inString_after_def outside_def char_of_def)
  then have "scan st (quote s) = st\<lparr>ks_curKey := ks_curKey (inString_after ?st t)\<rparr>"
    using start t(1) by (simp add: quote_def)
  then show ?thesis using t(2) by (intro exI conjI) (auto simp: inString_after_def)
qed

text \<open>After a value: the same stack, and the repeated keys found.\<close>

definition leaves :: "KeyScan \<Rightarrow> string list \<Rightarrow> KeyScan \<Rightarrow> bool" where
  "leaves st ds st' \<longleftrightarrow> ks_inStr st' = ks_inStr st \<and> ks_esc st' = ks_esc st \<and> ks_stack st' = ks_stack st
     \<and> ks_dups st' = ks_dups st @ ds"

lemma leaves_outside: "leaves st ds st' \<Longrightarrow> outside st' = outside st"
  by (auto simp: leaves_def outside_def)

lemma leaves_trans: "leaves st ds st' \<Longrightarrow> leaves st' es st'' \<Longrightarrow> leaves st (ds @ es) st''"
  by (auto simp: leaves_def)

lemma leaves_stack: "leaves st ds st' \<Longrightarrow> ks_stack st' = ks_stack st"
  by (auto simp: leaves_def)

lemma spaces_plain: "\<forall>c\<in>set (newline @ spaces n). \<not> special c"
proof -
  have "\<not> special (CHR '' '')" by (simp add: special_def char_of_def)
  moreover have "\<not> special (char_of (10 :: nat))" by (simp add: special_def char_of_eq_iff)
  ultimately show ?thesis by (auto simp: newline_def spaces_def)
qed

lemma scan_newline: "outside st \<Longrightarrow> scan st (newline @ spaces n) = st"
  by (rule scan_plain [OF _ spaces_plain])

lemma scan_separator:
  assumes "outside st" and "ks_stack st \<noteq> []"
  shows "scan st ('','' @ newline @ spaces n) = st\<lparr>ks_expectKey := True\<rparr>"
  using assms scan_newline [of "st\<lparr>ks_expectKey := True\<rparr>" n]
  by (simp add: keyScanStep_def outside_def char_of_def)

lemma scan_elements:
  assumes each: "\<And>v st. v \<in> set vs \<Longrightarrow> outside st \<Longrightarrow> leaves st (repeatedKeys v) (scan st (f v))"
    and "outside st" and "ks_stack st \<noteq> []"
  shows "leaves st (concat (map repeatedKeys vs)) (scan st (concat (map (\<lambda>v. ('','' @ newline @ spaces n) @ f v) vs)))"
  using assms
proof (induction vs arbitrary: st)
  case Nil
  then show ?case by (simp add: leaves_def)
next
  case (Cons v vs)
  let ?a = "st\<lparr>ks_expectKey := True\<rparr>"
  have a: "outside ?a" "leaves st [] ?a"
    using Cons.prems by (auto simp: outside_def leaves_def)
  have b: "leaves ?a (repeatedKeys v) (scan ?a (f v))" using Cons.prems(1) a(1) by simp
  have "leaves (scan ?a (f v)) (concat (map repeatedKeys vs))
      (scan (scan ?a (f v)) (concat (map (\<lambda>v. ('','' @ newline @ spaces n) @ f v) vs)))"
    using Cons.prems a(1) leaves_outside [OF b] leaves_stack [OF b] by (intro Cons.IH) simp_all
  with a(2) b have "leaves st ([] @ repeatedKeys v @ concat (map repeatedKeys vs))
      (scan (scan ?a (f v)) (concat (map (\<lambda>v. ('','' @ newline @ spaces n) @ f v) vs)))"
    by (blast intro: leaves_trans)
  moreover have "scan st ('','' @ newline @ spaces n) = ?a" using scan_separator Cons.prems by blast
  ultimately show ?case by (simp del: append_assoc add: append_assoc [symmetric])
qed

text \<open>The state after a key and its colon.\<close>

definition keyed :: "KeyScan \<Rightarrow> string \<Rightarrow> string list \<Rightarrow> string list option list \<Rightarrow> KeyScan" where
  "keyed st k ks rest = st\<lparr>ks_stack := Some (k # ks) # rest, ks_expectKey := False, ks_curKey := k,
     ks_dups := (if k \<in> set ks then ks_dups st @ [k] else ks_dups st)\<rparr>"

lemma scan_key:
  assumes "outside st" and "ks_expectKey st" and "plainKey k" and "ks_stack st = Some ks # rest"
  shows "scan st (quote k @ '': '') = keyed st k ks rest"
proof -
  have "scan st (quote k) = st\<lparr>ks_curKey := k\<rparr>" using scan_quote [OF assms(1), of k] assms(2,3) by blast
  then show ?thesis
    using assms(1,4) by (cases st) (simp add: keyScanStep_def outside_def seenKey_def keyed_def char_of_def)
qed

lemma keyed_simps [simp]:
  "outside (keyed st k ks rest) = outside st" "ks_stack (keyed st k ks rest) = Some (k # ks) # rest"
  by (simp_all add: keyed_def outside_def)

lemma scan_entries:
  assumes each: "\<And>k v st. (k, v) \<in> set kvs \<Longrightarrow> outside st \<Longrightarrow> leaves st (repeatedKeys v) (scan st (f v))"
    and "\<forall>(k, v)\<in>set kvs. plainKey k"
    and "outside st" and "ks_stack st = Some ks # rest"
  shows "\<exists>ks'. leaves (st\<lparr>ks_stack := Some ks' # rest\<rparr>) (repeatedIn (set ks) kvs)
    (scan st (concat (map (\<lambda>(k, v). ('','' @ newline @ spaces n) @ quote k @ '': '' @ f v) kvs)))"
  using assms
proof (induction kvs arbitrary: st ks)
  case Nil
  then show ?case by (auto simp: leaves_def)
next
  case (Cons p kvs)
  obtain k v where p: "p = (k, v)" by (cases p)
  let ?st = "keyed (st\<lparr>ks_expectKey := True\<rparr>) k ks rest"
  have out: "outside (st\<lparr>ks_expectKey := True\<rparr>)" using Cons.prems(3) by (simp add: outside_def)
  have key: "scan st (('','' @ newline @ spaces n) @ quote k @ '': '') = ?st"
    using scan_separator [OF Cons.prems(3), of n] scan_key [OF out, of k ks rest] Cons.prems(2,4) p by simp
  have v: "leaves ?st (repeatedKeys v) (scan ?st (f v))"
    using Cons.prems(1) [of k v ?st] p out by simp
  obtain ks' where "leaves ((scan ?st (f v))\<lparr>ks_stack := Some ks' # rest\<rparr>) (repeatedIn (set (k # ks)) kvs)
      (scan (scan ?st (f v)) (concat (map (\<lambda>(k, v). ('','' @ newline @ spaces n) @ quote k @ '': '' @ f v) kvs)))"
    using Cons.IH [of "scan ?st (f v)" "k # ks"] Cons.prems(1,2) out leaves_outside [OF v] leaves_stack [OF v]
    by auto
  moreover have "scan st (concat (map (\<lambda>(k, v). ('','' @ newline @ spaces n) @ quote k @ '': '' @ f v) (p # kvs))) =
      scan (scan ?st (f v)) (concat (map (\<lambda>(k, v). ('','' @ newline @ spaces n) @ quote k @ '': '' @ f v) kvs))"
    using key by (simp add: p)
  ultimately show ?case using v by (intro exI [of _ ks']) (auto simp: leaves_def keyed_def p)
qed

lemma scan_digits:
  assumes "outside st"
  shows "scan st (dec_of_int i) = st"
proof (rule scan_plain [OF assms], intro ballI)
  fix c assume "c \<in> set (dec_of_int i)"
  then have "numeric c" using dec_of_int_numeric [of i] by (auto simp: list_all_iff)
  then show "\<not> special c" by (auto simp: numeric_def special_def is_digit_char_def char_of_def bit_0)
qed

lemma scan_value:
  assumes "plainKeys v" and "outside st"
  shows "leaves st (repeatedKeys v) (scan st (stringify n v))"
  using assms
proof (induction n v arbitrary: st rule: stringify.induct)
  case (1 n s)
  then show ?case using scan_quote [of st s] by (auto simp: leaves_def)
next
  case (2 n b)
  then show ?case by (auto simp: leaves_def keyScanStep_def outside_def char_of_def)
next
  case (3 n i)
  then show ?case by (simp add: scan_digits leaves_def)
next
  case (4 n vs)
  show ?case
  proof (cases vs)
    case Nil
    then show ?thesis using "4.prems" by (simp add: leaves_def keyScanStep_def outside_def char_of_def)
  next
    case (Cons v ws)
    let ?a = "st\<lparr>ks_stack := None # ks_stack st\<rparr>"
    let ?tail = "concat (map (\<lambda>v. ('','' @ newline @ spaces (n + 2)) @ stringify (n + 2) v) ws)"
    have a: "outside ?a" "scan st (''['' @ newline @ spaces (n + 2)) = ?a"
      using "4.prems"(2) scan_newline [of ?a] by (simp_all add: keyScanStep_def outside_def char_of_def)
    have each: "leaves q (repeatedKeys w) (scan q (stringify (n + 2) w))" if "w \<in> set vs" "outside q" for w q
      using "4.IH" [OF _ that(1), of q] "4.prems"(1) that by (cases vs) (auto simp: list_all_iff)
    let ?b = "scan ?a (stringify (n + 2) v)"
    have b: "leaves ?a (repeatedKeys v) ?b" by (rule each) (simp_all add: Cons a)
    have "leaves ?b (concat (map repeatedKeys ws)) (scan ?b ?tail)"
      using each leaves_outside [OF b] leaves_stack [OF b] a(1) by (intro scan_elements) (auto simp: Cons)
    then have c: "leaves ?a (repeatedKeys (JArr vs)) (scan ?b ?tail)"
      using leaves_trans [OF b] by (simp add: Cons)
    have "scan st (stringify n (JArr vs)) = keyScanStep (scan (scan ?b ?tail) (newline @ spaces n)) (CHR '']'')"
      using a(2) by (simp add: Cons join_Cons comp_def)
    also have "scan (scan ?b ?tail) (newline @ spaces n) = scan ?b ?tail"
      using leaves_outside [OF c] a(1) by (intro scan_newline) simp
    finally show ?thesis
      using c "4.prems"(2) by (simp add: leaves_def keyScanStep_def outside_def char_of_def)
  qed
next
  case (5 n kvs)
  show ?case
  proof (cases kvs)
    case Nil
    then show ?thesis using "5.prems" by (simp add: leaves_def keyScanStep_def outside_def char_of_def)
  next
    case (Cons p ms)
    obtain k v where p: "p = (k, v)" by (cases p)
    let ?a = "st\<lparr>ks_stack := Some [] # ks_stack st, ks_expectKey := True, ks_curKey := []\<rparr>"
    let ?tail = "concat (map (\<lambda>(k, v). ('','' @ newline @ spaces (n + 2)) @ quote k @ '': '' @ stringify (n + 2) v) ms)"
    let ?k = "keyed ?a k [] (ks_stack st)"
    have a: "outside ?a" "scan st (''{'' @ newline @ spaces (n + 2)) = ?a"
      using "5.prems"(2) scan_newline [of ?a] by (simp_all add: keyScanStep_def outside_def char_of_def)
    have key: "scan ?a (quote k @ '': '') = ?k"
      using "5.prems"(1) a(1) by (intro scan_key) (auto simp: Cons p)
    have each: "leaves q (repeatedKeys w) (scan q (stringify (n + 2) w))" if "(l, w) \<in> set kvs" "outside q" for l w q
      using "5.IH" [OF _ that(1) refl, of q] "5.prems"(1) that by (cases kvs) (force simp: list_all_iff)+
    let ?b = "scan ?k (stringify (n + 2) v)"
    have b: "leaves ?k (repeatedKeys v) ?b" by (rule each [of k]) (simp_all add: Cons p a)
    have "\<exists>ks. leaves (?b\<lparr>ks_stack := Some ks # ks_stack st\<rparr>) (repeatedIn (set [k]) ms) (scan ?b ?tail)"
    proof (rule scan_entries)
      show "leaves q (repeatedKeys w) (scan q (stringify (n + 2) w))" if "(l, w) \<in> set ms" "outside q" for l w q
        using that by (intro each [of l]) (simp_all add: Cons)
    qed (use "5.prems"(1) leaves_outside [OF b] leaves_stack [OF b] a(1) in \<open>auto simp: Cons list_all_iff\<close>)
    then obtain ks where "leaves (?b\<lparr>ks_stack := Some ks # ks_stack st\<rparr>) (repeatedIn (set [k]) ms) (scan ?b ?tail)"
      by blast
    then have c: "leaves (st\<lparr>ks_stack := Some ks # ks_stack st\<rparr>) (repeatedKeys (JObj kvs)) (scan ?b ?tail)"
      using b by (simp add: leaves_def keyed_def Cons p)
    have "scan st (stringify n (JObj kvs)) = keyScanStep (scan (scan ?b ?tail) (newline @ spaces n)) (CHR ''}'')"
      using a(2) key by (simp add: Cons p join_Cons comp_def case_prod_unfold)
    also have "scan (scan ?b ?tail) (newline @ spaces n) = scan ?b ?tail"
      using leaves_outside [OF c] "5.prems"(2) by (intro scan_newline) (simp add: outside_def)
    finally show ?thesis
      using c "5.prems"(2) by (simp add: leaves_def keyScanStep_def outside_def char_of_def)
  qed
qed (auto simp: leaves_def keyScanStep_def outside_def char_of_def)

lemma repeatedIn_Nil:
  "repeatedIn ks kvs = [] \<longleftrightarrow> distinct (map fst kvs) \<and> ks \<inter> fst ` set kvs = {} \<and> (\<forall>(k, v)\<in>set kvs. repeatedKeys v = [])"
proof (induction kvs arbitrary: ks)
  case (Cons p kvs)
  show ?case by (cases p) (auto simp: Cons.IH)
qed simp

lemma repeatedKeys_Nil: "repeatedKeys v = [] \<longleftrightarrow> distinctKeys v"
  by (induction v rule: distinctKeys.induct) (auto simp: repeatedIn_Nil list_all_iff)

text \<open>
  C19: the scan of a rendered value finds exactly its repeated keys, in the order of the text, when no key
  needs an escape: so it accepts exactly the texts in which no object has a key twice.
\<close>

theorem rawDuplicateKeys_exact:
  assumes "plainKeys v"
  shows "rawDuplicateKeys (stringify 0 v) = repeatedKeys v \<and>
    (rawDuplicateKeys (stringify 0 v) = [] \<longleftrightarrow> distinctKeys v)"
proof -
  have "leaves keyScanStart (repeatedKeys v) (scan keyScanStart (stringify 0 v))"
    using assms by (intro scan_value) (auto simp: outside_def keyScanStart_def)
  then have "rawDuplicateKeys (stringify 0 v) = repeatedKeys v"
    by (simp add: rawDuplicateKeys_def leaves_def keyScanStart_def)
  then show ?thesis by (simp add: repeatedKeys_Nil)
qed

theorem rawDuplicateKeys_exact_witness:
  "rawDuplicateKeys (stringify 0 (JObj [(''a'', JNum 1), (''b'', JObj [(''c'', JNull), (''c'', JNull)]), (''a'', JNull)])) =
    [''c'', ''a'']"
proof -
  have "plainKeys (JObj [(''a'', JNum 1), (''b'', JObj [(''c'', JNull), (''c'', JNull)]), (''a'', JNull)])"
    by (simp add: plainKey_def quote_char_def)
  from rawDuplicateKeys_exact [OF this] show ?thesis by simp
qed

end
