(* ===== verification/CanonicalFacts.thy ===== *)
theory CanonicalFacts
  imports CanonicalText
begin

text \<open>
  What an object built without a note is: each helper without a note passed its test, an object literal has
  the value of each of its fields, and the canonical object can be compared by its text.
\<close>

named_theorems noted_simps \<open>what a computation without notes computed\<close>

section \<open>Computations without notes\<close>

lemma okN_results [noted_simps]: "okN a = Inr ([], b) \<longleftrightarrow> a = b"
  by (auto simp: okN_def)

lemma noteN_results [noted_simps]: "noteN w a \<noteq> Inr ([], b)"
  by (auto simp: noteN_def)

lemma bindN_results [noted_simps]: "bindN m f = Inr ([], b) \<longleftrightarrow> (\<exists>a. m = Inr ([], a) \<and> f a = Inr ([], b))"
  by (auto simp: bindN_def rbind_eq_Inr split: prod.splits)

lemma liftN_results [noted_simps]: "liftN r = Inr ([], a) \<longleftrightarrow> r = Inr a"
  by (auto simp: liftN_def okN_def rbind_eq_Inr)

lemma ensureN_results [noted_simps]: "ensureN c w x y = Inr ([], a) \<longleftrightarrow> c \<and> a = x"
  by (auto simp: ensureN_def noted_simps)

lemma traverseN_results [noted_simps]:
  "traverseN f xs = Inr ([], ys) \<longleftrightarrow> list_all2 (\<lambda>x y. f x = Inr ([], y)) xs ys"
  by (induction xs arbitrary: ys) (auto simp: noted_simps list_all2_Cons1)

lemma fieldN_results [noted_simps]:
  "fieldN p = Inr ([], q) \<longleftrightarrow> fst q = fst p \<and> snd p = Inr ([], snd q)"
  by (cases p; cases q) (auto simp: fieldN_def noted_simps)

lemma objN_results [noted_simps]:
  "objN fs = Inr ([], v) \<longleftrightarrow>
    (\<exists>kvs. v = JObj kvs \<and> list_all2 (\<lambda>p q. fst q = fst p \<and> snd p = Inr ([], snd q)) fs kvs)"
  by (auto simp: objN_def noted_simps)

lemma fld_results [noted_simps]:
  "fld f v ks w = Inr ([], x) \<longleftrightarrow> (\<exists>y. path ks v = Inr y \<and> f y w = Inr ([], x))"
  by (simp add: fld_def noted_simps)

lemma asA_results [noted_simps]:
  "asA ga x w = Inr ([], y) \<longleftrightarrow> (\<exists>s a. x = JStr s \<and> hex_string 40 s \<and> ga s = Inr a \<and> y = JStr a)"
  by (cases x) (auto simp: asA_def noted_simps rbind_eq_Inr)

lemma asI_results [noted_simps]: "asI x w = Inr ([], y) \<longleftrightarrow> (\<exists>i. x = JNum i \<and> 0 \<le> i \<and> y = x)"
  by (cases x) (auto simp: asI_def noted_simps)

lemma asSI_results [noted_simps]: "asSI x w = Inr ([], y) \<longleftrightarrow> (\<exists>i. x = JNum i \<and> y = x)"
  by (cases x) (auto simp: asSI_def noted_simps)

lemma asStr_results [noted_simps]: "asStr x w = Inr ([], y) \<longleftrightarrow> (\<exists>s. x = JStr s \<and> y = x)"
  by (cases x) (auto simp: asStr_def noted_simps)

lemma asStrIs_results [noted_simps]: "asStrIs want x w = Inr ([], y) \<longleftrightarrow> x = JStr want \<and> y = x"
  by (auto simp: asStrIs_def noted_simps)

lemma asBool_results [noted_simps]:
  "asBoolT x w = Inr ([], y) \<longleftrightarrow> x = JBool True \<and> y = x"
  "asBoolF x w = Inr ([], y) \<longleftrightarrow> x = JBool False \<and> y = x"
  by (auto simp: asBoolT_def asBoolF_def noted_simps)

lemma asHash_results [noted_simps]:
  "asHash x w = Inr ([], y) \<longleftrightarrow> (\<exists>s. x = JStr s \<and> hex_string 64 s \<and> y = JStr (lower s))"
  by (cases x) (auto simp: asHash_def noted_simps)

lemma asN_results [noted_simps]:
  "asN x w = Inr ([], y) \<longleftrightarrow>
    (\<exists>s. y = JStr s \<and> isDecText s \<and> (x = JStr s \<or> (\<exists>i. x = JNum i \<and> s = dec_of_int i)))"
  by (cases x) (auto simp: asN_def noted_simps Let_def isDecText_def is_digit_char_def)

lemma bigIntText_dec: "isDecText s \<Longrightarrow> bigIntText s = Inr (int_of_dec s)"
  by (simp add: bigIntText_def isDecText_def bigIntOf_dec)

text \<open>Checks that pass.\<close>

lemma checkN_results [noted_simps]: "checkN c w = Inr ([], u) \<longleftrightarrow> c"
  by (simp add: checkN_def noted_simps)

lemma allN_iff: "allN f xs = Inr ([], ()) \<longleftrightarrow> list_all (\<lambda>x. f x = Inr ([], ())) xs"
proof -
  have "(\<exists>us. list_all2 (\<lambda>x u. f x = Inr ([], u)) xs us) \<longleftrightarrow> list_all (\<lambda>x. f x = Inr ([], ())) xs"
    by (induction xs) (auto simp: list_all2_Cons1)
  then show ?thesis by (simp add: allN_def noted_simps)
qed

lemma seqN_iff: "seqN xs = Inr ([], ()) \<longleftrightarrow> list_all (\<lambda>x. x = Inr ([], ())) xs"
  by (induction xs) (auto simp: seqN_def thenN_def noted_simps)

lemma seqN_all: "seqN xs = Inr ([], ()) \<Longrightarrow> x \<in> set xs \<Longrightarrow> x = Inr ([], ())"
  by (auto simp: seqN_iff list_all_iff)

section \<open>Fields\<close>

lemma fields_lookup:
  assumes "list_all2 (\<lambda>p q. fst q = fst p \<and> snd p = Inr ([], snd q)) fs kvs"
    and "map_of fs k = Some m"
  shows "m = Inr ([], lookupKey kvs k)"
  using assms
  by (induction rule: list_all2_induct) (auto simp: lookupKey_def split: if_splits)

text \<open>The field \<open>k\<close> of an object built without a note.\<close>

lemma objN_field:
  assumes "objN fs = Inr ([], v)" and "map_of fs k = Some m"
  shows "\<exists>x. getProp k v = Inr x \<and> m = Inr ([], x)"
  using assms fields_lookup by (auto simp: noted_simps)

section \<open>Comparable by text\<close>

definition yields :: "(Json \<Rightarrow> bool) \<Rightarrow> Json noted \<Rightarrow> bool" where
  "yields P m \<longleftrightarrow> (\<forall>v. m = Inr ([], v) \<longrightarrow> P v)"

named_theorems yields_intros

lemma yieldsD: "yields P m \<Longrightarrow> m = Inr ([], v) \<Longrightarrow> P v"
  by (simp add: yields_def)

lemma yields_basic [yields_intros]:
  "P a \<Longrightarrow> yields P (okN a)"
  "yields P (noteN w a)"
  "(\<And>a. m = Inr ([], a) \<Longrightarrow> yields P (f a)) \<Longrightarrow> yields P (bindN m f)"
  "(c \<Longrightarrow> yields P x) \<Longrightarrow> (\<not> c \<Longrightarrow> yields P y) \<Longrightarrow> yields P (if c then x else y)"
  "(c \<Longrightarrow> P a) \<Longrightarrow> yields P (ensureN c w a b)"
  "(\<And>d. yields P (g d w)) \<Longrightarrow> yields P (fld g v ks w)"
  by (auto simp: yields_def noted_simps)

lemma yields_helpers [yields_intros]:
  "yields rendered (asA ga x w)" "yields rendered (asI x w)" "yields rendered (asSI x w)" "yields rendered (asStr x w)"
  "yields rendered (asStrIs want x w)" "yields rendered (asBoolT x w)" "yields rendered (asBoolF x w)"
  "yields rendered (asHash x w)" "yields rendered (asN x w)"
  by (auto simp: yields_def noted_simps)

lemma yields_andN [yields_intros]: "yields P x \<Longrightarrow> yields P y \<Longrightarrow> yields P (andN x y)"
  by (auto simp: yields_def andN_def noted_simps split: if_splits)

lemma fields_keys:
  "list_all2 (\<lambda>p q. fst q = fst p \<and> snd p = Inr ([], snd q)) fs kvs \<Longrightarrow> map fst kvs = map fst fs"
  by (induction rule: list_all2_induct) auto

lemma fields_rendered:
  assumes "list_all2 (\<lambda>p q. fst q = fst p \<and> snd p = Inr ([], snd q)) fs kvs"
    and "list_all (\<lambda>p. yields rendered (snd p)) fs"
  shows "list_all (\<lambda>(k, v). rendered v) kvs"
  using assms by (induction rule: list_all2_induct) (auto simp: yields_def)

lemma yields_objN [yields_intros]:
  assumes "distinct (map fst fs)" and "list_all (\<lambda>p. yields rendered (snd p)) fs"
  shows "yields rendered (objN fs)"
  using assms fields_rendered by (auto simp: yields_def noted_simps fields_keys)

lemma assigned_rendered:
  assumes "list_all (\<lambda>(k, v). rendered v) kvs" and "rendered (JObj acc)"
  shows "rendered (JObj (foldl (\<lambda>kvs' (k, v). assignKey k v kvs') acc kvs))"
  using assms
proof (induction kvs arbitrary: acc)
  case (Cons p kvs)
  obtain k v where p: "p = (k, v)" by (cases p)
  have "set (AList.update k v acc) \<subseteq> insert (k, v) (set acc)"
    by (induction acc) auto
  then have "rendered (JObj (assignKey k v acc))"
    using Cons.prems p by (auto simp: assignKey_def distinct_update list_all_iff)
  then show ?case using Cons p by simp
qed simp

lemma yields_assignN [yields_intros]:
  assumes "list_all (\<lambda>p. yields rendered (snd p)) fs"
  shows "yields rendered (assignN fs)"
  using assms by (auto simp: yields_def assignN_def noted_simps simp del: rendered.simps
      intro!: assigned_rendered fields_rendered) simp

lemma postconditionType_rendered: "postconditionType t = Inr pc \<Longrightarrow> rendered pc"
  by (auto simp: postconditionType_def rbind_eq_Inr Let_def split: if_splits option.splits)

lemma yields_sigOf [yields_intros]: "yields rendered (sigOf ga b t)"
  unfolding sigOf_def signedFields_def identityFields_def
  by (rule yields_objN) (auto intro!: yields_intros simp: noted_simps postconditionType_rendered)

lemma yields_groups [yields_intros]:
  "yields rendered (predictedN ga deploys)" "yields rendered (provenanceN contracts)"
  "yields rendered (deploymentsN ga a deploys)" "yields rendered (lpN ga numText a p)" "yields rendered (buyN ga a)"
  "yields rendered (sellN ga a)" "yields rendered (lockN ga a)" "yields rendered (infrastructureN ga p)"
  by (auto simp: predictedN_def provenanceN_def deploymentsN_def deploymentN_def lpN_def buyN_def sellN_def lockN_def
      infrastructureN_def Let_def list_all_iff intro!: yields_intros)

lemma dependencyN_results:
  assumes "dependencyN ga s name = Inr ([], y)"
  shows "\<exists>v. y = [(name, v)] \<and> rendered v"
proof -
  obtain d v where y: "y = [(name, v)]" and "objN
       [(''address'', fld (asA ga) d [''address''] (''dep.'' @ name)),
        (''runtimeCodeHash'', fld asHash d [''runtimeCodeHash''] (''dep.hash.'' @ name)),
        (''codeBytes'', fld asI d [''codeBytes''] (''dep.bytes.'' @ name))] = Inr ([], v)"
    using assms by (auto simp: dependencyN_def bindN_results okN_results noteN_results split: if_splits)
  then have "rendered v" by (elim yieldsD [rotated]) (auto intro!: yields_intros)
  with y show ?thesis by simp
qed

lemma yields_dependenciesN [yields_intros]: "yields rendered (dependenciesN ga s)"
proof -
  have "map fst (concat xs) = names \<and> list_all (\<lambda>(k, v). rendered v) (concat xs)"
    if "list_all2 (\<lambda>n y. dependencyN ga s n = Inr ([], y)) names xs" for names xs
    using that by (induction rule: list_all2_induct) (auto dest: dependencyN_results)
  moreover have "distinct DEP_NAMES" by (simp add: DEP_NAMES_def)
  ultimately show ?thesis by (force simp: yields_def dependenciesN_def noted_simps)
qed

lemma sigOf_object: "sigOf ga b t = Inr ([], v) \<Longrightarrow> v \<noteq> JUndefined"
  by (auto simp: sigOf_def objN_results)

lemma yields_transactionsN [yields_intros]: "yields rendered (transactionsN ga ts delayed)"
proof -
  have "yields rendered (bindN (traverseN (\<lambda>(i, t). sigOf ga True (withPosition i t)) (enumerate 0 ts)) (\<lambda>vs. okN (JArr vs)))"
  proof -
    have "list_all (\<lambda>v. v \<noteq> JUndefined \<and> rendered v) vs"
      if "list_all2 (\<lambda>x y. (case x of (i, t) \<Rightarrow> sigOf ga True (withPosition i t)) = Inr ([], y)) xs vs" for xs vs
      using that
      by (induction rule: list_all2_induct) (auto dest: sigOf_object yieldsD [OF yields_sigOf])
    then show ?thesis by (auto simp: yields_def noted_simps)
  qed
  then show ?thesis
    unfolding transactionsN_def signedFields_def
    by (intro yields_objN) (auto intro!: yields_intros simp: noted_simps)
qed

lemma fields_identity:
  "map fst (identityN ga numText a p) = [''schema'', ''version'', ''canary'', ''production'', ''chainId'', ''scope'',
     ''flags'', ''executable'', ''maxAllInclusiveExposureUsd'', ''generatedAtUtc'', ''expiresAtUtc'',
     ''validityWindowSeconds'', ''wallets'', ''startNonces'']"
  "map fst (snapshotN a p s) = [''block'', ''snapshotBalances'', ''snapshotNonces'']"
  by (simp_all add: identityN_def snapshotN_def Let_def)

lemma fields_identity_rendered:
  "list_all (\<lambda>p. yields rendered (snd p)) (identityN ga numText a p)"
  "list_all (\<lambda>p. yields rendered (snd p)) (snapshotN a p s)"
  unfolding identityN_def snapshotN_def Let_def blockField_def blockHashN_def balancesN_def
  by (auto intro!: yields_intros simp: noted_simps)

lemmas group_rendered =
  yields_groups [THEN yieldsD] yields_dependenciesN [THEN yieldsD]

lemma asN_rendered: "fld asN v ks w = Inr ([], x) \<Longrightarrow> rendered x"
  by (auto simp: noted_simps)

lemma rendered_buildObject: "yields rendered (buildObject ga numText a p s)"
  unfolding buildObject_def Let_def
  by (intro yields_basic(3) yields_objN, simp add: fields_identity)
    (auto simp: fields_identity_rendered list_all_append asN_rendered noted_simps
      dest: group_rendered intro!: yields_intros)

lemma map_of_later:
  "k \<notin> set (map fst xs) \<Longrightarrow> map_of (xs @ ys) k = map_of ys k"
  by (simp add: map_add_def map_of_eq_None_iff [THEN iffD2] split: option.split)

text \<open>The transactions of an object built without a note are those of the packet.\<close>

lemma buildObject_transactions:
  assumes "buildObject ga numText a p s = Inr ([], v)"
  shows "\<exists>ts delayed x. path [''immediateTransactions''] a = Inr (JArr ts) \<and>
    transactionsN ga ts delayed = Inr ([], x) \<and> getProp ''transactions'' v = Inr x"
proof -
  have arr: "arrayOf w = Inr ts \<longleftrightarrow> w = JArr ts" for w ts by (cases w) auto
  from assms obtain ts delayed tail where ts: "path [''immediateTransactions''] a = Inr (JArr ts)"
    and obj: "objN (identityN ga numText a p @ snapshotN a p s @ tail) = Inr ([], v)"
    and field: "map_of tail ''transactions'' = Some (transactionsN ga ts delayed)"
    unfolding buildObject_def Let_def
    by (simp only: bindN_results liftN_results rbind_eq_Inr arr) fastforce
  have "map_of (identityN ga numText a p @ snapshotN a p s @ tail) ''transactions'' = Some (transactionsN ga ts delayed)"
    using field by (simp add: map_of_later fields_identity del: map_of_append)
  from objN_field [OF obj this] ts show ?thesis by blast
qed

lemma transactionsN_immediate:
  assumes "transactionsN ga ts delayed = Inr ([], x)"
  shows "length ts = 19 \<and> (\<exists>vs. getProp ''immediate'' x = Inr (JArr vs) \<and>
    list_all2 (\<lambda>(i, t) v. sigOf ga True (withPosition i t) = Inr ([], v)) (enumerate 0 ts) vs)"
proof -
  have "length ts = 19"
    using objN_field [OF assms [unfolded transactionsN_def], of "''count''"] by (auto simp: noted_simps)
  moreover have "\<exists>vs. getProp ''immediate'' x = Inr (JArr vs) \<and>
    list_all2 (\<lambda>(i, t) v. sigOf ga True (withPosition i t) = Inr ([], v)) (enumerate 0 ts) vs"
    using objN_field [OF assms [unfolded transactionsN_def], of "''immediate''"]
    by (auto simp: noted_simps case_prod_unfold)
  ultimately show ?thesis by blast
qed

section \<open>Reading values that are the same\<close>

lemma same_scalar [simp]:
  "same_json v (JStr s) \<longleftrightarrow> v = JStr s" "same_json v (JNum i) \<longleftrightarrow> v = JNum i"
  "same_json v (JBool b) \<longleftrightarrow> v = JBool b" "same_json v JNull \<longleftrightarrow> v = JNull"
  "same_json v JUndefined \<longleftrightarrow> v = JUndefined"
  by (auto elim: same_json.cases intro: same_json.same_refl)

lemma same_arr_iff: "same_json (JArr vs) w \<longleftrightarrow> (\<exists>ws. w = JArr ws \<and> list_all2 same_json vs ws)"
  by (auto elim!: same_json.cases intro: same_arr list_all2_refl same_json.same_refl)

lemma same_truthy: "same_json v w \<Longrightarrow> truthy v = truthy w"
  by (erule same_json.cases) auto

lemma same_lookup:
  assumes "list_all2 (\<lambda>p q. fst p = fst q \<and> same_json (snd p) (snd q)) kvs ms"
  shows "same_json (lookupKey kvs k) (lookupKey ms k)"
  using assms by (induction rule: list_all2_induct) (auto simp: lookupKey_def)

lemma same_getProp:
  assumes "same_json v w" and "getProp k v = Inr x"
  shows "\<exists>y. getProp k w = Inr y \<and> same_json x y"
  using assms(1)
proof (cases rule: same_json.cases)
  case same_refl
  then show ?thesis using assms(2) by (auto intro: same_json.same_refl)
next
  case (same_arr vs ws)
  then show ?thesis using assms(2) by (auto dest: list_all2_lengthD)
next
  case (same_obj kvs ms kvs')
  have "map fst kvs = map fst ms" using same_obj(3) by (induction rule: list_all2_induct) auto
  then have "distinct (map fst ms)" using same_obj(5) by simp
  then have "map_of kvs' = map_of ms"
    using same_obj(4) by (metis map_of_inject_set mset_map mset_eq_imp_distinct_iff set_mset_mset)
  then show ?thesis using same_lookup [OF same_obj(3), of k] same_obj(1,2) assms(2)
    by (auto simp: lookupKey_def)
qed

end
