(* ===== verification/OperatorBind.thy ===== *)
theory OperatorBind
  imports Operator CanonicalFacts
begin

text \<open>
  \<open>bindAndVerifyPacket\<close> of \<open>operator-core.mjs\<close>: every check of the packet, the policy and the snapshot against
  each other and against the packaged authorization, and the runtime data built from the packaged
  authorization once all of them passed. The inputs are values of JSON, present until a packet is bound.
\<close>

section \<open>Reading the inputs\<close>

text \<open>\<open>eq\<close>: \<open>String(x).toLowerCase() === String(y).toLowerCase()\<close> of present values.\<close>

definition eqText :: "Json \<Rightarrow> Json \<Rightarrow> bool" where
  "eqText x y \<longleftrightarrow> truthy x \<and> truthy y \<and> lower (jsString x) = lower (jsString y)"

definition holdsAt :: "(Json \<Rightarrow> bool) \<Rightarrow> Json \<Rightarrow> string list \<Rightarrow> exn + bool" where
  "holdsAt f v ks = rbind (path ks v) (\<lambda>x. Inr (f x))"

text \<open>\<open>x === y\<close> at two properties, and the same of their lower-case texts.\<close>

definition sameAt :: "Json \<Rightarrow> string list \<Rightarrow> Json \<Rightarrow> string list \<Rightarrow> exn + bool" where
  "sameAt v ks w ls = rbind (path ks v) (\<lambda>x. rbind (path ls w) (\<lambda>y. Inr (strictEq x y)))"

definition sameLowerAt :: "Json \<Rightarrow> string list \<Rightarrow> Json \<Rightarrow> string list \<Rightarrow> exn + bool" where
  "sameLowerAt v ks w ls = rbind (rbind (path ks v) stringOf) (\<lambda>x. rbind (rbind (path ls w) stringOf) (\<lambda>y.
     Inr (lower x = lower y)))"

definition stringAt :: "Json \<Rightarrow> string list \<Rightarrow> exn + string" where
  "stringAt v ks = rbind (path ks v) (\<lambda>x. Inr (jsString x))"

definition sameStringAt :: "Json \<Rightarrow> string list \<Rightarrow> Json \<Rightarrow> string list \<Rightarrow> exn + bool" where
  "sameStringAt v ks w ls = rbind (stringAt v ks) (\<lambda>x. rbind (stringAt w ls) (\<lambda>y. Inr (x = y)))"

text \<open>\<open>v.ks === String(w.ls)\<close>.\<close>

definition isStringAt :: "Json \<Rightarrow> string list \<Rightarrow> Json \<Rightarrow> string list \<Rightarrow> exn + bool" where
  "isStringAt v ks w ls = rbind (path ks v) (\<lambda>x. rbind (stringAt w ls) (\<lambda>y. Inr (x = JStr y)))"

definition sameAddressAt :: "(string \<Rightarrow> exn + string) \<Rightarrow> Json \<Rightarrow> string list \<Rightarrow> Json \<Rightarrow> string list \<Rightarrow> exn + bool" where
  "sameAddressAt ga v ks w ls = rbind (rbind (path ks v) (addressOf ga)) (\<lambda>x.
     rbind (rbind (path ls w) (addressOf ga)) (\<lambda>y. Inr (x = y)))"

definition sameStableAt :: "Json \<Rightarrow> string list \<Rightarrow> Json \<Rightarrow> string list \<Rightarrow> exn + bool" where
  "sameStableAt v ks w ls = rbind (path ks v) (\<lambda>x. rbind (path ls w) (\<lambda>y. Inr (stableText x = stableText y)))"

section \<open>The checks\<close>

record BindInputs =
  bi_packet :: Json
  bi_policy :: Json
  bi_snapshot :: Json
  bi_package :: Json
  bi_raw :: string

text \<open>\<open>_signable\<close> of a transaction of the packet.\<close>

definition signableJ :: "(string \<Rightarrow> exn + string) \<Rightarrow> Json \<Rightarrow> exn + Json" where
  "signableJ ga t =
     rbind (getProp ''chainId'' t) (\<lambda>chainId.
     rbind (rbind (getProp ''signer'' t) (addressOf ga)) (\<lambda>signer.
     rbind (getProp ''nonce'' t) (\<lambda>nonce.
     rbind (rbind (getProp ''to'' t) (\<lambda>x. if truthy x then rbind (addressOf ga x) (\<lambda>a. Inr (JStr a)) else Inr JNull)) (\<lambda>to.
     rbind (getProp ''value'' t) (\<lambda>value.
     rbind (rmap (\<lambda>k. getProp k t) [''dataOrInitCode'', ''gasLimit'', ''maxFeePerGas'', ''maxPriorityFeePerGas'']) (\<lambda>xs.
     Inr (JObj ([(''chainId'', chainId), (''signer'', JStr signer), (''nonce'', nonce), (''type'', JNum 2), (''to'', to),
       (''value'', if truthy value then value else JStr ''0'')]
       @ zip [''data'', ''gasLimit'', ''maxFeePerGas'', ''maxPriorityFeePerGas''] xs))))))))"

text \<open>The nonces of the two signers count up from their start.\<close>

fun nonceCoverage :: "(string \<Rightarrow> exn + string) \<Rightarrow> Json \<Rightarrow> Json \<Rightarrow> int \<Rightarrow> int \<Rightarrow> bool \<Rightarrow> Json list \<Rightarrow> exn + bool" where
  "nonceCoverage ga a startNonces di ti cov [] = Inr cov"
| "nonceCoverage ga a startNonces di ti cov (t # ts) =
     rbind (sameAddressAt ga t [''signer''] a [''meta'', ''deployer'']) (\<lambda>dep.
     rbind (getProp (if dep then ''deployer'' else ''tester'') startNonces) (\<lambda>start.
     rbind (getProp ''nonce'' t) (\<lambda>n.
     nonceCoverage ga a startNonces (if dep then di + 1 else di) (if dep then ti else ti + 1)
       (cov \<and> strictEq n (plusNumber start (if dep then di else ti))) ts)))"

definition anchorChecks :: "'w Env \<Rightarrow> (string \<Rightarrow> Json) \<Rightarrow> BindInputs \<Rightarrow> exn + Json option \<times> (string \<times> bool) list" where
  "anchorChecks env numText bi =
     (let ga = en_getAddress env; kec = en_keccak256 env; a = bi_packet bi; p = bi_policy bi; pkg = bi_package bi in
     rbind (buildCanonical ga numText a p (bi_snapshot bi)) (\<lambda>(errors, recon).
     rbind (if truthy pkg then validateStrict ga pkg
            else Inr [''packaged reviewed-authorization missing'']) (\<lambda>strictErr.
     let dupKeys = (if truthy pkg then rawDuplicateKeys (bi_raw bi) else [''<missing>'']);
         digestR = (case recon of None \<Rightarrow> JNull | Some r \<Rightarrow> JStr (digestOf kec r));
         digestP = (if truthy pkg then JStr (digestOf kec pkg) else JNull) in
     rbind (getProp ''meta'' a) (\<lambda>meta.
     rbind (if truthy meta then getProp ''reviewedAuthorizationDigest'' meta else Inr meta) (\<lambda>anchorPacket.
     rbind (getProp ''reviewedAuthorizationDigest'' p) (\<lambda>anchorPolicy.
     Inr (recon,
       [(''canonicalReconstructs'', errors = []),
        (''packagedReviewedAuthorizationValid'', strictErr = []),
        (''packagedNoDuplicateKeys'', dupKeys = []),
        (''reviewedDigestAnchorsAgree'', eqText digestR digestP \<and> eqText digestR anchorPacket \<and> eqText digestR anchorPolicy),
        (''reconMatchesPackaged'',
           (case recon of None \<Rightarrow> False | Some r \<Rightarrow> truthy pkg \<and> stableText r = stableText pkg))])))))))"

text \<open>The coverage of the execution digest and of the nonces, in the order of the code.\<close>

definition coverageChecks :: "'w Env \<Rightarrow> string \<Rightarrow> BindInputs \<Rightarrow> exn + (string \<times> bool) list" where
  "coverageChecks env execDigest bi =
     (let ga = en_getAddress env; a = bi_packet bi in
     rbind (rbind (getProp ''immediateTransactions'' a) arrayOf) (\<lambda>ts.
     rbind (rmap (signableJ ga) ts) (\<lambda>perIndex.
     rbind (getProp ''delayedWithdrawalSubPacket'' a) (\<lambda>delayed.
     rbind (rmap (signableJ ga) (ts @ [delayed])) (\<lambda>signed.
     let recomputed = en_keccak256 env (utf8ToHex (stableText (JArr signed))) in
     rbind (path [''meta'', ''startNonces''] a) (\<lambda>startNonces.
     rbind (getProp ''deployer'' startNonces) (\<lambda>_.
     rbind (nonceCoverage ga a startNonces 0 0 True ts) (\<lambda>cov.
     Inr [(''execDigestMatches'', lower recomputed = lower execDigest),
          (''perIndexCoverage'', cov \<and> length perIndex = length ts)]))))))))"

definition infraConsistent :: "(string \<Rightarrow> exn + string) \<Rightarrow> BindInputs \<Rightarrow> exn + bool" where
  "infraConsistent ga bi =
     rbind (rbind (rbind (path [''addressGuards'', ''infrastructure''] (bi_packet bi)) arrayOf) (rmap (addressOf ga))) (\<lambda>infra.
     rbind (rmap (\<lambda>k. path [''infrastructure'', k] (bi_policy bi))
       [''weth'', ''uniswapV3Factory'', ''nonfungiblePositionManager'', ''swapRouter02'', ''rialtoRegistry'']) (\<lambda>xs.
     rbind (path [''addressGuards'', ''poolAddress''] (bi_packet bi)) (\<lambda>pool.
     allE (map (\<lambda>x. rbind (addressOf ga x) (\<lambda>y. Inr (y \<in> set infra))) (xs @ [pool])))))"

definition agreementChecks :: "(string \<Rightarrow> exn + string) \<Rightarrow> BindInputs \<Rightarrow> Json option \<Rightarrow> (string \<times> (exn + bool)) list" where
  "agreementChecks ga bi recon =
     (let a = bi_packet bi; p = bi_policy bi; s = bi_snapshot bi; auth = [''meta'', ''authorization''] in
     [(''chainId4663'', allE [holdsAt (\<lambda>x. x = JNum 4663) a [''meta'', ''chainId''], holdsAt (\<lambda>x. x = JNum 4663) p [''chainId'']]),
      (''canaryNotProduction'', allE
        [holdsAt truthy a auth, holdsAt (\<lambda>x. x = JBool True) a (auth @ [''canary'']),
         holdsAt (\<lambda>x. x = JBool False) a (auth @ [''production'']),
         holdsAt (\<lambda>x. x = JBool True) p [''canary''], holdsAt (\<lambda>x. x = JBool False) p [''production'']]),
      (''scopeExact'', allE
        [holdsAt truthy a auth, holdsAt (\<lambda>x. x = JStr SCOPE) a (auth @ [''scope'']),
         holdsAt (\<lambda>x. x = JStr SCOPE) p [''authorizationScope'']]),
      (''walletsConsistent'', allE
        [sameAddressAt ga p [''wallets'', ''deployer''] a [''meta'', ''deployer''],
         sameAddressAt ga p [''wallets'', ''tester''] a [''meta'', ''tester'']]),
      (''noncesConsistent'', allE
        [sameAt a [''meta'', ''startNonces'', ''deployer''] s [''nonces'', ''deployer''],
         sameAt a [''meta'', ''startNonces'', ''tester''] s [''nonces'', ''tester''],
         sameAt p [''expectedNonces'', ''deployer''] s [''nonces'', ''deployer''],
         sameAt p [''expectedNonces'', ''tester''] s [''nonces'', ''tester'']]),
      (''snapshotConsistent'', allE
        [sameStringAt s [''pinnedBlock'', ''number''] p [''snapshot'', ''forkBlock''],
         sameLowerAt s [''pinnedBlock'', ''hash''] p [''snapshot'', ''forkHash''],
         isStringAt a [''meta'', ''forkBlock''] p [''snapshot'', ''forkBlock''],
         sameLowerAt a [''meta'', ''forkBlockHash''] p [''snapshot'', ''forkHash''],
         isStringAt a [''meta'', ''forkTimestamp''] p [''snapshot'', ''forkTimestamp''],
         sameAt a [''meta'', ''forkBaseFeePerGasWei''] p [''snapshot'', ''baseFeePerGasWei''],
         isStringAt p [''snapshot'', ''baseFeePerGasWei''] s [''pinnedBlock'', ''baseFeePerGasWei'']]),
      (''infraConsistent'', infraConsistent ga bi),
      (''gasConsistent'', allE
        [holdsAt truthy a [''reviewPolicySnapshot''], sameStableAt a [''reviewPolicySnapshot'', ''gas''] p [''gas''],
         sameAt a [''meta'', ''feeBounds'', ''maxFeePerGasWei''] p [''gas'', ''maxFeePerGasWei''],
         sameAt a [''meta'', ''feeBounds'', ''maxPriorityFeePerGasWei''] p [''gas'', ''maxPriorityFeePerGasWei''],
         sameAt a [''meta'', ''feeBounds'', ''pinnedBaseFeePerGasWei''] p [''snapshot'', ''baseFeePerGasWei'']]),
      (''capsConsistent'', allE
        [holdsAt truthy a [''reviewPolicySnapshot''], sameStableAt a [''reviewPolicySnapshot'', ''caps''] p [''caps'']]),
      (''validityConsistent'', allE
        [sameAt a [''meta'', ''validityWindowSeconds''] p [''validity'', ''windowSeconds''],
         holdsAt truthy a [''meta'', ''expiresAtUtc''], holdsAt truthy a [''meta'', ''generatedAtUtc'']]),
      (''flagsAuthorized'', allE (concat (map (\<lambda>k.
         [holdsAt (\<lambda>x. x = JBool True) a [''safetyFlags'', k], holdsAt (\<lambda>x. x = JBool True) p [''safetyFlags'', k]]) FLAGS))),
      (''capIs130'', (case recon of None \<Rightarrow> Inr False
         | Some r \<Rightarrow> holdsAt (\<lambda>x. x = JNum 130) r [''maxAllInclusiveExposureUsd''])),
      (''dependencyHashesRecorded'', allE
        [holdsAt truthy a [''addressGuards''], holdsAt truthy s [''externalCodeHashes''],
         rbind (rbind (path [''externalCodeHashes''] s) objectEntries) (\<lambda>kvs. Inr (length kvs = 6))])])"

definition bindChecks :: "'w Env \<Rightarrow> (string \<Rightarrow> Json) \<Rightarrow> string \<Rightarrow> BindInputs \<Rightarrow> exn + (string \<times> bool) list" where
  "bindChecks env numText execDigest bi =
     rbind (anchorChecks env numText bi) (\<lambda>(recon, anchors).
     rbind (coverageChecks env execDigest bi) (\<lambda>coverage.
     rbind (rmap (\<lambda>(n, c). rbind c (\<lambda>b. Inr (n, b))) (agreementChecks (en_getAddress env) bi recon)) (\<lambda>agreement.
     Inr (anchors @ coverage @ agreement))))"

section \<open>The runtime data\<close>

definition readN :: "Json \<Rightarrow> string \<Rightarrow> exn + int" where
  "readN v k = rbind (getProp k v) bigIntJ"

definition readS :: "Json \<Rightarrow> string \<Rightarrow> exn + string" where
  "readS v k = rbind (getProp k v) stringOf"

definition readA :: "(string \<Rightarrow> exn + string) \<Rightarrow> Json \<Rightarrow> string \<Rightarrow> exn + string" where
  "readA ga v k = rbind (getProp k v) (addressOf ga)"

definition boundStep :: "(string \<Rightarrow> exn + string) \<Rightarrow> Json \<Rightarrow> exn + BoundStep" where
  "boundStep ga t =
     rbind (readN t ''index'') (\<lambda>index.
     rbind (readS t ''phase'') (\<lambda>phase.
     rbind (readS t ''label'') (\<lambda>label.
     rbind (readS t ''postconditionType'') (\<lambda>pc.
     rbind (readA ga t ''signer'') (\<lambda>signer.
     rbind (readN t ''nonce'') (\<lambda>nonce.
     rbind (rbind (getProp ''to'' t) (\<lambda>x. if truthy x then rbind (addressOf ga x) (\<lambda>a. Inr (Some a)) else Inr None)) (\<lambda>to.
     rbind (readS t ''value'') (\<lambda>value.
     rbind (readS t ''data'') (\<lambda>data.
     rbind (readN t ''gasLimit'') (\<lambda>gasLimit.
     rbind (readN t ''maxFeePerGas'') (\<lambda>maxFee.
     rbind (readN t ''maxPriorityFeePerGas'') (\<lambda>maxPrio.
     Inr \<lparr>st_index = nat index, st_originalIndex = nat index, st_phase = phase, st_label = label,
       st_postconditionType = pc, st_signer = signer, st_nonce = nonce, st_to = to, st_value = value,
       st_dataOrInitCode = data, st_gasLimit = gasLimit, st_maxFeePerGas = maxFee,
       st_maxPriorityFeePerGas = maxPrio, st_maxGasCostWei = gasLimit * maxFee, st_slot = None,
       st_predictedCreationAddress = None, st_expectedRuntimeHash = None, st_gasCeilings = None\<rparr>))))))))))))"

text \<open>The deployments in nonce order get their slot, predicted address and runtime hash.\<close>

definition attachDeployment :: "(string \<Rightarrow> exn + string) \<Rightarrow> Json \<Rightarrow> BoundStep list \<Rightarrow> nat \<times> nat \<Rightarrow> exn + BoundStep list" where
  "attachDeployment ga cc sts = (\<lambda>(i, j).
     rbind (path [''deployments'', slotName i] cc) (\<lambda>d.
     rbind (readA ga d ''predictedAddress'') (\<lambda>addr.
     rbind (readS d ''runtimeCodeHash'') (\<lambda>hash.
     Inr (sts[j := (sts ! j)\<lparr>st_slot := Some (slotName i), st_predictedCreationAddress := Some addr,
       st_expectedRuntimeHash := Some hash\<rparr>])))))"

definition deployOrder :: "BoundStep list \<Rightarrow> nat list" where
  "deployOrder sts = js_sort (\<lambda>i j. st_nonce (sts ! i) - st_nonce (sts ! j))
     (filter (\<lambda>i. st_phase (sts ! i) = ''A-deploy'') [0..<length sts])"

definition boundSteps :: "(string \<Rightarrow> exn + string) \<Rightarrow> Json \<Rightarrow> exn + BoundStep list" where
  "boundSteps ga cc =
     rbind (rbind (path [''transactions'', ''immediate''] cc) arrayOf) (\<lambda>ts.
     rbind (rmap (boundStep ga) ts) (\<lambda>sts.
     rfold (attachDeployment ga cc) sts (enumerate 0 (deployOrder sts))))"

definition lpOf :: "Json \<Rightarrow> exn + LpExpectation" where
  "lpOf v =
     rbind (rmap (readN v) [''feeTier'', ''tickSpacing'', ''sqrtPriceX96'', ''tick'', ''tickLower'', ''tickUpper'',
       ''amount0Used'', ''amount1Used'', ''amount0Min'', ''amount1Min'', ''poolLiquidityAfter'']) (\<lambda>ns.
     rbind (rmap (readS v) [''token0'', ''token1'', ''positionOwner'']) (\<lambda>as.
     Inr \<lparr>le_feeTier = ns ! 0, le_tickSpacing = ns ! 1, le_sqrtPriceX96 = ns ! 2, le_tick = ns ! 3,
       le_tickLower = ns ! 4, le_tickUpper = ns ! 5, le_amount0Used = ns ! 6, le_amount1Used = ns ! 7,
       le_amount0Min = ns ! 8, le_amount1Min = ns ! 9, le_poolLiquidityAfter = ns ! 10,
       le_token0 = as ! 0, le_token1 = as ! 1, le_positionOwner = as ! 2\<rparr>))"

definition buyOf :: "Json \<Rightarrow> exn + BuyExpectation" where
  "buyOf v =
     rbind (rmap (readS v) [''trader'', ''recipient'', ''adapter'', ''stockBudgetRecipient'']) (\<lambda>as.
     rbind (rmap (readN v) [''tradeId'', ''grossWethInput'', ''stockBudget'', ''burnBudget'', ''userWethBudget'',
       ''userBpsOutput'', ''bpsBurned'', ''minimumUserBpsOutput'']) (\<lambda>ns.
     Inr \<lparr>be_tradeId = ns ! 0, be_trader = as ! 0, be_recipient = as ! 1, be_adapter = as ! 2,
       be_stockBudgetRecipient = as ! 3, be_grossWethInput = ns ! 1, be_stockBudget = ns ! 2, be_burnBudget = ns ! 3,
       be_userWethBudget = ns ! 4, be_userBpsOutput = ns ! 5, be_bpsBurned = ns ! 6,
       be_minimumUserBpsOutput = ns ! 7\<rparr>))"

definition sellOf :: "Json \<Rightarrow> exn + SellExpectation" where
  "sellOf v =
     rbind (rmap (readS v) [''trader'', ''recipient'', ''adapter'', ''stockBudgetRecipient'']) (\<lambda>as.
     rbind (rmap (readN v) [''tradeId'', ''grossBpsInput'', ''grossWethOutput'', ''stockBudget'', ''burnBudget'',
       ''userWethOutput'', ''bpsBurned'', ''minimumGrossWethOutput'', ''minimumUserWethOutput'']) (\<lambda>ns.
     Inr \<lparr>se_tradeId = ns ! 0, se_trader = as ! 0, se_recipient = as ! 1, se_adapter = as ! 2,
       se_stockBudgetRecipient = as ! 3, se_grossBpsInput = ns ! 1, se_grossWethOutput = ns ! 2,
       se_stockBudget = ns ! 3, se_burnBudget = ns ! 4, se_userWethOutput = ns ! 5, se_bpsBurned = ns ! 6,
       se_minimumGrossWethOutput = ns ! 7, se_minimumUserWethOutput = ns ! 8\<rparr>))"

definition lockOf :: "Json \<Rightarrow> exn + LockExpectation" where
  "lockOf v =
     rbind (readS v ''account'') (\<lambda>account.
     rbind (rmap (readN v) [''lockId'', ''principal'', ''duration'', ''multiplierBps'', ''policyVersion'']) (\<lambda>ns.
     Inr \<lparr>ke_account = account, ke_lockId = ns ! 0, ke_principal = ns ! 1, ke_duration = ns ! 2,
       ke_multiplierBps = ns ! 3, ke_policyVersion = ns ! 4\<rparr>))"

definition dependencyOf :: "string \<times> Json \<Rightarrow> exn + DependencyCode" where
  "dependencyOf kv =
     rbind (readS (snd kv) ''address'') (\<lambda>address.
     rbind (readS (snd kv) ''runtimeCodeHash'') (\<lambda>hash.
     rbind (readN (snd kv) ''codeBytes'') (\<lambda>bytes.
     Inr \<lparr>dc_address = address, dc_runtimeCodeHash = hash, dc_codeBytes = bytes\<rparr>)))"

text \<open>
  The data built from the packaged authorization. The code reads the expectations of trades, pool and lock
  when it needs them; here they are read with the rest.
\<close>

definition runtimeOf :: "(string \<Rightarrow> exn + string) \<Rightarrow> Json \<Rightarrow> exn + Runtime" where
  "runtimeOf ga cc =
     rbind (readN cc ''maxAllInclusiveExposureUsd'') (\<lambda>cap.
     rbind (getProp ''wallets'' cc) (\<lambda>wallets.
     rbind (rmap (readA ga wallets) [''deployer'', ''tester'']) (\<lambda>ws.
     rbind (getProp ''infrastructure'' cc) (\<lambda>infra.
     rbind (rmap (readA ga infra) [''weth'', ''uniswapV3Factory'', ''nonfungiblePositionManager'', ''swapRouter02'',
       ''rialtoRegistry'', ''nvdaStockToken'']) (\<lambda>is.
     rbind (readA ga cc ''pool'') (\<lambda>pool.
     rbind (rbind (getProp ''predicted'' cc) objectEntries) (\<lambda>predicted.
     rbind (rmap (\<lambda>(k, v). rbind (addressOf ga v) (\<lambda>a. Inr (k, a))) predicted) (\<lambda>addr.
     rbind (boundSteps ga cc) (\<lambda>sts.
     rbind (readS cc ''expiresAtUtc'') (\<lambda>expires.
     rbind (getProp ''exposure'' cc) (\<lambda>exposure.
     rbind (rmap (readN exposure) [''totalPrincipalWei'', ''totalMaxGasWei'']) (\<lambda>es.
     rbind (rbind (getProp ''flags'' cc) objectEntries) (\<lambda>flags.
     rbind (readS cc ''canaryTokenSymbol'') (\<lambda>token.
     rbind (rbind (getProp ''lp'' cc) lpOf) (\<lambda>lp.
     rbind (rbind (getProp ''buy'' cc) buyOf) (\<lambda>buy.
     rbind (rbind (getProp ''sell'' cc) sellOf) (\<lambda>sell.
     rbind (rbind (getProp ''lock'' cc) lockOf) (\<lambda>lk.
     rbind (rbind (rbind (getProp ''dependencies'' cc) objectEntries) (rmap dependencyOf)) (\<lambda>deps.
     Inr \<lparr>rt_steps = sts, rt_capMicro = cap * 1000000, rt_DEPLOYER = ws ! 0, rt_TESTER = ws ! 1,
       rt_FACTORY = is ! 1, rt_NPM = is ! 2, rt_NVDA = is ! 5, rt_pool = pool, rt_addr = addr,
       rt_symbol = token, rt_lp = lp, rt_buy = buy, rt_sell = sell, rt_lock = lk, rt_dependencies = deps,
       rt_expiresAtUtc = expires, rt_exposurePrincipalWei = es ! 0, rt_exposureGasWei = es ! 1,
       rt_authFlags = map (\<lambda>(k, v). (k, v = JBool True)) flags\<rparr>)))))))))))))))))))"

text \<open>
  \<open>bindAndVerifyPacket\<close>: an exception of a check leaves the fields as they were. Once bound, the packet, policy
  and snapshot are gone.
\<close>

definition presentInputs :: "OpState \<Rightarrow> BindInputs \<Rightarrow> BindInputs" where
  "presentInputs s bi = (if op_runtime s = None then bi
     else bi\<lparr>bi_packet := JNull, bi_policy := JNull, bi_snapshot := JNull\<rparr>)"

definition bindAndVerifyPacket :: "'w Env \<Rightarrow> (string \<Rightarrow> Json) \<Rightarrow> BindInputs \<Rightarrow> 'w op_method" where
  "bindAndVerifyPacket env numText bi =
     bindA (gets (\<lambda>s. bindChecks env numText (op_execDigest s) (presentInputs s bi))) (\<lambda>r.
     bindA (lift r) (\<lambda>checks.
     applyBinding env ''packet'' checks (runtimeOf (en_getAddress env) (bi_package bi))))"

section \<open>What a bound packet is\<close>

text \<open>A bound step is the transaction \<open>t\<close> of the packet.\<close>

definition amountIs :: "Json \<Rightarrow> string \<Rightarrow> int \<Rightarrow> bool" where
  "amountIs t k n \<longleftrightarrow> (case getProp k t of
     Inr (JNum i) \<Rightarrow> n = i | Inr (JStr s) \<Rightarrow> isDecText s \<and> n = int_of_dec s | _ \<Rightarrow> False)"

definition stepAgrees :: "(string \<Rightarrow> exn + string) \<Rightarrow> Json \<Rightarrow> BoundStep \<Rightarrow> bool" where
  "stepAgrees ga t st \<longleftrightarrow>
     (case getProp ''signer'' t of Inr (JStr s) \<Rightarrow> ga s = Inr (st_signer st) | _ \<Rightarrow> False) \<and>
     getProp ''nonce'' t = Inr (JNum (st_nonce st)) \<and>
     (case getProp ''to'' t of
        Inr x \<Rightarrow> if truthy x then (case (x, st_to st) of (JStr s, Some a) \<Rightarrow> ga s = Inr a | _ \<Rightarrow> False) else st_to st = None
      | _ \<Rightarrow> False) \<and>
     (case getProp ''dataOrInitCode'' t of Inr (JStr d) \<Rightarrow> st_dataOrInitCode st = lower d | _ \<Rightarrow> False) \<and>
     (case getProp ''value'' t of
        Inr x \<Rightarrow> if truthy x then amountIs t ''value'' (int_of_dec (st_value st)) else st_value st = ''0''
      | _ \<Rightarrow> False) \<and>
     amountIs t ''gasLimit'' (st_gasLimit st) \<and> amountIs t ''maxFeePerGas'' (st_maxFeePerGas st) \<and>
     amountIs t ''maxPriorityFeePerGas'' (st_maxPriorityFeePerGas st) \<and>
     getProp ''phase'' t = Inr (JStr (st_phase st)) \<and> getProp ''label'' t = Inr (JStr (st_label st))"

lemma sigOf_field:
  assumes "sigOf ga True t = Inr ([], v)"
    and "map_of (signedFields ga t @ identityFields t) k = Some m"
  shows "\<exists>x. getProp k v = Inr x \<and> m = Inr ([], x)"
  using objN_field [of "signedFields ga t @ identityFields t" v k m] assms by (simp add: sigOf_def del: map_of_append)

lemma getProp_withPosition:
  assumes "getProp k (withPosition i t) = Inr (JNum n)" and "k \<noteq> ''_i''"
  obtains kvs where "t = JObj kvs" "\<And>l. l \<noteq> ''_i'' \<Longrightarrow> getProp l (withPosition i t) = getProp l t"
  using assms by (cases t) (auto simp: withPosition_def lookupKey_def)

lemma isHexAny_text: "isHexAny x \<longleftrightarrow> (\<exists>s. x = JStr s \<and> length s > 2 \<and> hex_string (length s - 2) s)"
  by (cases x) auto

lemma sigOf_fields:
  assumes "sigOf ga True u = Inr ([], v)"
  shows "\<exists>s a. getProp ''signer'' u = Inr (JStr s) \<and> ga s = Inr a \<and> getProp ''signer'' v = Inr (JStr a)"
    and "\<exists>n. getProp ''nonce'' u = Inr (JNum n) \<and> getProp ''nonce'' v = Inr (JNum n)"
    and "\<exists>x. getProp ''to'' u = Inr x \<and> (if truthy x then \<exists>s a. x = JStr s \<and> ga s = Inr a \<and> getProp ''to'' v = Inr (JStr a)
      else getProp ''to'' v = Inr JNull)"
    and "\<exists>x s. getProp ''value'' u = Inr x \<and> getProp ''value'' v = Inr (JStr s) \<and> isDecText s \<and>
      (if truthy x then x = JStr s \<or> (\<exists>i. x = JNum i \<and> s = dec_of_int i) else s = ''0'')"
    and "\<exists>d. getProp ''dataOrInitCode'' u = Inr (JStr d) \<and> getProp ''data'' v = Inr (JStr (lower d))"
    and "\<exists>s. getProp ''phase'' u = Inr (JStr s) \<and> getProp ''phase'' v = Inr (JStr s)"
    and "\<exists>s. getProp ''label'' u = Inr (JStr s) \<and> getProp ''label'' v = Inr (JStr s)"
  using sigOf_field [OF assms, of "''signer''"] sigOf_field [OF assms, of "''nonce''"] sigOf_field [OF assms, of "''to''"]
    sigOf_field [OF assms, of "''value''"] sigOf_field [OF assms, of "''data''"] sigOf_field [OF assms, of "''phase''"]
    sigOf_field [OF assms, of "''label''"]
  by (auto simp: signedFields_def identityFields_def noted_simps rbind_eq_Inr isHexAny_text split: if_splits)

lemma sigOf_amounts:
  assumes "sigOf ga True u = Inr ([], v)" and "k \<in> {''gasLimit'', ''maxFeePerGas'', ''maxPriorityFeePerGas''}"
  shows "\<exists>x s. getProp k u = Inr x \<and> getProp k v = Inr (JStr s) \<and> isDecText s \<and>
    (x = JStr s \<or> (\<exists>i. x = JNum i \<and> s = dec_of_int i))"
  using assms(2) sigOf_field [OF assms(1), of k]
  by (auto simp: signedFields_def identityFields_def noted_simps rbind_eq_Inr)

lemma same_getProp_back:
  assumes "same_json v w" and "getProp k w = Inr y"
  shows "\<exists>x. getProp k v = Inr x \<and> same_json x y"
proof (cases "getProp k v")
  case (Inl e)
  then have "v = JNull \<or> v = JUndefined" by (cases v) auto
  then have "w = v" using assms(1) by (auto elim: same_json.cases)
  with assms(2) Inl show ?thesis by simp
next
  case (Inr x)
  then show ?thesis using same_getProp [OF assms(1) Inr] assms(2) by auto
qed

lemma same_getProp_scalar:
  assumes "same_json v w"
  shows "getProp k w = Inr (JStr s) \<Longrightarrow> getProp k v = Inr (JStr s)"
    and "getProp k w = Inr (JNum n) \<Longrightarrow> getProp k v = Inr (JNum n)"
    and "getProp k w = Inr JNull \<Longrightarrow> getProp k v = Inr JNull"
  using same_getProp_back [OF assms, of k] by auto

lemma int_of_decText [simp]: "isDecText (dec_of_int i) \<Longrightarrow> int_of_dec (dec_of_int i) = i"
  by (auto simp: dec_of_int_def int_of_dec_def isDecText_def is_digit_char_def split: if_splits)

text \<open>A step read from a copy of what was built for the transaction \<open>t\<close>.\<close>

lemma boundStep_agrees:
  assumes sig: "sigOf ga True (withPosition i t) = Inr ([], w)" and same: "same_json v w"
    and read: "boundStep ga v = Inr st"
    and idem: "\<And>s a. ga s = Inr a \<Longrightarrow> a \<noteq> [] \<and> ga a = Inr a"
  shows "stepAgrees ga t st"
proof -
  note f = sigOf_fields [OF sig] and g = sigOf_amounts [OF sig]
  note copied = same_getProp_scalar [OF same]
  obtain n where "getProp ''nonce'' (withPosition i t) = Inr (JNum n)" using f(2) by blast
  then obtain kvs where same_as: "l \<noteq> ''_i'' \<Longrightarrow> getProp l (withPosition i t) = getProp l t" for l
    by (elim getProp_withPosition) auto
  have amount: "amountIs t k m"
    if k: "k \<in> {''gasLimit'', ''maxFeePerGas'', ''maxPriorityFeePerGas''}" and "readN v k = Inr m" for k m
  proof -
    have "k \<noteq> ''_i''" using k by auto
    then obtain x s where "getProp k t = Inr x" "getProp k v = Inr (JStr s)" "isDecText s"
      "x = JStr s \<or> (\<exists>j. x = JNum j \<and> s = dec_of_int j)"
      using g [OF k] same_as copied(1) by metis
    with that(2) show ?thesis
      by (auto simp: readN_def amountIs_def bigIntText_dec)
  qed
  have fields: "readA ga v ''signer'' = Inr (st_signer st)" "readN v ''nonce'' = Inr (st_nonce st)"
    "rbind (getProp ''to'' v) (\<lambda>x. if truthy x then rbind (addressOf ga x) (\<lambda>a. Inr (Some a)) else Inr None) = Inr (st_to st)"
    "readS v ''value'' = Inr (st_value st)" "readS v ''data'' = Inr (st_dataOrInitCode st)"
    "readS v ''phase'' = Inr (st_phase st)" "readS v ''label'' = Inr (st_label st)"
    "readN v ''gasLimit'' = Inr (st_gasLimit st)" "readN v ''maxFeePerGas'' = Inr (st_maxFeePerGas st)"
    "readN v ''maxPriorityFeePerGas'' = Inr (st_maxPriorityFeePerGas st)"
    using read by (auto simp: boundStep_def rbind_eq_Inr)
  have "case getProp ''signer'' t of Inr (JStr s) \<Rightarrow> ga s = Inr (st_signer st) | _ \<Rightarrow> False"
    using f(1) same_as copied(1) fields(1) idem by (fastforce simp: readA_def addressOf_def)
  moreover have "getProp ''nonce'' t = Inr (JNum (st_nonce st))"
    using f(2) same_as copied(2) fields(2) by (fastforce simp: readN_def)
  moreover have "case getProp ''to'' t of
        Inr x \<Rightarrow> if truthy x then (case (x, st_to st) of (JStr s, Some a) \<Rightarrow> ga s = Inr a | _ \<Rightarrow> False) else st_to st = None
      | _ \<Rightarrow> False"
  proof -
    obtain x where x: "getProp ''to'' t = Inr x" and "if truthy x
        then \<exists>s a. x = JStr s \<and> ga s = Inr a \<and> getProp ''to'' w = Inr (JStr a) else getProp ''to'' w = Inr JNull"
      using f(3) same_as [of "''to''"] by auto
    then show ?thesis
      using copied(1,3) [of "''to''"] fields(3) idem by (cases "st_to st") (auto simp: addressOf_def split: if_splits)
  qed
  moreover have "case getProp ''dataOrInitCode'' t of Inr (JStr d) \<Rightarrow> st_dataOrInitCode st = lower d | _ \<Rightarrow> False"
    using f(5) same_as copied(1) fields(5) by (fastforce simp: readS_def)
  moreover have "case getProp ''value'' t of
        Inr x \<Rightarrow> if truthy x then amountIs t ''value'' (int_of_dec (st_value st)) else st_value st = ''0''
      | _ \<Rightarrow> False"
    using f(4) same_as copied(1) fields(4) by (fastforce simp: readS_def amountIs_def)
  moreover have "getProp ''phase'' t = Inr (JStr (st_phase st))" "getProp ''label'' t = Inr (JStr (st_label st))"
    using f(6,7) same_as copied(1) fields(6,7) by (fastforce simp: readS_def)+
  ultimately show ?thesis
    using amount fields(8-10) unfolding stepAgrees_def by blast
qed

text \<open>The slots attached to deployments leave the rest of a step alone.\<close>

definition coreOf :: "BoundStep \<Rightarrow> BoundStep" where
  "coreOf st = st\<lparr>st_slot := None, st_predictedCreationAddress := None, st_expectedRuntimeHash := None\<rparr>"

lemma core_fields [simp]:
  "st_index (coreOf st) = st_index st" "st_signer (coreOf st) = st_signer st" "st_nonce (coreOf st) = st_nonce st"
  "st_to (coreOf st) = st_to st" "st_value (coreOf st) = st_value st" "st_phase (coreOf st) = st_phase st"
  "st_label (coreOf st) = st_label st" "st_dataOrInitCode (coreOf st) = st_dataOrInitCode st"
  "st_gasLimit (coreOf st) = st_gasLimit st" "st_maxFeePerGas (coreOf st) = st_maxFeePerGas st"
  "st_maxPriorityFeePerGas (coreOf st) = st_maxPriorityFeePerGas st"
  by (simp_all add: coreOf_def)

lemma stepAgrees_core: "stepAgrees ga t (coreOf st) = stepAgrees ga t st"
  unfolding stepAgrees_def core_fields ..

lemma attachDeployment_core:
  assumes "attachDeployment ga cc sts ij = Inr sts'"
  shows "map coreOf sts' = map coreOf sts"
proof -
  obtain j st where sts': "sts' = sts[j := st]" and st: "coreOf st = coreOf (sts ! j)"
    using assms by (cases ij) (auto simp: attachDeployment_def rbind_eq_Inr coreOf_def)
  show ?thesis
  proof (rule nth_equalityI)
    fix i assume "i < length (map coreOf sts')"
    then show "map coreOf sts' ! i = map coreOf sts ! i" by (cases "i = j") (auto simp: sts' st)
  qed (simp add: sts')
qed

lemma boundSteps_core:
  assumes "boundSteps ga cc = Inr sts"
  shows "\<exists>v im raw. getProp ''transactions'' cc = Inr v \<and> getProp ''immediate'' v = Inr (JArr im) \<and>
    list_all2 (\<lambda>t st. boundStep ga t = Inr st) im raw \<and> map coreOf sts = map coreOf raw"
proof -
  have arr: "arrayOf w = Inr ts \<longleftrightarrow> w = JArr ts" for w ts by (cases w) auto
  obtain v im raw where v: "getProp ''transactions'' cc = Inr v" "getProp ''immediate'' v = Inr (JArr im)"
    "rmap (boundStep ga) im = Inr raw" "rfold (attachDeployment ga cc) raw (enumerate 0 (deployOrder raw)) = Inr sts"
    using assms by (auto simp: boundSteps_def rbind_eq_Inr arr)
  have "map coreOf sts = map coreOf raw"
    by (rule rfold_invariant [OF v(4), of "\<lambda>x. map coreOf x = map coreOf raw"]) (auto dest: attachDeployment_core)
  with v show ?thesis by (auto simp: rmap_eq_Inr)
qed

lemma boundStep_index:
  "boundStep ga t = Inr st \<Longrightarrow> getProp ''index'' t = Inr (JNum (int i)) \<Longrightarrow> st_index st = i"
  by (auto simp: boundStep_def rbind_eq_Inr readN_def)

text \<open>A package that passed the strict validation numbers its transactions by their position.\<close>

lemma validateStrict_indexes:
  assumes "validateStrict ga cc = Inr []" and "getProp ''transactions'' cc = Inr v"
    and "getProp ''immediate'' v = Inr (JArr im)" and "i < length im"
  shows "getProp ''index'' (im ! i) = Inr (JNum (int i))"
proof -
  let ?chk = "bindN (liftN (getProp ''transactions'' cc)) (\<lambda>x. whenN x (chkTransactions ga))"
  obtain entries where "seqN (chkTop entries ga cc @ chkGroups ga cc) = Inr ([], ())"
    using assms(1) by (auto simp: validateStrict_def rbind_eq_Inr split: if_splits)
  moreover have "?chk \<in> set (chkTop entries ga cc @ chkGroups ga cc)"
    by (simp add: chkGroups_def Let_def)
  ultimately have "?chk = Inr ([], ())" by (rule seqN_all)
  moreover have "truthy v" using assms(3) by (cases v) auto
  ultimately have "chkTransactions ga v = Inr ([], ())"
    using assms(2) by (auto simp: noted_simps whenN_def)
  then obtain idxs where "rmap (getProp ''index'') im = Inr idxs"
    and "seqN [checkN (\<not> hasRepeat idxs) ''duplicate tx index'',
        checkN (list_all (\<lambda>(i, x). x = JNum (int i)) (enumerate 0 idxs)) ''non-sequential/reordered tx index'',
        allN (chkTransaction ga) im] = Inr ([], ())"
    using assms(3) by (auto simp: chkTransactions_def noted_simps thenN_def split: if_splits)
  then have "list_all2 (\<lambda>t x. getProp ''index'' t = Inr x) im idxs"
    and "list_all (\<lambda>(i, x). x = JNum (int i)) (enumerate 0 idxs)"
    by (auto simp: rmap_eq_Inr seqN_def thenN_def noted_simps)
  with assms(4) show ?thesis
    by (auto simp: list_all2_conv_all_nth list_all_length nth_enumerate_eq)
qed

lemma halt_not_bound: "halt env reason m \<noteq> (Done BoundOk, m')"
  by (auto simp: halt_def bindA_def doneA_def split: prod.splits outcome.splits)

lemma applyBinding_bound:
  assumes "applyBinding env what checks rt m = (Done BoundOk, m')"
  shows "list_all snd checks \<and> (\<exists>r. rt = Inr r \<and> op_bound (mc_op m') \<and> op_runtime (mc_op m') = Some r)"
proof (cases "list_all snd checks")
  case False
  then show ?thesis using assms halt_not_bound
    by (auto simp: applyBinding_def Let_def bindA_def modify_def split: prod.splits)
next
  case True
  then show ?thesis using assms
    by (auto simp: applyBinding_def Let_def bindA_def modify_def lift_def throw_def doneA_def
        split: prod.splits sum.splits)
qed

lemma bind_bound:
  assumes "bindAndVerifyPacket env numText bi m = (Done BoundOk, m')"
  obtains checks r where "bindChecks env numText (op_execDigest (mc_op m)) (presentInputs (mc_op m) bi) = Inr checks"
    and "list_all snd checks" and "runtimeOf (en_getAddress env) (bi_package bi) = Inr r"
    and "op_bound (mc_op m')" and "op_runtime (mc_op m') = Some r"
  using assms
  by (auto simp: bindAndVerifyPacket_def bindA_def gets_def lift_def throw_def doneA_def split: sum.splits
      dest!: applyBinding_bound)

text \<open>What the anchor checks say once they all passed.\<close>

lemma anchors_hold:
  assumes "bindChecks env numText d bi = Inr checks" and "list_all snd checks"
  obtains recon where
    "buildCanonical (en_getAddress env) numText (bi_packet bi) (bi_policy bi) (bi_snapshot bi) = Inr ([], Some recon)"
    and "validateStrict (en_getAddress env) (bi_package bi) = Inr []"
    and "stableText recon = stableText (bi_package bi)"
proof -
  obtain recon anchors where "anchorChecks env numText bi = Inr (recon, anchors)" and "list_all snd anchors"
    using assms by (auto simp: bindChecks_def rbind_eq_Inr)
  then obtain errors strict where
    "buildCanonical (en_getAddress env) numText (bi_packet bi) (bi_policy bi) (bi_snapshot bi) = Inr (errors, recon)"
    and "(if truthy (bi_package bi) then validateStrict (en_getAddress env) (bi_package bi)
      else Inr [''packaged reviewed-authorization missing'']) = Inr strict"
    and "errors = []" and "strict = []"
    and "case recon of None \<Rightarrow> False | Some r \<Rightarrow> truthy (bi_package bi) \<and> stableText r = stableText (bi_package bi)"
    unfolding anchorChecks_def Let_def rbind_eq_Inr case_prod_unfold by fastforce
  with that show thesis by (auto split: option.splits if_splits)
qed

text \<open>What passed checks say of the runtime data.\<close>

lemma checked_steps:
  assumes checks: "bindChecks env numText digest bi = Inr checks" and all: "list_all snd checks"
    and r: "runtimeOf (en_getAddress env) (bi_package bi) = Inr r"
    and stable: "\<forall>s a. en_getAddress env s = Inr a \<longrightarrow> a \<noteq> [] \<and> en_getAddress env a = Inr a"
    and parsed: "plainJson (bi_package bi)"
  shows "\<exists>recon ts.
    buildCanonical (en_getAddress env) numText (bi_packet bi) (bi_policy bi) (bi_snapshot bi) = Inr ([], Some recon) \<and>
    same_json (bi_package bi) recon \<and>
    getProp ''immediateTransactions'' (bi_packet bi) = Inr (JArr ts) \<and> length ts = 19 \<and> length (rt_steps r) = 19 \<and>
    (\<forall>i<19. st_index (rt_steps r ! i) = i \<and> stepAgrees (en_getAddress env) (ts ! i) (rt_steps r ! i))"
proof -
  let ?ga = "en_getAddress env"
  have checksum: "a \<noteq> [] \<and> ?ga a = Inr a" if "?ga s = Inr a" for s a using stable that by blast
  obtain recon where
    build: "buildCanonical ?ga numText (bi_packet bi) (bi_policy bi) (bi_snapshot bi) = Inr ([], Some recon)"
    and strict: "validateStrict ?ga (bi_package bi) = Inr []"
    and texts: "stableText recon = stableText (bi_package bi)"
    by (rule anchors_hold [OF checks all])
  have obj: "buildObject ?ga numText (bi_packet bi) (bi_policy bi) (bi_snapshot bi) = Inr ([], recon)"
    using build by (auto simp: buildCanonical_def rbind_eq_Inr split: if_splits)
  have same: "same_json (bi_package bi) recon"
    using stableText_same [OF parsed yieldsD [OF rendered_buildObject obj]] texts by simp
  obtain ts delayed x vs where ts: "getProp ''immediateTransactions'' (bi_packet bi) = Inr (JArr ts)" "length ts = 19"
    and x: "getProp ''transactions'' recon = Inr x" "getProp ''immediate'' x = Inr (JArr vs)"
    and sigs: "list_all2 (\<lambda>(i, t) v. sigOf ?ga True (withPosition i t) = Inr ([], v)) (enumerate 0 ts) vs"
    using buildObject_transactions [OF obj] transactionsN_immediate by (fastforce simp: rbind_eq_Inr)
  obtain sts where "boundSteps ?ga (bi_package bi) = Inr sts" and rsteps: "rt_steps r = sts"
    using r by (auto simp: runtimeOf_def rbind_eq_Inr)
  then obtain v im raw where v: "getProp ''transactions'' (bi_package bi) = Inr v" "getProp ''immediate'' v = Inr (JArr im)"
    and raw: "list_all2 (\<lambda>t st. boundStep ?ga t = Inr st) im raw" and core: "map coreOf sts = map coreOf raw"
    using boundSteps_core by blast
  have "same_json v x" using same_getProp [OF same v(1)] x(1) by auto
  then have "same_json (JArr im) (JArr vs)" using same_getProp [OF _ v(2)] x(2) by fastforce
  then have im: "list_all2 same_json im vs" by (simp add: same_arr_iff)
  have len: "length vs = 19" "length im = 19" "length raw = 19" "length sts = 19"
    using list_all2_lengthD [OF sigs] list_all2_lengthD [OF im] list_all2_lengthD [OF raw] core ts(2)
    by (auto dest: map_eq_imp_length_eq)
  have "st_index (sts ! i) = i \<and> stepAgrees ?ga (ts ! i) (sts ! i)" if "i < 19" for i
  proof -
    have sig: "sigOf ?ga True (withPosition i (ts ! i)) = Inr ([], vs ! i)"
      using list_all2_nthD [OF sigs, of i] that ts(2) by (simp add: nth_enumerate_eq)
    have read: "boundStep ?ga (im ! i) = Inr (raw ! i)" using list_all2_nthD [OF raw] that len by simp
    have "stepAgrees ?ga (ts ! i) (raw ! i)"
      by (rule boundStep_agrees [OF sig list_all2_nthD [OF im] read checksum]) (use that len in simp_all)
    moreover have "st_index (raw ! i) = i"
      using boundStep_index [OF read] validateStrict_indexes [OF strict v] that len by simp
    moreover have "coreOf (sts ! i) = coreOf (raw ! i)" using core that len by (metis nth_map)
    ultimately show ?thesis by (metis core_fields(1) stepAgrees_core)
  qed
  then show ?thesis using build same ts rsteps len by auto
qed

text \<open>
  C16: once a packet is bound, the operator's steps are the transactions of that packet. If binding succeeds
  on a page where nothing was bound, the packaged authorization is, at every leaf, the object rebuilt from
  the packet, the policy and the snapshot, and the packet has nineteen transactions; step \<open>i\<close> is number
  \<open>i\<close> and has the signer, nonce, target, value, data, gas limit, fees, phase and label of transaction \<open>i\<close>.
  Assumed: the checksum function returns texts that it leaves alone, and the package was parsed from a text.
\<close>

theorem bound_steps_are_the_packet:
  assumes run: "bindAndVerifyPacket env numText bi m = (Done BoundOk, m')"
    and new: "op_runtime (mc_op m) = None"
    and checksum: "\<And>s a. en_getAddress env s = Inr a \<Longrightarrow> a \<noteq> [] \<and> en_getAddress env a = Inr a"
    and parsed: "plainJson (bi_package bi)"
  shows "\<exists>recon r ts.
    buildCanonical (en_getAddress env) numText (bi_packet bi) (bi_policy bi) (bi_snapshot bi) = Inr ([], Some recon) \<and>
    same_json (bi_package bi) recon \<and>
    op_bound (mc_op m') \<and> op_runtime (mc_op m') = Some r \<and>
    getProp ''immediateTransactions'' (bi_packet bi) = Inr (JArr ts) \<and> length ts = 19 \<and> length (rt_steps r) = 19 \<and>
    (\<forall>i<19. st_index (rt_steps r ! i) = i \<and> stepAgrees (en_getAddress env) (ts ! i) (rt_steps r ! i))"
proof -
  have present: "presentInputs (mc_op m) bi = bi" using new by (simp add: presentInputs_def)
  obtain checks r where checks: "bindChecks env numText (op_execDigest (mc_op m)) bi = Inr checks"
    and all: "list_all snd checks" and r: "runtimeOf (en_getAddress env) (bi_package bi) = Inr r"
    and state: "op_bound (mc_op m')" "op_runtime (mc_op m') = Some r"
    by (rule bind_bound [OF run, unfolded present])
  show ?thesis
    using checked_steps [OF checks all r _ parsed] checksum state by blast
qed

end
