(* ===== verification/OperatorSession.thy ===== *)
theory OperatorSession
  imports OperatorSafety OperatorBind
begin

text \<open>
  Sessions of the operator with its own methods: what \<open>hooks\<close> needs of them, and the data that was bound. The
  locale \<open>bound_hooks\<close> adds to \<open>hooks\<close> a predicate that every bound runtime satisfies and that the methods
  keep; then whatever is handed to the wallet was handed over with such a runtime.
\<close>

section \<open>Binding keeps the invariant\<close>

lemma keeps_bindAndVerifyPacket: "keeps env kp kd (bindAndVerifyPacket env' numText bi)" if "env' = env"
  unfolding that bindAndVerifyPacket_def by (intro keeps_intros keeps_applyBinding)

definition baseMethods :: "'w Env \<Rightarrow> (string \<Rightarrow> Json) \<Rightarrow> BindInputs \<Rightarrow> 'w Methods" where
  "baseMethods env numText bi =
     \<lparr>me_bind = bindAndVerifyPacket env numText bi, me_markConnected = markConnected env,
      me_preconditions = preconditions env, me_reconcile = reconcile env\<rparr>"

interpretation base: hooks env kp kd "baseMethods env numText bi"
  for env :: "'w Env" and kp kd numText bi
  by unfold_locales
    (simp_all add: baseMethods_def keeps_bindAndVerifyPacket keeps_markConnected keeps_preconditions
      gateOk_preconditions keeps_reconcile)

section \<open>The runtime of a session\<close>

definition runtimeSat :: "(Runtime \<Rightarrow> bool) \<Rightarrow> OpState \<Rightarrow> bool" where
  "runtimeSat P s \<longleftrightarrow> (case op_runtime s of None \<Rightarrow> True | Some r \<Rightarrow> P r)"

definition sendsSat :: "(Runtime \<Rightarrow> bool) \<Rightarrow> (OpState, 'w) Machine \<Rightarrow> bool" where
  "sendsSat P m \<longleftrightarrow> list_all (\<lambda>e. runtimeSat P (ev_op e)) (sends m)"

definition tracked :: "(Runtime \<Rightarrow> bool) \<Rightarrow> (OpState, 'w) Machine \<Rightarrow> bool" where
  "tracked P m \<longleftrightarrow> runtimeSat P (mc_op m) \<and> sendsSat P m"

definition tracks :: "(Runtime \<Rightarrow> bool) \<Rightarrow> ('w, 'a) op_act \<Rightarrow> bool" where
  "tracks P x \<longleftrightarrow> (\<forall>m. tracked P m \<longrightarrow> wp x (\<lambda>_. tracked P) m)"

named_theorems tracks_intros \<open>actions that change no bound data\<close>

lemma tracked_upd [simp]:
  "tracked P (m\<lparr>mc_store := st\<rparr>) = tracked P m" "tracked P (m\<lparr>mc_world := w\<rparr>) = tracked P m"
  by (simp_all add: tracked_def sendsSat_def sends_def)

lemma tracks_quiet: "quiet x \<Longrightarrow> tracks P x"
  unfolding tracks_def by (intro allI impI, erule wp_quiet) (simp add: tracked_def sendsSat_def same_def)

lemma tracks_bindA [tracks_intros]: "tracks P x \<Longrightarrow> (\<And>a. tracks P (k a)) \<Longrightarrow> tracks P (bindA x k)"
  unfolding tracks_def wp_bindA
  by (intro allI impI, rule wp_mono, blast) (auto split: outcome.split)

lemma tracks_catch [tracks_intros]: "tracks P x \<Longrightarrow> (\<And>e. tracks P (h e)) \<Longrightarrow> tracks P (catch x h)"
  unfolding tracks_def wp_catch
  by (intro allI impI, rule wp_mono, blast) (auto split: outcome.split)

lemma tracks_basic [tracks_intros]:
  "tracks P (doneA a)" "tracks P (throw e)" "tracks P (lift r)" "tracks P (gets f)" "tracks P (stepAt i)"
  "tracks P runtime" "tracks P (reqTx env h)" "tracks P (verifyTxAndReceipt env t h)"
  "tracks P (cumulativeCheckpoint env i rc)" "tracks P (gates env rt i t)"
  by (intro tracks_quiet quiet_intros)+

lemma tracks_modify [tracks_intros]: "(\<And>s. op_runtime (f s) = op_runtime s) \<Longrightarrow> tracks P (modify f)"
  by (simp add: tracks_def tracked_def sendsSat_def runtimeSat_def sends_def)

lemma tracks_storage [tracks_intros]: "tracks P (storageSet env key v)" "tracks P (storageGet env key)"
  by (auto simp: tracks_def wp_def storageSet_def storageGet_def split: prod.splits)

lemma tracks_req [tracks_intros]: "tracks P (req env r)"
  by (auto simp: tracks_def wp_def req_def tracked_def sendsSat_def sends_def split: prod.split)

lemma tracks_cases [tracks_intros]:
  "tracks P x \<Longrightarrow> tracks P y \<Longrightarrow> tracks P (if b then x else y)"
  "tracks P x \<Longrightarrow> (\<And>a. tracks P (f a)) \<Longrightarrow> tracks P (case z of None \<Rightarrow> x | Some a \<Rightarrow> f a)"
  "(\<And>e. tracks P (g e)) \<Longrightarrow> (\<And>a. tracks P (f a)) \<Longrightarrow> tracks P (case r of Inl e \<Rightarrow> g e | Inr a \<Rightarrow> f a)"
  "(\<And>reason. tracks P (p reason)) \<Longrightarrow> (\<And>tx rc. tracks P (q tx rc)) \<Longrightarrow>
     tracks P (case v of VFail reason \<Rightarrow> p reason | VOk tx rc \<Rightarrow> q tx rc)"
  "(\<And>reason. tracks P (p' reason)) \<Longrightarrow> (\<And>vs. tracks P (q' vs)) \<Longrightarrow>
     tracks P (case w of PFail reason \<Rightarrow> p' reason | POk vs \<Rightarrow> q' vs)"
  by (simp_all split: option.split sum.split Verified.split Post.split)

lemma tracks_let [tracks_intros]: "(\<And>x. tracks P (f x)) \<Longrightarrow> tracks P (let x = v in f x)"
  by simp

lemma tracks_durable [tracks_intros]: "tracks P (durableSet env key v)" "tracks P (durableAt env k v)"
  unfolding durableAt_def durableSet_def by (intro tracks_intros)+

lemma tracks_halt [tracks_intros]: "tracks P (persistHalt env reason u)" "tracks P (halt env reason)"
  unfolding halt_def persistHalt_def by (rule tracks_intros | simp)+

lemma tracks_assertChain [tracks_intros]: "tracks P (assertChain env)"
  unfolding assertChain_def by (intro tracks_quiet quiet_intros) simp

lemma tracks_preconditions: "tracks P (preconditions env)"
  unfolding preconditions_def by (intro tracks_intros)

lemma tracks_markConnected: "tracks P (markConnected env)"
  unfolding markConnected_def by (intro tracks_intros tracks_quiet [OF quiet_reqQuantity]) simp_all

lemma tracks_wallet [tracks_intros]:
  "tracks P (askWallet env t)" "tracks P (afterWalletError env i e)" "tracks P (afterHash env b i h)"
  unfolding askWallet_def afterWalletError_def afterHash_def reqText_def by (rule tracks_intros | simp)+

lemma tracks_dispatch [tracks_intros]: "tracks P (invokeWallet env t b i)" "tracks P (dispatch env)"
  unfolding dispatch_def invokeWallet_def by (rule tracks_intros | simp)+

lemma tracks_sendCurrent: "tracks P pre \<Longrightarrow> tracks P (sendCurrent env pre)"
  unfolding sendCurrent_def by (intro tracks_intros)

lemma tracks_verifyAfterHash: "tracks P (verifyAfterHash env h)"
  unfolding verifyAfterHash_def journalStep_def finishStep_def by (intro tracks_intros) simp_all

lemma tracks_checkJournal: "tracks P (checkJournal env k js)"
proof (induction js arbitrary: k)
  case (Cons j js)
  show ?case by (cases j) (auto intro!: tracks_intros Cons)
qed (auto intro: tracks_intros)

lemma tracks_reconcile: "tracks P (reconcile env)"
  unfolding reconcile_def resumePending_def dropStalePending_def
  by (intro tracks_intros tracks_checkJournal tracks_verifyAfterHash) simp_all

lemma tracks_resolveUncertainSend: "tracks P (resolveUncertainSend env h)"
  unfolding resolveUncertainSend_def clearUncertain_def by (intro tracks_intros) simp_all

text \<open>A binding that succeeds is the only change of the runtime.\<close>

lemma tracks_applyBinding:
  assumes "\<And>r. list_all snd checks \<Longrightarrow> rt = Inr r \<Longrightarrow> P r"
  shows "tracks P (applyBinding env what checks rt)"
proof (cases "list_all snd checks")
  case False
  then show ?thesis unfolding applyBinding_def by (simp add: Let_def) (intro tracks_intros, simp)
next
  case True
  have "tracks P (bindA (lift rt) (\<lambda>r. bindA (modify (\<lambda>s. s\<lparr>op_runtime := Some r\<rparr>)) (\<lambda>_. doneA BoundOk)))"
    using assms [OF True]
    by (auto simp: tracks_def tracked_def runtimeSat_def sendsSat_def sends_def split: sum.split)
  with True show ?thesis
    unfolding applyBinding_def by (auto simp: Let_def intro!: tracks_bindA [OF tracks_modify])
qed

lemma tracks_bind:
  assumes "\<And>s checks r. c s = Inr checks \<Longrightarrow> list_all snd checks \<Longrightarrow> rt = Inr r \<Longrightarrow> P r"
  shows "tracks P (bindA (gets c) (\<lambda>r. bindA (lift r) (\<lambda>checks. applyBinding env what checks rt)))"
  unfolding tracks_def
proof (intro allI impI)
  fix m :: "(OpState, 'a) Machine" assume m: "tracked P m"
  have "tracks P (applyBinding env what checks rt)" if "c (mc_op m) = Inr checks" for checks
    using that assms by (intro tracks_applyBinding) blast
  with m show "wp (bindA (gets c) (\<lambda>r. bindA (lift r) (\<lambda>checks. applyBinding env what checks rt))) (\<lambda>_. tracked P) m"
    by (auto simp: tracks_def simp del: wp_bindA simp: wp_bindA [of "gets _"] wp_bindA [of "lift _"] split: sum.split)
qed

text \<open>Construction forgets what was bound.\<close>

lemma initialState_unbound: "initialState kp kd digest h js p i = Inr s \<Longrightarrow> op_runtime s = None"
  by (auto simp: initialState_def Let_def rbind_eq_Inr split: option.splits if_splits)

lemma wp_construct_tracked:
  assumes "sendsSat P m"
  shows "wp (construct env kp kd digest) (\<lambda>r m'. sendsSat P m' \<and> (r = Done () \<longrightarrow> tracked P m')) m"
proof -
  have sat [simp]: "sendsSat P (m\<lparr>mc_world := w\<rparr>) = sendsSat P m" for w
    by (simp add: sendsSat_def sends_def)
  have load: "wp (bindA (lift (initialState kp kd digest h js p i)) (\<lambda>s. modify (\<lambda>_. s)))
      (\<lambda>r m'. sendsSat P m' \<and> (r = Done () \<longrightarrow> tracked P m')) (m\<lparr>mc_world := w\<rparr>)" for h js p i w
    using assms
    by (auto simp: tracked_def runtimeSat_def sendsSat_def sends_def dest: initialState_unbound split: sum.split)
  show ?thesis
    unfolding construct_def by (intro wp_readRecord) (use assms load in \<open>simp_all del: wp_bindA\<close>)
qed

section \<open>Sessions with bound data\<close>

locale bound_hooks = hooks env kp kd me
  for env :: "'w Env" and kp kd :: string and me :: "'w Methods" +
  fixes P :: "Runtime \<Rightarrow> bool"
  assumes bind_tracks: "tracks P (me_bind me)"
    and connect_tracks: "tracks P (me_markConnected me)"
    and gate_tracks: "tracks P (me_preconditions me)"
    and reconcile_tracks: "tracks P (me_reconcile me)"
begin

lemma tracks_invoke: "tracks P (invoke env me c)"
  by (cases c) (simp_all add: tracks_basic bind_tracks connect_tracks gate_tracks reconcile_tracks tracks_sendCurrent
      tracks_verifyAfterHash tracks_resolveUncertainSend)

lemma step_tracked:
  assumes "sendsSat P (snd p)" "fst p \<longrightarrow> tracked P (snd p)"
  shows "sendsSat P (snd (sessionStep env me kp kd digest p c)) \<and>
    (fst (sessionStep env me kp kd digest p c) \<longrightarrow> tracked P (snd (sessionStep env me kp kd digest p c)))"
proof (cases "c = Reload")
  case True
  show ?thesis
    using wp_construct_tracked [OF assms(1), of env kp kd digest] True
    by (auto simp: sessionStep_def wp_def split: prod.splits outcome.splits)
next
  case False
  show ?thesis
  proof (cases "fst p")
    case True
    with assms(2) have "wp (invoke env me c) (\<lambda>_. tracked P) (snd p)"
      using tracks_invoke [of c] by (simp add: tracks_def)
    with True False show ?thesis
      by (cases c) (auto simp: sessionStep_def wp_def tracked_def split: prod.splits outcome.splits)
  qed (use False assms in \<open>cases c; simp add: sessionStep_def\<close>)
qed

lemma session_sendsSat: "sendsSat P (session env me kp kd digest (fresh kp kd st w s0) cs)"
proof -
  have "sendsSat P (snd (foldl (sessionStep env me kp kd digest) p cs))"
    if "sendsSat P (snd p)" "fst p \<longrightarrow> tracked P (snd p)" for p
    using that by (induction cs arbitrary: p) (use step_tracked in auto)
  from this [of "(False, fresh kp kd st w s0)"] show ?thesis
    by (simp add: session_def fresh_def sendsSat_def sends_def)
qed

text \<open>Every send is authorized and was made with a runtime of the right kind.\<close>

lemma sends_bound:
  "list_all (\<lambda>e. authorizedSend env e \<and> (\<exists>r. op_runtime (ev_op e) = Some r \<and> P r \<and> op_current (ev_op e) < length (rt_steps r)))
     (sends (session env me kp kd digest (fresh kp kd st w s0) cs))"
proof -
  have "\<exists>r. op_runtime s = Some r \<and> P r \<and> op_current s < length (rt_steps r)"
    if "readyState s" "runtimeSat P s" for s
    using that by (auto simp: readyState_def runtimeSat_def steps_def split: option.splits)
  then show ?thesis
    using sends_authorized [of digest st w s0 cs] session_sendsSat [of digest st w s0 cs]
    by (auto simp: list_all_iff sendsSat_def authorizedSend_def Let_def)
qed

end

section \<open>What the operator binds\<close>

definition boundFrom :: "'w Env \<Rightarrow> (string \<Rightarrow> Json) \<Rightarrow> BindInputs \<Rightarrow> Runtime \<Rightarrow> bool" where
  "boundFrom env numText bi r \<longleftrightarrow>
     (\<exists>digest checks. bindChecks env numText digest bi = Inr checks \<and> list_all snd checks) \<and>
     runtimeOf (en_getAddress env) (bi_package bi) = Inr r"

lemma discarded_inputs: "bindChecks env numText digest (bi\<lparr>bi_packet := JNull, bi_policy := p, bi_snapshot := s\<rparr>) \<noteq> Inr checks"
  by (auto simp: bindChecks_def coverageChecks_def rbind_eq_Inr Let_def)

lemma tracks_bindAndVerifyPacket: "tracks (boundFrom env numText bi) (bindAndVerifyPacket env numText bi)"
  unfolding bindAndVerifyPacket_def
proof (rule tracks_bind)
  fix s checks r
  assume ok: "bindChecks env numText (op_execDigest s) (presentInputs s bi) = Inr checks"
    and rest: "list_all snd checks" "runtimeOf (en_getAddress env) (bi_package bi) = Inr r"
  have "presentInputs s bi = bi"
    using ok by (cases "op_runtime s") (auto simp: presentInputs_def discarded_inputs)
  with ok rest show "boundFrom env numText bi r" by (auto simp: boundFrom_def)
qed

interpretation base: bound_hooks env kp kd "baseMethods env numText bi" "boundFrom env numText bi"
  for env :: "'w Env" and kp kd numText bi
  by unfold_locales
    (simp_all add: baseMethods_def tracks_bindAndVerifyPacket tracks_markConnected tracks_preconditions tracks_reconcile)

text \<open>The transaction \<open>t\<close> of a packet, as the wallet gets it.\<close>

definition txIs :: "(string \<Rightarrow> exn + string) \<Rightarrow> Json \<Rightarrow> SendTx \<Rightarrow> bool" where
  "txIs ga t tx \<longleftrightarrow>
     (\<exists>s. getProp ''signer'' t = Inr (JStr s) \<and> ga s = Inr (sx_from tx)) \<and>
     (\<exists>n. getProp ''nonce'' t = Inr (JNum n) \<and> sx_nonce tx = hexQuantity n) \<and>
     (\<exists>x. getProp ''to'' t = Inr x \<and>
        (if truthy x then \<exists>s a. x = JStr s \<and> ga s = Inr a \<and> sx_to tx = Some a else sx_to tx = None)) \<and>
     (\<exists>d. getProp ''dataOrInitCode'' t = Inr (JStr d) \<and> sx_data tx = lower d) \<and>
     (\<exists>n. amountIs t ''gasLimit'' n \<and> sx_gas tx = hexQuantity n) \<and>
     (\<exists>n. amountIs t ''maxFeePerGas'' n \<and> sx_maxFeePerGas tx = hexQuantity n) \<and>
     (\<exists>n. amountIs t ''maxPriorityFeePerGas'' n \<and> sx_maxPriorityFeePerGas tx = hexQuantity n) \<and>
     sx_value tx = ''0x0'' \<and> sx_type tx = ''0x2'' \<and> sx_chainId tx = ''0x1237''"

lemma stepAgrees_txIs:
  assumes agree: "stepAgrees (en_getAddress env) t st" and build: "buildSendTx env st = Inr tx"
    and stable: "\<forall>s a. en_getAddress env s = Inr a \<longrightarrow> a \<noteq> [] \<and> en_getAddress env a = Inr a"
  shows "txIs (en_getAddress env) t tx"
proof -
  let ?ga = "en_getAddress env"
  obtain s where s: "getProp ''signer'' t = Inr (JStr s)" "?ga s = Inr (st_signer st)"
    using agree by (auto simp: stepAgrees_def split: sum.splits Json.splits)
  obtain x where x: "getProp ''to'' t = Inr x"
    "if truthy x then \<exists>u a. x = JStr u \<and> ?ga u = Inr a \<and> st_to st = Some a else st_to st = None"
  proof -
    have "case getProp ''to'' t of
        Inr x \<Rightarrow> if truthy x then (case (x, st_to st) of (JStr s, Some a) \<Rightarrow> ?ga s = Inr a | _ \<Rightarrow> False) else st_to st = None
      | _ \<Rightarrow> False"
      using agree unfolding stepAgrees_def by blast
    then obtain x where "getProp ''to'' t = Inr x"
      "if truthy x then (case (x, st_to st) of (JStr s, Some a) \<Rightarrow> ?ga s = Inr a | _ \<Rightarrow> False) else st_to st = None"
      by (auto split: sum.splits)
    then show thesis
      by (intro that [of x]) (cases x; cases "st_to st"; auto split: if_splits)+
  qed
  obtain d where d: "getProp ''dataOrInitCode'' t = Inr (JStr d)" "st_dataOrInitCode st = lower d"
    using agree by (auto simp: stepAgrees_def split: sum.splits Json.splits)
  have nums: "getProp ''nonce'' t = Inr (JNum (st_nonce st))" "amountIs t ''gasLimit'' (st_gasLimit st)"
    "amountIs t ''maxFeePerGas'' (st_maxFeePerGas st)" "amountIs t ''maxPriorityFeePerGas'' (st_maxPriorityFeePerGas st)"
    using agree by (simp_all add: stepAgrees_def)
  have "?ga (st_signer st) = Inr (st_signer st)" using stable s(2) by blast
  moreover have "?ga a = Inr a" if "st_to st = Some a" for a
    using x(2) that stable by (auto split: if_splits)
  ultimately have "sx_from tx = st_signer st" "sx_to tx = st_to st" "sx_data tx = st_dataOrInitCode st"
    "sx_nonce tx = hexQuantity (st_nonce st)" "sx_gas tx = hexQuantity (st_gasLimit st)"
    "sx_maxFeePerGas tx = hexQuantity (st_maxFeePerGas st)"
    "sx_maxPriorityFeePerGas tx = hexQuantity (st_maxPriorityFeePerGas st)"
    "sx_value tx = ''0x0''" "sx_type tx = ''0x2''" "sx_chainId tx = ''0x1237''"
    using build by (cases "st_to st"; auto simp: buildSendTx_def rbind_eq_Inr)+
  then show ?thesis using s x d nums unfolding txIs_def by auto
qed

section \<open>The properties\<close>

text \<open>
  C13: Whatever a session of the operator does - reloads and crashes at any request or storage access, storage
  that loses or refuses writes, a wallet and a chain that answer anything, methods called in any order - no
  step of the packet is handed to the wallet twice without the user having rejected it in between.
\<close>

theorem operator_sends_at_most_once:
  "distinct (liveSteps (session env (baseMethods env numText bi) kp kd digest (fresh kp kd st w s0) cs))"
  by (rule base.sends_distinct)

text \<open>
  C14: Every transaction handed to the wallet in a session is the one bound for the current step, in a state
  that is bound, connected, reconciled, not halted, without an uncertain or pending send and with exactly the
  previous steps journalled, while the storage holds the intent for this step.
\<close>

theorem operator_sends_authorized:
  "list_all (authorizedSend env) (sends (session env (baseMethods env numText bi) kp kd digest (fresh kp kd st w s0) cs))"
  by (rule base.sends_authorized)

text \<open>
  C17: Whatever a session does, the wallet only ever gets transactions of the reviewed packet: what is handed
  over at step \<open>k\<close> is transaction \<open>k\<close> of the packet, with its signer, nonce, target, data, gas limit and fees,
  no value, and the id of the chain. Assumed: the checksum function returns texts that it leaves alone, and
  the package was parsed from a text.
\<close>

theorem operator_sends_the_packet:
  assumes checksum: "\<And>s a. en_getAddress env s = Inr a \<Longrightarrow> a \<noteq> [] \<and> en_getAddress env a = Inr a"
    and parsed: "plainJson (bi_package bi)"
  shows "list_all (\<lambda>e. \<exists>ts tx. getProp ''immediateTransactions'' (bi_packet bi) = Inr (JArr ts) \<and> length ts = 19 \<and>
      op_current (ev_op e) < 19 \<and> ev_rpc e = EthSendTransaction tx \<and>
      txIs (en_getAddress env) (ts ! op_current (ev_op e)) tx)
    (sends (session env (baseMethods env numText bi) kp kd digest (fresh kp kd st w s0) cs))"
proof -
  have "\<exists>ts tx. getProp ''immediateTransactions'' (bi_packet bi) = Inr (JArr ts) \<and> length ts = 19 \<and>
      op_current (ev_op e) < 19 \<and> ev_rpc e = EthSendTransaction tx \<and>
      txIs (en_getAddress env) (ts ! op_current (ev_op e)) tx"
    if auth: "authorizedSend env e" and r: "op_runtime (ev_op e) = Some r" "boundFrom env numText bi r"
      "op_current (ev_op e) < length (rt_steps r)" for e r
  proof -
    from r(2) obtain d checks where checks: "bindChecks env numText d bi = Inr checks" "list_all snd checks"
      "runtimeOf (en_getAddress env) (bi_package bi) = Inr r"
      by (auto simp: boundFrom_def)
    obtain ts where ts: "getProp ''immediateTransactions'' (bi_packet bi) = Inr (JArr ts)" "length ts = 19"
      "length (rt_steps r) = 19" "\<forall>i<19. stepAgrees (en_getAddress env) (ts ! i) (rt_steps r ! i)"
      using checked_steps [OF checks _ parsed] checksum by blast
    obtain tx where "ev_rpc e = EthSendTransaction tx" "buildSendTx env (rt_steps r ! op_current (ev_op e)) = Inr tx"
      using auth r(1) by (auto simp: authorizedSend_def steps_def Let_def split: sum.splits)
    moreover from this have "txIs (en_getAddress env) (ts ! op_current (ev_op e)) tx"
      using ts r(3) checksum by (intro stepAgrees_txIs) auto
    ultimately show ?thesis using ts r(3) by auto
  qed
  then show ?thesis
    by (rule_tac list.pred_mono_strong [OF base.sends_bound]) blast
qed

end
