(* ===== verification/OperatorExample.thy ===== *)
theory OperatorExample
  imports OperatorSession
begin

text \<open>
  A small packet with its policy, snapshot and packaged authorization, bound by the operator: the witness of
  the theorem about bound steps. Then a session on a chain and a wallet that answer as the packet expects: all
  gates pass, and the first transaction of the packet is sent. The hash is constant, and the checksum function
  accepts any address.
\<close>

section \<open>The inputs\<close>

definition ex_address :: "char \<Rightarrow> string" where
  "ex_address c = ''0x'' @ replicate 40 c"

definition ex_ga :: "string \<Rightarrow> exn + string" where
  "ex_ga s = (if hex_string 40 s then Inr s else Inl (jsError ''bad address''))"

definition ex_hash :: string where "ex_hash = ''0x'' @ replicate 64 (CHR ''a'')"

definition ex_tx :: "nat \<Rightarrow> Json" where
  "ex_tx n = JObj [(''chainId'', JNum 4663), (''signer'', JStr (ex_address (CHR ''a''))), (''nonce'', JNum (int n + 3)),
     (''to'', JStr (ex_address (CHR ''b''))), (''value'', JStr ''0''), (''dataOrInitCode'', JStr ''0xAb''),
     (''gasLimit'', JStr ''9''), (''maxFeePerGas'', JStr ''8''), (''maxPriorityFeePerGas'', JNum 7),
     (''phase'', JStr ''B''), (''label'', JStr ''approve'')]"

definition ex_addrs :: "string list \<Rightarrow> (string \<times> Json) list" where
  "ex_addrs ks = map (\<lambda>k. (k, JStr (ex_address (CHR ''c'')))) ks"

definition ex_nums :: "string list \<Rightarrow> (string \<times> Json) list" where
  "ex_nums ks = map (\<lambda>k. (k, JStr ''1'')) ks"

definition ex_ints :: "string list \<Rightarrow> (string \<times> Json) list" where
  "ex_ints ks = map (\<lambda>k. (k, JNum 1)) ks"

definition ex_flags :: Json where
  "ex_flags = JObj (map (\<lambda>k. (k, JBool True)) FLAGS)"

definition ex_pair :: "Json \<Rightarrow> Json \<Rightarrow> Json" where
  "ex_pair d t = JObj [(''deployer'', d), (''tester'', t)]"

definition ex_meta :: Json where
  "ex_meta = JObj
     [(''authorization'', JObj [(''canary'', JBool True), (''production'', JBool False), (''scope'', JStr SCOPE),
        (''maxAllInclusiveExposureUsd'', JNum 130)]),
      (''reviewedAuthorizationDigest'', JStr ex_hash), (''chainId'', JNum 4663), (''executable'', JBool True),
      (''generatedAtUtc'', JStr ''g''), (''expiresAtUtc'', JStr ''e''), (''validityWindowSeconds'', JNum 1),
      (''deployer'', JStr (ex_address (CHR ''a''))), (''tester'', JStr (ex_address (CHR ''d''))),
      (''startNonces'', ex_pair (JNum 3) (JNum 0)), (''forkBlock'', JStr ''1''), (''forkBlockHash'', JStr ex_hash),
      (''forkTimestamp'', JStr ''1''), (''forkBaseFeePerGasWei'', JStr ''1''),
      (''feeBounds'', JObj (ex_nums [''maxFeePerGasWei'', ''maxPriorityFeePerGasWei'', ''pinnedBaseFeePerGasWei''])),
      (''executionPacketDigest'', JStr ex_hash), (''deploymentOnlyDigest'', JStr ex_hash)]"

definition ex_inbound :: Json where
  "ex_inbound = JObj [(''inbound'', ex_pair (JObj (ex_nums [''weth''])) (JObj (ex_nums [''weth''])))]"

definition ex_cap :: Json where
  "ex_cap = JObj [(''allInclusiveGasWei'', JStr ''1''), (''aggregateWei'', JStr ''3''),
     (''allInclusiveExposureMicroUsd'', JStr ''1'')]"

definition ex_guards :: Json where
  "ex_guards = JObj ([(''canaryTokenSymbol'', JStr ''BPSC-TEST''),
     (''infrastructure'', JArr [JStr (ex_address (CHR ''c''))])] @ ex_addrs [''poolAddress''])"

definition ex_provenance :: Json where
  "ex_provenance = JObj [(''repoHead'', JStr ''r''), (''dirtyTrackedTree'', JBool False), (''contracts'', JObj [])]"

definition ex_review :: Json where
  "ex_review = JObj [(''gas'', JObj (ex_nums [''maxFeePerGasWei'', ''maxPriorityFeePerGasWei''])),
     (''caps'', JObj [(''aggregateUsd'', JNum 130)])]"

definition ex_lpUsage :: Json where
  "ex_lpUsage = JObj (ex_nums [''sqrtPriceX96'', ''amount0Used'', ''amount1Used'', ''amount0Min'', ''amount1Min'',
       ''poolLiquidityAfter''] @ ex_ints [''poolTickAfter'', ''tickLower'', ''tickUpper'', ''positionFee'']
     @ ex_addrs [''token0'', ''token1'', ''positionOwner''])"

definition ex_buying :: Json where
  "ex_buying = JObj (ex_nums [''tradeId'', ''grossWethInput'', ''stockBudget2pct'', ''burnBudget1pct'',
       ''userWethBudget97pct'', ''userBpsOutput'', ''bpsBurned'', ''minimumUserBpsOutput'']
     @ ex_addrs [''trader'', ''recipient'', ''adapter'', ''stockBudgetRecipient''])"

definition ex_selling :: Json where
  "ex_selling = JObj (ex_nums [''tradeId'', ''grossBpsInput'', ''grossWethOutput'', ''stockAcquisition2pct'',
       ''retirementBurn2pct'', ''userWethOutput96pct'', ''bpsBurned'', ''minimumGrossWethOutput'',
       ''minimumUserWethOutput'']
     @ ex_addrs [''trader'', ''recipient'', ''adapter'', ''stockBudgetRecipient''])"

definition ex_locking :: Json where
  "ex_locking = JObj (ex_nums [''lockId'', ''principal'', ''startTime'', ''unlockTime'']
     @ ex_ints [''duration'', ''multiplierBps'', ''policyVersion''] @ ex_addrs [''account''])"

definition ex_packet :: Json where
  "ex_packet = JObj
     [(''meta'', ex_meta), (''safetyFlags'', ex_flags), (''forkFunding'', ex_inbound), (''capArithmetic'', ex_cap),
      (''addressGuards'', ex_guards), (''immediateTransactions'', JArr (map ex_tx [0..<19])),
      (''delayedWithdrawalSubPacket'', ex_tx 19), (''provenance'', ex_provenance),
      (''reviewPolicySnapshot'', ex_review), (''lpUsage'', ex_lpUsage), (''buyAccounting'', ex_buying),
      (''sellAccounting'', ex_selling), (''lockAndWithdraw'', ex_locking)]"

definition ex_wallets :: Json where
  "ex_wallets = ex_pair (JStr (ex_address (CHR ''a''))) (JStr (ex_address (CHR ''d'')))"

definition ex_infra :: Json where "ex_infra = JObj (ex_addrs DEP_NAMES)"

definition ex_gas :: Json where "ex_gas = JObj (ex_nums [''maxFeePerGasWei'', ''maxPriorityFeePerGasWei''])"

definition ex_fork :: Json where
  "ex_fork = JObj (ex_nums [''forkBlock'', ''forkTimestamp'', ''baseFeePerGasWei''] @ [(''forkHash'', JStr ex_hash)])"

definition ex_policy :: Json where
  "ex_policy = JObj
     [(''canary'', JBool True), (''production'', JBool False), (''chainId'', JNum 4663), (''executable'', JBool True),
      (''authorizationScope'', JStr SCOPE), (''maxAllInclusiveExposureUsd'', JNum 130), (''safetyFlags'', ex_flags),
      (''reviewedAuthorizationDigest'', JStr ex_hash), (''wallets'', ex_wallets),
      (''infrastructure'', ex_infra), (''caps'', JObj [(''aggregateUsd'', JNum 130)]), (''gas'', ex_gas),
      (''validity'', JObj [(''windowSeconds'', JNum 1)]), (''expectedNonces'', ex_pair (JNum 3) (JNum 0)),
      (''snapshot'', ex_fork), (''economics'', JObj [(''feeTier'', JNum 3000), (''tickSpacing'', JNum 60)])]"

definition ex_block :: Json where
  "ex_block = JObj (ex_nums [''number'', ''timestamp'', ''baseFeePerGasWei''] @ [(''hash'', JStr ex_hash)])"

definition ex_code :: Json where
  "ex_code = JObj [(''address'', JStr (ex_address (CHR ''c''))), (''runtimeCodeHash'', JStr ex_hash), (''codeBytes'', JNum 1)]"

definition ex_codes :: Json where "ex_codes = JObj (map (\<lambda>k. (k, ex_code)) DEP_NAMES)"

definition ex_snapshot :: Json where
  "ex_snapshot = JObj
     [(''pinnedBlock'', ex_block), (''nonces'', ex_pair (JNum 3) (JNum 0)),
      (''balances'', JObj [(''eth'', ex_pair (JNum 1) (JNum 1)), (''weth'', ex_pair (JNum 1) (JNum 1))]),
      (''allPredictedAddressesEmpty'', JBool True), (''externalCodeHashes'', ex_codes)]"

definition ex_numText :: "string \<Rightarrow> Json" where "ex_numText s = JFrac"

text \<open>The packaged authorization: what is rebuilt from the inputs.\<close>

definition ex_sig :: "nat \<Rightarrow> (string \<times> Json) list" where
  "ex_sig n = [(''chainId'', JNum 4663), (''signer'', JStr (ex_address (CHR ''a''))), (''nonce'', JNum (int n + 3)),
     (''type'', JNum 2), (''to'', JStr (ex_address (CHR ''b''))), (''value'', JStr ''0''), (''data'', JStr ''0xab''),
     (''gasLimit'', JStr ''9''), (''maxFeePerGas'', JStr ''8''), (''maxPriorityFeePerGas'', JStr ''7'')]"

definition ex_step :: "nat \<Rightarrow> Json" where
  "ex_step n = JObj (ex_sig n @ [(''index'', JNum (int n)), (''phase'', JStr ''B''), (''label'', JStr ''approve''),
     (''postconditionType'', JStr ''approve'')])"

definition ex_lp :: Json where
  "ex_lp = JObj [(''feeTier'', JNum 3000), (''tickSpacing'', JNum 60), (''sqrtPriceX96'', JStr ''1''), (''tick'', JNum 1),
     (''tickLower'', JNum 1), (''tickUpper'', JNum 1), (''amount0Used'', JStr ''1''), (''amount1Used'', JStr ''1''),
     (''amount0Min'', JStr ''1''), (''amount1Min'', JStr ''1''), (''poolLiquidityAfter'', JStr ''1''),
     (''token0'', JStr (ex_address (CHR ''c''))), (''token1'', JStr (ex_address (CHR ''c''))),
     (''positionOwner'', JStr (ex_address (CHR ''c''))), (''positionFee'', JNum 1)]"

definition ex_trade :: "(string \<times> Json) list" where
  "ex_trade = [(''tradeId'', JStr ''1''), (''trader'', JStr (ex_address (CHR ''c''))),
     (''recipient'', JStr (ex_address (CHR ''c''))), (''adapter'', JStr (ex_address (CHR ''c''))),
     (''stockBudgetRecipient'', JStr (ex_address (CHR ''c'')))]"

definition ex_buy :: Json where
  "ex_buy = JObj (ex_trade @ ex_nums [''grossWethInput'', ''stockBudget'', ''burnBudget'', ''userWethBudget'',
     ''userBpsOutput'', ''bpsBurned'', ''minimumUserBpsOutput''])"

definition ex_sell :: Json where
  "ex_sell = JObj (ex_trade @ ex_nums [''grossBpsInput'', ''grossWethOutput'', ''stockBudget'', ''burnBudget'',
     ''userWethOutput'', ''bpsBurned'', ''minimumGrossWethOutput'', ''minimumUserWethOutput''])"

definition ex_lock :: Json where
  "ex_lock = JObj [(''account'', JStr (ex_address (CHR ''c''))), (''lockId'', JStr ''1''), (''principal'', JStr ''1''),
     (''startTime'', JStr ''1''), (''duration'', JNum 1), (''unlockTime'', JStr ''1''), (''multiplierBps'', JNum 1),
     (''policyVersion'', JNum 1)]"

definition ex_head :: "(string \<times> Json) list" where
  "ex_head = [(''schema'', JStr CANON_SCHEMA), (''version'', JStr CANON_VERSION), (''canary'', JBool True),
     (''production'', JBool False), (''chainId'', JNum 4663), (''scope'', JStr SCOPE), (''flags'', ex_flags),
     (''executable'', JBool True), (''maxAllInclusiveExposureUsd'', JNum 130), (''generatedAtUtc'', JStr ''g''),
     (''expiresAtUtc'', JStr ''e''), (''validityWindowSeconds'', JNum 1), (''wallets'', ex_wallets),
     (''startNonces'', JObj [(''deployerLatest'', JNum 3), (''deployerPending'', JNum 3), (''testerLatest'', JNum 0),
        (''testerPending'', JNum 0)])]"

definition ex_pinned :: "(string \<times> Json) list" where
  "ex_pinned = [(''block'', JObj [(''number'', JStr ''1''), (''hash'', JStr ex_hash), (''timestamp'', JStr ''1''),
        (''baseFeePerGasWei'', JStr ''1''), (''chainId'', JNum 4663)]),
     (''snapshotBalances'', JObj (ex_nums [''deployerEth'', ''deployerWeth'', ''testerEth'', ''testerWeth''])),
     (''snapshotNonces'', ex_pair (JNum 3) (JNum 0))]"

definition ex_transactions :: Json where
  "ex_transactions = JObj [(''count'', JNum 19), (''immediate'', JArr (map ex_step [0..<19])),
     (''delayed'', JObj (ex_sig 19 @ [(''disabled'', JBool True)]))]"

definition ex_exposure :: Json where
  "ex_exposure = JObj [(''totalPrincipalWei'', JStr ''2''), (''totalMaxGasWei'', JStr ''1''), (''aggregateWei'', JStr ''3''),
     (''aggregateMicroUsd'', JStr ''1'')]"

definition ex_entries :: "(string \<times> Json) list" where
  "ex_entries = ex_head @ ex_pinned @
     [(''infrastructure'', ex_infra), (''pool'', JStr (ex_address (CHR ''c''))),
      (''canaryTokenSymbol'', JStr ''BPSC-TEST''), (''predicted'', JObj []), (''predictedAllEmptyAsserted'', JBool True),
      (''dependencies'', ex_codes), (''deployments'', JObj []), (''lp'', ex_lp), (''buy'', ex_buy), (''sell'', ex_sell),
      (''lock'', ex_lock), (''transactions'', ex_transactions), (''exposure'', ex_exposure),
      (''provenance'', ex_provenance),
      (''digests'', JObj [(''executionPacketDigest'', JStr ex_hash), (''deploymentOnlyDigest'', JStr ex_hash)]),
      (''delayedWithdrawalDisabled'', JBool True)]"

definition ex_package :: Json where "ex_package = JObj ex_entries"

definition ex_inputs :: BindInputs where
  "ex_inputs = \<lparr>bi_packet = ex_packet, bi_policy = ex_policy, bi_snapshot = ex_snapshot, bi_package = ex_package,
     bi_raw = ''{}''\<rparr>"

text \<open>A chain and a wallet that answer everything as the packet expects it, and a storage that keeps what it is given.\<close>

fun ex_reply :: "Rpc \<Rightarrow> Reply" where
  "ex_reply EthChainId = RQuantity 4663"
| "ex_reply EthAccounts = RAccounts [ex_address (CHR ''a'')]"
| "ex_reply (EthGetTransactionCount a tag) = RQuantity 3"
| "ex_reply (EthGetCode a tag) = RText ''0x00''"
| "ex_reply (EthGetBlockByNumber tag) = RBlock 1 1"
| "ex_reply (EthGetBalance a tag) = RQuantity 100"
| "ex_reply (EthCall c tag) = RText ''0x''"
| "ex_reply (EthEstimateGas c) = RQuantity 9"
| "ex_reply (EthSendTransaction tx) = RText ex_hash"
| "ex_reply (EthGetTransactionByHash h) = RTx None"
| "ex_reply (EthGetTransactionReceipt h) = RReceipt None"

definition ex_price :: LivePrice where
  "ex_price = \<lparr>lp_coinbaseMicroUsd = Some 1, lp_krakenMicroUsd = Some 1, lp_coinbaseAgeS = 0, lp_krakenAgeS = 0\<rparr>"

definition ex_env :: "unit Env" where
  "ex_env = \<lparr>en_request = (\<lambda>r w. (Done (ex_reply r), w)), en_set = (\<lambda>_ w. ((True, Done ()), w)),
     en_get = (\<lambda>_ w. (Done (), w)), en_price = Some (\<lambda>w. (Done ex_price, w)), en_now = (\<lambda>_. 0),
     en_dateParse = (\<lambda>_. Some 1), en_keccak256 = (\<lambda>_. ex_hash), en_getAddress = ex_ga, en_receiptPolls = 0\<rparr>"

section \<open>What is built from them\<close>

lemma ex_opaque: "hex_string 40 (ex_address (CHR ''a''))" "hex_string 40 (ex_address (CHR ''b''))"
  "hex_string 40 (ex_address (CHR ''c''))" "hex_string 40 (ex_address (CHR ''d''))" "hex_string 64 ex_hash"
  "lower ex_hash = ex_hash" "isDecText ''1''" "isDecText ''0''" "isDecText ''2''" "isDecText ''3''" "isDecText ''7''" "isDecText ''8''" "isDecText ''9''"
  "int_of_dec ''1'' = 1" "int_of_dec ''2'' = 2" "int_of_dec ''3'' = 3" "int_of_dec ''9'' = 9" "int_of_dec ''8'' = 8" "int_of_dec ''7'' = 7"
  "isHexAny (JStr ''0xAb'')" "lower ''0xAb'' = ''0xab''" "dec_of_int 1 = ''1''" "dec_of_int 2 = ''2''" "dec_of_int 7 = ''7''"
  by code_simp+

lemma ex_packet_at:
  "getProp ''meta'' ex_packet = Inr ex_meta" "getProp ''safetyFlags'' ex_packet = Inr ex_flags"
  "getProp ''forkFunding'' ex_packet = Inr ex_inbound" "getProp ''capArithmetic'' ex_packet = Inr ex_cap"
  "getProp ''addressGuards'' ex_packet = Inr ex_guards"
  "getProp ''immediateTransactions'' ex_packet = Inr (JArr (map ex_tx [0..<19]))"
  "getProp ''delayedWithdrawalSubPacket'' ex_packet = Inr (ex_tx 19)"
  "getProp ''provenance'' ex_packet = Inr ex_provenance" "getProp ''reviewPolicySnapshot'' ex_packet = Inr ex_review"
  "getProp ''lpUsage'' ex_packet = Inr ex_lpUsage" "getProp ''buyAccounting'' ex_packet = Inr ex_buying"
  "getProp ''sellAccounting'' ex_packet = Inr ex_selling" "getProp ''lockAndWithdraw'' ex_packet = Inr ex_locking"
  by (simp_all add: ex_packet_def lookupKey_def)

lemma ex_policy_at:
  "getProp ''canary'' ex_policy = Inr (JBool True)" "getProp ''production'' ex_policy = Inr (JBool False)"
  "getProp ''chainId'' ex_policy = Inr (JNum 4663)" "getProp ''executable'' ex_policy = Inr (JBool True)"
  "getProp ''authorizationScope'' ex_policy = Inr (JStr SCOPE)"
  "getProp ''maxAllInclusiveExposureUsd'' ex_policy = Inr (JNum 130)" "getProp ''safetyFlags'' ex_policy = Inr ex_flags"
  "getProp ''reviewedAuthorizationDigest'' ex_policy = Inr (JStr ex_hash)" "getProp ''wallets'' ex_policy = Inr ex_wallets"
  "getProp ''infrastructure'' ex_policy = Inr ex_infra"
  "getProp ''caps'' ex_policy = Inr (JObj [(''aggregateUsd'', JNum 130)])" "getProp ''gas'' ex_policy = Inr ex_gas"
  "getProp ''validity'' ex_policy = Inr (JObj [(''windowSeconds'', JNum 1)])"
  "getProp ''expectedNonces'' ex_policy = Inr (ex_pair (JNum 3) (JNum 0))" "getProp ''snapshot'' ex_policy = Inr ex_fork"
  "getProp ''economics'' ex_policy = Inr (JObj [(''feeTier'', JNum 3000), (''tickSpacing'', JNum 60)])"
  by (simp_all add: ex_policy_def lookupKey_def)

lemma ex_snapshot_at:
  "getProp ''pinnedBlock'' ex_snapshot = Inr ex_block" "getProp ''nonces'' ex_snapshot = Inr (ex_pair (JNum 3) (JNum 0))"
  "getProp ''balances'' ex_snapshot = Inr (JObj [(''eth'', ex_pair (JNum 1) (JNum 1)), (''weth'', ex_pair (JNum 1) (JNum 1))])"
  "getProp ''allPredictedAddressesEmpty'' ex_snapshot = Inr (JBool True)" "getProp ''externalCodeHashes'' ex_snapshot = Inr ex_codes"
  by (simp_all add: ex_snapshot_def lookupKey_def)

lemma ex_truthy: "truthy ex_meta" "truthy ex_flags" "truthy ex_inbound" "truthy ex_cap" "truthy ex_guards" "truthy (ex_tx n)"
  "truthy ex_provenance" "truthy ex_review" "truthy ex_wallets" "truthy ex_infra" "truthy ex_gas" "truthy (ex_pair a b)"
  "truthy ex_fork" "truthy ex_block" "truthy ex_codes"
  by (simp_all add: ex_meta_def ex_flags_def ex_inbound_def ex_cap_def ex_guards_def ex_tx_def ex_provenance_def
      ex_review_def ex_wallets_def ex_infra_def ex_gas_def ex_pair_def ex_fork_def ex_block_def ex_codes_def)

lemma ex_pair_at: "getProp ''deployer'' (ex_pair a b) = Inr a" "getProp ''tester'' (ex_pair a b) = Inr b"
  by (simp_all add: ex_pair_def lookupKey_def)


lemmas ex_eval = noted_simps rbind_eq_Inr ex_opaque ex_ga_def ex_packet_at ex_policy_at ex_snapshot_at ex_pair_at ex_truthy
  lookupKey_def ex_nums_def ex_ints_def ex_addrs_def

lemma ex_lpN: "lpN ex_ga ex_numText ex_packet ex_policy = Inr ([], ex_lp)"
  by (simp add: lpN_def ex_lp_def ex_lpUsage_def ex_eval)

lemma ex_buyN: "buyN ex_ga ex_packet = Inr ([], ex_buy)"
  by (simp add: buyN_def ex_buy_def ex_trade_def ex_buying_def ex_eval)

lemma ex_sellN: "sellN ex_ga ex_packet = Inr ([], ex_sell)"
  by (simp add: sellN_def ex_sell_def ex_trade_def ex_selling_def ex_eval)

lemma ex_lockN: "lockN ex_ga ex_packet = Inr ([], ex_lock)"
  by (simp add: lockN_def ex_lock_def ex_locking_def ex_eval)

lemma map_of_const_pairs: "map_of (map (\<lambda>k. (k, c)) ks) l = (if l \<in> set ks then Some c else None)"
  by (induction ks) auto

lemma ex_dependenciesN: "dependenciesN ex_ga ex_snapshot = Inr ([], ex_codes)"
proof -
  have "objN [(''address'', fld (asA ex_ga) ex_code [''address''] w), (''runtimeCodeHash'', fld asHash ex_code [''runtimeCodeHash''] w'),
     (''codeBytes'', fld asI ex_code [''codeBytes''] w'')] = Inr ([], ex_code)" for w w' w''
    by (simp add: ex_code_def ex_eval)
  then have "dependencyN ex_ga ex_snapshot k = Inr ([], [(k, ex_code)])" if "k \<in> set DEP_NAMES" for k
    using that by (auto simp: dependencyN_def ex_codes_def lookupKey_def ex_snapshot_at ex_code_def
        bindN_results liftN_results okN_results noteN_results map_of_const_pairs)
  then have "traverseN (dependencyN ex_ga ex_snapshot) DEP_NAMES = Inr ([], map (\<lambda>k. [(k, ex_code)]) DEP_NAMES)"
    by (simp add: traverseN_results list.rel_map list.rel_refl_strong)
  then show ?thesis by (simp add: dependenciesN_def ex_codes_def bindN_results okN_results)
qed

lemma ex_nonempty [simp]: "ex_address c \<noteq> []"
  by (simp add: ex_address_def)

lemma ex_signedFields:
  "list_all2 (\<lambda>p q. fst q = fst p \<and> snd p = Inr ([], snd q)) (signedFields ex_ga (ex_tx n)) (ex_sig n)"
  "list_all2 (\<lambda>p q. fst q = fst p \<and> snd p = Inr ([], snd q))
     (signedFields ex_ga (withPosition i (ex_tx n))) (ex_sig n)"
  by (simp_all add: signedFields_def ex_sig_def withPosition_def ex_tx_def ex_eval del: isHexAny.simps)

lemma ex_sigOf: "sigOf ex_ga True (withPosition n (ex_tx n)) = Inr ([], ex_step n)"
proof -
  have "str_includes ''approve'' ''approve''" by code_simp
  then have "list_all2 (\<lambda>p q. fst q = fst p \<and> snd p = Inr ([], snd q)) (identityFields (withPosition n (ex_tx n)))
      [(''index'', JNum (int n)), (''phase'', JStr ''B''), (''label'', JStr ''approve''),
       (''postconditionType'', JStr ''approve'')]"
    by (simp add: identityFields_def postconditionType_def withPosition_def ex_tx_def ex_eval)
  then show ?thesis
    by (simp add: sigOf_def ex_step_def objN_results list_all2_appendI ex_signedFields)
qed

lemma ex_transactionsN: "transactionsN ex_ga (map ex_tx [0..<19]) (ex_tx 19) = Inr ([], ex_transactions)"
proof -
  have "list_all2 (\<lambda>x y. (case x of (i, t) \<Rightarrow> sigOf ex_ga True (withPosition i t)) = Inr ([], y))
      (enumerate 0 (map ex_tx [0..<19])) (map ex_step [0..<19])"
    by (simp add: list_all2_conv_all_nth nth_enumerate_eq ex_sigOf del: upt_rec_numeral)
  moreover have "list_all2 (\<lambda>p q. fst q = fst p \<and> snd p = Inr ([], snd q))
      (signedFields ex_ga (ex_tx 19) @ [(''disabled'', asBoolT (JBool True) ''delayedDisabled'')])
      (ex_sig 19 @ [(''disabled'', JBool True)])"
    by (intro list_all2_appendI ex_signedFields) (simp add: noted_simps)
  ultimately show ?thesis
    by (simp add: transactionsN_def ex_transactions_def noted_simps del: upt_rec_numeral)
qed

lemma ex_identityN: "list_all2 (\<lambda>p q. fst q = fst p \<and> snd p = Inr ([], snd q))
    (identityN ex_ga ex_numText ex_packet ex_policy) ex_head"
  by (simp add: identityN_def ex_head_def ex_meta_def ex_flags_def FLAGS_def ex_wallets_def ex_pair_def andN_def Let_def ex_eval)

lemma ex_snapshotN: "list_all2 (\<lambda>p q. fst q = fst p \<and> snd p = Inr ([], snd q))
    (snapshotN ex_packet ex_policy ex_snapshot) ex_pinned"
  by (simp add: snapshotN_def ex_pinned_def blockField_def blockHashN_def balancesN_def ex_block_def ex_meta_def ex_pair_def Let_def ex_eval)

lemma ex_infrastructureN: "infrastructureN ex_ga ex_policy = Inr ([], ex_infra)"
  by (simp add: infrastructureN_def ex_infra_def DEP_NAMES_def ex_eval)

lemma ex_deploys: "deploysOf ex_numText (map ex_tx [0..<19]) = Inr []"
proof -
  have "rfilter (\<lambda>t. rbind (getProp ''phase'' t) (\<lambda>ph. Inr (ph = JStr ''A-deploy''))) (map ex_tx xs) = Inr []" for xs
    by (induction xs) (simp_all add: ex_tx_def lookupKey_def)
  then show ?thesis by (simp add: deploysOf_def del: upt_rec_numeral)
qed

lemma objN_okay:
  "list_all2 (\<lambda>p q. fst q = fst p \<and> snd p = Inr ([], snd q)) fs kvs \<Longrightarrow> objN fs = Inr ([], JObj kvs)"
  by (simp add: objN_results)

lemma evaluate: "bindN (Inr ([], a)) f = f a" "liftN (Inr a) = Inr ([], a)" "okN a = Inr ([], a)"
  by (simp_all add: bindN_def liftN_def okN_def rbind_def split: sum.split)

text \<open>The last fields of the object, as the code builds them here.\<close>

definition ex_tail :: "(string \<times> Json noted) list" where
  "ex_tail =
     [(''infrastructure'', infrastructureN ex_ga ex_policy),
      (''pool'', fld (asA ex_ga) ex_packet [''addressGuards'', ''poolAddress''] ''pool''),
      (''canaryTokenSymbol'', fld (asStrIs ''BPSC-TEST'') ex_packet [''addressGuards'', ''canaryTokenSymbol''] ''symbol''),
      (''predicted'', okN (JObj [])),
      (''predictedAllEmptyAsserted'', fld asBoolT ex_snapshot [''allPredictedAddressesEmpty''] ''allEmpty''),
      (''dependencies'', okN ex_codes), (''deployments'', okN (JObj [])), (''lp'', okN ex_lp),
      (''buy'', okN ex_buy), (''sell'', okN ex_sell), (''lock'', okN ex_lock),
      (''transactions'', transactionsN ex_ga (map ex_tx [0..<19]) (ex_tx 19)),
      (''exposure'', objN
        [(''totalPrincipalWei'', okN (JStr (dec_of_int (1 + 1)))), (''totalMaxGasWei'', okN (JStr ''1'')),
         (''aggregateWei'', okN (JStr ''3'')),
         (''aggregateMicroUsd'', fld asN ex_packet [''capArithmetic'', ''allInclusiveExposureMicroUsd''] ''aggMicro'')]),
      (''provenance'', objN
        [(''repoHead'', fld asStr ex_packet [''provenance'', ''repoHead''] ''repoHead''),
         (''dirtyTrackedTree'', fld (\<lambda>x w. ensureN (x = JBool False) w (JBool False) (JBool True)) ex_packet
            [''provenance'', ''dirtyTrackedTree''] ''dirtyTree''),
         (''contracts'', okN (JObj []))]),
      (''digests'', objN
        [(''executionPacketDigest'', fld asStr ex_packet [''meta'', ''executionPacketDigest''] ''execDigest''),
         (''deploymentOnlyDigest'', fld asStr ex_packet [''meta'', ''deploymentOnlyDigest''] ''depDigest'')]),
      (''delayedWithdrawalDisabled'', asBoolT (JBool True) ''delayedWithdrawalDisabled'')]"

lemma ex_buildObject: "buildObject ex_ga ex_numText ex_packet ex_policy ex_snapshot = Inr ([], ex_package)"
proof -
  have empty: "predictedN ex_ga [] = Inr ([], JObj [])" "deploymentsN ex_ga ex_packet [] = Inr ([], JObj [])"
    "provenanceN [] = Inr ([], JObj [])"
    by (simp_all add: predictedN_def deploymentsN_def provenanceN_def assignN_def noted_simps)
  have amounts: "fld asN ex_packet [''forkFunding'', ''inbound'', ''deployer'', ''weth''] w = Inr ([], JStr ''1'')"
    "fld asN ex_packet [''forkFunding'', ''inbound'', ''tester'', ''weth''] w = Inr ([], JStr ''1'')"
    "fld asN ex_packet [''capArithmetic'', ''allInclusiveGasWei''] w = Inr ([], JStr ''1'')"
    "fld asN ex_packet [''capArithmetic'', ''aggregateWei''] w = Inr ([], JStr ''3'')" for w
    by (simp_all add: ex_inbound_def ex_cap_def ex_eval)
  have contracts: "rbind (rbind (getProp ''contracts'' ex_provenance) (path [])) objectEntries = Inr []"
    by (simp add: ex_provenance_def lookupKey_def js_object_def)
  have identity: "bigOf (JStr ''1'') = 1" "bigOf (JStr ''3'') = 3"
    by (simp_all add: bigOf_def ex_opaque)
  have "buildObject ex_ga ex_numText ex_packet ex_policy ex_snapshot = objN (identityN ex_ga ex_numText ex_packet ex_policy
      @ snapshotN ex_packet ex_policy ex_snapshot @ ex_tail)"
    unfolding buildObject_def Let_def ex_tail_def
    by (simp only: evaluate empty amounts contracts identity ex_packet_at path.simps rbind_simps arrayOf.simps ex_deploys
        ensureN_def ex_lpN ex_buyN ex_sellN ex_lockN ex_dependenciesN if_True)
      (simp add: evaluate empty contracts del: upt_rec_numeral)
  moreover have "list_all2 (\<lambda>p q. fst q = fst p \<and> snd p = Inr ([], snd q)) ex_tail
     [(''infrastructure'', ex_infra), (''pool'', JStr (ex_address (CHR ''c''))),
      (''canaryTokenSymbol'', JStr ''BPSC-TEST''), (''predicted'', JObj []), (''predictedAllEmptyAsserted'', JBool True),
      (''dependencies'', ex_codes), (''deployments'', JObj []), (''lp'', ex_lp), (''buy'', ex_buy), (''sell'', ex_sell),
      (''lock'', ex_lock), (''transactions'', ex_transactions), (''exposure'', ex_exposure),
      (''provenance'', ex_provenance),
      (''digests'', JObj [(''executionPacketDigest'', JStr ex_hash), (''deploymentOnlyDigest'', JStr ex_hash)]),
      (''delayedWithdrawalDisabled'', JBool True)]"
    by (simp add: ex_tail_def ex_infrastructureN ex_guards_def ex_cap_def ex_provenance_def ex_meta_def ex_exposure_def
        ex_transactionsN ex_eval del: upt_rec_numeral)
  ultimately show ?thesis
    unfolding ex_package_def ex_entries_def by (simp only: objN_okay [OF list_all2_appendI [OF ex_identityN list_all2_appendI [OF ex_snapshotN]]])
qed

section \<open>The checks pass\<close>

lemma ex_package_at:
  "getProp ''transactions'' ex_package = Inr ex_transactions" "getProp ''exposure'' ex_package = Inr ex_exposure"
  "getProp ''dependencies'' ex_package = Inr ex_codes" "getProp ''deployments'' ex_package = Inr (JObj [])"
  "getProp ''predicted'' ex_package = Inr (JObj [])" "getProp ''lp'' ex_package = Inr ex_lp"
  "getProp ''buy'' ex_package = Inr ex_buy" "getProp ''sell'' ex_package = Inr ex_sell"
  "getProp ''lock'' ex_package = Inr ex_lock" "getProp ''infrastructure'' ex_package = Inr ex_infra"
  "getProp ''wallets'' ex_package = Inr ex_wallets" "getProp ''flags'' ex_package = Inr ex_flags"
  "getProp ''pool'' ex_package = Inr (JStr (ex_address (CHR ''c'')))"
  "getProp ''canaryTokenSymbol'' ex_package = Inr (JStr ''BPSC-TEST'')"
  "getProp ''schema'' ex_package = Inr (JStr CANON_SCHEMA)" "getProp ''version'' ex_package = Inr (JStr CANON_VERSION)"
  "getProp ''chainId'' ex_package = Inr (JNum 4663)" "getProp ''expiresAtUtc'' ex_package = Inr (JStr ''e'')"
  "getProp ''maxAllInclusiveExposureUsd'' ex_package = Inr (JNum 130)"
  by (simp_all add: ex_package_def ex_entries_def ex_head_def ex_pinned_def lookupKey_def)

lemma js_object_names:
  assumes "list_all (\<lambda>p. fst p \<noteq> [] \<and> \<not> is_digit_char (hd (fst p))) kvs"
  shows "js_object kvs = kvs"
proof -
  have "\<not> is_array_index k" if "k \<noteq> []" "\<not> is_digit_char (hd k)" for k
    using that by (cases k) (auto simp: is_array_index_def isNonNegativeIntegerString_def is_digit_char_code)
  then have "\<forall>p\<in>set kvs. \<not> is_array_index (fst p)" using assms by (auto simp: list_all_iff)
  then show ?thesis by (auto simp: js_object_def filter_empty_conv)
qed

lemma ex_names: "js_object (map (\<lambda>k. (k, v)) DEP_NAMES) = map (\<lambda>k. (k, v)) DEP_NAMES"
  by (rule js_object_names) (simp add: DEP_NAMES_def is_digit_char_code)

lemma ex_chkAddr: "c \<in> {CHR ''a'', CHR ''b'', CHR ''c'', CHR ''d''} \<Longrightarrow> chkAddr ex_ga (JStr (ex_address c)) w = Inr ([], ())"
  by (auto simp: chkAddr_def ex_ga_def ex_opaque noted_simps)

lemmas ex_checks = seqN_iff allN_iff noted_simps ex_package_at ex_chkAddr chkProps_def chkDec_def chkHash_def
  whenN_def forEntries_def lookupKey_def ex_opaque ex_names

lemma ex_chkTransaction: "chkTransaction ex_ga (ex_step n) = Inr ([], ())"
  by (simp add: chkTransaction_def ex_step_def ex_sig_def ex_checks)

lemma ex_chkTransactions: "chkTransactions ex_ga ex_transactions = Inr ([], ())"
proof -
  have at: "getProp ''immediate'' ex_transactions = Inr (JArr (map ex_step [0..<19]))"
    "getProp ''count'' ex_transactions = Inr (JNum 19)"
    by (simp_all add: ex_transactions_def lookupKey_def)
  have index: "getProp ''index'' (ex_step n) = Inr (JNum (int n))" for n
    by (simp add: ex_step_def ex_sig_def lookupKey_def)
  have idxs: "rmap (getProp ''index'') (map ex_step ns) = Inr (map (\<lambda>n. JNum (int n)) ns)" for ns
    by (induction ns) (simp_all add: index)
  have repeat: "\<not> hasRepeat (map (\<lambda>n. JNum (int n)) ns)" if "distinct ns" for ns
    using that by (induction ns) (auto simp: list_ex_iff)
  have "list_all (\<lambda>(i, x). x = JNum (int i)) (enumerate 0 (map (\<lambda>n. JNum (int n)) [0..<19]))"
    by (simp add: list_all_length nth_enumerate_eq del: upt_rec_numeral)
  then show ?thesis
    using repeat [of "[0..<19]"]
    by (simp add: chkTransactions_def at idxs noted_simps thenN_def seqN_iff allN_iff list_all_iff ex_chkTransaction
        del: upt_rec_numeral)
qed

lemma ex_truthy_transactions: "truthy ex_transactions"
  by (simp add: ex_transactions_def)

lemma js_object_Nil: "js_object [] = []"
  by (simp add: js_object_def)

lemma ex_chkGroups: "list_all (\<lambda>x. x = Inr ([], ())) (chkGroups ex_ga ex_package)"
proof -
  have "allN (\<lambda>(k, x). chkEntry ex_ga ''address'' ''dep'' k x) (map (\<lambda>k. (k, ex_code)) DEP_NAMES) = Inr ([], ())"
    by (auto simp: chkEntry_def ex_code_def list_all_iff ex_checks)
  then show ?thesis
    by (simp add: chkGroups_def Let_def ex_lp_def ex_buy_def ex_sell_def ex_lock_def ex_trade_def ex_exposure_def
        ex_nums_def ex_codes_def ex_chkTransactions ex_truthy_transactions js_object_Nil ex_checks)
qed

lemma ex_objectEntries: "objectEntries ex_package = Inr ex_entries"
proof -
  have "list_all (\<lambda>p. fst p \<noteq> [] \<and> \<not> is_digit_char (hd (fst p))) ex_entries"
    by (simp add: ex_entries_def ex_head_def ex_pinned_def is_digit_char_code)
  then show ?thesis by (simp add: ex_package_def js_object_names)
qed

lemma ex_validateStrict: "validateStrict ex_ga ex_package = Inr []"
proof -
  have infra: "objectEntries ex_infra = Inr (map (\<lambda>k. (k, JStr (ex_address (CHR ''c'')))) DEP_NAMES)"
    by (simp add: ex_infra_def ex_addrs_def ex_names)
  have "map fst ex_entries = TOP_KEYS"
    by (simp add: ex_entries_def ex_head_def ex_pinned_def TOP_KEYS_def)
  then have keys: "fst ` set ex_entries = set TOP_KEYS" by (metis list.set_map)
  then have "\<forall>(k, v)\<in>set ex_entries. k \<in> set TOP_KEYS" by force
  with keys have "list_all (\<lambda>x. x = Inr ([], ())) (chkTop ex_entries ex_ga ex_package)"
    by (auto simp: chkTop_def Let_def ex_checks ex_wallets_def ex_pair_def ex_truthy infra list_all_iff js_object_Nil)
  then have "seqN (chkTop ex_entries ex_ga ex_package @ chkGroups ex_ga ex_package) = Inr ([], ())"
    using ex_chkGroups by (simp add: seqN_iff)
  moreover have "isObjectValue ex_package" by (simp add: ex_package_def isObjectValue_def)
  ultimately show ?thesis by (simp add: validateStrict_def ex_objectEntries)
qed

lemma ex_missing: "missingInputs ex_packet ex_policy ex_snapshot = []"
proof -
  have "truthy ex_packet" "truthy ex_policy" "truthy ex_snapshot"
    by (simp_all add: ex_packet_def ex_policy_def ex_snapshot_def)
  then show ?thesis
    by (simp add: missingInputs_def ex_packet_at ex_policy_at ex_snapshot_at ex_truthy ex_inbound_def ex_meta_def
        ex_provenance_def lookupKey_def ex_truthy)
qed

lemma ex_buildCanonical: "buildCanonical ex_ga ex_numText ex_packet ex_policy ex_snapshot = Inr ([], Some ex_package)"
  by (simp add: buildCanonical_def ex_missing ex_buildObject)

lemma ex_plain: "plainJson ex_package"
proof -
  have step: "plainJson (ex_step n)" "plainJson (JObj (ex_sig n @ [(''disabled'', JBool True)]))" for n
    by (simp_all add: ex_step_def ex_sig_def)
  have "distinct DEP_NAMES" by (simp add: DEP_NAMES_def)
  then have "plainJson ex_infra" "plainJson ex_codes"
    by (auto simp: ex_infra_def ex_codes_def ex_addrs_def ex_code_def comp_def list_all_iff)
  moreover have "plainJson ex_transactions"
    using step by (auto simp: ex_transactions_def list_all_iff simp del: upt_rec_numeral)
  moreover have "plainJson ex_lp" "plainJson ex_buy" "plainJson ex_sell" "plainJson ex_lock"
    by (simp_all add: ex_lp_def ex_buy_def ex_sell_def ex_lock_def ex_trade_def ex_nums_def)
  ultimately show ?thesis
    by (simp add: ex_package_def ex_entries_def ex_head_def ex_pinned_def ex_nums_def ex_flags_def FLAGS_def ex_wallets_def
        ex_pair_def ex_exposure_def ex_provenance_def)
qed

definition ex_signable :: "nat \<Rightarrow> Json" where
  "ex_signable n = JObj [(''chainId'', JNum 4663), (''signer'', JStr (ex_address (CHR ''a''))), (''nonce'', JNum (int n + 3)),
     (''type'', JNum 2), (''to'', JStr (ex_address (CHR ''b''))), (''value'', JStr ''0''), (''data'', JStr ''0xAb''),
     (''gasLimit'', JStr ''9''), (''maxFeePerGas'', JStr ''8''), (''maxPriorityFeePerGas'', JNum 7)]"

lemma ex_signableJ: "signableJ ex_ga (ex_tx n) = Inr (ex_signable n)"
  by (simp add: signableJ_def ex_tx_def ex_signable_def lookupKey_def addressOf_def ex_ga_def ex_opaque)

lemma ex_meta_at:
  "getProp ''deployer'' ex_meta = Inr (JStr (ex_address (CHR ''a'')))"
  "getProp ''startNonces'' ex_meta = Inr (ex_pair (JNum 3) (JNum 0))"
  "getProp ''reviewedAuthorizationDigest'' ex_meta = Inr (JStr ex_hash)"
  by (simp_all add: ex_meta_def lookupKey_def)

lemma ex_nonceCoverage:
  "nonceCoverage ex_ga ex_packet (ex_pair (JNum 3) (JNum 0)) (int k) 0 True (map ex_tx [k..<k + j]) = Inr True"
proof (induction j arbitrary: k)
  case (Suc j)
  have "getProp ''signer'' (ex_tx k) = Inr (JStr (ex_address (CHR ''a'')))" "getProp ''nonce'' (ex_tx k) = Inr (JNum (int k + 3))"
    by (simp_all add: ex_tx_def lookupKey_def)
  moreover have "[k..<k + Suc j] = k # [Suc k..<Suc k + j]" by (simp add: upt_conv_Cons del: upt_Suc)
  moreover have "ex_ga (ex_address (CHR ''a'')) = Inr (ex_address (CHR ''a''))" by (simp add: ex_ga_def ex_opaque)
  ultimately show ?case
    using Suc [of "Suc k"]
    by (simp add: sameAddressAt_def ex_packet_at ex_meta_at ex_pair_at addressOf_def add.commute del: upt_Suc)
qed simp

lemma ex_coverageChecks:
  "coverageChecks ex_env ex_hash ex_inputs = Inr [(''execDigestMatches'', True), (''perIndexCoverage'', True)]"
proof -
  have signed: "rmap (signableJ ex_ga) (map ex_tx ns) = Inr (map ex_signable ns)" for ns
    by (induction ns) (simp_all add: ex_signableJ)
  have all: "rmap (signableJ ex_ga) (map ex_tx [0..<19] @ [ex_tx 19]) = Inr (map ex_signable ([0..<19] @ [19]))"
    using signed [of "[0..<19] @ [19]"] by (simp del: upt_rec_numeral)
  show ?thesis
    using ex_nonceCoverage [of 0 19]
    by (simp add: coverageChecks_def ex_env_def ex_inputs_def Let_def ex_packet_at ex_meta_at ex_pair_at signed all
        del: upt_rec_numeral)
qed

lemma length_js_object: "length (js_object kvs) = length kvs"
  by (metis mset_js_object size_mset)

lemma ex_agreementChecks:
  "list_all (\<lambda>c. snd c = Inr True) (agreementChecks ex_ga ex_inputs (Some ex_package))"
  by (simp add: agreementChecks_def ex_inputs_def Let_def holdsAt_def sameAt_def sameLowerAt_def stringAt_def
      sameStringAt_def isStringAt_def sameAddressAt_def sameStableAt_def infraConsistent_def addressOf_def ex_ga_def
      ex_opaque ex_packet_at ex_policy_at ex_snapshot_at ex_pair_at ex_package_at ex_truthy ex_meta_def ex_flags_def
      FLAGS_def ex_wallets_def ex_block_def ex_fork_def ex_guards_def ex_infra_def ex_addrs_def DEP_NAMES_def
      ex_review_def ex_gas_def ex_nums_def ex_codes_def lookupKey_def length_js_object)

lemma ex_bindChecks:
  obtains checks where "bindChecks ex_env ex_numText ex_hash ex_inputs = Inr checks" "list_all snd checks"
proof -
  obtain anchors where anchors: "anchorChecks ex_env ex_numText ex_inputs = Inr (Some ex_package, anchors)" "list_all snd anchors"
  proof -
    have "truthy ex_package" by (simp add: ex_package_def)
    moreover have "rawDuplicateKeys ''{}'' = []" by code_simp
    moreover have "lower ex_hash = ex_hash" "ex_hash \<noteq> []" by (simp_all add: ex_opaque) (simp add: ex_hash_def)
    ultimately show ?thesis
      using that by (simp add: anchorChecks_def ex_env_def ex_inputs_def Let_def ex_buildCanonical ex_validateStrict
          ex_packet_at ex_policy_at ex_meta_at ex_truthy eqText_def digestOf_def)
  qed
  have "rmap (\<lambda>(n, c). rbind c (\<lambda>b. Inr (n, b))) cs = Inr (map (\<lambda>(n, c). (n, True)) cs)"
    if "list_all (\<lambda>c. snd c = Inr True) cs" for cs :: "(string \<times> (exn + bool)) list"
    using that by (induction cs) auto
  from this [OF ex_agreementChecks] anchors(1) ex_coverageChecks
  have "bindChecks ex_env ex_numText ex_hash ex_inputs = Inr (anchors @ [(''execDigestMatches'', True), (''perIndexCoverage'', True)]
      @ map (\<lambda>(n, c). (n, True)) (agreementChecks ex_ga ex_inputs (Some ex_package)))"
    by (simp add: bindChecks_def ex_env_def)
  then show ?thesis by (rule that) (use anchors(2) in \<open>auto simp: list_all_iff\<close>)
qed

definition ex_bound :: "nat \<Rightarrow> BoundStep" where
  "ex_bound n = \<lparr>st_index = n, st_originalIndex = n, st_phase = ''B'', st_label = ''approve'',
     st_postconditionType = ''approve'', st_signer = ex_address (CHR ''a''), st_nonce = int n + 3,
     st_to = Some (ex_address (CHR ''b'')), st_value = ''0'', st_dataOrInitCode = ''0xab'', st_gasLimit = 9,
     st_maxFeePerGas = 8, st_maxPriorityFeePerGas = 7, st_maxGasCostWei = 72, st_slot = None,
     st_predictedCreationAddress = None, st_expectedRuntimeHash = None, st_gasCeilings = None\<rparr>"

lemma ex_boundStep: "boundStep ex_ga (ex_step n) = Inr (ex_bound n)"
  by (simp add: boundStep_def readN_def readS_def readA_def ex_step_def ex_sig_def lookupKey_def addressOf_def ex_ga_def
      ex_opaque bigIntText_dec ex_bound_def)

lemma ex_boundSteps: "boundSteps ex_ga ex_package = Inr (map ex_bound [0..<19])"
proof -
  have "rmap (boundStep ex_ga) (map ex_step ns) = Inr (map ex_bound ns)" for ns
    by (induction ns) (simp_all add: ex_boundStep)
  moreover have "deployOrder (map ex_bound [0..<19]) = []"
    by (simp add: deployOrder_def filter_empty_conv ex_bound_def del: upt_rec_numeral)
  moreover have "getProp ''immediate'' ex_transactions = Inr (JArr (map ex_step [0..<19]))"
    by (simp add: ex_transactions_def lookupKey_def)
  ultimately show ?thesis
    by (simp add: boundSteps_def ex_package_at del: upt_rec_numeral)
qed

text \<open>What the gates look at in the bound runtime.\<close>

definition ex_dependency :: DependencyCode where
  "ex_dependency = \<lparr>dc_address = ex_address (CHR ''c''), dc_runtimeCodeHash = ex_hash, dc_codeBytes = 1\<rparr>"

definition ex_runtime :: "Runtime \<Rightarrow> bool" where
  "ex_runtime r \<longleftrightarrow> rt_steps r = map ex_bound [0..<19] \<and> rt_dependencies r = map (\<lambda>_. ex_dependency) DEP_NAMES \<and>
     rt_capMicro r = 130000000 \<and> rt_exposurePrincipalWei r = 2 \<and> rt_exposureGasWei r = 1 \<and>
     rt_authFlags r = map (\<lambda>k. (k, True)) FLAGS"

lemma ex_runtimeOf: "\<exists>r. runtimeOf ex_ga ex_package = Inr r \<and> ex_runtime r"
proof -
  have code: "rmap dependencyOf (map (\<lambda>k. (k, ex_code)) ks) = Inr (map (\<lambda>k. ex_dependency) ks)" for ks
    by (induction ks) (simp_all add: dependencyOf_def readS_def readN_def ex_code_def lookupKey_def ex_dependency_def)
  have flags: "objectEntries ex_flags = Inr (map (\<lambda>k. (k, JBool True)) FLAGS)"
    by (simp add: ex_flags_def js_object_names FLAGS_def is_digit_char_code)
  have groups: "\<exists>x. lpOf ex_lp = Inr x" "\<exists>x. buyOf ex_buy = Inr x" "\<exists>x. sellOf ex_sell = Inr x" "\<exists>x. lockOf ex_lock = Inr x"
    by (simp_all add: lpOf_def buyOf_def sellOf_def lockOf_def ex_lp_def ex_buy_def ex_sell_def ex_lock_def ex_trade_def
        ex_nums_def readN_def readS_def lookupKey_def ex_opaque bigIntText_dec)
  have infra: "rmap (readA ex_ga ex_infra) [''weth'', ''uniswapV3Factory'', ''nonfungiblePositionManager'', ''swapRouter02'',
       ''rialtoRegistry'', ''nvdaStockToken''] = (let a = ex_address (CHR ''c'') in Inr [a, a, a, a, a, a])"
    by (simp add: ex_infra_def ex_addrs_def DEP_NAMES_def readA_def addressOf_def ex_ga_def ex_opaque lookupKey_def
        Let_def)
  show ?thesis
    using groups infra
    by (auto simp: runtimeOf_def readN_def readS_def readA_def ex_package_at ex_wallets_def ex_pair_at addressOf_def ex_ga_def
        ex_opaque ex_exposure_def lookupKey_def bigIntText_dec flags js_object_Nil ex_codes_def ex_names code Let_def
        ex_boundSteps ex_runtime_def simp del: upt_rec_numeral)
qed

text \<open>A page on which nothing is bound yet.\<close>

definition ex_machine :: "(OpState, unit) Machine" where
  "ex_machine = \<lparr>mc_op = \<lparr>op_kHalt = ''halt'', op_kJournal = ''journal'', op_kPending = ''pending'', op_kIntent = ''intent'',
       op_execDigest = ex_hash, op_runtime = None, op_bound = False, op_connected = False, op_reconciled = False,
       op_halted = False, op_haltReason = None, op_uncertainSend = None, op_journal = [], op_pending = None,
       op_intent = None, op_current = 0\<rparr>,
     mc_store = (\<lambda>_. None), mc_world = (), mc_trace = []\<rparr>"

lemma ex_binds:
  assumes "op_runtime (mc_op m) = None" and "op_execDigest (mc_op m) = ex_hash"
  shows "\<exists>r. ex_runtime r \<and> bindAndVerifyPacket ex_env ex_numText ex_inputs m =
    (Done BoundOk, m\<lparr>mc_op := (mc_op m)\<lparr>op_bound := True, op_runtime := Some r\<rparr>\<rparr>)"
proof -
  obtain checks where "bindChecks ex_env ex_numText ex_hash ex_inputs = Inr checks" "list_all snd checks"
    by (rule ex_bindChecks)
  moreover obtain r where "runtimeOf (en_getAddress ex_env) (bi_package ex_inputs) = Inr r" "ex_runtime r"
    using ex_runtimeOf by (auto simp: ex_env_def ex_inputs_def)
  ultimately show ?thesis
    using assms
    by (auto simp: bindAndVerifyPacket_def presentInputs_def bindA_def gets_def lift_def doneA_def
        applyBinding_def modify_def Let_def)
qed

theorem bound_steps_are_the_packet_witness:
  "\<exists>m' r. bindAndVerifyPacket ex_env ex_numText ex_inputs ex_machine = (Done BoundOk, m') \<and>
    op_runtime (mc_op m') = Some r \<and> length (rt_steps r) = 19 \<and> st_index (rt_steps r ! 7) = 7 \<and>
    stepAgrees ex_ga (ex_tx 7) (rt_steps r ! 7)"
proof -
  obtain m' where run: "bindAndVerifyPacket ex_env ex_numText ex_inputs ex_machine = (Done BoundOk, m')"
    using ex_binds [of ex_machine] by (auto simp: ex_machine_def)
  have "op_runtime (mc_op ex_machine) = None" by (simp add: ex_machine_def)
  moreover have "a \<noteq> [] \<and> en_getAddress ex_env a = Inr a" if "en_getAddress ex_env s = Inr a" for s a
    using that by (auto simp: ex_env_def ex_ga_def hex_string_def split: if_splits)
  moreover have "plainJson (bi_package ex_inputs)" by (simp add: ex_inputs_def ex_plain)
  ultimately obtain r ts where "op_runtime (mc_op m') = Some r" "getProp ''immediateTransactions'' ex_packet = Inr (JArr ts)"
    "length (rt_steps r) = 19" "\<forall>i<19. st_index (rt_steps r ! i) = i \<and> stepAgrees ex_ga (ts ! i) (rt_steps r ! i)"
    using bound_steps_are_the_packet [OF run] by (auto simp: ex_env_def ex_inputs_def)
  moreover have "ts = map ex_tx [0..<19]" using calculation(2) by (simp add: ex_packet_at del: upt_rec_numeral)
  ultimately show ?thesis
    using run by (intro exI [of _ m'] exI [of _ r]) (auto simp del: upt_rec_numeral)
qed

section \<open>A session that sends\<close>

text \<open>
  The page is loaded, the packet is bound, the wallet is connected, nothing is to be reconciled, and the
  current step is sent: every method succeeds, and the first transaction of the packet is handed over.
\<close>

definition ex_calls :: "Call list" where
  "ex_calls = [Reload, BindPacket, MarkConnected, Reconcile, SendCurrent]"

definition ex_methods :: "unit Methods" where
  "ex_methods = baseMethods ex_env ex_numText ex_inputs"

definition ex_session :: "(OpState, unit) Machine" where
  "ex_session = session ex_env ex_methods ''canary'' ex_hash ex_hash
     (fresh ''canary'' ex_hash (\<lambda>_. None) () (mc_op ex_machine)) ex_calls"

definition ex_clean :: "(OpState, unit) Machine \<Rightarrow> bool" where
  "ex_clean m \<longleftrightarrow> op_execDigest (mc_op m) = ex_hash \<and> op_journal (mc_op m) = [] \<and> op_pending (mc_op m) = None \<and>
     \<not> op_halted (mc_op m) \<and> op_uncertainSend (mc_op m) = None \<and> op_current (mc_op m) = 0 \<and> sends m = []"

lemma ex_reload:
  "\<exists>m. construct ex_env ''canary'' ex_hash ex_hash (fresh ''canary'' ex_hash (\<lambda>_. None) () s0) = (Done (), m) \<and>
     ex_clean m \<and> op_runtime (mc_op m) = None"
  by (simp add: construct_def bindA_def storageGet_def ex_env_def fresh_def lift_def doneA_def parseHalt_def
      parseJournal_def parsePending_def parseIntent_def initialState_def modify_def Let_def ex_clean_def sends_def)

lemma ex_req:
  "\<exists>m'. req ex_env r m = (Done (ex_reply r), m') \<and> mc_op m' = mc_op m \<and> mc_store m' = mc_store m \<and>
     (\<exists>e. ev_op e = mc_op m \<and> ev_rpc e = r \<and> mc_trace m' = mc_trace m @ [e])"
proof -
  have "rpcMethod r \<notin> set FORBIDDEN_METHODS" by (cases r) (simp_all add: FORBIDDEN_METHODS_def)
  then show ?thesis by (simp add: req_def ex_env_def)
qed

text \<open>\<open>tells s x a\<close>: on a page in the state \<open>s\<close>, the action ends with \<open>a\<close> and does no more than ask.\<close>

definition tells :: "OpState \<Rightarrow> (unit, 'a) op_act \<Rightarrow> 'a \<Rightarrow> bool" where
  "tells s x a \<longleftrightarrow> (\<forall>m. mc_op m = s \<longrightarrow> wp x (\<lambda>r m'. r = Done a \<and> same m m') m)"

lemma tells_bind:
  assumes "tells s x a" and "tells s (k a) b"
  shows "tells s (bindA x k) b"
  unfolding tells_def wp_bindA
proof (intro allI impI)
  fix m :: "(OpState, unit) Machine" assume m: "mc_op m = s"
  have "wp (k a) (\<lambda>r m''. r = Done b \<and> same m m'') m'" if "same m m'" for m'
    by (rule wp_mono [of "k a" "\<lambda>r m''. r = Done b \<and> same m' m''"])
      (use assms(2) that m in \<open>auto simp: tells_def same_def\<close>)
  moreover have "wp x (\<lambda>r m'. r = Done a \<and> same m m') m" using assms(1) m by (simp add: tells_def)
  ultimately show "wp x (\<lambda>r m'. case r of Done a \<Rightarrow> wp (k a) (\<lambda>r m'. r = Done b \<and> same m m') m'
      | Threw e \<Rightarrow> Threw e = Done b \<and> same m m' | Crashed \<Rightarrow> Crashed = Done b \<and> same m m') m"
    by (elim wp_mono [of x]) auto
qed

lemma tells_results:
  "tells s (doneA a) a" "f s = a \<Longrightarrow> tells s (gets f) a" "r = Inr a \<Longrightarrow> tells s (lift r) a"
  by (simp_all add: tells_def)

lemma tells_catch: "tells s x a \<Longrightarrow> tells s (catch x h) a"
  by (auto simp: tells_def wp_def catch_def split: prod.splits)

lemma wp_tells:
  assumes "tells (mc_op m) x a" and "\<And>m'. same m m' \<Longrightarrow> wp (k a) Q m'"
  shows "wp (bindA x k) Q m"
  unfolding wp_bindA
  by (rule wp_mono [of x "\<lambda>r m'. r = Done a \<and> same m m'"]) (use assms in \<open>auto simp: tells_def\<close>)

lemma tells_req: "\<not> isSend r \<Longrightarrow> ex_reply r = a \<Longrightarrow> tells s (req ex_env r) a"
  unfolding tells_def
proof (intro allI impI)
  fix m :: "(OpState, unit) Machine" assume r: "\<not> isSend r" "ex_reply r = a" and "mc_op m = s"
  obtain m' where "req ex_env r m = (Done (ex_reply r), m')" using ex_req by blast
  then show "wp (req ex_env r) (\<lambda>x m'. x = Done a \<and> same m m') m"
    using quietD [OF quiet_req [OF r(1)]] r(2) by (simp add: wp_def)
qed

lemma ex_answers:
  "tells s (reqQuantity ex_env EthChainId) 4663"
  "tells s (req ex_env EthAccounts) (RAccounts [ex_address (CHR ''a'')])"
  "tells s (reqQuantity ex_env (EthGetTransactionCount a tag)) 3"
  "tells s (reqText ex_env (EthGetCode a tag)) ''0x00''"
  "tells s (reqBlock ex_env) (1, 1)"
  "tells s (reqQuantity ex_env (EthGetBalance a tag)) 100"
  "tells s (simulates ex_env t) True"
  "tells s (reqQuantity ex_env (EthEstimateGas c)) 9"
  unfolding reqQuantity_def reqText_def reqBlock_def simulates_def
  by (intro tells_catch tells_bind [OF tells_req [OF _ refl]] tells_req;
      simp add: quantityOf_def OperatorChain.textOf_def lift_def tells_results)+

lemma ex_connected:
  assumes "ex_clean m" and "op_bound (mc_op m)"
  shows "wp (markConnected ex_env) (\<lambda>r m'. r = Done ConnectedOk \<and> ex_clean m' \<and>
    op_runtime (mc_op m') = op_runtime (mc_op m) \<and> op_bound (mc_op m') \<and> op_connected (mc_op m')) m"
proof -
  have "wp (bindA (reqQuantity ex_env EthChainId) (\<lambda>chain.
       if chain \<noteq> 4663 then doneA (Refused wrongChain)
       else bindA (req ex_env EthAccounts) (\<lambda>a.
         if accountsOf a = [] then doneA (Refused ''no account exposed'')
         else bindA (modify (\<lambda>s. s\<lparr>op_connected := True\<rparr>)) (\<lambda>_. doneA ConnectedOk))))
     (\<lambda>r m'. r = Done ConnectedOk \<and> ex_clean m' \<and> op_runtime (mc_op m') = op_runtime (mc_op m) \<and>
       op_bound (mc_op m') \<and> op_connected (mc_op m')) m"
    using assms
    by (intro wp_tells [OF ex_answers(1)], simp del: wp_bindA, intro wp_tells [OF ex_answers(2)])
      (simp add: accountsOf_def same_def ex_clean_def sends_def)
  then show ?thesis using assms unfolding markConnected_def by (simp add: ex_clean_def del: wp_bindA add: wp_bindA [of "gets _"])
qed

lemma ex_reconciled:
  assumes "ex_clean m" and "op_bound (mc_op m)" and "op_connected (mc_op m)"
  shows "wp (reconcile ex_env) (\<lambda>r m'. r = Done (Reconciled 0) \<and> ex_clean m' \<and>
    op_runtime (mc_op m') = op_runtime (mc_op m) \<and> op_bound (mc_op m') \<and> op_connected (mc_op m') \<and>
    op_reconciled (mc_op m')) m"
  using assms by (simp add: reconcile_def ex_clean_def resumePending_def dropStalePending_def sends_def)

section \<open>The gates of the first step\<close>

lemma ex_dependencies: "tells s (dependenciesUnchanged ex_env True (map (\<lambda>_. ex_dependency) ns)) True"
proof (induction ns)
  case (Cons n ns)
  have "lower (en_keccak256 ex_env ''0x00'') = lower ex_hash" by (simp add: ex_env_def)
  with Cons show ?case
    by (auto simp: ex_dependency_def intro!: tells_bind [OF ex_answers(4)])
qed (simp add: tells_results)

lemma ex_exposure: "ex_runtime r \<Longrightarrow> tells s (exposureGate ex_env r) (True, Some 0)"
  by (simp add: tells_def exposureGate_def ex_env_def priceRequest_def wp_def bindA_def catch_def doneA_def
      exposureVerdict_def ex_price_def ex_runtime_def exposureOf_def bigint_div_def same_def sends_def)

lemma ex_gates:
  assumes "op_journal s = []" and "ex_runtime r"
  shows "\<exists>g. list_all snd g \<and> tells s (gates ex_env r 0 (ex_bound 0)) g"
proof -
  have expiry: "tells s (notExpired ex_env r) True" by (simp add: tells_def wp_def notExpired_def ex_env_def)
  have account: "accountSelected ex_env (accountsOf (RAccounts [ex_address (CHR ''a'')])) (ex_bound 0) = Inr True"
    by (simp add: accountSelected_def accountsOf_def sameAddr_True ex_bound_def ex_env_def ex_ga_def ex_opaque)
  have create: "tells s (predictedCreateEmpty ex_env (ex_bound 0)) True"
    by (simp add: predictedCreateEmpty_def ex_bound_def tells_results)
  have estimate: "tells s (estimateWithinLimit ex_env (ex_bound 0)) True"
    unfolding estimateWithinLimit_def
    by (intro tells_catch tells_bind [OF ex_answers(8)]) (simp add: ex_bound_def tells_results)
  have journal: "tells s (gets op_journal) []" by (rule tells_results(2)) (rule assms(1))
  have deps: "tells s (dependenciesUnchanged ex_env True (rt_dependencies r)) True"
    using assms(2) ex_dependencies by (simp add: ex_runtime_def)
  show ?thesis
    unfolding gates_def
    apply (rule exI, rule conjI [rotated])
     apply (rule tells_bind [OF expiry], rule tells_bind [OF ex_answers(1)], rule tells_bind [OF ex_answers(2)],
       rule tells_bind [OF tells_results(3) [OF account]], rule tells_bind [OF ex_answers(3)],
       rule tells_bind [OF ex_answers(3)], rule tells_bind [OF journal], rule tells_bind [OF deps],
       rule tells_bind [OF create], rule tells_bind [OF ex_answers(5)], rule tells_bind [OF ex_answers(6)],
       rule tells_bind [OF ex_answers(7)], rule tells_bind [OF estimate], rule tells_bind [OF ex_exposure [OF assms(2)]],
       rule tells_results(1))
    using assms(2) apply (simp add: ex_bound_def authorizationEnabled_def ex_runtime_def FLAGS_def)
    done
qed

definition ex_sent :: SendTx where
  "ex_sent = \<lparr>sx_from = ex_address (CHR ''a''), sx_value = ''0x0'', sx_data = ''0xab'', sx_gas = ''0x9'',
     sx_maxFeePerGas = ''0x8'', sx_maxPriorityFeePerGas = ''0x7'', sx_type = ''0x2'', sx_nonce = ''0x3'',
     sx_chainId = ''0x1237'', sx_to = Some (ex_address (CHR ''b''))\<rparr>"

lemma ex_buildSendTx: "buildSendTx ex_env (ex_bound 0) = Inr ex_sent"
proof -
  have "hexQuantity 9 = ''0x9''" "hexQuantity 8 = ''0x8''" "hexQuantity 7 = ''0x7''" "hexQuantity 3 = ''0x3''" by code_simp+
  then show ?thesis
    by (simp add: buildSendTx_def ex_bound_def ex_env_def ex_ga_def ex_opaque ex_sent_def)
qed

definition ex_ready :: "OpState \<Rightarrow> bool" where
  "ex_ready s \<longleftrightarrow> statesReady s \<and> op_journal s = [] \<and> op_pending s = None \<and> op_current s = 0 \<and>
     (\<exists>r. op_runtime s = Some r \<and> ex_runtime r)"

lemma ex_steps: "ex_ready s \<Longrightarrow> length (steps s) = 19 \<and> steps s ! 0 = ex_bound 0"
  by (auto simp: ex_ready_def steps_def ex_runtime_def nth_map simp del: upt_rec_numeral)

lemma ex_preconditions:
  assumes "ex_ready s"
  shows "\<exists>g. tells s (preconditions ex_env) (PreOk 0 g ex_sent)"
proof -
  obtain r where r: "op_runtime s = Some r" "ex_runtime r" using assms by (auto simp: ex_ready_def)
  obtain g where g: "list_all snd g" "tells s (gates ex_env r 0 (ex_bound 0)) g"
    using ex_gates [OF _ r(2)] assms by (auto simp: ex_ready_def)
  have "tells s runtime r" unfolding runtime_def
    by (rule tells_bind [OF tells_results(2) [OF refl]]) (simp add: r tells_results)
  then have "tells s (bindA runtime (\<lambda>rt. let i = op_current s; t = steps s ! i in
       bindA (gates ex_env rt i t) (\<lambda>g. if \<not> list_all snd g
         then halt ex_env (''precondition failed at step '' @ dec_of_int (int i) @ '': '' @ failedNames g)
         else bindA (lift (buildSendTx ex_env t)) (\<lambda>tx. doneA (PreOk i g tx))))) (PreOk 0 g ex_sent)"
    using ex_steps [OF assms] assms g
    by (auto simp: ex_ready_def ex_buildSendTx lift_def Let_def intro!: tells_bind tells_results(1))
  then show ?thesis
    unfolding preconditions_def
    by (intro exI tells_bind [OF tells_results(2) [OF refl]])
      (use ex_steps [OF assms] assms in \<open>simp add: ex_ready_def statesReady_def\<close>)
qed

text \<open>The wallet answers with a hash; the send is recorded.\<close>

lemma ex_dispatch:
  assumes "ex_ready (mc_op m)"
  shows "wp (dispatch ex_env) (\<lambda>r m'. r = Done (Sent 0 ex_hash) \<and>
    (\<exists>e. sends m' = sends m @ [e] \<and> op_current (ev_op e) = 0 \<and> ev_rpc e = EthSendTransaction ex_sent)) m"
proof -
  have stored: "wp (durableSet ex_env k v) Q m = Q (Done True) (m\<lparr>mc_store := (mc_store m)(k \<mapsto> v)\<rparr>)"
    for k v Q and m :: "(OpState, unit) Machine"
    by (cases m) (simp add: durableSet_def storageSet_def storageGet_def wp_def catch_def bindA_def doneA_def ex_env_def)
  have asked: "wp (req ex_env (EthSendTransaction tx)) Q m =
      Q (Done (RText ex_hash)) (m\<lparr>mc_trace := mc_trace m @ [\<lparr>ev_op = mc_op m, ev_store = mc_store m,
        ev_rpc = EthSendTransaction tx, ev_reply = Done (RText ex_hash)\<rparr>]\<rparr>)"
    for tx Q and m :: "(OpState, unit) Machine"
    by (cases m) (simp add: wp_def req_def FORBIDDEN_METHODS_def ex_env_def)
  obtain h where signed: "signableHash ex_env (ex_bound 0) = Inr h"
    by (simp add: signableHash_def signable_def ex_bound_def ex_env_def ex_ga_def ex_opaque)
  have signer: "en_getAddress ex_env (st_signer (ex_bound 0)) = Inr (ex_address (CHR ''a''))"
    by (simp add: ex_bound_def ex_env_def ex_ga_def ex_opaque)
  have "steps (mc_op m) \<noteq> []" using ex_steps [OF assms] by auto
  moreover have "st_gasCeilings (ex_bound 0) = None" by (simp add: ex_bound_def)
  ultimately show ?thesis
    using ex_steps [OF assms] assms
    by (simp add: dispatch_def stepAt_def intentOf_def signer signed durableAt_def stored invokeWallet_def askWallet_def
        ex_buildSendTx reqText_def asked OperatorChain.textOf_def afterHash_def ex_ready_def sends_def)
qed

lemma ex_sendCurrent:
  assumes "ex_ready (mc_op m)"
  shows "wp (sendCurrent ex_env (preconditions ex_env)) (\<lambda>r m'. r = Done (Sent 0 ex_hash) \<and>
    (\<exists>e. sends m' = sends m @ [e] \<and> op_current (ev_op e) = 0 \<and> ev_rpc e = EthSendTransaction ex_sent)) m"
proof -
  obtain g where "tells (mc_op m) (preconditions ex_env) (PreOk 0 g ex_sent)"
    using ex_preconditions [OF assms] by blast
  then have "wp (bindA (preconditions ex_env) (\<lambda>p. if \<not> isOk p then doneA p else dispatch ex_env))
      (\<lambda>r m'. r = Done (Sent 0 ex_hash) \<and>
        (\<exists>e. sends m' = sends m @ [e] \<and> op_current (ev_op e) = 0 \<and> ev_rpc e = EthSendTransaction ex_sent)) m"
  proof (rule wp_tells)
    fix m' assume m': "same m m'"
    then have "ex_ready (mc_op m')" using assms by (simp add: same_def)
    then show "wp (if \<not> isOk (PreOk 0 g ex_sent) then doneA (PreOk 0 g ex_sent) else dispatch ex_env)
      (\<lambda>r m'. r = Done (Sent 0 ex_hash) \<and>
        (\<exists>e. sends m' = sends m @ [e] \<and> op_current (ev_op e) = 0 \<and> ev_rpc e = EthSendTransaction ex_sent)) m'"
      using ex_dispatch [of m'] m' by (simp add: same_def)
  qed
  then show ?thesis
    using assms by (simp add: sendCurrent_def ex_ready_def statesReady_def wp_bindA [of "gets _"] del: wp_bindA)
qed

lemma ex_step:
  assumes "c \<noteq> Reload" and "wp (invoke ex_env me c) (\<lambda>r m'. r = Done a \<and> Q m') m"
  shows "\<exists>m'. sessionStep ex_env me kp kd digest (True, m) c = (True, m') \<and> Q m'"
  using assms by (cases c) (auto simp: sessionStep_def wp_def split: prod.splits)

lemma ex_invoke:
  "markConnected ex_env = invoke ex_env ex_methods MarkConnected"
  "reconcile ex_env = invoke ex_env ex_methods Reconcile"
  "sendCurrent ex_env (preconditions ex_env) = invoke ex_env ex_methods SendCurrent"
  by (simp_all add: ex_methods_def baseMethods_def)

lemma ex_session_sends:
  "\<exists>e. sends ex_session = [e] \<and> op_current (ev_op e) = 0 \<and> ev_rpc e = EthSendTransaction ex_sent"
proof -
  let ?next = "sessionStep ex_env ex_methods ''canary'' ex_hash ex_hash"
  obtain m1 where m1: "?next (False, fresh ''canary'' ex_hash (\<lambda>_. None) () (mc_op ex_machine)) Reload = (True, m1)"
      "ex_clean m1" "op_runtime (mc_op m1) = None"
    using ex_reload [of "mc_op ex_machine"] by (auto simp: sessionStep_def)
  obtain r where r: "ex_runtime r" "bindAndVerifyPacket ex_env ex_numText ex_inputs m1 =
      (Done BoundOk, m1\<lparr>mc_op := (mc_op m1)\<lparr>op_bound := True, op_runtime := Some r\<rparr>\<rparr>)"
    using ex_binds [OF m1(3)] m1(2) by (auto simp: ex_clean_def)
  obtain m2 where m2: "?next (True, m1) BindPacket = (True, m2)"
      "ex_clean m2" "op_bound (mc_op m2)" "op_runtime (mc_op m2) = Some r"
    using r m1(2) by (simp add: sessionStep_def ex_methods_def baseMethods_def ex_clean_def sends_def)
  obtain m3 where m3: "?next (True, m2) MarkConnected = (True, m3)"
      "ex_clean m3" "op_runtime (mc_op m3) = op_runtime (mc_op m2)" "op_bound (mc_op m3)" "op_connected (mc_op m3)"
    using ex_step [OF _ ex_connected [OF m2(2,3), unfolded ex_invoke(1)]] by blast
  obtain m4 where m4: "?next (True, m3) Reconcile = (True, m4)"
      "ex_clean m4" "op_runtime (mc_op m4) = op_runtime (mc_op m3)" "op_bound (mc_op m4)" "op_connected (mc_op m4)"
      "op_reconciled (mc_op m4)"
    using ex_step [OF _ ex_reconciled [OF m3(2,4,5), unfolded ex_invoke(2)]] by blast
  have "ex_ready (mc_op m4)" using m2 m3 m4 r(1) by (simp add: ex_ready_def ex_clean_def statesReady_def)
  then obtain m5 e where m5: "?next (True, m4) SendCurrent = (True, m5)"
      "sends m5 = sends m4 @ [e]" "op_current (ev_op e) = 0" "ev_rpc e = EthSendTransaction ex_sent"
    using ex_step [OF _ ex_sendCurrent [unfolded ex_invoke(3)]] by blast
  have "ex_session = m5"
    by (simp add: ex_session_def session_def ex_calls_def m1 m2 m3 m4 m5)
  then show ?thesis using m4(2) m5 by (simp add: ex_clean_def)
qed

theorem operator_sends_the_packet_witness:
  "\<exists>e. sends ex_session = [e] \<and> ev_rpc e = EthSendTransaction ex_sent \<and> op_current (ev_op e) = 0 \<and>
     txIs ex_ga (ex_tx 0) ex_sent"
proof -
  obtain e where e: "sends ex_session = [e]" "op_current (ev_op e) = 0" "ev_rpc e = EthSendTransaction ex_sent"
    using ex_session_sends by blast
  have "a \<noteq> [] \<and> en_getAddress ex_env a = Inr a" if "en_getAddress ex_env s = Inr a" for s a
    using that by (auto simp: ex_env_def ex_ga_def hex_string_def split: if_splits)
  moreover have "plainJson (bi_package ex_inputs)" by (simp add: ex_inputs_def ex_plain)
  moreover have "bi_packet ex_inputs = ex_packet" "en_getAddress ex_env = ex_ga" by (simp_all add: ex_inputs_def ex_env_def)
  ultimately have "list_all (\<lambda>e. \<exists>ts tx. getProp ''immediateTransactions'' ex_packet = Inr (JArr ts) \<and> length ts = 19 \<and>
      op_current (ev_op e) < 19 \<and> ev_rpc e = EthSendTransaction tx \<and> txIs ex_ga (ts ! op_current (ev_op e)) tx)
    (sends ex_session)"
    unfolding ex_session_def ex_methods_def using operator_sends_the_packet [of ex_env ex_inputs] by simp
  then have "txIs ex_ga (map ex_tx [0..<19] ! 0) ex_sent" using e by (simp add: ex_packet_at del: upt_rec_numeral)
  with e show ?thesis by (auto simp: nth_map simp del: upt_rec_numeral)
qed

end
