(* ===== verification/RecoveryAuth.thy ===== *)
theory RecoveryAuth
  imports CanonicalAuth
begin

text \<open>
  \<open>canary-packet/exec/operator/recovery-canonical.mjs\<close>: the canonical authorization of the recovery packet. The
  first thirteen steps are anchors on the chain, six transactions of the tester are left. The object is
  rebuilt from packet, policy and snapshot with every defect noted, and a packaged copy is validated. \<open>dp\<close> is
  \<open>Date.parse\<close> of a text in milliseconds, \<open>None\<close> where it is no date; \<open>numText\<close>, the checksum function and
  the notes are as in \<open>CanonicalAuth\<close>. A number that is no integer has no size here: as an offset it finds no
  word, and it is not at most thirteen; both are noted anyway where an object is built.
\<close>

section \<open>Helpers\<close>

definition RECOVERY_SCHEMA :: string where "RECOVERY_SCHEMA = ''canary-recovery-authorization''"

definition RECOVERY_VERSION :: string where "RECOVERY_VERSION = ''10D-8''"

definition RECOVERY_SCOPE :: string where
  "RECOVERY_SCOPE = ''BPSC-TEST canary RECOVERY v9 (original steps 1-13 completed on chain; pure time refresh of the reviewed v8); Robinhood Chain mainnet; final SIX tester transactions only (original steps 14-19, tester nonces 2-7); per-step gas-cost ceiling exactly 1.25x reviewed (accepted); maximum all-inclusive exposure $130; individual Rabby approvals; canonical BPS production excluded.''"

definition PRIORITY_CEILING_WEI :: string where "PRIORITY_CEILING_WEI = ''50000000''"

definition ALL_SLOTS :: "string list" where
  "ALL_SLOTS = [''canaryToken'', ''lockingVault'', ''claimManager'', ''rialtoAdapter'', ''coordinator'',
     ''stockVault'', ''uniswapAdapter'', ''tradeRouter'']"

text \<open>\<open>N\<close> of this file notes a defect with other words.\<close>

definition asNum :: "Json \<Rightarrow> string \<Rightarrow> Json noted" where
  "asNum x w =
     (let v = (case x of JNum i \<Rightarrow> JStr (jsString x) | JFrac \<Rightarrow> JStr (jsString x) | _ \<Rightarrow> x) in
      if isDec v then okN v
      else noteN (''non-canonical-number '' @ w @ ''('' @ jsString x @ '')'') (JStr ''0''))"

text \<open>A field of an object just built, and \<open>length\<close> of a text or an array.\<close>

definition fieldOf :: "string \<Rightarrow> Json \<Rightarrow> Json" where
  "fieldOf k v = (case v of JObj kvs \<Rightarrow> lookupKey kvs k | _ \<Rightarrow> JUndefined)"

definition lengthIs :: "nat \<Rightarrow> Json \<Rightarrow> bool" where
  "lengthIs n v = (case v of
     JArr vs \<Rightarrow> length vs = n | JStr s \<Rightarrow> length s = n | JObj kvs \<Rightarrow> lookupKey kvs ''length'' = JNum (int n) | _ \<Rightarrow> False)"

definition isArrayOf :: "nat \<Rightarrow> Json \<Rightarrow> bool" where
  "isArrayOf n v = (case v of JArr vs \<Rightarrow> length vs = n | _ \<Rightarrow> False)"

text \<open>\<open>BigInt(String(v))\<close>; \<open>Math.floor(Date.parse(v) / 1000)\<close>.\<close>

definition bigIntString :: "Json \<Rightarrow> exn + int" where
  "bigIntString v = bigIntText (jsString v)"

definition epochOf :: "(string \<Rightarrow> int option) \<Rightarrow> Json \<Rightarrow> Json" where
  "epochOf dp v = (case dp (jsString v) of None \<Rightarrow> JFrac | Some t \<Rightarrow> JNum (t div 1000))"

text \<open>\<open>xs.slice(a, b)\<close>: an index below zero counts from the end.\<close>

definition jsIndex :: "nat \<Rightarrow> int \<Rightarrow> nat" where
  "jsIndex len i = (if i < 0 then nat (int len + i) else min len (nat i))"

definition jsSlice :: "int \<Rightarrow> int \<Rightarrow> 'a list \<Rightarrow> 'a list" where
  "jsSlice a b xs = (let i = jsIndex (length xs) a; j = jsIndex (length xs) b in take (j - i) (drop i xs))"

definition sliceText :: "int \<Rightarrow> int \<Rightarrow> Json \<Rightarrow> exn + string" where
  "sliceText a b v = (case v of
     JStr s \<Rightarrow> Inr (jsSlice a b s)
   | JArr vs \<Rightarrow> Inr (jsString (JArr (jsSlice a b vs)))
   | _ \<Rightarrow> Inl (jsError ''slice is not a function''))"

text \<open>The word of call data at an offset in bytes, as \<open>BigInt("0x" + data.slice(...))\<close>.\<close>

definition wordAt :: "Json \<Rightarrow> Json \<Rightarrow> exn + int" where
  "wordAt data offset =
     rbind (case offset of
         JNum i \<Rightarrow> sliceText (2 + i * 2) (2 + i * 2 + 64) data
       | _ \<Rightarrow> sliceText 0 0 data) bigIntHex"

text \<open>\<open>xs.find(t => t.originalIndex === i)\<close>.\<close>

fun findStep :: "Json \<Rightarrow> Json list \<Rightarrow> exn + Json option" where
  "findStep i [] = Inr None"
| "findStep i (t # ts) =
     rbind (getProp ''originalIndex'' t) (\<lambda>x. if strictEq x i then Inr (Some t) else findStep i ts)"

section \<open>The transactions that are left\<close>

definition gasCeilingsOf :: "Json \<Rightarrow> exn + Json" where
  "gasCeilingsOf t = rbind (getProp ''gasCeilings'' t) (\<lambda>g. Inr (if truthy g then g else JObj []))"

text \<open>\<open>if (!c) err.push(w + t.label)\<close>.\<close>

definition checkLabel :: "bool \<Rightarrow> string \<Rightarrow> Json \<Rightarrow> unit noted" where
  "checkLabel c w t = (if c then okN () else bindN (liftN (getProp ''label'' t)) (\<lambda>l. noteN (w @ jsString l) ()))"

definition ceilingChecks :: "Json \<Rightarrow> Json \<Rightarrow> unit noted" where
  "ceilingChecks t g =
     bindN (fld asNum t [''gasLimit''] ''x'') (\<lambda>gasLimit.
     bindN (fld asNum t [''maxFeePerGas''] ''x'') (\<lambda>maxFee.
     let reviewedCost = bigOf gasLimit * bigOf maxFee in seqN
     [bindN (fld asNum g [''reviewedMaxGasCostWei''] ''gc.rev'') (\<lambda>x.
        checkLabel (bigOf x = reviewedCost) ''gc.reviewed != gasLimit*maxFee @ '' t),
      bindN (fld asNum g [''maxGasCostCeilingWei''] ''gc.cost'') (\<lambda>x.
        checkLabel (bigOf x * 4 = reviewedCost * 5) ''gc.cost != exactly 1.25x reviewed @ '' t),
      bindN (fld asNum g [''maxFeeCeilingWei''] ''gc.mf'') (\<lambda>x. bindN (fld asNum t [''maxFeePerGas''] ''x'') (\<lambda>y.
        checkLabel (x = y) ''gc.maxFee ceiling changed @ '' t)),
      bindN (fld asNum g [''maxPriorityCeilingWei''] ''gc.mp'') (\<lambda>x.
        checkLabel (x = JStr PRIORITY_CEILING_WEI) ''gc.priority != exactly 50000000 @ '' t),
      bindN (fld asNum g [''gasLimitCeiling''] ''gc.gl'') (\<lambda>x. bindN (fld asNum t [''gasLimit''] ''x'') (\<lambda>y.
        checkLabel (bigOf x = bigOf y * 2) ''gc.gasLimit ceiling != 2x reviewed @ '' t))]))"

definition stepFields :: "(string \<Rightarrow> exn + string) \<Rightarrow> Json \<Rightarrow> Json \<Rightarrow> Json \<Rightarrow> (string \<times> Json noted) list" where
  "stepFields ga t g pc =
     [(''originalIndex'', fld asI t [''originalIndex''] ''tx.orig''),
      (''remainingIndex'', fld asI t [''remainingIndex''] ''tx.rem''),
      (''phase'', fld asStr t [''phase''] ''tx.phase''),
      (''label'', fld asStr t [''label''] ''tx.label''),
      (''postconditionType'', okN pc),
      (''chainId'', fld asI t [''chainId''] ''tx.chain''),
      (''signer'', fld (asA ga) t [''signer''] ''tx.signer''),
      (''nonce'', fld asI t [''nonce''] ''tx.nonce''),
      (''type'', okN (JNum 2)),
      (''to'', fld (\<lambda>x w. if truthy x then asA ga x w else okN JNull) t [''to''] ''tx.to''),
      (''value'', fld (\<lambda>x w. asNum (if truthy x then x else JStr ''0'') w) t [''value''] ''tx.value''),
      (''data'', fld (\<lambda>x w. if isHexAny x then okN (JStr (lower (jsString x))) else noteN w (JStr ''0x''))
         t [''dataOrInitCode''] ''tx.data''),
      (''gasLimit'', fld asNum t [''gasLimit''] ''tx.gas''),
      (''maxFeePerGas'', fld asNum t [''maxFeePerGas''] ''tx.maxFee''),
      (''maxPriorityFeePerGas'', fld asNum t [''maxPriorityFeePerGas''] ''tx.maxPrio''),
      (''gasCeilings'', objN
        [(''gasLimitCeiling'', fld asNum g [''gasLimitCeiling''] ''gc.gl''),
         (''maxFeeCeilingWei'', fld asNum g [''maxFeeCeilingWei''] ''gc.mf''),
         (''maxPriorityCeilingWei'', fld asNum g [''maxPriorityCeilingWei''] ''gc.mp''),
         (''reviewedMaxGasCostWei'', fld asNum g [''reviewedMaxGasCostWei''] ''gc.rev''),
         (''maxGasCostCeilingWei'', fld asNum g [''maxGasCostCeilingWei''] ''gc.cost'')])]"

definition sigStep :: "(string \<Rightarrow> exn + string) \<Rightarrow> Json \<Rightarrow> Json \<Rightarrow> Json noted" where
  "sigStep ga tester t =
     bindN (liftN (gasCeilingsOf t)) (\<lambda>g.
     bindN (liftN (postconditionType t)) (\<lambda>pc.
     bindN (checkLabel (pc \<noteq> JStr ''unknown'') ''pc unknown '' t) (\<lambda>_.
     bindN (fld (asA ga) t [''signer''] ''tx.s'') (\<lambda>s.
     bindN (checkLabel (s = tester) ''signable signer is NOT the tester @ '' t) (\<lambda>_.
     bindN (ceilingChecks t g) (\<lambda>_.
     objN (stepFields ga t g pc)))))))"

section \<open>The anchors\<close>

definition anchorFields :: "(string \<Rightarrow> exn + string) \<Rightarrow> Json \<Rightarrow> (string \<times> Json noted) list" where
  "anchorFields ga x =
     (let opt = (\<lambda>v w. if truthy v then asA ga v w else okN JNull) in
     [(''originalIndex'', fld asI x [''originalIndex''] ''anc.oi''),
      (''label'', fld asStr x [''label''] ''anc.lbl''),
      (''txHash'', fld asHash x [''txHash''] ''anc.hash''),
      (''signer'', fld (asA ga) x [''signer''] ''anc.signer''),
      (''nonce'', fld asI x [''nonce''] ''anc.nonce''),
      (''to'', fld opt x [''to''] ''anc.to''),
      (''createdAddress'', fld opt x [''createdAddress''] ''anc.created''),
      (''inputKeccak'', fld asHash x [''inputKeccak''] ''anc.ik''),
      (''blockNumber'', fld asNum x [''blockNumber''] ''anc.bn''),
      (''blockHash'', fld asHash x [''blockHash''] ''anc.bh''),
      (''gasUsed'', fld asNum x [''gasUsed''] ''anc.gu''),
      (''effectiveGasPriceWei'', fld asNum x [''effectiveGasPriceWei''] ''anc.egp''),
      (''actualGasCostWei'', fld asNum x [''actualGasCostWei''] ''anc.cost'')])"

definition anchorN :: "(string \<Rightarrow> exn + string) \<Rightarrow> nat \<Rightarrow> Json \<Rightarrow> Json noted" where
  "anchorN ga i x =
     bindN (fld asI x [''originalIndex''] ''anc.oi'') (\<lambda>oi.
     bindN (checkN (oi = JNum (int i + 1)) (''anchor originalIndex sequence @ '' @ dec_of_int (int i))) (\<lambda>_.
     bindN (liftN (getProp ''deployedRuntimeCodeHash'' x)) (\<lambda>code.
     bindN (liftN (getProp ''positionTokenId'' x)) (\<lambda>tid.
     bindN (objN (anchorFields ga x
       @ (if truthy code then
            [(''deployedRuntimeCodeHash'', fld asHash x [''deployedRuntimeCodeHash''] ''anc.rh''),
             (''deployedCodeSize'', fld asI x [''deployedCodeSize''] ''anc.sz'')] else [])
       @ (if truthy tid then [(''positionTokenId'', fld asNum x [''positionTokenId''] ''anc.tid'')] else []))) (\<lambda>out.
     bindN (checkN (fieldOf ''nonce'' out = plusNumber (fieldOf ''originalIndex'' out) 2)
       (''anchor nonce != originalIndex+2 @ '' @ jsString (fieldOf ''originalIndex'' out))) (\<lambda>_.
     okN out))))))"

definition anchorsN :: "(string \<Rightarrow> exn + string) \<Rightarrow> Json \<Rightarrow> Json \<Rightarrow> Json list noted" where
  "anchorsN ga a p =
     bindN (liftN (rbind (path [''completedSteps''] a) arrayOf)) (\<lambda>xs.
     bindN (traverseN (\<lambda>(i, x). anchorN ga i x) (enumerate 0 xs)) (\<lambda>anchors.
     bindN (fld (asA ga) p [''wallets'', ''deployer''] ''dep0'') (\<lambda>deployer.
     bindN (checkN (length anchors = 13 \<and> list_all (\<lambda>(i, x).
          fieldOf ''originalIndex'' x = JNum (int i + 1) \<and> fieldOf ''signer'' x = deployer) (enumerate 0 anchors))
        ''completed deployer range != exactly 1-13'') (\<lambda>_.
     bindN (fld asNum a [''capArithmetic'', ''realizedGasWei''] ''ca.rg'') (\<lambda>realized.
     bindN (checkN (sum_list (map (\<lambda>x. bigOf (fieldOf ''actualGasCostWei'' x)) anchors) = bigOf realized)
        ''realized gas identity: sum(anchors) != realizedGasWei'') (\<lambda>_.
     okN anchors))))))"

definition completedN :: "(string \<Rightarrow> exn + string) \<Rightarrow> Json \<Rightarrow> string \<Rightarrow> (string \<times> Json) list noted" where
  "completedN ga s slot =
     bindN (liftN (path [''completedContracts'', slot] s)) (\<lambda>c.
     if \<not> truthy c then noteN (''completed contract missing '' @ slot) []
     else bindN (objN
       [(''address'', fld (asA ga) c [''address''] (''cc.'' @ slot)),
        (''runtimeCodeHash'', fld asHash c [''runtimeCodeHash''] (''cch.'' @ slot))])
       (\<lambda>v. okN [(slot, v)]))"

definition recoveryDependencyN :: "(string \<Rightarrow> exn + string) \<Rightarrow> Json \<Rightarrow> string \<Rightarrow> (string \<times> Json) list noted" where
  "recoveryDependencyN ga s name =
     bindN (liftN (path [''externalCodeHashes'', name] s)) (\<lambda>d.
     if \<not> truthy d then noteN (''dep '' @ name) []
     else bindN (objN
       [(''address'', fld (asA ga) d [''address''] (''dep.'' @ name)),
        (''runtimeCodeHash'', fld asHash d [''runtimeCodeHash''] (''deph.'' @ name)),
        (''codeBytes'', fld asI d [''codeBytes''] (''depb.'' @ name))])
       (\<lambda>v. okN [(name, v)]))"

section \<open>The refreshed deadlines\<close>

text \<open>One step of \<open>deadlineRefresh.steps\<close>; a step whose transaction is missing leaves nothing.\<close>

definition refreshStepN :: "Json \<Rightarrow> Json \<Rightarrow> Json \<Rightarrow> Json list noted" where
  "refreshStepN txs newDl x =
     bindN (liftN (getProp ''originalIndex'' x)) (\<lambda>oi.
     bindN (liftN (rbind (arrayOf txs) (findStep oi))) (\<lambda>tx.
     case tx of
       None \<Rightarrow> noteN (''dr step tx missing '' @ jsString oi) []
     | Some t \<Rightarrow>
         bindN (fld asI x [''wordOffsetBytes''] ''dr.off'') (\<lambda>off.
         bindN (liftN (rbind (getProp ''dataOrInitCode'' t) (\<lambda>d. wordAt d off))) (\<lambda>word.
         bindN (checkN (JStr (dec_of_int word) = newDl)
            (''dr: bound calldata word != new deadline @ step '' @ jsString oi)) (\<lambda>_.
         bindN (objN
           [(''originalIndex'', fld asI x [''originalIndex''] ''dr.oi''),
            (''label'', fld asStr x [''label''] ''dr.lbl''),
            (''wordOffsetBytes'', okN off),
            (''oldDataKeccak'', fld asHash x [''oldDataKeccak''] ''dr.okk''),
            (''newDataKeccak'', fld asHash x [''newDataKeccak''] ''dr.nkk'')]) (\<lambda>v. okN [v]))))))"

text \<open>The checks of the refresh: the record itself, its two deadlines and its steps.\<close>

definition refreshN :: "(string \<Rightarrow> Json) \<Rightarrow> (string \<Rightarrow> int option) \<Rightarrow> Json \<Rightarrow> Json \<Rightarrow> (Json \<times> Json \<times> Json \<times> Json list) noted" where
  "refreshN numText dp a s =
     bindN (liftN (path [''meta'', ''deadlineRefresh''] a)) (\<lambda>dr0.
     let dr = (if truthy dr0 then dr0 else JObj []) in
     bindN (liftN (path [''meta'', ''expiresAtUtc''] a)) (\<lambda>expires.
     bindN (fld asNum dr [''newDeadline''] ''dr.new'') (\<lambda>newDl.
     bindN (fld asNum dr [''oldDeadline''] ''dr.old'') (\<lambda>oldDl.
     bindN (checkN (oldDl = JStr ''1784949999'') ''dr.oldDeadline != bound v8 deadline 1784949999'') (\<lambda>_.
     bindN (liftN (rbind (path [''pinnedBlock'', ''timestamp''] s) bigIntString)) (\<lambda>ts.
     bindN (checkN (bigOf newDl = ts + 21600) ''dr.newDeadline != pinned ts + 21600'') (\<lambda>_.
     bindN (checkN (strictEq (jsNumber numText newDl) (epochOf dp expires)) ''dr.newDeadline != packet expiry epoch'') (\<lambda>_.
     bindN (liftN (getProp ''steps'' dr)) (\<lambda>drSteps.
     let xs = (case drSteps of JArr vs \<Rightarrow> vs | _ \<Rightarrow> []) in
     bindN (liftN (rmap (getProp ''originalIndex'') xs)) (\<lambda>idxs.
     bindN (checkN (jsString (JArr idxs) = ''15,17'') ''dr.steps != [15,17]'') (\<lambda>_.
     bindN (liftN (path [''immediateTransactions''] a)) (\<lambda>txs.
     bindN (traverseN (refreshStepN txs newDl) xs) (\<lambda>vs.
     okN (dr, oldDl, newDl, concat vs))))))))))))))"

section \<open>The canonical object\<close>

definition recoveryMissing :: "Json \<Rightarrow> Json \<Rightarrow> Json \<Rightarrow> string list" where
  "recoveryMissing a p s =
     (let at = (\<lambda>k v. case getProp k v of Inl _ \<Rightarrow> JUndefined | Inr x \<Rightarrow> x) in
      map (\<lambda>c. ''missing '' @ fst c) (filter (\<lambda>c. \<not> snd c)
     [(''meta'', chain [''meta'', ''authorization''] a),
      (''13 completed anchors'', truthy a \<and> isArrayOf 13 (at ''completedSteps'' a)),
      (''6 immediate'', chain [''immediateTransactions''] a \<and> lengthIs 6 (at ''immediateTransactions'' a)),
      (''capArithmetic'', chain [''capArithmetic''] a),
      (''expectations'', list_all (\<lambda>k. chain [k] a)
         [''lpUsage'', ''buyAccounting'', ''sellAccounting'', ''lockAndWithdraw'']),
      (''provenance'', chain [''provenance'', ''contracts''] a),
      (''guards'', chain [''addressGuards'', ''completedContracts''] a),
      (''snapshot'', list_all (\<lambda>k. chain [k] s)
         [''pinnedBlock'', ''nonces'', ''balances'', ''externalCodeHashes'', ''expectedNonces'', ''completedContracts'']),
      (''policy'', list_all (\<lambda>k. chain [k] p) [''wallets'', ''infrastructure'', ''economics'', ''gas''])]))"

text \<open>The fields of the object in groups.\<close>

definition recoveryIdentityN :: "(string \<Rightarrow> exn + string) \<Rightarrow> (string \<Rightarrow> Json) \<Rightarrow> Json \<Rightarrow> Json \<Rightarrow> Json \<Rightarrow> (string \<times> Json noted) list" where
  "recoveryIdentityN ga numText tester a p =
     (let au = [''meta'', ''authorization''];
          flag = (\<lambda>k c. (k, andN (fld asBoolT a [''safetyFlags'', k] (''f.'' @ c))
                                (fld asBoolT p [''safetyFlags'', k] (''pf.'' @ c))));
          version = (\<lambda>v k. (v, objN
            [(''zipSha256'', fld asStr a [''meta'', v @ ''ZipSha256''] (v @ ''zip'')),
             (k @ ''AuthorizationDigest'', fld asHash a [''meta'', v @ (if k = ''reviewed'' then ''Reviewed'' else ''Recovery'')
                @ ''AuthorizationDigest''] (v @ ''rad''))]))
      in
     [(''schema'', asStrIs RECOVERY_SCHEMA (JStr RECOVERY_SCHEMA) ''schema''),
      (''version'', asStrIs RECOVERY_VERSION (JStr RECOVERY_VERSION) ''version''),
      (''canary'', andN (fld asBoolT a (au @ [''canary'']) ''canary'') (fld asBoolT p [''canary''] ''pcanary'')),
      (''production'',
         bindN (fld asBoolF a (au @ [''production'']) ''prod'') (\<lambda>x.
         bindN (if x = JBool False then fld asBoolF p [''production''] ''pprod'' else okN JUndefined) (\<lambda>y.
         ensureN (y = JBool False) ''prod'' (JBool False) (JBool True)))),
      (''chainId'',
         bindN (fld asI a [''meta'', ''chainId''] ''chain'') (\<lambda>x.
         bindN (liftN (path [''chainId''] p)) (\<lambda>y.
         ensureN (x = JNum 4663 \<and> y = JNum 4663) ''chain'' (JNum 4663) (JNum 0)))),
      (''scope'', bindN (fld (asStrIs RECOVERY_SCOPE) a (au @ [''scope'']) ''scope'') (\<lambda>x.
         ensureN (x = JStr RECOVERY_SCOPE) ''scope'' (JStr RECOVERY_SCOPE) (JStr []))),
      (''flags'', objN [flag ''broadcastReady'' ''b'', flag ''liveWritesApproved'' ''l'',
         flag ''executionAuthorized'' ''e'', flag ''fundingAuthorized'' ''f'']),
      (''executable'', fld asBoolT a [''meta'', ''executable''] ''exec''),
      (''maxAllInclusiveExposureUsd'',
         bindN (liftN (path (au @ [''maxAllInclusiveExposureUsd'']) a)) (\<lambda>x.
         ensureN (jsNumber numText x = JNum 130) ''cap'' (JNum 130) (JNum 0))),
      (''generatedAtUtc'', fld asStr a [''meta'', ''generatedAtUtc''] ''gen''),
      (''expiresAtUtc'', fld asStr a [''meta'', ''expiresAtUtc''] ''exp''),
      (''validityWindowSeconds'', fld asI a [''meta'', ''validityWindowSeconds''] ''vw''),
      (''wallets'', objN
        [(''deployer'',
            bindN (fld (asA ga) a [''meta'', ''deployer''] ''dep'') (\<lambda>x.
            bindN (fld (asA ga) p [''wallets'', ''deployer''] ''pdep'') (\<lambda>y.
            if x = y then fld (asA ga) a [''meta'', ''deployer''] ''dep'' else noteN ''deployer'' (JStr [])))),
         (''tester'',
            bindN (fld (asA ga) a [''meta'', ''tester''] ''test'') (\<lambda>x. ensureN (x = tester) ''tester'' tester (JStr [])))]),
      version ''v5'' ''reviewed'', version ''v6'' ''recovery'', version ''v7'' ''recovery'', version ''v8'' ''recovery''])"

definition gasPolicyN :: "Json \<Rightarrow> Json noted" where
  "gasPolicyN a = (let gp = (\<lambda>f k w. fld f a [''meta'', ''gasPolicy'', k] w) in objN
     [(''perStepCostMultiplier'', gp asStr ''perStepCostMultiplier'' ''gp.mult''),
      (''maxPriorityCeilingWei'', bindN (gp asNum ''maxPriorityCeilingWei'' ''gp.prio'') (\<lambda>x.
         ensureN (x = JStr PRIORITY_CEILING_WEI) ''gp.prio'' (JStr PRIORITY_CEILING_WEI) (JStr ''0''))),
      (''maxFeeCeilingUnchanged'', gp asBoolT ''maxFeeCeilingUnchanged'' ''gp.mf''),
      (''gasLimitCeilingUnchanged'', gp asBoolT ''gasLimitCeilingUnchanged'' ''gp.gl''),
      (''authorization'', gp asStr ''authorization'' ''gp.auth'')])"

definition deadlineN :: "Json \<times> Json \<times> Json \<times> Json list \<Rightarrow> Json noted" where
  "deadlineN = (\<lambda>(dr, oldDl, newDl, xs). objN
     [(''oldDeadline'', okN oldDl), (''newDeadline'', okN newDl),
      (''newDeadlineEqualsPacketExpiry'', fld asBoolT dr [''newDeadlineEqualsPacketExpiry''] ''dr.eq''),
      (''authorization'', fld asStr dr [''authorization''] ''dr.auth''),
      (''steps'', okN (JArr xs))])"

text \<open>A number that must be the one the plan has.\<close>

definition exactlyN :: "int \<Rightarrow> Json \<Rightarrow> string list \<Rightarrow> string \<Rightarrow> Json noted" where
  "exactlyN n v ks w = bindN (fld asI v ks w) (\<lambda>x. ensureN (x = JNum n) w (JNum n) (JNum 0))"

definition planN :: "Json \<Rightarrow> Json \<Rightarrow> Json list \<Rightarrow> (string \<times> Json noted) list" where
  "planN a s anchors =
     [(''accountPolicy'', fld asStr a [''meta'', ''accountPolicy''] ''acctPolicy''),
      (''originalPlan'', objN
        [(''stepCount'', exactlyN 19 a [''meta'', ''originalStepCount''] ''osc''),
         (''deployerStepRange'', asStrIs ''1-13'' (JStr ''1-13'') ''dsr''),
         (''testerStepRange'', asStrIs ''14-19'' (JStr ''14-19'') ''tsr'')]),
      (''completedSteps'', okN (JArr anchors)),
      (''remaining'', objN
        [(''count'', exactlyN 6 a [''remaining'', ''count''] ''rc''),
         (''allSignersTester'', fld asBoolT a [''remaining'', ''allSignersTester''] ''ast''),
         (''deployerExpectedNonce'', exactlyN 16 s [''expectedNonces'', ''deployer''] ''rdn''),
         (''testerExpectedNonce'', exactlyN 2 s [''expectedNonces'', ''tester''] ''rtn'')]),
      (''block'', objN
        [(''number'', blockField asNum s a ''number'' ''forkBlock'' ''b.n''),
         (''hash'', blockHashN s a ''b.h''),
         (''timestamp'', blockField asNum s a ''timestamp'' ''forkTimestamp'' ''b.t''),
         (''baseFeePerGasWei'', blockField asNum s a ''baseFeePerGasWei'' ''forkBaseFeePerGasWei'' ''b.bf''),
         (''chainId'', fld asI a [''meta'', ''chainId''] ''b.c'')]),
      (''snapshotBalances'', balancesN asNum s)]"

definition positionN :: "Json \<Rightarrow> Json \<Rightarrow> (string \<times> Json noted) list" where
  "positionN a s =
     [(''positionTokenId'',
         bindN (fld asNum a [''positionTokenId''] ''ptid'') (\<lambda>x.
         bindN (fld (\<lambda>y w. asNum (JStr (jsString y)) w) s [''positionTokenId''] ''ptid2'') (\<lambda>y.
         if x = y then fld asNum a [''positionTokenId''] ''ptid'' else noteN ''positionTokenId'' (JStr ''0'')))),
      (''positionLiquidity'', fld (\<lambda>y w. asNum (JStr (jsString y)) w) s [''positionLiquidity''] ''pliq'')]"

definition recoveryInfrastructureN :: "(string \<Rightarrow> exn + string) \<Rightarrow> Json \<Rightarrow> Json noted" where
  "recoveryInfrastructureN ga p =
     objN (map (\<lambda>(k, w). (k, fld (asA ga) p [''infrastructure'', k] w))
       [(''weth'', ''weth''), (''uniswapV3Factory'', ''fac''), (''nonfungiblePositionManager'', ''npm''),
        (''swapRouter02'', ''swap''), (''rialtoRegistry'', ''reg''), (''nvdaStockToken'', ''nvda'')])"

definition recoveryLpN :: "(string \<Rightarrow> exn + string) \<Rightarrow> (string \<Rightarrow> Json) \<Rightarrow> Json \<Rightarrow> Json \<Rightarrow> Json noted" where
  "recoveryLpN ga numText a p = (let lu = (\<lambda>f k w. fld f a [''lpUsage'', k] w) in objN
     [(''feeTier'', fld (\<lambda>x w. asI (jsNumber numText x) w) p [''economics'', ''feeTier''] ''lp.fee''),
      (''tickSpacing'', fld (\<lambda>x w. asI (jsNumber numText x) w) p [''economics'', ''tickSpacing''] ''lp.ts''),
      (''sqrtPriceX96'', lu asNum ''sqrtPriceX96'' ''lp.sq''),
      (''tick'', lu asSI ''poolTickAfter'' ''lp.tick''),
      (''tickLower'', lu asSI ''tickLower'' ''lp.tl''),
      (''tickUpper'', lu asSI ''tickUpper'' ''lp.tu''),
      (''amount0Used'', lu asNum ''amount0Used'' ''lp.a0''),
      (''amount1Used'', lu asNum ''amount1Used'' ''lp.a1''),
      (''amount0Min'', lu asNum ''amount0Min'' ''lp.a0m''),
      (''amount1Min'', lu asNum ''amount1Min'' ''lp.a1m''),
      (''poolLiquidityAfter'', lu asNum ''poolLiquidityAfter'' ''lp.liq''),
      (''token0'', lu (asA ga) ''token0'' ''lp.t0''),
      (''token1'', lu (asA ga) ''token1'' ''lp.t1''),
      (''positionOwner'', lu (asA ga) ''positionOwner'' ''lp.owner''),
      (''positionFee'', lu asI ''positionFee'' ''lp.pf'')])"

definition recoveryBuyN :: "(string \<Rightarrow> exn + string) \<Rightarrow> Json \<Rightarrow> Json noted" where
  "recoveryBuyN ga a = (let bu = (\<lambda>f k w. fld f a [''buyAccounting'', k] w) in objN
     [(''tradeId'', bu asNum ''tradeId'' ''b.id''),
      (''trader'', bu (asA ga) ''trader'' ''b.tr''),
      (''recipient'', bu (asA ga) ''recipient'' ''b.rc''),
      (''adapter'', bu (asA ga) ''adapter'' ''b.ad''),
      (''stockBudgetRecipient'', bu (asA ga) ''stockBudgetRecipient'' ''b.sbr''),
      (''grossWethInput'', bu asNum ''grossWethInput'' ''b.g''),
      (''stockBudget'', bu asNum ''stockBudget2pct'' ''b.s''),
      (''burnBudget'', bu asNum ''burnBudget1pct'' ''b.bn''),
      (''userWethBudget'', bu asNum ''userWethBudget97pct'' ''b.u''),
      (''userBpsOutput'', bu asNum ''userBpsOutput'' ''b.ub''),
      (''bpsBurned'', bu asNum ''bpsBurned'' ''b.bb''),
      (''minimumUserBpsOutput'', bu asNum ''minimumUserBpsOutput'' ''b.min'')])"

definition recoverySellN :: "(string \<Rightarrow> exn + string) \<Rightarrow> Json \<Rightarrow> Json noted" where
  "recoverySellN ga a = (let se = (\<lambda>f k w. fld f a [''sellAccounting'', k] w) in objN
     [(''tradeId'', se asNum ''tradeId'' ''s.id''),
      (''trader'', se (asA ga) ''trader'' ''s.tr''),
      (''recipient'', se (asA ga) ''recipient'' ''s.rc''),
      (''adapter'', se (asA ga) ''adapter'' ''s.ad''),
      (''stockBudgetRecipient'', se (asA ga) ''stockBudgetRecipient'' ''s.sbr''),
      (''grossBpsInput'', se asNum ''grossBpsInput'' ''s.g''),
      (''grossWethOutput'', se asNum ''grossWethOutput'' ''s.gwo''),
      (''stockBudget'', se asNum ''stockAcquisition2pct'' ''s.s''),
      (''burnBudget'', se asNum ''retirementBurn2pct'' ''s.bn''),
      (''userWethOutput'', se asNum ''userWethOutput96pct'' ''s.u''),
      (''bpsBurned'', se asNum ''bpsBurned'' ''s.bb''),
      (''minimumGrossWethOutput'', se asNum ''minimumGrossWethOutput'' ''s.mg''),
      (''minimumUserWethOutput'', se asNum ''minimumUserWethOutput'' ''s.mu'')])"

definition recoveryLockN :: "(string \<Rightarrow> exn + string) \<Rightarrow> Json \<Rightarrow> Json noted" where
  "recoveryLockN ga a = (let lk = (\<lambda>f k w. fld f a [''lockAndWithdraw'', k] w) in objN
     [(''account'', lk (asA ga) ''account'' ''l.ac''),
      (''lockId'', lk asNum ''lockId'' ''l.id''),
      (''principal'', lk asNum ''principal'' ''l.p''),
      (''startTime'', lk asNum ''startTime'' ''l.st''),
      (''duration'', lk asI ''duration'' ''l.d''),
      (''unlockTime'', lk asNum ''unlockTime'' ''l.ut''),
      (''multiplierBps'', lk asI ''multiplierBps'' ''l.m''),
      (''policyVersion'', lk asI ''policyVersion'' ''l.pv'')])"

definition recoveryTransactionsN :: "(string \<Rightarrow> exn + string) \<Rightarrow> Json \<Rightarrow> Json \<Rightarrow> Json noted" where
  "recoveryTransactionsN ga tester a = objN
     [(''count'', exactlyN 6 a [''immediateTransactions'', ''length''] ''txc''),
      (''immediate'',
         bindN (liftN (rbind (path [''immediateTransactions''] a) arrayOf)) (\<lambda>ts.
         bindN (traverseN (sigStep ga tester) ts) (\<lambda>vs. okN (JArr vs)))),
      (''delayed'', objN [(''disabled'', asBoolT (JBool True) ''del'')])]"

definition recoveryObject :: "(string \<Rightarrow> exn + string) \<Rightarrow> (string \<Rightarrow> Json) \<Rightarrow> (string \<Rightarrow> int option) \<Rightarrow> Json \<Rightarrow> Json \<Rightarrow> Json
    \<Rightarrow> Json noted" where
  "recoveryObject ga numText dp a p s =
     bindN (fld (asA ga) p [''wallets'', ''tester''] ''tester0'') (\<lambda>tester.
     bindN (anchorsN ga a p) (\<lambda>anchors.
     bindN (traverseN (completedN ga s) ALL_SLOTS) (\<lambda>contracts.
     bindN (traverseN (recoveryDependencyN ga s) DEP_NAMES) (\<lambda>dependencies.
     bindN (refreshN numText dp a s) (\<lambda>refresh.
     bindN (fld asNum a [''capArithmetic'', ''realizedGasWei''] ''exp.rg'') (\<lambda>realized.
     bindN (fld asNum a [''capArithmetic'', ''remainingPrincipalWei''] ''exp.principal'') (\<lambda>principal.
     bindN (fld asNum a [''capArithmetic'', ''remainingMaxGasWei''] ''exp.maxgas'') (\<lambda>maxGas.
     bindN (fld asNum a [''capArithmetic'', ''aggregateWei''] ''exp.agg'') (\<lambda>agg.
     bindN (checkN (bigOf realized + bigOf principal + bigOf maxGas = bigOf agg)
        ''recovery exposure identity: realized+principal+maxgas != aggregate'') (\<lambda>_.
     objN (recoveryIdentityN ga numText tester a p @
       [(''gasPolicy'', gasPolicyN a), (''deadlineRefresh'', deadlineN refresh)] @
       planN a s anchors @
       [(''completedContracts'', okN (JObj (concat contracts)))] @ positionN a s @
       [(''infrastructure'', recoveryInfrastructureN ga p),
        (''dependencies'', okN (JObj (concat dependencies))),
        (''pool'', fld (asA ga) a [''addressGuards'', ''poolAddress''] ''pool''),
        (''canaryTokenSymbol'', asStrIs ''BPSC-TEST'' (JStr ''BPSC-TEST'') ''sym''),
        (''lp'', recoveryLpN ga numText a p), (''buy'', recoveryBuyN ga a), (''sell'', recoverySellN ga a),
        (''lock'', recoveryLockN ga a),
        (''transactions'', recoveryTransactionsN ga tester a),
        (''exposure'', objN
          [(''realizedGasWei'', okN realized), (''remainingPrincipalWei'', okN principal),
           (''remainingMaxGasWei'', okN maxGas), (''aggregateWei'', okN agg),
           (''aggregateMicroUsd'', fld asNum a [''capArithmetic'', ''aggregateMicroUsd''] ''exp.micro'')]),
        (''provenance'', objN
          [(''repoHead'', fld asStr a [''provenance'', ''repoHead''] ''ph''),
           (''dirtyTrackedTree'', fld (\<lambda>x w. ensureN (x = JBool False) w (JBool False) (JBool True)) a
              [''provenance'', ''dirtyTrackedTree''] ''dirty'')]),
        (''digests'', objN
          [(''remainingExecutionDigest'', fld asHash a [''meta'', ''remainingExecutionDigest''] ''red'')]),
        (''delayedWithdrawalDisabled'', asBoolT (JBool True) ''dwd'')])))))))))))"

text \<open>\<open>buildRecoveryCanonical\<close>: the errors, and the object unless something was missing.\<close>

definition buildRecoveryCanonical :: "(string \<Rightarrow> exn + string) \<Rightarrow> (string \<Rightarrow> Json) \<Rightarrow> (string \<Rightarrow> int option)
    \<Rightarrow> Json \<Rightarrow> Json \<Rightarrow> Json \<Rightarrow> exn + string list \<times> Json option" where
  "buildRecoveryCanonical ga numText dp a p s =
     (if recoveryMissing a p s \<noteq> [] then Inr (recoveryMissing a p s, None)
      else rbind (recoveryObject ga numText dp a p s) (\<lambda>(errors, v). Inr (errors, Some v)))"

section \<open>The packaged copy\<close>

definition RECOVERY_TOP_KEYS :: "string list" where
  "RECOVERY_TOP_KEYS = [''schema'', ''version'', ''canary'', ''production'', ''chainId'', ''scope'', ''flags'',
     ''executable'', ''maxAllInclusiveExposureUsd'', ''generatedAtUtc'', ''expiresAtUtc'', ''validityWindowSeconds'',
     ''wallets'', ''v5'', ''v6'', ''v7'', ''v8'', ''gasPolicy'', ''deadlineRefresh'', ''accountPolicy'', ''originalPlan'',
     ''completedSteps'', ''remaining'', ''block'', ''snapshotBalances'', ''completedContracts'', ''positionTokenId'',
     ''positionLiquidity'', ''infrastructure'', ''dependencies'', ''pool'', ''canaryTokenSymbol'', ''lp'', ''buy'',
     ''sell'', ''lock'', ''transactions'', ''exposure'', ''provenance'', ''digests'', ''delayedWithdrawalDisabled'']"

definition chkAnchor :: "nat \<times> Json \<Rightarrow> unit noted" where
  "chkAnchor = (\<lambda>(i, x).
     bindN (liftN (getProp ''originalIndex'' x)) (\<lambda>oi. seqN
       [checkN (oi = JNum (int i + 1)) (''anchor seq @ '' @ dec_of_int (int i)),
        bindN (liftN (getProp ''txHash'' x)) (\<lambda>h. chkHash h ''anc.hash''),
        bindN (liftN (getProp ''actualGasCostWei'' x)) (\<lambda>c. chkDec c ''anc.cost''),
        bindN (liftN (getProp ''nonce'' x)) (\<lambda>n.
          checkN (strictEq n (plusNumber oi 2)) (''anchor nonce @ '' @ jsString oi))]))"

definition chkAnchors :: "Json \<Rightarrow> unit noted" where
  "chkAnchors v = (case v of
     JArr xs \<Rightarrow> thenN (checkN (length xs = 13) ''completedSteps != 13'') (allN chkAnchor (enumerate 0 xs))
   | _ \<Rightarrow> noteN ''completedSteps missing'' ())"

definition chkContracts :: "(string \<Rightarrow> exn + string) \<Rightarrow> Json \<Rightarrow> unit noted" where
  "chkContracts ga v =
     bindN (liftN (objectEntries v)) (\<lambda>kvs.
     thenN (checkN (length kvs = 8) ''completedContracts != 8'')
       (allN (\<lambda>(k, d). seqN
          [bindN (liftN (getProp ''address'' d)) (\<lambda>x. chkAddr ga x (''cc.'' @ k)),
           bindN (liftN (getProp ''runtimeCodeHash'' d)) (\<lambda>x. chkHash x (''cch.'' @ k))]) kvs))"

text \<open>All anchors signed by the deployer, looked at until one is not.\<close>

definition chkAnchorSigners :: "Json \<Rightarrow> Json \<Rightarrow> unit noted" where
  "chkAnchorSigners anchors wallets = (case anchors of
     JArr xs \<Rightarrow>
       if \<not> truthy wallets then okN ()
       else bindN (liftN (getProp ''deployer'' wallets)) (\<lambda>d.
            bindN (liftN (allE (map (\<lambda>x. rbind (getProp ''signer'' x) (\<lambda>s. Inr (strictEq s d))) xs))) (\<lambda>ok.
            checkN ok ''completed anchors not all deployer''))
   | _ \<Rightarrow> okN ())"

definition chkRefreshStep :: "(string \<Rightarrow> Json) \<Rightarrow> Json \<Rightarrow> Json \<Rightarrow> Json \<Rightarrow> unit noted" where
  "chkRefreshStep numText txs newDl x =
     bindN (liftN (getProp ''originalIndex'' x)) (\<lambda>oi.
     bindN (liftN (getProp ''immediate'' txs)) (\<lambda>im.
     bindN (liftN (rbind (arrayOf (if truthy im then im else JArr [])) (findStep oi))) (\<lambda>tx.
     case tx of
       None \<Rightarrow> noteN (''dr tx '' @ jsString oi) ()
     | Some t \<Rightarrow>
         bindN (liftN (rbind (getProp ''data'' t) (\<lambda>d.
            rbind (getProp ''wordOffsetBytes'' x) (\<lambda>off. wordAt d (jsNumber numText off))))) (\<lambda>word. seqN
           [checkN (JStr (dec_of_int word) = newDl) (''dr word @ '' @ jsString oi),
            bindN (liftN (getProp ''oldDataKeccak'' x)) (\<lambda>h. chkHash h ''dr.okk''),
            bindN (liftN (getProp ''newDataKeccak'' x)) (\<lambda>h. chkHash h ''dr.nkk'')]))))"

definition chkRefresh :: "(string \<Rightarrow> Json) \<Rightarrow> (string \<Rightarrow> int option) \<Rightarrow> Json \<Rightarrow> Json \<Rightarrow> unit noted" where
  "chkRefresh numText dp loaded dr =
     bindN (liftN (getProp ''oldDeadline'' dr)) (\<lambda>oldDl.
     bindN (liftN (getProp ''newDeadline'' dr)) (\<lambda>newDl.
     bindN (liftN (getProp ''expiresAtUtc'' loaded)) (\<lambda>expires.
     bindN (liftN (getProp ''steps'' dr)) (\<lambda>drSteps.
     bindN (liftN (getProp ''transactions'' loaded)) (\<lambda>txs. seqN
       [checkN (oldDl = JStr ''1784949999'') ''dr.old'',
        checkN (strictEq (jsNumber numText newDl) (epochOf dp expires)) ''dr.new != expiry'',
        (case drSteps of
           JArr xs \<Rightarrow> bindN (liftN (rmap (getProp ''originalIndex'') xs)) (\<lambda>idxs.
             checkN (jsString (JArr idxs) = ''15,17'') ''dr.steps'')
         | _ \<Rightarrow> noteN ''dr.steps'' ()),
        (case drSteps of
           JArr xs \<Rightarrow> if truthy txs then allN (chkRefreshStep numText txs newDl) xs else okN ()
         | _ \<Rightarrow> okN ())])))))"

definition chkCeilings :: "Json \<Rightarrow> Json \<Rightarrow> unit noted" where
  "chkCeilings t oi =
     bindN (liftN (getProp ''gasCeilings'' t)) (\<lambda>g.
     let num = (\<lambda>v k. bindN (liftN (getProp k v)) (\<lambda>x. liftN (bigIntJ x)));
         say = (\<lambda>w. w @ jsString oi) in seqN
     [chkProps chkDec g ''gc.'' [''gasLimitCeiling'', ''maxFeeCeilingWei'', ''maxPriorityCeilingWei'',
        ''reviewedMaxGasCostWei'', ''maxGasCostCeilingWei''],
      bindN (num g ''reviewedMaxGasCostWei'') (\<lambda>r. bindN (num t ''gasLimit'') (\<lambda>l. bindN (num t ''maxFeePerGas'') (\<lambda>f.
        checkN (r = l * f) (say ''gc.reviewed identity @ '')))),
      bindN (num g ''maxGasCostCeilingWei'') (\<lambda>c. bindN (num g ''reviewedMaxGasCostWei'') (\<lambda>r.
        checkN (c * 4 = r * 5) (say ''gc.1.25x identity @ ''))),
      bindN (liftN (getProp ''maxFeeCeilingWei'' g)) (\<lambda>x. bindN (liftN (getProp ''maxFeePerGas'' t)) (\<lambda>y.
        checkN (strictEq x y) (say ''gc.maxFee unchanged @ ''))),
      bindN (liftN (getProp ''maxPriorityCeilingWei'' g)) (\<lambda>x.
        checkN (x = JStr PRIORITY_CEILING_WEI) (say ''gc.priority @ '')),
      bindN (num g ''gasLimitCeiling'') (\<lambda>c. bindN (num t ''gasLimit'') (\<lambda>l.
        checkN (c = l * 2) (say ''gc.gasLimit 2x @ '')))])"

definition chkRecoveryTransaction :: "(string \<Rightarrow> exn + string) \<Rightarrow> Json \<Rightarrow> unit noted" where
  "chkRecoveryTransaction ga t =
     thenN (chkTransaction ga t) (bindN (liftN (getProp ''originalIndex'' t)) (chkCeilings t))"

text \<open>\<open>v <= 13\<close>.\<close>

definition atMost13 :: "(string \<Rightarrow> Json) \<Rightarrow> Json \<Rightarrow> bool" where
  "atMost13 numText v = (case jsNumber numText v of JNum i \<Rightarrow> i \<le> 13 | _ \<Rightarrow> False)"

definition chkSigners :: "Json \<Rightarrow> Json list \<Rightarrow> unit noted" where
  "chkSigners wallets im = (if \<not> truthy wallets then okN () else
     allN (\<lambda>t. bindN (liftN (getProp ''signer'' t)) (\<lambda>s. bindN (liftN (getProp ''tester'' wallets)) (\<lambda>w.
       if strictEq s w then okN ()
       else bindN (liftN (getProp ''originalIndex'' t)) (\<lambda>oi. noteN (''non-tester signable @ '' @ jsString oi) ())))) im)"

definition chkRecoveryTransactions :: "(string \<Rightarrow> exn + string) \<Rightarrow> (string \<Rightarrow> Json) \<Rightarrow> Json \<Rightarrow> Json \<Rightarrow> unit noted" where
  "chkRecoveryTransactions ga numText wallets v =
     bindN (liftN (getProp ''immediate'' v)) (\<lambda>x.
     bindN (liftN (arrayOf (if truthy x then x else JArr []))) (\<lambda>im.
     bindN (liftN (getProp ''count'' v)) (\<lambda>n.
     thenN (checkN (n = JNum 6 \<and> length im = 6) ''tx count'')
     (bindN (liftN (rmap (getProp ''originalIndex'') im)) (\<lambda>ois.
      thenN (checkN (list_all (\<lambda>(i, v). v = JNum (int i + 14)) (enumerate 0 ois)) ''original indices not 14..19'')
     (bindN (liftN (rmap (getProp ''nonce'') im)) (\<lambda>nonces. seqN
       [checkN (list_all (\<lambda>(i, v). v = JNum (int i + 2)) (enumerate 0 nonces)) ''tester nonces not 2..7'',
        chkSigners wallets im,
        checkN (\<not> list_ex (atMost13 numText) ois) ''completed step present in signables'',
        allN (chkRecoveryTransaction ga) im])))))))"

definition chkRecovery :: "(string \<times> Json) list \<Rightarrow> (string \<Rightarrow> exn + string) \<Rightarrow> (string \<Rightarrow> Json) \<Rightarrow> (string \<Rightarrow> int option)
    \<Rightarrow> Json \<Rightarrow> unit noted list" where
  "chkRecovery entries ga numText dp loaded =
     (let top = (\<lambda>k f. bindN (liftN (getProp k loaded)) f) in
     [allN (\<lambda>(k, _). checkN (k \<in> set RECOVERY_TOP_KEYS) (''unknown key '' @ k)) entries,
      allN (\<lambda>k. checkN (k \<in> fst ` set entries) (''missing key '' @ k)) RECOVERY_TOP_KEYS,
      top ''schema'' (\<lambda>x. checkN (x = JStr RECOVERY_SCHEMA) ''schema''),
      top ''version'' (\<lambda>x. checkN (x = JStr RECOVERY_VERSION) ''version''),
      top ''chainId'' (\<lambda>x. checkN (x = JNum 4663) ''chainId''),
      top ''maxAllInclusiveExposureUsd'' (\<lambda>x. checkN (x = JNum 130) ''cap''),
      top ''wallets'' (\<lambda>x. if truthy x then chkProps (chkAddr ga) x ''wallets.'' [''deployer'', ''tester'']
        else allN (\<lambda>k. chkAddr ga x (''wallets.'' @ k)) [''deployer'', ''tester'']),
      top ''infrastructure'' (\<lambda>x. whenN x (\<lambda>v. forEntries v (\<lambda>k y. chkAddr ga y (''infra.'' @ k)))),
      top ''pool'' (\<lambda>x. chkAddr ga x ''pool''),
      top ''completedSteps'' chkAnchors,
      top ''completedContracts'' (\<lambda>x. whenN x (chkContracts ga)),
      top ''originalPlan'' (\<lambda>x. whenN x (\<lambda>v. bindN (liftN (getProp ''deployerStepRange'' v)) (\<lambda>y.
        checkN (y = JStr ''1-13'') ''deployerStepRange != 1-13''))),
      top ''completedSteps'' (\<lambda>x. top ''wallets'' (chkAnchorSigners x)),
      top ''exposure'' (\<lambda>x. whenN x (\<lambda>v. chkProps chkDec v ''exposure.''
        [''realizedGasWei'', ''remainingPrincipalWei'', ''remainingMaxGasWei'', ''aggregateWei'', ''aggregateMicroUsd''])),
      top ''gasPolicy'' (\<lambda>x. whenN x (\<lambda>v. bindN (liftN (getProp ''maxPriorityCeilingWei'' v)) (\<lambda>y.
        checkN (y = JStr PRIORITY_CEILING_WEI) ''gasPolicy.priority''))),
      top ''deadlineRefresh'' (\<lambda>x. whenN x (chkRefresh numText dp loaded)),
      top ''transactions'' (\<lambda>x. whenN x (\<lambda>v. top ''wallets'' (\<lambda>w. chkRecoveryTransactions ga numText w v)))])"

definition validateRecoveryStrict :: "(string \<Rightarrow> exn + string) \<Rightarrow> (string \<Rightarrow> Json) \<Rightarrow> (string \<Rightarrow> int option) \<Rightarrow> Json
    \<Rightarrow> exn + string list" where
  "validateRecoveryStrict ga numText dp loaded =
     (if \<not> isObjectValue loaded then Inr [''not an object'']
      else rbind (objectEntries loaded) (\<lambda>entries.
           rbind (seqN (chkRecovery entries ga numText dp loaded)) (\<lambda>(errors, _). Inr errors)))"

end
