(* ===== verification/Recovery.thy ===== *)
theory Recovery
  imports OperatorBind RecoveryAuth
begin

text \<open>
  \<open>canary-packet/exec/operator/recovery-core.mjs\<close>: the operator of the recovery packet, a subclass of the
  canary operator. It binds the recovery authorization, connects with the tester's account only, verifies
  the thirteen anchors before it reconciles, and adds an account gate that does not halt and the deadline
  gates to the base gates. The inputs are those of \<open>OperatorBind\<close>: \<open>bi_package\<close> is the recovery
  authorization. \<open>Date.parse\<close> is the one of the environment.
\<close>

section \<open>The checks of the recovery packet\<close>

definition V5_ZIP_SHA :: string where
  "V5_ZIP_SHA = ''5a6246ca51bd3237e6d925153439d9040b1c3674c0e026e9d8f187e7a5e64b3b''"

definition V6_ZIP_SHA :: string where
  "V6_ZIP_SHA = ''fd57f5c1bcc4d296250bfb04cab096a4f56299b0deb2edefbf4824f9414fb356''"

definition V6_RAD :: string where
  "V6_RAD = ''0xdca841943bc32b76df5a04310d30b70a4a9244dcc4d9445d8d42500fe01ecf57''"

definition V7_ZIP_SHA :: string where
  "V7_ZIP_SHA = ''b8dd4e6d5b141d74092791798780a1f3fc59ae21d8f3a59727e1e169a1e06253''"

definition V7_RAD :: string where
  "V7_RAD = ''0xf12f37c6b8a311efbcd706bf1850c10d02aff5e30570a9d2afe6a3712604dfea''"

definition V5_RAD_EXACT :: string where
  "V5_RAD_EXACT = ''0x4fdfd36b99d6090fef67f21bd3b2027e8dc7e339861ae94eb0f292da2b6ee248''"

definition V8_ZIP_SHA :: string where
  "V8_ZIP_SHA = ''6c92a429affc2bee83290e01129b052f0af1dc9d3481112fe147f5b8367b8aa9''"

definition V8_RAD :: string where
  "V8_RAD = ''0x5f92fd120f5a09f4e8feeab811ae2e278ba20f299c8386f32ee121e5fc896662''"

text \<open>\<open>eq\<close> of a text and a property, and an existence that stops at the first hit.\<close>

definition eqAt :: "Json \<Rightarrow> Json \<Rightarrow> string list \<Rightarrow> exn + bool" where
  "eqAt x v ks = holdsAt (eqText x) v ks"

fun someE :: "(exn + bool) list \<Rightarrow> exn + bool" where
  "someE [] = Inr False"
| "someE (x # xs) = rbind x (\<lambda>b. if b then Inr True else someE xs)"

text \<open>What \<open>for (const x of v)\<close> visits.\<close>

fun iterOf :: "Json \<Rightarrow> exn + Json list" where
  "iterOf (JArr vs) = Inr vs"
| "iterOf (JStr s) = Inr (map (\<lambda>c. JStr [c]) s)"
| "iterOf v = Inl (jsError ''is not iterable'')"

definition everyAt :: "(nat \<Rightarrow> Json \<Rightarrow> exn + bool) \<Rightarrow> Json list \<Rightarrow> exn + bool" where
  "everyAt f xs = allE (map (\<lambda>(i, x). f i x) (enumerate 0 xs))"

definition packageSignable :: "(string \<Rightarrow> exn + string) \<Rightarrow> Json \<Rightarrow> exn + Json" where
  "packageSignable ga t =
     rbind (getProp ''originalIndex'' t) (\<lambda>oi.
     rbind (readA ga t ''signer'') (\<lambda>signer.
     rbind (getProp ''nonce'' t) (\<lambda>nonce.
     rbind (rbind (getProp ''to'' t) (\<lambda>x. if truthy x then rbind (addressOf ga x) (\<lambda>a. Inr (JStr a)) else Inr JNull)) (\<lambda>to.
     rbind (rmap (\<lambda>k. getProp k t) [''value'', ''data'', ''gasLimit'', ''maxFeePerGas'', ''maxPriorityFeePerGas'']) (\<lambda>xs.
     Inr (JObj ([(''originalIndex'', oi), (''chainId'', JNum 4663), (''signer'', JStr signer), (''nonce'', nonce),
       (''type'', JNum 2), (''to'', to)]
       @ zip [''value'', ''data'', ''gasLimit'', ''maxFeePerGas'', ''maxPriorityFeePerGas''] xs)))))))"

text \<open>The digest of what is left to execute, from the package.\<close>

definition remainingDigest :: "'w Env \<Rightarrow> Json \<Rightarrow> exn + Json" where
  "remainingDigest env pkg =
     (if \<not> truthy pkg then Inr JNull
      else rbind (rbind (path [''transactions'', ''immediate''] pkg) arrayOf) (\<lambda>ts.
           rbind (rmap (packageSignable (en_getAddress env)) ts) (\<lambda>signed.
           Inr (JStr (en_keccak256 env (utf8ToHex (stableText (JArr signed))))))))"

definition priorAnchorsBound :: "Json \<Rightarrow> exn + bool" where
  "priorAnchorsBound pkg = allE (concat (map (\<lambda>(v, zip, k, rad).
     [holdsAt (\<lambda>x. x = JStr zip) pkg [v, ''zipSha256''], eqAt (JStr rad) pkg [v, k]])
     [(''v5'', V5_ZIP_SHA, ''reviewedAuthorizationDigest'', V5_RAD_EXACT),
      (''v6'', V6_ZIP_SHA, ''recoveryAuthorizationDigest'', V6_RAD),
      (''v7'', V7_ZIP_SHA, ''recoveryAuthorizationDigest'', V7_RAD),
      (''v8'', V8_ZIP_SHA, ''recoveryAuthorizationDigest'', V8_RAD)]))"

text \<open>A condition on all thirteen completed steps.\<close>

definition thirteen :: "(nat \<Rightarrow> Json \<Rightarrow> exn + bool) \<Rightarrow> Json \<Rightarrow> exn + bool" where
  "thirteen f pkg =
     rbind (getProp ''completedSteps'' pkg) (\<lambda>v. case v of
       JArr xs \<Rightarrow> if length xs = 13 then everyAt f xs else Inr False | _ \<Rightarrow> Inr False)"

definition deployerAnchor :: "(string \<Rightarrow> exn + string) \<Rightarrow> Json \<Rightarrow> nat \<Rightarrow> Json \<Rightarrow> exn + bool" where
  "deployerAnchor ga pkg i x = allE
     [holdsAt (\<lambda>v. v = JNum (int i + 1)) x [''originalIndex''],
      sameAddressAt ga x [''signer''] pkg [''wallets'', ''deployer'']]"

definition nonceAnchor :: "nat \<Rightarrow> Json \<Rightarrow> exn + bool" where
  "nonceAnchor i x = allE
     [holdsAt (\<lambda>v. v = JNum (int i + 1)) x [''originalIndex''],
      rbind (getProp ''originalIndex'' x) (\<lambda>oi. holdsAt (\<lambda>v. strictEq v (plusNumber oi 2)) x [''nonce''])]"

definition testerStep :: "(string \<Rightarrow> exn + string) \<Rightarrow> Json \<Rightarrow> nat \<Rightarrow> Json \<Rightarrow> exn + bool" where
  "testerStep ga pkg i t = allE
     [holdsAt (\<lambda>v. v = JNum (int i + 14)) t [''originalIndex''], holdsAt (\<lambda>v. v = JNum (int i + 2)) t [''nonce''],
      sameAddressAt ga t [''signer''] pkg [''wallets'', ''tester'']]"

definition deployerStep :: "(string \<Rightarrow> exn + string) \<Rightarrow> (string \<Rightarrow> Json) \<Rightarrow> Json \<Rightarrow> Json \<Rightarrow> exn + bool" where
  "deployerStep ga numText pkg t = someE
     [holdsAt (atMost13 numText) t [''originalIndex''], sameAddressAt ga t [''signer''] pkg [''wallets'', ''deployer'']]"

definition sixTesterSignables :: "(string \<Rightarrow> exn + string) \<Rightarrow> (string \<Rightarrow> Json) \<Rightarrow> Json \<Rightarrow> exn + bool" where
  "sixTesterSignables ga numText pkg =
     rbind (path [''transactions'', ''count''] pkg) (\<lambda>n.
     rbind (rbind (path [''transactions'', ''immediate''] pkg) arrayOf) (\<lambda>ts.
     if n \<noteq> JNum 6 \<or> length ts \<noteq> 6 then Inr False
     else rbind (everyAt (testerStep ga pkg) ts) (\<lambda>b.
       if \<not> b then Inr False
       else rbind (someE (map (deployerStep ga numText pkg) ts)) (\<lambda>d. Inr (\<not> d)))))"

text \<open>The call data of a refreshed step carries the new deadline.\<close>

definition refreshedStep :: "'w Env \<Rightarrow> (string \<Rightarrow> Json) \<Rightarrow> Json \<Rightarrow> Json \<Rightarrow> Json \<Rightarrow> exn + bool" where
  "refreshedStep env numText pkg newDl x =
     rbind (rbind (path [''transactions'', ''immediate''] pkg) arrayOf) (\<lambda>ts.
     rbind (if ts = [] then Inr None else rbind (getProp ''originalIndex'' x) (\<lambda>i. findStep i ts)) (\<lambda>tx.
     case tx of
       None \<Rightarrow> Inr False
     | Some t \<Rightarrow>
         rbind (readS t ''data'') (\<lambda>data.
         rbind (readS x ''newDataKeccak'') (\<lambda>h.
         if lower (en_keccak256 env data) \<noteq> lower h then Inr False
         else rbind (getProp ''wordOffsetBytes'' x) (\<lambda>off.
              rbind (wordAt (JStr data) (jsNumber numText off)) (\<lambda>word.
              Inr (JStr (dec_of_int word) = newDl)))))))"

definition deadlineRefreshBound :: "'w Env \<Rightarrow> (string \<Rightarrow> Json) \<Rightarrow> Json \<Rightarrow> exn + bool" where
  "deadlineRefreshBound env numText pkg =
     rbind (getProp ''deadlineRefresh'' pkg) (\<lambda>dr.
     if \<not> truthy dr then Inr False
     else rbind (getProp ''steps'' dr) (\<lambda>xs.
       if xs = JNull \<or> xs = JUndefined then Inl (jsError ''Cannot read properties of undefined'')
       else if \<not> lengthIs 2 xs then Inr False
       else rbind (getProp ''oldDeadline'' dr) (\<lambda>oldDl.
            rbind (getProp ''newDeadline'' dr) (\<lambda>newDl.
            rbind (getProp ''expiresAtUtc'' pkg) (\<lambda>expires.
            if oldDl \<noteq> JStr ''1784949999'' then Inr False
            else if \<not> strictEq (jsNumber numText newDl) (epochOf (en_dateParse env) expires) then Inr False
            else rbind (iterOf xs) (\<lambda>ys. allE (map (refreshedStep env numText pkg newDl) ys)))))))"

text \<open>The checks that look into the package, in order; \<open>recomputed\<close> is the digest of what is left.\<close>

definition packageChecks :: "'w Env \<Rightarrow> (string \<Rightarrow> Json) \<Rightarrow> Json \<Rightarrow> Json \<Rightarrow> Json \<Rightarrow> (string \<times> (exn + bool)) list" where
  "packageChecks env numText a pkg recomputed =
     (let ga = en_getAddress env; is = (\<lambda>v ks. holdsAt (\<lambda>x. x = v) pkg ks) in
     [(''remainingExecDigestMatches'', allE
        [eqAt recomputed a [''meta'', ''remainingExecutionDigest''],
         eqAt recomputed pkg [''digests'', ''remainingExecutionDigest'']]),
      (''priorAnchorsBound'', priorAnchorsBound pkg),
      (''originalPlanBound'', allE
        [is (JNum 19) [''originalPlan'', ''stepCount''], is (JStr ''1-13'') [''originalPlan'', ''deployerStepRange'']]),
      (''completedDeployerRange1to13'', thirteen (deployerAnchor ga pkg) pkg),
      (''thirteenAnchors'', thirteen nonceAnchor pkg),
      (''sixTesterSignables'', sixTesterSignables ga numText pkg),
      (''nonceExpectations'', allE
        [is (JNum 16) [''remaining'', ''deployerExpectedNonce''], is (JNum 2) [''remaining'', ''testerExpectedNonce'']]),
      (''gasPolicyBound'', allE
        [is (JStr PRIORITY_CEILING_WEI) [''gasPolicy'', ''maxPriorityCeilingWei''],
         is (JBool True) [''gasPolicy'', ''maxFeeCeilingUnchanged''],
         is (JBool True) [''gasPolicy'', ''gasLimitCeilingUnchanged'']]),
      (''deadlineRefreshBound'', deadlineRefreshBound env numText pkg),
      (''eightCompletedContracts'',
         rbind (rbind (getProp ''completedContracts'' pkg) objectEntries) (\<lambda>kvs. Inr (length kvs = 8))),
      (''chainId4663'', is (JNum 4663) [''chainId'']),
      (''capIs130'', is (JNum 130) [''maxAllInclusiveExposureUsd''])])"

definition recoveryChecks :: "'w Env \<Rightarrow> (string \<Rightarrow> Json) \<Rightarrow> BindInputs \<Rightarrow> exn + (string \<times> bool) list" where
  "recoveryChecks env numText bi =
     (let ga = en_getAddress env; kec = en_keccak256 env; dp = en_dateParse env; a = bi_packet bi; pkg = bi_package bi in
     rbind (buildRecoveryCanonical ga numText dp a (bi_policy bi) (bi_snapshot bi)) (\<lambda>(errors, recon).
     rbind (if truthy pkg then validateRecoveryStrict ga numText dp pkg
            else Inr [''packaged recovery-authorization missing'']) (\<lambda>strictErr.
     let dupKeys = (if truthy pkg then rawDuplicateKeys (bi_raw bi) else [''<missing>'']);
         digestR = (case recon of None \<Rightarrow> JNull | Some r \<Rightarrow> JStr (digestOf kec r));
         digestP = (if truthy pkg then JStr (digestOf kec pkg) else JNull) in
     rbind (allE
       [Inr (eqText digestR digestP),
        rbind (getProp ''meta'' a) (\<lambda>meta.
          if truthy meta then eqAt digestR meta [''recoveryAuthorizationDigest''] else Inr False),
        eqAt digestR (bi_policy bi) [''recoveryAuthorizationDigest'']]) (\<lambda>agree.
     rbind (remainingDigest env pkg) (\<lambda>recomputed.
     rbind (rmap (\<lambda>(n, c). rbind (if truthy pkg then c else Inr False) (\<lambda>b. Inr (n, b)))
       (packageChecks env numText a pkg recomputed)) (\<lambda>rest.
     Inr ([(''canonicalReconstructs'', errors = []),
        (''packagedValid'', strictErr = []),
        (''packagedNoDuplicateKeys'', dupKeys = []),
        (''anchorsAgree'', agree),
        (''reconMatchesPackaged'',
           (case recon of None \<Rightarrow> False | Some r \<Rightarrow> truthy pkg \<and> stableText r = stableText pkg))] @ rest)))))))"

section \<open>The runtime data\<close>

definition ceilingsOf :: "Json \<Rightarrow> exn + GasCeilings option" where
  "ceilingsOf g =
     (if \<not> truthy g then Inr None
      else rbind (rmap (readN g) [''gasLimitCeiling'', ''maxFeeCeilingWei'', ''maxPriorityCeilingWei'',
             ''maxGasCostCeilingWei'']) (\<lambda>ns.
           Inr (Some \<lparr>gc_gasLimitCeiling = ns ! 0, gc_maxFeeCeilingWei = ns ! 1,
             gc_maxPriorityCeilingWei = ns ! 2, gc_maxGasCostCeilingWei = ns ! 3\<rparr>)))"

definition recoveryStep :: "(string \<Rightarrow> exn + string) \<Rightarrow> Json \<Rightarrow> exn + BoundStep" where
  "recoveryStep ga t =
     rbind (readN t ''remainingIndex'') (\<lambda>index.
     rbind (readN t ''originalIndex'') (\<lambda>oi.
     rbind (rmap (readS t) [''phase'', ''label'', ''postconditionType'', ''value'', ''data'']) (\<lambda>ts.
     rbind (readA ga t ''signer'') (\<lambda>signer.
     rbind (readN t ''nonce'') (\<lambda>nonce.
     rbind (rbind (getProp ''to'' t) (\<lambda>x. if truthy x then rbind (addressOf ga x) (\<lambda>a. Inr (Some a)) else Inr None)) (\<lambda>to.
     rbind (readN t ''gasLimit'') (\<lambda>gasLimit.
     rbind (readN t ''maxFeePerGas'') (\<lambda>maxFee.
     rbind (readN t ''maxPriorityFeePerGas'') (\<lambda>maxPrio.
     rbind (rbind (getProp ''gasCeilings'' t) ceilingsOf) (\<lambda>ceilings.
     Inr \<lparr>st_index = nat index, st_originalIndex = nat oi, st_phase = ts ! 0, st_label = ts ! 1,
       st_postconditionType = ts ! 2, st_signer = signer, st_nonce = nonce, st_to = to, st_value = ts ! 3,
       st_dataOrInitCode = ts ! 4, st_gasLimit = gasLimit, st_maxFeePerGas = maxFee,
       st_maxPriorityFeePerGas = maxPrio, st_maxGasCostWei = gasLimit * maxFee, st_slot = None,
       st_predictedCreationAddress = None, st_expectedRuntimeHash = None, st_gasCeilings = ceilings\<rparr>))))))))))"

definition recoveryRuntimeOf :: "(string \<Rightarrow> exn + string) \<Rightarrow> Json \<Rightarrow> exn + Runtime" where
  "recoveryRuntimeOf ga cc =
     rbind (readN cc ''maxAllInclusiveExposureUsd'') (\<lambda>cap.
     rbind (getProp ''wallets'' cc) (\<lambda>wallets.
     rbind (readA ga wallets ''deployer'') (\<lambda>deployer.
     rbind (readA ga wallets ''tester'') (\<lambda>tester.
     rbind (getProp ''infrastructure'' cc) (\<lambda>infra.
     rbind (rmap (readA ga infra) [''weth'', ''uniswapV3Factory'', ''nonfungiblePositionManager'', ''swapRouter02'',
       ''rialtoRegistry'', ''nvdaStockToken'']) (\<lambda>is.
     rbind (readA ga cc ''pool'') (\<lambda>pool.
     rbind (rmap (\<lambda>slot. rbind (path [''completedContracts'', slot] cc) (\<lambda>d. rbind (readA ga d ''address'') (\<lambda>a.
       Inr (slot, a)))) ALL_SLOTS) (\<lambda>addr.
     rbind (rbind (path [''transactions'', ''immediate''] cc) arrayOf) (\<lambda>ts.
     rbind (rmap (recoveryStep ga) ts) (\<lambda>sts.
     rbind (readS cc ''expiresAtUtc'') (\<lambda>expires.
     rbind (getProp ''exposure'' cc) (\<lambda>exposure.
     rbind (rmap (readN exposure) [''remainingPrincipalWei'', ''remainingMaxGasWei'', ''realizedGasWei'']) (\<lambda>es.
     rbind (rbind (getProp ''flags'' cc) objectEntries) (\<lambda>flags.
     rbind (readS cc ''canaryTokenSymbol'') (\<lambda>token.
     rbind (rbind (getProp ''lp'' cc) lpOf) (\<lambda>lp.
     rbind (rbind (getProp ''buy'' cc) buyOf) (\<lambda>buy.
     rbind (rbind (getProp ''sell'' cc) sellOf) (\<lambda>sell.
     rbind (rbind (getProp ''lock'' cc) lockOf) (\<lambda>lk.
     rbind (rbind (rbind (getProp ''dependencies'' cc) objectEntries) (rmap dependencyOf)) (\<lambda>deps.
     Inr \<lparr>rt_steps = sts, rt_capMicro = cap * 1000000, rt_DEPLOYER = deployer, rt_TESTER = tester,
       rt_FACTORY = is ! 1, rt_NPM = is ! 2, rt_NVDA = is ! 5, rt_pool = pool, rt_addr = addr,
       rt_symbol = token, rt_lp = lp, rt_buy = buy, rt_sell = sell, rt_lock = lk, rt_dependencies = deps,
       rt_expiresAtUtc = expires, rt_exposurePrincipalWei = es ! 0, rt_exposureGasWei = es ! 1 + es ! 2,
       rt_authFlags = map (\<lambda>(k, v). (k, v = JBool True)) flags\<rparr>))))))))))))))))))))"

definition recoveryBind :: "'w Env \<Rightarrow> (string \<Rightarrow> Json) \<Rightarrow> BindInputs \<Rightarrow> 'w op_method" where
  "recoveryBind env numText bi =
     bindA (gets (\<lambda>s. recoveryChecks env numText (presentInputs s bi))) (\<lambda>r.
     bindA (lift r) (\<lambda>checks.
     applyBinding env ''recovery'' checks (recoveryRuntimeOf (en_getAddress env) (bi_package bi))))"

section \<open>The overridden methods\<close>

text \<open>Whether a step of the deployer could be acted on.\<close>

definition completedStepIsActionable :: "'w Env \<Rightarrow> Runtime \<Rightarrow> exn + bool" where
  "completedStepIsActionable env rt = someE (map (\<lambda>t.
     rbind (en_getAddress env (st_signer t)) (\<lambda>a. Inr (a = rt_DEPLOYER rt \<or> st_originalIndex t \<le> 13))) (rt_steps rt))"

definition connectTester :: string where
  "connectTester = ''the TESTER account must be selected in Rabby (all six remaining transactions are tester transactions); switch accounts and connect again - nothing was sent''"

definition recoveryMarkConnected :: "'w Env \<Rightarrow> 'w op_method" where
  "recoveryMarkConnected env =
     bindA (gets (\<lambda>s. s)) (\<lambda>s.
     if \<not> op_bound s then doneA (Refused ''not bound'')
     else if op_halted s then doneA (HaltedResult (op_haltReason s))
     else bindA (reqQuantity env EthChainId) (\<lambda>chain.
       if chain \<noteq> 4663 then doneA (Refused wrongChain)
       else bindA (req env EthAccounts) (\<lambda>a.
         case accountsOf a of
           [] \<Rightarrow> doneA (Refused ''no account exposed'')
         | x # _ \<Rightarrow>
             bindA (lift (en_getAddress env x)) (\<lambda>account. bindA runtime (\<lambda>rt.
             if account \<noteq> rt_TESTER rt then doneA (WrongAccount connectTester)
             else bindA (modify (\<lambda>s. s\<lparr>op_connected := True\<rparr>)) (\<lambda>_. doneA ConnectedOk))))))"

text \<open>\<open>_verifyCompletedAnchors\<close>: \<open>None\<close>, or why an anchor does not hold.\<close>

definition anchorFieldsOk :: "'w Env \<Rightarrow> Json \<Rightarrow> OnchainTx \<Rightarrow> exn + bool" where
  "anchorFieldsOk env x tx =
     rbind (en_getAddress env (ot_from tx)) (\<lambda>from.
     rbind (readA (en_getAddress env) x ''signer'') (\<lambda>signer.
     rbind (getProp ''nonce'' x) (\<lambda>nonce.
     Inr (from = signer \<and> strictEq (JNum (ot_nonce tx)) nonce \<and> ot_value tx = 0))))"

definition anchorTxRefusal :: "'w Env \<Rightarrow> Json \<Rightarrow> OnchainTx \<Rightarrow> TxReceipt \<Rightarrow> exn + string option" where
  "anchorTxRefusal env x tx rc =
     (if ot_chainId tx \<noteq> None \<and> ot_chainId tx \<noteq> Some 4663 then Inr (Some '' chainId'')
      else if rc_status rc \<noteq> 1 then Inr (Some '' receipt not success'')
      else rbind (anchorFieldsOk env x tx) (\<lambda>ok.
        if \<not> ok then Inr (Some '' fields'')
        else rbind (readS x ''inputKeccak'') (\<lambda>h.
             Inr (if lower (en_keccak256 env (ot_input tx)) \<noteq> lower h then Some '' input keccak'' else None))))"

definition anchorCodeRefusal :: "'w Env \<Rightarrow> Json \<Rightarrow> TxReceipt \<Rightarrow> ('w, string option) op_act" where
  "anchorCodeRefusal env x rc =
     bindA (lift (getProp ''createdAddress'' x)) (\<lambda>created.
     bindA (lift (getProp ''deployedRuntimeCodeHash'' x)) (\<lambda>hash.
     if \<not> (truthy created \<and> truthy hash) then doneA None
     else bindA (lift (addrOpt env (rc_contractAddress rc))) (\<lambda>a.
          bindA (lift (addressOf (en_getAddress env) created)) (\<lambda>b.
          if a \<noteq> b then doneA (Some '' created address'')
          else bindA (lift (stringOf created)) (\<lambda>c.
               bindA (reqText env (EthGetCode c ''latest'')) (\<lambda>code.
               bindA (lift (stringOf hash)) (\<lambda>h.
               doneA (if lower (en_keccak256 env code) \<noteq> lower h then Some '' runtime hash'' else None))))))))"

definition anchorRefusal :: "'w Env \<Rightarrow> Json \<Rightarrow> ('w, string option) op_act" where
  "anchorRefusal env x =
     bindA (lift (readS x ''txHash'')) (\<lambda>h.
     bindA (reqTx env h) (\<lambda>otx.
     bindA (reqReceipt env h) (\<lambda>orc.
     case otx of
       None \<Rightarrow> doneA (Some '' tx/receipt not found'')
     | Some tx \<Rightarrow>
         (case orc of
            None \<Rightarrow> doneA (Some '' tx/receipt not found'')
          | Some rc \<Rightarrow>
              bindA (lift (anchorTxRefusal env x tx rc)) (\<lambda>bad.
              case bad of Some reason \<Rightarrow> doneA (Some reason) | None \<Rightarrow> anchorCodeRefusal env x rc)))))"

fun checkAnchors :: "'w Env \<Rightarrow> Json list \<Rightarrow> ('w, string option) op_act" where
  "checkAnchors env [] = doneA None"
| "checkAnchors env (x # xs) =
     bindA (anchorRefusal env x) (\<lambda>bad.
     case bad of
       Some reason \<Rightarrow> bindA (lift (getProp ''originalIndex'' x)) (\<lambda>oi. doneA (Some (''anchor '' @ jsString oi @ reason)))
     | None \<Rightarrow> checkAnchors env xs)"

text \<open>The pool and the position, the results of steps 11 to 13.\<close>

definition checkHoldings :: "'w Env \<Rightarrow> Json \<Rightarrow> ('w, string option) op_act" where
  "checkHoldings env pkg =
     bindA runtime (\<lambda>rt.
     bindA (poolCall env rt) (\<lambda>gp.
     if gp \<noteq> rt_pool rt then doneA (Some ''factory.getPool != bound pool'')
     else bindA (lift (readN pkg ''positionTokenId'')) (\<lambda>tid.
          bindA (callAddr env (rt_NPM rt) ''ownerOf(uint256)'' [encUint tid]) (\<lambda>r.
          bindA (lift (en_getAddress env r)) (\<lambda>owner.
          if owner \<noteq> rt_DEPLOYER rt then doneA (Some ''LP NFT owner != deployer'')
          else bindA (callContract env (rt_NPM rt) ''positions(uint256)'' [encUint tid]) (\<lambda>pos.
               bindA (lift (bigIntHex (wordOf pos 7))) (\<lambda>liq.
               bindA (lift (getProp ''positionLiquidity'' pkg)) (\<lambda>bound.
               doneA (if JStr (dec_of_int liq) \<noteq> bound then Some ''position liquidity != bound'' else None)))))))))"

definition verifyCompletedAnchors :: "'w Env \<Rightarrow> Json \<Rightarrow> ('w, string option) op_act" where
  "verifyCompletedAnchors env pkg =
     bindA (assertChain env) (\<lambda>chain.
     if \<not> chain then doneA (Some ''provider chain != 4663 at anchor verify'')
     else bindA (lift (rbind (getProp ''completedSteps'' pkg) iterOf)) (\<lambda>xs.
          bindA (checkAnchors env xs) (\<lambda>bad.
          case bad of Some reason \<Rightarrow> doneA (Some reason) | None \<Rightarrow> checkHoldings env pkg)))"

definition recoveryReconcile :: "'w Env \<Rightarrow> Json \<Rightarrow> 'w op_method" where
  "recoveryReconcile env pkg =
     bindA (gets (\<lambda>s. s)) (\<lambda>s.
     if \<not> op_bound s then doneA (Refused ''not bound'')
     else if \<not> op_connected s then doneA (Refused ''not connected'')
     else if op_halted s \<and> op_uncertainSend s = None then doneA (HaltedResult (op_haltReason s))
     else bindA (verifyCompletedAnchors env pkg) (\<lambda>bad.
       case bad of
         Some reason \<Rightarrow> halt env (''recovery reconciliation: '' @ reason)
       | None \<Rightarrow> reconcile env))"

text \<open>The account gate before the base gates: \<open>True\<close> when another account than the tester's is selected.\<close>

definition selectTester :: string where
  "selectTester = ''the TESTER account must be selected in Rabby; switch accounts and re-run the pre-check - nothing was sent and nothing is halted''"

definition wrongAccount :: "'w Env \<Rightarrow> ('w, bool) op_act" where
  "wrongAccount env =
     bindA (gets (\<lambda>s. s)) (\<lambda>s.
     if statesReady s \<and> op_pending s = None \<and> op_current s < length (steps s)
     then bindA (req env EthAccounts) (\<lambda>a.
          case accountsOf a of
            [] \<Rightarrow> doneA True
          | x # _ \<Rightarrow> if x = [] then doneA True
              else bindA (lift (en_getAddress env x)) (\<lambda>account. bindA runtime (\<lambda>rt. doneA (account \<noteq> rt_TESTER rt))))
     else doneA False)"

definition isBefore :: "int \<Rightarrow> Json \<Rightarrow> bool" where
  "isBefore t v = (case v of JNum n \<Rightarrow> t < n | _ \<Rightarrow> False)"

text \<open>The deadline of a refreshed step: \<open>None\<close>, or why it is refused.\<close>

definition deadlineRefusal :: "(string \<Rightarrow> Json) \<Rightarrow> Json \<Rightarrow> BoundStep \<Rightarrow> int \<Rightarrow> exn + string option" where
  "deadlineRefusal numText pkg t now =
     rbind (getProp ''deadlineRefresh'' pkg) (\<lambda>dr.
     if \<not> truthy dr then Inr None
     else rbind (rbind (getProp ''steps'' dr) arrayOf) (\<lambda>xs.
          rbind (findStep (JNum (int (st_originalIndex t))) xs) (\<lambda>found.
          case found of
            None \<Rightarrow> Inr None
          | Some x \<Rightarrow>
              rbind (getProp ''wordOffsetBytes'' x) (\<lambda>off.
              rbind (wordAt (JStr (st_dataOrInitCode t)) (jsNumber numText off)) (\<lambda>word.
              rbind (getProp ''newDeadline'' dr) (\<lambda>newDl.
              Inr (if JStr (dec_of_int word) \<noteq> newDl
                   then Some (''bound calldata deadline != bound packet expiry at original step ''
                          @ dec_of_int (int (st_originalIndex t)))
                   else if \<not> isBefore now (jsNumber numText newDl)
                   then Some ''provider block timestamp has passed the bound transaction deadline''
                   else None)))))))"

definition deadlineGate :: "'w Env \<Rightarrow> (string \<Rightarrow> Json) \<Rightarrow> Json \<Rightarrow> OpResult \<Rightarrow> 'w op_method" where
  "deadlineGate env numText pkg pre =
     bindA (reqBlock env) (\<lambda>head. bindA runtime (\<lambda>rt.
     if \<not> isBefore (snd head) (epochOf (en_dateParse env) (JStr (rt_expiresAtUtc rt)))
     then halt env ''provider block timestamp is not strictly before the packet expiry''
     else case pre of
       PreOk i g tx \<Rightarrow>
         bindA (stepAt i) (\<lambda>t.
         bindA (lift (deadlineRefusal numText pkg t (snd head))) (\<lambda>bad.
         case bad of Some reason \<Rightarrow> halt env reason | None \<Rightarrow> doneA pre))
     | _ \<Rightarrow> doneA pre))"

definition recoveryPreconditions :: "'w Env \<Rightarrow> (string \<Rightarrow> Json) \<Rightarrow> Json \<Rightarrow> 'w op_method" where
  "recoveryPreconditions env numText pkg =
     bindA (wrongAccount env) (\<lambda>wrong.
     if wrong then doneA (WrongAccount selectTester)
     else bindA (preconditions env) (\<lambda>pre.
       if \<not> isOk pre then doneA pre else deadlineGate env numText pkg pre))"

end
