(* ===== verification/RecoverySafety.thy ===== *)
theory RecoverySafety
  imports OperatorSession Recovery
begin

text \<open>
  Sessions of the recovery operator: its methods meet \<open>hooks\<close> and, with the tester's transactions as what can be
  bound, \<open>bound_hooks\<close>. Then only transactions of the tester are ever sent, and a pre-check that passes is
  before the deadlines.
\<close>

section \<open>The methods\<close>

definition recoveryMethods :: "'w Env \<Rightarrow> (string \<Rightarrow> Json) \<Rightarrow> BindInputs \<Rightarrow> 'w Methods" where
  "recoveryMethods env numText bi =
     \<lparr>me_bind = recoveryBind env numText bi, me_markConnected = recoveryMarkConnected env,
      me_preconditions = recoveryPreconditions env numText (bi_package bi),
      me_reconcile = recoveryReconcile env (bi_package bi)\<rparr>"


section \<open>The overridden methods keep the invariant\<close>

lemma quiet_iterated [quiet_intros]: "quiet (checkAnchors env xs)"
proof (induction xs)
  case (Cons x xs)
  have "quiet (anchorRefusal env x)"
    unfolding anchorRefusal_def anchorCodeRefusal_def by (intro quiet_intros) simp_all
  then show ?case using Cons by (auto intro!: quiet_intros)
qed (simp add: quiet_intros)

lemma quiet_verifyCompletedAnchors [quiet_intros]: "quiet (verifyCompletedAnchors env pkg)"
  unfolding verifyCompletedAnchors_def checkHoldings_def assertChain_def by (intro quiet_intros) simp_all

lemma quiet_wrongAccount [quiet_intros]: "quiet (wrongAccount env)"
  unfolding wrongAccount_def by (auto intro!: quiet_intros split: list.split)

lemma keeps_recoveryBind: "keeps env kp kd (recoveryBind env numText bi)"
  unfolding recoveryBind_def by (intro keeps_intros keeps_applyBinding)

lemma keeps_recoveryMarkConnected: "keeps env kp kd (recoveryMarkConnected env)"
  unfolding recoveryMarkConnected_def
  by (intro keeps_intros keeps_quiet [OF quiet_reqQuantity] keeps_quiet [OF quiet_req])
    (auto intro!: keeps_intros keeps_modify split: list.split)

lemma keeps_recoveryReconcile: "keeps env kp kd (recoveryReconcile env pkg)"
  unfolding recoveryReconcile_def
  by (intro keeps_intros keeps_reconcile keeps_quiet [OF quiet_verifyCompletedAnchors])

lemma keeps_deadlineGate: "keeps env kp kd (deadlineGate env numText pkg pre)"
  unfolding deadlineGate_def
  by (intro keeps_intros keeps_quiet [OF quiet_gateParts(5)]) (auto intro!: keeps_intros split: OpResult.split)

lemma keeps_recoveryPreconditions: "keeps env kp kd (recoveryPreconditions env numText pkg)"
  unfolding recoveryPreconditions_def
  by (intro keeps_intros keeps_preconditions keeps_deadlineGate keeps_quiet [OF quiet_wrongAccount])

text \<open>A gate stays one behind requests, and before an action that either refuses or passes its result on.\<close>

lemma gateOk_behind:
  assumes "quiet x" and "\<And>a. gateOk (k a)"
  shows "gateOk (bindA x k)"
  unfolding gateOk_def wp_bindA
proof (intro allI wp_quiet [OF assms(1)])
  fix m m' :: "(OpState, 'a) Machine" and r assume m: "same m m'"
  show "case r of Done a \<Rightarrow> wp (k a) (\<lambda>r m'. case r of Done p \<Rightarrow> isOk p \<longrightarrow> same m m' \<and> readyState (mc_op m) | _ \<Rightarrow> True) m'
      | Threw e \<Rightarrow> case Threw e of Done p \<Rightarrow> isOk p \<longrightarrow> same m m' \<and> readyState (mc_op m) | _ \<Rightarrow> True
      | Crashed \<Rightarrow> case Crashed of Done p \<Rightarrow> isOk p \<longrightarrow> same m m' \<and> readyState (mc_op m) | _ \<Rightarrow> True"
  proof (cases r)
    case (Done a)
    have "wp (k a) (\<lambda>r m''. case r of Done p \<Rightarrow> isOk p \<longrightarrow> same m m'' \<and> readyState (mc_op m) | _ \<Rightarrow> True) m'"
      by (rule wp_mono [OF assms(2) [of a, unfolded gateOk_def, rule_format]])
        (use m in \<open>auto simp: same_def split: outcome.splits\<close>)
    with Done show ?thesis by simp
  qed simp_all
qed

definition passesOn :: "('w, OpResult) op_act \<Rightarrow> bool" where
  "passesOn x \<longleftrightarrow> (\<forall>m. wp x (\<lambda>r m'. case r of Done p \<Rightarrow> isOk p \<longrightarrow> same m m' | _ \<Rightarrow> True) m)"

lemma gateOk_before:
  assumes "gateOk x" and "\<And>p. passesOn (f p)"
  shows "gateOk (bindA x (\<lambda>p. if \<not> isOk p then doneA p else f p))"
  unfolding gateOk_def
proof (intro allI wp_bindI, rule wp_mono [OF assms(1) [unfolded gateOk_def, rule_format]])
  fix m m' :: "(OpState, 'a) Machine" and r :: "OpResult outcome"
  assume r: "case r of Done p \<Rightarrow> isOk p \<longrightarrow> same m m' \<and> readyState (mc_op m) | _ \<Rightarrow> True"
  have "wp (f p) (\<lambda>r m''. case r of Done q \<Rightarrow> isOk q \<longrightarrow> same m m'' \<and> readyState (mc_op m) | _ \<Rightarrow> True) m'"
    if "isOk p" "r = Done p" for p
    by (rule wp_mono [OF assms(2) [of p, unfolded passesOn_def, rule_format]])
      (use r that in \<open>auto simp: same_def split: outcome.splits\<close>)
  then show "case r of
      Done p \<Rightarrow> wp (if \<not> isOk p then doneA p else f p)
        (\<lambda>r m''. case r of Done q \<Rightarrow> isOk q \<longrightarrow> same m m'' \<and> readyState (mc_op m) | _ \<Rightarrow> True) m'
    | Threw e \<Rightarrow> case Threw e of Done q \<Rightarrow> isOk q \<longrightarrow> same m m' \<and> readyState (mc_op m) | _ \<Rightarrow> True
    | Crashed \<Rightarrow> case Crashed of Done q \<Rightarrow> isOk q \<longrightarrow> same m m' \<and> readyState (mc_op m) | _ \<Rightarrow> True"
    by (cases r) auto
qed

lemma passesOn_quiet: "quiet x \<Longrightarrow> passesOn x"
  unfolding passesOn_def by (intro allI, erule wp_quiet) (simp split: outcome.split)

lemma passesOn_bindA:
  assumes "quiet x" and "\<And>a. passesOn (k a)"
  shows "passesOn (bindA x k)"
  unfolding passesOn_def wp_bindA
proof (intro allI wp_quiet [OF assms(1)])
  fix m m' :: "(OpState, 'a) Machine" and r assume m: "same m m'"
  have "wp (k a) (\<lambda>r m''. case r of Done p \<Rightarrow> isOk p \<longrightarrow> same m m'' | _ \<Rightarrow> True) m'" for a
    by (rule wp_mono [OF assms(2) [of a, unfolded passesOn_def, rule_format]])
      (use m in \<open>auto simp: same_def split: outcome.splits\<close>)
  then show "case r of Done a \<Rightarrow> wp (k a) (\<lambda>r m''. case r of Done p \<Rightarrow> isOk p \<longrightarrow> same m m'' | _ \<Rightarrow> True) m'
      | Threw e \<Rightarrow> case Threw e of Done p \<Rightarrow> isOk p \<longrightarrow> same m m' | _ \<Rightarrow> True
      | Crashed \<Rightarrow> case Crashed of Done p \<Rightarrow> isOk p \<longrightarrow> same m m' | _ \<Rightarrow> True"
    by (cases r) simp_all
qed

lemma passesOn_halt: "passesOn (halt env reason)"
  unfolding passesOn_def
  by (intro allI, rule wpI) (auto simp: halt_def bindA_def gets_def doneA_def split: outcome.splits prod.splits)

lemma passesOn_cases:
  "passesOn x \<Longrightarrow> passesOn y \<Longrightarrow> passesOn (if b then x else y)"
  "passesOn x \<Longrightarrow> (\<And>a. passesOn (f a)) \<Longrightarrow> passesOn (case z of None \<Rightarrow> x | Some a \<Rightarrow> f a)"
  by (simp_all split: option.split)

lemma passesOn_deadlineGate: "passesOn (deadlineGate env numText pkg pre)"
  unfolding deadlineGate_def
  by (cases pre; simp only: OpResult.case;
      intro passesOn_bindA passesOn_cases passesOn_halt passesOn_quiet [OF quiet_doneA] quiet_gateParts quiet_intros)

lemma gateOk_recoveryPreconditions: "gateOk (recoveryPreconditions env numText pkg)"
  unfolding recoveryPreconditions_def
proof (rule gateOk_behind [OF quiet_wrongAccount])
  show "gateOk (if wrong then doneA (WrongAccount selectTester)
      else bindA (preconditions env) (\<lambda>pre. if \<not> isOk pre then doneA pre else deadlineGate env numText pkg pre))" for wrong
  proof (cases wrong)
    case False
    then show ?thesis
      by (simp only: if_False) (intro gateOk_before gateOk_preconditions passesOn_deadlineGate)
  qed (simp add: gateOk_def)
qed

interpretation recovery: hooks env kp kd "recoveryMethods env numText bi"
  for env :: "'w Env" and kp kd numText bi
  by unfold_locales
    (simp_all add: recoveryMethods_def keeps_recoveryBind keeps_recoveryMarkConnected keeps_recoveryPreconditions
      gateOk_recoveryPreconditions keeps_recoveryReconcile)


section \<open>What a bound recovery packet is\<close>

text \<open>The step \<open>t\<close> at position \<open>i\<close> is a transaction of the tester, with the accepted gas ceilings.\<close>

definition ceilingsExact :: "BoundStep \<Rightarrow> GasCeilings \<Rightarrow> bool" where
  "ceilingsExact t g \<longleftrightarrow>
     gc_gasLimitCeiling g = 2 * st_gasLimit t \<and> gc_maxFeeCeilingWei g = st_maxFeePerGas t \<and>
     gc_maxPriorityCeilingWei g = 50000000 \<and> 4 * gc_maxGasCostCeilingWei g = 5 * st_maxGasCostWei t"

definition stepOfTester :: "Runtime \<Rightarrow> nat \<Rightarrow> BoundStep \<Rightarrow> bool" where
  "stepOfTester r i t \<longleftrightarrow>
     st_signer t = rt_TESTER r \<and> st_nonce t = int i + 2 \<and> st_originalIndex t = i + 14 \<and>
     (\<exists>g. st_gasCeilings t = Some g \<and> ceilingsExact t g)"

text \<open>
  The entry \<open>t\<close> of the packaged authorization that the step \<open>st\<close> was read from: its addresses are checksummed
  already, its amounts are decimal texts.
\<close>

definition decimalAt :: "Json \<Rightarrow> string \<Rightarrow> int \<Rightarrow> bool" where
  "decimalAt t k n \<longleftrightarrow> (\<exists>s. getProp k t = Inr (JStr s) \<and> isDecText s \<and> int_of_dec s = n)"

definition stepOfEntry :: "(string \<Rightarrow> exn + string) \<Rightarrow> Json \<Rightarrow> BoundStep \<Rightarrow> bool" where
  "stepOfEntry ga t st \<longleftrightarrow>
     getProp ''originalIndex'' t = Inr (JNum (int (st_originalIndex st))) \<and>
     getProp ''signer'' t = Inr (JStr (st_signer st)) \<and> ga (st_signer st) = Inr (st_signer st) \<and>
     getProp ''nonce'' t = Inr (JNum (st_nonce st)) \<and>
     (case st_to st of None \<Rightarrow> getProp ''to'' t = Inr JNull | Some a \<Rightarrow> getProp ''to'' t = Inr (JStr a) \<and> ga a = Inr a) \<and>
     getProp ''data'' t = Inr (JStr (st_dataOrInitCode st)) \<and>
     decimalAt t ''gasLimit'' (st_gasLimit st) \<and> decimalAt t ''maxFeePerGas'' (st_maxFeePerGas st) \<and>
     decimalAt t ''maxPriorityFeePerGas'' (st_maxPriorityFeePerGas st)"

definition testerOnly :: "(string \<Rightarrow> exn + string) \<Rightarrow> Json \<Rightarrow> Runtime \<Rightarrow> bool" where
  "testerOnly ga pkg r \<longleftrightarrow>
     rbind (path [''wallets'', ''tester''] pkg) (addressOf ga) = Inr (rt_TESTER r) \<and>
     rbind (path [''wallets'', ''deployer''] pkg) (addressOf ga) = Inr (rt_DEPLOYER r) \<and>
     rt_TESTER r \<noteq> rt_DEPLOYER r \<and> length (rt_steps r) = 6 \<and> (\<forall>i<6. stepOfTester r i (rt_steps r ! i)) \<and>
     (\<exists>ts. path [''transactions'', ''immediate''] pkg = Inr (JArr ts) \<and> list_all2 (stepOfEntry ga) ts (rt_steps r))"

lemma allE_True: "allE xs = Inr True \<longleftrightarrow> (\<forall>x\<in>set xs. x = Inr True)"
  by (induction xs) (auto simp: rbind_eq_Inr)

lemma someE_False: "someE xs = Inr False \<longleftrightarrow> (\<forall>x\<in>set xs. x = Inr False)"
  by (induction xs) (auto simp: rbind_eq_Inr)

lemma everyAt_True: "everyAt f xs = Inr True \<longleftrightarrow> (\<forall>i<length xs. f i (xs ! i) = Inr True)"
  by (simp add: everyAt_def allE_True all_set_conv_all_nth nth_enumerate_eq)

lemma named_checks:
  assumes "rmap (\<lambda>(n, c). rbind (if b then c else Inr False) (\<lambda>x. Inr (n, x))) cs = Inr rest"
    and "list_all snd rest" and "(n, c) \<in> set cs"
  shows "b \<and> c = Inr True"
  using assms by (induction cs arbitrary: rest) (auto simp: rbind_eq_Inr split: if_splits)

lemma recovery_checked:
  assumes "recoveryChecks env numText bi = Inr checks" and "list_all snd checks"
  shows "validateRecoveryStrict (en_getAddress env) numText (en_dateParse env) (bi_package bi) = Inr []"
    and "sixTesterSignables (en_getAddress env) numText (bi_package bi) = Inr True"
proof -
  let ?pkg = "bi_package bi"
  obtain recomputed rest strictErr anchors where
    strict: "(if truthy ?pkg then validateRecoveryStrict (en_getAddress env) numText (en_dateParse env) ?pkg
        else Inr [''packaged recovery-authorization missing'']) = Inr strictErr"
    and rest: "rmap (\<lambda>(n, c). rbind (if truthy ?pkg then c else Inr False) (\<lambda>b. Inr (n, b)))
        (packageChecks env numText (bi_packet bi) ?pkg recomputed) = Inr rest"
    and checks: "checks = anchors @ rest" "(''packagedValid'', strictErr = []) \<in> set anchors"
    using assms(1) unfolding recoveryChecks_def Let_def rbind_eq_Inr case_prod_unfold by fastforce
  have all: "list_all snd rest" using assms(2) checks by (simp add: list_all_iff)
  have "snd (''packagedValid'', strictErr = [])" using assms(2) checks(2) unfolding checks(1) by (simp only: list_all_iff set_append) blast
  then have valid: "strictErr = []" by simp
  have "(''sixTesterSignables'', sixTesterSignables (en_getAddress env) numText ?pkg)
      \<in> set (packageChecks env numText (bi_packet bi) ?pkg recomputed)"
    by (simp add: packageChecks_def Let_def)
  from named_checks [OF rest all this]
  show "validateRecoveryStrict (en_getAddress env) numText (en_dateParse env) ?pkg = Inr []"
    "sixTesterSignables (en_getAddress env) numText ?pkg = Inr True"
    using strict valid by simp_all
qed


lemma chkProps_at: "chkProps chk v w ks = Inr ([], ()) \<longleftrightarrow> (\<forall>k\<in>set ks. \<exists>x. getProp k v = Inr x \<and> chk x (w @ k) = Inr ([], ()))"
  by (simp add: chkProps_def allN_iff noted_simps list_all_iff)

lemma liftN_readN: "bindN (liftN (getProp k v)) (\<lambda>x. liftN (bigIntJ x)) = liftN (readN v k)"
  by (cases "getProp k v") (auto simp: bindN_def liftN_def readN_def okN_def rbind_def split: sum.splits)

text \<open>What a validated package says of the gas ceilings of its transactions.\<close>

lemma chkCeilings_exact:
  assumes "chkCeilings t oi = Inr ([], ())" and "getProp ''gasCeilings'' t = Inr g"
    and "ceilingsOf g = Inr c" and "readN t ''gasLimit'' = Inr l" and "readN t ''maxFeePerGas'' = Inr f"
  shows "\<exists>x. c = Some x \<and> gc_gasLimitCeiling x = 2 * l \<and> gc_maxFeeCeilingWei x = f \<and>
    gc_maxPriorityCeilingWei x = 50000000 \<and> 4 * gc_maxGasCostCeilingWei x = 5 * (l * f)"
proof -
  have priority: "bigIntJ (JStr PRIORITY_CEILING_WEI) = Inr 50000000" by code_simp
  obtain r cost mf mt gl where
    "readN g ''reviewedMaxGasCostWei'' = Inr r" "r = l * f"
    "readN g ''maxGasCostCeilingWei'' = Inr cost" "cost * 4 = r * 5"
    "getProp ''maxFeeCeilingWei'' g = Inr mf" "getProp ''maxFeePerGas'' t = Inr mt" "strictEq mf mt"
    "getProp ''maxPriorityCeilingWei'' g = Inr (JStr PRIORITY_CEILING_WEI)"
    "readN g ''gasLimitCeiling'' = Inr gl" "gl = l * 2"
  proof -
    have "\<exists>r cost gl mf mt. readN g ''reviewedMaxGasCostWei'' = Inr r \<and> r = l * f \<and>
      readN g ''maxGasCostCeilingWei'' = Inr cost \<and> cost * 4 = r * 5 \<and>
      getProp ''maxFeeCeilingWei'' g = Inr mf \<and> getProp ''maxFeePerGas'' t = Inr mt \<and> strictEq mf mt \<and>
      getProp ''maxPriorityCeilingWei'' g = Inr (JStr PRIORITY_CEILING_WEI) \<and>
      readN g ''gasLimitCeiling'' = Inr gl \<and> gl = l * 2"
      using assms(1,2,4,5)
      by (clarsimp simp: chkCeilings_def seqN_iff noted_simps Let_def liftN_readN)
    with that show thesis by blast
  qed
  moreover have "truthy g"
    using calculation(1) by (cases g) (auto simp: readN_def lookupKey_def)
  moreover have "mf = mt"
    using calculation(7) by (cases "(mf, mt)" rule: strictEq.cases) auto
  ultimately show ?thesis
    using assms(3,5) priority by (auto simp: ceilingsOf_def readN_def rbind_eq_Inr)
qed

lemma validateRecovery_entry:
  assumes "validateRecoveryStrict ga numText dp pkg = Inr []" and "path [''transactions'', ''immediate''] pkg = Inr (JArr ts)"
    and "t \<in> set ts"
  shows "chkTransaction ga t = Inr ([], ())" and "getProp ''originalIndex'' t = Inr oi \<Longrightarrow> chkCeilings t oi = Inr ([], ())"
proof -
  let ?chk = "bindN (liftN (getProp ''transactions'' pkg)) (\<lambda>x. whenN x (\<lambda>v.
    bindN (liftN (getProp ''wallets'' pkg)) (\<lambda>w. chkRecoveryTransactions ga numText w v)))"
  obtain entries where "seqN (chkRecovery entries ga numText dp pkg) = Inr ([], ())"
    using assms(1) by (auto simp: validateRecoveryStrict_def rbind_eq_Inr split: if_splits)
  moreover have "?chk \<in> set (chkRecovery entries ga numText dp pkg)" by (simp add: chkRecovery_def Let_def)
  ultimately have "?chk = Inr ([], ())" by (rule seqN_all)
  moreover obtain v where v: "getProp ''transactions'' pkg = Inr v" "getProp ''immediate'' v = Inr (JArr ts)"
    using assms(2) by (auto simp: rbind_eq_Inr)
  moreover have "truthy v" using v(2) by (cases v) auto
  ultimately obtain w where "chkRecoveryTransactions ga numText w v = Inr ([], ())"
    by (auto simp: noted_simps whenN_def)
  then have "allN (chkRecoveryTransaction ga) ts = Inr ([], ())"
    using v(2) by (auto simp: chkRecoveryTransactions_def noted_simps thenN_def seqN_iff)
  then show "chkTransaction ga t = Inr ([], ())" and "getProp ''originalIndex'' t = Inr oi \<Longrightarrow> chkCeilings t oi = Inr ([], ())"
    using assms(3) by (auto simp: allN_iff list_all_iff chkRecoveryTransaction_def thenN_def noted_simps)
qed


lemma sixTesterSignables_steps:
  assumes "sixTesterSignables ga numText pkg = Inr True"
  obtains ts where "path [''transactions'', ''immediate''] pkg = Inr (JArr ts)" and "length ts = 6"
    and "\<forall>i<6. testerStep ga pkg i (ts ! i) = Inr True"
    and "deployerStep ga numText pkg (ts ! 0) = Inr False"
proof -
  have arr: "arrayOf w = Inr ts \<longleftrightarrow> w = JArr ts" for w ts by (cases w) auto
  obtain ts where ts: "path [''transactions'', ''immediate''] pkg = Inr (JArr ts)" "length ts = 6"
    "everyAt (testerStep ga pkg) ts = Inr True" "someE (map (deployerStep ga numText pkg) ts) = Inr False"
    using assms by (auto simp: sixTesterSignables_def rbind_eq_Inr arr split: if_splits)
  moreover have "deployerStep ga numText pkg (ts ! 0) = Inr False"
    using ts(2,4) by (auto simp: someE_False)
  ultimately show thesis by (intro that [of ts]) (auto simp: everyAt_True)
qed

text \<open>A step of the tester, read from a package that passed the checks.\<close>

lemma recoveryStep_tester:
  assumes step: "recoveryStep ga t = Inr st" and checked: "testerStep ga pkg i t = Inr True"
    and tester: "rbind (path [''wallets'', ''tester''] pkg) (addressOf ga) = Inr (rt_TESTER r)"
    and ceilings: "\<And>oi. getProp ''originalIndex'' t = Inr oi \<Longrightarrow> chkCeilings t oi = Inr ([], ())"
  shows "stepOfTester r i st"
proof -
  have oi: "getProp ''originalIndex'' t = Inr (JNum (int i + 14))" and nonce: "getProp ''nonce'' t = Inr (JNum (int i + 2))"
    and signer: "readA ga t ''signer'' = Inr (rt_TESTER r)"
    using checked tester by (auto simp: testerStep_def rbind_eq_Inr holdsAt_def sameAddressAt_def readA_def split: if_splits)
  obtain g where g: "getProp ''gasCeilings'' t = Inr g" "ceilingsOf g = Inr (st_gasCeilings st)"
    and st: "readN t ''gasLimit'' = Inr (st_gasLimit st)" "readN t ''maxFeePerGas'' = Inr (st_maxFeePerGas st)"
      "st_maxGasCostWei st = st_gasLimit st * st_maxFeePerGas st" "readA ga t ''signer'' = Inr (st_signer st)"
      "readN t ''nonce'' = Inr (st_nonce st)" "\<exists>n. readN t ''originalIndex'' = Inr n \<and> st_originalIndex st = nat n"
    using step by (auto simp: recoveryStep_def rbind_eq_Inr)
  have "\<exists>x. st_gasCeilings st = Some x \<and> ceilingsExact st x"
    using chkCeilings_exact [OF ceilings [OF oi] g st(1,2)] st(3) by (simp add: ceilingsExact_def)
  then show ?thesis
    using signer st oi nonce by (auto simp: stepOfTester_def readN_def nat_add_distrib)
qed

lemma chkAddr_exact: "chkAddr ga x w = Inr ([], ()) \<longleftrightarrow> (\<exists>s. x = JStr s \<and> hex_string 40 s \<and> ga s = Inr s)"
  by (cases x) (auto simp: chkAddr_def noted_simps)

lemma decimal_entry:
  assumes "chkDec x w = Inr ([], ())" and "getProp k t = Inr x" and "readN t k = Inr n"
  shows "decimalAt t k n"
  using assms by (cases x) (auto simp: chkDec_def noted_simps decimalAt_def readN_def bigIntText_dec)

lemma recoveryStep_entry:
  assumes step: "recoveryStep ga t = Inr st" and valid: "chkTransaction ga t = Inr ([], ())"
    and checked: "testerStep ga pkg i t = Inr True"
  shows "stepOfEntry ga t st"
proof -
  have oi: "getProp ''originalIndex'' t = Inr (JNum (int i + 14))" and nonce: "getProp ''nonce'' t = Inr (JNum (int i + 2))"
    using checked by (auto simp: testerStep_def rbind_eq_Inr holdsAt_def split: if_splits)
  have "\<exists>s. getProp ''signer'' t = Inr (JStr s) \<and> ga s = Inr s"
    and to: "getProp ''to'' t = Inr JNull \<or> (\<exists>s. getProp ''to'' t = Inr (JStr s) \<and> s \<noteq> [] \<and> ga s = Inr s)"
    and decs: "chkProps chkDec t ''tx.'' [''value'', ''gasLimit'', ''maxFeePerGas'', ''maxPriorityFeePerGas''] = Inr ([], ())"
    using valid by (auto simp: chkTransaction_def seqN_iff noted_simps chkAddr_exact hex_string_def split: if_splits)
  moreover have fields: "readA ga t ''signer'' = Inr (st_signer st)" "readN t ''nonce'' = Inr (st_nonce st)"
    "rbind (getProp ''to'' t) (\<lambda>x. if truthy x then rbind (addressOf ga x) (\<lambda>a. Inr (Some a)) else Inr None) = Inr (st_to st)"
    "readS t ''data'' = Inr (st_dataOrInitCode st)" "readN t ''gasLimit'' = Inr (st_gasLimit st)"
    "readN t ''maxFeePerGas'' = Inr (st_maxFeePerGas st)" "readN t ''maxPriorityFeePerGas'' = Inr (st_maxPriorityFeePerGas st)"
    "\<exists>n. readN t ''originalIndex'' = Inr n \<and> st_originalIndex st = nat n"
    using step by (auto simp: recoveryStep_def rbind_eq_Inr)
  ultimately have "getProp ''signer'' t = Inr (JStr (st_signer st))" "ga (st_signer st) = Inr (st_signer st)"
    by (auto simp: readA_def addressOf_def)
  moreover have "case st_to st of None \<Rightarrow> getProp ''to'' t = Inr JNull | Some a \<Rightarrow> getProp ''to'' t = Inr (JStr a) \<and> ga a = Inr a"
    using to fields(3) by (cases "st_to st") (auto simp: addressOf_def)
  moreover have "getProp ''data'' t = Inr (JStr (st_dataOrInitCode st))"
    using fields(4) by (cases "getProp ''data'' t") (auto simp: readS_def rbind_eq_Inr elim!: stringOf.elims)
  moreover have "decimalAt t ''gasLimit'' (st_gasLimit st)" "decimalAt t ''maxFeePerGas'' (st_maxFeePerGas st)"
    "decimalAt t ''maxPriorityFeePerGas'' (st_maxPriorityFeePerGas st)"
    using decs fields(5-7) by (auto simp: chkProps_at intro: decimal_entry)
  ultimately show ?thesis
    using oi nonce fields(2,8) by (auto simp: stepOfEntry_def readN_def nat_add_distrib)
qed

lemma recovery_testerOnly:
  assumes "recoveryChecks env numText bi = Inr checks" and "list_all snd checks"
    and "recoveryRuntimeOf (en_getAddress env) (bi_package bi) = Inr r"
  shows "testerOnly (en_getAddress env) (bi_package bi) r"
proof -
  let ?ga = "en_getAddress env" and ?pkg = "bi_package bi"
  note checked = recovery_checked [OF assms(1,2)]
  obtain ts where ts: "path [''transactions'', ''immediate''] ?pkg = Inr (JArr ts)" "length ts = 6"
    and tester: "\<forall>i<6. testerStep ?ga ?pkg i (ts ! i) = Inr True"
    and deployer: "deployerStep ?ga numText ?pkg (ts ! 0) = Inr False"
    by (rule sixTesterSignables_steps [OF checked(2)])
  have wallets: "rbind (path [''wallets'', ''deployer''] ?pkg) (addressOf ?ga) = Inr (rt_DEPLOYER r)"
    "rbind (path [''wallets'', ''tester''] ?pkg) (addressOf ?ga) = Inr (rt_TESTER r)"
    and rts: "rmap (recoveryStep ?ga) ts = Inr (rt_steps r)"
    using assms(3) ts(1) by (auto simp: recoveryRuntimeOf_def rbind_eq_Inr readA_def)
  have steps: "list_all2 (\<lambda>t st. recoveryStep ?ga t = Inr st) ts (rt_steps r)"
    using rts by (simp add: rmap_eq_Inr)
  then have len: "length (rt_steps r) = 6" using ts(2) by (auto dest: list_all2_lengthD)
  have "stepOfTester r i (rt_steps r ! i)" if "i < 6" for i
  proof (rule recoveryStep_tester [OF _ _ wallets(2)])
    show "recoveryStep ?ga (ts ! i) = Inr (rt_steps r ! i)" using list_all2_nthD [OF steps] that ts(2) by simp
    show "testerStep ?ga ?pkg i (ts ! i) = Inr True" using tester that by blast
    show "chkCeilings (ts ! i) oi = Inr ([], ())" if oi: "getProp ''originalIndex'' (ts ! i) = Inr oi" for oi
      using validateRecovery_entry(2) [OF checked(1) ts(1) _ oi] \<open>i < 6\<close> ts(2) by simp
  qed
  moreover have "list_all2 (stepOfEntry ?ga) ts (rt_steps r)"
  proof (rule list_all2_all_nthI)
    fix i assume i: "i < length ts"
    show "stepOfEntry ?ga (ts ! i) (rt_steps r ! i)"
      using list_all2_nthD [OF steps i] validateRecovery_entry(1) [OF checked(1) ts(1)] tester i ts(2)
      by (intro recoveryStep_entry) auto
  qed (use len ts(2) in simp)
  moreover have "rt_TESTER r \<noteq> rt_DEPLOYER r"
    using spec [OF tester, of 0] deployer wallets
    by (auto simp: testerStep_def deployerStep_def sameAddressAt_def rbind_eq_Inr holdsAt_def split: if_splits)
  ultimately show ?thesis using wallets len ts(1) by (simp add: testerOnly_def)
qed

section \<open>The pre-check\<close>

lemma halt_result: "halt env reason m = (Done p, m') \<Longrightarrow> p = HaltedResult (Some reason)"
  by (auto simp: halt_def bindA_def gets_def doneA_def split: outcome.splits prod.splits)

text \<open>The base gates know no wrong account; what passes them is the current step.\<close>

lemma preconditions_results:
  assumes "preconditions env m = (Done p, m')"
  shows "(\<forall>w. p \<noteq> WrongAccount w) \<and> (isOk p \<longrightarrow> (\<exists>g tx. p = PreOk (op_current (mc_op m)) g tx))"
  using assms
  by (auto simp: preconditions_def bindA_def gets_def doneA_def lift_def throw_def Let_def
      split: if_splits outcome.splits prod.splits sum.splits dest!: halt_result)

text \<open>The deadline gate asks for the latest block only, and passes a result on when that block is early enough.\<close>

definition blockBefore :: "'w Env \<Rightarrow> (string \<Rightarrow> Json) \<Rightarrow> Json \<Rightarrow> nat \<Rightarrow> (OpState, 'w) Machine \<Rightarrow> bool" where
  "blockBefore env numText pkg i m \<longleftrightarrow>
     (\<exists>e r base now. mc_trace m \<noteq> [] \<and> e = last (mc_trace m) \<and> ev_rpc e = EthGetBlockByNumber ''latest'' \<and>
        ev_reply e = Done (RBlock base now) \<and> op_runtime (mc_op m) = Some r \<and> i < length (rt_steps r) \<and>
        isBefore now (epochOf (en_dateParse env) (JStr (rt_expiresAtUtc r))) \<and>
        deadlineRefusal numText pkg (rt_steps r ! i) now = Inr None)"

lemma deadlineGate_results:
  assumes "deadlineGate env numText pkg (PreOk i g tx) m = (Done p, m')"
  shows "(\<forall>w. p \<noteq> WrongAccount w) \<and> (isOk p \<longrightarrow> p = PreOk i g tx \<and> blockBefore env numText pkg i m')"
  using assms
  by (auto simp: deadlineGate_def bindA_def reqBlock_def req_def gets_def runtime_def stepAt_def steps_def doneA_def lift_def
        throw_def blockBefore_def split: if_splits outcome.splits prod.splits sum.splits option.splits Reply.splits
        dest!: halt_result)


section \<open>Sessions of the recovery operator\<close>

lemma discarded_recovery:
  "list_all snd checks \<Longrightarrow>
    recoveryChecks env numText (bi\<lparr>bi_packet := JNull, bi_policy := p, bi_snapshot := s\<rparr>) \<noteq> Inr checks"
  by (auto simp: recoveryChecks_def rbind_eq_Inr Let_def split: if_splits)

lemma tracks_recoveryBind:
  "tracks (testerOnly (en_getAddress env) (bi_package bi)) (recoveryBind env numText bi)"
  unfolding recoveryBind_def
proof (rule tracks_bind)
  fix s checks r
  assume ok: "recoveryChecks env numText (presentInputs s bi) = Inr checks" "list_all snd checks"
    and r: "recoveryRuntimeOf (en_getAddress env) (bi_package bi) = Inr r"
  have "bi_package (presentInputs s bi) = bi_package bi" by (simp add: presentInputs_def)
  then show "testerOnly (en_getAddress env) (bi_package bi) r"
    using recovery_testerOnly [OF ok] r by simp
qed

lemma tracks_recoveryMarkConnected: "tracks P (recoveryMarkConnected env)"
  unfolding recoveryMarkConnected_def
  by (intro tracks_intros tracks_quiet [OF quiet_reqQuantity]; (auto intro!: tracks_intros split: list.split)?)

lemma tracks_recoveryPreconditions: "tracks P (recoveryPreconditions env numText pkg)"
proof -
  have "tracks P (deadlineGate env numText pkg pre)" for pre
    unfolding deadlineGate_def
    by (cases pre; simp only: OpResult.case; intro tracks_intros tracks_quiet [OF quiet_gateParts(5)])
  then show ?thesis
    unfolding recoveryPreconditions_def
    by (intro tracks_intros tracks_preconditions tracks_quiet [OF quiet_wrongAccount])
qed

lemma tracks_recoveryReconcile: "tracks P (recoveryReconcile env pkg)"
  unfolding recoveryReconcile_def
  by (intro tracks_intros tracks_reconcile tracks_quiet [OF quiet_verifyCompletedAnchors])

interpretation recovery: bound_hooks env kp kd "recoveryMethods env numText bi"
    "testerOnly (en_getAddress env) (bi_package bi)"
  for env :: "'w Env" and kp kd numText bi
  by unfold_locales
    (simp_all add: recoveryMethods_def tracks_recoveryBind tracks_recoveryMarkConnected tracks_recoveryPreconditions
      tracks_recoveryReconcile)

text \<open>The transaction \<open>tx\<close> is the entry \<open>t\<close> of the packaged authorization, as the wallet gets it.\<close>

definition entryIs :: "Json \<Rightarrow> SendTx \<Rightarrow> bool" where
  "entryIs t tx \<longleftrightarrow>
     getProp ''signer'' t = Inr (JStr (sx_from tx)) \<and>
     (case sx_to tx of None \<Rightarrow> getProp ''to'' t = Inr JNull | Some a \<Rightarrow> getProp ''to'' t = Inr (JStr a)) \<and>
     getProp ''data'' t = Inr (JStr (sx_data tx)) \<and>
     (\<exists>n. getProp ''nonce'' t = Inr (JNum n) \<and> sx_nonce tx = hexQuantity n) \<and>
     (\<exists>n. decimalAt t ''gasLimit'' n \<and> sx_gas tx = hexQuantity n) \<and>
     (\<exists>n. decimalAt t ''maxFeePerGas'' n \<and> sx_maxFeePerGas tx = hexQuantity n) \<and>
     (\<exists>n. decimalAt t ''maxPriorityFeePerGas'' n \<and> sx_maxPriorityFeePerGas tx = hexQuantity n) \<and>
     sx_value tx = ''0x0'' \<and> sx_type tx = ''0x2'' \<and> sx_chainId tx = ''0x1237''"

lemma stepOfEntry_sent:
  assumes "stepOfEntry (en_getAddress env) t st" and "buildSendTx env st = Inr tx"
  shows "entryIs t tx"
  using assms by (cases "st_to st") (auto simp: stepOfEntry_def entryIs_def buildSendTx_def rbind_eq_Inr)

text \<open>
  C20: The recovery operator can only ever send transactions of the tester. Whatever a session does, no step is
  handed to the wallet twice without a rejection in between, and what is handed over at position \<open>k\<close> of the
  six is entry \<open>k\<close> of the packaged authorization, the transaction of original step \<open>14 + k\<close>: the signer, the
  target and the call data as they stand in that entry, nonce \<open>k + 2\<close>, the gas limit and the fees of the entry,
  no value. Its signer is the tester's account of the package, which is not the deployer's; its bound gas
  ceilings are twice the gas limit, the reviewed maximum fee, 50000000 wei of priority fee and 1.25 times the
  reviewed cost.
\<close>

theorem recovery_sends_only_tester:
  "distinct (liveSteps (session env (recoveryMethods env numText bi) kp kd digest (fresh kp kd st w s0) cs)) \<and>
   list_all (\<lambda>e. \<exists>r tx t g ts. op_runtime (ev_op e) = Some r \<and> op_current (ev_op e) < 6 \<and>
       t = rt_steps r ! op_current (ev_op e) \<and> st_originalIndex t = 14 + op_current (ev_op e) \<and>
       rbind (path [''wallets'', ''tester''] (bi_package bi)) (addressOf (en_getAddress env)) = Inr (rt_TESTER r) \<and>
       rbind (path [''wallets'', ''deployer''] (bi_package bi)) (addressOf (en_getAddress env)) = Inr (rt_DEPLOYER r) \<and>
       rt_TESTER r \<noteq> rt_DEPLOYER r \<and>
       ev_rpc e = EthSendTransaction tx \<and> en_getAddress env (rt_TESTER r) = Inr (sx_from tx) \<and>
       sx_nonce tx = hexQuantity (int (op_current (ev_op e)) + 2) \<and> sx_value tx = ''0x0'' \<and>
       path [''transactions'', ''immediate''] (bi_package bi) = Inr (JArr ts) \<and> length ts = 6 \<and>
       getProp ''originalIndex'' (ts ! op_current (ev_op e)) = Inr (JNum (14 + int (op_current (ev_op e)))) \<and>
       entryIs (ts ! op_current (ev_op e)) tx \<and>
       st_gasCeilings t = Some g \<and> ceilingsExact t g)
     (sends (session env (recoveryMethods env numText bi) kp kd digest (fresh kp kd st w s0) cs))"
proof (intro conjI recovery.sends_distinct list.pred_mono_strong [OF recovery.sends_bound])
  fix e :: "OpState Event"
  let ?k = "op_current (ev_op e)"
  assume "authorizedSend env e \<and> (\<exists>r. op_runtime (ev_op e) = Some r \<and>
    testerOnly (en_getAddress env) (bi_package bi) r \<and> ?k < length (rt_steps r))"
  then obtain r where auth: "authorizedSend env e" and r: "op_runtime (ev_op e) = Some r"
      "testerOnly (en_getAddress env) (bi_package bi) r" "?k < 6"
    by (auto simp: testerOnly_def)
  obtain tx where tx: "ev_rpc e = EthSendTransaction tx" "buildSendTx env (rt_steps r ! ?k) = Inr tx"
    using auth r(1) by (auto simp: authorizedSend_def steps_def Let_def split: sum.splits)
  obtain ts where ts: "path [''transactions'', ''immediate''] (bi_package bi) = Inr (JArr ts)"
    "list_all2 (stepOfEntry (en_getAddress env)) ts (rt_steps r)"
    using r(2) unfolding testerOnly_def by blast
  moreover from this have six: "length ts = 6" using r(2) by (simp add: list_all2_lengthD testerOnly_def)
  ultimately have entry: "stepOfEntry (en_getAddress env) (ts ! ?k) (rt_steps r ! ?k)"
    using list_all2_nthD [OF ts(2)] r(3) by simp
  have st: "stepOfTester r ?k (rt_steps r ! ?k)" using r(2,3) by (simp add: testerOnly_def)
  then have "getProp ''originalIndex'' (ts ! ?k) = Inr (JNum (14 + int ?k))"
    using entry by (simp add: stepOfEntry_def stepOfTester_def add.commute)
  moreover obtain g where "st_gasCeilings (rt_steps r ! ?k) = Some g" "ceilingsExact (rt_steps r ! ?k) g"
    using st by (auto simp: stepOfTester_def)
  moreover have "en_getAddress env (rt_TESTER r) = Inr (sx_from tx)" "sx_nonce tx = hexQuantity (int ?k + 2)" "sx_value tx = ''0x0''"
    using st tx(2) by (auto simp: stepOfTester_def buildSendTx_def rbind_eq_Inr)
  ultimately show "\<exists>r tx t g ts. op_runtime (ev_op e) = Some r \<and> ?k < 6 \<and>
       t = rt_steps r ! ?k \<and> st_originalIndex t = 14 + ?k \<and>
       rbind (path [''wallets'', ''tester''] (bi_package bi)) (addressOf (en_getAddress env)) = Inr (rt_TESTER r) \<and>
       rbind (path [''wallets'', ''deployer''] (bi_package bi)) (addressOf (en_getAddress env)) = Inr (rt_DEPLOYER r) \<and>
       rt_TESTER r \<noteq> rt_DEPLOYER r \<and>
       ev_rpc e = EthSendTransaction tx \<and> en_getAddress env (rt_TESTER r) = Inr (sx_from tx) \<and>
       sx_nonce tx = hexQuantity (int ?k + 2) \<and> sx_value tx = ''0x0'' \<and>
       path [''transactions'', ''immediate''] (bi_package bi) = Inr (JArr ts) \<and> length ts = 6 \<and>
       getProp ''originalIndex'' (ts ! ?k) = Inr (JNum (14 + int ?k)) \<and> entryIs (ts ! ?k) tx \<and>
       st_gasCeilings t = Some g \<and> ceilingsExact t g"
    using r tx ts(1) six st stepOfEntry_sent [OF entry tx(2)] by (auto simp: testerOnly_def stepOfTester_def)
qed

end
