(* ===== verification/RpcReader.thy ===== *)
theory RpcReader
  imports Consumer
begin

text \<open>
  The chain reader of the indexer, \<open>apps/indexer/src/lock-snapshot/rpc-reader.ts\<close>, and the command line
  \<open>snapshot-cli.ts\<close> that runs the pipeline with it. A viem client is the record of its answers, \<open>Inl ()\<close> a
  promise that rejects; the ABI coder is a pair of parameters, and the call data it makes are of a type of
  their own. \<open>None\<close> is \<open>undefined\<close> or \<open>null\<close>.
\<close>

section \<open>The client and the ABI coder\<close>

record VaultLog =
  vl_data :: string
  vl_topics :: "string list"
  vl_blockNumber :: "int option"
  vl_logIndex :: "int option"

record VaultEvent =
  ve_eventName :: string
  ve_account :: string
  ve_lockId :: int

datatype ViewCall =
    LockCount string
  | PositionWeightAt string int int
  | LeafFor int string string int

record 'd RpcClient =
  rk_getChainId :: "unit + int"
  rk_getBlock :: "int \<Rightarrow> unit + BlockHeader"
  rk_getCode :: "string \<Rightarrow> int \<Rightarrow> unit + string option"
  rk_getLogs :: "string \<Rightarrow> int \<Rightarrow> int \<Rightarrow> unit + VaultLog list"
  rk_call :: "string \<Rightarrow> 'd \<Rightarrow> int \<Rightarrow> unit + string option"
  rk_getBlockNumber :: "unit + int"

text \<open>\<open>decodeEventLog\<close>, \<open>None\<close> when it throws, and \<open>encodeFunctionData\<close>.\<close>

record 'd AbiCoder =
  ab_decodeEventLog :: "VaultLog \<Rightarrow> VaultEvent option"
  ab_encodeFunctionData :: "ViewCall \<Rightarrow> unit + 'd"

definition LOG_CHUNK :: int where "LOG_CHUNK = 45000"

section \<open>The reader\<close>

text \<open>The fields of the class; without another endpoint for logs both clients are the same one.\<close>

record 'd RpcChainReader =
  ru_client :: "'d RpcClient"
  ru_logsClient :: "'d RpcClient option"
  ru_vault :: string
  ru_manager :: string
  ru_pinBlock :: int

definition newReader :: "(string \<Rightarrow> 'd RpcClient) \<Rightarrow> string \<Rightarrow> string \<Rightarrow> string \<Rightarrow> int \<Rightarrow> string option \<Rightarrow> 'd RpcChainReader" where
  "newReader connect rpcUrl vault manager pinBlock logsRpcUrl =
     \<lparr>ru_client = connect rpcUrl,
      ru_logsClient = (case logsRpcUrl of None \<Rightarrow> None | Some u \<Rightarrow> if u = [] then None else Some (connect u)),
      ru_vault = vault, ru_manager = manager, ru_pinBlock = pinBlock\<rparr>"

definition logsClient :: "'d RpcChainReader \<Rightarrow> 'd RpcClient" where
  "logsClient r = (case ru_logsClient r of None \<Rightarrow> ru_client r | Some c \<Rightarrow> c)"

definition awaited :: "unit + 'a \<Rightarrow> snapshot_error + 'a" where
  "awaited x = (case x of Inl _ \<Rightarrow> Inl ReaderError | Inr a \<Rightarrow> Inr a)"

text \<open>The endpoints are compared once; \<open>verified\<close> is \<open>logsEndpointVerified\<close>.\<close>

definition assertLogsEndpointChain :: "'d RpcChainReader \<Rightarrow> bool \<Rightarrow> snapshot_error + unit" where
  "assertLogsEndpointChain r verified =
     (if verified then Inr ()
      else rbind (awaited (rk_getChainId (ru_client r))) (\<lambda>a.
           rbind (awaited (rk_getChainId (logsClient r))) (\<lambda>b.
           if a \<noteq> b then snapFail ''LOGS_ENDPOINT_CHAIN_MISMATCH''
           else case ru_logsClient r of
             None \<Rightarrow> Inr ()
           | Some c \<Rightarrow>
               rbind (awaited (rk_getBlock (ru_client r) (ru_pinBlock r))) (\<lambda>ph.
               rbind (awaited (rk_getBlock c (ru_pinBlock r))) (\<lambda>lh.
               if lower (bh_hash ph) \<noteq> lower (bh_hash lh) then snapFail ''LOGS_ENDPOINT_HASH_MISMATCH''
               else Inr ())))))"

definition blockAt :: "'d RpcChainReader \<Rightarrow> int \<Rightarrow> snapshot_error + BlockHeader option" where
  "blockAt r n = (case rk_getBlock (ru_client r) n of Inl _ \<Rightarrow> Inr None | Inr header \<Rightarrow> Inr (Some header))"

definition vaultHasCodeAt :: "'d RpcChainReader \<Rightarrow> int \<Rightarrow> snapshot_error + bool" where
  "vaultHasCodeAt r n =
     (if n < 0 then Inr False
      else rbind (awaited (rk_getCode (ru_client r) (ru_vault r) n)) (\<lambda>code.
           Inr (code \<noteq> None \<and> code \<noteq> Some ''0x'')))"

text \<open>One log of a scan, and the windows of the scan.\<close>

definition scanLog :: "'d AbiCoder \<Rightarrow> string \<Rightarrow> LockCreatedRecord list \<Rightarrow> VaultLog \<Rightarrow> snapshot_error + LockCreatedRecord list" where
  "scanLog abi eventName out l =
     (case ab_decodeEventLog abi l of
        None \<Rightarrow> Inr out
      | Some e \<Rightarrow>
          if ve_eventName e \<noteq> eventName then Inr out
          else (case (vl_blockNumber l, vl_logIndex l) of
            (Some block, Some idx) \<Rightarrow>
              Inr (out @ [\<lparr>lc_account = ve_account e, lc_lockId = ve_lockId e, lc_blockNumber = block, lc_logIndex = idx\<rparr>])
          | _ \<Rightarrow> snapFail ''PENDING_LOG''))"

function scanWindows :: "'d AbiCoder \<Rightarrow> 'd RpcChainReader \<Rightarrow> string \<Rightarrow> int \<Rightarrow> int \<Rightarrow> LockCreatedRecord list
    \<Rightarrow> snapshot_error + LockCreatedRecord list" where
  "scanWindows abi r eventName start to out =
     (if start \<le> to then
        (let stop = (if start + LOG_CHUNK > to then to else start + LOG_CHUNK) in
         case awaited (rk_getLogs (logsClient r) (ru_vault r) start stop) of
           Inl e \<Rightarrow> Inl e
         | Inr logs \<Rightarrow>
             (case rfold (scanLog abi eventName) out logs of
                Inl e \<Rightarrow> Inl e
              | Inr out' \<Rightarrow> scanWindows abi r eventName (start + (LOG_CHUNK + 1)) to out'))
      else Inr out)"
  by pat_completeness auto

termination
  by (relation "measure (\<lambda>(abi, r, eventName, start, to, out). nat (to + 1 - start))") (auto simp: LOG_CHUNK_def)

declare scanWindows.simps [simp del]

definition scan :: "'d AbiCoder \<Rightarrow> 'd RpcChainReader \<Rightarrow> bool \<Rightarrow> string \<Rightarrow> int \<Rightarrow> int
    \<Rightarrow> snapshot_error + LockCreatedRecord list" where
  "scan abi r verified eventName start to =
     rbind (assertLogsEndpointChain r verified) (\<lambda>_. scanWindows abi r eventName start to [])"

section \<open>Pinned calls\<close>

definition pinnedCall :: "'d RpcChainReader \<Rightarrow> string \<Rightarrow> 'd \<Rightarrow> snapshot_error + string" where
  "pinnedCall r to data =
     rbind (awaited (rk_call (ru_client r) to data (ru_pinBlock r))) (\<lambda>res.
     case res of None \<Rightarrow> snapFail ''HISTORICAL_STATE_UNAVAILABLE'' | Some d \<Rightarrow> Inr d)"

definition readView :: "'d AbiCoder \<Rightarrow> 'd RpcChainReader \<Rightarrow> string \<Rightarrow> ViewCall \<Rightarrow> int \<Rightarrow> snapshot_error + string" where
  "readView abi r to c blockNumber =
     (if blockNumber \<noteq> ru_pinBlock r then snapFail ''UNPINNED_READ''
      else rbind (awaited (ab_encodeFunctionData abi c)) (pinnedCall r to))"

definition asBigInt :: "string \<Rightarrow> snapshot_error + int" where
  "asBigInt t = (case bigIntOf t of None \<Rightarrow> Inl ReaderError | Some i \<Rightarrow> Inr i)"

text \<open>
  The methods. The answers of a client do not change, so the second scan finds the endpoints as the first
  one did, whether or not it asks again.
\<close>

definition rpcReader :: "'d AbiCoder \<Rightarrow> 'd RpcChainReader \<Rightarrow> ChainReader" where
  "rpcReader abi r =
     \<lparr>cr_chainId = awaited (rk_getChainId (ru_client r)),
      cr_block = blockAt r,
      cr_vaultHasCodeAt = vaultHasCodeAt r,
      cr_lockCreated = scan abi r False ''LockCreated'',
      cr_lockWithdrawn = scan abi r False ''LockWithdrawn'',
      cr_lockCountAt = (\<lambda>account n. rbind (readView abi r (ru_vault r) (LockCount account) n) asBigInt),
      cr_positionWeightAt = (\<lambda>account lockId timestamp n.
        rbind (readView abi r (ru_vault r) (PositionWeightAt account lockId timestamp) n) asBigInt),
      cr_leafFor = (\<lambda>cycleId claimant asset amount n.
        readView abi r (ru_manager r) (LeafFor cycleId claimant asset amount) n),
      cr_syncedThrough = awaited (rk_getBlockNumber (ru_client r))\<rparr>"

section \<open>The command line\<close>

fun optArg :: "string \<Rightarrow> string list \<Rightarrow> string option" where
  "optArg name (x # y # zs) = (if x = ''--'' @ name then Some y else optArg name (y # zs))"
| "optArg name xs = None"

text \<open>How a run ends otherwise: a message and exit code 1, or an exception that is not caught.\<close>

datatype cli_end = ExitOne string | Uncaught "snapshot_error option"

definition argOf :: "string list \<Rightarrow> string \<Rightarrow> cli_end + string" where
  "argOf argv name = (case optArg name argv of
     None \<Rightarrow> Inl (ExitOne (''FAIL: missing required argument --'' @ name)) | Some t \<Rightarrow> Inr t)"

definition bigArg :: "string list \<Rightarrow> string \<Rightarrow> cli_end + int" where
  "bigArg argv name = rbind (argOf argv name) (\<lambda>t. case bigIntOf t of None \<Rightarrow> Inl (Uncaught None) | Some i \<Rightarrow> Inr i)"

definition requestOf :: "string list \<Rightarrow> cli_end + SnapshotRequest" where
  "requestOf argv =
     rbind (bigArg argv ''chain-id'') (\<lambda>chainId.
     rbind (argOf argv ''vault'') (\<lambda>vault.
     rbind (argOf argv ''manager'') (\<lambda>manager.
     rbind (bigArg argv ''block'') (\<lambda>block.
     rbind (argOf argv ''block-hash'') (\<lambda>hash.
     rbind (bigArg argv ''start-block'') (\<lambda>start.
     rbind (argOf argv ''asset'') (\<lambda>asset.
     rbind (bigArg argv ''amount'') (\<lambda>amount.
     rbind (bigArg argv ''cycle-id'') (\<lambda>cycleId.
     rbind (bigArg argv ''claim-start'') (\<lambda>claimStart.
     rbind (bigArg argv ''claim-deadline'') (\<lambda>claimDeadline.
     Inr \<lparr>sr_chainId = chainId, sr_lockingVault = vault, sr_claimManager = manager, sr_snapshotBlock = block,
       sr_expectedBlockHash = hash, sr_enumerationStartBlock = start, sr_distributionAsset = asset,
       sr_distributionAmount = amount, sr_cycleId = cycleId, sr_claimStart = claimStart,
       sr_claimDeadline = claimDeadline\<rparr>)))))))))))"

text \<open>The endpoint of the logs: the value of the variable that \<open>--logs-rpc-env\<close> names.\<close>

definition logsRpcOf :: "(string \<Rightarrow> string option) \<Rightarrow> string list \<Rightarrow> cli_end + string option" where
  "logsRpcOf env argv = (case optArg ''logs-rpc-env'' argv of
     None \<Rightarrow> Inr None
   | Some name \<Rightarrow>
       if env name = None \<or> env name = Some []
       then Inl (ExitOne (''FAIL: --logs-rpc-env named '' @ name @ '' but that variable is not set''))
       else Inr (env name))"

definition UNSIGNED_CLASSIFICATION :: string where
  "UNSIGNED_CLASSIFICATION =
     ''UNSIGNED_DO_NOT_BROADCAST '' @ emdash @ '' NOT AUTHORIZED FOR PUBLICATION '' @ emdash
     @ '' LEGAL ELIGIBILITY UNVERIFIED''"

definition AUTHORITY_NOTE :: string where
  "AUTHORITY_NOTE = ''publishCycle is onlyOwner on DistributionClaimManager; the owner is the DistributionFundingCoordinator, whose authorized human path is rootPublisher -> fundRecordedAcquisition bound to a RECORDED acquisition. No such acquisition exists; this payload is evidence of shape only and cannot be executed as-is.''"

definition publicationJson :: "UnsignedPublication \<Rightarrow> Json" where
  "publicationJson u = (let p = un_arguments u in JObj
     [(''schemaVersion'', JStr ''bps.snapshot.unsigned-publication/1''),
      (''classification'', JStr UNSIGNED_CLASSIFICATION),
      (''chainId'', JStr (un_chainId u)), (''to'', JStr (un_to u)), (''value'', JStr (un_value u)),
      (''functionSignature'', JStr ''publishCycle(uint256,bytes32,bytes32,bytes32,uint64,uint64,address[],uint256[])''),
      (''decodedArguments'', JObj
        [(''cycleId'', s (pu_cycleId p)), (''merkleRoot'', JStr (pu_merkleRoot p)),
         (''allocationsContentHash'', JStr (pu_allocationsContentHash p)),
         (''manifestEnvelopeHash'', JStr (pu_manifestEnvelopeHash p)),
         (''claimStart'', s (pu_claimStart p)), (''claimDeadline'', s (pu_claimDeadline p)),
         (''assets'', JArr (map JStr (pu_assets p))), (''fundedAmounts'', JArr (map s (pu_fundedAmounts p)))]),
      (''encodedCalldata'', JStr (un_encodedCalldata u)), (''snapshotBlock'', JStr (un_snapshotBlock u)),
      (''snapshotBlockHash'', JStr (un_snapshotBlockHash u)), (''merkleRoot'', JStr (un_merkleRoot u)),
      (''cycleId'', JStr (un_cycleId u)), (''distributionAsset'', JStr (un_distributionAsset u)),
      (''distributionAmount'', JStr (un_distributionAmount u)),
      (''canonicalSnapshotDigest'', JStr (un_canonicalSnapshotDigest u)),
      (''authorityNote'', JStr AUTHORITY_NOTE)])"

text \<open>The only file with the time of the run, \<open>now\<close>.\<close>

definition envelopeJson :: "string \<Rightarrow> SnapshotRunResult \<Rightarrow> Json" where
  "envelopeJson now res = JObj
     [(''schemaVersion'', JStr ''bps.snapshot.evidence-envelope/1''), (''generatedUtc'', JStr now),
      (''observedChainHead'', JStr (rs_observedChainHead res)),
      (''canonicalSnapshotDigest'', JStr (rs_canonicalSnapshotDigest res)),
      (''proofBundleDigest'', JStr (rs_proofBundleDigest res)),
      (''onchainLeafParity'', JObj [(''checked'', JNum (int (rs_checked res))), (''matched'', JNum (int (rs_matched res)))]),
      (''classification'', JStr CLASSIFICATION)]"

definition uncaught :: "snapshot_error + 'a \<Rightarrow> cli_end + 'a" where
  "uncaught x = (case x of Inl e \<Rightarrow> Inl (Uncaught (Some e)) | Inr a \<Rightarrow> Inr a)"

definition filesOf :: "SnapshotRunResult \<Rightarrow> snapshot_error + (string \<times> string) list" where
  "filesOf res =
     rbind (shared (canonicalStringify (snapshotJson (rs_snapshot res)))) (\<lambda>snapshot.
     rbind (shared (canonicalStringify (bundleJson (rs_proofBundle res)))) (\<lambda>bundle.
     rbind (shared (canonicalStringify (publicationJson (rs_unsignedPublication res)))) (\<lambda>publication.
     Inr [(''canonical-snapshot.json'', snapshot), (''proof-bundle.json'', bundle),
       (''unsigned-publication.json'', publication)])))"

text \<open>
  The files a run writes into the directory \<open>--out-dir\<close>. The writing itself is not modelled: a directory that
  cannot be made or a file that cannot be written ends the process outside this model.
\<close>

definition snapshotCli :: "(string \<Rightarrow> 'd RpcClient) \<Rightarrow> 'd AbiCoder \<Rightarrow> Viem \<Rightarrow> TreeLib \<Rightarrow> (string \<Rightarrow> string)
    \<Rightarrow> (PublishArguments \<Rightarrow> snapshot_error + string) \<Rightarrow> (string \<Rightarrow> string option) \<Rightarrow> string \<Rightarrow> string list
    \<Rightarrow> cli_end + string \<times> (string \<times> string) list" where
  "snapshotCli connect abi v oz keccak encodePublish env now argv =
     (case env ''ROBINHOOD_CHAIN_RPC_URL'' of
        None \<Rightarrow> Inl (ExitOne ''FAIL: ROBINHOOD_CHAIN_RPC_URL not set'')
      | Some rpc \<Rightarrow>
          if rpc = [] then Inl (ExitOne ''FAIL: ROBINHOOD_CHAIN_RPC_URL not set'')
          else
            rbind (requestOf argv) (\<lambda>req.
            rbind (argOf argv ''out-dir'') (\<lambda>outDir.
            rbind (logsRpcOf env argv) (\<lambda>logsRpc.
            let r = newReader connect rpc (sr_lockingVault req) (sr_claimManager req) (sr_snapshotBlock req) logsRpc in
            rbind (uncaught (runSnapshotPipeline v oz keccak encodePublish (rpcReader abi r) req)) (\<lambda>res.
            rbind (uncaught (filesOf res)) (\<lambda>files.
            rbind (uncaught (shared (canonicalStringify (envelopeJson now res)))) (\<lambda>envelope.
            Inr (outDir, files @ [(''evidence-envelope.json'', envelope)]))))))))"


section \<open>What a scan returns\<close>

text \<open>The records of the logs of a list, in order, and the logs of a range of blocks.\<close>

definition recordOf :: "'d AbiCoder \<Rightarrow> string \<Rightarrow> VaultLog \<Rightarrow> LockCreatedRecord list" where
  "recordOf abi eventName l =
     (case (ab_decodeEventLog abi l, vl_blockNumber l, vl_logIndex l) of
        (Some e, Some block, Some idx) \<Rightarrow>
          if ve_eventName e = eventName
          then [\<lparr>lc_account = ve_account e, lc_lockId = ve_lockId e, lc_blockNumber = block, lc_logIndex = idx\<rparr>] else []
      | _ \<Rightarrow> [])"

definition recordsOf :: "'d AbiCoder \<Rightarrow> string \<Rightarrow> VaultLog list \<Rightarrow> LockCreatedRecord list" where
  "recordsOf abi eventName logs = concat (map (recordOf abi eventName) logs)"

definition within :: "int \<Rightarrow> int \<Rightarrow> VaultLog \<Rightarrow> bool" where
  "within a z l \<longleftrightarrow> (case vl_blockNumber l of None \<Rightarrow> False | Some n \<Rightarrow> a \<le> n \<and> n \<le> z)"

definition mined :: "VaultLog \<Rightarrow> bool" where
  "mined l \<longleftrightarrow> vl_blockNumber l \<noteq> None \<and> vl_logIndex l \<noteq> None"

text \<open>
  What an endpoint promises for a range of blocks: a query of any part of it returns the logs of the vault in
  that part, in chain order.
\<close>

definition servesLogs :: "'d RpcClient \<Rightarrow> string \<Rightarrow> int \<Rightarrow> int \<Rightarrow> VaultLog list \<Rightarrow> bool" where
  "servesLogs c vault a z history \<longleftrightarrow>
     list_all mined history \<and> sorted (map (\<lambda>l. the (vl_blockNumber l)) history) \<and>
     (\<forall>x y. a \<le> x \<and> x \<le> y \<and> y \<le> z \<longrightarrow> rk_getLogs c vault x y = Inr (filter (within x y) history))"

lemma scanLog_fold:
  "list_all mined logs \<Longrightarrow> rfold (scanLog abi eventName) out logs = Inr (out @ recordsOf abi eventName logs)"
proof (induction logs arbitrary: out)
  case (Cons l logs)
  then have "scanLog abi eventName out l = Inr (out @ recordOf abi eventName l)"
    by (auto simp: scanLog_def recordOf_def mined_def split: option.splits)
  with Cons show ?case by (simp add: recordsOf_def)
qed (simp add: recordsOf_def)

lemma within_split:
  assumes "list_all mined history" "sorted (map (\<lambda>l. the (vl_blockNumber l)) history)" and "a \<le> m" "m \<le> z"
  shows "filter (within a z) history = filter (within a m) history @ filter (within (m + 1) z) history"
  using assms(1,2)
proof (induction history)
  case (Cons l history)
  obtain n where n: "vl_blockNumber l = Some n" using Cons.prems(1) by (auto simp: mined_def)
  have later: "n \<le> the (vl_blockNumber x)" if "x \<in> set history" for x
    using Cons.prems(2) n that by auto
  have at_l: "within x y l \<longleftrightarrow> x \<le> n \<and> n \<le> y" for x y by (simp add: within_def n)
  have IH: "filter (within a z) history = filter (within a m) history @ filter (within (m + 1) z) history"
    using Cons by simp
  show ?case
  proof (cases "m < n")
    case True
    then have "\<not> within a m x" if "x \<in> set history" for x
      using later [OF that] by (auto simp: within_def split: option.split)
    then have none: "filter (within a m) history = []" by (simp add: filter_empty_conv)
    from True show ?thesis using assms(3,4) IH none by (auto simp: at_l)
  qed (use IH assms(3,4) in \<open>auto simp: at_l\<close>)
qed simp

lemma filter_mined: "list_all mined history \<Longrightarrow> list_all mined (filter f history)"
  by (simp add: list_all_iff)

lemma scanWindows_exact:
  assumes "servesLogs (logsClient r) (ru_vault r) a z history" and "a \<le> start"
  shows "scanWindows abi r eventName start z out = Inr (out @ recordsOf abi eventName (filter (within start z) history))"
  using assms(2)
proof (induction "nat (z + 1 - start)" arbitrary: start out rule: less_induct)
  case less
  note serves = assms(1) [unfolded servesLogs_def]
  show ?case
  proof (cases "start \<le> z")
    case False
    then have "filter (within start z) history = []"
      by (auto simp: filter_empty_conv within_def split: option.splits)
    with False show ?thesis by (subst scanWindows.simps) (simp add: recordsOf_def)
  next
    case True
    define stop where "stop = (if start + LOG_CHUNK > z then z else start + LOG_CHUNK)"
    have stop: "start \<le> stop" "stop \<le> z" using True by (auto simp: stop_def LOG_CHUNK_def)
    have here: "rk_getLogs (logsClient r) (ru_vault r) start stop = Inr (filter (within start stop) history)"
      using serves stop less(2) by simp
    have rest: "filter (within (start + (LOG_CHUNK + 1)) z) history = filter (within (stop + 1) z) history"
      by (rule filter_cong) (auto simp: stop_def within_def LOG_CHUNK_def split: option.splits)
    have "nat (z + 1 - (start + (LOG_CHUNK + 1))) < nat (z + 1 - start)"
      using True by (simp add: LOG_CHUNK_def)
    note next_window = less(1) [OF this]
    have split: "recordsOf abi eventName (filter (within start z) history) =
        recordsOf abi eventName (filter (within start stop) history) @
        recordsOf abi eventName (filter (within (start + (LOG_CHUNK + 1)) z) history)"
      unfolding rest using within_split [of history start stop z] serves stop by (simp add: recordsOf_def)
    have "a \<le> start + (LOG_CHUNK + 1)" using less(2) by (simp add: LOG_CHUNK_def)
    note next_window = next_window [OF this]
    have fold: "rfold (scanLog abi eventName) out (filter (within start stop) history) =
        Inr (out @ recordsOf abi eventName (filter (within start stop) history))"
      using serves by (intro scanLog_fold filter_mined) simp
    show ?thesis
      unfolding scanWindows.simps [of abi r eventName start] split Let_def stop_def [symmetric]
      using True by (simp only: if_True here awaited_def sum.case fold next_window append_assoc)
  qed
qed

text \<open>
  A scan of the reader always ends, and returns exactly the events of the chain: if the endpoint for logs
  answers every query within the range by the logs of the vault there, the scan checks the endpoints and
  then returns one record for every event of that name in the range, in chain order - no event is lost or
  repeated at the edge of a window.
\<close>

theorem scan_exact:
  assumes "servesLogs (logsClient r) (ru_vault r) a z history"
  shows "scan abi r verified eventName a z =
    rbind (assertLogsEndpointChain r verified) (\<lambda>_. Inr (recordsOf abi eventName (filter (within a z) history)))"
  using scanWindows_exact [OF assms order_refl] by (simp add: scan_def)

lemma scan_verified: "assertLogsEndpointChain r False = Inr u \<Longrightarrow> scan abi r True n a z = scan abi r False n a z"
  by (simp add: scan_def assertLogsEndpointChain_def)

section \<open>A snapshot of the chain\<close>

text \<open>The accounts with an event of a new lock in a range of blocks.\<close>

definition lockers :: "'d AbiCoder \<Rightarrow> VaultLog list \<Rightarrow> int \<Rightarrow> int \<Rightarrow> string set" where
  "lockers abi history a z =
     {lower (ve_account e) | l e. l \<in> set history \<and> within a z l \<and> ab_decodeEventLog abi l = Some e \<and>
        ve_eventName e = ''LockCreated''}"

lemma lockers_records:
  assumes "list_all mined history"
  shows "(\<lambda>x. lower (lc_account x)) ` {x \<in> set (recordsOf abi ''LockCreated'' (filter (within a z) history)).
      lc_blockNumber x \<le> z} = lockers abi history a z" (is "?L = ?R")
proof (intro equalityI subsetI)
  fix y assume "y \<in> ?L"
  then show "y \<in> ?R"
    by (fastforce simp: recordsOf_def recordOf_def lockers_def split: option.splits if_splits)
next
  fix y assume "y \<in> ?R"
  then obtain l e where l: "l \<in> set history" "within a z l" "ab_decodeEventLog abi l = Some e"
    "ve_eventName e = ''LockCreated''" "y = lower (ve_account e)" by (auto simp: lockers_def)
  obtain n i where "vl_blockNumber l = Some n" "vl_logIndex l = Some i"
    using assms l(1) by (auto simp: list_all_iff mined_def)
  then show "y \<in> ?L"
    using l by (intro image_eqI [of _ _ "\<lparr>lc_account = ve_account e, lc_lockId = ve_lockId e, lc_blockNumber = n, lc_logIndex = i\<rparr>"])
      (auto simp: recordsOf_def recordOf_def within_def intro!: bexI [of _ l])
qed

text \<open>
  C29: A snapshot taken with the RPC reader is the one of the chain: when the endpoint for logs answers by the
  logs of the vault, a run that succeeds entitles exactly the accounts with a lock event between the start
  block and the pin, once each, to the floor of their share by the weight the vault reports at the pin, when
  that floor is positive.
\<close>

theorem rpc_snapshot_of_chain:
  assumes run: "runSnapshotPipeline v oz keccak encodePublish (rpcReader abi r) req = Inr res"
    and serves: "servesLogs (logsClient r) (ru_vault r) (sr_enumerationStartBlock req) (sr_snapshotBlock req) history"
  shows "\<exists>header f.
    rk_getBlock (ru_client r) (sr_snapshotBlock req) = Inr header \<and>
    lower (bh_hash header) = lower (sr_expectedBlockHash req) \<and>
    (let accounts = lockers abi history (sr_enumerationStartBlock req) (sr_snapshotBlock req);
         total = (\<Sum>a\<in>accounts. f a)
     in (\<forall>a\<in>accounts. pinned_weight (rpcReader abi r) (bh_timestamp header) (sr_snapshotBlock req) a (f a)) \<and>
        distinct (map pe_address (pb_participants (rs_proofBundle res))) \<and>
        (\<lambda>p. (pe_address p, pe_entitlement p)) ` set (pb_participants (rs_proofBundle res)) =
          (\<lambda>a. (a, dec_of_int (sr_distributionAmount req * f a div total))) `
            {a \<in> accounts. 0 < sr_distributionAmount req * f a div total})"
proof -
  let ?a = "sr_enumerationStartBlock req" and ?z = "sr_snapshotBlock req"
  obtain header created f where
    header: "cr_block (rpcReader abi r) ?z = Inr (Some header)" "lower (bh_hash header) = lower (sr_expectedBlockHash req)"
    and created: "cr_lockCreated (rpcReader abi r) ?a ?z = Inr created"
    and rest: "let accounts = (\<lambda>r. lower (lc_account r)) ` {r \<in> set created. lc_blockNumber r \<le> ?z};
         total = (\<Sum>a\<in>accounts. f a)
     in (\<forall>a\<in>accounts. pinned_weight (rpcReader abi r) (bh_timestamp header) ?z a (f a)) \<and>
        distinct (map pe_address (pb_participants (rs_proofBundle res))) \<and>
        (\<lambda>p. (pe_address p, pe_entitlement p)) ` set (pb_participants (rs_proofBundle res)) =
          (\<lambda>a. (a, dec_of_int (sr_distributionAmount req * f a div total))) `
            {a \<in> accounts. 0 < sr_distributionAmount req * f a div total}"
    using run_entitlements [OF run] by blast
  have "created = recordsOf abi ''LockCreated'' (filter (within ?a ?z) history)"
    using created scanWindows_exact [OF serves order_refl] by (auto simp: rpcReader_def scan_def rbind_eq_Inr)
  then have "(\<lambda>r. lower (lc_account r)) ` {r \<in> set created. lc_blockNumber r \<le> ?z} = lockers abi history ?a ?z"
    by (simp only: lockers_records [OF conjunct1 [OF serves [unfolded servesLogs_def]]])
  note rest = rest [unfolded this]
  have "rk_getBlock (ru_client r) ?z = Inr header"
    using header(1) by (auto simp: rpcReader_def blockAt_def split: sum.splits)
  with header(2) rest show ?thesis by (intro exI [of _ header] exI [of _ f] conjI)
qed

section \<open>What the command line writes\<close>

lemma run_digests:
  assumes "runSnapshotPipeline v oz keccak encodePublish reader req = Inr res"
  shows "keccakOfCanonical keccak (snapshotJson (rs_snapshot res)) = Inr (rs_canonicalSnapshotDigest res)"
    and "keccakOfCanonical keccak (bundleJson (rs_proofBundle res)) = Inr (rs_proofBundleDigest res)"
    and "pu_allocationsContentHash (un_arguments (rs_unsignedPublication res)) = rs_canonicalSnapshotDigest res"
    and "pu_manifestEnvelopeHash (un_arguments (rs_unsignedPublication res)) = rs_proofBundleDigest res"
    and "encodePublish (un_arguments (rs_unsignedPublication res)) =
      Inr (un_encodedCalldata (rs_unsignedPublication res))"
proof -
  obtain manager snapshot ps matched head where
    "assemble keccak encodePublish req manager snapshot ps matched head = Inr res"
    using assms unfolding runSnapshotPipeline_def Let_def
    by (clarsimp simp only: rbind_eq_Inr split_paired_Ex prod.case simp_thms ex_simps)
  then show "keccakOfCanonical keccak (snapshotJson (rs_snapshot res)) = Inr (rs_canonicalSnapshotDigest res)"
    "keccakOfCanonical keccak (bundleJson (rs_proofBundle res)) = Inr (rs_proofBundleDigest res)"
    "pu_allocationsContentHash (un_arguments (rs_unsignedPublication res)) = rs_canonicalSnapshotDigest res"
    "pu_manifestEnvelopeHash (un_arguments (rs_unsignedPublication res)) = rs_proofBundleDigest res"
    "encodePublish (un_arguments (rs_unsignedPublication res)) =
      Inr (un_encodedCalldata (rs_unsignedPublication res))"
    by (auto simp: assemble_def rbind_eq_Inr Let_def publishArguments_def)
qed

lemma json_text: "json_safe j \<Longrightarrow> \<exists>t. canonicalStringify j = Inr t"
  using canonicalStringify_total unfolding is_ok_iff by blast

lemma keccakOfCanonical_Inr:
  "keccakOfCanonical keccak j = Inr d \<Longrightarrow> \<exists>t. canonicalStringify j = Inr t \<and> keccakOfString keccak t = d"
  by (auto simp: keccakOfCanonical_def rbind_eq_Inr)

lemma publicationJson_safe: "json_safe (publicationJson u)"
  by (simp add: publicationJson_def Let_def list_all_iff)

lemma envelopeJson_safe: "json_safe (envelopeJson now res)"
  by (simp add: envelopeJson_def)

lemma uncaught_Inr [simp]: "uncaught (Inr a) = Inr a"
  by (simp add: uncaught_def)

lemma uncaught_eq_Inr [simp]: "uncaught r = Inr a \<longleftrightarrow> r = Inr a"
  by (simp add: uncaught_def split: sum.split)

text \<open>The arguments and the environment are accepted, and the run over the reader of the pinned block succeeds.\<close>

definition cliRuns :: "(string \<Rightarrow> 'd RpcClient) \<Rightarrow> 'd AbiCoder \<Rightarrow> Viem \<Rightarrow> TreeLib \<Rightarrow> (string \<Rightarrow> string)
    \<Rightarrow> (PublishArguments \<Rightarrow> snapshot_error + string) \<Rightarrow> (string \<Rightarrow> string option) \<Rightarrow> string list
    \<Rightarrow> string \<Rightarrow> SnapshotRunResult \<Rightarrow> bool" where
  "cliRuns connect abi v oz keccak encodePublish env argv outDir res \<longleftrightarrow>
    (\<exists>rpc req logsRpc. env ''ROBINHOOD_CHAIN_RPC_URL'' = Some rpc \<and> rpc \<noteq> [] \<and>
       requestOf argv = Inr req \<and> argOf argv ''out-dir'' = Inr outDir \<and> logsRpcOf env argv = Inr logsRpc \<and>
       runSnapshotPipeline v oz keccak encodePublish (rpcReader abi (newReader connect rpc (sr_lockingVault req)
         (sr_claimManager req) (sr_snapshotBlock req) logsRpc)) req = Inr res)"

lemma snapshotCli_run:
  "snapshotCli connect abi v oz keccak encodePublish env now argv = Inr (outDir, files) \<longleftrightarrow>
    (\<exists>res. cliRuns connect abi v oz keccak encodePublish env argv outDir res \<and>
       rbind (uncaught (filesOf res)) (\<lambda>files. rbind (uncaught (shared (canonicalStringify (envelopeJson now res))))
        (\<lambda>envelope. Inr (outDir, files @ [(''evidence-envelope.json'', envelope)]))) = Inr (outDir, files))"
  by (fastforce simp: snapshotCli_def cliRuns_def Let_def rbind_eq_Inr split: option.splits if_splits)

lemma cliRuns_digests:
  assumes "cliRuns connect abi v oz keccak encodePublish env argv outDir res"
  shows "\<exists>t1 t2. canonicalStringify (snapshotJson (rs_snapshot res)) = Inr t1 \<and>
      canonicalStringify (bundleJson (rs_proofBundle res)) = Inr t2 \<and>
      pu_allocationsContentHash (un_arguments (rs_unsignedPublication res)) = keccakOfString keccak t1 \<and>
      pu_manifestEnvelopeHash (un_arguments (rs_unsignedPublication res)) = keccakOfString keccak t2 \<and>
      encodePublish (un_arguments (rs_unsignedPublication res)) =
        Inr (un_encodedCalldata (rs_unsignedPublication res))"
  using assms keccakOfCanonical_Inr run_digests unfolding cliRuns_def by metis

text \<open>
  C32: The command line writes exactly what a run produced. It succeeds exactly when its arguments parse, the
  endpoints are set and the pipeline succeeds over the reader of the pinned block: no artifact of such a
  run fails to serialize. What it writes are the canonical texts of the three artifacts and of the envelope; the
  arguments of the unsigned publication, the ones its calldata encodes, commit to the very texts of the
  first two files, and the time of the run is in the envelope only.
\<close>

theorem snapshotCli_artifacts:
  "(snapshotCli connect abi v oz keccak encodePublish env now argv = Inr (outDir, files) \<longleftrightarrow>
    (\<exists>res snapshot bundle publication envelope.
       cliRuns connect abi v oz keccak encodePublish env argv outDir res \<and>
       files = [(''canonical-snapshot.json'', snapshot), (''proof-bundle.json'', bundle),
         (''unsigned-publication.json'', publication), (''evidence-envelope.json'', envelope)] \<and>
       canonicalStringify (snapshotJson (rs_snapshot res)) = Inr snapshot \<and>
       canonicalStringify (bundleJson (rs_proofBundle res)) = Inr bundle \<and>
       canonicalStringify (publicationJson (rs_unsignedPublication res)) = Inr publication \<and>
       canonicalStringify (envelopeJson now res) = Inr envelope \<and>
       pu_allocationsContentHash (un_arguments (rs_unsignedPublication res)) = keccakOfString keccak snapshot \<and>
       pu_manifestEnvelopeHash (un_arguments (rs_unsignedPublication res)) = keccakOfString keccak bundle \<and>
       encodePublish (un_arguments (rs_unsignedPublication res)) =
         Inr (un_encodedCalldata (rs_unsignedPublication res)))) \<and>
   (is_ok (snapshotCli connect abi v oz keccak encodePublish env now argv) \<longleftrightarrow>
    (\<exists>outDir res. cliRuns connect abi v oz keccak encodePublish env argv outDir res))" (is "?files \<and> ?ok")
proof
  show ?files
    unfolding snapshotCli_run
    by (rule arg_cong [where f = Ex], rule ext)
      (auto simp: filesOf_def rbind_eq_Inr dest: cliRuns_digests)
  show ?ok
  proof
    assume "is_ok (snapshotCli connect abi v oz keccak encodePublish env now argv)"
    then show "\<exists>outDir res. cliRuns connect abi v oz keccak encodePublish env argv outDir res"
      using snapshotCli_run by (fastforce simp: is_ok_iff)
  next
    assume "\<exists>outDir res. cliRuns connect abi v oz keccak encodePublish env argv outDir res"
    then obtain outDir res where run: "cliRuns connect abi v oz keccak encodePublish env argv outDir res" by blast
    obtain a d c e where "canonicalStringify (snapshotJson (rs_snapshot res)) = Inr a"
        "canonicalStringify (bundleJson (rs_proofBundle res)) = Inr d"
        "canonicalStringify (publicationJson (rs_unsignedPublication res)) = Inr c"
        "canonicalStringify (envelopeJson now res) = Inr e"
      using json_text snapshotJson_safe bundleJson_safe publicationJson_safe envelopeJson_safe by metis
    with run have "\<exists>files. snapshotCli connect abi v oz keccak encodePublish env now argv = Inr (outDir, files)"
      unfolding snapshotCli_run by (intro exI conjI) (auto simp: filesOf_def)
    then show "is_ok (snapshotCli connect abi v oz keccak encodePublish env now argv)" by (auto simp: is_ok_iff)
  qed
qed

section \<open>A concrete run\<close>

text \<open>A chain whose logs name the account in the data and the event in the first topic.\<close>

definition ex_log :: "char \<Rightarrow> int \<Rightarrow> VaultLog" where
  "ex_log c n = \<lparr>vl_data = ex_account c, vl_topics = [''LockCreated''], vl_blockNumber = Some n, vl_logIndex = Some 0\<rparr>"

definition ex_history :: "VaultLog list" where
  "ex_history = [ex_log (CHR ''B'') 5, ex_log (CHR ''a'') 6, ex_log (CHR ''b'') 9, ex_log (CHR ''e'') 9, ex_log (CHR ''d'') 11]"

definition ex_abi :: "ViewCall AbiCoder" where
  "ex_abi =
     \<lparr>ab_decodeEventLog = (\<lambda>l. case vl_topics l of [] \<Rightarrow> None
        | n # _ \<Rightarrow> Some \<lparr>ve_eventName = n, ve_account = vl_data l, ve_lockId = 0\<rparr>),
      ab_encodeFunctionData = Inr\<rparr>"

definition ex_answer :: "ViewCall \<Rightarrow> string" where
  "ex_answer c = (case c of
     LockCount _ \<Rightarrow> ''0x1''
   | PositionWeightAt a _ _ \<Rightarrow> if a = ex_account (CHR ''a'') then ''0x2'' else
       if a = ex_account (CHR ''b'') then ''0x1'' else ''0x0''
   | LeafFor _ wallet asset amount \<Rightarrow>
       (case viemLeafHashRaw toy_viem (fieldsOf ex_request (ex_account (CHR ''2'')) asset wallet amount) of
          None \<Rightarrow> ''0x'' | Some leaf \<Rightarrow> leaf))"

definition ex_client :: "ViewCall RpcClient" where
  "ex_client =
     \<lparr>rk_getChainId = Inr 7,
      rk_getBlock = (\<lambda>n. Inr \<lparr>bh_hash = ''0x'' @ replicate 64 (CHR ''C''), bh_timestamp = 500\<rparr>),
      rk_getCode = (\<lambda>a n. Inr (Some (if 4 \<le> n then ''0x60'' else ''0x''))),
      rk_getLogs = (\<lambda>a x y. Inr (filter (within x y) ex_history)),
      rk_call = (\<lambda>to d n. Inr (Some (ex_answer d))),
      rk_getBlockNumber = Inr 12\<rparr>"

definition ex_rpc :: "ViewCall RpcChainReader" where
  "ex_rpc = newReader (\<lambda>_. ex_client) ''u'' (ex_account (CHR ''1'')) (ex_account (CHR ''2'')) 10 (Some ''w'')"

definition ex_rpc_weighed :: Weighed where
  "ex_rpc_weighed = (case weighCandidates (rpcReader ex_abi ex_rpc) ex_request 500 of Inr w \<Rightarrow> w
     | Inl _ \<Rightarrow> \<lparr>we_created = [], we_withdrawn = [], we_candidates = [], we_participants = [],
         we_zeroWeight = 0, we_totalWeight = 0\<rparr>)"

lemma ex_serves: "servesLogs (logsClient ex_rpc) (ru_vault ex_rpc) 4 10 ex_history"
proof -
  have "list_all mined ex_history" "sorted (map (\<lambda>l. the (vl_blockNumber l)) ex_history)" by code_simp+
  then show ?thesis by (simp add: servesLogs_def ex_rpc_def newReader_def logsClient_def ex_client_def)
qed

lemma ex_rpc_hyps:
  "chainGuards (rpcReader ex_abi ex_rpc) ex_request =
     Inr (\<lparr>bh_hash = ''0x'' @ replicate 64 (CHR ''C''), bh_timestamp = 500\<rparr>, 12)"
  "is_ok (weighCandidates (rpcReader ex_abi ex_rpc) ex_request 500)"
  "list_all (\<lambda>r. isHexAddress (lc_account r)) (we_withdrawn ex_rpc_weighed)"
  "list_ex (\<lambda>p. we_totalWeight ex_rpc_weighed \<le> sr_distributionAmount ex_request * weight_of p)
     (we_participants ex_rpc_weighed)"
  by code_simp+

lemma ex_rpc_weighed: "weighCandidates (rpcReader ex_abi ex_rpc) ex_request 500 = Inr ex_rpc_weighed"
  using ex_rpc_hyps(2) by (auto simp: ex_rpc_weighed_def is_ok_iff)

lemma ex_rpc_leaf_contract: "leaf_contract toy_viem (rpcReader ex_abi ex_rpc) ex_request"
proof -
  have manager: "normalizeAddress (sr_claimManager ex_request) = Inr (ex_account (CHR ''2''))" by code_simp
  have pin: "ru_pinBlock ex_rpc = sr_snapshotBlock ex_request" by code_simp
  show ?thesis
    by (simp add: leaf_contract_def manager rpcReader_def readView_def pin pinnedCall_def awaited_def ex_abi_def)
      (simp add: ex_rpc_def newReader_def ex_client_def ex_answer_def)
qed

lemma ex_rpc_run:
  obtains res where
    "runSnapshotPipeline toy_viem toy_oz toy_keccak ex_publish (rpcReader ex_abi ex_rpc) ex_request = Inr res"
  using run_ok_iff [OF ex_run_hyps(1) ex_rpc_hyps(1) _ ex_rpc_hyps(3) toy_documented ex_rpc_leaf_contract
      ex_publish_documented toy_keccak_words] ex_rpc_weighed ex_rpc_hyps(4) ex_run_hyps(6)
  by (auto simp: list_ex_iff is_ok_iff)

theorem scan_exact_witness:
  "scan ex_abi ex_rpc False ''LockCreated'' 4 10 =
     Inr (map (\<lambda>(c, n). \<lparr>lc_account = ex_account c, lc_lockId = 0, lc_blockNumber = n, lc_logIndex = 0\<rparr>)
       [(CHR ''B'', 5), (CHR ''a'', 6), (CHR ''b'', 9), (CHR ''e'', 9)])"
  unfolding scan_exact [OF ex_serves] by code_simp

theorem rpc_snapshot_of_chain_witness:
  "\<exists>res. runSnapshotPipeline toy_viem toy_oz toy_keccak ex_publish (rpcReader ex_abi ex_rpc) ex_request = Inr res \<and>
     distinct (map pe_address (pb_participants (rs_proofBundle res)))"
proof -
  obtain res where r: "runSnapshotPipeline toy_viem toy_oz toy_keccak ex_publish (rpcReader ex_abi ex_rpc) ex_request = Inr res"
    by (rule ex_rpc_run)
  have "servesLogs (logsClient ex_rpc) (ru_vault ex_rpc) (sr_enumerationStartBlock ex_request)
      (sr_snapshotBlock ex_request) ex_history" using ex_serves by (simp add: ex_request_def)
  from rpc_snapshot_of_chain [OF r this] r show ?thesis unfolding Let_def by blast
qed

text \<open>The command line that asks for the same snapshot, with its own endpoint for the logs.\<close>

definition ex_env :: "string \<Rightarrow> string option" where
  "ex_env n = (if n = ''ROBINHOOD_CHAIN_RPC_URL'' then Some ''u'' else if n = ''LOGS_RPC'' then Some ''w'' else None)"

definition ex_argv :: "string list" where
  "ex_argv = [''node'', ''snapshot-cli.ts'', ''--chain-id'', ''7'', ''--vault'', ex_account (CHR ''1''),
     ''--manager'', ex_account (CHR ''2''), ''--block'', ''0xa'', ''--block-hash'', ''0x'' @ replicate 64 (CHR ''c''),
     ''--start-block'', ''4'', ''--asset'', ex_account (CHR ''3''), ''--amount'', ''100'', ''--cycle-id'', ''1'',
     ''--claim-start'', ''20'', ''--claim-deadline'', ''30'', ''--logs-rpc-env'', ''LOGS_RPC'', ''--out-dir'', ''out'']"

theorem snapshotCli_artifacts_witness:
  "is_ok (snapshotCli (\<lambda>_. ex_client) ex_abi toy_viem toy_oz toy_keccak ex_publish ex_env ''now'' ex_argv) \<and>
   requestOf (take 27 ex_argv) = Inr ex_request \<and>
   argOf (take 27 ex_argv) ''out-dir'' = Inl (ExitOne ''FAIL: missing required argument --out-dir'')"
proof -
  obtain res where "runSnapshotPipeline toy_viem toy_oz toy_keccak ex_publish (rpcReader ex_abi ex_rpc) ex_request = Inr res"
    by (rule ex_rpc_run)
  moreover have "requestOf ex_argv = Inr ex_request" "argOf ex_argv ''out-dir'' = Inr ''out''"
    "logsRpcOf ex_env ex_argv = Inr (Some ''w'')" by code_simp+
  ultimately have "cliRuns (\<lambda>_. ex_client) ex_abi toy_viem toy_oz toy_keccak ex_publish ex_env ex_argv ''out'' res"
    by (simp add: cliRuns_def ex_env_def) (simp add: ex_rpc_def ex_request_def)
  moreover have "requestOf (take 27 ex_argv) = Inr ex_request"
    "argOf (take 27 ex_argv) ''out-dir'' = Inl (ExitOne ''FAIL: missing required argument --out-dir'')" by code_simp+
  ultimately show ?thesis
    using snapshotCli_artifacts [THEN conjunct2, THEN iffD2] by blast
qed

end
