(* ===== verification/Spec2Isabelle.thy ===== *)
theory Spec2Isabelle
  imports PodPipeline PriceGuard Registry Settlement Claim Canary Lifecycle Transparency PreflightCli OperatorExample RecoverySafety RpcReader
begin

text \<open>
  A verification library of the bps-protocol repository: the TypeScript that decides who gets what of a
  distribution, whether a settlement of the treasury may run, and what the web application lets a wallet do.

  \<^bold>\<open>The program.\<close> Five parts. (1) \<open>packages/shared/src/proof-of-distribution\<close>: from a fixture of locks,
  transfers, eligibility and funded assets it computes time weights, allocates every asset, builds a Merkle
  tree, writes artifacts and verifies them again; \<open>packages/pilot\<close> runs it. (2) \<open>apps/indexer\<close>: the same
  allocation bound to a block of the chain, with proofs checked against the on-chain leaf. (3)
  \<open>packages/rialto\<close>: the guards around a quote and its settlement, a preflight of the canary and the retired
  quote evaluation. (4) \<open>apps/web/lib\<close>: deployment and canary write gates, chain reads, trades, locks,
  eligibility, claims, transparency and the transaction lifecycle. (5) the operator of the canary packet:
  one reviewed packet of transactions, handed to a wallet one by one. Parts (1), (2) and (4) meet in the
  claim leaf: what (2) publishes with the tree of (1) is what (4) verifies.

  \<^bold>\<open>Theories and files.\<close>
  \<^item> \<open>Prelude\<close>: results (\<open>'e + 'a\<close> with \<open>rbind\<close>, \<open>rmap\<close>, \<open>rfold\<close>), texts and decimals, the stable sort of the
    language over a comparator (locale with its interpretations), insertion-ordered maps and sets.
  \<^item> \<open>PodModel\<close> (model, numeric, address, epoch, constants, errors), \<open>Validate\<close> (schemas, validate),
    \<open>Transfers\<close> and \<open>Twab\<close> (twab), \<open>Allocation\<close> (eligibility, allocation, reconciliation), \<open>Merkle\<close> (merkle,
    independent-verify, viem-verify), \<open>Serialize\<close>, \<open>Artifacts\<close>, \<open>PodPipeline\<close> (pipeline, pilot cli).
  \<^item> \<open>PriceGuard\<close>, \<open>Registry\<close> (registry-structural, boundary-status), \<open>Quotes\<close> (quote-client), \<open>Execution\<close>
    (quote-structural), \<open>Settlement\<close> (guarded-settlement), \<open>QuoteEval\<close> (quote-eval-cli), \<open>Preflight\<close> and
    \<open>PreflightCli\<close> (canary-preflight and its command line).
  \<^item> \<open>Snapshot\<close> (lock-snapshot types, enumeration, pipeline), \<open>Consumer\<close> (consumer, and the theorems
    of a whole run), \<open>RpcReader\<close> (rpc-reader, snapshot-cli).
  \<^item> \<open>Deployment\<close> (manifest), \<open>Canary\<close> (canary manifest, operations, profile), \<open>ChainReads\<close>
    (services/reads), \<open>Claim\<close> (claim, proof/provider, services/claim-validation), \<open>Trading\<close> (economics, oracle,
    oracle-reads, locking, trade, eligibility, config), \<open>Lifecycle\<close> (wallet/tx), \<open>Transparency\<close>
    (transparency, transparency-reads, acquisition-reconcile).

  \<^item> \<open>OperatorChain\<close>, \<open>OperatorVerify\<close>, \<open>Operator\<close>, \<open>OperatorSafety\<close>: the operator of the canary packet
    (\<open>contracts/canary-packet/exec/operator/operator-core.mjs\<close>). An action of it runs on a machine of its own
    fields, a durable store and a world that answers requests; any request or storage access may be the
    last thing the page does, and a write may be lost. \<open>CanonicalAuth\<close>, \<open>CanonicalText\<close>, \<open>CanonicalFacts\<close>
    (\<open>canonical.mjs\<close>): the reviewed authorization, its text, digest and validation. \<open>OperatorBind\<close>: the
    binding of packet, policy, snapshot and package. \<open>OperatorSession\<close>: the operator's own methods meet the
    interface of \<open>OperatorSafety\<close>, and what a session can send; \<open>OperatorExample\<close>: a packet that binds, and a
    session that sends its first transaction.
  \<^item> \<open>RecoveryAuth\<close> (\<open>recovery-canonical.mjs\<close>), \<open>Recovery\<close> (\<open>recovery-core.mjs\<close>) and \<open>RecoverySafety\<close>: the
    authorization of the recovery packet, the subclass of the operator that sends the last six
    transactions, and its sessions.

  \<^bold>\<open>How the model corresponds to the code.\<close> An interface or object is a record, a union of literals or of
  tagged objects a datatype, \<open>bigint\<close> is \<open>int\<close> with truncating division \<open>bigint_div\<close>, \<open>null\<close> and \<open>undefined\<close> are
  \<open>None\<close>, a thrown error is the left of a sum. Where a JavaScript \<open>number\<close> can be more than an integer the
  model says so (\<open>Quotes.number\<close>, \<open>Preflight.JsNumber\<close>). Texts are lists of bytes. An awaited call that may
  fail is a function to a sum; where several reads are awaited one after the other and the chain may change
  between them, the client is a function of the position of the read, and in \<open>Lifecycle\<close> a state that every
  call may change. A loop whose end the code does not guarantee is a partial function to \<open>option\<close>
  (\<open>ChainReads.getLogsLoop\<close>); its termination for a positive chunk size is a theorem. No fuel is used.

  \<^bold>\<open>Parameters.\<close> viem (hashing, ABI coding, signature recovery, log decoding), the Merkle tree library, the
  URL parser, \<open>fetch\<close>, \<open>JSON.parse\<close>, SHA-256 and the schema parser are arguments. The two libraries of the
  Merkle tree may throw: encoding a value, building a tree and checking a proof return an option, and an
  exception leaves the code at that point (\<open>Merkle.orThrow\<close>). What is used of a parameter is a named hypothesis
  that states its documented behaviour (a hash without collisions on the values at hand, an encoder that is
  injective). For the tree these are \<open>Merkle.viem_documented\<close> and \<open>Merkle.oz_documented\<close>: ABI encoding
  succeeds for addresses and integers of 256 bits only, and the tree, its leaves and its inner nodes are hashed
  as the library says, written out there without any definition of the program; \<open>Consumer.publish_documented\<close>
  says the same of the encoder of a publication. Every theorem with such a hypothesis is applied to a concrete
  instance by its witness.

  \<^bold>\<open>Interfaces.\<close> \<open>comparator\<close> (the order a sort relies on), \<open>keyed_map\<close> (maps that add amounts) in \<open>Prelude\<close>,
  \<open>replay_store\<close> (what a store of consumed intents promises) in \<open>Settlement\<close>, \<open>hooks\<close> (what the methods that a
  subclass of the operator overrides must keep) in \<open>OperatorSafety\<close>, extended by \<open>bound_hooks\<close> (what every bound
  runtime satisfies) in \<open>OperatorSession\<close>, both interpreted on the base operator and on the recovery operator,
  and \<open>write_gate\<close> in \<open>Deployment\<close>, interpreted on the deployment manifest and again on the canary manifest: what
  a gate allows depends on the last check of the required code only.

  \<^bold>\<open>What the lemmas show.\<close> The engine: weights are the integral of the balance times the tier over the epoch,
  transfers are put in one canonical order, an allocation never exceeds its pool and the dust is
  accounted for, the tree is complete and independent of the order of its entitlements, artifacts verify
  and bind what they carry, and a run over an accepted fixture never fails in its own defensive checks, only
  when a number to be published does not fit in 256 bits.
  The snapshot: entitlements are the exact floors of the weights at the pin, conserved, and a run succeeds
  exactly when someone has a positive floor and every number fits its ABI type; through the RPC reader the accounts are exactly those with a lock
  event in the range, no block lost at the edge of a window of logs, and the command line writes the texts its
  publication commits to. The guards of settlement: acceptance is characterised exactly,
  consumed intents stay consumed, digests commit to every field. The preflight says ready exactly when
  each fact was read, what cannot be read is a failed check or, where it is read outside a \<open>try\<close>, leaves the
  evaluation; no address of a server survives its redaction, and an evaluation never passes. The
  operator: over every session each step is handed to the wallet at most once without a rejection, only in
  the ready state and with its intent durable; what is bound is the packet, what is sent are its
  transactions, and its digest commits to it. The recovery operator sends the six transactions of the tester
  as they stand in its packaged authorization, and passes a step only before the deadlines. The
  application: writes open exactly for a code-checked manifest, a plan or preview is what it discloses, a
  lifecycle sends at most an exact approval and the simulated action and succeeds only after confirmation
  and reconciliation, reports follow the events, and a snapshot's proof is accepted by the claim check
  exactly when the claim is open, unclaimed and funded.

  \<^bold>\<open>Not modelled.\<close> The React user interface (\<open>apps/web/app\<close>) and provider wiring: display over the modelled
  services. ABIs and manifest data: constant tables handed to libraries. Fixtures, mock transports and
  tests. The process glue of the packages and what they print: input and output around the modelled functions;
  a file that cannot be written is not modelled.
  The Solidity contracts: another language, present as the reads and
  encoders the application relies on. Of the canary packet: the scripts that generate and rehearse a packet,
  the pages around the operators (\<open>app.js\<close>, \<open>recovery-app.js\<close>), which only press the buttons of a session, and
  the vendored hash functions, which are parameters.
\<close>

end
